(* ===== verification/RV_Prelude.thy ===== *)
theory RV_Prelude
  imports Main "HOL-Library.Word"
begin

text \<open>
  Shared vocabulary of the development.  It names the machine types of the C sources
  (\<open>insn_t\<close> and \<open>bfd_vma\<close> are 64-bit unsigned), gives the C shift operators on them, the
  few functions of the C library the sources use on characters and strings, and the
  generic lemmas on words the component theories share.

  The collection \<open>cbits\<close> holds the equations that read one bit of a word expression.
  Together with \<open>w64_eqI\<close>, which compares two words bit by bit at the 64 literal
  positions, it decides every equation between the shift-and-mask expressions of
  \<^verbatim>\<open>include/opcode/riscv.h\<close>.
\<close>

unbundle bit_operations_syntax

named_theorems cbits "the value of one bit of a word expression"

section \<open>Machine types\<close>

type_synonym insn_t = "64 word"
type_synonym bfd_vma = "64 word"
type_synonym offsetT = "64 word"
type_synonym bfd_byte = "8 word"

section \<open>The shift operators of C on unsigned 64-bit values\<close>

definition shl :: "64 word \<Rightarrow> nat \<Rightarrow> 64 word" where
  "shl x n = push_bit n x"

definition shr :: "64 word \<Rightarrow> nat \<Rightarrow> 64 word" where
  "shr x n = drop_bit n x"

lemma bit_shl [cbits]: "bit (shl x n) i \<longleftrightarrow> n \<le> i \<and> i < 64 \<and> bit x (i - n)"
  by (auto simp: shl_def bit_simps)

lemma bit_shr [cbits]: "bit (shr x n) i \<longleftrightarrow> bit x (n + i)"
  by (auto simp: shr_def bit_simps)

lemmas bit_boolean [cbits] = bit_or_iff bit_and_iff bit_xor_iff bit_not_iff
lemmas bit_extend [cbits] = bit_signed_take_bit_iff bit_take_bit_iff

lemma bit_mask_word [cbits]: "bit (mask n :: 64 word) i \<longleftrightarrow> i < 64 \<and> i < n"
  by (auto simp: bit_simps)

lemma bit_minus_one_word [cbits]: "bit (- 1 :: 64 word) i \<longleftrightarrow> i < 64"
  by (simp add: bit_simps)

lemma bit_word_bound: "bit (x :: 64 word) i \<Longrightarrow> i < 64"
  using bit_imp_le_length [of x i] by simp

lemma shl_one_minus_one: "shl 1 n - 1 = mask n"
  by (simp add: shl_def mask_eq_exp_minus_1 push_bit_of_1)

lemma shl_zero [simp]: "shl x 0 = x" and shr_zero [simp]: "shr x 0 = x"
  by (simp_all add: shl_def shr_def)

lemma shl_of_zero [simp]: "shl 0 n = 0" and shr_of_zero [simp]: "shr 0 n = 0"
  by (simp_all add: shl_def shr_def)

lemma shl_eq_mult: "shl x n = x * 2 ^ n"
  by (simp add: shl_def push_bit_eq_mult)

lemma shl_add: "shl (x + y) n = shl x n + shl y n"
  by (simp add: shl_eq_mult distrib_right)

lemma uint_shr: "uint (shr x n) = uint x div 2 ^ n"
proof -
  have "uint (shr x n) = drop_bit n (uint x)"
    by (rule bit_eqI) (auto simp: shr_def bit_simps)
  then show ?thesis by (simp add: drop_bit_eq_div)
qed

section \<open>Comparing words bit by bit\<close>

lemma upt_64: "[0..<64] =
     [0, 1, 2, 3, 4, 5, 6, 7, 8, 9, 10, 11, 12, 13, 14, 15, 16, 17, 18, 19, 20, 21, 22,
      23, 24, 25, 26, 27, 28, 29, 30, 31, 32, 33, 34, 35, 36, 37, 38, 39, 40, 41, 42, 43,
      44, 45, 46, 47, 48, 49, 50, 51, 52, 53, 54, 55, 56, 57, 58, 59, 60, 61, 62, 63]"
  by code_simp

lemma w64_eqI:
  fixes x y :: "64 word"
  assumes "list_all (\<lambda>i. bit x i = bit y i)
     [0, 1, 2, 3, 4, 5, 6, 7, 8, 9, 10, 11, 12, 13, 14, 15, 16, 17, 18, 19, 20, 21, 22,
      23, 24, 25, 26, 27, 28, 29, 30, 31, 32, 33, 34, 35, 36, 37, 38, 39, 40, 41, 42, 43,
      44, 45, 46, 47, 48, 49, 50, 51, 52, 53, 54, 55, 56, 57, 58, 59, 60, 61, 62, 63]"
  shows "x = y"
proof (rule bit_word_eqI)
  fix n assume "n < LENGTH(64)"
  then have "n \<in> set [0..<64]" by simp
  moreover have "list_all (\<lambda>i. bit x i = bit y i) [0..<64]"
    using assms unfolding upt_64 .
  ultimately show "bit x n = bit y n"
    by (auto simp: list_all_iff)
qed

section \<open>Sign extension and zero extension of 64-bit values\<close>

lemma sint_signed_take_bit:
  "n < 63 \<Longrightarrow> sint (signed_take_bit n (x :: 64 word)) = signed_take_bit n (sint x)"
  by (rule bit_eqI) (auto simp: bit_simps min_def)

lemma sext_eq_iff:
  assumes "n < 63"
  shows "signed_take_bit n (x :: 64 word) = x \<longleftrightarrow> - (2 ^ n) \<le> sint x \<and> sint x < 2 ^ n"
proof -
  have "signed_take_bit n x = x \<longleftrightarrow> sint (signed_take_bit n x) = sint x"
    by (auto intro: signed_word_eqI)
  also have "\<dots> \<longleftrightarrow> signed_take_bit n (sint x) = sint x"
    using assms by (simp add: sint_signed_take_bit)
  finally show ?thesis
    by (simp add: signed_take_bit_int_eq_self_iff)
qed

lemma uint_take_bit: "uint (take_bit n (x :: 64 word)) = take_bit n (uint x)"
  by (rule bit_eqI) (auto simp: bit_simps)

lemma zext_eq_iff: "take_bit n (x :: 64 word) = x \<longleftrightarrow> uint x < 2 ^ n"
proof -
  have "take_bit n x = x \<longleftrightarrow> uint (take_bit n x) = uint x"
    by (auto intro: word_uint_eqI)
  also have "\<dots> \<longleftrightarrow> uint x < 2 ^ n"
    by (simp add: uint_take_bit take_bit_int_eq_self_iff)
  finally show ?thesis .
qed

text \<open>A value with its \<open>k\<close> low bits cleared equals itself exactly when \<open>2 ^ k\<close> divides it.\<close>

lemma low_bits_clear_iff: "shl (shr x k) k = x \<longleftrightarrow> 2 ^ k dvd uint x"
proof -
  have "shl (shr x k) k = x \<longleftrightarrow> x AND mask k = 0"
    by (auto simp: bit_eq_iff shl_def shr_def bit_simps not_less)
  then show ?thesis by (simp add: and_mask_dvd)
qed

lemma sign_bit_neg: "- (x AND 1 :: 64 word) = (if bit x 0 then - 1 else 0)"
  by (simp add: and_one_eq mod2_eq_if bit_0)

section \<open>Characters of the C locale\<close>

definition ISDIGIT :: "char \<Rightarrow> bool" where
  "ISDIGIT c \<longleftrightarrow> (48::nat) \<le> of_char c \<and> (of_char c :: nat) \<le> 57"

definition ISUPPER :: "char \<Rightarrow> bool" where
  "ISUPPER c \<longleftrightarrow> (65::nat) \<le> of_char c \<and> (of_char c :: nat) \<le> 90"

definition TOLOWER :: "char \<Rightarrow> int" where
  "TOLOWER c = (if ISUPPER c then of_char c + 32 else of_char c)"

text \<open>
  A C string is the list of the characters before its terminating NUL; reading the
  character at the end of the list reads the terminator.
\<close>

definition c_char :: "string \<Rightarrow> nat \<Rightarrow> char" where
  "c_char s i = (if i < length s then s ! i else CHR 0x00)"

fun startswith :: "string \<Rightarrow> string \<Rightarrow> bool" where
  "startswith s [] = True"
| "startswith [] (p # ps) = False"
| "startswith (c # s) (p # ps) = (c = p \<and> startswith s ps)"

lemma startswith_iff: "startswith s p \<longleftrightarrow> (\<exists>t. s = p @ t)"
  by (induction s p rule: startswith.induct) auto

fun strcasecmp :: "string \<Rightarrow> string \<Rightarrow> int" where
  "strcasecmp [] [] = 0"
| "strcasecmp [] (d # ds) = - TOLOWER d"
| "strcasecmp (c # cs) [] = TOLOWER c"
| "strcasecmp (c # cs) (d # ds) =
     (if TOLOWER c = TOLOWER d then strcasecmp cs ds else TOLOWER c - TOLOWER d)"

section \<open>Evaluating AND and OR on numerals\<close>

text \<open>Bit by bit on the numerals themselves, for the long evaluations of the opcode tables.\<close>

lemma word_and_numeral:
  "(numeral m :: 'a::len word) AND numeral n =
     (case and_num m n of None \<Rightarrow> 0 | Some q \<Rightarrow> numeral q)"
  by (induction m n rule: and_num.induct) (simp_all split: option.split)

lemma word_or_numeral: "(numeral m :: 'a::len word) OR numeral n = numeral (or_num m n)"
  by (induction m n rule: or_num.induct) simp_all

lemmas word_num_eval =
  word_and_numeral word_or_numeral and_num.simps or_num.simps option.map option.case
  and_zero_eq zero_and_eq or.left_neutral or.right_neutral simp_thms

end
