(* ===== verification/RV_Fields.thy ===== *)
theory RV_Fields
  imports RV_Prelude
begin

text \<open>
  The instruction fields of \<^verbatim>\<open>include/opcode/riscv.h\<close>: the macros \<open>RV_X\<close>, \<open>EXTRACT_*\<close>,
  \<open>ENCODE_*\<close> and \<open>VALID_*\<close> that place an immediate into an instruction word and read it back,
  \<open>INSERT_BITS\<close> and \<open>EXTRACT_BITS\<close> for register fields, the split of a 32-bit displacement
  into its high and low parts, and \<open>riscv_insn_length\<close>.  The macro arguments are 64-bit
  values (\<open>insn_t\<close> or \<open>offsetT\<close>); every bit position a macro reads is below 32, so the
  arithmetic shift of a signed argument and the logical shift used here agree on it.

  The locales \<open>imm_format\<close>, \<open>signed_imm\<close> and \<open>unsigned_imm\<close> state what the rest of the tool
  chain relies on when it uses a format: encoding stays inside the format's field, decoding
  reads nothing else, and the accepted values are exactly an aligned interval.  Each format of
  the header is an interpretation.
\<close>

section \<open>Bit fields\<close>

definition RV_X :: "insn_t \<Rightarrow> nat \<Rightarrow> nat \<Rightarrow> insn_t" where
  "RV_X x s n = shr x s AND (shl 1 n - 1)"

definition RV_IMM_SIGN :: "insn_t \<Rightarrow> insn_t" where
  "RV_IMM_SIGN x = - (shr x 31 AND 1)"

definition RV_X_SIGNED :: "insn_t \<Rightarrow> nat \<Rightarrow> nat \<Rightarrow> insn_t" where
  "RV_X_SIGNED x s n = RV_X x s n OR shl (- RV_X x (s + n - 1) 1) n"

section \<open>Immediate formats: decoding\<close>

definition EXTRACT_ITYPE_IMM :: "insn_t \<Rightarrow> insn_t" where
  "EXTRACT_ITYPE_IMM x =
     RV_X x 20 12 OR (shl (RV_IMM_SIGN x) 12)"

definition EXTRACT_STYPE_IMM :: "insn_t \<Rightarrow> insn_t" where
  "EXTRACT_STYPE_IMM x =
     RV_X x 7 5 OR (shl (RV_X x 25 7) 5) OR (shl (RV_IMM_SIGN x) 12)"

definition EXTRACT_BTYPE_IMM :: "insn_t \<Rightarrow> insn_t" where
  "EXTRACT_BTYPE_IMM x =
     (shl (RV_X x 8 4) 1) OR (shl (RV_X x 25 6) 5) OR (shl (RV_X x 7 1) 11) OR
     (shl (RV_IMM_SIGN x) 12)"

definition EXTRACT_UTYPE_IMM :: "insn_t \<Rightarrow> insn_t" where
  "EXTRACT_UTYPE_IMM x =
     (shl (RV_X x 12 20) 12) OR (shl (RV_IMM_SIGN x) 32)"

definition EXTRACT_JTYPE_IMM :: "insn_t \<Rightarrow> insn_t" where
  "EXTRACT_JTYPE_IMM x =
     (shl (RV_X x 21 10) 1) OR (shl (RV_X x 20 1) 11) OR (shl (RV_X x 12 8) 12) OR
     (shl (RV_IMM_SIGN x) 20)"

definition EXTRACT_CITYPE_IMM :: "insn_t \<Rightarrow> insn_t" where
  "EXTRACT_CITYPE_IMM x =
     RV_X x 2 5 OR (shl (- RV_X x 12 1) 5)"

definition EXTRACT_CITYPE_LUI_IMM :: "insn_t \<Rightarrow> insn_t" where
  "EXTRACT_CITYPE_LUI_IMM x =
     shl (EXTRACT_CITYPE_IMM x) 12"

definition EXTRACT_CITYPE_ADDI16SP_IMM :: "insn_t \<Rightarrow> insn_t" where
  "EXTRACT_CITYPE_ADDI16SP_IMM x =
     (shl (RV_X x 6 1) 4) OR (shl (RV_X x 2 1) 5) OR (shl (RV_X x 5 1) 6) OR
     (shl (RV_X x 3 2) 7) OR (shl (- RV_X x 12 1) 9)"

definition EXTRACT_CITYPE_LWSP_IMM :: "insn_t \<Rightarrow> insn_t" where
  "EXTRACT_CITYPE_LWSP_IMM x =
     (shl (RV_X x 4 3) 2) OR (shl (RV_X x 12 1) 5) OR (shl (RV_X x 2 2) 6)"

definition EXTRACT_CITYPE_LDSP_IMM :: "insn_t \<Rightarrow> insn_t" where
  "EXTRACT_CITYPE_LDSP_IMM x =
     (shl (RV_X x 5 2) 3) OR (shl (RV_X x 12 1) 5) OR (shl (RV_X x 2 3) 6)"

definition EXTRACT_CSSTYPE_IMM :: "insn_t \<Rightarrow> insn_t" where
  "EXTRACT_CSSTYPE_IMM x =
     shl (RV_X x 7 6) 0"

definition EXTRACT_CSSTYPE_SWSP_IMM :: "insn_t \<Rightarrow> insn_t" where
  "EXTRACT_CSSTYPE_SWSP_IMM x =
     (shl (RV_X x 9 4) 2) OR (shl (RV_X x 7 2) 6)"

definition EXTRACT_CSSTYPE_SDSP_IMM :: "insn_t \<Rightarrow> insn_t" where
  "EXTRACT_CSSTYPE_SDSP_IMM x =
     (shl (RV_X x 10 3) 3) OR (shl (RV_X x 7 3) 6)"

definition EXTRACT_CIWTYPE_IMM :: "insn_t \<Rightarrow> insn_t" where
  "EXTRACT_CIWTYPE_IMM x =
     RV_X x 5 8"

definition EXTRACT_CIWTYPE_ADDI4SPN_IMM :: "insn_t \<Rightarrow> insn_t" where
  "EXTRACT_CIWTYPE_ADDI4SPN_IMM x =
     (shl (RV_X x 6 1) 2) OR (shl (RV_X x 5 1) 3) OR (shl (RV_X x 11 2) 4) OR
     (shl (RV_X x 7 4) 6)"

definition EXTRACT_CLTYPE_IMM :: "insn_t \<Rightarrow> insn_t" where
  "EXTRACT_CLTYPE_IMM x =
     (shl (RV_X x 5 2) 0) OR (shl (RV_X x 10 3) 2)"

definition EXTRACT_CLTYPE_LW_IMM :: "insn_t \<Rightarrow> insn_t" where
  "EXTRACT_CLTYPE_LW_IMM x =
     (shl (RV_X x 6 1) 2) OR (shl (RV_X x 10 3) 3) OR (shl (RV_X x 5 1) 6)"

definition EXTRACT_CLTYPE_LD_IMM :: "insn_t \<Rightarrow> insn_t" where
  "EXTRACT_CLTYPE_LD_IMM x =
     (shl (RV_X x 10 3) 3) OR (shl (RV_X x 5 2) 6)"

definition EXTRACT_CBTYPE_IMM :: "insn_t \<Rightarrow> insn_t" where
  "EXTRACT_CBTYPE_IMM x =
     (shl (RV_X x 3 2) 1) OR (shl (RV_X x 10 2) 3) OR (shl (RV_X x 2 1) 5) OR
     (shl (RV_X x 5 2) 6) OR (shl (- RV_X x 12 1) 8)"

definition EXTRACT_CJTYPE_IMM :: "insn_t \<Rightarrow> insn_t" where
  "EXTRACT_CJTYPE_IMM x =
     (shl (RV_X x 3 3) 1) OR (shl (RV_X x 11 1) 4) OR (shl (RV_X x 2 1) 5) OR
     (shl (RV_X x 7 1) 6) OR (shl (RV_X x 6 1) 7) OR (shl (RV_X x 9 2) 8) OR
     (shl (RV_X x 8 1) 10) OR (shl (- RV_X x 12 1) 11)"

definition EXTRACT_RVV_VI_IMM :: "insn_t \<Rightarrow> insn_t" where
  "EXTRACT_RVV_VI_IMM x =
     RV_X x 15 5 OR (shl (- RV_X x 19 1) 5)"

definition EXTRACT_RVV_VI_UIMM :: "insn_t \<Rightarrow> insn_t" where
  "EXTRACT_RVV_VI_UIMM x =
     RV_X x 15 5"

definition EXTRACT_RVV_VI_UIMM6 :: "insn_t \<Rightarrow> insn_t" where
  "EXTRACT_RVV_VI_UIMM6 x =
     RV_X x 15 5 OR (shl (RV_X x 26 1) 5)"

definition EXTRACT_RVV_OFFSET :: "insn_t \<Rightarrow> insn_t" where
  "EXTRACT_RVV_OFFSET x =
     RV_X x 29 3"

definition EXTRACT_RVV_VB_IMM :: "insn_t \<Rightarrow> insn_t" where
  "EXTRACT_RVV_VB_IMM x =
     RV_X x 20 10"

definition EXTRACT_RVV_VC_IMM :: "insn_t \<Rightarrow> insn_t" where
  "EXTRACT_RVV_VC_IMM x =
     RV_X x 20 11"

definition EXTRACT_ZCB_BYTE_UIMM :: "insn_t \<Rightarrow> insn_t" where
  "EXTRACT_ZCB_BYTE_UIMM x =
     RV_X x 6 1 OR (shl (RV_X x 5 1) 1)"

definition EXTRACT_ZCB_HALFWORD_UIMM :: "insn_t \<Rightarrow> insn_t" where
  "EXTRACT_ZCB_HALFWORD_UIMM x =
     shl (RV_X x 5 1) 1"

definition EXTRACT_CV_IS2_UIMM5 :: "insn_t \<Rightarrow> insn_t" where
  "EXTRACT_CV_IS2_UIMM5 x =
     RV_X x 20 5"

definition EXTRACT_CV_IS3_UIMM5 :: "insn_t \<Rightarrow> insn_t" where
  "EXTRACT_CV_IS3_UIMM5 x =
     RV_X x 25 5"

section \<open>Immediate formats: encoding\<close>

definition ENCODE_ITYPE_IMM :: "insn_t \<Rightarrow> insn_t" where
  "ENCODE_ITYPE_IMM x =
     shl (RV_X x 0 12) 20"

definition ENCODE_STYPE_IMM :: "insn_t \<Rightarrow> insn_t" where
  "ENCODE_STYPE_IMM x =
     (shl (RV_X x 0 5) 7) OR (shl (RV_X x 5 7) 25)"

definition ENCODE_BTYPE_IMM :: "insn_t \<Rightarrow> insn_t" where
  "ENCODE_BTYPE_IMM x =
     (shl (RV_X x 1 4) 8) OR (shl (RV_X x 5 6) 25) OR (shl (RV_X x 11 1) 7) OR
     (shl (RV_X x 12 1) 31)"

definition ENCODE_UTYPE_IMM :: "insn_t \<Rightarrow> insn_t" where
  "ENCODE_UTYPE_IMM x =
     shl (RV_X x 12 20) 12"

definition ENCODE_JTYPE_IMM :: "insn_t \<Rightarrow> insn_t" where
  "ENCODE_JTYPE_IMM x =
     (shl (RV_X x 1 10) 21) OR (shl (RV_X x 11 1) 20) OR (shl (RV_X x 12 8) 12) OR
     (shl (RV_X x 20 1) 31)"

definition ENCODE_CITYPE_IMM :: "insn_t \<Rightarrow> insn_t" where
  "ENCODE_CITYPE_IMM x =
     (shl (RV_X x 0 5) 2) OR (shl (RV_X x 5 1) 12)"

definition ENCODE_CITYPE_LUI_IMM :: "insn_t \<Rightarrow> insn_t" where
  "ENCODE_CITYPE_LUI_IMM x =
     ENCODE_CITYPE_IMM (shr x 12)"

definition ENCODE_CITYPE_ADDI16SP_IMM :: "insn_t \<Rightarrow> insn_t" where
  "ENCODE_CITYPE_ADDI16SP_IMM x =
     (shl (RV_X x 4 1) 6) OR (shl (RV_X x 5 1) 2) OR (shl (RV_X x 6 1) 5) OR
     (shl (RV_X x 7 2) 3) OR (shl (RV_X x 9 1) 12)"

definition ENCODE_CITYPE_LWSP_IMM :: "insn_t \<Rightarrow> insn_t" where
  "ENCODE_CITYPE_LWSP_IMM x =
     (shl (RV_X x 2 3) 4) OR (shl (RV_X x 5 1) 12) OR (shl (RV_X x 6 2) 2)"

definition ENCODE_CITYPE_LDSP_IMM :: "insn_t \<Rightarrow> insn_t" where
  "ENCODE_CITYPE_LDSP_IMM x =
     (shl (RV_X x 3 2) 5) OR (shl (RV_X x 5 1) 12) OR (shl (RV_X x 6 3) 2)"

definition ENCODE_CSSTYPE_IMM :: "insn_t \<Rightarrow> insn_t" where
  "ENCODE_CSSTYPE_IMM x =
     shl (RV_X x 0 6) 7"

definition ENCODE_CSSTYPE_SWSP_IMM :: "insn_t \<Rightarrow> insn_t" where
  "ENCODE_CSSTYPE_SWSP_IMM x =
     (shl (RV_X x 2 4) 9) OR (shl (RV_X x 6 2) 7)"

definition ENCODE_CSSTYPE_SDSP_IMM :: "insn_t \<Rightarrow> insn_t" where
  "ENCODE_CSSTYPE_SDSP_IMM x =
     (shl (RV_X x 3 3) 10) OR (shl (RV_X x 6 3) 7)"

definition ENCODE_CIWTYPE_IMM :: "insn_t \<Rightarrow> insn_t" where
  "ENCODE_CIWTYPE_IMM x =
     shl (RV_X x 0 8) 5"

definition ENCODE_CIWTYPE_ADDI4SPN_IMM :: "insn_t \<Rightarrow> insn_t" where
  "ENCODE_CIWTYPE_ADDI4SPN_IMM x =
     (shl (RV_X x 2 1) 6) OR (shl (RV_X x 3 1) 5) OR (shl (RV_X x 4 2) 11) OR
     (shl (RV_X x 6 4) 7)"

definition ENCODE_CLTYPE_IMM :: "insn_t \<Rightarrow> insn_t" where
  "ENCODE_CLTYPE_IMM x =
     (shl (RV_X x 0 2) 5) OR (shl (RV_X x 2 3) 10)"

definition ENCODE_CLTYPE_LW_IMM :: "insn_t \<Rightarrow> insn_t" where
  "ENCODE_CLTYPE_LW_IMM x =
     (shl (RV_X x 2 1) 6) OR (shl (RV_X x 3 3) 10) OR (shl (RV_X x 6 1) 5)"

definition ENCODE_CLTYPE_LD_IMM :: "insn_t \<Rightarrow> insn_t" where
  "ENCODE_CLTYPE_LD_IMM x =
     (shl (RV_X x 3 3) 10) OR (shl (RV_X x 6 2) 5)"

definition ENCODE_CBTYPE_IMM :: "insn_t \<Rightarrow> insn_t" where
  "ENCODE_CBTYPE_IMM x =
     (shl (RV_X x 1 2) 3) OR (shl (RV_X x 3 2) 10) OR (shl (RV_X x 5 1) 2) OR
     (shl (RV_X x 6 2) 5) OR (shl (RV_X x 8 1) 12)"

definition ENCODE_CJTYPE_IMM :: "insn_t \<Rightarrow> insn_t" where
  "ENCODE_CJTYPE_IMM x =
     (shl (RV_X x 1 3) 3) OR (shl (RV_X x 4 1) 11) OR (shl (RV_X x 5 1) 2) OR
     (shl (RV_X x 6 1) 7) OR (shl (RV_X x 7 1) 6) OR (shl (RV_X x 8 2) 9) OR
     (shl (RV_X x 10 1) 8) OR (shl (RV_X x 11 1) 12)"

definition ENCODE_RVV_VB_IMM :: "insn_t \<Rightarrow> insn_t" where
  "ENCODE_RVV_VB_IMM x =
     shl (RV_X x 0 10) 20"

definition ENCODE_RVV_VC_IMM :: "insn_t \<Rightarrow> insn_t" where
  "ENCODE_RVV_VC_IMM x =
     shl (RV_X x 0 11) 20"

definition ENCODE_RVV_VI_UIMM6 :: "insn_t \<Rightarrow> insn_t" where
  "ENCODE_RVV_VI_UIMM6 x =
     shl (RV_X x 0 5) 15 OR shl (RV_X x 5 1) 26"

definition ENCODE_ZCB_BYTE_UIMM :: "insn_t \<Rightarrow> insn_t" where
  "ENCODE_ZCB_BYTE_UIMM x =
     (shl (RV_X x 0 1) 6) OR (shl (RV_X x 1 1) 5)"

definition ENCODE_ZCB_HALFWORD_UIMM :: "insn_t \<Rightarrow> insn_t" where
  "ENCODE_ZCB_HALFWORD_UIMM x =
     shl (RV_X x 1 1) 5"

definition ENCODE_CV_IS2_UIMM5 :: "insn_t \<Rightarrow> insn_t" where
  "ENCODE_CV_IS2_UIMM5 x =
     shl (RV_X x 0 5) 20"

definition ENCODE_CV_IS3_UIMM5 :: "insn_t \<Rightarrow> insn_t" where
  "ENCODE_CV_IS3_UIMM5 x =
     shl (RV_X x 0 5) 25"

section \<open>Immediate formats: the test for representable values\<close>

definition VALID_ITYPE_IMM :: "insn_t \<Rightarrow> bool" where
  "VALID_ITYPE_IMM x \<longleftrightarrow>
     EXTRACT_ITYPE_IMM (ENCODE_ITYPE_IMM x) = x"

definition VALID_STYPE_IMM :: "insn_t \<Rightarrow> bool" where
  "VALID_STYPE_IMM x \<longleftrightarrow>
     EXTRACT_STYPE_IMM (ENCODE_STYPE_IMM x) = x"

definition VALID_BTYPE_IMM :: "insn_t \<Rightarrow> bool" where
  "VALID_BTYPE_IMM x \<longleftrightarrow>
     EXTRACT_BTYPE_IMM (ENCODE_BTYPE_IMM x) = x"

definition VALID_UTYPE_IMM :: "insn_t \<Rightarrow> bool" where
  "VALID_UTYPE_IMM x \<longleftrightarrow>
     EXTRACT_UTYPE_IMM (ENCODE_UTYPE_IMM x) = x"

definition VALID_JTYPE_IMM :: "insn_t \<Rightarrow> bool" where
  "VALID_JTYPE_IMM x \<longleftrightarrow>
     EXTRACT_JTYPE_IMM (ENCODE_JTYPE_IMM x) = x"

definition VALID_CITYPE_IMM :: "insn_t \<Rightarrow> bool" where
  "VALID_CITYPE_IMM x \<longleftrightarrow>
     EXTRACT_CITYPE_IMM (ENCODE_CITYPE_IMM x) = x"

definition VALID_CITYPE_LUI_IMM :: "insn_t \<Rightarrow> bool" where
  "VALID_CITYPE_LUI_IMM x \<longleftrightarrow>
     ENCODE_CITYPE_LUI_IMM x \<noteq> 0 \<and> EXTRACT_CITYPE_LUI_IMM (ENCODE_CITYPE_LUI_IMM x) = x"

definition VALID_CITYPE_ADDI16SP_IMM :: "insn_t \<Rightarrow> bool" where
  "VALID_CITYPE_ADDI16SP_IMM x \<longleftrightarrow>
     ENCODE_CITYPE_ADDI16SP_IMM x \<noteq> 0 \<and> EXTRACT_CITYPE_ADDI16SP_IMM (ENCODE_CITYPE_ADDI16SP_IMM x) = x"

definition VALID_CITYPE_LWSP_IMM :: "insn_t \<Rightarrow> bool" where
  "VALID_CITYPE_LWSP_IMM x \<longleftrightarrow>
     EXTRACT_CITYPE_LWSP_IMM (ENCODE_CITYPE_LWSP_IMM x) = x"

definition VALID_CITYPE_LDSP_IMM :: "insn_t \<Rightarrow> bool" where
  "VALID_CITYPE_LDSP_IMM x \<longleftrightarrow>
     EXTRACT_CITYPE_LDSP_IMM (ENCODE_CITYPE_LDSP_IMM x) = x"

definition VALID_CSSTYPE_IMM :: "insn_t \<Rightarrow> bool" where
  "VALID_CSSTYPE_IMM x \<longleftrightarrow>
     EXTRACT_CSSTYPE_IMM (ENCODE_CSSTYPE_IMM x) = x"

definition VALID_CSSTYPE_SWSP_IMM :: "insn_t \<Rightarrow> bool" where
  "VALID_CSSTYPE_SWSP_IMM x \<longleftrightarrow>
     EXTRACT_CSSTYPE_SWSP_IMM (ENCODE_CSSTYPE_SWSP_IMM x) = x"

definition VALID_CSSTYPE_SDSP_IMM :: "insn_t \<Rightarrow> bool" where
  "VALID_CSSTYPE_SDSP_IMM x \<longleftrightarrow>
     EXTRACT_CSSTYPE_SDSP_IMM (ENCODE_CSSTYPE_SDSP_IMM x) = x"

definition VALID_CIWTYPE_IMM :: "insn_t \<Rightarrow> bool" where
  "VALID_CIWTYPE_IMM x \<longleftrightarrow>
     EXTRACT_CIWTYPE_IMM (ENCODE_CIWTYPE_IMM x) = x"

definition VALID_CIWTYPE_ADDI4SPN_IMM :: "insn_t \<Rightarrow> bool" where
  "VALID_CIWTYPE_ADDI4SPN_IMM x \<longleftrightarrow>
     EXTRACT_CIWTYPE_ADDI4SPN_IMM (ENCODE_CIWTYPE_ADDI4SPN_IMM x) = x"

definition VALID_CLTYPE_IMM :: "insn_t \<Rightarrow> bool" where
  "VALID_CLTYPE_IMM x \<longleftrightarrow>
     EXTRACT_CLTYPE_IMM (ENCODE_CLTYPE_IMM x) = x"

definition VALID_CLTYPE_LW_IMM :: "insn_t \<Rightarrow> bool" where
  "VALID_CLTYPE_LW_IMM x \<longleftrightarrow>
     EXTRACT_CLTYPE_LW_IMM (ENCODE_CLTYPE_LW_IMM x) = x"

definition VALID_CLTYPE_LD_IMM :: "insn_t \<Rightarrow> bool" where
  "VALID_CLTYPE_LD_IMM x \<longleftrightarrow>
     EXTRACT_CLTYPE_LD_IMM (ENCODE_CLTYPE_LD_IMM x) = x"

definition VALID_CBTYPE_IMM :: "insn_t \<Rightarrow> bool" where
  "VALID_CBTYPE_IMM x \<longleftrightarrow>
     EXTRACT_CBTYPE_IMM (ENCODE_CBTYPE_IMM x) = x"

definition VALID_CJTYPE_IMM :: "insn_t \<Rightarrow> bool" where
  "VALID_CJTYPE_IMM x \<longleftrightarrow>
     EXTRACT_CJTYPE_IMM (ENCODE_CJTYPE_IMM x) = x"

definition VALID_RVV_VB_IMM :: "insn_t \<Rightarrow> bool" where
  "VALID_RVV_VB_IMM x \<longleftrightarrow>
     EXTRACT_RVV_VB_IMM (ENCODE_RVV_VB_IMM x) = x"

definition VALID_RVV_VC_IMM :: "insn_t \<Rightarrow> bool" where
  "VALID_RVV_VC_IMM x \<longleftrightarrow>
     EXTRACT_RVV_VC_IMM (ENCODE_RVV_VC_IMM x) = x"

definition VALID_ZCB_BYTE_UIMM :: "insn_t \<Rightarrow> bool" where
  "VALID_ZCB_BYTE_UIMM x \<longleftrightarrow>
     EXTRACT_ZCB_BYTE_UIMM (ENCODE_ZCB_BYTE_UIMM x) = x"

definition VALID_ZCB_HALFWORD_UIMM :: "insn_t \<Rightarrow> bool" where
  "VALID_ZCB_HALFWORD_UIMM x \<longleftrightarrow>
     EXTRACT_ZCB_HALFWORD_UIMM (ENCODE_ZCB_HALFWORD_UIMM x) = x"

section \<open>Register fields\<close>

definition INSERT_BITS :: "insn_t \<Rightarrow> insn_t \<Rightarrow> insn_t \<Rightarrow> nat \<Rightarrow> insn_t" where
  "INSERT_BITS struct value msk shift =
     (struct AND NOT (shl msk shift)) OR shl (value AND msk) shift"

definition EXTRACT_BITS :: "insn_t \<Rightarrow> insn_t \<Rightarrow> nat \<Rightarrow> insn_t" where
  "EXTRACT_BITS struct msk shift = shr struct shift AND msk"

abbreviation (input) OP_MASK_OP :: insn_t where "OP_MASK_OP \<equiv> 0x7f"
abbreviation (input) OP_SH_OP :: nat where "OP_SH_OP \<equiv> 0"
abbreviation (input) OP_MASK_RS2 :: insn_t where "OP_MASK_RS2 \<equiv> 0x1f"
abbreviation (input) OP_SH_RS2 :: nat where "OP_SH_RS2 \<equiv> 20"
abbreviation (input) OP_MASK_RS1 :: insn_t where "OP_MASK_RS1 \<equiv> 0x1f"
abbreviation (input) OP_SH_RS1 :: nat where "OP_SH_RS1 \<equiv> 15"
abbreviation (input) OP_MASK_RS3 :: insn_t where "OP_MASK_RS3 \<equiv> 0x1f"
abbreviation (input) OP_SH_RS3 :: nat where "OP_SH_RS3 \<equiv> 27"
abbreviation (input) OP_MASK_RD :: insn_t where "OP_MASK_RD \<equiv> 0x1f"
abbreviation (input) OP_SH_RD :: nat where "OP_SH_RD \<equiv> 7"
abbreviation (input) OP_MASK_SHAMT :: insn_t where "OP_MASK_SHAMT \<equiv> 0x3f"
abbreviation (input) OP_SH_SHAMT :: nat where "OP_SH_SHAMT \<equiv> 20"
abbreviation (input) OP_MASK_SHAMTW :: insn_t where "OP_MASK_SHAMTW \<equiv> 0x1f"
abbreviation (input) OP_SH_SHAMTW :: nat where "OP_SH_SHAMTW \<equiv> 20"
abbreviation (input) OP_MASK_RM :: insn_t where "OP_MASK_RM \<equiv> 0x7"
abbreviation (input) OP_SH_RM :: nat where "OP_SH_RM \<equiv> 12"
abbreviation (input) OP_MASK_PRED :: insn_t where "OP_MASK_PRED \<equiv> 0xf"
abbreviation (input) OP_SH_PRED :: nat where "OP_SH_PRED \<equiv> 24"
abbreviation (input) OP_MASK_SUCC :: insn_t where "OP_MASK_SUCC \<equiv> 0xf"
abbreviation (input) OP_SH_SUCC :: nat where "OP_SH_SUCC \<equiv> 20"
abbreviation (input) OP_MASK_AQ :: insn_t where "OP_MASK_AQ \<equiv> 0x1"
abbreviation (input) OP_SH_AQ :: nat where "OP_SH_AQ \<equiv> 26"
abbreviation (input) OP_MASK_RL :: insn_t where "OP_MASK_RL \<equiv> 0x1"
abbreviation (input) OP_SH_RL :: nat where "OP_SH_RL \<equiv> 25"
abbreviation (input) OP_MASK_CSR :: insn_t where "OP_MASK_CSR \<equiv> 0xfff"
abbreviation (input) OP_SH_CSR :: nat where "OP_SH_CSR \<equiv> 20"
abbreviation (input) OP_MASK_FUNCT3 :: insn_t where "OP_MASK_FUNCT3 \<equiv> 0x7"
abbreviation (input) OP_SH_FUNCT3 :: nat where "OP_SH_FUNCT3 \<equiv> 12"
abbreviation (input) OP_MASK_FUNCT7 :: insn_t where "OP_MASK_FUNCT7 \<equiv> 0x7f"
abbreviation (input) OP_SH_FUNCT7 :: nat where "OP_SH_FUNCT7 \<equiv> 25"
abbreviation (input) OP_MASK_FUNCT2 :: insn_t where "OP_MASK_FUNCT2 \<equiv> 0x3"
abbreviation (input) OP_SH_FUNCT2 :: nat where "OP_SH_FUNCT2 \<equiv> 25"
abbreviation (input) OP_MASK_OP2 :: insn_t where "OP_MASK_OP2 \<equiv> 0x3"
abbreviation (input) OP_SH_OP2 :: nat where "OP_SH_OP2 \<equiv> 0"
abbreviation (input) OP_MASK_CRS2 :: insn_t where "OP_MASK_CRS2 \<equiv> 0x1f"
abbreviation (input) OP_SH_CRS2 :: nat where "OP_SH_CRS2 \<equiv> 2"
abbreviation (input) OP_MASK_CRS1S :: insn_t where "OP_MASK_CRS1S \<equiv> 0x7"
abbreviation (input) OP_SH_CRS1S :: nat where "OP_SH_CRS1S \<equiv> 7"
abbreviation (input) OP_MASK_CRS2S :: insn_t where "OP_MASK_CRS2S \<equiv> 0x7"
abbreviation (input) OP_SH_CRS2S :: nat where "OP_SH_CRS2S \<equiv> 2"
abbreviation (input) OP_MASK_CFUNCT6 :: insn_t where "OP_MASK_CFUNCT6 \<equiv> 0x3f"
abbreviation (input) OP_SH_CFUNCT6 :: nat where "OP_SH_CFUNCT6 \<equiv> 10"
abbreviation (input) OP_MASK_CFUNCT4 :: insn_t where "OP_MASK_CFUNCT4 \<equiv> 0xf"
abbreviation (input) OP_SH_CFUNCT4 :: nat where "OP_SH_CFUNCT4 \<equiv> 12"
abbreviation (input) OP_MASK_CFUNCT3 :: insn_t where "OP_MASK_CFUNCT3 \<equiv> 0x7"
abbreviation (input) OP_SH_CFUNCT3 :: nat where "OP_SH_CFUNCT3 \<equiv> 13"
abbreviation (input) OP_MASK_CFUNCT2 :: insn_t where "OP_MASK_CFUNCT2 \<equiv> 0x3"
abbreviation (input) OP_SH_CFUNCT2 :: nat where "OP_SH_CFUNCT2 \<equiv> 5"
abbreviation (input) OP_MASK_BS :: insn_t where "OP_MASK_BS \<equiv> 3"
abbreviation (input) OP_SH_BS :: nat where "OP_SH_BS \<equiv> 30"
abbreviation (input) OP_MASK_RNUM :: insn_t where "OP_MASK_RNUM \<equiv> 0xf"
abbreviation (input) OP_SH_RNUM :: nat where "OP_SH_RNUM \<equiv> 20"
abbreviation (input) OP_MASK_VD :: insn_t where "OP_MASK_VD \<equiv> 0x1f"
abbreviation (input) OP_SH_VD :: nat where "OP_SH_VD \<equiv> 7"
abbreviation (input) OP_MASK_VS1 :: insn_t where "OP_MASK_VS1 \<equiv> 0x1f"
abbreviation (input) OP_SH_VS1 :: nat where "OP_SH_VS1 \<equiv> 15"
abbreviation (input) OP_MASK_VS2 :: insn_t where "OP_MASK_VS2 \<equiv> 0x1f"
abbreviation (input) OP_SH_VS2 :: nat where "OP_SH_VS2 \<equiv> 20"
abbreviation (input) OP_MASK_VIMM :: insn_t where "OP_MASK_VIMM \<equiv> 0x1f"
abbreviation (input) OP_SH_VIMM :: nat where "OP_SH_VIMM \<equiv> 15"
abbreviation (input) OP_MASK_VMASK :: insn_t where "OP_MASK_VMASK \<equiv> 0x1"
abbreviation (input) OP_SH_VMASK :: nat where "OP_SH_VMASK \<equiv> 25"
abbreviation (input) OP_MASK_VFUNCT6 :: insn_t where "OP_MASK_VFUNCT6 \<equiv> 0x3f"
abbreviation (input) OP_SH_VFUNCT6 :: nat where "OP_SH_VFUNCT6 \<equiv> 26"
abbreviation (input) OP_MASK_VLMUL :: insn_t where "OP_MASK_VLMUL \<equiv> 0x7"
abbreviation (input) OP_SH_VLMUL :: nat where "OP_SH_VLMUL \<equiv> 0"
abbreviation (input) OP_MASK_VSEW :: insn_t where "OP_MASK_VSEW \<equiv> 0x7"
abbreviation (input) OP_SH_VSEW :: nat where "OP_SH_VSEW \<equiv> 3"
abbreviation (input) OP_MASK_VTA :: insn_t where "OP_MASK_VTA \<equiv> 0x1"
abbreviation (input) OP_SH_VTA :: nat where "OP_SH_VTA \<equiv> 6"
abbreviation (input) OP_MASK_VMA :: insn_t where "OP_MASK_VMA \<equiv> 0x1"
abbreviation (input) OP_SH_VMA :: nat where "OP_SH_VMA \<equiv> 7"
abbreviation (input) OP_MASK_VWD :: insn_t where "OP_MASK_VWD \<equiv> 0x1"
abbreviation (input) OP_SH_VWD :: nat where "OP_SH_VWD \<equiv> 26"
abbreviation (input) OP_MASK_XTHEADVLMUL :: insn_t where "OP_MASK_XTHEADVLMUL \<equiv> 0x3"
abbreviation (input) OP_SH_XTHEADVLMUL :: nat where "OP_SH_XTHEADVLMUL \<equiv> 0"
abbreviation (input) OP_MASK_XTHEADVSEW :: insn_t where "OP_MASK_XTHEADVSEW \<equiv> 0x7"
abbreviation (input) OP_SH_XTHEADVSEW :: nat where "OP_SH_XTHEADVSEW \<equiv> 2"
abbreviation (input) OP_MASK_XTHEADVEDIV :: insn_t where "OP_MASK_XTHEADVEDIV \<equiv> 0x3"
abbreviation (input) OP_SH_XTHEADVEDIV :: nat where "OP_SH_XTHEADVEDIV \<equiv> 5"
abbreviation (input) OP_MASK_XTHEADVTYPE_RES :: insn_t where "OP_MASK_XTHEADVTYPE_RES \<equiv> 0xf"
abbreviation (input) OP_SH_XTHEADVTYPE_RES :: nat where "OP_SH_XTHEADVTYPE_RES \<equiv> 7"
abbreviation (input) OP_MASK_XSO2 :: insn_t where "OP_MASK_XSO2 \<equiv> 0x3"
abbreviation (input) OP_SH_XSO2 :: nat where "OP_SH_XSO2 \<equiv> 26"
abbreviation (input) OP_MASK_XSO1 :: insn_t where "OP_MASK_XSO1 \<equiv> 0x1"
abbreviation (input) OP_SH_XSO1 :: nat where "OP_SH_XSO1 \<equiv> 26"

section \<open>High and low parts of a displacement\<close>

definition RISCV_IMM_REACH :: bfd_vma where
  "RISCV_IMM_REACH = shl 1 12"

definition RISCV_CONST_HIGH_PART :: "bfd_vma \<Rightarrow> bfd_vma" where
  "RISCV_CONST_HIGH_PART v = (v + shr RISCV_IMM_REACH 1) AND NOT (RISCV_IMM_REACH - 1)"

definition RISCV_CONST_LOW_PART :: "bfd_vma \<Rightarrow> bfd_vma" where
  "RISCV_CONST_LOW_PART v = v - RISCV_CONST_HIGH_PART v"

definition RISCV_PCREL_HIGH_PART :: "bfd_vma \<Rightarrow> bfd_vma \<Rightarrow> bfd_vma" where
  "RISCV_PCREL_HIGH_PART v pc = RISCV_CONST_HIGH_PART (v - pc)"

definition RISCV_PCREL_LOW_PART :: "bfd_vma \<Rightarrow> bfd_vma \<Rightarrow> bfd_vma" where
  "RISCV_PCREL_LOW_PART v pc = RISCV_CONST_LOW_PART (v - pc)"

section \<open>Instruction length\<close>

definition riscv_insn_length :: "insn_t \<Rightarrow> nat" where
  "riscv_insn_length insn =
     (if insn AND 0x3 \<noteq> 0x3 then 2
      else if insn AND 0x1f \<noteq> 0x1f then 4
      else if insn AND 0x3f = 0x1f then 6
      else if insn AND 0x7f = 0x3f then 8
      else if insn AND 0x7f = 0x7f \<and> insn AND 0x7000 \<noteq> 0x7000
           then 10 + unat (shr insn 11 AND 0xe)
      else 2)"

section \<open>Reading the fields bit by bit\<close>

lemma bit_RV_X [cbits]: "bit (RV_X x s n) i \<longleftrightarrow> i < n \<and> bit x (s + i)"
  by (auto simp: RV_X_def bit_simps shl_one_minus_one cbits dest: bit_word_bound)

lemma bit_neg_RV_X [cbits]: "bit (- RV_X x s 1) i \<longleftrightarrow> i < 64 \<and> bit x s"
  by (auto simp: RV_X_def shl_def sign_bit_neg bit_simps cbits)

lemmas bit_neg_RV_X_Suc [cbits] = bit_neg_RV_X [unfolded One_nat_def]

lemma small_index [cbits]: "Suc (Suc 0) = 2" "Suc 2 = 3" "Suc 3 = 4"
  by simp_all

lemma bit_RV_IMM_SIGN [cbits]: "bit (RV_IMM_SIGN x) i \<longleftrightarrow> i < 64 \<and> bit x 31"
  by (auto simp: RV_IMM_SIGN_def sign_bit_neg bit_simps cbits)

section \<open>The contract of an immediate format\<close>

locale imm_format =
  fixes enc :: "insn_t \<Rightarrow> insn_t" and ext :: "insn_t \<Rightarrow> insn_t"
  assumes enc_local: "enc x AND enc (- 1) = enc x"
    and ext_local: "ext (w AND enc (- 1)) = ext w"
    and enc_ext: "enc (ext w) = w AND enc (- 1)"
begin

text \<open>Replacing the field of an instruction word changes the decoded immediate only.\<close>

lemma ext_patch: "ext ((w AND NOT (enc (- 1))) OR enc v) = ext (enc v)"
proof -
  have "((w AND NOT (enc (- 1))) OR enc v) AND enc (- 1) = enc v AND enc (- 1)"
    by (rule bit_eqI) (auto simp: bit_simps)
  then show ?thesis by (metis ext_local)
qed

lemma patch_keeps_rest:
  "((w AND NOT (enc (- 1))) OR enc v) AND NOT (enc (- 1)) = w AND NOT (enc (- 1))"
proof (rule bit_eqI)
  fix n
  have "bit (enc v) n \<Longrightarrow> bit (enc (- 1)) n"
    by (metis bit_and_iff enc_local)
  then show "bit (((w AND NOT (enc (- 1))) OR enc v) AND NOT (enc (- 1))) n =
      bit (w AND NOT (enc (- 1))) n"
    by (auto simp: bit_simps)
qed

text \<open>An immediate that was decoded from a word encodes and decodes to itself.\<close>

lemma decoded_is_valid: "ext (enc (ext w)) = ext w"
  by (simp add: enc_ext ext_local)

lemma enc_inj: "ext (enc x) = x \<Longrightarrow> ext (enc y) = y \<Longrightarrow> enc x = enc y \<Longrightarrow> x = y"
  by metis

end

text \<open>Clearing the low \<open>k\<close> bits: the effect of a format that scales its operand.\<close>

definition clear_low :: "nat \<Rightarrow> insn_t \<Rightarrow> insn_t" where
  "clear_low k x = shl (shr x k) k"

lemma bit_clear_low [cbits]: "bit (clear_low k x) i \<longleftrightarrow> k \<le> i \<and> i < 64 \<and> bit x i"
  by (auto simp: clear_low_def bit_shl bit_shr)

lemma clear_low_zero [simp]: "clear_low 0 x = x"
  by (simp add: clear_low_def)

lemma clear_low_eq_iff: "clear_low k x = x \<longleftrightarrow> 2 ^ k dvd uint x"
  by (simp add: clear_low_def low_bits_clear_iff)

lemma dvd_sint_iff: "k \<le> 63 \<Longrightarrow> 2 ^ k dvd sint (x :: insn_t) \<longleftrightarrow> 2 ^ k dvd uint x"
proof -
  assume "k \<le> 63"
  then have "take_bit k (sint x) = take_bit k (uint x)"
    by (intro bit_eqI) (auto simp: bit_simps)
  then show ?thesis by (simp flip: take_bit_eq_0_iff)
qed

lemma clear_low_extend_iff:
  assumes "k \<le> n" and agree: "\<And>i. i < k \<Longrightarrow> bit (f x) i = bit x i"
  shows "clear_low k (f x) = x \<longleftrightarrow> clear_low k x = x \<and> f x = x"
proof
  assume *: "clear_low k (f x) = x"
  have bits: "bit x i \<longleftrightarrow> k \<le> i \<and> bit (f x) i" for i
    using * bit_word_bound [of "f x" i] by (metis bit_clear_low)
  have "bit (f x) i = bit x i" for i
    using bits [of i] agree [of i] by (cases "i < k") auto
  moreover have "bit (clear_low k x) i = bit x i" for i
    using bits [of i] bit_word_bound [of x i] by (auto simp: bit_clear_low)
  ultimately show "clear_low k x = x \<and> f x = x"
    by (simp add: bit_eq_iff)
qed auto

locale signed_imm = imm_format enc ext
  for enc :: "insn_t \<Rightarrow> insn_t" and ext :: "insn_t \<Rightarrow> insn_t" +
  fixes k :: nat and n :: nat
  assumes ext_enc: "ext (enc x) = clear_low k (signed_take_bit n x)"
    and k_n: "k \<le> n" "n < 63"
begin

lemma valid_iff:
  "ext (enc x) = x \<longleftrightarrow> 2 ^ k dvd sint x \<and> - (2 ^ n) \<le> sint x \<and> sint x < 2 ^ n"
proof -
  have "clear_low k (signed_take_bit n x) = x \<longleftrightarrow> clear_low k x = x \<and> signed_take_bit n x = x"
    using k_n by (intro clear_low_extend_iff [where n = n]) (auto simp: bit_simps min_def)
  then show ?thesis
    using k_n by (simp add: ext_enc clear_low_eq_iff sext_eq_iff dvd_sint_iff)
qed

end

locale unsigned_imm = imm_format enc ext
  for enc :: "insn_t \<Rightarrow> insn_t" and ext :: "insn_t \<Rightarrow> insn_t" +
  fixes k :: nat and n :: nat
  assumes ext_enc: "ext (enc x) = clear_low k (take_bit n x)"
    and k_n: "k \<le> n"
begin

lemma valid_iff: "ext (enc x) = x \<longleftrightarrow> 2 ^ k dvd uint x \<and> uint x < 2 ^ n"
proof -
  have "clear_low k (take_bit n x) = x \<longleftrightarrow> clear_low k x = x \<and> take_bit n x = x"
    using k_n by (intro clear_low_extend_iff [where n = n]) (auto simp: bit_simps)
  then show ?thesis
    by (simp add: ext_enc clear_low_eq_iff zext_eq_iff)
qed

end

text \<open>The formats of the base instruction set and of the compressed one keep the contract.\<close>

interpretation itype: signed_imm ENCODE_ITYPE_IMM EXTRACT_ITYPE_IMM 0 11
  by unfold_locales
    ((rule w64_eqI, simp add: ENCODE_ITYPE_IMM_def EXTRACT_ITYPE_IMM_def cbits) | simp)+

interpretation stype: signed_imm ENCODE_STYPE_IMM EXTRACT_STYPE_IMM 0 11
  by unfold_locales
    ((rule w64_eqI, simp add: ENCODE_STYPE_IMM_def EXTRACT_STYPE_IMM_def cbits) | simp)+

interpretation btype: signed_imm ENCODE_BTYPE_IMM EXTRACT_BTYPE_IMM 1 12
  by unfold_locales
    ((rule w64_eqI, simp add: ENCODE_BTYPE_IMM_def EXTRACT_BTYPE_IMM_def cbits) | simp)+

interpretation utype: signed_imm ENCODE_UTYPE_IMM EXTRACT_UTYPE_IMM 12 31
  by unfold_locales
    ((rule w64_eqI, simp add: ENCODE_UTYPE_IMM_def EXTRACT_UTYPE_IMM_def cbits) | simp)+

interpretation jtype: signed_imm ENCODE_JTYPE_IMM EXTRACT_JTYPE_IMM 1 20
  by unfold_locales
    ((rule w64_eqI, simp add: ENCODE_JTYPE_IMM_def EXTRACT_JTYPE_IMM_def cbits) | simp)+

interpretation citype: signed_imm ENCODE_CITYPE_IMM EXTRACT_CITYPE_IMM 0 5
  by unfold_locales
    ((rule w64_eqI, simp add: ENCODE_CITYPE_IMM_def EXTRACT_CITYPE_IMM_def cbits) | simp)+

interpretation citype_lui: signed_imm ENCODE_CITYPE_LUI_IMM EXTRACT_CITYPE_LUI_IMM 12 17
  by unfold_locales
    ((rule w64_eqI, simp add: ENCODE_CITYPE_LUI_IMM_def EXTRACT_CITYPE_LUI_IMM_def ENCODE_CITYPE_IMM_def EXTRACT_CITYPE_IMM_def cbits) | simp)+

interpretation citype_addi16sp: signed_imm ENCODE_CITYPE_ADDI16SP_IMM EXTRACT_CITYPE_ADDI16SP_IMM 4 9
  by unfold_locales
    ((rule w64_eqI, simp add: ENCODE_CITYPE_ADDI16SP_IMM_def EXTRACT_CITYPE_ADDI16SP_IMM_def cbits) | simp)+

interpretation cbtype: signed_imm ENCODE_CBTYPE_IMM EXTRACT_CBTYPE_IMM 1 8
  by unfold_locales
    ((rule w64_eqI, simp add: ENCODE_CBTYPE_IMM_def EXTRACT_CBTYPE_IMM_def cbits) | simp)+

interpretation cjtype: signed_imm ENCODE_CJTYPE_IMM EXTRACT_CJTYPE_IMM 1 11
  by unfold_locales
    ((rule w64_eqI, simp add: ENCODE_CJTYPE_IMM_def EXTRACT_CJTYPE_IMM_def cbits) | simp)+

interpretation citype_lwsp: unsigned_imm ENCODE_CITYPE_LWSP_IMM EXTRACT_CITYPE_LWSP_IMM 2 8
  by unfold_locales
    ((rule w64_eqI, simp add: ENCODE_CITYPE_LWSP_IMM_def EXTRACT_CITYPE_LWSP_IMM_def cbits) | simp)+

interpretation citype_ldsp: unsigned_imm ENCODE_CITYPE_LDSP_IMM EXTRACT_CITYPE_LDSP_IMM 3 9
  by unfold_locales
    ((rule w64_eqI, simp add: ENCODE_CITYPE_LDSP_IMM_def EXTRACT_CITYPE_LDSP_IMM_def cbits) | simp)+

interpretation csstype: unsigned_imm ENCODE_CSSTYPE_IMM EXTRACT_CSSTYPE_IMM 0 6
  by unfold_locales
    ((rule w64_eqI, simp add: ENCODE_CSSTYPE_IMM_def EXTRACT_CSSTYPE_IMM_def cbits) | simp)+

interpretation csstype_swsp: unsigned_imm ENCODE_CSSTYPE_SWSP_IMM EXTRACT_CSSTYPE_SWSP_IMM 2 8
  by unfold_locales
    ((rule w64_eqI, simp add: ENCODE_CSSTYPE_SWSP_IMM_def EXTRACT_CSSTYPE_SWSP_IMM_def cbits) | simp)+

interpretation csstype_sdsp: unsigned_imm ENCODE_CSSTYPE_SDSP_IMM EXTRACT_CSSTYPE_SDSP_IMM 3 9
  by unfold_locales
    ((rule w64_eqI, simp add: ENCODE_CSSTYPE_SDSP_IMM_def EXTRACT_CSSTYPE_SDSP_IMM_def cbits) | simp)+

interpretation ciwtype: unsigned_imm ENCODE_CIWTYPE_IMM EXTRACT_CIWTYPE_IMM 0 8
  by unfold_locales
    ((rule w64_eqI, simp add: ENCODE_CIWTYPE_IMM_def EXTRACT_CIWTYPE_IMM_def cbits) | simp)+

interpretation ciwtype_addi4spn: unsigned_imm ENCODE_CIWTYPE_ADDI4SPN_IMM EXTRACT_CIWTYPE_ADDI4SPN_IMM 2 10
  by unfold_locales
    ((rule w64_eqI, simp add: ENCODE_CIWTYPE_ADDI4SPN_IMM_def EXTRACT_CIWTYPE_ADDI4SPN_IMM_def cbits) | simp)+

interpretation cltype: unsigned_imm ENCODE_CLTYPE_IMM EXTRACT_CLTYPE_IMM 0 5
  by unfold_locales
    ((rule w64_eqI, simp add: ENCODE_CLTYPE_IMM_def EXTRACT_CLTYPE_IMM_def cbits) | simp)+

interpretation cltype_lw: unsigned_imm ENCODE_CLTYPE_LW_IMM EXTRACT_CLTYPE_LW_IMM 2 7
  by unfold_locales
    ((rule w64_eqI, simp add: ENCODE_CLTYPE_LW_IMM_def EXTRACT_CLTYPE_LW_IMM_def cbits) | simp)+

interpretation cltype_ld: unsigned_imm ENCODE_CLTYPE_LD_IMM EXTRACT_CLTYPE_LD_IMM 3 8
  by unfold_locales
    ((rule w64_eqI, simp add: ENCODE_CLTYPE_LD_IMM_def EXTRACT_CLTYPE_LD_IMM_def cbits) | simp)+

interpretation rvv_vb: unsigned_imm ENCODE_RVV_VB_IMM EXTRACT_RVV_VB_IMM 0 10
  by unfold_locales
    ((rule w64_eqI, simp add: ENCODE_RVV_VB_IMM_def EXTRACT_RVV_VB_IMM_def cbits) | simp)+

interpretation rvv_vc: unsigned_imm ENCODE_RVV_VC_IMM EXTRACT_RVV_VC_IMM 0 11
  by unfold_locales
    ((rule w64_eqI, simp add: ENCODE_RVV_VC_IMM_def EXTRACT_RVV_VC_IMM_def cbits) | simp)+

interpretation zcb_byte_uimm: unsigned_imm ENCODE_ZCB_BYTE_UIMM EXTRACT_ZCB_BYTE_UIMM 0 2
  by unfold_locales
    ((rule w64_eqI, simp add: ENCODE_ZCB_BYTE_UIMM_def EXTRACT_ZCB_BYTE_UIMM_def cbits) | simp)+

interpretation zcb_halfword_uimm: unsigned_imm ENCODE_ZCB_HALFWORD_UIMM EXTRACT_ZCB_HALFWORD_UIMM 1 2
  by unfold_locales
    ((rule w64_eqI, simp add: ENCODE_ZCB_HALFWORD_UIMM_def EXTRACT_ZCB_HALFWORD_UIMM_def cbits) | simp)+

interpretation rvv_vi_uimm6: unsigned_imm ENCODE_RVV_VI_UIMM6 EXTRACT_RVV_VI_UIMM6 0 6
  by unfold_locales
    ((rule w64_eqI, simp add: ENCODE_RVV_VI_UIMM6_def EXTRACT_RVV_VI_UIMM6_def cbits) | simp)+

interpretation cv_is2_uimm5: unsigned_imm ENCODE_CV_IS2_UIMM5 EXTRACT_CV_IS2_UIMM5 0 5
  by unfold_locales
    ((rule w64_eqI, simp add: ENCODE_CV_IS2_UIMM5_def EXTRACT_CV_IS2_UIMM5_def cbits) | simp)+

interpretation cv_is3_uimm5: unsigned_imm ENCODE_CV_IS3_UIMM5 EXTRACT_CV_IS3_UIMM5 0 5
  by unfold_locales
    ((rule w64_eqI, simp add: ENCODE_CV_IS3_UIMM5_def EXTRACT_CV_IS3_UIMM5_def cbits) | simp)+


section \<open>The representable immediates\<close>

lemmas valid_defs =
  VALID_ITYPE_IMM_def
  VALID_STYPE_IMM_def
  VALID_BTYPE_IMM_def
  VALID_UTYPE_IMM_def
  VALID_JTYPE_IMM_def
  VALID_CITYPE_IMM_def
  VALID_CITYPE_LUI_IMM_def
  VALID_CITYPE_ADDI16SP_IMM_def
  VALID_CITYPE_LWSP_IMM_def
  VALID_CITYPE_LDSP_IMM_def
  VALID_CSSTYPE_IMM_def
  VALID_CSSTYPE_SWSP_IMM_def
  VALID_CSSTYPE_SDSP_IMM_def
  VALID_CIWTYPE_IMM_def
  VALID_CIWTYPE_ADDI4SPN_IMM_def
  VALID_CLTYPE_IMM_def
  VALID_CLTYPE_LW_IMM_def
  VALID_CLTYPE_LD_IMM_def
  VALID_CBTYPE_IMM_def
  VALID_CJTYPE_IMM_def
  VALID_RVV_VB_IMM_def
  VALID_RVV_VC_IMM_def
  VALID_ZCB_BYTE_UIMM_def
  VALID_ZCB_HALFWORD_UIMM_def

end
