(* ===== verification/RV_Imm.thy ===== *)
theory RV_Imm
  imports RV_Fields
begin

text \<open>
  Properties of the instruction fields: which immediates each format accepts, that register
  fields read back what was written, that the high and low parts of a displacement recombine,
  and the values \<open>riscv_insn_length\<close> can return.
\<close>

section \<open>Accepted immediates\<close>

text \<open>
  C33.  The acceptance tests of the base formats: an immediate is accepted exactly when it is
  aligned to the format's scale and lies in the signed range of its field, so the assembler
  rejects every value the instruction could not represent and no other.
\<close>

theorem valid_base_imm:
  "(VALID_ITYPE_IMM x \<longleftrightarrow> - 2048 \<le> sint x \<and> sint x < 2048) \<and>
   (VALID_STYPE_IMM x \<longleftrightarrow> - 2048 \<le> sint x \<and> sint x < 2048) \<and>
   (VALID_BTYPE_IMM x \<longleftrightarrow> 2 dvd sint x \<and> - 4096 \<le> sint x \<and> sint x < 4096) \<and>
   (VALID_UTYPE_IMM x \<longleftrightarrow> 4096 dvd sint x \<and> - (2 ^ 31) \<le> sint x \<and> sint x < 2 ^ 31) \<and>
   (VALID_JTYPE_IMM x \<longleftrightarrow> 2 dvd sint x \<and> - (2 ^ 20) \<le> sint x \<and> sint x < 2 ^ 20)"
  by (simp add: valid_defs itype.valid_iff stype.valid_iff btype.valid_iff
      utype.valid_iff jtype.valid_iff)

lemma encode_zero_iff_addi16sp:
  "ENCODE_CITYPE_ADDI16SP_IMM x = 0 \<longleftrightarrow> clear_low 4 (signed_take_bit 9 x) = 0"
proof
  assume "ENCODE_CITYPE_ADDI16SP_IMM x = 0"
  then have "EXTRACT_CITYPE_ADDI16SP_IMM 0 = clear_low 4 (signed_take_bit 9 x)"
    by (metis citype_addi16sp.ext_enc)
  moreover have "EXTRACT_CITYPE_ADDI16SP_IMM 0 = 0"
    by (rule w64_eqI) (simp add: EXTRACT_CITYPE_ADDI16SP_IMM_def cbits)
  ultimately show "clear_low 4 (signed_take_bit 9 x) = 0" by simp
next
  assume *: "clear_low 4 (signed_take_bit 9 x) = 0"
  have "ENCODE_CITYPE_ADDI16SP_IMM x =
      ENCODE_CITYPE_ADDI16SP_IMM (clear_low 4 (signed_take_bit 9 x))"
    by (rule w64_eqI) (simp add: ENCODE_CITYPE_ADDI16SP_IMM_def cbits)
  also have "\<dots> = 0"
    unfolding * by (rule w64_eqI) (simp add: ENCODE_CITYPE_ADDI16SP_IMM_def cbits)
  finally show "ENCODE_CITYPE_ADDI16SP_IMM x = 0" .
qed

lemma encode_zero_iff_lui:
  "ENCODE_CITYPE_LUI_IMM x = 0 \<longleftrightarrow> clear_low 12 (signed_take_bit 17 x) = 0"
proof
  assume "ENCODE_CITYPE_LUI_IMM x = 0"
  then have "EXTRACT_CITYPE_LUI_IMM 0 = clear_low 12 (signed_take_bit 17 x)"
    by (metis citype_lui.ext_enc)
  moreover have "EXTRACT_CITYPE_LUI_IMM 0 = 0"
    by (rule w64_eqI) (simp add: EXTRACT_CITYPE_LUI_IMM_def EXTRACT_CITYPE_IMM_def cbits)
  ultimately show "clear_low 12 (signed_take_bit 17 x) = 0" by simp
next
  assume *: "clear_low 12 (signed_take_bit 17 x) = 0"
  have "ENCODE_CITYPE_LUI_IMM x = ENCODE_CITYPE_LUI_IMM (clear_low 12 (signed_take_bit 17 x))"
    by (rule w64_eqI) (simp add: ENCODE_CITYPE_LUI_IMM_def ENCODE_CITYPE_IMM_def cbits)
  also have "\<dots> = 0"
    unfolding * by (rule w64_eqI) (simp add: ENCODE_CITYPE_LUI_IMM_def ENCODE_CITYPE_IMM_def cbits)
  finally show "ENCODE_CITYPE_LUI_IMM x = 0" .
qed

lemma valid_nonzero:
  assumes "enc x = 0 \<longleftrightarrow> ext (enc x) = (0 :: insn_t)"
  shows "enc x \<noteq> 0 \<and> ext (enc x) = x \<longleftrightarrow> ext (enc x) = x \<and> x \<noteq> 0"
  using assms by auto

text \<open>
   The acceptance tests of the compressed formats: signed formats accept an aligned signed
  interval, unsigned ones an aligned interval from zero, and the two formats whose zero
  encoding is reserved (\<open>c.lui\<close> and \<open>c.addi16sp\<close>) reject zero as well.
\<close>

theorem valid_rvc_imm:
  "(VALID_CITYPE_IMM x \<longleftrightarrow> - 32 \<le> sint x \<and> sint x < 32) \<and>
   (VALID_CITYPE_LUI_IMM x \<longleftrightarrow>
      x \<noteq> 0 \<and> 4096 dvd sint x \<and> - (2 ^ 17) \<le> sint x \<and> sint x < 2 ^ 17) \<and>
   (VALID_CITYPE_ADDI16SP_IMM x \<longleftrightarrow>
      x \<noteq> 0 \<and> 16 dvd sint x \<and> - 512 \<le> sint x \<and> sint x < 512) \<and>
   (VALID_CITYPE_LWSP_IMM x \<longleftrightarrow> 4 dvd uint x \<and> uint x < 256) \<and>
   (VALID_CITYPE_LDSP_IMM x \<longleftrightarrow> 8 dvd uint x \<and> uint x < 512) \<and>
   (VALID_CSSTYPE_SWSP_IMM x \<longleftrightarrow> 4 dvd uint x \<and> uint x < 256) \<and>
   (VALID_CSSTYPE_SDSP_IMM x \<longleftrightarrow> 8 dvd uint x \<and> uint x < 512) \<and>
   (VALID_CIWTYPE_ADDI4SPN_IMM x \<longleftrightarrow> 4 dvd uint x \<and> uint x < 1024) \<and>
   (VALID_CLTYPE_LW_IMM x \<longleftrightarrow> 4 dvd uint x \<and> uint x < 128) \<and>
   (VALID_CLTYPE_LD_IMM x \<longleftrightarrow> 8 dvd uint x \<and> uint x < 256) \<and>
   (VALID_CBTYPE_IMM x \<longleftrightarrow> 2 dvd sint x \<and> - 256 \<le> sint x \<and> sint x < 256) \<and>
   (VALID_CJTYPE_IMM x \<longleftrightarrow> 2 dvd sint x \<and> - 2048 \<le> sint x \<and> sint x < 2048)"
proof -
  have lui: "VALID_CITYPE_LUI_IMM x \<longleftrightarrow>
      EXTRACT_CITYPE_LUI_IMM (ENCODE_CITYPE_LUI_IMM x) = x \<and> x \<noteq> 0"
    unfolding VALID_CITYPE_LUI_IMM_def
    by (rule valid_nonzero) (simp add: encode_zero_iff_lui citype_lui.ext_enc)
  have sp: "VALID_CITYPE_ADDI16SP_IMM x \<longleftrightarrow>
      EXTRACT_CITYPE_ADDI16SP_IMM (ENCODE_CITYPE_ADDI16SP_IMM x) = x \<and> x \<noteq> 0"
    unfolding VALID_CITYPE_ADDI16SP_IMM_def
    by (rule valid_nonzero) (simp add: encode_zero_iff_addi16sp citype_addi16sp.ext_enc)
  show ?thesis
    unfolding lui sp
    by (simp add: valid_defs citype.valid_iff citype_lui.valid_iff citype_addi16sp.valid_iff
        citype_lwsp.valid_iff citype_ldsp.valid_iff csstype_swsp.valid_iff
        csstype_sdsp.valid_iff ciwtype_addi4spn.valid_iff cltype_lw.valid_iff
        cltype_ld.valid_iff cbtype.valid_iff cjtype.valid_iff conj_commute)
qed

section \<open>Register fields\<close>

text \<open>A field mask whose shifted image loses no bit.\<close>

definition field_fits :: "insn_t \<Rightarrow> nat \<Rightarrow> bool" where
  "field_fits msk sh \<longleftrightarrow> shr (shl msk sh) sh = msk"

text \<open>
   Writing a register field and reading it back gives the written value cut to the field,
  and leaves every bit outside the field as it was.
\<close>

theorem insert_extract_bits:
  assumes "field_fits msk sh"
  shows "EXTRACT_BITS (INSERT_BITS w v msk sh) msk sh = v AND msk \<and>
    INSERT_BITS w v msk sh AND NOT (shl msk sh) = w AND NOT (shl msk sh)"
proof
  have fit: "bit msk i \<Longrightarrow> sh + i < 64" for i
    using assms unfolding field_fits_def
    by (metis bit_shr bit_word_bound)
  show "EXTRACT_BITS (INSERT_BITS w v msk sh) msk sh = v AND msk"
    by (rule bit_eqI)
      (auto simp: EXTRACT_BITS_def INSERT_BITS_def bit_shl bit_shr bit_simps dest: fit)
  show "INSERT_BITS w v msk sh AND NOT (shl msk sh) = w AND NOT (shl msk sh)"
    by (rule bit_eqI) (auto simp: INSERT_BITS_def bit_shl bit_simps)
qed

theorem insert_extract_bits_witness:
  "EXTRACT_BITS (INSERT_BITS 0x33 42 OP_MASK_RD OP_SH_RD) OP_MASK_RD OP_SH_RD = 42 AND 0x1f \<and>
   INSERT_BITS 0x33 42 OP_MASK_RD OP_SH_RD AND NOT (shl OP_MASK_RD OP_SH_RD) =
     0x33 AND NOT (shl OP_MASK_RD OP_SH_RD)"
proof -
  have "field_fits OP_MASK_RD OP_SH_RD"
    by (simp add: field_fits_def shl_def shr_def)
  then show ?thesis by (rule insert_extract_bits)
qed

section \<open>High and low parts\<close>

lemma imm_reach: "RISCV_IMM_REACH - 1 = mask 12" "shr RISCV_IMM_REACH 1 = 2048"
  by (simp_all add: RISCV_IMM_REACH_def shl_def shr_def mask_eq_exp_minus_1)

lemma high_part_clear_low: "RISCV_CONST_HIGH_PART v = clear_low 12 (v + 2048)"
  unfolding RISCV_CONST_HIGH_PART_def imm_reach
  by (rule w64_eqI) (simp add: cbits)

lemma clear_low_minus: "x - clear_low k x = take_bit k x"
proof -
  have "clear_low k x AND take_bit k x = 0"
    by (rule bit_eqI) (auto simp: bit_clear_low bit_take_bit_iff bit_and_iff)
  then have "clear_low k x + take_bit k x = clear_low k x OR take_bit k x"
    by (rule disjunctive_add_eq_or)
  moreover have "clear_low k x OR take_bit k x = x"
    by (rule bit_eqI) (auto simp: bit_clear_low bit_take_bit_iff bit_or_iff dest: bit_word_bound)
  ultimately show ?thesis by (metis add_diff_cancel_left')
qed

lemma low_part_eq: "RISCV_CONST_LOW_PART v = take_bit 12 (v + 2048) - 2048"
  using clear_low_minus [of "v + 2048" 12]
  by (simp add: RISCV_CONST_LOW_PART_def high_part_clear_low algebra_simps)

lemma sint_small_diff:
  assumes "uint (y :: insn_t) < 4096"
  shows "sint (y - 2048) = uint y - 2048"
proof -
  have "y - 2048 = word_of_int (uint y - 2048)"
    by simp
  then have "sint (y - 2048) = sint (word_of_int (uint y - 2048) :: insn_t)"
    by (rule arg_cong)
  also have "\<dots> = signed_take_bit 63 (uint y - 2048)"
    by (simp only: sint_sbintrunc') simp
  also have "\<dots> = uint y - 2048"
    using assms by (intro signed_take_bit_int_eq_self) auto
  finally show ?thesis .
qed

lemma low_part_range: "- 2048 \<le> sint (RISCV_CONST_LOW_PART v) \<and> sint (RISCV_CONST_LOW_PART v) < 2048"
proof -
  have "uint (take_bit 12 (v + 2048)) < 4096"
    using take_bit_int_less_exp [of 12 "uint (v + 2048)"] by (simp add: uint_take_bit)
  then show ?thesis
    by (simp add: low_part_eq sint_small_diff)
qed

text \<open>
   Splitting a value: the low part is an acceptable I-type (and S-type) immediate, the high
  part has its low twelve bits clear, and the two add up to the value.  The pair \<open>lui\<close>/\<open>addi\<close>
  or \<open>auipc\<close>/\<open>jalr\<close> therefore reaches exactly the address it was built for.
\<close>

theorem const_parts:
  "RISCV_CONST_HIGH_PART v + RISCV_CONST_LOW_PART v = v \<and>
   VALID_ITYPE_IMM (RISCV_CONST_LOW_PART v) \<and> VALID_STYPE_IMM (RISCV_CONST_LOW_PART v) \<and>
   4096 dvd uint (RISCV_CONST_HIGH_PART v)"
proof -
  have "clear_low 12 (RISCV_CONST_HIGH_PART v) = RISCV_CONST_HIGH_PART v"
    by (rule bit_eqI) (auto simp: high_part_clear_low bit_clear_low)
  then have "4096 dvd uint (RISCV_CONST_HIGH_PART v)"
    by (simp add: clear_low_eq_iff)
  then show ?thesis
    using low_part_range [of v]
    by (simp add: RISCV_CONST_LOW_PART_def valid_defs itype.valid_iff stype.valid_iff)
qed

section \<open>Instruction length\<close>

lemma shr_and_low: "shr (w AND 0xffff) 11 AND 0xe = shr w 11 AND (0xe :: insn_t)"
  by (rule w64_eqI) (simp add: cbits)

lemma length_field_even: "even (unat (shr w 11 AND 0xe))"
proof -
  have "\<not> bit (shr w 11 AND (0xe :: insn_t)) 0"
    by (simp add: bit_and_iff)
  then have "\<not> bit (unat (shr w 11 AND 0xe)) 0"
    by (simp only: bit_unsigned_iff) simp
  then show ?thesis by (simp add: bit_0)
qed

lemma length_field_bound:
  assumes "w AND 0x7000 \<noteq> (0x7000 :: insn_t)"
  shows "unat (shr w 11 AND 0xe) \<le> 12"
proof -
  have le: "unat (shr w 11 AND 0xe) \<le> 14"
    using word_and_le1 [of "shr w 11" 14] by (simp add: word_le_nat_alt)
  have "shr w 11 AND 0xe \<noteq> (0xe :: insn_t)"
  proof
    assume e: "shr w 11 AND 0xe = (0xe :: insn_t)"
    have "bit w 12" "bit w 13" "bit w 14"
      using arg_cong [OF e, of "\<lambda>x. bit x 1"] arg_cong [OF e, of "\<lambda>x. bit x 2"]
        arg_cong [OF e, of "\<lambda>x. bit x 3"]
      by (simp_all add: bit_and_iff bit_shr)
    then have "w AND 0x7000 = 0x7000"
      by (intro w64_eqI) (simp add: cbits)
    with assms show False by simp
  qed
  then have "unat (shr w 11 AND 0xe) \<noteq> unat (0xe :: insn_t)"
    by (metis word_unat_eq_iff)
  then have "unat (shr w 11 AND 0xe) \<noteq> 14" by simp
  then show ?thesis
    using le length_field_even [of w] by presburger
qed

text \<open>
  The length of an instruction is even, between 2 and 22 bytes, and is decided by the first
  sixteen bits of the instruction, so reading the first parcel is enough to know how many bytes
  belong to it.
\<close>

lemma insn_length_spec:
  "even (riscv_insn_length w) \<and> 2 \<le> riscv_insn_length w \<and> riscv_insn_length w \<le> 22 \<and>
   riscv_insn_length (w AND 0xffff) = riscv_insn_length w"
proof -
  have parcel: "(w AND 0xffff) AND m = w AND m" if "0xffff AND m = m" for m :: insn_t
    using that by (metis and.assoc)
  have low: "riscv_insn_length (w AND 0xffff) = riscv_insn_length w"
    by (simp add: riscv_insn_length_def parcel shr_and_low)
  show ?thesis
    using low length_field_even [of w] length_field_bound [of w]
    by (auto simp: riscv_insn_length_def)
qed

end
