(* ===== verification/RV_Opcode.thy ===== *)
theory RV_Opcode
  imports RV_Imm
begin

text \<open>
  The opcode table's data model, from \<^verbatim>\<open>include/opcode/riscv.h\<close> (\<open>struct riscv_opcode\<close> and
  \<open>enum riscv_insn_class\<close>) and the first part of \<^verbatim>\<open>opcodes/riscv-opc.c\<close>: the register and
  operand names shared by the assembler and the disassembler, and the match functions a table
  entry may name.  The table itself is in the theories \<open>RV_Optab_*\<close>.

  The function pointer \<open>match_func\<close> of an entry is a value of \<open>match_fn\<close>, with \<open>MF_NULL\<close> for
  the null pointer; \<open>call_match_func\<close> makes the call and returns \<open>None\<close> when the pointer is
  null, where the program would crash.
\<close>

section \<open>Instruction classes\<close>

datatype (plugins only:) riscv_insn_class =
    INSN_CLASS_NONE | INSN_CLASS_I | INSN_CLASS_C | INSN_CLASS_A | INSN_CLASS_M
  | INSN_CLASS_F | INSN_CLASS_D | INSN_CLASS_Q | INSN_CLASS_F_AND_C | INSN_CLASS_D_AND_C
  | INSN_CLASS_ZICOND | INSN_CLASS_ZICSR | INSN_CLASS_ZIFENCEI | INSN_CLASS_ZIHINTNTL
  | INSN_CLASS_ZIHINTNTL_AND_C | INSN_CLASS_ZIHINTPAUSE | INSN_CLASS_ZMMUL
  | INSN_CLASS_ZAWRS | INSN_CLASS_F_INX | INSN_CLASS_D_INX | INSN_CLASS_Q_INX
  | INSN_CLASS_ZFH_INX | INSN_CLASS_ZFHMIN | INSN_CLASS_ZFHMIN_INX
  | INSN_CLASS_ZFHMIN_AND_D_INX | INSN_CLASS_ZFHMIN_AND_Q_INX | INSN_CLASS_ZFA
  | INSN_CLASS_D_AND_ZFA | INSN_CLASS_Q_AND_ZFA | INSN_CLASS_ZFH_AND_ZFA
  | INSN_CLASS_ZFH_OR_ZVFH_AND_ZFA | INSN_CLASS_ZBA | INSN_CLASS_ZBB | INSN_CLASS_ZBC
  | INSN_CLASS_ZBS | INSN_CLASS_ZBKB | INSN_CLASS_ZBKC | INSN_CLASS_ZBKX | INSN_CLASS_ZKND
  | INSN_CLASS_ZKNE | INSN_CLASS_ZKNH | INSN_CLASS_ZKSED | INSN_CLASS_ZKSH
  | INSN_CLASS_ZBB_OR_ZBKB | INSN_CLASS_ZBC_OR_ZBKC | INSN_CLASS_ZKND_OR_ZKNE
  | INSN_CLASS_V | INSN_CLASS_ZVEF | INSN_CLASS_ZVBB | INSN_CLASS_ZVBC | INSN_CLASS_ZVKB
  | INSN_CLASS_ZVKG | INSN_CLASS_ZVKNED | INSN_CLASS_ZVKNHA_OR_ZVKNHB | INSN_CLASS_ZVKSED
  | INSN_CLASS_ZVKSH | INSN_CLASS_ZCB | INSN_CLASS_ZCB_AND_ZBA | INSN_CLASS_ZCB_AND_ZBB
  | INSN_CLASS_ZCB_AND_ZMMUL | INSN_CLASS_SVINVAL | INSN_CLASS_ZICBOM | INSN_CLASS_ZICBOP
  | INSN_CLASS_ZICBOZ | INSN_CLASS_H | INSN_CLASS_XCVMAC | INSN_CLASS_XCVALU
  | INSN_CLASS_XTHEADBA | INSN_CLASS_XTHEADBB | INSN_CLASS_XTHEADBS | INSN_CLASS_XTHEADCMO
  | INSN_CLASS_XTHEADCONDMOV | INSN_CLASS_XTHEADFMEMIDX | INSN_CLASS_XTHEADFMV
  | INSN_CLASS_XTHEADINT | INSN_CLASS_XTHEADMAC | INSN_CLASS_XTHEADMEMIDX
  | INSN_CLASS_XTHEADMEMPAIR | INSN_CLASS_XTHEADSYNC | INSN_CLASS_XTHEADVECTOR
  | INSN_CLASS_XTHEADZVAMO | INSN_CLASS_XVENTANACONDOPS | INSN_CLASS_XSFVCP

section \<open>Table entries\<close>

datatype match_fn =
    MF_NULL
  | MF_match_opcode | MF_match_rs1_eq_rs2 | MF_match_rd_nonzero | MF_match_rs1_nonzero
  | MF_match_c_add | MF_match_c_add_with_hint | MF_match_c_nop | MF_match_c_addi16sp
  | MF_match_c_lui | MF_match_c_lui_with_hint | MF_match_c_addi4spn | MF_match_c_slli
  | MF_match_slli_as_c_slli | MF_match_c_slli64 | MF_match_srxi_as_c_srxi
  | MF_match_vs1_eq_vs2 | MF_match_vd_eq_vs1_eq_vs2 | MF_match_th_load_inc
  | MF_match_th_load_pair

record riscv_opcode =
  op_name :: string
  op_xlen_requirement :: nat
  op_insn_class :: riscv_insn_class
  op_args :: string
  op_match :: insn_t
  op_mask :: insn_t
  op_match_func :: match_fn
  op_pinfo :: "64 word"

text \<open>A row of the table, in the order of the C initialiser.\<close>

abbreviation (input) opc ::
    "string \<Rightarrow> nat \<Rightarrow> riscv_insn_class \<Rightarrow> string \<Rightarrow> insn_t \<Rightarrow> insn_t \<Rightarrow> match_fn \<Rightarrow> 64 word
     \<Rightarrow> riscv_opcode" where
  "opc n x c a m k f p \<equiv>
     \<lparr>op_name = n, op_xlen_requirement = x, op_insn_class = c, op_args = a, op_match = m,
      op_mask = k, op_match_func = f, op_pinfo = p\<rparr>"

abbreviation (input) INSN_ALIAS :: "64 word" where "INSN_ALIAS \<equiv> 0x1"
abbreviation (input) INSN_MACRO :: "64 word" where "INSN_MACRO \<equiv> 0xffffffff"

section \<open>Register and operand names\<close>

definition riscv_gpr_names_numeric :: "string list" where
  "riscv_gpr_names_numeric =
     [''x0'', ''x1'', ''x2'', ''x3'', ''x4'', ''x5'', ''x6'', ''x7'',
      ''x8'', ''x9'', ''x10'', ''x11'', ''x12'', ''x13'', ''x14'', ''x15'',
      ''x16'', ''x17'', ''x18'', ''x19'', ''x20'', ''x21'', ''x22'', ''x23'',
      ''x24'', ''x25'', ''x26'', ''x27'', ''x28'', ''x29'', ''x30'', ''x31'']"

definition riscv_gpr_names_abi :: "string list" where
  "riscv_gpr_names_abi =
     [''zero'', ''ra'', ''sp'', ''gp'', ''tp'', ''t0'', ''t1'', ''t2'',
      ''s0'', ''s1'', ''a0'', ''a1'', ''a2'', ''a3'', ''a4'', ''a5'',
      ''a6'', ''a7'', ''s2'', ''s3'', ''s4'', ''s5'', ''s6'', ''s7'',
      ''s8'', ''s9'', ''s10'', ''s11'', ''t3'', ''t4'', ''t5'', ''t6'']"

definition riscv_fpr_names_numeric :: "string list" where
  "riscv_fpr_names_numeric =
     [''f0'', ''f1'', ''f2'', ''f3'', ''f4'', ''f5'', ''f6'', ''f7'',
      ''f8'', ''f9'', ''f10'', ''f11'', ''f12'', ''f13'', ''f14'', ''f15'',
      ''f16'', ''f17'', ''f18'', ''f19'', ''f20'', ''f21'', ''f22'', ''f23'',
      ''f24'', ''f25'', ''f26'', ''f27'', ''f28'', ''f29'', ''f30'', ''f31'']"

definition riscv_fpr_names_abi :: "string list" where
  "riscv_fpr_names_abi =
     [''ft0'', ''ft1'', ''ft2'', ''ft3'', ''ft4'', ''ft5'', ''ft6'', ''ft7'',
      ''fs0'', ''fs1'', ''fa0'', ''fa1'', ''fa2'', ''fa3'', ''fa4'', ''fa5'',
      ''fa6'', ''fa7'', ''fs2'', ''fs3'', ''fs4'', ''fs5'', ''fs6'', ''fs7'',
      ''fs8'', ''fs9'', ''fs10'', ''fs11'', ''ft8'', ''ft9'', ''ft10'', ''ft11'']"

definition riscv_rm :: "string option list" where
  "riscv_rm =
     [Some ''rne'', Some ''rtz'', Some ''rdn'', Some ''rup'',
      Some ''rmm'', None, None, Some ''dyn'']"

definition riscv_pred_succ :: "string option list" where
  "riscv_pred_succ =
     [None, Some ''w'', Some ''r'', Some ''rw'',
      Some ''o'', Some ''ow'', Some ''or'', Some ''orw'',
      Some ''i'', Some ''iw'', Some ''ir'', Some ''irw'',
      Some ''io'', Some ''iow'', Some ''ior'', Some ''iorw'']"

definition riscv_vecr_names_numeric :: "string list" where
  "riscv_vecr_names_numeric =
     [''v0'', ''v1'', ''v2'', ''v3'', ''v4'', ''v5'', ''v6'', ''v7'',
      ''v8'', ''v9'', ''v10'', ''v11'', ''v12'', ''v13'', ''v14'', ''v15'',
      ''v16'', ''v17'', ''v18'', ''v19'', ''v20'', ''v21'', ''v22'', ''v23'',
      ''v24'', ''v25'', ''v26'', ''v27'', ''v28'', ''v29'', ''v30'', ''v31'']"

definition riscv_vecm_names_numeric :: "string list" where
  "riscv_vecm_names_numeric =
     [''v0.t'']"

definition riscv_vsew :: "string option list" where
  "riscv_vsew =
     [Some ''e8'', Some ''e16'', Some ''e32'', Some ''e64'',
      None, None, None, None]"

definition riscv_vlmul :: "string option list" where
  "riscv_vlmul =
     [Some ''m1'', Some ''m2'', Some ''m4'', Some ''m8'',
      None, Some ''mf8'', Some ''mf4'', Some ''mf2'']"

definition riscv_vta :: "string option list" where
  "riscv_vta =
     [Some ''tu'', Some ''ta'']"

definition riscv_vma :: "string option list" where
  "riscv_vma =
     [Some ''mu'', Some ''ma'']"

definition riscv_th_vlen :: "string option list" where
  "riscv_th_vlen =
     [Some ''m1'', Some ''m2'', Some ''m4'', Some ''m8'']"

definition riscv_th_vediv :: "string option list" where
  "riscv_th_vediv =
     [Some ''d1'', Some ''d2'', Some ''d4'', Some ''d8'']"

definition riscv_fli_symval :: "string option list" where
  "riscv_fli_symval =
     [None, Some ''min'', None, None,
      None, None, None, None,
      None, None, None, None,
      None, None, None, None,
      None, None, None, None,
      None, None, None, None,
      None, None, None, None,
      None, None, Some ''inf'', Some ''nan'']"

section \<open>Match functions\<close>

definition MASK_RS1 :: insn_t where "MASK_RS1 = shl OP_MASK_RS1 OP_SH_RS1"
definition MASK_RS2 :: insn_t where "MASK_RS2 = shl OP_MASK_RS2 OP_SH_RS2"
definition MASK_RD :: insn_t where "MASK_RD = shl OP_MASK_RD OP_SH_RD"
definition MASK_CRS2 :: insn_t where "MASK_CRS2 = shl OP_MASK_CRS2 OP_SH_CRS2"
definition MASK_VD :: insn_t where "MASK_VD = shl OP_MASK_VD OP_SH_VD"
definition MASK_VS1 :: insn_t where "MASK_VS1 = shl OP_MASK_VS1 OP_SH_VS1"
definition MASK_VS2 :: insn_t where "MASK_VS2 = shl OP_MASK_VS2 OP_SH_VS2"

definition match_opcode :: "riscv_opcode \<Rightarrow> insn_t \<Rightarrow> bool" where
  "match_opcode op insn \<longleftrightarrow> (insn XOR op_match op) AND op_mask op = 0"

definition match_rs1_eq_rs2 :: "riscv_opcode \<Rightarrow> insn_t \<Rightarrow> bool" where
  "match_rs1_eq_rs2 op insn =
     (let rs1 = shr (insn AND MASK_RS1) OP_SH_RS1; rs2 = shr (insn AND MASK_RS2) OP_SH_RS2
      in match_opcode op insn \<and> rs1 = rs2)"

definition match_rd_nonzero :: "riscv_opcode \<Rightarrow> insn_t \<Rightarrow> bool" where
  "match_rd_nonzero op insn \<longleftrightarrow>
     (op_pinfo op = INSN_MACRO \<or> match_opcode op insn) \<and> insn AND MASK_RD \<noteq> 0"

definition match_rs1_nonzero :: "riscv_opcode \<Rightarrow> insn_t \<Rightarrow> bool" where
  "match_rs1_nonzero op insn \<longleftrightarrow> insn AND MASK_RS1 \<noteq> 0"

definition match_c_add :: "riscv_opcode \<Rightarrow> insn_t \<Rightarrow> bool" where
  "match_c_add op insn \<longleftrightarrow> match_rd_nonzero op insn \<and> insn AND MASK_CRS2 \<noteq> 0"

definition match_c_add_with_hint :: "riscv_opcode \<Rightarrow> insn_t \<Rightarrow> bool" where
  "match_c_add_with_hint op insn \<longleftrightarrow> match_opcode op insn \<and> insn AND MASK_CRS2 \<noteq> 0"

definition match_c_nop :: "riscv_opcode \<Rightarrow> insn_t \<Rightarrow> bool" where
  "match_c_nop op insn \<longleftrightarrow> match_opcode op insn \<and> shr (insn AND MASK_RD) OP_SH_RD = 0"

definition match_c_addi16sp :: "riscv_opcode \<Rightarrow> insn_t \<Rightarrow> bool" where
  "match_c_addi16sp op insn \<longleftrightarrow> match_opcode op insn \<and> shr (insn AND MASK_RD) OP_SH_RD = 2"

definition match_c_lui :: "riscv_opcode \<Rightarrow> insn_t \<Rightarrow> bool" where
  "match_c_lui op insn \<longleftrightarrow>
     match_rd_nonzero op insn \<and> shr (insn AND MASK_RD) OP_SH_RD \<noteq> 2 \<and>
     EXTRACT_CITYPE_LUI_IMM insn \<noteq> 0"

definition match_c_lui_with_hint :: "riscv_opcode \<Rightarrow> insn_t \<Rightarrow> bool" where
  "match_c_lui_with_hint op insn \<longleftrightarrow>
     match_opcode op insn \<and> shr (insn AND MASK_RD) OP_SH_RD \<noteq> 2 \<and>
     EXTRACT_CITYPE_LUI_IMM insn \<noteq> 0"

definition match_c_addi4spn :: "riscv_opcode \<Rightarrow> insn_t \<Rightarrow> bool" where
  "match_c_addi4spn op insn \<longleftrightarrow> match_opcode op insn \<and> EXTRACT_CIWTYPE_ADDI4SPN_IMM insn \<noteq> 0"

definition match_c_slli :: "riscv_opcode \<Rightarrow> insn_t \<Rightarrow> bool" where
  "match_c_slli op insn \<longleftrightarrow> match_opcode op insn \<and> EXTRACT_CITYPE_IMM insn \<noteq> 0"

definition match_slli_as_c_slli :: "riscv_opcode \<Rightarrow> insn_t \<Rightarrow> bool" where
  "match_slli_as_c_slli op insn \<longleftrightarrow> match_rd_nonzero op insn \<and> EXTRACT_CITYPE_IMM insn \<noteq> 0"

definition match_c_slli64 :: "riscv_opcode \<Rightarrow> insn_t \<Rightarrow> bool" where
  "match_c_slli64 op insn \<longleftrightarrow> match_opcode op insn \<and> EXTRACT_CITYPE_IMM insn = 0"

definition match_srxi_as_c_srxi :: "riscv_opcode \<Rightarrow> insn_t \<Rightarrow> bool" where
  "match_srxi_as_c_srxi op insn \<longleftrightarrow> match_opcode op insn \<and> EXTRACT_CITYPE_IMM insn \<noteq> 0"

definition match_vs1_eq_vs2 :: "riscv_opcode \<Rightarrow> insn_t \<Rightarrow> bool" where
  "match_vs1_eq_vs2 op insn =
     (let vs1 = shr (insn AND MASK_VS1) OP_SH_VS1; vs2 = shr (insn AND MASK_VS2) OP_SH_VS2
      in match_opcode op insn \<and> vs1 = vs2)"

definition match_vd_eq_vs1_eq_vs2 :: "riscv_opcode \<Rightarrow> insn_t \<Rightarrow> bool" where
  "match_vd_eq_vs1_eq_vs2 op insn =
     (let vd = shr (insn AND MASK_VD) OP_SH_VD; vs1 = shr (insn AND MASK_VS1) OP_SH_VS1;
          vs2 = shr (insn AND MASK_VS2) OP_SH_VS2
      in match_opcode op insn \<and> vd = vs1 \<and> vs1 = vs2)"

definition match_th_load_inc :: "riscv_opcode \<Rightarrow> insn_t \<Rightarrow> bool" where
  "match_th_load_inc op insn =
     (let rd = shr (insn AND MASK_RD) OP_SH_RD; rs1 = shr (insn AND MASK_RS1) OP_SH_RS1
      in rd \<noteq> rs1 \<and> match_opcode op insn)"

definition match_th_load_pair :: "riscv_opcode \<Rightarrow> insn_t \<Rightarrow> bool" where
  "match_th_load_pair op insn =
     (let rd1 = shr (insn AND MASK_RD) OP_SH_RD; rd2 = shr (insn AND MASK_RS2) OP_SH_RS2;
          rs = shr (insn AND MASK_RS1) OP_SH_RS1
      in rd1 \<noteq> rd2 \<and> rd1 \<noteq> rs \<and> rd2 \<noteq> rs \<and> match_opcode op insn)"

fun call_match_func :: "match_fn \<Rightarrow> riscv_opcode \<Rightarrow> insn_t \<Rightarrow> bool option" where
  "call_match_func MF_NULL op insn = None"
| "call_match_func MF_match_opcode op insn = Some (match_opcode op insn)"
| "call_match_func MF_match_rs1_eq_rs2 op insn = Some (match_rs1_eq_rs2 op insn)"
| "call_match_func MF_match_rd_nonzero op insn = Some (match_rd_nonzero op insn)"
| "call_match_func MF_match_rs1_nonzero op insn = Some (match_rs1_nonzero op insn)"
| "call_match_func MF_match_c_add op insn = Some (match_c_add op insn)"
| "call_match_func MF_match_c_add_with_hint op insn = Some (match_c_add_with_hint op insn)"
| "call_match_func MF_match_c_nop op insn = Some (match_c_nop op insn)"
| "call_match_func MF_match_c_addi16sp op insn = Some (match_c_addi16sp op insn)"
| "call_match_func MF_match_c_lui op insn = Some (match_c_lui op insn)"
| "call_match_func MF_match_c_lui_with_hint op insn = Some (match_c_lui_with_hint op insn)"
| "call_match_func MF_match_c_addi4spn op insn = Some (match_c_addi4spn op insn)"
| "call_match_func MF_match_c_slli op insn = Some (match_c_slli op insn)"
| "call_match_func MF_match_slli_as_c_slli op insn = Some (match_slli_as_c_slli op insn)"
| "call_match_func MF_match_c_slli64 op insn = Some (match_c_slli64 op insn)"
| "call_match_func MF_match_srxi_as_c_srxi op insn = Some (match_srxi_as_c_srxi op insn)"
| "call_match_func MF_match_vs1_eq_vs2 op insn = Some (match_vs1_eq_vs2 op insn)"
| "call_match_func MF_match_vd_eq_vs1_eq_vs2 op insn = Some (match_vd_eq_vs1_eq_vs2 op insn)"
| "call_match_func MF_match_th_load_inc op insn = Some (match_th_load_inc op insn)"
| "call_match_func MF_match_th_load_pair op insn = Some (match_th_load_pair op insn)"

section \<open>What a successful match says\<close>

lemmas match_func_defs =
  match_rs1_eq_rs2_def
  match_rd_nonzero_def
  match_rs1_nonzero_def
  match_c_add_def
  match_c_add_with_hint_def
  match_c_nop_def
  match_c_addi16sp_def
  match_c_lui_def
  match_c_lui_with_hint_def
  match_c_addi4spn_def
  match_c_slli_def
  match_slli_as_c_slli_def
  match_c_slli64_def
  match_srxi_as_c_srxi_def
  match_vs1_eq_vs2_def
  match_vd_eq_vs1_eq_vs2_def
  match_th_load_inc_def
  match_th_load_pair_def

text \<open>
  Apart from the register test used by macros, every match function implies agreement with the
  entry's opcode bits.
\<close>

lemma match_implies_opcode:
  assumes "call_match_func f op insn = Some True" and "f \<noteq> MF_match_rs1_nonzero"
    and "op_pinfo op \<noteq> INSN_MACRO"
  shows "match_opcode op insn"
  using assms by (cases f) (auto simp: match_func_defs Let_def)

lemma match_opcode_iff_bits:
  "match_opcode op insn \<longleftrightarrow> (\<forall>i. bit (op_mask op) i \<longrightarrow> bit insn i = bit (op_match op) i)"
  by (auto simp: match_opcode_def bit_eq_iff bit_simps dest: bit_word_bound)

lemma match_opcode_and:
  assumes "match_opcode op insn" and "op_mask op AND m = m"
  shows "insn AND m = op_match op AND m"
proof (rule bit_eqI)
  fix n
  have "bit m n \<Longrightarrow> bit (op_mask op) n"
    using assms(2) by (metis bit_and_iff)
  then show "bit (insn AND m) n = bit (op_match op AND m) n"
    using assms(1) by (auto simp: match_opcode_iff_bits bit_simps)
qed

end
