(* ===== verification/RV_Validate.thy ===== *)
theory RV_Validate
  imports RV_Opcode
begin

text \<open>
  The consistency check the assembler runs over its opcode tables when it starts:
  \<open>validate_riscv_insn\<close> and \<open>init_opcode_hash\<close> of \<^verbatim>\<open>gas/config/tc-riscv.c\<close>.  A table entry is
  accepted when every bit of the instruction is fixed by the entry's mask or covered by one of
  its operands.

  \<open>operand_use\<close> is one round of the loop over the operand string: it consumes one operand and
  returns the rest of the string with the bits the operand covers, or nothing when the operand
  letter is unknown (the end of the string inside an operand reads the terminating NUL, which no
  case accepts).  The loop ORs these bits into \<open>used_bits\<close>.
\<close>

section \<open>The decimal numbers inside vendor operands\<close>

definition ISSPACE :: "char \<Rightarrow> bool" where
  "ISSPACE c \<longleftrightarrow> (of_char c :: nat) \<in> {9, 10, 11, 12, 13, 32}"

fun digits_value :: "nat \<Rightarrow> string \<Rightarrow> nat" where
  "digits_value v [] = v"
| "digits_value v (c # cs) = digits_value (10 * v + (of_char c - 48)) cs"

text \<open>
  \<open>strtol (s, &end, 10)\<close>: the value and the text after it.  The operand strings have an
  unsigned number here, so the sign is read but a negative value is out of use; the value is
  cut to \<open>LONG_MAX\<close> as the library does.
\<close>

definition strtol10 :: "string \<Rightarrow> int \<times> string" where
  "strtol10 s =
     (let t = dropWhile ISSPACE s;
          neg = (t \<noteq> [] \<and> hd t = CHR ''-'');
          u = (if t \<noteq> [] \<and> (hd t = CHR ''-'' \<or> hd t = CHR ''+'') then tl t else t);
          ds = takeWhile ISDIGIT u;
          v = int (digits_value 0 ds)
      in if ds = [] then (0, s)
         else ((if neg then max (- v) (- (2 ^ 63)) else min v (2 ^ 63 - 1)), dropWhile ISDIGIT u))"

section \<open>The bits an operand covers\<close>

abbreviation (input) USE_BITS :: "insn_t \<Rightarrow> nat \<Rightarrow> insn_t" where
  "USE_BITS msk sh \<equiv> shl msk sh"

definition USE_IMM :: "nat \<Rightarrow> nat \<Rightarrow> insn_t" where
  "USE_IMM n s = shl (shl 1 n - 1) s"

text \<open>The constant \<open>-1U\<close>.\<close>

abbreviation (input) ALL_ONES :: insn_t where
  "ALL_ONES \<equiv> 0xffffffff"

definition operand_use_CF :: "string \<Rightarrow> (string \<times> insn_t) option" where
  "operand_use_CF s =
     (case s of [] \<Rightarrow> None | c # r \<Rightarrow>
        if c = CHR ''6'' then Some (r, USE_BITS OP_MASK_CFUNCT6 OP_SH_CFUNCT6)
        else if c = CHR ''4'' then Some (r, USE_BITS OP_MASK_CFUNCT4 OP_SH_CFUNCT4)
        else if c = CHR ''3'' then Some (r, USE_BITS OP_MASK_CFUNCT3 OP_SH_CFUNCT3)
        else if c = CHR ''2'' then Some (r, USE_BITS OP_MASK_CFUNCT2 OP_SH_CFUNCT2)
        else None)"

definition operand_use_C :: "string \<Rightarrow> (string \<times> insn_t) option" where
  "operand_use_C s =
     (case s of [] \<Rightarrow> None | c # r \<Rightarrow>
        if c = CHR ''U'' then Some (r, 0)
        else if c = CHR ''c'' then Some (r, 0)
        else if c = CHR ''T'' \<or> c = CHR ''V'' then Some (r, USE_BITS OP_MASK_CRS2 OP_SH_CRS2)
        else if c = CHR ''S'' \<or> c = CHR ''s'' then Some (r, USE_BITS OP_MASK_CRS1S OP_SH_CRS1S)
        else if c = CHR ''w'' then Some (r, 0)
        else if c = CHR ''D'' \<or> c = CHR ''t'' then Some (r, USE_BITS OP_MASK_CRS2S OP_SH_CRS2S)
        else if c = CHR ''x'' then Some (r, 0)
        else if c = CHR ''z'' then Some (r, 0)
        else if c = CHR ''>'' \<or> c = CHR ''u'' \<or> c = CHR ''v'' \<or> c = CHR ''o'' \<or> c = CHR ''j''
          then Some (r, ENCODE_CITYPE_IMM ALL_ONES)
        else if c = CHR ''L'' then Some (r, ENCODE_CITYPE_ADDI16SP_IMM ALL_ONES)
        else if c = CHR ''m'' then Some (r, ENCODE_CITYPE_LWSP_IMM ALL_ONES)
        else if c = CHR ''n'' then Some (r, ENCODE_CITYPE_LDSP_IMM ALL_ONES)
        else if c = CHR ''6'' then Some (r, ENCODE_CSSTYPE_IMM ALL_ONES)
        else if c = CHR ''M'' then Some (r, ENCODE_CSSTYPE_SWSP_IMM ALL_ONES)
        else if c = CHR ''N'' then Some (r, ENCODE_CSSTYPE_SDSP_IMM ALL_ONES)
        else if c = CHR ''8'' then Some (r, ENCODE_CIWTYPE_IMM ALL_ONES)
        else if c = CHR ''K'' then Some (r, ENCODE_CIWTYPE_ADDI4SPN_IMM ALL_ONES)
        else if c = CHR ''5'' then Some (r, ENCODE_CLTYPE_IMM ALL_ONES)
        else if c = CHR ''k'' then Some (r, ENCODE_CLTYPE_LW_IMM ALL_ONES)
        else if c = CHR ''l'' then Some (r, ENCODE_CLTYPE_LD_IMM ALL_ONES)
        else if c = CHR ''p'' then Some (r, ENCODE_CBTYPE_IMM ALL_ONES)
        else if c = CHR ''a'' then Some (r, ENCODE_CJTYPE_IMM ALL_ONES)
        else if c = CHR ''F'' then operand_use_CF r
        else None)"

definition operand_use_V :: "string \<Rightarrow> (string \<times> insn_t) option" where
  "operand_use_V s =
     (case s of [] \<Rightarrow> None | c # r \<Rightarrow>
        if c = CHR ''d'' \<or> c = CHR ''f'' then Some (r, USE_BITS OP_MASK_VD OP_SH_VD)
        else if c = CHR ''e'' then Some (r, USE_BITS OP_MASK_VWD OP_SH_VWD)
        else if c = CHR ''s'' then Some (r, USE_BITS OP_MASK_VS1 OP_SH_VS1)
        else if c = CHR ''t'' then Some (r, USE_BITS OP_MASK_VS2 OP_SH_VS2)
        else if c = CHR ''u''
          then Some (r, USE_BITS OP_MASK_VS1 OP_SH_VS1 OR USE_BITS OP_MASK_VS2 OP_SH_VS2)
        else if c = CHR ''v''
          then Some (r, USE_BITS OP_MASK_VD OP_SH_VD OR USE_BITS OP_MASK_VS1 OP_SH_VS1 OR
                        USE_BITS OP_MASK_VS2 OP_SH_VS2)
        else if c = CHR ''0'' then Some (r, 0)
        else if c = CHR ''b'' then Some (r, ENCODE_RVV_VB_IMM ALL_ONES)
        else if c = CHR ''c'' then Some (r, ENCODE_RVV_VC_IMM ALL_ONES)
        else if c = CHR ''i'' \<or> c = CHR ''j'' \<or> c = CHR ''k''
          then Some (r, USE_BITS OP_MASK_VIMM OP_SH_VIMM)
        else if c = CHR ''l'' then Some (r, ENCODE_RVV_VI_UIMM6 ALL_ONES)
        else if c = CHR ''m'' then Some (r, USE_BITS OP_MASK_VMASK OP_SH_VMASK)
        else if c = CHR ''M'' then Some (r, 0)
        else if c = CHR ''T'' then Some (r, 0)
        else None)"

definition operand_use_W :: "string \<Rightarrow> (string \<times> insn_t) option" where
  "operand_use_W s =
     (case s of
        c # d # r \<Rightarrow>
          if c = CHR ''i''
            then (if d = CHR ''f'' then Some (r, ENCODE_STYPE_IMM ALL_ONES) else None)
          else if c = CHR ''f''
            then (if d = CHR ''v'' then Some (r, USE_BITS OP_MASK_RS1 OP_SH_RS1) else None)
          else if c = CHR ''c''
            then (if d = CHR ''h'' then Some (r, ENCODE_ZCB_HALFWORD_UIMM ALL_ONES)
                  else if d = CHR ''b'' then Some (r, ENCODE_ZCB_BYTE_UIMM ALL_ONES)
                  else if d = CHR ''f'' then Some (r, 0)
                  else None)
          else None
      | _ \<Rightarrow> None)"

text \<open>T-Head operands: \<open>XtVc\<close>, a literal \<open>Xtl...\<close> up to the next comma, and \<open>XtsN@S\<close>/\<open>XtuN@S\<close>.\<close>

definition operand_use_Xt_imm :: "string \<Rightarrow> (string \<times> insn_t) option" where
  "operand_use_Xt_imm s =
     (case strtol10 s of (n, u) \<Rightarrow>
        (case u of
           c # r \<Rightarrow>
             if c = CHR ''@''
             then (case strtol10 r of (p, v) \<Rightarrow> Some (v, USE_IMM (nat n) (nat p)))
             else None
         | [] \<Rightarrow> None))"

definition operand_use_Xt :: "string \<Rightarrow> (string \<times> insn_t) option" where
  "operand_use_Xt s =
     (case s of [] \<Rightarrow> None | c # r \<Rightarrow>
        if c = CHR ''V''
          then (case r of [] \<Rightarrow> None | d # r' \<Rightarrow>
                  if d = CHR ''c'' then Some (r', ENCODE_RVV_VC_IMM ALL_ONES) else None)
        else if c = CHR ''l'' then Some (dropWhile (\<lambda>d. d \<noteq> CHR '','') s, 0)
        else if c = CHR ''s'' \<or> c = CHR ''u'' then operand_use_Xt_imm r
        else None)"

definition operand_use_Xc :: "string \<Rightarrow> (string \<times> insn_t) option" where
  "operand_use_Xc s =
     (case s of [] \<Rightarrow> None | c # r \<Rightarrow>
        if c = CHR ''2'' then Some (r, ENCODE_CV_IS2_UIMM5 ALL_ONES)
        else if c = CHR ''3'' then Some (r, ENCODE_CV_IS3_UIMM5 ALL_ONES)
        else None)"

definition operand_use_Xs :: "string \<Rightarrow> (string \<times> insn_t) option" where
  "operand_use_Xs s =
     (case s of [] \<Rightarrow> None | c # r \<Rightarrow>
        if c = CHR ''d'' then Some (r, USE_BITS OP_MASK_RD OP_SH_RD)
        else if c = CHR ''t'' then Some (r, USE_BITS OP_MASK_RS2 OP_SH_RS2)
        else if c = CHR ''O''
          then (case r of [] \<Rightarrow> None | d # r' \<Rightarrow>
                  if d = CHR ''2'' then Some (r', USE_BITS OP_MASK_XSO2 OP_SH_XSO2)
                  else if d = CHR ''1'' then Some (r', USE_BITS OP_MASK_XSO1 OP_SH_XSO1)
                  else None)
        else None)"

definition operand_use_X :: "string \<Rightarrow> (string \<times> insn_t) option" where
  "operand_use_X s =
     (case s of [] \<Rightarrow> None | c # r \<Rightarrow>
        if c = CHR ''t'' then operand_use_Xt r
        else if c = CHR ''c'' then operand_use_Xc r
        else if c = CHR ''s'' then operand_use_Xs r
        else None)"

definition operand_use_F :: "string \<Rightarrow> (string \<times> insn_t) option" where
  "operand_use_F s =
     (case s of [] \<Rightarrow> None | c # r \<Rightarrow>
        if c = CHR ''7'' then Some (r, USE_BITS OP_MASK_FUNCT7 OP_SH_FUNCT7)
        else if c = CHR ''3'' then Some (r, USE_BITS OP_MASK_FUNCT3 OP_SH_FUNCT3)
        else if c = CHR ''2'' then Some (r, USE_BITS OP_MASK_FUNCT2 OP_SH_FUNCT2)
        else None)"

definition operand_use_O :: "string \<Rightarrow> (string \<times> insn_t) option" where
  "operand_use_O s =
     (case s of [] \<Rightarrow> None | c # r \<Rightarrow>
        if c = CHR ''4'' then Some (r, USE_BITS OP_MASK_OP OP_SH_OP)
        else if c = CHR ''2'' then Some (r, USE_BITS OP_MASK_OP2 OP_SH_OP2)
        else None)"

definition operand_use :: "char \<Rightarrow> string \<Rightarrow> (string \<times> insn_t) option" where
  "operand_use c r =
     (if c = CHR ''C'' then operand_use_C r
      else if c = CHR ''V'' then operand_use_V r
      else if c = CHR '','' \<or> c = CHR ''('' \<or> c = CHR '')'' then Some (r, 0)
      else if c = CHR ''<'' then Some (r, USE_BITS OP_MASK_SHAMTW OP_SH_SHAMTW)
      else if c = CHR ''>'' then Some (r, USE_BITS OP_MASK_SHAMT OP_SH_SHAMT)
      else if c = CHR ''A'' \<or> c = CHR ''B'' \<or> c = CHR ''c'' \<or> c = CHR ''I'' then Some (r, 0)
      else if c = CHR ''D'' \<or> c = CHR ''d'' then Some (r, USE_BITS OP_MASK_RD OP_SH_RD)
      else if c = CHR ''y'' then Some (r, USE_BITS OP_MASK_BS OP_SH_BS)
      else if c = CHR ''Y'' then Some (r, USE_BITS OP_MASK_RNUM OP_SH_RNUM)
      else if c = CHR ''Z'' \<or> c = CHR ''S'' \<or> c = CHR ''s''
        then Some (r, USE_BITS OP_MASK_RS1 OP_SH_RS1)
      else if c = CHR ''U''
        then Some (r, USE_BITS OP_MASK_RS1 OP_SH_RS1 OR USE_BITS OP_MASK_RS2 OP_SH_RS2)
      else if c = CHR ''T'' \<or> c = CHR ''t'' then Some (r, USE_BITS OP_MASK_RS2 OP_SH_RS2)
      else if c = CHR ''R'' \<or> c = CHR ''r'' then Some (r, USE_BITS OP_MASK_RS3 OP_SH_RS3)
      else if c = CHR ''m'' then Some (r, USE_BITS OP_MASK_RM OP_SH_RM)
      else if c = CHR ''E'' then Some (r, USE_BITS OP_MASK_CSR OP_SH_CSR)
      else if c = CHR ''P'' then Some (r, USE_BITS OP_MASK_PRED OP_SH_PRED)
      else if c = CHR ''Q'' then Some (r, USE_BITS OP_MASK_SUCC OP_SH_SUCC)
      else if c = CHR ''o'' \<or> c = CHR ''j'' then Some (r, ENCODE_ITYPE_IMM ALL_ONES)
      else if c = CHR ''a'' then Some (r, ENCODE_JTYPE_IMM ALL_ONES)
      else if c = CHR ''p'' then Some (r, ENCODE_BTYPE_IMM ALL_ONES)
      else if c = CHR ''q'' then Some (r, ENCODE_STYPE_IMM ALL_ONES)
      else if c = CHR ''u'' then Some (r, ENCODE_UTYPE_IMM ALL_ONES)
      else if c = CHR ''z'' \<or> c = CHR ''['' \<or> c = CHR '']'' \<or> c = CHR ''0'' \<or> c = CHR ''1''
        then Some (r, 0)
      else if c = CHR ''F'' then operand_use_F r
      else if c = CHR ''O'' then operand_use_O r
      else if c = CHR ''W'' then operand_use_W r
      else if c = CHR ''X'' then operand_use_X r
      else None)"

lemmas operand_use_defs =
  operand_use_CF_def operand_use_C_def operand_use_V_def operand_use_W_def
  operand_use_Xt_imm_def operand_use_Xt_def operand_use_Xc_def operand_use_Xs_def
  operand_use_X_def operand_use_F_def operand_use_O_def operand_use_def

section \<open>The loop over the operand string ends\<close>

lemma length_dropWhile_tl: "length (dropWhile P (tl (dropWhile Q s))) \<le> length s"
  by (metis diff_le_self dual_order.trans length_dropWhile_le length_tl)

lemma length_strtol10: "strtol10 s = (n, r) \<Longrightarrow> length r \<le> length s"
  using length_dropWhile_tl [of ISDIGIT ISSPACE s] length_dropWhile_le [of ISDIGIT "dropWhile ISSPACE s"]
    length_dropWhile_le [of ISSPACE s]
  by (auto simp: strtol10_def Let_def split: if_splits)

lemma length_operand_use_Xt_imm: "operand_use_Xt_imm s = Some (r, b) \<Longrightarrow> length r \<le> length s"
  by (fastforce simp: operand_use_Xt_imm_def split: prod.splits list.splits if_splits
      dest: length_strtol10)

lemma length_operand_use_Xt: "operand_use_Xt s = Some (r, b) \<Longrightarrow> length r \<le> length s"
  using length_dropWhile_le [of "\<lambda>d. d \<noteq> CHR '',''" s]
  by (auto simp: operand_use_Xt_def split: list.splits if_splits dest: length_operand_use_Xt_imm)

lemma length_operand_use_C: "operand_use_C s = Some (r, b) \<Longrightarrow> length r \<le> length s"
  by (auto simp: operand_use_C_def operand_use_CF_def split: list.splits if_splits)

lemma length_operand_use_V: "operand_use_V s = Some (r, b) \<Longrightarrow> length r \<le> length s"
  by (auto simp: operand_use_V_def split: list.splits if_splits)

lemma length_operand_use_X: "operand_use_X s = Some (r, b) \<Longrightarrow> length r \<le> length s"
  by (auto simp: operand_use_X_def operand_use_Xc_def operand_use_Xs_def
      split: list.splits if_splits dest: length_operand_use_Xt)

lemma length_operand_use: "operand_use c s = Some (r, b) \<Longrightarrow> length r \<le> length s"
  by (auto simp: operand_use_def operand_use_F_def operand_use_O_def operand_use_W_def
      split: list.splits if_splits
      dest: length_operand_use_C length_operand_use_V length_operand_use_X)

text \<open>
  The loop over \<open>opc->args\<close>: \<open>Inl\<close> is the jump to \<open>unknown_validate_operand\<close> with the text from
  the offending operand on, \<open>Inr\<close> the accumulated \<open>used_bits\<close>.
\<close>

function validate_args :: "string \<Rightarrow> insn_t \<Rightarrow> string + insn_t" where
  "validate_args [] used = Inr used"
| "validate_args (c # s) used =
     (case operand_use c s of
        None \<Rightarrow> Inl (c # s)
      | Some (r, b) \<Rightarrow> validate_args r (used OR b))"
  by pat_completeness auto
termination
  by (relation "measure (\<lambda>(s, _). length s)") (auto dest!: length_operand_use)

section \<open>Checking one entry\<close>

datatype validate_error =
    Mask_error | Unknown_operand string | Bits_undefined insn_t

definition required_bits :: "nat \<Rightarrow> insn_t" where
  "required_bits len = shr (- 1) (64 - 8 * len)"

definition validate_riscv_insn :: "riscv_opcode \<Rightarrow> nat \<Rightarrow> validate_error + unit" where
  "validate_riscv_insn op len =
     (let len1 = (if len = 0 then riscv_insn_length (op_match op) else len);
          len2 = (if len1 > 8 then 8 else len1);
          required = required_bits len2
      in if op_mask op AND op_match op \<noteq> op_match op AND required then Inl Mask_error
         else case validate_args (op_args op) (op_mask op) of
                Inl s \<Rightarrow> Inl (Unknown_operand s)
              | Inr used \<Rightarrow>
                  if used \<noteq> required then Inl (Bits_undefined (used XOR required)) else Inr ())"

section \<open>Building the table index\<close>

datatype init_error =
    Duplicate string | Broken validate_error | Assertion_failed

definition check_entry :: "bool \<Rightarrow> string \<Rightarrow> riscv_opcode \<Rightarrow> init_error + unit" where
  "check_entry insn_directive_p nm op =
     (if op_pinfo op \<noteq> INSN_MACRO
      then (let len = (if insn_directive_p then (if nm \<noteq> [] \<and> hd nm = CHR ''c'' then 2 else 4)
                       else 0)
            in case validate_riscv_insn op len of Inl e \<Rightarrow> Inl (Broken e) | Inr u \<Rightarrow> Inr u)
      else if insn_directive_p then Inl Assertion_failed else Inr ())"

fun check_group :: "bool \<Rightarrow> string \<Rightarrow> riscv_opcode list \<Rightarrow> init_error + unit" where
  "check_group d nm [] = Inr ()"
| "check_group d nm (op # ops) =
     (case check_entry d nm op of Inl e \<Rightarrow> Inl e | Inr u \<Rightarrow> check_group d nm ops)"

text \<open>
  The outer loop: the name at position \<open>i\<close> is entered once, then the entries that follow with
  the same name are checked with it.  The index maps a name to the position of its first entry.
\<close>

function init_opcode_hash_from ::
    "bool \<Rightarrow> nat \<Rightarrow> riscv_opcode list \<Rightarrow> (string \<rightharpoonup> nat) \<Rightarrow> init_error + (string \<rightharpoonup> nat)" where
  "init_opcode_hash_from d i [] h = Inr h"
| "init_opcode_hash_from d i (op # ops) h =
     (let nm = op_name op;
          grp = takeWhile (\<lambda>o1. op_name o1 = nm) ops
      in if h nm \<noteq> None then Inl (Duplicate nm)
         else case check_group d nm (op # grp) of
                Inl e \<Rightarrow> Inl e
              | Inr u \<Rightarrow>
                  init_opcode_hash_from d (i + 1 + length grp) (drop (length grp) ops)
                    (h(nm \<mapsto> i)))"
  by pat_completeness auto
termination
  by (relation "measure (\<lambda>(_, _, ops, _). length ops)") auto

definition init_opcode_hash :: "bool \<Rightarrow> riscv_opcode list \<Rightarrow> init_error + (string \<rightharpoonup> nat)" where
  "init_opcode_hash d ops = init_opcode_hash_from d 0 ops Map.empty"

section \<open>Evaluating the check\<close>

text \<open>The field masks as numbers, and the operand letters as rewrite rules.\<close>

lemma encode_all_ones:
  "ENCODE_BTYPE_IMM 0xffffffff = 0xfe000f80"
  "ENCODE_CBTYPE_IMM 0xffffffff = 0x1c7c"
  "ENCODE_CITYPE_ADDI16SP_IMM 0xffffffff = 0x107c"
  "ENCODE_CITYPE_IMM 0xffffffff = 0x107c"
  "ENCODE_CITYPE_LDSP_IMM 0xffffffff = 0x107c"
  "ENCODE_CITYPE_LWSP_IMM 0xffffffff = 0x107c"
  "ENCODE_CIWTYPE_ADDI4SPN_IMM 0xffffffff = 0x1fe0"
  "ENCODE_CIWTYPE_IMM 0xffffffff = 0x1fe0"
  "ENCODE_CJTYPE_IMM 0xffffffff = 0x1ffc"
  "ENCODE_CLTYPE_IMM 0xffffffff = 0x1c60"
  "ENCODE_CLTYPE_LD_IMM 0xffffffff = 0x1c60"
  "ENCODE_CLTYPE_LW_IMM 0xffffffff = 0x1c60"
  "ENCODE_CSSTYPE_IMM 0xffffffff = 0x1f80"
  "ENCODE_CSSTYPE_SDSP_IMM 0xffffffff = 0x1f80"
  "ENCODE_CSSTYPE_SWSP_IMM 0xffffffff = 0x1f80"
  "ENCODE_CV_IS2_UIMM5 0xffffffff = 0x1f00000"
  "ENCODE_CV_IS3_UIMM5 0xffffffff = 0x3e000000"
  "ENCODE_ITYPE_IMM 0xffffffff = 0xfff00000"
  "ENCODE_JTYPE_IMM 0xffffffff = 0xfffff000"
  "ENCODE_RVV_VB_IMM 0xffffffff = 0x3ff00000"
  "ENCODE_RVV_VC_IMM 0xffffffff = 0x7ff00000"
  "ENCODE_RVV_VI_UIMM6 0xffffffff = 0x40f8000"
  "ENCODE_STYPE_IMM 0xffffffff = 0xfe000f80"
  "ENCODE_UTYPE_IMM 0xffffffff = 0xfffff000"
  "ENCODE_ZCB_BYTE_UIMM 0xffffffff = 0x60"
  "ENCODE_ZCB_HALFWORD_UIMM 0xffffffff = 0x20"
  by (simp_all add: RV_X_def shl_def shr_def
      ENCODE_BTYPE_IMM_def
      ENCODE_CBTYPE_IMM_def
      ENCODE_CITYPE_ADDI16SP_IMM_def
      ENCODE_CITYPE_IMM_def
      ENCODE_CITYPE_LDSP_IMM_def
      ENCODE_CITYPE_LWSP_IMM_def
      ENCODE_CIWTYPE_ADDI4SPN_IMM_def
      ENCODE_CIWTYPE_IMM_def
      ENCODE_CJTYPE_IMM_def
      ENCODE_CLTYPE_IMM_def
      ENCODE_CLTYPE_LD_IMM_def
      ENCODE_CLTYPE_LW_IMM_def
      ENCODE_CSSTYPE_IMM_def
      ENCODE_CSSTYPE_SDSP_IMM_def
      ENCODE_CSSTYPE_SWSP_IMM_def
      ENCODE_CV_IS2_UIMM5_def
      ENCODE_CV_IS3_UIMM5_def
      ENCODE_ITYPE_IMM_def
      ENCODE_JTYPE_IMM_def
      ENCODE_RVV_VB_IMM_def
      ENCODE_RVV_VC_IMM_def
      ENCODE_RVV_VI_UIMM6_def
      ENCODE_STYPE_IMM_def
      ENCODE_UTYPE_IMM_def
      ENCODE_ZCB_BYTE_UIMM_def
      ENCODE_ZCB_HALFWORD_UIMM_def)

lemma operand_use_eval:
  "operand_use (CHR '','') r = Some (r, 0)"
  "operand_use (CHR ''('') r = Some (r, 0)"
  "operand_use (CHR '')'') r = Some (r, 0)"
  "operand_use (CHR ''<'') r = Some (r, 0x1f00000)"
  "operand_use (CHR ''>'') r = Some (r, 0x3f00000)"
  "operand_use (CHR ''A'') r = Some (r, 0)"
  "operand_use (CHR ''B'') r = Some (r, 0)"
  "operand_use (CHR ''c'') r = Some (r, 0)"
  "operand_use (CHR ''I'') r = Some (r, 0)"
  "operand_use (CHR ''D'') r = Some (r, 0xf80)"
  "operand_use (CHR ''d'') r = Some (r, 0xf80)"
  "operand_use (CHR ''y'') r = Some (r, 0xc0000000)"
  "operand_use (CHR ''Y'') r = Some (r, 0xf00000)"
  "operand_use (CHR ''Z'') r = Some (r, 0xf8000)"
  "operand_use (CHR ''S'') r = Some (r, 0xf8000)"
  "operand_use (CHR ''s'') r = Some (r, 0xf8000)"
  "operand_use (CHR ''U'') r = Some (r, 0x1ff8000)"
  "operand_use (CHR ''T'') r = Some (r, 0x1f00000)"
  "operand_use (CHR ''t'') r = Some (r, 0x1f00000)"
  "operand_use (CHR ''R'') r = Some (r, 0xf8000000)"
  "operand_use (CHR ''r'') r = Some (r, 0xf8000000)"
  "operand_use (CHR ''m'') r = Some (r, 0x7000)"
  "operand_use (CHR ''E'') r = Some (r, 0xfff00000)"
  "operand_use (CHR ''P'') r = Some (r, 0xf000000)"
  "operand_use (CHR ''Q'') r = Some (r, 0xf00000)"
  "operand_use (CHR ''o'') r = Some (r, 0xfff00000)"
  "operand_use (CHR ''j'') r = Some (r, 0xfff00000)"
  "operand_use (CHR ''a'') r = Some (r, 0xfffff000)"
  "operand_use (CHR ''p'') r = Some (r, 0xfe000f80)"
  "operand_use (CHR ''q'') r = Some (r, 0xfe000f80)"
  "operand_use (CHR ''u'') r = Some (r, 0xfffff000)"
  "operand_use (CHR ''z'') r = Some (r, 0)"
  "operand_use (CHR ''['') r = Some (r, 0)"
  "operand_use (CHR '']'') r = Some (r, 0)"
  "operand_use (CHR ''0'') r = Some (r, 0)"
  "operand_use (CHR ''1'') r = Some (r, 0)"
  "operand_use (CHR ''C'') (CHR ''U'' # r) = Some (r, 0)"
  "operand_use (CHR ''C'') (CHR ''c'' # r) = Some (r, 0)"
  "operand_use (CHR ''C'') (CHR ''T'' # r) = Some (r, 0x7c)"
  "operand_use (CHR ''C'') (CHR ''V'' # r) = Some (r, 0x7c)"
  "operand_use (CHR ''C'') (CHR ''S'' # r) = Some (r, 0x380)"
  "operand_use (CHR ''C'') (CHR ''s'' # r) = Some (r, 0x380)"
  "operand_use (CHR ''C'') (CHR ''w'' # r) = Some (r, 0)"
  "operand_use (CHR ''C'') (CHR ''D'' # r) = Some (r, 0x1c)"
  "operand_use (CHR ''C'') (CHR ''t'' # r) = Some (r, 0x1c)"
  "operand_use (CHR ''C'') (CHR ''x'' # r) = Some (r, 0)"
  "operand_use (CHR ''C'') (CHR ''z'' # r) = Some (r, 0)"
  "operand_use (CHR ''C'') (CHR ''L'' # r) = Some (r, 0x107c)"
  "operand_use (CHR ''C'') (CHR ''m'' # r) = Some (r, 0x107c)"
  "operand_use (CHR ''C'') (CHR ''n'' # r) = Some (r, 0x107c)"
  "operand_use (CHR ''C'') (CHR ''6'' # r) = Some (r, 0x1f80)"
  "operand_use (CHR ''C'') (CHR ''M'' # r) = Some (r, 0x1f80)"
  "operand_use (CHR ''C'') (CHR ''N'' # r) = Some (r, 0x1f80)"
  "operand_use (CHR ''C'') (CHR ''8'' # r) = Some (r, 0x1fe0)"
  "operand_use (CHR ''C'') (CHR ''K'' # r) = Some (r, 0x1fe0)"
  "operand_use (CHR ''C'') (CHR ''5'' # r) = Some (r, 0x1c60)"
  "operand_use (CHR ''C'') (CHR ''k'' # r) = Some (r, 0x1c60)"
  "operand_use (CHR ''C'') (CHR ''l'' # r) = Some (r, 0x1c60)"
  "operand_use (CHR ''C'') (CHR ''p'' # r) = Some (r, 0x1c7c)"
  "operand_use (CHR ''C'') (CHR ''a'' # r) = Some (r, 0x1ffc)"
  "operand_use (CHR ''C'') (CHR ''>'' # r) = Some (r, 0x107c)"
  "operand_use (CHR ''C'') (CHR ''u'' # r) = Some (r, 0x107c)"
  "operand_use (CHR ''C'') (CHR ''v'' # r) = Some (r, 0x107c)"
  "operand_use (CHR ''C'') (CHR ''o'' # r) = Some (r, 0x107c)"
  "operand_use (CHR ''C'') (CHR ''j'' # r) = Some (r, 0x107c)"
  "operand_use (CHR ''C'') (CHR ''F'' # CHR ''6'' # r) = Some (r, 0xfc00)"
  "operand_use (CHR ''C'') (CHR ''F'' # CHR ''4'' # r) = Some (r, 0xf000)"
  "operand_use (CHR ''C'') (CHR ''F'' # CHR ''3'' # r) = Some (r, 0xe000)"
  "operand_use (CHR ''C'') (CHR ''F'' # CHR ''2'' # r) = Some (r, 0x60)"
  "operand_use (CHR ''V'') (CHR ''d'' # r) = Some (r, 0xf80)"
  "operand_use (CHR ''V'') (CHR ''f'' # r) = Some (r, 0xf80)"
  "operand_use (CHR ''V'') (CHR ''e'' # r) = Some (r, 0x4000000)"
  "operand_use (CHR ''V'') (CHR ''s'' # r) = Some (r, 0xf8000)"
  "operand_use (CHR ''V'') (CHR ''t'' # r) = Some (r, 0x1f00000)"
  "operand_use (CHR ''V'') (CHR ''u'' # r) = Some (r, 0x1ff8000)"
  "operand_use (CHR ''V'') (CHR ''v'' # r) = Some (r, 0x1ff8f80)"
  "operand_use (CHR ''V'') (CHR ''0'' # r) = Some (r, 0)"
  "operand_use (CHR ''V'') (CHR ''b'' # r) = Some (r, 0x3ff00000)"
  "operand_use (CHR ''V'') (CHR ''c'' # r) = Some (r, 0x7ff00000)"
  "operand_use (CHR ''V'') (CHR ''i'' # r) = Some (r, 0xf8000)"
  "operand_use (CHR ''V'') (CHR ''j'' # r) = Some (r, 0xf8000)"
  "operand_use (CHR ''V'') (CHR ''k'' # r) = Some (r, 0xf8000)"
  "operand_use (CHR ''V'') (CHR ''l'' # r) = Some (r, 0x40f8000)"
  "operand_use (CHR ''V'') (CHR ''m'' # r) = Some (r, 0x2000000)"
  "operand_use (CHR ''V'') (CHR ''M'' # r) = Some (r, 0)"
  "operand_use (CHR ''V'') (CHR ''T'' # r) = Some (r, 0)"
  "operand_use (CHR ''F'') (CHR ''7'' # r) = Some (r, 0xfe000000)"
  "operand_use (CHR ''F'') (CHR ''3'' # r) = Some (r, 0x7000)"
  "operand_use (CHR ''F'') (CHR ''2'' # r) = Some (r, 0x6000000)"
  "operand_use (CHR ''O'') (CHR ''4'' # r) = Some (r, 0x7f)"
  "operand_use (CHR ''O'') (CHR ''2'' # r) = Some (r, 0x3)"
  "operand_use (CHR ''W'') (CHR ''i'' # CHR ''f'' # r) = Some (r, 0xfe000f80)"
  "operand_use (CHR ''W'') (CHR ''f'' # CHR ''v'' # r) = Some (r, 0xf8000)"
  "operand_use (CHR ''W'') (CHR ''c'' # CHR ''h'' # r) = Some (r, 0x20)"
  "operand_use (CHR ''W'') (CHR ''c'' # CHR ''b'' # r) = Some (r, 0x60)"
  "operand_use (CHR ''W'') (CHR ''c'' # CHR ''f'' # r) = Some (r, 0)"
  "operand_use (CHR ''X'') (CHR ''t'' # CHR ''V'' # CHR ''c'' # r) = Some (r, 0x7ff00000)"
  "operand_use (CHR ''X'') (CHR ''c'' # CHR ''2'' # r) = Some (r, 0x1f00000)"
  "operand_use (CHR ''X'') (CHR ''c'' # CHR ''3'' # r) = Some (r, 0x3e000000)"
  "operand_use (CHR ''X'') (CHR ''s'' # CHR ''d'' # r) = Some (r, 0xf80)"
  "operand_use (CHR ''X'') (CHR ''s'' # CHR ''t'' # r) = Some (r, 0x1f00000)"
  "operand_use (CHR ''X'') (CHR ''s'' # CHR ''O'' # CHR ''2'' # r) = Some (r, 0xc000000)"
  "operand_use (CHR ''X'') (CHR ''s'' # CHR ''O'' # CHR ''1'' # r) = Some (r, 0x4000000)"
  by (simp_all add: operand_use_defs encode_all_ones shl_def)

lemma operand_use_eval_Xt:
  "operand_use (CHR ''X'') (CHR ''t'' # CHR ''l'' # r) =
     Some (dropWhile (\<lambda>d. d \<noteq> CHR '','') r, 0)"
  "operand_use (CHR ''X'') (CHR ''t'' # CHR ''s'' # r) = operand_use_Xt_imm r"
  "operand_use (CHR ''X'') (CHR ''t'' # CHR ''u'' # r) = operand_use_Xt_imm r"
  by (simp_all add: operand_use_defs)

text \<open>The bits covered by an operand string, independent of the entry's mask.\<close>

definition args_use :: "string \<Rightarrow> insn_t option" where
  "args_use s = (case validate_args s 0 of Inl e \<Rightarrow> None | Inr b \<Rightarrow> Some b)"

lemma validate_args_accumulate:
  "validate_args s (u OR v) =
     (case validate_args s v of Inl e \<Rightarrow> Inl e | Inr b \<Rightarrow> Inr (u OR b))"
proof (induction s v arbitrary: u rule: validate_args.induct)
  case (1 used)
  then show ?case by simp
next
  case (2 c s used)
  then show ?case
    by (cases "operand_use c s") (auto simp: or.assoc)
qed

lemma validate_args_use: "args_use s = Some b \<Longrightarrow> validate_args s u = Inr (u OR b)"
  using validate_args_accumulate [of s u 0]
  by (auto simp: args_use_def split: sum.splits)

text \<open>
  A sufficient condition for an entry that is cheap to evaluate: the instruction is two or four
  bytes long by its low bits, operands and mask cover it, and the low bits that select the
  disassembler's hash bucket are fixed by the mask.
\<close>

definition entry_fine2 :: "insn_t \<Rightarrow> insn_t \<Rightarrow> insn_t option \<Rightarrow> bool" where
  "entry_fine2 m k b \<longleftrightarrow>
     (case b of None \<Rightarrow> False
      | Some u \<Rightarrow> m AND 3 \<noteq> 3 \<and> k OR u = 0xffff \<and> k AND m = m AND 0xffff \<and> k AND 3 = 3)"

definition entry_fine4 :: "insn_t \<Rightarrow> insn_t \<Rightarrow> insn_t option \<Rightarrow> bool" where
  "entry_fine4 m k b \<longleftrightarrow>
     (case b of None \<Rightarrow> False
      | Some u \<Rightarrow> m AND 3 = 3 \<and> m AND 0x1f \<noteq> 0x1f \<and> k OR u = 0xffffffff \<and>
                  k AND m = m AND 0xffffffff \<and> k AND 0x7f = 0x7f)"

definition entry_fine :: "riscv_opcode \<Rightarrow> bool" where
  "entry_fine op \<longleftrightarrow>
     op_pinfo op = INSN_MACRO \<or>
     ((entry_fine2 (op_match op) (op_mask op) (args_use (op_args op)) \<or>
       entry_fine4 (op_match op) (op_mask op) (args_use (op_args op))) \<and>
      op_match_func op \<noteq> MF_NULL \<and> op_match_func op \<noteq> MF_match_rs1_nonzero)"

lemma entry_fine_opc:
  "entry_fine (opc n x c a m k f p) \<longleftrightarrow>
     p = INSN_MACRO \<or>
     ((entry_fine2 m k (args_use a) \<or> entry_fine4 m k (args_use a)) \<and>
      f \<noteq> MF_NULL \<and> f \<noteq> MF_match_rs1_nonzero)"
  by (simp add: entry_fine_def)

end
