(* ===== verification/RV_Args.thy ===== *)
theory RV_Args
  imports RV_Validate
begin

text \<open>
  The bits covered by each operand string that occurs in the opcode tables, evaluated once.
  The checks of the tables (theories \<open>RV_Optab_*\<close>) use these equations.
\<close>

lemma digit_eval:
  "ISDIGIT (CHR ''0'')" "ISDIGIT (CHR ''2'')" "ISDIGIT (CHR ''4'')" "ISDIGIT (CHR ''5'')"
  "ISDIGIT (CHR ''6'')" "\<not> ISDIGIT (CHR ''@'')" "\<not> ISDIGIT (CHR '','')"
  "\<not> ISSPACE (CHR ''2'')" "\<not> ISSPACE (CHR ''5'')" "\<not> ISSPACE (CHR ''6'')"
  by (simp_all add: ISDIGIT_def ISSPACE_def)

lemmas vendor_eval =
  operand_use_Xt_imm_def strtol10_def digit_eval USE_IMM_def shl_def Let_def

lemma args_use_eval:
  "args_use '''' = Some 0"
  "args_use ''0(s)'' = Some 0xf8000"
  "args_use ''CD,Ck(Cs)'' = Some 0x1ffc"
  "args_use ''CD,Cl(Cs)'' = Some 0x1ffc"
  "args_use ''CT,CM(Cc)'' = Some 0x1ffc"
  "args_use ''CT,CN(Cc)'' = Some 0x1ffc"
  "args_use ''CV,CM(Cc)'' = Some 0x1ffc"
  "args_use ''CV,CN(Cc)'' = Some 0x1ffc"
  "args_use ''Ca'' = Some 0x1ffc"
  "args_use ''Cc,CL'' = Some 0x107c"
  "args_use ''Cc,Cc,CL'' = Some 0x107c"
  "args_use ''Cj'' = Some 0x107c"
  "args_use ''Cs'' = Some 0x380"
  "args_use ''Cs,C>'' = Some 0x13fc"
  "args_use ''Cs,Co'' = Some 0x13fc"
  "args_use ''Cs,Cp'' = Some 0x1ffc"
  "args_use ''Cs,Ct'' = Some 0x39c"
  "args_use ''Cs,Ct,Cw'' = Some 0x39c"
  "args_use ''Cs,Cw'' = Some 0x380"
  "args_use ''Cs,Cw,C>'' = Some 0x13fc"
  "args_use ''Cs,Cw,Co'' = Some 0x13fc"
  "args_use ''Cs,Cw,Ct'' = Some 0x39c"
  "args_use ''Cs,Cw,Wcf'' = Some 0x380"
  "args_use ''Cs,Cz,Cp'' = Some 0x1ffc"
  "args_use ''Ct,Cc,CK'' = Some 0x1ffc"
  "args_use ''Ct,Ck(Cs)'' = Some 0x1ffc"
  "args_use ''Ct,Cl(Cs)'' = Some 0x1ffc"
  "args_use ''Ct,Wcb(Cs)'' = Some 0x3fc"
  "args_use ''Ct,Wch(Cs)'' = Some 0x3bc"
  "args_use ''D,Cm(Cc)'' = Some 0x1ffc"
  "args_use ''D,Cn(Cc)'' = Some 0x1ffc"
  "args_use ''D,S'' = Some 0xf8f80"
  "args_use ''D,S,T'' = Some 0x1ff8f80"
  "args_use ''D,S,T,R'' = Some 0xf9ff8f80"
  "args_use ''D,S,T,R,m'' = Some 0xf9ffff80"
  "args_use ''D,S,T,m'' = Some 0x1ffff80"
  "args_use ''D,S,m'' = Some 0xfff80"
  "args_use ''D,U'' = Some 0x1ff8f80"
  "args_use ''D,Vt'' = Some 0x1f00f80"
  "args_use ''D,Wfv'' = Some 0xf8f80"
  "args_use ''D,o(s)'' = Some 0xffff8f80"
  "args_use ''D,s'' = Some 0xf8f80"
  "args_use ''D,s,m'' = Some 0xfff80"
  "args_use ''D,s,t'' = Some 0x1ff8f80"
  "args_use ''E,Z'' = Some 0xffff8000"
  "args_use ''E,s'' = Some 0xffff8000"
  "args_use ''O2,CF3,CD,C5(CS)'' = Some 0xffff"
  "args_use ''O2,CF3,CD,C5(Cs)'' = Some 0xffff"
  "args_use ''O2,CF3,CD,C8'' = Some 0xffff"
  "args_use ''O2,CF3,CS,Cp'' = Some 0xffff"
  "args_use ''O2,CF3,CT,C6'' = Some 0xffff"
  "args_use ''O2,CF3,CV,C6'' = Some 0xffff"
  "args_use ''O2,CF3,Ca'' = Some 0xffff"
  "args_use ''O2,CF3,Cs,Cp'' = Some 0xffff"
  "args_use ''O2,CF3,Ct,C5(CS)'' = Some 0xffff"
  "args_use ''O2,CF3,Ct,C5(Cs)'' = Some 0xffff"
  "args_use ''O2,CF3,Ct,C8'' = Some 0xffff"
  "args_use ''O2,CF3,D,Co'' = Some 0xffff"
  "args_use ''O2,CF3,d,Co'' = Some 0xffff"
  "args_use ''O2,CF4,D,CT'' = Some 0xffff"
  "args_use ''O2,CF4,D,CV'' = Some 0xffff"
  "args_use ''O2,CF4,d,CT'' = Some 0xffff"
  "args_use ''O2,CF4,d,CV'' = Some 0xffff"
  "args_use ''O2,CF6,CF2,CS,CD'' = Some 0xffff"
  "args_use ''O2,CF6,CF2,CS,Ct'' = Some 0xffff"
  "args_use ''O2,CF6,CF2,Cs,CD'' = Some 0xffff"
  "args_use ''O2,CF6,CF2,Cs,Ct'' = Some 0xffff"
  "args_use ''O4,D,a'' = Some 0xffffffff"
  "args_use ''O4,D,u'' = Some 0xffffffff"
  "args_use ''O4,F3,D,S,j'' = Some 0xffffffff"
  "args_use ''O4,F3,D,o(s)'' = Some 0xffffffff"
  "args_use ''O4,F3,D,s,j'' = Some 0xffffffff"
  "args_use ''O4,F3,F2,D,S,T,R'' = Some 0xffffffff"
  "args_use ''O4,F3,F2,D,S,T,r'' = Some 0xffffffff"
  "args_use ''O4,F3,F2,D,S,t,R'' = Some 0xffffffff"
  "args_use ''O4,F3,F2,D,S,t,r'' = Some 0xffffffff"
  "args_use ''O4,F3,F2,D,s,T,R'' = Some 0xffffffff"
  "args_use ''O4,F3,F2,D,s,T,r'' = Some 0xffffffff"
  "args_use ''O4,F3,F2,D,s,t,R'' = Some 0xffffffff"
  "args_use ''O4,F3,F2,D,s,t,r'' = Some 0xffffffff"
  "args_use ''O4,F3,F2,d,S,T,R'' = Some 0xffffffff"
  "args_use ''O4,F3,F2,d,S,T,r'' = Some 0xffffffff"
  "args_use ''O4,F3,F2,d,S,t,R'' = Some 0xffffffff"
  "args_use ''O4,F3,F2,d,S,t,r'' = Some 0xffffffff"
  "args_use ''O4,F3,F2,d,s,T,R'' = Some 0xffffffff"
  "args_use ''O4,F3,F2,d,s,T,r'' = Some 0xffffffff"
  "args_use ''O4,F3,F2,d,s,t,R'' = Some 0xffffffff"
  "args_use ''O4,F3,F2,d,s,t,r'' = Some 0xffffffff"
  "args_use ''O4,F3,F7,D,S,T'' = Some 0xffffffff"
  "args_use ''O4,F3,F7,D,S,t'' = Some 0xffffffff"
  "args_use ''O4,F3,F7,D,s,T'' = Some 0xffffffff"
  "args_use ''O4,F3,F7,D,s,t'' = Some 0xffffffff"
  "args_use ''O4,F3,F7,d,S,T'' = Some 0xffffffff"
  "args_use ''O4,F3,F7,d,S,t'' = Some 0xffffffff"
  "args_use ''O4,F3,F7,d,s,T'' = Some 0xffffffff"
  "args_use ''O4,F3,F7,d,s,t'' = Some 0xffffffff"
  "args_use ''O4,F3,S,T,p'' = Some 0xffffffff"
  "args_use ''O4,F3,S,t,p'' = Some 0xffffffff"
  "args_use ''O4,F3,T,q(s)'' = Some 0xffffffff"
  "args_use ''O4,F3,d,S,j'' = Some 0xffffffff"
  "args_use ''O4,F3,d,o(s)'' = Some 0xffffffff"
  "args_use ''O4,F3,d,s,j'' = Some 0xffffffff"
  "args_use ''O4,F3,s,T,p'' = Some 0xffffffff"
  "args_use ''O4,F3,s,t,p'' = Some 0xffffffff"
  "args_use ''O4,F3,t,q(s)'' = Some 0xffffffff"
  "args_use ''O4,d,a'' = Some 0xffffffff"
  "args_use ''O4,d,u'' = Some 0xffffffff"
  "args_use ''P,Q'' = Some 0xff00000"
  "args_use ''T,q(s)'' = Some 0xffff8f80"
  "args_use ''Vd,0(s)'' = Some 0xf8f80"
  "args_use ''Vd,0(s),VtVm'' = Some 0x3ff8f80"
  "args_use ''Vd,0(s),tVm'' = Some 0x3ff8f80"
  "args_use ''Vd,0(s)Vm'' = Some 0x20f8f80"
  "args_use ''Vd,S'' = Some 0xf8f80"
  "args_use ''Vd,S,VtVm'' = Some 0x3ff8f80"
  "args_use ''Vd,Vi'' = Some 0xf8f80"
  "args_use ''Vd,Vs'' = Some 0xf8f80"
  "args_use ''Vd,Vs,VtVm'' = Some 0x3ff8f80"
  "args_use ''Vd,Vt'' = Some 0x1f00f80"
  "args_use ''Vd,Vt,S,V0'' = Some 0x1ff8f80"
  "args_use ''Vd,Vt,SVm'' = Some 0x3ff8f80"
  "args_use ''Vd,Vt,Vi'' = Some 0x1ff8f80"
  "args_use ''Vd,Vt,Vi,V0'' = Some 0x1ff8f80"
  "args_use ''Vd,Vt,ViVm'' = Some 0x3ff8f80"
  "args_use ''Vd,Vt,Vj'' = Some 0x1ff8f80"
  "args_use ''Vd,Vt,VjVm'' = Some 0x3ff8f80"
  "args_use ''Vd,Vt,VkVm'' = Some 0x3ff8f80"
  "args_use ''Vd,Vt,VlVm'' = Some 0x7ff8f80"
  "args_use ''Vd,Vt,Vs'' = Some 0x1ff8f80"
  "args_use ''Vd,Vt,Vs,V0'' = Some 0x1ff8f80"
  "args_use ''Vd,Vt,VsVm'' = Some 0x3ff8f80"
  "args_use ''Vd,Vt,s'' = Some 0x1ff8f80"
  "args_use ''Vd,Vt,s,V0'' = Some 0x1ff8f80"
  "args_use ''Vd,Vt,sVm'' = Some 0x3ff8f80"
  "args_use ''Vd,VtVm'' = Some 0x3f00f80"
  "args_use ''Vd,Vu'' = Some 0x1ff8f80"
  "args_use ''Vd,Vu,0Vm'' = Some 0x3ff8f80"
  "args_use ''Vd,VuVm'' = Some 0x3ff8f80"
  "args_use ''Vd,s'' = Some 0xf8f80"
  "args_use ''Vd,s,VtVm'' = Some 0x3ff8f80"
  "args_use ''VdVm'' = Some 0x2000f80"
  "args_use ''Ve,Vt,(s),VfVm'' = Some 0x7ff8f80"
  "args_use ''Vv'' = Some 0x1ff8f80"
  "args_use ''Wif(s)'' = Some 0xfe0f8f80"
  "args_use ''XsO1,Vd,Vt,S'' = Some 0x5ff8f80"
  "args_use ''XsO1,Xsd,Vt,S'' = Some 0x5ff8f80"
  "args_use ''XsO2,Vd,Vt,Vi'' = Some 0xdff8f80"
  "args_use ''XsO2,Vd,Vt,Vs'' = Some 0xdff8f80"
  "args_use ''XsO2,Vd,Vt,s'' = Some 0xdff8f80"
  "args_use ''XsO2,Xsd,Vt,Vi'' = Some 0xdff8f80"
  "args_use ''XsO2,Xsd,Vt,Vs'' = Some 0xdff8f80"
  "args_use ''XsO2,Xsd,Vt,s'' = Some 0xdff8f80"
  "args_use ''XsO2,Xst,Vd,Vi'' = Some 0xdff8f80"
  "args_use ''XsO2,Xst,Vd,s'' = Some 0xdff8f80"
  "args_use ''XsO2,Xst,Xsd,Vi'' = Some 0xdff8f80"
  "args_use ''XsO2,Xst,Xsd,s'' = Some 0xdff8f80"
  "args_use ''Z'' = Some 0xf8000"
  "args_use ''a'' = Some 0xfffff000"
  "args_use ''d'' = Some 0xf80"
  "args_use ''d,0(s)'' = Some 0xf8f80"
  "args_use ''d,C>'' = Some 0x1ffc"
  "args_use ''d,CU'' = Some 0xf80"
  "args_use ''d,CU,C>'' = Some 0x1ffc"
  "args_use ''d,CU,CV'' = Some 0xffc"
  "args_use ''d,CU,Cj'' = Some 0x1ffc"
  "args_use ''d,CU,Co'' = Some 0x1ffc"
  "args_use ''d,CU,z'' = Some 0xf80"
  "args_use ''d,CV'' = Some 0xffc"
  "args_use ''d,CV,CU'' = Some 0xffc"
  "args_use ''d,CV,z'' = Some 0xffc"
  "args_use ''d,Cm(Cc)'' = Some 0x1ffc"
  "args_use ''d,Cn(Cc)'' = Some 0x1ffc"
  "args_use ''d,Co'' = Some 0x1ffc"
  "args_use ''d,Cu'' = Some 0x1ffc"
  "args_use ''d,Cv'' = Some 0x1ffc"
  "args_use ''d,Cz,CV'' = Some 0xffc"
  "args_use ''d,Cz,Co'' = Some 0x1ffc"
  "args_use ''d,E'' = Some 0xfff00f80"
  "args_use ''d,E,Z'' = Some 0xffff8f80"
  "args_use ''d,E,s'' = Some 0xffff8f80"
  "args_use ''d,S'' = Some 0xf8f80"
  "args_use ''d,S,T'' = Some 0x1ff8f80"
  "args_use ''d,S,m'' = Some 0xfff80"
  "args_use ''d,T,S'' = Some 0x1ff8f80"
  "args_use ''d,Vt'' = Some 0x1f00f80"
  "args_use ''d,Vt,s'' = Some 0x1ff8f80"
  "args_use ''d,VtVm'' = Some 0x3f00f80"
  "args_use ''d,Z'' = Some 0xf8f80"
  "args_use ''d,Z,Vb'' = Some 0x3fff8f80"
  "args_use ''d,a'' = Some 0xffffff80"
  "args_use ''d,j'' = Some 0xfff00f80"
  "args_use ''d,o(s)'' = Some 0xffff8f80"
  "args_use ''d,s'' = Some 0xf8f80"
  "args_use ''d,s,<'' = Some 0x1ff8f80"
  "args_use ''d,s,>'' = Some 0x3ff8f80"
  "args_use ''d,s,Vc'' = Some 0x7fff8f80"
  "args_use ''d,s,Xc2'' = Some 0x1ff8f80"
  "args_use ''d,s,Y'' = Some 0xff8f80"
  "args_use ''d,s,j'' = Some 0xffff8f80"
  "args_use ''d,s,t'' = Some 0x1ff8f80"
  "args_use ''d,s,t,1'' = Some 0x1ff8f80"
  "args_use ''d,s,t,Xc3'' = Some 0x3fff8f80"
  "args_use ''d,s,t,y'' = Some 0xc1ff8f80"
  "args_use ''d,t'' = Some 0x1f00f80"
  "args_use ''d,t,0(s)'' = Some 0x1ff8f80"
  "args_use ''d,t,s'' = Some 0x1ff8f80"
  "args_use ''d,u'' = Some 0xffffff80"
  "args_use ''o(s)'' = Some 0xffff8000"
  "args_use ''s'' = Some 0xf8000"
  "args_use ''s,j'' = Some 0xffff8000"
  "args_use ''s,p'' = Some 0xfe0f8f80"
  "args_use ''s,t'' = Some 0x1ff8000"
  "args_use ''s,t,p'' = Some 0xffff8f80"
  "args_use ''t,0(s)'' = Some 0x1ff8000"
  "args_use ''t,p'' = Some 0xfff00f80"
  "args_use ''t,q(s)'' = Some 0xffff8f80"
  "args_use ''t,s,p'' = Some 0xffff8f80"
  by (simp_all add: args_use_def operand_use_eval)

lemma args_use_eval_vendor:
  "args_use ''D,s,t,Xtu2@25'' = Some 0x7ff8f80"
  "args_use ''d,(s),Xts5@20,Xtu2@25'' = Some 0x7ff8f80"
  "args_use ''d,s,XtVc'' = Some 0x7fff8f80"
  "args_use ''d,s,Xtu5@20'' = Some 0x1ff8f80"
  "args_use ''d,s,Xtu6@20'' = Some 0x3ff8f80"
  "args_use ''d,s,Xtu6@26,Xtu6@20'' = Some 0xffff8f80"
  "args_use ''d,s,t,Xtu2@25'' = Some 0x7ff8f80"
  "args_use ''d,t,(s),Xtu2@25,Xtl3'' = Some 0x7ff8f80"
  "args_use ''d,t,(s),Xtu2@25,Xtl4'' = Some 0x7ff8f80"
  by (simp_all add: args_use_def operand_use_eval operand_use_eval_Xt vendor_eval)

lemmas entry_fine_eval =
  list.pred_inject entry_fine_opc entry_fine2_def entry_fine4_def args_use_eval args_use_eval_vendor

end
