(* ===== verification/RV_Distinct.thy ===== *)
theory RV_Distinct
  imports Main
begin

text \<open>
  A certificate that a list of strings has no duplicates, checked in linear time: a strictly
  increasing list of the same length, all of whose elements occur in the first list at the
  positions the certificate gives.  The opcode tables use it to show that no mnemonic is entered
  twice.  Characters are compared by their bits, lowest first: any strict order will do, and this
  one reduces quickly on literals.
\<close>

section \<open>A strict order on strings\<close>

fun bits_less :: "bool list \<Rightarrow> bool list \<Rightarrow> bool" where
  "bits_less xs [] = False"
| "bits_less [] (y # ys) = True"
| "bits_less (False # xs) (True # ys) = True"
| "bits_less (True # xs) (False # ys) = False"
| "bits_less (False # xs) (False # ys) = bits_less xs ys"
| "bits_less (True # xs) (True # ys) = bits_less xs ys"

fun char_bits :: "char \<Rightarrow> bool list" where
  "char_bits (Char a b c d e f g h) = [a, b, c, d, e, f, g, h]"

fun str_less :: "string \<Rightarrow> string \<Rightarrow> bool" where
  "str_less s [] = False"
| "str_less [] (d # t) = True"
| "str_less (c # s) (d # t) =
     (if c = d then str_less s t else bits_less (char_bits c) (char_bits d))"

lemma bits_less_Cons: "bits_less (x # xs) (y # ys) \<longleftrightarrow> \<not> x \<and> y \<or> x = y \<and> bits_less xs ys"
  by (cases x; cases y) auto

lemma bits_less_irrefl: "\<not> bits_less x x"
  by (induction x) (auto simp: bits_less_Cons)

lemma bits_less_trans: "bits_less x y \<Longrightarrow> bits_less y z \<Longrightarrow> bits_less x z"
proof (induction x arbitrary: y z)
  case Nil
  then show ?case by (cases y; cases z) auto
next
  case (Cons a x)
  then show ?case by (cases y; cases z) (auto simp: bits_less_Cons)
qed

lemma str_less_irrefl: "\<not> str_less s s"
  by (induction s) auto

lemma str_less_trans: "str_less s t \<Longrightarrow> str_less t u \<Longrightarrow> str_less s u"
proof (induction s arbitrary: t u)
  case Nil
  then show ?case by (cases t; cases u) auto
next
  case (Cons c s)
  then show ?case
    by (cases t; cases u)
      (auto split: if_splits simp: bits_less_irrefl dest: bits_less_trans)
qed

section \<open>Strictly increasing lists\<close>

fun increasing :: "string list \<Rightarrow> bool" where
  "increasing [] = True"
| "increasing [x] = True"
| "increasing (x # y # r) = (str_less x y \<and> increasing (y # r))"

lemma increasing_bound: "increasing (x # r) \<Longrightarrow> y \<in> set r \<Longrightarrow> str_less x y"
proof (induction r arbitrary: x)
  case (Cons z r)
  then show ?case by (auto intro: str_less_trans)
qed simp

lemma increasing_distinct: "increasing xs \<Longrightarrow> distinct xs"
proof (induction xs rule: increasing.induct)
  case (3 x y r)
  then have "x \<notin> set (y # r)"
    using increasing_bound [of x "y # r"] str_less_irrefl by blast
  with 3 show ?case by simp
qed auto

lemma increasing_append:
  "increasing (xs @ ys) \<longleftrightarrow>
     increasing xs \<and> increasing ys \<and> (xs \<noteq> [] \<and> ys \<noteq> [] \<longrightarrow> str_less (last xs) (hd ys))"
proof (induction xs rule: increasing.induct)
  case (2 x)
  then show ?case by (cases ys) auto
qed auto

section \<open>The certificate\<close>

lemma distinct_by_certificate:
  assumes "set cs \<subseteq> set xs" "increasing cs" "length cs = length xs"
  shows "distinct xs"
proof -
  have "card (set cs) \<le> card (set xs)"
    using assms(1) by (intro card_mono) auto
  moreover have "card (set cs) = length cs"
    using increasing_distinct [OF assms(2)] by (rule distinct_card)
  ultimately have "card (set xs) = length xs"
    using assms(3) card_length [of xs] by simp
  then show ?thesis by (rule card_distinct)
qed

lemmas increasing_eval =
  increasing.simps str_less.simps bits_less.simps char_bits.simps char.inject
  refl if_True if_False simp_thms

text \<open>The ends and the length of a literal list.\<close>

lemma last_eval: "last [x] = x" "last (x # y # r) = last (y # r)"
  by simp_all

lemma length_eval:
  "length [x] = numeral num.One" "length (x # y # r) = Suc (length (y # r))"
  by simp_all

lemmas ends_eval =
  list.sel(1) last_eval length_eval Suc_numeral add_num_simps list.distinct refl simp_thms

section \<open>Lists written as groups of equal elements\<close>

definition ungroup :: "('a \<times> nat) list \<Rightarrow> 'a list" where
  "ungroup gs = concat (map (\<lambda>(x, n). replicate n x) gs)"

lemma ungroup_append: "ungroup (gs @ hs) = ungroup gs @ ungroup hs"
  by (simp add: ungroup_def)

lemma ungroup_eval:
  "ungroup [] = []"
  "ungroup ((x, Suc 0) # gs) = x # ungroup gs"
  "ungroup ((x, numeral k) # gs) = x # ungroup ((x, pred_numeral k) # gs)"
  by (simp_all add: ungroup_def numeral_eq_Suc)

lemma set_ungroup: "set (ungroup gs) \<subseteq> fst ` set gs"
  by (force simp: ungroup_def)

lemma remdups_adj_replicate_append:
  "0 < n \<Longrightarrow> x \<notin> set ys \<Longrightarrow> remdups_adj (replicate n x @ ys) = x # remdups_adj ys"
proof (induction n)
  case (Suc n)
  then show ?case by (cases n; cases ys) auto
qed simp

lemma remdups_adj_ungroup:
  "distinct (map fst gs) \<Longrightarrow> \<forall>g\<in>set gs. 0 < snd g \<Longrightarrow> remdups_adj (ungroup gs) = map fst gs"
proof (induction gs)
  case (Cons g gs)
  obtain x n where g: "g = (x, n)" by (cases g)
  have "x \<notin> set (ungroup gs)" using Cons.prems set_ungroup [of gs] by (auto simp: g)
  then show ?case using Cons by (simp add: g ungroup_def remdups_adj_replicate_append)
qed (simp add: ungroup_def)

end
