(* ===== verification/RV_Optab_2.thy ===== *)
theory RV_Optab_2
  imports RV_Args RV_Distinct
begin

text \<open>
  Lines 883 to 1414 of \<^verbatim>\<open>opcodes/riscv-opc.c\<close>: part 2 of the table \<open>riscv_opcodes\<close>, row by row, with the
  macros \<open>MATCH_*\<close>, \<open>MASK_*\<close> and \<open>INSN_*\<close> of the match, mask and pinfo columns evaluated to numbers as C
  evaluates them (including the sign extension of an \<open>int\<close> expression into \<open>insn_t\<close>).
\<close>

definition riscv_opcodes_5 :: "riscv_opcode list" where
  "riscv_opcodes_5 =
     [opc ''flq'' 0 INSN_CLASS_Q ''D,o(s)'' 0x4007 0x707f MF_match_opcode 0x58,
      opc ''flq'' 0 INSN_CLASS_Q ''D,A,s'' 0 0x6 MF_match_rs1_nonzero 0xffffffff,
      opc ''fsq'' 0 INSN_CLASS_Q ''T,q(s)'' 0x4027 0x707f MF_match_opcode 0x58,
      opc ''fsq'' 0 INSN_CLASS_Q ''T,A,s'' 0 0x7 MF_match_rs1_nonzero 0xffffffff,
      opc ''fmv.q'' 0 INSN_CLASS_Q_INX ''D,U'' 0x26000053 0xfe00707f MF_match_rs1_eq_rs2 0x1,
      opc ''fneg.q'' 0 INSN_CLASS_Q_INX ''D,U'' 0x26001053 0xfe00707f MF_match_rs1_eq_rs2 0x1,
      opc ''fabs.q'' 0 INSN_CLASS_Q_INX ''D,U'' 0x26002053 0xfe00707f MF_match_rs1_eq_rs2 0x1,
      opc ''fsgnj.q'' 0 INSN_CLASS_Q_INX ''D,S,T'' 0x26000053 0xfe00707f MF_match_opcode 0,
      opc ''fsgnjn.q'' 0 INSN_CLASS_Q_INX ''D,S,T'' 0x26001053 0xfe00707f MF_match_opcode 0,
      opc ''fsgnjx.q'' 0 INSN_CLASS_Q_INX ''D,S,T'' 0x26002053 0xfe00707f MF_match_opcode 0,
      opc ''fadd.q'' 0 INSN_CLASS_Q_INX ''D,S,T'' 0x6007053 0xfe00707f MF_match_opcode 0,
      opc ''fadd.q'' 0 INSN_CLASS_Q_INX ''D,S,T,m'' 0x6000053 0xfe00007f MF_match_opcode 0,
      opc ''fsub.q'' 0 INSN_CLASS_Q_INX ''D,S,T'' 0xe007053 0xfe00707f MF_match_opcode 0,
      opc ''fsub.q'' 0 INSN_CLASS_Q_INX ''D,S,T,m'' 0xe000053 0xfe00007f MF_match_opcode 0,
      opc ''fmul.q'' 0 INSN_CLASS_Q_INX ''D,S,T'' 0x16007053 0xfe00707f MF_match_opcode 0,
      opc ''fmul.q'' 0 INSN_CLASS_Q_INX ''D,S,T,m'' 0x16000053 0xfe00007f MF_match_opcode 0,
      opc ''fdiv.q'' 0 INSN_CLASS_Q_INX ''D,S,T'' 0x1e007053 0xfe00707f MF_match_opcode 0,
      opc ''fdiv.q'' 0 INSN_CLASS_Q_INX ''D,S,T,m'' 0x1e000053 0xfe00007f MF_match_opcode 0,
      opc ''fsqrt.q'' 0 INSN_CLASS_Q_INX ''D,S'' 0x5e007053 0xfff0707f MF_match_opcode 0,
      opc ''fsqrt.q'' 0 INSN_CLASS_Q_INX ''D,S,m'' 0x5e000053 0xfff0007f MF_match_opcode 0,
      opc ''fmin.q'' 0 INSN_CLASS_Q_INX ''D,S,T'' 0x2e000053 0xfe00707f MF_match_opcode 0,
      opc ''fmax.q'' 0 INSN_CLASS_Q_INX ''D,S,T'' 0x2e001053 0xfe00707f MF_match_opcode 0,
      opc ''fmadd.q'' 0 INSN_CLASS_Q_INX ''D,S,T,R'' 0x6007043 0x600707f MF_match_opcode 0,
      opc ''fmadd.q'' 0 INSN_CLASS_Q_INX ''D,S,T,R,m'' 0x6000043 0x600007f MF_match_opcode 0,
      opc ''fnmadd.q'' 0 INSN_CLASS_Q_INX ''D,S,T,R'' 0x600704f 0x600707f MF_match_opcode 0,
      opc ''fnmadd.q'' 0 INSN_CLASS_Q_INX ''D,S,T,R,m'' 0x600004f 0x600007f MF_match_opcode 0,
      opc ''fmsub.q'' 0 INSN_CLASS_Q_INX ''D,S,T,R'' 0x6007047 0x600707f MF_match_opcode 0,
      opc ''fmsub.q'' 0 INSN_CLASS_Q_INX ''D,S,T,R,m'' 0x6000047 0x600007f MF_match_opcode 0,
      opc ''fnmsub.q'' 0 INSN_CLASS_Q_INX ''D,S,T,R'' 0x600704b 0x600707f MF_match_opcode 0,
      opc ''fnmsub.q'' 0 INSN_CLASS_Q_INX ''D,S,T,R,m'' 0x600004b 0x600007f MF_match_opcode 0,
      opc ''fcvt.w.q'' 0 INSN_CLASS_Q_INX ''d,S'' 0xc6007053 0xfff0707f MF_match_opcode 0,
      opc ''fcvt.w.q'' 0 INSN_CLASS_Q_INX ''d,S,m'' 0xc6000053 0xfff0007f MF_match_opcode 0,
      opc ''fcvt.wu.q'' 0 INSN_CLASS_Q_INX ''d,S'' 0xc6107053 0xfff0707f MF_match_opcode 0,
      opc ''fcvt.wu.q'' 0 INSN_CLASS_Q_INX ''d,S,m'' 0xc6100053 0xfff0007f MF_match_opcode 0,
      opc ''fcvt.q.w'' 0 INSN_CLASS_Q_INX ''D,s'' 0xd6000053 0xfff0707f MF_match_opcode 0,
      opc ''fcvt.q.wu'' 0 INSN_CLASS_Q_INX ''D,s'' 0xd6100053 0xfff0707f MF_match_opcode 0,
      opc ''fcvt.q.s'' 0 INSN_CLASS_Q_INX ''D,S'' 0x46000053 0xfff0707f MF_match_opcode 0,
      opc ''fcvt.q.d'' 0 INSN_CLASS_Q_INX ''D,S'' 0x46100053 0xfff0707f MF_match_opcode 0,
      opc ''fcvt.s.q'' 0 INSN_CLASS_Q_INX ''D,S'' 0x40307053 0xfff0707f MF_match_opcode 0,
      opc ''fcvt.s.q'' 0 INSN_CLASS_Q_INX ''D,S,m'' 0x40300053 0xfff0007f MF_match_opcode 0,
      opc ''fcvt.d.q'' 0 INSN_CLASS_Q_INX ''D,S'' 0x42307053 0xfff0707f MF_match_opcode 0,
      opc ''fcvt.d.q'' 0 INSN_CLASS_Q_INX ''D,S,m'' 0x42300053 0xfff0007f MF_match_opcode 0,
      opc ''fclass.q'' 0 INSN_CLASS_Q_INX ''d,S'' 0xe6001053 0xfff0707f MF_match_opcode 0,
      opc ''feq.q'' 0 INSN_CLASS_Q_INX ''d,S,T'' 0xa6002053 0xfe00707f MF_match_opcode 0,
      opc ''flt.q'' 0 INSN_CLASS_Q_INX ''d,S,T'' 0xa6001053 0xfe00707f MF_match_opcode 0,
      opc ''fle.q'' 0 INSN_CLASS_Q_INX ''d,S,T'' 0xa6000053 0xfe00707f MF_match_opcode 0,
      opc ''fgt.q'' 0 INSN_CLASS_Q_INX ''d,T,S'' 0xa6001053 0xfe00707f MF_match_opcode 0,
      opc ''fge.q'' 0 INSN_CLASS_Q_INX ''d,T,S'' 0xa6000053 0xfe00707f MF_match_opcode 0,
      opc ''fcvt.l.q'' 64 INSN_CLASS_Q_INX ''d,S'' 0xc6207053 0xfff0707f MF_match_opcode 0,
      opc ''fcvt.l.q'' 64 INSN_CLASS_Q_INX ''d,S,m'' 0xc6200053 0xfff0007f MF_match_opcode 0,
      opc ''fcvt.lu.q'' 64 INSN_CLASS_Q_INX ''d,S'' 0xc6307053 0xfff0707f MF_match_opcode 0,
      opc ''fcvt.lu.q'' 64 INSN_CLASS_Q_INX ''d,S,m'' 0xc6300053 0xfff0007f MF_match_opcode 0,
      opc ''fcvt.q.l'' 64 INSN_CLASS_Q_INX ''D,s'' 0xd6200053 0xfff0707f MF_match_opcode 0,
      opc ''fcvt.q.l'' 64 INSN_CLASS_Q_INX ''D,s,m'' 0xd6200053 0xfff0007f MF_match_opcode 0,
      opc ''fcvt.q.lu'' 64 INSN_CLASS_Q_INX ''D,s'' 0xd6300053 0xfff0707f MF_match_opcode 0,
      opc ''fcvt.q.lu'' 64 INSN_CLASS_Q_INX ''D,s,m'' 0xd6300053 0xfff0007f MF_match_opcode 0,
      opc ''c.unimp'' 0 INSN_CLASS_C '''' 0 0xffff MF_match_opcode 0,
      opc ''c.ebreak'' 0 INSN_CLASS_C '''' 0x9002 0xffff MF_match_opcode 0,
      opc ''c.jr'' 0 INSN_CLASS_C ''d'' 0x8002 0xf07f MF_match_rd_nonzero 0x2,
      opc ''c.jalr'' 0 INSN_CLASS_C ''d'' 0x9002 0xf07f MF_match_rd_nonzero 0x6,
      opc ''c.j'' 0 INSN_CLASS_C ''Ca'' 0xa001 0xe003 MF_match_opcode 0x2,
      opc ''c.jal'' 32 INSN_CLASS_C ''Ca'' 0x2001 0xe003 MF_match_opcode 0x6,
      opc ''c.beqz'' 0 INSN_CLASS_C ''Cs,Cp'' 0xc001 0xe003 MF_match_opcode 0x4,
      opc ''c.bnez'' 0 INSN_CLASS_C ''Cs,Cp'' 0xe001 0xe003 MF_match_opcode 0x4,
      opc ''c.lwsp'' 0 INSN_CLASS_C ''d,Cm(Cc)'' 0x4002 0xe003 MF_match_rd_nonzero 0,
      opc ''c.lw'' 0 INSN_CLASS_C ''Ct,Ck(Cs)'' 0x4000 0xe003 MF_match_opcode 0x38,
      opc ''c.swsp'' 0 INSN_CLASS_C ''CV,CM(Cc)'' 0xc002 0xe003 MF_match_opcode 0x38,
      opc ''c.sw'' 0 INSN_CLASS_C ''Ct,Ck(Cs)'' 0xc000 0xe003 MF_match_opcode 0x38,
      opc ''c.nop'' 0 INSN_CLASS_C '''' 0x1 0xffff MF_match_opcode 0x1,
      opc ''c.nop'' 0 INSN_CLASS_C ''Cj'' 0x1 0xef83 MF_match_opcode 0x1,
      opc ''c.mv'' 0 INSN_CLASS_C ''d,CV'' 0x8002 0xf003 MF_match_c_add_with_hint 0,
      opc ''c.lui'' 0 INSN_CLASS_C ''d,Cu'' 0x6001 0xe003 MF_match_c_lui_with_hint 0,
      opc ''c.li'' 0 INSN_CLASS_C ''d,Co'' 0x4001 0xe003 MF_match_opcode 0,
      opc ''c.addi4spn'' 0 INSN_CLASS_C ''Ct,Cc,CK'' 0 0xe003 MF_match_c_addi4spn 0,
      opc ''c.addi16sp'' 0 INSN_CLASS_C ''Cc,CL'' 0x6101 0xef83 MF_match_c_addi16sp 0,
      opc ''c.addi'' 0 INSN_CLASS_C ''d,Co'' 0x1 0xe003 MF_match_opcode 0,
      opc ''c.add'' 0 INSN_CLASS_C ''d,CV'' 0x9002 0xf003 MF_match_c_add_with_hint 0,
      opc ''c.sub'' 0 INSN_CLASS_C ''Cs,Ct'' 0x8c01 0xfc63 MF_match_opcode 0,
      opc ''c.and'' 0 INSN_CLASS_C ''Cs,Ct'' 0x8c61 0xfc63 MF_match_opcode 0,
      opc ''c.or'' 0 INSN_CLASS_C ''Cs,Ct'' 0x8c41 0xfc63 MF_match_opcode 0,
      opc ''c.xor'' 0 INSN_CLASS_C ''Cs,Ct'' 0x8c21 0xfc63 MF_match_opcode 0,
      opc ''c.slli'' 0 INSN_CLASS_C ''d,C>'' 0x2 0xe003 MF_match_c_slli 0,
      opc ''c.srli'' 0 INSN_CLASS_C ''Cs,C>'' 0x8001 0xec03 MF_match_c_slli 0,
      opc ''c.srai'' 0 INSN_CLASS_C ''Cs,C>'' 0x8401 0xec03 MF_match_c_slli 0,
      opc ''c.slli64'' 0 INSN_CLASS_C ''d'' 0x2 0xf07f MF_match_c_slli64 0,
      opc ''c.srli64'' 0 INSN_CLASS_C ''Cs'' 0x8001 0xfc7f MF_match_c_slli64 0,
      opc ''c.srai64'' 0 INSN_CLASS_C ''Cs'' 0x8401 0xfc7f MF_match_c_slli64 0,
      opc ''c.andi'' 0 INSN_CLASS_C ''Cs,Co'' 0x8801 0xec03 MF_match_opcode 0,
      opc ''c.addiw'' 64 INSN_CLASS_C ''d,Co'' 0x2001 0xe003 MF_match_rd_nonzero 0,
      opc ''c.addw'' 64 INSN_CLASS_C ''Cs,Ct'' 0x9c21 0xfc63 MF_match_opcode 0,
      opc ''c.subw'' 64 INSN_CLASS_C ''Cs,Ct'' 0x9c01 0xfc63 MF_match_opcode 0,
      opc ''c.ldsp'' 64 INSN_CLASS_C ''d,Cn(Cc)'' 0x6002 0xe003 MF_match_rd_nonzero 0x48,
      opc ''c.ld'' 64 INSN_CLASS_C ''Ct,Cl(Cs)'' 0x6000 0xe003 MF_match_opcode 0x48,
      opc ''c.sdsp'' 64 INSN_CLASS_C ''CV,CN(Cc)'' 0xe002 0xe003 MF_match_opcode 0x48,
      opc ''c.sd'' 64 INSN_CLASS_C ''Ct,Cl(Cs)'' 0xe000 0xe003 MF_match_opcode 0x48,
      opc ''c.fldsp'' 0 INSN_CLASS_D_AND_C ''D,Cn(Cc)'' 0x2002 0xe003 MF_match_opcode 0x48,
      opc ''c.fld'' 0 INSN_CLASS_D_AND_C ''CD,Cl(Cs)'' 0x2000 0xe003 MF_match_opcode 0x48,
      opc ''c.fsdsp'' 0 INSN_CLASS_D_AND_C ''CT,CN(Cc)'' 0xa002 0xe003 MF_match_opcode 0x48,
      opc ''c.fsd'' 0 INSN_CLASS_D_AND_C ''CD,Cl(Cs)'' 0xa000 0xe003 MF_match_opcode 0x48,
      opc ''c.flwsp'' 32 INSN_CLASS_F_AND_C ''D,Cm(Cc)'' 0x6002 0xe003 MF_match_opcode 0x38,
      opc ''c.flw'' 32 INSN_CLASS_F_AND_C ''CD,Ck(Cs)'' 0x6000 0xe003 MF_match_opcode 0x38,
      opc ''c.fswsp'' 32 INSN_CLASS_F_AND_C ''CT,CM(Cc)'' 0xe002 0xe003 MF_match_opcode 0x38,
      opc ''c.fsw'' 32 INSN_CLASS_F_AND_C ''CD,Ck(Cs)'' 0xe000 0xe003 MF_match_opcode 0x38,
      opc ''cbo.clean'' 0 INSN_CLASS_ZICBOM ''0(s)'' 0x10200f 0xfff07fff MF_match_opcode 0,
      opc ''cbo.flush'' 0 INSN_CLASS_ZICBOM ''0(s)'' 0x20200f 0xfff07fff MF_match_opcode 0,
      opc ''cbo.inval'' 0 INSN_CLASS_ZICBOM ''0(s)'' 0x200f 0xfff07fff MF_match_opcode 0,
      opc ''cbo.zero'' 0 INSN_CLASS_ZICBOZ ''0(s)'' 0x40200f 0xfff07fff MF_match_opcode 0,
      opc ''czero.eqz'' 0 INSN_CLASS_ZICOND ''d,s,t'' 0xe005033 0xfe00707f MF_match_opcode 0,
      opc ''czero.nez'' 0 INSN_CLASS_ZICOND ''d,s,t'' 0xe007033 0xfe00707f MF_match_opcode 0,
      opc ''wrs.nto'' 0 INSN_CLASS_ZAWRS '''' 0xd00073 0xffffffff MF_match_opcode 0,
      opc ''wrs.sto'' 0 INSN_CLASS_ZAWRS '''' 0x1d00073 0xffffffff MF_match_opcode 0]"

definition riscv_opcodes_6 :: "riscv_opcode list" where
  "riscv_opcodes_6 =
     [opc ''fli.s'' 0 INSN_CLASS_ZFA ''D,Wfv'' 0xf0100053 0xfff0707f MF_match_opcode 0,
      opc ''fli.d'' 0 INSN_CLASS_D_AND_ZFA ''D,Wfv'' 0xf2100053 0xfff0707f MF_match_opcode 0,
      opc ''fli.q'' 0 INSN_CLASS_Q_AND_ZFA ''D,Wfv'' 0xf6100053 0xfff0707f MF_match_opcode 0,
      opc ''fli.h'' 0 INSN_CLASS_ZFH_OR_ZVFH_AND_ZFA ''D,Wfv'' 0xf4100053 0xfff0707f MF_match_opcode 0,
      opc ''fminm.s'' 0 INSN_CLASS_ZFA ''D,S,T'' 0x28002053 0xfe00707f MF_match_opcode 0,
      opc ''fmaxm.s'' 0 INSN_CLASS_ZFA ''D,S,T'' 0x28003053 0xfe00707f MF_match_opcode 0,
      opc ''fminm.d'' 0 INSN_CLASS_D_AND_ZFA ''D,S,T'' 0x2a002053 0xfe00707f MF_match_opcode 0,
      opc ''fmaxm.d'' 0 INSN_CLASS_D_AND_ZFA ''D,S,T'' 0x2a003053 0xfe00707f MF_match_opcode 0,
      opc ''fminm.q'' 0 INSN_CLASS_Q_AND_ZFA ''D,S,T'' 0x2e002053 0xfe00707f MF_match_opcode 0,
      opc ''fmaxm.q'' 0 INSN_CLASS_Q_AND_ZFA ''D,S,T'' 0x2e003053 0xfe00707f MF_match_opcode 0,
      opc ''fminm.h'' 0 INSN_CLASS_ZFH_AND_ZFA ''D,S,T'' 0x2c002053 0xfe00707f MF_match_opcode 0,
      opc ''fmaxm.h'' 0 INSN_CLASS_ZFH_AND_ZFA ''D,S,T'' 0x2c003053 0xfe00707f MF_match_opcode 0,
      opc ''fround.s'' 0 INSN_CLASS_ZFA ''D,S'' 0x40407053 0xfff0707f MF_match_opcode 0,
      opc ''fround.s'' 0 INSN_CLASS_ZFA ''D,S,m'' 0x40400053 0xfff0007f MF_match_opcode 0,
      opc ''froundnx.s'' 0 INSN_CLASS_ZFA ''D,S'' 0x40507053 0xfff0707f MF_match_opcode 0,
      opc ''froundnx.s'' 0 INSN_CLASS_ZFA ''D,S,m'' 0x40500053 0xfff0007f MF_match_opcode 0,
      opc ''fround.d'' 0 INSN_CLASS_D_AND_ZFA ''D,S'' 0x42407053 0xfff0707f MF_match_opcode 0,
      opc ''fround.d'' 0 INSN_CLASS_D_AND_ZFA ''D,S,m'' 0x42400053 0xfff0007f MF_match_opcode 0,
      opc ''froundnx.d'' 0 INSN_CLASS_D_AND_ZFA ''D,S'' 0x42507053 0xfff0707f MF_match_opcode 0,
      opc ''froundnx.d'' 0 INSN_CLASS_D_AND_ZFA ''D,S,m'' 0x42500053 0xfff0007f MF_match_opcode 0,
      opc ''fround.q'' 0 INSN_CLASS_Q_AND_ZFA ''D,S'' 0x46407053 0xfff0707f MF_match_opcode 0,
      opc ''fround.q'' 0 INSN_CLASS_Q_AND_ZFA ''D,S,m'' 0x46400053 0xfff0007f MF_match_opcode 0,
      opc ''froundnx.q'' 0 INSN_CLASS_Q_AND_ZFA ''D,S'' 0x46507053 0xfff0707f MF_match_opcode 0,
      opc ''froundnx.q'' 0 INSN_CLASS_Q_AND_ZFA ''D,S,m'' 0x46500053 0xfff0007f MF_match_opcode 0,
      opc ''fround.h'' 0 INSN_CLASS_ZFH_AND_ZFA ''D,S'' 0x44407053 0xfff0707f MF_match_opcode 0,
      opc ''fround.h'' 0 INSN_CLASS_ZFH_AND_ZFA ''D,S,m'' 0x44400053 0xfff0007f MF_match_opcode 0,
      opc ''froundnx.h'' 0 INSN_CLASS_ZFH_AND_ZFA ''D,S'' 0x44507053 0xfff0707f MF_match_opcode 0,
      opc ''froundnx.h'' 0 INSN_CLASS_ZFH_AND_ZFA ''D,S,m'' 0x44500053 0xfff0007f MF_match_opcode 0,
      opc ''fcvtmod.w.d'' 0 INSN_CLASS_D_AND_ZFA ''d,S,m'' 0xc2801053 0xfff0707f MF_match_opcode 0,
      opc ''fmvh.x.d'' 32 INSN_CLASS_D_AND_ZFA ''d,S'' 0xe2100053 0xfff0707f MF_match_opcode 0,
      opc ''fmvp.d.x'' 32 INSN_CLASS_D_AND_ZFA ''D,s,t'' 0xb2000053 0xfe00707f MF_match_opcode 0,
      opc ''fmvh.x.q'' 64 INSN_CLASS_Q_AND_ZFA ''d,S'' 0xe6100053 0xfff0707f MF_match_opcode 0,
      opc ''fmvp.q.x'' 64 INSN_CLASS_Q_AND_ZFA ''D,s,t'' 0xb6000053 0xfe00707f MF_match_opcode 0,
      opc ''fltq.s'' 0 INSN_CLASS_ZFA ''d,S,T'' 0xa0005053 0xfe00707f MF_match_opcode 0,
      opc ''fleq.s'' 0 INSN_CLASS_ZFA ''d,S,T'' 0xa0004053 0xfe00707f MF_match_opcode 0,
      opc ''fltq.d'' 0 INSN_CLASS_D_AND_ZFA ''d,S,T'' 0xa2005053 0xfe00707f MF_match_opcode 0,
      opc ''fleq.d'' 0 INSN_CLASS_D_AND_ZFA ''d,S,T'' 0xa2004053 0xfe00707f MF_match_opcode 0,
      opc ''fltq.q'' 0 INSN_CLASS_Q_AND_ZFA ''d,S,T'' 0xa6005053 0xfe00707f MF_match_opcode 0,
      opc ''fleq.q'' 0 INSN_CLASS_Q_AND_ZFA ''d,S,T'' 0xa6004053 0xfe00707f MF_match_opcode 0,
      opc ''fltq.h'' 0 INSN_CLASS_ZFH_AND_ZFA ''d,S,T'' 0xa4005053 0xfe00707f MF_match_opcode 0,
      opc ''fleq.h'' 0 INSN_CLASS_ZFH_AND_ZFA ''d,S,T'' 0xa4004053 0xfe00707f MF_match_opcode 0,
      opc ''clz'' 0 INSN_CLASS_ZBB ''d,s'' 0x60001013 0xfff0707f MF_match_opcode 0,
      opc ''ctz'' 0 INSN_CLASS_ZBB ''d,s'' 0x60101013 0xfff0707f MF_match_opcode 0,
      opc ''cpop'' 0 INSN_CLASS_ZBB ''d,s'' 0x60201013 0xfff0707f MF_match_opcode 0,
      opc ''min'' 0 INSN_CLASS_ZBB ''d,s,t'' 0xa004033 0xfe00707f MF_match_opcode 0,
      opc ''max'' 0 INSN_CLASS_ZBB ''d,s,t'' 0xa006033 0xfe00707f MF_match_opcode 0,
      opc ''minu'' 0 INSN_CLASS_ZBB ''d,s,t'' 0xa005033 0xfe00707f MF_match_opcode 0,
      opc ''maxu'' 0 INSN_CLASS_ZBB ''d,s,t'' 0xa007033 0xfe00707f MF_match_opcode 0,
      opc ''sext.b'' 0 INSN_CLASS_ZCB_AND_ZBB ''Cs,Cw'' 0x9c65 0xfc7f MF_match_opcode 0x1,
      opc ''sext.b'' 0 INSN_CLASS_ZBB ''d,s'' 0x60401013 0xfff0707f MF_match_opcode 0,
      opc ''sext.b'' 0 INSN_CLASS_I ''d,s'' 0 0xd MF_NULL 0xffffffff,
      opc ''sext.h'' 0 INSN_CLASS_ZCB_AND_ZBB ''Cs,Cw'' 0x9c6d 0xfc7f MF_match_opcode 0x1,
      opc ''sext.h'' 0 INSN_CLASS_ZBB ''d,s'' 0x60501013 0xfff0707f MF_match_opcode 0,
      opc ''sext.h'' 0 INSN_CLASS_I ''d,s'' 0 0xb MF_NULL 0xffffffff,
      opc ''zext.h'' 0 INSN_CLASS_ZCB_AND_ZBB ''Cs,Cw'' 0x9c69 0xfc7f MF_match_opcode 0x1,
      opc ''zext.h'' 32 INSN_CLASS_ZBB ''d,s'' 0x8004033 0xfff0707f MF_match_opcode 0,
      opc ''zext.h'' 64 INSN_CLASS_ZBB ''d,s'' 0x800403b 0xfff0707f MF_match_opcode 0,
      opc ''zext.h'' 0 INSN_CLASS_I ''d,s'' 0 0xb MF_NULL 0xffffffff,
      opc ''orc.b'' 0 INSN_CLASS_ZBB ''d,s'' 0x28705013 0xfff0707f MF_match_opcode 0,
      opc ''clzw'' 64 INSN_CLASS_ZBB ''d,s'' 0x6000101b 0xfff0707f MF_match_opcode 0,
      opc ''ctzw'' 64 INSN_CLASS_ZBB ''d,s'' 0x6010101b 0xfff0707f MF_match_opcode 0,
      opc ''cpopw'' 64 INSN_CLASS_ZBB ''d,s'' 0x6020101b 0xfff0707f MF_match_opcode 0,
      opc ''brev8'' 32 INSN_CLASS_ZBKB ''d,s'' 0x68705013 0xfff0707f MF_match_opcode 0,
      opc ''brev8'' 64 INSN_CLASS_ZBKB ''d,s'' 0x68705013 0xfff0707f MF_match_opcode 0,
      opc ''zip'' 32 INSN_CLASS_ZBKB ''d,s'' 0x8f01013 0xfff0707f MF_match_opcode 0,
      opc ''unzip'' 32 INSN_CLASS_ZBKB ''d,s'' 0x8f05013 0xfff0707f MF_match_opcode 0,
      opc ''pack'' 0 INSN_CLASS_ZBKB ''d,s,t'' 0x8004033 0xfe00707f MF_match_opcode 0,
      opc ''packh'' 0 INSN_CLASS_ZBKB ''d,s,t'' 0x8007033 0xfe00707f MF_match_opcode 0,
      opc ''packw'' 64 INSN_CLASS_ZBKB ''d,s,t'' 0x800403b 0xfe00707f MF_match_opcode 0,
      opc ''andn'' 0 INSN_CLASS_ZBB_OR_ZBKB ''d,s,t'' 0x40007033 0xfe00707f MF_match_opcode 0,
      opc ''orn'' 0 INSN_CLASS_ZBB_OR_ZBKB ''d,s,t'' 0x40006033 0xfe00707f MF_match_opcode 0,
      opc ''xnor'' 0 INSN_CLASS_ZBB_OR_ZBKB ''d,s,t'' 0x40004033 0xfe00707f MF_match_opcode 0,
      opc ''rol'' 0 INSN_CLASS_ZBB_OR_ZBKB ''d,s,t'' 0x60001033 0xfe00707f MF_match_opcode 0,
      opc ''rori'' 0 INSN_CLASS_ZBB_OR_ZBKB ''d,s,>'' 0x60005013 0xfc00707f MF_match_opcode 0,
      opc ''ror'' 0 INSN_CLASS_ZBB_OR_ZBKB ''d,s,t'' 0x60005033 0xfe00707f MF_match_opcode 0,
      opc ''ror'' 0 INSN_CLASS_ZBB_OR_ZBKB ''d,s,>'' 0x60005013 0xfc00707f MF_match_opcode 0x1,
      opc ''rev8'' 32 INSN_CLASS_ZBB_OR_ZBKB ''d,s'' 0x69805013 0xfff0707f MF_match_opcode 0,
      opc ''rev8'' 64 INSN_CLASS_ZBB_OR_ZBKB ''d,s'' 0x6b805013 0xfff0707f MF_match_opcode 0,
      opc ''rolw'' 64 INSN_CLASS_ZBB_OR_ZBKB ''d,s,t'' 0x6000103b 0xfe00707f MF_match_opcode 0,
      opc ''roriw'' 64 INSN_CLASS_ZBB_OR_ZBKB ''d,s,<'' 0x6000501b 0xfe00707f MF_match_opcode 0,
      opc ''rorw'' 64 INSN_CLASS_ZBB_OR_ZBKB ''d,s,t'' 0x6000503b 0xfe00707f MF_match_opcode 0,
      opc ''rorw'' 64 INSN_CLASS_ZBB_OR_ZBKB ''d,s,<'' 0x6000501b 0xfe00707f MF_match_opcode 0x1,
      opc ''sh1add'' 0 INSN_CLASS_ZBA ''d,s,t'' 0x20002033 0xfe00707f MF_match_opcode 0,
      opc ''sh2add'' 0 INSN_CLASS_ZBA ''d,s,t'' 0x20004033 0xfe00707f MF_match_opcode 0,
      opc ''sh3add'' 0 INSN_CLASS_ZBA ''d,s,t'' 0x20006033 0xfe00707f MF_match_opcode 0,
      opc ''sh1add.uw'' 64 INSN_CLASS_ZBA ''d,s,t'' 0x2000203b 0xfe00707f MF_match_opcode 0,
      opc ''sh2add.uw'' 64 INSN_CLASS_ZBA ''d,s,t'' 0x2000403b 0xfe00707f MF_match_opcode 0,
      opc ''sh3add.uw'' 64 INSN_CLASS_ZBA ''d,s,t'' 0x2000603b 0xfe00707f MF_match_opcode 0,
      opc ''zext.w'' 64 INSN_CLASS_ZCB_AND_ZBA ''Cs,Cw'' 0x9c71 0xfc7f MF_match_opcode 0x1,
      opc ''zext.w'' 64 INSN_CLASS_ZBA ''d,s'' 0x800003b 0xfff0707f MF_match_opcode 0x1,
      opc ''zext.w'' 64 INSN_CLASS_I ''d,s'' 0 0xc MF_NULL 0xffffffff,
      opc ''add.uw'' 64 INSN_CLASS_ZBA ''d,s,t'' 0x800003b 0xfe00707f MF_match_opcode 0,
      opc ''slli.uw'' 64 INSN_CLASS_ZBA ''d,s,>'' 0x800101b 0xfc00707f MF_match_opcode 0,
      opc ''clmul'' 0 INSN_CLASS_ZBC_OR_ZBKC ''d,s,t'' 0xa001033 0xfe00707f MF_match_opcode 0,
      opc ''clmulh'' 0 INSN_CLASS_ZBC_OR_ZBKC ''d,s,t'' 0xa003033 0xfe00707f MF_match_opcode 0,
      opc ''clmulr'' 0 INSN_CLASS_ZBC ''d,s,t'' 0xa002033 0xfe00707f MF_match_opcode 0,
      opc ''bclri'' 0 INSN_CLASS_ZBS ''d,s,>'' 0x48001013 0xfc00707f MF_match_opcode 0,
      opc ''bclr'' 0 INSN_CLASS_ZBS ''d,s,t'' 0x48001033 0xfe00707f MF_match_opcode 0,
      opc ''bclr'' 0 INSN_CLASS_ZBS ''d,s,>'' 0x48001013 0xfc00707f MF_match_opcode 0x1,
      opc ''bseti'' 0 INSN_CLASS_ZBS ''d,s,>'' 0x28001013 0xfc00707f MF_match_opcode 0,
      opc ''bset'' 0 INSN_CLASS_ZBS ''d,s,t'' 0x28001033 0xfe00707f MF_match_opcode 0,
      opc ''bset'' 0 INSN_CLASS_ZBS ''d,s,>'' 0x28001013 0xfc00707f MF_match_opcode 0x1,
      opc ''binvi'' 0 INSN_CLASS_ZBS ''d,s,>'' 0x68001013 0xfc00707f MF_match_opcode 0,
      opc ''binv'' 0 INSN_CLASS_ZBS ''d,s,t'' 0x68001033 0xfe00707f MF_match_opcode 0,
      opc ''binv'' 0 INSN_CLASS_ZBS ''d,s,>'' 0x68001013 0xfc00707f MF_match_opcode 0x1,
      opc ''bexti'' 0 INSN_CLASS_ZBS ''d,s,>'' 0x48005013 0xfc00707f MF_match_opcode 0,
      opc ''bext'' 0 INSN_CLASS_ZBS ''d,s,t'' 0x48005033 0xfe00707f MF_match_opcode 0,
      opc ''bext'' 0 INSN_CLASS_ZBS ''d,s,>'' 0x48005013 0xfc00707f MF_match_opcode 0x1,
      opc ''xperm4'' 0 INSN_CLASS_ZBKX ''d,s,t'' 0x28002033 0xfe00707f MF_match_opcode 0,
      opc ''xperm8'' 0 INSN_CLASS_ZBKX ''d,s,t'' 0x28004033 0xfe00707f MF_match_opcode 0,
      opc ''aes32dsi'' 32 INSN_CLASS_ZKND ''d,s,t,y'' 0x2a000033 0x3e00707f MF_match_opcode 0,
      opc ''aes32dsmi'' 32 INSN_CLASS_ZKND ''d,s,t,y'' 0x2e000033 0x3e00707f MF_match_opcode 0,
      opc ''aes64ds'' 64 INSN_CLASS_ZKND ''d,s,t'' 0x3a000033 0xfe00707f MF_match_opcode 0,
      opc ''aes64dsm'' 64 INSN_CLASS_ZKND ''d,s,t'' 0x3e000033 0xfe00707f MF_match_opcode 0,
      opc ''aes64im'' 64 INSN_CLASS_ZKND ''d,s'' 0x30001013 0xfff0707f MF_match_opcode 0,
      opc ''aes64ks1i'' 64 INSN_CLASS_ZKND_OR_ZKNE ''d,s,Y'' 0x31001013 0xff00707f MF_match_opcode 0,
      opc ''aes64ks2'' 64 INSN_CLASS_ZKND_OR_ZKNE ''d,s,t'' 0x7e000033 0xfe00707f MF_match_opcode 0,
      opc ''aes32esi'' 32 INSN_CLASS_ZKNE ''d,s,t,y'' 0x22000033 0x3e00707f MF_match_opcode 0,
      opc ''aes32esmi'' 32 INSN_CLASS_ZKNE ''d,s,t,y'' 0x26000033 0x3e00707f MF_match_opcode 0,
      opc ''aes64es'' 64 INSN_CLASS_ZKNE ''d,s,t'' 0x32000033 0xfe00707f MF_match_opcode 0,
      opc ''aes64esm'' 64 INSN_CLASS_ZKNE ''d,s,t'' 0x36000033 0xfe00707f MF_match_opcode 0]"

definition riscv_opcodes_7 :: "riscv_opcode list" where
  "riscv_opcodes_7 =
     [opc ''sha256sig0'' 0 INSN_CLASS_ZKNH ''d,s'' 0x10201013 0xfff0707f MF_match_opcode 0,
      opc ''sha256sig1'' 0 INSN_CLASS_ZKNH ''d,s'' 0x10301013 0xfff0707f MF_match_opcode 0,
      opc ''sha256sum0'' 0 INSN_CLASS_ZKNH ''d,s'' 0x10001013 0xfff0707f MF_match_opcode 0,
      opc ''sha256sum1'' 0 INSN_CLASS_ZKNH ''d,s'' 0x10101013 0xfff0707f MF_match_opcode 0,
      opc ''sha512sig0h'' 32 INSN_CLASS_ZKNH ''d,s,t'' 0x5c000033 0xfe00707f MF_match_opcode 0,
      opc ''sha512sig0l'' 32 INSN_CLASS_ZKNH ''d,s,t'' 0x54000033 0xfe00707f MF_match_opcode 0,
      opc ''sha512sig1h'' 32 INSN_CLASS_ZKNH ''d,s,t'' 0x5e000033 0xfe00707f MF_match_opcode 0,
      opc ''sha512sig1l'' 32 INSN_CLASS_ZKNH ''d,s,t'' 0x56000033 0xfe00707f MF_match_opcode 0,
      opc ''sha512sum0r'' 32 INSN_CLASS_ZKNH ''d,s,t'' 0x50000033 0xfe00707f MF_match_opcode 0,
      opc ''sha512sum1r'' 32 INSN_CLASS_ZKNH ''d,s,t'' 0x52000033 0xfe00707f MF_match_opcode 0,
      opc ''sha512sig0'' 64 INSN_CLASS_ZKNH ''d,s'' 0x10601013 0xfff0707f MF_match_opcode 0,
      opc ''sha512sig1'' 64 INSN_CLASS_ZKNH ''d,s'' 0x10701013 0xfff0707f MF_match_opcode 0,
      opc ''sha512sum0'' 64 INSN_CLASS_ZKNH ''d,s'' 0x10401013 0xfff0707f MF_match_opcode 0,
      opc ''sha512sum1'' 64 INSN_CLASS_ZKNH ''d,s'' 0x10501013 0xfff0707f MF_match_opcode 0,
      opc ''sm4ed'' 0 INSN_CLASS_ZKSED ''d,s,t,y'' 0x30000033 0x3e00707f MF_match_opcode 0,
      opc ''sm4ks'' 0 INSN_CLASS_ZKSED ''d,s,t,y'' 0x34000033 0x3e00707f MF_match_opcode 0,
      opc ''sm3p0'' 0 INSN_CLASS_ZKSH ''d,s'' 0x10801013 0xfff0707f MF_match_opcode 0,
      opc ''sm3p1'' 0 INSN_CLASS_ZKSH ''d,s'' 0x10901013 0xfff0707f MF_match_opcode 0,
      opc ''vsetvl'' 0 INSN_CLASS_V ''d,s,t'' 0x80007057 0xfe00707f MF_match_opcode 0,
      opc ''vsetvli'' 0 INSN_CLASS_V ''d,s,Vc'' 0x7057 0x8000707f MF_match_opcode 0,
      opc ''vsetivli'' 0 INSN_CLASS_V ''d,Z,Vb'' 0xc0007057 0xc000707f MF_match_opcode 0,
      opc ''vlm.v'' 0 INSN_CLASS_V ''Vd,0(s)'' 0x2b00007 0xfff0707f MF_match_opcode 0x8,
      opc ''vsm.v'' 0 INSN_CLASS_V ''Vd,0(s)'' 0x2b00027 0xfff0707f MF_match_opcode 0x8,
      opc ''vle1.v'' 0 INSN_CLASS_V ''Vd,0(s)'' 0x2b00007 0xfff0707f MF_match_opcode 0x9,
      opc ''vse1.v'' 0 INSN_CLASS_V ''Vd,0(s)'' 0x2b00027 0xfff0707f MF_match_opcode 0x9,
      opc ''vle8.v'' 0 INSN_CLASS_V ''Vd,0(s)Vm'' 0x7 0xfdf0707f MF_match_opcode 0x8,
      opc ''vle16.v'' 0 INSN_CLASS_V ''Vd,0(s)Vm'' 0x5007 0xfdf0707f MF_match_opcode 0x8,
      opc ''vle32.v'' 0 INSN_CLASS_V ''Vd,0(s)Vm'' 0x6007 0xfdf0707f MF_match_opcode 0x8,
      opc ''vle64.v'' 0 INSN_CLASS_V ''Vd,0(s)Vm'' 0x7007 0xfdf0707f MF_match_opcode 0x10000008,
      opc ''vse8.v'' 0 INSN_CLASS_V ''Vd,0(s)Vm'' 0x27 0xfdf0707f MF_match_opcode 0x8,
      opc ''vse16.v'' 0 INSN_CLASS_V ''Vd,0(s)Vm'' 0x5027 0xfdf0707f MF_match_opcode 0x8,
      opc ''vse32.v'' 0 INSN_CLASS_V ''Vd,0(s)Vm'' 0x6027 0xfdf0707f MF_match_opcode 0x8,
      opc ''vse64.v'' 0 INSN_CLASS_V ''Vd,0(s)Vm'' 0x7027 0xfdf0707f MF_match_opcode 0x10000008,
      opc ''vlse8.v'' 0 INSN_CLASS_V ''Vd,0(s),tVm'' 0x8000007 0xfc00707f MF_match_opcode 0x8,
      opc ''vlse16.v'' 0 INSN_CLASS_V ''Vd,0(s),tVm'' 0x8005007 0xfc00707f MF_match_opcode 0x8,
      opc ''vlse32.v'' 0 INSN_CLASS_V ''Vd,0(s),tVm'' 0x8006007 0xfc00707f MF_match_opcode 0x8,
      opc ''vlse64.v'' 0 INSN_CLASS_V ''Vd,0(s),tVm'' 0x8007007 0xfc00707f MF_match_opcode 0x10000008,
      opc ''vsse8.v'' 0 INSN_CLASS_V ''Vd,0(s),tVm'' 0x8000027 0xfc00707f MF_match_opcode 0x8,
      opc ''vsse16.v'' 0 INSN_CLASS_V ''Vd,0(s),tVm'' 0x8005027 0xfc00707f MF_match_opcode 0x8,
      opc ''vsse32.v'' 0 INSN_CLASS_V ''Vd,0(s),tVm'' 0x8006027 0xfc00707f MF_match_opcode 0x8,
      opc ''vsse64.v'' 0 INSN_CLASS_V ''Vd,0(s),tVm'' 0x8007027 0xfc00707f MF_match_opcode 0x10000008,
      opc ''vloxei8.v'' 0 INSN_CLASS_V ''Vd,0(s),VtVm'' 0xc000007 0xfc00707f MF_match_opcode 0x8,
      opc ''vloxei16.v'' 0 INSN_CLASS_V ''Vd,0(s),VtVm'' 0xc005007 0xfc00707f MF_match_opcode 0x8,
      opc ''vloxei32.v'' 0 INSN_CLASS_V ''Vd,0(s),VtVm'' 0xc006007 0xfc00707f MF_match_opcode 0x8,
      opc ''vloxei64.v'' 0 INSN_CLASS_V ''Vd,0(s),VtVm'' 0xc007007 0xfc00707f MF_match_opcode 0x10000008,
      opc ''vsoxei8.v'' 0 INSN_CLASS_V ''Vd,0(s),VtVm'' 0xc000027 0xfc00707f MF_match_opcode 0x8,
      opc ''vsoxei16.v'' 0 INSN_CLASS_V ''Vd,0(s),VtVm'' 0xc005027 0xfc00707f MF_match_opcode 0x8,
      opc ''vsoxei32.v'' 0 INSN_CLASS_V ''Vd,0(s),VtVm'' 0xc006027 0xfc00707f MF_match_opcode 0x8,
      opc ''vsoxei64.v'' 0 INSN_CLASS_V ''Vd,0(s),VtVm'' 0xc007027 0xfc00707f MF_match_opcode 0x10000008,
      opc ''vluxei8.v'' 0 INSN_CLASS_V ''Vd,0(s),VtVm'' 0x4000007 0xfc00707f MF_match_opcode 0x8,
      opc ''vluxei16.v'' 0 INSN_CLASS_V ''Vd,0(s),VtVm'' 0x4005007 0xfc00707f MF_match_opcode 0x8,
      opc ''vluxei32.v'' 0 INSN_CLASS_V ''Vd,0(s),VtVm'' 0x4006007 0xfc00707f MF_match_opcode 0x8,
      opc ''vluxei64.v'' 0 INSN_CLASS_V ''Vd,0(s),VtVm'' 0x4007007 0xfc00707f MF_match_opcode 0x10000008,
      opc ''vsuxei8.v'' 0 INSN_CLASS_V ''Vd,0(s),VtVm'' 0x4000027 0xfc00707f MF_match_opcode 0x8,
      opc ''vsuxei16.v'' 0 INSN_CLASS_V ''Vd,0(s),VtVm'' 0x4005027 0xfc00707f MF_match_opcode 0x8,
      opc ''vsuxei32.v'' 0 INSN_CLASS_V ''Vd,0(s),VtVm'' 0x4006027 0xfc00707f MF_match_opcode 0x8,
      opc ''vsuxei64.v'' 0 INSN_CLASS_V ''Vd,0(s),VtVm'' 0x4007027 0xfc00707f MF_match_opcode 0x10000008,
      opc ''vle8ff.v'' 0 INSN_CLASS_V ''Vd,0(s)Vm'' 0x1000007 0xfdf0707f MF_match_opcode 0x8,
      opc ''vle16ff.v'' 0 INSN_CLASS_V ''Vd,0(s)Vm'' 0x1005007 0xfdf0707f MF_match_opcode 0x8,
      opc ''vle32ff.v'' 0 INSN_CLASS_V ''Vd,0(s)Vm'' 0x1006007 0xfdf0707f MF_match_opcode 0x8,
      opc ''vle64ff.v'' 0 INSN_CLASS_V ''Vd,0(s)Vm'' 0x1007007 0xfdf0707f MF_match_opcode 0x10000008,
      opc ''vlseg2e8.v'' 0 INSN_CLASS_V ''Vd,0(s)Vm'' 0x20000007 0xfdf0707f MF_match_opcode 0x8,
      opc ''vsseg2e8.v'' 0 INSN_CLASS_V ''Vd,0(s)Vm'' 0x20000027 0xfdf0707f MF_match_opcode 0x8,
      opc ''vlseg3e8.v'' 0 INSN_CLASS_V ''Vd,0(s)Vm'' 0x40000007 0xfdf0707f MF_match_opcode 0x8,
      opc ''vsseg3e8.v'' 0 INSN_CLASS_V ''Vd,0(s)Vm'' 0x40000027 0xfdf0707f MF_match_opcode 0x8,
      opc ''vlseg4e8.v'' 0 INSN_CLASS_V ''Vd,0(s)Vm'' 0x60000007 0xfdf0707f MF_match_opcode 0x8,
      opc ''vsseg4e8.v'' 0 INSN_CLASS_V ''Vd,0(s)Vm'' 0x60000027 0xfdf0707f MF_match_opcode 0x8,
      opc ''vlseg5e8.v'' 0 INSN_CLASS_V ''Vd,0(s)Vm'' 0x80000007 0xfdf0707f MF_match_opcode 0x8,
      opc ''vsseg5e8.v'' 0 INSN_CLASS_V ''Vd,0(s)Vm'' 0x80000027 0xfdf0707f MF_match_opcode 0x8,
      opc ''vlseg6e8.v'' 0 INSN_CLASS_V ''Vd,0(s)Vm'' 0xa0000007 0xfdf0707f MF_match_opcode 0x8,
      opc ''vsseg6e8.v'' 0 INSN_CLASS_V ''Vd,0(s)Vm'' 0xa0000027 0xfdf0707f MF_match_opcode 0x8,
      opc ''vlseg7e8.v'' 0 INSN_CLASS_V ''Vd,0(s)Vm'' 0xc0000007 0xfdf0707f MF_match_opcode 0x8,
      opc ''vsseg7e8.v'' 0 INSN_CLASS_V ''Vd,0(s)Vm'' 0xc0000027 0xfdf0707f MF_match_opcode 0x8,
      opc ''vlseg8e8.v'' 0 INSN_CLASS_V ''Vd,0(s)Vm'' 0xe0000007 0xfdf0707f MF_match_opcode 0x8,
      opc ''vsseg8e8.v'' 0 INSN_CLASS_V ''Vd,0(s)Vm'' 0xe0000027 0xfdf0707f MF_match_opcode 0x8,
      opc ''vlseg2e16.v'' 0 INSN_CLASS_V ''Vd,0(s)Vm'' 0x20005007 0xfdf0707f MF_match_opcode 0x8,
      opc ''vsseg2e16.v'' 0 INSN_CLASS_V ''Vd,0(s)Vm'' 0x20005027 0xfdf0707f MF_match_opcode 0x8,
      opc ''vlseg3e16.v'' 0 INSN_CLASS_V ''Vd,0(s)Vm'' 0x40005007 0xfdf0707f MF_match_opcode 0x8,
      opc ''vsseg3e16.v'' 0 INSN_CLASS_V ''Vd,0(s)Vm'' 0x40005027 0xfdf0707f MF_match_opcode 0x8,
      opc ''vlseg4e16.v'' 0 INSN_CLASS_V ''Vd,0(s)Vm'' 0x60005007 0xfdf0707f MF_match_opcode 0x8,
      opc ''vsseg4e16.v'' 0 INSN_CLASS_V ''Vd,0(s)Vm'' 0x60005027 0xfdf0707f MF_match_opcode 0x8,
      opc ''vlseg5e16.v'' 0 INSN_CLASS_V ''Vd,0(s)Vm'' 0x80005007 0xfdf0707f MF_match_opcode 0x8,
      opc ''vsseg5e16.v'' 0 INSN_CLASS_V ''Vd,0(s)Vm'' 0x80005027 0xfdf0707f MF_match_opcode 0x8,
      opc ''vlseg6e16.v'' 0 INSN_CLASS_V ''Vd,0(s)Vm'' 0xa0005007 0xfdf0707f MF_match_opcode 0x8,
      opc ''vsseg6e16.v'' 0 INSN_CLASS_V ''Vd,0(s)Vm'' 0xa0005027 0xfdf0707f MF_match_opcode 0x8,
      opc ''vlseg7e16.v'' 0 INSN_CLASS_V ''Vd,0(s)Vm'' 0xc0005007 0xfdf0707f MF_match_opcode 0x8,
      opc ''vsseg7e16.v'' 0 INSN_CLASS_V ''Vd,0(s)Vm'' 0xc0005027 0xfdf0707f MF_match_opcode 0x8,
      opc ''vlseg8e16.v'' 0 INSN_CLASS_V ''Vd,0(s)Vm'' 0xe0005007 0xfdf0707f MF_match_opcode 0x8,
      opc ''vsseg8e16.v'' 0 INSN_CLASS_V ''Vd,0(s)Vm'' 0xe0005027 0xfdf0707f MF_match_opcode 0x8,
      opc ''vlseg2e32.v'' 0 INSN_CLASS_V ''Vd,0(s)Vm'' 0x20006007 0xfdf0707f MF_match_opcode 0x8,
      opc ''vsseg2e32.v'' 0 INSN_CLASS_V ''Vd,0(s)Vm'' 0x20006027 0xfdf0707f MF_match_opcode 0x8,
      opc ''vlseg3e32.v'' 0 INSN_CLASS_V ''Vd,0(s)Vm'' 0x40006007 0xfdf0707f MF_match_opcode 0x8,
      opc ''vsseg3e32.v'' 0 INSN_CLASS_V ''Vd,0(s)Vm'' 0x40006027 0xfdf0707f MF_match_opcode 0x8,
      opc ''vlseg4e32.v'' 0 INSN_CLASS_V ''Vd,0(s)Vm'' 0x60006007 0xfdf0707f MF_match_opcode 0x8,
      opc ''vsseg4e32.v'' 0 INSN_CLASS_V ''Vd,0(s)Vm'' 0x60006027 0xfdf0707f MF_match_opcode 0x8,
      opc ''vlseg5e32.v'' 0 INSN_CLASS_V ''Vd,0(s)Vm'' 0x80006007 0xfdf0707f MF_match_opcode 0x8,
      opc ''vsseg5e32.v'' 0 INSN_CLASS_V ''Vd,0(s)Vm'' 0x80006027 0xfdf0707f MF_match_opcode 0x8,
      opc ''vlseg6e32.v'' 0 INSN_CLASS_V ''Vd,0(s)Vm'' 0xa0006007 0xfdf0707f MF_match_opcode 0x8,
      opc ''vsseg6e32.v'' 0 INSN_CLASS_V ''Vd,0(s)Vm'' 0xa0006027 0xfdf0707f MF_match_opcode 0x8,
      opc ''vlseg7e32.v'' 0 INSN_CLASS_V ''Vd,0(s)Vm'' 0xc0006007 0xfdf0707f MF_match_opcode 0x8,
      opc ''vsseg7e32.v'' 0 INSN_CLASS_V ''Vd,0(s)Vm'' 0xc0006027 0xfdf0707f MF_match_opcode 0x8,
      opc ''vlseg8e32.v'' 0 INSN_CLASS_V ''Vd,0(s)Vm'' 0xe0006007 0xfdf0707f MF_match_opcode 0x8,
      opc ''vsseg8e32.v'' 0 INSN_CLASS_V ''Vd,0(s)Vm'' 0xe0006027 0xfdf0707f MF_match_opcode 0x8,
      opc ''vlseg2e64.v'' 0 INSN_CLASS_V ''Vd,0(s)Vm'' 0x20007007 0xfdf0707f MF_match_opcode 0x10000008,
      opc ''vsseg2e64.v'' 0 INSN_CLASS_V ''Vd,0(s)Vm'' 0x20007027 0xfdf0707f MF_match_opcode 0x10000008,
      opc ''vlseg3e64.v'' 0 INSN_CLASS_V ''Vd,0(s)Vm'' 0x40007007 0xfdf0707f MF_match_opcode 0x10000008,
      opc ''vsseg3e64.v'' 0 INSN_CLASS_V ''Vd,0(s)Vm'' 0x40007027 0xfdf0707f MF_match_opcode 0x10000008,
      opc ''vlseg4e64.v'' 0 INSN_CLASS_V ''Vd,0(s)Vm'' 0x60007007 0xfdf0707f MF_match_opcode 0x10000008,
      opc ''vsseg4e64.v'' 0 INSN_CLASS_V ''Vd,0(s)Vm'' 0x60007027 0xfdf0707f MF_match_opcode 0x10000008,
      opc ''vlseg5e64.v'' 0 INSN_CLASS_V ''Vd,0(s)Vm'' 0x80007007 0xfdf0707f MF_match_opcode 0x10000008,
      opc ''vsseg5e64.v'' 0 INSN_CLASS_V ''Vd,0(s)Vm'' 0x80007027 0xfdf0707f MF_match_opcode 0x10000008,
      opc ''vlseg6e64.v'' 0 INSN_CLASS_V ''Vd,0(s)Vm'' 0xa0007007 0xfdf0707f MF_match_opcode 0x10000008,
      opc ''vsseg6e64.v'' 0 INSN_CLASS_V ''Vd,0(s)Vm'' 0xa0007027 0xfdf0707f MF_match_opcode 0x10000008,
      opc ''vlseg7e64.v'' 0 INSN_CLASS_V ''Vd,0(s)Vm'' 0xc0007007 0xfdf0707f MF_match_opcode 0x10000008,
      opc ''vsseg7e64.v'' 0 INSN_CLASS_V ''Vd,0(s)Vm'' 0xc0007027 0xfdf0707f MF_match_opcode 0x10000008,
      opc ''vlseg8e64.v'' 0 INSN_CLASS_V ''Vd,0(s)Vm'' 0xe0007007 0xfdf0707f MF_match_opcode 0x10000008,
      opc ''vsseg8e64.v'' 0 INSN_CLASS_V ''Vd,0(s)Vm'' 0xe0007027 0xfdf0707f MF_match_opcode 0x10000008]"

definition riscv_opcodes_8 :: "riscv_opcode list" where
  "riscv_opcodes_8 =
     [opc ''vlsseg2e8.v'' 0 INSN_CLASS_V ''Vd,0(s),tVm'' 0x28000007 0xfc00707f MF_match_opcode 0x8,
      opc ''vssseg2e8.v'' 0 INSN_CLASS_V ''Vd,0(s),tVm'' 0x28000027 0xfc00707f MF_match_opcode 0x8,
      opc ''vlsseg3e8.v'' 0 INSN_CLASS_V ''Vd,0(s),tVm'' 0x48000007 0xfc00707f MF_match_opcode 0x8,
      opc ''vssseg3e8.v'' 0 INSN_CLASS_V ''Vd,0(s),tVm'' 0x48000027 0xfc00707f MF_match_opcode 0x8,
      opc ''vlsseg4e8.v'' 0 INSN_CLASS_V ''Vd,0(s),tVm'' 0x68000007 0xfc00707f MF_match_opcode 0x8,
      opc ''vssseg4e8.v'' 0 INSN_CLASS_V ''Vd,0(s),tVm'' 0x68000027 0xfc00707f MF_match_opcode 0x8,
      opc ''vlsseg5e8.v'' 0 INSN_CLASS_V ''Vd,0(s),tVm'' 0x88000007 0xfc00707f MF_match_opcode 0x8,
      opc ''vssseg5e8.v'' 0 INSN_CLASS_V ''Vd,0(s),tVm'' 0x88000027 0xfc00707f MF_match_opcode 0x8,
      opc ''vlsseg6e8.v'' 0 INSN_CLASS_V ''Vd,0(s),tVm'' 0xa8000007 0xfc00707f MF_match_opcode 0x8,
      opc ''vssseg6e8.v'' 0 INSN_CLASS_V ''Vd,0(s),tVm'' 0xa8000027 0xfc00707f MF_match_opcode 0x8,
      opc ''vlsseg7e8.v'' 0 INSN_CLASS_V ''Vd,0(s),tVm'' 0xc8000007 0xfc00707f MF_match_opcode 0x8,
      opc ''vssseg7e8.v'' 0 INSN_CLASS_V ''Vd,0(s),tVm'' 0xc8000027 0xfc00707f MF_match_opcode 0x8,
      opc ''vlsseg8e8.v'' 0 INSN_CLASS_V ''Vd,0(s),tVm'' 0xe8000007 0xfc00707f MF_match_opcode 0x8,
      opc ''vssseg8e8.v'' 0 INSN_CLASS_V ''Vd,0(s),tVm'' 0xe8000027 0xfc00707f MF_match_opcode 0x8,
      opc ''vlsseg2e16.v'' 0 INSN_CLASS_V ''Vd,0(s),tVm'' 0x28005007 0xfc00707f MF_match_opcode 0x8,
      opc ''vssseg2e16.v'' 0 INSN_CLASS_V ''Vd,0(s),tVm'' 0x28005027 0xfc00707f MF_match_opcode 0x8,
      opc ''vlsseg3e16.v'' 0 INSN_CLASS_V ''Vd,0(s),tVm'' 0x48005007 0xfc00707f MF_match_opcode 0x8,
      opc ''vssseg3e16.v'' 0 INSN_CLASS_V ''Vd,0(s),tVm'' 0x48005027 0xfc00707f MF_match_opcode 0x8,
      opc ''vlsseg4e16.v'' 0 INSN_CLASS_V ''Vd,0(s),tVm'' 0x68005007 0xfc00707f MF_match_opcode 0x8,
      opc ''vssseg4e16.v'' 0 INSN_CLASS_V ''Vd,0(s),tVm'' 0x68005027 0xfc00707f MF_match_opcode 0x8,
      opc ''vlsseg5e16.v'' 0 INSN_CLASS_V ''Vd,0(s),tVm'' 0x88005007 0xfc00707f MF_match_opcode 0x8,
      opc ''vssseg5e16.v'' 0 INSN_CLASS_V ''Vd,0(s),tVm'' 0x88005027 0xfc00707f MF_match_opcode 0x8,
      opc ''vlsseg6e16.v'' 0 INSN_CLASS_V ''Vd,0(s),tVm'' 0xa8005007 0xfc00707f MF_match_opcode 0x8,
      opc ''vssseg6e16.v'' 0 INSN_CLASS_V ''Vd,0(s),tVm'' 0xa8005027 0xfc00707f MF_match_opcode 0x8,
      opc ''vlsseg7e16.v'' 0 INSN_CLASS_V ''Vd,0(s),tVm'' 0xc8005007 0xfc00707f MF_match_opcode 0x8,
      opc ''vssseg7e16.v'' 0 INSN_CLASS_V ''Vd,0(s),tVm'' 0xc8005027 0xfc00707f MF_match_opcode 0x8,
      opc ''vlsseg8e16.v'' 0 INSN_CLASS_V ''Vd,0(s),tVm'' 0xe8005007 0xfc00707f MF_match_opcode 0x8,
      opc ''vssseg8e16.v'' 0 INSN_CLASS_V ''Vd,0(s),tVm'' 0xe8005027 0xfc00707f MF_match_opcode 0x8,
      opc ''vlsseg2e32.v'' 0 INSN_CLASS_V ''Vd,0(s),tVm'' 0x28006007 0xfc00707f MF_match_opcode 0x8,
      opc ''vssseg2e32.v'' 0 INSN_CLASS_V ''Vd,0(s),tVm'' 0x28006027 0xfc00707f MF_match_opcode 0x8,
      opc ''vlsseg3e32.v'' 0 INSN_CLASS_V ''Vd,0(s),tVm'' 0x48006007 0xfc00707f MF_match_opcode 0x8,
      opc ''vssseg3e32.v'' 0 INSN_CLASS_V ''Vd,0(s),tVm'' 0x48006027 0xfc00707f MF_match_opcode 0x8,
      opc ''vlsseg4e32.v'' 0 INSN_CLASS_V ''Vd,0(s),tVm'' 0x68006007 0xfc00707f MF_match_opcode 0x8,
      opc ''vssseg4e32.v'' 0 INSN_CLASS_V ''Vd,0(s),tVm'' 0x68006027 0xfc00707f MF_match_opcode 0x8,
      opc ''vlsseg5e32.v'' 0 INSN_CLASS_V ''Vd,0(s),tVm'' 0x88006007 0xfc00707f MF_match_opcode 0x8,
      opc ''vssseg5e32.v'' 0 INSN_CLASS_V ''Vd,0(s),tVm'' 0x88006027 0xfc00707f MF_match_opcode 0x8,
      opc ''vlsseg6e32.v'' 0 INSN_CLASS_V ''Vd,0(s),tVm'' 0xa8006007 0xfc00707f MF_match_opcode 0x8,
      opc ''vssseg6e32.v'' 0 INSN_CLASS_V ''Vd,0(s),tVm'' 0xa8006027 0xfc00707f MF_match_opcode 0x8,
      opc ''vlsseg7e32.v'' 0 INSN_CLASS_V ''Vd,0(s),tVm'' 0xc8006007 0xfc00707f MF_match_opcode 0x8,
      opc ''vssseg7e32.v'' 0 INSN_CLASS_V ''Vd,0(s),tVm'' 0xc8006027 0xfc00707f MF_match_opcode 0x8,
      opc ''vlsseg8e32.v'' 0 INSN_CLASS_V ''Vd,0(s),tVm'' 0xe8006007 0xfc00707f MF_match_opcode 0x8,
      opc ''vssseg8e32.v'' 0 INSN_CLASS_V ''Vd,0(s),tVm'' 0xe8006027 0xfc00707f MF_match_opcode 0x8,
      opc ''vlsseg2e64.v'' 0 INSN_CLASS_V ''Vd,0(s),tVm'' 0x28007007 0xfc00707f MF_match_opcode 0x10000008,
      opc ''vssseg2e64.v'' 0 INSN_CLASS_V ''Vd,0(s),tVm'' 0x28007027 0xfc00707f MF_match_opcode 0x10000008,
      opc ''vlsseg3e64.v'' 0 INSN_CLASS_V ''Vd,0(s),tVm'' 0x48007007 0xfc00707f MF_match_opcode 0x10000008,
      opc ''vssseg3e64.v'' 0 INSN_CLASS_V ''Vd,0(s),tVm'' 0x48007027 0xfc00707f MF_match_opcode 0x10000008,
      opc ''vlsseg4e64.v'' 0 INSN_CLASS_V ''Vd,0(s),tVm'' 0x68007007 0xfc00707f MF_match_opcode 0x10000008,
      opc ''vssseg4e64.v'' 0 INSN_CLASS_V ''Vd,0(s),tVm'' 0x68007027 0xfc00707f MF_match_opcode 0x10000008,
      opc ''vlsseg5e64.v'' 0 INSN_CLASS_V ''Vd,0(s),tVm'' 0x88007007 0xfc00707f MF_match_opcode 0x10000008,
      opc ''vssseg5e64.v'' 0 INSN_CLASS_V ''Vd,0(s),tVm'' 0x88007027 0xfc00707f MF_match_opcode 0x10000008,
      opc ''vlsseg6e64.v'' 0 INSN_CLASS_V ''Vd,0(s),tVm'' 0xa8007007 0xfc00707f MF_match_opcode 0x10000008,
      opc ''vssseg6e64.v'' 0 INSN_CLASS_V ''Vd,0(s),tVm'' 0xa8007027 0xfc00707f MF_match_opcode 0x10000008,
      opc ''vlsseg7e64.v'' 0 INSN_CLASS_V ''Vd,0(s),tVm'' 0xc8007007 0xfc00707f MF_match_opcode 0x10000008,
      opc ''vssseg7e64.v'' 0 INSN_CLASS_V ''Vd,0(s),tVm'' 0xc8007027 0xfc00707f MF_match_opcode 0x10000008,
      opc ''vlsseg8e64.v'' 0 INSN_CLASS_V ''Vd,0(s),tVm'' 0xe8007007 0xfc00707f MF_match_opcode 0x10000008,
      opc ''vssseg8e64.v'' 0 INSN_CLASS_V ''Vd,0(s),tVm'' 0xe8007027 0xfc00707f MF_match_opcode 0x10000008,
      opc ''vloxseg2ei8.v'' 0 INSN_CLASS_V ''Vd,0(s),VtVm'' 0x2c000007 0xfc00707f MF_match_opcode 0x8,
      opc ''vsoxseg2ei8.v'' 0 INSN_CLASS_V ''Vd,0(s),VtVm'' 0x2c000027 0xfc00707f MF_match_opcode 0x8,
      opc ''vloxseg3ei8.v'' 0 INSN_CLASS_V ''Vd,0(s),VtVm'' 0x4c000007 0xfc00707f MF_match_opcode 0x8,
      opc ''vsoxseg3ei8.v'' 0 INSN_CLASS_V ''Vd,0(s),VtVm'' 0x4c000027 0xfc00707f MF_match_opcode 0x8,
      opc ''vloxseg4ei8.v'' 0 INSN_CLASS_V ''Vd,0(s),VtVm'' 0x6c000007 0xfc00707f MF_match_opcode 0x8,
      opc ''vsoxseg4ei8.v'' 0 INSN_CLASS_V ''Vd,0(s),VtVm'' 0x6c000027 0xfc00707f MF_match_opcode 0x8,
      opc ''vloxseg5ei8.v'' 0 INSN_CLASS_V ''Vd,0(s),VtVm'' 0x8c000007 0xfc00707f MF_match_opcode 0x8,
      opc ''vsoxseg5ei8.v'' 0 INSN_CLASS_V ''Vd,0(s),VtVm'' 0x8c000027 0xfc00707f MF_match_opcode 0x8,
      opc ''vloxseg6ei8.v'' 0 INSN_CLASS_V ''Vd,0(s),VtVm'' 0xac000007 0xfc00707f MF_match_opcode 0x8,
      opc ''vsoxseg6ei8.v'' 0 INSN_CLASS_V ''Vd,0(s),VtVm'' 0xac000027 0xfc00707f MF_match_opcode 0x8,
      opc ''vloxseg7ei8.v'' 0 INSN_CLASS_V ''Vd,0(s),VtVm'' 0xcc000007 0xfc00707f MF_match_opcode 0x8,
      opc ''vsoxseg7ei8.v'' 0 INSN_CLASS_V ''Vd,0(s),VtVm'' 0xcc000027 0xfc00707f MF_match_opcode 0x8,
      opc ''vloxseg8ei8.v'' 0 INSN_CLASS_V ''Vd,0(s),VtVm'' 0xec000007 0xfc00707f MF_match_opcode 0x8,
      opc ''vsoxseg8ei8.v'' 0 INSN_CLASS_V ''Vd,0(s),VtVm'' 0xec000027 0xfc00707f MF_match_opcode 0x8,
      opc ''vloxseg2ei16.v'' 0 INSN_CLASS_V ''Vd,0(s),VtVm'' 0x2c005007 0xfc00707f MF_match_opcode 0x8,
      opc ''vsoxseg2ei16.v'' 0 INSN_CLASS_V ''Vd,0(s),VtVm'' 0x2c005027 0xfc00707f MF_match_opcode 0x8,
      opc ''vloxseg3ei16.v'' 0 INSN_CLASS_V ''Vd,0(s),VtVm'' 0x4c005007 0xfc00707f MF_match_opcode 0x8,
      opc ''vsoxseg3ei16.v'' 0 INSN_CLASS_V ''Vd,0(s),VtVm'' 0x4c005027 0xfc00707f MF_match_opcode 0x8,
      opc ''vloxseg4ei16.v'' 0 INSN_CLASS_V ''Vd,0(s),VtVm'' 0x6c005007 0xfc00707f MF_match_opcode 0x8,
      opc ''vsoxseg4ei16.v'' 0 INSN_CLASS_V ''Vd,0(s),VtVm'' 0x6c005027 0xfc00707f MF_match_opcode 0x8,
      opc ''vloxseg5ei16.v'' 0 INSN_CLASS_V ''Vd,0(s),VtVm'' 0x8c005007 0xfc00707f MF_match_opcode 0x8,
      opc ''vsoxseg5ei16.v'' 0 INSN_CLASS_V ''Vd,0(s),VtVm'' 0x8c005027 0xfc00707f MF_match_opcode 0x8,
      opc ''vloxseg6ei16.v'' 0 INSN_CLASS_V ''Vd,0(s),VtVm'' 0xac005007 0xfc00707f MF_match_opcode 0x8,
      opc ''vsoxseg6ei16.v'' 0 INSN_CLASS_V ''Vd,0(s),VtVm'' 0xac005027 0xfc00707f MF_match_opcode 0x8,
      opc ''vloxseg7ei16.v'' 0 INSN_CLASS_V ''Vd,0(s),VtVm'' 0xcc005007 0xfc00707f MF_match_opcode 0x8,
      opc ''vsoxseg7ei16.v'' 0 INSN_CLASS_V ''Vd,0(s),VtVm'' 0xcc005027 0xfc00707f MF_match_opcode 0x8,
      opc ''vloxseg8ei16.v'' 0 INSN_CLASS_V ''Vd,0(s),VtVm'' 0xec005007 0xfc00707f MF_match_opcode 0x8,
      opc ''vsoxseg8ei16.v'' 0 INSN_CLASS_V ''Vd,0(s),VtVm'' 0xec005027 0xfc00707f MF_match_opcode 0x8,
      opc ''vloxseg2ei32.v'' 0 INSN_CLASS_V ''Vd,0(s),VtVm'' 0x2c006007 0xfc00707f MF_match_opcode 0x8,
      opc ''vsoxseg2ei32.v'' 0 INSN_CLASS_V ''Vd,0(s),VtVm'' 0x2c006027 0xfc00707f MF_match_opcode 0x8,
      opc ''vloxseg3ei32.v'' 0 INSN_CLASS_V ''Vd,0(s),VtVm'' 0x4c006007 0xfc00707f MF_match_opcode 0x8,
      opc ''vsoxseg3ei32.v'' 0 INSN_CLASS_V ''Vd,0(s),VtVm'' 0x4c006027 0xfc00707f MF_match_opcode 0x8,
      opc ''vloxseg4ei32.v'' 0 INSN_CLASS_V ''Vd,0(s),VtVm'' 0x6c006007 0xfc00707f MF_match_opcode 0x8,
      opc ''vsoxseg4ei32.v'' 0 INSN_CLASS_V ''Vd,0(s),VtVm'' 0x6c006027 0xfc00707f MF_match_opcode 0x8,
      opc ''vloxseg5ei32.v'' 0 INSN_CLASS_V ''Vd,0(s),VtVm'' 0x8c006007 0xfc00707f MF_match_opcode 0x8,
      opc ''vsoxseg5ei32.v'' 0 INSN_CLASS_V ''Vd,0(s),VtVm'' 0x8c006027 0xfc00707f MF_match_opcode 0x8,
      opc ''vloxseg6ei32.v'' 0 INSN_CLASS_V ''Vd,0(s),VtVm'' 0xac006007 0xfc00707f MF_match_opcode 0x8,
      opc ''vsoxseg6ei32.v'' 0 INSN_CLASS_V ''Vd,0(s),VtVm'' 0xac006027 0xfc00707f MF_match_opcode 0x8,
      opc ''vloxseg7ei32.v'' 0 INSN_CLASS_V ''Vd,0(s),VtVm'' 0xcc006007 0xfc00707f MF_match_opcode 0x8,
      opc ''vsoxseg7ei32.v'' 0 INSN_CLASS_V ''Vd,0(s),VtVm'' 0xcc006027 0xfc00707f MF_match_opcode 0x8,
      opc ''vloxseg8ei32.v'' 0 INSN_CLASS_V ''Vd,0(s),VtVm'' 0xec006007 0xfc00707f MF_match_opcode 0x8,
      opc ''vsoxseg8ei32.v'' 0 INSN_CLASS_V ''Vd,0(s),VtVm'' 0xec006027 0xfc00707f MF_match_opcode 0x8,
      opc ''vloxseg2ei64.v'' 0 INSN_CLASS_V ''Vd,0(s),VtVm'' 0x2c007007 0xfc00707f MF_match_opcode 0x10000008,
      opc ''vsoxseg2ei64.v'' 0 INSN_CLASS_V ''Vd,0(s),VtVm'' 0x2c007027 0xfc00707f MF_match_opcode 0x10000008,
      opc ''vloxseg3ei64.v'' 0 INSN_CLASS_V ''Vd,0(s),VtVm'' 0x4c007007 0xfc00707f MF_match_opcode 0x10000008,
      opc ''vsoxseg3ei64.v'' 0 INSN_CLASS_V ''Vd,0(s),VtVm'' 0x4c007027 0xfc00707f MF_match_opcode 0x10000008,
      opc ''vloxseg4ei64.v'' 0 INSN_CLASS_V ''Vd,0(s),VtVm'' 0x6c007007 0xfc00707f MF_match_opcode 0x10000008,
      opc ''vsoxseg4ei64.v'' 0 INSN_CLASS_V ''Vd,0(s),VtVm'' 0x6c007027 0xfc00707f MF_match_opcode 0x10000008,
      opc ''vloxseg5ei64.v'' 0 INSN_CLASS_V ''Vd,0(s),VtVm'' 0x8c007007 0xfc00707f MF_match_opcode 0x10000008,
      opc ''vsoxseg5ei64.v'' 0 INSN_CLASS_V ''Vd,0(s),VtVm'' 0x8c007027 0xfc00707f MF_match_opcode 0x10000008,
      opc ''vloxseg6ei64.v'' 0 INSN_CLASS_V ''Vd,0(s),VtVm'' 0xac007007 0xfc00707f MF_match_opcode 0x10000008,
      opc ''vsoxseg6ei64.v'' 0 INSN_CLASS_V ''Vd,0(s),VtVm'' 0xac007027 0xfc00707f MF_match_opcode 0x10000008,
      opc ''vloxseg7ei64.v'' 0 INSN_CLASS_V ''Vd,0(s),VtVm'' 0xcc007007 0xfc00707f MF_match_opcode 0x10000008,
      opc ''vsoxseg7ei64.v'' 0 INSN_CLASS_V ''Vd,0(s),VtVm'' 0xcc007027 0xfc00707f MF_match_opcode 0x10000008,
      opc ''vloxseg8ei64.v'' 0 INSN_CLASS_V ''Vd,0(s),VtVm'' 0xec007007 0xfc00707f MF_match_opcode 0x10000008,
      opc ''vsoxseg8ei64.v'' 0 INSN_CLASS_V ''Vd,0(s),VtVm'' 0xec007027 0xfc00707f MF_match_opcode 0x10000008,
      opc ''vluxseg2ei8.v'' 0 INSN_CLASS_V ''Vd,0(s),VtVm'' 0x24000007 0xfc00707f MF_match_opcode 0x8,
      opc ''vsuxseg2ei8.v'' 0 INSN_CLASS_V ''Vd,0(s),VtVm'' 0x24000027 0xfc00707f MF_match_opcode 0x8,
      opc ''vluxseg3ei8.v'' 0 INSN_CLASS_V ''Vd,0(s),VtVm'' 0x44000007 0xfc00707f MF_match_opcode 0x8,
      opc ''vsuxseg3ei8.v'' 0 INSN_CLASS_V ''Vd,0(s),VtVm'' 0x44000027 0xfc00707f MF_match_opcode 0x8,
      opc ''vluxseg4ei8.v'' 0 INSN_CLASS_V ''Vd,0(s),VtVm'' 0x64000007 0xfc00707f MF_match_opcode 0x8,
      opc ''vsuxseg4ei8.v'' 0 INSN_CLASS_V ''Vd,0(s),VtVm'' 0x64000027 0xfc00707f MF_match_opcode 0x8,
      opc ''vluxseg5ei8.v'' 0 INSN_CLASS_V ''Vd,0(s),VtVm'' 0x84000007 0xfc00707f MF_match_opcode 0x8,
      opc ''vsuxseg5ei8.v'' 0 INSN_CLASS_V ''Vd,0(s),VtVm'' 0x84000027 0xfc00707f MF_match_opcode 0x8,
      opc ''vluxseg6ei8.v'' 0 INSN_CLASS_V ''Vd,0(s),VtVm'' 0xa4000007 0xfc00707f MF_match_opcode 0x8,
      opc ''vsuxseg6ei8.v'' 0 INSN_CLASS_V ''Vd,0(s),VtVm'' 0xa4000027 0xfc00707f MF_match_opcode 0x8,
      opc ''vluxseg7ei8.v'' 0 INSN_CLASS_V ''Vd,0(s),VtVm'' 0xc4000007 0xfc00707f MF_match_opcode 0x8,
      opc ''vsuxseg7ei8.v'' 0 INSN_CLASS_V ''Vd,0(s),VtVm'' 0xc4000027 0xfc00707f MF_match_opcode 0x8,
      opc ''vluxseg8ei8.v'' 0 INSN_CLASS_V ''Vd,0(s),VtVm'' 0xe4000007 0xfc00707f MF_match_opcode 0x8,
      opc ''vsuxseg8ei8.v'' 0 INSN_CLASS_V ''Vd,0(s),VtVm'' 0xe4000027 0xfc00707f MF_match_opcode 0x8]"

lemma riscv_opcodes_5_fine: "list_all entry_fine riscv_opcodes_5"
  by (simp only: riscv_opcodes_5_def entry_fine_eval word_num_eval) simp

lemma riscv_opcodes_6_fine: "list_all entry_fine riscv_opcodes_6"
  by (simp only: riscv_opcodes_6_def entry_fine_eval word_num_eval) simp

lemma riscv_opcodes_7_fine: "list_all entry_fine riscv_opcodes_7"
  by (simp only: riscv_opcodes_7_def entry_fine_eval word_num_eval) simp

lemma riscv_opcodes_8_fine: "list_all entry_fine riscv_opcodes_8"
  by (simp only: riscv_opcodes_8_def entry_fine_eval word_num_eval) simp

text \<open>The mnemonics of each part of the table in order, with the number of their entries.\<close>

definition optab_groups_5 :: "(string \<times> nat) list" where
  "optab_groups_5 =
     [(''flq'', 2), (''fsq'', 2), (''fmv.q'', Suc 0), (''fneg.q'', Suc 0), (''fabs.q'', Suc 0),
      (''fsgnj.q'', Suc 0), (''fsgnjn.q'', Suc 0), (''fsgnjx.q'', Suc 0), (''fadd.q'', 2),
      (''fsub.q'', 2), (''fmul.q'', 2), (''fdiv.q'', 2), (''fsqrt.q'', 2), (''fmin.q'', Suc 0),
      (''fmax.q'', Suc 0), (''fmadd.q'', 2), (''fnmadd.q'', 2), (''fmsub.q'', 2),
      (''fnmsub.q'', 2), (''fcvt.w.q'', 2), (''fcvt.wu.q'', 2), (''fcvt.q.w'', Suc 0),
      (''fcvt.q.wu'', Suc 0), (''fcvt.q.s'', Suc 0), (''fcvt.q.d'', Suc 0), (''fcvt.s.q'', 2),
      (''fcvt.d.q'', 2), (''fclass.q'', Suc 0), (''feq.q'', Suc 0), (''flt.q'', Suc 0),
      (''fle.q'', Suc 0), (''fgt.q'', Suc 0), (''fge.q'', Suc 0), (''fcvt.l.q'', 2),
      (''fcvt.lu.q'', 2), (''fcvt.q.l'', 2), (''fcvt.q.lu'', 2), (''c.unimp'', Suc 0),
      (''c.ebreak'', Suc 0), (''c.jr'', Suc 0), (''c.jalr'', Suc 0), (''c.j'', Suc 0),
      (''c.jal'', Suc 0), (''c.beqz'', Suc 0), (''c.bnez'', Suc 0), (''c.lwsp'', Suc 0),
      (''c.lw'', Suc 0), (''c.swsp'', Suc 0), (''c.sw'', Suc 0), (''c.nop'', 2),
      (''c.mv'', Suc 0), (''c.lui'', Suc 0), (''c.li'', Suc 0), (''c.addi4spn'', Suc 0),
      (''c.addi16sp'', Suc 0), (''c.addi'', Suc 0), (''c.add'', Suc 0), (''c.sub'', Suc 0),
      (''c.and'', Suc 0), (''c.or'', Suc 0), (''c.xor'', Suc 0), (''c.slli'', Suc 0),
      (''c.srli'', Suc 0), (''c.srai'', Suc 0), (''c.slli64'', Suc 0), (''c.srli64'', Suc 0),
      (''c.srai64'', Suc 0), (''c.andi'', Suc 0), (''c.addiw'', Suc 0), (''c.addw'', Suc 0),
      (''c.subw'', Suc 0), (''c.ldsp'', Suc 0), (''c.ld'', Suc 0), (''c.sdsp'', Suc 0),
      (''c.sd'', Suc 0), (''c.fldsp'', Suc 0), (''c.fld'', Suc 0), (''c.fsdsp'', Suc 0),
      (''c.fsd'', Suc 0), (''c.flwsp'', Suc 0), (''c.flw'', Suc 0), (''c.fswsp'', Suc 0),
      (''c.fsw'', Suc 0), (''cbo.clean'', Suc 0), (''cbo.flush'', Suc 0), (''cbo.inval'', Suc 0),
      (''cbo.zero'', Suc 0), (''czero.eqz'', Suc 0), (''czero.nez'', Suc 0),
      (''wrs.nto'', Suc 0), (''wrs.sto'', Suc 0)]"

definition optab_groups_6 :: "(string \<times> nat) list" where
  "optab_groups_6 =
     [(''fli.s'', Suc 0), (''fli.d'', Suc 0), (''fli.q'', Suc 0), (''fli.h'', Suc 0),
      (''fminm.s'', Suc 0), (''fmaxm.s'', Suc 0), (''fminm.d'', Suc 0), (''fmaxm.d'', Suc 0),
      (''fminm.q'', Suc 0), (''fmaxm.q'', Suc 0), (''fminm.h'', Suc 0), (''fmaxm.h'', Suc 0),
      (''fround.s'', 2), (''froundnx.s'', 2), (''fround.d'', 2), (''froundnx.d'', 2),
      (''fround.q'', 2), (''froundnx.q'', 2), (''fround.h'', 2), (''froundnx.h'', 2),
      (''fcvtmod.w.d'', Suc 0), (''fmvh.x.d'', Suc 0), (''fmvp.d.x'', Suc 0),
      (''fmvh.x.q'', Suc 0), (''fmvp.q.x'', Suc 0), (''fltq.s'', Suc 0), (''fleq.s'', Suc 0),
      (''fltq.d'', Suc 0), (''fleq.d'', Suc 0), (''fltq.q'', Suc 0), (''fleq.q'', Suc 0),
      (''fltq.h'', Suc 0), (''fleq.h'', Suc 0), (''clz'', Suc 0), (''ctz'', Suc 0),
      (''cpop'', Suc 0), (''min'', Suc 0), (''max'', Suc 0), (''minu'', Suc 0),
      (''maxu'', Suc 0), (''sext.b'', 3), (''sext.h'', 3), (''zext.h'', 4), (''orc.b'', Suc 0),
      (''clzw'', Suc 0), (''ctzw'', Suc 0), (''cpopw'', Suc 0), (''brev8'', 2), (''zip'', Suc 0),
      (''unzip'', Suc 0), (''pack'', Suc 0), (''packh'', Suc 0), (''packw'', Suc 0),
      (''andn'', Suc 0), (''orn'', Suc 0), (''xnor'', Suc 0), (''rol'', Suc 0),
      (''rori'', Suc 0), (''ror'', 2), (''rev8'', 2), (''rolw'', Suc 0), (''roriw'', Suc 0),
      (''rorw'', 2), (''sh1add'', Suc 0), (''sh2add'', Suc 0), (''sh3add'', Suc 0),
      (''sh1add.uw'', Suc 0), (''sh2add.uw'', Suc 0), (''sh3add.uw'', Suc 0), (''zext.w'', 3),
      (''add.uw'', Suc 0), (''slli.uw'', Suc 0), (''clmul'', Suc 0), (''clmulh'', Suc 0),
      (''clmulr'', Suc 0), (''bclri'', Suc 0), (''bclr'', 2), (''bseti'', Suc 0), (''bset'', 2),
      (''binvi'', Suc 0), (''binv'', 2), (''bexti'', Suc 0), (''bext'', 2), (''xperm4'', Suc 0),
      (''xperm8'', Suc 0), (''aes32dsi'', Suc 0), (''aes32dsmi'', Suc 0), (''aes64ds'', Suc 0),
      (''aes64dsm'', Suc 0), (''aes64im'', Suc 0), (''aes64ks1i'', Suc 0), (''aes64ks2'', Suc 0),
      (''aes32esi'', Suc 0), (''aes32esmi'', Suc 0), (''aes64es'', Suc 0), (''aes64esm'', Suc 0)]"

definition optab_groups_7 :: "(string \<times> nat) list" where
  "optab_groups_7 =
     [(''sha256sig0'', Suc 0), (''sha256sig1'', Suc 0), (''sha256sum0'', Suc 0),
      (''sha256sum1'', Suc 0), (''sha512sig0h'', Suc 0), (''sha512sig0l'', Suc 0),
      (''sha512sig1h'', Suc 0), (''sha512sig1l'', Suc 0), (''sha512sum0r'', Suc 0),
      (''sha512sum1r'', Suc 0), (''sha512sig0'', Suc 0), (''sha512sig1'', Suc 0),
      (''sha512sum0'', Suc 0), (''sha512sum1'', Suc 0), (''sm4ed'', Suc 0), (''sm4ks'', Suc 0),
      (''sm3p0'', Suc 0), (''sm3p1'', Suc 0), (''vsetvl'', Suc 0), (''vsetvli'', Suc 0),
      (''vsetivli'', Suc 0), (''vlm.v'', Suc 0), (''vsm.v'', Suc 0), (''vle1.v'', Suc 0),
      (''vse1.v'', Suc 0), (''vle8.v'', Suc 0), (''vle16.v'', Suc 0), (''vle32.v'', Suc 0),
      (''vle64.v'', Suc 0), (''vse8.v'', Suc 0), (''vse16.v'', Suc 0), (''vse32.v'', Suc 0),
      (''vse64.v'', Suc 0), (''vlse8.v'', Suc 0), (''vlse16.v'', Suc 0), (''vlse32.v'', Suc 0),
      (''vlse64.v'', Suc 0), (''vsse8.v'', Suc 0), (''vsse16.v'', Suc 0), (''vsse32.v'', Suc 0),
      (''vsse64.v'', Suc 0), (''vloxei8.v'', Suc 0), (''vloxei16.v'', Suc 0),
      (''vloxei32.v'', Suc 0), (''vloxei64.v'', Suc 0), (''vsoxei8.v'', Suc 0),
      (''vsoxei16.v'', Suc 0), (''vsoxei32.v'', Suc 0), (''vsoxei64.v'', Suc 0),
      (''vluxei8.v'', Suc 0), (''vluxei16.v'', Suc 0), (''vluxei32.v'', Suc 0),
      (''vluxei64.v'', Suc 0), (''vsuxei8.v'', Suc 0), (''vsuxei16.v'', Suc 0),
      (''vsuxei32.v'', Suc 0), (''vsuxei64.v'', Suc 0), (''vle8ff.v'', Suc 0),
      (''vle16ff.v'', Suc 0), (''vle32ff.v'', Suc 0), (''vle64ff.v'', Suc 0),
      (''vlseg2e8.v'', Suc 0), (''vsseg2e8.v'', Suc 0), (''vlseg3e8.v'', Suc 0),
      (''vsseg3e8.v'', Suc 0), (''vlseg4e8.v'', Suc 0), (''vsseg4e8.v'', Suc 0),
      (''vlseg5e8.v'', Suc 0), (''vsseg5e8.v'', Suc 0), (''vlseg6e8.v'', Suc 0),
      (''vsseg6e8.v'', Suc 0), (''vlseg7e8.v'', Suc 0), (''vsseg7e8.v'', Suc 0),
      (''vlseg8e8.v'', Suc 0), (''vsseg8e8.v'', Suc 0), (''vlseg2e16.v'', Suc 0),
      (''vsseg2e16.v'', Suc 0), (''vlseg3e16.v'', Suc 0), (''vsseg3e16.v'', Suc 0),
      (''vlseg4e16.v'', Suc 0), (''vsseg4e16.v'', Suc 0), (''vlseg5e16.v'', Suc 0),
      (''vsseg5e16.v'', Suc 0), (''vlseg6e16.v'', Suc 0), (''vsseg6e16.v'', Suc 0),
      (''vlseg7e16.v'', Suc 0), (''vsseg7e16.v'', Suc 0), (''vlseg8e16.v'', Suc 0),
      (''vsseg8e16.v'', Suc 0), (''vlseg2e32.v'', Suc 0), (''vsseg2e32.v'', Suc 0),
      (''vlseg3e32.v'', Suc 0), (''vsseg3e32.v'', Suc 0), (''vlseg4e32.v'', Suc 0),
      (''vsseg4e32.v'', Suc 0), (''vlseg5e32.v'', Suc 0), (''vsseg5e32.v'', Suc 0),
      (''vlseg6e32.v'', Suc 0), (''vsseg6e32.v'', Suc 0), (''vlseg7e32.v'', Suc 0),
      (''vsseg7e32.v'', Suc 0), (''vlseg8e32.v'', Suc 0), (''vsseg8e32.v'', Suc 0),
      (''vlseg2e64.v'', Suc 0), (''vsseg2e64.v'', Suc 0), (''vlseg3e64.v'', Suc 0),
      (''vsseg3e64.v'', Suc 0), (''vlseg4e64.v'', Suc 0), (''vsseg4e64.v'', Suc 0),
      (''vlseg5e64.v'', Suc 0), (''vsseg5e64.v'', Suc 0), (''vlseg6e64.v'', Suc 0),
      (''vsseg6e64.v'', Suc 0), (''vlseg7e64.v'', Suc 0), (''vsseg7e64.v'', Suc 0),
      (''vlseg8e64.v'', Suc 0), (''vsseg8e64.v'', Suc 0)]"

definition optab_groups_8 :: "(string \<times> nat) list" where
  "optab_groups_8 =
     [(''vlsseg2e8.v'', Suc 0), (''vssseg2e8.v'', Suc 0), (''vlsseg3e8.v'', Suc 0),
      (''vssseg3e8.v'', Suc 0), (''vlsseg4e8.v'', Suc 0), (''vssseg4e8.v'', Suc 0),
      (''vlsseg5e8.v'', Suc 0), (''vssseg5e8.v'', Suc 0), (''vlsseg6e8.v'', Suc 0),
      (''vssseg6e8.v'', Suc 0), (''vlsseg7e8.v'', Suc 0), (''vssseg7e8.v'', Suc 0),
      (''vlsseg8e8.v'', Suc 0), (''vssseg8e8.v'', Suc 0), (''vlsseg2e16.v'', Suc 0),
      (''vssseg2e16.v'', Suc 0), (''vlsseg3e16.v'', Suc 0), (''vssseg3e16.v'', Suc 0),
      (''vlsseg4e16.v'', Suc 0), (''vssseg4e16.v'', Suc 0), (''vlsseg5e16.v'', Suc 0),
      (''vssseg5e16.v'', Suc 0), (''vlsseg6e16.v'', Suc 0), (''vssseg6e16.v'', Suc 0),
      (''vlsseg7e16.v'', Suc 0), (''vssseg7e16.v'', Suc 0), (''vlsseg8e16.v'', Suc 0),
      (''vssseg8e16.v'', Suc 0), (''vlsseg2e32.v'', Suc 0), (''vssseg2e32.v'', Suc 0),
      (''vlsseg3e32.v'', Suc 0), (''vssseg3e32.v'', Suc 0), (''vlsseg4e32.v'', Suc 0),
      (''vssseg4e32.v'', Suc 0), (''vlsseg5e32.v'', Suc 0), (''vssseg5e32.v'', Suc 0),
      (''vlsseg6e32.v'', Suc 0), (''vssseg6e32.v'', Suc 0), (''vlsseg7e32.v'', Suc 0),
      (''vssseg7e32.v'', Suc 0), (''vlsseg8e32.v'', Suc 0), (''vssseg8e32.v'', Suc 0),
      (''vlsseg2e64.v'', Suc 0), (''vssseg2e64.v'', Suc 0), (''vlsseg3e64.v'', Suc 0),
      (''vssseg3e64.v'', Suc 0), (''vlsseg4e64.v'', Suc 0), (''vssseg4e64.v'', Suc 0),
      (''vlsseg5e64.v'', Suc 0), (''vssseg5e64.v'', Suc 0), (''vlsseg6e64.v'', Suc 0),
      (''vssseg6e64.v'', Suc 0), (''vlsseg7e64.v'', Suc 0), (''vssseg7e64.v'', Suc 0),
      (''vlsseg8e64.v'', Suc 0), (''vssseg8e64.v'', Suc 0), (''vloxseg2ei8.v'', Suc 0),
      (''vsoxseg2ei8.v'', Suc 0), (''vloxseg3ei8.v'', Suc 0), (''vsoxseg3ei8.v'', Suc 0),
      (''vloxseg4ei8.v'', Suc 0), (''vsoxseg4ei8.v'', Suc 0), (''vloxseg5ei8.v'', Suc 0),
      (''vsoxseg5ei8.v'', Suc 0), (''vloxseg6ei8.v'', Suc 0), (''vsoxseg6ei8.v'', Suc 0),
      (''vloxseg7ei8.v'', Suc 0), (''vsoxseg7ei8.v'', Suc 0), (''vloxseg8ei8.v'', Suc 0),
      (''vsoxseg8ei8.v'', Suc 0), (''vloxseg2ei16.v'', Suc 0), (''vsoxseg2ei16.v'', Suc 0),
      (''vloxseg3ei16.v'', Suc 0), (''vsoxseg3ei16.v'', Suc 0), (''vloxseg4ei16.v'', Suc 0),
      (''vsoxseg4ei16.v'', Suc 0), (''vloxseg5ei16.v'', Suc 0), (''vsoxseg5ei16.v'', Suc 0),
      (''vloxseg6ei16.v'', Suc 0), (''vsoxseg6ei16.v'', Suc 0), (''vloxseg7ei16.v'', Suc 0),
      (''vsoxseg7ei16.v'', Suc 0), (''vloxseg8ei16.v'', Suc 0), (''vsoxseg8ei16.v'', Suc 0),
      (''vloxseg2ei32.v'', Suc 0), (''vsoxseg2ei32.v'', Suc 0), (''vloxseg3ei32.v'', Suc 0),
      (''vsoxseg3ei32.v'', Suc 0), (''vloxseg4ei32.v'', Suc 0), (''vsoxseg4ei32.v'', Suc 0),
      (''vloxseg5ei32.v'', Suc 0), (''vsoxseg5ei32.v'', Suc 0), (''vloxseg6ei32.v'', Suc 0),
      (''vsoxseg6ei32.v'', Suc 0), (''vloxseg7ei32.v'', Suc 0), (''vsoxseg7ei32.v'', Suc 0),
      (''vloxseg8ei32.v'', Suc 0), (''vsoxseg8ei32.v'', Suc 0), (''vloxseg2ei64.v'', Suc 0),
      (''vsoxseg2ei64.v'', Suc 0), (''vloxseg3ei64.v'', Suc 0), (''vsoxseg3ei64.v'', Suc 0),
      (''vloxseg4ei64.v'', Suc 0), (''vsoxseg4ei64.v'', Suc 0), (''vloxseg5ei64.v'', Suc 0),
      (''vsoxseg5ei64.v'', Suc 0), (''vloxseg6ei64.v'', Suc 0), (''vsoxseg6ei64.v'', Suc 0),
      (''vloxseg7ei64.v'', Suc 0), (''vsoxseg7ei64.v'', Suc 0), (''vloxseg8ei64.v'', Suc 0),
      (''vsoxseg8ei64.v'', Suc 0), (''vluxseg2ei8.v'', Suc 0), (''vsuxseg2ei8.v'', Suc 0),
      (''vluxseg3ei8.v'', Suc 0), (''vsuxseg3ei8.v'', Suc 0), (''vluxseg4ei8.v'', Suc 0),
      (''vsuxseg4ei8.v'', Suc 0), (''vluxseg5ei8.v'', Suc 0), (''vsuxseg5ei8.v'', Suc 0),
      (''vluxseg6ei8.v'', Suc 0), (''vsuxseg6ei8.v'', Suc 0), (''vluxseg7ei8.v'', Suc 0),
      (''vsuxseg7ei8.v'', Suc 0), (''vluxseg8ei8.v'', Suc 0), (''vsuxseg8ei8.v'', Suc 0)]"

lemma riscv_opcodes_5_names: "map op_name riscv_opcodes_5 = ungroup optab_groups_5"
  by (simp only: riscv_opcodes_5_def optab_groups_5_def list.map riscv_opcode.select_convs ungroup_eval pred_numeral_simps
      BitM.simps numeral_One One_nat_def)

lemma riscv_opcodes_6_names: "map op_name riscv_opcodes_6 = ungroup optab_groups_6"
  by (simp only: riscv_opcodes_6_def optab_groups_6_def list.map riscv_opcode.select_convs ungroup_eval pred_numeral_simps
      BitM.simps numeral_One One_nat_def)

lemma riscv_opcodes_7_names: "map op_name riscv_opcodes_7 = ungroup optab_groups_7"
  by (simp only: riscv_opcodes_7_def optab_groups_7_def list.map riscv_opcode.select_convs ungroup_eval pred_numeral_simps
      BitM.simps numeral_One One_nat_def)

lemma riscv_opcodes_8_names: "map op_name riscv_opcodes_8 = ungroup optab_groups_8"
  by (simp only: riscv_opcodes_8_def optab_groups_8_def list.map riscv_opcode.select_convs ungroup_eval pred_numeral_simps
      BitM.simps numeral_One One_nat_def)

end
