(* ===== verification/RV_Optab_3.thy ===== *)
theory RV_Optab_3
  imports RV_Args RV_Distinct
begin

text \<open>
  Lines 1415 to 1981 of \<^verbatim>\<open>opcodes/riscv-opc.c\<close>: part 3 of the table \<open>riscv_opcodes\<close>, row by row, with the
  macros \<open>MATCH_*\<close>, \<open>MASK_*\<close> and \<open>INSN_*\<close> of the match, mask and pinfo columns evaluated to numbers as C
  evaluates them (including the sign extension of an \<open>int\<close> expression into \<open>insn_t\<close>).
\<close>

definition riscv_opcodes_9 :: "riscv_opcode list" where
  "riscv_opcodes_9 =
     [opc ''vluxseg2ei16.v'' 0 INSN_CLASS_V ''Vd,0(s),VtVm'' 0x24005007 0xfc00707f MF_match_opcode 0x8,
      opc ''vsuxseg2ei16.v'' 0 INSN_CLASS_V ''Vd,0(s),VtVm'' 0x24005027 0xfc00707f MF_match_opcode 0x8,
      opc ''vluxseg3ei16.v'' 0 INSN_CLASS_V ''Vd,0(s),VtVm'' 0x44005007 0xfc00707f MF_match_opcode 0x8,
      opc ''vsuxseg3ei16.v'' 0 INSN_CLASS_V ''Vd,0(s),VtVm'' 0x44005027 0xfc00707f MF_match_opcode 0x8,
      opc ''vluxseg4ei16.v'' 0 INSN_CLASS_V ''Vd,0(s),VtVm'' 0x64005007 0xfc00707f MF_match_opcode 0x8,
      opc ''vsuxseg4ei16.v'' 0 INSN_CLASS_V ''Vd,0(s),VtVm'' 0x64005027 0xfc00707f MF_match_opcode 0x8,
      opc ''vluxseg5ei16.v'' 0 INSN_CLASS_V ''Vd,0(s),VtVm'' 0x84005007 0xfc00707f MF_match_opcode 0x8,
      opc ''vsuxseg5ei16.v'' 0 INSN_CLASS_V ''Vd,0(s),VtVm'' 0x84005027 0xfc00707f MF_match_opcode 0x8,
      opc ''vluxseg6ei16.v'' 0 INSN_CLASS_V ''Vd,0(s),VtVm'' 0xa4005007 0xfc00707f MF_match_opcode 0x8,
      opc ''vsuxseg6ei16.v'' 0 INSN_CLASS_V ''Vd,0(s),VtVm'' 0xa4005027 0xfc00707f MF_match_opcode 0x8,
      opc ''vluxseg7ei16.v'' 0 INSN_CLASS_V ''Vd,0(s),VtVm'' 0xc4005007 0xfc00707f MF_match_opcode 0x8,
      opc ''vsuxseg7ei16.v'' 0 INSN_CLASS_V ''Vd,0(s),VtVm'' 0xc4005027 0xfc00707f MF_match_opcode 0x8,
      opc ''vluxseg8ei16.v'' 0 INSN_CLASS_V ''Vd,0(s),VtVm'' 0xe4005007 0xfc00707f MF_match_opcode 0x8,
      opc ''vsuxseg8ei16.v'' 0 INSN_CLASS_V ''Vd,0(s),VtVm'' 0xe4005027 0xfc00707f MF_match_opcode 0x8,
      opc ''vluxseg2ei32.v'' 0 INSN_CLASS_V ''Vd,0(s),VtVm'' 0x24006007 0xfc00707f MF_match_opcode 0x8,
      opc ''vsuxseg2ei32.v'' 0 INSN_CLASS_V ''Vd,0(s),VtVm'' 0x24006027 0xfc00707f MF_match_opcode 0x8,
      opc ''vluxseg3ei32.v'' 0 INSN_CLASS_V ''Vd,0(s),VtVm'' 0x44006007 0xfc00707f MF_match_opcode 0x8,
      opc ''vsuxseg3ei32.v'' 0 INSN_CLASS_V ''Vd,0(s),VtVm'' 0x44006027 0xfc00707f MF_match_opcode 0x8,
      opc ''vluxseg4ei32.v'' 0 INSN_CLASS_V ''Vd,0(s),VtVm'' 0x64006007 0xfc00707f MF_match_opcode 0x8,
      opc ''vsuxseg4ei32.v'' 0 INSN_CLASS_V ''Vd,0(s),VtVm'' 0x64006027 0xfc00707f MF_match_opcode 0x8,
      opc ''vluxseg5ei32.v'' 0 INSN_CLASS_V ''Vd,0(s),VtVm'' 0x84006007 0xfc00707f MF_match_opcode 0x8,
      opc ''vsuxseg5ei32.v'' 0 INSN_CLASS_V ''Vd,0(s),VtVm'' 0x84006027 0xfc00707f MF_match_opcode 0x8,
      opc ''vluxseg6ei32.v'' 0 INSN_CLASS_V ''Vd,0(s),VtVm'' 0xa4006007 0xfc00707f MF_match_opcode 0x8,
      opc ''vsuxseg6ei32.v'' 0 INSN_CLASS_V ''Vd,0(s),VtVm'' 0xa4006027 0xfc00707f MF_match_opcode 0x8,
      opc ''vluxseg7ei32.v'' 0 INSN_CLASS_V ''Vd,0(s),VtVm'' 0xc4006007 0xfc00707f MF_match_opcode 0x8,
      opc ''vsuxseg7ei32.v'' 0 INSN_CLASS_V ''Vd,0(s),VtVm'' 0xc4006027 0xfc00707f MF_match_opcode 0x8,
      opc ''vluxseg8ei32.v'' 0 INSN_CLASS_V ''Vd,0(s),VtVm'' 0xe4006007 0xfc00707f MF_match_opcode 0x8,
      opc ''vsuxseg8ei32.v'' 0 INSN_CLASS_V ''Vd,0(s),VtVm'' 0xe4006027 0xfc00707f MF_match_opcode 0x8,
      opc ''vluxseg2ei64.v'' 0 INSN_CLASS_V ''Vd,0(s),VtVm'' 0x24007007 0xfc00707f MF_match_opcode 0x10000008,
      opc ''vsuxseg2ei64.v'' 0 INSN_CLASS_V ''Vd,0(s),VtVm'' 0x24007027 0xfc00707f MF_match_opcode 0x10000008,
      opc ''vluxseg3ei64.v'' 0 INSN_CLASS_V ''Vd,0(s),VtVm'' 0x44007007 0xfc00707f MF_match_opcode 0x10000008,
      opc ''vsuxseg3ei64.v'' 0 INSN_CLASS_V ''Vd,0(s),VtVm'' 0x44007027 0xfc00707f MF_match_opcode 0x10000008,
      opc ''vluxseg4ei64.v'' 0 INSN_CLASS_V ''Vd,0(s),VtVm'' 0x64007007 0xfc00707f MF_match_opcode 0x10000008,
      opc ''vsuxseg4ei64.v'' 0 INSN_CLASS_V ''Vd,0(s),VtVm'' 0x64007027 0xfc00707f MF_match_opcode 0x10000008,
      opc ''vluxseg5ei64.v'' 0 INSN_CLASS_V ''Vd,0(s),VtVm'' 0x84007007 0xfc00707f MF_match_opcode 0x10000008,
      opc ''vsuxseg5ei64.v'' 0 INSN_CLASS_V ''Vd,0(s),VtVm'' 0x84007027 0xfc00707f MF_match_opcode 0x10000008,
      opc ''vluxseg6ei64.v'' 0 INSN_CLASS_V ''Vd,0(s),VtVm'' 0xa4007007 0xfc00707f MF_match_opcode 0x10000008,
      opc ''vsuxseg6ei64.v'' 0 INSN_CLASS_V ''Vd,0(s),VtVm'' 0xa4007027 0xfc00707f MF_match_opcode 0x10000008,
      opc ''vluxseg7ei64.v'' 0 INSN_CLASS_V ''Vd,0(s),VtVm'' 0xc4007007 0xfc00707f MF_match_opcode 0x10000008,
      opc ''vsuxseg7ei64.v'' 0 INSN_CLASS_V ''Vd,0(s),VtVm'' 0xc4007027 0xfc00707f MF_match_opcode 0x10000008,
      opc ''vluxseg8ei64.v'' 0 INSN_CLASS_V ''Vd,0(s),VtVm'' 0xe4007007 0xfc00707f MF_match_opcode 0x10000008,
      opc ''vsuxseg8ei64.v'' 0 INSN_CLASS_V ''Vd,0(s),VtVm'' 0xe4007027 0xfc00707f MF_match_opcode 0x10000008,
      opc ''vlseg2e8ff.v'' 0 INSN_CLASS_V ''Vd,0(s)Vm'' 0x21000007 0xfdf0707f MF_match_opcode 0x8,
      opc ''vlseg3e8ff.v'' 0 INSN_CLASS_V ''Vd,0(s)Vm'' 0x41000007 0xfdf0707f MF_match_opcode 0x8,
      opc ''vlseg4e8ff.v'' 0 INSN_CLASS_V ''Vd,0(s)Vm'' 0x61000007 0xfdf0707f MF_match_opcode 0x8,
      opc ''vlseg5e8ff.v'' 0 INSN_CLASS_V ''Vd,0(s)Vm'' 0x81000007 0xfdf0707f MF_match_opcode 0x8,
      opc ''vlseg6e8ff.v'' 0 INSN_CLASS_V ''Vd,0(s)Vm'' 0xa1000007 0xfdf0707f MF_match_opcode 0x8,
      opc ''vlseg7e8ff.v'' 0 INSN_CLASS_V ''Vd,0(s)Vm'' 0xc1000007 0xfdf0707f MF_match_opcode 0x8,
      opc ''vlseg8e8ff.v'' 0 INSN_CLASS_V ''Vd,0(s)Vm'' 0xe1000007 0xfdf0707f MF_match_opcode 0x8,
      opc ''vlseg2e16ff.v'' 0 INSN_CLASS_V ''Vd,0(s)Vm'' 0x21005007 0xfdf0707f MF_match_opcode 0x8,
      opc ''vlseg3e16ff.v'' 0 INSN_CLASS_V ''Vd,0(s)Vm'' 0x41005007 0xfdf0707f MF_match_opcode 0x8,
      opc ''vlseg4e16ff.v'' 0 INSN_CLASS_V ''Vd,0(s)Vm'' 0x61005007 0xfdf0707f MF_match_opcode 0x8,
      opc ''vlseg5e16ff.v'' 0 INSN_CLASS_V ''Vd,0(s)Vm'' 0x81005007 0xfdf0707f MF_match_opcode 0x8,
      opc ''vlseg6e16ff.v'' 0 INSN_CLASS_V ''Vd,0(s)Vm'' 0xa1005007 0xfdf0707f MF_match_opcode 0x8,
      opc ''vlseg7e16ff.v'' 0 INSN_CLASS_V ''Vd,0(s)Vm'' 0xc1005007 0xfdf0707f MF_match_opcode 0x8,
      opc ''vlseg8e16ff.v'' 0 INSN_CLASS_V ''Vd,0(s)Vm'' 0xe1005007 0xfdf0707f MF_match_opcode 0x8,
      opc ''vlseg2e32ff.v'' 0 INSN_CLASS_V ''Vd,0(s)Vm'' 0x21006007 0xfdf0707f MF_match_opcode 0x8,
      opc ''vlseg3e32ff.v'' 0 INSN_CLASS_V ''Vd,0(s)Vm'' 0x41006007 0xfdf0707f MF_match_opcode 0x8,
      opc ''vlseg4e32ff.v'' 0 INSN_CLASS_V ''Vd,0(s)Vm'' 0x61006007 0xfdf0707f MF_match_opcode 0x8,
      opc ''vlseg5e32ff.v'' 0 INSN_CLASS_V ''Vd,0(s)Vm'' 0x81006007 0xfdf0707f MF_match_opcode 0x8,
      opc ''vlseg6e32ff.v'' 0 INSN_CLASS_V ''Vd,0(s)Vm'' 0xa1006007 0xfdf0707f MF_match_opcode 0x8,
      opc ''vlseg7e32ff.v'' 0 INSN_CLASS_V ''Vd,0(s)Vm'' 0xc1006007 0xfdf0707f MF_match_opcode 0x8,
      opc ''vlseg8e32ff.v'' 0 INSN_CLASS_V ''Vd,0(s)Vm'' 0xe1006007 0xfdf0707f MF_match_opcode 0x8,
      opc ''vlseg2e64ff.v'' 0 INSN_CLASS_V ''Vd,0(s)Vm'' 0x21007007 0xfdf0707f MF_match_opcode 0x10000008,
      opc ''vlseg3e64ff.v'' 0 INSN_CLASS_V ''Vd,0(s)Vm'' 0x41007007 0xfdf0707f MF_match_opcode 0x10000008,
      opc ''vlseg4e64ff.v'' 0 INSN_CLASS_V ''Vd,0(s)Vm'' 0x61007007 0xfdf0707f MF_match_opcode 0x10000008,
      opc ''vlseg5e64ff.v'' 0 INSN_CLASS_V ''Vd,0(s)Vm'' 0x81007007 0xfdf0707f MF_match_opcode 0x10000008,
      opc ''vlseg6e64ff.v'' 0 INSN_CLASS_V ''Vd,0(s)Vm'' 0xa1007007 0xfdf0707f MF_match_opcode 0x10000008,
      opc ''vlseg7e64ff.v'' 0 INSN_CLASS_V ''Vd,0(s)Vm'' 0xc1007007 0xfdf0707f MF_match_opcode 0x10000008,
      opc ''vlseg8e64ff.v'' 0 INSN_CLASS_V ''Vd,0(s)Vm'' 0xe1007007 0xfdf0707f MF_match_opcode 0x10000008,
      opc ''vl1r.v'' 0 INSN_CLASS_V ''Vd,0(s)'' 0x2800007 0xfff0707f MF_match_opcode 0x9,
      opc ''vl1re8.v'' 0 INSN_CLASS_V ''Vd,0(s)'' 0x2800007 0xfff0707f MF_match_opcode 0x8,
      opc ''vl1re16.v'' 0 INSN_CLASS_V ''Vd,0(s)'' 0x2805007 0xfff0707f MF_match_opcode 0x8,
      opc ''vl1re32.v'' 0 INSN_CLASS_V ''Vd,0(s)'' 0x2806007 0xfff0707f MF_match_opcode 0x8,
      opc ''vl1re64.v'' 0 INSN_CLASS_V ''Vd,0(s)'' 0x2807007 0xfff0707f MF_match_opcode 0x10000008,
      opc ''vl2r.v'' 0 INSN_CLASS_V ''Vd,0(s)'' 0x22800007 0xfff0707f MF_match_opcode 0x9,
      opc ''vl2re8.v'' 0 INSN_CLASS_V ''Vd,0(s)'' 0x22800007 0xfff0707f MF_match_opcode 0x8,
      opc ''vl2re16.v'' 0 INSN_CLASS_V ''Vd,0(s)'' 0x22805007 0xfff0707f MF_match_opcode 0x8,
      opc ''vl2re32.v'' 0 INSN_CLASS_V ''Vd,0(s)'' 0x22806007 0xfff0707f MF_match_opcode 0x8,
      opc ''vl2re64.v'' 0 INSN_CLASS_V ''Vd,0(s)'' 0x22807007 0xfff0707f MF_match_opcode 0x10000008,
      opc ''vl4r.v'' 0 INSN_CLASS_V ''Vd,0(s)'' 0x62800007 0xfff0707f MF_match_opcode 0x9,
      opc ''vl4re8.v'' 0 INSN_CLASS_V ''Vd,0(s)'' 0x62800007 0xfff0707f MF_match_opcode 0x8,
      opc ''vl4re16.v'' 0 INSN_CLASS_V ''Vd,0(s)'' 0x62805007 0xfff0707f MF_match_opcode 0x8,
      opc ''vl4re32.v'' 0 INSN_CLASS_V ''Vd,0(s)'' 0x62806007 0xfff0707f MF_match_opcode 0x8,
      opc ''vl4re64.v'' 0 INSN_CLASS_V ''Vd,0(s)'' 0x62807007 0xfff0707f MF_match_opcode 0x10000008,
      opc ''vl8r.v'' 0 INSN_CLASS_V ''Vd,0(s)'' 0xe2800007 0xfff0707f MF_match_opcode 0x9,
      opc ''vl8re8.v'' 0 INSN_CLASS_V ''Vd,0(s)'' 0xe2800007 0xfff0707f MF_match_opcode 0x8,
      opc ''vl8re16.v'' 0 INSN_CLASS_V ''Vd,0(s)'' 0xe2805007 0xfff0707f MF_match_opcode 0x8,
      opc ''vl8re32.v'' 0 INSN_CLASS_V ''Vd,0(s)'' 0xe2806007 0xfff0707f MF_match_opcode 0x8,
      opc ''vl8re64.v'' 0 INSN_CLASS_V ''Vd,0(s)'' 0xe2807007 0xfff0707f MF_match_opcode 0x10000008,
      opc ''vs1r.v'' 0 INSN_CLASS_V ''Vd,0(s)'' 0x2800027 0xfff0707f MF_match_opcode 0x8,
      opc ''vs2r.v'' 0 INSN_CLASS_V ''Vd,0(s)'' 0x22800027 0xfff0707f MF_match_opcode 0x8,
      opc ''vs4r.v'' 0 INSN_CLASS_V ''Vd,0(s)'' 0x62800027 0xfff0707f MF_match_opcode 0x8,
      opc ''vs8r.v'' 0 INSN_CLASS_V ''Vd,0(s)'' 0xe2800027 0xfff0707f MF_match_opcode 0x8,
      opc ''vneg.v'' 0 INSN_CLASS_V ''Vd,VtVm'' 0xc004057 0xfc0ff07f MF_match_opcode 0x1,
      opc ''vadd.vv'' 0 INSN_CLASS_V ''Vd,Vt,VsVm'' 0x57 0xfc00707f MF_match_opcode 0,
      opc ''vadd.vx'' 0 INSN_CLASS_V ''Vd,Vt,sVm'' 0x4057 0xfc00707f MF_match_opcode 0,
      opc ''vadd.vi'' 0 INSN_CLASS_V ''Vd,Vt,ViVm'' 0x3057 0xfc00707f MF_match_opcode 0,
      opc ''vsub.vv'' 0 INSN_CLASS_V ''Vd,Vt,VsVm'' 0x8000057 0xfc00707f MF_match_opcode 0,
      opc ''vsub.vx'' 0 INSN_CLASS_V ''Vd,Vt,sVm'' 0x8004057 0xfc00707f MF_match_opcode 0,
      opc ''vrsub.vx'' 0 INSN_CLASS_V ''Vd,Vt,sVm'' 0xc004057 0xfc00707f MF_match_opcode 0,
      opc ''vrsub.vi'' 0 INSN_CLASS_V ''Vd,Vt,ViVm'' 0xc003057 0xfc00707f MF_match_opcode 0,
      opc ''vwcvt.x.x.v'' 0 INSN_CLASS_V ''Vd,VtVm'' 0xc4006057 0xfc0ff07f MF_match_opcode 0x1,
      opc ''vwcvtu.x.x.v'' 0 INSN_CLASS_V ''Vd,VtVm'' 0xc0006057 0xfc0ff07f MF_match_opcode 0x1,
      opc ''vwaddu.vv'' 0 INSN_CLASS_V ''Vd,Vt,VsVm'' 0xc0002057 0xfc00707f MF_match_opcode 0,
      opc ''vwaddu.vx'' 0 INSN_CLASS_V ''Vd,Vt,sVm'' 0xc0006057 0xfc00707f MF_match_opcode 0,
      opc ''vwsubu.vv'' 0 INSN_CLASS_V ''Vd,Vt,VsVm'' 0xc8002057 0xfc00707f MF_match_opcode 0,
      opc ''vwsubu.vx'' 0 INSN_CLASS_V ''Vd,Vt,sVm'' 0xc8006057 0xfc00707f MF_match_opcode 0,
      opc ''vwadd.vv'' 0 INSN_CLASS_V ''Vd,Vt,VsVm'' 0xc4002057 0xfc00707f MF_match_opcode 0,
      opc ''vwadd.vx'' 0 INSN_CLASS_V ''Vd,Vt,sVm'' 0xc4006057 0xfc00707f MF_match_opcode 0,
      opc ''vwsub.vv'' 0 INSN_CLASS_V ''Vd,Vt,VsVm'' 0xcc002057 0xfc00707f MF_match_opcode 0,
      opc ''vwsub.vx'' 0 INSN_CLASS_V ''Vd,Vt,sVm'' 0xcc006057 0xfc00707f MF_match_opcode 0,
      opc ''vwaddu.wv'' 0 INSN_CLASS_V ''Vd,Vt,VsVm'' 0xd0002057 0xfc00707f MF_match_opcode 0,
      opc ''vwaddu.wx'' 0 INSN_CLASS_V ''Vd,Vt,sVm'' 0xd0006057 0xfc00707f MF_match_opcode 0,
      opc ''vwsubu.wv'' 0 INSN_CLASS_V ''Vd,Vt,VsVm'' 0xd8002057 0xfc00707f MF_match_opcode 0,
      opc ''vwsubu.wx'' 0 INSN_CLASS_V ''Vd,Vt,sVm'' 0xd8006057 0xfc00707f MF_match_opcode 0,
      opc ''vwadd.wv'' 0 INSN_CLASS_V ''Vd,Vt,VsVm'' 0xd4002057 0xfc00707f MF_match_opcode 0,
      opc ''vwadd.wx'' 0 INSN_CLASS_V ''Vd,Vt,sVm'' 0xd4006057 0xfc00707f MF_match_opcode 0,
      opc ''vwsub.wv'' 0 INSN_CLASS_V ''Vd,Vt,VsVm'' 0xdc002057 0xfc00707f MF_match_opcode 0,
      opc ''vwsub.wx'' 0 INSN_CLASS_V ''Vd,Vt,sVm'' 0xdc006057 0xfc00707f MF_match_opcode 0,
      opc ''vzext.vf2'' 0 INSN_CLASS_V ''Vd,VtVm'' 0x48032057 0xfc0ff07f MF_match_opcode 0,
      opc ''vsext.vf2'' 0 INSN_CLASS_V ''Vd,VtVm'' 0x4803a057 0xfc0ff07f MF_match_opcode 0,
      opc ''vzext.vf4'' 0 INSN_CLASS_V ''Vd,VtVm'' 0x48022057 0xfc0ff07f MF_match_opcode 0,
      opc ''vsext.vf4'' 0 INSN_CLASS_V ''Vd,VtVm'' 0x4802a057 0xfc0ff07f MF_match_opcode 0,
      opc ''vzext.vf8'' 0 INSN_CLASS_V ''Vd,VtVm'' 0x48012057 0xfc0ff07f MF_match_opcode 0,
      opc ''vsext.vf8'' 0 INSN_CLASS_V ''Vd,VtVm'' 0x4801a057 0xfc0ff07f MF_match_opcode 0]"

definition riscv_opcodes_10 :: "riscv_opcode list" where
  "riscv_opcodes_10 =
     [opc ''vadc.vvm'' 0 INSN_CLASS_V ''Vd,Vt,Vs,V0'' 0x40000057 0xfe00707f MF_match_opcode 0,
      opc ''vadc.vxm'' 0 INSN_CLASS_V ''Vd,Vt,s,V0'' 0x40004057 0xfe00707f MF_match_opcode 0,
      opc ''vadc.vim'' 0 INSN_CLASS_V ''Vd,Vt,Vi,V0'' 0x40003057 0xfe00707f MF_match_opcode 0,
      opc ''vmadc.vvm'' 0 INSN_CLASS_V ''Vd,Vt,Vs,V0'' 0x44000057 0xfe00707f MF_match_opcode 0,
      opc ''vmadc.vxm'' 0 INSN_CLASS_V ''Vd,Vt,s,V0'' 0x44004057 0xfe00707f MF_match_opcode 0,
      opc ''vmadc.vim'' 0 INSN_CLASS_V ''Vd,Vt,Vi,V0'' 0x44003057 0xfe00707f MF_match_opcode 0,
      opc ''vmadc.vv'' 0 INSN_CLASS_V ''Vd,Vt,Vs'' 0x46000057 0xfe00707f MF_match_opcode 0,
      opc ''vmadc.vx'' 0 INSN_CLASS_V ''Vd,Vt,s'' 0x46004057 0xfe00707f MF_match_opcode 0,
      opc ''vmadc.vi'' 0 INSN_CLASS_V ''Vd,Vt,Vi'' 0x46003057 0xfe00707f MF_match_opcode 0,
      opc ''vsbc.vvm'' 0 INSN_CLASS_V ''Vd,Vt,Vs,V0'' 0x48000057 0xfe00707f MF_match_opcode 0,
      opc ''vsbc.vxm'' 0 INSN_CLASS_V ''Vd,Vt,s,V0'' 0x48004057 0xfe00707f MF_match_opcode 0,
      opc ''vmsbc.vvm'' 0 INSN_CLASS_V ''Vd,Vt,Vs,V0'' 0x4c000057 0xfe00707f MF_match_opcode 0,
      opc ''vmsbc.vxm'' 0 INSN_CLASS_V ''Vd,Vt,s,V0'' 0x4c004057 0xfe00707f MF_match_opcode 0,
      opc ''vmsbc.vv'' 0 INSN_CLASS_V ''Vd,Vt,Vs'' 0x4e000057 0xfe00707f MF_match_opcode 0,
      opc ''vmsbc.vx'' 0 INSN_CLASS_V ''Vd,Vt,s'' 0x4e004057 0xfe00707f MF_match_opcode 0,
      opc ''vnot.v'' 0 INSN_CLASS_V ''Vd,VtVm'' 0x2c0fb057 0xfc0ff07f MF_match_opcode 0x1,
      opc ''vand.vv'' 0 INSN_CLASS_V ''Vd,Vt,VsVm'' 0x24000057 0xfc00707f MF_match_opcode 0,
      opc ''vand.vx'' 0 INSN_CLASS_V ''Vd,Vt,sVm'' 0x24004057 0xfc00707f MF_match_opcode 0,
      opc ''vand.vi'' 0 INSN_CLASS_V ''Vd,Vt,ViVm'' 0x24003057 0xfc00707f MF_match_opcode 0,
      opc ''vor.vv'' 0 INSN_CLASS_V ''Vd,Vt,VsVm'' 0x28000057 0xfc00707f MF_match_opcode 0,
      opc ''vor.vx'' 0 INSN_CLASS_V ''Vd,Vt,sVm'' 0x28004057 0xfc00707f MF_match_opcode 0,
      opc ''vor.vi'' 0 INSN_CLASS_V ''Vd,Vt,ViVm'' 0x28003057 0xfc00707f MF_match_opcode 0,
      opc ''vxor.vv'' 0 INSN_CLASS_V ''Vd,Vt,VsVm'' 0x2c000057 0xfc00707f MF_match_opcode 0,
      opc ''vxor.vx'' 0 INSN_CLASS_V ''Vd,Vt,sVm'' 0x2c004057 0xfc00707f MF_match_opcode 0,
      opc ''vxor.vi'' 0 INSN_CLASS_V ''Vd,Vt,ViVm'' 0x2c003057 0xfc00707f MF_match_opcode 0,
      opc ''vsll.vv'' 0 INSN_CLASS_V ''Vd,Vt,VsVm'' 0x94000057 0xfc00707f MF_match_opcode 0,
      opc ''vsll.vx'' 0 INSN_CLASS_V ''Vd,Vt,sVm'' 0x94004057 0xfc00707f MF_match_opcode 0,
      opc ''vsll.vi'' 0 INSN_CLASS_V ''Vd,Vt,VjVm'' 0x94003057 0xfc00707f MF_match_opcode 0,
      opc ''vsrl.vv'' 0 INSN_CLASS_V ''Vd,Vt,VsVm'' 0xa0000057 0xfc00707f MF_match_opcode 0,
      opc ''vsrl.vx'' 0 INSN_CLASS_V ''Vd,Vt,sVm'' 0xa0004057 0xfc00707f MF_match_opcode 0,
      opc ''vsrl.vi'' 0 INSN_CLASS_V ''Vd,Vt,VjVm'' 0xa0003057 0xfc00707f MF_match_opcode 0,
      opc ''vsra.vv'' 0 INSN_CLASS_V ''Vd,Vt,VsVm'' 0xa4000057 0xfc00707f MF_match_opcode 0,
      opc ''vsra.vx'' 0 INSN_CLASS_V ''Vd,Vt,sVm'' 0xa4004057 0xfc00707f MF_match_opcode 0,
      opc ''vsra.vi'' 0 INSN_CLASS_V ''Vd,Vt,VjVm'' 0xa4003057 0xfc00707f MF_match_opcode 0,
      opc ''vncvt.x.x.w'' 0 INSN_CLASS_V ''Vd,VtVm'' 0xb0004057 0xfc0ff07f MF_match_opcode 0x1,
      opc ''vnsrl.wv'' 0 INSN_CLASS_V ''Vd,Vt,VsVm'' 0xb0000057 0xfc00707f MF_match_opcode 0,
      opc ''vnsrl.wx'' 0 INSN_CLASS_V ''Vd,Vt,sVm'' 0xb0004057 0xfc00707f MF_match_opcode 0,
      opc ''vnsrl.wi'' 0 INSN_CLASS_V ''Vd,Vt,VjVm'' 0xb0003057 0xfc00707f MF_match_opcode 0,
      opc ''vnsra.wv'' 0 INSN_CLASS_V ''Vd,Vt,VsVm'' 0xb4000057 0xfc00707f MF_match_opcode 0,
      opc ''vnsra.wx'' 0 INSN_CLASS_V ''Vd,Vt,sVm'' 0xb4004057 0xfc00707f MF_match_opcode 0,
      opc ''vnsra.wi'' 0 INSN_CLASS_V ''Vd,Vt,VjVm'' 0xb4003057 0xfc00707f MF_match_opcode 0,
      opc ''vmseq.vv'' 0 INSN_CLASS_V ''Vd,Vt,VsVm'' 0x60000057 0xfc00707f MF_match_opcode 0,
      opc ''vmseq.vx'' 0 INSN_CLASS_V ''Vd,Vt,sVm'' 0x60004057 0xfc00707f MF_match_opcode 0,
      opc ''vmseq.vi'' 0 INSN_CLASS_V ''Vd,Vt,ViVm'' 0x60003057 0xfc00707f MF_match_opcode 0,
      opc ''vmsne.vv'' 0 INSN_CLASS_V ''Vd,Vt,VsVm'' 0x64000057 0xfc00707f MF_match_opcode 0,
      opc ''vmsne.vx'' 0 INSN_CLASS_V ''Vd,Vt,sVm'' 0x64004057 0xfc00707f MF_match_opcode 0,
      opc ''vmsne.vi'' 0 INSN_CLASS_V ''Vd,Vt,ViVm'' 0x64003057 0xfc00707f MF_match_opcode 0,
      opc ''vmsltu.vv'' 0 INSN_CLASS_V ''Vd,Vt,VsVm'' 0x68000057 0xfc00707f MF_match_opcode 0,
      opc ''vmsltu.vx'' 0 INSN_CLASS_V ''Vd,Vt,sVm'' 0x68004057 0xfc00707f MF_match_opcode 0,
      opc ''vmslt.vv'' 0 INSN_CLASS_V ''Vd,Vt,VsVm'' 0x6c000057 0xfc00707f MF_match_opcode 0,
      opc ''vmslt.vx'' 0 INSN_CLASS_V ''Vd,Vt,sVm'' 0x6c004057 0xfc00707f MF_match_opcode 0,
      opc ''vmsleu.vv'' 0 INSN_CLASS_V ''Vd,Vt,VsVm'' 0x70000057 0xfc00707f MF_match_opcode 0,
      opc ''vmsleu.vx'' 0 INSN_CLASS_V ''Vd,Vt,sVm'' 0x70004057 0xfc00707f MF_match_opcode 0,
      opc ''vmsleu.vi'' 0 INSN_CLASS_V ''Vd,Vt,ViVm'' 0x70003057 0xfc00707f MF_match_opcode 0,
      opc ''vmsle.vv'' 0 INSN_CLASS_V ''Vd,Vt,VsVm'' 0x74000057 0xfc00707f MF_match_opcode 0,
      opc ''vmsle.vx'' 0 INSN_CLASS_V ''Vd,Vt,sVm'' 0x74004057 0xfc00707f MF_match_opcode 0,
      opc ''vmsle.vi'' 0 INSN_CLASS_V ''Vd,Vt,ViVm'' 0x74003057 0xfc00707f MF_match_opcode 0,
      opc ''vmsgtu.vx'' 0 INSN_CLASS_V ''Vd,Vt,sVm'' 0x78004057 0xfc00707f MF_match_opcode 0,
      opc ''vmsgtu.vi'' 0 INSN_CLASS_V ''Vd,Vt,ViVm'' 0x78003057 0xfc00707f MF_match_opcode 0,
      opc ''vmsgt.vx'' 0 INSN_CLASS_V ''Vd,Vt,sVm'' 0x7c004057 0xfc00707f MF_match_opcode 0,
      opc ''vmsgt.vi'' 0 INSN_CLASS_V ''Vd,Vt,ViVm'' 0x7c003057 0xfc00707f MF_match_opcode 0,
      opc ''vmsgt.vv'' 0 INSN_CLASS_V ''Vd,Vs,VtVm'' 0x6c000057 0xfc00707f MF_match_opcode 0x1,
      opc ''vmsgtu.vv'' 0 INSN_CLASS_V ''Vd,Vs,VtVm'' 0x68000057 0xfc00707f MF_match_opcode 0x1,
      opc ''vmsge.vv'' 0 INSN_CLASS_V ''Vd,Vs,VtVm'' 0x74000057 0xfc00707f MF_match_opcode 0x1,
      opc ''vmsgeu.vv'' 0 INSN_CLASS_V ''Vd,Vs,VtVm'' 0x70000057 0xfc00707f MF_match_opcode 0x1,
      opc ''vmslt.vi'' 0 INSN_CLASS_V ''Vd,Vt,VkVm'' 0x74003057 0xfc00707f MF_match_opcode 0x1,
      opc ''vmsltu.vi'' 0 INSN_CLASS_V ''Vd,Vu,0Vm'' 0x64000057 0xfc00707f MF_match_vs1_eq_vs2 0x1,
      opc ''vmsltu.vi'' 0 INSN_CLASS_V ''Vd,Vt,VkVm'' 0x70003057 0xfc00707f MF_match_opcode 0x1,
      opc ''vmsge.vi'' 0 INSN_CLASS_V ''Vd,Vt,VkVm'' 0x7c003057 0xfc00707f MF_match_opcode 0x1,
      opc ''vmsgeu.vi'' 0 INSN_CLASS_V ''Vd,Vu,0Vm'' 0x60000057 0xfc00707f MF_match_vs1_eq_vs2 0x1,
      opc ''vmsgeu.vi'' 0 INSN_CLASS_V ''Vd,Vt,VkVm'' 0x78003057 0xfc00707f MF_match_opcode 0x1,
      opc ''vmsge.vx'' 0 INSN_CLASS_V ''Vd,Vt,sVm'' 0 0xe MF_NULL 0xffffffff,
      opc ''vmsge.vx'' 0 INSN_CLASS_V ''Vd,Vt,s,VM,VT'' 0 0xe MF_NULL 0xffffffff,
      opc ''vmsgeu.vx'' 0 INSN_CLASS_V ''Vd,Vt,sVm'' 0x1 0xe MF_NULL 0xffffffff,
      opc ''vmsgeu.vx'' 0 INSN_CLASS_V ''Vd,Vt,s,VM,VT'' 0x1 0xe MF_NULL 0xffffffff,
      opc ''vminu.vv'' 0 INSN_CLASS_V ''Vd,Vt,VsVm'' 0x10000057 0xfc00707f MF_match_opcode 0,
      opc ''vminu.vx'' 0 INSN_CLASS_V ''Vd,Vt,sVm'' 0x10004057 0xfc00707f MF_match_opcode 0,
      opc ''vmin.vv'' 0 INSN_CLASS_V ''Vd,Vt,VsVm'' 0x14000057 0xfc00707f MF_match_opcode 0,
      opc ''vmin.vx'' 0 INSN_CLASS_V ''Vd,Vt,sVm'' 0x14004057 0xfc00707f MF_match_opcode 0,
      opc ''vmaxu.vv'' 0 INSN_CLASS_V ''Vd,Vt,VsVm'' 0x18000057 0xfc00707f MF_match_opcode 0,
      opc ''vmaxu.vx'' 0 INSN_CLASS_V ''Vd,Vt,sVm'' 0x18004057 0xfc00707f MF_match_opcode 0,
      opc ''vmax.vv'' 0 INSN_CLASS_V ''Vd,Vt,VsVm'' 0x1c000057 0xfc00707f MF_match_opcode 0,
      opc ''vmax.vx'' 0 INSN_CLASS_V ''Vd,Vt,sVm'' 0x1c004057 0xfc00707f MF_match_opcode 0,
      opc ''vmul.vv'' 0 INSN_CLASS_V ''Vd,Vt,VsVm'' 0x94002057 0xfc00707f MF_match_opcode 0,
      opc ''vmul.vx'' 0 INSN_CLASS_V ''Vd,Vt,sVm'' 0x94006057 0xfc00707f MF_match_opcode 0,
      opc ''vmulh.vv'' 0 INSN_CLASS_V ''Vd,Vt,VsVm'' 0x9c002057 0xfc00707f MF_match_opcode 0,
      opc ''vmulh.vx'' 0 INSN_CLASS_V ''Vd,Vt,sVm'' 0x9c006057 0xfc00707f MF_match_opcode 0,
      opc ''vmulhu.vv'' 0 INSN_CLASS_V ''Vd,Vt,VsVm'' 0x90002057 0xfc00707f MF_match_opcode 0,
      opc ''vmulhu.vx'' 0 INSN_CLASS_V ''Vd,Vt,sVm'' 0x90006057 0xfc00707f MF_match_opcode 0,
      opc ''vmulhsu.vv'' 0 INSN_CLASS_V ''Vd,Vt,VsVm'' 0x98002057 0xfc00707f MF_match_opcode 0,
      opc ''vmulhsu.vx'' 0 INSN_CLASS_V ''Vd,Vt,sVm'' 0x98006057 0xfc00707f MF_match_opcode 0,
      opc ''vwmul.vv'' 0 INSN_CLASS_V ''Vd,Vt,VsVm'' 0xec002057 0xfc00707f MF_match_opcode 0,
      opc ''vwmul.vx'' 0 INSN_CLASS_V ''Vd,Vt,sVm'' 0xec006057 0xfc00707f MF_match_opcode 0,
      opc ''vwmulu.vv'' 0 INSN_CLASS_V ''Vd,Vt,VsVm'' 0xe0002057 0xfc00707f MF_match_opcode 0,
      opc ''vwmulu.vx'' 0 INSN_CLASS_V ''Vd,Vt,sVm'' 0xe0006057 0xfc00707f MF_match_opcode 0,
      opc ''vwmulsu.vv'' 0 INSN_CLASS_V ''Vd,Vt,VsVm'' 0xe8002057 0xfc00707f MF_match_opcode 0,
      opc ''vwmulsu.vx'' 0 INSN_CLASS_V ''Vd,Vt,sVm'' 0xe8006057 0xfc00707f MF_match_opcode 0,
      opc ''vmacc.vv'' 0 INSN_CLASS_V ''Vd,Vs,VtVm'' 0xb4002057 0xfc00707f MF_match_opcode 0,
      opc ''vmacc.vx'' 0 INSN_CLASS_V ''Vd,s,VtVm'' 0xb4006057 0xfc00707f MF_match_opcode 0,
      opc ''vnmsac.vv'' 0 INSN_CLASS_V ''Vd,Vs,VtVm'' 0xbc002057 0xfc00707f MF_match_opcode 0,
      opc ''vnmsac.vx'' 0 INSN_CLASS_V ''Vd,s,VtVm'' 0xbc006057 0xfc00707f MF_match_opcode 0,
      opc ''vmadd.vv'' 0 INSN_CLASS_V ''Vd,Vs,VtVm'' 0xa4002057 0xfc00707f MF_match_opcode 0,
      opc ''vmadd.vx'' 0 INSN_CLASS_V ''Vd,s,VtVm'' 0xa4006057 0xfc00707f MF_match_opcode 0,
      opc ''vnmsub.vv'' 0 INSN_CLASS_V ''Vd,Vs,VtVm'' 0xac002057 0xfc00707f MF_match_opcode 0,
      opc ''vnmsub.vx'' 0 INSN_CLASS_V ''Vd,s,VtVm'' 0xac006057 0xfc00707f MF_match_opcode 0,
      opc ''vwmaccu.vv'' 0 INSN_CLASS_V ''Vd,Vs,VtVm'' 0xf0002057 0xfc00707f MF_match_opcode 0,
      opc ''vwmaccu.vx'' 0 INSN_CLASS_V ''Vd,s,VtVm'' 0xf0006057 0xfc00707f MF_match_opcode 0,
      opc ''vwmacc.vv'' 0 INSN_CLASS_V ''Vd,Vs,VtVm'' 0xf4002057 0xfc00707f MF_match_opcode 0,
      opc ''vwmacc.vx'' 0 INSN_CLASS_V ''Vd,s,VtVm'' 0xf4006057 0xfc00707f MF_match_opcode 0,
      opc ''vwmaccsu.vv'' 0 INSN_CLASS_V ''Vd,Vs,VtVm'' 0xfc002057 0xfc00707f MF_match_opcode 0,
      opc ''vwmaccsu.vx'' 0 INSN_CLASS_V ''Vd,s,VtVm'' 0xfc006057 0xfc00707f MF_match_opcode 0,
      opc ''vwmaccus.vx'' 0 INSN_CLASS_V ''Vd,s,VtVm'' 0xf8006057 0xfc00707f MF_match_opcode 0,
      opc ''vdivu.vv'' 0 INSN_CLASS_V ''Vd,Vt,VsVm'' 0x80002057 0xfc00707f MF_match_opcode 0,
      opc ''vdivu.vx'' 0 INSN_CLASS_V ''Vd,Vt,sVm'' 0x80006057 0xfc00707f MF_match_opcode 0,
      opc ''vdiv.vv'' 0 INSN_CLASS_V ''Vd,Vt,VsVm'' 0x84002057 0xfc00707f MF_match_opcode 0,
      opc ''vdiv.vx'' 0 INSN_CLASS_V ''Vd,Vt,sVm'' 0x84006057 0xfc00707f MF_match_opcode 0,
      opc ''vremu.vv'' 0 INSN_CLASS_V ''Vd,Vt,VsVm'' 0x88002057 0xfc00707f MF_match_opcode 0,
      opc ''vremu.vx'' 0 INSN_CLASS_V ''Vd,Vt,sVm'' 0x88006057 0xfc00707f MF_match_opcode 0,
      opc ''vrem.vv'' 0 INSN_CLASS_V ''Vd,Vt,VsVm'' 0x8c002057 0xfc00707f MF_match_opcode 0,
      opc ''vrem.vx'' 0 INSN_CLASS_V ''Vd,Vt,sVm'' 0x8c006057 0xfc00707f MF_match_opcode 0,
      opc ''vmerge.vvm'' 0 INSN_CLASS_V ''Vd,Vt,Vs,V0'' 0x5c000057 0xfe00707f MF_match_opcode 0,
      opc ''vmerge.vxm'' 0 INSN_CLASS_V ''Vd,Vt,s,V0'' 0x5c004057 0xfe00707f MF_match_opcode 0,
      opc ''vmerge.vim'' 0 INSN_CLASS_V ''Vd,Vt,Vi,V0'' 0x5c003057 0xfe00707f MF_match_opcode 0,
      opc ''vmv.v.v'' 0 INSN_CLASS_V ''Vd,Vs'' 0x5e000057 0xfff0707f MF_match_opcode 0,
      opc ''vmv.v.x'' 0 INSN_CLASS_V ''Vd,s'' 0x5e004057 0xfff0707f MF_match_opcode 0,
      opc ''vmv.v.i'' 0 INSN_CLASS_V ''Vd,Vi'' 0x5e003057 0xfff0707f MF_match_opcode 0]"

definition riscv_opcodes_11 :: "riscv_opcode list" where
  "riscv_opcodes_11 =
     [opc ''vsaddu.vv'' 0 INSN_CLASS_V ''Vd,Vt,VsVm'' 0x80000057 0xfc00707f MF_match_opcode 0,
      opc ''vsaddu.vx'' 0 INSN_CLASS_V ''Vd,Vt,sVm'' 0x80004057 0xfc00707f MF_match_opcode 0,
      opc ''vsaddu.vi'' 0 INSN_CLASS_V ''Vd,Vt,ViVm'' 0x80003057 0xfc00707f MF_match_opcode 0,
      opc ''vsadd.vv'' 0 INSN_CLASS_V ''Vd,Vt,VsVm'' 0x84000057 0xfc00707f MF_match_opcode 0,
      opc ''vsadd.vx'' 0 INSN_CLASS_V ''Vd,Vt,sVm'' 0x84004057 0xfc00707f MF_match_opcode 0,
      opc ''vsadd.vi'' 0 INSN_CLASS_V ''Vd,Vt,ViVm'' 0x84003057 0xfc00707f MF_match_opcode 0,
      opc ''vssubu.vv'' 0 INSN_CLASS_V ''Vd,Vt,VsVm'' 0x88000057 0xfc00707f MF_match_opcode 0,
      opc ''vssubu.vx'' 0 INSN_CLASS_V ''Vd,Vt,sVm'' 0x88004057 0xfc00707f MF_match_opcode 0,
      opc ''vssub.vv'' 0 INSN_CLASS_V ''Vd,Vt,VsVm'' 0x8c000057 0xfc00707f MF_match_opcode 0,
      opc ''vssub.vx'' 0 INSN_CLASS_V ''Vd,Vt,sVm'' 0x8c004057 0xfc00707f MF_match_opcode 0,
      opc ''vaaddu.vv'' 0 INSN_CLASS_V ''Vd,Vt,VsVm'' 0x20002057 0xfc00707f MF_match_opcode 0,
      opc ''vaaddu.vx'' 0 INSN_CLASS_V ''Vd,Vt,sVm'' 0x20006057 0xfc00707f MF_match_opcode 0,
      opc ''vaadd.vv'' 0 INSN_CLASS_V ''Vd,Vt,VsVm'' 0x24002057 0xfc00707f MF_match_opcode 0,
      opc ''vaadd.vx'' 0 INSN_CLASS_V ''Vd,Vt,sVm'' 0x24006057 0xfc00707f MF_match_opcode 0,
      opc ''vasubu.vv'' 0 INSN_CLASS_V ''Vd,Vt,VsVm'' 0x28002057 0xfc00707f MF_match_opcode 0,
      opc ''vasubu.vx'' 0 INSN_CLASS_V ''Vd,Vt,sVm'' 0x28006057 0xfc00707f MF_match_opcode 0,
      opc ''vasub.vv'' 0 INSN_CLASS_V ''Vd,Vt,VsVm'' 0x2c002057 0xfc00707f MF_match_opcode 0,
      opc ''vasub.vx'' 0 INSN_CLASS_V ''Vd,Vt,sVm'' 0x2c006057 0xfc00707f MF_match_opcode 0,
      opc ''vsmul.vv'' 0 INSN_CLASS_V ''Vd,Vt,VsVm'' 0x9c000057 0xfc00707f MF_match_opcode 0,
      opc ''vsmul.vx'' 0 INSN_CLASS_V ''Vd,Vt,sVm'' 0x9c004057 0xfc00707f MF_match_opcode 0,
      opc ''vssrl.vv'' 0 INSN_CLASS_V ''Vd,Vt,VsVm'' 0xa8000057 0xfc00707f MF_match_opcode 0,
      opc ''vssrl.vx'' 0 INSN_CLASS_V ''Vd,Vt,sVm'' 0xa8004057 0xfc00707f MF_match_opcode 0,
      opc ''vssrl.vi'' 0 INSN_CLASS_V ''Vd,Vt,VjVm'' 0xa8003057 0xfc00707f MF_match_opcode 0,
      opc ''vssra.vv'' 0 INSN_CLASS_V ''Vd,Vt,VsVm'' 0xac000057 0xfc00707f MF_match_opcode 0,
      opc ''vssra.vx'' 0 INSN_CLASS_V ''Vd,Vt,sVm'' 0xac004057 0xfc00707f MF_match_opcode 0,
      opc ''vssra.vi'' 0 INSN_CLASS_V ''Vd,Vt,VjVm'' 0xac003057 0xfc00707f MF_match_opcode 0,
      opc ''vnclipu.wv'' 0 INSN_CLASS_V ''Vd,Vt,VsVm'' 0xb8000057 0xfc00707f MF_match_opcode 0,
      opc ''vnclipu.wx'' 0 INSN_CLASS_V ''Vd,Vt,sVm'' 0xb8004057 0xfc00707f MF_match_opcode 0,
      opc ''vnclipu.wi'' 0 INSN_CLASS_V ''Vd,Vt,VjVm'' 0xb8003057 0xfc00707f MF_match_opcode 0,
      opc ''vnclip.wv'' 0 INSN_CLASS_V ''Vd,Vt,VsVm'' 0xbc000057 0xfc00707f MF_match_opcode 0,
      opc ''vnclip.wx'' 0 INSN_CLASS_V ''Vd,Vt,sVm'' 0xbc004057 0xfc00707f MF_match_opcode 0,
      opc ''vnclip.wi'' 0 INSN_CLASS_V ''Vd,Vt,VjVm'' 0xbc003057 0xfc00707f MF_match_opcode 0,
      opc ''vfadd.vv'' 0 INSN_CLASS_ZVEF ''Vd,Vt,VsVm'' 0x1057 0xfc00707f MF_match_opcode 0,
      opc ''vfadd.vf'' 0 INSN_CLASS_ZVEF ''Vd,Vt,SVm'' 0x5057 0xfc00707f MF_match_opcode 0,
      opc ''vfsub.vv'' 0 INSN_CLASS_ZVEF ''Vd,Vt,VsVm'' 0x8001057 0xfc00707f MF_match_opcode 0,
      opc ''vfsub.vf'' 0 INSN_CLASS_ZVEF ''Vd,Vt,SVm'' 0x8005057 0xfc00707f MF_match_opcode 0,
      opc ''vfrsub.vf'' 0 INSN_CLASS_ZVEF ''Vd,Vt,SVm'' 0x9c005057 0xfc00707f MF_match_opcode 0,
      opc ''vfwadd.vv'' 0 INSN_CLASS_ZVEF ''Vd,Vt,VsVm'' 0xc0001057 0xfc00707f MF_match_opcode 0,
      opc ''vfwadd.vf'' 0 INSN_CLASS_ZVEF ''Vd,Vt,SVm'' 0xc0005057 0xfc00707f MF_match_opcode 0,
      opc ''vfwsub.vv'' 0 INSN_CLASS_ZVEF ''Vd,Vt,VsVm'' 0xc8001057 0xfc00707f MF_match_opcode 0,
      opc ''vfwsub.vf'' 0 INSN_CLASS_ZVEF ''Vd,Vt,SVm'' 0xc8005057 0xfc00707f MF_match_opcode 0,
      opc ''vfwadd.wv'' 0 INSN_CLASS_ZVEF ''Vd,Vt,VsVm'' 0xd0001057 0xfc00707f MF_match_opcode 0,
      opc ''vfwadd.wf'' 0 INSN_CLASS_ZVEF ''Vd,Vt,SVm'' 0xd0005057 0xfc00707f MF_match_opcode 0,
      opc ''vfwsub.wv'' 0 INSN_CLASS_ZVEF ''Vd,Vt,VsVm'' 0xd8001057 0xfc00707f MF_match_opcode 0,
      opc ''vfwsub.wf'' 0 INSN_CLASS_ZVEF ''Vd,Vt,SVm'' 0xd8005057 0xfc00707f MF_match_opcode 0,
      opc ''vfmul.vv'' 0 INSN_CLASS_ZVEF ''Vd,Vt,VsVm'' 0x90001057 0xfc00707f MF_match_opcode 0,
      opc ''vfmul.vf'' 0 INSN_CLASS_ZVEF ''Vd,Vt,SVm'' 0x90005057 0xfc00707f MF_match_opcode 0,
      opc ''vfdiv.vv'' 0 INSN_CLASS_ZVEF ''Vd,Vt,VsVm'' 0x80001057 0xfc00707f MF_match_opcode 0,
      opc ''vfdiv.vf'' 0 INSN_CLASS_ZVEF ''Vd,Vt,SVm'' 0x80005057 0xfc00707f MF_match_opcode 0,
      opc ''vfrdiv.vf'' 0 INSN_CLASS_ZVEF ''Vd,Vt,SVm'' 0x84005057 0xfc00707f MF_match_opcode 0,
      opc ''vfwmul.vv'' 0 INSN_CLASS_ZVEF ''Vd,Vt,VsVm'' 0xe0001057 0xfc00707f MF_match_opcode 0,
      opc ''vfwmul.vf'' 0 INSN_CLASS_ZVEF ''Vd,Vt,SVm'' 0xe0005057 0xfc00707f MF_match_opcode 0,
      opc ''vfmadd.vv'' 0 INSN_CLASS_ZVEF ''Vd,Vs,VtVm'' 0xa0001057 0xfc00707f MF_match_opcode 0,
      opc ''vfmadd.vf'' 0 INSN_CLASS_ZVEF ''Vd,S,VtVm'' 0xa0005057 0xfc00707f MF_match_opcode 0,
      opc ''vfnmadd.vv'' 0 INSN_CLASS_ZVEF ''Vd,Vs,VtVm'' 0xa4001057 0xfc00707f MF_match_opcode 0,
      opc ''vfnmadd.vf'' 0 INSN_CLASS_ZVEF ''Vd,S,VtVm'' 0xa4005057 0xfc00707f MF_match_opcode 0,
      opc ''vfmsub.vv'' 0 INSN_CLASS_ZVEF ''Vd,Vs,VtVm'' 0xa8001057 0xfc00707f MF_match_opcode 0,
      opc ''vfmsub.vf'' 0 INSN_CLASS_ZVEF ''Vd,S,VtVm'' 0xa8005057 0xfc00707f MF_match_opcode 0,
      opc ''vfnmsub.vv'' 0 INSN_CLASS_ZVEF ''Vd,Vs,VtVm'' 0xac001057 0xfc00707f MF_match_opcode 0,
      opc ''vfnmsub.vf'' 0 INSN_CLASS_ZVEF ''Vd,S,VtVm'' 0xac005057 0xfc00707f MF_match_opcode 0,
      opc ''vfmacc.vv'' 0 INSN_CLASS_ZVEF ''Vd,Vs,VtVm'' 0xb0001057 0xfc00707f MF_match_opcode 0,
      opc ''vfmacc.vf'' 0 INSN_CLASS_ZVEF ''Vd,S,VtVm'' 0xb0005057 0xfc00707f MF_match_opcode 0,
      opc ''vfnmacc.vv'' 0 INSN_CLASS_ZVEF ''Vd,Vs,VtVm'' 0xb4001057 0xfc00707f MF_match_opcode 0,
      opc ''vfnmacc.vf'' 0 INSN_CLASS_ZVEF ''Vd,S,VtVm'' 0xb4005057 0xfc00707f MF_match_opcode 0,
      opc ''vfmsac.vv'' 0 INSN_CLASS_ZVEF ''Vd,Vs,VtVm'' 0xb8001057 0xfc00707f MF_match_opcode 0,
      opc ''vfmsac.vf'' 0 INSN_CLASS_ZVEF ''Vd,S,VtVm'' 0xb8005057 0xfc00707f MF_match_opcode 0,
      opc ''vfnmsac.vv'' 0 INSN_CLASS_ZVEF ''Vd,Vs,VtVm'' 0xbc001057 0xfc00707f MF_match_opcode 0,
      opc ''vfnmsac.vf'' 0 INSN_CLASS_ZVEF ''Vd,S,VtVm'' 0xbc005057 0xfc00707f MF_match_opcode 0,
      opc ''vfwmacc.vv'' 0 INSN_CLASS_ZVEF ''Vd,Vs,VtVm'' 0xf0001057 0xfc00707f MF_match_opcode 0,
      opc ''vfwmacc.vf'' 0 INSN_CLASS_ZVEF ''Vd,S,VtVm'' 0xf0005057 0xfc00707f MF_match_opcode 0,
      opc ''vfwnmacc.vv'' 0 INSN_CLASS_ZVEF ''Vd,Vs,VtVm'' 0xf4001057 0xfc00707f MF_match_opcode 0,
      opc ''vfwnmacc.vf'' 0 INSN_CLASS_ZVEF ''Vd,S,VtVm'' 0xf4005057 0xfc00707f MF_match_opcode 0,
      opc ''vfwmsac.vv'' 0 INSN_CLASS_ZVEF ''Vd,Vs,VtVm'' 0xf8001057 0xfc00707f MF_match_opcode 0,
      opc ''vfwmsac.vf'' 0 INSN_CLASS_ZVEF ''Vd,S,VtVm'' 0xf8005057 0xfc00707f MF_match_opcode 0,
      opc ''vfwnmsac.vv'' 0 INSN_CLASS_ZVEF ''Vd,Vs,VtVm'' 0xfc001057 0xfc00707f MF_match_opcode 0,
      opc ''vfwnmsac.vf'' 0 INSN_CLASS_ZVEF ''Vd,S,VtVm'' 0xfc005057 0xfc00707f MF_match_opcode 0,
      opc ''vfsqrt.v'' 0 INSN_CLASS_ZVEF ''Vd,VtVm'' 0x4c001057 0xfc0ff07f MF_match_opcode 0,
      opc ''vfrsqrt7.v'' 0 INSN_CLASS_ZVEF ''Vd,VtVm'' 0x4c021057 0xfc0ff07f MF_match_opcode 0,
      opc ''vfrsqrte7.v'' 0 INSN_CLASS_ZVEF ''Vd,VtVm'' 0x4c021057 0xfc0ff07f MF_match_opcode 0,
      opc ''vfrec7.v'' 0 INSN_CLASS_ZVEF ''Vd,VtVm'' 0x4c029057 0xfc0ff07f MF_match_opcode 0,
      opc ''vfrece7.v'' 0 INSN_CLASS_ZVEF ''Vd,VtVm'' 0x4c029057 0xfc0ff07f MF_match_opcode 0,
      opc ''vfclass.v'' 0 INSN_CLASS_ZVEF ''Vd,VtVm'' 0x4c081057 0xfc0ff07f MF_match_opcode 0,
      opc ''vfmin.vv'' 0 INSN_CLASS_ZVEF ''Vd,Vt,VsVm'' 0x10001057 0xfc00707f MF_match_opcode 0,
      opc ''vfmin.vf'' 0 INSN_CLASS_ZVEF ''Vd,Vt,SVm'' 0x10005057 0xfc00707f MF_match_opcode 0,
      opc ''vfmax.vv'' 0 INSN_CLASS_ZVEF ''Vd,Vt,VsVm'' 0x18001057 0xfc00707f MF_match_opcode 0,
      opc ''vfmax.vf'' 0 INSN_CLASS_ZVEF ''Vd,Vt,SVm'' 0x18005057 0xfc00707f MF_match_opcode 0,
      opc ''vfneg.v'' 0 INSN_CLASS_ZVEF ''Vd,VuVm'' 0x24001057 0xfc00707f MF_match_vs1_eq_vs2 0x1,
      opc ''vfabs.v'' 0 INSN_CLASS_ZVEF ''Vd,VuVm'' 0x28001057 0xfc00707f MF_match_vs1_eq_vs2 0x1,
      opc ''vfsgnj.vv'' 0 INSN_CLASS_ZVEF ''Vd,Vt,VsVm'' 0x20001057 0xfc00707f MF_match_opcode 0,
      opc ''vfsgnj.vf'' 0 INSN_CLASS_ZVEF ''Vd,Vt,SVm'' 0x20005057 0xfc00707f MF_match_opcode 0,
      opc ''vfsgnjn.vv'' 0 INSN_CLASS_ZVEF ''Vd,Vt,VsVm'' 0x24001057 0xfc00707f MF_match_opcode 0,
      opc ''vfsgnjn.vf'' 0 INSN_CLASS_ZVEF ''Vd,Vt,SVm'' 0x24005057 0xfc00707f MF_match_opcode 0,
      opc ''vfsgnjx.vv'' 0 INSN_CLASS_ZVEF ''Vd,Vt,VsVm'' 0x28001057 0xfc00707f MF_match_opcode 0,
      opc ''vfsgnjx.vf'' 0 INSN_CLASS_ZVEF ''Vd,Vt,SVm'' 0x28005057 0xfc00707f MF_match_opcode 0,
      opc ''vmfeq.vv'' 0 INSN_CLASS_ZVEF ''Vd,Vt,VsVm'' 0x60001057 0xfc00707f MF_match_opcode 0,
      opc ''vmfeq.vf'' 0 INSN_CLASS_ZVEF ''Vd,Vt,SVm'' 0x60005057 0xfc00707f MF_match_opcode 0,
      opc ''vmfne.vv'' 0 INSN_CLASS_ZVEF ''Vd,Vt,VsVm'' 0x70001057 0xfc00707f MF_match_opcode 0,
      opc ''vmfne.vf'' 0 INSN_CLASS_ZVEF ''Vd,Vt,SVm'' 0x70005057 0xfc00707f MF_match_opcode 0,
      opc ''vmflt.vv'' 0 INSN_CLASS_ZVEF ''Vd,Vt,VsVm'' 0x6c001057 0xfc00707f MF_match_opcode 0,
      opc ''vmflt.vf'' 0 INSN_CLASS_ZVEF ''Vd,Vt,SVm'' 0x6c005057 0xfc00707f MF_match_opcode 0,
      opc ''vmfle.vv'' 0 INSN_CLASS_ZVEF ''Vd,Vt,VsVm'' 0x64001057 0xfc00707f MF_match_opcode 0,
      opc ''vmfle.vf'' 0 INSN_CLASS_ZVEF ''Vd,Vt,SVm'' 0x64005057 0xfc00707f MF_match_opcode 0,
      opc ''vmfgt.vf'' 0 INSN_CLASS_ZVEF ''Vd,Vt,SVm'' 0x74005057 0xfc00707f MF_match_opcode 0,
      opc ''vmfge.vf'' 0 INSN_CLASS_ZVEF ''Vd,Vt,SVm'' 0x7c005057 0xfc00707f MF_match_opcode 0,
      opc ''vmfgt.vv'' 0 INSN_CLASS_ZVEF ''Vd,Vs,VtVm'' 0x6c001057 0xfc00707f MF_match_opcode 0x1,
      opc ''vmfge.vv'' 0 INSN_CLASS_ZVEF ''Vd,Vs,VtVm'' 0x64001057 0xfc00707f MF_match_opcode 0x1,
      opc ''vfmerge.vfm'' 0 INSN_CLASS_ZVEF ''Vd,Vt,S,V0'' 0x5c005057 0xfe00707f MF_match_opcode 0,
      opc ''vfmv.v.f'' 0 INSN_CLASS_ZVEF ''Vd,S'' 0x5e005057 0xfff0707f MF_match_opcode 0,
      opc ''vfcvt.xu.f.v'' 0 INSN_CLASS_ZVEF ''Vd,VtVm'' 0x48001057 0xfc0ff07f MF_match_opcode 0,
      opc ''vfcvt.x.f.v'' 0 INSN_CLASS_ZVEF ''Vd,VtVm'' 0x48009057 0xfc0ff07f MF_match_opcode 0,
      opc ''vfcvt.rtz.xu.f.v'' 0 INSN_CLASS_ZVEF ''Vd,VtVm'' 0x48031057 0xfc0ff07f MF_match_opcode 0,
      opc ''vfcvt.rtz.x.f.v'' 0 INSN_CLASS_ZVEF ''Vd,VtVm'' 0x48039057 0xfc0ff07f MF_match_opcode 0,
      opc ''vfcvt.f.xu.v'' 0 INSN_CLASS_ZVEF ''Vd,VtVm'' 0x48011057 0xfc0ff07f MF_match_opcode 0,
      opc ''vfcvt.f.x.v'' 0 INSN_CLASS_ZVEF ''Vd,VtVm'' 0x48019057 0xfc0ff07f MF_match_opcode 0,
      opc ''vfwcvt.xu.f.v'' 0 INSN_CLASS_ZVEF ''Vd,VtVm'' 0x48041057 0xfc0ff07f MF_match_opcode 0,
      opc ''vfwcvt.x.f.v'' 0 INSN_CLASS_ZVEF ''Vd,VtVm'' 0x48049057 0xfc0ff07f MF_match_opcode 0,
      opc ''vfwcvt.rtz.xu.f.v'' 0 INSN_CLASS_ZVEF ''Vd,VtVm'' 0x48071057 0xfc0ff07f MF_match_opcode 0,
      opc ''vfwcvt.rtz.x.f.v'' 0 INSN_CLASS_ZVEF ''Vd,VtVm'' 0x48079057 0xfc0ff07f MF_match_opcode 0,
      opc ''vfwcvt.f.xu.v'' 0 INSN_CLASS_ZVEF ''Vd,VtVm'' 0x48051057 0xfc0ff07f MF_match_opcode 0,
      opc ''vfwcvt.f.x.v'' 0 INSN_CLASS_ZVEF ''Vd,VtVm'' 0x48059057 0xfc0ff07f MF_match_opcode 0,
      opc ''vfwcvt.f.f.v'' 0 INSN_CLASS_ZVEF ''Vd,VtVm'' 0x48061057 0xfc0ff07f MF_match_opcode 0]"

definition riscv_opcodes_12 :: "riscv_opcode list" where
  "riscv_opcodes_12 =
     [opc ''vfncvt.xu.f.w'' 0 INSN_CLASS_ZVEF ''Vd,VtVm'' 0x48081057 0xfc0ff07f MF_match_opcode 0,
      opc ''vfncvt.x.f.w'' 0 INSN_CLASS_ZVEF ''Vd,VtVm'' 0x48089057 0xfc0ff07f MF_match_opcode 0,
      opc ''vfncvt.rtz.xu.f.w'' 0 INSN_CLASS_ZVEF ''Vd,VtVm'' 0x480b1057 0xfc0ff07f MF_match_opcode 0,
      opc ''vfncvt.rtz.x.f.w'' 0 INSN_CLASS_ZVEF ''Vd,VtVm'' 0x480b9057 0xfc0ff07f MF_match_opcode 0,
      opc ''vfncvt.f.xu.w'' 0 INSN_CLASS_ZVEF ''Vd,VtVm'' 0x48091057 0xfc0ff07f MF_match_opcode 0,
      opc ''vfncvt.f.x.w'' 0 INSN_CLASS_ZVEF ''Vd,VtVm'' 0x48099057 0xfc0ff07f MF_match_opcode 0,
      opc ''vfncvt.f.f.w'' 0 INSN_CLASS_ZVEF ''Vd,VtVm'' 0x480a1057 0xfc0ff07f MF_match_opcode 0,
      opc ''vfncvt.rod.f.f.w'' 0 INSN_CLASS_ZVEF ''Vd,VtVm'' 0x480a9057 0xfc0ff07f MF_match_opcode 0,
      opc ''vredsum.vs'' 0 INSN_CLASS_V ''Vd,Vt,VsVm'' 0x2057 0xfc00707f MF_match_opcode 0,
      opc ''vredmaxu.vs'' 0 INSN_CLASS_V ''Vd,Vt,VsVm'' 0x18002057 0xfc00707f MF_match_opcode 0,
      opc ''vredmax.vs'' 0 INSN_CLASS_V ''Vd,Vt,VsVm'' 0x1c002057 0xfc00707f MF_match_opcode 0,
      opc ''vredminu.vs'' 0 INSN_CLASS_V ''Vd,Vt,VsVm'' 0x10002057 0xfc00707f MF_match_opcode 0,
      opc ''vredmin.vs'' 0 INSN_CLASS_V ''Vd,Vt,VsVm'' 0x14002057 0xfc00707f MF_match_opcode 0,
      opc ''vredand.vs'' 0 INSN_CLASS_V ''Vd,Vt,VsVm'' 0x4002057 0xfc00707f MF_match_opcode 0,
      opc ''vredor.vs'' 0 INSN_CLASS_V ''Vd,Vt,VsVm'' 0x8002057 0xfc00707f MF_match_opcode 0,
      opc ''vredxor.vs'' 0 INSN_CLASS_V ''Vd,Vt,VsVm'' 0xc002057 0xfc00707f MF_match_opcode 0,
      opc ''vwredsumu.vs'' 0 INSN_CLASS_V ''Vd,Vt,VsVm'' 0xc0000057 0xfc00707f MF_match_opcode 0,
      opc ''vwredsum.vs'' 0 INSN_CLASS_V ''Vd,Vt,VsVm'' 0xc4000057 0xfc00707f MF_match_opcode 0,
      opc ''vfredosum.vs'' 0 INSN_CLASS_ZVEF ''Vd,Vt,VsVm'' 0xc001057 0xfc00707f MF_match_opcode 0,
      opc ''vfredusum.vs'' 0 INSN_CLASS_ZVEF ''Vd,Vt,VsVm'' 0x4001057 0xfc00707f MF_match_opcode 0,
      opc ''vfredsum.vs'' 0 INSN_CLASS_ZVEF ''Vd,Vt,VsVm'' 0x4001057 0xfc00707f MF_match_opcode 0x1,
      opc ''vfredmax.vs'' 0 INSN_CLASS_ZVEF ''Vd,Vt,VsVm'' 0x1c001057 0xfc00707f MF_match_opcode 0,
      opc ''vfredmin.vs'' 0 INSN_CLASS_ZVEF ''Vd,Vt,VsVm'' 0x14001057 0xfc00707f MF_match_opcode 0,
      opc ''vfwredosum.vs'' 0 INSN_CLASS_ZVEF ''Vd,Vt,VsVm'' 0xcc001057 0xfc00707f MF_match_opcode 0,
      opc ''vfwredusum.vs'' 0 INSN_CLASS_ZVEF ''Vd,Vt,VsVm'' 0xc4001057 0xfc00707f MF_match_opcode 0,
      opc ''vfwredsum.vs'' 0 INSN_CLASS_ZVEF ''Vd,Vt,VsVm'' 0xc4001057 0xfc00707f MF_match_opcode 0x1,
      opc ''vmmv.m'' 0 INSN_CLASS_V ''Vd,Vu'' 0x66002057 0xfe00707f MF_match_vs1_eq_vs2 0x1,
      opc ''vmcpy.m'' 0 INSN_CLASS_V ''Vd,Vu'' 0x66002057 0xfe00707f MF_match_vs1_eq_vs2 0x1,
      opc ''vmclr.m'' 0 INSN_CLASS_V ''Vv'' 0x6e002057 0xfe00707f MF_match_vd_eq_vs1_eq_vs2 0x1,
      opc ''vmset.m'' 0 INSN_CLASS_V ''Vv'' 0x7e002057 0xfe00707f MF_match_vd_eq_vs1_eq_vs2 0x1,
      opc ''vmnot.m'' 0 INSN_CLASS_V ''Vd,Vu'' 0x76002057 0xfe00707f MF_match_vs1_eq_vs2 0x1,
      opc ''vmand.mm'' 0 INSN_CLASS_V ''Vd,Vt,Vs'' 0x66002057 0xfe00707f MF_match_opcode 0,
      opc ''vmnand.mm'' 0 INSN_CLASS_V ''Vd,Vt,Vs'' 0x76002057 0xfe00707f MF_match_opcode 0,
      opc ''vmandn.mm'' 0 INSN_CLASS_V ''Vd,Vt,Vs'' 0x62002057 0xfe00707f MF_match_opcode 0,
      opc ''vmandnot.mm'' 0 INSN_CLASS_V ''Vd,Vt,Vs'' 0x62002057 0xfe00707f MF_match_opcode 0x1,
      opc ''vmxor.mm'' 0 INSN_CLASS_V ''Vd,Vt,Vs'' 0x6e002057 0xfe00707f MF_match_opcode 0,
      opc ''vmor.mm'' 0 INSN_CLASS_V ''Vd,Vt,Vs'' 0x6a002057 0xfe00707f MF_match_opcode 0,
      opc ''vmnor.mm'' 0 INSN_CLASS_V ''Vd,Vt,Vs'' 0x7a002057 0xfe00707f MF_match_opcode 0,
      opc ''vmorn.mm'' 0 INSN_CLASS_V ''Vd,Vt,Vs'' 0x72002057 0xfe00707f MF_match_opcode 0,
      opc ''vmornot.mm'' 0 INSN_CLASS_V ''Vd,Vt,Vs'' 0x72002057 0xfe00707f MF_match_opcode 0x1,
      opc ''vmxnor.mm'' 0 INSN_CLASS_V ''Vd,Vt,Vs'' 0x7e002057 0xfe00707f MF_match_opcode 0,
      opc ''vcpop.m'' 0 INSN_CLASS_V ''d,VtVm'' 0x40082057 0xfc0ff07f MF_match_opcode 0,
      opc ''vpopc.m'' 0 INSN_CLASS_V ''d,VtVm'' 0x40082057 0xfc0ff07f MF_match_opcode 0x1,
      opc ''vfirst.m'' 0 INSN_CLASS_V ''d,VtVm'' 0x4008a057 0xfc0ff07f MF_match_opcode 0,
      opc ''vmsbf.m'' 0 INSN_CLASS_V ''Vd,VtVm'' 0x5000a057 0xfc0ff07f MF_match_opcode 0,
      opc ''vmsif.m'' 0 INSN_CLASS_V ''Vd,VtVm'' 0x5001a057 0xfc0ff07f MF_match_opcode 0,
      opc ''vmsof.m'' 0 INSN_CLASS_V ''Vd,VtVm'' 0x50012057 0xfc0ff07f MF_match_opcode 0,
      opc ''viota.m'' 0 INSN_CLASS_V ''Vd,VtVm'' 0x50082057 0xfc0ff07f MF_match_opcode 0,
      opc ''vid.v'' 0 INSN_CLASS_V ''VdVm'' 0x5008a057 0xfdfff07f MF_match_opcode 0,
      opc ''vmv.x.s'' 0 INSN_CLASS_V ''d,Vt'' 0x42002057 0xfe0ff07f MF_match_opcode 0,
      opc ''vmv.s.x'' 0 INSN_CLASS_V ''Vd,s'' 0x42006057 0xfff0707f MF_match_opcode 0,
      opc ''vfmv.f.s'' 0 INSN_CLASS_ZVEF ''D,Vt'' 0x42001057 0xfe0ff07f MF_match_opcode 0,
      opc ''vfmv.s.f'' 0 INSN_CLASS_ZVEF ''Vd,S'' 0x42005057 0xfff0707f MF_match_opcode 0,
      opc ''vslideup.vx'' 0 INSN_CLASS_V ''Vd,Vt,sVm'' 0x38004057 0xfc00707f MF_match_opcode 0,
      opc ''vslideup.vi'' 0 INSN_CLASS_V ''Vd,Vt,VjVm'' 0x38003057 0xfc00707f MF_match_opcode 0,
      opc ''vslidedown.vx'' 0 INSN_CLASS_V ''Vd,Vt,sVm'' 0x3c004057 0xfc00707f MF_match_opcode 0,
      opc ''vslidedown.vi'' 0 INSN_CLASS_V ''Vd,Vt,VjVm'' 0x3c003057 0xfc00707f MF_match_opcode 0,
      opc ''vslide1up.vx'' 0 INSN_CLASS_V ''Vd,Vt,sVm'' 0x38006057 0xfc00707f MF_match_opcode 0,
      opc ''vslide1down.vx'' 0 INSN_CLASS_V ''Vd,Vt,sVm'' 0x3c006057 0xfc00707f MF_match_opcode 0,
      opc ''vfslide1up.vf'' 0 INSN_CLASS_ZVEF ''Vd,Vt,SVm'' 0x38005057 0xfc00707f MF_match_opcode 0,
      opc ''vfslide1down.vf'' 0 INSN_CLASS_ZVEF ''Vd,Vt,SVm'' 0x3c005057 0xfc00707f MF_match_opcode 0,
      opc ''vrgather.vv'' 0 INSN_CLASS_V ''Vd,Vt,VsVm'' 0x30000057 0xfc00707f MF_match_opcode 0,
      opc ''vrgather.vx'' 0 INSN_CLASS_V ''Vd,Vt,sVm'' 0x30004057 0xfc00707f MF_match_opcode 0,
      opc ''vrgather.vi'' 0 INSN_CLASS_V ''Vd,Vt,VjVm'' 0x30003057 0xfc00707f MF_match_opcode 0,
      opc ''vrgatherei16.vv'' 0 INSN_CLASS_V ''Vd,Vt,VsVm'' 0x38000057 0xfc00707f MF_match_opcode 0,
      opc ''vcompress.vm'' 0 INSN_CLASS_V ''Vd,Vt,Vs'' 0x5e002057 0xfe00707f MF_match_opcode 0,
      opc ''vmv1r.v'' 0 INSN_CLASS_V ''Vd,Vt'' 0x9e003057 0xfe0ff07f MF_match_opcode 0,
      opc ''vmv2r.v'' 0 INSN_CLASS_V ''Vd,Vt'' 0x9e00b057 0xfe0ff07f MF_match_opcode 0,
      opc ''vmv4r.v'' 0 INSN_CLASS_V ''Vd,Vt'' 0x9e01b057 0xfe0ff07f MF_match_opcode 0,
      opc ''vmv8r.v'' 0 INSN_CLASS_V ''Vd,Vt'' 0x9e03b057 0xfe0ff07f MF_match_opcode 0,
      opc ''vandn.vv'' 0 INSN_CLASS_ZVKB ''Vd,Vt,VsVm'' 0x4000057 0xfc00707f MF_match_opcode 0,
      opc ''vandn.vx'' 0 INSN_CLASS_ZVKB ''Vd,Vt,sVm'' 0x4004057 0xfc00707f MF_match_opcode 0,
      opc ''vbrev.v'' 0 INSN_CLASS_ZVBB ''Vd,VtVm'' 0x48052057 0xfc0ff07f MF_match_opcode 0,
      opc ''vbrev8.v'' 0 INSN_CLASS_ZVKB ''Vd,VtVm'' 0x48042057 0xfc0ff07f MF_match_opcode 0,
      opc ''vrev8.v'' 0 INSN_CLASS_ZVKB ''Vd,VtVm'' 0x4804a057 0xfc0ff07f MF_match_opcode 0,
      opc ''vclz.v'' 0 INSN_CLASS_ZVBB ''Vd,VtVm'' 0x48062057 0xfc0ff07f MF_match_opcode 0,
      opc ''vctz.v'' 0 INSN_CLASS_ZVBB ''Vd,VtVm'' 0x4806a057 0xfc0ff07f MF_match_opcode 0,
      opc ''vcpop.v'' 0 INSN_CLASS_ZVBB ''Vd,VtVm'' 0x48072057 0xfc0ff07f MF_match_opcode 0,
      opc ''vrol.vv'' 0 INSN_CLASS_ZVKB ''Vd,Vt,VsVm'' 0x54000057 0xfc00707f MF_match_opcode 0,
      opc ''vrol.vx'' 0 INSN_CLASS_ZVKB ''Vd,Vt,sVm'' 0x54004057 0xfc00707f MF_match_opcode 0,
      opc ''vror.vv'' 0 INSN_CLASS_ZVKB ''Vd,Vt,VsVm'' 0x50000057 0xfc00707f MF_match_opcode 0,
      opc ''vror.vx'' 0 INSN_CLASS_ZVKB ''Vd,Vt,sVm'' 0x50004057 0xfc00707f MF_match_opcode 0,
      opc ''vror.vi'' 0 INSN_CLASS_ZVKB ''Vd,Vt,VlVm'' 0x50003057 0xf800707f MF_match_opcode 0,
      opc ''vwsll.vv'' 0 INSN_CLASS_ZVBB ''Vd,Vt,VsVm'' 0xd4000057 0xfc00707f MF_match_opcode 0,
      opc ''vwsll.vx'' 0 INSN_CLASS_ZVBB ''Vd,Vt,sVm'' 0xd4004057 0xfc00707f MF_match_opcode 0,
      opc ''vwsll.vi'' 0 INSN_CLASS_ZVBB ''Vd,Vt,VjVm'' 0xd4003057 0xfc00707f MF_match_opcode 0,
      opc ''vclmul.vv'' 0 INSN_CLASS_ZVBC ''Vd,Vt,VsVm'' 0x30002057 0xfc00707f MF_match_opcode 0,
      opc ''vclmul.vx'' 0 INSN_CLASS_ZVBC ''Vd,Vt,sVm'' 0x30006057 0xfc00707f MF_match_opcode 0,
      opc ''vclmulh.vv'' 0 INSN_CLASS_ZVBC ''Vd,Vt,VsVm'' 0x34002057 0xfc00707f MF_match_opcode 0,
      opc ''vclmulh.vx'' 0 INSN_CLASS_ZVBC ''Vd,Vt,sVm'' 0x34006057 0xfc00707f MF_match_opcode 0,
      opc ''vghsh.vv'' 0 INSN_CLASS_ZVKG ''Vd,Vt,Vs'' 0xb2002077 0xfe00707f MF_match_opcode 0,
      opc ''vgmul.vv'' 0 INSN_CLASS_ZVKG ''Vd,Vt'' 0xa208a077 0xfe0ff07f MF_match_opcode 0,
      opc ''vaesdf.vv'' 0 INSN_CLASS_ZVKNED ''Vd,Vt'' 0xa200a077 0xfe0ff07f MF_match_opcode 0,
      opc ''vaesdf.vs'' 0 INSN_CLASS_ZVKNED ''Vd,Vt'' 0xa600a077 0xfe0ff07f MF_match_opcode 0,
      opc ''vaesdm.vv'' 0 INSN_CLASS_ZVKNED ''Vd,Vt'' 0xa2002077 0xfe0ff07f MF_match_opcode 0,
      opc ''vaesdm.vs'' 0 INSN_CLASS_ZVKNED ''Vd,Vt'' 0xa6002077 0xfe0ff07f MF_match_opcode 0,
      opc ''vaesef.vv'' 0 INSN_CLASS_ZVKNED ''Vd,Vt'' 0xa201a077 0xfe0ff07f MF_match_opcode 0,
      opc ''vaesef.vs'' 0 INSN_CLASS_ZVKNED ''Vd,Vt'' 0xa601a077 0xfe0ff07f MF_match_opcode 0,
      opc ''vaesem.vv'' 0 INSN_CLASS_ZVKNED ''Vd,Vt'' 0xa2012077 0xfe0ff07f MF_match_opcode 0,
      opc ''vaesem.vs'' 0 INSN_CLASS_ZVKNED ''Vd,Vt'' 0xa6012077 0xfe0ff07f MF_match_opcode 0,
      opc ''vaeskf1.vi'' 0 INSN_CLASS_ZVKNED ''Vd,Vt,Vj'' 0x8a002077 0xfe00707f MF_match_opcode 0,
      opc ''vaeskf2.vi'' 0 INSN_CLASS_ZVKNED ''Vd,Vt,Vj'' 0xaa002077 0xfe00707f MF_match_opcode 0,
      opc ''vaesz.vs'' 0 INSN_CLASS_ZVKNED ''Vd,Vt'' 0xa603a077 0xfe0ff07f MF_match_opcode 0,
      opc ''vsha2ch.vv'' 0 INSN_CLASS_ZVKNHA_OR_ZVKNHB ''Vd,Vt,Vs'' 0xba002077 0xfe00707f MF_match_opcode 0,
      opc ''vsha2cl.vv'' 0 INSN_CLASS_ZVKNHA_OR_ZVKNHB ''Vd,Vt,Vs'' 0xbe002077 0xfe00707f MF_match_opcode 0,
      opc ''vsha2ms.vv'' 0 INSN_CLASS_ZVKNHA_OR_ZVKNHB ''Vd,Vt,Vs'' 0xb6002077 0xfe00707f MF_match_opcode 0,
      opc ''vsm4k.vi'' 0 INSN_CLASS_ZVKSED ''Vd,Vt,Vj'' 0x86002077 0xfe00707f MF_match_opcode 0,
      opc ''vsm4r.vv'' 0 INSN_CLASS_ZVKSED ''Vd,Vt'' 0xa2082077 0xfe0ff07f MF_match_opcode 0,
      opc ''vsm4r.vs'' 0 INSN_CLASS_ZVKSED ''Vd,Vt'' 0xa6082077 0xfe0ff07f MF_match_opcode 0,
      opc ''vsm3c.vi'' 0 INSN_CLASS_ZVKSH ''Vd,Vt,Vj'' 0xae002077 0xfe00707f MF_match_opcode 0,
      opc ''vsm3me.vv'' 0 INSN_CLASS_ZVKSH ''Vd,Vt,Vs'' 0x82002077 0xfe00707f MF_match_opcode 0]"

lemma riscv_opcodes_9_fine: "list_all entry_fine riscv_opcodes_9"
  by (simp only: riscv_opcodes_9_def entry_fine_eval word_num_eval) simp

lemma riscv_opcodes_10_fine: "list_all entry_fine riscv_opcodes_10"
  by (simp only: riscv_opcodes_10_def entry_fine_eval word_num_eval) simp

lemma riscv_opcodes_11_fine: "list_all entry_fine riscv_opcodes_11"
  by (simp only: riscv_opcodes_11_def entry_fine_eval word_num_eval) simp

lemma riscv_opcodes_12_fine: "list_all entry_fine riscv_opcodes_12"
  by (simp only: riscv_opcodes_12_def entry_fine_eval word_num_eval) simp

text \<open>The mnemonics of each part of the table in order, with the number of their entries.\<close>

definition optab_groups_9 :: "(string \<times> nat) list" where
  "optab_groups_9 =
     [(''vluxseg2ei16.v'', Suc 0), (''vsuxseg2ei16.v'', Suc 0), (''vluxseg3ei16.v'', Suc 0),
      (''vsuxseg3ei16.v'', Suc 0), (''vluxseg4ei16.v'', Suc 0), (''vsuxseg4ei16.v'', Suc 0),
      (''vluxseg5ei16.v'', Suc 0), (''vsuxseg5ei16.v'', Suc 0), (''vluxseg6ei16.v'', Suc 0),
      (''vsuxseg6ei16.v'', Suc 0), (''vluxseg7ei16.v'', Suc 0), (''vsuxseg7ei16.v'', Suc 0),
      (''vluxseg8ei16.v'', Suc 0), (''vsuxseg8ei16.v'', Suc 0), (''vluxseg2ei32.v'', Suc 0),
      (''vsuxseg2ei32.v'', Suc 0), (''vluxseg3ei32.v'', Suc 0), (''vsuxseg3ei32.v'', Suc 0),
      (''vluxseg4ei32.v'', Suc 0), (''vsuxseg4ei32.v'', Suc 0), (''vluxseg5ei32.v'', Suc 0),
      (''vsuxseg5ei32.v'', Suc 0), (''vluxseg6ei32.v'', Suc 0), (''vsuxseg6ei32.v'', Suc 0),
      (''vluxseg7ei32.v'', Suc 0), (''vsuxseg7ei32.v'', Suc 0), (''vluxseg8ei32.v'', Suc 0),
      (''vsuxseg8ei32.v'', Suc 0), (''vluxseg2ei64.v'', Suc 0), (''vsuxseg2ei64.v'', Suc 0),
      (''vluxseg3ei64.v'', Suc 0), (''vsuxseg3ei64.v'', Suc 0), (''vluxseg4ei64.v'', Suc 0),
      (''vsuxseg4ei64.v'', Suc 0), (''vluxseg5ei64.v'', Suc 0), (''vsuxseg5ei64.v'', Suc 0),
      (''vluxseg6ei64.v'', Suc 0), (''vsuxseg6ei64.v'', Suc 0), (''vluxseg7ei64.v'', Suc 0),
      (''vsuxseg7ei64.v'', Suc 0), (''vluxseg8ei64.v'', Suc 0), (''vsuxseg8ei64.v'', Suc 0),
      (''vlseg2e8ff.v'', Suc 0), (''vlseg3e8ff.v'', Suc 0), (''vlseg4e8ff.v'', Suc 0),
      (''vlseg5e8ff.v'', Suc 0), (''vlseg6e8ff.v'', Suc 0), (''vlseg7e8ff.v'', Suc 0),
      (''vlseg8e8ff.v'', Suc 0), (''vlseg2e16ff.v'', Suc 0), (''vlseg3e16ff.v'', Suc 0),
      (''vlseg4e16ff.v'', Suc 0), (''vlseg5e16ff.v'', Suc 0), (''vlseg6e16ff.v'', Suc 0),
      (''vlseg7e16ff.v'', Suc 0), (''vlseg8e16ff.v'', Suc 0), (''vlseg2e32ff.v'', Suc 0),
      (''vlseg3e32ff.v'', Suc 0), (''vlseg4e32ff.v'', Suc 0), (''vlseg5e32ff.v'', Suc 0),
      (''vlseg6e32ff.v'', Suc 0), (''vlseg7e32ff.v'', Suc 0), (''vlseg8e32ff.v'', Suc 0),
      (''vlseg2e64ff.v'', Suc 0), (''vlseg3e64ff.v'', Suc 0), (''vlseg4e64ff.v'', Suc 0),
      (''vlseg5e64ff.v'', Suc 0), (''vlseg6e64ff.v'', Suc 0), (''vlseg7e64ff.v'', Suc 0),
      (''vlseg8e64ff.v'', Suc 0), (''vl1r.v'', Suc 0), (''vl1re8.v'', Suc 0),
      (''vl1re16.v'', Suc 0), (''vl1re32.v'', Suc 0), (''vl1re64.v'', Suc 0),
      (''vl2r.v'', Suc 0), (''vl2re8.v'', Suc 0), (''vl2re16.v'', Suc 0), (''vl2re32.v'', Suc 0),
      (''vl2re64.v'', Suc 0), (''vl4r.v'', Suc 0), (''vl4re8.v'', Suc 0), (''vl4re16.v'', Suc 0),
      (''vl4re32.v'', Suc 0), (''vl4re64.v'', Suc 0), (''vl8r.v'', Suc 0), (''vl8re8.v'', Suc 0),
      (''vl8re16.v'', Suc 0), (''vl8re32.v'', Suc 0), (''vl8re64.v'', Suc 0),
      (''vs1r.v'', Suc 0), (''vs2r.v'', Suc 0), (''vs4r.v'', Suc 0), (''vs8r.v'', Suc 0),
      (''vneg.v'', Suc 0), (''vadd.vv'', Suc 0), (''vadd.vx'', Suc 0), (''vadd.vi'', Suc 0),
      (''vsub.vv'', Suc 0), (''vsub.vx'', Suc 0), (''vrsub.vx'', Suc 0), (''vrsub.vi'', Suc 0),
      (''vwcvt.x.x.v'', Suc 0), (''vwcvtu.x.x.v'', Suc 0), (''vwaddu.vv'', Suc 0),
      (''vwaddu.vx'', Suc 0), (''vwsubu.vv'', Suc 0), (''vwsubu.vx'', Suc 0),
      (''vwadd.vv'', Suc 0), (''vwadd.vx'', Suc 0), (''vwsub.vv'', Suc 0), (''vwsub.vx'', Suc 0),
      (''vwaddu.wv'', Suc 0), (''vwaddu.wx'', Suc 0), (''vwsubu.wv'', Suc 0),
      (''vwsubu.wx'', Suc 0), (''vwadd.wv'', Suc 0), (''vwadd.wx'', Suc 0),
      (''vwsub.wv'', Suc 0), (''vwsub.wx'', Suc 0), (''vzext.vf2'', Suc 0),
      (''vsext.vf2'', Suc 0), (''vzext.vf4'', Suc 0), (''vsext.vf4'', Suc 0),
      (''vzext.vf8'', Suc 0), (''vsext.vf8'', Suc 0)]"

definition optab_groups_10 :: "(string \<times> nat) list" where
  "optab_groups_10 =
     [(''vadc.vvm'', Suc 0), (''vadc.vxm'', Suc 0), (''vadc.vim'', Suc 0),
      (''vmadc.vvm'', Suc 0), (''vmadc.vxm'', Suc 0), (''vmadc.vim'', Suc 0),
      (''vmadc.vv'', Suc 0), (''vmadc.vx'', Suc 0), (''vmadc.vi'', Suc 0), (''vsbc.vvm'', Suc 0),
      (''vsbc.vxm'', Suc 0), (''vmsbc.vvm'', Suc 0), (''vmsbc.vxm'', Suc 0),
      (''vmsbc.vv'', Suc 0), (''vmsbc.vx'', Suc 0), (''vnot.v'', Suc 0), (''vand.vv'', Suc 0),
      (''vand.vx'', Suc 0), (''vand.vi'', Suc 0), (''vor.vv'', Suc 0), (''vor.vx'', Suc 0),
      (''vor.vi'', Suc 0), (''vxor.vv'', Suc 0), (''vxor.vx'', Suc 0), (''vxor.vi'', Suc 0),
      (''vsll.vv'', Suc 0), (''vsll.vx'', Suc 0), (''vsll.vi'', Suc 0), (''vsrl.vv'', Suc 0),
      (''vsrl.vx'', Suc 0), (''vsrl.vi'', Suc 0), (''vsra.vv'', Suc 0), (''vsra.vx'', Suc 0),
      (''vsra.vi'', Suc 0), (''vncvt.x.x.w'', Suc 0), (''vnsrl.wv'', Suc 0),
      (''vnsrl.wx'', Suc 0), (''vnsrl.wi'', Suc 0), (''vnsra.wv'', Suc 0), (''vnsra.wx'', Suc 0),
      (''vnsra.wi'', Suc 0), (''vmseq.vv'', Suc 0), (''vmseq.vx'', Suc 0), (''vmseq.vi'', Suc 0),
      (''vmsne.vv'', Suc 0), (''vmsne.vx'', Suc 0), (''vmsne.vi'', Suc 0),
      (''vmsltu.vv'', Suc 0), (''vmsltu.vx'', Suc 0), (''vmslt.vv'', Suc 0),
      (''vmslt.vx'', Suc 0), (''vmsleu.vv'', Suc 0), (''vmsleu.vx'', Suc 0),
      (''vmsleu.vi'', Suc 0), (''vmsle.vv'', Suc 0), (''vmsle.vx'', Suc 0),
      (''vmsle.vi'', Suc 0), (''vmsgtu.vx'', Suc 0), (''vmsgtu.vi'', Suc 0),
      (''vmsgt.vx'', Suc 0), (''vmsgt.vi'', Suc 0), (''vmsgt.vv'', Suc 0),
      (''vmsgtu.vv'', Suc 0), (''vmsge.vv'', Suc 0), (''vmsgeu.vv'', Suc 0),
      (''vmslt.vi'', Suc 0), (''vmsltu.vi'', 2), (''vmsge.vi'', Suc 0), (''vmsgeu.vi'', 2),
      (''vmsge.vx'', 2), (''vmsgeu.vx'', 2), (''vminu.vv'', Suc 0), (''vminu.vx'', Suc 0),
      (''vmin.vv'', Suc 0), (''vmin.vx'', Suc 0), (''vmaxu.vv'', Suc 0), (''vmaxu.vx'', Suc 0),
      (''vmax.vv'', Suc 0), (''vmax.vx'', Suc 0), (''vmul.vv'', Suc 0), (''vmul.vx'', Suc 0),
      (''vmulh.vv'', Suc 0), (''vmulh.vx'', Suc 0), (''vmulhu.vv'', Suc 0),
      (''vmulhu.vx'', Suc 0), (''vmulhsu.vv'', Suc 0), (''vmulhsu.vx'', Suc 0),
      (''vwmul.vv'', Suc 0), (''vwmul.vx'', Suc 0), (''vwmulu.vv'', Suc 0),
      (''vwmulu.vx'', Suc 0), (''vwmulsu.vv'', Suc 0), (''vwmulsu.vx'', Suc 0),
      (''vmacc.vv'', Suc 0), (''vmacc.vx'', Suc 0), (''vnmsac.vv'', Suc 0),
      (''vnmsac.vx'', Suc 0), (''vmadd.vv'', Suc 0), (''vmadd.vx'', Suc 0),
      (''vnmsub.vv'', Suc 0), (''vnmsub.vx'', Suc 0), (''vwmaccu.vv'', Suc 0),
      (''vwmaccu.vx'', Suc 0), (''vwmacc.vv'', Suc 0), (''vwmacc.vx'', Suc 0),
      (''vwmaccsu.vv'', Suc 0), (''vwmaccsu.vx'', Suc 0), (''vwmaccus.vx'', Suc 0),
      (''vdivu.vv'', Suc 0), (''vdivu.vx'', Suc 0), (''vdiv.vv'', Suc 0), (''vdiv.vx'', Suc 0),
      (''vremu.vv'', Suc 0), (''vremu.vx'', Suc 0), (''vrem.vv'', Suc 0), (''vrem.vx'', Suc 0),
      (''vmerge.vvm'', Suc 0), (''vmerge.vxm'', Suc 0), (''vmerge.vim'', Suc 0),
      (''vmv.v.v'', Suc 0), (''vmv.v.x'', Suc 0), (''vmv.v.i'', Suc 0)]"

definition optab_groups_11 :: "(string \<times> nat) list" where
  "optab_groups_11 =
     [(''vsaddu.vv'', Suc 0), (''vsaddu.vx'', Suc 0), (''vsaddu.vi'', Suc 0),
      (''vsadd.vv'', Suc 0), (''vsadd.vx'', Suc 0), (''vsadd.vi'', Suc 0),
      (''vssubu.vv'', Suc 0), (''vssubu.vx'', Suc 0), (''vssub.vv'', Suc 0),
      (''vssub.vx'', Suc 0), (''vaaddu.vv'', Suc 0), (''vaaddu.vx'', Suc 0),
      (''vaadd.vv'', Suc 0), (''vaadd.vx'', Suc 0), (''vasubu.vv'', Suc 0),
      (''vasubu.vx'', Suc 0), (''vasub.vv'', Suc 0), (''vasub.vx'', Suc 0),
      (''vsmul.vv'', Suc 0), (''vsmul.vx'', Suc 0), (''vssrl.vv'', Suc 0), (''vssrl.vx'', Suc 0),
      (''vssrl.vi'', Suc 0), (''vssra.vv'', Suc 0), (''vssra.vx'', Suc 0), (''vssra.vi'', Suc 0),
      (''vnclipu.wv'', Suc 0), (''vnclipu.wx'', Suc 0), (''vnclipu.wi'', Suc 0),
      (''vnclip.wv'', Suc 0), (''vnclip.wx'', Suc 0), (''vnclip.wi'', Suc 0),
      (''vfadd.vv'', Suc 0), (''vfadd.vf'', Suc 0), (''vfsub.vv'', Suc 0), (''vfsub.vf'', Suc 0),
      (''vfrsub.vf'', Suc 0), (''vfwadd.vv'', Suc 0), (''vfwadd.vf'', Suc 0),
      (''vfwsub.vv'', Suc 0), (''vfwsub.vf'', Suc 0), (''vfwadd.wv'', Suc 0),
      (''vfwadd.wf'', Suc 0), (''vfwsub.wv'', Suc 0), (''vfwsub.wf'', Suc 0),
      (''vfmul.vv'', Suc 0), (''vfmul.vf'', Suc 0), (''vfdiv.vv'', Suc 0), (''vfdiv.vf'', Suc 0),
      (''vfrdiv.vf'', Suc 0), (''vfwmul.vv'', Suc 0), (''vfwmul.vf'', Suc 0),
      (''vfmadd.vv'', Suc 0), (''vfmadd.vf'', Suc 0), (''vfnmadd.vv'', Suc 0),
      (''vfnmadd.vf'', Suc 0), (''vfmsub.vv'', Suc 0), (''vfmsub.vf'', Suc 0),
      (''vfnmsub.vv'', Suc 0), (''vfnmsub.vf'', Suc 0), (''vfmacc.vv'', Suc 0),
      (''vfmacc.vf'', Suc 0), (''vfnmacc.vv'', Suc 0), (''vfnmacc.vf'', Suc 0),
      (''vfmsac.vv'', Suc 0), (''vfmsac.vf'', Suc 0), (''vfnmsac.vv'', Suc 0),
      (''vfnmsac.vf'', Suc 0), (''vfwmacc.vv'', Suc 0), (''vfwmacc.vf'', Suc 0),
      (''vfwnmacc.vv'', Suc 0), (''vfwnmacc.vf'', Suc 0), (''vfwmsac.vv'', Suc 0),
      (''vfwmsac.vf'', Suc 0), (''vfwnmsac.vv'', Suc 0), (''vfwnmsac.vf'', Suc 0),
      (''vfsqrt.v'', Suc 0), (''vfrsqrt7.v'', Suc 0), (''vfrsqrte7.v'', Suc 0),
      (''vfrec7.v'', Suc 0), (''vfrece7.v'', Suc 0), (''vfclass.v'', Suc 0),
      (''vfmin.vv'', Suc 0), (''vfmin.vf'', Suc 0), (''vfmax.vv'', Suc 0), (''vfmax.vf'', Suc 0),
      (''vfneg.v'', Suc 0), (''vfabs.v'', Suc 0), (''vfsgnj.vv'', Suc 0), (''vfsgnj.vf'', Suc 0),
      (''vfsgnjn.vv'', Suc 0), (''vfsgnjn.vf'', Suc 0), (''vfsgnjx.vv'', Suc 0),
      (''vfsgnjx.vf'', Suc 0), (''vmfeq.vv'', Suc 0), (''vmfeq.vf'', Suc 0),
      (''vmfne.vv'', Suc 0), (''vmfne.vf'', Suc 0), (''vmflt.vv'', Suc 0), (''vmflt.vf'', Suc 0),
      (''vmfle.vv'', Suc 0), (''vmfle.vf'', Suc 0), (''vmfgt.vf'', Suc 0), (''vmfge.vf'', Suc 0),
      (''vmfgt.vv'', Suc 0), (''vmfge.vv'', Suc 0), (''vfmerge.vfm'', Suc 0),
      (''vfmv.v.f'', Suc 0), (''vfcvt.xu.f.v'', Suc 0), (''vfcvt.x.f.v'', Suc 0),
      (''vfcvt.rtz.xu.f.v'', Suc 0), (''vfcvt.rtz.x.f.v'', Suc 0), (''vfcvt.f.xu.v'', Suc 0),
      (''vfcvt.f.x.v'', Suc 0), (''vfwcvt.xu.f.v'', Suc 0), (''vfwcvt.x.f.v'', Suc 0),
      (''vfwcvt.rtz.xu.f.v'', Suc 0), (''vfwcvt.rtz.x.f.v'', Suc 0), (''vfwcvt.f.xu.v'', Suc 0),
      (''vfwcvt.f.x.v'', Suc 0), (''vfwcvt.f.f.v'', Suc 0)]"

definition optab_groups_12 :: "(string \<times> nat) list" where
  "optab_groups_12 =
     [(''vfncvt.xu.f.w'', Suc 0), (''vfncvt.x.f.w'', Suc 0), (''vfncvt.rtz.xu.f.w'', Suc 0),
      (''vfncvt.rtz.x.f.w'', Suc 0), (''vfncvt.f.xu.w'', Suc 0), (''vfncvt.f.x.w'', Suc 0),
      (''vfncvt.f.f.w'', Suc 0), (''vfncvt.rod.f.f.w'', Suc 0), (''vredsum.vs'', Suc 0),
      (''vredmaxu.vs'', Suc 0), (''vredmax.vs'', Suc 0), (''vredminu.vs'', Suc 0),
      (''vredmin.vs'', Suc 0), (''vredand.vs'', Suc 0), (''vredor.vs'', Suc 0),
      (''vredxor.vs'', Suc 0), (''vwredsumu.vs'', Suc 0), (''vwredsum.vs'', Suc 0),
      (''vfredosum.vs'', Suc 0), (''vfredusum.vs'', Suc 0), (''vfredsum.vs'', Suc 0),
      (''vfredmax.vs'', Suc 0), (''vfredmin.vs'', Suc 0), (''vfwredosum.vs'', Suc 0),
      (''vfwredusum.vs'', Suc 0), (''vfwredsum.vs'', Suc 0), (''vmmv.m'', Suc 0),
      (''vmcpy.m'', Suc 0), (''vmclr.m'', Suc 0), (''vmset.m'', Suc 0), (''vmnot.m'', Suc 0),
      (''vmand.mm'', Suc 0), (''vmnand.mm'', Suc 0), (''vmandn.mm'', Suc 0),
      (''vmandnot.mm'', Suc 0), (''vmxor.mm'', Suc 0), (''vmor.mm'', Suc 0),
      (''vmnor.mm'', Suc 0), (''vmorn.mm'', Suc 0), (''vmornot.mm'', Suc 0),
      (''vmxnor.mm'', Suc 0), (''vcpop.m'', Suc 0), (''vpopc.m'', Suc 0), (''vfirst.m'', Suc 0),
      (''vmsbf.m'', Suc 0), (''vmsif.m'', Suc 0), (''vmsof.m'', Suc 0), (''viota.m'', Suc 0),
      (''vid.v'', Suc 0), (''vmv.x.s'', Suc 0), (''vmv.s.x'', Suc 0), (''vfmv.f.s'', Suc 0),
      (''vfmv.s.f'', Suc 0), (''vslideup.vx'', Suc 0), (''vslideup.vi'', Suc 0),
      (''vslidedown.vx'', Suc 0), (''vslidedown.vi'', Suc 0), (''vslide1up.vx'', Suc 0),
      (''vslide1down.vx'', Suc 0), (''vfslide1up.vf'', Suc 0), (''vfslide1down.vf'', Suc 0),
      (''vrgather.vv'', Suc 0), (''vrgather.vx'', Suc 0), (''vrgather.vi'', Suc 0),
      (''vrgatherei16.vv'', Suc 0), (''vcompress.vm'', Suc 0), (''vmv1r.v'', Suc 0),
      (''vmv2r.v'', Suc 0), (''vmv4r.v'', Suc 0), (''vmv8r.v'', Suc 0), (''vandn.vv'', Suc 0),
      (''vandn.vx'', Suc 0), (''vbrev.v'', Suc 0), (''vbrev8.v'', Suc 0), (''vrev8.v'', Suc 0),
      (''vclz.v'', Suc 0), (''vctz.v'', Suc 0), (''vcpop.v'', Suc 0), (''vrol.vv'', Suc 0),
      (''vrol.vx'', Suc 0), (''vror.vv'', Suc 0), (''vror.vx'', Suc 0), (''vror.vi'', Suc 0),
      (''vwsll.vv'', Suc 0), (''vwsll.vx'', Suc 0), (''vwsll.vi'', Suc 0),
      (''vclmul.vv'', Suc 0), (''vclmul.vx'', Suc 0), (''vclmulh.vv'', Suc 0),
      (''vclmulh.vx'', Suc 0), (''vghsh.vv'', Suc 0), (''vgmul.vv'', Suc 0),
      (''vaesdf.vv'', Suc 0), (''vaesdf.vs'', Suc 0), (''vaesdm.vv'', Suc 0),
      (''vaesdm.vs'', Suc 0), (''vaesef.vv'', Suc 0), (''vaesef.vs'', Suc 0),
      (''vaesem.vv'', Suc 0), (''vaesem.vs'', Suc 0), (''vaeskf1.vi'', Suc 0),
      (''vaeskf2.vi'', Suc 0), (''vaesz.vs'', Suc 0), (''vsha2ch.vv'', Suc 0),
      (''vsha2cl.vv'', Suc 0), (''vsha2ms.vv'', Suc 0), (''vsm4k.vi'', Suc 0),
      (''vsm4r.vv'', Suc 0), (''vsm4r.vs'', Suc 0), (''vsm3c.vi'', Suc 0), (''vsm3me.vv'', Suc 0)]"

lemma riscv_opcodes_9_names: "map op_name riscv_opcodes_9 = ungroup optab_groups_9"
  by (simp only: riscv_opcodes_9_def optab_groups_9_def list.map riscv_opcode.select_convs ungroup_eval pred_numeral_simps
      BitM.simps numeral_One One_nat_def)

lemma riscv_opcodes_10_names: "map op_name riscv_opcodes_10 = ungroup optab_groups_10"
  by (simp only: riscv_opcodes_10_def optab_groups_10_def list.map riscv_opcode.select_convs ungroup_eval pred_numeral_simps
      BitM.simps numeral_One One_nat_def)

lemma riscv_opcodes_11_names: "map op_name riscv_opcodes_11 = ungroup optab_groups_11"
  by (simp only: riscv_opcodes_11_def optab_groups_11_def list.map riscv_opcode.select_convs ungroup_eval pred_numeral_simps
      BitM.simps numeral_One One_nat_def)

lemma riscv_opcodes_12_names: "map op_name riscv_opcodes_12 = ungroup optab_groups_12"
  by (simp only: riscv_opcodes_12_def optab_groups_12_def list.map riscv_opcode.select_convs ungroup_eval pred_numeral_simps
      BitM.simps numeral_One One_nat_def)

end
