(* ===== verification/RV_Optab_4.thy ===== *)
theory RV_Optab_4
  imports RV_Args RV_Distinct
begin

text \<open>
  Lines 1982 to 2545 of \<^verbatim>\<open>opcodes/riscv-opc.c\<close>: part 4 of the table \<open>riscv_opcodes\<close>, row by row, with the
  macros \<open>MATCH_*\<close>, \<open>MASK_*\<close> and \<open>INSN_*\<close> of the match, mask and pinfo columns evaluated to numbers as C
  evaluates them (including the sign extension of an \<open>int\<close> expression into \<open>insn_t\<close>).
\<close>

definition riscv_opcodes_13 :: "riscv_opcode list" where
  "riscv_opcodes_13 =
     [opc ''c.lbu'' 0 INSN_CLASS_ZCB ''Ct,Wcb(Cs)'' 0x8000 0xfc03 MF_match_opcode 0x18,
      opc ''c.lhu'' 0 INSN_CLASS_ZCB ''Ct,Wch(Cs)'' 0x8400 0xfc43 MF_match_opcode 0x28,
      opc ''c.lh'' 0 INSN_CLASS_ZCB ''Ct,Wch(Cs)'' 0x8440 0xfc43 MF_match_opcode 0x28,
      opc ''c.sb'' 0 INSN_CLASS_ZCB ''Ct,Wcb(Cs)'' 0x8800 0xfc03 MF_match_opcode 0x18,
      opc ''c.sh'' 0 INSN_CLASS_ZCB ''Ct,Wch(Cs)'' 0x8c00 0xfc43 MF_match_opcode 0x28,
      opc ''c.not'' 0 INSN_CLASS_ZCB ''Cs'' 0x9c75 0xfc7f MF_match_opcode 0,
      opc ''c.mul'' 0 INSN_CLASS_ZCB_AND_ZMMUL ''Cs,Ct'' 0x9c41 0xfc63 MF_match_opcode 0,
      opc ''c.sext.b'' 0 INSN_CLASS_ZCB_AND_ZBB ''Cs'' 0x9c65 0xfc7f MF_match_opcode 0,
      opc ''c.sext.h'' 0 INSN_CLASS_ZCB_AND_ZBB ''Cs'' 0x9c6d 0xfc7f MF_match_opcode 0,
      opc ''c.zext.h'' 0 INSN_CLASS_ZCB_AND_ZBB ''Cs'' 0x9c69 0xfc7f MF_match_opcode 0,
      opc ''c.zext.w'' 64 INSN_CLASS_ZCB_AND_ZBA ''Cs'' 0x9c71 0xfc7f MF_match_opcode 0,
      opc ''c.zext.b'' 0 INSN_CLASS_ZCB ''Cs'' 0x9c61 0xfc7f MF_match_opcode 0,
      opc ''c.sext.w'' 64 INSN_CLASS_ZCB ''d'' 0x2001 0xf07f MF_match_rd_nonzero 0x1,
      opc ''csrr'' 0 INSN_CLASS_ZICSR ''d,E'' 0x2073 0xff07f MF_match_opcode 0x1,
      opc ''csrwi'' 0 INSN_CLASS_ZICSR ''E,Z'' 0x5073 0x7fff MF_match_opcode 0x1,
      opc ''csrw'' 0 INSN_CLASS_ZICSR ''E,s'' 0x1073 0x7fff MF_match_opcode 0x1,
      opc ''csrw'' 0 INSN_CLASS_ZICSR ''E,Z'' 0x5073 0x7fff MF_match_opcode 0x1,
      opc ''csrsi'' 0 INSN_CLASS_ZICSR ''E,Z'' 0x6073 0x7fff MF_match_opcode 0x1,
      opc ''csrs'' 0 INSN_CLASS_ZICSR ''E,s'' 0x2073 0x7fff MF_match_opcode 0x1,
      opc ''csrs'' 0 INSN_CLASS_ZICSR ''E,Z'' 0x6073 0x7fff MF_match_opcode 0x1,
      opc ''csrci'' 0 INSN_CLASS_ZICSR ''E,Z'' 0x7073 0x7fff MF_match_opcode 0x1,
      opc ''csrc'' 0 INSN_CLASS_ZICSR ''E,s'' 0x3073 0x7fff MF_match_opcode 0x1,
      opc ''csrc'' 0 INSN_CLASS_ZICSR ''E,Z'' 0x7073 0x7fff MF_match_opcode 0x1,
      opc ''csrrwi'' 0 INSN_CLASS_ZICSR ''d,E,Z'' 0x5073 0x707f MF_match_opcode 0,
      opc ''csrrw'' 0 INSN_CLASS_ZICSR ''d,E,s'' 0x1073 0x707f MF_match_opcode 0,
      opc ''csrrw'' 0 INSN_CLASS_ZICSR ''d,E,Z'' 0x5073 0x707f MF_match_opcode 0x1,
      opc ''csrrsi'' 0 INSN_CLASS_ZICSR ''d,E,Z'' 0x6073 0x707f MF_match_opcode 0,
      opc ''csrrs'' 0 INSN_CLASS_ZICSR ''d,E,s'' 0x2073 0x707f MF_match_opcode 0,
      opc ''csrrs'' 0 INSN_CLASS_ZICSR ''d,E,Z'' 0x6073 0x707f MF_match_opcode 0x1,
      opc ''csrrci'' 0 INSN_CLASS_ZICSR ''d,E,Z'' 0x7073 0x707f MF_match_opcode 0,
      opc ''csrrc'' 0 INSN_CLASS_ZICSR ''d,E,s'' 0x3073 0x707f MF_match_opcode 0,
      opc ''csrrc'' 0 INSN_CLASS_ZICSR ''d,E,Z'' 0x7073 0x707f MF_match_opcode 0x1,
      opc ''uret'' 0 INSN_CLASS_I '''' 0x200073 0xffffffff MF_match_opcode 0,
      opc ''sret'' 0 INSN_CLASS_I '''' 0x10200073 0xffffffff MF_match_opcode 0,
      opc ''hret'' 0 INSN_CLASS_I '''' 0x20200073 0xffffffff MF_match_opcode 0,
      opc ''mret'' 0 INSN_CLASS_I '''' 0x30200073 0xffffffff MF_match_opcode 0,
      opc ''dret'' 0 INSN_CLASS_I '''' 0x7b200073 0xffffffff MF_match_opcode 0,
      opc ''sfence.vm'' 0 INSN_CLASS_I '''' 0x10400073 0xffffffff MF_match_opcode 0,
      opc ''sfence.vm'' 0 INSN_CLASS_I ''s'' 0x10400073 0xfff07fff MF_match_opcode 0,
      opc ''sfence.vma'' 0 INSN_CLASS_I '''' 0x12000073 0xffffffff MF_match_opcode 0x1,
      opc ''sfence.vma'' 0 INSN_CLASS_I ''s'' 0x12000073 0xfff07fff MF_match_opcode 0x1,
      opc ''sfence.vma'' 0 INSN_CLASS_I ''s,t'' 0x12000073 0xfe007fff MF_match_opcode 0,
      opc ''wfi'' 0 INSN_CLASS_I '''' 0x10500073 0xffffffff MF_match_opcode 0,
      opc ''sinval.vma'' 0 INSN_CLASS_SVINVAL ''s,t'' 0x16000073 0xfe007fff MF_match_opcode 0,
      opc ''sfence.w.inval'' 0 INSN_CLASS_SVINVAL '''' 0x18000073 0xffffffff MF_match_opcode 0,
      opc ''sfence.inval.ir'' 0 INSN_CLASS_SVINVAL '''' 0x18100073 0xffffffff MF_match_opcode 0,
      opc ''hinval.vvma'' 0 INSN_CLASS_SVINVAL ''s,t'' 0x26000073 0xfe007fff MF_match_opcode 0,
      opc ''hinval.gvma'' 0 INSN_CLASS_SVINVAL ''s,t'' 0x66000073 0xfe007fff MF_match_opcode 0,
      opc ''hfence.vvma'' 0 INSN_CLASS_H '''' 0x22000073 0xffffffff MF_match_opcode 0x1,
      opc ''hfence.vvma'' 0 INSN_CLASS_H ''s'' 0x22000073 0xfff07fff MF_match_opcode 0x1,
      opc ''hfence.vvma'' 0 INSN_CLASS_H ''s,t'' 0x22000073 0xfe007fff MF_match_opcode 0,
      opc ''hfence.gvma'' 0 INSN_CLASS_H '''' 0x62000073 0xffffffff MF_match_opcode 0x1,
      opc ''hfence.gvma'' 0 INSN_CLASS_H ''s'' 0x62000073 0xfff07fff MF_match_opcode 0x1,
      opc ''hfence.gvma'' 0 INSN_CLASS_H ''s,t'' 0x62000073 0xfe007fff MF_match_opcode 0,
      opc ''hlv.b'' 0 INSN_CLASS_H ''d,0(s)'' 0x60004073 0xfff0707f MF_match_opcode 0x18,
      opc ''hlv.bu'' 0 INSN_CLASS_H ''d,0(s)'' 0x60104073 0xfff0707f MF_match_opcode 0x18,
      opc ''hlv.h'' 0 INSN_CLASS_H ''d,0(s)'' 0x64004073 0xfff0707f MF_match_opcode 0x28,
      opc ''hlv.hu'' 0 INSN_CLASS_H ''d,0(s)'' 0x64104073 0xfff0707f MF_match_opcode 0x28,
      opc ''hlvx.hu'' 0 INSN_CLASS_H ''d,0(s)'' 0x64304073 0xfff0707f MF_match_opcode 0x28,
      opc ''hlv.w'' 0 INSN_CLASS_H ''d,0(s)'' 0x68004073 0xfff0707f MF_match_opcode 0x38,
      opc ''hlv.wu'' 64 INSN_CLASS_H ''d,0(s)'' 0x68104073 0xfff0707f MF_match_opcode 0x38,
      opc ''hlvx.wu'' 0 INSN_CLASS_H ''d,0(s)'' 0x68304073 0xfff0707f MF_match_opcode 0x38,
      opc ''hlv.d'' 64 INSN_CLASS_H ''d,0(s)'' 0x6c004073 0xfff0707f MF_match_opcode 0x48,
      opc ''hsv.b'' 0 INSN_CLASS_H ''t,0(s)'' 0x62004073 0xfe007fff MF_match_opcode 0x18,
      opc ''hsv.h'' 0 INSN_CLASS_H ''t,0(s)'' 0x66004073 0xfe007fff MF_match_opcode 0x28,
      opc ''hsv.w'' 0 INSN_CLASS_H ''t,0(s)'' 0x6a004073 0xfe007fff MF_match_opcode 0x38,
      opc ''hsv.d'' 64 INSN_CLASS_H ''t,0(s)'' 0x6e004073 0xfe007fff MF_match_opcode 0x48,
      opc ''cv.mac'' 0 INSN_CLASS_XCVMAC ''d,s,t'' 0x9000302b 0xfe00707f MF_match_opcode 0,
      opc ''cv.msu'' 0 INSN_CLASS_XCVMAC ''d,s,t'' 0x9200302b 0xfe00707f MF_match_opcode 0,
      opc ''cv.mulsn'' 0 INSN_CLASS_XCVMAC ''d,s,t,Xc3'' 0x405b 0xc000707f MF_match_opcode 0,
      opc ''cv.muls'' 0 INSN_CLASS_XCVMAC ''d,s,t'' 0x405b 0xfe00707f MF_match_opcode 0x1,
      opc ''cv.mulsrn'' 0 INSN_CLASS_XCVMAC ''d,s,t,Xc3'' 0x8000405b 0xc000707f MF_match_opcode 0,
      opc ''cv.mulhhsn'' 0 INSN_CLASS_XCVMAC ''d,s,t,Xc3'' 0x4000405b 0xc000707f MF_match_opcode 0,
      opc ''cv.mulhhs'' 0 INSN_CLASS_XCVMAC ''d,s,t'' 0x4000405b 0xfe00707f MF_match_opcode 0x1,
      opc ''cv.mulhhsrn'' 0 INSN_CLASS_XCVMAC ''d,s,t,Xc3'' 0xc000405b 0xc000707f MF_match_opcode 0,
      opc ''cv.mulun'' 0 INSN_CLASS_XCVMAC ''d,s,t,Xc3'' 0x505b 0xc000707f MF_match_opcode 0,
      opc ''cv.mulu'' 0 INSN_CLASS_XCVMAC ''d,s,t'' 0x505b 0xfe00707f MF_match_opcode 0x1,
      opc ''cv.mulurn'' 0 INSN_CLASS_XCVMAC ''d,s,t,Xc3'' 0x8000505b 0xc000707f MF_match_opcode 0,
      opc ''cv.mulhhun'' 0 INSN_CLASS_XCVMAC ''d,s,t,Xc3'' 0x4000505b 0xc000707f MF_match_opcode 0,
      opc ''cv.mulhhu'' 0 INSN_CLASS_XCVMAC ''d,s,t'' 0x4000505b 0xfe00707f MF_match_opcode 0x1,
      opc ''cv.mulhhurn'' 0 INSN_CLASS_XCVMAC ''d,s,t,Xc3'' 0xc000505b 0xc000707f MF_match_opcode 0,
      opc ''cv.macsn'' 0 INSN_CLASS_XCVMAC ''d,s,t,Xc3'' 0x605b 0xc000707f MF_match_opcode 0,
      opc ''cv.machhsn'' 0 INSN_CLASS_XCVMAC ''d,s,t,Xc3'' 0x4000605b 0xc000707f MF_match_opcode 0,
      opc ''cv.macsrn'' 0 INSN_CLASS_XCVMAC ''d,s,t,Xc3'' 0x8000605b 0xc000707f MF_match_opcode 0,
      opc ''cv.machhsrn'' 0 INSN_CLASS_XCVMAC ''d,s,t,Xc3'' 0xc000605b 0xc000707f MF_match_opcode 0,
      opc ''cv.macun'' 0 INSN_CLASS_XCVMAC ''d,s,t,Xc3'' 0x705b 0xc000707f MF_match_opcode 0,
      opc ''cv.machhun'' 0 INSN_CLASS_XCVMAC ''d,s,t,Xc3'' 0x4000705b 0xc000707f MF_match_opcode 0,
      opc ''cv.macurn'' 0 INSN_CLASS_XCVMAC ''d,s,t,Xc3'' 0x8000705b 0xc000707f MF_match_opcode 0,
      opc ''cv.machhurn'' 0 INSN_CLASS_XCVMAC ''d,s,t,Xc3'' 0xc000705b 0xc000707f MF_match_opcode 0,
      opc ''cv.abs'' 0 INSN_CLASS_XCVALU ''d,s'' 0x5000302b 0xfff0707f MF_match_opcode 0,
      opc ''cv.exths'' 0 INSN_CLASS_XCVALU ''d,s'' 0x6000302b 0xfff0707f MF_match_opcode 0,
      opc ''cv.exthz'' 0 INSN_CLASS_XCVALU ''d,s'' 0x6200302b 0xfff0707f MF_match_opcode 0,
      opc ''cv.extbs'' 0 INSN_CLASS_XCVALU ''d,s'' 0x6400302b 0xfff0707f MF_match_opcode 0,
      opc ''cv.extbz'' 0 INSN_CLASS_XCVALU ''d,s'' 0x6600302b 0xfff0707f MF_match_opcode 0,
      opc ''cv.sle'' 0 INSN_CLASS_XCVALU ''d,s,t'' 0x5200302b 0xfe00707f MF_match_opcode 0,
      opc ''cv.slet'' 0 INSN_CLASS_XCVALU ''d,s,t'' 0x5200302b 0xfe00707f MF_match_opcode 0x1,
      opc ''cv.sleu'' 0 INSN_CLASS_XCVALU ''d,s,t'' 0x5400302b 0xfe00707f MF_match_opcode 0,
      opc ''cv.sletu'' 0 INSN_CLASS_XCVALU ''d,s,t'' 0x5400302b 0xfe00707f MF_match_opcode 0x1,
      opc ''cv.min'' 0 INSN_CLASS_XCVALU ''d,s,t'' 0x5600302b 0xfe00707f MF_match_opcode 0,
      opc ''cv.minu'' 0 INSN_CLASS_XCVALU ''d,s,t'' 0x5800302b 0xfe00707f MF_match_opcode 0,
      opc ''cv.max'' 0 INSN_CLASS_XCVALU ''d,s,t'' 0x5a00302b 0xfe00707f MF_match_opcode 0,
      opc ''cv.maxu'' 0 INSN_CLASS_XCVALU ''d,s,t'' 0x5c00302b 0xfe00707f MF_match_opcode 0,
      opc ''cv.clip'' 0 INSN_CLASS_XCVALU ''d,s,Xc2'' 0x7000302b 0xfe00707f MF_match_opcode 0,
      opc ''cv.clipu'' 0 INSN_CLASS_XCVALU ''d,s,Xc2'' 0x7200302b 0xfe00707f MF_match_opcode 0,
      opc ''cv.clipr'' 0 INSN_CLASS_XCVALU ''d,s,t'' 0x7400302b 0xfe00707f MF_match_opcode 0,
      opc ''cv.clipur'' 0 INSN_CLASS_XCVALU ''d,s,t'' 0x7600302b 0xfe00707f MF_match_opcode 0,
      opc ''cv.addn'' 0 INSN_CLASS_XCVALU ''d,s,t,Xc3'' 0x205b 0xc000707f MF_match_opcode 0,
      opc ''cv.addun'' 0 INSN_CLASS_XCVALU ''d,s,t,Xc3'' 0x4000205b 0xc000707f MF_match_opcode 0,
      opc ''cv.addunr'' 0 INSN_CLASS_XCVALU ''d,s,t'' 0x8200302b 0xfe00707f MF_match_opcode 0,
      opc ''cv.addrn'' 0 INSN_CLASS_XCVALU ''d,s,t,Xc3'' 0x8000205b 0xc000707f MF_match_opcode 0,
      opc ''cv.addurn'' 0 INSN_CLASS_XCVALU ''d,s,t,Xc3'' 0xc000205b 0xc000707f MF_match_opcode 0,
      opc ''cv.addnr'' 0 INSN_CLASS_XCVALU ''d,s,t'' 0x8000302b 0xfe00707f MF_match_opcode 0,
      opc ''cv.addrnr'' 0 INSN_CLASS_XCVALU ''d,s,t'' 0x8400302b 0xfe00707f MF_match_opcode 0,
      opc ''cv.addurnr'' 0 INSN_CLASS_XCVALU ''d,s,t'' 0x8600302b 0xfe00707f MF_match_opcode 0,
      opc ''cv.subn'' 0 INSN_CLASS_XCVALU ''d,s,t,Xc3'' 0x305b 0xc000707f MF_match_opcode 0,
      opc ''cv.subun'' 0 INSN_CLASS_XCVALU ''d,s,t,Xc3'' 0x4000305b 0xc000707f MF_match_opcode 0,
      opc ''cv.subrn'' 0 INSN_CLASS_XCVALU ''d,s,t,Xc3'' 0x8000305b 0xc000707f MF_match_opcode 0,
      opc ''cv.suburn'' 0 INSN_CLASS_XCVALU ''d,s,t,Xc3'' 0xc000305b 0xc000707f MF_match_opcode 0,
      opc ''cv.subnr'' 0 INSN_CLASS_XCVALU ''d,s,t'' 0x8800302b 0xfe00707f MF_match_opcode 0,
      opc ''cv.subunr'' 0 INSN_CLASS_XCVALU ''d,s,t'' 0x8a00302b 0xfe00707f MF_match_opcode 0,
      opc ''cv.subrnr'' 0 INSN_CLASS_XCVALU ''d,s,t'' 0x8c00302b 0xfe00707f MF_match_opcode 0,
      opc ''cv.suburnr'' 0 INSN_CLASS_XCVALU ''d,s,t'' 0x8e00302b 0xfe00707f MF_match_opcode 0,
      opc ''th.addsl'' 0 INSN_CLASS_XTHEADBA ''d,s,t,Xtu2@25'' 0x100b 0xf800707f MF_match_opcode 0,
      opc ''th.srri'' 0 INSN_CLASS_XTHEADBB ''d,s,Xtu6@20'' 0x1000100b 0xfc00707f MF_match_opcode 0,
      opc ''th.srriw'' 64 INSN_CLASS_XTHEADBB ''d,s,Xtu5@20'' 0x1400100b 0xfe00707f MF_match_opcode 0,
      opc ''th.ext'' 0 INSN_CLASS_XTHEADBB ''d,s,Xtu6@26,Xtu6@20'' 0x200b 0x707f MF_match_opcode 0,
      opc ''th.extu'' 0 INSN_CLASS_XTHEADBB ''d,s,Xtu6@26,Xtu6@20'' 0x300b 0x707f MF_match_opcode 0,
      opc ''th.ff0'' 0 INSN_CLASS_XTHEADBB ''d,s'' 0x8400100b 0xfff0707f MF_match_opcode 0,
      opc ''th.ff1'' 0 INSN_CLASS_XTHEADBB ''d,s'' 0x8600100b 0xfff0707f MF_match_opcode 0,
      opc ''th.rev'' 0 INSN_CLASS_XTHEADBB ''d,s'' 0x8200100b 0xfff0707f MF_match_opcode 0,
      opc ''th.revw'' 64 INSN_CLASS_XTHEADBB ''d,s'' 0x9000100b 0xfff0707f MF_match_opcode 0,
      opc ''th.tstnbz'' 0 INSN_CLASS_XTHEADBB ''d,s'' 0x8000100b 0xfff0707f MF_match_opcode 0]"

definition riscv_opcodes_14 :: "riscv_opcode list" where
  "riscv_opcodes_14 =
     [opc ''th.tst'' 0 INSN_CLASS_XTHEADBS ''d,s,Xtu6@20'' 0x8800100b 0xfc00707f MF_match_opcode 0,
      opc ''th.dcache.call'' 0 INSN_CLASS_XTHEADCMO '''' 0x10000b 0xffffffff MF_match_opcode 0,
      opc ''th.dcache.ciall'' 0 INSN_CLASS_XTHEADCMO '''' 0x30000b 0xffffffff MF_match_opcode 0,
      opc ''th.dcache.iall'' 0 INSN_CLASS_XTHEADCMO '''' 0x20000b 0xffffffff MF_match_opcode 0,
      opc ''th.dcache.cpa'' 0 INSN_CLASS_XTHEADCMO ''s'' 0x290000b 0xfff07fff MF_match_opcode 0,
      opc ''th.dcache.cipa'' 0 INSN_CLASS_XTHEADCMO ''s'' 0x2b0000b 0xfff07fff MF_match_opcode 0,
      opc ''th.dcache.ipa'' 0 INSN_CLASS_XTHEADCMO ''s'' 0x2a0000b 0xfff07fff MF_match_opcode 0,
      opc ''th.dcache.cva'' 0 INSN_CLASS_XTHEADCMO ''s'' 0x250000b 0xfff07fff MF_match_opcode 0,
      opc ''th.dcache.civa'' 0 INSN_CLASS_XTHEADCMO ''s'' 0x270000b 0xfff07fff MF_match_opcode 0,
      opc ''th.dcache.iva'' 0 INSN_CLASS_XTHEADCMO ''s'' 0x260000b 0xfff07fff MF_match_opcode 0,
      opc ''th.dcache.csw'' 0 INSN_CLASS_XTHEADCMO ''s'' 0x210000b 0xfff07fff MF_match_opcode 0,
      opc ''th.dcache.cisw'' 0 INSN_CLASS_XTHEADCMO ''s'' 0x230000b 0xfff07fff MF_match_opcode 0,
      opc ''th.dcache.isw'' 0 INSN_CLASS_XTHEADCMO ''s'' 0x220000b 0xfff07fff MF_match_opcode 0,
      opc ''th.dcache.cpal1'' 0 INSN_CLASS_XTHEADCMO ''s'' 0x280000b 0xfff07fff MF_match_opcode 0,
      opc ''th.dcache.cval1'' 0 INSN_CLASS_XTHEADCMO ''s'' 0x240000b 0xfff07fff MF_match_opcode 0,
      opc ''th.icache.iall'' 0 INSN_CLASS_XTHEADCMO '''' 0x100000b 0xffffffff MF_match_opcode 0,
      opc ''th.icache.ialls'' 0 INSN_CLASS_XTHEADCMO '''' 0x110000b 0xffffffff MF_match_opcode 0,
      opc ''th.icache.ipa'' 0 INSN_CLASS_XTHEADCMO ''s'' 0x380000b 0xfff07fff MF_match_opcode 0,
      opc ''th.icache.iva'' 0 INSN_CLASS_XTHEADCMO ''s'' 0x300000b 0xfff07fff MF_match_opcode 0,
      opc ''th.l2cache.call'' 0 INSN_CLASS_XTHEADCMO '''' 0x150000b 0xffffffff MF_match_opcode 0,
      opc ''th.l2cache.ciall'' 0 INSN_CLASS_XTHEADCMO '''' 0x170000b 0xffffffff MF_match_opcode 0,
      opc ''th.l2cache.iall'' 0 INSN_CLASS_XTHEADCMO '''' 0x160000b 0xffffffff MF_match_opcode 0,
      opc ''th.mveqz'' 0 INSN_CLASS_XTHEADCONDMOV ''d,s,t'' 0x4000100b 0xfe00707f MF_match_opcode 0,
      opc ''th.mvnez'' 0 INSN_CLASS_XTHEADCONDMOV ''d,s,t'' 0x4200100b 0xfe00707f MF_match_opcode 0,
      opc ''th.flrd'' 0 INSN_CLASS_XTHEADFMEMIDX ''D,s,t,Xtu2@25'' 0x6000600b 0xf800707f MF_match_opcode 0,
      opc ''th.flrw'' 0 INSN_CLASS_XTHEADFMEMIDX ''D,s,t,Xtu2@25'' 0x4000600b 0xf800707f MF_match_opcode 0,
      opc ''th.flurd'' 0 INSN_CLASS_XTHEADFMEMIDX ''D,s,t,Xtu2@25'' 0x7000600b 0xf800707f MF_match_opcode 0,
      opc ''th.flurw'' 0 INSN_CLASS_XTHEADFMEMIDX ''D,s,t,Xtu2@25'' 0x5000600b 0xf800707f MF_match_opcode 0,
      opc ''th.fsrd'' 0 INSN_CLASS_XTHEADFMEMIDX ''D,s,t,Xtu2@25'' 0x6000700b 0xf800707f MF_match_opcode 0,
      opc ''th.fsrw'' 0 INSN_CLASS_XTHEADFMEMIDX ''D,s,t,Xtu2@25'' 0x4000700b 0xf800707f MF_match_opcode 0,
      opc ''th.fsurd'' 0 INSN_CLASS_XTHEADFMEMIDX ''D,s,t,Xtu2@25'' 0x7000700b 0xf800707f MF_match_opcode 0,
      opc ''th.fsurw'' 0 INSN_CLASS_XTHEADFMEMIDX ''D,s,t,Xtu2@25'' 0x5000700b 0xf800707f MF_match_opcode 0,
      opc ''th.fmv.hw.x'' 32 INSN_CLASS_XTHEADFMV ''D,s'' 0xa000100b 0xfff0707f MF_match_opcode 0,
      opc ''th.fmv.x.hw'' 32 INSN_CLASS_XTHEADFMV ''d,S'' 0xc000100b 0xfff0707f MF_match_opcode 0,
      opc ''th.ipop'' 0 INSN_CLASS_XTHEADINT '''' 0x50000b 0xffffffff MF_match_opcode 0,
      opc ''th.ipush'' 0 INSN_CLASS_XTHEADINT '''' 0x40000b 0xffffffff MF_match_opcode 0,
      opc ''th.ldia'' 64 INSN_CLASS_XTHEADMEMIDX ''d,(s),Xts5@20,Xtu2@25'' 0x7800400b 0xf800707f MF_match_th_load_inc 0,
      opc ''th.ldib'' 64 INSN_CLASS_XTHEADMEMIDX ''d,(s),Xts5@20,Xtu2@25'' 0x6800400b 0xf800707f MF_match_th_load_inc 0,
      opc ''th.lwia'' 0 INSN_CLASS_XTHEADMEMIDX ''d,(s),Xts5@20,Xtu2@25'' 0x5800400b 0xf800707f MF_match_th_load_inc 0,
      opc ''th.lwib'' 0 INSN_CLASS_XTHEADMEMIDX ''d,(s),Xts5@20,Xtu2@25'' 0x4800400b 0xf800707f MF_match_th_load_inc 0,
      opc ''th.lwuia'' 64 INSN_CLASS_XTHEADMEMIDX ''d,(s),Xts5@20,Xtu2@25'' 0xd800400b 0xf800707f MF_match_th_load_inc 0,
      opc ''th.lwuib'' 64 INSN_CLASS_XTHEADMEMIDX ''d,(s),Xts5@20,Xtu2@25'' 0xc800400b 0xf800707f MF_match_th_load_inc 0,
      opc ''th.lhia'' 0 INSN_CLASS_XTHEADMEMIDX ''d,(s),Xts5@20,Xtu2@25'' 0x3800400b 0xf800707f MF_match_th_load_inc 0,
      opc ''th.lhib'' 0 INSN_CLASS_XTHEADMEMIDX ''d,(s),Xts5@20,Xtu2@25'' 0x2800400b 0xf800707f MF_match_th_load_inc 0,
      opc ''th.lhuia'' 0 INSN_CLASS_XTHEADMEMIDX ''d,(s),Xts5@20,Xtu2@25'' 0xb800400b 0xf800707f MF_match_th_load_inc 0,
      opc ''th.lhuib'' 0 INSN_CLASS_XTHEADMEMIDX ''d,(s),Xts5@20,Xtu2@25'' 0xa800400b 0xf800707f MF_match_th_load_inc 0,
      opc ''th.lbia'' 0 INSN_CLASS_XTHEADMEMIDX ''d,(s),Xts5@20,Xtu2@25'' 0x1800400b 0xf800707f MF_match_th_load_inc 0,
      opc ''th.lbib'' 0 INSN_CLASS_XTHEADMEMIDX ''d,(s),Xts5@20,Xtu2@25'' 0x800400b 0xf800707f MF_match_th_load_inc 0,
      opc ''th.lbuia'' 0 INSN_CLASS_XTHEADMEMIDX ''d,(s),Xts5@20,Xtu2@25'' 0x9800400b 0xf800707f MF_match_th_load_inc 0,
      opc ''th.lbuib'' 0 INSN_CLASS_XTHEADMEMIDX ''d,(s),Xts5@20,Xtu2@25'' 0x8800400b 0xf800707f MF_match_th_load_inc 0,
      opc ''th.sdia'' 64 INSN_CLASS_XTHEADMEMIDX ''d,(s),Xts5@20,Xtu2@25'' 0x7800500b 0xf800707f MF_match_opcode 0,
      opc ''th.sdib'' 64 INSN_CLASS_XTHEADMEMIDX ''d,(s),Xts5@20,Xtu2@25'' 0x6800500b 0xf800707f MF_match_opcode 0,
      opc ''th.swia'' 0 INSN_CLASS_XTHEADMEMIDX ''d,(s),Xts5@20,Xtu2@25'' 0x5800500b 0xf800707f MF_match_opcode 0,
      opc ''th.swib'' 0 INSN_CLASS_XTHEADMEMIDX ''d,(s),Xts5@20,Xtu2@25'' 0x4800500b 0xf800707f MF_match_opcode 0,
      opc ''th.shia'' 0 INSN_CLASS_XTHEADMEMIDX ''d,(s),Xts5@20,Xtu2@25'' 0x3800500b 0xf800707f MF_match_opcode 0,
      opc ''th.shib'' 0 INSN_CLASS_XTHEADMEMIDX ''d,(s),Xts5@20,Xtu2@25'' 0x2800500b 0xf800707f MF_match_opcode 0,
      opc ''th.sbia'' 0 INSN_CLASS_XTHEADMEMIDX ''d,(s),Xts5@20,Xtu2@25'' 0x1800500b 0xf800707f MF_match_opcode 0,
      opc ''th.sbib'' 0 INSN_CLASS_XTHEADMEMIDX ''d,(s),Xts5@20,Xtu2@25'' 0x800500b 0xf800707f MF_match_opcode 0,
      opc ''th.lrd'' 64 INSN_CLASS_XTHEADMEMIDX ''d,s,t,Xtu2@25'' 0x6000400b 0xf800707f MF_match_opcode 0,
      opc ''th.lrw'' 0 INSN_CLASS_XTHEADMEMIDX ''d,s,t,Xtu2@25'' 0x4000400b 0xf800707f MF_match_opcode 0,
      opc ''th.lrwu'' 64 INSN_CLASS_XTHEADMEMIDX ''d,s,t,Xtu2@25'' 0xc000400b 0xf800707f MF_match_opcode 0,
      opc ''th.lrh'' 0 INSN_CLASS_XTHEADMEMIDX ''d,s,t,Xtu2@25'' 0x2000400b 0xf800707f MF_match_opcode 0,
      opc ''th.lrhu'' 0 INSN_CLASS_XTHEADMEMIDX ''d,s,t,Xtu2@25'' 0xa000400b 0xf800707f MF_match_opcode 0,
      opc ''th.lrb'' 0 INSN_CLASS_XTHEADMEMIDX ''d,s,t,Xtu2@25'' 0x400b 0xf800707f MF_match_opcode 0,
      opc ''th.lrbu'' 0 INSN_CLASS_XTHEADMEMIDX ''d,s,t,Xtu2@25'' 0x8000400b 0xf800707f MF_match_opcode 0,
      opc ''th.srd'' 64 INSN_CLASS_XTHEADMEMIDX ''d,s,t,Xtu2@25'' 0x6000500b 0xf800707f MF_match_opcode 0,
      opc ''th.srw'' 0 INSN_CLASS_XTHEADMEMIDX ''d,s,t,Xtu2@25'' 0x4000500b 0xf800707f MF_match_opcode 0,
      opc ''th.srh'' 0 INSN_CLASS_XTHEADMEMIDX ''d,s,t,Xtu2@25'' 0x2000500b 0xf800707f MF_match_opcode 0,
      opc ''th.srb'' 0 INSN_CLASS_XTHEADMEMIDX ''d,s,t,Xtu2@25'' 0x500b 0xf800707f MF_match_opcode 0,
      opc ''th.lurd'' 64 INSN_CLASS_XTHEADMEMIDX ''d,s,t,Xtu2@25'' 0x7000400b 0xf800707f MF_match_opcode 0,
      opc ''th.lurw'' 0 INSN_CLASS_XTHEADMEMIDX ''d,s,t,Xtu2@25'' 0x5000400b 0xf800707f MF_match_opcode 0,
      opc ''th.lurwu'' 64 INSN_CLASS_XTHEADMEMIDX ''d,s,t,Xtu2@25'' 0xd000400b 0xf800707f MF_match_opcode 0,
      opc ''th.lurh'' 0 INSN_CLASS_XTHEADMEMIDX ''d,s,t,Xtu2@25'' 0x3000400b 0xf800707f MF_match_opcode 0,
      opc ''th.lurhu'' 0 INSN_CLASS_XTHEADMEMIDX ''d,s,t,Xtu2@25'' 0xb000400b 0xf800707f MF_match_opcode 0,
      opc ''th.lurb'' 0 INSN_CLASS_XTHEADMEMIDX ''d,s,t,Xtu2@25'' 0x1000400b 0xf800707f MF_match_opcode 0,
      opc ''th.lurbu'' 0 INSN_CLASS_XTHEADMEMIDX ''d,s,t,Xtu2@25'' 0x9000400b 0xf800707f MF_match_opcode 0,
      opc ''th.surd'' 64 INSN_CLASS_XTHEADMEMIDX ''d,s,t,Xtu2@25'' 0x7000500b 0xf800707f MF_match_opcode 0,
      opc ''th.surw'' 0 INSN_CLASS_XTHEADMEMIDX ''d,s,t,Xtu2@25'' 0x5000500b 0xf800707f MF_match_opcode 0,
      opc ''th.surh'' 0 INSN_CLASS_XTHEADMEMIDX ''d,s,t,Xtu2@25'' 0x3000500b 0xf800707f MF_match_opcode 0,
      opc ''th.surb'' 0 INSN_CLASS_XTHEADMEMIDX ''d,s,t,Xtu2@25'' 0x1000500b 0xf800707f MF_match_opcode 0,
      opc ''th.ldd'' 64 INSN_CLASS_XTHEADMEMPAIR ''d,t,(s),Xtu2@25,Xtl4'' 0xf800400b 0xf800707f MF_match_th_load_pair 0,
      opc ''th.lwd'' 0 INSN_CLASS_XTHEADMEMPAIR ''d,t,(s),Xtu2@25,Xtl3'' 0xe000400b 0xf800707f MF_match_th_load_pair 0,
      opc ''th.lwud'' 0 INSN_CLASS_XTHEADMEMPAIR ''d,t,(s),Xtu2@25,Xtl3'' 0xf000400b 0xf800707f MF_match_th_load_pair 0,
      opc ''th.sdd'' 64 INSN_CLASS_XTHEADMEMPAIR ''d,t,(s),Xtu2@25,Xtl4'' 0xf800500b 0xf800707f MF_match_opcode 0,
      opc ''th.swd'' 0 INSN_CLASS_XTHEADMEMPAIR ''d,t,(s),Xtu2@25,Xtl3'' 0xe000500b 0xf800707f MF_match_opcode 0,
      opc ''th.mula'' 0 INSN_CLASS_XTHEADMAC ''d,s,t'' 0x2000100b 0xfe00707f MF_match_opcode 0,
      opc ''th.mulah'' 0 INSN_CLASS_XTHEADMAC ''d,s,t'' 0x2800100b 0xfe00707f MF_match_opcode 0,
      opc ''th.mulaw'' 64 INSN_CLASS_XTHEADMAC ''d,s,t'' 0x2400100b 0xfe00707f MF_match_opcode 0,
      opc ''th.muls'' 0 INSN_CLASS_XTHEADMAC ''d,s,t'' 0x2200100b 0xfe00707f MF_match_opcode 0,
      opc ''th.mulsh'' 0 INSN_CLASS_XTHEADMAC ''d,s,t'' 0x2a00100b 0xfe00707f MF_match_opcode 0,
      opc ''th.mulsw'' 64 INSN_CLASS_XTHEADMAC ''d,s,t'' 0x2600100b 0xfe00707f MF_match_opcode 0,
      opc ''th.sfence.vmas'' 0 INSN_CLASS_XTHEADSYNC ''s,t'' 0x400000b 0xfe007fff MF_match_opcode 0,
      opc ''th.sync'' 0 INSN_CLASS_XTHEADSYNC '''' 0x180000b 0xffffffff MF_match_opcode 0,
      opc ''th.sync.i'' 0 INSN_CLASS_XTHEADSYNC '''' 0x1a0000b 0xffffffff MF_match_opcode 0,
      opc ''th.sync.is'' 0 INSN_CLASS_XTHEADSYNC '''' 0x1b0000b 0xffffffff MF_match_opcode 0,
      opc ''th.sync.s'' 0 INSN_CLASS_XTHEADSYNC '''' 0x190000b 0xffffffff MF_match_opcode 0]"

definition riscv_opcodes_15 :: "riscv_opcode list" where
  "riscv_opcodes_15 =
     [opc ''th.vsetvl'' 0 INSN_CLASS_XTHEADVECTOR ''d,s,t'' 0x80007057 0xfe00707f MF_match_opcode 0,
      opc ''th.vsetvli'' 0 INSN_CLASS_XTHEADVECTOR ''d,s,XtVc'' 0x7057 0x8000707f MF_match_opcode 0,
      opc ''th.vlb.v'' 0 INSN_CLASS_XTHEADVECTOR ''Vd,0(s)Vm'' 0x10000007 0xfdf0707f MF_match_opcode 0x8,
      opc ''th.vlh.v'' 0 INSN_CLASS_XTHEADVECTOR ''Vd,0(s)Vm'' 0x10005007 0xfdf0707f MF_match_opcode 0x8,
      opc ''th.vlw.v'' 0 INSN_CLASS_XTHEADVECTOR ''Vd,0(s)Vm'' 0x10006007 0xfdf0707f MF_match_opcode 0x8,
      opc ''th.vlbu.v'' 0 INSN_CLASS_XTHEADVECTOR ''Vd,0(s)Vm'' 0x7 0xfdf0707f MF_match_opcode 0x8,
      opc ''th.vlhu.v'' 0 INSN_CLASS_XTHEADVECTOR ''Vd,0(s)Vm'' 0x5007 0xfdf0707f MF_match_opcode 0x8,
      opc ''th.vlwu.v'' 0 INSN_CLASS_XTHEADVECTOR ''Vd,0(s)Vm'' 0x6007 0xfdf0707f MF_match_opcode 0x8,
      opc ''th.vle.v'' 0 INSN_CLASS_XTHEADVECTOR ''Vd,0(s)Vm'' 0x7007 0xfdf0707f MF_match_opcode 0x8,
      opc ''th.vsb.v'' 0 INSN_CLASS_XTHEADVECTOR ''Vd,0(s)Vm'' 0x27 0xfdf0707f MF_match_opcode 0x8,
      opc ''th.vsh.v'' 0 INSN_CLASS_XTHEADVECTOR ''Vd,0(s)Vm'' 0x5027 0xfdf0707f MF_match_opcode 0x8,
      opc ''th.vsw.v'' 0 INSN_CLASS_XTHEADVECTOR ''Vd,0(s)Vm'' 0x6027 0xfdf0707f MF_match_opcode 0x8,
      opc ''th.vse.v'' 0 INSN_CLASS_XTHEADVECTOR ''Vd,0(s)Vm'' 0x7027 0xfdf0707f MF_match_opcode 0x8,
      opc ''th.vlsb.v'' 0 INSN_CLASS_XTHEADVECTOR ''Vd,0(s),tVm'' 0x18000007 0xfc00707f MF_match_opcode 0x8,
      opc ''th.vlsh.v'' 0 INSN_CLASS_XTHEADVECTOR ''Vd,0(s),tVm'' 0x18005007 0xfc00707f MF_match_opcode 0x8,
      opc ''th.vlsw.v'' 0 INSN_CLASS_XTHEADVECTOR ''Vd,0(s),tVm'' 0x18006007 0xfc00707f MF_match_opcode 0x8,
      opc ''th.vlsbu.v'' 0 INSN_CLASS_XTHEADVECTOR ''Vd,0(s),tVm'' 0x8000007 0xfc00707f MF_match_opcode 0x8,
      opc ''th.vlshu.v'' 0 INSN_CLASS_XTHEADVECTOR ''Vd,0(s),tVm'' 0x8005007 0xfc00707f MF_match_opcode 0x8,
      opc ''th.vlswu.v'' 0 INSN_CLASS_XTHEADVECTOR ''Vd,0(s),tVm'' 0x8006007 0xfc00707f MF_match_opcode 0x8,
      opc ''th.vlse.v'' 0 INSN_CLASS_XTHEADVECTOR ''Vd,0(s),tVm'' 0x8007007 0xfc00707f MF_match_opcode 0x8,
      opc ''th.vssb.v'' 0 INSN_CLASS_XTHEADVECTOR ''Vd,0(s),tVm'' 0x8000027 0xfc00707f MF_match_opcode 0x8,
      opc ''th.vssh.v'' 0 INSN_CLASS_XTHEADVECTOR ''Vd,0(s),tVm'' 0x8005027 0xfc00707f MF_match_opcode 0x8,
      opc ''th.vssw.v'' 0 INSN_CLASS_XTHEADVECTOR ''Vd,0(s),tVm'' 0x8006027 0xfc00707f MF_match_opcode 0x8,
      opc ''th.vsse.v'' 0 INSN_CLASS_XTHEADVECTOR ''Vd,0(s),tVm'' 0x8007027 0xfc00707f MF_match_opcode 0x8,
      opc ''th.vlxb.v'' 0 INSN_CLASS_XTHEADVECTOR ''Vd,0(s),VtVm'' 0x1c000007 0xfc00707f MF_match_opcode 0x8,
      opc ''th.vlxh.v'' 0 INSN_CLASS_XTHEADVECTOR ''Vd,0(s),VtVm'' 0x1c005007 0xfc00707f MF_match_opcode 0x8,
      opc ''th.vlxw.v'' 0 INSN_CLASS_XTHEADVECTOR ''Vd,0(s),VtVm'' 0x1c006007 0xfc00707f MF_match_opcode 0x8,
      opc ''th.vlxbu.v'' 0 INSN_CLASS_XTHEADVECTOR ''Vd,0(s),VtVm'' 0xc000007 0xfc00707f MF_match_opcode 0x8,
      opc ''th.vlxhu.v'' 0 INSN_CLASS_XTHEADVECTOR ''Vd,0(s),VtVm'' 0xc005007 0xfc00707f MF_match_opcode 0x8,
      opc ''th.vlxwu.v'' 0 INSN_CLASS_XTHEADVECTOR ''Vd,0(s),VtVm'' 0xc006007 0xfc00707f MF_match_opcode 0x8,
      opc ''th.vlxe.v'' 0 INSN_CLASS_XTHEADVECTOR ''Vd,0(s),VtVm'' 0xc007007 0xfc00707f MF_match_opcode 0x8,
      opc ''th.vsxb.v'' 0 INSN_CLASS_XTHEADVECTOR ''Vd,0(s),VtVm'' 0xc000027 0xfc00707f MF_match_opcode 0x8,
      opc ''th.vsxh.v'' 0 INSN_CLASS_XTHEADVECTOR ''Vd,0(s),VtVm'' 0xc005027 0xfc00707f MF_match_opcode 0x8,
      opc ''th.vsxw.v'' 0 INSN_CLASS_XTHEADVECTOR ''Vd,0(s),VtVm'' 0xc006027 0xfc00707f MF_match_opcode 0x8,
      opc ''th.vsxe.v'' 0 INSN_CLASS_XTHEADVECTOR ''Vd,0(s),VtVm'' 0xc007027 0xfc00707f MF_match_opcode 0x8,
      opc ''th.vsuxb.v'' 0 INSN_CLASS_XTHEADVECTOR ''Vd,0(s),VtVm'' 0x1c000027 0xfc00707f MF_match_opcode 0x8,
      opc ''th.vsuxh.v'' 0 INSN_CLASS_XTHEADVECTOR ''Vd,0(s),VtVm'' 0x1c005027 0xfc00707f MF_match_opcode 0x8,
      opc ''th.vsuxw.v'' 0 INSN_CLASS_XTHEADVECTOR ''Vd,0(s),VtVm'' 0x1c006027 0xfc00707f MF_match_opcode 0x8,
      opc ''th.vsuxe.v'' 0 INSN_CLASS_XTHEADVECTOR ''Vd,0(s),VtVm'' 0x1c007027 0xfc00707f MF_match_opcode 0x8,
      opc ''th.vlbff.v'' 0 INSN_CLASS_XTHEADVECTOR ''Vd,0(s)Vm'' 0x11000007 0xfdf0707f MF_match_opcode 0x8,
      opc ''th.vlhff.v'' 0 INSN_CLASS_XTHEADVECTOR ''Vd,0(s)Vm'' 0x11005007 0xfdf0707f MF_match_opcode 0x8,
      opc ''th.vlwff.v'' 0 INSN_CLASS_XTHEADVECTOR ''Vd,0(s)Vm'' 0x11006007 0xfdf0707f MF_match_opcode 0x8,
      opc ''th.vlbuff.v'' 0 INSN_CLASS_XTHEADVECTOR ''Vd,0(s)Vm'' 0x1000007 0xfdf0707f MF_match_opcode 0x8,
      opc ''th.vlhuff.v'' 0 INSN_CLASS_XTHEADVECTOR ''Vd,0(s)Vm'' 0x1005007 0xfdf0707f MF_match_opcode 0x8,
      opc ''th.vlwuff.v'' 0 INSN_CLASS_XTHEADVECTOR ''Vd,0(s)Vm'' 0x1006007 0xfdf0707f MF_match_opcode 0x8,
      opc ''th.vleff.v'' 0 INSN_CLASS_XTHEADVECTOR ''Vd,0(s)Vm'' 0x1007007 0xfdf0707f MF_match_opcode 0x8,
      opc ''th.vlseg2b.v'' 0 INSN_CLASS_XTHEADVECTOR ''Vd,0(s)Vm'' 0x30000007 0xfdf0707f MF_match_opcode 0x8,
      opc ''th.vlseg2h.v'' 0 INSN_CLASS_XTHEADVECTOR ''Vd,0(s)Vm'' 0x30005007 0xfdf0707f MF_match_opcode 0x8,
      opc ''th.vlseg2w.v'' 0 INSN_CLASS_XTHEADVECTOR ''Vd,0(s)Vm'' 0x30006007 0xfdf0707f MF_match_opcode 0x8,
      opc ''th.vlseg2bu.v'' 0 INSN_CLASS_XTHEADVECTOR ''Vd,0(s)Vm'' 0x20000007 0xfdf0707f MF_match_opcode 0x8,
      opc ''th.vlseg2hu.v'' 0 INSN_CLASS_XTHEADVECTOR ''Vd,0(s)Vm'' 0x20005007 0xfdf0707f MF_match_opcode 0x8,
      opc ''th.vlseg2wu.v'' 0 INSN_CLASS_XTHEADVECTOR ''Vd,0(s)Vm'' 0x20006007 0xfdf0707f MF_match_opcode 0x8,
      opc ''th.vlseg2e.v'' 0 INSN_CLASS_XTHEADVECTOR ''Vd,0(s)Vm'' 0x20007007 0xfdf0707f MF_match_opcode 0x8,
      opc ''th.vsseg2b.v'' 0 INSN_CLASS_XTHEADVECTOR ''Vd,0(s)Vm'' 0x20000027 0xfdf0707f MF_match_opcode 0x8,
      opc ''th.vsseg2h.v'' 0 INSN_CLASS_XTHEADVECTOR ''Vd,0(s)Vm'' 0x20005027 0xfdf0707f MF_match_opcode 0x8,
      opc ''th.vsseg2w.v'' 0 INSN_CLASS_XTHEADVECTOR ''Vd,0(s)Vm'' 0x20006027 0xfdf0707f MF_match_opcode 0x8,
      opc ''th.vsseg2e.v'' 0 INSN_CLASS_XTHEADVECTOR ''Vd,0(s)Vm'' 0x20007027 0xfdf0707f MF_match_opcode 0x8,
      opc ''th.vlseg3b.v'' 0 INSN_CLASS_XTHEADVECTOR ''Vd,0(s)Vm'' 0x50000007 0xfdf0707f MF_match_opcode 0x8,
      opc ''th.vlseg3h.v'' 0 INSN_CLASS_XTHEADVECTOR ''Vd,0(s)Vm'' 0x50005007 0xfdf0707f MF_match_opcode 0x8,
      opc ''th.vlseg3w.v'' 0 INSN_CLASS_XTHEADVECTOR ''Vd,0(s)Vm'' 0x50006007 0xfdf0707f MF_match_opcode 0x8,
      opc ''th.vlseg3bu.v'' 0 INSN_CLASS_XTHEADVECTOR ''Vd,0(s)Vm'' 0x40000007 0xfdf0707f MF_match_opcode 0x8,
      opc ''th.vlseg3hu.v'' 0 INSN_CLASS_XTHEADVECTOR ''Vd,0(s)Vm'' 0x40005007 0xfdf0707f MF_match_opcode 0x8,
      opc ''th.vlseg3wu.v'' 0 INSN_CLASS_XTHEADVECTOR ''Vd,0(s)Vm'' 0x40006007 0xfdf0707f MF_match_opcode 0x8,
      opc ''th.vlseg3e.v'' 0 INSN_CLASS_XTHEADVECTOR ''Vd,0(s)Vm'' 0x40007007 0xfdf0707f MF_match_opcode 0x8,
      opc ''th.vsseg3b.v'' 0 INSN_CLASS_XTHEADVECTOR ''Vd,0(s)Vm'' 0x40000027 0xfdf0707f MF_match_opcode 0x8,
      opc ''th.vsseg3h.v'' 0 INSN_CLASS_XTHEADVECTOR ''Vd,0(s)Vm'' 0x40005027 0xfdf0707f MF_match_opcode 0x8,
      opc ''th.vsseg3w.v'' 0 INSN_CLASS_XTHEADVECTOR ''Vd,0(s)Vm'' 0x40006027 0xfdf0707f MF_match_opcode 0x8,
      opc ''th.vsseg3e.v'' 0 INSN_CLASS_XTHEADVECTOR ''Vd,0(s)Vm'' 0x40007027 0xfdf0707f MF_match_opcode 0x8,
      opc ''th.vlseg4b.v'' 0 INSN_CLASS_XTHEADVECTOR ''Vd,0(s)Vm'' 0x70000007 0xfdf0707f MF_match_opcode 0x8,
      opc ''th.vlseg4h.v'' 0 INSN_CLASS_XTHEADVECTOR ''Vd,0(s)Vm'' 0x70005007 0xfdf0707f MF_match_opcode 0x8,
      opc ''th.vlseg4w.v'' 0 INSN_CLASS_XTHEADVECTOR ''Vd,0(s)Vm'' 0x70006007 0xfdf0707f MF_match_opcode 0x8,
      opc ''th.vlseg4bu.v'' 0 INSN_CLASS_XTHEADVECTOR ''Vd,0(s)Vm'' 0x60000007 0xfdf0707f MF_match_opcode 0x8,
      opc ''th.vlseg4hu.v'' 0 INSN_CLASS_XTHEADVECTOR ''Vd,0(s)Vm'' 0x60005007 0xfdf0707f MF_match_opcode 0x8,
      opc ''th.vlseg4wu.v'' 0 INSN_CLASS_XTHEADVECTOR ''Vd,0(s)Vm'' 0x60006007 0xfdf0707f MF_match_opcode 0x8,
      opc ''th.vlseg4e.v'' 0 INSN_CLASS_XTHEADVECTOR ''Vd,0(s)Vm'' 0x60007007 0xfdf0707f MF_match_opcode 0x8,
      opc ''th.vsseg4b.v'' 0 INSN_CLASS_XTHEADVECTOR ''Vd,0(s)Vm'' 0x60000027 0xfdf0707f MF_match_opcode 0x8,
      opc ''th.vsseg4h.v'' 0 INSN_CLASS_XTHEADVECTOR ''Vd,0(s)Vm'' 0x60005027 0xfdf0707f MF_match_opcode 0x8,
      opc ''th.vsseg4w.v'' 0 INSN_CLASS_XTHEADVECTOR ''Vd,0(s)Vm'' 0x60006027 0xfdf0707f MF_match_opcode 0x8,
      opc ''th.vsseg4e.v'' 0 INSN_CLASS_XTHEADVECTOR ''Vd,0(s)Vm'' 0x60007027 0xfdf0707f MF_match_opcode 0x8,
      opc ''th.vlseg5b.v'' 0 INSN_CLASS_XTHEADVECTOR ''Vd,0(s)Vm'' 0x90000007 0xfdf0707f MF_match_opcode 0x8,
      opc ''th.vlseg5h.v'' 0 INSN_CLASS_XTHEADVECTOR ''Vd,0(s)Vm'' 0x90005007 0xfdf0707f MF_match_opcode 0x8,
      opc ''th.vlseg5w.v'' 0 INSN_CLASS_XTHEADVECTOR ''Vd,0(s)Vm'' 0x90006007 0xfdf0707f MF_match_opcode 0x8,
      opc ''th.vlseg5bu.v'' 0 INSN_CLASS_XTHEADVECTOR ''Vd,0(s)Vm'' 0x80000007 0xfdf0707f MF_match_opcode 0x8,
      opc ''th.vlseg5hu.v'' 0 INSN_CLASS_XTHEADVECTOR ''Vd,0(s)Vm'' 0x80005007 0xfdf0707f MF_match_opcode 0x8,
      opc ''th.vlseg5wu.v'' 0 INSN_CLASS_XTHEADVECTOR ''Vd,0(s)Vm'' 0x80006007 0xfdf0707f MF_match_opcode 0x8,
      opc ''th.vlseg5e.v'' 0 INSN_CLASS_XTHEADVECTOR ''Vd,0(s)Vm'' 0x80007007 0xfdf0707f MF_match_opcode 0x8,
      opc ''th.vsseg5b.v'' 0 INSN_CLASS_XTHEADVECTOR ''Vd,0(s)Vm'' 0x80000027 0xfdf0707f MF_match_opcode 0x8,
      opc ''th.vsseg5h.v'' 0 INSN_CLASS_XTHEADVECTOR ''Vd,0(s)Vm'' 0x80005027 0xfdf0707f MF_match_opcode 0x8,
      opc ''th.vsseg5w.v'' 0 INSN_CLASS_XTHEADVECTOR ''Vd,0(s)Vm'' 0x80006027 0xfdf0707f MF_match_opcode 0x8,
      opc ''th.vsseg5e.v'' 0 INSN_CLASS_XTHEADVECTOR ''Vd,0(s)Vm'' 0x80007027 0xfdf0707f MF_match_opcode 0x8,
      opc ''th.vlseg6b.v'' 0 INSN_CLASS_XTHEADVECTOR ''Vd,0(s)Vm'' 0xb0000007 0xfdf0707f MF_match_opcode 0x8,
      opc ''th.vlseg6h.v'' 0 INSN_CLASS_XTHEADVECTOR ''Vd,0(s)Vm'' 0xb0005007 0xfdf0707f MF_match_opcode 0x8,
      opc ''th.vlseg6w.v'' 0 INSN_CLASS_XTHEADVECTOR ''Vd,0(s)Vm'' 0xb0006007 0xfdf0707f MF_match_opcode 0x8,
      opc ''th.vlseg6bu.v'' 0 INSN_CLASS_XTHEADVECTOR ''Vd,0(s)Vm'' 0xa0000007 0xfdf0707f MF_match_opcode 0x8,
      opc ''th.vlseg6hu.v'' 0 INSN_CLASS_XTHEADVECTOR ''Vd,0(s)Vm'' 0xa0005007 0xfdf0707f MF_match_opcode 0x8,
      opc ''th.vlseg6wu.v'' 0 INSN_CLASS_XTHEADVECTOR ''Vd,0(s)Vm'' 0xa0006007 0xfdf0707f MF_match_opcode 0x8,
      opc ''th.vlseg6e.v'' 0 INSN_CLASS_XTHEADVECTOR ''Vd,0(s)Vm'' 0xa0007007 0xfdf0707f MF_match_opcode 0x8,
      opc ''th.vsseg6b.v'' 0 INSN_CLASS_XTHEADVECTOR ''Vd,0(s)Vm'' 0xa0000027 0xfdf0707f MF_match_opcode 0x8,
      opc ''th.vsseg6h.v'' 0 INSN_CLASS_XTHEADVECTOR ''Vd,0(s)Vm'' 0xa0005027 0xfdf0707f MF_match_opcode 0x8,
      opc ''th.vsseg6w.v'' 0 INSN_CLASS_XTHEADVECTOR ''Vd,0(s)Vm'' 0xa0006027 0xfdf0707f MF_match_opcode 0x8,
      opc ''th.vsseg6e.v'' 0 INSN_CLASS_XTHEADVECTOR ''Vd,0(s)Vm'' 0xa0007027 0xfdf0707f MF_match_opcode 0x8,
      opc ''th.vlseg7b.v'' 0 INSN_CLASS_XTHEADVECTOR ''Vd,0(s)Vm'' 0xd0000007 0xfdf0707f MF_match_opcode 0x8,
      opc ''th.vlseg7h.v'' 0 INSN_CLASS_XTHEADVECTOR ''Vd,0(s)Vm'' 0xd0005007 0xfdf0707f MF_match_opcode 0x8,
      opc ''th.vlseg7w.v'' 0 INSN_CLASS_XTHEADVECTOR ''Vd,0(s)Vm'' 0xd0006007 0xfdf0707f MF_match_opcode 0x8,
      opc ''th.vlseg7bu.v'' 0 INSN_CLASS_XTHEADVECTOR ''Vd,0(s)Vm'' 0xc0000007 0xfdf0707f MF_match_opcode 0x8,
      opc ''th.vlseg7hu.v'' 0 INSN_CLASS_XTHEADVECTOR ''Vd,0(s)Vm'' 0xc0005007 0xfdf0707f MF_match_opcode 0x8,
      opc ''th.vlseg7wu.v'' 0 INSN_CLASS_XTHEADVECTOR ''Vd,0(s)Vm'' 0xc0006007 0xfdf0707f MF_match_opcode 0x8,
      opc ''th.vlseg7e.v'' 0 INSN_CLASS_XTHEADVECTOR ''Vd,0(s)Vm'' 0xc0007007 0xfdf0707f MF_match_opcode 0x8,
      opc ''th.vsseg7b.v'' 0 INSN_CLASS_XTHEADVECTOR ''Vd,0(s)Vm'' 0xc0000027 0xfdf0707f MF_match_opcode 0x8,
      opc ''th.vsseg7h.v'' 0 INSN_CLASS_XTHEADVECTOR ''Vd,0(s)Vm'' 0xc0005027 0xfdf0707f MF_match_opcode 0x8,
      opc ''th.vsseg7w.v'' 0 INSN_CLASS_XTHEADVECTOR ''Vd,0(s)Vm'' 0xc0006027 0xfdf0707f MF_match_opcode 0x8,
      opc ''th.vsseg7e.v'' 0 INSN_CLASS_XTHEADVECTOR ''Vd,0(s)Vm'' 0xc0007027 0xfdf0707f MF_match_opcode 0x8,
      opc ''th.vlseg8b.v'' 0 INSN_CLASS_XTHEADVECTOR ''Vd,0(s)Vm'' 0xf0000007 0xfdf0707f MF_match_opcode 0x8,
      opc ''th.vlseg8h.v'' 0 INSN_CLASS_XTHEADVECTOR ''Vd,0(s)Vm'' 0xf0005007 0xfdf0707f MF_match_opcode 0x8,
      opc ''th.vlseg8w.v'' 0 INSN_CLASS_XTHEADVECTOR ''Vd,0(s)Vm'' 0xf0006007 0xfdf0707f MF_match_opcode 0x8,
      opc ''th.vlseg8bu.v'' 0 INSN_CLASS_XTHEADVECTOR ''Vd,0(s)Vm'' 0xe0000007 0xfdf0707f MF_match_opcode 0x8,
      opc ''th.vlseg8hu.v'' 0 INSN_CLASS_XTHEADVECTOR ''Vd,0(s)Vm'' 0xe0005007 0xfdf0707f MF_match_opcode 0x8,
      opc ''th.vlseg8wu.v'' 0 INSN_CLASS_XTHEADVECTOR ''Vd,0(s)Vm'' 0xe0006007 0xfdf0707f MF_match_opcode 0x8,
      opc ''th.vlseg8e.v'' 0 INSN_CLASS_XTHEADVECTOR ''Vd,0(s)Vm'' 0xe0007007 0xfdf0707f MF_match_opcode 0x8,
      opc ''th.vsseg8b.v'' 0 INSN_CLASS_XTHEADVECTOR ''Vd,0(s)Vm'' 0xe0000027 0xfdf0707f MF_match_opcode 0x8,
      opc ''th.vsseg8h.v'' 0 INSN_CLASS_XTHEADVECTOR ''Vd,0(s)Vm'' 0xe0005027 0xfdf0707f MF_match_opcode 0x8,
      opc ''th.vsseg8w.v'' 0 INSN_CLASS_XTHEADVECTOR ''Vd,0(s)Vm'' 0xe0006027 0xfdf0707f MF_match_opcode 0x8,
      opc ''th.vsseg8e.v'' 0 INSN_CLASS_XTHEADVECTOR ''Vd,0(s)Vm'' 0xe0007027 0xfdf0707f MF_match_opcode 0x8,
      opc ''th.vlsseg2b.v'' 0 INSN_CLASS_XTHEADVECTOR ''Vd,0(s),tVm'' 0x38000007 0xfc00707f MF_match_opcode 0x8,
      opc ''th.vlsseg2h.v'' 0 INSN_CLASS_XTHEADVECTOR ''Vd,0(s),tVm'' 0x38005007 0xfc00707f MF_match_opcode 0x8,
      opc ''th.vlsseg2w.v'' 0 INSN_CLASS_XTHEADVECTOR ''Vd,0(s),tVm'' 0x38006007 0xfc00707f MF_match_opcode 0x8,
      opc ''th.vlsseg2bu.v'' 0 INSN_CLASS_XTHEADVECTOR ''Vd,0(s),tVm'' 0x28000007 0xfc00707f MF_match_opcode 0x8,
      opc ''th.vlsseg2hu.v'' 0 INSN_CLASS_XTHEADVECTOR ''Vd,0(s),tVm'' 0x28005007 0xfc00707f MF_match_opcode 0x8,
      opc ''th.vlsseg2wu.v'' 0 INSN_CLASS_XTHEADVECTOR ''Vd,0(s),tVm'' 0x28006007 0xfc00707f MF_match_opcode 0x8,
      opc ''th.vlsseg2e.v'' 0 INSN_CLASS_XTHEADVECTOR ''Vd,0(s),tVm'' 0x28007007 0xfc00707f MF_match_opcode 0x8,
      opc ''th.vssseg2b.v'' 0 INSN_CLASS_XTHEADVECTOR ''Vd,0(s),tVm'' 0x28000027 0xfc00707f MF_match_opcode 0x8,
      opc ''th.vssseg2h.v'' 0 INSN_CLASS_XTHEADVECTOR ''Vd,0(s),tVm'' 0x28005027 0xfc00707f MF_match_opcode 0x8,
      opc ''th.vssseg2w.v'' 0 INSN_CLASS_XTHEADVECTOR ''Vd,0(s),tVm'' 0x28006027 0xfc00707f MF_match_opcode 0x8,
      opc ''th.vssseg2e.v'' 0 INSN_CLASS_XTHEADVECTOR ''Vd,0(s),tVm'' 0x28007027 0xfc00707f MF_match_opcode 0x8,
      opc ''th.vlsseg3b.v'' 0 INSN_CLASS_XTHEADVECTOR ''Vd,0(s),tVm'' 0x58000007 0xfc00707f MF_match_opcode 0x8,
      opc ''th.vlsseg3h.v'' 0 INSN_CLASS_XTHEADVECTOR ''Vd,0(s),tVm'' 0x58005007 0xfc00707f MF_match_opcode 0x8,
      opc ''th.vlsseg3w.v'' 0 INSN_CLASS_XTHEADVECTOR ''Vd,0(s),tVm'' 0x58006007 0xfc00707f MF_match_opcode 0x8,
      opc ''th.vlsseg3bu.v'' 0 INSN_CLASS_XTHEADVECTOR ''Vd,0(s),tVm'' 0x48000007 0xfc00707f MF_match_opcode 0x8,
      opc ''th.vlsseg3hu.v'' 0 INSN_CLASS_XTHEADVECTOR ''Vd,0(s),tVm'' 0x48005007 0xfc00707f MF_match_opcode 0x8,
      opc ''th.vlsseg3wu.v'' 0 INSN_CLASS_XTHEADVECTOR ''Vd,0(s),tVm'' 0x48006007 0xfc00707f MF_match_opcode 0x8,
      opc ''th.vlsseg3e.v'' 0 INSN_CLASS_XTHEADVECTOR ''Vd,0(s),tVm'' 0x48007007 0xfc00707f MF_match_opcode 0x8,
      opc ''th.vssseg3b.v'' 0 INSN_CLASS_XTHEADVECTOR ''Vd,0(s),tVm'' 0x48000027 0xfc00707f MF_match_opcode 0x8,
      opc ''th.vssseg3h.v'' 0 INSN_CLASS_XTHEADVECTOR ''Vd,0(s),tVm'' 0x48005027 0xfc00707f MF_match_opcode 0x8,
      opc ''th.vssseg3w.v'' 0 INSN_CLASS_XTHEADVECTOR ''Vd,0(s),tVm'' 0x48006027 0xfc00707f MF_match_opcode 0x8,
      opc ''th.vssseg3e.v'' 0 INSN_CLASS_XTHEADVECTOR ''Vd,0(s),tVm'' 0x48007027 0xfc00707f MF_match_opcode 0x8,
      opc ''th.vlsseg4b.v'' 0 INSN_CLASS_XTHEADVECTOR ''Vd,0(s),tVm'' 0x78000007 0xfc00707f MF_match_opcode 0x8,
      opc ''th.vlsseg4h.v'' 0 INSN_CLASS_XTHEADVECTOR ''Vd,0(s),tVm'' 0x78005007 0xfc00707f MF_match_opcode 0x8]"

definition riscv_opcodes_16 :: "riscv_opcode list" where
  "riscv_opcodes_16 =
     [opc ''th.vlsseg4w.v'' 0 INSN_CLASS_XTHEADVECTOR ''Vd,0(s),tVm'' 0x78006007 0xfc00707f MF_match_opcode 0x8,
      opc ''th.vlsseg4bu.v'' 0 INSN_CLASS_XTHEADVECTOR ''Vd,0(s),tVm'' 0x68000007 0xfc00707f MF_match_opcode 0x8,
      opc ''th.vlsseg4hu.v'' 0 INSN_CLASS_XTHEADVECTOR ''Vd,0(s),tVm'' 0x68005007 0xfc00707f MF_match_opcode 0x8,
      opc ''th.vlsseg4wu.v'' 0 INSN_CLASS_XTHEADVECTOR ''Vd,0(s),tVm'' 0x68006007 0xfc00707f MF_match_opcode 0x8,
      opc ''th.vlsseg4e.v'' 0 INSN_CLASS_XTHEADVECTOR ''Vd,0(s),tVm'' 0x68007007 0xfc00707f MF_match_opcode 0x8,
      opc ''th.vssseg4b.v'' 0 INSN_CLASS_XTHEADVECTOR ''Vd,0(s),tVm'' 0x68000027 0xfc00707f MF_match_opcode 0x8,
      opc ''th.vssseg4h.v'' 0 INSN_CLASS_XTHEADVECTOR ''Vd,0(s),tVm'' 0x68005027 0xfc00707f MF_match_opcode 0x8,
      opc ''th.vssseg4w.v'' 0 INSN_CLASS_XTHEADVECTOR ''Vd,0(s),tVm'' 0x68006027 0xfc00707f MF_match_opcode 0x8,
      opc ''th.vssseg4e.v'' 0 INSN_CLASS_XTHEADVECTOR ''Vd,0(s),tVm'' 0x68007027 0xfc00707f MF_match_opcode 0x8,
      opc ''th.vlsseg5b.v'' 0 INSN_CLASS_XTHEADVECTOR ''Vd,0(s),tVm'' 0x98000007 0xfc00707f MF_match_opcode 0x8,
      opc ''th.vlsseg5h.v'' 0 INSN_CLASS_XTHEADVECTOR ''Vd,0(s),tVm'' 0x98005007 0xfc00707f MF_match_opcode 0x8,
      opc ''th.vlsseg5w.v'' 0 INSN_CLASS_XTHEADVECTOR ''Vd,0(s),tVm'' 0x98006007 0xfc00707f MF_match_opcode 0x8,
      opc ''th.vlsseg5bu.v'' 0 INSN_CLASS_XTHEADVECTOR ''Vd,0(s),tVm'' 0x88000007 0xfc00707f MF_match_opcode 0x8,
      opc ''th.vlsseg5hu.v'' 0 INSN_CLASS_XTHEADVECTOR ''Vd,0(s),tVm'' 0x88005007 0xfc00707f MF_match_opcode 0x8,
      opc ''th.vlsseg5wu.v'' 0 INSN_CLASS_XTHEADVECTOR ''Vd,0(s),tVm'' 0x88006007 0xfc00707f MF_match_opcode 0x8,
      opc ''th.vlsseg5e.v'' 0 INSN_CLASS_XTHEADVECTOR ''Vd,0(s),tVm'' 0x88007007 0xfc00707f MF_match_opcode 0x8,
      opc ''th.vssseg5b.v'' 0 INSN_CLASS_XTHEADVECTOR ''Vd,0(s),tVm'' 0x88000027 0xfc00707f MF_match_opcode 0x8,
      opc ''th.vssseg5h.v'' 0 INSN_CLASS_XTHEADVECTOR ''Vd,0(s),tVm'' 0x88005027 0xfc00707f MF_match_opcode 0x8,
      opc ''th.vssseg5w.v'' 0 INSN_CLASS_XTHEADVECTOR ''Vd,0(s),tVm'' 0x88006027 0xfc00707f MF_match_opcode 0x8,
      opc ''th.vssseg5e.v'' 0 INSN_CLASS_XTHEADVECTOR ''Vd,0(s),tVm'' 0x88007027 0xfc00707f MF_match_opcode 0x8,
      opc ''th.vlsseg6b.v'' 0 INSN_CLASS_XTHEADVECTOR ''Vd,0(s),tVm'' 0xb8000007 0xfc00707f MF_match_opcode 0x8,
      opc ''th.vlsseg6h.v'' 0 INSN_CLASS_XTHEADVECTOR ''Vd,0(s),tVm'' 0xb8005007 0xfc00707f MF_match_opcode 0x8,
      opc ''th.vlsseg6w.v'' 0 INSN_CLASS_XTHEADVECTOR ''Vd,0(s),tVm'' 0xb8006007 0xfc00707f MF_match_opcode 0x8,
      opc ''th.vlsseg6bu.v'' 0 INSN_CLASS_XTHEADVECTOR ''Vd,0(s),tVm'' 0xa8000007 0xfc00707f MF_match_opcode 0x8,
      opc ''th.vlsseg6hu.v'' 0 INSN_CLASS_XTHEADVECTOR ''Vd,0(s),tVm'' 0xa8005007 0xfc00707f MF_match_opcode 0x8,
      opc ''th.vlsseg6wu.v'' 0 INSN_CLASS_XTHEADVECTOR ''Vd,0(s),tVm'' 0xa8006007 0xfc00707f MF_match_opcode 0x8,
      opc ''th.vlsseg6e.v'' 0 INSN_CLASS_XTHEADVECTOR ''Vd,0(s),tVm'' 0xa8007007 0xfc00707f MF_match_opcode 0x8,
      opc ''th.vssseg6b.v'' 0 INSN_CLASS_XTHEADVECTOR ''Vd,0(s),tVm'' 0xa8000027 0xfc00707f MF_match_opcode 0x8,
      opc ''th.vssseg6h.v'' 0 INSN_CLASS_XTHEADVECTOR ''Vd,0(s),tVm'' 0xa8005027 0xfc00707f MF_match_opcode 0x8,
      opc ''th.vssseg6w.v'' 0 INSN_CLASS_XTHEADVECTOR ''Vd,0(s),tVm'' 0xa8006027 0xfc00707f MF_match_opcode 0x8,
      opc ''th.vssseg6e.v'' 0 INSN_CLASS_XTHEADVECTOR ''Vd,0(s),tVm'' 0xa8007027 0xfc00707f MF_match_opcode 0x8,
      opc ''th.vlsseg7b.v'' 0 INSN_CLASS_XTHEADVECTOR ''Vd,0(s),tVm'' 0xd8000007 0xfc00707f MF_match_opcode 0x8,
      opc ''th.vlsseg7h.v'' 0 INSN_CLASS_XTHEADVECTOR ''Vd,0(s),tVm'' 0xd8005007 0xfc00707f MF_match_opcode 0x8,
      opc ''th.vlsseg7w.v'' 0 INSN_CLASS_XTHEADVECTOR ''Vd,0(s),tVm'' 0xd8006007 0xfc00707f MF_match_opcode 0x8,
      opc ''th.vlsseg7bu.v'' 0 INSN_CLASS_XTHEADVECTOR ''Vd,0(s),tVm'' 0xc8000007 0xfc00707f MF_match_opcode 0x8,
      opc ''th.vlsseg7hu.v'' 0 INSN_CLASS_XTHEADVECTOR ''Vd,0(s),tVm'' 0xc8005007 0xfc00707f MF_match_opcode 0x8,
      opc ''th.vlsseg7wu.v'' 0 INSN_CLASS_XTHEADVECTOR ''Vd,0(s),tVm'' 0xc8006007 0xfc00707f MF_match_opcode 0x8,
      opc ''th.vlsseg7e.v'' 0 INSN_CLASS_XTHEADVECTOR ''Vd,0(s),tVm'' 0xc8007007 0xfc00707f MF_match_opcode 0x8,
      opc ''th.vssseg7b.v'' 0 INSN_CLASS_XTHEADVECTOR ''Vd,0(s),tVm'' 0xc8000027 0xfc00707f MF_match_opcode 0x8,
      opc ''th.vssseg7h.v'' 0 INSN_CLASS_XTHEADVECTOR ''Vd,0(s),tVm'' 0xc8005027 0xfc00707f MF_match_opcode 0x8,
      opc ''th.vssseg7w.v'' 0 INSN_CLASS_XTHEADVECTOR ''Vd,0(s),tVm'' 0xc8006027 0xfc00707f MF_match_opcode 0x8,
      opc ''th.vssseg7e.v'' 0 INSN_CLASS_XTHEADVECTOR ''Vd,0(s),tVm'' 0xc8007027 0xfc00707f MF_match_opcode 0x8,
      opc ''th.vlsseg8b.v'' 0 INSN_CLASS_XTHEADVECTOR ''Vd,0(s),tVm'' 0xf8000007 0xfc00707f MF_match_opcode 0x8,
      opc ''th.vlsseg8h.v'' 0 INSN_CLASS_XTHEADVECTOR ''Vd,0(s),tVm'' 0xf8005007 0xfc00707f MF_match_opcode 0x8,
      opc ''th.vlsseg8w.v'' 0 INSN_CLASS_XTHEADVECTOR ''Vd,0(s),tVm'' 0xf8006007 0xfc00707f MF_match_opcode 0x8,
      opc ''th.vlsseg8bu.v'' 0 INSN_CLASS_XTHEADVECTOR ''Vd,0(s),tVm'' 0xe8000007 0xfc00707f MF_match_opcode 0x8,
      opc ''th.vlsseg8hu.v'' 0 INSN_CLASS_XTHEADVECTOR ''Vd,0(s),tVm'' 0xe8005007 0xfc00707f MF_match_opcode 0x8,
      opc ''th.vlsseg8wu.v'' 0 INSN_CLASS_XTHEADVECTOR ''Vd,0(s),tVm'' 0xe8006007 0xfc00707f MF_match_opcode 0x8,
      opc ''th.vlsseg8e.v'' 0 INSN_CLASS_XTHEADVECTOR ''Vd,0(s),tVm'' 0xe8007007 0xfc00707f MF_match_opcode 0x8,
      opc ''th.vssseg8b.v'' 0 INSN_CLASS_XTHEADVECTOR ''Vd,0(s),tVm'' 0xe8000027 0xfc00707f MF_match_opcode 0x8,
      opc ''th.vssseg8h.v'' 0 INSN_CLASS_XTHEADVECTOR ''Vd,0(s),tVm'' 0xe8005027 0xfc00707f MF_match_opcode 0x8,
      opc ''th.vssseg8w.v'' 0 INSN_CLASS_XTHEADVECTOR ''Vd,0(s),tVm'' 0xe8006027 0xfc00707f MF_match_opcode 0x8,
      opc ''th.vssseg8e.v'' 0 INSN_CLASS_XTHEADVECTOR ''Vd,0(s),tVm'' 0xe8007027 0xfc00707f MF_match_opcode 0x8,
      opc ''th.vlxseg2b.v'' 0 INSN_CLASS_XTHEADVECTOR ''Vd,0(s),VtVm'' 0x3c000007 0xfc00707f MF_match_opcode 0x8,
      opc ''th.vlxseg2h.v'' 0 INSN_CLASS_XTHEADVECTOR ''Vd,0(s),VtVm'' 0x3c005007 0xfc00707f MF_match_opcode 0x8,
      opc ''th.vlxseg2w.v'' 0 INSN_CLASS_XTHEADVECTOR ''Vd,0(s),VtVm'' 0x3c006007 0xfc00707f MF_match_opcode 0x8,
      opc ''th.vlxseg2bu.v'' 0 INSN_CLASS_XTHEADVECTOR ''Vd,0(s),VtVm'' 0x2c000007 0xfc00707f MF_match_opcode 0x8,
      opc ''th.vlxseg2hu.v'' 0 INSN_CLASS_XTHEADVECTOR ''Vd,0(s),VtVm'' 0x2c005007 0xfc00707f MF_match_opcode 0x8,
      opc ''th.vlxseg2wu.v'' 0 INSN_CLASS_XTHEADVECTOR ''Vd,0(s),VtVm'' 0x2c006007 0xfc00707f MF_match_opcode 0x8,
      opc ''th.vlxseg2e.v'' 0 INSN_CLASS_XTHEADVECTOR ''Vd,0(s),VtVm'' 0x2c007007 0xfc00707f MF_match_opcode 0x8,
      opc ''th.vsxseg2b.v'' 0 INSN_CLASS_XTHEADVECTOR ''Vd,0(s),VtVm'' 0x2c000027 0xfc00707f MF_match_opcode 0x8,
      opc ''th.vsxseg2h.v'' 0 INSN_CLASS_XTHEADVECTOR ''Vd,0(s),VtVm'' 0x2c005027 0xfc00707f MF_match_opcode 0x8,
      opc ''th.vsxseg2w.v'' 0 INSN_CLASS_XTHEADVECTOR ''Vd,0(s),VtVm'' 0x2c006027 0xfc00707f MF_match_opcode 0x8,
      opc ''th.vsxseg2e.v'' 0 INSN_CLASS_XTHEADVECTOR ''Vd,0(s),VtVm'' 0x2c007027 0xfc00707f MF_match_opcode 0x8,
      opc ''th.vlxseg3b.v'' 0 INSN_CLASS_XTHEADVECTOR ''Vd,0(s),VtVm'' 0x5c000007 0xfc00707f MF_match_opcode 0x8,
      opc ''th.vlxseg3h.v'' 0 INSN_CLASS_XTHEADVECTOR ''Vd,0(s),VtVm'' 0x5c005007 0xfc00707f MF_match_opcode 0x8,
      opc ''th.vlxseg3w.v'' 0 INSN_CLASS_XTHEADVECTOR ''Vd,0(s),VtVm'' 0x5c006007 0xfc00707f MF_match_opcode 0x8,
      opc ''th.vlxseg3bu.v'' 0 INSN_CLASS_XTHEADVECTOR ''Vd,0(s),VtVm'' 0x4c000007 0xfc00707f MF_match_opcode 0x8,
      opc ''th.vlxseg3hu.v'' 0 INSN_CLASS_XTHEADVECTOR ''Vd,0(s),VtVm'' 0x4c005007 0xfc00707f MF_match_opcode 0x8,
      opc ''th.vlxseg3wu.v'' 0 INSN_CLASS_XTHEADVECTOR ''Vd,0(s),VtVm'' 0x4c006007 0xfc00707f MF_match_opcode 0x8,
      opc ''th.vlxseg3e.v'' 0 INSN_CLASS_XTHEADVECTOR ''Vd,0(s),VtVm'' 0x4c007007 0xfc00707f MF_match_opcode 0x8,
      opc ''th.vsxseg3b.v'' 0 INSN_CLASS_XTHEADVECTOR ''Vd,0(s),VtVm'' 0x4c000027 0xfc00707f MF_match_opcode 0x8,
      opc ''th.vsxseg3h.v'' 0 INSN_CLASS_XTHEADVECTOR ''Vd,0(s),VtVm'' 0x4c005027 0xfc00707f MF_match_opcode 0x8,
      opc ''th.vsxseg3w.v'' 0 INSN_CLASS_XTHEADVECTOR ''Vd,0(s),VtVm'' 0x4c006027 0xfc00707f MF_match_opcode 0x8,
      opc ''th.vsxseg3e.v'' 0 INSN_CLASS_XTHEADVECTOR ''Vd,0(s),VtVm'' 0x4c007027 0xfc00707f MF_match_opcode 0x8,
      opc ''th.vlxseg4b.v'' 0 INSN_CLASS_XTHEADVECTOR ''Vd,0(s),VtVm'' 0x7c000007 0xfc00707f MF_match_opcode 0x8,
      opc ''th.vlxseg4h.v'' 0 INSN_CLASS_XTHEADVECTOR ''Vd,0(s),VtVm'' 0x7c005007 0xfc00707f MF_match_opcode 0x8,
      opc ''th.vlxseg4w.v'' 0 INSN_CLASS_XTHEADVECTOR ''Vd,0(s),VtVm'' 0x7c006007 0xfc00707f MF_match_opcode 0x8,
      opc ''th.vlxseg4bu.v'' 0 INSN_CLASS_XTHEADVECTOR ''Vd,0(s),VtVm'' 0x6c000007 0xfc00707f MF_match_opcode 0x8,
      opc ''th.vlxseg4hu.v'' 0 INSN_CLASS_XTHEADVECTOR ''Vd,0(s),VtVm'' 0x6c005007 0xfc00707f MF_match_opcode 0x8,
      opc ''th.vlxseg4wu.v'' 0 INSN_CLASS_XTHEADVECTOR ''Vd,0(s),VtVm'' 0x6c006007 0xfc00707f MF_match_opcode 0x8,
      opc ''th.vlxseg4e.v'' 0 INSN_CLASS_XTHEADVECTOR ''Vd,0(s),VtVm'' 0x6c007007 0xfc00707f MF_match_opcode 0x8,
      opc ''th.vsxseg4b.v'' 0 INSN_CLASS_XTHEADVECTOR ''Vd,0(s),VtVm'' 0x6c000027 0xfc00707f MF_match_opcode 0x8,
      opc ''th.vsxseg4h.v'' 0 INSN_CLASS_XTHEADVECTOR ''Vd,0(s),VtVm'' 0x6c005027 0xfc00707f MF_match_opcode 0x8,
      opc ''th.vsxseg4w.v'' 0 INSN_CLASS_XTHEADVECTOR ''Vd,0(s),VtVm'' 0x6c006027 0xfc00707f MF_match_opcode 0x8,
      opc ''th.vsxseg4e.v'' 0 INSN_CLASS_XTHEADVECTOR ''Vd,0(s),VtVm'' 0x6c007027 0xfc00707f MF_match_opcode 0x8,
      opc ''th.vlxseg5b.v'' 0 INSN_CLASS_XTHEADVECTOR ''Vd,0(s),VtVm'' 0x9c000007 0xfc00707f MF_match_opcode 0x8,
      opc ''th.vlxseg5h.v'' 0 INSN_CLASS_XTHEADVECTOR ''Vd,0(s),VtVm'' 0x9c005007 0xfc00707f MF_match_opcode 0x8,
      opc ''th.vlxseg5w.v'' 0 INSN_CLASS_XTHEADVECTOR ''Vd,0(s),VtVm'' 0x9c006007 0xfc00707f MF_match_opcode 0x8,
      opc ''th.vlxseg5bu.v'' 0 INSN_CLASS_XTHEADVECTOR ''Vd,0(s),VtVm'' 0x8c000007 0xfc00707f MF_match_opcode 0x8,
      opc ''th.vlxseg5hu.v'' 0 INSN_CLASS_XTHEADVECTOR ''Vd,0(s),VtVm'' 0x8c005007 0xfc00707f MF_match_opcode 0x8,
      opc ''th.vlxseg5wu.v'' 0 INSN_CLASS_XTHEADVECTOR ''Vd,0(s),VtVm'' 0x8c006007 0xfc00707f MF_match_opcode 0x8,
      opc ''th.vlxseg5e.v'' 0 INSN_CLASS_XTHEADVECTOR ''Vd,0(s),VtVm'' 0x8c007007 0xfc00707f MF_match_opcode 0x8,
      opc ''th.vsxseg5b.v'' 0 INSN_CLASS_XTHEADVECTOR ''Vd,0(s),VtVm'' 0x8c000027 0xfc00707f MF_match_opcode 0x8,
      opc ''th.vsxseg5h.v'' 0 INSN_CLASS_XTHEADVECTOR ''Vd,0(s),VtVm'' 0x8c005027 0xfc00707f MF_match_opcode 0x8,
      opc ''th.vsxseg5w.v'' 0 INSN_CLASS_XTHEADVECTOR ''Vd,0(s),VtVm'' 0x8c006027 0xfc00707f MF_match_opcode 0x8,
      opc ''th.vsxseg5e.v'' 0 INSN_CLASS_XTHEADVECTOR ''Vd,0(s),VtVm'' 0x8c007027 0xfc00707f MF_match_opcode 0x8,
      opc ''th.vlxseg6b.v'' 0 INSN_CLASS_XTHEADVECTOR ''Vd,0(s),VtVm'' 0xbc000007 0xfc00707f MF_match_opcode 0x8,
      opc ''th.vlxseg6h.v'' 0 INSN_CLASS_XTHEADVECTOR ''Vd,0(s),VtVm'' 0xbc005007 0xfc00707f MF_match_opcode 0x8,
      opc ''th.vlxseg6w.v'' 0 INSN_CLASS_XTHEADVECTOR ''Vd,0(s),VtVm'' 0xbc006007 0xfc00707f MF_match_opcode 0x8,
      opc ''th.vlxseg6bu.v'' 0 INSN_CLASS_XTHEADVECTOR ''Vd,0(s),VtVm'' 0xac000007 0xfc00707f MF_match_opcode 0x8,
      opc ''th.vlxseg6hu.v'' 0 INSN_CLASS_XTHEADVECTOR ''Vd,0(s),VtVm'' 0xac005007 0xfc00707f MF_match_opcode 0x8,
      opc ''th.vlxseg6wu.v'' 0 INSN_CLASS_XTHEADVECTOR ''Vd,0(s),VtVm'' 0xac006007 0xfc00707f MF_match_opcode 0x8,
      opc ''th.vlxseg6e.v'' 0 INSN_CLASS_XTHEADVECTOR ''Vd,0(s),VtVm'' 0xac007007 0xfc00707f MF_match_opcode 0x8,
      opc ''th.vsxseg6b.v'' 0 INSN_CLASS_XTHEADVECTOR ''Vd,0(s),VtVm'' 0xac000027 0xfc00707f MF_match_opcode 0x8,
      opc ''th.vsxseg6h.v'' 0 INSN_CLASS_XTHEADVECTOR ''Vd,0(s),VtVm'' 0xac005027 0xfc00707f MF_match_opcode 0x8,
      opc ''th.vsxseg6w.v'' 0 INSN_CLASS_XTHEADVECTOR ''Vd,0(s),VtVm'' 0xac006027 0xfc00707f MF_match_opcode 0x8,
      opc ''th.vsxseg6e.v'' 0 INSN_CLASS_XTHEADVECTOR ''Vd,0(s),VtVm'' 0xac007027 0xfc00707f MF_match_opcode 0x8,
      opc ''th.vlxseg7b.v'' 0 INSN_CLASS_XTHEADVECTOR ''Vd,0(s),VtVm'' 0xdc000007 0xfc00707f MF_match_opcode 0x8,
      opc ''th.vlxseg7h.v'' 0 INSN_CLASS_XTHEADVECTOR ''Vd,0(s),VtVm'' 0xdc005007 0xfc00707f MF_match_opcode 0x8,
      opc ''th.vlxseg7w.v'' 0 INSN_CLASS_XTHEADVECTOR ''Vd,0(s),VtVm'' 0xdc006007 0xfc00707f MF_match_opcode 0x8,
      opc ''th.vlxseg7bu.v'' 0 INSN_CLASS_XTHEADVECTOR ''Vd,0(s),VtVm'' 0xcc000007 0xfc00707f MF_match_opcode 0x8,
      opc ''th.vlxseg7hu.v'' 0 INSN_CLASS_XTHEADVECTOR ''Vd,0(s),VtVm'' 0xcc005007 0xfc00707f MF_match_opcode 0x8,
      opc ''th.vlxseg7wu.v'' 0 INSN_CLASS_XTHEADVECTOR ''Vd,0(s),VtVm'' 0xcc006007 0xfc00707f MF_match_opcode 0x8,
      opc ''th.vlxseg7e.v'' 0 INSN_CLASS_XTHEADVECTOR ''Vd,0(s),VtVm'' 0xcc007007 0xfc00707f MF_match_opcode 0x8,
      opc ''th.vsxseg7b.v'' 0 INSN_CLASS_XTHEADVECTOR ''Vd,0(s),VtVm'' 0xcc000027 0xfc00707f MF_match_opcode 0x8,
      opc ''th.vsxseg7h.v'' 0 INSN_CLASS_XTHEADVECTOR ''Vd,0(s),VtVm'' 0xcc005027 0xfc00707f MF_match_opcode 0x8,
      opc ''th.vsxseg7w.v'' 0 INSN_CLASS_XTHEADVECTOR ''Vd,0(s),VtVm'' 0xcc006027 0xfc00707f MF_match_opcode 0x8,
      opc ''th.vsxseg7e.v'' 0 INSN_CLASS_XTHEADVECTOR ''Vd,0(s),VtVm'' 0xcc007027 0xfc00707f MF_match_opcode 0x8,
      opc ''th.vlxseg8b.v'' 0 INSN_CLASS_XTHEADVECTOR ''Vd,0(s),VtVm'' 0xfc000007 0xfc00707f MF_match_opcode 0x8,
      opc ''th.vlxseg8h.v'' 0 INSN_CLASS_XTHEADVECTOR ''Vd,0(s),VtVm'' 0xfc005007 0xfc00707f MF_match_opcode 0x8,
      opc ''th.vlxseg8w.v'' 0 INSN_CLASS_XTHEADVECTOR ''Vd,0(s),VtVm'' 0xfc006007 0xfc00707f MF_match_opcode 0x8,
      opc ''th.vlxseg8bu.v'' 0 INSN_CLASS_XTHEADVECTOR ''Vd,0(s),VtVm'' 0xec000007 0xfc00707f MF_match_opcode 0x8,
      opc ''th.vlxseg8hu.v'' 0 INSN_CLASS_XTHEADVECTOR ''Vd,0(s),VtVm'' 0xec005007 0xfc00707f MF_match_opcode 0x8,
      opc ''th.vlxseg8wu.v'' 0 INSN_CLASS_XTHEADVECTOR ''Vd,0(s),VtVm'' 0xec006007 0xfc00707f MF_match_opcode 0x8,
      opc ''th.vlxseg8e.v'' 0 INSN_CLASS_XTHEADVECTOR ''Vd,0(s),VtVm'' 0xec007007 0xfc00707f MF_match_opcode 0x8,
      opc ''th.vsxseg8b.v'' 0 INSN_CLASS_XTHEADVECTOR ''Vd,0(s),VtVm'' 0xec000027 0xfc00707f MF_match_opcode 0x8,
      opc ''th.vsxseg8h.v'' 0 INSN_CLASS_XTHEADVECTOR ''Vd,0(s),VtVm'' 0xec005027 0xfc00707f MF_match_opcode 0x8,
      opc ''th.vsxseg8w.v'' 0 INSN_CLASS_XTHEADVECTOR ''Vd,0(s),VtVm'' 0xec006027 0xfc00707f MF_match_opcode 0x8,
      opc ''th.vsxseg8e.v'' 0 INSN_CLASS_XTHEADVECTOR ''Vd,0(s),VtVm'' 0xec007027 0xfc00707f MF_match_opcode 0x8,
      opc ''th.vlseg2bff.v'' 0 INSN_CLASS_XTHEADVECTOR ''Vd,0(s)Vm'' 0x31000007 0xfdf0707f MF_match_opcode 0x8,
      opc ''th.vlseg2hff.v'' 0 INSN_CLASS_XTHEADVECTOR ''Vd,0(s)Vm'' 0x31005007 0xfdf0707f MF_match_opcode 0x8,
      opc ''th.vlseg2wff.v'' 0 INSN_CLASS_XTHEADVECTOR ''Vd,0(s)Vm'' 0x31006007 0xfdf0707f MF_match_opcode 0x8,
      opc ''th.vlseg2buff.v'' 0 INSN_CLASS_XTHEADVECTOR ''Vd,0(s)Vm'' 0x21000007 0xfdf0707f MF_match_opcode 0x8,
      opc ''th.vlseg2huff.v'' 0 INSN_CLASS_XTHEADVECTOR ''Vd,0(s)Vm'' 0x21005007 0xfdf0707f MF_match_opcode 0x8,
      opc ''th.vlseg2wuff.v'' 0 INSN_CLASS_XTHEADVECTOR ''Vd,0(s)Vm'' 0x21006007 0xfdf0707f MF_match_opcode 0x8,
      opc ''th.vlseg2eff.v'' 0 INSN_CLASS_XTHEADVECTOR ''Vd,0(s)Vm'' 0x21007007 0xfdf0707f MF_match_opcode 0x8,
      opc ''th.vlseg3bff.v'' 0 INSN_CLASS_XTHEADVECTOR ''Vd,0(s)Vm'' 0x51000007 0xfdf0707f MF_match_opcode 0x8,
      opc ''th.vlseg3hff.v'' 0 INSN_CLASS_XTHEADVECTOR ''Vd,0(s)Vm'' 0x51005007 0xfdf0707f MF_match_opcode 0x8,
      opc ''th.vlseg3wff.v'' 0 INSN_CLASS_XTHEADVECTOR ''Vd,0(s)Vm'' 0x51006007 0xfdf0707f MF_match_opcode 0x8,
      opc ''th.vlseg3buff.v'' 0 INSN_CLASS_XTHEADVECTOR ''Vd,0(s)Vm'' 0x41000007 0xfdf0707f MF_match_opcode 0x8,
      opc ''th.vlseg3huff.v'' 0 INSN_CLASS_XTHEADVECTOR ''Vd,0(s)Vm'' 0x41005007 0xfdf0707f MF_match_opcode 0x8,
      opc ''th.vlseg3wuff.v'' 0 INSN_CLASS_XTHEADVECTOR ''Vd,0(s)Vm'' 0x41006007 0xfdf0707f MF_match_opcode 0x8,
      opc ''th.vlseg3eff.v'' 0 INSN_CLASS_XTHEADVECTOR ''Vd,0(s)Vm'' 0x41007007 0xfdf0707f MF_match_opcode 0x8,
      opc ''th.vlseg4bff.v'' 0 INSN_CLASS_XTHEADVECTOR ''Vd,0(s)Vm'' 0x71000007 0xfdf0707f MF_match_opcode 0x8,
      opc ''th.vlseg4hff.v'' 0 INSN_CLASS_XTHEADVECTOR ''Vd,0(s)Vm'' 0x71005007 0xfdf0707f MF_match_opcode 0x8,
      opc ''th.vlseg4wff.v'' 0 INSN_CLASS_XTHEADVECTOR ''Vd,0(s)Vm'' 0x71006007 0xfdf0707f MF_match_opcode 0x8,
      opc ''th.vlseg4buff.v'' 0 INSN_CLASS_XTHEADVECTOR ''Vd,0(s)Vm'' 0x61000007 0xfdf0707f MF_match_opcode 0x8]"

lemma riscv_opcodes_13_fine: "list_all entry_fine riscv_opcodes_13"
  by (simp only: riscv_opcodes_13_def entry_fine_eval word_num_eval) simp

lemma riscv_opcodes_14_fine: "list_all entry_fine riscv_opcodes_14"
  by (simp only: riscv_opcodes_14_def entry_fine_eval word_num_eval) simp

lemma riscv_opcodes_15_fine: "list_all entry_fine riscv_opcodes_15"
  by (simp only: riscv_opcodes_15_def entry_fine_eval word_num_eval) simp

lemma riscv_opcodes_16_fine: "list_all entry_fine riscv_opcodes_16"
  by (simp only: riscv_opcodes_16_def entry_fine_eval word_num_eval) simp

text \<open>The mnemonics of each part of the table in order, with the number of their entries.\<close>

definition optab_groups_13 :: "(string \<times> nat) list" where
  "optab_groups_13 =
     [(''c.lbu'', Suc 0), (''c.lhu'', Suc 0), (''c.lh'', Suc 0), (''c.sb'', Suc 0),
      (''c.sh'', Suc 0), (''c.not'', Suc 0), (''c.mul'', Suc 0), (''c.sext.b'', Suc 0),
      (''c.sext.h'', Suc 0), (''c.zext.h'', Suc 0), (''c.zext.w'', Suc 0), (''c.zext.b'', Suc 0),
      (''c.sext.w'', Suc 0), (''csrr'', Suc 0), (''csrwi'', Suc 0), (''csrw'', 2),
      (''csrsi'', Suc 0), (''csrs'', 2), (''csrci'', Suc 0), (''csrc'', 2), (''csrrwi'', Suc 0),
      (''csrrw'', 2), (''csrrsi'', Suc 0), (''csrrs'', 2), (''csrrci'', Suc 0), (''csrrc'', 2),
      (''uret'', Suc 0), (''sret'', Suc 0), (''hret'', Suc 0), (''mret'', Suc 0),
      (''dret'', Suc 0), (''sfence.vm'', 2), (''sfence.vma'', 3), (''wfi'', Suc 0),
      (''sinval.vma'', Suc 0), (''sfence.w.inval'', Suc 0), (''sfence.inval.ir'', Suc 0),
      (''hinval.vvma'', Suc 0), (''hinval.gvma'', Suc 0), (''hfence.vvma'', 3),
      (''hfence.gvma'', 3), (''hlv.b'', Suc 0), (''hlv.bu'', Suc 0), (''hlv.h'', Suc 0),
      (''hlv.hu'', Suc 0), (''hlvx.hu'', Suc 0), (''hlv.w'', Suc 0), (''hlv.wu'', Suc 0),
      (''hlvx.wu'', Suc 0), (''hlv.d'', Suc 0), (''hsv.b'', Suc 0), (''hsv.h'', Suc 0),
      (''hsv.w'', Suc 0), (''hsv.d'', Suc 0), (''cv.mac'', Suc 0), (''cv.msu'', Suc 0),
      (''cv.mulsn'', Suc 0), (''cv.muls'', Suc 0), (''cv.mulsrn'', Suc 0),
      (''cv.mulhhsn'', Suc 0), (''cv.mulhhs'', Suc 0), (''cv.mulhhsrn'', Suc 0),
      (''cv.mulun'', Suc 0), (''cv.mulu'', Suc 0), (''cv.mulurn'', Suc 0),
      (''cv.mulhhun'', Suc 0), (''cv.mulhhu'', Suc 0), (''cv.mulhhurn'', Suc 0),
      (''cv.macsn'', Suc 0), (''cv.machhsn'', Suc 0), (''cv.macsrn'', Suc 0),
      (''cv.machhsrn'', Suc 0), (''cv.macun'', Suc 0), (''cv.machhun'', Suc 0),
      (''cv.macurn'', Suc 0), (''cv.machhurn'', Suc 0), (''cv.abs'', Suc 0),
      (''cv.exths'', Suc 0), (''cv.exthz'', Suc 0), (''cv.extbs'', Suc 0), (''cv.extbz'', Suc 0),
      (''cv.sle'', Suc 0), (''cv.slet'', Suc 0), (''cv.sleu'', Suc 0), (''cv.sletu'', Suc 0),
      (''cv.min'', Suc 0), (''cv.minu'', Suc 0), (''cv.max'', Suc 0), (''cv.maxu'', Suc 0),
      (''cv.clip'', Suc 0), (''cv.clipu'', Suc 0), (''cv.clipr'', Suc 0), (''cv.clipur'', Suc 0),
      (''cv.addn'', Suc 0), (''cv.addun'', Suc 0), (''cv.addunr'', Suc 0), (''cv.addrn'', Suc 0),
      (''cv.addurn'', Suc 0), (''cv.addnr'', Suc 0), (''cv.addrnr'', Suc 0),
      (''cv.addurnr'', Suc 0), (''cv.subn'', Suc 0), (''cv.subun'', Suc 0),
      (''cv.subrn'', Suc 0), (''cv.suburn'', Suc 0), (''cv.subnr'', Suc 0),
      (''cv.subunr'', Suc 0), (''cv.subrnr'', Suc 0), (''cv.suburnr'', Suc 0),
      (''th.addsl'', Suc 0), (''th.srri'', Suc 0), (''th.srriw'', Suc 0), (''th.ext'', Suc 0),
      (''th.extu'', Suc 0), (''th.ff0'', Suc 0), (''th.ff1'', Suc 0), (''th.rev'', Suc 0),
      (''th.revw'', Suc 0), (''th.tstnbz'', Suc 0)]"

definition optab_groups_14 :: "(string \<times> nat) list" where
  "optab_groups_14 =
     [(''th.tst'', Suc 0), (''th.dcache.call'', Suc 0), (''th.dcache.ciall'', Suc 0),
      (''th.dcache.iall'', Suc 0), (''th.dcache.cpa'', Suc 0), (''th.dcache.cipa'', Suc 0),
      (''th.dcache.ipa'', Suc 0), (''th.dcache.cva'', Suc 0), (''th.dcache.civa'', Suc 0),
      (''th.dcache.iva'', Suc 0), (''th.dcache.csw'', Suc 0), (''th.dcache.cisw'', Suc 0),
      (''th.dcache.isw'', Suc 0), (''th.dcache.cpal1'', Suc 0), (''th.dcache.cval1'', Suc 0),
      (''th.icache.iall'', Suc 0), (''th.icache.ialls'', Suc 0), (''th.icache.ipa'', Suc 0),
      (''th.icache.iva'', Suc 0), (''th.l2cache.call'', Suc 0), (''th.l2cache.ciall'', Suc 0),
      (''th.l2cache.iall'', Suc 0), (''th.mveqz'', Suc 0), (''th.mvnez'', Suc 0),
      (''th.flrd'', Suc 0), (''th.flrw'', Suc 0), (''th.flurd'', Suc 0), (''th.flurw'', Suc 0),
      (''th.fsrd'', Suc 0), (''th.fsrw'', Suc 0), (''th.fsurd'', Suc 0), (''th.fsurw'', Suc 0),
      (''th.fmv.hw.x'', Suc 0), (''th.fmv.x.hw'', Suc 0), (''th.ipop'', Suc 0),
      (''th.ipush'', Suc 0), (''th.ldia'', Suc 0), (''th.ldib'', Suc 0), (''th.lwia'', Suc 0),
      (''th.lwib'', Suc 0), (''th.lwuia'', Suc 0), (''th.lwuib'', Suc 0), (''th.lhia'', Suc 0),
      (''th.lhib'', Suc 0), (''th.lhuia'', Suc 0), (''th.lhuib'', Suc 0), (''th.lbia'', Suc 0),
      (''th.lbib'', Suc 0), (''th.lbuia'', Suc 0), (''th.lbuib'', Suc 0), (''th.sdia'', Suc 0),
      (''th.sdib'', Suc 0), (''th.swia'', Suc 0), (''th.swib'', Suc 0), (''th.shia'', Suc 0),
      (''th.shib'', Suc 0), (''th.sbia'', Suc 0), (''th.sbib'', Suc 0), (''th.lrd'', Suc 0),
      (''th.lrw'', Suc 0), (''th.lrwu'', Suc 0), (''th.lrh'', Suc 0), (''th.lrhu'', Suc 0),
      (''th.lrb'', Suc 0), (''th.lrbu'', Suc 0), (''th.srd'', Suc 0), (''th.srw'', Suc 0),
      (''th.srh'', Suc 0), (''th.srb'', Suc 0), (''th.lurd'', Suc 0), (''th.lurw'', Suc 0),
      (''th.lurwu'', Suc 0), (''th.lurh'', Suc 0), (''th.lurhu'', Suc 0), (''th.lurb'', Suc 0),
      (''th.lurbu'', Suc 0), (''th.surd'', Suc 0), (''th.surw'', Suc 0), (''th.surh'', Suc 0),
      (''th.surb'', Suc 0), (''th.ldd'', Suc 0), (''th.lwd'', Suc 0), (''th.lwud'', Suc 0),
      (''th.sdd'', Suc 0), (''th.swd'', Suc 0), (''th.mula'', Suc 0), (''th.mulah'', Suc 0),
      (''th.mulaw'', Suc 0), (''th.muls'', Suc 0), (''th.mulsh'', Suc 0), (''th.mulsw'', Suc 0),
      (''th.sfence.vmas'', Suc 0), (''th.sync'', Suc 0), (''th.sync.i'', Suc 0),
      (''th.sync.is'', Suc 0), (''th.sync.s'', Suc 0)]"

definition optab_groups_15 :: "(string \<times> nat) list" where
  "optab_groups_15 =
     [(''th.vsetvl'', Suc 0), (''th.vsetvli'', Suc 0), (''th.vlb.v'', Suc 0),
      (''th.vlh.v'', Suc 0), (''th.vlw.v'', Suc 0), (''th.vlbu.v'', Suc 0),
      (''th.vlhu.v'', Suc 0), (''th.vlwu.v'', Suc 0), (''th.vle.v'', Suc 0),
      (''th.vsb.v'', Suc 0), (''th.vsh.v'', Suc 0), (''th.vsw.v'', Suc 0), (''th.vse.v'', Suc 0),
      (''th.vlsb.v'', Suc 0), (''th.vlsh.v'', Suc 0), (''th.vlsw.v'', Suc 0),
      (''th.vlsbu.v'', Suc 0), (''th.vlshu.v'', Suc 0), (''th.vlswu.v'', Suc 0),
      (''th.vlse.v'', Suc 0), (''th.vssb.v'', Suc 0), (''th.vssh.v'', Suc 0),
      (''th.vssw.v'', Suc 0), (''th.vsse.v'', Suc 0), (''th.vlxb.v'', Suc 0),
      (''th.vlxh.v'', Suc 0), (''th.vlxw.v'', Suc 0), (''th.vlxbu.v'', Suc 0),
      (''th.vlxhu.v'', Suc 0), (''th.vlxwu.v'', Suc 0), (''th.vlxe.v'', Suc 0),
      (''th.vsxb.v'', Suc 0), (''th.vsxh.v'', Suc 0), (''th.vsxw.v'', Suc 0),
      (''th.vsxe.v'', Suc 0), (''th.vsuxb.v'', Suc 0), (''th.vsuxh.v'', Suc 0),
      (''th.vsuxw.v'', Suc 0), (''th.vsuxe.v'', Suc 0), (''th.vlbff.v'', Suc 0),
      (''th.vlhff.v'', Suc 0), (''th.vlwff.v'', Suc 0), (''th.vlbuff.v'', Suc 0),
      (''th.vlhuff.v'', Suc 0), (''th.vlwuff.v'', Suc 0), (''th.vleff.v'', Suc 0),
      (''th.vlseg2b.v'', Suc 0), (''th.vlseg2h.v'', Suc 0), (''th.vlseg2w.v'', Suc 0),
      (''th.vlseg2bu.v'', Suc 0), (''th.vlseg2hu.v'', Suc 0), (''th.vlseg2wu.v'', Suc 0),
      (''th.vlseg2e.v'', Suc 0), (''th.vsseg2b.v'', Suc 0), (''th.vsseg2h.v'', Suc 0),
      (''th.vsseg2w.v'', Suc 0), (''th.vsseg2e.v'', Suc 0), (''th.vlseg3b.v'', Suc 0),
      (''th.vlseg3h.v'', Suc 0), (''th.vlseg3w.v'', Suc 0), (''th.vlseg3bu.v'', Suc 0),
      (''th.vlseg3hu.v'', Suc 0), (''th.vlseg3wu.v'', Suc 0), (''th.vlseg3e.v'', Suc 0),
      (''th.vsseg3b.v'', Suc 0), (''th.vsseg3h.v'', Suc 0), (''th.vsseg3w.v'', Suc 0),
      (''th.vsseg3e.v'', Suc 0), (''th.vlseg4b.v'', Suc 0), (''th.vlseg4h.v'', Suc 0),
      (''th.vlseg4w.v'', Suc 0), (''th.vlseg4bu.v'', Suc 0), (''th.vlseg4hu.v'', Suc 0),
      (''th.vlseg4wu.v'', Suc 0), (''th.vlseg4e.v'', Suc 0), (''th.vsseg4b.v'', Suc 0),
      (''th.vsseg4h.v'', Suc 0), (''th.vsseg4w.v'', Suc 0), (''th.vsseg4e.v'', Suc 0),
      (''th.vlseg5b.v'', Suc 0), (''th.vlseg5h.v'', Suc 0), (''th.vlseg5w.v'', Suc 0),
      (''th.vlseg5bu.v'', Suc 0), (''th.vlseg5hu.v'', Suc 0), (''th.vlseg5wu.v'', Suc 0),
      (''th.vlseg5e.v'', Suc 0), (''th.vsseg5b.v'', Suc 0), (''th.vsseg5h.v'', Suc 0),
      (''th.vsseg5w.v'', Suc 0), (''th.vsseg5e.v'', Suc 0), (''th.vlseg6b.v'', Suc 0),
      (''th.vlseg6h.v'', Suc 0), (''th.vlseg6w.v'', Suc 0), (''th.vlseg6bu.v'', Suc 0),
      (''th.vlseg6hu.v'', Suc 0), (''th.vlseg6wu.v'', Suc 0), (''th.vlseg6e.v'', Suc 0),
      (''th.vsseg6b.v'', Suc 0), (''th.vsseg6h.v'', Suc 0), (''th.vsseg6w.v'', Suc 0),
      (''th.vsseg6e.v'', Suc 0), (''th.vlseg7b.v'', Suc 0), (''th.vlseg7h.v'', Suc 0),
      (''th.vlseg7w.v'', Suc 0), (''th.vlseg7bu.v'', Suc 0), (''th.vlseg7hu.v'', Suc 0),
      (''th.vlseg7wu.v'', Suc 0), (''th.vlseg7e.v'', Suc 0), (''th.vsseg7b.v'', Suc 0),
      (''th.vsseg7h.v'', Suc 0), (''th.vsseg7w.v'', Suc 0), (''th.vsseg7e.v'', Suc 0),
      (''th.vlseg8b.v'', Suc 0), (''th.vlseg8h.v'', Suc 0), (''th.vlseg8w.v'', Suc 0),
      (''th.vlseg8bu.v'', Suc 0), (''th.vlseg8hu.v'', Suc 0), (''th.vlseg8wu.v'', Suc 0),
      (''th.vlseg8e.v'', Suc 0), (''th.vsseg8b.v'', Suc 0), (''th.vsseg8h.v'', Suc 0),
      (''th.vsseg8w.v'', Suc 0), (''th.vsseg8e.v'', Suc 0), (''th.vlsseg2b.v'', Suc 0),
      (''th.vlsseg2h.v'', Suc 0), (''th.vlsseg2w.v'', Suc 0), (''th.vlsseg2bu.v'', Suc 0),
      (''th.vlsseg2hu.v'', Suc 0), (''th.vlsseg2wu.v'', Suc 0), (''th.vlsseg2e.v'', Suc 0),
      (''th.vssseg2b.v'', Suc 0), (''th.vssseg2h.v'', Suc 0), (''th.vssseg2w.v'', Suc 0),
      (''th.vssseg2e.v'', Suc 0), (''th.vlsseg3b.v'', Suc 0), (''th.vlsseg3h.v'', Suc 0),
      (''th.vlsseg3w.v'', Suc 0), (''th.vlsseg3bu.v'', Suc 0), (''th.vlsseg3hu.v'', Suc 0),
      (''th.vlsseg3wu.v'', Suc 0), (''th.vlsseg3e.v'', Suc 0), (''th.vssseg3b.v'', Suc 0),
      (''th.vssseg3h.v'', Suc 0), (''th.vssseg3w.v'', Suc 0), (''th.vssseg3e.v'', Suc 0),
      (''th.vlsseg4b.v'', Suc 0), (''th.vlsseg4h.v'', Suc 0)]"

definition optab_groups_16 :: "(string \<times> nat) list" where
  "optab_groups_16 =
     [(''th.vlsseg4w.v'', Suc 0), (''th.vlsseg4bu.v'', Suc 0), (''th.vlsseg4hu.v'', Suc 0),
      (''th.vlsseg4wu.v'', Suc 0), (''th.vlsseg4e.v'', Suc 0), (''th.vssseg4b.v'', Suc 0),
      (''th.vssseg4h.v'', Suc 0), (''th.vssseg4w.v'', Suc 0), (''th.vssseg4e.v'', Suc 0),
      (''th.vlsseg5b.v'', Suc 0), (''th.vlsseg5h.v'', Suc 0), (''th.vlsseg5w.v'', Suc 0),
      (''th.vlsseg5bu.v'', Suc 0), (''th.vlsseg5hu.v'', Suc 0), (''th.vlsseg5wu.v'', Suc 0),
      (''th.vlsseg5e.v'', Suc 0), (''th.vssseg5b.v'', Suc 0), (''th.vssseg5h.v'', Suc 0),
      (''th.vssseg5w.v'', Suc 0), (''th.vssseg5e.v'', Suc 0), (''th.vlsseg6b.v'', Suc 0),
      (''th.vlsseg6h.v'', Suc 0), (''th.vlsseg6w.v'', Suc 0), (''th.vlsseg6bu.v'', Suc 0),
      (''th.vlsseg6hu.v'', Suc 0), (''th.vlsseg6wu.v'', Suc 0), (''th.vlsseg6e.v'', Suc 0),
      (''th.vssseg6b.v'', Suc 0), (''th.vssseg6h.v'', Suc 0), (''th.vssseg6w.v'', Suc 0),
      (''th.vssseg6e.v'', Suc 0), (''th.vlsseg7b.v'', Suc 0), (''th.vlsseg7h.v'', Suc 0),
      (''th.vlsseg7w.v'', Suc 0), (''th.vlsseg7bu.v'', Suc 0), (''th.vlsseg7hu.v'', Suc 0),
      (''th.vlsseg7wu.v'', Suc 0), (''th.vlsseg7e.v'', Suc 0), (''th.vssseg7b.v'', Suc 0),
      (''th.vssseg7h.v'', Suc 0), (''th.vssseg7w.v'', Suc 0), (''th.vssseg7e.v'', Suc 0),
      (''th.vlsseg8b.v'', Suc 0), (''th.vlsseg8h.v'', Suc 0), (''th.vlsseg8w.v'', Suc 0),
      (''th.vlsseg8bu.v'', Suc 0), (''th.vlsseg8hu.v'', Suc 0), (''th.vlsseg8wu.v'', Suc 0),
      (''th.vlsseg8e.v'', Suc 0), (''th.vssseg8b.v'', Suc 0), (''th.vssseg8h.v'', Suc 0),
      (''th.vssseg8w.v'', Suc 0), (''th.vssseg8e.v'', Suc 0), (''th.vlxseg2b.v'', Suc 0),
      (''th.vlxseg2h.v'', Suc 0), (''th.vlxseg2w.v'', Suc 0), (''th.vlxseg2bu.v'', Suc 0),
      (''th.vlxseg2hu.v'', Suc 0), (''th.vlxseg2wu.v'', Suc 0), (''th.vlxseg2e.v'', Suc 0),
      (''th.vsxseg2b.v'', Suc 0), (''th.vsxseg2h.v'', Suc 0), (''th.vsxseg2w.v'', Suc 0),
      (''th.vsxseg2e.v'', Suc 0), (''th.vlxseg3b.v'', Suc 0), (''th.vlxseg3h.v'', Suc 0),
      (''th.vlxseg3w.v'', Suc 0), (''th.vlxseg3bu.v'', Suc 0), (''th.vlxseg3hu.v'', Suc 0),
      (''th.vlxseg3wu.v'', Suc 0), (''th.vlxseg3e.v'', Suc 0), (''th.vsxseg3b.v'', Suc 0),
      (''th.vsxseg3h.v'', Suc 0), (''th.vsxseg3w.v'', Suc 0), (''th.vsxseg3e.v'', Suc 0),
      (''th.vlxseg4b.v'', Suc 0), (''th.vlxseg4h.v'', Suc 0), (''th.vlxseg4w.v'', Suc 0),
      (''th.vlxseg4bu.v'', Suc 0), (''th.vlxseg4hu.v'', Suc 0), (''th.vlxseg4wu.v'', Suc 0),
      (''th.vlxseg4e.v'', Suc 0), (''th.vsxseg4b.v'', Suc 0), (''th.vsxseg4h.v'', Suc 0),
      (''th.vsxseg4w.v'', Suc 0), (''th.vsxseg4e.v'', Suc 0), (''th.vlxseg5b.v'', Suc 0),
      (''th.vlxseg5h.v'', Suc 0), (''th.vlxseg5w.v'', Suc 0), (''th.vlxseg5bu.v'', Suc 0),
      (''th.vlxseg5hu.v'', Suc 0), (''th.vlxseg5wu.v'', Suc 0), (''th.vlxseg5e.v'', Suc 0),
      (''th.vsxseg5b.v'', Suc 0), (''th.vsxseg5h.v'', Suc 0), (''th.vsxseg5w.v'', Suc 0),
      (''th.vsxseg5e.v'', Suc 0), (''th.vlxseg6b.v'', Suc 0), (''th.vlxseg6h.v'', Suc 0),
      (''th.vlxseg6w.v'', Suc 0), (''th.vlxseg6bu.v'', Suc 0), (''th.vlxseg6hu.v'', Suc 0),
      (''th.vlxseg6wu.v'', Suc 0), (''th.vlxseg6e.v'', Suc 0), (''th.vsxseg6b.v'', Suc 0),
      (''th.vsxseg6h.v'', Suc 0), (''th.vsxseg6w.v'', Suc 0), (''th.vsxseg6e.v'', Suc 0),
      (''th.vlxseg7b.v'', Suc 0), (''th.vlxseg7h.v'', Suc 0), (''th.vlxseg7w.v'', Suc 0),
      (''th.vlxseg7bu.v'', Suc 0), (''th.vlxseg7hu.v'', Suc 0), (''th.vlxseg7wu.v'', Suc 0),
      (''th.vlxseg7e.v'', Suc 0), (''th.vsxseg7b.v'', Suc 0), (''th.vsxseg7h.v'', Suc 0),
      (''th.vsxseg7w.v'', Suc 0), (''th.vsxseg7e.v'', Suc 0), (''th.vlxseg8b.v'', Suc 0),
      (''th.vlxseg8h.v'', Suc 0), (''th.vlxseg8w.v'', Suc 0), (''th.vlxseg8bu.v'', Suc 0),
      (''th.vlxseg8hu.v'', Suc 0), (''th.vlxseg8wu.v'', Suc 0), (''th.vlxseg8e.v'', Suc 0),
      (''th.vsxseg8b.v'', Suc 0), (''th.vsxseg8h.v'', Suc 0), (''th.vsxseg8w.v'', Suc 0),
      (''th.vsxseg8e.v'', Suc 0), (''th.vlseg2bff.v'', Suc 0), (''th.vlseg2hff.v'', Suc 0),
      (''th.vlseg2wff.v'', Suc 0), (''th.vlseg2buff.v'', Suc 0), (''th.vlseg2huff.v'', Suc 0),
      (''th.vlseg2wuff.v'', Suc 0), (''th.vlseg2eff.v'', Suc 0), (''th.vlseg3bff.v'', Suc 0),
      (''th.vlseg3hff.v'', Suc 0), (''th.vlseg3wff.v'', Suc 0), (''th.vlseg3buff.v'', Suc 0),
      (''th.vlseg3huff.v'', Suc 0), (''th.vlseg3wuff.v'', Suc 0), (''th.vlseg3eff.v'', Suc 0),
      (''th.vlseg4bff.v'', Suc 0), (''th.vlseg4hff.v'', Suc 0), (''th.vlseg4wff.v'', Suc 0),
      (''th.vlseg4buff.v'', Suc 0)]"

lemma riscv_opcodes_13_names: "map op_name riscv_opcodes_13 = ungroup optab_groups_13"
  by (simp only: riscv_opcodes_13_def optab_groups_13_def list.map riscv_opcode.select_convs ungroup_eval pred_numeral_simps
      BitM.simps numeral_One One_nat_def)

lemma riscv_opcodes_14_names: "map op_name riscv_opcodes_14 = ungroup optab_groups_14"
  by (simp only: riscv_opcodes_14_def optab_groups_14_def list.map riscv_opcode.select_convs ungroup_eval pred_numeral_simps
      BitM.simps numeral_One One_nat_def)

lemma riscv_opcodes_15_names: "map op_name riscv_opcodes_15 = ungroup optab_groups_15"
  by (simp only: riscv_opcodes_15_def optab_groups_15_def list.map riscv_opcode.select_convs ungroup_eval pred_numeral_simps
      BitM.simps numeral_One One_nat_def)

lemma riscv_opcodes_16_names: "map op_name riscv_opcodes_16 = ungroup optab_groups_16"
  by (simp only: riscv_opcodes_16_def optab_groups_16_def list.map riscv_opcode.select_convs ungroup_eval pred_numeral_simps
      BitM.simps numeral_One One_nat_def)

end
