(* ===== verification/RV_Optab_5.thy ===== *)
theory RV_Optab_5
  imports RV_Args RV_Distinct
begin

text \<open>
  Lines 2546 to 2951 of \<^verbatim>\<open>opcodes/riscv-opc.c\<close>: part 5 of the table \<open>riscv_opcodes\<close>, row by row, with the
  macros \<open>MATCH_*\<close>, \<open>MASK_*\<close> and \<open>INSN_*\<close> of the match, mask and pinfo columns evaluated to numbers as C
  evaluates them (including the sign extension of an \<open>int\<close> expression into \<open>insn_t\<close>).
\<close>

definition riscv_opcodes_17 :: "riscv_opcode list" where
  "riscv_opcodes_17 =
     [opc ''th.vlseg4huff.v'' 0 INSN_CLASS_XTHEADVECTOR ''Vd,0(s)Vm'' 0x61005007 0xfdf0707f MF_match_opcode 0x8,
      opc ''th.vlseg4wuff.v'' 0 INSN_CLASS_XTHEADVECTOR ''Vd,0(s)Vm'' 0x61006007 0xfdf0707f MF_match_opcode 0x8,
      opc ''th.vlseg4eff.v'' 0 INSN_CLASS_XTHEADVECTOR ''Vd,0(s)Vm'' 0x61007007 0xfdf0707f MF_match_opcode 0x8,
      opc ''th.vlseg5bff.v'' 0 INSN_CLASS_XTHEADVECTOR ''Vd,0(s)Vm'' 0x91000007 0xfdf0707f MF_match_opcode 0x8,
      opc ''th.vlseg5hff.v'' 0 INSN_CLASS_XTHEADVECTOR ''Vd,0(s)Vm'' 0x91005007 0xfdf0707f MF_match_opcode 0x8,
      opc ''th.vlseg5wff.v'' 0 INSN_CLASS_XTHEADVECTOR ''Vd,0(s)Vm'' 0x91006007 0xfdf0707f MF_match_opcode 0x8,
      opc ''th.vlseg5buff.v'' 0 INSN_CLASS_XTHEADVECTOR ''Vd,0(s)Vm'' 0x81000007 0xfdf0707f MF_match_opcode 0x8,
      opc ''th.vlseg5huff.v'' 0 INSN_CLASS_XTHEADVECTOR ''Vd,0(s)Vm'' 0x81005007 0xfdf0707f MF_match_opcode 0x8,
      opc ''th.vlseg5wuff.v'' 0 INSN_CLASS_XTHEADVECTOR ''Vd,0(s)Vm'' 0x81006007 0xfdf0707f MF_match_opcode 0x8,
      opc ''th.vlseg5eff.v'' 0 INSN_CLASS_XTHEADVECTOR ''Vd,0(s)Vm'' 0x81007007 0xfdf0707f MF_match_opcode 0x8,
      opc ''th.vlseg6bff.v'' 0 INSN_CLASS_XTHEADVECTOR ''Vd,0(s)Vm'' 0xb1000007 0xfdf0707f MF_match_opcode 0x8,
      opc ''th.vlseg6hff.v'' 0 INSN_CLASS_XTHEADVECTOR ''Vd,0(s)Vm'' 0xb1005007 0xfdf0707f MF_match_opcode 0x8,
      opc ''th.vlseg6wff.v'' 0 INSN_CLASS_XTHEADVECTOR ''Vd,0(s)Vm'' 0xb1006007 0xfdf0707f MF_match_opcode 0x8,
      opc ''th.vlseg6buff.v'' 0 INSN_CLASS_XTHEADVECTOR ''Vd,0(s)Vm'' 0xa1000007 0xfdf0707f MF_match_opcode 0x8,
      opc ''th.vlseg6huff.v'' 0 INSN_CLASS_XTHEADVECTOR ''Vd,0(s)Vm'' 0xa1005007 0xfdf0707f MF_match_opcode 0x8,
      opc ''th.vlseg6wuff.v'' 0 INSN_CLASS_XTHEADVECTOR ''Vd,0(s)Vm'' 0xa1006007 0xfdf0707f MF_match_opcode 0x8,
      opc ''th.vlseg6eff.v'' 0 INSN_CLASS_XTHEADVECTOR ''Vd,0(s)Vm'' 0xa1007007 0xfdf0707f MF_match_opcode 0x8,
      opc ''th.vlseg7bff.v'' 0 INSN_CLASS_XTHEADVECTOR ''Vd,0(s)Vm'' 0xd1000007 0xfdf0707f MF_match_opcode 0x8,
      opc ''th.vlseg7hff.v'' 0 INSN_CLASS_XTHEADVECTOR ''Vd,0(s)Vm'' 0xd1005007 0xfdf0707f MF_match_opcode 0x8,
      opc ''th.vlseg7wff.v'' 0 INSN_CLASS_XTHEADVECTOR ''Vd,0(s)Vm'' 0xd1006007 0xfdf0707f MF_match_opcode 0x8,
      opc ''th.vlseg7buff.v'' 0 INSN_CLASS_XTHEADVECTOR ''Vd,0(s)Vm'' 0xc1000007 0xfdf0707f MF_match_opcode 0x8,
      opc ''th.vlseg7huff.v'' 0 INSN_CLASS_XTHEADVECTOR ''Vd,0(s)Vm'' 0xc1005007 0xfdf0707f MF_match_opcode 0x8,
      opc ''th.vlseg7wuff.v'' 0 INSN_CLASS_XTHEADVECTOR ''Vd,0(s)Vm'' 0xc1006007 0xfdf0707f MF_match_opcode 0x8,
      opc ''th.vlseg7eff.v'' 0 INSN_CLASS_XTHEADVECTOR ''Vd,0(s)Vm'' 0xc1007007 0xfdf0707f MF_match_opcode 0x8,
      opc ''th.vlseg8bff.v'' 0 INSN_CLASS_XTHEADVECTOR ''Vd,0(s)Vm'' 0xf1000007 0xfdf0707f MF_match_opcode 0x8,
      opc ''th.vlseg8hff.v'' 0 INSN_CLASS_XTHEADVECTOR ''Vd,0(s)Vm'' 0xf1005007 0xfdf0707f MF_match_opcode 0x8,
      opc ''th.vlseg8wff.v'' 0 INSN_CLASS_XTHEADVECTOR ''Vd,0(s)Vm'' 0xf1006007 0xfdf0707f MF_match_opcode 0x8,
      opc ''th.vlseg8buff.v'' 0 INSN_CLASS_XTHEADVECTOR ''Vd,0(s)Vm'' 0xe1000007 0xfdf0707f MF_match_opcode 0x8,
      opc ''th.vlseg8huff.v'' 0 INSN_CLASS_XTHEADVECTOR ''Vd,0(s)Vm'' 0xe1005007 0xfdf0707f MF_match_opcode 0x8,
      opc ''th.vlseg8wuff.v'' 0 INSN_CLASS_XTHEADVECTOR ''Vd,0(s)Vm'' 0xe1006007 0xfdf0707f MF_match_opcode 0x8,
      opc ''th.vlseg8eff.v'' 0 INSN_CLASS_XTHEADVECTOR ''Vd,0(s)Vm'' 0xe1007007 0xfdf0707f MF_match_opcode 0x8,
      opc ''th.vamoaddw.v'' 0 INSN_CLASS_XTHEADZVAMO ''Ve,Vt,(s),VfVm'' 0x602f 0xf800707f MF_match_opcode 0x8,
      opc ''th.vamoaddd.v'' 0 INSN_CLASS_XTHEADZVAMO ''Ve,Vt,(s),VfVm'' 0x702f 0xf800707f MF_match_opcode 0x8,
      opc ''th.vamoswapw.v'' 0 INSN_CLASS_XTHEADZVAMO ''Ve,Vt,(s),VfVm'' 0x800602f 0xf800707f MF_match_opcode 0x8,
      opc ''th.vamoswapd.v'' 0 INSN_CLASS_XTHEADZVAMO ''Ve,Vt,(s),VfVm'' 0x800702f 0xf800707f MF_match_opcode 0x8,
      opc ''th.vamoxorw.v'' 0 INSN_CLASS_XTHEADZVAMO ''Ve,Vt,(s),VfVm'' 0x2000602f 0xf800707f MF_match_opcode 0x8,
      opc ''th.vamoxord.v'' 0 INSN_CLASS_XTHEADZVAMO ''Ve,Vt,(s),VfVm'' 0x2000702f 0xf800707f MF_match_opcode 0x8,
      opc ''th.vamoandw.v'' 0 INSN_CLASS_XTHEADZVAMO ''Ve,Vt,(s),VfVm'' 0x6000602f 0xf800707f MF_match_opcode 0x8,
      opc ''th.vamoandd.v'' 0 INSN_CLASS_XTHEADZVAMO ''Ve,Vt,(s),VfVm'' 0x6000702f 0xf800707f MF_match_opcode 0x8,
      opc ''th.vamoorw.v'' 0 INSN_CLASS_XTHEADZVAMO ''Ve,Vt,(s),VfVm'' 0x4000602f 0xf800707f MF_match_opcode 0x8,
      opc ''th.vamoord.v'' 0 INSN_CLASS_XTHEADZVAMO ''Ve,Vt,(s),VfVm'' 0x4000702f 0xf800707f MF_match_opcode 0x8,
      opc ''th.vamominw.v'' 0 INSN_CLASS_XTHEADZVAMO ''Ve,Vt,(s),VfVm'' 0x8000602f 0xf800707f MF_match_opcode 0x8,
      opc ''th.vamomind.v'' 0 INSN_CLASS_XTHEADZVAMO ''Ve,Vt,(s),VfVm'' 0x8000702f 0xf800707f MF_match_opcode 0x8,
      opc ''th.vamomaxw.v'' 0 INSN_CLASS_XTHEADZVAMO ''Ve,Vt,(s),VfVm'' 0xa000602f 0xf800707f MF_match_opcode 0x8,
      opc ''th.vamomaxd.v'' 0 INSN_CLASS_XTHEADZVAMO ''Ve,Vt,(s),VfVm'' 0xa000702f 0xf800707f MF_match_opcode 0x8,
      opc ''th.vamominuw.v'' 0 INSN_CLASS_XTHEADZVAMO ''Ve,Vt,(s),VfVm'' 0xc000602f 0xf800707f MF_match_opcode 0x8,
      opc ''th.vamominud.v'' 0 INSN_CLASS_XTHEADZVAMO ''Ve,Vt,(s),VfVm'' 0xc000702f 0xf800707f MF_match_opcode 0x8,
      opc ''th.vamomaxuw.v'' 0 INSN_CLASS_XTHEADZVAMO ''Ve,Vt,(s),VfVm'' 0xe000602f 0xf800707f MF_match_opcode 0x8,
      opc ''th.vamomaxud.v'' 0 INSN_CLASS_XTHEADZVAMO ''Ve,Vt,(s),VfVm'' 0xe000702f 0xf800707f MF_match_opcode 0x8,
      opc ''th.vneg.v'' 0 INSN_CLASS_XTHEADVECTOR ''Vd,VtVm'' 0xc004057 0xfc0ff07f MF_match_opcode 0x1,
      opc ''th.vadd.vv'' 0 INSN_CLASS_XTHEADVECTOR ''Vd,Vt,VsVm'' 0x57 0xfc00707f MF_match_opcode 0,
      opc ''th.vadd.vx'' 0 INSN_CLASS_XTHEADVECTOR ''Vd,Vt,sVm'' 0x4057 0xfc00707f MF_match_opcode 0,
      opc ''th.vadd.vi'' 0 INSN_CLASS_XTHEADVECTOR ''Vd,Vt,ViVm'' 0x3057 0xfc00707f MF_match_opcode 0,
      opc ''th.vsub.vv'' 0 INSN_CLASS_XTHEADVECTOR ''Vd,Vt,VsVm'' 0x8000057 0xfc00707f MF_match_opcode 0,
      opc ''th.vsub.vx'' 0 INSN_CLASS_XTHEADVECTOR ''Vd,Vt,sVm'' 0x8004057 0xfc00707f MF_match_opcode 0,
      opc ''th.vrsub.vx'' 0 INSN_CLASS_XTHEADVECTOR ''Vd,Vt,sVm'' 0xc004057 0xfc00707f MF_match_opcode 0,
      opc ''th.vrsub.vi'' 0 INSN_CLASS_XTHEADVECTOR ''Vd,Vt,ViVm'' 0xc003057 0xfc00707f MF_match_opcode 0,
      opc ''th.vwcvt.x.x.v'' 0 INSN_CLASS_XTHEADVECTOR ''Vd,VtVm'' 0xc4006057 0xfc0ff07f MF_match_opcode 0x1,
      opc ''th.vwcvtu.x.x.v'' 0 INSN_CLASS_XTHEADVECTOR ''Vd,VtVm'' 0xc0006057 0xfc0ff07f MF_match_opcode 0x1,
      opc ''th.vwaddu.vv'' 0 INSN_CLASS_XTHEADVECTOR ''Vd,Vt,VsVm'' 0xc0002057 0xfc00707f MF_match_opcode 0,
      opc ''th.vwaddu.vx'' 0 INSN_CLASS_XTHEADVECTOR ''Vd,Vt,sVm'' 0xc0006057 0xfc00707f MF_match_opcode 0,
      opc ''th.vwsubu.vv'' 0 INSN_CLASS_XTHEADVECTOR ''Vd,Vt,VsVm'' 0xc8002057 0xfc00707f MF_match_opcode 0,
      opc ''th.vwsubu.vx'' 0 INSN_CLASS_XTHEADVECTOR ''Vd,Vt,sVm'' 0xc8006057 0xfc00707f MF_match_opcode 0,
      opc ''th.vwadd.vv'' 0 INSN_CLASS_XTHEADVECTOR ''Vd,Vt,VsVm'' 0xc4002057 0xfc00707f MF_match_opcode 0,
      opc ''th.vwadd.vx'' 0 INSN_CLASS_XTHEADVECTOR ''Vd,Vt,sVm'' 0xc4006057 0xfc00707f MF_match_opcode 0,
      opc ''th.vwsub.vv'' 0 INSN_CLASS_XTHEADVECTOR ''Vd,Vt,VsVm'' 0xcc002057 0xfc00707f MF_match_opcode 0,
      opc ''th.vwsub.vx'' 0 INSN_CLASS_XTHEADVECTOR ''Vd,Vt,sVm'' 0xcc006057 0xfc00707f MF_match_opcode 0,
      opc ''th.vwaddu.wv'' 0 INSN_CLASS_XTHEADVECTOR ''Vd,Vt,VsVm'' 0xd0002057 0xfc00707f MF_match_opcode 0,
      opc ''th.vwaddu.wx'' 0 INSN_CLASS_XTHEADVECTOR ''Vd,Vt,sVm'' 0xd0006057 0xfc00707f MF_match_opcode 0,
      opc ''th.vwsubu.wv'' 0 INSN_CLASS_XTHEADVECTOR ''Vd,Vt,VsVm'' 0xd8002057 0xfc00707f MF_match_opcode 0,
      opc ''th.vwsubu.wx'' 0 INSN_CLASS_XTHEADVECTOR ''Vd,Vt,sVm'' 0xd8006057 0xfc00707f MF_match_opcode 0,
      opc ''th.vwadd.wv'' 0 INSN_CLASS_XTHEADVECTOR ''Vd,Vt,VsVm'' 0xd4002057 0xfc00707f MF_match_opcode 0,
      opc ''th.vwadd.wx'' 0 INSN_CLASS_XTHEADVECTOR ''Vd,Vt,sVm'' 0xd4006057 0xfc00707f MF_match_opcode 0,
      opc ''th.vwsub.wv'' 0 INSN_CLASS_XTHEADVECTOR ''Vd,Vt,VsVm'' 0xdc002057 0xfc00707f MF_match_opcode 0,
      opc ''th.vwsub.wx'' 0 INSN_CLASS_XTHEADVECTOR ''Vd,Vt,sVm'' 0xdc006057 0xfc00707f MF_match_opcode 0,
      opc ''th.vadc.vvm'' 0 INSN_CLASS_XTHEADVECTOR ''Vd,Vt,Vs,V0'' 0x42000057 0xfe00707f MF_match_opcode 0,
      opc ''th.vadc.vxm'' 0 INSN_CLASS_XTHEADVECTOR ''Vd,Vt,s,V0'' 0x42004057 0xfe00707f MF_match_opcode 0,
      opc ''th.vadc.vim'' 0 INSN_CLASS_XTHEADVECTOR ''Vd,Vt,Vi,V0'' 0x42003057 0xfe00707f MF_match_opcode 0,
      opc ''th.vmadc.vvm'' 0 INSN_CLASS_XTHEADVECTOR ''Vd,Vt,Vs,V0'' 0x46000057 0xfe00707f MF_match_opcode 0,
      opc ''th.vmadc.vxm'' 0 INSN_CLASS_XTHEADVECTOR ''Vd,Vt,s,V0'' 0x46004057 0xfe00707f MF_match_opcode 0,
      opc ''th.vmadc.vim'' 0 INSN_CLASS_XTHEADVECTOR ''Vd,Vt,Vi,V0'' 0x46003057 0xfe00707f MF_match_opcode 0,
      opc ''th.vsbc.vvm'' 0 INSN_CLASS_XTHEADVECTOR ''Vd,Vt,Vs,V0'' 0x4a000057 0xfe00707f MF_match_opcode 0,
      opc ''th.vsbc.vxm'' 0 INSN_CLASS_XTHEADVECTOR ''Vd,Vt,s,V0'' 0x4a004057 0xfe00707f MF_match_opcode 0,
      opc ''th.vmsbc.vvm'' 0 INSN_CLASS_XTHEADVECTOR ''Vd,Vt,Vs,V0'' 0x4e000057 0xfe00707f MF_match_opcode 0,
      opc ''th.vmsbc.vxm'' 0 INSN_CLASS_XTHEADVECTOR ''Vd,Vt,s,V0'' 0x4e004057 0xfe00707f MF_match_opcode 0,
      opc ''th.vnot.v'' 0 INSN_CLASS_XTHEADVECTOR ''Vd,VtVm'' 0x2c0fb057 0xfc0ff07f MF_match_opcode 0x1,
      opc ''th.vand.vv'' 0 INSN_CLASS_XTHEADVECTOR ''Vd,Vt,VsVm'' 0x24000057 0xfc00707f MF_match_opcode 0,
      opc ''th.vand.vx'' 0 INSN_CLASS_XTHEADVECTOR ''Vd,Vt,sVm'' 0x24004057 0xfc00707f MF_match_opcode 0,
      opc ''th.vand.vi'' 0 INSN_CLASS_XTHEADVECTOR ''Vd,Vt,ViVm'' 0x24003057 0xfc00707f MF_match_opcode 0,
      opc ''th.vor.vv'' 0 INSN_CLASS_XTHEADVECTOR ''Vd,Vt,VsVm'' 0x28000057 0xfc00707f MF_match_opcode 0,
      opc ''th.vor.vx'' 0 INSN_CLASS_XTHEADVECTOR ''Vd,Vt,sVm'' 0x28004057 0xfc00707f MF_match_opcode 0,
      opc ''th.vor.vi'' 0 INSN_CLASS_XTHEADVECTOR ''Vd,Vt,ViVm'' 0x28003057 0xfc00707f MF_match_opcode 0,
      opc ''th.vxor.vv'' 0 INSN_CLASS_XTHEADVECTOR ''Vd,Vt,VsVm'' 0x2c000057 0xfc00707f MF_match_opcode 0,
      opc ''th.vxor.vx'' 0 INSN_CLASS_XTHEADVECTOR ''Vd,Vt,sVm'' 0x2c004057 0xfc00707f MF_match_opcode 0,
      opc ''th.vxor.vi'' 0 INSN_CLASS_XTHEADVECTOR ''Vd,Vt,ViVm'' 0x2c003057 0xfc00707f MF_match_opcode 0,
      opc ''th.vsll.vv'' 0 INSN_CLASS_XTHEADVECTOR ''Vd,Vt,VsVm'' 0x94000057 0xfc00707f MF_match_opcode 0,
      opc ''th.vsll.vx'' 0 INSN_CLASS_XTHEADVECTOR ''Vd,Vt,sVm'' 0x94004057 0xfc00707f MF_match_opcode 0,
      opc ''th.vsll.vi'' 0 INSN_CLASS_XTHEADVECTOR ''Vd,Vt,VjVm'' 0x94003057 0xfc00707f MF_match_opcode 0,
      opc ''th.vsrl.vv'' 0 INSN_CLASS_XTHEADVECTOR ''Vd,Vt,VsVm'' 0xa0000057 0xfc00707f MF_match_opcode 0,
      opc ''th.vsrl.vx'' 0 INSN_CLASS_XTHEADVECTOR ''Vd,Vt,sVm'' 0xa0004057 0xfc00707f MF_match_opcode 0,
      opc ''th.vsrl.vi'' 0 INSN_CLASS_XTHEADVECTOR ''Vd,Vt,VjVm'' 0xa0003057 0xfc00707f MF_match_opcode 0,
      opc ''th.vsra.vv'' 0 INSN_CLASS_XTHEADVECTOR ''Vd,Vt,VsVm'' 0xa4000057 0xfc00707f MF_match_opcode 0,
      opc ''th.vsra.vx'' 0 INSN_CLASS_XTHEADVECTOR ''Vd,Vt,sVm'' 0xa4004057 0xfc00707f MF_match_opcode 0,
      opc ''th.vsra.vi'' 0 INSN_CLASS_XTHEADVECTOR ''Vd,Vt,VjVm'' 0xa4003057 0xfc00707f MF_match_opcode 0,
      opc ''th.vncvt.x.x.v'' 0 INSN_CLASS_XTHEADVECTOR ''Vd,VtVm'' 0xb0004057 0xfc0ff07f MF_match_opcode 0x1,
      opc ''th.vnsrl.vv'' 0 INSN_CLASS_XTHEADVECTOR ''Vd,Vt,VsVm'' 0xb0000057 0xfc00707f MF_match_opcode 0,
      opc ''th.vnsrl.vx'' 0 INSN_CLASS_XTHEADVECTOR ''Vd,Vt,sVm'' 0xb0004057 0xfc00707f MF_match_opcode 0,
      opc ''th.vnsrl.vi'' 0 INSN_CLASS_XTHEADVECTOR ''Vd,Vt,VjVm'' 0xb0003057 0xfc00707f MF_match_opcode 0,
      opc ''th.vnsra.vv'' 0 INSN_CLASS_XTHEADVECTOR ''Vd,Vt,VsVm'' 0xb4000057 0xfc00707f MF_match_opcode 0,
      opc ''th.vnsra.vx'' 0 INSN_CLASS_XTHEADVECTOR ''Vd,Vt,sVm'' 0xb4004057 0xfc00707f MF_match_opcode 0,
      opc ''th.vnsra.vi'' 0 INSN_CLASS_XTHEADVECTOR ''Vd,Vt,VjVm'' 0xb4003057 0xfc00707f MF_match_opcode 0,
      opc ''th.vmseq.vv'' 0 INSN_CLASS_XTHEADVECTOR ''Vd,Vt,VsVm'' 0x60000057 0xfc00707f MF_match_opcode 0,
      opc ''th.vmseq.vx'' 0 INSN_CLASS_XTHEADVECTOR ''Vd,Vt,sVm'' 0x60004057 0xfc00707f MF_match_opcode 0,
      opc ''th.vmseq.vi'' 0 INSN_CLASS_XTHEADVECTOR ''Vd,Vt,ViVm'' 0x60003057 0xfc00707f MF_match_opcode 0,
      opc ''th.vmsne.vv'' 0 INSN_CLASS_XTHEADVECTOR ''Vd,Vt,VsVm'' 0x64000057 0xfc00707f MF_match_opcode 0,
      opc ''th.vmsne.vx'' 0 INSN_CLASS_XTHEADVECTOR ''Vd,Vt,sVm'' 0x64004057 0xfc00707f MF_match_opcode 0,
      opc ''th.vmsne.vi'' 0 INSN_CLASS_XTHEADVECTOR ''Vd,Vt,ViVm'' 0x64003057 0xfc00707f MF_match_opcode 0,
      opc ''th.vmsltu.vv'' 0 INSN_CLASS_XTHEADVECTOR ''Vd,Vt,VsVm'' 0x68000057 0xfc00707f MF_match_opcode 0,
      opc ''th.vmsltu.vx'' 0 INSN_CLASS_XTHEADVECTOR ''Vd,Vt,sVm'' 0x68004057 0xfc00707f MF_match_opcode 0,
      opc ''th.vmslt.vv'' 0 INSN_CLASS_XTHEADVECTOR ''Vd,Vt,VsVm'' 0x6c000057 0xfc00707f MF_match_opcode 0,
      opc ''th.vmslt.vx'' 0 INSN_CLASS_XTHEADVECTOR ''Vd,Vt,sVm'' 0x6c004057 0xfc00707f MF_match_opcode 0,
      opc ''th.vmsleu.vv'' 0 INSN_CLASS_XTHEADVECTOR ''Vd,Vt,VsVm'' 0x70000057 0xfc00707f MF_match_opcode 0,
      opc ''th.vmsleu.vx'' 0 INSN_CLASS_XTHEADVECTOR ''Vd,Vt,sVm'' 0x70004057 0xfc00707f MF_match_opcode 0,
      opc ''th.vmsleu.vi'' 0 INSN_CLASS_XTHEADVECTOR ''Vd,Vt,ViVm'' 0x70003057 0xfc00707f MF_match_opcode 0,
      opc ''th.vmsle.vv'' 0 INSN_CLASS_XTHEADVECTOR ''Vd,Vt,VsVm'' 0x74000057 0xfc00707f MF_match_opcode 0,
      opc ''th.vmsle.vx'' 0 INSN_CLASS_XTHEADVECTOR ''Vd,Vt,sVm'' 0x74004057 0xfc00707f MF_match_opcode 0,
      opc ''th.vmsle.vi'' 0 INSN_CLASS_XTHEADVECTOR ''Vd,Vt,ViVm'' 0x74003057 0xfc00707f MF_match_opcode 0,
      opc ''th.vmsgtu.vx'' 0 INSN_CLASS_XTHEADVECTOR ''Vd,Vt,sVm'' 0x78004057 0xfc00707f MF_match_opcode 0,
      opc ''th.vmsgtu.vi'' 0 INSN_CLASS_XTHEADVECTOR ''Vd,Vt,ViVm'' 0x78003057 0xfc00707f MF_match_opcode 0,
      opc ''th.vmsgt.vx'' 0 INSN_CLASS_XTHEADVECTOR ''Vd,Vt,sVm'' 0x7c004057 0xfc00707f MF_match_opcode 0,
      opc ''th.vmsgt.vi'' 0 INSN_CLASS_XTHEADVECTOR ''Vd,Vt,ViVm'' 0x7c003057 0xfc00707f MF_match_opcode 0,
      opc ''th.vmsgt.vv'' 0 INSN_CLASS_XTHEADVECTOR ''Vd,Vs,VtVm'' 0x6c000057 0xfc00707f MF_match_opcode 0x1,
      opc ''th.vmsgtu.vv'' 0 INSN_CLASS_XTHEADVECTOR ''Vd,Vs,VtVm'' 0x68000057 0xfc00707f MF_match_opcode 0x1,
      opc ''th.vmsge.vv'' 0 INSN_CLASS_XTHEADVECTOR ''Vd,Vs,VtVm'' 0x74000057 0xfc00707f MF_match_opcode 0x1,
      opc ''th.vmsgeu.vv'' 0 INSN_CLASS_XTHEADVECTOR ''Vd,Vs,VtVm'' 0x70000057 0xfc00707f MF_match_opcode 0x1,
      opc ''th.vmslt.vi'' 0 INSN_CLASS_XTHEADVECTOR ''Vd,Vt,VkVm'' 0x74003057 0xfc00707f MF_match_opcode 0x1,
      opc ''th.vmsltu.vi'' 0 INSN_CLASS_XTHEADVECTOR ''Vd,Vt,VkVm'' 0x70003057 0xfc00707f MF_match_opcode 0x1,
      opc ''th.vmsge.vi'' 0 INSN_CLASS_XTHEADVECTOR ''Vd,Vt,VkVm'' 0x7c003057 0xfc00707f MF_match_opcode 0x1,
      opc ''th.vmsgeu.vi'' 0 INSN_CLASS_XTHEADVECTOR ''Vd,Vt,VkVm'' 0x78003057 0xfc00707f MF_match_opcode 0x1,
      opc ''th.vmsge.vx'' 0 INSN_CLASS_XTHEADVECTOR ''Vd,Vt,sVm'' 0 0xe MF_NULL 0xffffffff,
      opc ''th.vmsge.vx'' 0 INSN_CLASS_XTHEADVECTOR ''Vd,Vt,s,VM,VT'' 0 0xe MF_NULL 0xffffffff,
      opc ''th.vmsgeu.vx'' 0 INSN_CLASS_XTHEADVECTOR ''Vd,Vt,sVm'' 0x1 0xe MF_NULL 0xffffffff,
      opc ''th.vmsgeu.vx'' 0 INSN_CLASS_XTHEADVECTOR ''Vd,Vt,s,VM,VT'' 0x1 0xe MF_NULL 0xffffffff,
      opc ''th.vminu.vv'' 0 INSN_CLASS_XTHEADVECTOR ''Vd,Vt,VsVm'' 0x10000057 0xfc00707f MF_match_opcode 0,
      opc ''th.vminu.vx'' 0 INSN_CLASS_XTHEADVECTOR ''Vd,Vt,sVm'' 0x10004057 0xfc00707f MF_match_opcode 0,
      opc ''th.vmin.vv'' 0 INSN_CLASS_XTHEADVECTOR ''Vd,Vt,VsVm'' 0x14000057 0xfc00707f MF_match_opcode 0,
      opc ''th.vmin.vx'' 0 INSN_CLASS_XTHEADVECTOR ''Vd,Vt,sVm'' 0x14004057 0xfc00707f MF_match_opcode 0,
      opc ''th.vmaxu.vv'' 0 INSN_CLASS_XTHEADVECTOR ''Vd,Vt,VsVm'' 0x18000057 0xfc00707f MF_match_opcode 0]"

definition riscv_opcodes_18 :: "riscv_opcode list" where
  "riscv_opcodes_18 =
     [opc ''th.vmaxu.vx'' 0 INSN_CLASS_XTHEADVECTOR ''Vd,Vt,sVm'' 0x18004057 0xfc00707f MF_match_opcode 0,
      opc ''th.vmax.vv'' 0 INSN_CLASS_XTHEADVECTOR ''Vd,Vt,VsVm'' 0x1c000057 0xfc00707f MF_match_opcode 0,
      opc ''th.vmax.vx'' 0 INSN_CLASS_XTHEADVECTOR ''Vd,Vt,sVm'' 0x1c004057 0xfc00707f MF_match_opcode 0,
      opc ''th.vmul.vv'' 0 INSN_CLASS_XTHEADVECTOR ''Vd,Vt,VsVm'' 0x94002057 0xfc00707f MF_match_opcode 0,
      opc ''th.vmul.vx'' 0 INSN_CLASS_XTHEADVECTOR ''Vd,Vt,sVm'' 0x94006057 0xfc00707f MF_match_opcode 0,
      opc ''th.vmulh.vv'' 0 INSN_CLASS_XTHEADVECTOR ''Vd,Vt,VsVm'' 0x9c002057 0xfc00707f MF_match_opcode 0,
      opc ''th.vmulh.vx'' 0 INSN_CLASS_XTHEADVECTOR ''Vd,Vt,sVm'' 0x9c006057 0xfc00707f MF_match_opcode 0,
      opc ''th.vmulhu.vv'' 0 INSN_CLASS_XTHEADVECTOR ''Vd,Vt,VsVm'' 0x90002057 0xfc00707f MF_match_opcode 0,
      opc ''th.vmulhu.vx'' 0 INSN_CLASS_XTHEADVECTOR ''Vd,Vt,sVm'' 0x90006057 0xfc00707f MF_match_opcode 0,
      opc ''th.vmulhsu.vv'' 0 INSN_CLASS_XTHEADVECTOR ''Vd,Vt,VsVm'' 0x98002057 0xfc00707f MF_match_opcode 0,
      opc ''th.vmulhsu.vx'' 0 INSN_CLASS_XTHEADVECTOR ''Vd,Vt,sVm'' 0x98006057 0xfc00707f MF_match_opcode 0,
      opc ''th.vwmul.vv'' 0 INSN_CLASS_XTHEADVECTOR ''Vd,Vt,VsVm'' 0xec002057 0xfc00707f MF_match_opcode 0,
      opc ''th.vwmul.vx'' 0 INSN_CLASS_XTHEADVECTOR ''Vd,Vt,sVm'' 0xec006057 0xfc00707f MF_match_opcode 0,
      opc ''th.vwmulu.vv'' 0 INSN_CLASS_XTHEADVECTOR ''Vd,Vt,VsVm'' 0xe0002057 0xfc00707f MF_match_opcode 0,
      opc ''th.vwmulu.vx'' 0 INSN_CLASS_XTHEADVECTOR ''Vd,Vt,sVm'' 0xe0006057 0xfc00707f MF_match_opcode 0,
      opc ''th.vwmulsu.vv'' 0 INSN_CLASS_XTHEADVECTOR ''Vd,Vt,VsVm'' 0xe8002057 0xfc00707f MF_match_opcode 0,
      opc ''th.vwmulsu.vx'' 0 INSN_CLASS_XTHEADVECTOR ''Vd,Vt,sVm'' 0xe8006057 0xfc00707f MF_match_opcode 0,
      opc ''th.vmacc.vv'' 0 INSN_CLASS_XTHEADVECTOR ''Vd,Vs,VtVm'' 0xb4002057 0xfc00707f MF_match_opcode 0,
      opc ''th.vmacc.vx'' 0 INSN_CLASS_XTHEADVECTOR ''Vd,s,VtVm'' 0xb4006057 0xfc00707f MF_match_opcode 0,
      opc ''th.vnmsac.vv'' 0 INSN_CLASS_XTHEADVECTOR ''Vd,Vs,VtVm'' 0xbc002057 0xfc00707f MF_match_opcode 0,
      opc ''th.vnmsac.vx'' 0 INSN_CLASS_XTHEADVECTOR ''Vd,s,VtVm'' 0xbc006057 0xfc00707f MF_match_opcode 0,
      opc ''th.vmadd.vv'' 0 INSN_CLASS_XTHEADVECTOR ''Vd,Vs,VtVm'' 0xa4002057 0xfc00707f MF_match_opcode 0,
      opc ''th.vmadd.vx'' 0 INSN_CLASS_XTHEADVECTOR ''Vd,s,VtVm'' 0xa4006057 0xfc00707f MF_match_opcode 0,
      opc ''th.vnmsub.vv'' 0 INSN_CLASS_XTHEADVECTOR ''Vd,Vs,VtVm'' 0xac002057 0xfc00707f MF_match_opcode 0,
      opc ''th.vnmsub.vx'' 0 INSN_CLASS_XTHEADVECTOR ''Vd,s,VtVm'' 0xac006057 0xfc00707f MF_match_opcode 0,
      opc ''th.vwmaccu.vv'' 0 INSN_CLASS_XTHEADVECTOR ''Vd,Vs,VtVm'' 0xf0002057 0xfc00707f MF_match_opcode 0,
      opc ''th.vwmaccu.vx'' 0 INSN_CLASS_XTHEADVECTOR ''Vd,s,VtVm'' 0xf0006057 0xfc00707f MF_match_opcode 0,
      opc ''th.vwmacc.vv'' 0 INSN_CLASS_XTHEADVECTOR ''Vd,Vs,VtVm'' 0xf4002057 0xfc00707f MF_match_opcode 0,
      opc ''th.vwmacc.vx'' 0 INSN_CLASS_XTHEADVECTOR ''Vd,s,VtVm'' 0xf4006057 0xfc00707f MF_match_opcode 0,
      opc ''th.vwmaccsu.vv'' 0 INSN_CLASS_XTHEADVECTOR ''Vd,Vs,VtVm'' 0xf8002057 0xfc00707f MF_match_opcode 0,
      opc ''th.vwmaccsu.vx'' 0 INSN_CLASS_XTHEADVECTOR ''Vd,s,VtVm'' 0xf8006057 0xfc00707f MF_match_opcode 0,
      opc ''th.vwmaccus.vx'' 0 INSN_CLASS_XTHEADVECTOR ''Vd,s,VtVm'' 0xfc006057 0xfc00707f MF_match_opcode 0,
      opc ''th.vdivu.vv'' 0 INSN_CLASS_XTHEADVECTOR ''Vd,Vt,VsVm'' 0x80002057 0xfc00707f MF_match_opcode 0,
      opc ''th.vdivu.vx'' 0 INSN_CLASS_XTHEADVECTOR ''Vd,Vt,sVm'' 0x80006057 0xfc00707f MF_match_opcode 0,
      opc ''th.vdiv.vv'' 0 INSN_CLASS_XTHEADVECTOR ''Vd,Vt,VsVm'' 0x84002057 0xfc00707f MF_match_opcode 0,
      opc ''th.vdiv.vx'' 0 INSN_CLASS_XTHEADVECTOR ''Vd,Vt,sVm'' 0x84006057 0xfc00707f MF_match_opcode 0,
      opc ''th.vremu.vv'' 0 INSN_CLASS_XTHEADVECTOR ''Vd,Vt,VsVm'' 0x88002057 0xfc00707f MF_match_opcode 0,
      opc ''th.vremu.vx'' 0 INSN_CLASS_XTHEADVECTOR ''Vd,Vt,sVm'' 0x88006057 0xfc00707f MF_match_opcode 0,
      opc ''th.vrem.vv'' 0 INSN_CLASS_XTHEADVECTOR ''Vd,Vt,VsVm'' 0x8c002057 0xfc00707f MF_match_opcode 0,
      opc ''th.vrem.vx'' 0 INSN_CLASS_XTHEADVECTOR ''Vd,Vt,sVm'' 0x8c006057 0xfc00707f MF_match_opcode 0,
      opc ''th.vmerge.vvm'' 0 INSN_CLASS_XTHEADVECTOR ''Vd,Vt,Vs,V0'' 0x5c000057 0xfe00707f MF_match_opcode 0,
      opc ''th.vmerge.vxm'' 0 INSN_CLASS_XTHEADVECTOR ''Vd,Vt,s,V0'' 0x5c004057 0xfe00707f MF_match_opcode 0,
      opc ''th.vmerge.vim'' 0 INSN_CLASS_XTHEADVECTOR ''Vd,Vt,Vi,V0'' 0x5c003057 0xfe00707f MF_match_opcode 0,
      opc ''th.vmv.v.v'' 0 INSN_CLASS_XTHEADVECTOR ''Vd,Vs'' 0x5e000057 0xfff0707f MF_match_opcode 0,
      opc ''th.vmv.v.x'' 0 INSN_CLASS_XTHEADVECTOR ''Vd,s'' 0x5e004057 0xfff0707f MF_match_opcode 0,
      opc ''th.vmv.v.i'' 0 INSN_CLASS_XTHEADVECTOR ''Vd,Vi'' 0x5e003057 0xfff0707f MF_match_opcode 0,
      opc ''th.vsaddu.vv'' 0 INSN_CLASS_XTHEADVECTOR ''Vd,Vt,VsVm'' 0x80000057 0xfc00707f MF_match_opcode 0,
      opc ''th.vsaddu.vx'' 0 INSN_CLASS_XTHEADVECTOR ''Vd,Vt,sVm'' 0x80004057 0xfc00707f MF_match_opcode 0,
      opc ''th.vsaddu.vi'' 0 INSN_CLASS_XTHEADVECTOR ''Vd,Vt,ViVm'' 0x80003057 0xfc00707f MF_match_opcode 0,
      opc ''th.vsadd.vv'' 0 INSN_CLASS_XTHEADVECTOR ''Vd,Vt,VsVm'' 0x84000057 0xfc00707f MF_match_opcode 0,
      opc ''th.vsadd.vx'' 0 INSN_CLASS_XTHEADVECTOR ''Vd,Vt,sVm'' 0x84004057 0xfc00707f MF_match_opcode 0,
      opc ''th.vsadd.vi'' 0 INSN_CLASS_XTHEADVECTOR ''Vd,Vt,ViVm'' 0x84003057 0xfc00707f MF_match_opcode 0,
      opc ''th.vssubu.vv'' 0 INSN_CLASS_XTHEADVECTOR ''Vd,Vt,VsVm'' 0x88000057 0xfc00707f MF_match_opcode 0,
      opc ''th.vssubu.vx'' 0 INSN_CLASS_XTHEADVECTOR ''Vd,Vt,sVm'' 0x88004057 0xfc00707f MF_match_opcode 0,
      opc ''th.vssub.vv'' 0 INSN_CLASS_XTHEADVECTOR ''Vd,Vt,VsVm'' 0x8c000057 0xfc00707f MF_match_opcode 0,
      opc ''th.vssub.vx'' 0 INSN_CLASS_XTHEADVECTOR ''Vd,Vt,sVm'' 0x8c004057 0xfc00707f MF_match_opcode 0,
      opc ''th.vaadd.vv'' 0 INSN_CLASS_XTHEADVECTOR ''Vd,Vt,VsVm'' 0x90000057 0xfc00707f MF_match_opcode 0,
      opc ''th.vaadd.vx'' 0 INSN_CLASS_XTHEADVECTOR ''Vd,Vt,sVm'' 0x90004057 0xfc00707f MF_match_opcode 0,
      opc ''th.vaadd.vi'' 0 INSN_CLASS_XTHEADVECTOR ''Vd,Vt,ViVm'' 0x90003057 0xfc00707f MF_match_opcode 0,
      opc ''th.vasub.vv'' 0 INSN_CLASS_XTHEADVECTOR ''Vd,Vt,VsVm'' 0x98000057 0xfc00707f MF_match_opcode 0,
      opc ''th.vasub.vx'' 0 INSN_CLASS_XTHEADVECTOR ''Vd,Vt,sVm'' 0x98004057 0xfc00707f MF_match_opcode 0,
      opc ''th.vsmul.vv'' 0 INSN_CLASS_XTHEADVECTOR ''Vd,Vt,VsVm'' 0x9c000057 0xfc00707f MF_match_opcode 0,
      opc ''th.vsmul.vx'' 0 INSN_CLASS_XTHEADVECTOR ''Vd,Vt,sVm'' 0x9c004057 0xfc00707f MF_match_opcode 0,
      opc ''th.vwsmaccu.vv'' 0 INSN_CLASS_XTHEADVECTOR ''Vd,Vs,VtVm'' 0xf0000057 0xfc00707f MF_match_opcode 0,
      opc ''th.vwsmaccu.vx'' 0 INSN_CLASS_XTHEADVECTOR ''Vd,s,VtVm'' 0xf0004057 0xfc00707f MF_match_opcode 0,
      opc ''th.vwsmacc.vv'' 0 INSN_CLASS_XTHEADVECTOR ''Vd,Vs,VtVm'' 0xf4000057 0xfc00707f MF_match_opcode 0,
      opc ''th.vwsmacc.vx'' 0 INSN_CLASS_XTHEADVECTOR ''Vd,s,VtVm'' 0xf4004057 0xfc00707f MF_match_opcode 0,
      opc ''th.vwsmaccsu.vv'' 0 INSN_CLASS_XTHEADVECTOR ''Vd,Vs,VtVm'' 0xf8000057 0xfc00707f MF_match_opcode 0,
      opc ''th.vwsmaccsu.vx'' 0 INSN_CLASS_XTHEADVECTOR ''Vd,s,VtVm'' 0xf8004057 0xfc00707f MF_match_opcode 0,
      opc ''th.vwsmaccus.vx'' 0 INSN_CLASS_XTHEADVECTOR ''Vd,s,VtVm'' 0xfc004057 0xfc00707f MF_match_opcode 0,
      opc ''th.vssrl.vv'' 0 INSN_CLASS_XTHEADVECTOR ''Vd,Vt,VsVm'' 0xa8000057 0xfc00707f MF_match_opcode 0,
      opc ''th.vssrl.vx'' 0 INSN_CLASS_XTHEADVECTOR ''Vd,Vt,sVm'' 0xa8004057 0xfc00707f MF_match_opcode 0,
      opc ''th.vssrl.vi'' 0 INSN_CLASS_XTHEADVECTOR ''Vd,Vt,VjVm'' 0xa8003057 0xfc00707f MF_match_opcode 0,
      opc ''th.vssra.vv'' 0 INSN_CLASS_XTHEADVECTOR ''Vd,Vt,VsVm'' 0xac000057 0xfc00707f MF_match_opcode 0,
      opc ''th.vssra.vx'' 0 INSN_CLASS_XTHEADVECTOR ''Vd,Vt,sVm'' 0xac004057 0xfc00707f MF_match_opcode 0,
      opc ''th.vssra.vi'' 0 INSN_CLASS_XTHEADVECTOR ''Vd,Vt,VjVm'' 0xac003057 0xfc00707f MF_match_opcode 0,
      opc ''th.vnclipu.vv'' 0 INSN_CLASS_XTHEADVECTOR ''Vd,Vt,VsVm'' 0xb8000057 0xfc00707f MF_match_opcode 0,
      opc ''th.vnclipu.vx'' 0 INSN_CLASS_XTHEADVECTOR ''Vd,Vt,sVm'' 0xb8004057 0xfc00707f MF_match_opcode 0,
      opc ''th.vnclipu.vi'' 0 INSN_CLASS_XTHEADVECTOR ''Vd,Vt,VjVm'' 0xb8003057 0xfc00707f MF_match_opcode 0,
      opc ''th.vnclip.vv'' 0 INSN_CLASS_XTHEADVECTOR ''Vd,Vt,VsVm'' 0xbc000057 0xfc00707f MF_match_opcode 0,
      opc ''th.vnclip.vx'' 0 INSN_CLASS_XTHEADVECTOR ''Vd,Vt,sVm'' 0xbc004057 0xfc00707f MF_match_opcode 0,
      opc ''th.vnclip.vi'' 0 INSN_CLASS_XTHEADVECTOR ''Vd,Vt,VjVm'' 0xbc003057 0xfc00707f MF_match_opcode 0,
      opc ''th.vfadd.vv'' 0 INSN_CLASS_XTHEADVECTOR ''Vd,Vt,VsVm'' 0x1057 0xfc00707f MF_match_opcode 0,
      opc ''th.vfadd.vf'' 0 INSN_CLASS_XTHEADVECTOR ''Vd,Vt,SVm'' 0x5057 0xfc00707f MF_match_opcode 0,
      opc ''th.vfsub.vv'' 0 INSN_CLASS_XTHEADVECTOR ''Vd,Vt,VsVm'' 0x8001057 0xfc00707f MF_match_opcode 0,
      opc ''th.vfsub.vf'' 0 INSN_CLASS_XTHEADVECTOR ''Vd,Vt,SVm'' 0x8005057 0xfc00707f MF_match_opcode 0,
      opc ''th.vfrsub.vf'' 0 INSN_CLASS_XTHEADVECTOR ''Vd,Vt,SVm'' 0x9c005057 0xfc00707f MF_match_opcode 0,
      opc ''th.vfwadd.vv'' 0 INSN_CLASS_XTHEADVECTOR ''Vd,Vt,VsVm'' 0xc0001057 0xfc00707f MF_match_opcode 0,
      opc ''th.vfwadd.vf'' 0 INSN_CLASS_XTHEADVECTOR ''Vd,Vt,SVm'' 0xc0005057 0xfc00707f MF_match_opcode 0,
      opc ''th.vfwsub.vv'' 0 INSN_CLASS_XTHEADVECTOR ''Vd,Vt,VsVm'' 0xc8001057 0xfc00707f MF_match_opcode 0,
      opc ''th.vfwsub.vf'' 0 INSN_CLASS_XTHEADVECTOR ''Vd,Vt,SVm'' 0xc8005057 0xfc00707f MF_match_opcode 0,
      opc ''th.vfwadd.wv'' 0 INSN_CLASS_XTHEADVECTOR ''Vd,Vt,VsVm'' 0xd0001057 0xfc00707f MF_match_opcode 0,
      opc ''th.vfwsub.wv'' 0 INSN_CLASS_XTHEADVECTOR ''Vd,Vt,VsVm'' 0xd8001057 0xfc00707f MF_match_opcode 0,
      opc ''th.vfwadd.wf'' 0 INSN_CLASS_XTHEADVECTOR ''Vd,Vt,SVm'' 0xd0005057 0xfc00707f MF_match_opcode 0,
      opc ''th.vfwsub.wf'' 0 INSN_CLASS_XTHEADVECTOR ''Vd,Vt,SVm'' 0xd8005057 0xfc00707f MF_match_opcode 0,
      opc ''th.vfmul.vv'' 0 INSN_CLASS_XTHEADVECTOR ''Vd,Vt,VsVm'' 0x90001057 0xfc00707f MF_match_opcode 0,
      opc ''th.vfmul.vf'' 0 INSN_CLASS_XTHEADVECTOR ''Vd,Vt,SVm'' 0x90005057 0xfc00707f MF_match_opcode 0,
      opc ''th.vfdiv.vv'' 0 INSN_CLASS_XTHEADVECTOR ''Vd,Vt,VsVm'' 0x80001057 0xfc00707f MF_match_opcode 0,
      opc ''th.vfdiv.vf'' 0 INSN_CLASS_XTHEADVECTOR ''Vd,Vt,SVm'' 0x80005057 0xfc00707f MF_match_opcode 0,
      opc ''th.vfrdiv.vf'' 0 INSN_CLASS_XTHEADVECTOR ''Vd,Vt,SVm'' 0x84005057 0xfc00707f MF_match_opcode 0,
      opc ''th.vfwmul.vv'' 0 INSN_CLASS_XTHEADVECTOR ''Vd,Vt,VsVm'' 0xe0001057 0xfc00707f MF_match_opcode 0,
      opc ''th.vfwmul.vf'' 0 INSN_CLASS_XTHEADVECTOR ''Vd,Vt,SVm'' 0xe0005057 0xfc00707f MF_match_opcode 0,
      opc ''th.vfmadd.vv'' 0 INSN_CLASS_XTHEADVECTOR ''Vd,Vs,VtVm'' 0xa0001057 0xfc00707f MF_match_opcode 0,
      opc ''th.vfmadd.vf'' 0 INSN_CLASS_XTHEADVECTOR ''Vd,S,VtVm'' 0xa0005057 0xfc00707f MF_match_opcode 0,
      opc ''th.vfnmadd.vv'' 0 INSN_CLASS_XTHEADVECTOR ''Vd,Vs,VtVm'' 0xa4001057 0xfc00707f MF_match_opcode 0,
      opc ''th.vfnmadd.vf'' 0 INSN_CLASS_XTHEADVECTOR ''Vd,S,VtVm'' 0xa4005057 0xfc00707f MF_match_opcode 0,
      opc ''th.vfmsub.vv'' 0 INSN_CLASS_XTHEADVECTOR ''Vd,Vs,VtVm'' 0xa8001057 0xfc00707f MF_match_opcode 0,
      opc ''th.vfmsub.vf'' 0 INSN_CLASS_XTHEADVECTOR ''Vd,S,VtVm'' 0xa8005057 0xfc00707f MF_match_opcode 0,
      opc ''th.vfnmsub.vv'' 0 INSN_CLASS_XTHEADVECTOR ''Vd,Vs,VtVm'' 0xac001057 0xfc00707f MF_match_opcode 0,
      opc ''th.vfnmsub.vf'' 0 INSN_CLASS_XTHEADVECTOR ''Vd,S,VtVm'' 0xac005057 0xfc00707f MF_match_opcode 0,
      opc ''th.vfmacc.vv'' 0 INSN_CLASS_XTHEADVECTOR ''Vd,Vs,VtVm'' 0xb0001057 0xfc00707f MF_match_opcode 0,
      opc ''th.vfmacc.vf'' 0 INSN_CLASS_XTHEADVECTOR ''Vd,S,VtVm'' 0xb0005057 0xfc00707f MF_match_opcode 0,
      opc ''th.vfnmacc.vv'' 0 INSN_CLASS_XTHEADVECTOR ''Vd,Vs,VtVm'' 0xb4001057 0xfc00707f MF_match_opcode 0,
      opc ''th.vfnmacc.vf'' 0 INSN_CLASS_XTHEADVECTOR ''Vd,S,VtVm'' 0xb4005057 0xfc00707f MF_match_opcode 0,
      opc ''th.vfmsac.vv'' 0 INSN_CLASS_XTHEADVECTOR ''Vd,Vs,VtVm'' 0xb8001057 0xfc00707f MF_match_opcode 0,
      opc ''th.vfmsac.vf'' 0 INSN_CLASS_XTHEADVECTOR ''Vd,S,VtVm'' 0xb8005057 0xfc00707f MF_match_opcode 0,
      opc ''th.vfnmsac.vv'' 0 INSN_CLASS_XTHEADVECTOR ''Vd,Vs,VtVm'' 0xbc001057 0xfc00707f MF_match_opcode 0,
      opc ''th.vfnmsac.vf'' 0 INSN_CLASS_XTHEADVECTOR ''Vd,S,VtVm'' 0xbc005057 0xfc00707f MF_match_opcode 0,
      opc ''th.vfwmacc.vv'' 0 INSN_CLASS_XTHEADVECTOR ''Vd,Vs,VtVm'' 0xf0001057 0xfc00707f MF_match_opcode 0,
      opc ''th.vfwmacc.vf'' 0 INSN_CLASS_XTHEADVECTOR ''Vd,S,VtVm'' 0xf0005057 0xfc00707f MF_match_opcode 0,
      opc ''th.vfwnmacc.vv'' 0 INSN_CLASS_XTHEADVECTOR ''Vd,Vs,VtVm'' 0xf4001057 0xfc00707f MF_match_opcode 0,
      opc ''th.vfwnmacc.vf'' 0 INSN_CLASS_XTHEADVECTOR ''Vd,S,VtVm'' 0xf4005057 0xfc00707f MF_match_opcode 0,
      opc ''th.vfwmsac.vv'' 0 INSN_CLASS_XTHEADVECTOR ''Vd,Vs,VtVm'' 0xf8001057 0xfc00707f MF_match_opcode 0,
      opc ''th.vfwmsac.vf'' 0 INSN_CLASS_XTHEADVECTOR ''Vd,S,VtVm'' 0xf8005057 0xfc00707f MF_match_opcode 0,
      opc ''th.vfwnmsac.vv'' 0 INSN_CLASS_XTHEADVECTOR ''Vd,Vs,VtVm'' 0xfc001057 0xfc00707f MF_match_opcode 0,
      opc ''th.vfwnmsac.vf'' 0 INSN_CLASS_XTHEADVECTOR ''Vd,S,VtVm'' 0xfc005057 0xfc00707f MF_match_opcode 0,
      opc ''th.vfsqrt.v'' 0 INSN_CLASS_XTHEADVECTOR ''Vd,VtVm'' 0x8c001057 0xfc0ff07f MF_match_opcode 0,
      opc ''th.vfmin.vv'' 0 INSN_CLASS_XTHEADVECTOR ''Vd,Vt,VsVm'' 0x10001057 0xfc00707f MF_match_opcode 0,
      opc ''th.vfmin.vf'' 0 INSN_CLASS_XTHEADVECTOR ''Vd,Vt,SVm'' 0x10005057 0xfc00707f MF_match_opcode 0,
      opc ''th.vfmax.vv'' 0 INSN_CLASS_XTHEADVECTOR ''Vd,Vt,VsVm'' 0x18001057 0xfc00707f MF_match_opcode 0,
      opc ''th.vfmax.vf'' 0 INSN_CLASS_XTHEADVECTOR ''Vd,Vt,SVm'' 0x18005057 0xfc00707f MF_match_opcode 0,
      opc ''th.vfneg.v'' 0 INSN_CLASS_XTHEADVECTOR ''Vd,VuVm'' 0x24001057 0xfc00707f MF_match_vs1_eq_vs2 0x1,
      opc ''th.vfabs.v'' 0 INSN_CLASS_XTHEADVECTOR ''Vd,VuVm'' 0x28001057 0xfc00707f MF_match_vs1_eq_vs2 0x1,
      opc ''th.vfsgnj.vv'' 0 INSN_CLASS_XTHEADVECTOR ''Vd,Vt,VsVm'' 0x20001057 0xfc00707f MF_match_opcode 0,
      opc ''th.vfsgnj.vf'' 0 INSN_CLASS_XTHEADVECTOR ''Vd,Vt,SVm'' 0x20005057 0xfc00707f MF_match_opcode 0,
      opc ''th.vfsgnjn.vv'' 0 INSN_CLASS_XTHEADVECTOR ''Vd,Vt,VsVm'' 0x24001057 0xfc00707f MF_match_opcode 0,
      opc ''th.vfsgnjn.vf'' 0 INSN_CLASS_XTHEADVECTOR ''Vd,Vt,SVm'' 0x24005057 0xfc00707f MF_match_opcode 0,
      opc ''th.vfsgnjx.vv'' 0 INSN_CLASS_XTHEADVECTOR ''Vd,Vt,VsVm'' 0x28001057 0xfc00707f MF_match_opcode 0,
      opc ''th.vfsgnjx.vf'' 0 INSN_CLASS_XTHEADVECTOR ''Vd,Vt,SVm'' 0x28005057 0xfc00707f MF_match_opcode 0,
      opc ''th.vmfeq.vv'' 0 INSN_CLASS_XTHEADVECTOR ''Vd,Vt,VsVm'' 0x60001057 0xfc00707f MF_match_opcode 0,
      opc ''th.vmfeq.vf'' 0 INSN_CLASS_XTHEADVECTOR ''Vd,Vt,SVm'' 0x60005057 0xfc00707f MF_match_opcode 0,
      opc ''th.vmfne.vv'' 0 INSN_CLASS_XTHEADVECTOR ''Vd,Vt,VsVm'' 0x70001057 0xfc00707f MF_match_opcode 0,
      opc ''th.vmfne.vf'' 0 INSN_CLASS_XTHEADVECTOR ''Vd,Vt,SVm'' 0x70005057 0xfc00707f MF_match_opcode 0,
      opc ''th.vmflt.vv'' 0 INSN_CLASS_XTHEADVECTOR ''Vd,Vt,VsVm'' 0x6c001057 0xfc00707f MF_match_opcode 0,
      opc ''th.vmflt.vf'' 0 INSN_CLASS_XTHEADVECTOR ''Vd,Vt,SVm'' 0x6c005057 0xfc00707f MF_match_opcode 0,
      opc ''th.vmfle.vv'' 0 INSN_CLASS_XTHEADVECTOR ''Vd,Vt,VsVm'' 0x64001057 0xfc00707f MF_match_opcode 0,
      opc ''th.vmfle.vf'' 0 INSN_CLASS_XTHEADVECTOR ''Vd,Vt,SVm'' 0x64005057 0xfc00707f MF_match_opcode 0,
      opc ''th.vmfgt.vf'' 0 INSN_CLASS_XTHEADVECTOR ''Vd,Vt,SVm'' 0x74005057 0xfc00707f MF_match_opcode 0]"

definition riscv_opcodes_19 :: "riscv_opcode list" where
  "riscv_opcodes_19 =
     [opc ''th.vmfge.vf'' 0 INSN_CLASS_XTHEADVECTOR ''Vd,Vt,SVm'' 0x7c005057 0xfc00707f MF_match_opcode 0,
      opc ''th.vmfgt.vv'' 0 INSN_CLASS_XTHEADVECTOR ''Vd,Vs,VtVm'' 0x6c001057 0xfc00707f MF_match_opcode 0x1,
      opc ''th.vmfge.vv'' 0 INSN_CLASS_XTHEADVECTOR ''Vd,Vs,VtVm'' 0x64001057 0xfc00707f MF_match_opcode 0x1,
      opc ''th.vmford.vv'' 0 INSN_CLASS_XTHEADVECTOR ''Vd,Vt,VsVm'' 0x68001057 0xfc00707f MF_match_opcode 0,
      opc ''th.vmford.vf'' 0 INSN_CLASS_XTHEADVECTOR ''Vd,Vt,SVm'' 0x68005057 0xfc00707f MF_match_opcode 0,
      opc ''th.vfclass.v'' 0 INSN_CLASS_XTHEADVECTOR ''Vd,VtVm'' 0x8c081057 0xfc0ff07f MF_match_opcode 0,
      opc ''th.vfmerge.vfm'' 0 INSN_CLASS_XTHEADVECTOR ''Vd,Vt,S,V0'' 0x5c005057 0xfe00707f MF_match_opcode 0,
      opc ''th.vfmv.v.f'' 0 INSN_CLASS_XTHEADVECTOR ''Vd,S'' 0x5e005057 0xfff0707f MF_match_opcode 0,
      opc ''th.vfcvt.xu.f.v'' 0 INSN_CLASS_XTHEADVECTOR ''Vd,VtVm'' 0x88001057 0xfc0ff07f MF_match_opcode 0,
      opc ''th.vfcvt.x.f.v'' 0 INSN_CLASS_XTHEADVECTOR ''Vd,VtVm'' 0x88009057 0xfc0ff07f MF_match_opcode 0,
      opc ''th.vfcvt.f.xu.v'' 0 INSN_CLASS_XTHEADVECTOR ''Vd,VtVm'' 0x88011057 0xfc0ff07f MF_match_opcode 0,
      opc ''th.vfcvt.f.x.v'' 0 INSN_CLASS_XTHEADVECTOR ''Vd,VtVm'' 0x88019057 0xfc0ff07f MF_match_opcode 0,
      opc ''th.vfwcvt.xu.f.v'' 0 INSN_CLASS_XTHEADVECTOR ''Vd,VtVm'' 0x88041057 0xfc0ff07f MF_match_opcode 0,
      opc ''th.vfwcvt.x.f.v'' 0 INSN_CLASS_XTHEADVECTOR ''Vd,VtVm'' 0x88049057 0xfc0ff07f MF_match_opcode 0,
      opc ''th.vfwcvt.f.xu.v'' 0 INSN_CLASS_XTHEADVECTOR ''Vd,VtVm'' 0x88051057 0xfc0ff07f MF_match_opcode 0,
      opc ''th.vfwcvt.f.x.v'' 0 INSN_CLASS_XTHEADVECTOR ''Vd,VtVm'' 0x88059057 0xfc0ff07f MF_match_opcode 0,
      opc ''th.vfwcvt.f.f.v'' 0 INSN_CLASS_XTHEADVECTOR ''Vd,VtVm'' 0x88061057 0xfc0ff07f MF_match_opcode 0,
      opc ''th.vfncvt.xu.f.v'' 0 INSN_CLASS_XTHEADVECTOR ''Vd,VtVm'' 0x88081057 0xfc0ff07f MF_match_opcode 0,
      opc ''th.vfncvt.x.f.v'' 0 INSN_CLASS_XTHEADVECTOR ''Vd,VtVm'' 0x88089057 0xfc0ff07f MF_match_opcode 0,
      opc ''th.vfncvt.f.xu.v'' 0 INSN_CLASS_XTHEADVECTOR ''Vd,VtVm'' 0x88091057 0xfc0ff07f MF_match_opcode 0,
      opc ''th.vfncvt.f.x.v'' 0 INSN_CLASS_XTHEADVECTOR ''Vd,VtVm'' 0x88099057 0xfc0ff07f MF_match_opcode 0,
      opc ''th.vfncvt.f.f.v'' 0 INSN_CLASS_XTHEADVECTOR ''Vd,VtVm'' 0x880a1057 0xfc0ff07f MF_match_opcode 0,
      opc ''th.vredsum.vs'' 0 INSN_CLASS_XTHEADVECTOR ''Vd,Vt,VsVm'' 0x2057 0xfc00707f MF_match_opcode 0,
      opc ''th.vredmaxu.vs'' 0 INSN_CLASS_XTHEADVECTOR ''Vd,Vt,VsVm'' 0x18002057 0xfc00707f MF_match_opcode 0,
      opc ''th.vredmax.vs'' 0 INSN_CLASS_XTHEADVECTOR ''Vd,Vt,VsVm'' 0x1c002057 0xfc00707f MF_match_opcode 0,
      opc ''th.vredminu.vs'' 0 INSN_CLASS_XTHEADVECTOR ''Vd,Vt,VsVm'' 0x10002057 0xfc00707f MF_match_opcode 0,
      opc ''th.vredmin.vs'' 0 INSN_CLASS_XTHEADVECTOR ''Vd,Vt,VsVm'' 0x14002057 0xfc00707f MF_match_opcode 0,
      opc ''th.vredand.vs'' 0 INSN_CLASS_XTHEADVECTOR ''Vd,Vt,VsVm'' 0x4002057 0xfc00707f MF_match_opcode 0,
      opc ''th.vredor.vs'' 0 INSN_CLASS_XTHEADVECTOR ''Vd,Vt,VsVm'' 0x8002057 0xfc00707f MF_match_opcode 0,
      opc ''th.vredxor.vs'' 0 INSN_CLASS_XTHEADVECTOR ''Vd,Vt,VsVm'' 0xc002057 0xfc00707f MF_match_opcode 0,
      opc ''th.vwredsumu.vs'' 0 INSN_CLASS_XTHEADVECTOR ''Vd,Vt,VsVm'' 0xc0000057 0xfc00707f MF_match_opcode 0,
      opc ''th.vwredsum.vs'' 0 INSN_CLASS_XTHEADVECTOR ''Vd,Vt,VsVm'' 0xc4000057 0xfc00707f MF_match_opcode 0,
      opc ''th.vfredosum.vs'' 0 INSN_CLASS_XTHEADVECTOR ''Vd,Vt,VsVm'' 0xc001057 0xfc00707f MF_match_opcode 0,
      opc ''th.vfredsum.vs'' 0 INSN_CLASS_XTHEADVECTOR ''Vd,Vt,VsVm'' 0x4001057 0xfc00707f MF_match_opcode 0,
      opc ''th.vfredmax.vs'' 0 INSN_CLASS_XTHEADVECTOR ''Vd,Vt,VsVm'' 0x1c001057 0xfc00707f MF_match_opcode 0,
      opc ''th.vfredmin.vs'' 0 INSN_CLASS_XTHEADVECTOR ''Vd,Vt,VsVm'' 0x14001057 0xfc00707f MF_match_opcode 0,
      opc ''th.vfwredosum.vs'' 0 INSN_CLASS_XTHEADVECTOR ''Vd,Vt,VsVm'' 0xcc001057 0xfc00707f MF_match_opcode 0,
      opc ''th.vfwredsum.vs'' 0 INSN_CLASS_XTHEADVECTOR ''Vd,Vt,VsVm'' 0xc4001057 0xfc00707f MF_match_opcode 0,
      opc ''th.vmcpy.m'' 0 INSN_CLASS_XTHEADVECTOR ''Vd,Vu'' 0x66002057 0xfe00707f MF_match_vs1_eq_vs2 0x1,
      opc ''th.vmmv.m'' 0 INSN_CLASS_XTHEADVECTOR ''Vd,Vu'' 0x66002057 0xfe00707f MF_match_vs1_eq_vs2 0x1,
      opc ''th.vmclr.m'' 0 INSN_CLASS_XTHEADVECTOR ''Vv'' 0x6e002057 0xfe00707f MF_match_vd_eq_vs1_eq_vs2 0x1,
      opc ''th.vmset.m'' 0 INSN_CLASS_XTHEADVECTOR ''Vv'' 0x7e002057 0xfe00707f MF_match_vd_eq_vs1_eq_vs2 0x1,
      opc ''th.vmnot.m'' 0 INSN_CLASS_XTHEADVECTOR ''Vd,Vu'' 0x76002057 0xfe00707f MF_match_vs1_eq_vs2 0x1,
      opc ''th.vmand.mm'' 0 INSN_CLASS_XTHEADVECTOR ''Vd,Vt,Vs'' 0x66002057 0xfe00707f MF_match_opcode 0,
      opc ''th.vmnand.mm'' 0 INSN_CLASS_XTHEADVECTOR ''Vd,Vt,Vs'' 0x76002057 0xfe00707f MF_match_opcode 0,
      opc ''th.vmandnot.mm'' 0 INSN_CLASS_XTHEADVECTOR ''Vd,Vt,Vs'' 0x62002057 0xfe00707f MF_match_opcode 0,
      opc ''th.vmxor.mm'' 0 INSN_CLASS_XTHEADVECTOR ''Vd,Vt,Vs'' 0x6e002057 0xfe00707f MF_match_opcode 0,
      opc ''th.vmor.mm'' 0 INSN_CLASS_XTHEADVECTOR ''Vd,Vt,Vs'' 0x6a002057 0xfe00707f MF_match_opcode 0,
      opc ''th.vmnor.mm'' 0 INSN_CLASS_XTHEADVECTOR ''Vd,Vt,Vs'' 0x7a002057 0xfe00707f MF_match_opcode 0,
      opc ''th.vmornot.mm'' 0 INSN_CLASS_XTHEADVECTOR ''Vd,Vt,Vs'' 0x72002057 0xfe00707f MF_match_opcode 0,
      opc ''th.vmxnor.mm'' 0 INSN_CLASS_XTHEADVECTOR ''Vd,Vt,Vs'' 0x7e002057 0xfe00707f MF_match_opcode 0,
      opc ''th.vmpopc.m'' 0 INSN_CLASS_XTHEADVECTOR ''d,VtVm'' 0x50002057 0xfc0ff07f MF_match_opcode 0,
      opc ''th.vmfirst.m'' 0 INSN_CLASS_XTHEADVECTOR ''d,VtVm'' 0x54002057 0xfc0ff07f MF_match_opcode 0,
      opc ''th.vmsbf.m'' 0 INSN_CLASS_XTHEADVECTOR ''Vd,VtVm'' 0x5800a057 0xfc0ff07f MF_match_opcode 0,
      opc ''th.vmsif.m'' 0 INSN_CLASS_XTHEADVECTOR ''Vd,VtVm'' 0x5801a057 0xfc0ff07f MF_match_opcode 0,
      opc ''th.vmsof.m'' 0 INSN_CLASS_XTHEADVECTOR ''Vd,VtVm'' 0x58012057 0xfc0ff07f MF_match_opcode 0,
      opc ''th.viota.m'' 0 INSN_CLASS_XTHEADVECTOR ''Vd,VtVm'' 0x58082057 0xfc0ff07f MF_match_opcode 0,
      opc ''th.vid.v'' 0 INSN_CLASS_XTHEADVECTOR ''VdVm'' 0x5808a057 0xfdfff07f MF_match_opcode 0,
      opc ''th.vmv.x.s'' 0 INSN_CLASS_XTHEADVECTOR ''d,Vt'' 0x32002057 0xfe0ff07f MF_match_opcode 0x1,
      opc ''th.vext.x.v'' 0 INSN_CLASS_XTHEADVECTOR ''d,Vt,s'' 0x32002057 0xfe00707f MF_match_opcode 0,
      opc ''th.vmv.s.x'' 0 INSN_CLASS_XTHEADVECTOR ''Vd,s'' 0x36006057 0xfff0707f MF_match_opcode 0,
      opc ''th.vfmv.f.s'' 0 INSN_CLASS_XTHEADVECTOR ''D,Vt'' 0x32001057 0xfe0ff07f MF_match_opcode 0,
      opc ''th.vfmv.s.f'' 0 INSN_CLASS_XTHEADVECTOR ''Vd,S'' 0x36005057 0xfff0707f MF_match_opcode 0,
      opc ''th.vslideup.vx'' 0 INSN_CLASS_XTHEADVECTOR ''Vd,Vt,sVm'' 0x38004057 0xfc00707f MF_match_opcode 0,
      opc ''th.vslideup.vi'' 0 INSN_CLASS_XTHEADVECTOR ''Vd,Vt,VjVm'' 0x38003057 0xfc00707f MF_match_opcode 0,
      opc ''th.vslidedown.vx'' 0 INSN_CLASS_XTHEADVECTOR ''Vd,Vt,sVm'' 0x3c004057 0xfc00707f MF_match_opcode 0,
      opc ''th.vslidedown.vi'' 0 INSN_CLASS_XTHEADVECTOR ''Vd,Vt,VjVm'' 0x3c003057 0xfc00707f MF_match_opcode 0,
      opc ''th.vslide1up.vx'' 0 INSN_CLASS_XTHEADVECTOR ''Vd,Vt,sVm'' 0x38006057 0xfc00707f MF_match_opcode 0,
      opc ''th.vslide1down.vx'' 0 INSN_CLASS_XTHEADVECTOR ''Vd,Vt,sVm'' 0x3c006057 0xfc00707f MF_match_opcode 0,
      opc ''th.vrgather.vv'' 0 INSN_CLASS_XTHEADVECTOR ''Vd,Vt,VsVm'' 0x30000057 0xfc00707f MF_match_opcode 0,
      opc ''th.vrgather.vx'' 0 INSN_CLASS_XTHEADVECTOR ''Vd,Vt,sVm'' 0x30004057 0xfc00707f MF_match_opcode 0,
      opc ''th.vrgather.vi'' 0 INSN_CLASS_XTHEADVECTOR ''Vd,Vt,VjVm'' 0x30003057 0xfc00707f MF_match_opcode 0,
      opc ''th.vcompress.vm'' 0 INSN_CLASS_XTHEADVECTOR ''Vd,Vt,Vs'' 0x5e002057 0xfe00707f MF_match_opcode 0,
      opc ''vt.maskc'' 64 INSN_CLASS_XVENTANACONDOPS ''d,s,t'' 0x607b 0xfe00707f MF_match_opcode 0,
      opc ''vt.maskcn'' 64 INSN_CLASS_XVENTANACONDOPS ''d,s,t'' 0x707b 0xfe00707f MF_match_opcode 0,
      opc ''sf.vc.x'' 0 INSN_CLASS_XSFVCP ''XsO2,Xst,Xsd,s'' 0x200405b 0xf200707f MF_match_opcode 0,
      opc ''sf.vc.v.x'' 0 INSN_CLASS_XSFVCP ''XsO2,Xst,Vd,s'' 0x405b 0xf200707f MF_match_opcode 0,
      opc ''sf.vc.i'' 0 INSN_CLASS_XSFVCP ''XsO2,Xst,Xsd,Vi'' 0x200305b 0xf200707f MF_match_opcode 0,
      opc ''sf.vc.v.i'' 0 INSN_CLASS_XSFVCP ''XsO2,Xst,Vd,Vi'' 0x305b 0xf200707f MF_match_opcode 0,
      opc ''sf.vc.vv'' 0 INSN_CLASS_XSFVCP ''XsO2,Xsd,Vt,Vs'' 0x2200005b 0xf200707f MF_match_opcode 0,
      opc ''sf.vc.v.vv'' 0 INSN_CLASS_XSFVCP ''XsO2,Vd,Vt,Vs'' 0x2000005b 0xf200707f MF_match_opcode 0,
      opc ''sf.vc.xv'' 0 INSN_CLASS_XSFVCP ''XsO2,Xsd,Vt,s'' 0x2200405b 0xf200707f MF_match_opcode 0,
      opc ''sf.vc.v.xv'' 0 INSN_CLASS_XSFVCP ''XsO2,Vd,Vt,s'' 0x2000405b 0xf200707f MF_match_opcode 0,
      opc ''sf.vc.iv'' 0 INSN_CLASS_XSFVCP ''XsO2,Xsd,Vt,Vi'' 0x2200305b 0xf200707f MF_match_opcode 0,
      opc ''sf.vc.v.iv'' 0 INSN_CLASS_XSFVCP ''XsO2,Vd,Vt,Vi'' 0x2000305b 0xf200707f MF_match_opcode 0,
      opc ''sf.vc.fv'' 0 INSN_CLASS_XSFVCP ''XsO1,Xsd,Vt,S'' 0x2a00505b 0xfa00707f MF_match_opcode 0,
      opc ''sf.vc.v.fv'' 0 INSN_CLASS_XSFVCP ''XsO1,Vd,Vt,S'' 0x2800505b 0xfa00707f MF_match_opcode 0,
      opc ''sf.vc.vvv'' 0 INSN_CLASS_XSFVCP ''XsO2,Vd,Vt,Vs'' 0xa200005b 0xf200707f MF_match_opcode 0,
      opc ''sf.vc.v.vvv'' 0 INSN_CLASS_XSFVCP ''XsO2,Vd,Vt,Vs'' 0xa000005b 0xf200707f MF_match_opcode 0,
      opc ''sf.vc.xvv'' 0 INSN_CLASS_XSFVCP ''XsO2,Vd,Vt,s'' 0xa200405b 0xf200707f MF_match_opcode 0,
      opc ''sf.vc.v.xvv'' 0 INSN_CLASS_XSFVCP ''XsO2,Vd,Vt,s'' 0xa000405b 0xf200707f MF_match_opcode 0,
      opc ''sf.vc.ivv'' 0 INSN_CLASS_XSFVCP ''XsO2,Vd,Vt,Vi'' 0xa200305b 0xf200707f MF_match_opcode 0,
      opc ''sf.vc.v.ivv'' 0 INSN_CLASS_XSFVCP ''XsO2,Vd,Vt,Vi'' 0xa000305b 0xf200707f MF_match_opcode 0,
      opc ''sf.vc.fvv'' 0 INSN_CLASS_XSFVCP ''XsO1,Vd,Vt,S'' 0xaa00505b 0xfa00707f MF_match_opcode 0,
      opc ''sf.vc.v.fvv'' 0 INSN_CLASS_XSFVCP ''XsO1,Vd,Vt,S'' 0xa800505b 0xfa00707f MF_match_opcode 0,
      opc ''sf.vc.vvw'' 0 INSN_CLASS_XSFVCP ''XsO2,Vd,Vt,Vs'' 0xf200005b 0xf200707f MF_match_opcode 0,
      opc ''sf.vc.v.vvw'' 0 INSN_CLASS_XSFVCP ''XsO2,Vd,Vt,Vs'' 0xf000005b 0xf200707f MF_match_opcode 0,
      opc ''sf.vc.xvw'' 0 INSN_CLASS_XSFVCP ''XsO2,Vd,Vt,s'' 0xf200405b 0xf200707f MF_match_opcode 0,
      opc ''sf.vc.v.xvw'' 0 INSN_CLASS_XSFVCP ''XsO2,Vd,Vt,s'' 0xf000405b 0xf200707f MF_match_opcode 0,
      opc ''sf.vc.ivw'' 0 INSN_CLASS_XSFVCP ''XsO2,Vd,Vt,Vi'' 0xf200305b 0xf200707f MF_match_opcode 0,
      opc ''sf.vc.v.ivw'' 0 INSN_CLASS_XSFVCP ''XsO2,Vd,Vt,Vi'' 0xf000305b 0xf200707f MF_match_opcode 0,
      opc ''sf.vc.fvw'' 0 INSN_CLASS_XSFVCP ''XsO1,Vd,Vt,S'' 0xfa00505b 0xfa00707f MF_match_opcode 0,
      opc ''sf.vc.v.fvw'' 0 INSN_CLASS_XSFVCP ''XsO1,Vd,Vt,S'' 0xf800505b 0xfa00707f MF_match_opcode 0]"

lemma riscv_opcodes_17_fine: "list_all entry_fine riscv_opcodes_17"
  by (simp only: riscv_opcodes_17_def entry_fine_eval word_num_eval) simp

lemma riscv_opcodes_18_fine: "list_all entry_fine riscv_opcodes_18"
  by (simp only: riscv_opcodes_18_def entry_fine_eval word_num_eval) simp

lemma riscv_opcodes_19_fine: "list_all entry_fine riscv_opcodes_19"
  by (simp only: riscv_opcodes_19_def entry_fine_eval word_num_eval) simp

text \<open>The mnemonics of each part of the table in order, with the number of their entries.\<close>

definition optab_groups_17 :: "(string \<times> nat) list" where
  "optab_groups_17 =
     [(''th.vlseg4huff.v'', Suc 0), (''th.vlseg4wuff.v'', Suc 0), (''th.vlseg4eff.v'', Suc 0),
      (''th.vlseg5bff.v'', Suc 0), (''th.vlseg5hff.v'', Suc 0), (''th.vlseg5wff.v'', Suc 0),
      (''th.vlseg5buff.v'', Suc 0), (''th.vlseg5huff.v'', Suc 0), (''th.vlseg5wuff.v'', Suc 0),
      (''th.vlseg5eff.v'', Suc 0), (''th.vlseg6bff.v'', Suc 0), (''th.vlseg6hff.v'', Suc 0),
      (''th.vlseg6wff.v'', Suc 0), (''th.vlseg6buff.v'', Suc 0), (''th.vlseg6huff.v'', Suc 0),
      (''th.vlseg6wuff.v'', Suc 0), (''th.vlseg6eff.v'', Suc 0), (''th.vlseg7bff.v'', Suc 0),
      (''th.vlseg7hff.v'', Suc 0), (''th.vlseg7wff.v'', Suc 0), (''th.vlseg7buff.v'', Suc 0),
      (''th.vlseg7huff.v'', Suc 0), (''th.vlseg7wuff.v'', Suc 0), (''th.vlseg7eff.v'', Suc 0),
      (''th.vlseg8bff.v'', Suc 0), (''th.vlseg8hff.v'', Suc 0), (''th.vlseg8wff.v'', Suc 0),
      (''th.vlseg8buff.v'', Suc 0), (''th.vlseg8huff.v'', Suc 0), (''th.vlseg8wuff.v'', Suc 0),
      (''th.vlseg8eff.v'', Suc 0), (''th.vamoaddw.v'', Suc 0), (''th.vamoaddd.v'', Suc 0),
      (''th.vamoswapw.v'', Suc 0), (''th.vamoswapd.v'', Suc 0), (''th.vamoxorw.v'', Suc 0),
      (''th.vamoxord.v'', Suc 0), (''th.vamoandw.v'', Suc 0), (''th.vamoandd.v'', Suc 0),
      (''th.vamoorw.v'', Suc 0), (''th.vamoord.v'', Suc 0), (''th.vamominw.v'', Suc 0),
      (''th.vamomind.v'', Suc 0), (''th.vamomaxw.v'', Suc 0), (''th.vamomaxd.v'', Suc 0),
      (''th.vamominuw.v'', Suc 0), (''th.vamominud.v'', Suc 0), (''th.vamomaxuw.v'', Suc 0),
      (''th.vamomaxud.v'', Suc 0), (''th.vneg.v'', Suc 0), (''th.vadd.vv'', Suc 0),
      (''th.vadd.vx'', Suc 0), (''th.vadd.vi'', Suc 0), (''th.vsub.vv'', Suc 0),
      (''th.vsub.vx'', Suc 0), (''th.vrsub.vx'', Suc 0), (''th.vrsub.vi'', Suc 0),
      (''th.vwcvt.x.x.v'', Suc 0), (''th.vwcvtu.x.x.v'', Suc 0), (''th.vwaddu.vv'', Suc 0),
      (''th.vwaddu.vx'', Suc 0), (''th.vwsubu.vv'', Suc 0), (''th.vwsubu.vx'', Suc 0),
      (''th.vwadd.vv'', Suc 0), (''th.vwadd.vx'', Suc 0), (''th.vwsub.vv'', Suc 0),
      (''th.vwsub.vx'', Suc 0), (''th.vwaddu.wv'', Suc 0), (''th.vwaddu.wx'', Suc 0),
      (''th.vwsubu.wv'', Suc 0), (''th.vwsubu.wx'', Suc 0), (''th.vwadd.wv'', Suc 0),
      (''th.vwadd.wx'', Suc 0), (''th.vwsub.wv'', Suc 0), (''th.vwsub.wx'', Suc 0),
      (''th.vadc.vvm'', Suc 0), (''th.vadc.vxm'', Suc 0), (''th.vadc.vim'', Suc 0),
      (''th.vmadc.vvm'', Suc 0), (''th.vmadc.vxm'', Suc 0), (''th.vmadc.vim'', Suc 0),
      (''th.vsbc.vvm'', Suc 0), (''th.vsbc.vxm'', Suc 0), (''th.vmsbc.vvm'', Suc 0),
      (''th.vmsbc.vxm'', Suc 0), (''th.vnot.v'', Suc 0), (''th.vand.vv'', Suc 0),
      (''th.vand.vx'', Suc 0), (''th.vand.vi'', Suc 0), (''th.vor.vv'', Suc 0),
      (''th.vor.vx'', Suc 0), (''th.vor.vi'', Suc 0), (''th.vxor.vv'', Suc 0),
      (''th.vxor.vx'', Suc 0), (''th.vxor.vi'', Suc 0), (''th.vsll.vv'', Suc 0),
      (''th.vsll.vx'', Suc 0), (''th.vsll.vi'', Suc 0), (''th.vsrl.vv'', Suc 0),
      (''th.vsrl.vx'', Suc 0), (''th.vsrl.vi'', Suc 0), (''th.vsra.vv'', Suc 0),
      (''th.vsra.vx'', Suc 0), (''th.vsra.vi'', Suc 0), (''th.vncvt.x.x.v'', Suc 0),
      (''th.vnsrl.vv'', Suc 0), (''th.vnsrl.vx'', Suc 0), (''th.vnsrl.vi'', Suc 0),
      (''th.vnsra.vv'', Suc 0), (''th.vnsra.vx'', Suc 0), (''th.vnsra.vi'', Suc 0),
      (''th.vmseq.vv'', Suc 0), (''th.vmseq.vx'', Suc 0), (''th.vmseq.vi'', Suc 0),
      (''th.vmsne.vv'', Suc 0), (''th.vmsne.vx'', Suc 0), (''th.vmsne.vi'', Suc 0),
      (''th.vmsltu.vv'', Suc 0), (''th.vmsltu.vx'', Suc 0), (''th.vmslt.vv'', Suc 0),
      (''th.vmslt.vx'', Suc 0), (''th.vmsleu.vv'', Suc 0), (''th.vmsleu.vx'', Suc 0),
      (''th.vmsleu.vi'', Suc 0), (''th.vmsle.vv'', Suc 0), (''th.vmsle.vx'', Suc 0),
      (''th.vmsle.vi'', Suc 0), (''th.vmsgtu.vx'', Suc 0), (''th.vmsgtu.vi'', Suc 0),
      (''th.vmsgt.vx'', Suc 0), (''th.vmsgt.vi'', Suc 0), (''th.vmsgt.vv'', Suc 0),
      (''th.vmsgtu.vv'', Suc 0), (''th.vmsge.vv'', Suc 0), (''th.vmsgeu.vv'', Suc 0),
      (''th.vmslt.vi'', Suc 0), (''th.vmsltu.vi'', Suc 0), (''th.vmsge.vi'', Suc 0),
      (''th.vmsgeu.vi'', Suc 0), (''th.vmsge.vx'', 2), (''th.vmsgeu.vx'', 2),
      (''th.vminu.vv'', Suc 0), (''th.vminu.vx'', Suc 0), (''th.vmin.vv'', Suc 0),
      (''th.vmin.vx'', Suc 0), (''th.vmaxu.vv'', Suc 0)]"

definition optab_groups_18 :: "(string \<times> nat) list" where
  "optab_groups_18 =
     [(''th.vmaxu.vx'', Suc 0), (''th.vmax.vv'', Suc 0), (''th.vmax.vx'', Suc 0),
      (''th.vmul.vv'', Suc 0), (''th.vmul.vx'', Suc 0), (''th.vmulh.vv'', Suc 0),
      (''th.vmulh.vx'', Suc 0), (''th.vmulhu.vv'', Suc 0), (''th.vmulhu.vx'', Suc 0),
      (''th.vmulhsu.vv'', Suc 0), (''th.vmulhsu.vx'', Suc 0), (''th.vwmul.vv'', Suc 0),
      (''th.vwmul.vx'', Suc 0), (''th.vwmulu.vv'', Suc 0), (''th.vwmulu.vx'', Suc 0),
      (''th.vwmulsu.vv'', Suc 0), (''th.vwmulsu.vx'', Suc 0), (''th.vmacc.vv'', Suc 0),
      (''th.vmacc.vx'', Suc 0), (''th.vnmsac.vv'', Suc 0), (''th.vnmsac.vx'', Suc 0),
      (''th.vmadd.vv'', Suc 0), (''th.vmadd.vx'', Suc 0), (''th.vnmsub.vv'', Suc 0),
      (''th.vnmsub.vx'', Suc 0), (''th.vwmaccu.vv'', Suc 0), (''th.vwmaccu.vx'', Suc 0),
      (''th.vwmacc.vv'', Suc 0), (''th.vwmacc.vx'', Suc 0), (''th.vwmaccsu.vv'', Suc 0),
      (''th.vwmaccsu.vx'', Suc 0), (''th.vwmaccus.vx'', Suc 0), (''th.vdivu.vv'', Suc 0),
      (''th.vdivu.vx'', Suc 0), (''th.vdiv.vv'', Suc 0), (''th.vdiv.vx'', Suc 0),
      (''th.vremu.vv'', Suc 0), (''th.vremu.vx'', Suc 0), (''th.vrem.vv'', Suc 0),
      (''th.vrem.vx'', Suc 0), (''th.vmerge.vvm'', Suc 0), (''th.vmerge.vxm'', Suc 0),
      (''th.vmerge.vim'', Suc 0), (''th.vmv.v.v'', Suc 0), (''th.vmv.v.x'', Suc 0),
      (''th.vmv.v.i'', Suc 0), (''th.vsaddu.vv'', Suc 0), (''th.vsaddu.vx'', Suc 0),
      (''th.vsaddu.vi'', Suc 0), (''th.vsadd.vv'', Suc 0), (''th.vsadd.vx'', Suc 0),
      (''th.vsadd.vi'', Suc 0), (''th.vssubu.vv'', Suc 0), (''th.vssubu.vx'', Suc 0),
      (''th.vssub.vv'', Suc 0), (''th.vssub.vx'', Suc 0), (''th.vaadd.vv'', Suc 0),
      (''th.vaadd.vx'', Suc 0), (''th.vaadd.vi'', Suc 0), (''th.vasub.vv'', Suc 0),
      (''th.vasub.vx'', Suc 0), (''th.vsmul.vv'', Suc 0), (''th.vsmul.vx'', Suc 0),
      (''th.vwsmaccu.vv'', Suc 0), (''th.vwsmaccu.vx'', Suc 0), (''th.vwsmacc.vv'', Suc 0),
      (''th.vwsmacc.vx'', Suc 0), (''th.vwsmaccsu.vv'', Suc 0), (''th.vwsmaccsu.vx'', Suc 0),
      (''th.vwsmaccus.vx'', Suc 0), (''th.vssrl.vv'', Suc 0), (''th.vssrl.vx'', Suc 0),
      (''th.vssrl.vi'', Suc 0), (''th.vssra.vv'', Suc 0), (''th.vssra.vx'', Suc 0),
      (''th.vssra.vi'', Suc 0), (''th.vnclipu.vv'', Suc 0), (''th.vnclipu.vx'', Suc 0),
      (''th.vnclipu.vi'', Suc 0), (''th.vnclip.vv'', Suc 0), (''th.vnclip.vx'', Suc 0),
      (''th.vnclip.vi'', Suc 0), (''th.vfadd.vv'', Suc 0), (''th.vfadd.vf'', Suc 0),
      (''th.vfsub.vv'', Suc 0), (''th.vfsub.vf'', Suc 0), (''th.vfrsub.vf'', Suc 0),
      (''th.vfwadd.vv'', Suc 0), (''th.vfwadd.vf'', Suc 0), (''th.vfwsub.vv'', Suc 0),
      (''th.vfwsub.vf'', Suc 0), (''th.vfwadd.wv'', Suc 0), (''th.vfwsub.wv'', Suc 0),
      (''th.vfwadd.wf'', Suc 0), (''th.vfwsub.wf'', Suc 0), (''th.vfmul.vv'', Suc 0),
      (''th.vfmul.vf'', Suc 0), (''th.vfdiv.vv'', Suc 0), (''th.vfdiv.vf'', Suc 0),
      (''th.vfrdiv.vf'', Suc 0), (''th.vfwmul.vv'', Suc 0), (''th.vfwmul.vf'', Suc 0),
      (''th.vfmadd.vv'', Suc 0), (''th.vfmadd.vf'', Suc 0), (''th.vfnmadd.vv'', Suc 0),
      (''th.vfnmadd.vf'', Suc 0), (''th.vfmsub.vv'', Suc 0), (''th.vfmsub.vf'', Suc 0),
      (''th.vfnmsub.vv'', Suc 0), (''th.vfnmsub.vf'', Suc 0), (''th.vfmacc.vv'', Suc 0),
      (''th.vfmacc.vf'', Suc 0), (''th.vfnmacc.vv'', Suc 0), (''th.vfnmacc.vf'', Suc 0),
      (''th.vfmsac.vv'', Suc 0), (''th.vfmsac.vf'', Suc 0), (''th.vfnmsac.vv'', Suc 0),
      (''th.vfnmsac.vf'', Suc 0), (''th.vfwmacc.vv'', Suc 0), (''th.vfwmacc.vf'', Suc 0),
      (''th.vfwnmacc.vv'', Suc 0), (''th.vfwnmacc.vf'', Suc 0), (''th.vfwmsac.vv'', Suc 0),
      (''th.vfwmsac.vf'', Suc 0), (''th.vfwnmsac.vv'', Suc 0), (''th.vfwnmsac.vf'', Suc 0),
      (''th.vfsqrt.v'', Suc 0), (''th.vfmin.vv'', Suc 0), (''th.vfmin.vf'', Suc 0),
      (''th.vfmax.vv'', Suc 0), (''th.vfmax.vf'', Suc 0), (''th.vfneg.v'', Suc 0),
      (''th.vfabs.v'', Suc 0), (''th.vfsgnj.vv'', Suc 0), (''th.vfsgnj.vf'', Suc 0),
      (''th.vfsgnjn.vv'', Suc 0), (''th.vfsgnjn.vf'', Suc 0), (''th.vfsgnjx.vv'', Suc 0),
      (''th.vfsgnjx.vf'', Suc 0), (''th.vmfeq.vv'', Suc 0), (''th.vmfeq.vf'', Suc 0),
      (''th.vmfne.vv'', Suc 0), (''th.vmfne.vf'', Suc 0), (''th.vmflt.vv'', Suc 0),
      (''th.vmflt.vf'', Suc 0), (''th.vmfle.vv'', Suc 0), (''th.vmfle.vf'', Suc 0),
      (''th.vmfgt.vf'', Suc 0)]"

definition optab_groups_19 :: "(string \<times> nat) list" where
  "optab_groups_19 =
     [(''th.vmfge.vf'', Suc 0), (''th.vmfgt.vv'', Suc 0), (''th.vmfge.vv'', Suc 0),
      (''th.vmford.vv'', Suc 0), (''th.vmford.vf'', Suc 0), (''th.vfclass.v'', Suc 0),
      (''th.vfmerge.vfm'', Suc 0), (''th.vfmv.v.f'', Suc 0), (''th.vfcvt.xu.f.v'', Suc 0),
      (''th.vfcvt.x.f.v'', Suc 0), (''th.vfcvt.f.xu.v'', Suc 0), (''th.vfcvt.f.x.v'', Suc 0),
      (''th.vfwcvt.xu.f.v'', Suc 0), (''th.vfwcvt.x.f.v'', Suc 0), (''th.vfwcvt.f.xu.v'', Suc 0),
      (''th.vfwcvt.f.x.v'', Suc 0), (''th.vfwcvt.f.f.v'', Suc 0), (''th.vfncvt.xu.f.v'', Suc 0),
      (''th.vfncvt.x.f.v'', Suc 0), (''th.vfncvt.f.xu.v'', Suc 0), (''th.vfncvt.f.x.v'', Suc 0),
      (''th.vfncvt.f.f.v'', Suc 0), (''th.vredsum.vs'', Suc 0), (''th.vredmaxu.vs'', Suc 0),
      (''th.vredmax.vs'', Suc 0), (''th.vredminu.vs'', Suc 0), (''th.vredmin.vs'', Suc 0),
      (''th.vredand.vs'', Suc 0), (''th.vredor.vs'', Suc 0), (''th.vredxor.vs'', Suc 0),
      (''th.vwredsumu.vs'', Suc 0), (''th.vwredsum.vs'', Suc 0), (''th.vfredosum.vs'', Suc 0),
      (''th.vfredsum.vs'', Suc 0), (''th.vfredmax.vs'', Suc 0), (''th.vfredmin.vs'', Suc 0),
      (''th.vfwredosum.vs'', Suc 0), (''th.vfwredsum.vs'', Suc 0), (''th.vmcpy.m'', Suc 0),
      (''th.vmmv.m'', Suc 0), (''th.vmclr.m'', Suc 0), (''th.vmset.m'', Suc 0),
      (''th.vmnot.m'', Suc 0), (''th.vmand.mm'', Suc 0), (''th.vmnand.mm'', Suc 0),
      (''th.vmandnot.mm'', Suc 0), (''th.vmxor.mm'', Suc 0), (''th.vmor.mm'', Suc 0),
      (''th.vmnor.mm'', Suc 0), (''th.vmornot.mm'', Suc 0), (''th.vmxnor.mm'', Suc 0),
      (''th.vmpopc.m'', Suc 0), (''th.vmfirst.m'', Suc 0), (''th.vmsbf.m'', Suc 0),
      (''th.vmsif.m'', Suc 0), (''th.vmsof.m'', Suc 0), (''th.viota.m'', Suc 0),
      (''th.vid.v'', Suc 0), (''th.vmv.x.s'', Suc 0), (''th.vext.x.v'', Suc 0),
      (''th.vmv.s.x'', Suc 0), (''th.vfmv.f.s'', Suc 0), (''th.vfmv.s.f'', Suc 0),
      (''th.vslideup.vx'', Suc 0), (''th.vslideup.vi'', Suc 0), (''th.vslidedown.vx'', Suc 0),
      (''th.vslidedown.vi'', Suc 0), (''th.vslide1up.vx'', Suc 0),
      (''th.vslide1down.vx'', Suc 0), (''th.vrgather.vv'', Suc 0), (''th.vrgather.vx'', Suc 0),
      (''th.vrgather.vi'', Suc 0), (''th.vcompress.vm'', Suc 0), (''vt.maskc'', Suc 0),
      (''vt.maskcn'', Suc 0), (''sf.vc.x'', Suc 0), (''sf.vc.v.x'', Suc 0), (''sf.vc.i'', Suc 0),
      (''sf.vc.v.i'', Suc 0), (''sf.vc.vv'', Suc 0), (''sf.vc.v.vv'', Suc 0),
      (''sf.vc.xv'', Suc 0), (''sf.vc.v.xv'', Suc 0), (''sf.vc.iv'', Suc 0),
      (''sf.vc.v.iv'', Suc 0), (''sf.vc.fv'', Suc 0), (''sf.vc.v.fv'', Suc 0),
      (''sf.vc.vvv'', Suc 0), (''sf.vc.v.vvv'', Suc 0), (''sf.vc.xvv'', Suc 0),
      (''sf.vc.v.xvv'', Suc 0), (''sf.vc.ivv'', Suc 0), (''sf.vc.v.ivv'', Suc 0),
      (''sf.vc.fvv'', Suc 0), (''sf.vc.v.fvv'', Suc 0), (''sf.vc.vvw'', Suc 0),
      (''sf.vc.v.vvw'', Suc 0), (''sf.vc.xvw'', Suc 0), (''sf.vc.v.xvw'', Suc 0),
      (''sf.vc.ivw'', Suc 0), (''sf.vc.v.ivw'', Suc 0), (''sf.vc.fvw'', Suc 0),
      (''sf.vc.v.fvw'', Suc 0)]"

lemma riscv_opcodes_17_names: "map op_name riscv_opcodes_17 = ungroup optab_groups_17"
  by (simp only: riscv_opcodes_17_def optab_groups_17_def list.map riscv_opcode.select_convs ungroup_eval pred_numeral_simps
      BitM.simps numeral_One One_nat_def)

lemma riscv_opcodes_18_names: "map op_name riscv_opcodes_18 = ungroup optab_groups_18"
  by (simp only: riscv_opcodes_18_def optab_groups_18_def list.map riscv_opcode.select_convs ungroup_eval pred_numeral_simps
      BitM.simps numeral_One One_nat_def)

lemma riscv_opcodes_19_names: "map op_name riscv_opcodes_19 = ungroup optab_groups_19"
  by (simp only: riscv_opcodes_19_def optab_groups_19_def list.map riscv_opcode.select_convs ungroup_eval pred_numeral_simps
      BitM.simps numeral_One One_nat_def)

end
