(* ===== verification/RV_Index.thy ===== *)
theory RV_Index
  imports RV_Validate
begin

text \<open>
  What \<open>init_opcode_hash\<close> of \<^verbatim>\<open>gas/config/tc-riscv.c\<close> builds.  When the entries of a table pass the
  check and no mnemonic starts a second group, the loop ends without a fatal error and the index
  maps every mnemonic to its first entry; the assembler then scans the group from there.
\<close>

section \<open>The reference: the first entry of a name\<close>

fun first_entry :: "string \<Rightarrow> riscv_opcode list \<Rightarrow> nat option" where
  "first_entry nm [] = None"
| "first_entry nm (op # ops) =
     (if op_name op = nm then Some 0 else map_option Suc (first_entry nm ops))"

lemma first_entry_None_iff: "first_entry nm ops = None \<longleftrightarrow> nm \<notin> op_name ` set ops"
  by (induction ops) auto

lemma first_entry_SomeD:
  "first_entry nm ops = Some k \<Longrightarrow>
     k < length ops \<and> op_name (ops ! k) = nm \<and> (\<forall>j<k. op_name (ops ! j) \<noteq> nm)"
proof (induction ops arbitrary: k)
  case (Cons op ops)
  then show ?case
    by (cases k) (auto split: if_splits simp: less_Suc_eq_0_disj)
qed simp

lemma first_entry_append:
  "first_entry nm (xs @ ys) =
     (case first_entry nm xs of
        Some k \<Rightarrow> Some k
      | None \<Rightarrow> map_option ((+) (length xs)) (first_entry nm ys))"
proof (induction xs)
  case Nil
  then show ?case by (cases "first_entry nm ys") auto
next
  case (Cons op xs)
  then show ?case by (cases "first_entry nm xs"; cases "first_entry nm ys") auto
qed

section \<open>The loop over the groups\<close>

lemma check_group_ok:
  "\<forall>op\<in>set ops. check_entry d nm op = Inr () \<Longrightarrow> check_group d nm ops = Inr ()"
  by (induction ops) auto

lemma init_from_index:
  assumes "\<forall>op\<in>set ops. check_entry d (op_name op) op = Inr ()"
    and "distinct (remdups_adj (map op_name ops))"
    and "\<forall>nm\<in>op_name ` set ops. h nm = None"
  shows "\<exists>h'. init_opcode_hash_from d i ops h = Inr h' \<and>
           (\<forall>nm. h' nm = (case first_entry nm ops of
                            None \<Rightarrow> h nm | Some k \<Rightarrow> Some (i + k)))"
  using assms
proof (induction d i ops h rule: init_opcode_hash_from.induct)
  case (1 d i h)
  then show ?case by simp
next
  case (2 d i op ops h)
  define nm where "nm = op_name op"
  define grp where "grp = takeWhile (\<lambda>o1. op_name o1 = nm) ops"
  define rest where "rest = drop (length grp) ops"
  have rest_dw: "rest = dropWhile (\<lambda>o1. op_name o1 = nm) ops"
    by (simp add: rest_def grp_def dropWhile_eq_drop)
  then have split: "ops = grp @ rest"
    by (simp add: grp_def)
  have grp_nm: "op_name o1 = nm" if "o1 \<in> set grp" for o1
    using that by (auto simp: grp_def dest: set_takeWhileD)
  have "check_group d nm (op # grp) = Inr ()"
  proof (intro check_group_ok ballI)
    fix o1 assume o1: "o1 \<in> set (op # grp)"
    then have "op_name o1 = nm" "o1 \<in> set (op # ops)"
      using grp_nm split by (auto simp: nm_def)
    with 2(2) show "check_entry d nm o1 = Inr ()" by metis
  qed
  moreover have h_nm: "h nm = None" using 2(4) by (simp add: nm_def)
  ultimately have step:
    "init_opcode_hash_from d i (op # ops) h =
       init_opcode_hash_from d (i + 1 + length grp) rest (h(nm \<mapsto> i))"
    by (simp add: Let_def nm_def grp_def rest_def)
  have names: "remdups_adj (map op_name (op # ops)) = nm # remdups_adj (map op_name rest)"
    by (simp add: remdups_adj_Cons' dropWhile_map rest_dw nm_def comp_def eq_commute)
  then have fresh: "nm \<notin> op_name ` set rest" and dist: "distinct (remdups_adj (map op_name rest))"
    using 2(3) by auto
  have "\<exists>h'. init_opcode_hash_from d (i + 1 + length grp) rest (h(nm \<mapsto> i)) = Inr h' \<and>
          (\<forall>n. h' n = (case first_entry n rest of
             None \<Rightarrow> (h(nm \<mapsto> i)) n | Some k \<Rightarrow> Some (i + 1 + length grp + k)))"
    unfolding rest_def
  proof (rule 2(1) [OF nm_def grp_def, of "()"])
    show "\<not> h nm \<noteq> None" using h_nm by simp
    show "check_group d nm (op # grp) = Inr ()" by fact
    show "\<forall>op\<in>set (drop (length grp) ops). check_entry d (op_name op) op = Inr ()"
      using 2(2) split by (auto simp: rest_def [symmetric])
    show "distinct (remdups_adj (map op_name (drop (length grp) ops)))"
      using dist by (simp add: rest_def)
    show "\<forall>nm'\<in>op_name ` set (drop (length grp) ops). (h(nm \<mapsto> i)) nm' = None"
      using 2(4) fresh split by (auto simp: rest_def [symmetric])
  qed
  then obtain h' where h': "init_opcode_hash_from d i (op # ops) h = Inr h'"
      "\<And>n. h' n = (case first_entry n rest of
             None \<Rightarrow> (h(nm \<mapsto> i)) n | Some k \<Rightarrow> Some (i + 1 + length grp + k))"
    using step by auto
  have fe: "first_entry n (op # ops) =
      (if n = nm then Some 0 else map_option ((+) (1 + length grp)) (first_entry n rest))" for n
  proof (cases "n = nm")
    case False
    then have "first_entry n grp = None"
      using grp_nm by (auto simp: first_entry_None_iff)
    with False show ?thesis
      by (cases "first_entry n rest") (auto simp: split first_entry_append nm_def [symmetric])
  qed (simp add: nm_def)
  have "first_entry nm rest = None" using fresh by (simp add: first_entry_None_iff)
  then have "h' n = (case first_entry n (op # ops) of None \<Rightarrow> h n | Some k \<Rightarrow> Some (i + k))" for n
    unfolding h'(2) fe by (cases "n = nm") (auto split: option.splits)
  with h'(1) show ?case by blast
qed

lemma init_index:
  assumes "\<forall>op\<in>set ops. check_entry d (op_name op) op = Inr ()"
    and "distinct (remdups_adj (map op_name ops))"
  shows "init_opcode_hash d ops = Inr (\<lambda>nm. first_entry nm ops)"
proof -
  obtain h where h: "init_opcode_hash_from d 0 ops Map.empty = Inr h"
      "\<And>nm. h nm = (case first_entry nm ops of None \<Rightarrow> None | Some k \<Rightarrow> Some (0 + k))"
    using init_from_index [OF assms, of Map.empty 0] by auto
  have "h = (\<lambda>nm. first_entry nm ops)"
    by (rule ext) (simp add: h(2) split: option.splits)
  with h(1) show ?thesis by (simp add: init_opcode_hash_def)
qed

section \<open>Entries that pass the check\<close>

lemma required_bits_eval:
  "required_bits 2 = 0xffff" "required_bits 4 = 0xffffffff"
  by (simp_all add: required_bits_def shr_def mask_eq_exp_minus_1)

lemma entry_fine2_validate:
  assumes "entry_fine2 (op_match op) (op_mask op) (args_use (op_args op))"
  shows "validate_riscv_insn op 0 = Inr ()"
  using assms
  by (auto simp: entry_fine2_def validate_riscv_insn_def riscv_insn_length_def required_bits_eval
      validate_args_use split: option.splits)

lemma entry_fine4_validate:
  assumes "entry_fine4 (op_match op) (op_mask op) (args_use (op_args op))"
  shows "validate_riscv_insn op 0 = Inr ()"
  using assms
  by (auto simp: entry_fine4_def validate_riscv_insn_def riscv_insn_length_def required_bits_eval
      validate_args_use split: option.splits)

lemma entry_fine_check: "entry_fine op \<Longrightarrow> check_entry False nm op = Inr ()"
  by (auto simp: entry_fine_def check_entry_def entry_fine2_validate entry_fine4_validate)

text \<open>For the \<^verbatim>\<open>.insn\<close> formats the length comes from the name, not from the match value.\<close>

definition insn_type_fine :: "riscv_opcode \<Rightarrow> bool" where
  "insn_type_fine op \<longleftrightarrow>
     op_pinfo op \<noteq> INSN_MACRO \<and>
     (case args_use (op_args op) of
        None \<Rightarrow> False
      | Some u \<Rightarrow>
          (let req = (if op_name op \<noteq> [] \<and> hd (op_name op) = CHR ''c'' then 0xffff else 0xffffffff)
           in op_mask op AND op_match op = op_match op AND req \<and> op_mask op OR u = req))"

lemma insn_type_fine_check: "insn_type_fine op \<Longrightarrow> check_entry True (op_name op) op = Inr ()"
  by (auto simp: insn_type_fine_def check_entry_def validate_riscv_insn_def required_bits_eval Let_def
      validate_args_use split: option.splits if_splits)

end
