(* ===== verification/RV_Optab.thy ===== *)
theory RV_Optab
  imports RV_Optab_1 RV_Optab_2 RV_Optab_3 RV_Optab_4 RV_Optab_5 RV_Index
begin

text \<open>
  The complete tables \<open>riscv_opcodes\<close> and \<open>riscv_insn_types\<close> of \<^verbatim>\<open>opcodes/riscv-opc.c\<close>, and what
  \<open>init_opcode_hash\<close> of \<^verbatim>\<open>gas/config/tc-riscv.c\<close> makes of them when the assembler starts.

  No mnemonic of \<open>riscv_opcodes\<close> starts two groups.  The lists \<open>optab_sorted_*\<close> are a certificate:
  strictly increasing together, as long as the list of the groups, and made of its names.
\<close>

section \<open>The tables\<close>

definition riscv_opcodes :: "riscv_opcode list" where
  "riscv_opcodes =
     riscv_opcodes_1 @ riscv_opcodes_2 @ riscv_opcodes_3 @ riscv_opcodes_4 @ riscv_opcodes_5 @
     riscv_opcodes_6 @ riscv_opcodes_7 @ riscv_opcodes_8 @ riscv_opcodes_9 @
     riscv_opcodes_10 @ riscv_opcodes_11 @ riscv_opcodes_12 @ riscv_opcodes_13 @
     riscv_opcodes_14 @ riscv_opcodes_15 @ riscv_opcodes_16 @ riscv_opcodes_17 @
     riscv_opcodes_18 @ riscv_opcodes_19"

definition riscv_insn_types :: "riscv_opcode list" where
  "riscv_insn_types =
     [opc ''r'' 0 INSN_CLASS_I ''O4,F3,F7,d,s,t'' 0 0 MF_match_opcode 0,
      opc ''r'' 0 INSN_CLASS_F ''O4,F3,F7,D,s,t'' 0 0 MF_match_opcode 0,
      opc ''r'' 0 INSN_CLASS_F ''O4,F3,F7,d,S,t'' 0 0 MF_match_opcode 0,
      opc ''r'' 0 INSN_CLASS_F ''O4,F3,F7,D,S,t'' 0 0 MF_match_opcode 0,
      opc ''r'' 0 INSN_CLASS_F ''O4,F3,F7,d,s,T'' 0 0 MF_match_opcode 0,
      opc ''r'' 0 INSN_CLASS_F ''O4,F3,F7,D,s,T'' 0 0 MF_match_opcode 0,
      opc ''r'' 0 INSN_CLASS_F ''O4,F3,F7,d,S,T'' 0 0 MF_match_opcode 0,
      opc ''r'' 0 INSN_CLASS_F ''O4,F3,F7,D,S,T'' 0 0 MF_match_opcode 0,
      opc ''r'' 0 INSN_CLASS_I ''O4,F3,F2,d,s,t,r'' 0 0 MF_match_opcode 0,
      opc ''r'' 0 INSN_CLASS_F ''O4,F3,F2,D,s,t,r'' 0 0 MF_match_opcode 0,
      opc ''r'' 0 INSN_CLASS_F ''O4,F3,F2,d,S,t,r'' 0 0 MF_match_opcode 0,
      opc ''r'' 0 INSN_CLASS_F ''O4,F3,F2,D,S,t,r'' 0 0 MF_match_opcode 0,
      opc ''r'' 0 INSN_CLASS_F ''O4,F3,F2,d,s,T,r'' 0 0 MF_match_opcode 0,
      opc ''r'' 0 INSN_CLASS_F ''O4,F3,F2,D,s,T,r'' 0 0 MF_match_opcode 0,
      opc ''r'' 0 INSN_CLASS_F ''O4,F3,F2,d,S,T,r'' 0 0 MF_match_opcode 0,
      opc ''r'' 0 INSN_CLASS_F ''O4,F3,F2,D,S,T,r'' 0 0 MF_match_opcode 0,
      opc ''r'' 0 INSN_CLASS_F ''O4,F3,F2,d,s,t,R'' 0 0 MF_match_opcode 0,
      opc ''r'' 0 INSN_CLASS_F ''O4,F3,F2,D,s,t,R'' 0 0 MF_match_opcode 0,
      opc ''r'' 0 INSN_CLASS_F ''O4,F3,F2,d,S,t,R'' 0 0 MF_match_opcode 0,
      opc ''r'' 0 INSN_CLASS_F ''O4,F3,F2,D,S,t,R'' 0 0 MF_match_opcode 0,
      opc ''r'' 0 INSN_CLASS_F ''O4,F3,F2,d,s,T,R'' 0 0 MF_match_opcode 0,
      opc ''r'' 0 INSN_CLASS_F ''O4,F3,F2,D,s,T,R'' 0 0 MF_match_opcode 0,
      opc ''r'' 0 INSN_CLASS_F ''O4,F3,F2,d,S,T,R'' 0 0 MF_match_opcode 0,
      opc ''r'' 0 INSN_CLASS_F ''O4,F3,F2,D,S,T,R'' 0 0 MF_match_opcode 0,
      opc ''r4'' 0 INSN_CLASS_I ''O4,F3,F2,d,s,t,r'' 0 0 MF_match_opcode 0,
      opc ''r4'' 0 INSN_CLASS_F ''O4,F3,F2,D,s,t,r'' 0 0 MF_match_opcode 0,
      opc ''r4'' 0 INSN_CLASS_F ''O4,F3,F2,d,S,t,r'' 0 0 MF_match_opcode 0,
      opc ''r4'' 0 INSN_CLASS_F ''O4,F3,F2,D,S,t,r'' 0 0 MF_match_opcode 0,
      opc ''r4'' 0 INSN_CLASS_F ''O4,F3,F2,d,s,T,r'' 0 0 MF_match_opcode 0,
      opc ''r4'' 0 INSN_CLASS_F ''O4,F3,F2,D,s,T,r'' 0 0 MF_match_opcode 0,
      opc ''r4'' 0 INSN_CLASS_F ''O4,F3,F2,d,S,T,r'' 0 0 MF_match_opcode 0,
      opc ''r4'' 0 INSN_CLASS_F ''O4,F3,F2,D,S,T,r'' 0 0 MF_match_opcode 0,
      opc ''r4'' 0 INSN_CLASS_F ''O4,F3,F2,d,s,t,R'' 0 0 MF_match_opcode 0,
      opc ''r4'' 0 INSN_CLASS_F ''O4,F3,F2,D,s,t,R'' 0 0 MF_match_opcode 0,
      opc ''r4'' 0 INSN_CLASS_F ''O4,F3,F2,d,S,t,R'' 0 0 MF_match_opcode 0,
      opc ''r4'' 0 INSN_CLASS_F ''O4,F3,F2,D,S,t,R'' 0 0 MF_match_opcode 0,
      opc ''r4'' 0 INSN_CLASS_F ''O4,F3,F2,d,s,T,R'' 0 0 MF_match_opcode 0,
      opc ''r4'' 0 INSN_CLASS_F ''O4,F3,F2,D,s,T,R'' 0 0 MF_match_opcode 0,
      opc ''r4'' 0 INSN_CLASS_F ''O4,F3,F2,d,S,T,R'' 0 0 MF_match_opcode 0,
      opc ''r4'' 0 INSN_CLASS_F ''O4,F3,F2,D,S,T,R'' 0 0 MF_match_opcode 0,
      opc ''i'' 0 INSN_CLASS_I ''O4,F3,d,s,j'' 0 0 MF_match_opcode 0,
      opc ''i'' 0 INSN_CLASS_F ''O4,F3,D,s,j'' 0 0 MF_match_opcode 0,
      opc ''i'' 0 INSN_CLASS_F ''O4,F3,d,S,j'' 0 0 MF_match_opcode 0,
      opc ''i'' 0 INSN_CLASS_F ''O4,F3,D,S,j'' 0 0 MF_match_opcode 0,
      opc ''i'' 0 INSN_CLASS_I ''O4,F3,d,o(s)'' 0 0 MF_match_opcode 0,
      opc ''i'' 0 INSN_CLASS_F ''O4,F3,D,o(s)'' 0 0 MF_match_opcode 0,
      opc ''s'' 0 INSN_CLASS_I ''O4,F3,t,q(s)'' 0 0 MF_match_opcode 0,
      opc ''s'' 0 INSN_CLASS_F ''O4,F3,T,q(s)'' 0 0 MF_match_opcode 0,
      opc ''sb'' 0 INSN_CLASS_I ''O4,F3,s,t,p'' 0 0 MF_match_opcode 0,
      opc ''sb'' 0 INSN_CLASS_F ''O4,F3,S,t,p'' 0 0 MF_match_opcode 0,
      opc ''sb'' 0 INSN_CLASS_F ''O4,F3,s,T,p'' 0 0 MF_match_opcode 0,
      opc ''sb'' 0 INSN_CLASS_F ''O4,F3,S,T,p'' 0 0 MF_match_opcode 0,
      opc ''b'' 0 INSN_CLASS_I ''O4,F3,s,t,p'' 0 0 MF_match_opcode 0,
      opc ''b'' 0 INSN_CLASS_F ''O4,F3,S,t,p'' 0 0 MF_match_opcode 0,
      opc ''b'' 0 INSN_CLASS_F ''O4,F3,s,T,p'' 0 0 MF_match_opcode 0,
      opc ''b'' 0 INSN_CLASS_F ''O4,F3,S,T,p'' 0 0 MF_match_opcode 0,
      opc ''u'' 0 INSN_CLASS_I ''O4,d,u'' 0 0 MF_match_opcode 0,
      opc ''u'' 0 INSN_CLASS_F ''O4,D,u'' 0 0 MF_match_opcode 0,
      opc ''uj'' 0 INSN_CLASS_I ''O4,d,a'' 0 0 MF_match_opcode 0,
      opc ''uj'' 0 INSN_CLASS_F ''O4,D,a'' 0 0 MF_match_opcode 0,
      opc ''j'' 0 INSN_CLASS_I ''O4,d,a'' 0 0 MF_match_opcode 0,
      opc ''j'' 0 INSN_CLASS_F ''O4,D,a'' 0 0 MF_match_opcode 0,
      opc ''cr'' 0 INSN_CLASS_C ''O2,CF4,d,CV'' 0 0 MF_match_opcode 0,
      opc ''cr'' 0 INSN_CLASS_F_AND_C ''O2,CF4,D,CV'' 0 0 MF_match_opcode 0,
      opc ''cr'' 0 INSN_CLASS_F_AND_C ''O2,CF4,d,CT'' 0 0 MF_match_opcode 0,
      opc ''cr'' 0 INSN_CLASS_F_AND_C ''O2,CF4,D,CT'' 0 0 MF_match_opcode 0,
      opc ''ci'' 0 INSN_CLASS_C ''O2,CF3,d,Co'' 0 0 MF_match_opcode 0,
      opc ''ci'' 0 INSN_CLASS_F_AND_C ''O2,CF3,D,Co'' 0 0 MF_match_opcode 0,
      opc ''ciw'' 0 INSN_CLASS_C ''O2,CF3,Ct,C8'' 0 0 MF_match_opcode 0,
      opc ''ciw'' 0 INSN_CLASS_F_AND_C ''O2,CF3,CD,C8'' 0 0 MF_match_opcode 0,
      opc ''css'' 0 INSN_CLASS_C ''O2,CF3,CV,C6'' 0 0 MF_match_opcode 0,
      opc ''css'' 0 INSN_CLASS_F_AND_C ''O2,CF3,CT,C6'' 0 0 MF_match_opcode 0,
      opc ''cl'' 0 INSN_CLASS_C ''O2,CF3,Ct,C5(Cs)'' 0 0 MF_match_opcode 0,
      opc ''cl'' 0 INSN_CLASS_F_AND_C ''O2,CF3,CD,C5(Cs)'' 0 0 MF_match_opcode 0,
      opc ''cl'' 0 INSN_CLASS_F_AND_C ''O2,CF3,Ct,C5(CS)'' 0 0 MF_match_opcode 0,
      opc ''cl'' 0 INSN_CLASS_F_AND_C ''O2,CF3,CD,C5(CS)'' 0 0 MF_match_opcode 0,
      opc ''cs'' 0 INSN_CLASS_C ''O2,CF3,Ct,C5(Cs)'' 0 0 MF_match_opcode 0,
      opc ''cs'' 0 INSN_CLASS_F_AND_C ''O2,CF3,CD,C5(Cs)'' 0 0 MF_match_opcode 0,
      opc ''cs'' 0 INSN_CLASS_F_AND_C ''O2,CF3,Ct,C5(CS)'' 0 0 MF_match_opcode 0,
      opc ''cs'' 0 INSN_CLASS_F_AND_C ''O2,CF3,CD,C5(CS)'' 0 0 MF_match_opcode 0,
      opc ''ca'' 0 INSN_CLASS_C ''O2,CF6,CF2,Cs,Ct'' 0 0 MF_match_opcode 0,
      opc ''ca'' 0 INSN_CLASS_F_AND_C ''O2,CF6,CF2,CS,Ct'' 0 0 MF_match_opcode 0,
      opc ''ca'' 0 INSN_CLASS_F_AND_C ''O2,CF6,CF2,Cs,CD'' 0 0 MF_match_opcode 0,
      opc ''ca'' 0 INSN_CLASS_F_AND_C ''O2,CF6,CF2,CS,CD'' 0 0 MF_match_opcode 0,
      opc ''cb'' 0 INSN_CLASS_C ''O2,CF3,Cs,Cp'' 0 0 MF_match_opcode 0,
      opc ''cb'' 0 INSN_CLASS_F_AND_C ''O2,CF3,CS,Cp'' 0 0 MF_match_opcode 0,
      opc ''cj'' 0 INSN_CLASS_C ''O2,CF3,Ca'' 0 0 MF_match_opcode 0]"

section \<open>The groups of entries with one mnemonic\<close>

definition optab_groups :: "(string \<times> nat) list" where
  "optab_groups =
     optab_groups_1 @ optab_groups_2 @ optab_groups_3 @ optab_groups_4 @ optab_groups_5 @
     optab_groups_6 @ optab_groups_7 @ optab_groups_8 @ optab_groups_9 @ optab_groups_10 @
     optab_groups_11 @ optab_groups_12 @ optab_groups_13 @ optab_groups_14 @ optab_groups_15 @
     optab_groups_16 @ optab_groups_17 @ optab_groups_18 @ optab_groups_19"

definition optab_mnemonics :: "string set" where
  "optab_mnemonics = fst ` set optab_groups"

definition optab_sorted_1 :: "string list" where
  "optab_sorted_1 =
     [''prefetch.r'', ''prefetch.i'', ''prefetch.w'', ''pause'', ''pack'', ''packh'',
      ''packw'', ''hlvx.hu'', ''hlvx.wu'', ''hlv.h'', ''hlv.hu'', ''hlv.d'', ''hlv.b'',
      ''hlv.bu'', ''hlv.w'', ''hlv.wu'', ''hret'', ''hfence.vvma'', ''hfence.gvma'',
      ''hinval.vvma'', ''hinval.gvma'', ''hsv.h'', ''hsv.d'', ''hsv.b'', ''hsv.w'',
      ''xperm8'', ''xperm4'', ''xnor'', ''xor'', ''xori'', ''dret'', ''div'', ''divu'',
      ''divuw'', ''divw'', ''th.dcache.ipa'', ''th.dcache.iva'', ''th.dcache.iall'',
      ''th.dcache.isw'', ''th.dcache.cpa'', ''th.dcache.cpal1'', ''th.dcache.cva'',
      ''th.dcache.cval1'', ''th.dcache.call'', ''th.dcache.cipa'', ''th.dcache.civa'',
      ''th.dcache.ciall'', ''th.dcache.cisw'', ''th.dcache.csw'', ''th.tst'', ''th.tstnbz'',
      ''th.lhib'', ''th.lhia'', ''th.lhuib'', ''th.lhuia'', ''th.ldd'', ''th.ldib'',
      ''th.ldia'', ''th.lbib'', ''th.lbia'', ''th.lbuib'', ''th.lbuia'', ''th.l2cache.iall'',
      ''th.l2cache.call'', ''th.l2cache.ciall'', ''th.lrh'', ''th.lrhu'', ''th.lrd'',
      ''th.lrb'', ''th.lrbu'', ''th.lrw'', ''th.lrwu'', ''th.lurh'', ''th.lurhu'',
      ''th.lurd'', ''th.lurb'', ''th.lurbu'', ''th.lurw'', ''th.lurwu'', ''th.lwd'',
      ''th.lwib'', ''th.lwia'', ''th.lwud'', ''th.lwuib'', ''th.lwuia'', ''th.rev'',
      ''th.revw'', ''th.flrd'', ''th.flrw'', ''th.flurd'', ''th.flurw'', ''th.ff0'',
      ''th.ff1'', ''th.fmv.hw.x'', ''th.fmv.x.hw'', ''th.fsrd'', ''th.fsrw'', ''th.fsurd'',
      ''th.fsurw'', ''th.vxor.vx'', ''th.vxor.vv'', ''th.vxor.vi'', ''th.vdiv.vx'',
      ''th.vdiv.vv'', ''th.vdivu.vx'', ''th.vdivu.vv'', ''th.vlhff.v'', ''th.vlh.v'',
      ''th.vlhuff.v'', ''th.vlhu.v'', ''th.vlxh.v'', ''th.vlxhu.v'', ''th.vlxb.v'',
      ''th.vlxbu.v'', ''th.vlxe.v'', ''th.vlxseg8h.v'', ''th.vlxseg8hu.v'',
      ''th.vlxseg8b.v'', ''th.vlxseg8bu.v'', ''th.vlxseg8e.v'', ''th.vlxseg8w.v'',
      ''th.vlxseg8wu.v'', ''th.vlxseg4h.v'', ''th.vlxseg4hu.v'', ''th.vlxseg4b.v'',
      ''th.vlxseg4bu.v'', ''th.vlxseg4e.v'', ''th.vlxseg4w.v'', ''th.vlxseg4wu.v'',
      ''th.vlxseg2h.v'', ''th.vlxseg2hu.v'', ''th.vlxseg2b.v'', ''th.vlxseg2bu.v'',
      ''th.vlxseg2e.v'', ''th.vlxseg2w.v'', ''th.vlxseg2wu.v'', ''th.vlxseg6h.v'',
      ''th.vlxseg6hu.v'', ''th.vlxseg6b.v'', ''th.vlxseg6bu.v'', ''th.vlxseg6e.v'',
      ''th.vlxseg6w.v'', ''th.vlxseg6wu.v'', ''th.vlxseg5h.v'', ''th.vlxseg5hu.v'',
      ''th.vlxseg5b.v'', ''th.vlxseg5bu.v'', ''th.vlxseg5e.v'', ''th.vlxseg5w.v'',
      ''th.vlxseg5wu.v'']"

definition optab_sorted_2 :: "string list" where
  "optab_sorted_2 =
     [''th.vlxseg3h.v'', ''th.vlxseg3hu.v'', ''th.vlxseg3b.v'', ''th.vlxseg3bu.v'',
      ''th.vlxseg3e.v'', ''th.vlxseg3w.v'', ''th.vlxseg3wu.v'', ''th.vlxseg7h.v'',
      ''th.vlxseg7hu.v'', ''th.vlxseg7b.v'', ''th.vlxseg7bu.v'', ''th.vlxseg7e.v'',
      ''th.vlxseg7w.v'', ''th.vlxseg7wu.v'', ''th.vlxw.v'', ''th.vlxwu.v'', ''th.vlbff.v'',
      ''th.vlb.v'', ''th.vlbuff.v'', ''th.vlbu.v'', ''th.vleff.v'', ''th.vle.v'',
      ''th.vlsh.v'', ''th.vlshu.v'', ''th.vlsb.v'', ''th.vlsbu.v'', ''th.vlse.v'',
      ''th.vlseg8hff.v'', ''th.vlseg8h.v'', ''th.vlseg8huff.v'', ''th.vlseg8hu.v'',
      ''th.vlseg8bff.v'', ''th.vlseg8b.v'', ''th.vlseg8buff.v'', ''th.vlseg8bu.v'',
      ''th.vlseg8eff.v'', ''th.vlseg8e.v'', ''th.vlseg8wff.v'', ''th.vlseg8w.v'',
      ''th.vlseg8wuff.v'', ''th.vlseg8wu.v'', ''th.vlseg4hff.v'', ''th.vlseg4h.v'',
      ''th.vlseg4huff.v'', ''th.vlseg4hu.v'', ''th.vlseg4bff.v'', ''th.vlseg4b.v'',
      ''th.vlseg4buff.v'', ''th.vlseg4bu.v'', ''th.vlseg4eff.v'', ''th.vlseg4e.v'',
      ''th.vlseg4wff.v'', ''th.vlseg4w.v'', ''th.vlseg4wuff.v'', ''th.vlseg4wu.v'',
      ''th.vlseg2hff.v'', ''th.vlseg2h.v'', ''th.vlseg2huff.v'', ''th.vlseg2hu.v'',
      ''th.vlseg2bff.v'', ''th.vlseg2b.v'', ''th.vlseg2buff.v'', ''th.vlseg2bu.v'',
      ''th.vlseg2eff.v'', ''th.vlseg2e.v'', ''th.vlseg2wff.v'', ''th.vlseg2w.v'',
      ''th.vlseg2wuff.v'', ''th.vlseg2wu.v'', ''th.vlseg6hff.v'', ''th.vlseg6h.v'',
      ''th.vlseg6huff.v'', ''th.vlseg6hu.v'', ''th.vlseg6bff.v'', ''th.vlseg6b.v'',
      ''th.vlseg6buff.v'', ''th.vlseg6bu.v'', ''th.vlseg6eff.v'', ''th.vlseg6e.v'',
      ''th.vlseg6wff.v'', ''th.vlseg6w.v'', ''th.vlseg6wuff.v'', ''th.vlseg6wu.v'',
      ''th.vlseg5hff.v'', ''th.vlseg5h.v'', ''th.vlseg5huff.v'', ''th.vlseg5hu.v'',
      ''th.vlseg5bff.v'', ''th.vlseg5b.v'', ''th.vlseg5buff.v'', ''th.vlseg5bu.v'',
      ''th.vlseg5eff.v'', ''th.vlseg5e.v'', ''th.vlseg5wff.v'', ''th.vlseg5w.v'',
      ''th.vlseg5wuff.v'', ''th.vlseg5wu.v'', ''th.vlseg3hff.v'', ''th.vlseg3h.v'',
      ''th.vlseg3huff.v'', ''th.vlseg3hu.v'', ''th.vlseg3bff.v'', ''th.vlseg3b.v'',
      ''th.vlseg3buff.v'', ''th.vlseg3bu.v'', ''th.vlseg3eff.v'', ''th.vlseg3e.v'',
      ''th.vlseg3wff.v'', ''th.vlseg3w.v'', ''th.vlseg3wuff.v'', ''th.vlseg3wu.v'',
      ''th.vlseg7hff.v'', ''th.vlseg7h.v'', ''th.vlseg7huff.v'', ''th.vlseg7hu.v'',
      ''th.vlseg7bff.v'', ''th.vlseg7b.v'', ''th.vlseg7buff.v'', ''th.vlseg7bu.v'',
      ''th.vlseg7eff.v'', ''th.vlseg7e.v'', ''th.vlseg7wff.v'', ''th.vlseg7w.v'',
      ''th.vlseg7wuff.v'', ''th.vlseg7wu.v'', ''th.vlsseg8h.v'', ''th.vlsseg8hu.v'',
      ''th.vlsseg8b.v'', ''th.vlsseg8bu.v'', ''th.vlsseg8e.v'', ''th.vlsseg8w.v'',
      ''th.vlsseg8wu.v'', ''th.vlsseg4h.v'', ''th.vlsseg4hu.v'', ''th.vlsseg4b.v'',
      ''th.vlsseg4bu.v'', ''th.vlsseg4e.v'', ''th.vlsseg4w.v'', ''th.vlsseg4wu.v'',
      ''th.vlsseg2h.v'', ''th.vlsseg2hu.v'', ''th.vlsseg2b.v'', ''th.vlsseg2bu.v'',
      ''th.vlsseg2e.v'', ''th.vlsseg2w.v'', ''th.vlsseg2wu.v'', ''th.vlsseg6h.v'',
      ''th.vlsseg6hu.v'', ''th.vlsseg6b.v'', ''th.vlsseg6bu.v'']"

definition optab_sorted_3 :: "string list" where
  "optab_sorted_3 =
     [''th.vlsseg6e.v'', ''th.vlsseg6w.v'', ''th.vlsseg6wu.v'', ''th.vlsseg5h.v'',
      ''th.vlsseg5hu.v'', ''th.vlsseg5b.v'', ''th.vlsseg5bu.v'', ''th.vlsseg5e.v'',
      ''th.vlsseg5w.v'', ''th.vlsseg5wu.v'', ''th.vlsseg3h.v'', ''th.vlsseg3hu.v'',
      ''th.vlsseg3b.v'', ''th.vlsseg3bu.v'', ''th.vlsseg3e.v'', ''th.vlsseg3w.v'',
      ''th.vlsseg3wu.v'', ''th.vlsseg7h.v'', ''th.vlsseg7hu.v'', ''th.vlsseg7b.v'',
      ''th.vlsseg7bu.v'', ''th.vlsseg7e.v'', ''th.vlsseg7w.v'', ''th.vlsseg7wu.v'',
      ''th.vlsw.v'', ''th.vlswu.v'', ''th.vlwff.v'', ''th.vlw.v'', ''th.vlwuff.v'',
      ''th.vlwu.v'', ''th.vredxor.vs'', ''th.vredand.vs'', ''th.vredmax.vs'',
      ''th.vredmaxu.vs'', ''th.vredmin.vs'', ''th.vredminu.vs'', ''th.vredsum.vs'',
      ''th.vredor.vs'', ''th.vrem.vx'', ''th.vrem.vv'', ''th.vremu.vx'', ''th.vremu.vv'',
      ''th.vrsub.vx'', ''th.vrsub.vi'', ''th.vrgather.vx'', ''th.vrgather.vv'',
      ''th.vrgather.vi'', ''th.vfdiv.vf'', ''th.vfdiv.vv'', ''th.vfrdiv.vf'',
      ''th.vfredmax.vs'', ''th.vfredmin.vs'', ''th.vfredsum.vs'', ''th.vfredosum.vs'',
      ''th.vfrsub.vf'', ''th.vfneg.v'', ''th.vfnmadd.vf'', ''th.vfnmadd.vv'',
      ''th.vfnmacc.vf'', ''th.vfnmacc.vv'', ''th.vfnmsac.vf'', ''th.vfnmsac.vv'',
      ''th.vfnmsub.vf'', ''th.vfnmsub.vv'', ''th.vfncvt.x.f.v'', ''th.vfncvt.xu.f.v'',
      ''th.vfncvt.f.x.v'', ''th.vfncvt.f.xu.v'', ''th.vfncvt.f.f.v'', ''th.vfadd.vf'',
      ''th.vfadd.vv'', ''th.vfabs.v'', ''th.vfmv.f.s'', ''th.vfmv.v.f'', ''th.vfmv.s.f'',
      ''th.vfmax.vf'', ''th.vfmax.vv'', ''th.vfmadd.vf'', ''th.vfmadd.vv'', ''th.vfmacc.vf'',
      ''th.vfmacc.vv'', ''th.vfmin.vf'', ''th.vfmin.vv'', ''th.vfmerge.vfm'',
      ''th.vfmul.vf'', ''th.vfmul.vv'', ''th.vfmsac.vf'', ''th.vfmsac.vv'', ''th.vfmsub.vf'',
      ''th.vfmsub.vv'', ''th.vfclass.v'', ''th.vfcvt.x.f.v'', ''th.vfcvt.xu.f.v'',
      ''th.vfcvt.f.x.v'', ''th.vfcvt.f.xu.v'', ''th.vfsqrt.v'', ''th.vfsub.vf'',
      ''th.vfsub.vv'', ''th.vfsgnjx.vf'', ''th.vfsgnjx.vv'', ''th.vfsgnj.vf'',
      ''th.vfsgnj.vv'', ''th.vfsgnjn.vf'', ''th.vfsgnjn.vv'', ''th.vfwredsum.vs'',
      ''th.vfwredosum.vs'', ''th.vfwnmacc.vf'', ''th.vfwnmacc.vv'', ''th.vfwnmsac.vf'',
      ''th.vfwnmsac.vv'', ''th.vfwadd.vf'', ''th.vfwadd.vv'', ''th.vfwadd.wf'',
      ''th.vfwadd.wv'', ''th.vfwmacc.vf'', ''th.vfwmacc.vv'', ''th.vfwmul.vf'',
      ''th.vfwmul.vv'', ''th.vfwmsac.vf'', ''th.vfwmsac.vv'', ''th.vfwcvt.x.f.v'',
      ''th.vfwcvt.xu.f.v'', ''th.vfwcvt.f.x.v'', ''th.vfwcvt.f.xu.v'', ''th.vfwcvt.f.f.v'',
      ''th.vfwsub.vf'', ''th.vfwsub.vv'', ''th.vfwsub.wf'', ''th.vfwsub.wv'', ''th.vneg.v'',
      ''th.vnmsac.vx'', ''th.vnmsac.vv'', ''th.vnmsub.vx'', ''th.vnmsub.vv'',
      ''th.vnclip.vx'', ''th.vnclip.vv'', ''th.vnclip.vi'', ''th.vnclipu.vx'',
      ''th.vnclipu.vv'', ''th.vnclipu.vi'', ''th.vncvt.x.x.v'', ''th.vnsrl.vx'',
      ''th.vnsrl.vv'', ''th.vnsrl.vi'', ''th.vnsra.vx'', ''th.vnsra.vv'', ''th.vnsra.vi'',
      ''th.vnot.v'', ''th.vadd.vx'', ''th.vadd.vv'']"

definition optab_sorted_4 :: "string list" where
  "optab_sorted_4 =
     [''th.vadd.vi'', ''th.vadc.vxm'', ''th.vadc.vvm'', ''th.vadc.vim'', ''th.vand.vx'',
      ''th.vand.vv'', ''th.vand.vi'', ''th.vaadd.vx'', ''th.vaadd.vv'', ''th.vaadd.vi'',
      ''th.vamoxord.v'', ''th.vamoxorw.v'', ''th.vamoaddd.v'', ''th.vamoaddw.v'',
      ''th.vamoandd.v'', ''th.vamoandw.v'', ''th.vamomaxd.v'', ''th.vamomaxud.v'',
      ''th.vamomaxuw.v'', ''th.vamomaxw.v'', ''th.vamomind.v'', ''th.vamominud.v'',
      ''th.vamominuw.v'', ''th.vamominw.v'', ''th.vamoswapd.v'', ''th.vamoswapw.v'',
      ''th.vamoord.v'', ''th.vamoorw.v'', ''th.vasub.vx'', ''th.vasub.vv'', ''th.vid.v'',
      ''th.viota.m'', ''th.vext.x.v'', ''th.vmpopc.m'', ''th.vmxnor.mm'', ''th.vmxor.mm'',
      ''th.vmflt.vf'', ''th.vmflt.vv'', ''th.vmfle.vf'', ''th.vmfle.vv'', ''th.vmfne.vf'',
      ''th.vmfne.vv'', ''th.vmfirst.m'', ''th.vmfeq.vf'', ''th.vmfeq.vv'', ''th.vmfgt.vf'',
      ''th.vmfgt.vv'', ''th.vmfge.vf'', ''th.vmfge.vv'', ''th.vmford.vf'', ''th.vmford.vv'',
      ''th.vmv.x.s'', ''th.vmv.v.x'', ''th.vmv.v.v'', ''th.vmv.v.i'', ''th.vmv.s.x'',
      ''th.vmnand.mm'', ''th.vmnot.m'', ''th.vmnor.mm'', ''th.vmax.vx'', ''th.vmax.vv'',
      ''th.vmaxu.vx'', ''th.vmaxu.vv'', ''th.vmadd.vx'', ''th.vmadd.vv'', ''th.vmadc.vxm'',
      ''th.vmadc.vvm'', ''th.vmadc.vim'', ''th.vmand.mm'', ''th.vmandnot.mm'',
      ''th.vmacc.vx'', ''th.vmacc.vv'', ''th.vmin.vx'', ''th.vmin.vv'', ''th.vminu.vx'',
      ''th.vminu.vv'', ''th.vmerge.vxm'', ''th.vmerge.vvm'', ''th.vmerge.vim'',
      ''th.vmulh.vx'', ''th.vmulh.vv'', ''th.vmulhu.vx'', ''th.vmulhu.vv'',
      ''th.vmulhsu.vx'', ''th.vmulhsu.vv'', ''th.vmul.vx'', ''th.vmul.vv'', ''th.vmmv.m'',
      ''th.vmcpy.m'', ''th.vmclr.m'', ''th.vmslt.vx'', ''th.vmslt.vv'', ''th.vmslt.vi'',
      ''th.vmsltu.vx'', ''th.vmsltu.vv'', ''th.vmsltu.vi'', ''th.vmsle.vx'', ''th.vmsle.vv'',
      ''th.vmsle.vi'', ''th.vmsleu.vx'', ''th.vmsleu.vv'', ''th.vmsleu.vi'', ''th.vmsbf.m'',
      ''th.vmsbc.vxm'', ''th.vmsbc.vvm'', ''th.vmsne.vx'', ''th.vmsne.vv'', ''th.vmsne.vi'',
      ''th.vmsif.m'', ''th.vmset.m'', ''th.vmseq.vx'', ''th.vmseq.vv'', ''th.vmseq.vi'',
      ''th.vmsgt.vx'', ''th.vmsgt.vv'', ''th.vmsgt.vi'', ''th.vmsgtu.vx'', ''th.vmsgtu.vv'',
      ''th.vmsgtu.vi'', ''th.vmsge.vx'', ''th.vmsge.vv'', ''th.vmsge.vi'', ''th.vmsgeu.vx'',
      ''th.vmsgeu.vv'', ''th.vmsgeu.vi'', ''th.vmsof.m'', ''th.vmor.mm'', ''th.vmornot.mm'',
      ''th.vcompress.vm'', ''th.vsh.v'', ''th.vsxh.v'', ''th.vsxb.v'', ''th.vsxe.v'',
      ''th.vsxseg8h.v'', ''th.vsxseg8b.v'', ''th.vsxseg8e.v'', ''th.vsxseg8w.v'',
      ''th.vsxseg4h.v'', ''th.vsxseg4b.v'', ''th.vsxseg4e.v'', ''th.vsxseg4w.v'',
      ''th.vsxseg2h.v'', ''th.vsxseg2b.v'', ''th.vsxseg2e.v'', ''th.vsxseg2w.v'',
      ''th.vsxseg6h.v'', ''th.vsxseg6b.v'', ''th.vsxseg6e.v'', ''th.vsxseg6w.v'',
      ''th.vsxseg5h.v'']"

definition optab_sorted_5 :: "string list" where
  "optab_sorted_5 =
     [''th.vsxseg5b.v'', ''th.vsxseg5e.v'', ''th.vsxseg5w.v'', ''th.vsxseg3h.v'',
      ''th.vsxseg3b.v'', ''th.vsxseg3e.v'', ''th.vsxseg3w.v'', ''th.vsxseg7h.v'',
      ''th.vsxseg7b.v'', ''th.vsxseg7e.v'', ''th.vsxseg7w.v'', ''th.vsxw.v'', ''th.vsll.vx'',
      ''th.vsll.vv'', ''th.vsll.vi'', ''th.vslidedown.vx'', ''th.vslidedown.vi'',
      ''th.vslide1down.vx'', ''th.vslide1up.vx'', ''th.vslideup.vx'', ''th.vslideup.vi'',
      ''th.vsb.v'', ''th.vsbc.vxm'', ''th.vsbc.vvm'', ''th.vsrl.vx'', ''th.vsrl.vv'',
      ''th.vsrl.vi'', ''th.vsra.vx'', ''th.vsra.vv'', ''th.vsra.vi'', ''th.vsadd.vx'',
      ''th.vsadd.vv'', ''th.vsadd.vi'', ''th.vsaddu.vx'', ''th.vsaddu.vv'', ''th.vsaddu.vi'',
      ''th.vsetvl'', ''th.vsetvli'', ''th.vse.v'', ''th.vsuxh.v'', ''th.vsuxb.v'',
      ''th.vsuxe.v'', ''th.vsuxw.v'', ''th.vsub.vx'', ''th.vsub.vv'', ''th.vsmul.vx'',
      ''th.vsmul.vv'', ''th.vssh.v'', ''th.vssb.v'', ''th.vssrl.vx'', ''th.vssrl.vv'',
      ''th.vssrl.vi'', ''th.vssra.vx'', ''th.vssra.vv'', ''th.vssra.vi'', ''th.vsse.v'',
      ''th.vsseg8h.v'', ''th.vsseg8b.v'', ''th.vsseg8e.v'', ''th.vsseg8w.v'',
      ''th.vsseg4h.v'', ''th.vsseg4b.v'', ''th.vsseg4e.v'', ''th.vsseg4w.v'',
      ''th.vsseg2h.v'', ''th.vsseg2b.v'', ''th.vsseg2e.v'', ''th.vsseg2w.v'',
      ''th.vsseg6h.v'', ''th.vsseg6b.v'', ''th.vsseg6e.v'', ''th.vsseg6w.v'',
      ''th.vsseg5h.v'', ''th.vsseg5b.v'', ''th.vsseg5e.v'', ''th.vsseg5w.v'',
      ''th.vsseg3h.v'', ''th.vsseg3b.v'', ''th.vsseg3e.v'', ''th.vsseg3w.v'',
      ''th.vsseg7h.v'', ''th.vsseg7b.v'', ''th.vsseg7e.v'', ''th.vsseg7w.v'',
      ''th.vssub.vx'', ''th.vssub.vv'', ''th.vssubu.vx'', ''th.vssubu.vv'',
      ''th.vssseg8h.v'', ''th.vssseg8b.v'', ''th.vssseg8e.v'', ''th.vssseg8w.v'',
      ''th.vssseg4h.v'', ''th.vssseg4b.v'', ''th.vssseg4e.v'', ''th.vssseg4w.v'',
      ''th.vssseg2h.v'', ''th.vssseg2b.v'', ''th.vssseg2e.v'', ''th.vssseg2w.v'',
      ''th.vssseg6h.v'', ''th.vssseg6b.v'', ''th.vssseg6e.v'', ''th.vssseg6w.v'',
      ''th.vssseg5h.v'', ''th.vssseg5b.v'', ''th.vssseg5e.v'', ''th.vssseg5w.v'',
      ''th.vssseg3h.v'', ''th.vssseg3b.v'', ''th.vssseg3e.v'', ''th.vssseg3w.v'',
      ''th.vssseg7h.v'', ''th.vssseg7b.v'', ''th.vssseg7e.v'', ''th.vssseg7w.v'',
      ''th.vssw.v'', ''th.vsw.v'', ''th.vwredsum.vs'', ''th.vwredsumu.vs'', ''th.vwadd.vx'',
      ''th.vwadd.vv'', ''th.vwadd.wx'', ''th.vwadd.wv'', ''th.vwaddu.vx'', ''th.vwaddu.vv'',
      ''th.vwaddu.wx'', ''th.vwaddu.wv'', ''th.vwmacc.vx'', ''th.vwmacc.vv'',
      ''th.vwmaccu.vx'', ''th.vwmaccu.vv'', ''th.vwmaccus.vx'', ''th.vwmaccsu.vx'',
      ''th.vwmaccsu.vv'', ''th.vwmul.vx'', ''th.vwmul.vv'', ''th.vwmulu.vx'',
      ''th.vwmulu.vv'', ''th.vwmulsu.vx'', ''th.vwmulsu.vv'', ''th.vwcvt.x.x.v'',
      ''th.vwcvtu.x.x.v'', ''th.vwsub.vx'', ''th.vwsub.vv'', ''th.vwsub.wx'',
      ''th.vwsub.wv'', ''th.vwsubu.vx'', ''th.vwsubu.vv'', ''th.vwsubu.wx'']"

definition optab_sorted_6 :: "string list" where
  "optab_sorted_6 =
     [''th.vwsubu.wv'', ''th.vwsmacc.vx'', ''th.vwsmacc.vv'', ''th.vwsmaccu.vx'',
      ''th.vwsmaccu.vv'', ''th.vwsmaccus.vx'', ''th.vwsmaccsu.vx'', ''th.vwsmaccsu.vv'',
      ''th.vor.vx'', ''th.vor.vv'', ''th.vor.vi'', ''th.addsl'', ''th.ipush'', ''th.ipop'',
      ''th.icache.ipa'', ''th.icache.iva'', ''th.icache.iall'', ''th.icache.ialls'',
      ''th.ext'', ''th.extu'', ''th.mvnez'', ''th.mveqz'', ''th.mula'', ''th.mulah'',
      ''th.mulaw'', ''th.muls'', ''th.mulsh'', ''th.mulsw'', ''th.shib'', ''th.shia'',
      ''th.sdd'', ''th.sdib'', ''th.sdia'', ''th.sbib'', ''th.sbia'', ''th.srh'', ''th.srd'',
      ''th.srb'', ''th.srri'', ''th.srriw'', ''th.srw'', ''th.sfence.vmas'', ''th.sync'',
      ''th.sync.i'', ''th.sync.is'', ''th.sync.s'', ''th.surh'', ''th.surd'', ''th.surb'',
      ''th.surw'', ''th.swd'', ''th.swib'', ''th.swia'', ''tail'', ''lh'', ''lhu'', ''ld'',
      ''lla'', ''lb'', ''lbu'', ''lr.d'', ''lr.d.rl'', ''lr.d.aq'', ''lr.d.aqrl'', ''lr.w'',
      ''lr.w.rl'', ''lr.w.aq'', ''lr.w.aqrl'', ''la'', ''la.tls.ie'', ''la.tls.gd'', ''li'',
      ''lui'', ''lga'', ''lw'', ''lwu'', ''blt'', ''bltz'', ''bltu'', ''ble'', ''blez'',
      ''bleu'', ''brev8'', ''bne'', ''bnez'', ''binv'', ''binvi'', ''bext'', ''bexti'',
      ''beq'', ''beqz'', ''bclr'', ''bclri'', ''bset'', ''bseti'', ''bgt'', ''bgtz'',
      ''bgtu'', ''bge'', ''bgez'', ''bgeu'', ''rdtime'', ''rdtimeh'', ''rdinstret'',
      ''rdinstreth'', ''rdcycle'', ''rdcycleh'', ''ret'', ''rev8'', ''rem'', ''remu'',
      ''remuw'', ''remw'', ''rol'', ''rolw'', ''ror'', ''rori'', ''roriw'', ''rorw'', ''j'',
      ''jr'', ''jal'', ''jalr'', ''jump'', ''zip'', ''zext.h'', ''zext.b'', ''zext.w'',
      ''fdiv.h'', ''fdiv.d'', ''fdiv.q'', ''fdiv.s'', ''flh'', ''fld'', ''flt.h'', ''flt.d'',
      ''flt.q'', ''flt.s'', ''fltq.h'', ''fltq.d'', ''fltq.q'', ''fltq.s'', ''flq'',
      ''fli.h'', ''fli.d'', ''fli.q'', ''fli.s'', ''fle.h'', ''fle.d'', ''fle.q'']"

definition optab_sorted_7 :: "string list" where
  "optab_sorted_7 =
     [''fle.s'', ''fleq.h'', ''fleq.d'', ''fleq.q'', ''fleq.s'', ''flw'', ''frrm'',
      ''frflags'', ''frcsr'', ''frsr'', ''fround.h'', ''fround.d'', ''fround.q'',
      ''fround.s'', ''froundnx.h'', ''froundnx.d'', ''froundnx.q'', ''froundnx.s'',
      ''fneg.h'', ''fneg.d'', ''fneg.q'', ''fneg.s'', ''fnmadd.h'', ''fnmadd.d'',
      ''fnmadd.q'', ''fnmadd.s'', ''fnmsub.h'', ''fnmsub.d'', ''fnmsub.q'', ''fnmsub.s'',
      ''fadd.h'', ''fadd.d'', ''fadd.q'', ''fadd.s'', ''fabs.h'', ''fabs.d'', ''fabs.q'',
      ''fabs.s'', ''fence'', ''fence.tso'', ''fence.i'', ''feq.h'', ''feq.d'', ''feq.q'',
      ''feq.s'', ''fmvp.d.x'', ''fmvp.q.x'', ''fmvh.x.d'', ''fmvh.x.q'', ''fmv.h'',
      ''fmv.h.x'', ''fmv.x.h'', ''fmv.x.d'', ''fmv.x.s'', ''fmv.x.w'', ''fmv.d'',
      ''fmv.d.x'', ''fmv.q'', ''fmv.s'', ''fmv.s.x'', ''fmv.w.x'', ''fmax.h'', ''fmax.d'',
      ''fmax.q'', ''fmax.s'', ''fmaxm.h'', ''fmaxm.d'', ''fmaxm.q'', ''fmaxm.s'',
      ''fmadd.h'', ''fmadd.d'', ''fmadd.q'', ''fmadd.s'', ''fmin.h'', ''fmin.d'', ''fmin.q'',
      ''fmin.s'', ''fminm.h'', ''fminm.d'', ''fminm.q'', ''fminm.s'', ''fmul.h'', ''fmul.d'',
      ''fmul.q'', ''fmul.s'', ''fmsub.h'', ''fmsub.d'', ''fmsub.q'', ''fmsub.s'',
      ''fclass.h'', ''fclass.d'', ''fclass.q'', ''fclass.s'', ''fcvt.h.d'', ''fcvt.h.l'',
      ''fcvt.h.lu'', ''fcvt.h.q'', ''fcvt.h.s'', ''fcvt.h.w'', ''fcvt.h.wu'', ''fcvt.d.h'',
      ''fcvt.d.l'', ''fcvt.d.lu'', ''fcvt.d.q'', ''fcvt.d.s'', ''fcvt.d.w'', ''fcvt.d.wu'',
      ''fcvt.l.h'', ''fcvt.l.d'', ''fcvt.l.q'', ''fcvt.l.s'', ''fcvt.lu.h'', ''fcvt.lu.d'',
      ''fcvt.lu.q'', ''fcvt.lu.s'', ''fcvt.q.h'', ''fcvt.q.d'', ''fcvt.q.l'', ''fcvt.q.lu'',
      ''fcvt.q.s'', ''fcvt.q.w'', ''fcvt.q.wu'', ''fcvt.s.h'', ''fcvt.s.d'', ''fcvt.s.l'',
      ''fcvt.s.lu'', ''fcvt.s.q'', ''fcvt.s.w'', ''fcvt.s.wu'', ''fcvt.w.h'', ''fcvt.w.d'',
      ''fcvt.w.q'', ''fcvt.w.s'', ''fcvt.wu.h'', ''fcvt.wu.d'', ''fcvt.wu.q'', ''fcvt.wu.s'',
      ''fcvtmod.w.d'', ''fsh'', ''fsd'', ''fsrm'', ''fsrmi'', ''fsflags'', ''fsflagsi'',
      ''fsq'', ''fsqrt.h'', ''fsqrt.d'', ''fsqrt.q'', ''fsqrt.s'', ''fsub.h'']"

definition optab_sorted_8 :: "string list" where
  "optab_sorted_8 =
     [''fsub.d'', ''fsub.q'', ''fsub.s'', ''fscsr'', ''fssr'', ''fsgnjx.h'', ''fsgnjx.d'',
      ''fsgnjx.q'', ''fsgnjx.s'', ''fsgnj.h'', ''fsgnj.d'', ''fsgnj.q'', ''fsgnj.s'',
      ''fsgnjn.h'', ''fsgnjn.d'', ''fsgnjn.q'', ''fsgnjn.s'', ''fsw'', ''fgt.h'', ''fgt.d'',
      ''fgt.q'', ''fgt.s'', ''fge.h'', ''fge.d'', ''fge.q'', ''fge.s'', ''vpopc.m'',
      ''vxor.vx'', ''vxor.vv'', ''vxor.vi'', ''vdiv.vx'', ''vdiv.vv'', ''vdivu.vx'',
      ''vdivu.vv'', ''vt.maskc'', ''vt.maskcn'', ''vl8r.v'', ''vl8re8.v'', ''vl8re64.v'',
      ''vl8re16.v'', ''vl8re32.v'', ''vl4r.v'', ''vl4re8.v'', ''vl4re64.v'', ''vl4re16.v'',
      ''vl4re32.v'', ''vl2r.v'', ''vl2re8.v'', ''vl2re64.v'', ''vl2re16.v'', ''vl2re32.v'',
      ''vl1r.v'', ''vl1re8.v'', ''vl1re64.v'', ''vl1re16.v'', ''vl1re32.v'', ''vle8ff.v'',
      ''vle8.v'', ''vle64ff.v'', ''vle64.v'', ''vle16ff.v'', ''vle16.v'', ''vle1.v'',
      ''vle32ff.v'', ''vle32.v'', ''vluxei8.v'', ''vluxei64.v'', ''vluxei16.v'',
      ''vluxei32.v'', ''vluxseg8ei8.v'', ''vluxseg8ei64.v'', ''vluxseg8ei16.v'',
      ''vluxseg8ei32.v'', ''vluxseg4ei8.v'', ''vluxseg4ei64.v'', ''vluxseg4ei16.v'',
      ''vluxseg4ei32.v'', ''vluxseg2ei8.v'', ''vluxseg2ei64.v'', ''vluxseg2ei16.v'',
      ''vluxseg2ei32.v'', ''vluxseg6ei8.v'', ''vluxseg6ei64.v'', ''vluxseg6ei16.v'',
      ''vluxseg6ei32.v'', ''vluxseg5ei8.v'', ''vluxseg5ei64.v'', ''vluxseg5ei16.v'',
      ''vluxseg5ei32.v'', ''vluxseg3ei8.v'', ''vluxseg3ei64.v'', ''vluxseg3ei16.v'',
      ''vluxseg3ei32.v'', ''vluxseg7ei8.v'', ''vluxseg7ei64.v'', ''vluxseg7ei16.v'',
      ''vluxseg7ei32.v'', ''vlm.v'', ''vlse8.v'', ''vlse64.v'', ''vlse16.v'', ''vlse32.v'',
      ''vlseg8e8ff.v'', ''vlseg8e8.v'', ''vlseg8e64ff.v'', ''vlseg8e64.v'',
      ''vlseg8e16ff.v'', ''vlseg8e16.v'', ''vlseg8e32ff.v'', ''vlseg8e32.v'',
      ''vlseg4e8ff.v'', ''vlseg4e8.v'', ''vlseg4e64ff.v'', ''vlseg4e64.v'',
      ''vlseg4e16ff.v'', ''vlseg4e16.v'', ''vlseg4e32ff.v'', ''vlseg4e32.v'',
      ''vlseg2e8ff.v'', ''vlseg2e8.v'', ''vlseg2e64ff.v'', ''vlseg2e64.v'',
      ''vlseg2e16ff.v'', ''vlseg2e16.v'', ''vlseg2e32ff.v'', ''vlseg2e32.v'',
      ''vlseg6e8ff.v'', ''vlseg6e8.v'', ''vlseg6e64ff.v'', ''vlseg6e64.v'',
      ''vlseg6e16ff.v'', ''vlseg6e16.v'', ''vlseg6e32ff.v'', ''vlseg6e32.v'',
      ''vlseg5e8ff.v'', ''vlseg5e8.v'', ''vlseg5e64ff.v'', ''vlseg5e64.v'',
      ''vlseg5e16ff.v'', ''vlseg5e16.v'', ''vlseg5e32ff.v'', ''vlseg5e32.v'',
      ''vlseg3e8ff.v'', ''vlseg3e8.v'', ''vlseg3e64ff.v'', ''vlseg3e64.v'',
      ''vlseg3e16ff.v'', ''vlseg3e16.v'', ''vlseg3e32ff.v'', ''vlseg3e32.v'']"

definition optab_sorted_9 :: "string list" where
  "optab_sorted_9 =
     [''vlseg7e8ff.v'', ''vlseg7e8.v'', ''vlseg7e64ff.v'', ''vlseg7e64.v'',
      ''vlseg7e16ff.v'', ''vlseg7e16.v'', ''vlseg7e32ff.v'', ''vlseg7e32.v'',
      ''vlsseg8e8.v'', ''vlsseg8e64.v'', ''vlsseg8e16.v'', ''vlsseg8e32.v'', ''vlsseg4e8.v'',
      ''vlsseg4e64.v'', ''vlsseg4e16.v'', ''vlsseg4e32.v'', ''vlsseg2e8.v'',
      ''vlsseg2e64.v'', ''vlsseg2e16.v'', ''vlsseg2e32.v'', ''vlsseg6e8.v'',
      ''vlsseg6e64.v'', ''vlsseg6e16.v'', ''vlsseg6e32.v'', ''vlsseg5e8.v'',
      ''vlsseg5e64.v'', ''vlsseg5e16.v'', ''vlsseg5e32.v'', ''vlsseg3e8.v'',
      ''vlsseg3e64.v'', ''vlsseg3e16.v'', ''vlsseg3e32.v'', ''vlsseg7e8.v'',
      ''vlsseg7e64.v'', ''vlsseg7e16.v'', ''vlsseg7e32.v'', ''vloxei8.v'', ''vloxei64.v'',
      ''vloxei16.v'', ''vloxei32.v'', ''vloxseg8ei8.v'', ''vloxseg8ei64.v'',
      ''vloxseg8ei16.v'', ''vloxseg8ei32.v'', ''vloxseg4ei8.v'', ''vloxseg4ei64.v'',
      ''vloxseg4ei16.v'', ''vloxseg4ei32.v'', ''vloxseg2ei8.v'', ''vloxseg2ei64.v'',
      ''vloxseg2ei16.v'', ''vloxseg2ei32.v'', ''vloxseg6ei8.v'', ''vloxseg6ei64.v'',
      ''vloxseg6ei16.v'', ''vloxseg6ei32.v'', ''vloxseg5ei8.v'', ''vloxseg5ei64.v'',
      ''vloxseg5ei16.v'', ''vloxseg5ei32.v'', ''vloxseg3ei8.v'', ''vloxseg3ei64.v'',
      ''vloxseg3ei16.v'', ''vloxseg3ei32.v'', ''vloxseg7ei8.v'', ''vloxseg7ei64.v'',
      ''vloxseg7ei16.v'', ''vloxseg7ei32.v'', ''vbrev8.v'', ''vbrev.v'', ''vredxor.vs'',
      ''vredand.vs'', ''vredmax.vs'', ''vredmaxu.vs'', ''vredmin.vs'', ''vredminu.vs'',
      ''vredsum.vs'', ''vredor.vs'', ''vrev8.v'', ''vrem.vx'', ''vrem.vv'', ''vremu.vx'',
      ''vremu.vv'', ''vrsub.vx'', ''vrsub.vi'', ''vrgather.vx'', ''vrgather.vv'',
      ''vrgather.vi'', ''vrgatherei16.vv'', ''vrol.vx'', ''vrol.vv'', ''vror.vx'',
      ''vror.vv'', ''vror.vi'', ''vzext.vf8'', ''vzext.vf4'', ''vzext.vf2'', ''vfdiv.vf'',
      ''vfdiv.vv'', ''vfrdiv.vf'', ''vfredusum.vs'', ''vfredmax.vs'', ''vfredmin.vs'',
      ''vfredsum.vs'', ''vfredosum.vs'', ''vfrece7.v'', ''vfrec7.v'', ''vfrsqrte7.v'',
      ''vfrsqrt7.v'', ''vfrsub.vf'', ''vfneg.v'', ''vfnmadd.vf'', ''vfnmadd.vv'',
      ''vfnmacc.vf'', ''vfnmacc.vv'', ''vfnmsac.vf'', ''vfnmsac.vv'', ''vfnmsub.vf'',
      ''vfnmsub.vv'', ''vfncvt.x.f.w'', ''vfncvt.xu.f.w'', ''vfncvt.rtz.x.f.w'',
      ''vfncvt.rtz.xu.f.w'', ''vfncvt.rod.f.f.w'', ''vfncvt.f.x.w'', ''vfncvt.f.xu.w'',
      ''vfncvt.f.f.w'', ''vfadd.vf'', ''vfadd.vv'', ''vfabs.v'', ''vfirst.m'', ''vfmv.f.s'',
      ''vfmv.v.f'', ''vfmv.s.f'', ''vfmax.vf'', ''vfmax.vv'', ''vfmadd.vf'', ''vfmadd.vv'',
      ''vfmacc.vf'', ''vfmacc.vv'', ''vfmin.vf'', ''vfmin.vv'', ''vfmerge.vfm'',
      ''vfmul.vf'', ''vfmul.vv'', ''vfmsac.vf'', ''vfmsac.vv'', ''vfmsub.vf'', ''vfmsub.vv'',
      ''vfclass.v'']"

definition optab_sorted_10 :: "string list" where
  "optab_sorted_10 =
     [''vfcvt.x.f.v'', ''vfcvt.xu.f.v'', ''vfcvt.rtz.x.f.v'', ''vfcvt.rtz.xu.f.v'',
      ''vfcvt.f.x.v'', ''vfcvt.f.xu.v'', ''vfslide1down.vf'', ''vfslide1up.vf'',
      ''vfsqrt.v'', ''vfsub.vf'', ''vfsub.vv'', ''vfsgnjx.vf'', ''vfsgnjx.vv'',
      ''vfsgnj.vf'', ''vfsgnj.vv'', ''vfsgnjn.vf'', ''vfsgnjn.vv'', ''vfwredusum.vs'',
      ''vfwredsum.vs'', ''vfwredosum.vs'', ''vfwnmacc.vf'', ''vfwnmacc.vv'', ''vfwnmsac.vf'',
      ''vfwnmsac.vv'', ''vfwadd.vf'', ''vfwadd.vv'', ''vfwadd.wf'', ''vfwadd.wv'',
      ''vfwmacc.vf'', ''vfwmacc.vv'', ''vfwmul.vf'', ''vfwmul.vv'', ''vfwmsac.vf'',
      ''vfwmsac.vv'', ''vfwcvt.x.f.v'', ''vfwcvt.xu.f.v'', ''vfwcvt.rtz.x.f.v'',
      ''vfwcvt.rtz.xu.f.v'', ''vfwcvt.f.x.v'', ''vfwcvt.f.xu.v'', ''vfwcvt.f.f.v'',
      ''vfwsub.vf'', ''vfwsub.vv'', ''vfwsub.wf'', ''vfwsub.wv'', ''vneg.v'', ''vnmsac.vx'',
      ''vnmsac.vv'', ''vnmsub.vx'', ''vnmsub.vv'', ''vnclip.wx'', ''vnclip.wv'',
      ''vnclip.wi'', ''vnclipu.wx'', ''vnclipu.wv'', ''vnclipu.wi'', ''vncvt.x.x.w'',
      ''vnsrl.wx'', ''vnsrl.wv'', ''vnsrl.wi'', ''vnsra.wx'', ''vnsra.wv'', ''vnsra.wi'',
      ''vnot.v'', ''vadd.vx'', ''vadd.vv'', ''vadd.vi'', ''vadc.vxm'', ''vadc.vvm'',
      ''vadc.vim'', ''vand.vx'', ''vand.vv'', ''vand.vi'', ''vandn.vx'', ''vandn.vv'',
      ''vaadd.vx'', ''vaadd.vv'', ''vaaddu.vx'', ''vaaddu.vv'', ''vaesdf.vv'', ''vaesdf.vs'',
      ''vaesdm.vv'', ''vaesdm.vs'', ''vaesz.vs'', ''vaesef.vv'', ''vaesef.vs'',
      ''vaesem.vv'', ''vaesem.vs'', ''vaeskf2.vi'', ''vaeskf1.vi'', ''vasub.vx'',
      ''vasub.vv'', ''vasubu.vx'', ''vasubu.vv'', ''vid.v'', ''viota.m'', ''vmxnor.mm'',
      ''vmxor.mm'', ''vmflt.vf'', ''vmflt.vv'', ''vmfle.vf'', ''vmfle.vv'', ''vmfne.vf'',
      ''vmfne.vv'', ''vmfeq.vf'', ''vmfeq.vv'', ''vmfgt.vf'', ''vmfgt.vv'', ''vmfge.vf'',
      ''vmfge.vv'', ''vmv8r.v'', ''vmv4r.v'', ''vmv2r.v'', ''vmv.x.s'', ''vmv.v.x'',
      ''vmv.v.v'', ''vmv.v.i'', ''vmv.s.x'', ''vmv1r.v'', ''vmnand.mm'', ''vmnot.m'',
      ''vmnor.mm'', ''vmax.vx'', ''vmax.vv'', ''vmaxu.vx'', ''vmaxu.vv'', ''vmadd.vx'',
      ''vmadd.vv'', ''vmadc.vx'', ''vmadc.vxm'', ''vmadc.vv'', ''vmadc.vvm'', ''vmadc.vi'',
      ''vmadc.vim'', ''vmand.mm'', ''vmandn.mm'', ''vmandnot.mm'', ''vmacc.vx'',
      ''vmacc.vv'', ''vmin.vx'', ''vmin.vv'', ''vminu.vx'', ''vminu.vv'', ''vmerge.vxm'',
      ''vmerge.vvm'', ''vmerge.vim'', ''vmulh.vx'', ''vmulh.vv'', ''vmulhu.vx'', ''vmulhu.vv'']"

definition optab_sorted_11 :: "string list" where
  "optab_sorted_11 =
     [''vmulhsu.vx'', ''vmulhsu.vv'', ''vmul.vx'', ''vmul.vv'', ''vmmv.m'', ''vmcpy.m'',
      ''vmclr.m'', ''vmslt.vx'', ''vmslt.vv'', ''vmslt.vi'', ''vmsltu.vx'', ''vmsltu.vv'',
      ''vmsltu.vi'', ''vmsle.vx'', ''vmsle.vv'', ''vmsle.vi'', ''vmsleu.vx'', ''vmsleu.vv'',
      ''vmsleu.vi'', ''vmsbf.m'', ''vmsbc.vx'', ''vmsbc.vxm'', ''vmsbc.vv'', ''vmsbc.vvm'',
      ''vmsne.vx'', ''vmsne.vv'', ''vmsne.vi'', ''vmsif.m'', ''vmset.m'', ''vmseq.vx'',
      ''vmseq.vv'', ''vmseq.vi'', ''vmsgt.vx'', ''vmsgt.vv'', ''vmsgt.vi'', ''vmsgtu.vx'',
      ''vmsgtu.vv'', ''vmsgtu.vi'', ''vmsge.vx'', ''vmsge.vv'', ''vmsge.vi'', ''vmsgeu.vx'',
      ''vmsgeu.vv'', ''vmsgeu.vi'', ''vmsof.m'', ''vmor.mm'', ''vmorn.mm'', ''vmornot.mm'',
      ''vcpop.v'', ''vcpop.m'', ''vctz.v'', ''vclz.v'', ''vclmulh.vx'', ''vclmulh.vv'',
      ''vclmul.vx'', ''vclmul.vv'', ''vcompress.vm'', ''vsha2ms.vv'', ''vsha2ch.vv'',
      ''vsha2cl.vv'', ''vs8r.v'', ''vs4r.v'', ''vsll.vx'', ''vsll.vv'', ''vsll.vi'',
      ''vslidedown.vx'', ''vslidedown.vi'', ''vslide1down.vx'', ''vslide1up.vx'',
      ''vslideup.vx'', ''vslideup.vi'', ''vsbc.vxm'', ''vsbc.vvm'', ''vs2r.v'', ''vsrl.vx'',
      ''vsrl.vv'', ''vsrl.vi'', ''vsra.vx'', ''vsra.vv'', ''vsra.vi'', ''vsadd.vx'',
      ''vsadd.vv'', ''vsadd.vi'', ''vsaddu.vx'', ''vsaddu.vv'', ''vsaddu.vi'', ''vs1r.v'',
      ''vse8.v'', ''vsext.vf8'', ''vsext.vf4'', ''vsext.vf2'', ''vsetvl'', ''vsetvli'',
      ''vsetivli'', ''vse64.v'', ''vse16.v'', ''vse1.v'', ''vse32.v'', ''vsuxei8.v'',
      ''vsuxei64.v'', ''vsuxei16.v'', ''vsuxei32.v'', ''vsuxseg8ei8.v'', ''vsuxseg8ei64.v'',
      ''vsuxseg8ei16.v'', ''vsuxseg8ei32.v'', ''vsuxseg4ei8.v'', ''vsuxseg4ei64.v'',
      ''vsuxseg4ei16.v'', ''vsuxseg4ei32.v'', ''vsuxseg2ei8.v'', ''vsuxseg2ei64.v'',
      ''vsuxseg2ei16.v'', ''vsuxseg2ei32.v'', ''vsuxseg6ei8.v'', ''vsuxseg6ei64.v'',
      ''vsuxseg6ei16.v'', ''vsuxseg6ei32.v'', ''vsuxseg5ei8.v'', ''vsuxseg5ei64.v'',
      ''vsuxseg5ei16.v'', ''vsuxseg5ei32.v'', ''vsuxseg3ei8.v'', ''vsuxseg3ei64.v'',
      ''vsuxseg3ei16.v'', ''vsuxseg3ei32.v'', ''vsuxseg7ei8.v'', ''vsuxseg7ei64.v'',
      ''vsuxseg7ei16.v'', ''vsuxseg7ei32.v'', ''vsub.vx'', ''vsub.vv'', ''vsm4r.vv'',
      ''vsm4r.vs'', ''vsm4k.vi'', ''vsm.v'', ''vsmul.vx'', ''vsmul.vv'', ''vsm3me.vv'',
      ''vsm3c.vi'', ''vssrl.vx'', ''vssrl.vv'', ''vssrl.vi'', ''vssra.vx'', ''vssra.vv'',
      ''vssra.vi'', ''vsse8.v'', ''vsse64.v'', ''vsse16.v'', ''vsse32.v'']"

definition optab_sorted_12 :: "string list" where
  "optab_sorted_12 =
     [''vsseg8e8.v'', ''vsseg8e64.v'', ''vsseg8e16.v'', ''vsseg8e32.v'', ''vsseg4e8.v'',
      ''vsseg4e64.v'', ''vsseg4e16.v'', ''vsseg4e32.v'', ''vsseg2e8.v'', ''vsseg2e64.v'',
      ''vsseg2e16.v'', ''vsseg2e32.v'', ''vsseg6e8.v'', ''vsseg6e64.v'', ''vsseg6e16.v'',
      ''vsseg6e32.v'', ''vsseg5e8.v'', ''vsseg5e64.v'', ''vsseg5e16.v'', ''vsseg5e32.v'',
      ''vsseg3e8.v'', ''vsseg3e64.v'', ''vsseg3e16.v'', ''vsseg3e32.v'', ''vsseg7e8.v'',
      ''vsseg7e64.v'', ''vsseg7e16.v'', ''vsseg7e32.v'', ''vssub.vx'', ''vssub.vv'',
      ''vssubu.vx'', ''vssubu.vv'', ''vssseg8e8.v'', ''vssseg8e64.v'', ''vssseg8e16.v'',
      ''vssseg8e32.v'', ''vssseg4e8.v'', ''vssseg4e64.v'', ''vssseg4e16.v'',
      ''vssseg4e32.v'', ''vssseg2e8.v'', ''vssseg2e64.v'', ''vssseg2e16.v'',
      ''vssseg2e32.v'', ''vssseg6e8.v'', ''vssseg6e64.v'', ''vssseg6e16.v'',
      ''vssseg6e32.v'', ''vssseg5e8.v'', ''vssseg5e64.v'', ''vssseg5e16.v'',
      ''vssseg5e32.v'', ''vssseg3e8.v'', ''vssseg3e64.v'', ''vssseg3e16.v'',
      ''vssseg3e32.v'', ''vssseg7e8.v'', ''vssseg7e64.v'', ''vssseg7e16.v'',
      ''vssseg7e32.v'', ''vsoxei8.v'', ''vsoxei64.v'', ''vsoxei16.v'', ''vsoxei32.v'',
      ''vsoxseg8ei8.v'', ''vsoxseg8ei64.v'', ''vsoxseg8ei16.v'', ''vsoxseg8ei32.v'',
      ''vsoxseg4ei8.v'', ''vsoxseg4ei64.v'', ''vsoxseg4ei16.v'', ''vsoxseg4ei32.v'',
      ''vsoxseg2ei8.v'', ''vsoxseg2ei64.v'', ''vsoxseg2ei16.v'', ''vsoxseg2ei32.v'',
      ''vsoxseg6ei8.v'', ''vsoxseg6ei64.v'', ''vsoxseg6ei16.v'', ''vsoxseg6ei32.v'',
      ''vsoxseg5ei8.v'', ''vsoxseg5ei64.v'', ''vsoxseg5ei16.v'', ''vsoxseg5ei32.v'',
      ''vsoxseg3ei8.v'', ''vsoxseg3ei64.v'', ''vsoxseg3ei16.v'', ''vsoxseg3ei32.v'',
      ''vsoxseg7ei8.v'', ''vsoxseg7ei64.v'', ''vsoxseg7ei16.v'', ''vsoxseg7ei32.v'',
      ''vghsh.vv'', ''vgmul.vv'', ''vwredsum.vs'', ''vwredsumu.vs'', ''vwadd.vx'',
      ''vwadd.vv'', ''vwadd.wx'', ''vwadd.wv'', ''vwaddu.vx'', ''vwaddu.vv'', ''vwaddu.wx'',
      ''vwaddu.wv'', ''vwmacc.vx'', ''vwmacc.vv'', ''vwmaccu.vx'', ''vwmaccu.vv'',
      ''vwmaccus.vx'', ''vwmaccsu.vx'', ''vwmaccsu.vv'', ''vwmul.vx'', ''vwmul.vv'',
      ''vwmulu.vx'', ''vwmulu.vv'', ''vwmulsu.vx'', ''vwmulsu.vv'', ''vwcvt.x.x.v'',
      ''vwcvtu.x.x.v'', ''vwsll.vx'', ''vwsll.vv'', ''vwsll.vi'', ''vwsub.vx'', ''vwsub.vv'',
      ''vwsub.wx'', ''vwsub.wv'', ''vwsubu.vx'', ''vwsubu.vv'', ''vwsubu.wx'', ''vwsubu.wv'',
      ''vor.vx'', ''vor.vv'', ''vor.vi'', ''ntl.pall'', ''ntl.p1'', ''ntl.all'', ''ntl.s1'',
      ''neg'', ''negw'', ''nop'', ''not'', ''add'', ''add.uw'', ''addi'', ''addiw'',
      ''addw'', ''and'', ''andn'', ''andi'', ''aes64ds'']"

definition optab_sorted_13 :: "string list" where
  "optab_sorted_13 =
     [''aes64dsm'', ''aes64im'', ''aes64es'', ''aes64esm'', ''aes64ks2'', ''aes64ks1i'',
      ''aes32dsi'', ''aes32dsmi'', ''aes32esi'', ''aes32esmi'', ''auipc'', ''amoxor.d'',
      ''amoxor.d.rl'', ''amoxor.d.aq'', ''amoxor.d.aqrl'', ''amoxor.w'', ''amoxor.w.rl'',
      ''amoxor.w.aq'', ''amoxor.w.aqrl'', ''amoadd.d'', ''amoadd.d.rl'', ''amoadd.d.aq'',
      ''amoadd.d.aqrl'', ''amoadd.w'', ''amoadd.w.rl'', ''amoadd.w.aq'', ''amoadd.w.aqrl'',
      ''amoand.d'', ''amoand.d.rl'', ''amoand.d.aq'', ''amoand.d.aqrl'', ''amoand.w'',
      ''amoand.w.rl'', ''amoand.w.aq'', ''amoand.w.aqrl'', ''amomax.d'', ''amomax.d.rl'',
      ''amomax.d.aq'', ''amomax.d.aqrl'', ''amomax.w'', ''amomax.w.rl'', ''amomax.w.aq'',
      ''amomax.w.aqrl'', ''amomaxu.d'', ''amomaxu.d.rl'', ''amomaxu.d.aq'',
      ''amomaxu.d.aqrl'', ''amomaxu.w'', ''amomaxu.w.rl'', ''amomaxu.w.aq'',
      ''amomaxu.w.aqrl'', ''amomin.d'', ''amomin.d.rl'', ''amomin.d.aq'', ''amomin.d.aqrl'',
      ''amomin.w'', ''amomin.w.rl'', ''amomin.w.aq'', ''amomin.w.aqrl'', ''amominu.d'',
      ''amominu.d.rl'', ''amominu.d.aq'', ''amominu.d.aqrl'', ''amominu.w'',
      ''amominu.w.rl'', ''amominu.w.aq'', ''amominu.w.aqrl'', ''amoswap.d'',
      ''amoswap.d.rl'', ''amoswap.d.aq'', ''amoswap.d.aqrl'', ''amoswap.w'',
      ''amoswap.w.rl'', ''amoswap.w.aq'', ''amoswap.w.aqrl'', ''amoor.d'', ''amoor.d.rl'',
      ''amoor.d.aq'', ''amoor.d.aqrl'', ''amoor.w'', ''amoor.w.rl'', ''amoor.w.aq'',
      ''amoor.w.aqrl'', ''ebreak'', ''ecall'', ''uret'', ''unzip'', ''unimp'', ''mret'',
      ''mv'', ''max'', ''maxu'', ''min'', ''minu'', ''myadd'', ''mul'', ''mulh'', ''mulhu'',
      ''mulhsu'', ''mulw'', ''move'', ''cpop'', ''cpopw'', ''ctz'', ''ctzw'', ''clz'',
      ''clzw'', ''clmul'', ''clmulh'', ''clmulr'', ''cbo.zero'', ''cbo.flush'',
      ''cbo.inval'', ''cbo.clean'', ''czero.nez'', ''czero.eqz'', ''cv.addrn'',
      ''cv.addrnr'', ''cv.addn'', ''cv.addnr'', ''cv.addurn'', ''cv.addurnr'', ''cv.addun'',
      ''cv.addunr'', ''cv.abs'', ''cv.exthz'', ''cv.exths'', ''cv.extbz'', ''cv.extbs'',
      ''cv.max'', ''cv.maxu'', ''cv.mac'', ''cv.machhurn'', ''cv.machhun'', ''cv.machhsrn'',
      ''cv.machhsn'', ''cv.macurn'', ''cv.macun'', ''cv.macsrn'', ''cv.macsn'', ''cv.min'',
      ''cv.minu'', ''cv.mulhhu'', ''cv.mulhhurn'', ''cv.mulhhun'', ''cv.mulhhs'',
      ''cv.mulhhsrn'', ''cv.mulhhsn'', ''cv.mulu'', ''cv.mulurn'']"

definition optab_sorted_14 :: "string list" where
  "optab_sorted_14 =
     [''cv.mulun'', ''cv.muls'', ''cv.mulsrn'', ''cv.mulsn'', ''cv.msu'', ''cv.clip'',
      ''cv.clipr'', ''cv.clipu'', ''cv.clipur'', ''cv.sle'', ''cv.slet'', ''cv.sletu'',
      ''cv.sleu'', ''cv.subrn'', ''cv.subrnr'', ''cv.subn'', ''cv.subnr'', ''cv.suburn'',
      ''cv.suburnr'', ''cv.subun'', ''cv.subunr'', ''c.xor'', ''c.lh'', ''c.lhu'', ''c.ld'',
      ''c.ldsp'', ''c.lbu'', ''c.li'', ''c.lui'', ''c.lw'', ''c.lwsp'', ''c.bnez'',
      ''c.beqz'', ''c.j'', ''c.jr'', ''c.jal'', ''c.jalr'', ''c.zext.h'', ''c.zext.b'',
      ''c.zext.w'', ''c.fld'', ''c.fldsp'', ''c.flw'', ''c.flwsp'', ''c.fsd'', ''c.fsdsp'',
      ''c.fsw'', ''c.fswsp'', ''c.ntl.pall'', ''c.ntl.p1'', ''c.ntl.all'', ''c.ntl.s1'',
      ''c.nop'', ''c.not'', ''c.add'', ''c.addi'', ''c.addi4spn'', ''c.addi16sp'',
      ''c.addiw'', ''c.addw'', ''c.and'', ''c.andi'', ''c.ebreak'', ''c.unimp'', ''c.mv'',
      ''c.mul'', ''c.sh'', ''c.sd'', ''c.sdsp'', ''c.slli'', ''c.slli64'', ''c.sb'',
      ''c.srli'', ''c.srli64'', ''c.srai'', ''c.srai64'', ''c.sext.h'', ''c.sext.b'',
      ''c.sext.w'', ''c.sub'', ''c.subw'', ''c.sw'', ''c.swsp'', ''c.or'', ''call'',
      ''csrr'', ''csrrc'', ''csrrci'', ''csrrs'', ''csrrsi'', ''csrrw'', ''csrrwi'',
      ''csrc'', ''csrci'', ''csrs'', ''csrsi'', ''csrw'', ''csrwi'', ''sh'', ''sh2add'',
      ''sh2add.uw'', ''sha256sig0'', ''sha256sig1'', ''sha256sum0'', ''sha256sum1'',
      ''sha512sig0'', ''sha512sig0h'', ''sha512sig0l'', ''sha512sig1'', ''sha512sig1h'',
      ''sha512sig1l'', ''sha512sum0'', ''sha512sum0r'', ''sha512sum1'', ''sha512sum1r'',
      ''sh1add'', ''sh1add.uw'', ''sh3add'', ''sh3add.uw'', ''sd'', ''slt'', ''sltz'',
      ''slti'', ''sltiu'', ''sltu'', ''sll'', ''slli'', ''slli.uw'', ''slliw'', ''sllw'',
      ''sb'', ''sbreak'', ''srl'', ''srli'', ''srliw'', ''srlw'', ''sra'', ''srai'',
      ''sraiw'', ''sraw'', ''sret'', ''sf.vc.x'', ''sf.vc.xv'', ''sf.vc.xvv'', ''sf.vc.xvw'',
      ''sf.vc.fv'', ''sf.vc.fvv'', ''sf.vc.fvw'', ''sf.vc.vv'', ''sf.vc.vvv'']"

definition optab_sorted_15 :: "string list" where
  "optab_sorted_15 =
     [''sf.vc.vvw'', ''sf.vc.v.x'', ''sf.vc.v.xv'', ''sf.vc.v.xvv'', ''sf.vc.v.xvw'',
      ''sf.vc.v.fv'', ''sf.vc.v.fvv'', ''sf.vc.v.fvw'', ''sf.vc.v.vv'', ''sf.vc.v.vvv'',
      ''sf.vc.v.vvw'', ''sf.vc.v.i'', ''sf.vc.v.iv'', ''sf.vc.v.ivv'', ''sf.vc.v.ivw'',
      ''sf.vc.i'', ''sf.vc.iv'', ''sf.vc.ivv'', ''sf.vc.ivw'', ''sfence.vm'', ''sfence.vma'',
      ''sfence.inval.ir'', ''sfence.w.inval'', ''snez'', ''sinval.vma'', ''sext.h'',
      ''sext.b'', ''sext.w'', ''seqz'', ''sub'', ''subw'', ''sm4ed'', ''sm4ks'', ''sm3p0'',
      ''sm3p1'', ''sc.d'', ''sc.d.rl'', ''sc.d.aq'', ''sc.d.aqrl'', ''sc.w'', ''sc.w.rl'',
      ''sc.w.aq'', ''sc.w.aqrl'', ''scall'', ''sgt'', ''sgtz'', ''sgtu'', ''sw'',
      ''wrs.nto'', ''wrs.sto'', ''wfi'', ''or'', ''orn'', ''ori'', ''orc.b'']"

lemma riscv_opcodes_fine: "list_all entry_fine riscv_opcodes"
  by (simp add: riscv_opcodes_def
      riscv_opcodes_1_fine riscv_opcodes_2_fine riscv_opcodes_3_fine riscv_opcodes_4_fine
      riscv_opcodes_5_fine riscv_opcodes_6_fine riscv_opcodes_7_fine riscv_opcodes_8_fine
      riscv_opcodes_9_fine riscv_opcodes_10_fine riscv_opcodes_11_fine riscv_opcodes_12_fine
      riscv_opcodes_13_fine riscv_opcodes_14_fine riscv_opcodes_15_fine riscv_opcodes_16_fine
      riscv_opcodes_17_fine riscv_opcodes_18_fine riscv_opcodes_19_fine)

lemma riscv_opcodes_names: "map op_name riscv_opcodes = ungroup optab_groups"
  by (simp add: riscv_opcodes_def optab_groups_def ungroup_append
      riscv_opcodes_1_names riscv_opcodes_2_names riscv_opcodes_3_names riscv_opcodes_4_names
      riscv_opcodes_5_names riscv_opcodes_6_names riscv_opcodes_7_names riscv_opcodes_8_names
      riscv_opcodes_9_names riscv_opcodes_10_names riscv_opcodes_11_names
      riscv_opcodes_12_names riscv_opcodes_13_names riscv_opcodes_14_names
      riscv_opcodes_15_names riscv_opcodes_16_names riscv_opcodes_17_names
      riscv_opcodes_18_names riscv_opcodes_19_names)

lemma optab_groups_1_mem: "list_all (\<lambda>g. fst g \<in> optab_mnemonics) optab_groups_1"
  by (auto simp: list_all_iff optab_mnemonics_def optab_groups_def)

lemma optab_groups_2_mem: "list_all (\<lambda>g. fst g \<in> optab_mnemonics) optab_groups_2"
  by (auto simp: list_all_iff optab_mnemonics_def optab_groups_def)

lemma optab_groups_3_mem: "list_all (\<lambda>g. fst g \<in> optab_mnemonics) optab_groups_3"
  by (auto simp: list_all_iff optab_mnemonics_def optab_groups_def)

lemma optab_groups_4_mem: "list_all (\<lambda>g. fst g \<in> optab_mnemonics) optab_groups_4"
  by (auto simp: list_all_iff optab_mnemonics_def optab_groups_def)

lemma optab_groups_5_mem: "list_all (\<lambda>g. fst g \<in> optab_mnemonics) optab_groups_5"
  by (auto simp: list_all_iff optab_mnemonics_def optab_groups_def)

lemma optab_groups_6_mem: "list_all (\<lambda>g. fst g \<in> optab_mnemonics) optab_groups_6"
  by (auto simp: list_all_iff optab_mnemonics_def optab_groups_def)

lemma optab_groups_7_mem: "list_all (\<lambda>g. fst g \<in> optab_mnemonics) optab_groups_7"
  by (auto simp: list_all_iff optab_mnemonics_def optab_groups_def)

lemma optab_groups_8_mem: "list_all (\<lambda>g. fst g \<in> optab_mnemonics) optab_groups_8"
  by (auto simp: list_all_iff optab_mnemonics_def optab_groups_def)

lemma optab_groups_9_mem: "list_all (\<lambda>g. fst g \<in> optab_mnemonics) optab_groups_9"
  by (auto simp: list_all_iff optab_mnemonics_def optab_groups_def)

lemma optab_groups_10_mem: "list_all (\<lambda>g. fst g \<in> optab_mnemonics) optab_groups_10"
  by (auto simp: list_all_iff optab_mnemonics_def optab_groups_def)

lemma optab_groups_11_mem: "list_all (\<lambda>g. fst g \<in> optab_mnemonics) optab_groups_11"
  by (auto simp: list_all_iff optab_mnemonics_def optab_groups_def)

lemma optab_groups_12_mem: "list_all (\<lambda>g. fst g \<in> optab_mnemonics) optab_groups_12"
  by (auto simp: list_all_iff optab_mnemonics_def optab_groups_def)

lemma optab_groups_13_mem: "list_all (\<lambda>g. fst g \<in> optab_mnemonics) optab_groups_13"
  by (auto simp: list_all_iff optab_mnemonics_def optab_groups_def)

lemma optab_groups_14_mem: "list_all (\<lambda>g. fst g \<in> optab_mnemonics) optab_groups_14"
  by (auto simp: list_all_iff optab_mnemonics_def optab_groups_def)

lemma optab_groups_15_mem: "list_all (\<lambda>g. fst g \<in> optab_mnemonics) optab_groups_15"
  by (auto simp: list_all_iff optab_mnemonics_def optab_groups_def)

lemma optab_groups_16_mem: "list_all (\<lambda>g. fst g \<in> optab_mnemonics) optab_groups_16"
  by (auto simp: list_all_iff optab_mnemonics_def optab_groups_def)

lemma optab_groups_17_mem: "list_all (\<lambda>g. fst g \<in> optab_mnemonics) optab_groups_17"
  by (auto simp: list_all_iff optab_mnemonics_def optab_groups_def)

lemma optab_groups_18_mem: "list_all (\<lambda>g. fst g \<in> optab_mnemonics) optab_groups_18"
  by (auto simp: list_all_iff optab_mnemonics_def optab_groups_def)

lemma optab_groups_19_mem: "list_all (\<lambda>g. fst g \<in> optab_mnemonics) optab_groups_19"
  by (auto simp: list_all_iff optab_mnemonics_def optab_groups_def)

lemmas optab_mem =
  optab_groups_1_mem [unfolded optab_groups_1_def list.pred_inject fst_conv]
  optab_groups_2_mem [unfolded optab_groups_2_def list.pred_inject fst_conv]
  optab_groups_3_mem [unfolded optab_groups_3_def list.pred_inject fst_conv]
  optab_groups_4_mem [unfolded optab_groups_4_def list.pred_inject fst_conv]
  optab_groups_5_mem [unfolded optab_groups_5_def list.pred_inject fst_conv]
  optab_groups_6_mem [unfolded optab_groups_6_def list.pred_inject fst_conv]
  optab_groups_7_mem [unfolded optab_groups_7_def list.pred_inject fst_conv]
  optab_groups_8_mem [unfolded optab_groups_8_def list.pred_inject fst_conv]
  optab_groups_9_mem [unfolded optab_groups_9_def list.pred_inject fst_conv]
  optab_groups_10_mem [unfolded optab_groups_10_def list.pred_inject fst_conv]
  optab_groups_11_mem [unfolded optab_groups_11_def list.pred_inject fst_conv]
  optab_groups_12_mem [unfolded optab_groups_12_def list.pred_inject fst_conv]
  optab_groups_13_mem [unfolded optab_groups_13_def list.pred_inject fst_conv]
  optab_groups_14_mem [unfolded optab_groups_14_def list.pred_inject fst_conv]
  optab_groups_15_mem [unfolded optab_groups_15_def list.pred_inject fst_conv]
  optab_groups_16_mem [unfolded optab_groups_16_def list.pred_inject fst_conv]
  optab_groups_17_mem [unfolded optab_groups_17_def list.pred_inject fst_conv]
  optab_groups_18_mem [unfolded optab_groups_18_def list.pred_inject fst_conv]
  optab_groups_19_mem [unfolded optab_groups_19_def list.pred_inject fst_conv]

lemma optab_sorted_1_increasing: "increasing optab_sorted_1"
  by (simp only: optab_sorted_1_def increasing_eval)

lemma optab_sorted_1_ends:
  "optab_sorted_1 \<noteq> []" "hd optab_sorted_1 = ''prefetch.r''"
  "last optab_sorted_1 = ''th.vlxseg5wu.v''" "length optab_sorted_1 = 150"
  by (simp_all only: optab_sorted_1_def ends_eval)

lemma optab_sorted_2_increasing: "increasing optab_sorted_2"
  by (simp only: optab_sorted_2_def increasing_eval)

lemma optab_sorted_2_ends:
  "optab_sorted_2 \<noteq> []" "hd optab_sorted_2 = ''th.vlxseg3h.v''"
  "last optab_sorted_2 = ''th.vlsseg6bu.v''" "length optab_sorted_2 = 150"
  by (simp_all only: optab_sorted_2_def ends_eval)

lemma optab_sorted_3_increasing: "increasing optab_sorted_3"
  by (simp only: optab_sorted_3_def increasing_eval)

lemma optab_sorted_3_ends:
  "optab_sorted_3 \<noteq> []" "hd optab_sorted_3 = ''th.vlsseg6e.v''"
  "last optab_sorted_3 = ''th.vadd.vv''" "length optab_sorted_3 = 150"
  by (simp_all only: optab_sorted_3_def ends_eval)

lemma optab_sorted_4_increasing: "increasing optab_sorted_4"
  by (simp only: optab_sorted_4_def increasing_eval)

lemma optab_sorted_4_ends:
  "optab_sorted_4 \<noteq> []" "hd optab_sorted_4 = ''th.vadd.vi''"
  "last optab_sorted_4 = ''th.vsxseg5h.v''" "length optab_sorted_4 = 150"
  by (simp_all only: optab_sorted_4_def ends_eval)

lemma optab_sorted_5_increasing: "increasing optab_sorted_5"
  by (simp only: optab_sorted_5_def increasing_eval)

lemma optab_sorted_5_ends:
  "optab_sorted_5 \<noteq> []" "hd optab_sorted_5 = ''th.vsxseg5b.v''"
  "last optab_sorted_5 = ''th.vwsubu.wx''" "length optab_sorted_5 = 150"
  by (simp_all only: optab_sorted_5_def ends_eval)

lemma optab_sorted_6_increasing: "increasing optab_sorted_6"
  by (simp only: optab_sorted_6_def increasing_eval)

lemma optab_sorted_6_ends:
  "optab_sorted_6 \<noteq> []" "hd optab_sorted_6 = ''th.vwsubu.wv''"
  "last optab_sorted_6 = ''fle.q''" "length optab_sorted_6 = 150"
  by (simp_all only: optab_sorted_6_def ends_eval)

lemma optab_sorted_7_increasing: "increasing optab_sorted_7"
  by (simp only: optab_sorted_7_def increasing_eval)

lemma optab_sorted_7_ends:
  "optab_sorted_7 \<noteq> []" "hd optab_sorted_7 = ''fle.s''"
  "last optab_sorted_7 = ''fsub.h''" "length optab_sorted_7 = 150"
  by (simp_all only: optab_sorted_7_def ends_eval)

lemma optab_sorted_8_increasing: "increasing optab_sorted_8"
  by (simp only: optab_sorted_8_def increasing_eval)

lemma optab_sorted_8_ends:
  "optab_sorted_8 \<noteq> []" "hd optab_sorted_8 = ''fsub.d''"
  "last optab_sorted_8 = ''vlseg3e32.v''" "length optab_sorted_8 = 150"
  by (simp_all only: optab_sorted_8_def ends_eval)

lemma optab_sorted_9_increasing: "increasing optab_sorted_9"
  by (simp only: optab_sorted_9_def increasing_eval)

lemma optab_sorted_9_ends:
  "optab_sorted_9 \<noteq> []" "hd optab_sorted_9 = ''vlseg7e8ff.v''"
  "last optab_sorted_9 = ''vfclass.v''" "length optab_sorted_9 = 150"
  by (simp_all only: optab_sorted_9_def ends_eval)

lemma optab_sorted_10_increasing: "increasing optab_sorted_10"
  by (simp only: optab_sorted_10_def increasing_eval)

lemma optab_sorted_10_ends:
  "optab_sorted_10 \<noteq> []" "hd optab_sorted_10 = ''vfcvt.x.f.v''"
  "last optab_sorted_10 = ''vmulhu.vv''" "length optab_sorted_10 = 150"
  by (simp_all only: optab_sorted_10_def ends_eval)

lemma optab_sorted_11_increasing: "increasing optab_sorted_11"
  by (simp only: optab_sorted_11_def increasing_eval)

lemma optab_sorted_11_ends:
  "optab_sorted_11 \<noteq> []" "hd optab_sorted_11 = ''vmulhsu.vx''"
  "last optab_sorted_11 = ''vsse32.v''" "length optab_sorted_11 = 150"
  by (simp_all only: optab_sorted_11_def ends_eval)

lemma optab_sorted_12_increasing: "increasing optab_sorted_12"
  by (simp only: optab_sorted_12_def increasing_eval)

lemma optab_sorted_12_ends:
  "optab_sorted_12 \<noteq> []" "hd optab_sorted_12 = ''vsseg8e8.v''"
  "last optab_sorted_12 = ''aes64ds''" "length optab_sorted_12 = 150"
  by (simp_all only: optab_sorted_12_def ends_eval)

lemma optab_sorted_13_increasing: "increasing optab_sorted_13"
  by (simp only: optab_sorted_13_def increasing_eval)

lemma optab_sorted_13_ends:
  "optab_sorted_13 \<noteq> []" "hd optab_sorted_13 = ''aes64dsm''"
  "last optab_sorted_13 = ''cv.mulurn''" "length optab_sorted_13 = 150"
  by (simp_all only: optab_sorted_13_def ends_eval)

lemma optab_sorted_14_increasing: "increasing optab_sorted_14"
  by (simp only: optab_sorted_14_def increasing_eval)

lemma optab_sorted_14_ends:
  "optab_sorted_14 \<noteq> []" "hd optab_sorted_14 = ''cv.mulun''"
  "last optab_sorted_14 = ''sf.vc.vvv''" "length optab_sorted_14 = 150"
  by (simp_all only: optab_sorted_14_def ends_eval)

lemma optab_sorted_15_increasing: "increasing optab_sorted_15"
  by (simp only: optab_sorted_15_def increasing_eval)

lemma optab_sorted_15_ends:
  "optab_sorted_15 \<noteq> []" "hd optab_sorted_15 = ''sf.vc.vvw''"
  "last optab_sorted_15 = ''orc.b''" "length optab_sorted_15 = 55"
  by (simp_all only: optab_sorted_15_def ends_eval)

lemma optab_groups_1_length:
  "length optab_groups_1 = 67" "list_all (\<lambda>g. 0 < snd g) optab_groups_1"
  by (simp_all only: optab_groups_1_def ends_eval list.pred_inject snd_conv zero_less_Suc
      zero_less_numeral)

lemma optab_groups_2_length:
  "length optab_groups_2 = 112" "list_all (\<lambda>g. 0 < snd g) optab_groups_2"
  by (simp_all only: optab_groups_2_def ends_eval list.pred_inject snd_conv zero_less_Suc
      zero_less_numeral)

lemma optab_groups_3_length:
  "length optab_groups_3 = 75" "list_all (\<lambda>g. 0 < snd g) optab_groups_3"
  by (simp_all only: optab_groups_3_def ends_eval list.pred_inject snd_conv zero_less_Suc
      zero_less_numeral)

lemma optab_groups_4_length:
  "length optab_groups_4 = 84" "list_all (\<lambda>g. 0 < snd g) optab_groups_4"
  by (simp_all only: optab_groups_4_def ends_eval list.pred_inject snd_conv zero_less_Suc
      zero_less_numeral)

lemma optab_groups_5_length:
  "length optab_groups_5 = 91" "list_all (\<lambda>g. 0 < snd g) optab_groups_5"
  by (simp_all only: optab_groups_5_def ends_eval list.pred_inject snd_conv zero_less_Suc
      zero_less_numeral)

lemma optab_groups_6_length:
  "length optab_groups_6 = 96" "list_all (\<lambda>g. 0 < snd g) optab_groups_6"
  by (simp_all only: optab_groups_6_def ends_eval list.pred_inject snd_conv zero_less_Suc
      zero_less_numeral)

lemma optab_groups_7_length:
  "length optab_groups_7 = 117" "list_all (\<lambda>g. 0 < snd g) optab_groups_7"
  by (simp_all only: optab_groups_7_def ends_eval list.pred_inject snd_conv zero_less_Suc
      zero_less_numeral)

lemma optab_groups_8_length:
  "length optab_groups_8 = 126" "list_all (\<lambda>g. 0 < snd g) optab_groups_8"
  by (simp_all only: optab_groups_8_def ends_eval list.pred_inject snd_conv zero_less_Suc
      zero_less_numeral)

lemma optab_groups_9_length:
  "length optab_groups_9 = 126" "list_all (\<lambda>g. 0 < snd g) optab_groups_9"
  by (simp_all only: optab_groups_9_def ends_eval list.pred_inject snd_conv zero_less_Suc
      zero_less_numeral)

lemma optab_groups_10_length:
  "length optab_groups_10 = 122" "list_all (\<lambda>g. 0 < snd g) optab_groups_10"
  by (simp_all only: optab_groups_10_def ends_eval list.pred_inject snd_conv zero_less_Suc
      zero_less_numeral)

lemma optab_groups_11_length:
  "length optab_groups_11 = 121" "list_all (\<lambda>g. 0 < snd g) optab_groups_11"
  by (simp_all only: optab_groups_11_def ends_eval list.pred_inject snd_conv zero_less_Suc
      zero_less_numeral)

lemma optab_groups_12_length:
  "length optab_groups_12 = 111" "list_all (\<lambda>g. 0 < snd g) optab_groups_12"
  by (simp_all only: optab_groups_12_def ends_eval list.pred_inject snd_conv zero_less_Suc
      zero_less_numeral)

lemma optab_groups_13_length:
  "length optab_groups_13 = 119" "list_all (\<lambda>g. 0 < snd g) optab_groups_13"
  by (simp_all only: optab_groups_13_def ends_eval list.pred_inject snd_conv zero_less_Suc
      zero_less_numeral)

lemma optab_groups_14_length:
  "length optab_groups_14 = 96" "list_all (\<lambda>g. 0 < snd g) optab_groups_14"
  by (simp_all only: optab_groups_14_def ends_eval list.pred_inject snd_conv zero_less_Suc
      zero_less_numeral)

lemma optab_groups_15_length:
  "length optab_groups_15 = 147" "list_all (\<lambda>g. 0 < snd g) optab_groups_15"
  by (simp_all only: optab_groups_15_def ends_eval list.pred_inject snd_conv zero_less_Suc
      zero_less_numeral)

lemma optab_groups_16_length:
  "length optab_groups_16 = 148" "list_all (\<lambda>g. 0 < snd g) optab_groups_16"
  by (simp_all only: optab_groups_16_def ends_eval list.pred_inject snd_conv zero_less_Suc
      zero_less_numeral)

lemma optab_groups_17_length:
  "length optab_groups_17 = 146" "list_all (\<lambda>g. 0 < snd g) optab_groups_17"
  by (simp_all only: optab_groups_17_def ends_eval list.pred_inject snd_conv zero_less_Suc
      zero_less_numeral)

lemma optab_groups_18_length:
  "length optab_groups_18 = 148" "list_all (\<lambda>g. 0 < snd g) optab_groups_18"
  by (simp_all only: optab_groups_18_def ends_eval list.pred_inject snd_conv zero_less_Suc
      zero_less_numeral)

lemma optab_groups_19_length:
  "length optab_groups_19 = 103" "list_all (\<lambda>g. 0 < snd g) optab_groups_19"
  by (simp_all only: optab_groups_19_def ends_eval list.pred_inject snd_conv zero_less_Suc
      zero_less_numeral)

definition optab_sorted :: "string list" where
  "optab_sorted =
     optab_sorted_1 @ optab_sorted_2 @ optab_sorted_3 @ optab_sorted_4 @ optab_sorted_5 @
     optab_sorted_6 @ optab_sorted_7 @ optab_sorted_8 @ optab_sorted_9 @ optab_sorted_10 @
     optab_sorted_11 @ optab_sorted_12 @ optab_sorted_13 @ optab_sorted_14 @ optab_sorted_15"

lemmas optab_sorted_ends =
  optab_sorted_1_ends optab_sorted_2_ends optab_sorted_3_ends optab_sorted_4_ends
  optab_sorted_5_ends optab_sorted_6_ends optab_sorted_7_ends optab_sorted_8_ends
  optab_sorted_9_ends optab_sorted_10_ends optab_sorted_11_ends optab_sorted_12_ends
  optab_sorted_13_ends optab_sorted_14_ends optab_sorted_15_ends

lemmas optab_groups_length =
  optab_groups_1_length optab_groups_2_length optab_groups_3_length optab_groups_4_length
  optab_groups_5_length optab_groups_6_length optab_groups_7_length optab_groups_8_length
  optab_groups_9_length optab_groups_10_length optab_groups_11_length
  optab_groups_12_length optab_groups_13_length optab_groups_14_length
  optab_groups_15_length optab_groups_16_length optab_groups_17_length
  optab_groups_18_length optab_groups_19_length

lemma optab_sorted_increasing: "increasing optab_sorted"
  by (simp add: optab_sorted_def increasing_append optab_sorted_ends
      optab_sorted_1_increasing optab_sorted_2_increasing optab_sorted_3_increasing
      optab_sorted_4_increasing optab_sorted_5_increasing optab_sorted_6_increasing
      optab_sorted_7_increasing optab_sorted_8_increasing optab_sorted_9_increasing
      optab_sorted_10_increasing optab_sorted_11_increasing optab_sorted_12_increasing
      optab_sorted_13_increasing optab_sorted_14_increasing optab_sorted_15_increasing)

lemma optab_sorted_parts_mem:
  "list_all (\<lambda>s. s \<in> optab_mnemonics) optab_sorted_1"
  "list_all (\<lambda>s. s \<in> optab_mnemonics) optab_sorted_2"
  "list_all (\<lambda>s. s \<in> optab_mnemonics) optab_sorted_3"
  "list_all (\<lambda>s. s \<in> optab_mnemonics) optab_sorted_4"
  "list_all (\<lambda>s. s \<in> optab_mnemonics) optab_sorted_5"
  "list_all (\<lambda>s. s \<in> optab_mnemonics) optab_sorted_6"
  "list_all (\<lambda>s. s \<in> optab_mnemonics) optab_sorted_7"
  "list_all (\<lambda>s. s \<in> optab_mnemonics) optab_sorted_8"
  "list_all (\<lambda>s. s \<in> optab_mnemonics) optab_sorted_9"
  "list_all (\<lambda>s. s \<in> optab_mnemonics) optab_sorted_10"
  "list_all (\<lambda>s. s \<in> optab_mnemonics) optab_sorted_11"
  "list_all (\<lambda>s. s \<in> optab_mnemonics) optab_sorted_12"
  "list_all (\<lambda>s. s \<in> optab_mnemonics) optab_sorted_13"
  "list_all (\<lambda>s. s \<in> optab_mnemonics) optab_sorted_14"
  "list_all (\<lambda>s. s \<in> optab_mnemonics) optab_sorted_15"
  by (simp_all only: list.pred_inject optab_mem simp_thms
      optab_sorted_1_def optab_sorted_2_def optab_sorted_3_def optab_sorted_4_def
      optab_sorted_5_def optab_sorted_6_def optab_sorted_7_def optab_sorted_8_def
      optab_sorted_9_def optab_sorted_10_def optab_sorted_11_def optab_sorted_12_def
      optab_sorted_13_def optab_sorted_14_def optab_sorted_15_def)

lemma optab_sorted_mem: "list_all (\<lambda>s. s \<in> optab_mnemonics) optab_sorted"
  by (simp add: optab_sorted_def optab_sorted_parts_mem)

lemma optab_sorted_length: "length optab_sorted = length optab_groups"
  by (simp add: optab_sorted_def optab_groups_def optab_sorted_ends optab_groups_length)

lemma optab_groups_distinct: "distinct (map fst optab_groups)"
proof (rule distinct_by_certificate [of optab_sorted])
  show "set optab_sorted \<subseteq> set (map fst optab_groups)"
    using optab_sorted_mem by (auto simp: list_all_iff optab_mnemonics_def)
qed (simp_all add: optab_sorted_increasing optab_sorted_length)

lemma optab_groups_nonempty: "\<forall>g\<in>set optab_groups. 0 < snd g"
  using optab_groups_length by (auto simp: optab_groups_def list_all_iff)

lemma riscv_opcodes_no_duplicate: "distinct (remdups_adj (map op_name riscv_opcodes))"
  by (simp add: riscv_opcodes_names remdups_adj_ungroup optab_groups_distinct
      optab_groups_nonempty)

lemma riscv_insn_types_fine: "list_all insn_type_fine riscv_insn_types"
  by (simp add: riscv_insn_types_def insn_type_fine_def args_use_eval args_use_eval_vendor)

lemma riscv_insn_types_no_duplicate: "distinct (remdups_adj (map op_name riscv_insn_types))"
  by (simp add: riscv_insn_types_def)

section \<open>Starting the assembler\<close>


text \<open>
  The index of the \<^verbatim>\<open>.insn\<close> formats is built too: no format is a macro (the assertion of
  \<open>init_opcode_hash\<close> holds) and each one covers exactly the two or four bytes its name promises.
\<close>

lemma init_opcode_hash_insn_types:
  "init_opcode_hash True riscv_insn_types = Inr (\<lambda>nm. first_entry nm riscv_insn_types)"
  using riscv_insn_types_fine
  by (intro init_index riscv_insn_types_no_duplicate)
    (auto simp: list_all_iff insn_type_fine_check)

end
