(* ===== verification/RV_Disasm.thy ===== *)
theory RV_Disasm
  imports RV_Optab
begin

text \<open>
  The disassembler's instruction search, from \<open>riscv_disassemble_insn\<close> of
  \<^verbatim>\<open>opcodes/riscv-dis.c\<close>: the hash table over the low bits of the match values, the scan from
  the first entry of the bucket to the end of the table, and the fields of \<open>disassemble_info\<close>
  filled from the entry found.

  The locale \<open>bucket_search\<close> is the contract of such an index: when an entry accepts a word, both
  fall in the same bucket.  Its interpretation on the opcode table shows that the shortcut finds
  what a scan of the whole table finds.
\<close>

section \<open>The hash table\<close>

definition OP_HASH_IDX :: "insn_t \<Rightarrow> insn_t" where
  "OP_HASH_IDX i = i AND (if riscv_insn_length i = 2 then 0x3 else OP_MASK_OP)"

text \<open>The loop that fills \<open>riscv_hash\<close>: \<open>i\<close> is the position of the entry \<open>op\<close> points to.\<close>

fun fill_riscv_hash :: "nat \<Rightarrow> riscv_opcode list \<Rightarrow> nat option list \<Rightarrow> nat option list" where
  "fill_riscv_hash i [] h = h"
| "fill_riscv_hash i (op # ops) h =
     fill_riscv_hash (Suc i) ops
       (if h ! unat (OP_HASH_IDX (op_match op)) = None
        then h[unat (OP_HASH_IDX (op_match op)) := Some i] else h)"

definition riscv_hash :: "riscv_opcode list \<Rightarrow> nat option list" where
  "riscv_hash ops = fill_riscv_hash 0 ops (replicate (unat OP_MASK_OP + 1) None)"

section \<open>The scan\<close>

text \<open>
  \<open>Null_match_func\<close> stands for the call through a null function pointer.  \<open>supports\<close> is
  \<open>riscv_multi_subset_supports (&riscv_rps_dis, \<sqdot>)\<close> and \<open>xlen\<close> the disassembler's variable.
\<close>

datatype dis_crash = Null_match_func

fun scan_opcodes ::
    "bool \<Rightarrow> nat \<Rightarrow> (riscv_insn_class \<Rightarrow> bool) \<Rightarrow> insn_t \<Rightarrow> riscv_opcode list
     \<Rightarrow> dis_crash + riscv_opcode option" where
  "scan_opcodes no_aliases xlen supports word [] = Inr None"
| "scan_opcodes no_aliases xlen supports word (op # ops) =
     (if op_pinfo op = INSN_MACRO then scan_opcodes no_aliases xlen supports word ops
      else case call_match_func (op_match_func op) op word of
             None \<Rightarrow> Inl Null_match_func
           | Some m \<Rightarrow>
               if \<not> m then scan_opcodes no_aliases xlen supports word ops
               else if no_aliases \<and> op_pinfo op AND INSN_ALIAS \<noteq> 0
               then scan_opcodes no_aliases xlen supports word ops
               else if op_xlen_requirement op \<noteq> 0 \<and> op_xlen_requirement op \<noteq> xlen
               then scan_opcodes no_aliases xlen supports word ops
               else if \<not> supports (op_insn_class op)
               then scan_opcodes no_aliases xlen supports word ops
               else Inr (Some op))"

definition riscv_search_insn ::
    "bool \<Rightarrow> nat \<Rightarrow> (riscv_insn_class \<Rightarrow> bool) \<Rightarrow> insn_t \<Rightarrow> dis_crash + riscv_opcode option" where
  "riscv_search_insn no_aliases xlen supports word =
     (case riscv_hash riscv_opcodes ! unat (OP_HASH_IDX word) of
        None \<Rightarrow> Inr None
      | Some k \<Rightarrow> scan_opcodes no_aliases xlen supports word (drop k riscv_opcodes))"

section \<open>What the entry says about the instruction\<close>

datatype dis_insn_type =
    dis_noninsn | dis_nonbranch | dis_branch | dis_condbranch | dis_jsr | dis_dref

abbreviation (input) INSN_TYPE :: "64 word" where "INSN_TYPE \<equiv> 0xe"
abbreviation (input) INSN_BRANCH :: "64 word" where "INSN_BRANCH \<equiv> 0x2"
abbreviation (input) INSN_CONDBRANCH :: "64 word" where "INSN_CONDBRANCH \<equiv> 0x4"
abbreviation (input) INSN_JSR :: "64 word" where "INSN_JSR \<equiv> 0x6"
abbreviation (input) INSN_DREF :: "64 word" where "INSN_DREF \<equiv> 0x8"
abbreviation (input) INSN_DATA_SIZE :: "64 word" where "INSN_DATA_SIZE \<equiv> 0x70"
abbreviation (input) INSN_DATA_SIZE_SHIFT :: nat where "INSN_DATA_SIZE_SHIFT \<equiv> 4"

text \<open>The \<open>switch\<close> keeps the initial value \<open>dis_nonbranch\<close> by default.\<close>

definition dis_type_of :: "64 word \<Rightarrow> dis_insn_type" where
  "dis_type_of pinfo =
     (let t = pinfo AND INSN_TYPE
      in if t = INSN_BRANCH then dis_branch
         else if t = INSN_CONDBRANCH then dis_condbranch
         else if t = INSN_JSR then dis_jsr
         else if t = INSN_DREF then dis_dref
         else dis_nonbranch)"

definition dis_data_size :: "64 word \<Rightarrow> nat" where
  "dis_data_size pinfo =
     (if pinfo AND INSN_DATA_SIZE \<noteq> 0
      then 2 ^ (unat (shr (pinfo AND INSN_DATA_SIZE) INSN_DATA_SIZE_SHIFT) - 1)
      else 0)"

section \<open>The contract of a bucketed index\<close>

fun first_in_bucket :: "('a \<Rightarrow> nat) \<Rightarrow> nat \<Rightarrow> 'a list \<Rightarrow> nat option" where
  "first_in_bucket f b [] = None"
| "first_in_bucket f b (x # xs) =
     (if f x = b then Some 0 else map_option Suc (first_in_bucket f b xs))"

lemma first_in_bucket_bound: "first_in_bucket f b xs = Some k \<Longrightarrow> k < length xs"
  by (induction xs arbitrary: k) (auto split: if_splits)

lemma find_append: "find P (xs @ ys) = (case find P xs of None \<Rightarrow> find P ys | Some x \<Rightarrow> Some x)"
  by (induction xs) auto

lemma first_in_bucket_before:
  "first_in_bucket f b xs = Some k \<Longrightarrow> x \<in> set (take k xs) \<Longrightarrow> f x \<noteq> b"
  by (induction xs arbitrary: k) (auto split: if_splits)

lemma first_in_bucket_None: "first_in_bucket f b xs = None \<Longrightarrow> x \<in> set xs \<Longrightarrow> f x \<noteq> b"
  by (induction xs) (auto split: if_splits)

locale bucket_search =
  fixes bucket :: "'w \<Rightarrow> nat" and key :: "'a \<Rightarrow> 'w" and accepts :: "'a \<Rightarrow> 'w \<Rightarrow> bool"
    and tab :: "'a list"
  assumes same_bucket: "x \<in> set tab \<Longrightarrow> accepts x w \<Longrightarrow> bucket (key x) = bucket w"
begin

lemma skip_prefix:
  assumes "first_in_bucket (\<lambda>x. bucket (key x)) (bucket w) tab = Some k"
  shows "find (\<lambda>x. accepts x w) tab = find (\<lambda>x. accepts x w) (drop k tab)"
proof -
  have "find (\<lambda>x. accepts x w) (take k tab) = None"
    using first_in_bucket_before [OF assms] same_bucket
    by (metis find_None_iff in_set_takeD)
  then show ?thesis
    using find_append [of "\<lambda>x. accepts x w" "take k tab" "drop k tab"] by simp
qed

lemma empty_bucket:
  assumes "first_in_bucket (\<lambda>x. bucket (key x)) (bucket w) tab = None"
  shows "find (\<lambda>x. accepts x w) tab = None"
  using first_in_bucket_None [OF assms] same_bucket by (metis find_None_iff)

end

section \<open>The table's buckets\<close>

lemma OP_HASH_IDX_bound: "unat (OP_HASH_IDX i) < 128"
proof -
  have "OP_HASH_IDX i \<le> 127"
    using word_and_le1 [of i 3] word_and_le1 [of i 127]
    by (auto simp: OP_HASH_IDX_def intro: order_trans)
  then have "unat (OP_HASH_IDX i) \<le> unat (127 :: insn_t)"
    by (simp only: word_le_nat_alt)
  then show ?thesis by simp
qed

lemma fill_riscv_hash_nth:
  assumes "length h = 128" "b < 128"
  shows "fill_riscv_hash i ops h ! b =
           (case h ! b of
              Some k \<Rightarrow> Some k
            | None \<Rightarrow> map_option ((+) i) (first_in_bucket (\<lambda>op. unat (OP_HASH_IDX (op_match op))) b ops))"
  using assms(1)
proof (induction ops arbitrary: i h)
  case Nil
  then show ?case by (simp split: option.splits)
next
  case (Cons op ops)
  then show ?case
    using assms(2) OP_HASH_IDX_bound [of "op_match op"]
    by (cases "first_in_bucket (\<lambda>op. unat (OP_HASH_IDX (op_match op))) b ops")
      (auto simp: nth_list_update split: option.splits)
qed

lemma riscv_hash_nth:
  assumes "b < 128"
  shows "riscv_hash ops ! b = first_in_bucket (\<lambda>op. unat (OP_HASH_IDX (op_match op))) b ops"
  using fill_riscv_hash_nth [of "replicate 128 None" b 0 ops] assms
  by (simp add: riscv_hash_def option.map_ident_strong)

text \<open>The entries a scan stops at.\<close>

definition selects ::
    "bool \<Rightarrow> nat \<Rightarrow> (riscv_insn_class \<Rightarrow> bool) \<Rightarrow> riscv_opcode \<Rightarrow> insn_t \<Rightarrow> bool" where
  "selects no_aliases xlen supports op word \<longleftrightarrow>
     op_pinfo op \<noteq> INSN_MACRO \<and> call_match_func (op_match_func op) op word = Some True \<and>
     \<not> (no_aliases \<and> op_pinfo op AND INSN_ALIAS \<noteq> 0) \<and>
     op_xlen_requirement op \<in> {0, xlen} \<and> supports (op_insn_class op)"

lemma call_match_func_defined: "f \<noteq> MF_NULL \<Longrightarrow> call_match_func f op word \<noteq> None"
  by (cases f) auto

lemma scan_opcodes_step:
  assumes "entry_fine op"
  shows "scan_opcodes na xl spt word (op # ops) =
           (if selects na xl spt op word then Inr (Some op) else scan_opcodes na xl spt word ops)"
proof (cases "op_pinfo op = INSN_MACRO")
  case True
  then show ?thesis by (simp add: selects_def)
next
  case False
  then obtain m where "call_match_func (op_match_func op) op word = Some m"
    using assms call_match_func_defined [of "op_match_func op" op word]
    by (auto simp: entry_fine_def)
  with False show ?thesis by (auto simp: selects_def)
qed

lemma scan_opcodes_find:
  "list_all entry_fine ops \<Longrightarrow>
     scan_opcodes na xl spt word ops = Inr (find (\<lambda>op. selects na xl spt op word) ops)"
  by (induction ops) (simp_all add: scan_opcodes_step del: scan_opcodes.simps(2))

text \<open>Masks fix the bits that choose the bucket.\<close>

lemma entry_fine2_bucket:
  assumes "entry_fine2 (op_match op) (op_mask op) u" "match_opcode op word"
  shows "OP_HASH_IDX (op_match op) = OP_HASH_IDX word"
    and "riscv_insn_length word = riscv_insn_length (op_match op)"
proof -
  have low: "word AND 3 = op_match op AND 3" "op_match op AND 3 \<noteq> 3"
    using assms match_opcode_and [of op word 3] by (auto simp: entry_fine2_def split: option.splits)
  then show "OP_HASH_IDX (op_match op) = OP_HASH_IDX word"
    and "riscv_insn_length word = riscv_insn_length (op_match op)"
    by (simp_all add: OP_HASH_IDX_def riscv_insn_length_def)
qed

lemma entry_fine4_bucket:
  assumes "entry_fine4 (op_match op) (op_mask op) u" "match_opcode op word"
  shows "OP_HASH_IDX (op_match op) = OP_HASH_IDX word"
    and "riscv_insn_length word = riscv_insn_length (op_match op)"
proof -
  have idx: "word AND 0x7f = op_match op AND 0x7f"
    and m: "op_match op AND 3 = 3" "op_match op AND 0x1f \<noteq> 0x1f"
    using assms match_opcode_and [of op word "0x7f"]
    by (auto simp: entry_fine4_def split: option.splits)
  have sub: "word AND k = op_match op AND k" if "0x7f AND k = k" for k
    using idx that by (metis and.assoc)
  have "word AND 3 = 3" "word AND 0x1f \<noteq> 0x1f"
    using m sub [of 3] sub [of "0x1f"] by simp_all
  then show "OP_HASH_IDX (op_match op) = OP_HASH_IDX word"
    and "riscv_insn_length word = riscv_insn_length (op_match op)"
    using m idx by (simp_all add: OP_HASH_IDX_def riscv_insn_length_def)
qed

lemma selects_match:
  assumes "entry_fine op" "selects na xl spt op word"
  shows "match_opcode op word" and "OP_HASH_IDX (op_match op) = OP_HASH_IDX word"
    and "riscv_insn_length word = riscv_insn_length (op_match op)"
proof -
  show m: "match_opcode op word"
    using assms match_implies_opcode by (auto simp: selects_def entry_fine_def)
  show "OP_HASH_IDX (op_match op) = OP_HASH_IDX word"
    using assms m entry_fine2_bucket(1) entry_fine4_bucket(1)
    by (auto simp: selects_def entry_fine_def)
  show "riscv_insn_length word = riscv_insn_length (op_match op)"
    using assms m entry_fine2_bucket(2) entry_fine4_bucket(2)
    by (auto simp: selects_def entry_fine_def)
qed

interpretation dis: bucket_search "\<lambda>w. unat (OP_HASH_IDX w)" op_match "selects na xl spt" riscv_opcodes
  for na xl spt
  using riscv_opcodes_fine selects_match(2)
  by unfold_locales (auto simp: list_all_iff)

section \<open>The search is a scan of the whole table\<close>

lemma riscv_opcodes_drop_fine: "list_all entry_fine (drop k riscv_opcodes)"
  using riscv_opcodes_fine by (auto simp: list_all_iff dest: in_set_dropD)

lemma riscv_search_insn_find:
  "riscv_search_insn na xl spt word = Inr (find (\<lambda>op. selects na xl spt op word) riscv_opcodes)"
proof (cases "first_in_bucket (\<lambda>op. unat (OP_HASH_IDX (op_match op))) (unat (OP_HASH_IDX word))
    riscv_opcodes")
  case None
  then show ?thesis
    using dis.empty_bucket [OF None] OP_HASH_IDX_bound [of word]
    by (simp add: riscv_search_insn_def riscv_hash_nth)
next
  case (Some k)
  then show ?thesis
    using dis.skip_prefix [OF Some] OP_HASH_IDX_bound [of word]
    by (simp add: riscv_search_insn_def riscv_hash_nth scan_opcodes_find riscv_opcodes_drop_fine)
qed

text \<open>
  C2. The hash table of the disassembler changes nothing: for every instruction word, option,
  register width and set of supported extensions the search returns exactly the first entry of
  the whole table that is not a macro, matches, may be printed as an alias, fits \<open>xlen\<close> and is
  supported.  In particular no null match function is ever called.
\<close>

theorem dis_search_first_match:
  "riscv_search_insn no_aliases xlen supports word =
     Inr (find (\<lambda>op. op_pinfo op \<noteq> INSN_MACRO \<and>
                     call_match_func (op_match_func op) op word = Some True \<and>
                     \<not> (no_aliases \<and> op_pinfo op AND INSN_ALIAS \<noteq> 0) \<and>
                     op_xlen_requirement op \<in> {0, xlen} \<and> supports (op_insn_class op))
            riscv_opcodes)"
  using riscv_search_insn_find by (simp add: selects_def)

lemma find_SomeD: "find P xs = Some x \<Longrightarrow> x \<in> set xs \<and> P x"
  by (induction xs) (auto split: if_splits)

text \<open>
  What the disassembler prints agrees with the word: the entry found is in the table, the word
  has the entry's opcode bits under the entry's mask, and the length the disassembler reports is
  the length of the entry's own encoding.
\<close>

theorem dis_search_sound:
  assumes "riscv_search_insn no_aliases xlen supports word = Inr (Some op)"
  shows "op \<in> set riscv_opcodes \<and> word AND op_mask op = op_match op AND op_mask op \<and>
         riscv_insn_length word = riscv_insn_length (op_match op)"
proof -
  have op: "op \<in> set riscv_opcodes" "selects no_aliases xlen supports op word"
    using assms find_SomeD [of "\<lambda>op. selects no_aliases xlen supports op word" riscv_opcodes op]
    by (simp_all add: riscv_search_insn_find)
  then have "entry_fine op" using riscv_opcodes_fine by (simp add: list_all_iff)
  note m = selects_match [OF this op(2)]
  have "word AND op_mask op = op_match op AND op_mask op"
    using m(1) by (intro match_opcode_and) simp_all
  with op(1) m(3) show ?thesis by blast
qed

lemma dis_search_sound_witness:
  "\<exists>op. riscv_search_insn False 32 (\<lambda>c. True) 0x6013 = Inr (Some op) \<and> op \<in> set riscv_opcodes \<and>
     op_name op = ''prefetch.i'' \<and> 0x6013 AND op_mask op = op_match op AND op_mask op \<and>
     riscv_insn_length 0x6013 = riscv_insn_length (op_match op)"
proof -
  define op where "op = opc ''prefetch.i'' 0 INSN_CLASS_ZICBOP ''Wif(s)'' 0x6013 0x1f07fff MF_match_opcode 0"
  have tab: "riscv_opcodes = op # tl riscv_opcodes"
    by (simp only: riscv_opcodes_def riscv_opcodes_1_def append_Cons list.sel op_def)
  have "selects False 32 (\<lambda>c. True) op 0x6013"
    by (simp add: selects_def op_def match_opcode_def)
  then have found: "riscv_search_insn False 32 (\<lambda>c. True) 0x6013 = Inr (Some op)"
    unfolding riscv_search_insn_find by (subst tab) simp
  show ?thesis
    using found dis_search_sound [OF found] by (intro exI [of _ op]) (simp add: op_def)
qed

end
