(* ===== verification/RV_Subset.thy ===== *)
theory RV_Subset
  imports RV_Prelude "HOL-Library.List_Lexorder" "HOL-Library.Monad_Syntax"
begin

text \<open>
  The list of ISA extensions of \<^verbatim>\<open>bfd/elfxx-riscv.c\<close>: the order of extension names
  (\<open>riscv_compare_subsets\<close>) and the linked list kept in that order (\<open>riscv_lookup_subset\<close>,
  \<open>riscv_add_subset\<close>, \<open>riscv_remove_subset\<close>, \<open>riscv_copy_subset_list\<close>,
  \<open>riscv_release_subset_list\<close>).

  A result \<open>None\<close> stands for undefined behaviour of the C code: a read outside the array
  \<open>riscv_ext_order\<close>.  The linked list is the list of its nodes from the head; a pointer to a node
  is the node's position, and the pointer \<open>tail\<close> is kept as the code keeps it, so that a stale
  tail would show.
\<close>

section \<open>Name classes\<close>

datatype riscv_prefix_ext_class =
    RV_ISA_CLASS_Z | RV_ISA_CLASS_S | RV_ISA_CLASS_ZXM | RV_ISA_CLASS_X | RV_ISA_CLASS_SINGLE

fun class_value :: "riscv_prefix_ext_class \<Rightarrow> int" where
  "class_value RV_ISA_CLASS_Z = 1"
| "class_value RV_ISA_CLASS_S = 2"
| "class_value RV_ISA_CLASS_ZXM = 3"
| "class_value RV_ISA_CLASS_X = 4"
| "class_value RV_ISA_CLASS_SINGLE = 5"

definition parse_config :: "(riscv_prefix_ext_class \<times> string) list" where
  "parse_config =
     [(RV_ISA_CLASS_ZXM, ''zxm''), (RV_ISA_CLASS_Z, ''z''), (RV_ISA_CLASS_S, ''s''),
      (RV_ISA_CLASS_X, ''x'')]"

text \<open>The loop stops at the entry of class \<open>RV_ISA_CLASS_SINGLE\<close>, which ends the table.\<close>

fun prefix_class_from ::
    "(riscv_prefix_ext_class \<times> string) list \<Rightarrow> string \<Rightarrow> riscv_prefix_ext_class" where
  "prefix_class_from [] arch = RV_ISA_CLASS_SINGLE"
| "prefix_class_from ((c, p) # cs) arch =
     (if startswith arch p then c else prefix_class_from cs arch)"

definition riscv_get_prefix_class :: "string \<Rightarrow> riscv_prefix_ext_class" where
  "riscv_get_prefix_class arch = prefix_class_from parse_config arch"

section \<open>The order of single letters\<close>

definition riscv_ext_canonical_order :: string where
  "riscv_ext_canonical_order = ''eigmafdqlcbkjtpvnh''"

fun fill_ext_order :: "int \<Rightarrow> string \<Rightarrow> int list \<Rightarrow> int list" where
  "fill_ext_order order [] a = a"
| "fill_ext_order order (c # cs) a =
     fill_ext_order (order + 1) cs (a[of_char c - 97 := order])"

definition riscv_ext_order :: "int list" where
  "riscv_ext_order = fill_ext_order 1 riscv_ext_canonical_order (replicate 26 0)"

text \<open>A read of \<open>riscv_ext_order[c - 'a']\<close>; there is no value outside the array.\<close>

definition read_ext_order :: "char \<Rightarrow> int option" where
  "read_ext_order c =
     (if 97 \<le> (of_char c :: nat) \<and> (of_char c :: nat) \<le> 122
      then Some (riscv_ext_order ! (of_char c - 97)) else None)"

section \<open>Comparing names\<close>

definition riscv_compare_subsets :: "string \<Rightarrow> string \<Rightarrow> int option" where
  "riscv_compare_subsets subset1 subset2 = do {
     order1 \<leftarrow> read_ext_order (c_char subset1 0);
     order2 \<leftarrow> read_ext_order (c_char subset2 0);
     if order1 > 0 \<and> order2 > 0 then Some (order1 - order2)
     else
       (let class1 = riscv_get_prefix_class subset1;
            class2 = riscv_get_prefix_class subset2;
            o1 = (if class1 \<noteq> RV_ISA_CLASS_SINGLE then - class_value class1 else order1);
            o2 = (if class2 \<noteq> RV_ISA_CLASS_SINGLE then - class_value class2 else order2)
        in if o1 = o2
           then if class1 = RV_ISA_CLASS_Z
                then do {
                  z1 \<leftarrow> read_ext_order (c_char subset1 1);
                  z2 \<leftarrow> read_ext_order (c_char subset2 1);
                  if z1 \<noteq> z2 then Some (z1 - z2)
                  else Some (strcasecmp (drop 2 subset1) (drop 2 subset2))
                }
                else Some (strcasecmp (drop 1 subset1) (drop 1 subset2))
           else Some (o2 - o1))
   }"

section \<open>The list\<close>

record riscv_subset =
  ss_name :: string
  ss_major_version :: int
  ss_minor_version :: int

record riscv_subset_list =
  sl_head :: "riscv_subset list"
  sl_tail :: "nat option"
  sl_arch_str :: "string option"

text \<open>
  The scan of \<open>riscv_lookup_subset\<close> from node \<open>i\<close>, with the node before it: whether the name was
  found, and the value of \<open>current\<close>.
\<close>

fun lookup_from ::
    "string \<Rightarrow> nat \<Rightarrow> nat option \<Rightarrow> riscv_subset list \<Rightarrow> (bool \<times> nat option) option" where
  "lookup_from ext i pre [] = Some (False, pre)"
| "lookup_from ext i pre (s # ss) = do {
     cmp \<leftarrow> riscv_compare_subsets (ss_name s) ext;
     if cmp = 0 then Some (True, Some i)
     else if cmp > 0 then Some (False, pre)
     else lookup_from ext (Suc i) (Some i) ss
   }"

definition riscv_lookup_subset ::
    "riscv_subset_list \<Rightarrow> string \<Rightarrow> (bool \<times> nat option) option" where
  "riscv_lookup_subset sl ext = do {
     at_tail \<leftarrow> (case sl_tail sl of
                  None \<Rightarrow> Some False
                | Some t \<Rightarrow> map_option (\<lambda>c. c < 0)
                              (riscv_compare_subsets (ss_name (sl_head sl ! t)) ext));
     if at_tail then Some (False, sl_tail sl)
     else lookup_from ext 0 None (sl_head sl)
   }"

text \<open>Linking a node in at position \<open>j\<close> moves the nodes behind it, and a pointer to them.\<close>

definition insert_node :: "nat \<Rightarrow> riscv_subset \<Rightarrow> riscv_subset_list \<Rightarrow> riscv_subset_list" where
  "insert_node j s sl =
     sl\<lparr>sl_head := take j (sl_head sl) @ s # drop j (sl_head sl),
        sl_tail := (if drop j (sl_head sl) = [] then Some j
                    else map_option (\<lambda>t. if j \<le> t then Suc t else t) (sl_tail sl))\<rparr>"

definition riscv_add_subset ::
    "riscv_subset_list \<Rightarrow> string \<Rightarrow> int \<Rightarrow> int \<Rightarrow> riscv_subset_list option" where
  "riscv_add_subset sl ext major minor = do {
     (found, current) \<leftarrow> riscv_lookup_subset sl ext;
     if found then Some sl
     else
       (let s = \<lparr>ss_name = ext, ss_major_version = major, ss_minor_version = minor\<rparr>
        in Some (insert_node (case current of None \<Rightarrow> 0 | Some k \<Rightarrow> Suc k) s sl))
   }"

definition riscv_release_subset_list :: "riscv_subset_list \<Rightarrow> riscv_subset_list" where
  "riscv_release_subset_list sl = sl\<lparr>sl_head := [], sl_tail := None, sl_arch_str := None\<rparr>"

text \<open>
  \<open>riscv_copy_subset\<close> copies the nodes and sets the tail at the last one; for an empty list it
  leaves the tail of the fresh structure as \<open>malloc\<close> returned it, which is the argument \<open>junk\<close>.
  The copy of a null \<open>arch_str\<close> is undefined.
\<close>

fun riscv_copy_subset :: "nat option \<Rightarrow> nat \<Rightarrow> riscv_subset list \<Rightarrow> riscv_subset list \<times> nat option" where
  "riscv_copy_subset tl0 i [] = ([], tl0)"
| "riscv_copy_subset tl0 i (s # ss) =
     (case riscv_copy_subset tl0 (Suc i) ss of
        (cp, tl1) \<Rightarrow>
          (\<lparr>ss_name = ss_name s, ss_major_version = ss_major_version s,
             ss_minor_version = ss_minor_version s\<rparr> # cp,
           if ss = [] then Some i else tl1))"

definition riscv_copy_subset_list ::
    "nat option \<Rightarrow> riscv_subset_list \<Rightarrow> riscv_subset_list option" where
  "riscv_copy_subset_list junk sl =
     (case sl_arch_str sl of
        None \<Rightarrow> None
      | Some a \<Rightarrow>
          (case riscv_copy_subset junk 0 (sl_head sl) of
             (cp, tl1) \<Rightarrow> Some \<lparr>sl_head = cp, sl_tail = tl1, sl_arch_str = Some a\<rparr>))"

text \<open>Unlinking the node at position \<open>k\<close>.\<close>

definition unlink_node :: "nat \<Rightarrow> riscv_subset_list \<Rightarrow> riscv_subset_list" where
  "unlink_node k sl =
     sl\<lparr>sl_head := take k (sl_head sl) @ drop (Suc k) (sl_head sl),
        sl_tail := (if drop (Suc k) (sl_head sl) = [] then (if k = 0 then None else Some (k - 1))
                    else map_option (\<lambda>t. if k < t then t - 1 else t) (sl_tail sl))\<rparr>"

fun find_name :: "string \<Rightarrow> nat \<Rightarrow> riscv_subset list \<Rightarrow> nat option" where
  "find_name ext i [] = None"
| "find_name ext i (s # ss) =
     (if ss_name s = ext then Some i else find_name ext (Suc i) ss)"

definition riscv_remove_subset :: "riscv_subset_list \<Rightarrow> string \<Rightarrow> riscv_subset_list" where
  "riscv_remove_subset sl ext =
     (case find_name ext 0 (sl_head sl) of None \<Rightarrow> sl | Some k \<Rightarrow> unlink_node k sl)"

section \<open>Well-formed names and their sort key\<close>

text \<open>
  The names for which the order is a total order: a single letter of the canonical order, or a
  prefixed name; the letter after a \<open>z\<close> must be in the canonical order too.  No upper case letters
  (the parser rejects them) and no NUL.
\<close>

definition name_char :: "char \<Rightarrow> bool" where
  "name_char c \<longleftrightarrow> \<not> ISUPPER c \<and> c \<noteq> CHR 0x00"

definition std_letter :: "char \<Rightarrow> bool" where
  "std_letter c \<longleftrightarrow> c \<in> set riscv_ext_canonical_order"

definition wf_ext :: "string \<Rightarrow> bool" where
  "wf_ext s \<longleftrightarrow>
     list_all name_char s \<and>
     (case riscv_get_prefix_class s of
        RV_ISA_CLASS_SINGLE \<Rightarrow> length s = 1 \<and> std_letter (c_char s 0)
      | RV_ISA_CLASS_Z \<Rightarrow> 1 < length s \<and> std_letter (c_char s 1)
      | _ \<Rightarrow> True)"

definition ext_key :: "string \<Rightarrow> int list" where
  "ext_key s =
     (case riscv_get_prefix_class s of
        RV_ISA_CLASS_SINGLE \<Rightarrow> [0, riscv_ext_order ! (of_char (c_char s 0) - 97)]
      | RV_ISA_CLASS_Z \<Rightarrow>
          1 # riscv_ext_order ! (of_char (c_char s 1) - 97) # map of_char (drop 2 s)
      | c \<Rightarrow> class_value c # map of_char (drop 1 s))"

lemma TOLOWER_name_char: "name_char c \<Longrightarrow> TOLOWER c = of_char c"
  by (simp add: name_char_def TOLOWER_def)

lemma of_char_pos: "name_char c \<Longrightarrow> 0 < (of_char c :: int)"
proof -
  assume "name_char c"
  then have "(of_char c :: nat) \<noteq> of_char (CHR 0x00)"
    by (simp only: of_char_eq_iff) (simp add: name_char_def)
  then have "0 < (of_char c :: nat)" by simp
  then have "0 < int (of_char c)" by (simp only: of_nat_0_less_iff)
  then show ?thesis by (simp add: of_nat_of_char)
qed

lemma strcasecmp_order:
  "list_all name_char s \<Longrightarrow> list_all name_char t \<Longrightarrow>
     (strcasecmp s t < 0 \<longleftrightarrow> map of_char s < (map of_char t :: int list)) \<and>
     (strcasecmp s t > 0 \<longleftrightarrow> map of_char t < (map of_char s :: int list)) \<and>
     (strcasecmp s t = 0 \<longleftrightarrow> s = t)"
  by (induction s t rule: strcasecmp.induct) (auto simp: TOLOWER_name_char dest: of_char_pos)

section \<open>The order of well-formed names\<close>

lemma riscv_ext_order_eval:
  "riscv_ext_order =
     [5, 11, 10, 7, 1, 6, 3, 18, 2, 13, 12, 9, 4, 17, 0, 15, 8, 0, 0, 14, 0, 16, 0, 0, 0, 0]"
  by (simp add: riscv_ext_order_def riscv_ext_canonical_order_def numeral_eq_Suc)

lemma std_letterE:
  assumes "std_letter c"
  obtains "c \<in> {CHR ''e'', CHR ''i'', CHR ''g'', CHR ''m'', CHR ''a'', CHR ''f'', CHR ''d'', CHR ''q'',
    CHR ''l'', CHR ''c'', CHR ''b'', CHR ''k'', CHR ''j'', CHR ''t'', CHR ''p'', CHR ''v'', CHR ''n'', CHR ''h''}"
  using assms by (simp add: std_letter_def riscv_ext_canonical_order_def)

lemma read_std_letter:
  assumes "std_letter c"
  shows "read_ext_order c = Some (riscv_ext_order ! (of_char c - 97))"
    and "0 < riscv_ext_order ! (of_char c - 97)"
  using assms by (auto elim!: std_letterE simp: read_ext_order_def riscv_ext_order_eval)

lemma std_letter_inj:
  assumes "std_letter c" "std_letter d"
    and "riscv_ext_order ! (of_char c - 97) = riscv_ext_order ! (of_char d - 97)"
  shows "c = d"
proof -
  have "riscv_ext_canonical_order ! nat (riscv_ext_order ! (of_char x - 97) - 1) = x"
    if "std_letter x" for x
    using that
    by (auto elim!: std_letterE simp: riscv_ext_order_eval riscv_ext_canonical_order_def)
  then show ?thesis using assms by metis
qed

lemma prefix_class_char:
  "riscv_get_prefix_class s = RV_ISA_CLASS_Z \<Longrightarrow> \<exists>r. s = CHR ''z'' # r"
  "riscv_get_prefix_class s = RV_ISA_CLASS_ZXM \<Longrightarrow> \<exists>r. s = CHR ''z'' # r"
  "riscv_get_prefix_class s = RV_ISA_CLASS_S \<Longrightarrow> \<exists>r. s = CHR ''s'' # r"
  "riscv_get_prefix_class s = RV_ISA_CLASS_X \<Longrightarrow> \<exists>r. s = CHR ''x'' # r"
  by (auto simp: riscv_get_prefix_class_def parse_config_def startswith_iff split: if_splits)

lemma prefixed_read:
  "riscv_get_prefix_class s \<noteq> RV_ISA_CLASS_SINGLE \<Longrightarrow> read_ext_order (c_char s 0) = Some 0"
  by (cases "riscv_get_prefix_class s")
    (auto dest!: prefix_class_char simp: c_char_def read_ext_order_def riscv_ext_order_eval)

lemma wf_single:
  assumes "wf_ext s" "riscv_get_prefix_class s = RV_ISA_CLASS_SINGLE"
  obtains c where "s = [c]" "std_letter c"
  using assms by (auto simp: wf_ext_def c_char_def length_Suc_conv)

lemma wf_z:
  assumes "wf_ext s" "riscv_get_prefix_class s = RV_ISA_CLASS_Z"
  obtains c r where "s = CHR ''z'' # c # r" "std_letter c" "list_all name_char r"
proof -
  obtain t where s: "s = CHR ''z'' # t" using prefix_class_char(1) assms(2) by blast
  with assms obtain c r where "t = c # r" by (cases t) (auto simp: wf_ext_def)
  with s assms show ?thesis by (intro that [of c r]) (auto simp: wf_ext_def c_char_def)
qed

lemma wf_name_chars: "wf_ext s \<Longrightarrow> list_all name_char (drop n s)"
  by (auto simp: wf_ext_def list_all_iff dest: in_set_dropD)

text \<open>The comparison of two well-formed names is defined, and its sign is the order of their keys.\<close>

definition compares_as :: "int option \<Rightarrow> string \<Rightarrow> string \<Rightarrow> bool" where
  "compares_as v s t \<longleftrightarrow>
     (\<exists>c. v = Some c \<and> (c < 0 \<longleftrightarrow> ext_key s < ext_key t) \<and>
          (c > 0 \<longleftrightarrow> ext_key t < ext_key s) \<and> (c = 0 \<longleftrightarrow> s = t))"

lemma compare_single_single:
  assumes "wf_ext s" "wf_ext t"
    and "riscv_get_prefix_class s = RV_ISA_CLASS_SINGLE" "riscv_get_prefix_class t = RV_ISA_CLASS_SINGLE"
  shows "compares_as (riscv_compare_subsets s t) s t"
proof -
  obtain c d where s: "s = [c]" "std_letter c" and t: "t = [d]" "std_letter d"
    using wf_single assms by metis
  with assms std_letter_inj [of c d] read_std_letter show ?thesis
    by (auto simp: compares_as_def riscv_compare_subsets_def c_char_def ext_key_def)
qed

lemma compare_z_z:
  assumes "wf_ext s" "wf_ext t"
    and "riscv_get_prefix_class s = RV_ISA_CLASS_Z" "riscv_get_prefix_class t = RV_ISA_CLASS_Z"
  shows "compares_as (riscv_compare_subsets s t) s t"
proof -
  obtain c r d u where s: "s = CHR ''z'' # c # r" "std_letter c" "list_all name_char r"
      and t: "t = CHR ''z'' # d # u" "std_letter d" "list_all name_char u"
    using wf_z assms by metis
  have "read_ext_order (CHR ''z'') = Some 0"
    by (simp add: read_ext_order_def riscv_ext_order_eval)
  with s t assms std_letter_inj [of c d] read_std_letter(1) strcasecmp_order [of r u] show ?thesis
    by (auto simp: compares_as_def riscv_compare_subsets_def c_char_def ext_key_def)
qed

lemma compare_same_prefix:
  assumes "wf_ext s" "wf_ext t" "riscv_get_prefix_class s = riscv_get_prefix_class t"
    and "riscv_get_prefix_class s \<in> {RV_ISA_CLASS_S, RV_ISA_CLASS_ZXM, RV_ISA_CLASS_X}"
  shows "compares_as (riscv_compare_subsets s t) s t"
proof -
  obtain c r u where s: "s = c # r" and t: "t = c # u"
    using assms(3,4) prefix_class_char by (metis empty_iff insert_iff)
  have "list_all name_char r" "list_all name_char u"
    using wf_name_chars [OF assms(1), of 1] wf_name_chars [OF assms(2), of 1] by (simp_all add: s t)
  moreover have "read_ext_order c = Some 0"
    using prefixed_read [of s] assms(4) by (auto simp: s c_char_def)
  ultimately show ?thesis
    using assms(3,4) strcasecmp_order [of r u]
    by (auto simp: compares_as_def riscv_compare_subsets_def c_char_def ext_key_def s t)
qed

lemma compare_other_class:
  assumes "wf_ext s" "wf_ext t" "riscv_get_prefix_class s \<noteq> riscv_get_prefix_class t"
  shows "compares_as (riscv_compare_subsets s t) s t"
proof -
  have std: "\<exists>k>0. read_ext_order (c_char x 0) = Some k \<and> ext_key x = [0, k]"
    if w: "wf_ext x" "riscv_get_prefix_class x = RV_ISA_CLASS_SINGLE" for x
  proof -
    obtain c where "x = [c]" "std_letter c" using wf_single w by blast
    with w(2) read_std_letter [of c] show ?thesis by (simp add: ext_key_def c_char_def)
  qed
  have key: "\<exists>r. ext_key x = class_value (riscv_get_prefix_class x) # r"
    if "riscv_get_prefix_class x \<noteq> RV_ISA_CLASS_SINGLE" for x
    using that by (cases "riscv_get_prefix_class x") (auto simp: ext_key_def)
  have inj: "class_value a = class_value b \<longleftrightarrow> a = b" "0 < class_value a" for a b
    by (cases a; cases b; simp)+
  show ?thesis
  proof (cases "riscv_get_prefix_class s = RV_ISA_CLASS_SINGLE")
    case True
    with assms have "riscv_get_prefix_class t \<noteq> RV_ISA_CLASS_SINGLE" by simp
    then obtain r where "ext_key t = class_value (riscv_get_prefix_class t) # r"
        "read_ext_order (c_char t 0) = Some 0"
      using key prefixed_read by blast
    with std [OF assms(1) True] assms(3) inj(2) [of "riscv_get_prefix_class t"] True show ?thesis
      by (auto simp: compares_as_def riscv_compare_subsets_def Let_def)
  next
    case False
    then obtain r where s: "ext_key s = class_value (riscv_get_prefix_class s) # r"
        "read_ext_order (c_char s 0) = Some 0"
      using key prefixed_read by blast
    show ?thesis
    proof (cases "riscv_get_prefix_class t = RV_ISA_CLASS_SINGLE")
      case True
      with std [OF assms(2) True] s assms(3) inj(2) [of "riscv_get_prefix_class s"] False
      show ?thesis
        by (auto simp: compares_as_def riscv_compare_subsets_def Let_def)
    next
      case ts: False
      then obtain u where t: "ext_key t = class_value (riscv_get_prefix_class t) # u"
          "read_ext_order (c_char t 0) = Some 0"
        using key prefixed_read by blast
      with s assms(3) inj(1) [of "riscv_get_prefix_class s" "riscv_get_prefix_class t"] False ts
      show ?thesis
        by (auto simp: compares_as_def riscv_compare_subsets_def Let_def)
    qed
  qed
qed

lemma riscv_compare_subsets_order:
  assumes "wf_ext s" "wf_ext t"
  shows "compares_as (riscv_compare_subsets s t) s t"
  using compare_single_single compare_z_z compare_same_prefix compare_other_class assms
  by (cases "riscv_get_prefix_class s"; cases "riscv_get_prefix_class s = riscv_get_prefix_class t") force+

lemma ext_key_inj:
  assumes "wf_ext s" "wf_ext t" "ext_key s = ext_key t"
  shows "s = t"
  using riscv_compare_subsets_order [OF assms(1,2)] assms(3)
  by (auto simp: compares_as_def)

end
