(* ===== verification/RV_Slist.thy ===== *)
theory RV_Slist
  imports RV_Subset
begin

text \<open>
  The list of extensions as a finite map from names to versions.  \<open>slist_ok\<close> is the invariant of
  \<open>riscv_subset_list_t\<close>: well-formed names in strictly increasing order, and \<open>tail\<close> at the last
  node.  Every operation keeps it, and lookup, add and remove act on the map \<open>versions\<close> as their
  comments say.  The locale \<open>version_store\<close> is the contract the clients of the list use.
\<close>

section \<open>Invariant and abstraction\<close>

definition slist_ok :: "riscv_subset_list \<Rightarrow> bool" where
  "slist_ok sl \<longleftrightarrow>
     list_all (\<lambda>s. wf_ext (ss_name s)) (sl_head sl) \<and>
     sorted_wrt (\<lambda>a b. ext_key (ss_name a) < ext_key (ss_name b)) (sl_head sl) \<and>
     sl_tail sl = (if sl_head sl = [] then None else Some (length (sl_head sl) - 1))"

definition versions_of :: "riscv_subset list \<Rightarrow> string \<rightharpoonup> int \<times> int" where
  "versions_of ss = map_of (map (\<lambda>s. (ss_name s, ss_major_version s, ss_minor_version s)) ss)"

definition versions :: "riscv_subset_list \<Rightarrow> string \<rightharpoonup> int \<times> int" where
  "versions sl = versions_of (sl_head sl)"

definition empty_slist :: riscv_subset_list where
  "empty_slist = \<lparr>sl_head = [], sl_tail = None, sl_arch_str = None\<rparr>"

lemma empty_slist_ok [simp]: "slist_ok empty_slist" "versions empty_slist = Map.empty"
  by (simp_all add: slist_ok_def empty_slist_def versions_def versions_of_def)

lemma versions_of_simps [simp]:
  "versions_of [] = Map.empty"
  "versions_of (s # ss) = (versions_of ss)(ss_name s \<mapsto> (ss_major_version s, ss_minor_version s))"
  by (simp_all add: versions_of_def)

lemma dom_versions_of: "dom (versions_of ss) = ss_name ` set ss"
  by (force simp: versions_of_def dom_map_of_conv_image_fst)

lemma versions_of_append:
  "versions_of (ss @ ts) = versions_of ts ++ versions_of ss"
  by (simp add: versions_of_def)

lemma versions_of_nth:
  "distinct (map ss_name ss) \<Longrightarrow> k < length ss \<Longrightarrow>
     versions_of ss (ss_name (ss ! k)) = Some (ss_major_version (ss ! k), ss_minor_version (ss ! k))"
  by (rule map_of_is_SomeI [of "map (\<lambda>s. (ss_name s, ss_major_version s, ss_minor_version s)) ss",
        folded versions_of_def]) (auto simp: comp_def)

lemma slist_ok_distinct:
  assumes "slist_ok sl"
  shows "distinct (map ss_name (sl_head sl))"
proof -
  have "sorted_wrt (\<lambda>a b. ext_key (ss_name a) < ext_key (ss_name b)) ss \<Longrightarrow> distinct (map ss_name ss)"
    for ss
    by (induction ss) auto
  then show ?thesis using assms unfolding slist_ok_def by blast
qed

section \<open>Lookup\<close>

text \<open>The position where the scan stops: behind the nodes with a smaller key.\<close>

definition place :: "string \<Rightarrow> riscv_subset list \<Rightarrow> nat" where
  "place n ss = length (takeWhile (\<lambda>s. ext_key (ss_name s) < ext_key n) ss)"

definition found_at :: "string \<Rightarrow> riscv_subset list \<Rightarrow> bool" where
  "found_at n ss \<longleftrightarrow> place n ss < length ss \<and> ss_name (ss ! place n ss) = n"

lemma place_simps [simp]:
  "place n [] = 0"
  "place n (s # ss) = (if ext_key (ss_name s) < ext_key n then Suc (place n ss) else 0)"
  by (simp_all add: place_def)

lemma place_le: "place n ss \<le> length ss"
  by (induction ss) auto

lemma place_all: "\<forall>s\<in>set ss. ext_key (ss_name s) < ext_key n \<Longrightarrow> place n ss = length ss"
  by (induction ss) auto

lemma lookup_from_place:
  assumes "list_all (\<lambda>s. wf_ext (ss_name s)) ss" "wf_ext n"
  shows "lookup_from n i pre ss =
           Some (if found_at n ss then (True, Some (i + place n ss))
                 else (False, if place n ss = 0 then pre else Some (i + place n ss - 1)))"
  using assms(1)
proof (induction ss arbitrary: i pre)
  case Nil
  then show ?case by (simp add: found_at_def)
next
  case (Cons s ss)
  obtain c where c: "riscv_compare_subsets (ss_name s) n = Some c"
      "c < 0 \<longleftrightarrow> ext_key (ss_name s) < ext_key n" "c = 0 \<longleftrightarrow> ss_name s = n"
    using riscv_compare_subsets_order [of "ss_name s" n] Cons.prems assms(2)
    by (auto simp: compares_as_def)
  then show ?case using Cons by (auto simp: found_at_def)
qed

lemma sorted_place:
  assumes "sorted_wrt (\<lambda>a b. ext_key (ss_name a) < ext_key (ss_name b)) ss"
  shows "\<forall>s\<in>set (take (place n ss) ss). ext_key (ss_name s) < ext_key n"
    and "\<forall>s\<in>set (drop (place n ss) ss). \<not> ext_key (ss_name s) < ext_key n"
proof -
  show "\<forall>s\<in>set (take (place n ss) ss). ext_key (ss_name s) < ext_key n"
    by (induction ss) auto
  show "\<forall>s\<in>set (drop (place n ss) ss). \<not> ext_key (ss_name s) < ext_key n"
    using assms by (induction ss) (auto intro: less_trans)
qed

lemma found_at_iff:
  assumes "sorted_wrt (\<lambda>a b. ext_key (ss_name a) < ext_key (ss_name b)) ss"
  shows "found_at n ss \<longleftrightarrow> n \<in> ss_name ` set ss"
  using assms by (induction ss) (auto simp: found_at_def)

lemma riscv_lookup_subset_place:
  assumes "slist_ok sl" "wf_ext n"
  shows "riscv_lookup_subset sl n =
           Some (if found_at n (sl_head sl) then (True, Some (place n (sl_head sl)))
                 else (False, if place n (sl_head sl) = 0 then None
                              else Some (place n (sl_head sl) - 1)))"
proof (cases "sl_head sl = []")
  case True
  with assms show ?thesis
    by (simp add: riscv_lookup_subset_def slist_ok_def found_at_def)
next
  case False
  define t where "t = length (sl_head sl) - 1"
  have last: "sl_head sl = take t (sl_head sl) @ [sl_head sl ! t]" "t < length (sl_head sl)"
    using False by (auto simp: t_def take_Suc_conv_app_nth [symmetric])
  have wf: "list_all (\<lambda>s. wf_ext (ss_name s)) (sl_head sl)" and "wf_ext (ss_name (sl_head sl ! t))"
    using assms(1) last(2) by (auto simp: slist_ok_def list_all_iff)
  then obtain c where c: "riscv_compare_subsets (ss_name (sl_head sl ! t)) n = Some c"
      "c < 0 \<longleftrightarrow> ext_key (ss_name (sl_head sl ! t)) < ext_key n"
    using riscv_compare_subsets_order assms(2) by (auto simp: compares_as_def)
  show ?thesis
  proof (cases "c < 0")
    case True
    have "\<forall>s\<in>set (sl_head sl). ext_key (ss_name s) < ext_key n"
    proof
      fix s assume "s \<in> set (sl_head sl)"
      then obtain k where k: "k < length (sl_head sl)" "s = sl_head sl ! k"
        by (auto simp: in_set_conv_nth)
      have "k = t \<or> ext_key (ss_name s) < ext_key (ss_name (sl_head sl ! t))"
        using assms(1) k last(2) by (cases "k < t") (auto simp: slist_ok_def sorted_wrt_iff_nth_less t_def)
      with True c(2) k(2) show "ext_key (ss_name s) < ext_key n" by (metis less_trans)
    qed
    then have "place n (sl_head sl) = length (sl_head sl)"
      by (rule place_all)
    with True c(1) assms(1) False show ?thesis
      by (simp add: riscv_lookup_subset_def slist_ok_def t_def found_at_def)
  next
    case no: False
    with c(1) assms(1) False lookup_from_place [OF wf assms(2), of 0 None] show ?thesis
      by (simp add: riscv_lookup_subset_def slist_ok_def t_def)
  qed
qed

lemma riscv_lookup_subset_versions:
  assumes "slist_ok sl" "wf_ext n"
  shows "\<exists>cur. riscv_lookup_subset sl n = Some (n \<in> dom (versions sl), cur) \<and>
           (\<forall>k. n \<in> dom (versions sl) \<longrightarrow> cur = Some k \<longrightarrow>
              k < length (sl_head sl) \<and> ss_name (sl_head sl ! k) = n \<and>
              versions sl n = Some (ss_major_version (sl_head sl ! k), ss_minor_version (sl_head sl ! k)))"
proof -
  have "found_at n (sl_head sl) \<longleftrightarrow> n \<in> dom (versions sl)"
    using assms(1) found_at_iff by (simp add: slist_ok_def versions_def dom_versions_of)
  moreover have "found_at n (sl_head sl) \<Longrightarrow>
      versions sl n = Some (ss_major_version (sl_head sl ! place n (sl_head sl)),
                            ss_minor_version (sl_head sl ! place n (sl_head sl)))"
    using versions_of_nth [OF slist_ok_distinct [OF assms(1)], of "place n (sl_head sl)"]
    by (simp add: found_at_def versions_def)
  ultimately show ?thesis
    using riscv_lookup_subset_place [OF assms] by (auto simp: found_at_def)
qed

section \<open>Adding\<close>

lemma riscv_add_subset_place:
  assumes "slist_ok sl" "wf_ext n"
  shows "riscv_add_subset sl n a b =
           Some (if found_at n (sl_head sl) then sl
                 else insert_node (place n (sl_head sl))
                        \<lparr>ss_name = n, ss_major_version = a, ss_minor_version = b\<rparr> sl)"
  by (simp add: riscv_add_subset_def riscv_lookup_subset_place [OF assms] split: option.splits)

lemma insert_node_ok:
  assumes "slist_ok sl" "wf_ext (ss_name s)" "\<not> found_at (ss_name s) (sl_head sl)"
  shows "slist_ok (insert_node (place (ss_name s) (sl_head sl)) s sl)"
proof -
  define ss j where "ss = sl_head sl" and "j = place (ss_name s) ss"
  have ok: "list_all (\<lambda>s. wf_ext (ss_name s)) ss"
      "sorted_wrt (\<lambda>a b. ext_key (ss_name a) < ext_key (ss_name b)) ss"
      "sl_tail sl = (if ss = [] then None else Some (length ss - 1))"
    using assms(1) by (simp_all add: slist_ok_def ss_def)
  have split: "ss = take j ss @ drop j ss" and jle: "j \<le> length ss"
    by (simp_all add: j_def place_le)
  have fresh: "ss_name s \<notin> ss_name ` set ss"
    using assms(3) found_at_iff [OF ok(2)] by (simp add: ss_def)
  have below: "\<forall>x\<in>set (take j ss). ext_key (ss_name x) < ext_key (ss_name s)"
    using sorted_place(1) [OF ok(2)] by (simp add: j_def)
  have above: "\<forall>x\<in>set (drop j ss). ext_key (ss_name s) < ext_key (ss_name x)"
  proof
    fix x assume x: "x \<in> set (drop j ss)"
    then have "wf_ext (ss_name x)" "ss_name s \<noteq> ss_name x"
      using ok(1) fresh by (auto simp: list_all_iff dest: in_set_dropD)
    then have "ext_key (ss_name x) \<noteq> ext_key (ss_name s)"
      using ext_key_inj assms(2) by metis
    moreover have "\<not> ext_key (ss_name x) < ext_key (ss_name s)"
      using x sorted_place(2) [OF ok(2), of "ss_name s"] by (simp add: j_def)
    ultimately show "ext_key (ss_name s) < ext_key (ss_name x)"
      by (metis linorder_neqE)
  qed
  have "sorted_wrt (\<lambda>a b. ext_key (ss_name a) < ext_key (ss_name b)) (take j ss @ s # drop j ss)"
    using ok(2) below above
    by (subst (asm) split) (auto simp: sorted_wrt_append intro: less_trans)
  moreover have "list_all (\<lambda>s. wf_ext (ss_name s)) (take j ss @ s # drop j ss)"
    using ok(1) assms(2) by (auto simp: list_all_iff dest: in_set_takeD in_set_dropD)
  ultimately show ?thesis
    using ok(3) jle
    by (auto simp: slist_ok_def insert_node_def ss_def [symmetric] j_def [symmetric])
qed

lemma versions_insert_node:
  assumes "place (ss_name s) (sl_head sl) \<le> length (sl_head sl)"
    and "ss_name s \<notin> dom (versions sl)"
  shows "versions (insert_node (place (ss_name s) (sl_head sl)) s sl) =
           (versions sl)(ss_name s \<mapsto> (ss_major_version s, ss_minor_version s))"
proof -
  define ss j where "ss = sl_head sl" and "j = place (ss_name s) ss"
  have "versions_of ss = versions_of (drop j ss) ++ versions_of (take j ss)"
    by (metis append_take_drop_id versions_of_append)
  moreover have "ss_name s \<notin> dom (versions_of (take j ss))"
    using assms(2) by (auto simp: versions_def dom_versions_of ss_def dest: in_set_takeD)
  ultimately show ?thesis
    by (auto simp: versions_def insert_node_def ss_def [symmetric] j_def [symmetric]
        versions_of_append map_add_def fun_eq_iff split: option.splits)
qed

lemma riscv_add_subset_versions:
  assumes "slist_ok sl" "wf_ext n"
  shows "\<exists>sl'. riscv_add_subset sl n a b = Some sl' \<and> slist_ok sl' \<and>
           sl_arch_str sl' = sl_arch_str sl \<and>
           versions sl' = (if n \<in> dom (versions sl) then versions sl else (versions sl)(n \<mapsto> (a, b)))"
proof -
  have found: "found_at n (sl_head sl) \<longleftrightarrow> n \<in> dom (versions sl)"
    using assms(1) found_at_iff by (simp add: slist_ok_def versions_def dom_versions_of)
  define s where "s = \<lparr>ss_name = n, ss_major_version = a, ss_minor_version = b\<rparr>"
  show ?thesis
  proof (cases "n \<in> dom (versions sl)")
    case True
    with found assms show ?thesis by (auto simp: riscv_add_subset_place)
  next
    case False
    then have "slist_ok (insert_node (place n (sl_head sl)) s sl)"
      using insert_node_ok [of sl s] assms found by (simp add: s_def)
    moreover have "versions (insert_node (place n (sl_head sl)) s sl) = (versions sl)(n \<mapsto> (a, b))"
      using versions_insert_node [of s sl] False place_le by (simp add: s_def)
    ultimately show ?thesis
      using False found riscv_add_subset_place [OF assms, of a b]
      by (auto simp: s_def insert_node_def)
  qed
qed

section \<open>Removing, releasing and copying\<close>

lemma find_name_Some:
  "find_name n i ss = Some k \<Longrightarrow> i \<le> k \<and> k - i < length ss \<and> ss_name (ss ! (k - i)) = n"
proof (induction ss arbitrary: i)
  case (Cons s ss)
  show ?case
  proof (cases "ss_name s = n")
    case False
    with Cons.prems have "find_name n (Suc i) ss = Some k" by simp
    from Cons.IH [OF this] have "Suc i \<le> k" "k - Suc i < length ss" "ss_name (ss ! (k - Suc i)) = n"
      by auto
    moreover from this have "k - i = Suc (k - Suc i)" by simp
    ultimately show ?thesis by simp
  qed (use Cons.prems in auto)
qed simp

lemma find_name_None: "find_name n i ss = None \<longleftrightarrow> n \<notin> ss_name ` set ss"
  by (induction ss arbitrary: i) auto

lemma unlink_node_ok:
  assumes "slist_ok sl" "k < length (sl_head sl)"
  shows "slist_ok (unlink_node k sl)"
proof -
  define ss where "ss = sl_head sl"
  have ok: "list_all (\<lambda>s. wf_ext (ss_name s)) ss"
      "sorted_wrt (\<lambda>a b. ext_key (ss_name a) < ext_key (ss_name b)) ss"
      "sl_tail sl = (if ss = [] then None else Some (length ss - 1))"
    using assms(1) by (simp_all add: slist_ok_def ss_def)
  have split: "ss = take k ss @ ss ! k # drop (Suc k) ss"
    using assms(2) by (simp add: ss_def id_take_nth_drop)
  have "sorted_wrt (\<lambda>a b. ext_key (ss_name a) < ext_key (ss_name b)) (take k ss @ drop (Suc k) ss)"
    using ok(2) by (subst (asm) split) (auto simp: sorted_wrt_append)
  moreover have "list_all (\<lambda>s. wf_ext (ss_name s)) (take k ss @ drop (Suc k) ss)"
    using ok(1) by (auto simp: list_all_iff dest: in_set_takeD in_set_dropD)
  ultimately show ?thesis
    using ok(3) assms(2)
    by (auto simp: slist_ok_def unlink_node_def ss_def [symmetric])
qed

lemma riscv_remove_subset_versions:
  assumes "slist_ok sl"
  shows "slist_ok (riscv_remove_subset sl n) \<and>
         versions (riscv_remove_subset sl n) = (versions sl)(n := None)"
proof (cases "find_name n 0 (sl_head sl)")
  case None
  then have "n \<notin> dom (versions sl)"
    by (simp add: find_name_None versions_def dom_versions_of)
  with None assms show ?thesis
    by (auto simp: riscv_remove_subset_def fun_eq_iff domIff)
next
  case (Some k)
  define ss where "ss = sl_head sl"
  have k: "k < length ss" "ss_name (ss ! k) = n"
    using find_name_Some [OF Some] by (simp_all add: ss_def)
  have split: "ss = take k ss @ ss ! k # drop (Suc k) ss"
    using k(1) by (simp add: id_take_nth_drop)
  have "distinct (map ss_name ss)" using slist_ok_distinct [OF assms] by (simp add: ss_def)
  then have "n \<notin> ss_name ` set (take k ss)" "n \<notin> ss_name ` set (drop (Suc k) ss)"
    using k(2) by (subst (asm) split, auto)+
  then have "versions_of (take k ss) n = None" "versions_of (drop (Suc k) ss) n = None"
    by (simp_all only: dom_versions_of [symmetric] domIff not_not)
  moreover have "versions_of ss = versions_of (ss ! k # drop (Suc k) ss) ++ versions_of (take k ss)"
    by (subst split) (simp only: versions_of_append)
  ultimately have "versions_of (take k ss @ drop (Suc k) ss) = (versions_of ss)(n := None)"
    using k(2) by (auto simp: versions_of_append map_add_def fun_eq_iff split: option.splits)
  with Some k unlink_node_ok [OF assms, of k] show ?thesis
    by (simp add: riscv_remove_subset_def versions_def unlink_node_def ss_def)
qed

lemma riscv_release_subset_list_ok:
  "slist_ok (riscv_release_subset_list sl)" "versions (riscv_release_subset_list sl) = Map.empty"
  by (simp_all add: riscv_release_subset_list_def slist_ok_def versions_def)

lemma riscv_copy_subset_copies:
  "riscv_copy_subset tl0 i ss = (ss, if ss = [] then tl0 else Some (i + length ss - 1))"
  by (induction ss arbitrary: i) auto

lemma riscv_copy_subset_list_same:
  assumes "slist_ok sl" "sl_head sl \<noteq> []" "sl_arch_str sl = Some a"
  shows "riscv_copy_subset_list junk sl = Some sl"
  using assms by (simp add: riscv_copy_subset_list_def riscv_copy_subset_copies slist_ok_def)

section \<open>The contract of the list\<close>

definition has_subset :: "riscv_subset_list \<Rightarrow> string \<Rightarrow> bool option" where
  "has_subset sl n = map_option fst (riscv_lookup_subset sl n)"

locale version_store =
  fixes ok :: "'s \<Rightarrow> bool" and legal :: "string \<Rightarrow> bool"
    and has :: "'s \<Rightarrow> string \<Rightarrow> bool option"
    and add :: "'s \<Rightarrow> string \<Rightarrow> int \<Rightarrow> int \<Rightarrow> 's option"
    and content :: "'s \<Rightarrow> string \<rightharpoonup> int \<times> int"
  assumes has_content: "ok s \<Longrightarrow> legal n \<Longrightarrow> has s n = Some (n \<in> dom (content s))"
    and add_content: "ok s \<Longrightarrow> legal n \<Longrightarrow>
      \<exists>s'. add s n a b = Some s' \<and> ok s' \<and>
        content s' = (if n \<in> dom (content s) then content s else (content s)(n \<mapsto> (a, b)))"
begin

lemma add_defined: "ok s \<Longrightarrow> legal n \<Longrightarrow> add s n a b \<noteq> None"
  using add_content by fastforce

lemma add_ok: "ok s \<Longrightarrow> legal n \<Longrightarrow> add s n a b = Some s' \<Longrightarrow> ok s'"
  using add_content [of s n a b] by auto

lemma add_has_new: "ok s \<Longrightarrow> legal n \<Longrightarrow> add s n a b = Some s' \<Longrightarrow> has s' n = Some True"
  using add_content [of s n a b] has_content [of s' n] by auto

lemma add_keeps_others:
  assumes "ok s" "legal n" "legal m" "m \<noteq> n" "add s n a b = Some s'"
  shows "has s' m = has s m"
  using add_content [OF assms(1,2), of a b] has_content assms by auto

lemma add_first_wins:
  assumes "ok s" "legal n" "add s n a b = Some s1" "add s1 n c d = Some s2"
  shows "content s2 = content s1"
proof -
  have "ok s1" "n \<in> dom (content s1)"
    using add_content [OF assms(1,2), of a b] assms(3) by (auto split: if_splits)
  then show ?thesis using add_content [of s1 n c d] assms(2,4) by auto
qed

lemma add_commute:
  assumes "ok s" "legal n" "legal m" "n \<noteq> m"
    and "add s n a b = Some s1" "add s1 m c d = Some s2"
    and "add s m c d = Some t1" "add t1 n a b = Some t2"
  shows "content s2 = content t2"
proof -
  have "ok s1" "ok t1" using add_ok assms by blast+
  then show ?thesis
    using add_content [OF assms(1,2), of a b] add_content [OF assms(1,3), of c d]
      add_content [of s1 m c d] add_content [of t1 n a b] assms
    by (auto simp: fun_eq_iff split: if_splits)
qed

end

interpretation sl: version_store slist_ok wf_ext has_subset riscv_add_subset versions
proof
  fix sl n assume "slist_ok sl" "wf_ext n"
  then show "has_subset sl n = Some (n \<in> dom (versions sl))"
    using riscv_lookup_subset_versions by (fastforce simp: has_subset_def)
next
  fix sl n a b assume "slist_ok sl" "wf_ext n"
  then show "\<exists>sl'. riscv_add_subset sl n a b = Some sl' \<and> slist_ok sl' \<and>
      versions sl' = (if n \<in> dom (versions sl) then versions sl else (versions sl)(n \<mapsto> (a, b)))"
    using riscv_add_subset_versions by blast
qed

section \<open>The order and the list, stated for their clients\<close>

text \<open>
  C8. On well-formed names \<open>riscv_compare_subsets\<close> is defined and is a strict total order in the manner of
  \<open>strcmp\<close>: zero exactly for equal names, opposite signs when the arguments are exchanged, and
  transitive.
\<close>

theorem compare_subsets_total_order:
  assumes "wf_ext s" "wf_ext t" "wf_ext u"
  shows "\<exists>st ts tu su. riscv_compare_subsets s t = Some st \<and> riscv_compare_subsets t s = Some ts \<and>
           riscv_compare_subsets t u = Some tu \<and> riscv_compare_subsets s u = Some su \<and>
           (st = 0 \<longleftrightarrow> s = t) \<and> (st < 0 \<longleftrightarrow> 0 < ts) \<and> (st < 0 \<and> tu < 0 \<longrightarrow> su < 0)"
proof -
  obtain st where st: "riscv_compare_subsets s t = Some st" "st < 0 \<longleftrightarrow> ext_key s < ext_key t" "st = 0 \<longleftrightarrow> s = t"
    using riscv_compare_subsets_order [OF assms(1,2)] unfolding compares_as_def by blast
  obtain ts where ts: "riscv_compare_subsets t s = Some ts" "ts > 0 \<longleftrightarrow> ext_key s < ext_key t"
    using riscv_compare_subsets_order [OF assms(2,1)] unfolding compares_as_def by blast
  obtain tu where tu: "riscv_compare_subsets t u = Some tu" "tu < 0 \<longleftrightarrow> ext_key t < ext_key u"
    using riscv_compare_subsets_order [OF assms(2,3)] unfolding compares_as_def by blast
  obtain su where su: "riscv_compare_subsets s u = Some su" "su < 0 \<longleftrightarrow> ext_key s < ext_key u"
    using riscv_compare_subsets_order [OF assms(1,3)] unfolding compares_as_def by blast
  have "st < 0 \<and> tu < 0 \<longrightarrow> su < 0" using st(2) tu(2) su(2) less_trans by blast
  with st ts tu su show ?thesis by simp
qed

lemma compare_subsets_total_order_witness:
  "\<exists>st ts tu su. riscv_compare_subsets ''m'' ''zba'' = Some st \<and> riscv_compare_subsets ''zba'' ''m'' = Some ts \<and>
     riscv_compare_subsets ''zba'' ''xfoo'' = Some tu \<and> riscv_compare_subsets ''m'' ''xfoo'' = Some su \<and>
     (st = 0 \<longleftrightarrow> ''m'' = ''zba'') \<and> (st < 0 \<longleftrightarrow> 0 < ts) \<and> (st < 0 \<and> tu < 0 \<longrightarrow> su < 0)"
  by (rule compare_subsets_total_order)
    (simp_all add: wf_ext_def riscv_get_prefix_class_def parse_config_def c_char_def name_char_def
      ISUPPER_def std_letter_def riscv_ext_canonical_order_def)

text \<open>
  C5. The linked list of extensions implements a finite map: adding never fails and keeps the
  list strictly ordered with the tail pointer at its last node; a new name gets the given version,
  an old one keeps its own; looking a name up afterwards finds exactly the names of the map.
\<close>

theorem add_subset_refines_map:
  assumes "slist_ok sl" "wf_ext n" "wf_ext m"
  shows "\<exists>sl' cur. riscv_add_subset sl n a b = Some sl' \<and> slist_ok sl' \<and>
           versions sl' = (if n \<in> dom (versions sl) then versions sl else (versions sl)(n \<mapsto> (a, b))) \<and>
           riscv_lookup_subset sl' m = Some (m = n \<or> m \<in> dom (versions sl), cur)"
proof -
  obtain sl' where sl': "riscv_add_subset sl n a b = Some sl'" "slist_ok sl'"
      "versions sl' = (if n \<in> dom (versions sl) then versions sl else (versions sl)(n \<mapsto> (a, b)))"
    using riscv_add_subset_versions [OF assms(1,2)] by blast
  have "m \<in> dom (versions sl') \<longleftrightarrow> m = n \<or> m \<in> dom (versions sl)"
    unfolding sl'(3) by auto
  moreover obtain cur where "riscv_lookup_subset sl' m = Some (m \<in> dom (versions sl'), cur)"
    using riscv_lookup_subset_versions [OF sl'(2) assms(3)] by blast
  ultimately show ?thesis using sl' by (intro exI [of _ sl'] exI [of _ cur]) simp
qed

lemma add_subset_refines_map_witness:
  "\<exists>sl' cur. riscv_add_subset empty_slist ''m'' 2 0 = Some sl' \<and> slist_ok sl' \<and>
     versions sl' = (if ''m'' \<in> dom (versions empty_slist) then versions empty_slist
                     else (versions empty_slist)(''m'' \<mapsto> (2, 0))) \<and>
     riscv_lookup_subset sl' ''zba'' = Some (''zba'' = ''m'' \<or> ''zba'' \<in> dom (versions empty_slist), cur)"
  by (rule add_subset_refines_map)
    (simp_all add: wf_ext_def riscv_get_prefix_class_def parse_config_def c_char_def name_char_def
      ISUPPER_def std_letter_def riscv_ext_canonical_order_def)

text \<open>
  Removing a name keeps the list in order with the right tail and removes exactly that name;
  a copy of a non-empty list is the same list, whatever \<open>malloc\<close> returned for the tail.
\<close>

theorem remove_and_copy_subset:
  assumes "slist_ok sl"
  shows "slist_ok (riscv_remove_subset sl n) \<and>
         versions (riscv_remove_subset sl n) = (versions sl)(n := None) \<and>
         (sl_head sl \<noteq> [] \<longrightarrow> sl_arch_str sl \<noteq> None \<longrightarrow> riscv_copy_subset_list junk sl = Some sl)"
  using riscv_remove_subset_versions [OF assms] riscv_copy_subset_list_same [OF assms] by auto

lemma remove_and_copy_subset_witness:
  "\<exists>sl. riscv_add_subset (empty_slist\<lparr>sl_arch_str := Some ''rv32m''\<rparr>) ''m'' 2 0 = Some sl \<and>
     versions sl ''m'' = Some (2, 0) \<and> versions (riscv_remove_subset sl ''m'') ''m'' = None \<and>
     riscv_copy_subset_list None sl = Some sl"
proof -
  let ?e = "empty_slist\<lparr>sl_arch_str := Some ''rv32m''\<rparr>"
  have e: "slist_ok ?e" "versions ?e = Map.empty" by (simp_all add: slist_ok_def versions_def empty_slist_def)
  obtain sl where sl: "riscv_add_subset ?e ''m'' 2 0 = Some sl" "slist_ok sl" "versions sl = [''m'' \<mapsto> (2, 0)]"
    using sl.add_content [OF e(1), of "''m''" 2 0] e(2)
    by (auto simp: wf_ext_def riscv_get_prefix_class_def parse_config_def c_char_def name_char_def
        ISUPPER_def std_letter_def riscv_ext_canonical_order_def)
  have "sl_head sl \<noteq> []" using fun_cong [OF sl(3), of "''m''"] by (auto simp: versions_def)
  moreover have "sl_arch_str sl \<noteq> None"
    using sl(1) by (auto simp: riscv_add_subset_def insert_node_def bind_eq_Some_conv split: if_splits)
  ultimately show ?thesis
    using remove_and_copy_subset [OF sl(2), of "''m''" None] sl(1,3) by (intro exI [of _ sl]) simp
qed

end
