(* ===== verification/RV_Isa_Tables.thy ===== *)
theory RV_Isa_Tables
  imports RV_Slist RV_Opcode
begin

text \<open>
  The tables of ISA extensions of \<^verbatim>\<open>bfd/elfxx-riscv.c\<close>: the implications between extensions, the
  supported extensions with their default versions, and the functions that only read them.
\<close>

section \<open>Implied extensions\<close>

datatype implicit_check = check_implicit_always | check_implicit_for_i

text \<open>The two check functions, applied to the node of the implying extension.\<close>

fun call_check_func :: "implicit_check \<Rightarrow> string \<Rightarrow> riscv_subset \<Rightarrow> bool" where
  "call_check_func check_implicit_always i s = True"
| "call_check_func check_implicit_for_i i s =
     (ss_major_version s < 2 \<or> (ss_major_version s = 2 \<and> ss_minor_version s < 1))"

definition riscv_implicit_subsets :: "(string \<times> string \<times> implicit_check) list" where
  "riscv_implicit_subsets =
     [(''e'', ''i'', check_implicit_always),
      (''i'', ''zicsr'', check_implicit_for_i),
      (''i'', ''zifencei'', check_implicit_for_i),
      (''g'', ''i'', check_implicit_always),
      (''g'', ''m'', check_implicit_always),
      (''g'', ''a'', check_implicit_always),
      (''g'', ''f'', check_implicit_always),
      (''g'', ''d'', check_implicit_always),
      (''g'', ''zicsr'', check_implicit_always),
      (''g'', ''zifencei'', check_implicit_always),
      (''m'', ''zmmul'', check_implicit_always),
      (''h'', ''zicsr'', check_implicit_always),
      (''q'', ''d'', check_implicit_always),
      (''v'', ''d'', check_implicit_always),
      (''v'', ''zve64d'', check_implicit_always),
      (''v'', ''zvl128b'', check_implicit_always),
      (''zvfh'', ''zvfhmin'', check_implicit_always),
      (''zvfh'', ''zfhmin'', check_implicit_always),
      (''zvfhmin'', ''zve32f'', check_implicit_always),
      (''zve64d'', ''d'', check_implicit_always),
      (''zve64d'', ''zve64f'', check_implicit_always),
      (''zve64f'', ''zve32f'', check_implicit_always),
      (''zve64f'', ''zve64x'', check_implicit_always),
      (''zve64f'', ''zvl64b'', check_implicit_always),
      (''zve32f'', ''f'', check_implicit_always),
      (''zve32f'', ''zvl32b'', check_implicit_always),
      (''zve32f'', ''zve32x'', check_implicit_always),
      (''zve64x'', ''zve32x'', check_implicit_always),
      (''zve64x'', ''zvl64b'', check_implicit_always),
      (''zve32x'', ''zvl32b'', check_implicit_always),
      (''zve32x'', ''zicsr'', check_implicit_always),
      (''zvl65536b'', ''zvl32768b'', check_implicit_always),
      (''zvl32768b'', ''zvl16384b'', check_implicit_always),
      (''zvl16384b'', ''zvl8192b'', check_implicit_always),
      (''zvl8192b'', ''zvl4096b'', check_implicit_always),
      (''zvl4096b'', ''zvl2048b'', check_implicit_always),
      (''zvl2048b'', ''zvl1024b'', check_implicit_always),
      (''zvl1024b'', ''zvl512b'', check_implicit_always),
      (''zvl512b'', ''zvl256b'', check_implicit_always),
      (''zvl256b'', ''zvl128b'', check_implicit_always),
      (''zvl128b'', ''zvl64b'', check_implicit_always),
      (''zvl64b'', ''zvl32b'', check_implicit_always),
      (''zicntr'', ''zicsr'', check_implicit_always),
      (''zihpm'', ''zicsr'', check_implicit_always),
      (''zcd'', ''d'', check_implicit_always),
      (''zcf'', ''f'', check_implicit_always),
      (''zfa'', ''f'', check_implicit_always),
      (''d'', ''f'', check_implicit_always),
      (''zfh'', ''zfhmin'', check_implicit_always),
      (''zfhmin'', ''f'', check_implicit_always),
      (''f'', ''zicsr'', check_implicit_always),
      (''zqinx'', ''zdinx'', check_implicit_always),
      (''zdinx'', ''zfinx'', check_implicit_always),
      (''zhinx'', ''zhinxmin'', check_implicit_always),
      (''zhinxmin'', ''zfinx'', check_implicit_always),
      (''zfinx'', ''zicsr'', check_implicit_always),
      (''zk'', ''zkn'', check_implicit_always),
      (''zk'', ''zkr'', check_implicit_always),
      (''zk'', ''zkt'', check_implicit_always),
      (''zkn'', ''zbkb'', check_implicit_always),
      (''zkn'', ''zbkc'', check_implicit_always),
      (''zkn'', ''zbkx'', check_implicit_always),
      (''zkn'', ''zkne'', check_implicit_always),
      (''zkn'', ''zknd'', check_implicit_always),
      (''zkn'', ''zknh'', check_implicit_always),
      (''zks'', ''zbkb'', check_implicit_always),
      (''zks'', ''zbkc'', check_implicit_always),
      (''zks'', ''zbkx'', check_implicit_always),
      (''zks'', ''zksed'', check_implicit_always),
      (''zks'', ''zksh'', check_implicit_always),
      (''zvbb'', ''zvkb'', check_implicit_always),
      (''zvkn'', ''zvkned'', check_implicit_always),
      (''zvkn'', ''zvknha'', check_implicit_always),
      (''zvkn'', ''zvknhb'', check_implicit_always),
      (''zvkn'', ''zvkb'', check_implicit_always),
      (''zvkn'', ''zvkt'', check_implicit_always),
      (''zvkng'', ''zvkn'', check_implicit_always),
      (''zvkng'', ''zvkg'', check_implicit_always),
      (''zvknc'', ''zvkn'', check_implicit_always),
      (''zvknc'', ''zvbc'', check_implicit_always),
      (''zvks'', ''zvksed'', check_implicit_always),
      (''zvks'', ''zvksh'', check_implicit_always),
      (''zvks'', ''zvkb'', check_implicit_always),
      (''zvks'', ''zvkt'', check_implicit_always),
      (''zvksg'', ''zvks'', check_implicit_always),
      (''zvksg'', ''zvkg'', check_implicit_always),
      (''zvksc'', ''zvks'', check_implicit_always),
      (''zvksc'', ''zvbc'', check_implicit_always),
      (''zcf'', ''zca'', check_implicit_always),
      (''zcd'', ''zca'', check_implicit_always),
      (''zcb'', ''zca'', check_implicit_always),
      (''smaia'', ''ssaia'', check_implicit_always),
      (''smcntrpmf'', ''zicsr'', check_implicit_always),
      (''smstateen'', ''ssstateen'', check_implicit_always),
      (''smepmp'', ''zicsr'', check_implicit_always),
      (''ssaia'', ''zicsr'', check_implicit_always),
      (''sscofpmf'', ''zicsr'', check_implicit_always),
      (''ssstateen'', ''zicsr'', check_implicit_always),
      (''sstc'', ''zicsr'', check_implicit_always),
      (''svadu'', ''zicsr'', check_implicit_always),
      (''xsfvcp'', ''zve32x'', check_implicit_always)]"

section \<open>Supported extensions\<close>

datatype riscv_spec_class =
    ISA_SPEC_CLASS_NONE | ISA_SPEC_CLASS_2P2 | ISA_SPEC_CLASS_20190608 | ISA_SPEC_CLASS_20191213
  | ISA_SPEC_CLASS_DRAFT
  | PRIV_SPEC_CLASS_NONE | PRIV_SPEC_CLASS_1P9P1 | PRIV_SPEC_CLASS_1P10 | PRIV_SPEC_CLASS_1P11
  | PRIV_SPEC_CLASS_1P12 | PRIV_SPEC_CLASS_DRAFT

text \<open>The values of the enumeration.\<close>

fun spec_class_value :: "riscv_spec_class \<Rightarrow> nat" where
  "spec_class_value ISA_SPEC_CLASS_NONE = 0"
| "spec_class_value ISA_SPEC_CLASS_2P2 = 1"
| "spec_class_value ISA_SPEC_CLASS_20190608 = 2"
| "spec_class_value ISA_SPEC_CLASS_20191213 = 3"
| "spec_class_value ISA_SPEC_CLASS_DRAFT = 4"
| "spec_class_value PRIV_SPEC_CLASS_NONE = 5"
| "spec_class_value PRIV_SPEC_CLASS_1P9P1 = 6"
| "spec_class_value PRIV_SPEC_CLASS_1P10 = 7"
| "spec_class_value PRIV_SPEC_CLASS_1P11 = 8"
| "spec_class_value PRIV_SPEC_CLASS_1P12 = 9"
| "spec_class_value PRIV_SPEC_CLASS_DRAFT = 10"

abbreviation (input) RISCV_UNKNOWN_VERSION :: int where "RISCV_UNKNOWN_VERSION \<equiv> - 1"
abbreviation (input) EXT_DEFAULT :: nat where "EXT_DEFAULT \<equiv> 1"

record riscv_supported_ext =
  se_name :: string
  se_isa_spec_class :: riscv_spec_class
  se_major_version :: int
  se_minor_version :: int
  se_default_enable :: nat

abbreviation (input) sext ::
    "string \<Rightarrow> riscv_spec_class \<Rightarrow> int \<Rightarrow> int \<Rightarrow> nat \<Rightarrow> riscv_supported_ext" where
  "sext n c a b d \<equiv> \<lparr>se_name = n, se_isa_spec_class = c, se_major_version = a,
     se_minor_version = b, se_default_enable = d\<rparr>"

definition riscv_supported_std_ext :: "riscv_supported_ext list" where
  "riscv_supported_std_ext =
     [sext ''e'' ISA_SPEC_CLASS_20191213 1 9 0,
      sext ''e'' ISA_SPEC_CLASS_20190608 1 9 0,
      sext ''e'' ISA_SPEC_CLASS_2P2 1 9 0,
      sext ''i'' ISA_SPEC_CLASS_20191213 2 1 0,
      sext ''i'' ISA_SPEC_CLASS_20190608 2 1 0,
      sext ''i'' ISA_SPEC_CLASS_2P2 2 0 0,
      sext ''g'' ISA_SPEC_CLASS_NONE (- 1) (- 1) EXT_DEFAULT,
      sext ''m'' ISA_SPEC_CLASS_20191213 2 0 0,
      sext ''m'' ISA_SPEC_CLASS_20190608 2 0 0,
      sext ''m'' ISA_SPEC_CLASS_2P2 2 0 0,
      sext ''a'' ISA_SPEC_CLASS_20191213 2 1 0,
      sext ''a'' ISA_SPEC_CLASS_20190608 2 0 0,
      sext ''a'' ISA_SPEC_CLASS_2P2 2 0 0,
      sext ''f'' ISA_SPEC_CLASS_20191213 2 2 0,
      sext ''f'' ISA_SPEC_CLASS_20190608 2 2 0,
      sext ''f'' ISA_SPEC_CLASS_2P2 2 0 0,
      sext ''d'' ISA_SPEC_CLASS_20191213 2 2 0,
      sext ''d'' ISA_SPEC_CLASS_20190608 2 2 0,
      sext ''d'' ISA_SPEC_CLASS_2P2 2 0 0,
      sext ''q'' ISA_SPEC_CLASS_20191213 2 2 0,
      sext ''q'' ISA_SPEC_CLASS_20190608 2 2 0,
      sext ''q'' ISA_SPEC_CLASS_2P2 2 0 0,
      sext ''c'' ISA_SPEC_CLASS_20191213 2 0 0,
      sext ''c'' ISA_SPEC_CLASS_20190608 2 0 0,
      sext ''c'' ISA_SPEC_CLASS_2P2 2 0 0,
      sext ''v'' ISA_SPEC_CLASS_DRAFT 1 0 0,
      sext ''h'' ISA_SPEC_CLASS_DRAFT 1 0 0]"

definition riscv_supported_std_z_ext :: "riscv_supported_ext list" where
  "riscv_supported_std_z_ext =
     [sext ''zicbom'' ISA_SPEC_CLASS_DRAFT 1 0 0,
      sext ''zicbop'' ISA_SPEC_CLASS_DRAFT 1 0 0,
      sext ''zicboz'' ISA_SPEC_CLASS_DRAFT 1 0 0,
      sext ''zicond'' ISA_SPEC_CLASS_DRAFT 1 0 0,
      sext ''zicntr'' ISA_SPEC_CLASS_DRAFT 2 0 0,
      sext ''zicsr'' ISA_SPEC_CLASS_20191213 2 0 0,
      sext ''zicsr'' ISA_SPEC_CLASS_20190608 2 0 0,
      sext ''zifencei'' ISA_SPEC_CLASS_20191213 2 0 0,
      sext ''zifencei'' ISA_SPEC_CLASS_20190608 2 0 0,
      sext ''zihintntl'' ISA_SPEC_CLASS_DRAFT 1 0 0,
      sext ''zihintpause'' ISA_SPEC_CLASS_DRAFT 2 0 0,
      sext ''zihpm'' ISA_SPEC_CLASS_DRAFT 2 0 0,
      sext ''zmmul'' ISA_SPEC_CLASS_DRAFT 1 0 0,
      sext ''zawrs'' ISA_SPEC_CLASS_DRAFT 1 0 0,
      sext ''zfa'' ISA_SPEC_CLASS_DRAFT 1 0 0,
      sext ''zfh'' ISA_SPEC_CLASS_DRAFT 1 0 0,
      sext ''zfhmin'' ISA_SPEC_CLASS_DRAFT 1 0 0,
      sext ''zfinx'' ISA_SPEC_CLASS_DRAFT 1 0 0,
      sext ''zdinx'' ISA_SPEC_CLASS_DRAFT 1 0 0,
      sext ''zqinx'' ISA_SPEC_CLASS_DRAFT 1 0 0,
      sext ''zhinx'' ISA_SPEC_CLASS_DRAFT 1 0 0,
      sext ''zhinxmin'' ISA_SPEC_CLASS_DRAFT 1 0 0,
      sext ''zbb'' ISA_SPEC_CLASS_DRAFT 1 0 0,
      sext ''zba'' ISA_SPEC_CLASS_DRAFT 1 0 0,
      sext ''zbc'' ISA_SPEC_CLASS_DRAFT 1 0 0,
      sext ''zbs'' ISA_SPEC_CLASS_DRAFT 1 0 0,
      sext ''zbkb'' ISA_SPEC_CLASS_DRAFT 1 0 0,
      sext ''zbkc'' ISA_SPEC_CLASS_DRAFT 1 0 0,
      sext ''zbkx'' ISA_SPEC_CLASS_DRAFT 1 0 0,
      sext ''zk'' ISA_SPEC_CLASS_DRAFT 1 0 0,
      sext ''zkn'' ISA_SPEC_CLASS_DRAFT 1 0 0,
      sext ''zknd'' ISA_SPEC_CLASS_DRAFT 1 0 0,
      sext ''zkne'' ISA_SPEC_CLASS_DRAFT 1 0 0,
      sext ''zknh'' ISA_SPEC_CLASS_DRAFT 1 0 0,
      sext ''zkr'' ISA_SPEC_CLASS_DRAFT 1 0 0,
      sext ''zks'' ISA_SPEC_CLASS_DRAFT 1 0 0,
      sext ''zksed'' ISA_SPEC_CLASS_DRAFT 1 0 0,
      sext ''zksh'' ISA_SPEC_CLASS_DRAFT 1 0 0,
      sext ''zkt'' ISA_SPEC_CLASS_DRAFT 1 0 0,
      sext ''zve32x'' ISA_SPEC_CLASS_DRAFT 1 0 0,
      sext ''zve32f'' ISA_SPEC_CLASS_DRAFT 1 0 0,
      sext ''zve64x'' ISA_SPEC_CLASS_DRAFT 1 0 0,
      sext ''zve64f'' ISA_SPEC_CLASS_DRAFT 1 0 0,
      sext ''zve64d'' ISA_SPEC_CLASS_DRAFT 1 0 0,
      sext ''zvbb'' ISA_SPEC_CLASS_DRAFT 1 0 0,
      sext ''zvbc'' ISA_SPEC_CLASS_DRAFT 1 0 0,
      sext ''zvfh'' ISA_SPEC_CLASS_DRAFT 1 0 0,
      sext ''zvfhmin'' ISA_SPEC_CLASS_DRAFT 1 0 0,
      sext ''zvkb'' ISA_SPEC_CLASS_DRAFT 1 0 0,
      sext ''zvkg'' ISA_SPEC_CLASS_DRAFT 1 0 0,
      sext ''zvkn'' ISA_SPEC_CLASS_DRAFT 1 0 0,
      sext ''zvkng'' ISA_SPEC_CLASS_DRAFT 1 0 0,
      sext ''zvknc'' ISA_SPEC_CLASS_DRAFT 1 0 0,
      sext ''zvkned'' ISA_SPEC_CLASS_DRAFT 1 0 0,
      sext ''zvknha'' ISA_SPEC_CLASS_DRAFT 1 0 0,
      sext ''zvknhb'' ISA_SPEC_CLASS_DRAFT 1 0 0,
      sext ''zvksed'' ISA_SPEC_CLASS_DRAFT 1 0 0,
      sext ''zvksh'' ISA_SPEC_CLASS_DRAFT 1 0 0,
      sext ''zvks'' ISA_SPEC_CLASS_DRAFT 1 0 0,
      sext ''zvksg'' ISA_SPEC_CLASS_DRAFT 1 0 0,
      sext ''zvksc'' ISA_SPEC_CLASS_DRAFT 1 0 0,
      sext ''zvkt'' ISA_SPEC_CLASS_DRAFT 1 0 0,
      sext ''zvl32b'' ISA_SPEC_CLASS_DRAFT 1 0 0,
      sext ''zvl64b'' ISA_SPEC_CLASS_DRAFT 1 0 0,
      sext ''zvl128b'' ISA_SPEC_CLASS_DRAFT 1 0 0,
      sext ''zvl256b'' ISA_SPEC_CLASS_DRAFT 1 0 0,
      sext ''zvl512b'' ISA_SPEC_CLASS_DRAFT 1 0 0,
      sext ''zvl1024b'' ISA_SPEC_CLASS_DRAFT 1 0 0,
      sext ''zvl2048b'' ISA_SPEC_CLASS_DRAFT 1 0 0,
      sext ''zvl4096b'' ISA_SPEC_CLASS_DRAFT 1 0 0,
      sext ''zvl8192b'' ISA_SPEC_CLASS_DRAFT 1 0 0,
      sext ''zvl16384b'' ISA_SPEC_CLASS_DRAFT 1 0 0,
      sext ''zvl32768b'' ISA_SPEC_CLASS_DRAFT 1 0 0,
      sext ''zvl65536b'' ISA_SPEC_CLASS_DRAFT 1 0 0,
      sext ''ztso'' ISA_SPEC_CLASS_DRAFT 1 0 0,
      sext ''zca'' ISA_SPEC_CLASS_DRAFT 1 0 0,
      sext ''zcb'' ISA_SPEC_CLASS_DRAFT 1 0 0,
      sext ''zcf'' ISA_SPEC_CLASS_DRAFT 1 0 0,
      sext ''zcd'' ISA_SPEC_CLASS_DRAFT 1 0 0]"

definition riscv_supported_std_s_ext :: "riscv_supported_ext list" where
  "riscv_supported_std_s_ext =
     [sext ''smaia'' ISA_SPEC_CLASS_DRAFT 1 0 0,
      sext ''smcntrpmf'' ISA_SPEC_CLASS_DRAFT 1 0 0,
      sext ''smepmp'' ISA_SPEC_CLASS_DRAFT 1 0 0,
      sext ''smstateen'' ISA_SPEC_CLASS_DRAFT 1 0 0,
      sext ''ssaia'' ISA_SPEC_CLASS_DRAFT 1 0 0,
      sext ''sscofpmf'' ISA_SPEC_CLASS_DRAFT 1 0 0,
      sext ''ssstateen'' ISA_SPEC_CLASS_DRAFT 1 0 0,
      sext ''sstc'' ISA_SPEC_CLASS_DRAFT 1 0 0,
      sext ''svadu'' ISA_SPEC_CLASS_DRAFT 1 0 0,
      sext ''svinval'' ISA_SPEC_CLASS_DRAFT 1 0 0,
      sext ''svnapot'' ISA_SPEC_CLASS_DRAFT 1 0 0,
      sext ''svpbmt'' ISA_SPEC_CLASS_DRAFT 1 0 0]"

definition riscv_supported_std_zxm_ext :: "riscv_supported_ext list" where
  "riscv_supported_std_zxm_ext =
     []"

definition riscv_supported_vendor_x_ext :: "riscv_supported_ext list" where
  "riscv_supported_vendor_x_ext =
     [sext ''xcvmac'' ISA_SPEC_CLASS_DRAFT 1 0 0,
      sext ''xcvalu'' ISA_SPEC_CLASS_DRAFT 1 0 0,
      sext ''xtheadba'' ISA_SPEC_CLASS_DRAFT 1 0 0,
      sext ''xtheadbb'' ISA_SPEC_CLASS_DRAFT 1 0 0,
      sext ''xtheadbs'' ISA_SPEC_CLASS_DRAFT 1 0 0,
      sext ''xtheadcmo'' ISA_SPEC_CLASS_DRAFT 1 0 0,
      sext ''xtheadcondmov'' ISA_SPEC_CLASS_DRAFT 1 0 0,
      sext ''xtheadfmemidx'' ISA_SPEC_CLASS_DRAFT 1 0 0,
      sext ''xtheadfmv'' ISA_SPEC_CLASS_DRAFT 1 0 0,
      sext ''xtheadint'' ISA_SPEC_CLASS_DRAFT 1 0 0,
      sext ''xtheadmac'' ISA_SPEC_CLASS_DRAFT 1 0 0,
      sext ''xtheadmemidx'' ISA_SPEC_CLASS_DRAFT 1 0 0,
      sext ''xtheadmempair'' ISA_SPEC_CLASS_DRAFT 1 0 0,
      sext ''xtheadsync'' ISA_SPEC_CLASS_DRAFT 1 0 0,
      sext ''xtheadvector'' ISA_SPEC_CLASS_DRAFT 1 0 0,
      sext ''xtheadzvamo'' ISA_SPEC_CLASS_DRAFT 1 0 0,
      sext ''xventanacondops'' ISA_SPEC_CLASS_DRAFT 1 0 0,
      sext ''xsfvcp'' ISA_SPEC_CLASS_DRAFT 1 0 0]"

definition riscv_all_supported_ext :: "riscv_supported_ext list list" where
  "riscv_all_supported_ext =
     [riscv_supported_std_ext, riscv_supported_std_z_ext, riscv_supported_std_s_ext,
      riscv_supported_std_zxm_ext, riscv_supported_vendor_x_ext]"

fun riscv_known_prefixed_ext :: "string \<Rightarrow> riscv_supported_ext list \<Rightarrow> bool" where
  "riscv_known_prefixed_ext ext [] = False"
| "riscv_known_prefixed_ext ext (e # es) = (ext = se_name e \<or> riscv_known_prefixed_ext ext es)"

definition riscv_recognized_prefixed_ext :: "string \<Rightarrow> bool" where
  "riscv_recognized_prefixed_ext ext =
     (case riscv_get_prefix_class ext of
        RV_ISA_CLASS_Z \<Rightarrow> riscv_known_prefixed_ext ext riscv_supported_std_z_ext
      | RV_ISA_CLASS_ZXM \<Rightarrow> riscv_known_prefixed_ext ext riscv_supported_std_zxm_ext
      | RV_ISA_CLASS_S \<Rightarrow> riscv_known_prefixed_ext ext riscv_supported_std_s_ext
      | RV_ISA_CLASS_X \<Rightarrow> ext \<noteq> ''x''
      | RV_ISA_CLASS_SINGLE \<Rightarrow> False)"

text \<open>The first entry for the name and the specification, if there is one.\<close>

fun default_version_from ::
    "riscv_spec_class \<Rightarrow> string \<Rightarrow> riscv_supported_ext list \<Rightarrow> int \<times> int \<Rightarrow> int \<times> int" where
  "default_version_from spec name [] v = v"
| "default_version_from spec name (e # es) v =
     (if se_name e = name \<and>
         (se_isa_spec_class e = ISA_SPEC_CLASS_DRAFT \<or> se_isa_spec_class e = spec)
      then (se_major_version e, se_minor_version e)
      else default_version_from spec name es v)"

definition ext_table :: "string \<Rightarrow> riscv_supported_ext list" where
  "ext_table name =
     (case riscv_get_prefix_class name of
        RV_ISA_CLASS_ZXM \<Rightarrow> riscv_supported_std_zxm_ext
      | RV_ISA_CLASS_Z \<Rightarrow> riscv_supported_std_z_ext
      | RV_ISA_CLASS_S \<Rightarrow> riscv_supported_std_s_ext
      | RV_ISA_CLASS_X \<Rightarrow> riscv_supported_vendor_x_ext
      | RV_ISA_CLASS_SINGLE \<Rightarrow> riscv_supported_std_ext)"

text \<open>
  The pointer \<open>default_isa_spec\<close> may be null (\<open>None\<close>); the versions are in and out parameters.
\<close>

definition riscv_get_default_ext_version ::
    "riscv_spec_class option \<Rightarrow> string \<Rightarrow> int \<times> int \<Rightarrow> int \<times> int" where
  "riscv_get_default_ext_version default_isa_spec name v =
     (case default_isa_spec of
        None \<Rightarrow> v
      | Some spec \<Rightarrow>
          if spec = ISA_SPEC_CLASS_NONE then v
          else default_version_from spec name (ext_table name) v)"

section \<open>Instruction classes\<close>

text \<open>
  The decision of \<open>riscv_multi_subset_supports\<close> for each class, as a function of
  \<open>riscv_subset_supports (rps, \<sqdot>)\<close>; the default branch reports an internal error and returns false.
\<close>

definition class_supported :: "(string \<Rightarrow> bool) \<Rightarrow> riscv_insn_class \<Rightarrow> bool" where
  "class_supported h c =
     (case c of
        INSN_CLASS_I \<Rightarrow> h ''i''
      | INSN_CLASS_ZICBOM \<Rightarrow> h ''zicbom''
      | INSN_CLASS_ZICBOP \<Rightarrow> h ''zicbop''
      | INSN_CLASS_ZICBOZ \<Rightarrow> h ''zicboz''
      | INSN_CLASS_ZICOND \<Rightarrow> h ''zicond''
      | INSN_CLASS_ZICSR \<Rightarrow> h ''zicsr''
      | INSN_CLASS_ZIFENCEI \<Rightarrow> h ''zifencei''
      | INSN_CLASS_ZIHINTNTL \<Rightarrow> h ''zihintntl''
      | INSN_CLASS_ZIHINTNTL_AND_C \<Rightarrow> h ''zihintntl'' \<and> (h ''c'' \<or> h ''zca'')
      | INSN_CLASS_ZIHINTPAUSE \<Rightarrow> h ''zihintpause''
      | INSN_CLASS_M \<Rightarrow> h ''m''
      | INSN_CLASS_ZMMUL \<Rightarrow> h ''zmmul''
      | INSN_CLASS_A \<Rightarrow> h ''a''
      | INSN_CLASS_ZAWRS \<Rightarrow> h ''zawrs''
      | INSN_CLASS_F \<Rightarrow> h ''f''
      | INSN_CLASS_D \<Rightarrow> h ''d''
      | INSN_CLASS_Q \<Rightarrow> h ''q''
      | INSN_CLASS_C \<Rightarrow> h ''c'' \<or> h ''zca''
      | INSN_CLASS_F_AND_C \<Rightarrow> h ''f'' \<and> (h ''c'' \<or> h ''zcf'')
      | INSN_CLASS_D_AND_C \<Rightarrow> h ''d'' \<and> (h ''c'' \<or> h ''zcd'')
      | INSN_CLASS_F_INX \<Rightarrow> h ''f'' \<or> h ''zfinx''
      | INSN_CLASS_D_INX \<Rightarrow> h ''d'' \<or> h ''zdinx''
      | INSN_CLASS_Q_INX \<Rightarrow> h ''q'' \<or> h ''zqinx''
      | INSN_CLASS_ZFH_INX \<Rightarrow> h ''zfh'' \<or> h ''zhinx''
      | INSN_CLASS_ZFHMIN \<Rightarrow> h ''zfhmin''
      | INSN_CLASS_ZFHMIN_INX \<Rightarrow> h ''zfhmin'' \<or> h ''zhinxmin''
      | INSN_CLASS_ZFHMIN_AND_D_INX \<Rightarrow> (h ''zfhmin'' \<and> h ''d'') \<or> (h ''zhinxmin'' \<and> h ''zdinx'')
      | INSN_CLASS_ZFHMIN_AND_Q_INX \<Rightarrow> (h ''zfhmin'' \<and> h ''q'') \<or> (h ''zhinxmin'' \<and> h ''zqinx'')
      | INSN_CLASS_ZFA \<Rightarrow> h ''zfa''
      | INSN_CLASS_D_AND_ZFA \<Rightarrow> h ''d'' \<and> h ''zfa''
      | INSN_CLASS_Q_AND_ZFA \<Rightarrow> h ''q'' \<and> h ''zfa''
      | INSN_CLASS_ZFH_AND_ZFA \<Rightarrow> h ''zfh'' \<and> h ''zfa''
      | INSN_CLASS_ZFH_OR_ZVFH_AND_ZFA \<Rightarrow> (h ''zfh'' \<or> h ''zvfh'') \<and> h ''zfa''
      | INSN_CLASS_ZBA \<Rightarrow> h ''zba''
      | INSN_CLASS_ZBB \<Rightarrow> h ''zbb''
      | INSN_CLASS_ZBC \<Rightarrow> h ''zbc''
      | INSN_CLASS_ZBS \<Rightarrow> h ''zbs''
      | INSN_CLASS_ZBKB \<Rightarrow> h ''zbkb''
      | INSN_CLASS_ZBKC \<Rightarrow> h ''zbkc''
      | INSN_CLASS_ZBKX \<Rightarrow> h ''zbkx''
      | INSN_CLASS_ZBB_OR_ZBKB \<Rightarrow> h ''zbb'' \<or> h ''zbkb''
      | INSN_CLASS_ZBC_OR_ZBKC \<Rightarrow> h ''zbc'' \<or> h ''zbkc''
      | INSN_CLASS_ZKND \<Rightarrow> h ''zknd''
      | INSN_CLASS_ZKNE \<Rightarrow> h ''zkne''
      | INSN_CLASS_ZKNH \<Rightarrow> h ''zknh''
      | INSN_CLASS_ZKND_OR_ZKNE \<Rightarrow> h ''zknd'' \<or> h ''zkne''
      | INSN_CLASS_ZKSED \<Rightarrow> h ''zksed''
      | INSN_CLASS_ZKSH \<Rightarrow> h ''zksh''
      | INSN_CLASS_V \<Rightarrow> h ''v'' \<or> h ''zve64x'' \<or> h ''zve32x''
      | INSN_CLASS_ZVEF \<Rightarrow> h ''v'' \<or> h ''zve64d'' \<or> h ''zve64f'' \<or> h ''zve32f''
      | INSN_CLASS_ZVBB \<Rightarrow> h ''zvbb''
      | INSN_CLASS_ZVBC \<Rightarrow> h ''zvbc''
      | INSN_CLASS_ZVKB \<Rightarrow> h ''zvkb''
      | INSN_CLASS_ZVKG \<Rightarrow> h ''zvkg''
      | INSN_CLASS_ZVKNED \<Rightarrow> h ''zvkned''
      | INSN_CLASS_ZVKNHA_OR_ZVKNHB \<Rightarrow> h ''zvknha'' \<or> h ''zvknhb''
      | INSN_CLASS_ZVKSED \<Rightarrow> h ''zvksed''
      | INSN_CLASS_ZVKSH \<Rightarrow> h ''zvksh''
      | INSN_CLASS_ZCB \<Rightarrow> h ''zcb''
      | INSN_CLASS_ZCB_AND_ZBB \<Rightarrow> h ''zcb'' \<and> h ''zbb''
      | INSN_CLASS_ZCB_AND_ZBA \<Rightarrow> h ''zcb'' \<and> h ''zba''
      | INSN_CLASS_ZCB_AND_ZMMUL \<Rightarrow> h ''zcb'' \<and> h ''zmmul''
      | INSN_CLASS_SVINVAL \<Rightarrow> h ''svinval''
      | INSN_CLASS_H \<Rightarrow> h ''h''
      | INSN_CLASS_XCVMAC \<Rightarrow> h ''xcvmac''
      | INSN_CLASS_XCVALU \<Rightarrow> h ''xcvalu''
      | INSN_CLASS_XTHEADBA \<Rightarrow> h ''xtheadba''
      | INSN_CLASS_XTHEADBB \<Rightarrow> h ''xtheadbb''
      | INSN_CLASS_XTHEADBS \<Rightarrow> h ''xtheadbs''
      | INSN_CLASS_XTHEADCMO \<Rightarrow> h ''xtheadcmo''
      | INSN_CLASS_XTHEADCONDMOV \<Rightarrow> h ''xtheadcondmov''
      | INSN_CLASS_XTHEADFMEMIDX \<Rightarrow> h ''xtheadfmemidx''
      | INSN_CLASS_XTHEADFMV \<Rightarrow> h ''xtheadfmv''
      | INSN_CLASS_XTHEADINT \<Rightarrow> h ''xtheadint''
      | INSN_CLASS_XTHEADMAC \<Rightarrow> h ''xtheadmac''
      | INSN_CLASS_XTHEADMEMIDX \<Rightarrow> h ''xtheadmemidx''
      | INSN_CLASS_XTHEADMEMPAIR \<Rightarrow> h ''xtheadmempair''
      | INSN_CLASS_XTHEADSYNC \<Rightarrow> h ''xtheadsync''
      | INSN_CLASS_XTHEADVECTOR \<Rightarrow> h ''xtheadvector''
      | INSN_CLASS_XTHEADZVAMO \<Rightarrow> h ''xtheadzvamo''
      | INSN_CLASS_XVENTANACONDOPS \<Rightarrow> h ''xventanacondops''
      | INSN_CLASS_XSFVCP \<Rightarrow> h ''xsfvcp''
      | _ \<Rightarrow> False)"

end
