(* ===== verification/RV_Isa.thy ===== *)
theory RV_Isa
  imports RV_Isa_Tables
begin

text \<open>
  Parsing ISA strings, from \<^verbatim>\<open>bfd/elfxx-riscv.c\<close>: \<open>riscv_parse_subset\<close> (the \<^verbatim>\<open>-march\<close> option and the
  arch attribute) and \<open>riscv_update_subset\<close> (\<^verbatim>\<open>.option arch\<close>) with everything they call.

  The state is \<open>riscv_parse_subset_t\<close> with what its pointers refer to; calls of \<open>error_handler\<close>
  append to \<open>rps_errors\<close>.  A result \<open>None\<close> stands for undefined behaviour: a read outside
  \<open>riscv_ext_order\<close>, a read before the start of a string, or an overflow of the \<open>int\<close> version.
\<close>

section \<open>The parser's state\<close>

datatype rps_error =
    Err_x_needs_version string | Err_no_default_version string
  | Err_first_ext | Err_unknown_standard char | Err_ends_with_number_p string
  | Err_unknown_prefixed string | Err_must_separate
  | Err_e_with_h | Err_q_on_rv32 | Err_zcf_on_rv64 | Err_zfinx_with_f | Err_xtheadvector_with_v
  | Err_zvl_without_zve | Err_uppercase | Err_must_begin_with_rv
  | Err_option_arch_number_p | Err_option_arch_unknown string | Err_option_arch_base string
  | Err_unreachable_insn_class

record riscv_parse_subset_t =
  rps_subset_list :: riscv_subset_list
  rps_errors :: "rps_error list"
  rps_xlen :: nat
  rps_isa_spec :: "riscv_spec_class option"
  rps_check_unknown_prefixed_ext :: bool

definition error_handler :: "rps_error \<Rightarrow> riscv_parse_subset_t \<Rightarrow> riscv_parse_subset_t" where
  "error_handler e rps = rps\<lparr>rps_errors := rps_errors rps @ [e]\<rparr>"

definition riscv_subset_supports :: "riscv_parse_subset_t \<Rightarrow> string \<Rightarrow> bool option" where
  "riscv_subset_supports rps feature =
     map_option fst (riscv_lookup_subset (rps_subset_list rps) feature)"

section \<open>Adding an extension\<close>

definition riscv_parse_add_subset ::
    "riscv_parse_subset_t \<Rightarrow> string \<Rightarrow> int \<Rightarrow> int \<Rightarrow> bool \<Rightarrow> riscv_parse_subset_t option" where
  "riscv_parse_add_subset rps ext major minor implicit =
     (let (major_version, minor_version) =
            (if major = RISCV_UNKNOWN_VERSION \<or> minor = RISCV_UNKNOWN_VERSION
             then riscv_get_default_ext_version (rps_isa_spec rps) ext (major, minor)
             else (major, minor))
      in if \<not> implicit \<and>
            (major_version = RISCV_UNKNOWN_VERSION \<or> minor_version = RISCV_UNKNOWN_VERSION)
         then if c_char ext 0 = CHR ''x'' then Some (error_handler (Err_x_needs_version ext) rps)
              else if ext \<noteq> ''zicsr'' \<and> ext \<noteq> ''zifencei''
              then Some (error_handler (Err_no_default_version ext) rps)
              else Some rps
         else map_option (\<lambda>sl. rps\<lparr>rps_subset_list := sl\<rparr>)
                (riscv_add_subset (rps_subset_list rps) ext major_version minor_version))"

section \<open>Versions\<close>

text \<open>
  The loop of \<open>riscv_parsing_subset_version\<close>: the rest of the string, the last number, whether it
  is the major version, and the major version so far.
\<close>

fun version_loop :: "string \<Rightarrow> int \<Rightarrow> bool \<Rightarrow> int \<Rightarrow> (string \<times> int \<times> bool \<times> int) option" where
  "version_loop [] version major_p major = Some ([], version, major_p, major)"
| "version_loop (c # cs) version major_p major =
     (if c = CHR ''p''
      then if \<not> ISDIGIT (c_char cs 0) then Some (c # cs, version, major_p, major)
           else version_loop cs 0 False version
      else if ISDIGIT c
      then if version * 10 + (of_char c - 48) \<le> 2147483647
           then version_loop cs (version * 10 + (of_char c - 48)) major_p major else None
      else Some (c # cs, version, major_p, major))"

definition riscv_parsing_subset_version :: "string \<Rightarrow> (string \<times> int \<times> int) option" where
  "riscv_parsing_subset_version p = do {
     (rest, version, major_p, major) \<leftarrow> version_loop p 0 True 0;
     let (a, b) = (if major_p then (version, 0) else (major, version));
     if a = 0 \<and> b = 0 then Some (rest, RISCV_UNKNOWN_VERSION, RISCV_UNKNOWN_VERSION)
     else Some (rest, a, b)
   }"

text \<open>
  Looking for the version at the end of a prefixed name: \<open>q\<close> goes down from the end of the name
  over \<open><major>p<minor>\<close>; the result is the position behind the last letter of the name.
\<close>

fun back_scan :: "string \<Rightarrow> nat \<Rightarrow> bool \<Rightarrow> bool \<Rightarrow> nat option" where
  "back_scan s 0 find_any find_minor = None"
| "back_scan s (Suc q) find_any find_minor =
     (if ISDIGIT (c_char s q) then back_scan s q True find_minor
      else if find_any \<and> \<not> find_minor \<and> c_char s q = CHR ''p''
      then if q = 0 then None
           else if ISDIGIT (c_char s (q - 1)) then back_scan s q find_any True
           else Some (Suc q)
      else Some (Suc q))"

lemma version_loop_suffix:
  "version_loop p v m a = Some (rest, w) \<Longrightarrow> \<exists>t. p = t @ rest"
  by (induction p v m a rule: version_loop.induct) (auto split: if_splits)

lemma version_rest_shorter:
  "riscv_parsing_subset_version p = Some (rest, a, b) \<Longrightarrow> length rest \<le> length p"
  by (auto simp: riscv_parsing_subset_version_def Let_def split: bind_splits if_splits
      dest!: version_loop_suffix)

lemma back_scan_pos: "back_scan s n fa fm = Some q \<Longrightarrow> 0 < q \<and> q \<le> n"
  by (induction n arbitrary: fa fm) (auto split: if_splits simp: le_Suc_eq)

section \<open>The extensions of an ISA string\<close>

text \<open>
  One round of the loop of \<open>riscv_parse_extensions\<close> at an extension: the position where its
  version starts.  \<open>Inl\<close> is the early return with the error reported.
\<close>

definition start_of_version :: "string \<Rightarrow> (rps_error + nat) option" where
  "start_of_version p =
     (if riscv_get_prefix_class p = RV_ISA_CLASS_SINGLE
      then do {
        order \<leftarrow> read_ext_order (c_char p 0);
        if order = 0 then Some (Inl (Err_unknown_standard (c_char p 0))) else Some (Inr 1)
      }
      else do {
        q \<leftarrow> back_scan p (length (takeWhile (\<lambda>c. c \<noteq> CHR ''_'') p)) False False;
        if c_char p (q - 1) = CHR ''p'' \<and> ISDIGIT (c_char p (q - 2))
        then Some (Inl (Err_ends_with_number_p (take q p)))
        else Some (Inr q)
      })"

lemma start_of_version_pos: "start_of_version p = Some (Inr q) \<Longrightarrow> 0 < q"
  by (auto simp: start_of_version_def split: if_splits bind_splits dest: back_scan_pos)

text \<open>The loop; the flag of the result says whether the C function returns a non-null pointer.\<close>

function parse_extensions_loop ::
    "riscv_parse_subset_t \<Rightarrow> string \<Rightarrow> (riscv_parse_subset_t \<times> bool) option" where
  "parse_extensions_loop rps [] = Some (rps, True)"
| "parse_extensions_loop rps (c # cs) =
     (if c = CHR ''_'' then parse_extensions_loop rps cs
      else case start_of_version (c # cs) of
             None \<Rightarrow> None
           | Some (Inl e) \<Rightarrow> Some (error_handler e rps, False)
           | Some (Inr q) \<Rightarrow>
               (case riscv_parsing_subset_version (drop q (c # cs)) of
                  None \<Rightarrow> None
                | Some (rest, major, minor) \<Rightarrow>
                    (let ext = take q (c # cs);
                         single = (riscv_get_prefix_class (c # cs) = RV_ISA_CLASS_SINGLE);
                         g = (single \<and> ext = ''g'')
                     in if \<not> single \<and> rps_check_unknown_prefixed_ext rps \<and>
                           \<not> riscv_recognized_prefixed_ext ext
                        then Some (error_handler (Err_unknown_prefixed ext) rps, False)
                        else case riscv_parse_add_subset rps ext
                                    (if g then RISCV_UNKNOWN_VERSION else major)
                                    (if g then RISCV_UNKNOWN_VERSION else minor) g of
                               None \<Rightarrow> None
                             | Some rps' \<Rightarrow>
                                 if \<not> single \<and> rest \<noteq> [] \<and> hd rest \<noteq> CHR ''_''
                                 then Some (error_handler Err_must_separate rps', False)
                                 else parse_extensions_loop rps' rest)))"
  by pat_completeness auto
termination
  by (relation "measure (\<lambda>(_, p). length p)")
    (auto dest!: version_rest_shorter start_of_version_pos)

definition riscv_parse_extensions ::
    "riscv_parse_subset_t \<Rightarrow> string \<Rightarrow> (riscv_parse_subset_t \<times> bool) option" where
  "riscv_parse_extensions rps p =
     (if c_char p 0 \<notin> {CHR ''e'', CHR ''i'', CHR ''g''}
      then Some (error_handler Err_first_ext rps, False)
      else parse_extensions_loop rps p)"

section \<open>Implied extensions\<close>

text \<open>
  One pass of the \<open>for\<close> loop of \<open>riscv_parse_add_implicit_subsets\<close> over the table: the first row that
  applies, with the state after adding its extension; \<open>Some None\<close> when no row applies.
\<close>

fun implicit_pass ::
    "riscv_parse_subset_t \<Rightarrow> (string \<times> string \<times> implicit_check) list
     \<Rightarrow> riscv_parse_subset_t option option" where
  "implicit_pass rps [] = Some None"
| "implicit_pass rps ((subset_name, implicit_name, check) # ts) = do {
     (found, current) \<leftarrow> riscv_lookup_subset (rps_subset_list rps) subset_name;
     if \<not> found then implicit_pass rps ts
     else do {
       (present, _) \<leftarrow> riscv_lookup_subset (rps_subset_list rps) implicit_name;
       if present then implicit_pass rps ts
       else if call_check_func check implicit_name (sl_head (rps_subset_list rps) ! the current)
       then do {
         rps' \<leftarrow> riscv_parse_add_subset rps implicit_name RISCV_UNKNOWN_VERSION
                    RISCV_UNKNOWN_VERSION True;
         Some (Some rps')
       }
       else implicit_pass rps ts
     }
   }"

text \<open>
  The outer loop restarts the table after every addition; \<open>None\<close> also stands for a loop that never
  ends.
\<close>

partial_function (option) riscv_parse_add_implicit_subsets ::
    "riscv_parse_subset_t \<Rightarrow> riscv_parse_subset_t option" where
  "riscv_parse_add_implicit_subsets rps = do {
     r \<leftarrow> implicit_pass rps riscv_implicit_subsets;
     (case r of None \<Rightarrow> Some rps | Some rps' \<Rightarrow> riscv_parse_add_implicit_subsets rps')
   }"

section \<open>Conflicts\<close>

text \<open>A test of \<open>riscv_parse_check_conflicts\<close>: the error it reports when its condition holds.\<close>

definition conflict_if ::
    "bool \<Rightarrow> rps_error \<Rightarrow> riscv_parse_subset_t \<times> bool \<Rightarrow> riscv_parse_subset_t \<times> bool" where
  "conflict_if c e s = (if c then (error_handler e (fst s), False) else s)"

definition both_supported :: "riscv_parse_subset_t \<Rightarrow> string \<Rightarrow> string \<Rightarrow> bool option" where
  "both_supported rps a b = do {
     x \<leftarrow> riscv_subset_supports rps a;
     if x then riscv_subset_supports rps b else Some False
   }"

definition old_q :: "riscv_parse_subset_t \<Rightarrow> bool option" where
  "old_q rps = do {
     (found, current) \<leftarrow> riscv_lookup_subset (rps_subset_list rps) ''q'';
     if \<not> found then Some False
     else (let s = sl_head (rps_subset_list rps) ! the current
           in Some (ss_major_version s < 2 \<or> (ss_major_version s = 2 \<and> ss_minor_version s < 2)))
   }"

definition riscv_parse_check_conflicts ::
    "riscv_parse_subset_t \<Rightarrow> (riscv_parse_subset_t \<times> bool) option" where
  "riscv_parse_check_conflicts rps = do {
     e_h \<leftarrow> both_supported rps ''e'' ''h'';
     q \<leftarrow> old_q rps;
     zcf \<leftarrow> riscv_subset_supports rps ''zcf'';
     zfinx_f \<leftarrow> both_supported rps ''zfinx'' ''f'';
     thv_v \<leftarrow> both_supported rps ''xtheadvector'' ''v'';
     let names = map ss_name (sl_head (rps_subset_list rps));
     let support_zve = list_ex (\<lambda>n. startswith n ''zve'') names;
     let support_zvl = list_ex (\<lambda>n. startswith n ''zvl'') names;
     Some (conflict_if (support_zvl \<and> \<not> support_zve) Err_zvl_without_zve
            (conflict_if thv_v Err_xtheadvector_with_v
              (conflict_if zfinx_f Err_zfinx_with_f
                (conflict_if (zcf \<and> rps_xlen rps > 32) Err_zcf_on_rv64
                  (conflict_if (q \<and> rps_xlen rps < 64) Err_q_on_rv32
                    (conflict_if e_h Err_e_with_h (rps, True)))))))
   }"

section \<open>Parsing an ISA string\<close>

fun default_arch_table ::
    "riscv_supported_ext list \<Rightarrow> riscv_parse_subset_t \<Rightarrow> riscv_parse_subset_t option" where
  "default_arch_table [] rps = Some rps"
| "default_arch_table (e # es) rps =
     (if odd (se_default_enable e)
      then do {
        rps' \<leftarrow> riscv_parse_add_subset rps (se_name e) RISCV_UNKNOWN_VERSION
                   RISCV_UNKNOWN_VERSION (se_name e = ''g'');
        default_arch_table es rps'
      }
      else default_arch_table es rps)"

definition riscv_set_default_arch :: "riscv_parse_subset_t \<Rightarrow> riscv_parse_subset_t option" where
  "riscv_set_default_arch rps = default_arch_table (concat riscv_all_supported_ext) rps"

definition riscv_parse_subset ::
    "riscv_parse_subset_t \<Rightarrow> string option \<Rightarrow> (riscv_parse_subset_t \<times> bool) option" where
  "riscv_parse_subset rps arch =
     (case arch of
        None \<Rightarrow> do {
          rps1 \<leftarrow> riscv_set_default_arch rps;
          rps2 \<leftarrow> riscv_parse_add_implicit_subsets rps1;
          riscv_parse_check_conflicts rps2
        }
      | Some a \<Rightarrow>
          if list_ex ISUPPER a then Some (error_handler Err_uppercase rps, False)
          else if \<not> startswith a ''rv32'' \<and> \<not> startswith a ''rv64''
          then Some (if a \<noteq> [] then error_handler Err_must_begin_with_rv rps else rps, False)
          else do {
            let rps0 = rps\<lparr>rps_xlen := (if startswith a ''rv32'' then 32 else 64)\<rparr>;
            (rps1, ok) \<leftarrow> riscv_parse_extensions rps0 (drop 4 a);
            if \<not> ok then Some (rps1, False)
            else do {
              rps2 \<leftarrow> riscv_parse_add_implicit_subsets rps1;
              riscv_parse_check_conflicts rps2
            }
          })"

section \<open>Updating the list\<close>

text \<open>
  The backward search of \<open>riscv_update_subset\<close>, which stops at the start of the name at the latest;
  the result is where \<open>q\<close> points when the loop is left.
\<close>

fun back_scan_update :: "string \<Rightarrow> nat \<Rightarrow> bool \<Rightarrow> bool \<Rightarrow> nat option" where
  "back_scan_update s 0 find_any find_minor = Some 0"
| "back_scan_update s (Suc q) find_any find_minor =
     (if ISDIGIT (c_char s q) then back_scan_update s q True find_minor
      else if find_any \<and> \<not> find_minor \<and> c_char s q = CHR ''p''
      then if q = 0 then None
           else if ISDIGIT (c_char s (q - 1)) then back_scan_update s q find_any True
           else Some q
      else Some q)"

definition update_start_of_version :: "string \<Rightarrow> (rps_error + nat) option" where
  "update_start_of_version p = do {
     let len = length (takeWhile (\<lambda>c. c \<noteq> CHR '','') p);
     q0 \<leftarrow> back_scan_update p len False False;
     let q = (if len > 0 then Suc q0 else q0);
     if len > 1 \<and> c_char p (q - 1) = CHR ''p''
     then if q < 2 then None
          else if ISDIGIT (c_char p (q - 2)) then Some (Inl Err_option_arch_number_p)
          else Some (Inr q)
     else Some (Inr q)
   }"

text \<open>Whether the name is refused as unknown.\<close>

definition update_unknown :: "riscv_parse_subset_t \<Rightarrow> string \<Rightarrow> bool option" where
  "update_unknown rps ext =
     (if ext = [] then Some True
      else if length ext = 1 then map_option (\<lambda>k. k = 0) (read_ext_order (c_char ext 0))
      else Some (rps_check_unknown_prefixed_ext rps \<and> \<not> riscv_recognized_prefixed_ext ext))"

definition update_one ::
    "riscv_parse_subset_t \<Rightarrow> bool \<Rightarrow> string \<Rightarrow> int \<Rightarrow> int \<Rightarrow> riscv_parse_subset_t option" where
  "update_one rps removed ext major minor =
     (if removed
      then Some (rps\<lparr>rps_subset_list := riscv_remove_subset (rps_subset_list rps) ext\<rparr>)
      else riscv_parse_add_subset rps ext major minor True)"

function update_loop ::
    "riscv_parse_subset_t \<Rightarrow> string \<Rightarrow> (riscv_parse_subset_t \<times> bool) option" where
  "update_loop rps p =
     (if c_char p 0 \<noteq> CHR ''+'' \<and> c_char p 0 \<noteq> CHR ''-''
      then riscv_parse_subset
             (rps\<lparr>rps_subset_list := riscv_release_subset_list (rps_subset_list rps)\<rparr>) (Some p)
      else case update_start_of_version (tl p) of
             None \<Rightarrow> None
           | Some (Inl e) \<Rightarrow> Some (error_handler e rps, False)
           | Some (Inr q) \<Rightarrow>
               (case riscv_parsing_subset_version (drop q (tl p)) of
                  None \<Rightarrow> None
                | Some (rest, major, minor) \<Rightarrow>
                    (case update_unknown rps (take q (tl p)) of
                       None \<Rightarrow> None
                     | Some unknown \<Rightarrow>
                         if unknown
                         then Some (error_handler (Err_option_arch_unknown (take q (tl p))) rps, False)
                         else if take q (tl p) \<in> {''i'', ''e'', ''g''}
                         then Some (error_handler (Err_option_arch_base (take q (tl p))) rps, False)
                         else case update_one rps (c_char p 0 = CHR ''-'') (take q (tl p)) major minor of
                                None \<Rightarrow> None
                              | Some rps' \<Rightarrow>
                                  if c_char rest 0 = CHR '','' then update_loop rps' (tl rest)
                                  else do {
                                    rps2 \<leftarrow> riscv_parse_add_implicit_subsets rps';
                                    riscv_parse_check_conflicts rps2
                                  })))"
  by pat_completeness auto
termination
proof (relation "measure (\<lambda>(_, p). length p)", goal_cases)
  case (2 rps p sv q0 v rest w major minor u rps')
  then have "length rest \<le> length (drop q0 (tl p))" using version_rest_shorter by blast
  moreover have "p \<noteq> []" using 2(1) by (auto simp: c_char_def)
  moreover have "rest \<noteq> []" using 2 by (auto simp: c_char_def)
  ultimately show ?case by (cases p; cases rest) auto
qed auto

definition riscv_update_subset ::
    "riscv_parse_subset_t \<Rightarrow> string \<Rightarrow> (riscv_parse_subset_t \<times> bool) option" where
  "riscv_update_subset rps str = update_loop rps str"

section \<open>Instruction classes\<close>

text \<open>
  The feature tests of \<open>riscv_multi_subset_supports\<close> all use names of the tables, for which the
  lookup is defined; \<open>has_feature\<close> is such a test.
\<close>

definition has_feature :: "riscv_parse_subset_t \<Rightarrow> string \<Rightarrow> bool" where
  "has_feature rps f \<longleftrightarrow> riscv_subset_supports rps f = Some True"

definition riscv_multi_subset_supports ::
    "riscv_parse_subset_t \<Rightarrow> riscv_insn_class \<Rightarrow> riscv_parse_subset_t \<times> bool" where
  "riscv_multi_subset_supports rps c =
     (if c = INSN_CLASS_NONE then (error_handler Err_unreachable_insn_class rps, False)
      else (rps, class_supported (has_feature rps) c))"

end
