(* ===== verification/RV_Implicit.thy ===== *)
theory RV_Implicit
  imports RV_Isa
begin

text \<open>
  The implied extensions.  \<open>implied rps\<close> is the set of names that follow from the list by the
  implication table; \<open>riscv_parse_add_implicit_subsets\<close> ends and leaves exactly these names in the
  list, the new ones with their default versions.
\<close>

section \<open>Specification\<close>

definition rps_ok :: "riscv_parse_subset_t \<Rightarrow> bool" where
  "rps_ok rps \<longleftrightarrow> slist_ok (rps_subset_list rps)"

abbreviation rps_versions :: "riscv_parse_subset_t \<Rightarrow> string \<rightharpoonup> int \<times> int" where
  "rps_versions rps \<equiv> versions (rps_subset_list rps)"

text \<open>The version an extension has in the end: its own, or the default one.\<close>

definition final_version :: "riscv_parse_subset_t \<Rightarrow> string \<Rightarrow> int \<times> int" where
  "final_version rps n =
     (case rps_versions rps n of
        Some v \<Rightarrow> v
      | None \<Rightarrow> riscv_get_default_ext_version (rps_isa_spec rps) n
                  (RISCV_UNKNOWN_VERSION, RISCV_UNKNOWN_VERSION))"

definition check_on :: "implicit_check \<Rightarrow> string \<Rightarrow> string \<Rightarrow> int \<times> int \<Rightarrow> bool" where
  "check_on c a b v =
     call_check_func c b \<lparr>ss_name = a, ss_major_version = fst v, ss_minor_version = snd v\<rparr>"

inductive implied :: "riscv_parse_subset_t \<Rightarrow> string \<Rightarrow> bool" for rps where
  implied_listed: "n \<in> dom (rps_versions rps) \<Longrightarrow> implied rps n"
| implied_by: "implied rps a \<Longrightarrow> (a, b, c) \<in> set riscv_implicit_subsets \<Longrightarrow>
     check_on c a b (final_version rps a) \<Longrightarrow> implied rps b"

section \<open>The tables hold well-formed names\<close>

lemmas wf_ext_eval =
  wf_ext_def riscv_get_prefix_class_def parse_config_def c_char_def name_char_def ISUPPER_def
  std_letter_def riscv_ext_canonical_order_def

lemma implicit_table_wf:
  "list_all (\<lambda>(a, b, c). wf_ext a \<and> wf_ext b) riscv_implicit_subsets"
  by (simp add: riscv_implicit_subsets_def wf_ext_eval)

section \<open>Adding one extension\<close>

lemma riscv_parse_add_subset_spec:
  assumes "rps_ok rps" "wf_ext n"
  shows "\<exists>rps'. riscv_parse_add_subset rps n a b imp = Some rps' \<and> rps_ok rps' \<and>
           rps_xlen rps' = rps_xlen rps \<and> rps_isa_spec rps' = rps_isa_spec rps \<and>
           rps_check_unknown_prefixed_ext rps' = rps_check_unknown_prefixed_ext rps \<and>
           (rps_versions rps' = rps_versions rps \<or> n \<notin> dom (rps_versions rps)) \<and>
           (\<forall>m. m \<noteq> n \<longrightarrow> rps_versions rps' m = rps_versions rps m)"
proof -
  obtain a' b' where v:
      "(if a = -1 \<or> b = -1 then riscv_get_default_ext_version (rps_isa_spec rps) n (a, b) else (a, b)) =
         (a', b')"
    by fastforce
  obtain sl' where "riscv_add_subset (rps_subset_list rps) n a' b' = Some sl'" "slist_ok sl'"
      "versions sl' = (if n \<in> dom (rps_versions rps) then rps_versions rps
                       else (rps_versions rps)(n \<mapsto> (a', b')))"
    using sl.add_content [of "rps_subset_list rps" n a' b'] assms by (auto simp: rps_ok_def)
  with v assms show ?thesis
    by (simp add: riscv_parse_add_subset_def rps_ok_def error_handler_def)
qed

lemma add_implicit:
  assumes "rps_ok rps" "wf_ext n" "n \<notin> dom (rps_versions rps)"
  shows "\<exists>rps'. riscv_parse_add_subset rps n RISCV_UNKNOWN_VERSION RISCV_UNKNOWN_VERSION True =
             Some rps' \<and> rps_ok rps' \<and> rps_isa_spec rps' = rps_isa_spec rps \<and>
           rps_xlen rps' = rps_xlen rps \<and> rps_errors rps' = rps_errors rps \<and>
           rps_check_unknown_prefixed_ext rps' = rps_check_unknown_prefixed_ext rps \<and>
           rps_versions rps' = (rps_versions rps)(n \<mapsto> final_version rps n)"
proof -
  obtain a b where v: "riscv_get_default_ext_version (rps_isa_spec rps) n (-1, -1) = (a, b)"
    by fastforce
  moreover have "rps_versions rps n = None" using assms(3) by (simp only: domIff not_not)
  ultimately have "final_version rps n = (a, b)" by (simp add: final_version_def)
  with v sl.add_content [of "rps_subset_list rps" n a b] assms show ?thesis
    by (auto simp: riscv_parse_add_subset_def rps_ok_def)
qed

section \<open>One pass over the table\<close>

lemma lookup_node:
  assumes "rps_ok rps" "wf_ext n"
  shows "\<exists>cur. riscv_lookup_subset (rps_subset_list rps) n = Some (n \<in> dom (rps_versions rps), cur) \<and>
           (\<forall>v. rps_versions rps n = Some v \<longrightarrow>
              sl_head (rps_subset_list rps) ! the cur =
                \<lparr>ss_name = n, ss_major_version = fst v, ss_minor_version = snd v\<rparr>)"
proof -
  define sl where "sl = rps_subset_list rps"
  have ok: "slist_ok sl" using assms(1) by (simp add: rps_ok_def sl_def)
  have "found_at n (sl_head sl) \<longleftrightarrow> n \<in> dom (versions sl)"
    using ok found_at_iff by (simp add: slist_ok_def versions_def dom_versions_of)
  moreover have "versions sl n = Some v \<Longrightarrow> found_at n (sl_head sl) \<Longrightarrow>
      sl_head sl ! place n (sl_head sl) =
        \<lparr>ss_name = n, ss_major_version = fst v, ss_minor_version = snd v\<rparr>" for v
    using versions_of_nth [OF slist_ok_distinct [OF ok], of "place n (sl_head sl)"]
    by (simp add: found_at_def versions_def)
  ultimately show ?thesis
    using riscv_lookup_subset_place [OF ok assms(2)] by (auto simp: sl_def domIff)
qed

lemma implicit_pass_spec:
  assumes "rps_ok rps" "list_all (\<lambda>(a, b, c). wf_ext a \<and> wf_ext b) ts"
  shows "(implicit_pass rps ts = Some None \<and>
            (\<forall>(a, b, c) \<in> set ts. \<forall>v. rps_versions rps a = Some v \<longrightarrow> check_on c a b v \<longrightarrow>
               b \<in> dom (rps_versions rps))) \<or>
         (\<exists>a b c v rps'. (a, b, c) \<in> set ts \<and> rps_versions rps a = Some v \<and> check_on c a b v \<and>
            b \<notin> dom (rps_versions rps) \<and> wf_ext b \<and> implicit_pass rps ts = Some (Some rps') \<and>
            riscv_parse_add_subset rps b RISCV_UNKNOWN_VERSION RISCV_UNKNOWN_VERSION True = Some rps')"
  using assms(2)
proof (induction ts)
  case (Cons t ts)
  obtain a b c where t: "t = (a, b, c)" by (cases t)
  have wf: "wf_ext a" "wf_ext b" using Cons.prems by (simp_all add: t)
  note a = lookup_node [OF assms(1) wf(1)] and b = lookup_node [OF assms(1) wf(2)]
  obtain ca cb where
      la: "riscv_lookup_subset (rps_subset_list rps) a = Some (a \<in> dom (rps_versions rps), ca)"
      "\<And>v. rps_versions rps a = Some v \<Longrightarrow> sl_head (rps_subset_list rps) ! the ca =
             \<lparr>ss_name = a, ss_major_version = fst v, ss_minor_version = snd v\<rparr>"
    and lb: "riscv_lookup_subset (rps_subset_list rps) b = Some (b \<in> dom (rps_versions rps), cb)"
    using a b by blast
  show ?case
  proof (cases "\<exists>v. rps_versions rps a = Some v \<and> check_on c a b v \<and> b \<notin> dom (rps_versions rps)")
    case True
    then obtain v where v: "rps_versions rps a = Some v" "check_on c a b v"
      "b \<notin> dom (rps_versions rps)" by blast
    obtain rps' where "riscv_parse_add_subset rps b (-1) (-1) True = Some rps'"
      using add_implicit [OF assms(1) wf(2) v(3)] by blast
    moreover from this have "implicit_pass rps (t # ts) = Some (Some rps')"
      using v la lb by (simp add: t check_on_def domIff)
    ultimately show ?thesis
      using v wf by (intro disjI2 exI [of _ a] exI [of _ b] exI [of _ c] exI [of _ v] exI [of _ rps'])
        (simp add: t)
  next
    case False
    then have eq: "implicit_pass rps (t # ts) = implicit_pass rps ts"
      using la lb by (auto simp: t check_on_def domIff)
    have "list_all (\<lambda>(a, b, c). wf_ext a \<and> wf_ext b) ts" using Cons.prems by simp
    from Cons.IH [OF this] show ?thesis
    proof
      assume "implicit_pass rps ts = Some None \<and>
        (\<forall>(a, b, c) \<in> set ts. \<forall>v. rps_versions rps a = Some v \<longrightarrow> check_on c a b v \<longrightarrow>
           b \<in> dom (rps_versions rps))"
      moreover have "\<forall>v. rps_versions rps a = Some v \<longrightarrow> check_on c a b v \<longrightarrow> b \<in> dom (rps_versions rps)"
        using False by blast
      ultimately show ?thesis unfolding eq by (simp add: t)
    next
      assume "\<exists>a b c v rps'. (a, b, c) \<in> set ts \<and> rps_versions rps a = Some v \<and> check_on c a b v \<and>
        b \<notin> dom (rps_versions rps) \<and> wf_ext b \<and> implicit_pass rps ts = Some (Some rps') \<and>
        riscv_parse_add_subset rps b RISCV_UNKNOWN_VERSION RISCV_UNKNOWN_VERSION True = Some rps'"
      then show ?thesis
        unfolding eq by (elim exE) (intro disjI2, rule exI, rule exI, rule exI, rule exI, rule exI,
          elim conjE, intro conjI list.set_intros(2))
    qed
  qed
qed simp

section \<open>The loop ends with exactly the implied extensions\<close>

text \<open>What holds of every state \<open>r\<close> of the loop started in \<open>rps\<close>.\<close>

definition closing :: "riscv_parse_subset_t \<Rightarrow> riscv_parse_subset_t \<Rightarrow> bool" where
  "closing rps r \<longleftrightarrow>
     rps_ok r \<and> rps_isa_spec r = rps_isa_spec rps \<and> rps_xlen r = rps_xlen rps \<and>
     rps_errors r = rps_errors rps \<and>
     rps_check_unknown_prefixed_ext r = rps_check_unknown_prefixed_ext rps \<and>
     dom (rps_versions rps) \<subseteq> dom (rps_versions r) \<and>
     (\<forall>n v. rps_versions r n = Some v \<longrightarrow> implied rps n \<and> v = final_version rps n)"

definition missing :: "riscv_parse_subset_t \<Rightarrow> nat" where
  "missing r = card ((\<lambda>(a, b, c). b) ` set riscv_implicit_subsets - dom (rps_versions r))"

lemma closing_start: "rps_ok rps \<Longrightarrow> closing rps rps"
  by (auto simp: closing_def final_version_def intro: implied_listed)

lemma closing_implied:
  "closing rps r \<Longrightarrow> rps_versions r n = Some v \<Longrightarrow> implied rps n \<and> v = final_version rps n"
  unfolding closing_def by blast

lemma closing_add:
  assumes "closing rps r" "(a, b, c) \<in> set riscv_implicit_subsets" "rps_versions r a = Some v"
    and "check_on c a b v" "b \<notin> dom (rps_versions r)" "wf_ext b"
    and "riscv_parse_add_subset r b RISCV_UNKNOWN_VERSION RISCV_UNKNOWN_VERSION True = Some r'"
  shows "closing rps r'" and "missing r' < missing r"
proof -
  have r: "rps_ok r" "rps_isa_spec r = rps_isa_spec rps" using assms(1) by (auto simp: closing_def)
  have r': "rps_ok r'" "rps_isa_spec r' = rps_isa_spec r" "rps_xlen r' = rps_xlen r"
      "rps_errors r' = rps_errors r"
      "rps_check_unknown_prefixed_ext r' = rps_check_unknown_prefixed_ext r"
      "rps_versions r' = (rps_versions r)(b \<mapsto> final_version r b)"
    using add_implicit [OF r(1) assms(6,5)] assms(7) by auto
  have "rps_versions r b = None" using assms(5) by (simp only: domIff not_not)
  moreover have "rps_versions rps b = None"
    using assms(1,5) by (simp only: closing_def domIff not_not) blast
  ultimately have "final_version r b = final_version rps b"
    using r(2) by (simp add: final_version_def)
  moreover have "implied rps b"
    using closing_implied [OF assms(1,3)] implied_by [of rps a b c] assms(2,4) by blast
  ultimately show "closing rps r'"
    using assms(1) r' by (auto simp: closing_def split: if_splits)
  have "b \<in> (\<lambda>(a, b, c). b) ` set riscv_implicit_subsets - dom (rps_versions r)"
    using assms(2,5) by force
  moreover have "dom (rps_versions r') = insert b (dom (rps_versions r))" by (simp add: r'(6))
  ultimately show "missing r' < missing r"
    unfolding missing_def by (intro psubset_card_mono) (simp, blast)
qed

lemma closed_implied:
  assumes "closing rps r"
    and "\<forall>(a, b, c) \<in> set riscv_implicit_subsets. \<forall>v. rps_versions r a = Some v \<longrightarrow>
           check_on c a b v \<longrightarrow> b \<in> dom (rps_versions r)"
  shows "rps_versions r = (\<lambda>n. if implied rps n then Some (final_version rps n) else None)"
proof -
  have "implied rps n \<Longrightarrow> n \<in> dom (rps_versions r)" for n
  proof (induction rule: implied.induct)
    case (implied_listed n)
    then show ?case using assms(1) by (auto simp: closing_def)
  next
    case (implied_by a b c)
    then obtain v where "rps_versions r a = Some v" by blast
    moreover from this have "v = final_version rps a" using closing_implied [OF assms(1)] by blast
    ultimately show ?case using implied_by assms(2) by blast
  qed
  then have "rps_versions r n = (if implied rps n then Some (final_version rps n) else None)" for n
    using closing_implied [OF assms(1), of n] by (cases "rps_versions r n") auto
  then show ?thesis by (rule ext)
qed

lemma closing_ends:
  assumes "closing rps r"
  shows "\<exists>r'. riscv_parse_add_implicit_subsets r = Some r' \<and> closing rps r' \<and>
           rps_versions r' = (\<lambda>n. if implied rps n then Some (final_version rps n) else None)"
  using assms
proof (induction r rule: measure_induct_rule [where f = missing])
  case (less r)
  have "rps_ok r" using less.prems by (simp add: closing_def)
  from implicit_pass_spec [OF this implicit_table_wf] show ?case
  proof (elim disjE conjE exE)
    assume "implicit_pass r riscv_implicit_subsets = Some None"
      and "\<forall>(a, b, c)\<in>set riscv_implicit_subsets. \<forall>v. rps_versions r a = Some v \<longrightarrow>
             check_on c a b v \<longrightarrow> b \<in> dom (rps_versions r)"
    with less.prems closed_implied [of rps r] show ?thesis
      by (simp add: riscv_parse_add_implicit_subsets.simps)
  next
    fix a b c v r'
    assume step: "(a, b, c) \<in> set riscv_implicit_subsets" "rps_versions r a = Some v" "check_on c a b v"
      "b \<notin> dom (rps_versions r)" "wf_ext b"
      "riscv_parse_add_subset r b RISCV_UNKNOWN_VERSION RISCV_UNKNOWN_VERSION True = Some r'"
      and p: "implicit_pass r riscv_implicit_subsets = Some (Some r')"
    have "riscv_parse_add_implicit_subsets r = riscv_parse_add_implicit_subsets r'"
      by (subst riscv_parse_add_implicit_subsets.simps) (simp add: p)
    with less.IH [OF closing_add(2) closing_add(1), OF less.prems step less.prems step] show ?thesis
      by simp
  qed
qed

text \<open>
  C3. Adding the implied extensions always ends, and the list then holds exactly the extensions
  that follow from it by the implication table: those already listed keep their versions, the new
  ones get their default versions (unknown when there is none).  No error is reported.
\<close>

theorem implicit_closure:
  assumes "rps_ok rps"
  shows "\<exists>rps'. riscv_parse_add_implicit_subsets rps = Some rps' \<and> rps_ok rps' \<and>
           rps_errors rps' = rps_errors rps \<and>
           versions (rps_subset_list rps') =
             (\<lambda>n. if implied rps n then Some (final_version rps n) else None)"
  using closing_ends [OF closing_start [OF assms]] by (auto simp: closing_def)

definition rps_start :: "nat \<Rightarrow> riscv_parse_subset_t" where
  "rps_start xlen = \<lparr>rps_subset_list = empty_slist, rps_errors = [], rps_xlen = xlen,
     rps_isa_spec = Some ISA_SPEC_CLASS_20191213, rps_check_unknown_prefixed_ext = True\<rparr>"

lemma rps_start_ok [simp]: "rps_ok (rps_start xlen)"
  by (simp add: rps_ok_def rps_start_def)

lemma implicit_closure_witness:
  "\<exists>rps rps'. rps_ok rps \<and> versions (rps_subset_list rps) ''d'' = Some (2, 2) \<and>
     riscv_parse_add_implicit_subsets rps = Some rps' \<and>
     versions (rps_subset_list rps') ''zicsr'' = Some (2, 0)"
proof -
  obtain rps where rps: "riscv_parse_add_subset (rps_start 64) ''d'' 2 2 False = Some rps" "rps_ok rps"
      "rps_versions rps = [''d'' \<mapsto> (2, 2)]" "rps_isa_spec rps = Some ISA_SPEC_CLASS_20191213"
    using sl.add_content [of empty_slist "''d''" 2 2]
    by (auto simp: riscv_parse_add_subset_def rps_start_def rps_ok_def wf_ext_eval)
  obtain rps' where rps': "riscv_parse_add_implicit_subsets rps = Some rps'"
      "versions (rps_subset_list rps') = (\<lambda>n. if implied rps n then Some (final_version rps n) else None)"
    using implicit_closure [OF rps(2)] by blast
  have "implied rps ''d''" by (rule implied_listed) (simp add: rps(3))
  then have "implied rps ''f''"
    by (rule implied_by [where c = check_implicit_always])
      (simp_all add: riscv_implicit_subsets_def check_on_def)
  then have "implied rps ''zicsr''"
    by (rule implied_by [where c = check_implicit_always])
      (simp_all add: riscv_implicit_subsets_def check_on_def)
  moreover have "final_version rps ''zicsr'' = (2, 0)"
    by (simp add: final_version_def rps(3,4) riscv_get_default_ext_version_def ext_table_def
        riscv_get_prefix_class_def parse_config_def riscv_supported_std_z_ext_def)
  ultimately show ?thesis
    using rps rps' by (intro exI [of _ rps] exI [of _ rps']) simp
qed

end
