(* ===== verification/RV_Parse.thy ===== *)
theory RV_Parse
  imports RV_Implicit
begin

text \<open>
  When \<open>riscv_parse_subset\<close> is defined and what it leaves.  \<open>arch_safe\<close> describes the strings whose
  parsing never reads outside \<open>riscv_ext_order\<close> and never overflows a version; on them the parser
  returns, the list keeps its invariant, and success means that the list is closed under the
  implications and free of the conflicts the parser knows.
\<close>

section \<open>Safe strings\<close>

definition arch_char :: "char \<Rightarrow> bool" where
  "arch_char c \<longleftrightarrow> (97 \<le> (of_char c :: nat) \<and> (of_char c :: nat) \<le> 122) \<or> ISDIGIT c \<or> c = CHR ''_''"

text \<open>Letters, digits and underscores, no digit behind an underscore.\<close>

fun separators_ok :: "string \<Rightarrow> bool" where
  "separators_ok [] = True"
| "separators_ok (c # cs) = (arch_char c \<and> (c = CHR ''_'' \<longrightarrow> \<not> ISDIGIT (c_char cs 0)) \<and> separators_ok cs)"

text \<open>No more than nine digits in a row; \<open>k\<close> digits have been read.\<close>

fun digit_runs :: "nat \<Rightarrow> string \<Rightarrow> bool" where
  "digit_runs k [] = True"
| "digit_runs k (c # cs) = (if ISDIGIT c then k < 9 \<and> digit_runs (Suc k) cs else digit_runs 0 cs)"

definition arch_safe :: "string \<Rightarrow> bool" where
  "arch_safe p \<longleftrightarrow> separators_ok p \<and> digit_runs 0 p"

lemma separators_ok_suffix: "separators_ok (t @ r) \<Longrightarrow> separators_ok r"
  by (induction t) auto

lemma digit_runs_mono: "digit_runs k s \<Longrightarrow> j \<le> k \<Longrightarrow> digit_runs j s"
proof (induction s arbitrary: j k)
  case (Cons c s)
  then show ?case by (auto split: if_splits)
qed simp

lemma digit_runs_suffix: "digit_runs k (t @ r) \<Longrightarrow> digit_runs 0 r"
  by (induction t arbitrary: k) (auto split: if_splits intro: digit_runs_mono)

lemma arch_safe_suffix: "arch_safe (t @ r) \<Longrightarrow> arch_safe r"
  using separators_ok_suffix digit_runs_suffix by (auto simp: arch_safe_def)

lemma arch_safe_drop: "arch_safe p \<Longrightarrow> arch_safe (drop n p)"
  using arch_safe_suffix [of "take n p" "drop n p"] by simp

lemma arch_char_name: "arch_char c \<Longrightarrow> name_char c"
  by (auto simp: arch_char_def name_char_def ISUPPER_def ISDIGIT_def)

lemma separators_ok_chars: "separators_ok p \<Longrightarrow> c \<in> set p \<Longrightarrow> arch_char c"
  by (induction p) auto

section \<open>Versions of a safe string\<close>

lemma ISDIGIT_value: "ISDIGIT c \<Longrightarrow> 0 \<le> (of_char c :: int) - 48 \<and> (of_char c :: int) - 48 \<le> 9"
proof -
  assume "ISDIGIT c"
  then have "48 \<le> (of_char c :: nat)" "(of_char c :: nat) \<le> 57" by (simp_all add: ISDIGIT_def)
  then have "int 48 \<le> int (of_char c)" "int (of_char c) \<le> int 57" by (simp_all only: of_nat_le_iff)
  then show ?thesis by (simp add: of_nat_of_char)
qed

lemma digit_step:
  assumes "0 \<le> v" "v < 10 ^ k" "k < 9" "0 \<le> d" "d \<le> (9 :: int)"
  shows "v * 10 + d < 10 ^ Suc k" and "v * 10 + d \<le> 2147483647"
proof -
  show *: "v * 10 + d < 10 ^ Suc k" using assms by simp
  have "(10 :: int) ^ Suc k \<le> 10 ^ 9" using assms(3) by (intro power_increasing) auto
  with * show "v * 10 + d \<le> 2147483647" by simp
qed

lemma version_loop_defined:
  assumes "digit_runs k p" "0 \<le> v" "v < 10 ^ k"
  shows "\<exists>rest w mp a. version_loop p v m m0 = Some (rest, w, mp, a) \<and>
           (rest \<noteq> [] \<longrightarrow> \<not> ISDIGIT (hd rest))"
  using assms
proof (induction p v m m0 arbitrary: k rule: version_loop.induct)
  case (2 c cs v m m0)
  show ?case
  proof (cases "c = CHR ''p''")
    case True
    then show ?thesis
      using 2(1) [of 0] 2(3) by (auto simp: ISDIGIT_def)
  next
    case np: False
    show ?thesis
    proof (cases "ISDIGIT c")
      case True
      then have k: "k < 9" "digit_runs (Suc k) cs" using 2(3) by auto
      note d = ISDIGIT_value [OF True]
      show ?thesis
        using 2(2) [of "Suc k"] np True k digit_step [OF 2(4,5) k(1)] d 2(4) by simp
    qed (use np in auto)
  qed
qed auto

lemma version_defined:
  assumes "arch_safe p"
  shows "\<exists>rest a b. riscv_parsing_subset_version p = Some (rest, a, b) \<and> arch_safe rest \<and>
           (rest \<noteq> [] \<longrightarrow> \<not> ISDIGIT (hd rest))"
proof -
  obtain rest w mp a where l: "version_loop p 0 True 0 = Some (rest, w, mp, a)"
      "rest \<noteq> [] \<longrightarrow> \<not> ISDIGIT (hd rest)"
    using version_loop_defined [of 0 p 0 True 0] assms by (auto simp: arch_safe_def)
  moreover have "arch_safe rest" using version_loop_suffix [OF l(1)] assms arch_safe_suffix by auto
  ultimately show ?thesis by (simp add: riscv_parsing_subset_version_def)
qed

section \<open>The name of an extension\<close>

lemma back_scan_defined:
  assumes "c_char s 0 \<noteq> CHR ''p''" "\<not> ISDIGIT (c_char s 0)" "0 < n"
  shows "\<exists>q. back_scan s n fa fm = Some q"
  using assms(3)
proof (induction n arbitrary: fa fm)
  case (Suc n)
  show ?case
  proof (cases n)
    case 0
    then show ?thesis using assms(1,2) by auto
  next
    case (Suc m)
    then have "\<exists>q. back_scan s n fa' fm' = Some q" for fa' fm' using Suc.IH by simp
    then show ?thesis using Suc by (subst back_scan.simps(2)) (simp del: back_scan.simps)
  qed
qed simp

lemma read_lower: "97 \<le> (of_char c :: nat) \<Longrightarrow> (of_char c :: nat) \<le> 122 \<Longrightarrow> \<exists>k. read_ext_order c = Some k"
  by (simp add: read_ext_order_def)

lemma prefix_class_hd:
  "riscv_get_prefix_class (c # cs) \<noteq> RV_ISA_CLASS_SINGLE \<Longrightarrow> c \<in> {CHR ''z'', CHR ''s'', CHR ''x''}"
  by (cases "riscv_get_prefix_class (c # cs)") (auto dest: prefix_class_char)

lemma start_of_version_defined:
  assumes "separators_ok (c # cs)" "c \<noteq> CHR ''_''" "\<not> ISDIGIT c"
  shows "start_of_version (c # cs) \<noteq> None"
proof (cases "riscv_get_prefix_class (c # cs) = RV_ISA_CLASS_SINGLE")
  case True
  have "\<exists>k. read_ext_order c = Some k"
    using assms by (intro read_lower) (auto simp: arch_char_def)
  with True show ?thesis by (auto simp: start_of_version_def c_char_def)
next
  case False
  then have "c \<in> {CHR ''z'', CHR ''s'', CHR ''x''}" by (rule prefix_class_hd)
  then have "c_char (c # cs) 0 \<noteq> CHR ''p''" "\<not> ISDIGIT (c_char (c # cs) 0)"
    using assms(3) by (auto simp: c_char_def)
  then obtain q where "back_scan (c # cs) (length (takeWhile (\<lambda>c. c \<noteq> CHR ''_'') (c # cs))) False False = Some q"
    using back_scan_defined [of "c # cs" "length (takeWhile (\<lambda>c. c \<noteq> CHR ''_'') (c # cs))" False False]
      assms(2)
    by (auto simp del: back_scan.simps)
  with False show ?thesis by (auto simp: start_of_version_def)
qed

lemma std_letter_code:
  "std_letter c \<longleftrightarrow> (of_char c :: nat) \<in> set (map of_char riscv_ext_canonical_order)"
  by (auto simp: std_letter_def)

lemma read_nonzero_std:
  assumes "read_ext_order c = Some k" "k \<noteq> 0"
  shows "std_letter c"
proof -
  define n :: nat where "n = of_char c - 97"
  have n: "n < 26" "riscv_ext_order ! n \<noteq> 0" "of_char c = n + (97 :: nat)"
    using assms by (auto simp: read_ext_order_def n_def split: if_splits)
  have "n \<in> {0, 1, 2, 3, 4, 5, 6, 7, 8, 9, 10, 11, 12, 13, 14, 15, 16, 17, 18, 19, 20, 21, 22, 23, 24, 25}"
    using n(1) by (simp add: numeral_eq_Suc less_Suc_eq)
  with n(2,3) show ?thesis
    by (auto simp: riscv_ext_order_eval std_letter_code riscv_ext_canonical_order_def)
qed

lemma std_letter_class: "std_letter c \<Longrightarrow> riscv_get_prefix_class [c] = RV_ISA_CLASS_SINGLE"
  by (auto elim!: std_letterE simp: riscv_get_prefix_class_def parse_config_def)

lemma known_iff: "riscv_known_prefixed_ext n es \<longleftrightarrow> n \<in> se_name ` set es"
  by (induction es) auto

lemma z_table_wf: "list_all (\<lambda>e. wf_ext (se_name e)) riscv_supported_std_z_ext"
  by (simp add: riscv_supported_std_z_ext_def wf_ext_eval)

lemma s_table_wf: "list_all (\<lambda>e. wf_ext (se_name e)) riscv_supported_std_s_ext"
  by (simp add: riscv_supported_std_s_ext_def wf_ext_eval)

lemma recognized_wf:
  assumes "riscv_recognized_prefixed_ext n" "list_all name_char n"
  shows "wf_ext n"
  using assms z_table_wf s_table_wf
  by (auto simp: riscv_recognized_prefixed_ext_def known_iff riscv_supported_std_zxm_ext_def
      list_all_iff wf_ext_def split: riscv_prefix_ext_class.splits)

lemma safe_chars: "arch_safe p \<Longrightarrow> list_all name_char p"
  using separators_ok_chars arch_char_name by (auto simp: arch_safe_def list_all_iff)

text \<open>The name cut out by one round of the loop, when the loop goes on with it, is well-formed.\<close>

lemma take_name_chars: "list_all name_char p \<Longrightarrow> list_all name_char (take q p)"
  by (auto simp: list_all_iff dest: in_set_takeD)

lemma ext_name_wf:
  assumes "list_all name_char p" "start_of_version p = Some (Inr q)" "p \<noteq> []"
    and "riscv_get_prefix_class p = RV_ISA_CLASS_SINGLE \<or> riscv_recognized_prefixed_ext (take q p)"
  shows "wf_ext (take q p)"
proof (cases "riscv_get_prefix_class p = RV_ISA_CLASS_SINGLE")
  case True
  obtain c cs where p: "p = c # cs" using assms(3) by (cases p) auto
  have "q = 1" "std_letter c"
    using assms(2) True read_nonzero_std
    by (auto simp: start_of_version_def p c_char_def split: if_splits bind_splits)
  with std_letter_class [of c] take_name_chars [OF assms(1), of 1] show ?thesis
    by (simp add: p wf_ext_def c_char_def)
next
  case False
  with assms(4) recognized_wf take_name_chars [OF assms(1)] show ?thesis by blast
qed

section \<open>The whole string\<close>

lemma error_handler_simps [simp]:
  "rps_subset_list (error_handler e rps) = rps_subset_list rps"
  "rps_xlen (error_handler e rps) = rps_xlen rps"
  "rps_isa_spec (error_handler e rps) = rps_isa_spec rps"
  "rps_check_unknown_prefixed_ext (error_handler e rps) = rps_check_unknown_prefixed_ext rps"
  "rps_ok (error_handler e rps) = rps_ok rps"
  by (simp_all add: error_handler_def rps_ok_def)

definition same_setting :: "riscv_parse_subset_t \<Rightarrow> riscv_parse_subset_t \<Rightarrow> bool" where
  "same_setting rps r \<longleftrightarrow> rps_ok r \<and> rps_xlen r = rps_xlen rps \<and> rps_isa_spec r = rps_isa_spec rps \<and>
     rps_check_unknown_prefixed_ext r = rps_check_unknown_prefixed_ext rps"

lemma same_setting_trans: "same_setting a b \<Longrightarrow> same_setting b c \<Longrightarrow> same_setting a c"
  by (simp add: same_setting_def)

text \<open>One round of the loop at an extension, with the local variables of the code named.\<close>

lemma parse_extensions_step:
  assumes "c \<noteq> CHR ''_''" "start_of_version (c # cs) = Some (Inr q)"
    and "riscv_parsing_subset_version (drop q (c # cs)) = Some (rest, a, b)"
    and "single = (riscv_get_prefix_class (c # cs) = RV_ISA_CLASS_SINGLE)"
    and "g = (single \<and> take q (c # cs) = ''g'')"
  shows "parse_extensions_loop rps (c # cs) =
     (if \<not> single \<and> rps_check_unknown_prefixed_ext rps \<and> \<not> riscv_recognized_prefixed_ext (take q (c # cs))
      then Some (error_handler (Err_unknown_prefixed (take q (c # cs))) rps, False)
      else case riscv_parse_add_subset rps (take q (c # cs)) (if g then - 1 else a)
                  (if g then - 1 else b) g of
             None \<Rightarrow> None
           | Some rps' \<Rightarrow>
               if \<not> single \<and> rest \<noteq> [] \<and> hd rest \<noteq> CHR ''_''
               then Some (error_handler Err_must_separate rps', False)
               else parse_extensions_loop rps' rest)"
  by (subst parse_extensions_loop.simps(2))
    (simp only: Let_def assms(4,5) [symmetric] assms(1-3) option.case sum.case prod.case if_False)

lemma parse_extensions_loop_defined:
  assumes "rps_ok rps" "rps_check_unknown_prefixed_ext rps" "arch_safe p"
    and "p \<noteq> [] \<longrightarrow> \<not> ISDIGIT (hd p)"
  shows "\<exists>r ok. parse_extensions_loop rps p = Some (r, ok) \<and> same_setting rps r"
  using assms
proof (induction rps p rule: parse_extensions_loop.induct)
  case (1 rps)
  then show ?case by (auto simp: same_setting_def)
next
  case (2 rps c cs)
  show ?case
  proof (cases "c = CHR ''_''")
    case True
    have "arch_safe cs" using arch_safe_suffix [of "[c]" cs] 2 by simp
    moreover have "cs \<noteq> [] \<longrightarrow> \<not> ISDIGIT (hd cs)"
      using 2 True by (cases cs) (auto simp: arch_safe_def c_char_def)
    ultimately show ?thesis using 2 True by simp
  next
    case False
    then obtain sv where sv: "start_of_version (c # cs) = Some sv"
      using start_of_version_defined [of c cs] 2 by (auto simp: arch_safe_def)
    show ?thesis
    proof (cases sv)
      case (Inl e)
      with False sv 2 show ?thesis by (auto simp: same_setting_def)
    next
      case (Inr q)
      obtain rest a b where v: "riscv_parsing_subset_version (drop q (c # cs)) = Some (rest, a, b)"
          "arch_safe rest" "rest \<noteq> [] \<longrightarrow> \<not> ISDIGIT (hd rest)"
        using version_defined [OF arch_safe_drop [OF 2(5)], of q] by blast
      define single where "single = (riscv_get_prefix_class (c # cs) = RV_ISA_CLASS_SINGLE)"
      show ?thesis
      proof (cases "single \<or> riscv_recognized_prefixed_ext (take q (c # cs))")
        case rejected: False
        with False sv Inr v 2 show ?thesis by (auto simp: same_setting_def single_def)
      next
        case known: True
        define g where "g = (single \<and> take q (c # cs) = ''g'')"
        have "wf_ext (take q (c # cs))"
          using ext_name_wf [OF safe_chars [OF 2(5)]] sv Inr known by (simp add: single_def)
        then obtain r where r: "riscv_parse_add_subset rps (take q (c # cs)) (if g then - 1 else a)
              (if g then - 1 else b) g = Some r" "same_setting rps r"
          using riscv_parse_add_subset_spec [OF 2(3)] unfolding same_setting_def by blast
        have step: "parse_extensions_loop rps (c # cs) =
            (if \<not> single \<and> rest \<noteq> [] \<and> hd rest \<noteq> CHR ''_''
             then Some (error_handler Err_must_separate r, False) else parse_extensions_loop r rest)"
          using parse_extensions_step [OF False _ v(1) single_def g_def, of rps] sv Inr known r(1)
          by (simp only: option.case) auto
        show ?thesis
        proof (cases "\<not> single \<and> rest \<noteq> [] \<and> hd rest \<noteq> CHR ''_''")
          case True
          with step r(2) show ?thesis by (auto simp: same_setting_def)
        next
          case cont: False
          have "rps_ok r" "rps_check_unknown_prefixed_ext r"
            using r(2) 2(4) by (simp_all add: same_setting_def)
          then obtain r' ok where "parse_extensions_loop r rest = Some (r', ok)" "same_setting r r'"
            using 2(2) [OF False sv Inr v(1) refl refl refl single_def g_def _ r(1) cont] known v(2,3)
            by blast
          with step cont same_setting_trans [OF r(2)] show ?thesis by (simp only: if_False) blast
        qed
      qed
    qed
  qed
qed

section \<open>Conflicts\<close>

text \<open>The combinations the tool chain refuses, on the map of versions.\<close>

definition conflicts :: "nat \<Rightarrow> (string \<rightharpoonup> int \<times> int) \<Rightarrow> rps_error set" where
  "conflicts xlen vs =
     (if ''e'' \<in> dom vs \<and> ''h'' \<in> dom vs then {Err_e_with_h} else {}) \<union>
     (if (\<exists>a b. vs ''q'' = Some (a, b) \<and> (a < 2 \<or> a = 2 \<and> b < 2)) \<and> xlen < 64
      then {Err_q_on_rv32} else {}) \<union>
     (if ''zcf'' \<in> dom vs \<and> 32 < xlen then {Err_zcf_on_rv64} else {}) \<union>
     (if ''zfinx'' \<in> dom vs \<and> ''f'' \<in> dom vs then {Err_zfinx_with_f} else {}) \<union>
     (if ''xtheadvector'' \<in> dom vs \<and> ''v'' \<in> dom vs then {Err_xtheadvector_with_v} else {}) \<union>
     (if (\<exists>n\<in>dom vs. startswith n ''zvl'') \<and> \<not> (\<exists>n\<in>dom vs. startswith n ''zve'')
      then {Err_zvl_without_zve} else {})"

lemma supports_dom:
  "rps_ok rps \<Longrightarrow> wf_ext n \<Longrightarrow> riscv_subset_supports rps n = Some (n \<in> dom (rps_versions rps))"
  using sl.has_content by (simp add: riscv_subset_supports_def has_subset_def rps_ok_def)

lemma both_supported_dom:
  "rps_ok rps \<Longrightarrow> wf_ext a \<Longrightarrow> wf_ext b \<Longrightarrow>
     both_supported rps a b = Some (a \<in> dom (rps_versions rps) \<and> b \<in> dom (rps_versions rps))"
  by (simp add: both_supported_def supports_dom)

lemma old_q_versions:
  assumes "rps_ok rps"
  shows "old_q rps = Some (\<exists>a b. rps_versions rps ''q'' = Some (a, b) \<and> (a < 2 \<or> a = 2 \<and> b < 2))"
proof -
  have "wf_ext ''q''" by (simp add: wf_ext_eval)
  from lookup_node [OF assms this] obtain cur where
    "riscv_lookup_subset (rps_subset_list rps) ''q'' = Some (''q'' \<in> dom (rps_versions rps), cur)"
    "\<forall>v. rps_versions rps ''q'' = Some v \<longrightarrow> sl_head (rps_subset_list rps) ! the cur =
       \<lparr>ss_name = ''q'', ss_major_version = fst v, ss_minor_version = snd v\<rparr>"
    by blast
  then show ?thesis by (cases "rps_versions rps ''q''") (auto simp: old_q_def Let_def domIff)
qed

lemma conflict_if_simps [simp]:
  "fst (conflict_if c e s) = (if c then error_handler e (fst s) else fst s)"
  "snd (conflict_if c e s) = (\<not> c \<and> snd s)"
  by (simp_all add: conflict_if_def)

lemma list_ex_names: "list_ex (\<lambda>n. P n) (map ss_name ss) \<longleftrightarrow> (\<exists>n\<in>dom (versions_of ss). P n)"
  by (auto simp: list_ex_iff dom_versions_of)

text \<open>The chain of tests, one at a time: the state and flag \<open>s\<close> after reporting the errors \<open>es\<close>.\<close>

definition reports ::
    "riscv_parse_subset_t \<Rightarrow> riscv_parse_subset_t \<times> bool \<Rightarrow> rps_error set \<Rightarrow> bool" where
  "reports rps s es \<longleftrightarrow>
     rps_subset_list (fst s) = rps_subset_list rps \<and> rps_xlen (fst s) = rps_xlen rps \<and> (snd s \<longleftrightarrow> es = {}) \<and>
     (\<exists>l. rps_errors (fst s) = rps_errors rps @ l \<and> set l = es)"

lemma reports_first: "reports rps (conflict_if p e (rps, True)) (if p then {e} else {})"
  by (auto simp: reports_def error_handler_def intro: exI [of _ "[e]"])

lemma reports_step:
  assumes "reports rps s es"
  shows "reports rps (conflict_if p e s) (es \<union> (if p then {e} else {}))"
proof -
  obtain l where "rps_errors (fst s) = rps_errors rps @ l" "set l = es"
    using assms by (auto simp: reports_def)
  then have "\<exists>l'. rps_errors (fst (conflict_if p e s)) = rps_errors rps @ l' \<and>
      set l' = es \<union> (if p then {e} else {})"
    by (intro exI [of _ "l @ (if p then [e] else [])"]) (simp add: error_handler_def)
  with assms show ?thesis by (simp add: reports_def)
qed

lemma check_conflicts_spec:
  assumes "rps_ok rps"
  shows "\<exists>r. riscv_parse_check_conflicts rps = Some r \<and>
           reports rps r (conflicts (rps_xlen rps) (rps_versions rps))"
proof -
  have wf: "wf_ext ''e''" "wf_ext ''h''" "wf_ext ''zcf''" "wf_ext ''zfinx''" "wf_ext ''f''"
      "wf_ext ''xtheadvector''" "wf_ext ''v''"
    by (simp_all add: wf_ext_eval)
  have zv: "list_ex (\<lambda>n. startswith n z) (map ss_name (sl_head (rps_subset_list rps))) \<longleftrightarrow>
      (\<exists>n\<in>dom (rps_versions rps). startswith n z)" for z
    by (simp add: list_ex_names versions_def)
  show ?thesis
    unfolding riscv_parse_check_conflicts_def conflicts_def supports_dom [OF assms wf(3)]
      both_supported_dom [OF assms wf(1,2)] both_supported_dom [OF assms wf(4,5)]
      both_supported_dom [OF assms wf(6,7)] old_q_versions [OF assms] zv Let_def bind.simps
    by (intro exI conjI, rule refl, intro reports_step reports_first)
qed

section \<open>Parsing ends in a consistent list\<close>

definition table_closed :: "(string \<rightharpoonup> int \<times> int) \<Rightarrow> bool" where
  "table_closed vs \<longleftrightarrow>
     (\<forall>(a, b, c) \<in> set riscv_implicit_subsets. \<forall>v. vs a = Some v \<longrightarrow> check_on c a b v \<longrightarrow> b \<in> dom vs)"

lemma closure_closed:
  assumes "rps_versions r = (\<lambda>n. if implied rps n then Some (final_version rps n) else None)"
  shows "table_closed (rps_versions r)"
proof -
  have "b \<in> dom (rps_versions r)"
    if "(a, b, c) \<in> set riscv_implicit_subsets" "rps_versions r a = Some v" "check_on c a b v" for a b c v
  proof -
    have "implied rps a" "v = final_version rps a"
      using that(2) by (simp_all add: assms split: if_splits)
    then have "implied rps b" using implied_by that(1,3) by blast
    then show ?thesis by (simp add: assms domIff)
  qed
  then show ?thesis unfolding table_closed_def by blast
qed

text \<open>The common end of parsing and updating: close the list, then look for conflicts.\<close>

lemma close_and_check:
  assumes "rps_ok rps"
  shows "\<exists>r ok. do { r1 \<leftarrow> riscv_parse_add_implicit_subsets rps; riscv_parse_check_conflicts r1 } =
             Some (r, ok) \<and> rps_ok r \<and> rps_xlen r = rps_xlen rps \<and> table_closed (rps_versions r) \<and>
           (ok \<longleftrightarrow> conflicts (rps_xlen rps) (rps_versions r) = {})"
proof -
  obtain r1 where r1: "riscv_parse_add_implicit_subsets rps = Some r1" "closing rps r1"
      "rps_versions r1 = (\<lambda>n. if implied rps n then Some (final_version rps n) else None)"
    using closing_ends [OF closing_start [OF assms]] by blast
  then have ok1: "rps_ok r1" "rps_xlen r1 = rps_xlen rps" by (simp_all add: closing_def)
  then obtain r ok where r: "riscv_parse_check_conflicts r1 = Some (r, ok)"
      "reports r1 (r, ok) (conflicts (rps_xlen rps) (rps_versions r1))"
    using check_conflicts_spec by fastforce
  then have "rps_subset_list r = rps_subset_list r1" "rps_xlen r = rps_xlen rps"
      "ok \<longleftrightarrow> conflicts (rps_xlen rps) (rps_versions r1) = {}"
    using ok1(2) by (simp_all add: reports_def)
  with r1 r ok1 closure_closed [OF r1(3)] show ?thesis by (simp add: rps_ok_def)
qed

lemma riscv_parse_extensions_defined:
  assumes "rps_ok rps" "rps_check_unknown_prefixed_ext rps" "arch_safe p"
  shows "\<exists>r ok. riscv_parse_extensions rps p = Some (r, ok) \<and> same_setting rps r"
proof (cases "c_char p 0 \<in> {CHR ''e'', CHR ''i'', CHR ''g''}")
  case True
  then have "p \<noteq> [] \<longrightarrow> \<not> ISDIGIT (hd p)"
    by (cases p) (auto simp: c_char_def ISDIGIT_def)
  with parse_extensions_loop_defined [OF assms] True show ?thesis
    by (simp add: riscv_parse_extensions_def)
next
  case False
  with assms(1) show ?thesis by (auto simp: riscv_parse_extensions_def same_setting_def)
qed




section \<open>Every result keeps the list in order\<close>

lemma suffix_name_chars: "list_all name_char p \<Longrightarrow> version_loop (drop q p) v m a = Some (rest, w) \<Longrightarrow>
    list_all name_char rest"
proof -
  assume p: "list_all name_char p" and v: "version_loop (drop q p) v m a = Some (rest, w)"
  obtain t where "drop q p = t @ rest" using version_loop_suffix [OF v] by blast
  then have "set rest \<subseteq> set p" by (metis Un_upper2 set_append set_drop_subset subset_trans)
  with p show ?thesis by (auto simp: list_all_iff)
qed

lemma version_name_chars:
  "list_all name_char p \<Longrightarrow> riscv_parsing_subset_version (drop q p) = Some (rest, a, b) \<Longrightarrow>
     list_all name_char rest"
  using suffix_name_chars
  by (fastforce simp: riscv_parsing_subset_version_def Let_def split: bind_splits if_splits prod.splits)

lemma add_keeps:
  assumes "rps_ok rps" "wf_ext n" "riscv_parse_add_subset rps n a b imp = Some r"
  shows "same_setting rps r"
  using riscv_parse_add_subset_spec [OF assms(1,2), of a b imp] assms(3)
  by (auto simp: same_setting_def)

lemma parse_extensions_loop_keeps:
  assumes "rps_ok rps" "rps_check_unknown_prefixed_ext rps" "list_all name_char p"
    and "parse_extensions_loop rps p = Some (r, ok)"
  shows "same_setting rps r"
  using assms
proof (induction rps p arbitrary: r ok rule: parse_extensions_loop.induct)
  case (1 rps)
  then show ?case by (simp add: same_setting_def)
next
  case (2 rps c cs)
  show ?case
  proof (cases "c = CHR ''_''")
    case True
    with 2 show ?thesis by simp
  next
    case False
    with 2(6) obtain sv where sv: "start_of_version (c # cs) = Some sv"
      by (cases "start_of_version (c # cs)") auto
    show ?thesis
    proof (cases sv)
      case (Inl e)
      with False sv 2 show ?thesis by (auto simp: same_setting_def)
    next
      case (Inr q)
      with False sv 2(6) obtain rest a b where
          v: "riscv_parsing_subset_version (drop q (c # cs)) = Some (rest, a, b)"
        by (cases "riscv_parsing_subset_version (drop q (c # cs))") auto
      define single where "single = (riscv_get_prefix_class (c # cs) = RV_ISA_CLASS_SINGLE)"
      define g where "g = (single \<and> take q (c # cs) = ''g'')"
      note eq = parse_extensions_step [OF False sv [unfolded Inr] v single_def g_def, of rps]
      show ?thesis
      proof (cases "single \<or> riscv_recognized_prefixed_ext (take q (c # cs))")
        case rejected: False
        with eq 2(3,4,6) show ?thesis by (auto simp: same_setting_def)
      next
        case known: True
        then have "wf_ext (take q (c # cs))"
          using ext_name_wf [OF 2(5)] sv Inr by (simp add: single_def)
        moreover obtain r1 where r1: "riscv_parse_add_subset rps (take q (c # cs)) (if g then - 1 else a)
              (if g then - 1 else b) g = Some r1"
          using eq 2(6) known
          by (cases "riscv_parse_add_subset rps (take q (c # cs)) (if g then - 1 else a)
                (if g then - 1 else b) g") auto
        ultimately have s1: "same_setting rps r1" using add_keeps 2(3) by blast
        show ?thesis
        proof (cases "\<not> single \<and> rest \<noteq> [] \<and> hd rest \<noteq> CHR ''_''")
          case True
          with eq 2(6) known r1 s1 show ?thesis by (auto simp: same_setting_def)
        next
          case cont: False
          have "parse_extensions_loop r1 rest = Some (r, ok)"
            using eq 2(6) known r1 cont by (simp only: option.case if_False) auto
          moreover have "rps_ok r1" "rps_check_unknown_prefixed_ext r1"
            using s1 2(4) unfolding same_setting_def by simp_all
          ultimately have "same_setting r1 r"
            using 2(2) [OF False sv Inr v refl refl refl single_def g_def _ r1 cont] known
              version_name_chars [OF 2(5) v]
            by blast
          with s1 show ?thesis by (rule same_setting_trans)
        qed
      qed
    qed
  qed
qed

lemma riscv_parse_subset_keeps:
  assumes "rps_ok rps" "rps_check_unknown_prefixed_ext rps" "CHR 0x00 \<notin> set arch"
    and "riscv_parse_subset rps (Some arch) = Some (r, ok)"
  shows "rps_ok r \<and> (ok \<longrightarrow> table_closed (rps_versions r) \<and> conflicts (rps_xlen r) (rps_versions r) = {})"
proof (cases "list_ex ISUPPER arch \<or> \<not> startswith arch ''rv32'' \<and> \<not> startswith arch ''rv64''")
  case True
  with assms show ?thesis by (auto simp: riscv_parse_subset_def split: if_splits)
next
  case False
  define rps0 where "rps0 = rps\<lparr>rps_xlen := (if startswith arch ''rv32'' then 32 else 64)\<rparr>"
  have chars: "list_all name_char (drop 4 arch)"
    using assms(3) False by (auto simp: list_all_iff list_ex_iff name_char_def dest: in_set_dropD)
  have ok0: "rps_ok rps0" "rps_check_unknown_prefixed_ext rps0"
    using assms(1,2) by (simp_all add: rps_ok_def rps0_def)
  obtain r1 ok1 where r1: "riscv_parse_extensions rps0 (drop 4 arch) = Some (r1, ok1)"
    using assms(4) False by (cases "riscv_parse_extensions rps0 (drop 4 arch)")
      (auto simp: riscv_parse_subset_def rps0_def Let_def)
  have eq: "riscv_parse_subset rps (Some arch) =
      (if \<not> ok1 then Some (r1, False)
       else do { r2 \<leftarrow> riscv_parse_add_implicit_subsets r1; riscv_parse_check_conflicts r2 })"
    using False r1 unfolding riscv_parse_subset_def
    by (simp only: option.case Let_def rps0_def [symmetric] bind.simps prod.case de_Morgan_disj if_False
        not_False_eq_True)
  have "rps_ok r1"
    using r1 parse_extensions_loop_keeps [OF ok0 chars, of r1 ok1] ok0(1)
    by (auto simp: riscv_parse_extensions_def same_setting_def split: if_splits)
  with close_and_check [OF this] eq assms(4) show ?thesis by (cases ok1) auto
qed

lemma update_name_wf:
  assumes "list_all name_char n" "update_unknown rps n = Some False" "rps_check_unknown_prefixed_ext rps"
  shows "wf_ext n"
proof (cases "length n = 1")
  case True
  then obtain c where "n = [c]" by (auto simp: length_Suc_conv)
  with assms read_nonzero_std [of c] std_letter_class [of c] show ?thesis
    by (auto simp: update_unknown_def c_char_def wf_ext_def)
next
  case False
  with assms recognized_wf show ?thesis by (auto simp: update_unknown_def split: if_splits)
qed

lemma update_one_keeps:
  assumes "rps_ok rps" "wf_ext n" "update_one rps d n a b = Some r"
  shows "same_setting rps r"
proof (cases d)
  case True
  with assms riscv_remove_subset_versions [of "rps_subset_list rps" n] show ?thesis
    by (auto simp: update_one_def same_setting_def rps_ok_def)
next
  case False
  with assms add_keeps show ?thesis by (auto simp: update_one_def)
qed

section \<open>Updates\<close>

text \<open>
  The arguments of \<^verbatim>\<open>.option arch\<close> for which an update is defined: a sign first and behind every
  comma, behind a sign a letter other than \<open>p\<close>, and no long numbers.
\<close>

definition sign :: "char \<Rightarrow> bool" where
  "sign c \<longleftrightarrow> c = CHR ''+'' \<or> c = CHR ''-''"

fun update_seps :: "string \<Rightarrow> bool" where
  "update_seps [] = True"
| "update_seps (c # cs) =
     (name_char c \<and>
      (sign c \<longrightarrow> 97 \<le> (of_char (c_char cs 0) :: nat) \<and> (of_char (c_char cs 0) :: nat) \<le> 122 \<and>
                c_char cs 0 \<noteq> CHR ''p'') \<and>
      (c = CHR '','' \<longrightarrow> sign (c_char cs 0)) \<and> update_seps cs)"

definition update_safe :: "string \<Rightarrow> bool" where
  "update_safe p \<longleftrightarrow> sign (c_char p 0) \<and> update_seps p \<and> digit_runs 0 p"

lemma update_seps_suffix: "update_seps (t @ r) \<Longrightarrow> update_seps r"
  by (induction t) auto

lemma update_seps_chars: "update_seps p \<Longrightarrow> list_all name_char p"
  by (induction p) auto

lemma back_scan_update_defined:
  "c_char s 0 \<noteq> CHR ''p'' \<Longrightarrow> \<exists>q. back_scan_update s n fa fm = Some q"
  by (induction n arbitrary: fa fm) auto

lemma update_start_defined:
  assumes "c_char p 0 \<noteq> CHR ''p''"
  shows "update_start_of_version p \<noteq> None"
proof -
  define len where "len = length (takeWhile (\<lambda>c. c \<noteq> CHR '','') p)"
  obtain q0 where q0: "back_scan_update p len False False = Some q0"
    using back_scan_update_defined [OF assms] by blast
  define q where "q = (if len > 0 then Suc q0 else q0)"
  have nq: "\<not> q < 2" if "len > 1" "c_char p (q - 1) = CHR ''p''"
    using assms that by (cases q0) (auto simp: q_def)
  have "update_start_of_version p =
      (if len > 1 \<and> c_char p (q - 1) = CHR ''p''
       then if q < 2 then None
            else if ISDIGIT (c_char p (q - 2)) then Some (Inl Err_option_arch_number_p)
            else Some (Inr q)
       else Some (Inr q))"
    unfolding update_start_of_version_def Let_def len_def [symmetric] q0 bind.simps q_def ..
  with nq show ?thesis by simp
qed

lemma update_start_pos:
  assumes "update_start_of_version p = Some (Inr q)" "c_char p 0 \<noteq> CHR ''p''"
    "97 \<le> (of_char (c_char p 0) :: nat)" "(of_char (c_char p 0) :: nat) \<le> 122"
  shows "0 < q"
proof -
  have "c_char p 0 \<noteq> CHR '',''" "p \<noteq> []" using assms(3) by (auto simp: c_char_def)
  then have "0 < length (takeWhile (\<lambda>c. c \<noteq> CHR '','') p)" by (cases p) (auto simp: c_char_def)
  then show ?thesis
    using assms(1) by (auto simp: update_start_of_version_def Let_def split: bind_splits if_splits)
qed

text \<open>One round of the update loop: an error, the next round, or the common end.\<close>

lemma update_round:
  assumes "rps_ok rps" "rps_check_unknown_prefixed_ext rps" "update_safe p"
  obtains (err) r where "update_loop rps p = Some (r, False)" "same_setting rps r"
  | (again) r p' where "update_loop rps p = update_loop r p'" "same_setting rps r" "update_safe p'"
      "length p' < length p"
  | (stop) r where "same_setting rps r" "update_loop rps p =
      do { r2 \<leftarrow> riscv_parse_add_implicit_subsets r; riscv_parse_check_conflicts r2 }"
proof -
  obtain c cs where p: "p = c # cs" "sign c" using assms(3) by (cases p) (auto simp: update_safe_def c_char_def sign_def)
  have cs: "97 \<le> (of_char (c_char cs 0) :: nat)" "(of_char (c_char cs 0) :: nat) \<le> 122"
      "c_char cs 0 \<noteq> CHR ''p''" "update_seps cs" "digit_runs 0 cs"
    using assms(3) p digit_runs_suffix [of 0 "[c]" cs] by (auto simp: update_safe_def)
  have start: "\<not> (c_char (c # cs) 0 \<noteq> CHR ''+'' \<and> c_char (c # cs) 0 \<noteq> CHR ''-'')"
    using p by (auto simp: sign_def c_char_def)
  obtain sv where sv: "update_start_of_version cs = Some sv" using update_start_defined [OF cs(3)] by blast
  show thesis
  proof (cases sv)
    case (Inl e)
    have "update_loop rps p = Some (error_handler e rps, False)"
      by (subst update_loop.simps) (simp only: start if_False p list.sel sv Inl option.case sum.case)
    then show thesis using err assms(1) by (auto simp: same_setting_def)
  next
    case (Inr q)
    have dr: "digit_runs 0 (drop q cs)"
      using digit_runs_suffix [of 0 "take q cs" "drop q cs"] cs(5) by simp
    obtain rest w mp a0 where l: "version_loop (drop q cs) 0 True 0 = Some (rest, w, mp, a0)"
      using version_loop_defined [OF dr, of 0 True 0] by auto
    then have "\<exists>a b. riscv_parsing_subset_version (drop q cs) = Some (rest, a, b)"
      by (simp add: riscv_parsing_subset_version_def)
    then obtain a b where v: "riscv_parsing_subset_version (drop q cs) = Some (rest, a, b)" by blast
    obtain t where t: "drop q cs = t @ rest" using version_loop_suffix [OF l] by blast
    have chars: "list_all name_char (take q cs)"
      using take_name_chars update_seps_chars cs(4) by blast
    have "c_char (take q cs) 0 = c_char cs 0"
      using update_start_pos [OF sv [unfolded Inr] cs(3,1,2)] by (simp add: c_char_def)
    then have "update_unknown rps (take q cs) \<noteq> None"
      using cs(1,2) by (auto simp: update_unknown_def read_ext_order_def)
    then obtain u where u: "update_unknown rps (take q cs) = Some u" by blast
    define n where "n = take q cs"
    have round: "update_loop rps p =
        (if u then Some (error_handler (Err_option_arch_unknown n) rps, False)
         else if n \<in> {''i'', ''e'', ''g''} then Some (error_handler (Err_option_arch_base n) rps, False)
         else case update_one rps (c_char p 0 = CHR ''-'') n a b of
                None \<Rightarrow> None
              | Some rps' \<Rightarrow>
                  if c_char rest 0 = CHR '','' then update_loop rps' (tl rest)
                  else do { rps2 \<leftarrow> riscv_parse_add_implicit_subsets rps'; riscv_parse_check_conflicts rps2 })"
      by (subst update_loop.simps)
        (simp only: start if_False p list.sel sv Inr v u n_def option.case sum.case prod.case)
    show thesis
    proof (cases "u \<or> n \<in> {''i'', ''e'', ''g''}")
      case True
      then obtain e where "update_loop rps p = Some (error_handler e rps, False)"
        using round by (metis (full_types))
      then show thesis using err assms(1) by (auto simp: same_setting_def)
    next
      case False
      then have "wf_ext n" using update_name_wf [OF chars] u assms(2) by (simp add: n_def)
      then obtain r0 where "riscv_parse_add_subset rps n a b True = Some r0"
        using riscv_parse_add_subset_spec [OF assms(1)] by blast
      then have "update_one rps (c_char p 0 = CHR ''-'') n a b \<noteq> None" by (simp add: update_one_def)
      then obtain r where r: "update_one rps (c_char p 0 = CHR ''-'') n a b = Some r" by blast
      have s: "same_setting rps r" using update_one_keeps [OF assms(1) \<open>wf_ext n\<close> r] .
      show thesis
      proof (cases "c_char rest 0 = CHR '',''")
        case True
        then obtain rest' where rest': "rest = CHR '','' # rest'" by (cases rest) (auto simp: c_char_def)
        have "update_seps rest" "digit_runs 0 rest"
          using update_seps_suffix [of "take q cs @ t" rest] digit_runs_suffix [of 0 "take q cs @ t" rest]
            cs(4,5) t by (metis append.assoc append_take_drop_id)+
        then have "update_safe rest'" by (simp add: rest' update_safe_def ISDIGIT_def)
        moreover have "length rest' < length p"
          using arg_cong [OF t, of length] by (simp add: rest' p)
        moreover have "update_loop rps p = update_loop r rest'"
          using round False r True by (simp add: rest')
        ultimately show thesis using again s by blast
      next
        case last: False
        show thesis using stop [OF s] round False r last by simp
      qed
    qed
  qed
qed

lemma update_loop_spec:
  assumes "rps_ok rps" "rps_check_unknown_prefixed_ext rps" "update_safe p"
  shows "\<exists>r ok. update_loop rps p = Some (r, ok) \<and> rps_ok r \<and>
           (ok \<longrightarrow> table_closed (rps_versions r) \<and> conflicts (rps_xlen rps) (rps_versions r) = {})"
  using assms
proof (induction "length p" arbitrary: rps p rule: less_induct)
  case less
  show ?case
  proof (cases rule: update_round [OF less.prems, case_names err again stop])
    case (err r)
    then show ?thesis by (auto simp: same_setting_def)
  next
    case (again r p')
    have "rps_ok r" "rps_check_unknown_prefixed_ext r" "rps_xlen r = rps_xlen rps"
      using again(2) less.prems(2) unfolding same_setting_def by simp_all
    with less.hyps [OF again(4) _ _ again(3)] again(1) show ?thesis by metis
  next
    case (stop r)
    have "rps_ok r" "rps_xlen r = rps_xlen rps" using stop(1) unfolding same_setting_def by simp_all
    with close_and_check [of r] stop(2) show ?thesis by metis
  qed
qed

text \<open>
  C9. An update by \<^verbatim>\<open>.option arch\<close> with a well-separated argument is free of undefined behaviour, ends,
  and keeps the list in order; when it reports success the updated list is closed under the
  implication table and free of conflicts.
\<close>

theorem update_subset_consistent:
  assumes "rps_ok rps" "rps_check_unknown_prefixed_ext rps" "update_safe str"
  shows "\<exists>r ok. riscv_update_subset rps str = Some (r, ok) \<and> rps_ok r \<and>
           (ok \<longrightarrow> table_closed (versions (rps_subset_list r)) \<and>
                  conflicts (rps_xlen rps) (versions (rps_subset_list r)) = {})"
  using update_loop_spec [OF assms] by (simp add: riscv_update_subset_def)

lemma update_subset_consistent_witness:
  "\<exists>r ok. riscv_update_subset (rps_start 64) ''+zba1p0,-c,+d'' = Some (r, ok) \<and> rps_ok r \<and>
     (ok \<longrightarrow> table_closed (versions (rps_subset_list r)) \<and>
            conflicts (rps_xlen (rps_start 64)) (versions (rps_subset_list r)) = {})"
proof (rule update_subset_consistent)
  show "update_safe ''+zba1p0,-c,+d''"
    by (simp add: update_safe_def sign_def name_char_def ISUPPER_def ISDIGIT_def c_char_def)
qed (simp_all add: rps_start_def rps_ok_def)

text \<open>
  An update cannot touch the base: adding or removing \<open>i\<close>, \<open>e\<close> or \<open>g\<close> is refused with an error and
  leaves the list as it was.
\<close>

theorem update_base_refused:
  "b \<in> {''i'', ''e'', ''g''} \<Longrightarrow> s \<in> {CHR ''+'', CHR ''-''} \<Longrightarrow>
     riscv_update_subset rps (s # b) = Some (error_handler (Err_option_arch_base b) rps, False)"
  by (auto simp: riscv_update_subset_def update_start_of_version_def riscv_parsing_subset_version_def
      update_unknown_def read_ext_order_def riscv_ext_order_eval c_char_def ISDIGIT_def)

lemma update_base_refused_witness:
  "riscv_update_subset (rps_start 32) ''-i'' =
     Some (error_handler (Err_option_arch_base ''i'') (rps_start 32), False)"
  by (rule update_base_refused) simp_all

text \<open>
  A name that starts with \<open>p\<close> and ends in a version makes the update read the byte before the
  copied argument.
\<close>

theorem update_reads_before_start: "riscv_update_subset rps ''+p2'' = None"
  by (simp add: riscv_update_subset_def update_start_of_version_def c_char_def ISDIGIT_def)

end
