(* ===== verification/RV_Arch.thy ===== *)
theory RV_Arch
  imports RV_Implicit
begin

text \<open>
  Printing the list of extensions, \<open>riscv_arch_str\<close> of \<^verbatim>\<open>bfd/elfxx-riscv.c\<close>.  The C code computes an
  upper bound of the length first, allocates two buffers of that size and appends to the first
  without further checks; \<open>None\<close> stands for a write behind the end of the buffer.
\<close>

section \<open>Decimal numbers\<close>

fun dec :: "nat \<Rightarrow> string" where
  "dec n = (if n < 10 then [char_of (48 + n)] else dec (n div 10) @ [char_of (48 + n mod 10)])"

declare dec.simps [simp del]

definition dec_int :: "int \<Rightarrow> string" where
  "dec_int v = (if v < 0 then CHR ''-'' # dec (nat (- v)) else dec (nat v))"

definition to_unsigned :: "int \<Rightarrow> nat" where
  "to_unsigned v = nat (v mod 4294967296)"

section \<open>The estimate\<close>

fun count_digits :: "nat \<Rightarrow> nat" where
  "count_digits num = (if num = 0 then 0 else Suc (count_digits (num div 10)))"

declare count_digits.simps [simp del]

definition riscv_estimate_digit :: "nat \<Rightarrow> nat" where
  "riscv_estimate_digit num = (if num = 0 then 1 else count_digits num)"

fun riscv_estimate_arch_strlen1 :: "riscv_subset list \<Rightarrow> nat" where
  "riscv_estimate_arch_strlen1 [] = 6"
| "riscv_estimate_arch_strlen1 (s # ss) =
     riscv_estimate_arch_strlen1 ss + length (ss_name s) +
     riscv_estimate_digit (to_unsigned (ss_major_version s)) + 1 +
     riscv_estimate_digit (to_unsigned (ss_minor_version s)) + 1"

definition riscv_estimate_arch_strlen :: "riscv_subset_list \<Rightarrow> nat" where
  "riscv_estimate_arch_strlen sl = riscv_estimate_arch_strlen1 (sl_head sl)"

section \<open>The string\<close>

definition snprintf :: "nat \<Rightarrow> string \<Rightarrow> string" where
  "snprintf bufsz s = take (bufsz - 1) s"

definition strncat :: "nat \<Rightarrow> string \<Rightarrow> string \<Rightarrow> nat \<Rightarrow> string option" where
  "strncat capacity dst src n =
     (let r = dst @ take n src in if length r < capacity then Some r else None)"

definition ext_str :: "riscv_subset \<Rightarrow> string" where
  "ext_str s =
     (if strcasecmp (ss_name s) ''i'' = 0 \<or> strcasecmp (ss_name s) ''e'' = 0 then '''' else ''_'') @
     ss_name s @ dec_int (ss_major_version s) @ ''p'' @ dec_int (ss_minor_version s)"

definition unknown_version :: "riscv_subset \<Rightarrow> bool" where
  "unknown_version s \<longleftrightarrow>
     ss_major_version s = RISCV_UNKNOWN_VERSION \<or> ss_minor_version s = RISCV_UNKNOWN_VERSION"

text \<open>The \<open>while\<close> loop that passes over \<open>i\<close> behind \<open>e\<close> and unknown versions.\<close>

fun skip_next :: "riscv_subset \<Rightarrow> riscv_subset list \<Rightarrow> riscv_subset list" where
  "skip_next s [] = []"
| "skip_next s (n # ns) =
     (if ss_name s = ''e'' \<and> ss_name n = ''i'' \<or> unknown_version n then skip_next n ns else n # ns)"

lemma skip_next_length: "length (skip_next s ss) \<le> length ss"
  by (induction s ss rule: skip_next.induct) auto

function riscv_arch_str1 :: "nat \<Rightarrow> riscv_subset list \<Rightarrow> string \<Rightarrow> string option" where
  "riscv_arch_str1 bufsz [] attr_str = Some attr_str"
| "riscv_arch_str1 bufsz (s # ss) attr_str =
     (case strncat bufsz attr_str (snprintf bufsz (ext_str s)) bufsz of
        None \<Rightarrow> None
      | Some a \<Rightarrow> riscv_arch_str1 bufsz (skip_next s ss) a)"
  by pat_completeness auto
termination
  by (relation "measure (\<lambda>(_, ss, _). length ss)") (auto simp: skip_next_length le_imp_less_Suc)

definition riscv_arch_str :: "nat \<Rightarrow> riscv_subset_list \<Rightarrow> string option" where
  "riscv_arch_str xlen sl =
     (let n = riscv_estimate_arch_strlen sl
      in riscv_arch_str1 n (sl_head sl) (snprintf n (''rv'' @ dec xlen)))"

section \<open>The estimate is large enough\<close>

lemma length_dec: "length (dec n) = (if n = 0 then 1 else count_digits n)"
proof (induction n rule: dec.induct)
  case (1 n)
  show ?case
  proof (cases "n < 10")
    case True
    then show ?thesis by (simp add: dec.simps [of n] count_digits.simps [of n] count_digits.simps [of 0])
  next
    case False
    then have "n div 10 \<noteq> 0" by simp
    with 1 False show ?thesis by (simp add: dec.simps [of n] count_digits.simps [of n])
  qed
qed

definition version_range :: "int \<Rightarrow> bool" where
  "version_range v \<longleftrightarrow> - 1 \<le> v \<and> v \<le> 2147483647"

lemma count_digits_max: "count_digits 4294967295 = 10"
  by (simp add: count_digits.simps)

lemma count_digits_le: "n < 10 ^ k \<Longrightarrow> count_digits n \<le> k"
proof (induction k arbitrary: n)
  case 0
  then show ?case by (simp add: count_digits.simps)
next
  case (Suc k)
  then have "n div 10 < 10 ^ k" by (simp add: less_mult_imp_div_less)
  with Suc.IH show ?case by (simp add: count_digits.simps [of n])
qed

lemma length_dec_int:
  assumes "version_range v"
  shows "length (dec_int v) \<le> riscv_estimate_digit (to_unsigned v)"
proof (cases "v = - 1")
  case True
  then show ?thesis
    by (simp add: dec_int_def dec.simps riscv_estimate_digit_def to_unsigned_def count_digits_max)
next
  case False
  with assms have "0 \<le> v" "v mod 4294967296 = v" by (simp_all add: version_range_def)
  then show ?thesis
    by (simp add: dec_int_def length_dec riscv_estimate_digit_def to_unsigned_def)
qed

definition ranges_ok :: "riscv_subset list \<Rightarrow> bool" where
  "ranges_ok ss \<longleftrightarrow> list_all (\<lambda>s. version_range (ss_major_version s) \<and> version_range (ss_minor_version s)) ss"

definition ext_estimate :: "riscv_subset \<Rightarrow> nat" where
  "ext_estimate s = length (ss_name s) + riscv_estimate_digit (to_unsigned (ss_major_version s)) + 1 +
     riscv_estimate_digit (to_unsigned (ss_minor_version s)) + 1"

lemma estimate_sum: "riscv_estimate_arch_strlen1 ss = 6 + sum_list (map ext_estimate ss)"
  by (induction ss) (auto simp: ext_estimate_def)

lemma ext_str_estimate:
  "version_range (ss_major_version s) \<Longrightarrow> version_range (ss_minor_version s) \<Longrightarrow>
     length (ext_str s) \<le> ext_estimate s"
  using length_dec_int [of "ss_major_version s"] length_dec_int [of "ss_minor_version s"]
  by (simp add: ext_str_def ext_estimate_def)

lemma skip_next_suffix: "\<exists>t. ss = t @ skip_next s ss"
proof (induction s ss rule: skip_next.induct)
  case (2 s n ns)
  then show ?case by (cases "ss_name s = ''e'' \<and> ss_name n = ''i'' \<or> unknown_version n") (auto intro: exI [of _ "n # _"])
qed simp

lemma skip_next_keeps:
  "sum_list (map ext_estimate (skip_next s ss)) \<le> sum_list (map ext_estimate ss)"
  "ranges_ok ss \<Longrightarrow> ranges_ok (skip_next s ss)"
  by (induction s ss rule: skip_next.induct) (auto simp: ranges_ok_def)

text \<open>The entries that are printed, and the string without any buffer.\<close>

function printed :: "riscv_subset list \<Rightarrow> riscv_subset list" where
  "printed [] = []"
| "printed (s # ss) = s # printed (skip_next s ss)"
  by pat_completeness auto
termination
  by (relation "measure length") (auto simp: skip_next_length le_imp_less_Suc)

lemma riscv_arch_str1_fits:
  assumes "ranges_ok ss" "length attr + sum_list (map ext_estimate ss) < n"
  shows "riscv_arch_str1 n ss attr = Some (attr @ concat (map ext_str (printed ss)))"
  using assms
proof (induction n ss attr rule: riscv_arch_str1.induct)
  case (2 n s ss attr)
  have len: "length (ext_str s) \<le> ext_estimate s"
    using ext_str_estimate 2(2) by (simp add: ranges_ok_def)
  then have cat: "strncat n attr (snprintf n (ext_str s)) n = Some (attr @ ext_str s)"
    using 2(3) by (simp add: strncat_def snprintf_def)
  have "length (attr @ ext_str s) + sum_list (map ext_estimate (skip_next s ss)) < n"
    using len 2(3) skip_next_keeps(1) [of s ss] by simp
  moreover have "ranges_ok (skip_next s ss)"
    using 2(2) skip_next_keeps(2) by (simp add: ranges_ok_def)
  ultimately show ?case using 2(1) [OF cat] cat by simp
qed simp

section \<open>Which entries are printed\<close>

lemma skip_next_plain:
  "ss_name s \<noteq> ''e'' \<Longrightarrow> \<forall>n\<in>set ss. ss_name n \<noteq> ''e'' \<Longrightarrow> skip_next s ss = dropWhile unknown_version ss"
  by (induction s ss rule: skip_next.induct) auto

lemma printed_plain:
  "\<forall>n\<in>set ss. ss_name n \<noteq> ''e'' \<Longrightarrow>
     printed (dropWhile unknown_version ss) = filter (\<lambda>n. \<not> unknown_version n) ss"
proof (induction ss)
  case (Cons s ss)
  then show ?case by (cases "unknown_version s") (auto simp: skip_next_plain)
qed simp

lemma printed_without_e:
  assumes "\<forall>n\<in>set (s # ss). ss_name n \<noteq> ''e''"
  shows "printed (s # ss) = s # filter (\<lambda>n. \<not> unknown_version n) ss"
  using assms by (simp add: skip_next_plain printed_plain)

lemma riscv_arch_str_value:
  assumes "ranges_ok (sl_head sl)" "xlen < 1000"
  shows "riscv_arch_str xlen sl = Some (''rv'' @ dec xlen @ concat (map ext_str (printed (sl_head sl))))"
proof -
  have digits: "count_digits xlen \<le> 3"
    using count_digits_le [of xlen 3] assms(2) by simp
  define n where "n = riscv_estimate_arch_strlen sl"
  have n: "n = 6 + sum_list (map ext_estimate (sl_head sl))"
    by (simp add: n_def riscv_estimate_arch_strlen_def estimate_sum)
  have "snprintf n (''rv'' @ dec xlen) = ''rv'' @ dec xlen"
    using digits n by (simp add: snprintf_def length_dec)
  moreover have "length (''rv'' @ dec xlen) + sum_list (map ext_estimate (sl_head sl)) < n"
    using digits n by (simp add: length_dec)
  ultimately show ?thesis
    using riscv_arch_str1_fits [OF assms(1), of "''rv'' @ dec xlen" n]
    by (simp add: riscv_arch_str_def n_def Let_def)
qed

lemma printed_estimate:
  "ranges_ok ss \<Longrightarrow> length (concat (map ext_str (printed ss))) \<le> sum_list (map ext_estimate ss)"
proof (induction ss rule: printed.induct)
  case (2 s ss)
  have "ranges_ok (skip_next s ss)" "length (ext_str s) \<le> ext_estimate s"
    using 2(2) skip_next_keeps(2) ext_str_estimate by (simp_all add: ranges_ok_def)
  with 2(1) skip_next_keeps(1) [of s ss] show ?case by simp
qed simp

text \<open>
  C7. \<open>riscv_arch_str\<close> never writes behind its buffer and never cuts the text: when the versions
  are unknown or non-negative \<open>int\<close>s and the width has at most three digits, the result is the
  whole concatenation of the printed extensions, shorter than the estimate.
\<close>

theorem arch_str_fits:
  assumes "ranges_ok (sl_head sl)" "xlen < 1000"
  shows "\<exists>s. riscv_arch_str xlen sl = Some s \<and> length s < riscv_estimate_arch_strlen sl \<and>
           s = ''rv'' @ dec xlen @ concat (map ext_str (printed (sl_head sl)))"
proof -
  have "count_digits xlen \<le> 3"
    using count_digits_le [of xlen 3] assms(2) by simp
  then show ?thesis
    using riscv_arch_str_value [OF assms] printed_estimate [OF assms(1)]
    by (auto simp: riscv_estimate_arch_strlen_def estimate_sum length_dec)
qed

lemma arch_str_fits_witness:
  "\<exists>s. riscv_arch_str 32 \<lparr>sl_head = [\<lparr>ss_name = ''i'', ss_major_version = 2, ss_minor_version = 1\<rparr>],
       sl_tail = Some 0, sl_arch_str = None\<rparr> = Some s \<and>
     length s < riscv_estimate_arch_strlen \<lparr>sl_head = [\<lparr>ss_name = ''i'', ss_major_version = 2,
       ss_minor_version = 1\<rparr>], sl_tail = Some 0, sl_arch_str = None\<rparr>"
proof -
  define sl where "sl = \<lparr>sl_head = [\<lparr>ss_name = ''i'', ss_major_version = 2, ss_minor_version = 1\<rparr>],
       sl_tail = Some 0, sl_arch_str = None\<rparr>"
  have "ranges_ok (sl_head sl)" by (simp add: ranges_ok_def version_range_def sl_def)
  from arch_str_fits [OF this, of 32] show ?thesis unfolding sl_def [symmetric] by auto
qed

end
