(* ===== verification/RV_Roundtrip.thy ===== *)
theory RV_Roundtrip
  imports RV_Parse RV_Arch
begin

text \<open>
  Reading back a printed ISA string: the arch attribute one tool writes with \<open>riscv_arch_str\<close> gives
  another tool, through \<open>riscv_parse_subset\<close>, the same extensions with the same versions.
\<close>

section \<open>Numbers\<close>

lemma digit_char:
  assumes "k < 10"
  shows "ISDIGIT (char_of (48 + k))" and "of_char (char_of (48 + k)) - (48 :: int) = int k"
    and "char_of (48 + k) \<noteq> CHR ''p''" and "char_of (48 + k) \<noteq> CHR ''_''"
proof -
  have n: "(of_char (char_of (48 + k)) :: nat) = 48 + k" using assms by simp
  show "ISDIGIT (char_of (48 + k))" using assms unfolding ISDIGIT_def n by simp
  have "(of_char (char_of (48 + k)) :: int) = int (of_char (char_of (48 + k)))"
    by (simp only: of_nat_of_char)
  then show "of_char (char_of (48 + k)) - (48 :: int) = int k" unfolding n by simp
  have "(of_char (char_of (48 + k)) :: nat) \<noteq> of_char (CHR ''p'')" unfolding n using assms by simp
  then show "char_of (48 + k) \<noteq> CHR ''p''" by metis
  have "(of_char (char_of (48 + k)) :: nat) \<noteq> of_char (CHR ''_'')" unfolding n using assms by simp
  then show "char_of (48 + k) \<noteq> CHR ''_''" by metis
qed

lemma dec_digits: "c \<in> set (dec n) \<Longrightarrow> ISDIGIT c \<and> c \<noteq> CHR ''_'' \<and> c \<noteq> CHR ''p''"
proof (induction n rule: dec.induct)
  case (1 n)
  then show ?case
    using digit_char [of n] digit_char [of "n mod 10"]
    by (cases "n < 10") (auto simp: dec.simps [of n])
qed

lemma dec_nonempty: "dec n \<noteq> []"
  by (simp add: dec.simps [of n])

lemma version_loop_dec:
  "n \<le> 2147483647 \<Longrightarrow> version_loop (dec n @ r) 0 m a = version_loop r (int n) m a"
proof (induction n arbitrary: r rule: dec.induct)
  case (1 n)
  show ?case
  proof (cases "n < 10")
    case True
    with digit_char [of n] 1(2) show ?thesis by (simp add: dec.simps [of n])
  next
    case False
    have val: "int (n div 10) * 10 + int (n mod 10) = int n"
      by (metis div_mult_mod_eq of_nat_add of_nat_mult of_nat_numeral)
    then have le: "int (n div 10) * 10 + int (n mod 10) \<le> 2147483647"
      using 1(2) by simp
    have "version_loop (dec n @ r) 0 m a = version_loop (char_of (48 + n mod 10) # r) (int (n div 10)) m a"
      using 1 False by (simp add: dec.simps [of n])
    also have "\<dots> = version_loop r (int n) m a"
      using digit_char [of "n mod 10"] le val by simp
    finally show ?thesis .
  qed
qed

definition version_str :: "nat \<Rightarrow> nat \<Rightarrow> string" where
  "version_str a b = dec a @ CHR ''p'' # dec b"

lemma parse_version_str:
  assumes "a \<le> 2147483647" "b \<le> 2147483647" "a \<noteq> 0 \<or> b \<noteq> 0" "r = [] \<or> hd r = CHR ''_''"
  shows "riscv_parsing_subset_version (version_str a b @ r) = Some (r, int a, int b)"
proof -
  obtain d ds where d: "dec b = d # ds" "ISDIGIT d" using dec_nonempty [of b] dec_digits [of _ b] by (cases "dec b") auto
  have stop: "version_loop r v m x = Some (r, v, m, x)" for v m x
    using assms(4) by (cases r) (auto simp: ISDIGIT_def)
  have "version_loop (version_str a b @ r) 0 True 0 = version_loop (CHR ''p'' # dec b @ r) (int a) True 0"
    using assms(1) version_loop_dec [of a] by (simp add: version_str_def)
  also have "\<dots> = version_loop (dec b @ r) 0 False (int a)"
    using d by (simp add: c_char_def)
  also have "\<dots> = Some (r, int b, False, int a)"
    using assms(2) version_loop_dec [of b] stop by simp
  finally show ?thesis using assms(3) by (simp add: riscv_parsing_subset_version_def)
qed

section \<open>Names\<close>

text \<open>
  The names the parser itself produces: no underscore, no digit at the end (it would belong to the
  version), and not a digit followed by \<open>p\<close> at the end.
\<close>

definition plain_name :: "string \<Rightarrow> bool" where
  "plain_name n \<longleftrightarrow>
     n \<noteq> [] \<and> CHR ''_'' \<notin> set n \<and> \<not> ISDIGIT (last n) \<and>
     \<not> (last n = CHR ''p'' \<and> ISDIGIT (c_char n (length n - 2)))"

lemma back_scan_digits:
  "\<forall>i<n. ISDIGIT (c_char s (k + i)) \<Longrightarrow> 0 < n \<Longrightarrow> back_scan s (k + n) fa fm = back_scan s k True fm"
proof (induction n arbitrary: fa)
  case (Suc n)
  then have "back_scan s (k + Suc n) fa fm = back_scan s (k + n) True fm" by simp
  with Suc show ?case by (cases "n = 0") auto
qed simp

lemma c_char_append:
  "c_char (s @ t) i = (if i < length s then c_char s i else c_char t (i - length s))"
  by (auto simp: c_char_def nth_append)

lemma dec_char: "i < length (dec n) \<Longrightarrow> ISDIGIT (c_char (dec n @ t) i)"
  using dec_digits nth_mem by (fastforce simp: c_char_def nth_append)

lemma back_scan_version:
  assumes "plain_name n"
  shows "back_scan (n @ version_str a b @ r) (length (n @ version_str a b)) False False = Some (length n)"
proof -
  define s where "s = n @ version_str a b @ r"
  define la lb where "la = length (dec a)" and "lb = length (dec b)"
  have pos: "0 < la" "0 < lb" "0 < length n"
    using dec_nonempty assms by (auto simp: la_def lb_def plain_name_def)
  have sa: "c_char s (length n + i) = c_char (dec a @ CHR ''p'' # dec b @ r) i" for i
    by (simp add: s_def version_str_def c_char_append)
  have sb: "c_char s (length n + la + 1 + i) = c_char (dec b @ r) i" for i
    using c_char_append [of "n @ dec a @ ''p''" "dec b @ r" "length n + la + 1 + i"]
    by (simp add: s_def version_str_def la_def)
  have sp: "c_char s (length n + la) = CHR ''p''"
    using sa [of la] by (simp add: c_char_append la_def c_char_def)
  have "back_scan s (length n + la + 1 + lb) False False = back_scan s (Suc (length n + la)) True False"
    using back_scan_digits [of lb s "length n + la + 1" False False] sb dec_char pos by (simp add: lb_def)
  also have "\<dots> = back_scan s (length n + la) True True"
  proof -
    have idx: "length n + la - 1 = length n + (la - 1)" using pos by simp
    have "ISDIGIT (c_char s (length n + la - 1))"
      unfolding idx sa using dec_char [of "la - 1" a] pos by (simp add: la_def)
    then show ?thesis using sp pos by (simp add: ISDIGIT_def)
  qed
  also have "\<dots> = back_scan s (length n) True True"
    using back_scan_digits [of la s "length n" True True] sa dec_char pos by (simp add: la_def)
  also have "\<dots> = Some (length n)"
  proof -
    obtain m where m: "length n = Suc m" using pos(3) by (cases "length n") auto
    then have "n \<noteq> []" by auto
    then have "last n = n ! m" using last_conv_nth [of n] m by simp
    moreover have "c_char s m = n ! m" using m by (simp add: s_def c_char_def nth_append)
    ultimately have "c_char s m = last n" by simp
    with m assms show ?thesis by (simp add: plain_name_def)
  qed
  finally show ?thesis by (simp add: s_def la_def lb_def version_str_def ac_simps)
qed

lemma takeWhile_name:
  assumes "plain_name n" "r = [] \<or> hd r = CHR ''_''"
  shows "takeWhile (\<lambda>c. c \<noteq> CHR ''_'') (n @ version_str a b @ r) = n @ version_str a b"
proof -
  have "\<forall>c\<in>set (n @ version_str a b). c \<noteq> CHR ''_''"
    using assms(1) dec_digits by (auto simp: plain_name_def version_str_def)
  then have "takeWhile (\<lambda>c. c \<noteq> CHR ''_'') ((n @ version_str a b) @ r) =
      (n @ version_str a b) @ takeWhile (\<lambda>c. c \<noteq> CHR ''_'') r"
    by (subst takeWhile_append2) auto
  moreover have "takeWhile (\<lambda>c. c \<noteq> CHR ''_'') r = []" using assms(2) by (cases r) auto
  ultimately show ?thesis by simp
qed

lemma prefix_class_version:
  assumes "n \<noteq> []"
  shows "riscv_get_prefix_class (n @ version_str a b @ r) = riscv_get_prefix_class n"
proof -
  obtain d t where d: "version_str a b @ r = d # t" "ISDIGIT d"
    using dec_nonempty [of a] dec_digits [of _ a] by (cases "dec a") (auto simp: version_str_def)
  have ne: "d \<noteq> CHR ''z''" "d \<noteq> CHR ''x''" "d \<noteq> CHR ''m''" using d(2) by (auto simp: ISDIGIT_def)
  consider c where "n = [c]" | c e where "n = [c, e]" | c e f u where "n = c # e # f # u"
    using assms by (metis neq_Nil_conv)
  then show ?thesis
    unfolding d(1) using ne
    by cases (auto simp: riscv_get_prefix_class_def parse_config_def)
qed

lemma start_of_version_str:
  assumes "plain_name n" "wf_ext n" "r = [] \<or> hd r = CHR ''_''"
  shows "start_of_version (n @ version_str a b @ r) = Some (Inr (length n))"
proof (cases "riscv_get_prefix_class n = RV_ISA_CLASS_SINGLE")
  case True
  then obtain c where c: "n = [c]" "std_letter c" using wf_single assms(2) by blast
  with True prefix_class_version [of n a b r] read_std_letter [of c] show ?thesis
    by (simp add: start_of_version_def c_char_def)
next
  case False
  define s where "s = n @ version_str a b @ r"
  have ne: "n \<noteq> []" using assms(1) by (simp add: plain_name_def)
  have bs: "back_scan s (length (takeWhile (\<lambda>c. c \<noteq> CHR ''_'') s)) False False = Some (length n)"
    unfolding s_def takeWhile_name [OF assms(1,3)] by (rule back_scan_version [OF assms(1)])
  have "c_char s (length n - 1) = last n"
    using ne by (simp add: s_def c_char_append) (simp add: c_char_def last_conv_nth)
  moreover have "c_char s (length n - 2) = c_char n (length n - 2)"
    using ne by (simp add: s_def c_char_append)
  ultimately have "\<not> (c_char s (length n - 1) = CHR ''p'' \<and> ISDIGIT (c_char s (length n - 2)))"
    using assms(1) by (simp add: plain_name_def)
  with False bs prefix_class_version [OF ne, of a b r] show ?thesis
    by (simp add: start_of_version_def s_def [symmetric])
qed

section \<open>The printed list\<close>

text \<open>An entry that can be read back.\<close>

definition readable :: "riscv_subset \<Rightarrow> bool" where
  "readable s \<longleftrightarrow>
     wf_ext (ss_name s) \<and> plain_name (ss_name s) \<and> ss_name s \<noteq> ''g'' \<and>
     (riscv_get_prefix_class (ss_name s) \<noteq> RV_ISA_CLASS_SINGLE \<longrightarrow>
        riscv_recognized_prefixed_ext (ss_name s)) \<and>
     0 \<le> ss_major_version s \<and> ss_major_version s \<le> 2147483647 \<and>
     0 \<le> ss_minor_version s \<and> ss_minor_version s \<le> 2147483647 \<and>
     (ss_major_version s \<noteq> 0 \<or> ss_minor_version s \<noteq> 0)"

definition body_str :: "riscv_subset \<Rightarrow> string" where
  "body_str s = ss_name s @ version_str (nat (ss_major_version s)) (nat (ss_minor_version s))"

lemma ext_str_body:
  assumes "readable s" "ss_name s \<noteq> ''i''" "ss_name s \<noteq> ''e''"
  shows "ext_str s = CHR ''_'' # body_str s"
proof -
  have "list_all name_char (ss_name s)" using assms(1) by (simp add: readable_def wf_ext_def)
  moreover have "list_all name_char ''i''" "list_all name_char ''e''" by (simp_all add: name_char_def ISUPPER_def)
  ultimately have "strcasecmp (ss_name s) ''i'' \<noteq> 0" "strcasecmp (ss_name s) ''e'' \<noteq> 0"
    using strcasecmp_order assms(2,3) by blast+
  with assms(1) show ?thesis
    by (simp add: ext_str_def body_str_def version_str_def dec_int_def readable_def)
qed

text \<open>One extension: the loop adds it with its version and goes on behind it.\<close>

lemma parse_body:
  assumes "rps_ok rps" "readable s" "ss_name s \<notin> dom (rps_versions rps)" "r = [] \<or> hd r = CHR ''_''"
  shows "\<exists>rps'. parse_extensions_loop rps (body_str s @ r) = parse_extensions_loop rps' r \<and>
           rps_ok rps' \<and> rps_errors rps' = rps_errors rps \<and> rps_xlen rps' = rps_xlen rps \<and>
           rps_isa_spec rps' = rps_isa_spec rps \<and>
           rps_versions rps' = (rps_versions rps)(ss_name s \<mapsto> (ss_major_version s, ss_minor_version s))"
proof -
  define n a b where "n = ss_name s" and "a = nat (ss_major_version s)" and "b = nat (ss_minor_version s)"
  have s: "plain_name n" "wf_ext n" "n \<noteq> ''g''" "int a = ss_major_version s" "int b = ss_minor_version s"
      "a \<le> 2147483647" "b \<le> 2147483647" "a \<noteq> 0 \<or> b \<noteq> 0"
      "riscv_get_prefix_class n = RV_ISA_CLASS_SINGLE \<or> riscv_recognized_prefixed_ext n"
    using assms(2) by (auto simp: readable_def n_def a_def b_def)
  obtain c cs where p: "n @ version_str a b @ r = c # cs" "c \<noteq> CHR ''_''" "n \<noteq> []"
    using s(1) by (cases n) (auto simp: plain_name_def)
  have sv: "start_of_version (c # cs) = Some (Inr (length n))"
    using start_of_version_str [OF s(1,2) assms(4), of a b] by (simp add: p(1))
  have cut: "drop (length n) (c # cs) = version_str a b @ r" "take (length n) (c # cs) = n"
    by (simp_all add: p(1) [symmetric])
  have v: "riscv_parsing_subset_version (drop (length n) (c # cs)) = Some (r, int a, int b)"
    using parse_version_str [OF s(6,7,8) assms(4)] by (simp add: cut)
  define single where "single = (riscv_get_prefix_class (c # cs) = RV_ISA_CLASS_SINGLE)"
  have single: "single \<longleftrightarrow> riscv_get_prefix_class n = RV_ISA_CLASS_SINGLE"
    using prefix_class_version [OF p(3), of a b r] by (simp add: single_def p(1))
  obtain rps' where add: "riscv_parse_add_subset rps n (int a) (int b) False = Some rps'" "rps_ok rps'"
      "rps_errors rps' = rps_errors rps" "rps_xlen rps' = rps_xlen rps"
      "rps_isa_spec rps' = rps_isa_spec rps" "rps_versions rps' = (rps_versions rps)(n \<mapsto> (int a, int b))"
    using sl.add_content [of "rps_subset_list rps" n "int a" "int b"] assms(1,3) s(2)
    by (auto simp: riscv_parse_add_subset_def rps_ok_def n_def)
  have "False = (single \<and> take (length n) (c # cs) = ''g'')" using s(3) by (simp add: cut)
  from parse_extensions_step [OF p(2) sv v single_def this, of rps] add(1) s(9) assms(4) single
  have "parse_extensions_loop rps (c # cs) = parse_extensions_loop rps' r"
    by (simp add: cut) blast
  with add s(4,5) p(1) show ?thesis by (auto simp: body_str_def n_def a_def b_def)
qed

lemma parse_printed:
  assumes "rps_ok rps" "list_all readable ss" "distinct (map ss_name ss)"
    and "\<forall>s\<in>set ss. ss_name s \<notin> dom (rps_versions rps) \<and> ss_name s \<noteq> ''i'' \<and> ss_name s \<noteq> ''e''"
  shows "\<exists>r. parse_extensions_loop rps (concat (map ext_str ss)) = Some (r, True) \<and> rps_ok r \<and>
           rps_errors r = rps_errors rps \<and> rps_xlen r = rps_xlen rps \<and>
           rps_isa_spec r = rps_isa_spec rps \<and> rps_versions r = rps_versions rps ++ versions_of ss"
  using assms
proof (induction ss arbitrary: rps)
  case (Cons s ss)
  have s: "readable s" "ss_name s \<notin> dom (rps_versions rps)" using Cons.prems by auto
  have ext: "ext_str s = CHR ''_'' # body_str s" using ext_str_body Cons.prems by simp
  have hd: "concat (map ext_str ss) = [] \<or> hd (concat (map ext_str ss)) = CHR ''_''"
    using Cons.prems ext_str_body by (cases ss) auto
  from parse_body [OF Cons.prems(1) s hd] obtain rps' where r:
      "parse_extensions_loop rps (body_str s @ concat (map ext_str ss)) =
         parse_extensions_loop rps' (concat (map ext_str ss))"
      "rps_ok rps'" "rps_errors rps' = rps_errors rps" "rps_xlen rps' = rps_xlen rps"
      "rps_isa_spec rps' = rps_isa_spec rps"
      "rps_versions rps' = (rps_versions rps)(ss_name s \<mapsto> (ss_major_version s, ss_minor_version s))"
    by blast
  have "\<forall>t\<in>set ss. ss_name t \<notin> dom (rps_versions rps') \<and> ss_name t \<noteq> ''i'' \<and> ss_name t \<noteq> ''e''"
    using Cons.prems(3,4) by (auto simp: r(6)) (metis image_eqI)+
  with Cons.IH [OF r(2)] Cons.prems(2,3) obtain r' where r':
      "parse_extensions_loop rps' (concat (map ext_str ss)) = Some (r', True)" "rps_ok r'"
      "rps_errors r' = rps_errors rps'" "rps_xlen r' = rps_xlen rps'" "rps_isa_spec r' = rps_isa_spec rps'"
      "rps_versions r' = rps_versions rps' ++ versions_of ss"
    by auto
  have "ss_name s \<notin> dom (versions_of ss)" using Cons.prems(3) by (simp add: dom_versions_of)
  then have "rps_versions r' = rps_versions rps ++ versions_of (s # ss)"
    using r'(6) r(6) by (auto simp: map_add_def fun_eq_iff domIff split: option.splits)
  with r(1,3-5) r'(1-5) ext show ?case
    by (intro exI [of _ r']) (simp del: versions_of_simps)
qed (simp add: versions_of_def)

section \<open>The round trip\<close>

lemma closed_no_change:
  assumes "table_closed (rps_versions r)"
  shows "(\<lambda>n. if implied r n then Some (final_version r n) else None) = rps_versions r"
proof -
  have "implied r n \<Longrightarrow> n \<in> dom (rps_versions r)" for n
  proof (induction rule: implied.induct)
    case (implied_by a b c)
    then obtain v where v: "rps_versions r a = Some v" by blast
    then have "check_on c a b v" using implied_by(3) by (simp add: final_version_def)
    with v implied_by(2) assms show ?case unfolding table_closed_def by blast
  qed
  then have "(if implied r n then Some (final_version r n) else None) = rps_versions r n" for n
    using implied_listed [of n r] by (cases "rps_versions r n") (auto simp: final_version_def)
  then show ?thesis by (rule ext)
qed

lemma close_closed_list:
  assumes "rps_ok rps" "table_closed (rps_versions rps)" "conflicts (rps_xlen rps) (rps_versions rps) = {}"
  shows "\<exists>r. do { r1 \<leftarrow> riscv_parse_add_implicit_subsets rps; riscv_parse_check_conflicts r1 } = Some (r, True) \<and>
           rps_ok r \<and> rps_xlen r = rps_xlen rps \<and> rps_errors r = rps_errors rps \<and>
           rps_versions r = rps_versions rps"
proof -
  obtain r1 where r1: "riscv_parse_add_implicit_subsets rps = Some r1" "closing rps r1"
      "rps_versions r1 = rps_versions rps"
    using closing_ends [OF closing_start [OF assms(1)]] closed_no_change [OF assms(2)] by auto
  then have ok1: "rps_ok r1" "rps_xlen r1 = rps_xlen rps" "rps_errors r1 = rps_errors rps"
    by (simp_all add: closing_def)
  obtain r ok where r: "riscv_parse_check_conflicts r1 = Some (r, ok)" "reports r1 (r, ok) {}"
    using check_conflicts_spec [OF ok1(1)] assms(3) r1(3) ok1(2) by auto
  with r1 ok1 show ?thesis by (auto simp: reports_def rps_ok_def)
qed

lemma ext_str_no_upper:
  assumes "readable s"
  shows "\<not> list_ex ISUPPER (ext_str s)"
proof -
  have "\<not> ISUPPER c" if "c \<in> set (dec k)" for c k
    using dec_digits [OF that] by (auto simp: ISDIGIT_def ISUPPER_def)
  moreover have "\<not> ISUPPER c" if "c \<in> set (ss_name s)" for c
    using assms that by (auto simp: readable_def wf_ext_def list_all_iff name_char_def)
  moreover have "\<not> ISUPPER (CHR ''_'')" "\<not> ISUPPER (CHR ''p'')" "\<not> ISUPPER (CHR ''-'')"
    by (simp_all add: ISUPPER_def)
  ultimately show ?thesis
    by (auto simp: ext_str_def dec_int_def list_ex_iff)
qed

lemma dec_widths: "dec 32 = ''32''" "dec 64 = ''64''"
  by (simp_all add: dec.simps char_of_eq_iff)

lemma sorted_after_i:
  assumes "slist_ok sl" "sl_head sl = s0 # ss" "ss_name s0 = ''i''" "s \<in> set ss"
  shows "ss_name s \<noteq> ''i'' \<and> ss_name s \<noteq> ''e''"
proof -
  have "ext_key ''i'' < ext_key (ss_name s)"
    using assms by (auto simp: slist_ok_def)
  moreover have "\<not> ext_key ''i'' < ext_key ''e''"
    by (simp add: ext_key_def riscv_get_prefix_class_def parse_config_def c_char_def riscv_ext_order_eval)
  ultimately show ?thesis by auto
qed



end
