(* ===== verification/RV_Supports.thy ===== *)
theory RV_Supports
  imports RV_Parse
begin

text \<open>
  Which instruction classes a list of extensions supports (\<open>riscv_multi_subset_supports\<close> of
  \<open>bfd/elfxx-riscv.c\<close>) and what the assembler tells a user who is missing one
  (\<open>riscv_multi_subset_supports_ext\<close>): the decision depends on the abstract set of extensions only,
  and a user who follows the message gets a list that supports the class.
\<close>

section \<open>The missing extension\<close>

text \<open>
  The text for each class as a function of the feature tests; \<open>None\<close> is the null pointer of the
  default branch.
\<close>

definition class_missing_ext :: "(string \<Rightarrow> bool) \<Rightarrow> riscv_insn_class \<Rightarrow> string option" where
  "class_missing_ext h c =
     (case c of
        INSN_CLASS_I \<Rightarrow> Some ''i''
      | INSN_CLASS_ZICBOM \<Rightarrow> Some ''zicbom''
      | INSN_CLASS_ZICBOP \<Rightarrow> Some ''zicbop''
      | INSN_CLASS_ZICBOZ \<Rightarrow> Some ''zicboz''
      | INSN_CLASS_ZICOND \<Rightarrow> Some ''zicond''
      | INSN_CLASS_ZICSR \<Rightarrow> Some ''zicsr''
      | INSN_CLASS_ZIFENCEI \<Rightarrow> Some ''zifencei''
      | INSN_CLASS_ZIHINTNTL \<Rightarrow> Some ''zihintntl''
      | INSN_CLASS_ZIHINTNTL_AND_C \<Rightarrow> (if \<not> h ''zihintntl''
            then (if \<not> h ''c'' \<and> \<not> h ''zca''
            then Some ''zihintntl' and `c', or `zihintntl' and `zca'' else Some ''zihintntl'')
            else Some ''c' or `zca'')
      | INSN_CLASS_ZIHINTPAUSE \<Rightarrow> Some ''zihintpause''
      | INSN_CLASS_M \<Rightarrow> Some ''m''
      | INSN_CLASS_ZMMUL \<Rightarrow> Some ''m' or `zmmul''
      | INSN_CLASS_A \<Rightarrow> Some ''a''
      | INSN_CLASS_ZAWRS \<Rightarrow> Some ''zawrs''
      | INSN_CLASS_F \<Rightarrow> Some ''f''
      | INSN_CLASS_D \<Rightarrow> Some ''d''
      | INSN_CLASS_Q \<Rightarrow> Some ''q''
      | INSN_CLASS_C \<Rightarrow> Some ''c' or `zca''
      | INSN_CLASS_F_AND_C \<Rightarrow> (if \<not> h ''f''
            then (if \<not> h ''c'' \<and> \<not> h ''zcf''
            then Some ''f' and `c', or `f' and `zcf'' else Some ''f'') else Some ''c' or `zcf'')
      | INSN_CLASS_D_AND_C \<Rightarrow> (if \<not> h ''d''
            then (if \<not> h ''c'' \<and> \<not> h ''zcd''
            then Some ''d' and `c', or `d' and `zcd'' else Some ''d'') else Some ''c' or `zcd'')
      | INSN_CLASS_F_INX \<Rightarrow> Some ''f' or `zfinx''
      | INSN_CLASS_D_INX \<Rightarrow> Some ''d' or `zdinx''
      | INSN_CLASS_Q_INX \<Rightarrow> Some ''q' or `zqinx''
      | INSN_CLASS_ZFH_INX \<Rightarrow> Some ''zfh' or `zhinx''
      | INSN_CLASS_ZFHMIN \<Rightarrow> Some ''zfhmin''
      | INSN_CLASS_ZFHMIN_INX \<Rightarrow> Some ''zfhmin' or `zhinxmin''
      | INSN_CLASS_ZFHMIN_AND_D_INX \<Rightarrow> (if h ''zfhmin'' then Some ''d'' else (if h ''d''
            then Some ''zfhmin'' else (if h ''zhinxmin'' then Some ''zdinx'' else (if h ''zdinx''
            then Some ''zhinxmin'' else Some ''zfhmin' and `d', or `zhinxmin' and `zdinx''))))
      | INSN_CLASS_ZFHMIN_AND_Q_INX \<Rightarrow> (if h ''zfhmin'' then Some ''q'' else (if h ''q''
            then Some ''zfhmin'' else (if h ''zhinxmin'' then Some ''zqinx'' else (if h ''zqinx''
            then Some ''zhinxmin'' else Some ''zfhmin' and `q', or `zhinxmin' and `zqinx''))))
      | INSN_CLASS_ZFA \<Rightarrow> Some ''zfa''
      | INSN_CLASS_D_AND_ZFA \<Rightarrow> (if \<not> h ''d'' \<and> \<not> h ''zfa''
            then Some ''d' and `zfa'' else (if \<not> h ''d'' then Some ''d'' else Some ''zfa''))
      | INSN_CLASS_Q_AND_ZFA \<Rightarrow> (if \<not> h ''q'' \<and> \<not> h ''zfa''
            then Some ''q' and `zfa'' else (if \<not> h ''q'' then Some ''q'' else Some ''zfa''))
      | INSN_CLASS_ZFH_AND_ZFA \<Rightarrow> (if \<not> h ''zfh'' \<and> \<not> h ''zfa''
            then Some ''zfh' and `zfa'' else (if \<not> h ''zfh'' then Some ''zfh'' else Some ''zfa''))
      | INSN_CLASS_ZFH_OR_ZVFH_AND_ZFA \<Rightarrow> (if \<not> h ''zfa''
            then (if \<not> h ''zfh'' \<and> \<not> h ''zvfh''
            then Some ''zfh' and `zfa', or `zvfh' and `zfa'' else Some ''zfa'') else Some ''zfh' or `zvfh'')
      | INSN_CLASS_ZBA \<Rightarrow> Some ''zba''
      | INSN_CLASS_ZBB \<Rightarrow> Some ''zbb''
      | INSN_CLASS_ZBC \<Rightarrow> Some ''zbc''
      | INSN_CLASS_ZBS \<Rightarrow> Some ''zbs''
      | INSN_CLASS_ZBKB \<Rightarrow> Some ''zbkb''
      | INSN_CLASS_ZBKC \<Rightarrow> Some ''zbkc''
      | INSN_CLASS_ZBKX \<Rightarrow> Some ''zbkx''
      | INSN_CLASS_ZBB_OR_ZBKB \<Rightarrow> Some ''zbb' or `zbkb''
      | INSN_CLASS_ZBC_OR_ZBKC \<Rightarrow> Some ''zbc' or `zbkc''
      | INSN_CLASS_ZKND \<Rightarrow> Some ''zknd''
      | INSN_CLASS_ZKNE \<Rightarrow> Some ''zkne''
      | INSN_CLASS_ZKNH \<Rightarrow> Some ''zknh''
      | INSN_CLASS_ZKND_OR_ZKNE \<Rightarrow> Some ''zknd' or `zkne''
      | INSN_CLASS_ZKSED \<Rightarrow> Some ''zksed''
      | INSN_CLASS_ZKSH \<Rightarrow> Some ''zksh''
      | INSN_CLASS_V \<Rightarrow> Some ''v' or `zve64x' or `zve32x''
      | INSN_CLASS_ZVEF \<Rightarrow> Some ''v' or `zve64d' or `zve64f' or `zve32f''
      | INSN_CLASS_ZVBB \<Rightarrow> Some ''zvbb''
      | INSN_CLASS_ZVBC \<Rightarrow> Some ''zvbc''
      | INSN_CLASS_ZVKB \<Rightarrow> Some ''zvkb''
      | INSN_CLASS_ZVKG \<Rightarrow> Some ''zvkg''
      | INSN_CLASS_ZVKNED \<Rightarrow> Some ''zvkned''
      | INSN_CLASS_ZVKNHA_OR_ZVKNHB \<Rightarrow> Some ''zvknha' or `zvknhb''
      | INSN_CLASS_ZVKSED \<Rightarrow> Some ''zvksed''
      | INSN_CLASS_ZVKSH \<Rightarrow> Some ''zvksh''
      | INSN_CLASS_ZCB \<Rightarrow> Some ''zcb''
      | INSN_CLASS_ZCB_AND_ZBA \<Rightarrow> Some ''zcb' and `zba''
      | INSN_CLASS_ZCB_AND_ZBB \<Rightarrow> Some ''zcb' and `zbb''
      | INSN_CLASS_ZCB_AND_ZMMUL \<Rightarrow> Some ''zcb' and `zmmul', or `zcb' and `m''
      | INSN_CLASS_SVINVAL \<Rightarrow> Some ''svinval''
      | INSN_CLASS_H \<Rightarrow> Some ''h''
      | INSN_CLASS_XCVMAC \<Rightarrow> Some ''xcvmac''
      | INSN_CLASS_XCVALU \<Rightarrow> Some ''xcvalu''
      | INSN_CLASS_XTHEADBA \<Rightarrow> Some ''xtheadba''
      | INSN_CLASS_XTHEADBB \<Rightarrow> Some ''xtheadbb''
      | INSN_CLASS_XTHEADBS \<Rightarrow> Some ''xtheadbs''
      | INSN_CLASS_XTHEADCMO \<Rightarrow> Some ''xtheadcmo''
      | INSN_CLASS_XTHEADCONDMOV \<Rightarrow> Some ''xtheadcondmov''
      | INSN_CLASS_XTHEADFMEMIDX \<Rightarrow> Some ''xtheadfmemidx''
      | INSN_CLASS_XTHEADFMV \<Rightarrow> Some ''xtheadfmv''
      | INSN_CLASS_XTHEADINT \<Rightarrow> Some ''xtheadint''
      | INSN_CLASS_XTHEADMAC \<Rightarrow> Some ''xtheadmac''
      | INSN_CLASS_XTHEADMEMIDX \<Rightarrow> Some ''xtheadmemidx''
      | INSN_CLASS_XTHEADMEMPAIR \<Rightarrow> Some ''xtheadmempair''
      | INSN_CLASS_XTHEADSYNC \<Rightarrow> Some ''xtheadsync''
      | INSN_CLASS_XTHEADVECTOR \<Rightarrow> Some ''xtheadvector''
      | INSN_CLASS_XTHEADZVAMO \<Rightarrow> Some ''xtheadzvamo''
      | _ \<Rightarrow> None)"

definition riscv_multi_subset_supports_ext ::
    "riscv_parse_subset_t \<Rightarrow> riscv_insn_class \<Rightarrow> riscv_parse_subset_t \<times> string option" where
  "riscv_multi_subset_supports_ext rps c =
     (case class_missing_ext (has_feature rps) c of
        None \<Rightarrow> (error_handler Err_unreachable_insn_class rps, None)
      | Some msg \<Rightarrow> (rps, Some msg))"

section \<open>Reading the message\<close>

text \<open>
  The message is put between quotes (\<^verbatim>\<open>extension `%s' required\<close>) and lists alternatives separated
  by \<^verbatim>\<open>or\<close>, each a number of names joined by \<^verbatim>\<open>and\<close>.  \<open>advice\<close> reads it back.
\<close>

fun words_of :: "string \<Rightarrow> string list" where
  "words_of [] = [[]]"
| "words_of (c # cs) =
     (if c = CHR '' '' then [] # words_of cs
      else if c \<in> {CHR 0x27, CHR 0x60, CHR '',''} then words_of cs
      else case words_of cs of [] \<Rightarrow> [[c]] | w # ws \<Rightarrow> (c # w) # ws)"

fun alternatives :: "string list \<Rightarrow> string list list" where
  "alternatives [] = [[]]"
| "alternatives (w # ws) =
     (if w = ''or'' then [] # alternatives ws
      else if w = ''and'' then alternatives ws
      else case alternatives ws of [] \<Rightarrow> [[w]] | a # as \<Rightarrow> (w # a) # as)"

definition advice :: "string \<Rightarrow> string list list" where
  "advice msg = alternatives (words_of msg)"

section \<open>The decision depends on the abstract set only\<close>

lemma class_supported_cong:
  "(\<And>f. wf_ext f \<Longrightarrow> h f = h' f) \<Longrightarrow> class_supported h c = class_supported h' c"
  by (cases c) (simp_all add: class_supported_def wf_ext_eval)

lemma class_missing_ext_cong:
  "(\<And>f. wf_ext f \<Longrightarrow> h f = h' f) \<Longrightarrow> class_missing_ext h c = class_missing_ext h' c"
  by (cases c) (simp_all add: class_missing_ext_def wf_ext_eval)

lemma has_feature_dom: "rps_ok rps \<Longrightarrow> wf_ext f \<Longrightarrow> has_feature rps f \<longleftrightarrow> f \<in> dom (rps_versions rps)"
  by (simp add: has_feature_def supports_dom)

lemma class_supported_dom:
  "rps_ok rps \<Longrightarrow> class_supported (has_feature rps) c = class_supported (\<lambda>f. f \<in> dom (rps_versions rps)) c"
  by (rule class_supported_cong) (simp add: has_feature_dom)

lemma class_missing_ext_dom:
  "rps_ok rps \<Longrightarrow>
     class_missing_ext (has_feature rps) c = class_missing_ext (\<lambda>f. f \<in> dom (rps_versions rps)) c"
  by (rule class_missing_ext_cong) (simp add: has_feature_dom)

section \<open>The advice is enough\<close>

definition unadvised :: "riscv_insn_class \<Rightarrow> bool" where
  "unadvised c \<longleftrightarrow> c \<in> {INSN_CLASS_NONE, INSN_CLASS_XVENTANACONDOPS, INSN_CLASS_XSFVCP}"

lemma class_missing_ext_enough:
  assumes "\<not> unadvised c" "\<not> class_supported h c"
  shows "\<exists>msg. class_missing_ext h c = Some msg \<and>
           (\<forall>alt\<in>set (advice msg). \<forall>h'. (h' ''m'' \<longrightarrow> h' ''zmmul'') \<longrightarrow> (\<forall>f. h f \<longrightarrow> h' f) \<longrightarrow>
              list_all h' alt \<longrightarrow> class_supported h' c)"
  using assms
  by (cases c) (auto simp: unadvised_def class_supported_def class_missing_ext_def advice_def)

lemma advice_nonempty: "advice msg \<noteq> []"
proof -
  have "alternatives ws \<noteq> []" for ws by (induction ws) (auto split: list.splits)
  then show ?thesis by (simp add: advice_def)
qed

lemma table_closed_m:
  assumes "table_closed vs" "''m'' \<in> dom vs"
  shows "''zmmul'' \<in> dom vs"
proof -
  have row: "(''m'', ''zmmul'', check_implicit_always) \<in> set riscv_implicit_subsets"
    by (simp add: riscv_implicit_subsets_def)
  obtain v where "vs ''m'' = Some v" using assms(2) by blast
  then show ?thesis
    using bspec [OF assms(1) [unfolded table_closed_def] row] by (simp add: check_on_def)
qed

text \<open>
  The decision whether an instruction may be used depends on the set of extensions in the list
  only, for every class the opcode tables use: the test calls no undefined lookup, reports nothing,
  and answers by the formula over the abstract list.
\<close>

theorem multi_subset_supports_abstract:
  assumes "rps_ok rps" "c \<noteq> INSN_CLASS_NONE"
  shows "riscv_multi_subset_supports rps c =
           (rps, class_supported (\<lambda>f. f \<in> dom (versions (rps_subset_list rps))) c)"
  using assms by (simp add: riscv_multi_subset_supports_def class_supported_dom)

lemma multi_subset_supports_abstract_witness:
  "riscv_multi_subset_supports (rps_start 32) INSN_CLASS_F_INX = (rps_start 32, False)"
proof -
  have "versions (rps_subset_list (rps_start 32)) = Map.empty" by (simp add: rps_start_def)
  then show ?thesis
    using multi_subset_supports_abstract [of "rps_start 32" INSN_CLASS_F_INX] by (simp add: class_supported_def)
qed

text \<open>
  C10. The message about a missing extension is right: for a class the list does not support, except
  the two classes of \<open>supports_ext_null\<close>, it names alternatives none of which the list already has, and any
  list closed under the implications that has the old extensions and one of the alternatives supports the
  class.
\<close>

theorem supports_ext_advice:
  assumes "rps_ok rps" "table_closed (versions (rps_subset_list rps))"
    and "c \<notin> {INSN_CLASS_NONE, INSN_CLASS_XVENTANACONDOPS, INSN_CLASS_XSFVCP}"
    and "\<not> snd (riscv_multi_subset_supports rps c)"
  shows "\<exists>msg. riscv_multi_subset_supports_ext rps c = (rps, Some msg) \<and> advice msg \<noteq> [] \<and>
           (\<forall>alt\<in>set (advice msg).
              \<not> set alt \<subseteq> dom (versions (rps_subset_list rps)) \<and>
              (\<forall>vs. table_closed vs \<longrightarrow> dom (versions (rps_subset_list rps)) \<union> set alt \<subseteq> dom vs \<longrightarrow>
                 class_supported (\<lambda>f. f \<in> dom vs) c))"
proof -
  let ?h = "\<lambda>f. f \<in> dom (rps_versions rps)"
  have uns: "\<not> class_supported ?h c"
    using assms(1,3,4) by (simp add: riscv_multi_subset_supports_def class_supported_dom)
  have "\<not> unadvised c" using assms(3) by (simp add: unadvised_def)
  from class_missing_ext_enough [OF this uns] obtain msg where
    msg: "class_missing_ext ?h c = Some msg"
    and all: "\<forall>alt\<in>set (advice msg). \<forall>h'. (h' ''m'' \<longrightarrow> h' ''zmmul'') \<longrightarrow> (\<forall>f. ?h f \<longrightarrow> h' f) \<longrightarrow>
       list_all h' alt \<longrightarrow> class_supported h' c"
    by (elim exE conjE)
  have enough: "class_supported (\<lambda>f. f \<in> dom vs) c"
    if "alt \<in> set (advice msg)" "table_closed vs" "dom (rps_versions rps) \<union> set alt \<subseteq> dom vs" for alt vs
  proof (rule all [rule_format, OF that(1)])
    show "''zmmul'' \<in> dom vs" if "''m'' \<in> dom vs" using table_closed_m [OF \<open>table_closed vs\<close> that] .
    show "f \<in> dom vs" if "f \<in> dom (rps_versions rps)" for f
      using \<open>dom (rps_versions rps) \<union> set alt \<subseteq> dom vs\<close> that by (rule subsetD [OF _ UnI1])
    show "list_all (\<lambda>f. f \<in> dom vs) alt"
      unfolding list_all_iff
      by (intro ballI) (rule subsetD [OF \<open>dom (rps_versions rps) \<union> set alt \<subseteq> dom vs\<close> UnI2])
  qed
  have "\<not> set alt \<subseteq> dom (rps_versions rps)" if "alt \<in> set (advice msg)" for alt
    using enough [OF that assms(2)] uns by blast
  moreover have "riscv_multi_subset_supports_ext rps c = (rps, Some msg)"
    by (simp only: riscv_multi_subset_supports_ext_def class_missing_ext_dom [OF assms(1)] msg option.case)
  ultimately show ?thesis using enough advice_nonempty by blast
qed

lemma supports_ext_advice_witness:
  "\<exists>msg. riscv_multi_subset_supports_ext (rps_start 32) INSN_CLASS_ZMMUL = (rps_start 32, Some msg) \<and>
     advice msg \<noteq> []"
proof -
  have "table_closed (rps_versions (rps_start 32))" by (simp add: table_closed_def rps_start_def)
  moreover have "\<not> snd (riscv_multi_subset_supports (rps_start 32) INSN_CLASS_ZMMUL)"
    by (simp add: riscv_multi_subset_supports_def class_supported_dom) (simp add: class_supported_def rps_start_def)
  ultimately show ?thesis
    using supports_ext_advice [of "rps_start 32" INSN_CLASS_ZMMUL] by auto
qed

text \<open>
  Two classes are forgotten: when an instruction of XVentanaCondOps or XSfVcp is refused, the
  assembler reports an internal error and has no extension to name.
\<close>

lemma supports_ext_null:
  "riscv_multi_subset_supports_ext rps INSN_CLASS_XVENTANACONDOPS =
     (error_handler Err_unreachable_insn_class rps, None) \<and>
   riscv_multi_subset_supports_ext rps INSN_CLASS_XSFVCP =
     (error_handler Err_unreachable_insn_class rps, None) \<and>
   fst (riscv_multi_subset_supports rps INSN_CLASS_XVENTANACONDOPS) = rps \<and>
   fst (riscv_multi_subset_supports rps INSN_CLASS_XSFVCP) = rps"
  by (simp add: riscv_multi_subset_supports_ext_def riscv_multi_subset_supports_def class_missing_ext_def)

end
