(* ===== verification/RV_Sim.thy ===== *)
theory RV_Sim
  imports RV_Disasm "HOL-Library.Signed_Division"
begin

text \<open>
  The instruction-set simulator \<open>sim/riscv/sim-main.c\<close> in its 64-bit build (\<open>unsigned_word\<close> is a
  64-bit word; the machine may still be RV32).  The state holds the registers, the program counter,
  the control and status registers by number, the list of load reservations and the memory.

  The memory itself (\<open>sim_core_read_*\<close> and \<open>sim_core_write_*\<close>) and the host's system calls
  (\<open>sim_syscall\<close>) are parameters: a record of the access functions over an arbitrary type of memories.
  \<open>sim_engine_halt\<close> leaves the function by a long jump; it is the left injection, with the reason
  and the state at that moment.
\<close>

section \<open>State\<close>

record 'm sim_state =
  sim_regs :: "64 word list"
  sim_pc :: "64 word"
  sim_csr :: "nat \<Rightarrow> 64 word"
  sim_reserved :: "64 word list"
  sim_mem :: 'm

record 'm sim_host =
  core_read :: "nat \<Rightarrow> 64 word \<Rightarrow> 'm \<Rightarrow> 64 word option"
  core_write :: "nat \<Rightarrow> 64 word \<Rightarrow> 64 word \<Rightarrow> 'm \<Rightarrow> 'm option"
  host_syscall :: "64 word list \<Rightarrow> 'm \<Rightarrow> (64 word \<times> 'm) option"
  host_xlen :: nat

datatype sim_halt = SIM_SIGILL | SIM_SIGTRAP | Core_signal | Sim_exited

type_synonym 'm sim_result = "sim_halt \<times> 'm sim_state + 'm sim_state"

definition sim_engine_halt :: "sim_halt \<Rightarrow> 64 word \<Rightarrow> 'm sim_state \<Rightarrow> sim_halt \<times> 'm sim_state + 'b" where
  "sim_engine_halt h cia cpu = Inl (h, cpu\<lparr>sim_pc := cia\<rparr>)"

definition reg :: "'m sim_state \<Rightarrow> nat \<Rightarrow> 64 word" where
  "reg cpu r = sim_regs cpu ! r"

definition store_rd :: "nat \<Rightarrow> 64 word \<Rightarrow> 'm sim_state \<Rightarrow> 'm sim_state" where
  "store_rd rd val cpu = (if rd \<noteq> 0 then cpu\<lparr>sim_regs := (sim_regs cpu)[rd := val]\<rparr> else cpu)"

text \<open>\<open>RISCV_ASSERT_RV32\<close> and \<open>RISCV_ASSERT_RV64\<close>.\<close>

definition RISCV_ASSERT_RV ::
    "nat \<Rightarrow> 'm sim_host \<Rightarrow> 'm sim_state \<Rightarrow> (sim_halt \<times> 'm sim_state + 'b) \<Rightarrow> (sim_halt \<times> 'm sim_state + 'b)" where
  "RISCV_ASSERT_RV n host cpu rest =
     (if host_xlen host \<noteq> n then sim_engine_halt SIM_SIGILL (sim_pc cpu) cpu else rest)"

definition EXTEND8 :: "64 word \<Rightarrow> 64 word" where "EXTEND8 x = signed_take_bit 7 x"
definition EXTEND16 :: "64 word \<Rightarrow> 64 word" where "EXTEND16 x = signed_take_bit 15 x"
definition EXTEND32 :: "64 word \<Rightarrow> 64 word" where "EXTEND32 x = signed_take_bit 31 x"

section \<open>Control and status registers\<close>

abbreviation (input) CSR_FFLAGS :: nat where "CSR_FFLAGS \<equiv> 0x1"
abbreviation (input) CSR_FRM :: nat where "CSR_FRM \<equiv> 0x2"
abbreviation (input) CSR_FCSR :: nat where "CSR_FCSR \<equiv> 0x3"
abbreviation (input) CSR_CYCLE :: nat where "CSR_CYCLE \<equiv> 0xc00"
abbreviation (input) CSR_TIME :: nat where "CSR_TIME \<equiv> 0xc01"
abbreviation (input) CSR_INSTRET :: nat where "CSR_INSTRET \<equiv> 0xc02"
abbreviation (input) CSR_CYCLEH :: nat where "CSR_CYCLEH \<equiv> 0xc80"
abbreviation (input) CSR_TIMEH :: nat where "CSR_TIMEH \<equiv> 0xc81"
abbreviation (input) CSR_INSTRETH :: nat where "CSR_INSTRETH \<equiv> 0xc82"

text \<open>The numbers of the \<open>DECLARE_CSR\<close> lines of \<open>opcode/riscv-opc.h\<close>, the cases of the \<open>switch\<close>.\<close>

definition declared_csrs :: "nat list" where
  "declared_csrs =
    [
     3072, 3073, 3074, 3075, 3076, 3077, 3078, 3079, 3080, 3081, 3082, 3083, 3084, 3085, 3086, 3087,
     3088, 3089, 3090, 3091, 3092, 3093, 3094, 3095, 3096, 3097, 3098, 3099, 3100, 3101, 3102, 3103,
     3200, 3201, 3202, 3203, 3204, 3205, 3206, 3207, 3208, 3209, 3210, 3211, 3212, 3213, 3214, 3215,
     3216, 3217, 3218, 3219, 3220, 3221, 3222, 3223, 3224, 3225, 3226, 3227, 3228, 3229, 3230, 3231,
     256, 260, 261, 262, 266, 320, 321, 322, 323, 324, 384, 3857, 3858, 3859, 3860, 3861, 768, 769, 770,
     771, 772, 773, 774, 784, 832, 833, 834, 835, 836, 842, 843, 778, 794, 1863, 1879, 928, 929, 930,
     931, 932, 933, 934, 935, 936, 937, 938, 939, 940, 941, 942, 943, 944, 945, 946, 947, 948, 949, 950,
     951, 952, 953, 954, 955, 956, 957, 958, 959, 960, 961, 962, 963, 964, 965, 966, 967, 968, 969, 970,
     971, 972, 973, 974, 975, 976, 977, 978, 979, 980, 981, 982, 983, 984, 985, 986, 987, 988, 989, 990,
     991, 992, 993, 994, 995, 996, 997, 998, 999, 1000, 1001, 1002, 1003, 1004, 1005, 1006, 1007, 2816,
     2818, 2819, 2820, 2821, 2822, 2823, 2824, 2825, 2826, 2827, 2828, 2829, 2830, 2831, 2832, 2833,
     2834, 2835, 2836, 2837, 2838, 2839, 2840, 2841, 2842, 2843, 2844, 2845, 2846, 2847, 2944, 2946,
     2947, 2948, 2949, 2950, 2951, 2952, 2953, 2954, 2955, 2956, 2957, 2958, 2959, 2960, 2961, 2962,
     2963, 2964, 2965, 2966, 2967, 2968, 2969, 2970, 2971, 2972, 2973, 2974, 2975, 800, 803, 804, 805,
     806, 807, 808, 809, 810, 811, 812, 813, 814, 815, 816, 817, 818, 819, 820, 821, 822, 823, 824, 825,
     826, 827, 828, 829, 830, 831, 1536, 1538, 1539, 1540, 1542, 1543, 1603, 1604, 1605, 1610, 3602,
     1546, 1562, 1664, 1541, 1557, 512, 516, 517, 576, 577, 578, 579, 580, 640, 848, 849, 860, 4016,
     776, 777, 787, 788, 792, 793, 852, 801, 802, 1825, 1826, 780, 781, 782, 783, 268, 269, 270, 271,
     1548, 1549, 1550, 1551, 796, 797, 798, 799, 1564, 1565, 1566, 1567, 336, 337, 348, 3504, 276, 340,
     1544, 1545, 1606, 1607, 592, 593, 604, 3760, 1555, 1560, 1621, 1622, 1623, 532, 596, 3488, 1827,
     1828, 1829, 1830, 1831, 1832, 1833, 1834, 1835, 1836, 1837, 1838, 1839, 1840, 1841, 1842, 1843,
     1844, 1845, 1846, 1847, 1848, 1849, 1850, 1851, 1852, 1853, 1854, 1855, 333, 349, 589, 605, 896,
     897, 898, 899, 900, 901, 0, 4, 5, 64, 65, 66, 67, 68, 258, 259, 1, 2, 3, 1968, 1969, 1970, 1971,
     1952, 1953, 1954, 1955, 1956, 1957, 1704, 1448, 1960, 1962, 21, 8, 9, 10, 15, 3104, 3105, 3106]"

definition rv32_csr :: "nat \<Rightarrow> bool" where
  "rv32_csr csr \<longleftrightarrow> csr = CSR_CYCLEH \<or> csr = CSR_INSTRETH \<or> csr = CSR_TIMEH"

definition fetch_csr :: "'m sim_host \<Rightarrow> nat \<Rightarrow> 'm sim_state \<Rightarrow> sim_halt \<times> 'm sim_state + 64 word" where
  "fetch_csr host csr cpu =
     (if rv32_csr csr then RISCV_ASSERT_RV 32 host cpu (Inr (sim_csr cpu csr))
      else Inr (sim_csr cpu csr))"

definition store_csr :: "'m sim_host \<Rightarrow> nat \<Rightarrow> 64 word \<Rightarrow> 'm sim_state \<Rightarrow> 'm sim_result" where
  "store_csr host csr val cpu =
     (if csr = CSR_FRM
      then Inr (cpu\<lparr>sim_csr := (sim_csr cpu)(csr := val AND 0x7,
             CSR_FCSR := (sim_csr cpu CSR_FCSR AND NOT 0xe0) OR shl (val AND 0x7) 5)\<rparr>)
      else if csr = CSR_FFLAGS
      then Inr (cpu\<lparr>sim_csr := (sim_csr cpu)(csr := val AND 0x1f,
             CSR_FCSR := (sim_csr cpu CSR_FCSR AND NOT 0x1f) OR (val AND 0x1f))\<rparr>)
      else if csr = CSR_FCSR
      then Inr (cpu\<lparr>sim_csr := (sim_csr cpu)(csr := val, CSR_FRM := shr val 5 AND 0x7,
             CSR_FFLAGS := val AND 0x1f)\<rparr>)
      else if rv32_csr csr then RISCV_ASSERT_RV 32 host cpu (Inr cpu)
      else Inr cpu)"

text \<open>
  The body of the three CSR instructions: \<open>f\<close> computes the new value from the old one and from \<open>rs1\<close>, which
  is read after the write of \<open>rd\<close>.
\<close>

definition csr_insn ::
    "'m sim_host \<Rightarrow> (64 word \<Rightarrow> 64 word \<Rightarrow> 64 word) \<Rightarrow> nat \<Rightarrow> nat \<Rightarrow> nat \<Rightarrow> 'm sim_state \<Rightarrow> 'm sim_result" where
  "csr_insn host f csr rd rs1 cpu =
     (if csr \<in> set declared_csrs
      then case fetch_csr host csr cpu of
             Inl h \<Rightarrow> Inl h
           | Inr v \<Rightarrow>
               (let cpu' = store_rd rd v cpu
                in store_csr host csr (f (sim_csr cpu' csr) (reg cpu' rs1)) cpu')
      else Inr cpu)"

section \<open>Opcodes\<close>

abbreviation (input) MATCH_ADD :: insn_t where "MATCH_ADD \<equiv> 0x33"
abbreviation (input) MATCH_ADDW :: insn_t where "MATCH_ADDW \<equiv> 0x3b"
abbreviation (input) MATCH_ADDI :: insn_t where "MATCH_ADDI \<equiv> 0x13"
abbreviation (input) MATCH_ADDIW :: insn_t where "MATCH_ADDIW \<equiv> 0x1b"
abbreviation (input) MATCH_AND :: insn_t where "MATCH_AND \<equiv> 0x7033"
abbreviation (input) MATCH_ANDI :: insn_t where "MATCH_ANDI \<equiv> 0x7013"
abbreviation (input) MATCH_OR :: insn_t where "MATCH_OR \<equiv> 0x6033"
abbreviation (input) MATCH_ORI :: insn_t where "MATCH_ORI \<equiv> 0x6013"
abbreviation (input) MATCH_XOR :: insn_t where "MATCH_XOR \<equiv> 0x4033"
abbreviation (input) MATCH_XORI :: insn_t where "MATCH_XORI \<equiv> 0x4013"
abbreviation (input) MATCH_SUB :: insn_t where "MATCH_SUB \<equiv> 0x40000033"
abbreviation (input) MATCH_SUBW :: insn_t where "MATCH_SUBW \<equiv> 0x4000003b"
abbreviation (input) MATCH_LUI :: insn_t where "MATCH_LUI \<equiv> 0x37"
abbreviation (input) MATCH_SLL :: insn_t where "MATCH_SLL \<equiv> 0x1033"
abbreviation (input) MATCH_SLLW :: insn_t where "MATCH_SLLW \<equiv> 0x103b"
abbreviation (input) MATCH_SLLI :: insn_t where "MATCH_SLLI \<equiv> 0x1013"
abbreviation (input) MATCH_SLLIW :: insn_t where "MATCH_SLLIW \<equiv> 0x101b"
abbreviation (input) MATCH_SRL :: insn_t where "MATCH_SRL \<equiv> 0x5033"
abbreviation (input) MATCH_SRLW :: insn_t where "MATCH_SRLW \<equiv> 0x503b"
abbreviation (input) MATCH_SRLI :: insn_t where "MATCH_SRLI \<equiv> 0x5013"
abbreviation (input) MATCH_SRLIW :: insn_t where "MATCH_SRLIW \<equiv> 0x501b"
abbreviation (input) MATCH_SRA :: insn_t where "MATCH_SRA \<equiv> 0x40005033"
abbreviation (input) MATCH_SRAW :: insn_t where "MATCH_SRAW \<equiv> 0x4000503b"
abbreviation (input) MATCH_SRAI :: insn_t where "MATCH_SRAI \<equiv> 0x40005013"
abbreviation (input) MATCH_SRAIW :: insn_t where "MATCH_SRAIW \<equiv> 0x4000501b"
abbreviation (input) MATCH_SLT :: insn_t where "MATCH_SLT \<equiv> 0x2033"
abbreviation (input) MATCH_SLTU :: insn_t where "MATCH_SLTU \<equiv> 0x3033"
abbreviation (input) MATCH_SLTI :: insn_t where "MATCH_SLTI \<equiv> 0x2013"
abbreviation (input) MATCH_SLTIU :: insn_t where "MATCH_SLTIU \<equiv> 0x3013"
abbreviation (input) MATCH_AUIPC :: insn_t where "MATCH_AUIPC \<equiv> 0x17"
abbreviation (input) MATCH_BEQ :: insn_t where "MATCH_BEQ \<equiv> 0x63"
abbreviation (input) MATCH_BLT :: insn_t where "MATCH_BLT \<equiv> 0x4063"
abbreviation (input) MATCH_BLTU :: insn_t where "MATCH_BLTU \<equiv> 0x6063"
abbreviation (input) MATCH_BGE :: insn_t where "MATCH_BGE \<equiv> 0x5063"
abbreviation (input) MATCH_BGEU :: insn_t where "MATCH_BGEU \<equiv> 0x7063"
abbreviation (input) MATCH_BNE :: insn_t where "MATCH_BNE \<equiv> 0x1063"
abbreviation (input) MATCH_JAL :: insn_t where "MATCH_JAL \<equiv> 0x6f"
abbreviation (input) MATCH_JALR :: insn_t where "MATCH_JALR \<equiv> 0x67"
abbreviation (input) MATCH_LD :: insn_t where "MATCH_LD \<equiv> 0x3003"
abbreviation (input) MATCH_LW :: insn_t where "MATCH_LW \<equiv> 0x2003"
abbreviation (input) MATCH_LWU :: insn_t where "MATCH_LWU \<equiv> 0x6003"
abbreviation (input) MATCH_LH :: insn_t where "MATCH_LH \<equiv> 0x1003"
abbreviation (input) MATCH_LHU :: insn_t where "MATCH_LHU \<equiv> 0x5003"
abbreviation (input) MATCH_LB :: insn_t where "MATCH_LB \<equiv> 0x3"
abbreviation (input) MATCH_LBU :: insn_t where "MATCH_LBU \<equiv> 0x4003"
abbreviation (input) MATCH_SD :: insn_t where "MATCH_SD \<equiv> 0x3023"
abbreviation (input) MATCH_SW :: insn_t where "MATCH_SW \<equiv> 0x2023"
abbreviation (input) MATCH_SH :: insn_t where "MATCH_SH \<equiv> 0x1023"
abbreviation (input) MATCH_SB :: insn_t where "MATCH_SB \<equiv> 0x23"
abbreviation (input) MATCH_CSRRC :: insn_t where "MATCH_CSRRC \<equiv> 0x3073"
abbreviation (input) MATCH_CSRRS :: insn_t where "MATCH_CSRRS \<equiv> 0x2073"
abbreviation (input) MATCH_CSRRW :: insn_t where "MATCH_CSRRW \<equiv> 0x1073"
abbreviation (input) MATCH_RDCYCLE :: insn_t where "MATCH_RDCYCLE \<equiv> 0xc0002073"
abbreviation (input) MATCH_RDCYCLEH :: insn_t where "MATCH_RDCYCLEH \<equiv> 0xc8002073"
abbreviation (input) MATCH_RDINSTRET :: insn_t where "MATCH_RDINSTRET \<equiv> 0xc0202073"
abbreviation (input) MATCH_RDINSTRETH :: insn_t where "MATCH_RDINSTRETH \<equiv> 0xc8202073"
abbreviation (input) MATCH_RDTIME :: insn_t where "MATCH_RDTIME \<equiv> 0xc0102073"
abbreviation (input) MATCH_RDTIMEH :: insn_t where "MATCH_RDTIMEH \<equiv> 0xc8102073"
abbreviation (input) MATCH_FENCE :: insn_t where "MATCH_FENCE \<equiv> 0xf"
abbreviation (input) MATCH_FENCE_I :: insn_t where "MATCH_FENCE_I \<equiv> 0x100f"
abbreviation (input) MATCH_EBREAK :: insn_t where "MATCH_EBREAK \<equiv> 0x100073"
abbreviation (input) MATCH_ECALL :: insn_t where "MATCH_ECALL \<equiv> 0x73"
abbreviation (input) MATCH_DIV :: insn_t where "MATCH_DIV \<equiv> 0x2004033"
abbreviation (input) MATCH_DIVW :: insn_t where "MATCH_DIVW \<equiv> 0x200403b"
abbreviation (input) MATCH_DIVU :: insn_t where "MATCH_DIVU \<equiv> 0x2005033"
abbreviation (input) MATCH_DIVUW :: insn_t where "MATCH_DIVUW \<equiv> 0x200503b"
abbreviation (input) MATCH_MUL :: insn_t where "MATCH_MUL \<equiv> 0x2000033"
abbreviation (input) MATCH_MULW :: insn_t where "MATCH_MULW \<equiv> 0x200003b"
abbreviation (input) MATCH_MULH :: insn_t where "MATCH_MULH \<equiv> 0x2001033"
abbreviation (input) MATCH_MULHU :: insn_t where "MATCH_MULHU \<equiv> 0x2003033"
abbreviation (input) MATCH_MULHSU :: insn_t where "MATCH_MULHSU \<equiv> 0x2002033"
abbreviation (input) MATCH_REM :: insn_t where "MATCH_REM \<equiv> 0x2006033"
abbreviation (input) MATCH_REMW :: insn_t where "MATCH_REMW \<equiv> 0x200603b"
abbreviation (input) MATCH_REMU :: insn_t where "MATCH_REMU \<equiv> 0x2007033"
abbreviation (input) MATCH_REMUW :: insn_t where "MATCH_REMUW \<equiv> 0x200703b"
abbreviation (input) MATCH_LR_W :: insn_t where "MATCH_LR_W \<equiv> 0x1000202f"
abbreviation (input) MATCH_SC_W :: insn_t where "MATCH_SC_W \<equiv> 0x1800202f"
abbreviation (input) MATCH_AMOADD_D :: insn_t where "MATCH_AMOADD_D \<equiv> 0x302f"
abbreviation (input) MATCH_AMOADD_W :: insn_t where "MATCH_AMOADD_W \<equiv> 0x202f"
abbreviation (input) MATCH_AMOAND_D :: insn_t where "MATCH_AMOAND_D \<equiv> 0x6000302f"
abbreviation (input) MATCH_AMOAND_W :: insn_t where "MATCH_AMOAND_W \<equiv> 0x6000202f"
abbreviation (input) MATCH_AMOMAX_D :: insn_t where "MATCH_AMOMAX_D \<equiv> 0xa000302f"
abbreviation (input) MATCH_AMOMAX_W :: insn_t where "MATCH_AMOMAX_W \<equiv> 0xa000202f"
abbreviation (input) MATCH_AMOMAXU_D :: insn_t where "MATCH_AMOMAXU_D \<equiv> 0xe000302f"
abbreviation (input) MATCH_AMOMAXU_W :: insn_t where "MATCH_AMOMAXU_W \<equiv> 0xe000202f"
abbreviation (input) MATCH_AMOMIN_D :: insn_t where "MATCH_AMOMIN_D \<equiv> 0x8000302f"
abbreviation (input) MATCH_AMOMIN_W :: insn_t where "MATCH_AMOMIN_W \<equiv> 0x8000202f"
abbreviation (input) MATCH_AMOMINU_D :: insn_t where "MATCH_AMOMINU_D \<equiv> 0xc000302f"
abbreviation (input) MATCH_AMOMINU_W :: insn_t where "MATCH_AMOMINU_W \<equiv> 0xc000202f"
abbreviation (input) MATCH_AMOOR_D :: insn_t where "MATCH_AMOOR_D \<equiv> 0x4000302f"
abbreviation (input) MATCH_AMOOR_W :: insn_t where "MATCH_AMOOR_W \<equiv> 0x4000202f"
abbreviation (input) MATCH_AMOSWAP_D :: insn_t where "MATCH_AMOSWAP_D \<equiv> 0x800302f"
abbreviation (input) MATCH_AMOSWAP_W :: insn_t where "MATCH_AMOSWAP_W \<equiv> 0x800202f"
abbreviation (input) MATCH_AMOXOR_D :: insn_t where "MATCH_AMOXOR_D \<equiv> 0x2000302f"
abbreviation (input) MATCH_AMOXOR_W :: insn_t where "MATCH_AMOXOR_W \<equiv> 0x2000202f"

section \<open>The base instructions\<close>

definition ashiftrt :: "64 word \<Rightarrow> 64 word \<Rightarrow> 64 word" where
  "ashiftrt val shift =
     shr val (unat shift) OR
     (if val AND 0x80000000 \<noteq> 0 then take_bit 32 (NOT (shr 0xffffffff (unat shift))) else 0)"

definition ashiftrt64 :: "64 word \<Rightarrow> 64 word \<Rightarrow> 64 word" where
  "ashiftrt64 val shift =
     shr val (unat shift) OR
     (if val AND 0x8000000000000000 \<noteq> 0 then NOT (shr 0xffffffffffffffff (unat shift)) else 0)"

definition of_bool_word :: "bool \<Rightarrow> 64 word" where "of_bool_word b = (if b then 1 else 0)"

definition uint32 :: "64 word \<Rightarrow> 64 word" where "uint32 x = take_bit 32 x"

definition int32 :: "64 word \<Rightarrow> 64 word" where "int32 x = signed_take_bit 31 x"

definition insn_rd :: "64 word \<Rightarrow> nat" where "insn_rd iw = unat (shr iw OP_SH_RD AND OP_MASK_RD)"
definition insn_rs1 :: "64 word \<Rightarrow> nat" where "insn_rs1 iw = unat (shr iw OP_SH_RS1 AND OP_MASK_RS1)"
definition insn_rs2 :: "64 word \<Rightarrow> nat" where "insn_rs2 iw = unat (shr iw OP_SH_RS2 AND OP_MASK_RS2)"
definition insn_csr :: "64 word \<Rightarrow> nat" where "insn_csr iw = unat (shr iw OP_SH_CSR AND OP_MASK_CSR)"
definition insn_shamt :: "64 word \<Rightarrow> 64 word" where "insn_shamt iw = shr iw OP_SH_SHAMT AND OP_MASK_SHAMT"

text \<open>
  The instructions of \<open>execute_i\<close> that only write \<open>rd\<close>: the value, for the register operands \<open>a\<close> and \<open>b\<close>, or
  \<open>None\<close> when the opcode is not one of them.  The C code computes with \<open>uint32_t\<close> in the \<open>W\<close> shifts.
\<close>

definition alu_i :: "nat \<Rightarrow> 64 word \<Rightarrow> 64 word \<Rightarrow> 64 word \<Rightarrow> 64 word \<Rightarrow> 64 word \<Rightarrow> 64 word option" where
  "alu_i xlen match iw pc a b =
     (let i_imm = EXTRACT_ITYPE_IMM iw; u_imm = EXTRACT_UTYPE_IMM iw; shamt_imm = insn_shamt iw
      in if match = MATCH_ADD then Some (a + b)
         else if match = MATCH_ADDW then Some (EXTEND32 (a + b))
         else if match = MATCH_ADDI then Some (a + i_imm)
         else if match = MATCH_ADDIW then Some (EXTEND32 (a + i_imm))
         else if match = MATCH_AND then Some (a AND b)
         else if match = MATCH_ANDI then Some (a AND i_imm)
         else if match = MATCH_OR then Some (a OR b)
         else if match = MATCH_ORI then Some (a OR i_imm)
         else if match = MATCH_XOR then Some (a XOR b)
         else if match = MATCH_XORI then Some (a XOR i_imm)
         else if match = MATCH_SUB then Some (a - b)
         else if match = MATCH_SUBW then Some (EXTEND32 (a - b))
         else if match = MATCH_LUI then Some u_imm
         else if match = MATCH_SLL then Some (shl a (unat (b AND (if xlen = 32 then 0x1f else 0x3f))))
         else if match = MATCH_SLLW then Some (EXTEND32 (uint32 (shl (uint32 a) (unat (b AND 0x1f)))))
         else if match = MATCH_SLLI then Some (shl a (unat shamt_imm))
         else if match = MATCH_SLLIW then Some (EXTEND32 (uint32 (shl (uint32 a) (unat shamt_imm))))
         else if match = MATCH_SRL then Some (shr a (unat (b AND (if xlen = 32 then 0x1f else 0x3f))))
         else if match = MATCH_SRLW then Some (EXTEND32 (shr (uint32 a) (unat (b AND 0x1f))))
         else if match = MATCH_SRLI then Some (shr a (unat shamt_imm))
         else if match = MATCH_SRLIW then Some (EXTEND32 (shr (uint32 a) (unat shamt_imm)))
         else if match = MATCH_SRA
         then Some (if xlen = 32 then ashiftrt a (b AND 0x1f) else ashiftrt64 a (b AND 0x3f))
         else if match = MATCH_SRAW then Some (EXTEND32 (ashiftrt (int32 a) (b AND 0x1f)))
         else if match = MATCH_SRAI
         then Some (if xlen = 32 then ashiftrt a shamt_imm else ashiftrt64 a shamt_imm)
         else if match = MATCH_SRAIW then Some (EXTEND32 (ashiftrt (int32 a) shamt_imm))
         else if match = MATCH_SLT then Some (of_bool_word (a <s b))
         else if match = MATCH_SLTU then Some (of_bool_word (a < b))
         else if match = MATCH_SLTI then Some (of_bool_word (a <s i_imm))
         else if match = MATCH_SLTIU then Some (of_bool_word (a < i_imm))
         else if match = MATCH_AUIPC then Some (pc + u_imm)
         else None)"

text \<open>The guards of these instructions: the width they need and the range of a shift on RV32.\<close>

definition alu_halts :: "nat \<Rightarrow> 64 word \<Rightarrow> 64 word \<Rightarrow> bool" where
  "alu_halts xlen match iw \<longleftrightarrow>
     (match \<in> {MATCH_ADDW, MATCH_ADDIW, MATCH_SUBW, MATCH_SLLW, MATCH_SLLIW, MATCH_SRLW, MATCH_SRLIW,
               MATCH_SRAW, MATCH_SRAIW} \<and> xlen \<noteq> 64) \<or>
     (match \<in> {MATCH_SLLI, MATCH_SRLI, MATCH_SRAI} \<and> xlen = 32 \<and> insn_shamt iw > 0x1f)"

text \<open>The conditional branches: whether the branch is taken.\<close>

definition branch_i :: "64 word \<Rightarrow> 64 word \<Rightarrow> 64 word \<Rightarrow> bool option" where
  "branch_i match a b =
     (if match = MATCH_BEQ then Some (a = b)
      else if match = MATCH_BLT then Some (a <s b)
      else if match = MATCH_BLTU then Some (a < b)
      else if match = MATCH_BGE then Some (b <=s a)
      else if match = MATCH_BGEU then Some (b \<le> a)
      else if match = MATCH_BNE then Some (a \<noteq> b)
      else None)"

text \<open>Loads (width and extension) and stores (width).\<close>

definition load_i :: "64 word \<Rightarrow> (nat \<times> (64 word \<Rightarrow> 64 word)) option" where
  "load_i match =
     (if match = MATCH_LD then Some (8, id)
      else if match = MATCH_LW then Some (4, EXTEND32)
      else if match = MATCH_LWU then Some (4, id)
      else if match = MATCH_LH then Some (2, EXTEND16)
      else if match = MATCH_LHU then Some (2, id)
      else if match = MATCH_LB then Some (1, EXTEND8)
      else if match = MATCH_LBU then Some (1, id)
      else None)"

definition store_i :: "64 word \<Rightarrow> nat option" where
  "store_i match =
     (if match = MATCH_SD then Some 8
      else if match = MATCH_SW then Some 4
      else if match = MATCH_SH then Some 2
      else if match = MATCH_SB then Some 1
      else None)"

definition csr_i :: "64 word \<Rightarrow> (64 word \<Rightarrow> 64 word \<Rightarrow> 64 word) option" where
  "csr_i match =
     (if match = MATCH_CSRRC then Some (\<lambda>old r. old AND of_bool_word (r = 0))
      else if match = MATCH_CSRRS then Some (\<lambda>old r. old OR r)
      else if match = MATCH_CSRRW then Some (\<lambda>old r. r)
      else None)"

definition counter_i :: "64 word \<Rightarrow> nat option" where
  "counter_i match =
     (if match = MATCH_RDCYCLE then Some CSR_CYCLE
      else if match = MATCH_RDCYCLEH then Some CSR_CYCLEH
      else if match = MATCH_RDINSTRET then Some CSR_INSTRET
      else if match = MATCH_RDINSTRETH then Some CSR_INSTRETH
      else if match = MATCH_RDTIME then Some CSR_TIME
      else if match = MATCH_RDTIMEH then Some CSR_TIMEH
      else None)"

text \<open>The result of a handler: the state and the next program counter.\<close>

definition execute_i ::
    "'m sim_host \<Rightarrow> 64 word \<Rightarrow> riscv_opcode \<Rightarrow> 'm sim_state \<Rightarrow> sim_halt \<times> 'm sim_state + 'm sim_state \<times> 64 word" where
  "execute_i host iw op cpu =
     (let rd = insn_rd iw; rs1 = insn_rs1 iw; rs2 = insn_rs2 iw; pc = sim_pc cpu + 4;
          a = reg cpu rs1; b = reg cpu rs2; match = op_match op
      in case alu_i (host_xlen host) match iw (sim_pc cpu) a b of
           Some v \<Rightarrow>
             if alu_halts (host_xlen host) match iw then sim_engine_halt SIM_SIGILL (sim_pc cpu) cpu
             else Inr (store_rd rd v cpu, pc)
         | None \<Rightarrow>
         case branch_i match a b of
           Some taken \<Rightarrow> Inr (cpu, if taken then sim_pc cpu + EXTRACT_BTYPE_IMM iw else pc)
         | None \<Rightarrow>
         case load_i match of
           Some (n, ext) \<Rightarrow>
             if match = MATCH_LD \<and> host_xlen host \<noteq> 64 then sim_engine_halt SIM_SIGILL (sim_pc cpu) cpu
             else (case core_read host n (a + EXTRACT_ITYPE_IMM iw) (sim_mem cpu) of
                     None \<Rightarrow> sim_engine_halt Core_signal (sim_pc cpu) cpu
                   | Some v \<Rightarrow> Inr (store_rd rd (ext v) cpu, pc))
         | None \<Rightarrow>
         case store_i match of
           Some n \<Rightarrow>
             if match = MATCH_SD \<and> host_xlen host \<noteq> 64 then sim_engine_halt SIM_SIGILL (sim_pc cpu) cpu
             else (case core_write host n (a + EXTRACT_STYPE_IMM iw) b (sim_mem cpu) of
                     None \<Rightarrow> sim_engine_halt Core_signal (sim_pc cpu) cpu
                   | Some m \<Rightarrow> Inr (cpu\<lparr>sim_mem := m\<rparr>, pc))
         | None \<Rightarrow>
         case csr_i match of
           Some f \<Rightarrow>
             (case csr_insn host f (insn_csr iw) rd rs1 cpu of
                Inl h \<Rightarrow> Inl h
              | Inr cpu' \<Rightarrow> Inr (cpu', pc))
         | None \<Rightarrow>
         case counter_i match of
           Some csr \<Rightarrow>
             (case fetch_csr host csr cpu of
                Inl h \<Rightarrow> Inl h
              | Inr v \<Rightarrow> Inr (store_rd rd v cpu, pc))
         | None \<Rightarrow>
           if match = MATCH_JAL
           then Inr (store_rd rd (sim_pc cpu + 4) cpu, sim_pc cpu + EXTRACT_JTYPE_IMM iw)
           else if match = MATCH_JALR
           then Inr (store_rd rd (sim_pc cpu + 4) cpu, a + EXTRACT_ITYPE_IMM iw)
           else if match = MATCH_FENCE \<or> match = MATCH_FENCE_I then Inr (cpu, pc)
           else if match = MATCH_EBREAK then sim_engine_halt SIM_SIGTRAP (sim_pc cpu + 4) cpu
           else if match = MATCH_ECALL
           then (case host_syscall host (map (reg cpu) [17, 10, 11, 12, 13]) (sim_mem cpu) of
                   None \<Rightarrow> sim_engine_halt Sim_exited (sim_pc cpu) cpu
                 | Some (r, m) \<Rightarrow>
                     Inr (cpu\<lparr>sim_regs := (sim_regs cpu)[10 := r], sim_mem := m\<rparr>, pc))
           else sim_engine_halt SIM_SIGILL (sim_pc cpu) cpu)"

section \<open>Multiplication and division\<close>

text \<open>The portable branch of \<open>mulhu\<close>, for hosts without 128-bit integers.\<close>

definition mulhu :: "64 word \<Rightarrow> 64 word \<Rightarrow> 64 word" where
  "mulhu a b =
     (let a0 = uint32 a; a1 = shr a 32; b0 = uint32 b; b1 = shr b 32;
          t = a1 * b0 + shr (a0 * b0) 32;
          y1 = uint32 t; y2 = uint32 (shr t 32);
          t = a0 * b1 + y1;
          t = a1 * b1 + y2 + shr t 32;
          y2 = uint32 t; y3 = uint32 (shr t 32)
      in shl y3 32 OR y2)"

definition mulh :: "64 word \<Rightarrow> 64 word \<Rightarrow> 64 word" where
  "mulh a b =
     (let negate = ((a <s 0) \<noteq> (b <s 0));
          res = mulhu (if a <s 0 then - a else a) (if b <s 0 then - b else b)
      in if negate then NOT res + of_bool_word (a * b = 0) else res)"

definition mulhsu :: "64 word \<Rightarrow> 64 word \<Rightarrow> 64 word" where
  "mulhsu a b =
     (let negate = (a <s 0); res = mulhu (if a <s 0 then - a else a) b
      in if negate then NOT res + of_bool_word (a * b = 0) else res)"

text \<open>The division operators of C on \<open>signed_word\<close>.\<close>

definition sdiv_word :: "64 word \<Rightarrow> 64 word \<Rightarrow> 64 word" where
  "sdiv_word a b = word_of_int (sint a sdiv sint b)"

definition smod_word :: "64 word \<Rightarrow> 64 word \<Rightarrow> 64 word" where
  "smod_word a b = word_of_int (sint a smod sint b)"

abbreviation (input) dividend_max :: "64 word" where "dividend_max \<equiv> 0x8000000000000000"

definition value_m :: "nat \<Rightarrow> 64 word \<Rightarrow> 64 word \<Rightarrow> 64 word \<Rightarrow> 64 word option" where
  "value_m xlen match a b =
     (if match = MATCH_DIV
      then Some (if a = dividend_max \<and> b = -1 then dividend_max else if b \<noteq> 0 then sdiv_word a b else -1)
      else if match = MATCH_DIVW
      then Some (EXTEND32 (if EXTEND32 b = -1 then 0xffffffff80000000
                           else if EXTEND32 b \<noteq> 0 then sdiv_word (EXTEND32 a) (EXTEND32 b) else -1))
      else if match = MATCH_DIVU then Some (if b \<noteq> 0 then a div b else -1)
      else if match = MATCH_DIVUW
      then Some (EXTEND32 (if uint32 b \<noteq> 0 then uint32 a div uint32 b else -1))
      else if match = MATCH_MUL then Some (a * b)
      else if match = MATCH_MULW then Some (EXTEND32 (int32 a * int32 b))
      else if match = MATCH_MULH
      then Some (if xlen = 32 then word_of_int (sint (a * b) div 2 ^ 32) else mulh a b)
      else if match = MATCH_MULHU then Some (if xlen = 32 then shr (a * b) 32 else mulhu a b)
      else if match = MATCH_MULHSU then Some (if xlen = 32 then shr (a * b) 32 else mulhsu a b)
      else if match = MATCH_REM
      then Some (if a = dividend_max \<and> b = -1 then 0 else if b \<noteq> 0 then smod_word a b else a)
      else if match = MATCH_REMW
      then Some (EXTEND32 (if EXTEND32 b = -1 then 0
                           else if EXTEND32 b \<noteq> 0 then smod_word (EXTEND32 a) (EXTEND32 b) else a))
      else if match = MATCH_REMU then Some (if b \<noteq> 0 then a mod b else a)
      else if match = MATCH_REMUW
      then Some (EXTEND32 (if uint32 b \<noteq> 0 then uint32 a mod uint32 b else a))
      else None)"

definition execute_m ::
    "'m sim_host \<Rightarrow> 64 word \<Rightarrow> riscv_opcode \<Rightarrow> 'm sim_state \<Rightarrow> sim_halt \<times> 'm sim_state + 'm sim_state \<times> 64 word" where
  "execute_m host iw op cpu =
     (let match = op_match op
      in case value_m (host_xlen host) match (reg cpu (insn_rs1 iw)) (reg cpu (insn_rs2 iw)) of
           None \<Rightarrow> sim_engine_halt SIM_SIGILL (sim_pc cpu) cpu
         | Some v \<Rightarrow>
             if match \<in> {MATCH_DIVW, MATCH_DIVUW, MATCH_MULW, MATCH_REMW, MATCH_REMUW} \<and> host_xlen host \<noteq> 64
             then sim_engine_halt SIM_SIGILL (sim_pc cpu) cpu
             else Inr (store_rd (insn_rd iw) v cpu, sim_pc cpu + 4))"

section \<open>Atomic instructions\<close>

text \<open>The value an atomic instruction writes back, from \<open>rd\<close> and \<open>rs2\<close> as they are after the write of \<open>rd\<close>.\<close>

definition amo_op :: "64 word \<Rightarrow> 64 word \<Rightarrow> 64 word \<Rightarrow> 64 word option" where
  "amo_op match x y =
     (if match \<in> {MATCH_AMOADD_D, MATCH_AMOADD_W} then Some (x + y)
      else if match \<in> {MATCH_AMOAND_D, MATCH_AMOAND_W} then Some (x AND y)
      else if match \<in> {MATCH_AMOMAX_D, MATCH_AMOMAX_W} then Some (if y <s x then x else y)
      else if match \<in> {MATCH_AMOMAXU_D, MATCH_AMOMAXU_W} then Some (if y < x then x else y)
      else if match \<in> {MATCH_AMOMIN_D, MATCH_AMOMIN_W} then Some (if x <s y then x else y)
      else if match \<in> {MATCH_AMOMINU_D, MATCH_AMOMINU_W} then Some (if x < y then x else y)
      else if match \<in> {MATCH_AMOOR_D, MATCH_AMOOR_W} then Some (x OR y)
      else if match \<in> {MATCH_AMOSWAP_D, MATCH_AMOSWAP_W} then Some y
      else if match \<in> {MATCH_AMOXOR_D, MATCH_AMOXOR_W} then Some (x XOR y)
      else None)"

definition amo_insn ::
    "'m sim_host \<Rightarrow> 64 word \<Rightarrow> riscv_opcode \<Rightarrow> 'm sim_state \<Rightarrow> sim_halt \<times> 'm sim_state + 'm sim_state \<times> 64 word" where
  "amo_insn host iw op cpu =
     (let rd = insn_rd iw; rs1 = insn_rs1 iw; rs2 = insn_rs2 iw;
          n = (if op_xlen_requirement op = 64 then 8 else 4)
      in case core_read host n (reg cpu rs1) (sim_mem cpu) of
           None \<Rightarrow> sim_engine_halt Core_signal (sim_pc cpu) cpu
         | Some v \<Rightarrow>
             (let cpu' = store_rd rd (if op_xlen_requirement op = 64 then v else EXTEND32 v) cpu
              in case amo_op (op_match op) (reg cpu' rd) (reg cpu' rs2) of
                   None \<Rightarrow> sim_engine_halt SIM_SIGILL (sim_pc cpu) cpu'
                 | Some w \<Rightarrow>
                     (case core_write host n (reg cpu' rs1) w (sim_mem cpu') of
                        None \<Rightarrow> sim_engine_halt Core_signal (sim_pc cpu) cpu'
                      | Some m \<Rightarrow> Inr (cpu'\<lparr>sim_mem := m\<rparr>, sim_pc cpu + 4))))"

definition execute_a ::
    "'m sim_host \<Rightarrow> 64 word \<Rightarrow> riscv_opcode \<Rightarrow> 'm sim_state \<Rightarrow> sim_halt \<times> 'm sim_state + 'm sim_state \<times> 64 word" where
  "execute_a host iw op cpu =
     (let rd = insn_rd iw; rs1 = insn_rs1 iw; rs2 = insn_rs2 iw; pc = sim_pc cpu + 4
      in if op_match op = MATCH_LR_W
         then (case core_read host 4 (reg cpu rs1) (sim_mem cpu) of
                 None \<Rightarrow> sim_engine_halt Core_signal (sim_pc cpu) cpu
               | Some v \<Rightarrow>
                   (let cpu' = store_rd rd v cpu
                    in if reg cpu' rs1 \<in> set (sim_reserved cpu') then Inr (cpu', pc)
                       else Inr (cpu'\<lparr>sim_reserved := reg cpu' rs1 # sim_reserved cpu'\<rparr>, pc)))
         else if op_match op = MATCH_SC_W
         then if reg cpu rs1 \<in> set (sim_reserved cpu)
              then (case core_write host 4 (reg cpu rs1) (reg cpu rs2) (sim_mem cpu) of
                      None \<Rightarrow> sim_engine_halt Core_signal (sim_pc cpu) cpu
                    | Some m \<Rightarrow>
                        Inr ((store_rd rd 0 (cpu\<lparr>sim_mem := m\<rparr>))
                               \<lparr>sim_reserved := remove1 (reg cpu rs1) (sim_reserved cpu)\<rparr>, pc))
              else Inr (store_rd rd 1 cpu, pc)
         else amo_insn host iw op cpu)"

section \<open>One instruction\<close>

definition execute_one ::
    "'m sim_host \<Rightarrow> 64 word \<Rightarrow> riscv_opcode \<Rightarrow> 'm sim_state \<Rightarrow> sim_halt \<times> 'm sim_state + 'm sim_state \<times> 64 word" where
  "execute_one host iw op cpu =
     (if op_xlen_requirement op = 32 \<and> host_xlen host \<noteq> 32 \<or>
         op_xlen_requirement op = 64 \<and> host_xlen host \<noteq> 64
      then sim_engine_halt SIM_SIGILL (sim_pc cpu) cpu
      else case op_insn_class op of
             INSN_CLASS_A \<Rightarrow> execute_a host iw op cpu
           | INSN_CLASS_I \<Rightarrow> execute_i host iw op cpu
           | INSN_CLASS_M \<Rightarrow> execute_m host iw op cpu
           | INSN_CLASS_ZMMUL \<Rightarrow> execute_m host iw op cpu
           | _ \<Rightarrow> sim_engine_halt SIM_SIGILL (sim_pc cpu) cpu)"

text \<open>
  The search of \<open>step_once\<close>; unlike the disassembler's it does not pass over macros, so it can call a
  null match function.
\<close>

fun sim_scan :: "nat \<Rightarrow> 64 word \<Rightarrow> riscv_opcode list \<Rightarrow> dis_crash + riscv_opcode option" where
  "sim_scan xlen iw [] = Inr None"
| "sim_scan xlen iw (op # ops) =
     (case call_match_func (op_match_func op) op iw of
        None \<Rightarrow> Inl Null_match_func
      | Some m \<Rightarrow>
          if \<not> m then sim_scan xlen iw ops
          else if op_pinfo op AND INSN_ALIAS \<noteq> 0 then sim_scan xlen iw ops
          else if op_xlen_requirement op \<noteq> 0 \<and> op_xlen_requirement op \<noteq> xlen then sim_scan xlen iw ops
          else Inr (Some op))"

text \<open>\<open>step_once\<close>: \<open>None\<close> is the call through a null pointer.\<close>

definition step_once :: "'m sim_host \<Rightarrow> 'm sim_state \<Rightarrow> 'm sim_result option" where
  "step_once host cpu =
     (case core_read host 2 (sim_pc cpu) (sim_mem cpu) of
        None \<Rightarrow> Some (sim_engine_halt Core_signal (sim_pc cpu) cpu)
      | Some lo \<Rightarrow>
          if riscv_insn_length lo \<noteq> 4 then Some (sim_engine_halt SIM_SIGILL (sim_pc cpu) cpu)
          else case core_read host 2 (sim_pc cpu + 2) (sim_mem cpu) of
                 None \<Rightarrow> Some (sim_engine_halt Core_signal (sim_pc cpu) cpu)
               | Some hi \<Rightarrow>
                   (let iw = lo OR shl hi 16
                    in case riscv_hash riscv_opcodes ! unat (OP_HASH_IDX iw) of
                         None \<Rightarrow> Some (sim_engine_halt SIM_SIGILL (sim_pc cpu) cpu)
                       | Some k \<Rightarrow>
                           (case sim_scan (host_xlen host) iw (drop k riscv_opcodes) of
                              Inl _ \<Rightarrow> None
                            | Inr found \<Rightarrow>
                                Some (case (case found of
                                              None \<Rightarrow> Inr (cpu, sim_pc cpu)
                                            | Some op \<Rightarrow> execute_one host iw op cpu) of
                                        Inl h \<Rightarrow> Inl h
                                      | Inr (cpu', pc) \<Rightarrow>
                                          Inr (cpu'\<lparr>sim_csr := (sim_csr cpu')
                                                 (CSR_CYCLE := sim_csr cpu' CSR_CYCLE + 1,
                                                  CSR_INSTRET := sim_csr cpu' CSR_INSTRET + 1),
                                                 sim_pc := pc\<rparr>)))))"

end
