(* ===== verification/RV_Sim_Laws.thy ===== *)
theory RV_Sim_Laws
  imports RV_Sim
begin

text \<open>
  What the simulator's handlers compute: the high halves of products, the laws of division, register
  zero, and the atomic instructions, with the inputs on which the code departs from them.
\<close>

section \<open>High halves of products\<close>

lemma join_halves: "shl (uint32 (shr t 32)) 32 OR uint32 t = t"
  by (rule w64_eqI) (simp add: uint32_def cbits)

lemma uint_uint32: "uint (uint32 x) = uint x mod 2 ^ 32"
  unfolding uint32_def uint_take_bit by (simp add: take_bit_eq_mod)

lemma uint_shr32: "uint (shr x 32) = uint x div 2 ^ 32"
  by (rule uint_shr)

lemma div_two_steps: "(x :: int) div 2 ^ 64 = x div 2 ^ 32 div 2 ^ 32"
  by (simp add: div_mult2_eq [symmetric])

lemma product_high:
  fixes a0 a1 b0 b1 :: int
  defines "t \<equiv> a1 * b0 + a0 * b0 div 2 ^ 32"
  shows "(a1 * 2 ^ 32 + a0) * (b1 * 2 ^ 32 + b0) div 2 ^ 64 =
           a1 * b1 + t div 2 ^ 32 + (a0 * b1 + t mod 2 ^ 32) div 2 ^ 32"
proof -
  have split: "(k * 2 ^ 32 + m) div 2 ^ 32 = k + m div 2 ^ 32" for k m :: int
    by simp
  have "(a1 * 2 ^ 32 + a0) * (b1 * 2 ^ 32 + b0) =
      (a1 * b1 * 2 ^ 32 + a1 * b0 + a0 * b1) * 2 ^ 32 + a0 * b0"
    by (simp add: algebra_simps)
  then have "(a1 * 2 ^ 32 + a0) * (b1 * 2 ^ 32 + b0) div 2 ^ 32 =
      a1 * b1 * 2 ^ 32 + a1 * b0 + a0 * b1 + a0 * b0 div 2 ^ 32"
    by (simp only: split)
  also have "\<dots> = (a1 * b1 + t div 2 ^ 32) * 2 ^ 32 + (a0 * b1 + t mod 2 ^ 32)"
    using div_mult_mod_eq [of t "2 ^ 32"] by (simp add: t_def algebra_simps)
  finally show ?thesis by (simp only: div_two_steps split)
qed

lemma high_half_bound: "(x :: int) < 2 ^ 64 \<Longrightarrow> x div 2 ^ 32 < 2 ^ 32"
  by simp

lemma half_product_bound:
  fixes x y c :: int
  assumes "0 \<le> x" "x < 2 ^ 32" "0 \<le> y" "y < 2 ^ 32" "0 \<le> c" "c < 2 ^ 33 - 1"
  shows "0 \<le> x * y + c" "x * y + c < 2 ^ 64"
proof -
  have "x * y \<le> (2 ^ 32 - 1) * (2 ^ 32 - 1)"
    using assms by (intro mult_mono) auto
  then show "x * y + c < 2 ^ 64" using assms by simp
  show "0 \<le> x * y + c" using assms by simp
qed

lemma uint_add_small: "uint (x :: 64 word) + uint y < 2 ^ 64 \<Longrightarrow> uint (x + y) = uint x + uint y"
  by (simp add: uint_word_ariths)

lemma uint_mult_small: "uint (x :: 64 word) * uint y < 2 ^ 64 \<Longrightarrow> uint (x * y) = uint x * uint y"
  by (simp add: uint_word_ariths)

lemma mulhu_high: "uint (mulhu a b) = uint a * uint b div 2 ^ 64"
proof -
  define a0 a1 b0 b1 where "a0 = uint a mod 2 ^ 32" and "a1 = uint a div 2 ^ 32"
    and "b0 = uint b mod 2 ^ 32" and "b1 = uint b div 2 ^ 32"
  note parts = a0_def a1_def b0_def b1_def
  have rng: "a0 \<ge> 0" "a0 < 2 ^ 32" "a1 \<ge> 0" "a1 < 2 ^ 32" "b0 \<ge> 0" "b0 < 2 ^ 32" "b1 \<ge> 0" "b1 < 2 ^ 32"
    using uint_bounded [of a] uint_bounded [of b] by (simp_all add: parts pos_imp_zdiv_nonneg_iff)
  define t where "t = shr a 32 * uint32 b + shr (uint32 a * uint32 b) 32"
  define u where "u = uint32 a * shr b 32 + uint32 t"
  define v where "v = shr a 32 * shr b 32 + uint32 (shr t 32) + shr u 32"
  have h: "uint (uint32 a) = a0" "uint (shr a 32) = a1" "uint (uint32 b) = b0" "uint (shr b 32) = b1"
    by (simp_all only: parts uint_uint32 uint_shr32)
  have prod: "uint (x * y) = uint x * uint y" if "uint x < 2 ^ 32" "uint y < 2 ^ 32" for x y :: "64 word"
    using half_product_bound [of "uint x" "uint y" 0] that by (intro uint_mult_small) simp
  have p: "uint (uint32 a * uint32 b) = a0 * b0" "uint (shr a 32 * uint32 b) = a1 * b0"
      "uint (uint32 a * shr b 32) = a0 * b1" "uint (shr a 32 * shr b 32) = a1 * b1"
    using rng by (simp_all only: prod h)
  have lo: "0 \<le> a0 * b0" "a0 * b0 div 2 ^ 32 < 2 ^ 32"
    using half_product_bound [of a0 b0 0] high_half_bound [of "a0 * b0"] rng by simp_all
  have t: "uint t = a1 * b0 + a0 * b0 div 2 ^ 32"
    using half_product_bound [of a1 b0 "a0 * b0 div 2 ^ 32"] rng lo
    unfolding t_def by (subst uint_add_small) (simp_all add: p uint_shr32 pos_imp_zdiv_nonneg_iff)
  have u: "uint u = a0 * b1 + uint t mod 2 ^ 32"
    using half_product_bound [of a0 b1 "uint t mod 2 ^ 32"] rng
    unfolding u_def by (subst uint_add_small) (simp_all add: p uint_uint32)
  have "uint t div 2 ^ 32 + uint u div 2 ^ 32 < 2 ^ 33 - 1"
    using high_half_bound [of "uint t"] high_half_bound [of "uint u"] uint_bounded [of t] uint_bounded [of u]
    by simp
  then have sum: "a1 * b1 + (uint t div 2 ^ 32 + uint u div 2 ^ 32) < 2 ^ 64"
    using half_product_bound(2) [of a1 b1 "uint t div 2 ^ 32 + uint u div 2 ^ 32"] rng
    by (simp add: pos_imp_zdiv_nonneg_iff)
  have y2: "uint (uint32 (shr t 32)) = uint t div 2 ^ 32"
    using high_half_bound [of "uint t"] uint_bounded [of t]
    by (simp add: uint_uint32 uint_shr32 pos_imp_zdiv_nonneg_iff)
  have "uint (shr a 32 * shr b 32 + uint32 (shr t 32)) = a1 * b1 + uint t div 2 ^ 32"
    using sum pos_imp_zdiv_nonneg_iff [of "2 ^ 32" "uint u"]
    by (subst uint_add_small) (simp_all add: p y2)
  then have v: "uint v = a1 * b1 + uint t div 2 ^ 32 + uint u div 2 ^ 32"
    using sum unfolding v_def by (subst uint_add_small) (simp_all add: uint_shr32)
  have "mulhu a b = v"
    by (simp only: mulhu_def Let_def t_def [symmetric] u_def [symmetric] v_def [symmetric] join_halves)
  moreover have "uint a * uint b = (a1 * 2 ^ 32 + a0) * (b1 * 2 ^ 32 + b0)"
    by (simp only: parts div_mult_mod_eq)
  ultimately show ?thesis using product_high [of a1 a0 b1 b0] t u v by simp
qed

lemma sless_zero: "(a :: 64 word) <s 0 \<longleftrightarrow> sint a < 0"
  by (simp add: word_sless_alt)

lemma uint_abs: "uint (if (a :: 64 word) <s 0 then - a else a) = \<bar>sint a\<bar>"
proof (cases "sint a < 0")
  case True
  have "uint (- a) = - sint a mod 2 ^ 64"
    using uint_word_of_int [of "- sint a", where ?'a = 64] by (simp add: take_bit_eq_mod)
  with True show ?thesis
    using sint_greater_eq [of a] by (simp add: sless_zero)
next
  case False
  then show ?thesis
    using sint_less [of a] by (simp add: sless_zero uint_sint take_bit_eq_mod)
qed

lemma div_uminus: "0 \<le> x \<Longrightarrow> (- x) div 2 ^ 64 = - (x div 2 ^ 64) - (if x mod 2 ^ 64 = 0 then 0 else 1)"
  for x :: int
  by (simp add: zdiv_zminus1_eq_if)

lemma word_zero_iff: "(word_of_int x :: 64 word) = 0 \<longleftrightarrow> x mod 2 ^ 64 = 0"
  by (simp add: word_of_int_eq_0_iff mod_0_imp_dvd dvd_eq_mod_eq_0)

lemma high_of_negative:
  assumes "0 \<le> x" "uint h = x div 2 ^ 64"
  shows "NOT h + of_bool_word ((word_of_int x :: 64 word) = 0) = word_of_int ((- x) div 2 ^ 64)"
proof -
  have "h = word_of_int (x div 2 ^ 64)" using assms(2) by (metis word_of_int_uint)
  then have "NOT h = word_of_int (- (x div 2 ^ 64) - 1)"
    by (simp add: not_eq_complement)
  then show ?thesis
    unfolding div_uminus [OF assms(1)] word_zero_iff of_bool_word_def by simp
qed

lemma mult_of_int: "a = word_of_int x \<Longrightarrow> b = word_of_int y \<Longrightarrow> a * b = (word_of_int (x * y) :: 64 word)"
  by simp

lemma mult_zero_sign: "(word_of_int (- x) :: 64 word) = 0 \<longleftrightarrow> (word_of_int x :: 64 word) = 0"
  by simp

lemma high_signed:
  fixes h c :: "64 word"
  assumes "0 \<le> x" "uint h = x div 2 ^ 64" "c = word_of_int (if neg then - x else x)"
  shows "(if neg then NOT h + of_bool_word (c = 0) else h) =
           word_of_int ((if neg then - x else x) div 2 ^ 64)"
proof (cases neg)
  case True
  then have "c = 0 \<longleftrightarrow> (word_of_int x :: 64 word) = 0" using assms(3) by simp
  with True show ?thesis using high_of_negative [OF assms(1,2)] by (simp only: if_True)
next
  case False
  then show ?thesis using word_of_int_uint [of h] by (simp only: if_False assms(2))
qed

lemma abs_product:
  "(if (sint a < 0) \<noteq> (sint b < 0) then - (\<bar>sint a\<bar> * \<bar>sint b\<bar>) else \<bar>sint a\<bar> * \<bar>sint b\<bar>) = sint a * sint b"
  by (auto simp: abs_if not_less)

lemma mulh_word: "mulh a b = word_of_int (sint a * sint b div 2 ^ 64)"
proof -
  let ?h = "mulhu (if a <s 0 then - a else a) (if b <s 0 then - b else b)"
  let ?neg = "(sint a < 0) \<noteq> (sint b < 0)"
  have "uint ?h = \<bar>sint a\<bar> * \<bar>sint b\<bar> div 2 ^ 64" by (simp only: mulhu_high uint_abs)
  moreover have "a * b = word_of_int (if ?neg then - (\<bar>sint a\<bar> * \<bar>sint b\<bar>) else \<bar>sint a\<bar> * \<bar>sint b\<bar>)"
    unfolding abs_product by (rule mult_of_int) simp_all
  ultimately have "(if ?neg then NOT ?h + of_bool_word (a * b = 0) else ?h) =
      word_of_int (sint a * sint b div 2 ^ 64)"
    using high_signed [of "\<bar>sint a\<bar> * \<bar>sint b\<bar>" ?h "a * b" ?neg] unfolding abs_product by simp
  then show ?thesis by (simp only: mulh_def Let_def sless_zero)
qed

lemma mulhsu_word: "mulhsu a b = word_of_int (sint a * uint b div 2 ^ 64)"
proof -
  let ?h = "mulhu (if a <s 0 then - a else a) b"
  have prod: "(if sint a < 0 then - (\<bar>sint a\<bar> * uint b) else \<bar>sint a\<bar> * uint b) = sint a * uint b"
    by simp
  have "uint ?h = \<bar>sint a\<bar> * uint b div 2 ^ 64" by (simp only: mulhu_high uint_abs)
  moreover have "a * b = word_of_int (if sint a < 0 then - (\<bar>sint a\<bar> * uint b) else \<bar>sint a\<bar> * uint b)"
    unfolding prod by (rule mult_of_int) simp_all
  ultimately have "(if sint a < 0 then NOT ?h + of_bool_word (a * b = 0) else ?h) =
      word_of_int (sint a * uint b div 2 ^ 64)"
    using high_signed [of "\<bar>sint a\<bar> * uint b" ?h "a * b" "sint a < 0"] unfolding prod by simp
  then show ?thesis by (simp only: mulhsu_def Let_def sless_zero)
qed

lemma sint_of_range: "- (2 ^ 63) \<le> x \<Longrightarrow> x < 2 ^ 63 \<Longrightarrow> sint (word_of_int x :: 64 word) = x"
  by (simp add: sint_sbintrunc' signed_take_bit_int_eq_self)

lemma high_range:
  fixes x y :: int
  assumes "- (2 ^ 63) \<le> x" "x < 2 ^ 63" "\<bar>y\<bar> < 2 ^ 64"
  shows "- (2 ^ 63) \<le> x * y div 2 ^ 64" "x * y div 2 ^ 64 < 2 ^ 63"
proof -
  have "\<bar>x * y\<bar> \<le> 2 ^ 63 * (2 ^ 64 - 1)"
    unfolding abs_mult using assms by (intro mult_mono) auto
  then show "- (2 ^ 63) \<le> x * y div 2 ^ 64" "x * y div 2 ^ 64 < 2 ^ 63" by simp_all
qed


section \<open>Division\<close>

lemma sint_min: "sint (dividend_max :: 64 word) = - (2 ^ 63)"
  by simp

lemma sdiv_in_range:
  fixes x y :: int
  assumes "- (2 ^ 63) \<le> x" "x < 2 ^ 63" "y \<noteq> 0" "\<not> (x = - (2 ^ 63) \<and> y = - 1)"
  shows "- (2 ^ 63) \<le> x sdiv y" "x sdiv y < 2 ^ 63"
proof -
  have bounds: "- \<bar>x\<bar> \<le> x sdiv y" "x sdiv y \<le> \<bar>x\<bar>" using sdiv_int_range [of x y] by auto
  then show "- (2 ^ 63) \<le> x sdiv y" using assms by auto
  show "x sdiv y < 2 ^ 63"
  proof (cases "x = - (2 ^ 63)")
    case False
    then show ?thesis using bounds assms by auto
  next
    case True
    have "\<bar>x\<bar> div \<bar>y\<bar> < 2 ^ 63" if "y < 0"
    proof -
      have "2 \<le> \<bar>y\<bar>" using that True assms by auto
      then have "\<bar>x\<bar> div \<bar>y\<bar> \<le> \<bar>x\<bar> div 2" by (intro zdiv_mono2) auto
      then show ?thesis using True by simp
    qed
    moreover have "0 \<le> \<bar>x\<bar> div \<bar>y\<bar>" using assms(3) by (simp add: pos_imp_zdiv_nonneg_iff)
    ultimately show ?thesis
      using True assms(3) by (cases "y < 0") (simp_all add: signed_divide_int_def sgn_if)
  qed
qed

lemma smod_in_range:
  fixes x y :: int
  assumes "y \<noteq> 0" "- (2 ^ 63) \<le> y" "y < 2 ^ 63"
  shows "- (2 ^ 63) \<le> x smod y" "x smod y < 2 ^ 63" "\<bar>x smod y\<bar> < \<bar>y\<bar>"
proof -
  have "x smod y \<in> {- \<bar>y\<bar> + 1..\<bar>y\<bar> - 1}" using smod_int_range [OF assms(1)] by simp
  with assms show "- (2 ^ 63) \<le> x smod y" "x smod y < 2 ^ 63" "\<bar>x smod y\<bar> < \<bar>y\<bar>" by auto
qed

lemma smod_sign: "x smod y = 0 \<or> (x smod y < 0 \<longleftrightarrow> (x :: int) < 0)"
proof -
  have "0 \<le> \<bar>x\<bar> mod \<bar>y\<bar>" by (cases "y = 0") simp_all
  then show ?thesis by (cases x "0 :: int" rule: linorder_cases) (auto simp: signed_modulo_int_def sgn_if)
qed


lemma EXTEND32_eq_iff: "EXTEND32 x = EXTEND32 y \<longleftrightarrow> take_bit 32 x = take_bit 32 y"
  by (simp add: EXTEND32_def signed_take_bit_eq_iff_take_bit_eq)

lemma take_bit_uint_mod: "n \<le> 64 \<Longrightarrow> take_bit n (k mod 2 ^ 64) = take_bit n (k :: int)"
  using take_bit_take_bit [of n 64 k] by (simp add: take_bit_eq_mod [of 64] min_def)

lemma take_bit_uminus: "n \<le> 64 \<Longrightarrow> uint (take_bit n (- x)) = take_bit n (- uint (take_bit n (x :: 64 word)))"
  using take_bit_uint_mod [of n "- uint x"] by (simp add: uint_take_bit uint_word_ariths take_bit_minus)

lemma EXTEND32_uminus_imp:
  assumes "EXTEND32 x = EXTEND32 y"
  shows "EXTEND32 (- x) = EXTEND32 (- y)"
proof -
  have "take_bit 32 x = take_bit 32 y" using assms by (simp only: EXTEND32_eq_iff)
  then have "uint (take_bit 32 (- x)) = uint (take_bit 32 (- y))" by (simp only: take_bit_uminus)
  then show ?thesis unfolding EXTEND32_eq_iff by (rule word_uint_eqI)
qed

lemma EXTEND32_idem: "EXTEND32 (EXTEND32 x) = EXTEND32 x"
  by (rule w64_eqI) (simp add: EXTEND32_def cbits)

lemma EXTEND32_min: "EXTEND32 0xffffffff80000000 = 0xffffffff80000000"
    "EXTEND32 (- 0xffffffff80000000) = 0xffffffff80000000"
  by (simp_all add: EXTEND32_def)

lemma divw_right_iff:
  "value_m xlen MATCH_DIVW a b =
     Some (if EXTEND32 b = 0 then - 1
           else EXTEND32 (word_of_int (sint (EXTEND32 a) sdiv sint (EXTEND32 b)))) \<longleftrightarrow>
   EXTEND32 b \<noteq> - 1 \<or> EXTEND32 a = 0xffffffff80000000"
proof (cases "EXTEND32 b = - 1")
  case False
  have "EXTEND32 (- 1) = - 1" by (simp add: EXTEND32_def)
  with False show ?thesis by (auto simp: value_m_def sdiv_word_def)
next
  case True
  have "sint (EXTEND32 b) = - 1" by (simp add: True)
  then have "sint (EXTEND32 a) sdiv sint (EXTEND32 b) = - sint (EXTEND32 a)"
    by (simp add: signed_divide_int_def abs_if sgn_if)
  then have "value_m xlen MATCH_DIVW a b =
     Some (if EXTEND32 b = 0 then - 1
           else EXTEND32 (word_of_int (sint (EXTEND32 a) sdiv sint (EXTEND32 b)))) \<longleftrightarrow>
     EXTEND32 0xffffffff80000000 = EXTEND32 (- EXTEND32 a)"
    using True by (simp add: value_m_def)
  also have "\<dots> \<longleftrightarrow> EXTEND32 a = 0xffffffff80000000"
    using EXTEND32_uminus_imp [of "- EXTEND32 a" "0xffffffff80000000"] EXTEND32_idem [of a] EXTEND32_min
    by (simp only: minus_minus) auto
  finally show ?thesis using True by simp
qed

text \<open>
  C35. The 32-bit division is wrong for the divisor \<open>- 1\<close>: \<^verbatim>\<open>divw\<close> differs from the specified result
  exactly when the divisor's low word is \<open>- 1\<close> and the dividend's low word is not the least value.
\<close>

theorem divw_wrong_iff:
  "value_m xlen MATCH_DIVW a b \<noteq>
     Some (if EXTEND32 b = 0 then - 1
           else EXTEND32 (word_of_int (sint (EXTEND32 a) sdiv sint (EXTEND32 b)))) \<longleftrightarrow>
   EXTEND32 b = - 1 \<and> EXTEND32 a \<noteq> 0xffffffff80000000"
  using divw_right_iff [of xlen a b] by argo

section \<open>Register zero\<close>

definition regs_ok :: "'m sim_state \<Rightarrow> bool" where
  "regs_ok cpu \<longleftrightarrow> length (sim_regs cpu) = 32 \<and> sim_regs cpu ! 0 = 0"

lemma regs_ok_simps [simp]:
  "regs_ok (cpu\<lparr>sim_pc := p\<rparr>) = regs_ok cpu"
  "regs_ok (cpu\<lparr>sim_mem := m\<rparr>) = regs_ok cpu"
  "regs_ok (cpu\<lparr>sim_csr := c\<rparr>) = regs_ok cpu"
  "regs_ok (cpu\<lparr>sim_reserved := rs\<rparr>) = regs_ok cpu"
  by (simp_all add: regs_ok_def)

lemma store_rd_ok [simp]: "regs_ok cpu \<Longrightarrow> regs_ok (store_rd rd v cpu)"
  by (simp add: regs_ok_def store_rd_def)

text \<open>The state a handler leaves, whether it halts or not.\<close>

fun state_after :: "sim_halt \<times> 'm sim_state + 'm sim_state \<times> 64 word \<Rightarrow> 'm sim_state" where
  "state_after (Inl (h, cpu)) = cpu"
| "state_after (Inr (cpu, pc)) = cpu"

fun result_state :: "'m sim_result \<Rightarrow> 'm sim_state" where
  "result_state (Inl (h, cpu)) = cpu"
| "result_state (Inr cpu) = cpu"

lemma halt_state [simp]:
  "state_after (sim_engine_halt h cia cpu) = cpu\<lparr>sim_pc := cia\<rparr>"
  "result_state (sim_engine_halt h cia cpu) = cpu\<lparr>sim_pc := cia\<rparr>"
  by (simp_all add: sim_engine_halt_def)

lemma fetch_csr_halt: "fetch_csr host csr cpu = Inl (h, cpu') \<Longrightarrow> cpu' = cpu"
  by (simp add: fetch_csr_def RISCV_ASSERT_RV_def sim_engine_halt_def split: if_splits)

lemma store_csr_ok: "regs_ok cpu \<Longrightarrow> regs_ok (result_state (store_csr host csr v cpu))"
  by (simp add: store_csr_def RISCV_ASSERT_RV_def)

lemma csr_insn_ok: "regs_ok cpu \<Longrightarrow> regs_ok (result_state (csr_insn host f csr rd rs1 cpu))"
  by (auto simp: csr_insn_def Let_def store_csr_ok dest: fetch_csr_halt split: sum.splits)

lemma handler_if: "regs_ok (state_after x) \<Longrightarrow> regs_ok (state_after y) \<Longrightarrow> regs_ok (state_after (if b then x else y))"
  by simp

lemma handler_option:
  "regs_ok (state_after x) \<Longrightarrow> (\<And>v. regs_ok (state_after (f v))) \<Longrightarrow> regs_ok (state_after (case_option x f r))"
  by (cases r) simp_all

lemma handler_prod: "(\<And>v w. regs_ok (state_after (f v w))) \<Longrightarrow> regs_ok (state_after (case_prod f r))"
  by (cases r) simp

lemmas handler_intros = handler_if handler_option handler_prod

lemma execute_i_ok:
  assumes "regs_ok cpu"
  shows "regs_ok (state_after (execute_i host iw op cpu))"
proof -
  have syscall: "regs_ok (cpu\<lparr>sim_regs := (sim_regs cpu)[10 := r]\<rparr>)" for r
    using assms by (simp add: regs_ok_def)
  have csr: "regs_ok (state_after (case csr_insn host f csr rd rs1 cpu of Inl h \<Rightarrow> Inl h | Inr c \<Rightarrow> Inr (c, pc)))"
    for f csr rd rs1 pc
    using csr_insn_ok [OF assms, of host f csr rd rs1] by (auto split: sum.splits)
  have counter: "regs_ok (state_after (case fetch_csr host csr cpu of Inl h \<Rightarrow> Inl h | Inr v \<Rightarrow> Inr (store_rd rd v cpu, pc)))"
    for csr rd pc
    using assms by (auto dest: fetch_csr_halt split: sum.splits)
  show ?thesis
    unfolding execute_i_def Let_def
    by (intro handler_intros) (simp_all add: assms syscall csr counter)
qed

lemma execute_m_ok: "regs_ok cpu \<Longrightarrow> regs_ok (state_after (execute_m host iw op cpu))"
  unfolding execute_m_def Let_def by (intro handler_intros) simp_all

lemma execute_a_ok: "regs_ok cpu \<Longrightarrow> regs_ok (state_after (execute_a host iw op cpu))"
  unfolding execute_a_def amo_insn_def Let_def by (intro handler_intros) simp_all

lemma execute_one_ok: "regs_ok cpu \<Longrightarrow> regs_ok (state_after (execute_one host iw op cpu))"
  unfolding execute_one_def
  by (intro handler_if) (auto simp: execute_i_ok execute_m_ok execute_a_ok split: riscv_insn_class.split)

text \<open>
  C28. Register zero: a step of the simulator keeps the 32 registers and the zero in register zero,
  whatever the instruction word is and also when the step ends in a halt.
\<close>

theorem step_keeps_zero:
  assumes "regs_ok cpu" "step_once host cpu = Some r"
  shows "regs_ok (result_state r)"
proof -
  have halted: "regs_ok c" if "execute_one host iw op cpu = Inl (h, c)" for iw op h c
    using execute_one_ok [OF assms(1), of host iw op] that by simp
  have finished: "regs_ok c" if "execute_one host iw op cpu = Inr (c, pc)" for iw op c pc
    using execute_one_ok [OF assms(1), of host iw op] that by simp
  show ?thesis
    using assms unfolding step_once_def Let_def
    by (auto split: option.splits if_splits sum.splits dest: halted finished)
qed

definition test_host :: "nat \<Rightarrow> (64 word \<Rightarrow> 64 word) sim_host" where
  "test_host xlen = \<lparr>core_read = \<lambda>n a m. Some (m a), core_write = \<lambda>n a v m. Some (m(a := v)),
     host_syscall = \<lambda>_ _. None, host_xlen = xlen\<rparr>"

definition test_cpu :: "64 word list \<Rightarrow> (64 word \<Rightarrow> 64 word) \<Rightarrow> (64 word \<Rightarrow> 64 word) sim_state" where
  "test_cpu rs m = \<lparr>sim_regs = rs @ replicate (32 - length rs) 0, sim_pc = 0, sim_csr = \<lambda>_. 0,
     sim_reserved = [], sim_mem = m\<rparr>"

lemma step_keeps_zero_witness:
  "\<exists>r. step_once (test_host 64) (test_cpu [0] (\<lambda>_. 0)) = Some r \<and> regs_ok (result_state r)"
proof -
  have "step_once (test_host 64) (test_cpu [0] (\<lambda>_. 0)) =
      Some (sim_engine_halt SIM_SIGILL 0 (test_cpu [0] (\<lambda>_. 0)))"
    by (simp add: step_once_def test_host_def test_cpu_def riscv_insn_length_def)
  moreover have "regs_ok (test_cpu [0] (\<lambda>_. 0))" by (simp add: regs_ok_def test_cpu_def)
  ultimately show ?thesis using step_keeps_zero [of "test_cpu [0] (\<lambda>_. 0)" "test_host 64"] by blast
qed

section \<open>Atomic instructions\<close>

lemma reg_store_rd: "regs_ok cpu \<Longrightarrow> r < 32 \<Longrightarrow> reg (store_rd rd v cpu) r = (if rd = r \<and> r \<noteq> 0 then v else reg cpu r)"
  by (auto simp: reg_def store_rd_def regs_ok_def)

lemma insn_reg_bound: "insn_rd iw < 32" "insn_rs1 iw < 32" "insn_rs2 iw < 32"
proof -
  have "unat (x AND 0x1f :: 64 word) < 32" for x
    using word_and_le1 [of x "0x1f"] by (simp add: word_le_nat_alt)
  then show "insn_rd iw < 32" "insn_rs1 iw < 32" "insn_rs2 iw < 32"
    by (simp_all add: insn_rd_def insn_rs1_def insn_rs2_def)
qed

lemma mem_store_rd [simp]: "sim_mem (store_rd rd v cpu) = sim_mem cpu" "sim_pc (store_rd rd v cpu) = sim_pc cpu"
  by (simp_all add: store_rd_def)


definition amoadd_d :: riscv_opcode where
  "amoadd_d = opc ''amoadd.d'' 64 INSN_CLASS_A ''d,t,0(s)'' 0x302f 0xfe00707f MF_match_opcode 0x48"


text \<open>
  With register zero as its destination the operation is wrong: \<^verbatim>\<open>amoadd.d\<close> stores the operand
  itself instead of the sum, because the old value is taken from the destination register.
\<close>

theorem amoadd_x0_wrong:
  assumes "regs_ok cpu" "insn_rd iw = 0" "op_match op = MATCH_AMOADD_D" "op_xlen_requirement op = 64"
    and "core_read host 8 (reg cpu (insn_rs1 iw)) (sim_mem cpu) = Some old"
    and "core_write host 8 (reg cpu (insn_rs1 iw)) (reg cpu (insn_rs2 iw)) (sim_mem cpu) = Some m"
  shows "execute_a host iw op cpu = Inr (cpu\<lparr>sim_mem := m\<rparr>, sim_pc cpu + 4)"
proof -
  have "reg cpu 0 = 0" using assms(1) by (simp add: regs_ok_def reg_def)
  with assms show ?thesis by (simp add: execute_a_def amo_insn_def amo_op_def store_rd_def Let_def)
qed

lemma amoadd_x0_wrong_witness:
  "\<exists>cpu. execute_a (test_host 64) 0x0073302f amoadd_d (test_cpu [0, 0, 0, 0, 0, 0, 64, 5] (\<lambda>_. 37)) = Inr (cpu, 4) \<and>
     sim_mem cpu 64 = 5"
proof -
  let ?c = "test_cpu [0, 0, 0, 0, 0, 0, 64, 5] (\<lambda>_. 37)"
  have f: "insn_rd 0x0073302f = 0" "insn_rs1 0x0073302f = 6" "insn_rs2 0x0073302f = 7"
    by (simp_all add: insn_rd_def insn_rs1_def insn_rs2_def shr_def)
  have r: "reg ?c 6 = 64" "reg ?c 7 = 5" "sim_pc ?c = 0" by (simp_all add: reg_def test_cpu_def)
  have "execute_a (test_host 64) 0x0073302f amoadd_d ?c = Inr (?c\<lparr>sim_mem := (\<lambda>_. 37)(64 := 5)\<rparr>, 4)"
    using amoadd_x0_wrong [of ?c "0x0073302f" amoadd_d "test_host 64" 37 "(\<lambda>_. 37)(64 := 5)"]
    by (simp add: f r) (simp add: test_host_def test_cpu_def amoadd_d_def regs_ok_def)
  then show ?thesis by simp
qed

section \<open>The search calls a null pointer\<close>

lemma sim_scan_null: "op_match_func op = MF_NULL \<Longrightarrow> sim_scan xlen w (op # ops) = Inl Null_match_func"
  by simp

lemma sim_scan_skip:
  assumes "w AND k = c" "op_match_func op \<notin> {MF_NULL, MF_match_rs1_nonzero}" "op_pinfo op \<noteq> INSN_MACRO"
    and "(op_match op XOR c) AND op_mask op AND k \<noteq> 0"
  shows "sim_scan xlen w (op # ops) = sim_scan xlen w ops"
proof -
  have "(op_match op XOR c) AND op_mask op AND k = 0" if "match_opcode op w"
    using that unfolding assms(1) [symmetric]
    by (intro bit_eqI) (auto simp: match_opcode_iff_bits bit_simps)
  then have "call_match_func (op_match_func op) op w \<noteq> Some True"
    using match_implies_opcode [of "op_match_func op" op w] assms(2,3,4) by auto
  moreover have "call_match_func (op_match_func op) op w \<noteq> None"
    using assms(2) by (intro call_match_func_defined) simp
  ultimately show ?thesis by auto
qed

lemma sim_scan_addi:
  assumes "w AND 0x707f = 0x13"
  shows "sim_scan xlen w riscv_opcodes = Inl Null_match_func"
proof -
  note skip = sim_scan_skip [OF assms] sim_scan_null
  show ?thesis
    unfolding riscv_opcodes_def riscv_opcodes_1_def append_Cons by (simp add: skip del: sim_scan.simps)
qed

text \<open>
  C36. The simulator cannot execute \<^verbatim>\<open>addi\<close>: unlike the disassembler, whose loop it means to repeat, the
  search of \<open>step_once\<close> does not pass over macros, and the row of \<^verbatim>\<open>call\<close> comes before every row of
  \<^verbatim>\<open>addi\<close>, so the null match function of that row is called.
\<close>

theorem step_once_addi_crash:
  assumes "core_read host 2 (sim_pc cpu) (sim_mem cpu) = Some lo"
    and "core_read host 2 (sim_pc cpu + 2) (sim_mem cpu) = Some hi"
    and "lo AND 0x707f = 0x13"
  shows "step_once host cpu = None"
proof -
  have sub: "x AND k = 0x13 AND k" if "x AND 0x707f = 0x13" "0x707f AND k = k" for x k :: "64 word"
    using that by (metis and.assoc)
  have "shl hi 16 AND 0x707f = 0" by (rule w64_eqI) (simp add: cbits)
  then have w: "(lo OR shl hi 16) AND 0x707f = 0x13" using assms(3) by (simp add: bit.conj_disj_distrib2)
  have len: "riscv_insn_length x = 4" if "x AND 0x707f = 0x13" for x
    using sub [OF that, of 3] sub [OF that, of "0x1f"] by (simp add: riscv_insn_length_def)
  have idx: "OP_HASH_IDX (lo OR shl hi 16) = 0x13"
    using sub [OF w, of "0x7f"] len [OF w] by (simp add: OP_HASH_IDX_def)
  have "riscv_hash riscv_opcodes ! 0x13 = Some 0"
    unfolding riscv_hash_nth [of "0x13", simplified] riscv_opcodes_def riscv_opcodes_1_def append_Cons
    by (simp add: OP_HASH_IDX_def riscv_insn_length_def)
  then show ?thesis
    using assms(1,2) len [OF assms(3)] idx sim_scan_addi [OF w] by (simp add: step_once_def)
qed

lemma step_once_addi_crash_witness:
  "step_once (test_host 64) (test_cpu [0] ((\<lambda>_. 0)(0 := 0x0093, 2 := 0x0050))) = None"
proof -
  let ?m = "(\<lambda>_. 0)(0 := 0x0093, 2 := 0x0050 :: 64 word)"
  have "core_read (test_host 64) 2 (sim_pc (test_cpu [0] ?m)) (sim_mem (test_cpu [0] ?m)) = Some 0x0093"
    and "core_read (test_host 64) 2 (sim_pc (test_cpu [0] ?m) + 2) (sim_mem (test_cpu [0] ?m)) = Some 0x0050"
    by (simp_all add: test_host_def test_cpu_def)
  then show ?thesis by (rule step_once_addi_crash) simp
qed

end
