(* ===== verification/RV_Const.thy ===== *)
theory RV_Const
  imports RV_Imm RV_Sim_Laws
begin

text \<open>
  Loading a constant (\<open>load_const\<close> of \<open>gas/config/tc-riscv.c\<close>, the expansion of \<^verbatim>\<open>li\<close>): the sequence of
  \<^verbatim>\<open>lui\<close>, \<^verbatim>\<open>addi\<close>, \<^verbatim>\<open>addiw\<close> and \<^verbatim>\<open>slli\<close> the assembler emits, and its meaning when the simulator executes
  the encoded instructions.

  The expression is a 64-bit value; the subtraction that forms the upper part wraps around, as it does
  for values within 2048 of the largest one.  A shift by 64 in the search for the lowest set bit would
  be undefined and is \<open>None\<close>.
\<close>

section \<open>The expansion\<close>

definition IS_SEXT_32BIT_NUM :: "64 word \<Rightarrow> bool" where
  "IS_SEXT_32BIT_NUM x \<longleftrightarrow>
     x AND NOT 0x7fffffff = 0 \<or> x AND NOT 0x7fffffff = NOT 0x7fffffff"

abbreviation (input) RISCV_IMM_BITS :: nat where "RISCV_IMM_BITS \<equiv> 12"

text \<open>The instructions emitted by \<open>md_assemblef\<close>; \<open>ADD32\<close> is \<open>ADD32_INSN\<close>, \<^verbatim>\<open>addiw\<close> on RV64.\<close>

datatype const_insn =
    LUI nat "64 word" | ADD32 nat nat "64 word" | ADDI nat nat "64 word" | SLLI nat nat nat

definition sar :: "64 word \<Rightarrow> nat \<Rightarrow> 64 word" where
  "sar x n = word_of_int (sint x div 2 ^ n)"

text \<open>The \<open>while\<close> loop that looks for the lowest set bit.\<close>

function shift_loop :: "64 word \<Rightarrow> nat \<Rightarrow> nat option" where
  "shift_loop upper shift =
     (if 64 \<le> shift then None
      else if sar upper shift AND 1 = 0 then shift_loop upper (shift + 1)
      else Some shift)"
  by pat_completeness auto
termination by (relation "measure (\<lambda>(_, shift). 64 - shift)") auto

declare shift_loop.simps [simp del]

definition lower_part :: "64 word \<Rightarrow> 64 word" where
  "lower_part v = (let sign = shl 1 (RISCV_IMM_BITS - 1) in ((v AND (sign + sign - 1)) XOR sign) - sign)"

lemma shift_loop_ge: "shift_loop upper shift = Some s \<Longrightarrow> shift \<le> s \<and> s < 64"
  by (induction upper shift rule: shift_loop.induct)
    (subst (asm) (2) shift_loop.simps, auto split: if_splits)

section \<open>Signed arithmetic\<close>

lemma sint_word_of_int_le: "\<bar>sint (word_of_int x :: 64 word)\<bar> \<le> \<bar>x\<bar>"
proof (cases "- (2 ^ 63) \<le> x \<and> x < 2 ^ 63")
  case True
  then show ?thesis by (simp add: sint_of_range)
next
  case False
  then show ?thesis
    using sint_greater_eq [of "word_of_int x :: 64 word"] sint_less [of "word_of_int x :: 64 word"] by auto
qed

lemma sint_diff_le: "\<bar>sint (x - y :: 64 word)\<bar> \<le> \<bar>sint x\<bar> + \<bar>sint y\<bar>"
proof -
  have "x - y = word_of_int (sint x - sint y)" by simp
  then show ?thesis using sint_word_of_int_le [of "sint x - sint y"] by simp
qed

lemma xor_2048_int:
  assumes "0 \<le> k" "k < (4096 :: int)"
  shows "k XOR 2048 = (k + 2048) mod 4096"
proof -
  have low: "j XOR 2048 = j + 2048" if "0 \<le> j" "j < 2048" for j :: int
  proof -
    have "take_bit 11 j = j" using that by (simp add: take_bit_int_eq_self)
    then have "\<not> bit j 11" using bit_take_bit_iff [of 11 j 11] by simp
    then have "j AND 2048 = 0" using and_exp_eq_0_iff_not_bit [of j 11] by simp
    then show ?thesis by (simp add: disjunctive_add_eq_xor)
  qed
  show ?thesis
  proof (cases "k < 2048")
    case True
    then show ?thesis using assms low [of k] by simp
  next
    case False
    then have "k = (k - 2048) XOR 2048" using assms low [of "k - 2048"] by simp
    then have "k XOR 2048 = k - 2048" by (metis xor.assoc xor.right_neutral xor_self_eq)
    moreover have "(k + 2048) mod 4096 = k - 2048"
      using False assms mod_add_self2 [of "k - 2048" 4096] by (simp add: add.commute)
    ultimately show ?thesis by simp
  qed
qed

lemma xor_2048: "take_bit 12 (v + 2048) = take_bit 12 v XOR (2048 :: 64 word)"
proof (rule word_uint_eqI)
  have "uint (take_bit 12 (v + 2048)) = (uint v + 2048) mod 4096"
    using take_bit_uint_mod [of 12 "uint v + 2048"] unfolding uint_take_bit
    by (simp add: uint_word_ariths take_bit_eq_mod)
  also have "\<dots> = (uint v mod 4096 + 2048) mod 4096" by (simp add: mod_add_left_eq)
  also have "\<dots> = uint v mod 4096 XOR 2048" by (simp add: xor_2048_int)
  finally show "uint (take_bit 12 (v + 2048)) = uint (take_bit 12 v XOR 2048)"
    unfolding uint_xor uint_take_bit by (simp add: take_bit_eq_mod)
qed

lemma lower_part_eq: "lower_part v = RISCV_CONST_LOW_PART v"
proof -
  have "v AND 0xfff = take_bit 12 v" by (simp add: take_bit_eq_mask mask_eq_exp_minus_1)
  then show ?thesis by (simp add: lower_part_def low_part_eq xor_2048 shl_def)
qed

lemma lower_part_range: "- 2048 \<le> sint (lower_part v)" "sint (lower_part v) < 2048"
  using low_part_range [of v] by (simp_all add: lower_part_eq)

lemma high_bits_clear: "(x :: 64 word) AND NOT (mask n) = 0 \<longleftrightarrow> (\<forall>i. n \<le> i \<longrightarrow> i < 64 \<longrightarrow> \<not> bit x i)"
  by (auto simp: bit_eq_iff bit_simps) (meson leI)

lemma high_bits_set: "(x :: 64 word) AND NOT (mask n) = NOT (mask n) \<longleftrightarrow> (\<forall>i. n \<le> i \<longrightarrow> i < 64 \<longrightarrow> bit x i)"
  by (auto simp: bit_eq_iff bit_simps)

lemma sign_bits_same:
  "signed_take_bit n (x :: 64 word) = x \<longleftrightarrow> (\<forall>i. n \<le> i \<longrightarrow> i < 64 \<longrightarrow> bit x i = bit x n)"
  by (auto simp: bit_eq_iff bit_simps min_def)

lemma sext_32bit_iff: "IS_SEXT_32BIT_NUM x \<longleftrightarrow> - (2 ^ 31) \<le> sint x \<and> sint x < 2 ^ 31"
proof -
  have m: "(0x7fffffff :: 64 word) = mask 31" by (simp add: mask_eq_exp_minus_1)
  have "IS_SEXT_32BIT_NUM x \<longleftrightarrow>
      (\<forall>i. 31 \<le> i \<longrightarrow> i < 64 \<longrightarrow> \<not> bit x i) \<or> (\<forall>i. 31 \<le> i \<longrightarrow> i < 64 \<longrightarrow> bit x i)"
    unfolding IS_SEXT_32BIT_NUM_def m high_bits_clear high_bits_set ..
  also have "\<dots> \<longleftrightarrow> signed_take_bit 31 x = x" unfolding sign_bits_same by auto
  finally show ?thesis by (simp add: sext_eq_iff)
qed

lemma abs_div_le: "0 < c \<Longrightarrow> \<bar>a div c\<bar> \<le> \<bar>a\<bar> div c + 1" for a c :: int
  using zdiv_zminus1_eq_if [of c "- a"] pos_imp_zdiv_nonneg_iff [of c a] pos_imp_zdiv_nonneg_iff [of c "- a"]
  by (cases "0 \<le> a") (auto split: if_splits)

lemma abs_sar_le:
  assumes "12 \<le> n"
  shows "\<bar>sint (sar x n)\<bar> \<le> \<bar>sint x\<bar> div 4096 + 1"
proof -
  have "(2 :: int) ^ 12 \<le> 2 ^ n" using assms by (intro power_increasing) auto
  then have "\<bar>sint x\<bar> div 2 ^ n \<le> \<bar>sint x\<bar> div 4096" by (intro zdiv_mono2) auto
  then show ?thesis
    using abs_div_le [of "2 ^ n" "sint x"] sint_word_of_int_le [of "sint x div 2 ^ n"] by (simp add: sar_def)
qed

lemma upper_shrinks:
  assumes "12 \<le> s"
  shows "\<bar>sint (sar (v - lower_part v) s)\<bar> \<le> (\<bar>sint v\<bar> + 2048) div 4096 + 1"
proof -
  have "\<bar>sint (v - lower_part v)\<bar> \<le> \<bar>sint v\<bar> + 2048"
    using sint_diff_le [of v "lower_part v"] lower_part_range [of v] by auto
  then have "\<bar>sint (v - lower_part v)\<bar> div 4096 \<le> (\<bar>sint v\<bar> + 2048) div 4096" by (rule zdiv_mono1) simp
  then show ?thesis using abs_sar_le [OF assms, of "v - lower_part v"] by simp
qed

function load_const :: "nat \<Rightarrow> nat \<Rightarrow> 64 word \<Rightarrow> const_insn list option" where
  "load_const xlen r v =
     (let lower = lower_part v; upper = v - lower
      in if xlen > 32 \<and> \<not> IS_SEXT_32BIT_NUM v
         then (case shift_loop upper RISCV_IMM_BITS of
                 None \<Rightarrow> None
               | Some shift \<Rightarrow>
                   map_option (\<lambda>is. is @ SLLI r r shift # (if lower \<noteq> 0 then [ADDI r r lower] else []))
                     (load_const xlen r (sar upper shift)))
         else
           (let hi_reg = (if upper \<noteq> 0 then r else 0)
            in Some ((if upper \<noteq> 0 then [LUI r (shr (uint32 upper) RISCV_IMM_BITS)] else []) @
                     (if lower \<noteq> 0 \<or> hi_reg = 0 then [ADD32 r hi_reg lower] else []))))"
  by pat_completeness auto
termination
proof (relation "measure (\<lambda>(_, _, v). nat \<bar>sint v\<bar>)", goal_cases)
  case 1
  show ?case by simp
next
  case (2 xlen r v lower upper shift)
  then have "12 \<le> shift" using shift_loop_ge by blast
  moreover have "2 ^ 31 \<le> \<bar>sint v\<bar>" using 2 by (auto simp: sext_32bit_iff)
  ultimately show ?case using upper_shrinks [of shift v] 2 by auto
qed

declare load_const.simps [simp del]

section \<open>The encoded instructions\<close>

datatype bfd_reloc_code_real =
    BFD_RELOC_NONE | BFD_RELOC_32 | BFD_RELOC_64 | BFD_RELOC_RISCV_ADD8 | BFD_RELOC_RISCV_ADD16
  | BFD_RELOC_RISCV_ADD32 | BFD_RELOC_RISCV_ADD64 | BFD_RELOC_RISCV_SUB8 | BFD_RELOC_RISCV_SUB16
  | BFD_RELOC_RISCV_SUB32 | BFD_RELOC_RISCV_SUB64 | BFD_RELOC_CTOR | BFD_RELOC_12_PCREL
  | BFD_RELOC_RISCV_HI20 | BFD_RELOC_RISCV_LO12_I | BFD_RELOC_RISCV_LO12_S
  | BFD_RELOC_RISCV_PCREL_LO12_I | BFD_RELOC_RISCV_PCREL_LO12_S | BFD_RELOC_RISCV_CALL
  | BFD_RELOC_RISCV_CALL_PLT | BFD_RELOC_RISCV_PCREL_HI20 | BFD_RELOC_RISCV_JMP
  | BFD_RELOC_RISCV_GOT_HI20 | BFD_RELOC_RISCV_TLS_DTPMOD32 | BFD_RELOC_RISCV_TLS_DTPREL32
  | BFD_RELOC_RISCV_TLS_DTPMOD64 | BFD_RELOC_RISCV_TLS_DTPREL64 | BFD_RELOC_RISCV_TLS_TPREL32
  | BFD_RELOC_RISCV_TLS_TPREL64 | BFD_RELOC_RISCV_TPREL_HI20 | BFD_RELOC_RISCV_TPREL_ADD
  | BFD_RELOC_RISCV_TPREL_LO12_S | BFD_RELOC_RISCV_TPREL_LO12_I | BFD_RELOC_RISCV_TLS_GOT_HI20
  | BFD_RELOC_RISCV_TLS_GD_HI20 | BFD_RELOC_RISCV_ALIGN | BFD_RELOC_RISCV_RVC_BRANCH
  | BFD_RELOC_RISCV_RVC_JUMP | BFD_RELOC_RISCV_RELAX | BFD_RELOC_RISCV_SUB6 | BFD_RELOC_RISCV_SET6
  | BFD_RELOC_RISCV_SET8 | BFD_RELOC_RISCV_SET16 | BFD_RELOC_RISCV_SET32 | BFD_RELOC_RISCV_32_PCREL
  | BFD_RELOC_RISCV_SET_ULEB128 | BFD_RELOC_RISCV_SUB_ULEB128 | BFD_RELOC_8 | BFD_RELOC_16
  | BFD_RELOC_RVA | BFD_RELOC_RISCV_CFA
  | BFD_RELOC_other nat

text \<open>\<open>None\<close> is \<open>abort\<close>.\<close>

definition riscv_apply_const_reloc :: "bfd_reloc_code_real \<Rightarrow> bfd_vma \<Rightarrow> insn_t option" where
  "riscv_apply_const_reloc reloc_type value =
     (case reloc_type of
        BFD_RELOC_32 \<Rightarrow> Some value
      | BFD_RELOC_RISCV_HI20 \<Rightarrow> Some (ENCODE_UTYPE_IMM (RISCV_CONST_HIGH_PART value))
      | BFD_RELOC_RISCV_LO12_S \<Rightarrow> Some (ENCODE_STYPE_IMM value)
      | BFD_RELOC_RISCV_LO12_I \<Rightarrow> Some (ENCODE_ITYPE_IMM value)
      | _ \<Rightarrow> None)"

text \<open>
  The table rows of the instructions and the words their operands \<^verbatim>\<open>d,u\<close>, \<^verbatim>\<open>d,s,j\<close> and \<^verbatim>\<open>d,s,>\<close> give.
\<close>

definition const_entry :: "nat \<Rightarrow> const_insn \<Rightarrow> riscv_opcode" where
  "const_entry xlen i =
     (case i of
        LUI _ _ \<Rightarrow> opc ''lui'' 0 INSN_CLASS_I ''d,u'' 0x37 0x7f MF_match_opcode 0
      | ADD32 _ _ _ \<Rightarrow>
          (if xlen = 64 then opc ''addiw'' 64 INSN_CLASS_I ''d,s,j'' 0x1b 0x707f MF_match_opcode 0
           else opc ''addi'' 0 INSN_CLASS_I ''d,s,j'' 0x13 0x707f MF_match_opcode 0)
      | ADDI _ _ _ \<Rightarrow> opc ''addi'' 0 INSN_CLASS_I ''d,s,j'' 0x13 0x707f MF_match_opcode 0
      | SLLI _ _ _ \<Rightarrow> opc ''slli'' 0 INSN_CLASS_I ''d,s,>'' 0x1013 0xfc00707f MF_match_opcode 0)"

definition insert_rd_rs1 :: "insn_t \<Rightarrow> nat \<Rightarrow> nat \<Rightarrow> insn_t" where
  "insert_rd_rs1 m rd rs1 =
     INSERT_BITS (INSERT_BITS m (of_nat rd) OP_MASK_RD OP_SH_RD) (of_nat rs1) OP_MASK_RS1 OP_SH_RS1"

definition const_word :: "nat \<Rightarrow> const_insn \<Rightarrow> insn_t" where
  "const_word xlen i =
     (case i of
        LUI rd imm \<Rightarrow>
          INSERT_BITS (op_match (const_entry xlen i)) (of_nat rd) OP_MASK_RD OP_SH_RD OR
          the (riscv_apply_const_reloc BFD_RELOC_RISCV_HI20 (shl imm RISCV_IMM_BITS))
      | ADD32 rd rs1 imm \<Rightarrow>
          insert_rd_rs1 (op_match (const_entry xlen i)) rd rs1 OR
          the (riscv_apply_const_reloc BFD_RELOC_RISCV_LO12_I imm)
      | ADDI rd rs1 imm \<Rightarrow>
          insert_rd_rs1 (op_match (const_entry xlen i)) rd rs1 OR
          the (riscv_apply_const_reloc BFD_RELOC_RISCV_LO12_I imm)
      | SLLI rd rs1 shamt \<Rightarrow>
          INSERT_BITS (insert_rd_rs1 (op_match (const_entry xlen i)) rd rs1) (of_nat shamt)
            OP_MASK_SHAMT OP_SH_SHAMT)"

fun run_insns :: "'m sim_host \<Rightarrow> const_insn list \<Rightarrow> 'm sim_state \<Rightarrow> 'm sim_state option" where
  "run_insns host [] cpu = Some cpu"
| "run_insns host (i # is) cpu =
     (case execute_one host (const_word (host_xlen host) i) (const_entry (host_xlen host) i) cpu of
        Inl _ \<Rightarrow> None
      | Inr (cpu', pc) \<Rightarrow> run_insns host is (cpu'\<lparr>sim_pc := pc\<rparr>))"

lemma run_insns_append:
  "run_insns host (xs @ ys) cpu = Option.bind (run_insns host xs cpu) (run_insns host ys)"
  by (induction xs arbitrary: cpu) (auto split: sum.splits)

section \<open>Decoding the fields\<close>

lemma and_31: "x AND 0x1f = take_bit 5 (x :: 64 word)" and and_63: "x AND 0x3f = take_bit 6 (x :: 64 word)"
  by (simp_all add: take_bit_eq_mask mask_eq_exp_minus_1)

lemma unat_reg: "n < 32 \<Longrightarrow> unat (of_nat n AND 0x1f :: 64 word) = n"
  unfolding and_31 by (simp add: take_bit_of_nat take_bit_nat_eq_self unat_of_nat)

lemma unat_shamt: "n < 64 \<Longrightarrow> unat (of_nat n AND 0x3f :: 64 word) = n"
  unfolding and_63 by (simp add: take_bit_of_nat take_bit_nat_eq_self unat_of_nat)

lemmas const_encoding = INSERT_BITS_def insert_rd_rs1_def ENCODE_UTYPE_IMM_def ENCODE_ITYPE_IMM_def

lemma lui_rd: "shr (INSERT_BITS 0x37 x OP_MASK_RD OP_SH_RD OR ENCODE_UTYPE_IMM v) 7 AND 0x1f = x AND 0x1f"
  by (rule w64_eqI) (simp add: const_encoding cbits)

lemma lui_imm: "EXTRACT_UTYPE_IMM (INSERT_BITS 0x37 x OP_MASK_RD OP_SH_RD OR ENCODE_UTYPE_IMM v) = EXTEND32 (clear_low 12 v)"
  by (rule w64_eqI) (simp add: const_encoding EXTRACT_UTYPE_IMM_def EXTEND32_def cbits)

lemma addi_fields:
  assumes "m \<in> {0x13, 0x1b}"
  shows "shr (insert_rd_rs1 m rd rs OR ENCODE_ITYPE_IMM v) 7 AND 0x1f = of_nat rd AND 0x1f"
    and "shr (insert_rd_rs1 m rd rs OR ENCODE_ITYPE_IMM v) 15 AND 0x1f = of_nat rs AND 0x1f"
    and "EXTRACT_ITYPE_IMM (insert_rd_rs1 m rd rs OR ENCODE_ITYPE_IMM v) = EXTRACT_ITYPE_IMM (ENCODE_ITYPE_IMM v)"
  using assms
  by (auto intro!: w64_eqI simp: const_encoding EXTRACT_ITYPE_IMM_def cbits)

lemma slli_fields:
  "shr (INSERT_BITS (insert_rd_rs1 0x1013 rd rs) x 0x3f 20) 7 AND 0x1f = of_nat rd AND 0x1f"
  "shr (INSERT_BITS (insert_rd_rs1 0x1013 rd rs) x 0x3f 20) 15 AND 0x1f = of_nat rs AND 0x1f"
  "shr (INSERT_BITS (insert_rd_rs1 0x1013 rd rs) x 0x3f 20) 20 AND 0x3f = x AND 0x3f"
  by (auto intro!: w64_eqI simp: const_encoding cbits)

lemma const_entry_row: "const_entry xlen i \<in> set riscv_opcodes"
proof -
  have "const_entry xlen i \<in> set riscv_opcodes_1 \<union> set riscv_opcodes_2"
    by (cases i) (simp_all add: const_entry_def riscv_opcodes_1_def riscv_opcodes_2_def)
  then show ?thesis unfolding riscv_opcodes_def set_append by blast
qed

lemma const_word_matches: "match_opcode (const_entry xlen i) (const_word xlen i)"
  by (cases i; cases "xlen = 64"; simp add: const_entry_def const_word_def match_opcode_def riscv_apply_const_reloc_def;
      intro w64_eqI; simp add: const_encoding cbits)

section \<open>Executing one instruction\<close>

lemma exec_lui:
  "rd < 32 \<Longrightarrow> execute_one host (const_word (host_xlen host) (LUI rd imm)) (const_entry (host_xlen host) (LUI rd imm)) cpu =
     Inr (store_rd rd (EXTEND32 (clear_low 12 (RISCV_CONST_HIGH_PART (shl imm 12)))) cpu, sim_pc cpu + 4)"
  by (simp add: execute_one_def const_entry_def const_word_def riscv_apply_const_reloc_def execute_i_def alu_i_def
      alu_halts_def insn_rd_def lui_rd lui_imm unat_reg)

lemma exec_addi:
  assumes "rd < 32" "rs < 32" "VALID_ITYPE_IMM imm"
  shows "execute_one host (const_word (host_xlen host) (ADDI rd rs imm)) (const_entry (host_xlen host) (ADDI rd rs imm)) cpu =
     Inr (store_rd rd (reg cpu rs + imm) cpu, sim_pc cpu + 4)"
  using assms
  by (simp add: execute_one_def const_entry_def const_word_def riscv_apply_const_reloc_def execute_i_def alu_i_def
      alu_halts_def insn_rd_def insn_rs1_def addi_fields unat_reg valid_defs)

lemma exec_add32:
  assumes "rd < 32" "rs < 32" "VALID_ITYPE_IMM imm" "host_xlen host \<in> {32, 64}"
  shows "execute_one host (const_word (host_xlen host) (ADD32 rd rs imm)) (const_entry (host_xlen host) (ADD32 rd rs imm)) cpu =
     Inr (store_rd rd (if host_xlen host = 64 then EXTEND32 (reg cpu rs + imm) else reg cpu rs + imm) cpu, sim_pc cpu + 4)"
proof (cases "host_xlen host = 64")
  case True
  then show ?thesis
    using assms(1-3)
    by (simp add: execute_one_def const_entry_def const_word_def riscv_apply_const_reloc_def execute_i_def alu_i_def
        alu_halts_def insn_rd_def insn_rs1_def addi_fields unat_reg valid_defs)
next
  case False
  then show ?thesis
    using assms
    by (simp add: execute_one_def const_entry_def const_word_def riscv_apply_const_reloc_def execute_i_def alu_i_def
        alu_halts_def insn_rd_def insn_rs1_def addi_fields unat_reg valid_defs)
qed

lemma exec_slli:
  assumes "rd < 32" "rs < 32" "shamt < 64" "host_xlen host = 64"
  shows "execute_one host (const_word (host_xlen host) (SLLI rd rs shamt)) (const_entry (host_xlen host) (SLLI rd rs shamt)) cpu =
     Inr (store_rd rd (shl (reg cpu rs) shamt) cpu, sim_pc cpu + 4)"
  using assms
  by (simp add: execute_one_def const_entry_def const_word_def execute_i_def alu_i_def
      alu_halts_def insn_rd_def insn_rs1_def insn_shamt_def slli_fields unat_reg unat_shamt)

lemmas exec_const = exec_lui exec_addi exec_add32 exec_slli

section \<open>The loop and the arithmetic of the parts\<close>

lemma sar_bit: "s < 64 \<Longrightarrow> sar u s AND 1 = 0 \<longleftrightarrow> \<not> bit u s"
proof -
  assume "s < 64"
  have "sar u s AND 1 = 0 \<longleftrightarrow> \<not> bit (sar u s) 0"
    using and_exp_eq_0_iff_not_bit [of "sar u s" 0] by simp
  also have "bit (sar u s) 0 \<longleftrightarrow> odd (sint u div 2 ^ s)"
    unfolding sar_def bit_word_of_int_iff by (simp add: bit_0)
  also have "\<dots> \<longleftrightarrow> bit (sint u) s" by (simp add: bit_iff_odd)
  also have "\<dots> \<longleftrightarrow> bit u s" using \<open>s < 64\<close> by (cases "s = 63") (auto simp: bit_simps min_def)
  finally show ?thesis by simp
qed

lemma shift_loop_spec:
  "shift_loop u k = Some s \<Longrightarrow> bit u s \<and> s < 64 \<and> (\<forall>i. k \<le> i \<longrightarrow> i < s \<longrightarrow> \<not> bit u i)"
proof (induction u k rule: shift_loop.induct)
  case (1 u k)
  show ?case
  proof (cases "64 \<le> k \<or> bit u k")
    case True
    with 1(2) show ?thesis by (subst (asm) shift_loop.simps) (auto simp: sar_bit split: if_splits)
  next
    case False
    then have "shift_loop u (k + 1) = Some s"
      using 1(2) by (subst (asm) shift_loop.simps) (simp add: sar_bit)
    with 1(1) False have "bit u s \<and> s < 64 \<and> (\<forall>i. k + 1 \<le> i \<longrightarrow> i < s \<longrightarrow> \<not> bit u i)"
      by (simp add: sar_bit)
    with False show ?thesis by (metis Suc_eq_plus1 Suc_leI le_neq_implies_less)
  qed
qed

lemma shift_loop_defined: "k \<le> i \<Longrightarrow> bit u i \<Longrightarrow> shift_loop u k \<noteq> None"
proof (induction u k rule: shift_loop.induct)
  case (1 u k)
  then have "i < 64" by (simp add: bit_word_bound)
  show ?case
  proof (cases "bit u k")
    case True
    with 1(2) \<open>i < 64\<close> show ?thesis by (subst shift_loop.simps) (simp add: sar_bit)
  next
    case False
    then have "k + 1 \<le> i" using 1(2,3) by (cases "k = i") auto
    then show ?thesis using 1 False \<open>i < 64\<close> by (subst shift_loop.simps) (simp add: sar_bit)
  qed
qed

lemma upper_eq: "v - lower_part v = RISCV_CONST_HIGH_PART v"
  by (simp add: lower_part_eq RISCV_CONST_LOW_PART_def)

lemma upper_low_clear: "i < 12 \<Longrightarrow> \<not> bit (RISCV_CONST_HIGH_PART v) i"
  by (simp add: high_part_clear_low bit_clear_low)

lemma lower_valid: "VALID_ITYPE_IMM (lower_part v)"
  using lower_part_range [of v] by (simp add: valid_defs itype.valid_iff)

lemma high_of_multiple:
  assumes "\<And>i. i < 12 \<Longrightarrow> \<not> bit y i"
  shows "RISCV_CONST_HIGH_PART y = y"
proof -
  have b: "bit (2048 :: 64 word) i \<longleftrightarrow> i = 11" for i
    using bit_exp_iff [of 11 i, where ?'a = "64 word"] by auto
  have "y AND 2048 = 0" using assms [of 11] and_exp_eq_0_iff_not_bit [of y 11] by simp
  then have sum: "y + 2048 = y OR 2048" by (rule disjunctive_add_eq_or)
  show ?thesis
    unfolding high_part_clear_low sum
  proof (rule bit_word_eqI)
    fix n assume "n < LENGTH(64)"
    then show "bit (clear_low 12 (y OR 2048)) n = bit y n"
      using assms [of n] b [of n] by (cases "n < 12") (simp_all add: bit_clear_low bit_or_iff)
  qed
qed

lemma lui_value:
  "EXTEND32 (clear_low 12 (RISCV_CONST_HIGH_PART (shl (shr (uint32 (RISCV_CONST_HIGH_PART v)) 12) 12))) =
     EXTEND32 (RISCV_CONST_HIGH_PART v)"
proof -
  let ?h = "RISCV_CONST_HIGH_PART v"
  have y: "shl (shr (uint32 ?h) 12) 12 = clear_low 12 (uint32 ?h)" by (simp add: clear_low_def)
  have "RISCV_CONST_HIGH_PART (clear_low 12 (uint32 ?h)) = clear_low 12 (uint32 ?h)"
    by (rule high_of_multiple) (simp add: bit_clear_low)
  moreover have "take_bit 32 (clear_low 12 (clear_low 12 (uint32 ?h))) = take_bit 32 ?h"
    by (auto simp: bit_eq_iff bit_clear_low uint32_def bit_take_bit_iff dest: bit_word_bound)
      (metis upper_low_clear leI)
  ultimately show ?thesis by (simp only: y EXTEND32_eq_iff)
qed

lemma shl_sar:
  assumes "s < 64" "\<And>i. i < s \<Longrightarrow> \<not> bit u i"
  shows "shl (sar u s) s = u"
proof -
  have "clear_low s u = u"
    by (auto simp: bit_eq_iff bit_clear_low dest: bit_word_bound) (metis assms(2) leI)
  then have "2 ^ s dvd sint u" using assms(1) by (simp add: clear_low_eq_iff dvd_sint_iff)
  then have "sint u div 2 ^ s * 2 ^ s = sint u" by simp
  then have "word_of_int (sint u div 2 ^ s * 2 ^ s) = u" by simp
  then show ?thesis by (simp add: sar_def shl_eq_mult)
qed

lemma take_bit_add_word:
  "n \<le> 64 \<Longrightarrow> uint (take_bit n (a + b :: 64 word)) = take_bit n (uint (take_bit n a) + uint (take_bit n b))"
  using take_bit_uint_mod [of n "uint a + uint b"]
  by (simp add: uint_take_bit uint_word_ariths take_bit_add)

lemma EXTEND32_add: "EXTEND32 (EXTEND32 x + y) = EXTEND32 (x + y)"
proof -
  have "take_bit 32 (EXTEND32 x) = take_bit 32 x" using EXTEND32_idem [of x] by (simp only: EXTEND32_eq_iff)
  then have "uint (take_bit 32 (EXTEND32 x + y)) = uint (take_bit 32 (x + y))" by (simp only: take_bit_add_word)
  then show ?thesis unfolding EXTEND32_eq_iff by (rule word_uint_eqI)
qed

section \<open>The sequence computes the constant\<close>

lemma reg_store_same: "regs_ok cpu \<Longrightarrow> 0 < rd \<Longrightarrow> rd < 32 \<Longrightarrow> reg (store_rd rd v cpu) rd = v"
  by (simp add: reg_store_rd)

lemma reg_zero: "regs_ok cpu \<Longrightarrow> reg cpu 0 = 0"
  by (simp add: regs_ok_def reg_def)

text \<open>\<open>cpu'\<close> differs from \<open>cpu\<close> in the program counter and in register \<open>rd\<close> only.\<close>

definition only_rd :: "nat \<Rightarrow> 'm sim_state \<Rightarrow> 'm sim_state \<Rightarrow> bool" where
  "only_rd rd cpu cpu' \<longleftrightarrow> regs_ok cpu' \<and> (\<forall>r<32. r \<noteq> rd \<longrightarrow> reg cpu' r = reg cpu r) \<and>
     sim_mem cpu' = sim_mem cpu \<and> sim_csr cpu' = sim_csr cpu \<and> sim_reserved cpu' = sim_reserved cpu"

lemma only_rd_refl: "regs_ok cpu \<Longrightarrow> only_rd rd cpu cpu"
  by (simp add: only_rd_def)

lemma only_rd_store:
  "only_rd rd cpu c \<Longrightarrow> only_rd rd cpu ((store_rd rd v c)\<lparr>sim_pc := p\<rparr>)"
  by (auto simp: only_rd_def reg_store_rd) (auto simp: reg_def store_rd_def)

lemma reg_pc [simp]: "reg (c\<lparr>sim_pc := p\<rparr>) = reg c"
  by (simp add: reg_def fun_eq_iff)

lemma load_const_base:
  assumes "regs_ok cpu" "0 < rd" "rd < 32" "host_xlen host \<in> {32, 64}"
    and "host_xlen host = 32 \<or> IS_SEXT_32BIT_NUM v"
  shows "\<exists>is cpu'. load_const (host_xlen host) rd v = Some is \<and> run_insns host is cpu = Some cpu' \<and>
           only_rd rd cpu cpu' \<and> EXTEND32 (reg cpu' rd) = EXTEND32 v \<and>
           (host_xlen host = 64 \<longrightarrow> reg cpu' rd = EXTEND32 v) \<and> length is \<le> 2"
proof -
  let ?u = "v - lower_part v" and ?l = "lower_part v"
  have lc: "load_const (host_xlen host) rd v =
      Some ((if ?u \<noteq> 0 then [LUI rd (shr (uint32 ?u) 12)] else []) @
            (if ?l \<noteq> 0 \<or> ?u = 0 then [ADD32 rd (if ?u \<noteq> 0 then rd else 0) ?l] else []))"
    using assms by (subst load_const.simps) (auto simp: Let_def)
  define c1 where "c1 = (if ?u \<noteq> 0 then (store_rd rd (EXTEND32 ?u) cpu)\<lparr>sim_pc := sim_pc cpu + 4\<rparr> else cpu)"
  have c1: "run_insns host (if ?u \<noteq> 0 then [LUI rd (shr (uint32 ?u) 12)] else []) cpu = Some c1"
      "only_rd rd cpu c1" "?u \<noteq> 0 \<Longrightarrow> reg c1 rd = EXTEND32 ?u"
    using assms(1-3) only_rd_store [OF only_rd_refl [OF assms(1)]]
    by (auto simp: c1_def exec_const lui_value upper_eq only_rd_refl reg_store_same)
  show ?thesis
  proof (cases "?l \<noteq> 0 \<or> ?u = 0")
    case False
    then have "run_insns host [LUI rd (shr (uint32 ?u) 12)] cpu = Some c1" "reg c1 rd = EXTEND32 v"
      using c1(1,3) by auto
    with False c1(2) show ?thesis unfolding lc by (auto simp: EXTEND32_idem)
  next
    case True
    let ?rs = "if ?u \<noteq> 0 then rd else 0"
    define w where "w = (if host_xlen host = 64 then EXTEND32 (reg c1 ?rs + ?l) else reg c1 ?rs + ?l)"
    define c2 where "c2 = (store_rd rd w c1)\<lparr>sim_pc := sim_pc c1 + 4\<rparr>"
    have "run_insns host [ADD32 rd ?rs ?l] c1 = Some c2"
      using exec_add32 [of rd ?rs ?l host c1] assms(2-4) lower_valid [of v] by (simp add: c2_def w_def)
    then have run: "run_insns host (the (load_const (host_xlen host) rd v)) cpu = Some c2"
      using True unfolding lc run_insns_append c1(1) option.sel by simp
    have ok: "regs_ok c1" using c1(2) by (simp add: only_rd_def)
    have "reg c1 ?rs = EXTEND32 ?u"
      using c1(3) reg_zero [OF ok] by (auto simp: EXTEND32_def)
    then have "EXTEND32 (reg c1 ?rs + ?l) = EXTEND32 v" by (simp add: EXTEND32_add)
    then have "EXTEND32 w = EXTEND32 v" "host_xlen host = 64 \<longrightarrow> w = EXTEND32 v"
      by (auto simp: w_def EXTEND32_idem)
    moreover have "reg c2 rd = w" using ok assms(2,3) by (simp add: c2_def reg_store_same)
    moreover have "only_rd rd cpu c2" unfolding c2_def by (rule only_rd_store [OF c1(2)])
    ultimately show ?thesis using run unfolding lc by (auto simp: True)
  qed
qed

definition loads :: "'m sim_host \<Rightarrow> nat \<Rightarrow> nat \<Rightarrow> 64 word \<Rightarrow> bool" where
  "loads host rd n v \<longleftrightarrow>
     (\<forall>cpu. regs_ok cpu \<longrightarrow>
        (\<exists>is cpu'. load_const (host_xlen host) rd v = Some is \<and> run_insns host is cpu = Some cpu' \<and>
           only_rd rd cpu cpu' \<and> reg cpu' rd = v \<and> length is \<le> n))"

lemma loads_sext:
  assumes "0 < rd" "rd < 32" "host_xlen host = 64" "IS_SEXT_32BIT_NUM v"
  shows "loads host rd 2 v"
proof -
  have "EXTEND32 v = v" using assms(4) by (simp add: sext_32bit_iff EXTEND32_def sext_eq_iff)
  then show ?thesis
    unfolding loads_def using load_const_base [of _ rd host v] assms by fastforce
qed

lemma high_part_shift:
  assumes "\<not> IS_SEXT_32BIT_NUM v"
  obtains s where "shift_loop (v - lower_part v) 12 = Some s" "12 \<le> s" "s < 64"
    "shl (sar (v - lower_part v) s) s = v - lower_part v"
proof -
  let ?u = "v - lower_part v"
  have "?u \<noteq> 0"
    using assms lower_part_range [of v] by (auto simp: sext_32bit_iff)
  then obtain i where "bit ?u i" by (metis bit_0_eq bit_eqI bot_apply bot_bool_def)
  moreover have low: "\<not> bit ?u i" if "i < 12" for i
    using that upper_low_clear [of i v] by (simp add: upper_eq)
  ultimately have "shift_loop ?u 12 \<noteq> None" using shift_loop_defined [of 12 i ?u] by (meson leI)
  then obtain s where s: "shift_loop ?u 12 = Some s" by blast
  then have "shl (sar ?u s) s = ?u"
    using shift_loop_spec [OF s] low by (intro shl_sar) (auto simp: not_le [symmetric])
  with s show ?thesis using shift_loop_ge [OF s] that by blast
qed

lemma loads_step:
  assumes "0 < rd" "rd < 32" "host_xlen host = 64"
    and smaller: "\<And>w. \<bar>sint w\<bar> \<le> (\<bar>sint v\<bar> + 2048) div 4096 + 1 \<Longrightarrow> loads host rd n w"
    and "2 \<le> n + 2"
  shows "loads host rd (n + 2) v"
proof (cases "IS_SEXT_32BIT_NUM v")
  case True
  with assms(1-3) show ?thesis using loads_sext [of rd host v] unfolding loads_def by fastforce
next
  case False
  let ?u = "v - lower_part v" and ?l = "lower_part v"
  obtain s where s: "shift_loop ?u 12 = Some s" "12 \<le> s" "s < 64" "shl (sar ?u s) s = ?u"
    using high_part_shift [OF False] by blast
  have rec: "loads host rd n (sar ?u s)" by (rule smaller) (rule upper_shrinks [OF s(2)])
  show ?thesis
    unfolding loads_def
  proof (intro allI impI)
    fix cpu :: "'a sim_state"
    assume "regs_ok cpu"
    with rec obtain "is" c1 where r: "load_const (host_xlen host) rd (sar ?u s) = Some is"
      "run_insns host is cpu = Some c1" "only_rd rd cpu c1" "reg c1 rd = sar ?u s" "length is \<le> n"
      unfolding loads_def by blast
    define c2 where "c2 = (store_rd rd ?u c1)\<lparr>sim_pc := sim_pc c1 + 4\<rparr>"
    define c3 where "c3 = (if ?l \<noteq> 0 then (store_rd rd v c2)\<lparr>sim_pc := sim_pc c2 + 4\<rparr> else c2)"
    have o2: "only_rd rd cpu c2" unfolding c2_def by (rule only_rd_store [OF r(3)])
    have o3: "only_rd rd cpu c3" unfolding c3_def using only_rd_store [OF o2] o2 by simp
    have ok: "regs_ok c1" "regs_ok c2" using r(3) o2 by (simp_all add: only_rd_def)
    have u: "reg c2 rd = ?u" using ok(1) assms(1,2) by (simp add: c2_def reg_store_same)
    have "run_insns host (SLLI rd rd s # (if ?l \<noteq> 0 then [ADDI rd rd ?l] else [])) c1 = Some c3"
      using exec_slli [OF assms(2,2) s(3) assms(3), of c1] exec_addi [OF assms(2,2) lower_valid, of host v c2]
        r(4) s(4) u
      by (simp add: c2_def [symmetric]) (simp add: c3_def)
    moreover have "load_const (host_xlen host) rd v =
        Some (is @ SLLI rd rd s # (if ?l \<noteq> 0 then [ADDI rd rd ?l] else []))"
      using False assms(3) s(1) r(1) by (subst load_const.simps) (simp add: Let_def)
    moreover have "reg c3 rd = v"
      using u ok(2) assms(1,2) by (simp add: c3_def reg_store_same)
    ultimately show "\<exists>is cpu'. load_const (host_xlen host) rd v = Some is \<and> run_insns host is cpu = Some cpu' \<and>
        only_rd rd cpu cpu' \<and> reg cpu' rd = v \<and> length is \<le> n + 2"
      using o3 r(2,5) by (auto simp: run_insns_append)
  qed
qed

lemma loads_all:
  assumes "0 < rd" "rd < 32" "host_xlen host = 64"
  shows "loads host rd 8 v"
proof -
  note step = loads_step [OF assms]
  have l0: "loads host rd 2 w" if "\<bar>sint w\<bar> < 2 ^ 31" for w
    using that assms by (intro loads_sext) (auto simp: sext_32bit_iff)
  have l1: "loads host rd 4 w" if "\<bar>sint w\<bar> \<le> 2 ^ 42" for w
    using step [of w 2] l0 that by simp
  have l2: "loads host rd 6 w" if "\<bar>sint w\<bar> \<le> 2 ^ 52" for w
    using step [of w 4] l1 that by simp
  have "\<bar>sint v\<bar> \<le> 2 ^ 63" using sint_greater_eq [of v] sint_less [of v] by auto
  then show ?thesis using step [of v 6] l2 by simp
qed

text \<open>
  C24. \<^verbatim>\<open>li\<close> on RV64: for every 64-bit constant and every register except zero the expansion ends,
  has at most eight instructions, and executing them loads exactly the constant and changes nothing
  else but the program counter.
\<close>

theorem load_const_rv64:
  assumes "regs_ok cpu" "0 < rd" "rd < 32" "host_xlen host = 64"
  shows "\<exists>is cpu'. load_const 64 rd v = Some is \<and> length is \<le> 8 \<and> run_insns host is cpu = Some cpu' \<and>
           reg cpu' rd = v \<and> only_rd rd cpu cpu'"
  using loads_all [OF assms(2-4), of v] assms(1,4) unfolding loads_def by fastforce

lemma test_cpu_ok: "regs_ok (test_cpu [0] m)"
  by (simp add: regs_ok_def test_cpu_def)

lemma load_const_rv64_witness:
  "\<exists>is cpu'. load_const 64 5 0x123456789abcdef0 = Some is \<and> length is \<le> 8 \<and>
     run_insns (test_host 64) is (test_cpu [0] (\<lambda>_. 0)) = Some cpu' \<and> reg cpu' 5 = 0x123456789abcdef0"
  using load_const_rv64 [OF test_cpu_ok, of 5 "test_host 64" "0x123456789abcdef0" "\<lambda>_. 0"]
  by (auto simp: test_host_def)

text \<open>
  \<^verbatim>\<open>li\<close> on RV32: at most two instructions, and they load the low 32 bits of the constant.
\<close>

theorem load_const_rv32:
  assumes "regs_ok cpu" "0 < rd" "rd < 32" "host_xlen host = 32"
  shows "\<exists>is cpu'. load_const 32 rd v = Some is \<and> length is \<le> 2 \<and> run_insns host is cpu = Some cpu' \<and>
           take_bit 32 (reg cpu' rd) = take_bit 32 v \<and> only_rd rd cpu cpu'"
  using load_const_base [of cpu rd host v] assms by (auto simp: EXTEND32_eq_iff)

lemma load_const_rv32_witness:
  "\<exists>is cpu'. load_const 32 5 0xfffff800 = Some is \<and> length is \<le> 2 \<and>
     run_insns (test_host 32) is (test_cpu [0] (\<lambda>_. 0)) = Some cpu' \<and>
     take_bit 32 (reg cpu' 5) = take_bit 32 0xfffff800"
  using load_const_rv32 [OF test_cpu_ok, of 5 "test_host 32" "0xfffff800" "\<lambda>_. 0"]
  by (auto simp: test_host_def)

end
