(* ===== verification/RV_Branch.thy ===== *)
theory RV_Branch
  imports RV_Const "HOL-Library.Monad_Syntax"
begin

text \<open>
  Branch relaxation of the assembler (\<open>gas/config/tc-riscv.c\<close>): a branch or jump to a symbol is kept in a
  machine-dependent fragment with room for eight bytes; its length is chosen from the distance to the
  symbol (\<open>relaxed_branch_length\<close>, \<open>riscv_relax_frag\<close>), and \<open>md_convert_frag_branch\<close> finally writes the
  short form, the long form, or an inverted branch over a jump, and a fixup for the target.

  A fragment is a record with its literal bytes; a failed assertion, \<open>abort\<close> and an access outside the
  literal are \<open>None\<close>.
\<close>

section \<open>Fragments, symbols and fixups\<close>

record asection =
  sec_index :: nat
  sec_name :: string

record symbolS =
  sym_defined :: bool
  sym_weak :: bool
  sym_local :: bool
  sym_segment :: asection
  sym_value :: bfd_vma

record fragS =
  fr_address :: bfd_vma
  fr_fix :: nat
  fr_var :: nat
  fr_subtype :: "32 word"
  fr_symbol :: "symbolS option"
  fr_offset :: offsetT
  fr_literal :: "bfd_byte list"

record fixS =
  fx_where :: nat
  fx_size :: nat
  fx_r_type :: bfd_reloc_code_real
  fx_addsy :: "symbolS option"
  fx_subsy :: "symbolS option"
  fx_offset :: offsetT
  fx_done :: bool
  fx_tcbit :: bool
  fx_source_macro :: int

section \<open>Little-endian access\<close>

definition le_bytes :: "nat \<Rightarrow> 64 word \<Rightarrow> bfd_byte list" where
  "le_bytes n w = map (\<lambda>k. ucast (shr w (8 * k))) [0..<n]"

fun le_word :: "bfd_byte list \<Rightarrow> 64 word" where
  "le_word [] = 0"
| "le_word (b # bs) = ucast b OR shl (le_word bs) 8"

definition get_le :: "nat \<Rightarrow> nat \<Rightarrow> bfd_byte list \<Rightarrow> 64 word option" where
  "get_le n i lit = (if i + n \<le> length lit then Some (le_word (take n (drop i lit))) else None)"

definition put_le :: "nat \<Rightarrow> 64 word \<Rightarrow> nat \<Rightarrow> bfd_byte list \<Rightarrow> bfd_byte list option" where
  "put_le n w i lit =
     (if i + n \<le> length lit then Some (take i lit @ le_bytes n w @ drop (i + n) lit) else None)"

abbreviation "bfd_getl16 \<equiv> get_le 2"
abbreviation "bfd_getl32 \<equiv> get_le 4"
abbreviation "bfd_putl16 \<equiv> put_le 2"
abbreviation "bfd_putl32 \<equiv> put_le 4"

section \<open>The relaxation state\<close>

definition RELAX_BRANCH_ENCODE :: "bool \<Rightarrow> bool \<Rightarrow> nat \<Rightarrow> 32 word" where
  "RELAX_BRANCH_ENCODE uncond rvc len =
     0xc0000000 OR (if uncond then 1 else 0) OR (if rvc then 2 else 0) OR push_bit 2 (of_nat len)"

definition RELAX_BRANCH_P :: "32 word \<Rightarrow> bool" where
  "RELAX_BRANCH_P i \<longleftrightarrow> i AND 0xf0000000 = 0xc0000000"

definition RELAX_BRANCH_LENGTH :: "32 word \<Rightarrow> nat" where
  "RELAX_BRANCH_LENGTH i = unat (drop_bit 2 i AND 0xf)"

definition RELAX_BRANCH_RVC :: "32 word \<Rightarrow> bool" where
  "RELAX_BRANCH_RVC i \<longleftrightarrow> i AND 2 \<noteq> 0"

definition RELAX_BRANCH_UNCOND :: "32 word \<Rightarrow> bool" where
  "RELAX_BRANCH_UNCOND i \<longleftrightarrow> i AND 1 \<noteq> 0"

abbreviation (input) RVC_JUMP_REACH :: bfd_vma where "RVC_JUMP_REACH \<equiv> 4096"
abbreviation (input) RVC_BRANCH_REACH :: bfd_vma where "RVC_BRANCH_REACH \<equiv> 512"
abbreviation (input) RISCV_BRANCH_REACH :: bfd_vma where "RISCV_BRANCH_REACH \<equiv> 8192"

definition branch_length :: "bool \<Rightarrow> bool \<Rightarrow> asection \<Rightarrow> fragS \<Rightarrow> nat" where
  "branch_length jump rvc sec f =
     (let len = (if jump then 4 else 8)
      in case fr_symbol f of
           None \<Rightarrow> len
         | Some s \<Rightarrow>
             if sym_defined s \<and> \<not> sym_weak s \<and> sec = sym_segment s
             then (let val = sym_value s + fr_offset f - (fr_address f + of_nat (fr_fix f));
                       rvc_range = (if jump then RVC_JUMP_REACH else RVC_BRANCH_REACH)
                   in if rvc \<and> val + rvc_range div 2 < rvc_range then 2
                      else if val + RISCV_BRANCH_REACH div 2 < RISCV_BRANCH_REACH then 4
                      else if \<not> jump \<and> rvc then 6
                      else len)
             else len)"

definition relaxed_branch_length :: "fragS option \<Rightarrow> asection \<Rightarrow> bool \<Rightarrow> nat \<times> fragS option" where
  "relaxed_branch_length fragp sec update =
     (case fragp of
        None \<Rightarrow> (8, None)
      | Some f \<Rightarrow>
          (let jump = RELAX_BRANCH_UNCOND (fr_subtype f); rvc = RELAX_BRANCH_RVC (fr_subtype f);
               len = branch_length jump rvc sec f
           in (len, Some (if update then f\<lparr>fr_subtype := RELAX_BRANCH_ENCODE jump rvc len\<rparr> else f))))"

definition md_estimate_size_before_relax :: "fragS \<Rightarrow> asection \<Rightarrow> nat \<times> fragS" where
  "md_estimate_size_before_relax f sec =
     (let (len, _) = relaxed_branch_length (Some f) sec False in (len, f\<lparr>fr_var := len\<rparr>))"

definition riscv_relax_frag :: "asection \<Rightarrow> fragS \<Rightarrow> int \<times> fragS" where
  "riscv_relax_frag sec f =
     (if RELAX_BRANCH_P (fr_subtype f)
      then (case relaxed_branch_length (Some f) sec True of
              (len, Some f') \<Rightarrow> (int len - int (fr_var f), f'\<lparr>fr_var := len\<rparr>)
            | (len, None) \<Rightarrow> (0, f))
      else (0, f))"

section \<open>Writing the branch\<close>

abbreviation (input) MATCH_C_J :: insn_t where "MATCH_C_J \<equiv> 0xa001"
abbreviation (input) MATCH_C_JAL :: insn_t where "MATCH_C_JAL \<equiv> 0x2001"
abbreviation (input) MATCH_C_BEQZ :: insn_t where "MATCH_C_BEQZ \<equiv> 0xc001"
abbreviation (input) MATCH_C_BNEZ :: insn_t where "MATCH_C_BNEZ \<equiv> 0xe001"
abbreviation (input) MASK_C_J :: insn_t where "MASK_C_J \<equiv> 0xe003"

text \<open>The masks of the four compressed instructions are equal.\<close>

definition expand_rvc_branch :: "insn_t \<Rightarrow> insn_t option" where
  "expand_rvc_branch insn =
     (let rs1 = 8 + (shr insn OP_SH_CRS1S AND OP_MASK_CRS1S)
      in if insn AND MASK_C_J = MATCH_C_J then Some MATCH_JAL
         else if insn AND MASK_C_J = MATCH_C_JAL then Some (MATCH_JAL OR shl 1 OP_SH_RD)
         else if insn AND MASK_C_J = MATCH_C_BEQZ then Some (MATCH_BEQ OR shl rs1 OP_SH_RS1)
         else if insn AND MASK_C_J = MATCH_C_BNEZ then Some (MATCH_BNE OR shl rs1 OP_SH_RS1)
         else None)"

definition branch_fix :: "fragS \<Rightarrow> nat \<Rightarrow> nat \<Rightarrow> bfd_reloc_code_real \<Rightarrow> fixS" where
  "branch_fix f at sz reloc =
     \<lparr>fx_where = at, fx_size = sz, fx_r_type = reloc, fx_addsy = fr_symbol f, fx_subsy = None,
      fx_offset = fr_offset f, fx_done = False, fx_tcbit = False, fx_source_macro = - 1\<rparr>"

text \<open>The end of the function: \<open>buf\<close> is the offset reached.\<close>

definition convert_done :: "fragS \<Rightarrow> nat \<Rightarrow> fixS \<Rightarrow> (fragS \<times> fixS) option" where
  "convert_done f buf fixp =
     (if buf = fr_fix f + fr_var f then Some (f\<lparr>fr_fix := fr_fix f + fr_var f\<rparr>, fixp) else None)"

definition convert_jump :: "fragS \<Rightarrow> nat \<Rightarrow> (fragS \<times> fixS) option" where
  "convert_jump f buf = do {
     lit \<leftarrow> bfd_putl32 MATCH_JAL buf (fr_literal f);
     convert_done (f\<lparr>fr_literal := lit\<rparr>) (buf + 4) (branch_fix f buf 4 BFD_RELOC_RISCV_JMP)
   }"

definition convert_full :: "fragS \<Rightarrow> (fragS \<times> fixS) option" where
  "convert_full f =
     (if RELAX_BRANCH_LENGTH (fr_subtype f) = 8
      then if RELAX_BRANCH_UNCOND (fr_subtype f) then None
           else do {
             insn \<leftarrow> bfd_getl32 (fr_fix f) (fr_literal f);
             lit \<leftarrow> bfd_putl32 ((insn XOR (MATCH_BEQ XOR MATCH_BNE)) OR ENCODE_BTYPE_IMM 8) (fr_fix f) (fr_literal f);
             convert_jump (f\<lparr>fr_literal := lit\<rparr>) (fr_fix f + 4)
           }
      else if RELAX_BRANCH_LENGTH (fr_subtype f) = 4
      then convert_done f (fr_fix f + 4)
             (branch_fix f (fr_fix f) 4 (if RELAX_BRANCH_UNCOND (fr_subtype f) then BFD_RELOC_RISCV_JMP else BFD_RELOC_12_PCREL))
      else None)"

definition md_convert_frag_branch :: "fragS \<Rightarrow> (fragS \<times> fixS) option" where
  "md_convert_frag_branch f =
     (let len = RELAX_BRANCH_LENGTH (fr_subtype f)
      in if fr_var f \<noteq> len then None
         else if RELAX_BRANCH_RVC (fr_subtype f)
         then if len = 8 \<or> len = 4
              then do {
                insn \<leftarrow> bfd_getl16 (fr_fix f) (fr_literal f);
                insn' \<leftarrow> expand_rvc_branch insn;
                lit \<leftarrow> bfd_putl32 insn' (fr_fix f) (fr_literal f);
                convert_full (f\<lparr>fr_literal := lit\<rparr>)
              }
              else if len = 6
              then do {
                insn \<leftarrow> bfd_getl16 (fr_fix f) (fr_literal f);
                lit \<leftarrow> bfd_putl16 ((insn XOR (MATCH_C_BEQZ XOR MATCH_C_BNEZ)) OR ENCODE_CBTYPE_IMM 6)
                         (fr_fix f) (fr_literal f);
                convert_jump (f\<lparr>fr_literal := lit\<rparr>) (fr_fix f + 2)
              }
              else if len = 2
              then convert_done f (fr_fix f + 2)
                     (branch_fix f (fr_fix f) 2
                        (if RELAX_BRANCH_UNCOND (fr_subtype f) then BFD_RELOC_RISCV_RVC_JUMP else BFD_RELOC_RISCV_RVC_BRANCH))
              else None
         else convert_full f)"

definition md_convert_frag :: "fragS \<Rightarrow> (fragS \<times> fixS) option" where
  "md_convert_frag f = (if RELAX_BRANCH_P (fr_subtype f) then md_convert_frag_branch f else None)"

section \<open>Bytes\<close>

lemma length_le_bytes [simp]: "length (le_bytes n w) = n"
  by (simp add: le_bytes_def)

lemma le_bytes_Suc: "le_bytes (Suc n) w = ucast w # le_bytes n (shr w 8)"
proof -
  have "shr w (8 * Suc k) = shr (shr w 8) (8 * k)" for k by (simp add: shr_def add.commute)
  then show ?thesis by (simp add: le_bytes_def upt_conv_Cons map_Suc_upt [symmetric] del: upt_Suc)
qed

lemma le_word_le_bytes: "le_word (le_bytes n w) = take_bit (8 * n) w"
proof (induction n arbitrary: w)
  case 0
  then show ?case by (simp add: le_bytes_def)
next
  case (Suc n)
  have "ucast (ucast w :: 8 word) OR shl (take_bit (8 * n) (shr w 8)) 8 = take_bit (8 * Suc n) w"
    by (rule bit_word_eqI) (auto simp: bit_simps cbits)
  then show ?case by (simp add: le_bytes_Suc Suc.IH)
qed

lemma put_le_length: "put_le n w i lit = Some lit' \<Longrightarrow> length lit' = length lit"
  by (auto simp: put_le_def split: if_splits)

lemma put_le_some: "i + n \<le> length lit \<Longrightarrow> \<exists>lit'. put_le n w i lit = Some lit'"
  by (simp add: put_le_def)

lemma get_put_same: "put_le n w i lit = Some lit' \<Longrightarrow> get_le n i lit' = Some (take_bit (8 * n) w)"
  by (auto simp: put_le_def get_le_def le_word_le_bytes split: if_splits)

lemma put_le_frame:
  "put_le n w i lit = Some lit' \<Longrightarrow> take i lit' = take i lit \<and> drop (i + n) lit' = drop (i + n) lit"
  by (auto simp: put_le_def split: if_splits)

lemma put_le_frame_le:
  assumes "put_le n w i lit = Some lit'" "a \<le> i" "i + n \<le> b"
  shows "take a lit' = take a lit" "drop b lit' = drop b lit"
proof -
  note fr = put_le_frame [OF assms(1)]
  have "take a lit' = take a (take i lit')" "take a lit = take a (take i lit)"
    using assms(2) by (simp_all add: min_def)
  then show "take a lit' = take a lit" using fr by simp
  obtain c where "b = (i + n) + c" using assms(3) le_Suc_ex by blast
  then show "drop b lit' = drop b lit" using fr by (metis add.commute drop_drop)
qed

section \<open>The state word\<close>

lemma relax_state:
  assumes "len \<in> {2, 4, 6, 8}"
  shows "RELAX_BRANCH_P (RELAX_BRANCH_ENCODE uncond rvc len)"
    and "RELAX_BRANCH_LENGTH (RELAX_BRANCH_ENCODE uncond rvc len) = len"
    and "RELAX_BRANCH_RVC (RELAX_BRANCH_ENCODE uncond rvc len) = rvc"
    and "RELAX_BRANCH_UNCOND (RELAX_BRANCH_ENCODE uncond rvc len) = uncond"
  using assms
  by (auto simp: RELAX_BRANCH_ENCODE_def RELAX_BRANCH_P_def RELAX_BRANCH_LENGTH_def RELAX_BRANCH_RVC_def
      RELAX_BRANCH_UNCOND_def)

lemma branch_length_cases:
  "branch_length jump rvc sec f \<in> (if jump then {2, 4} else {2, 4, 6, 8})"
  "\<not> rvc \<Longrightarrow> branch_length jump rvc sec f \<in> {4, 8}"
  by (auto simp: branch_length_def Let_def split: option.splits)

section \<open>Converting never fails\<close>

definition rvc_jump :: "insn_t \<Rightarrow> bool" where
  "rvc_jump w \<longleftrightarrow> w AND MASK_C_J \<in> {MATCH_C_J, MATCH_C_JAL}"

definition rvc_branch :: "insn_t \<Rightarrow> bool" where
  "rvc_branch w \<longleftrightarrow> w AND MASK_C_J \<in> {MATCH_C_BEQZ, MATCH_C_BNEZ}"

text \<open>
  A fragment as \<open>append_insn\<close> leaves it: there is room for the longest form, and a compressed
  instruction is one of the four that can be relaxed.
\<close>

definition branch_frag :: "fragS \<Rightarrow> bool" where
  "branch_frag f \<longleftrightarrow>
     RELAX_BRANCH_P (fr_subtype f) \<and> fr_fix f + 8 \<le> length (fr_literal f) \<and>
     (RELAX_BRANCH_RVC (fr_subtype f) \<longrightarrow>
        (\<exists>w. bfd_getl16 (fr_fix f) (fr_literal f) = Some w \<and>
           (if RELAX_BRANCH_UNCOND (fr_subtype f) then rvc_jump w else rvc_branch w)))"

lemma expand_defined: "rvc_jump w \<or> rvc_branch w \<Longrightarrow> \<exists>w'. expand_rvc_branch w = Some w'"
  by (auto simp: rvc_jump_def rvc_branch_def expand_rvc_branch_def Let_def)

text \<open>What a conversion of \<open>f\<close> into \<open>g\<close> with the fixup \<open>x\<close> keeps and adds.\<close>

definition converted :: "fragS \<Rightarrow> nat \<Rightarrow> fragS \<times> fixS \<Rightarrow> bool" where
  "converted f len gx \<longleftrightarrow>
     (case gx of (g, x) \<Rightarrow>
        fr_fix g = fr_fix f + len \<and> length (fr_literal g) = length (fr_literal f) \<and>
        take (fr_fix f) (fr_literal g) = take (fr_fix f) (fr_literal f) \<and>
        drop (fr_fix f + 8) (fr_literal g) = drop (fr_fix f + 8) (fr_literal f) \<and>
        fx_addsy x = fr_symbol f \<and> fx_offset x = fr_offset f \<and>
        fr_fix f \<le> fx_where x \<and> fx_where x + fx_size x = fr_fix g)"

lemma convert_jump_converted:
  assumes "fr_fix f \<le> buf" "buf + 4 = fr_fix f + fr_var f" "fr_fix f + fr_var f \<le> fr_fix f + 8"
    and "fr_fix f + 8 \<le> length (fr_literal f)"
  shows "\<exists>gx. convert_jump f buf = Some gx \<and> converted f (fr_var f) gx"
proof -
  obtain lit where lit: "bfd_putl32 MATCH_JAL buf (fr_literal f) = Some lit"
    using put_le_some [of buf 4 "fr_literal f"] assms by fastforce
  then show ?thesis
    using assms put_le_frame_le [OF lit, of "fr_fix f" "fr_fix f + 8"] put_le_length [OF lit]
    by (simp add: convert_jump_def convert_done_def converted_def branch_fix_def)
qed

lemma converted_literal:
  assumes "put_le n w (fr_fix f) (fr_literal f) = Some lit" "n \<le> 8"
    and "converted (f\<lparr>fr_literal := lit\<rparr>) len gx"
  shows "converted f len gx"
  using assms put_le_frame_le [OF assms(1), of "fr_fix f" "fr_fix f + 8"] put_le_length [OF assms(1)]
  by (auto simp: converted_def)

lemma convert_full_converted:
  assumes "fr_fix f + 8 \<le> length (fr_literal f)" "fr_var f = RELAX_BRANCH_LENGTH (fr_subtype f)"
    and "fr_var f \<in> (if RELAX_BRANCH_UNCOND (fr_subtype f) then {4} else {4, 8})"
  shows "\<exists>gx. convert_full f = Some gx \<and> converted f (fr_var f) gx"
proof (cases "fr_var f = 8")
  case True
  obtain insn where insn: "bfd_getl32 (fr_fix f) (fr_literal f) = Some insn"
    using assms(1) by (simp add: get_le_def)
  obtain lit where lit: "bfd_putl32 ((insn XOR (MATCH_BEQ XOR MATCH_BNE)) OR ENCODE_BTYPE_IMM 8) (fr_fix f)
      (fr_literal f) = Some lit"
    using put_le_some [of "fr_fix f" 4 "fr_literal f"] assms(1) by fastforce
  obtain gx where gx: "convert_jump (f\<lparr>fr_literal := lit\<rparr>) (fr_fix f + 4) = Some gx"
      "converted (f\<lparr>fr_literal := lit\<rparr>) (fr_var f) gx"
    using convert_jump_converted [of "f\<lparr>fr_literal := lit\<rparr>" "fr_fix f + 4"] True assms(1) put_le_length [OF lit]
    by auto
  have "\<not> RELAX_BRANCH_UNCOND (fr_subtype f)" using True assms(3) by (auto split: if_splits)
  then have "convert_full f = Some gx" using True assms(2) insn lit gx(1) by (simp add: convert_full_def)
  moreover have "converted f (fr_var f) gx" using converted_literal [OF lit _ gx(2)] by simp
  ultimately show ?thesis by blast
next
  case False
  then have "fr_var f = 4" using assms(3) by (simp split: if_splits)
  then show ?thesis
    using assms(2) by (simp add: convert_full_def convert_done_def converted_def branch_fix_def)
qed

lemma convert_branch_converted:
  assumes "branch_frag f" "fr_var f = RELAX_BRANCH_LENGTH (fr_subtype f)"
    and "fr_var f \<in> (if RELAX_BRANCH_UNCOND (fr_subtype f) then {2, 4} else {2, 4, 6, 8})"
    and "\<not> RELAX_BRANCH_RVC (fr_subtype f) \<Longrightarrow> fr_var f \<in> {4, 8}"
  shows "\<exists>gx. md_convert_frag f = Some gx \<and> converted f (fr_var f) gx"
proof (cases "RELAX_BRANCH_RVC (fr_subtype f)")
  case False
  then show ?thesis
    using assms convert_full_converted [of f]
    by (auto simp: md_convert_frag_def md_convert_frag_branch_def branch_frag_def split: if_splits)
next
  case True
  let ?j = "RELAX_BRANCH_UNCOND (fr_subtype f)"
  obtain w where w: "bfd_getl16 (fr_fix f) (fr_literal f) = Some w" "if ?j then rvc_jump w else rvc_branch w"
    using assms(1) True unfolding branch_frag_def by blast
  have room: "fr_fix f + 8 \<le> length (fr_literal f)" and p: "RELAX_BRANCH_P (fr_subtype f)"
    using assms(1) by (simp_all add: branch_frag_def)
  consider "fr_var f = 2" | "fr_var f = 6" "\<not> ?j" | "fr_var f \<in> {4, 8}" using assms(3) by (auto split: if_splits)
  then show ?thesis
  proof cases
    case 1
    then show ?thesis
      using True p assms(2)
      by (simp add: md_convert_frag_def md_convert_frag_branch_def convert_done_def converted_def branch_fix_def)
  next
    case 2
    obtain lit where lit: "bfd_putl16 ((w XOR (MATCH_C_BEQZ XOR MATCH_C_BNEZ)) OR ENCODE_CBTYPE_IMM 6)
        (fr_fix f) (fr_literal f) = Some lit"
      using put_le_some [of "fr_fix f" 2 "fr_literal f"] room by fastforce
    obtain gx where gx: "convert_jump (f\<lparr>fr_literal := lit\<rparr>) (fr_fix f + 2) = Some gx"
        "converted (f\<lparr>fr_literal := lit\<rparr>) (fr_var f) gx"
      using convert_jump_converted [of "f\<lparr>fr_literal := lit\<rparr>" "fr_fix f + 2"] 2 room put_le_length [OF lit] by auto
    have "md_convert_frag f = Some gx"
      using True p assms(2) 2 w(1) lit gx(1) by (simp add: md_convert_frag_def md_convert_frag_branch_def)
    with converted_literal [OF lit _ gx(2)] show ?thesis by simp
  next
    case 3
    obtain w' where w': "expand_rvc_branch w = Some w'" using w(2) expand_defined by (metis (full_types))
    obtain lit where lit: "bfd_putl32 w' (fr_fix f) (fr_literal f) = Some lit"
      using put_le_some [of "fr_fix f" 4 "fr_literal f"] room by fastforce
    obtain gx where gx: "convert_full (f\<lparr>fr_literal := lit\<rparr>) = Some gx" "converted (f\<lparr>fr_literal := lit\<rparr>) (fr_var f) gx"
      using convert_full_converted [of "f\<lparr>fr_literal := lit\<rparr>"] 3 assms(2,3) room put_le_length [OF lit]
      by (auto split: if_splits)
    have "md_convert_frag f = Some gx"
      using True p assms(2) 3 w(1) w' lit gx(1) by (auto simp: md_convert_frag_def md_convert_frag_branch_def)
    with converted_literal [OF lit _ gx(2)] show ?thesis by simp
  qed
qed

text \<open>
  Whatever the distance to the symbol is, a branch fragment that has been relaxed is converted
  without a failed assertion, an abort or an access outside its bytes: the fragment grows by exactly the
  chosen length, which is 2, 4, 6 or 8, the bytes around the eight reserved ones are untouched, and the
  one fixup names the target and ends where the code ends.
\<close>

theorem relaxed_branch_converts:
  assumes "branch_frag f" "riscv_relax_frag sec f = (growth, f1)"
  shows "\<exists>g x. md_convert_frag f1 = Some (g, x) \<and> fr_var f1 \<in> {2, 4, 6, 8} \<and>
           int (fr_var f1) = int (fr_var f) + growth \<and> fr_fix g = fr_fix f + fr_var f1 \<and>
           length (fr_literal g) = length (fr_literal f) \<and>
           take (fr_fix f) (fr_literal g) = take (fr_fix f) (fr_literal f) \<and>
           drop (fr_fix f + 8) (fr_literal g) = drop (fr_fix f + 8) (fr_literal f) \<and>
           fx_addsy x = fr_symbol f \<and> fx_offset x = fr_offset f \<and>
           fr_fix f \<le> fx_where x \<and> fx_where x + fx_size x = fr_fix g"
proof -
  define j r len where "j = RELAX_BRANCH_UNCOND (fr_subtype f)" and "r = RELAX_BRANCH_RVC (fr_subtype f)"
    and "len = branch_length j r sec f"
  have p: "RELAX_BRANCH_P (fr_subtype f)" using assms(1) by (simp add: branch_frag_def)
  then have f1: "f1 = f\<lparr>fr_subtype := RELAX_BRANCH_ENCODE j r len, fr_var := len\<rparr>"
      "growth = int len - int (fr_var f)"
    using assms(2) by (auto simp: riscv_relax_frag_def relaxed_branch_length_def Let_def j_def r_def len_def)
  have lc: "len \<in> (if j then {2, 4} else {2, 4, 6, 8})" "\<not> r \<Longrightarrow> len \<in> {4, 8}"
    unfolding len_def by (rule branch_length_cases(1), rule branch_length_cases(2))
  have len: "len \<in> {2, 4, 6, 8}" using branch_length_cases(1) [of j r sec f] by (auto simp: len_def split: if_splits)
  note st = relax_state [OF len]
  have "branch_frag f1"
    using assms(1) unfolding branch_frag_def j_def [symmetric] r_def [symmetric] f1(1) by (simp add: st)
  moreover have "fr_var f1 = RELAX_BRANCH_LENGTH (fr_subtype f1)"
    and "fr_var f1 \<in> (if RELAX_BRANCH_UNCOND (fr_subtype f1) then {2, 4} else {2, 4, 6, 8})"
    and "\<not> RELAX_BRANCH_RVC (fr_subtype f1) \<Longrightarrow> fr_var f1 \<in> {4, 8}"
    using lc by (simp_all add: f1 st)
  ultimately obtain gx where gx: "md_convert_frag f1 = Some gx" "converted f1 (fr_var f1) gx"
    using convert_branch_converted [of f1] by blast
  then show ?thesis
    using len f1 by (cases gx) (auto simp: converted_def)
qed

definition test_frag :: fragS where
  "test_frag = \<lparr>fr_address = 0, fr_fix = 0, fr_var = 8, fr_subtype = RELAX_BRANCH_ENCODE False True 8,
     fr_symbol = None, fr_offset = 0, fr_literal = [0x01, 0xc0, 0, 0, 0, 0, 0, 0]\<rparr>"

lemma relaxed_branch_converts_witness:
  "\<exists>g x. md_convert_frag (snd (riscv_relax_frag \<lparr>sec_index = 0, sec_name = ''.text''\<rparr> test_frag)) = Some (g, x) \<and>
     fr_fix g = 8 \<and> fx_where x + fx_size x = 8"
proof -
  let ?sec = "\<lparr>sec_index = 0, sec_name = ''.text''\<rparr>"
  note st = relax_state [of 8, simplified]
  have "bfd_getl16 0 [0x01, 0xc0, 0, 0, 0, 0, 0, 0] = Some 0xc001" by (simp add: get_le_def shl_def)
  then have b: "branch_frag test_frag" by (simp add: branch_frag_def test_frag_def st rvc_branch_def)
  have r: "riscv_relax_frag ?sec test_frag = (0, test_frag)"
    by (simp add: riscv_relax_frag_def relaxed_branch_length_def branch_length_def test_frag_def st)
  show ?thesis using relaxed_branch_converts [OF b r] by (auto simp: r) (simp_all add: test_frag_def)
qed

section \<open>The shortest form that reaches\<close>

lemma reach_iff:
  assumes "c \<in> {256, 2048, 4096 :: int}"
  shows "x + word_of_int c < (word_of_int (2 * c) :: 64 word) \<longleftrightarrow> - c \<le> sint x \<and> sint x < c"
proof -
  have b: "- (2 ^ 63) \<le> sint x" "sint x < 2 ^ 63" using sint_ge [of x] sint_lt [of x] by simp_all
  have "x + word_of_int c = word_of_int (sint x + c)" by simp
  then have u: "uint (x + word_of_int c) = (sint x + c) mod 2 ^ 64"
    by (simp only: uint_word_of_int) simp
  have v: "(sint x + c) mod 2 ^ 64 = (if sint x + c < 0 then sint x + c + 2 ^ 64 else sint x + c)"
  proof (cases "sint x + c < 0")
    case True
    have "(sint x + c) mod 2 ^ 64 = (sint x + c + 2 ^ 64) mod 2 ^ 64" by simp
    also have "\<dots> = sint x + c + 2 ^ 64" using True b assms by (intro mod_pos_pos_trivial) auto
    finally show ?thesis using True by simp
  next
    case False
    then show ?thesis using b assms by (simp, intro mod_pos_pos_trivial) auto
  qed
  have "uint (word_of_int (2 * c) :: 64 word) = 2 * c" using assms by auto
  then show ?thesis
    using u v assms b unfolding word_less_alt by auto
qed

lemma branch_reach:
  assumes "even (sint d)"
  shows "d + RISCV_BRANCH_REACH div 2 < RISCV_BRANCH_REACH \<longleftrightarrow> VALID_BTYPE_IMM d"
    and "d + RVC_BRANCH_REACH div 2 < RVC_BRANCH_REACH \<longleftrightarrow> VALID_CBTYPE_IMM d"
    and "d + RVC_JUMP_REACH div 2 < RVC_JUMP_REACH \<longleftrightarrow> VALID_CJTYPE_IMM d"
  using assms reach_iff [of 4096 d] reach_iff [of 256 d] reach_iff [of 2048 d]
  by (simp_all add: valid_defs btype.valid_iff cbtype.valid_iff cjtype.valid_iff)

text \<open>
  C25. For a symbol that is defined, not weak and in the section of the branch, at an even distance
  \<open>d\<close> from the branch, the unsigned range test of the code picks the shortest form whose immediate
  field holds \<open>d\<close>: two bytes if the compressed form exists and holds it, four bytes if the B-type
  immediate holds it, else the four bytes of a \<open>jal\<close>, or the short branch over a \<open>jal\<close>.
\<close>

theorem branch_length_shortest:
  assumes "fr_symbol f = Some s" "sym_defined s" "\<not> sym_weak s" "sym_segment s = sec"
    and "d = sym_value s + fr_offset f - (fr_address f + of_nat (fr_fix f))" "even (sint d)"
  shows "branch_length jump rvc sec f =
    (if rvc \<and> (if jump then VALID_CJTYPE_IMM d else VALID_CBTYPE_IMM d) then 2
     else if jump \<or> VALID_BTYPE_IMM d then 4
     else if rvc then 6 else 8)"
  using assms(1-4) branch_reach [OF assms(6)]
  by (simp add: branch_length_def Let_def flip: assms(5))

definition test_symbol :: symbolS where
  "test_symbol = \<lparr>sym_defined = True, sym_weak = False, sym_local = True,
     sym_segment = \<lparr>sec_index = 0, sec_name = ''.text''\<rparr>, sym_value = 5000\<rparr>"

lemma branch_length_shortest_witness:
  "branch_length False True (sym_segment test_symbol) (test_frag\<lparr>fr_symbol := Some test_symbol\<rparr>) = 6 \<and>
   branch_length True True (sym_segment test_symbol) (test_frag\<lparr>fr_symbol := Some test_symbol\<rparr>) = 4"
proof -
  let ?f = "test_frag\<lparr>fr_symbol := Some test_symbol\<rparr>"
  have v: "sint (5000 :: 64 word) = 5000" by simp
  have d: "(5000 :: 64 word) = sym_value test_symbol + fr_offset ?f - (fr_address ?f + of_nat (fr_fix ?f))"
    by (simp add: test_symbol_def test_frag_def)
  have s: "fr_symbol ?f = Some test_symbol" "sym_defined test_symbol" "\<not> sym_weak test_symbol"
    by (simp_all add: test_symbol_def)
  show ?thesis
    by (subst (1 2) branch_length_shortest [OF s refl d])
      (simp_all add: valid_defs btype.valid_iff cbtype.valid_iff cjtype.valid_iff v)
qed

end
