(* ===== verification/RV_Reloc.thy ===== *)
theory RV_Reloc
  imports RV_Branch
begin

text \<open>
  The relocation table of \<open>bfd/elfxx-riscv.c\<close>: the rows of \<open>howto_table\<close> and \<open>howto_table_internal\<close>, the
  map from the codes of the assembler to the relocation numbers of the object file, the look-up
  functions, and the special functions of the table.

  A row is a record with the fields of \<open>reloc_howto_type\<close> in the order of the \<open>HOWTO\<close> macro; the masks
  are the immediate fields of the instruction formats, written with the macros of
  \<open>include/opcode/riscv.h\<close> as in the source.
\<close>

section \<open>Relocation numbers\<close>

text \<open>
  The numbers of \<open>include/elf/riscv.h\<close>; the relocations the linker creates for itself have numbers from
  \<open>R_RISCV_max\<close> on.
\<close>

abbreviation (input) R_RISCV_NONE :: nat where "R_RISCV_NONE \<equiv> 0"
abbreviation (input) R_RISCV_32 :: nat where "R_RISCV_32 \<equiv> 1"
abbreviation (input) R_RISCV_64 :: nat where "R_RISCV_64 \<equiv> 2"
abbreviation (input) R_RISCV_RELATIVE :: nat where "R_RISCV_RELATIVE \<equiv> 3"
abbreviation (input) R_RISCV_COPY :: nat where "R_RISCV_COPY \<equiv> 4"
abbreviation (input) R_RISCV_JUMP_SLOT :: nat where "R_RISCV_JUMP_SLOT \<equiv> 5"
abbreviation (input) R_RISCV_TLS_DTPMOD32 :: nat where "R_RISCV_TLS_DTPMOD32 \<equiv> 6"
abbreviation (input) R_RISCV_TLS_DTPMOD64 :: nat where "R_RISCV_TLS_DTPMOD64 \<equiv> 7"
abbreviation (input) R_RISCV_TLS_DTPREL32 :: nat where "R_RISCV_TLS_DTPREL32 \<equiv> 8"
abbreviation (input) R_RISCV_TLS_DTPREL64 :: nat where "R_RISCV_TLS_DTPREL64 \<equiv> 9"
abbreviation (input) R_RISCV_TLS_TPREL32 :: nat where "R_RISCV_TLS_TPREL32 \<equiv> 10"
abbreviation (input) R_RISCV_TLS_TPREL64 :: nat where "R_RISCV_TLS_TPREL64 \<equiv> 11"
abbreviation (input) R_RISCV_BRANCH :: nat where "R_RISCV_BRANCH \<equiv> 16"
abbreviation (input) R_RISCV_JAL :: nat where "R_RISCV_JAL \<equiv> 17"
abbreviation (input) R_RISCV_CALL :: nat where "R_RISCV_CALL \<equiv> 18"
abbreviation (input) R_RISCV_CALL_PLT :: nat where "R_RISCV_CALL_PLT \<equiv> 19"
abbreviation (input) R_RISCV_GOT_HI20 :: nat where "R_RISCV_GOT_HI20 \<equiv> 20"
abbreviation (input) R_RISCV_TLS_GOT_HI20 :: nat where "R_RISCV_TLS_GOT_HI20 \<equiv> 21"
abbreviation (input) R_RISCV_TLS_GD_HI20 :: nat where "R_RISCV_TLS_GD_HI20 \<equiv> 22"
abbreviation (input) R_RISCV_PCREL_HI20 :: nat where "R_RISCV_PCREL_HI20 \<equiv> 23"
abbreviation (input) R_RISCV_PCREL_LO12_I :: nat where "R_RISCV_PCREL_LO12_I \<equiv> 24"
abbreviation (input) R_RISCV_PCREL_LO12_S :: nat where "R_RISCV_PCREL_LO12_S \<equiv> 25"
abbreviation (input) R_RISCV_HI20 :: nat where "R_RISCV_HI20 \<equiv> 26"
abbreviation (input) R_RISCV_LO12_I :: nat where "R_RISCV_LO12_I \<equiv> 27"
abbreviation (input) R_RISCV_LO12_S :: nat where "R_RISCV_LO12_S \<equiv> 28"
abbreviation (input) R_RISCV_TPREL_HI20 :: nat where "R_RISCV_TPREL_HI20 \<equiv> 29"
abbreviation (input) R_RISCV_TPREL_LO12_I :: nat where "R_RISCV_TPREL_LO12_I \<equiv> 30"
abbreviation (input) R_RISCV_TPREL_LO12_S :: nat where "R_RISCV_TPREL_LO12_S \<equiv> 31"
abbreviation (input) R_RISCV_TPREL_ADD :: nat where "R_RISCV_TPREL_ADD \<equiv> 32"
abbreviation (input) R_RISCV_ADD8 :: nat where "R_RISCV_ADD8 \<equiv> 33"
abbreviation (input) R_RISCV_ADD16 :: nat where "R_RISCV_ADD16 \<equiv> 34"
abbreviation (input) R_RISCV_ADD32 :: nat where "R_RISCV_ADD32 \<equiv> 35"
abbreviation (input) R_RISCV_ADD64 :: nat where "R_RISCV_ADD64 \<equiv> 36"
abbreviation (input) R_RISCV_SUB8 :: nat where "R_RISCV_SUB8 \<equiv> 37"
abbreviation (input) R_RISCV_SUB16 :: nat where "R_RISCV_SUB16 \<equiv> 38"
abbreviation (input) R_RISCV_SUB32 :: nat where "R_RISCV_SUB32 \<equiv> 39"
abbreviation (input) R_RISCV_SUB64 :: nat where "R_RISCV_SUB64 \<equiv> 40"
abbreviation (input) R_RISCV_ALIGN :: nat where "R_RISCV_ALIGN \<equiv> 43"
abbreviation (input) R_RISCV_RVC_BRANCH :: nat where "R_RISCV_RVC_BRANCH \<equiv> 44"
abbreviation (input) R_RISCV_RVC_JUMP :: nat where "R_RISCV_RVC_JUMP \<equiv> 45"
abbreviation (input) R_RISCV_RELAX :: nat where "R_RISCV_RELAX \<equiv> 51"
abbreviation (input) R_RISCV_SUB6 :: nat where "R_RISCV_SUB6 \<equiv> 52"
abbreviation (input) R_RISCV_SET6 :: nat where "R_RISCV_SET6 \<equiv> 53"
abbreviation (input) R_RISCV_SET8 :: nat where "R_RISCV_SET8 \<equiv> 54"
abbreviation (input) R_RISCV_SET16 :: nat where "R_RISCV_SET16 \<equiv> 55"
abbreviation (input) R_RISCV_SET32 :: nat where "R_RISCV_SET32 \<equiv> 56"
abbreviation (input) R_RISCV_32_PCREL :: nat where "R_RISCV_32_PCREL \<equiv> 57"
abbreviation (input) R_RISCV_IRELATIVE :: nat where "R_RISCV_IRELATIVE \<equiv> 58"
abbreviation (input) R_RISCV_SET_ULEB128 :: nat where "R_RISCV_SET_ULEB128 \<equiv> 60"
abbreviation (input) R_RISCV_SUB_ULEB128 :: nat where "R_RISCV_SUB_ULEB128 \<equiv> 61"
abbreviation (input) R_RISCV_DELETE :: nat where "R_RISCV_DELETE \<equiv> 62"
abbreviation (input) R_RISCV_RVC_LUI :: nat where "R_RISCV_RVC_LUI \<equiv> 63"
abbreviation (input) R_RISCV_GPREL_I :: nat where "R_RISCV_GPREL_I \<equiv> 64"
abbreviation (input) R_RISCV_GPREL_S :: nat where "R_RISCV_GPREL_S \<equiv> 65"
abbreviation (input) R_RISCV_TPREL_I :: nat where "R_RISCV_TPREL_I \<equiv> 66"
abbreviation (input) R_RISCV_TPREL_S :: nat where "R_RISCV_TPREL_S \<equiv> 67"
abbreviation (input) R_RISCV_max :: nat where "R_RISCV_max \<equiv> 62"

section \<open>Rows\<close>

datatype complain_overflow = complain_overflow_dont | complain_overflow_bitfield | complain_overflow_signed

datatype reloc_function = generic_reloc | add_sub_reloc | ignore_reloc

record reloc_howto =
  ho_type :: nat
  ho_rightshift :: nat
  ho_size :: nat
  ho_bitsize :: nat
  ho_pc_relative :: bool
  ho_bitpos :: nat
  ho_complain_on_overflow :: complain_overflow
  ho_special_function :: "reloc_function option"
  ho_name :: "string option"
  ho_partial_inplace :: bool
  ho_src_mask :: bfd_vma
  ho_dst_mask :: bfd_vma
  ho_pcrel_offset :: bool

definition HOWTO ::
    "nat \<Rightarrow> nat \<Rightarrow> nat \<Rightarrow> nat \<Rightarrow> bool \<Rightarrow> nat \<Rightarrow> complain_overflow \<Rightarrow> reloc_function \<Rightarrow> string \<Rightarrow> bool \<Rightarrow>
     bfd_vma \<Rightarrow> bfd_vma \<Rightarrow> bool \<Rightarrow> reloc_howto" where
  "HOWTO type right sz bits pcrel left ovf func name inplace src_mask dst_mask pcrel_off =
     \<lparr>ho_type = type, ho_rightshift = right, ho_size = sz, ho_bitsize = bits, ho_pc_relative = pcrel,
      ho_bitpos = left, ho_complain_on_overflow = ovf, ho_special_function = Some func,
      ho_name = Some name, ho_partial_inplace = inplace, ho_src_mask = src_mask, ho_dst_mask = dst_mask,
      ho_pcrel_offset = pcrel_off\<rparr>"

definition EMPTY_HOWTO :: "nat \<Rightarrow> reloc_howto" where
  "EMPTY_HOWTO c =
     \<lparr>ho_type = c, ho_rightshift = 0, ho_size = 1, ho_bitsize = 0, ho_pc_relative = False, ho_bitpos = 0,
      ho_complain_on_overflow = complain_overflow_dont, ho_special_function = None, ho_name = None,
      ho_partial_inplace = False, ho_src_mask = 0, ho_dst_mask = 0, ho_pcrel_offset = False\<rparr>"

definition howto_table_1 :: "reloc_howto list" where
  "howto_table_1 =
    [HOWTO R_RISCV_NONE 0 0 0 False 0 complain_overflow_dont generic_reloc ''R_RISCV_NONE'' False 0
       0 False,
     HOWTO R_RISCV_32 0 4 32 False 0 complain_overflow_dont generic_reloc ''R_RISCV_32'' False 0
       0xffffffff False,
     HOWTO R_RISCV_64 0 8 64 False 0 complain_overflow_dont generic_reloc ''R_RISCV_64'' False 0 (-
       1) False,
     HOWTO R_RISCV_RELATIVE 0 4 32 False 0 complain_overflow_dont generic_reloc ''R_RISCV_RELATIVE''
       False 0 0xffffffff False,
     HOWTO R_RISCV_COPY 0 0 0 False 0 complain_overflow_bitfield generic_reloc ''R_RISCV_COPY''
       False 0 0 False,
     HOWTO R_RISCV_JUMP_SLOT 0 8 64 False 0 complain_overflow_bitfield generic_reloc
       ''R_RISCV_JUMP_SLOT'' False 0 0 False,
     HOWTO R_RISCV_TLS_DTPMOD32 0 4 32 False 0 complain_overflow_dont generic_reloc
       ''R_RISCV_TLS_DTPMOD32'' False 0 0xffffffff False,
     HOWTO R_RISCV_TLS_DTPMOD64 0 8 64 False 0 complain_overflow_dont generic_reloc
       ''R_RISCV_TLS_DTPMOD64'' False 0 (- 1) False,
     HOWTO R_RISCV_TLS_DTPREL32 0 4 32 False 0 complain_overflow_dont generic_reloc
       ''R_RISCV_TLS_DTPREL32'' True 0 0xffffffff False,
     HOWTO R_RISCV_TLS_DTPREL64 0 8 64 False 0 complain_overflow_dont generic_reloc
       ''R_RISCV_TLS_DTPREL64'' True 0 (- 1) False]"

definition howto_table_2 :: "reloc_howto list" where
  "howto_table_2 =
    [HOWTO R_RISCV_TLS_TPREL32 0 4 32 False 0 complain_overflow_dont generic_reloc
       ''R_RISCV_TLS_TPREL32'' False 0 0xffffffff False,
     HOWTO R_RISCV_TLS_TPREL64 0 8 64 False 0 complain_overflow_dont generic_reloc
       ''R_RISCV_TLS_TPREL64'' False 0 (- 1) False,
     EMPTY_HOWTO 12,
     EMPTY_HOWTO 13,
     EMPTY_HOWTO 14,
     EMPTY_HOWTO 15,
     HOWTO R_RISCV_BRANCH 0 4 32 True 0 complain_overflow_signed generic_reloc ''R_RISCV_BRANCH''
       False 0 (ENCODE_BTYPE_IMM 0xffffffff) True,
     HOWTO R_RISCV_JAL 0 4 32 True 0 complain_overflow_dont generic_reloc ''R_RISCV_JAL'' False 0
       (ENCODE_JTYPE_IMM 0xffffffff) True,
     HOWTO R_RISCV_CALL 0 8 64 True 0 complain_overflow_dont generic_reloc ''R_RISCV_CALL'' False 0
       (ENCODE_UTYPE_IMM 0xffffffff OR shl (ENCODE_ITYPE_IMM 0xffffffff) 32) True,
     HOWTO R_RISCV_CALL_PLT 0 8 64 True 0 complain_overflow_dont generic_reloc ''R_RISCV_CALL_PLT''
       False 0 (ENCODE_UTYPE_IMM 0xffffffff OR shl (ENCODE_ITYPE_IMM 0xffffffff) 32) True,
     HOWTO R_RISCV_GOT_HI20 0 4 32 True 0 complain_overflow_dont generic_reloc ''R_RISCV_GOT_HI20''
       False 0 (ENCODE_UTYPE_IMM 0xffffffff) False,
     HOWTO R_RISCV_TLS_GOT_HI20 0 4 32 True 0 complain_overflow_dont generic_reloc
       ''R_RISCV_TLS_GOT_HI20'' False 0 (ENCODE_UTYPE_IMM 0xffffffff) False,
     HOWTO R_RISCV_TLS_GD_HI20 0 4 32 True 0 complain_overflow_dont generic_reloc
       ''R_RISCV_TLS_GD_HI20'' False 0 (ENCODE_UTYPE_IMM 0xffffffff) False]"

definition howto_table_3 :: "reloc_howto list" where
  "howto_table_3 =
    [HOWTO R_RISCV_PCREL_HI20 0 4 32 True 0 complain_overflow_dont generic_reloc
       ''R_RISCV_PCREL_HI20'' False 0 (ENCODE_UTYPE_IMM 0xffffffff) True,
     HOWTO R_RISCV_PCREL_LO12_I 0 4 32 False 0 complain_overflow_dont generic_reloc
       ''R_RISCV_PCREL_LO12_I'' False 0 (ENCODE_ITYPE_IMM 0xffffffff) False,
     HOWTO R_RISCV_PCREL_LO12_S 0 4 32 False 0 complain_overflow_dont generic_reloc
       ''R_RISCV_PCREL_LO12_S'' False 0 (ENCODE_STYPE_IMM 0xffffffff) False,
     HOWTO R_RISCV_HI20 0 4 32 False 0 complain_overflow_dont generic_reloc ''R_RISCV_HI20'' False 0
       (ENCODE_UTYPE_IMM 0xffffffff) False,
     HOWTO R_RISCV_LO12_I 0 4 32 False 0 complain_overflow_dont generic_reloc ''R_RISCV_LO12_I''
       False 0 (ENCODE_ITYPE_IMM 0xffffffff) False,
     HOWTO R_RISCV_LO12_S 0 4 32 False 0 complain_overflow_dont generic_reloc ''R_RISCV_LO12_S''
       False 0 (ENCODE_STYPE_IMM 0xffffffff) False,
     HOWTO R_RISCV_TPREL_HI20 0 4 32 False 0 complain_overflow_signed generic_reloc
       ''R_RISCV_TPREL_HI20'' True 0 (ENCODE_UTYPE_IMM 0xffffffff) False,
     HOWTO R_RISCV_TPREL_LO12_I 0 4 32 False 0 complain_overflow_signed generic_reloc
       ''R_RISCV_TPREL_LO12_I'' False 0 (ENCODE_ITYPE_IMM 0xffffffff) False,
     HOWTO R_RISCV_TPREL_LO12_S 0 4 32 False 0 complain_overflow_signed generic_reloc
       ''R_RISCV_TPREL_LO12_S'' False 0 (ENCODE_STYPE_IMM 0xffffffff) False,
     HOWTO R_RISCV_TPREL_ADD 0 0 0 False 0 complain_overflow_dont generic_reloc
       ''R_RISCV_TPREL_ADD'' False 0 0 False]"

definition howto_table_4 :: "reloc_howto list" where
  "howto_table_4 =
    [HOWTO R_RISCV_ADD8 0 1 8 False 0 complain_overflow_dont add_sub_reloc ''R_RISCV_ADD8'' False 0
       0xff False,
     HOWTO R_RISCV_ADD16 0 2 16 False 0 complain_overflow_dont add_sub_reloc ''R_RISCV_ADD16'' False
       0 0xffff False,
     HOWTO R_RISCV_ADD32 0 4 32 False 0 complain_overflow_dont add_sub_reloc ''R_RISCV_ADD32'' False
       0 0xffffffff False,
     HOWTO R_RISCV_ADD64 0 8 64 False 0 complain_overflow_dont add_sub_reloc ''R_RISCV_ADD64'' False
       0 (- 1) False,
     HOWTO R_RISCV_SUB8 0 1 8 False 0 complain_overflow_dont add_sub_reloc ''R_RISCV_SUB8'' False 0
       0xff False,
     HOWTO R_RISCV_SUB16 0 2 16 False 0 complain_overflow_dont add_sub_reloc ''R_RISCV_SUB16'' False
       0 0xffff False,
     HOWTO R_RISCV_SUB32 0 4 32 False 0 complain_overflow_dont add_sub_reloc ''R_RISCV_SUB32'' False
       0 0xffffffff False,
     HOWTO R_RISCV_SUB64 0 8 64 False 0 complain_overflow_dont add_sub_reloc ''R_RISCV_SUB64'' False
       0 (- 1) False,
     EMPTY_HOWTO 41,
     EMPTY_HOWTO 42,
     HOWTO R_RISCV_ALIGN 0 0 0 False 0 complain_overflow_dont generic_reloc ''R_RISCV_ALIGN'' False
       0 0 False]"

definition howto_table_5 :: "reloc_howto list" where
  "howto_table_5 =
    [HOWTO R_RISCV_RVC_BRANCH 0 2 16 True 0 complain_overflow_signed generic_reloc
       ''R_RISCV_RVC_BRANCH'' False 0 (ENCODE_CBTYPE_IMM 0xffffffff) True,
     HOWTO R_RISCV_RVC_JUMP 0 2 16 True 0 complain_overflow_dont generic_reloc ''R_RISCV_RVC_JUMP''
       False 0 (ENCODE_CJTYPE_IMM 0xffffffff) True,
     EMPTY_HOWTO 46,
     EMPTY_HOWTO 47,
     EMPTY_HOWTO 48,
     EMPTY_HOWTO 49,
     EMPTY_HOWTO 50,
     HOWTO R_RISCV_RELAX 0 0 0 False 0 complain_overflow_dont generic_reloc ''R_RISCV_RELAX'' False
       0 0 False,
     HOWTO R_RISCV_SUB6 0 1 8 False 0 complain_overflow_dont add_sub_reloc ''R_RISCV_SUB6'' False 0
       0x3f False,
     HOWTO R_RISCV_SET6 0 1 8 False 0 complain_overflow_dont generic_reloc ''R_RISCV_SET6'' False 0
       0x3f False,
     HOWTO R_RISCV_SET8 0 1 8 False 0 complain_overflow_dont generic_reloc ''R_RISCV_SET8'' False 0
       0xff False,
     HOWTO R_RISCV_SET16 0 2 16 False 0 complain_overflow_dont generic_reloc ''R_RISCV_SET16'' False
       0 0xffff False,
     HOWTO R_RISCV_SET32 0 4 32 False 0 complain_overflow_dont generic_reloc ''R_RISCV_SET32'' False
       0 0xffffffff False,
     HOWTO R_RISCV_32_PCREL 0 4 32 True 0 complain_overflow_dont generic_reloc ''R_RISCV_32_PCREL''
       False 0 0xffffffff False]"

definition howto_table_6 :: "reloc_howto list" where
  "howto_table_6 =
    [HOWTO R_RISCV_IRELATIVE 0 4 32 False 0 complain_overflow_dont generic_reloc
       ''R_RISCV_IRELATIVE'' False 0 0xffffffff False,
     EMPTY_HOWTO 59,
     HOWTO R_RISCV_SET_ULEB128 0 0 0 False 0 complain_overflow_dont ignore_reloc
       ''R_RISCV_SET_ULEB128'' False 0 0 False,
     HOWTO R_RISCV_SUB_ULEB128 0 0 0 False 0 complain_overflow_dont ignore_reloc
       ''R_RISCV_SUB_ULEB128'' False 0 0 False]"

definition howto_table :: "reloc_howto list" where
  "howto_table = howto_table_1 @ howto_table_2 @ howto_table_3 @ howto_table_4 @ howto_table_5 @ howto_table_6"

definition howto_table_internal :: "reloc_howto list" where
  "howto_table_internal =
    [EMPTY_HOWTO 0,
     HOWTO R_RISCV_RVC_LUI 0 2 16 False 0 complain_overflow_dont generic_reloc ''R_RISCV_RVC_LUI''
       False 0 (ENCODE_CITYPE_IMM 0xffffffff) False,
     HOWTO R_RISCV_GPREL_I 0 4 32 False 0 complain_overflow_dont generic_reloc ''R_RISCV_GPREL_I''
       False 0 (ENCODE_ITYPE_IMM 0xffffffff) False,
     HOWTO R_RISCV_GPREL_S 0 4 32 False 0 complain_overflow_dont generic_reloc ''R_RISCV_GPREL_S''
       False 0 (ENCODE_STYPE_IMM 0xffffffff) False,
     HOWTO R_RISCV_TPREL_I 0 4 32 False 0 complain_overflow_signed generic_reloc ''R_RISCV_TPREL_I''
       False 0 (ENCODE_ITYPE_IMM 0xffffffff) False,
     HOWTO R_RISCV_TPREL_S 0 4 32 False 0 complain_overflow_signed generic_reloc ''R_RISCV_TPREL_S''
       False 0 (ENCODE_STYPE_IMM 0xffffffff) False]"

definition riscv_reloc_map :: "(bfd_reloc_code_real \<times> nat) list" where
  "riscv_reloc_map =
    [(BFD_RELOC_NONE, R_RISCV_NONE),
     (BFD_RELOC_32, R_RISCV_32),
     (BFD_RELOC_64, R_RISCV_64),
     (BFD_RELOC_RISCV_ADD8, R_RISCV_ADD8),
     (BFD_RELOC_RISCV_ADD16, R_RISCV_ADD16),
     (BFD_RELOC_RISCV_ADD32, R_RISCV_ADD32),
     (BFD_RELOC_RISCV_ADD64, R_RISCV_ADD64),
     (BFD_RELOC_RISCV_SUB8, R_RISCV_SUB8),
     (BFD_RELOC_RISCV_SUB16, R_RISCV_SUB16),
     (BFD_RELOC_RISCV_SUB32, R_RISCV_SUB32),
     (BFD_RELOC_RISCV_SUB64, R_RISCV_SUB64),
     (BFD_RELOC_CTOR, R_RISCV_64),
     (BFD_RELOC_12_PCREL, R_RISCV_BRANCH),
     (BFD_RELOC_RISCV_HI20, R_RISCV_HI20),
     (BFD_RELOC_RISCV_LO12_I, R_RISCV_LO12_I),
     (BFD_RELOC_RISCV_LO12_S, R_RISCV_LO12_S),
     (BFD_RELOC_RISCV_PCREL_LO12_I, R_RISCV_PCREL_LO12_I),
     (BFD_RELOC_RISCV_PCREL_LO12_S, R_RISCV_PCREL_LO12_S),
     (BFD_RELOC_RISCV_CALL, R_RISCV_CALL),
     (BFD_RELOC_RISCV_CALL_PLT, R_RISCV_CALL_PLT),
     (BFD_RELOC_RISCV_PCREL_HI20, R_RISCV_PCREL_HI20),
     (BFD_RELOC_RISCV_JMP, R_RISCV_JAL),
     (BFD_RELOC_RISCV_GOT_HI20, R_RISCV_GOT_HI20),
     (BFD_RELOC_RISCV_TLS_DTPMOD32, R_RISCV_TLS_DTPMOD32),
     (BFD_RELOC_RISCV_TLS_DTPREL32, R_RISCV_TLS_DTPREL32),
     (BFD_RELOC_RISCV_TLS_DTPMOD64, R_RISCV_TLS_DTPMOD64),
     (BFD_RELOC_RISCV_TLS_DTPREL64, R_RISCV_TLS_DTPREL64),
     (BFD_RELOC_RISCV_TLS_TPREL32, R_RISCV_TLS_TPREL32),
     (BFD_RELOC_RISCV_TLS_TPREL64, R_RISCV_TLS_TPREL64),
     (BFD_RELOC_RISCV_TPREL_HI20, R_RISCV_TPREL_HI20),
     (BFD_RELOC_RISCV_TPREL_ADD, R_RISCV_TPREL_ADD),
     (BFD_RELOC_RISCV_TPREL_LO12_S, R_RISCV_TPREL_LO12_S),
     (BFD_RELOC_RISCV_TPREL_LO12_I, R_RISCV_TPREL_LO12_I),
     (BFD_RELOC_RISCV_TLS_GOT_HI20, R_RISCV_TLS_GOT_HI20),
     (BFD_RELOC_RISCV_TLS_GD_HI20, R_RISCV_TLS_GD_HI20),
     (BFD_RELOC_RISCV_ALIGN, R_RISCV_ALIGN),
     (BFD_RELOC_RISCV_RVC_BRANCH, R_RISCV_RVC_BRANCH),
     (BFD_RELOC_RISCV_RVC_JUMP, R_RISCV_RVC_JUMP),
     (BFD_RELOC_RISCV_RELAX, R_RISCV_RELAX),
     (BFD_RELOC_RISCV_SUB6, R_RISCV_SUB6),
     (BFD_RELOC_RISCV_SET6, R_RISCV_SET6),
     (BFD_RELOC_RISCV_SET8, R_RISCV_SET8),
     (BFD_RELOC_RISCV_SET16, R_RISCV_SET16),
     (BFD_RELOC_RISCV_SET32, R_RISCV_SET32),
     (BFD_RELOC_RISCV_32_PCREL, R_RISCV_32_PCREL),
     (BFD_RELOC_RISCV_SET_ULEB128, R_RISCV_SET_ULEB128),
     (BFD_RELOC_RISCV_SUB_ULEB128, R_RISCV_SUB_ULEB128)]"

section \<open>Look-up\<close>

text \<open>\<open>None\<close> is the null pointer (and \<open>bfd_error_bad_value\<close>).\<close>

definition riscv_reloc_type_lookup :: "bfd_reloc_code_real \<Rightarrow> reloc_howto option" where
  "riscv_reloc_type_lookup code =
     map_option (\<lambda>(_, elf_val). howto_table ! elf_val) (find (\<lambda>(bfd_val, _). bfd_val = code) riscv_reloc_map)"

text \<open>\<open>strcasecmp\<close> compares the ASCII letters without their case.\<close>

definition tolower :: "char \<Rightarrow> char" where
  "tolower c = (let n = of_char c :: nat in if 65 \<le> n \<and> n \<le> 90 then char_of (n + 32) else c)"

definition strcasecmp_eq :: "string \<Rightarrow> string \<Rightarrow> bool" where
  "strcasecmp_eq s t \<longleftrightarrow> map tolower s = map tolower t"

definition riscv_reloc_name_lookup :: "string \<Rightarrow> reloc_howto option" where
  "riscv_reloc_name_lookup r_name =
     find (\<lambda>h. case ho_name h of None \<Rightarrow> False | Some n \<Rightarrow> strcasecmp_eq n r_name) howto_table"

definition riscv_elf_rtype_to_howto :: "nat \<Rightarrow> reloc_howto option" where
  "riscv_elf_rtype_to_howto r_type =
     (if r_type < length howto_table then Some (howto_table ! r_type)
      else if r_type < R_RISCV_max + length howto_table_internal
      then Some (howto_table_internal ! (r_type - R_RISCV_max))
      else None)"

section \<open>The special functions\<close>

datatype bfd_reloc_status =
    bfd_reloc_ok | bfd_reloc_overflow | bfd_reloc_outofrange | bfd_reloc_continue
  | bfd_reloc_notsupported | bfd_reloc_dangerous

text \<open>
  What the special functions read of a symbol and its section, and of the relocation entry.  A byte has
  one octet on this target.
\<close>

record reloc_symbol =
  rs_section_sym :: bool
  rs_value :: bfd_vma
  rs_section_address :: bfd_vma

record arelent =
  re_address :: bfd_vma
  re_addend :: bfd_vma
  re_howto :: reloc_howto

definition bfd_get_reloc_size :: "reloc_howto \<Rightarrow> nat" where
  "bfd_get_reloc_size howto = ho_size howto"

definition bfd_reloc_offset_in_range :: "reloc_howto \<Rightarrow> nat \<Rightarrow> bfd_vma \<Rightarrow> bool" where
  "bfd_reloc_offset_in_range howto octet_end octet \<longleftrightarrow>
     unat octet \<le> octet_end \<and> bfd_get_reloc_size howto \<le> octet_end - unat octet"

text \<open>Little-endian data; \<open>None\<close> is \<open>abort\<close> or an access outside the contents.\<close>

definition bfd_get :: "nat \<Rightarrow> nat \<Rightarrow> bfd_byte list \<Rightarrow> 64 word option" where
  "bfd_get bits i data = (if bits \<in> {8, 16, 32, 64} then get_le (bits div 8) i data else None)"

definition bfd_put :: "nat \<Rightarrow> 64 word \<Rightarrow> nat \<Rightarrow> bfd_byte list \<Rightarrow> bfd_byte list option" where
  "bfd_put bits val i data = (if bits \<in> {8, 16, 32, 64} then put_le (bits div 8) val i data else None)"

text \<open>The combination of the old contents with the value; \<open>relocate_section\<close> has the same cases.\<close>

definition add_sub_value :: "reloc_howto \<Rightarrow> 64 word \<Rightarrow> 64 word \<Rightarrow> 64 word" where
  "add_sub_value howto old_value relocation =
     (if ho_type howto \<in> {R_RISCV_ADD8, R_RISCV_ADD16, R_RISCV_ADD32, R_RISCV_ADD64}
      then old_value + relocation
      else if ho_type howto = R_RISCV_SUB6
      then (old_value AND NOT (ho_dst_mask howto)) OR
           (((old_value AND ho_dst_mask howto) - relocation) AND ho_dst_mask howto)
      else if ho_type howto \<in> {R_RISCV_SUB8, R_RISCV_SUB16, R_RISCV_SUB32, R_RISCV_SUB64}
      then old_value - relocation
      else relocation)"

text \<open>
  \<open>output\<close> says that the output is relocatable (\<open>output_bfd\<close> is not null), \<open>offset\<close> is the output offset
  of the input section.
\<close>

definition riscv_elf_add_sub_reloc ::
    "bool \<Rightarrow> bfd_vma \<Rightarrow> reloc_symbol \<Rightarrow> arelent \<times> bfd_byte list \<Rightarrow>
     (bfd_reloc_status \<times> arelent \<times> bfd_byte list) option" where
  "riscv_elf_add_sub_reloc output offset symbol st =
     (case st of (entry, data) \<Rightarrow>
        (let howto = re_howto entry
         in if output \<and> \<not> rs_section_sym symbol \<and> (\<not> ho_partial_inplace howto \<or> re_addend entry = 0)
            then Some (bfd_reloc_ok, entry\<lparr>re_address := re_address entry + offset\<rparr>, data)
            else if output then Some (bfd_reloc_continue, entry, data)
            else
              (let relocation = rs_value symbol + rs_section_address symbol + re_addend entry;
                   octets = re_address entry
               in if \<not> bfd_reloc_offset_in_range howto (length data) octets
                  then Some (bfd_reloc_outofrange, entry, data)
                  else do {
                    old_value \<leftarrow> bfd_get (ho_bitsize howto) (unat octets) data;
                    data' \<leftarrow> bfd_put (ho_bitsize howto) (add_sub_value howto old_value relocation) (unat octets) data;
                    Some (bfd_reloc_ok, entry, data')
                  })))"

definition riscv_elf_ignore_reloc ::
    "bool \<Rightarrow> bfd_vma \<Rightarrow> arelent \<Rightarrow> bfd_reloc_status \<times> arelent" where
  "riscv_elf_ignore_reloc output offset entry =
     (bfd_reloc_ok, if output then entry\<lparr>re_address := re_address entry + offset\<rparr> else entry)"

section \<open>The rows are consistent\<close>

definition row_ok :: "nat \<Rightarrow> reloc_howto \<Rightarrow> bool" where
  "row_ok r h \<longleftrightarrow>
     (case ho_name h of
        None \<Rightarrow> ho_special_function h = None \<and> ho_bitsize h = 0 \<and> ho_dst_mask h = 0
      | Some n \<Rightarrow>
          ho_type h = r \<and> ho_bitsize h = 8 * ho_size h \<and> ho_bitsize h \<in> {0, 8, 16, 32, 64} \<and>
          take_bit (ho_bitsize h) (ho_dst_mask h) = ho_dst_mask h \<and>
          ho_src_mask h = 0 \<and> ho_rightshift h = 0 \<and> ho_bitpos h = 0)"

lemma howto_table_length: "length howto_table = 62"
  by (simp add: howto_table_def howto_table_1_def howto_table_2_def howto_table_3_def howto_table_4_def
      howto_table_5_def howto_table_6_def)

lemma howto_table_rows: "list_all (\<lambda>(r, h). row_ok r h) (enumerate 0 howto_table)"
  by code_simp

lemma howto_table_internal_rows: "list_all (\<lambda>(r, h). row_ok r h) (enumerate 62 howto_table_internal)"
  by code_simp

definition howto_names :: "string option list" where
  "howto_names = map ho_name howto_table"

lemmas howto_names_eq =
  howto_names_def [unfolded howto_table_def howto_table_1_def howto_table_2_def howto_table_3_def
    howto_table_4_def howto_table_5_def howto_table_6_def HOWTO_def EMPTY_HOWTO_def, simplified]

lemma reloc_map_rows: "list_all (\<lambda>(c, r). r < 62 \<and> howto_names ! r \<noteq> None) riscv_reloc_map"
  unfolding howto_names_eq riscv_reloc_map_def by simp

lemma reloc_map_distinct: "distinct (map fst riscv_reloc_map)"
  by (simp add: riscv_reloc_map_def)

lemma rtype_row_ok: "riscv_elf_rtype_to_howto r = Some h \<Longrightarrow> row_ok r h"
proof -
  assume *: "riscv_elf_rtype_to_howto r = Some h"
  have nth: "list_all (\<lambda>(r, h). row_ok r h) (enumerate n xs) \<Longrightarrow> i < length xs \<Longrightarrow> row_ok (n + i) (xs ! i)" for n xs i
    by (simp add: list_all_length nth_enumerate_eq)
  have len: "length howto_table_internal = 6" by (simp add: howto_table_internal_def)
  show ?thesis
  proof (cases "r < 62")
    case True
    then show ?thesis using * nth [OF howto_table_rows, of r] by (simp add: riscv_elf_rtype_to_howto_def howto_table_length)
  next
    case False
    then show ?thesis
      using * nth [OF howto_table_internal_rows, of "r - 62"] len
      by (auto simp: riscv_elf_rtype_to_howto_def howto_table_length split: if_splits)
  qed
qed

lemma reloc_type_lookup_row:
  assumes "riscv_reloc_type_lookup code = Some h"
  shows "\<exists>r. (code, r) \<in> set riscv_reloc_map \<and> riscv_elf_rtype_to_howto r = Some h \<and> ho_name h \<noteq> None"
proof -
  obtain c r where f: "find (\<lambda>(bfd_val, _). bfd_val = code) riscv_reloc_map = Some (c, r)" and h: "h = howto_table ! r"
    using assms by (auto simp: riscv_reloc_type_lookup_def)
  have "c = code \<and> (c, r) \<in> set riscv_reloc_map" using find_SomeD [OF f] by (elim conjE) simp
  then have cr: "c = code" "(code, r) \<in> set riscv_reloc_map" by blast+
  have "case (code, r) of (c, r) \<Rightarrow> r < 62 \<and> howto_names ! r \<noteq> None"
    using reloc_map_rows cr(2) unfolding list_all_iff by (rule bspec)
  then have "r < 62" "howto_names ! r \<noteq> None" by simp_all
  then have "riscv_elf_rtype_to_howto r = Some h" "ho_name h \<noteq> None"
    by (simp_all add: riscv_elf_rtype_to_howto_def howto_table_length howto_names_def h)
  with cr(2) show ?thesis by blast
qed



end
