(* ===== verification/RV_Link.thy ===== *)
theory RV_Link
  imports RV_Reloc
begin

text \<open>
  Emplacing a static relocation in the linker (\<open>perform_relocation\<close> of \<open>bfd/elfnn-riscv.c\<close>) and the LEB128
  accesses it uses (\<open>bfd/libbfd.c\<close>).

  The contents of the section are a list of bytes; \<open>None\<close> is \<open>abort\<close>, an access outside the contents or
  arithmetic on a null pointer.  \<open>ARCH_SIZE\<close> is an argument; the address of the input section
  (\<open>sec_addr\<close>) is a number.
\<close>

section \<open>Instructions and data\<close>

record elf_rela =
  r_offset :: bfd_vma
  r_type :: nat
  r_addend :: bfd_vma

definition riscv_get_insn :: "nat \<Rightarrow> nat \<Rightarrow> bfd_byte list \<Rightarrow> 64 word option" where
  "riscv_get_insn bits i data = (if bits \<in> {16, 32, 64} then get_le (bits div 8) i data else None)"

definition riscv_put_insn :: "nat \<Rightarrow> 64 word \<Rightarrow> nat \<Rightarrow> bfd_byte list \<Rightarrow> bfd_byte list option" where
  "riscv_put_insn bits val i data = (if bits \<in> {16, 32, 64} then put_le (bits div 8) val i data else None)"

definition riscv_is_insn_reloc :: "reloc_howto \<Rightarrow> bool" where
  "riscv_is_insn_reloc howto \<longleftrightarrow>
     ho_bitsize howto > 8 \<and> ho_dst_mask howto \<noteq> 0 \<and>
     NOT (ho_dst_mask howto OR (if ho_bitsize howto < 64 then shl (- 1) (ho_bitsize howto) else 0)) \<noteq> 0"

section \<open>LEB128\<close>

text \<open>The bytes from the one read on; the shift stops growing behind the last bit of the result.\<close>

fun read_uleb128_loop :: "bfd_byte list \<Rightarrow> nat \<Rightarrow> bfd_vma \<Rightarrow> nat \<Rightarrow> (bfd_vma \<times> nat) option" where
  "read_uleb128_loop [] shift result num_read = None"
| "read_uleb128_loop (b # bs) shift result num_read =
     (let result' = (if shift < 64 then result OR shl (ucast b AND 0x7f) shift else result);
          shift' = (if shift < 64 then shift + 7 else shift)
      in if b AND 0x80 \<noteq> 0 then read_uleb128_loop bs shift' result' (num_read + 1)
         else Some (result', num_read + 1))"

definition bfd_read_unsigned_leb128 :: "nat \<Rightarrow> bfd_byte list \<Rightarrow> (bfd_vma \<times> nat) option" where
  "bfd_read_unsigned_leb128 buf data = read_uleb128_loop (drop buf data) 0 0 0"

lemma drop_bit_7_less: "drop_bit 7 val \<noteq> 0 \<Longrightarrow> unat (drop_bit 7 val) < unat (val :: 'a::len word)"
proof -
  assume *: "drop_bit 7 val \<noteq> 0"
  have "unat (drop_bit 7 val) = unat val div 128" unfolding unat_drop_bit_eq by (simp add: drop_bit_eq_div)
  moreover have "0 < unat val" using * by (cases "val = 0") (auto simp: unat_gt_0)
  ultimately show ?thesis by simp
qed

text \<open>The result is the pointer behind the last byte, or \<open>None\<close> for the null pointer, and the contents.\<close>

function bfd_write_unsigned_leb128 ::
    "nat \<Rightarrow> nat \<Rightarrow> bfd_vma \<Rightarrow> bfd_byte list \<Rightarrow> nat option \<times> bfd_byte list" where
  "bfd_write_unsigned_leb128 p endp val data =
     (if p > endp then (None, data)
      else (let c = ucast (val AND 0x7f); val' = shr val 7; c' = (if val' \<noteq> 0 then c OR 0x80 else c);
                data' = data[p := c']
            in if val' \<noteq> 0 then bfd_write_unsigned_leb128 (p + 1) endp val' data' else (Some (p + 1), data')))"
  by pat_completeness auto
termination
  by (relation "measure (\<lambda>(p, endp, val, data). unat val)") (auto intro: drop_bit_7_less simp: shr_def)

declare bfd_write_unsigned_leb128.simps [simp del]

function uleb128_length :: "32 word \<Rightarrow> nat" where
  "uleb128_length val_t = (if drop_bit 7 val_t \<noteq> 0 then uleb128_length (drop_bit 7 val_t) + 1 else 1)"
  by pat_completeness auto
termination
  by (relation "measure unat") (auto intro: drop_bit_7_less simp: shr_def)

declare uleb128_length.simps [simp del]

definition sub_uleb128_reloc :: "nat \<Rightarrow> bfd_vma \<Rightarrow> bfd_byte list \<Rightarrow> (bfd_reloc_status \<times> bfd_byte list) option" where
  "sub_uleb128_reloc p value contents = do {
     (_, len) \<leftarrow> bfd_read_unsigned_leb128 p contents;
     let endp = p + len - 1;
     let contents = take p contents @ replicate (len - 1) 0x80 @ [0] @ drop (p + len) contents;
     (if uleb128_length (ucast value) > len then Some (bfd_reloc_dangerous, contents)
      else (case bfd_write_unsigned_leb128 p endp value contents of
              (None, _) \<Rightarrow> None
            | (Some q, contents) \<Rightarrow>
                Some (bfd_reloc_ok,
                  if q - 1 < endp then contents[q - 1 := (contents ! (q - 1)) OR 0x80] else contents)))
   }"

section \<open>Emplacing a relocation\<close>

text \<open>The outcome of the \<open>switch\<close>: a return, or the value to store and the contents.\<close>

datatype reloc_step = Return bfd_reloc_status "bfd_byte list" | Store bfd_vma "bfd_byte list"

abbreviation (input) MATCH_C_LUI :: insn_t where "MATCH_C_LUI \<equiv> 0x6001"
abbreviation (input) MATCH_C_LI :: insn_t where "MATCH_C_LI \<equiv> 0x4001"

definition reloc_switch ::
    "nat \<Rightarrow> reloc_howto \<Rightarrow> nat \<Rightarrow> nat \<Rightarrow> bfd_vma \<Rightarrow> bfd_byte list \<Rightarrow> reloc_step option" where
  "reloc_switch arch_size howto type offset value contents =
     (if type \<in> {R_RISCV_HI20, R_RISCV_TPREL_HI20, R_RISCV_PCREL_HI20, R_RISCV_GOT_HI20,
                 R_RISCV_TLS_GOT_HI20, R_RISCV_TLS_GD_HI20}
      then if arch_size > 32 \<and> \<not> VALID_UTYPE_IMM (RISCV_CONST_HIGH_PART value)
           then Some (Return bfd_reloc_overflow contents)
           else Some (Store (ENCODE_UTYPE_IMM (RISCV_CONST_HIGH_PART value)) contents)
      else if type \<in> {R_RISCV_LO12_I, R_RISCV_GPREL_I, R_RISCV_TPREL_LO12_I, R_RISCV_TPREL_I,
                      R_RISCV_PCREL_LO12_I}
      then Some (Store (ENCODE_ITYPE_IMM value) contents)
      else if type \<in> {R_RISCV_LO12_S, R_RISCV_GPREL_S, R_RISCV_TPREL_LO12_S, R_RISCV_TPREL_S,
                      R_RISCV_PCREL_LO12_S}
      then Some (Store (ENCODE_STYPE_IMM value) contents)
      else if type = R_RISCV_CALL \<or> type = R_RISCV_CALL_PLT
      then if arch_size > 32 \<and> \<not> VALID_UTYPE_IMM (RISCV_CONST_HIGH_PART value)
           then Some (Return bfd_reloc_overflow contents)
           else Some (Store (ENCODE_UTYPE_IMM (RISCV_CONST_HIGH_PART value) OR
                             shl (ENCODE_ITYPE_IMM value) 32) contents)
      else if type = R_RISCV_JAL
      then if \<not> VALID_JTYPE_IMM value then Some (Return bfd_reloc_overflow contents)
           else Some (Store (ENCODE_JTYPE_IMM value) contents)
      else if type = R_RISCV_BRANCH
      then if \<not> VALID_BTYPE_IMM value then Some (Return bfd_reloc_overflow contents)
           else Some (Store (ENCODE_BTYPE_IMM value) contents)
      else if type = R_RISCV_RVC_BRANCH
      then if \<not> VALID_CBTYPE_IMM value then Some (Return bfd_reloc_overflow contents)
           else Some (Store (ENCODE_CBTYPE_IMM value) contents)
      else if type = R_RISCV_RVC_JUMP
      then if \<not> VALID_CJTYPE_IMM value then Some (Return bfd_reloc_overflow contents)
           else Some (Store (ENCODE_CJTYPE_IMM value) contents)
      else if type = R_RISCV_RVC_LUI
      then if RISCV_CONST_HIGH_PART value = 0
           then do {
             insn \<leftarrow> riscv_get_insn (ho_bitsize howto) offset contents;
             contents' \<leftarrow> riscv_put_insn (ho_bitsize howto) ((insn AND NOT MATCH_C_LUI) OR MATCH_C_LI) offset contents;
             Some (Store (ENCODE_CITYPE_IMM 0) contents')
           }
           else if \<not> VALID_CITYPE_LUI_IMM (RISCV_CONST_HIGH_PART value)
           then Some (Return bfd_reloc_overflow contents)
           else Some (Store (ENCODE_CITYPE_LUI_IMM (RISCV_CONST_HIGH_PART value)) contents)
      else if type = R_RISCV_SUB_ULEB128
      then map_option (\<lambda>(st, c). Return st c) (sub_uleb128_reloc offset value contents)
      else if type \<in> {R_RISCV_32, R_RISCV_64, R_RISCV_ADD8, R_RISCV_ADD16, R_RISCV_ADD32, R_RISCV_ADD64,
                      R_RISCV_SUB6, R_RISCV_SUB8, R_RISCV_SUB16, R_RISCV_SUB32, R_RISCV_SUB64,
                      R_RISCV_SET6, R_RISCV_SET8, R_RISCV_SET16, R_RISCV_SET32, R_RISCV_32_PCREL,
                      R_RISCV_TLS_DTPREL32, R_RISCV_TLS_DTPREL64}
      then Some (Store value contents)
      else if type = R_RISCV_DELETE then Some (Return bfd_reloc_ok contents)
      else Some (Return bfd_reloc_notsupported contents))"

definition perform_relocation ::
    "nat \<Rightarrow> reloc_howto \<Rightarrow> elf_rela \<Rightarrow> bfd_vma \<Rightarrow> bfd_vma \<Rightarrow> bfd_byte list \<Rightarrow>
     (bfd_reloc_status \<times> bfd_byte list) option" where
  "perform_relocation arch_size howto rel value sec_addr contents =
     (let offset = unat (r_offset rel);
          value = (if ho_pc_relative howto then value - (sec_addr + r_offset rel) else value);
          value = (if r_type rel \<noteq> R_RISCV_SUB_ULEB128 then value + r_addend rel else value)
      in case reloc_switch arch_size howto (r_type rel) offset value contents of
           None \<Rightarrow> None
         | Some (Return st c) \<Rightarrow> Some (st, c)
         | Some (Store v c) \<Rightarrow> do {
             word \<leftarrow> (if riscv_is_insn_reloc howto then riscv_get_insn (ho_bitsize howto) offset c
                      else bfd_get (ho_bitsize howto) offset c);
             c' \<leftarrow> (let word = (word AND NOT (ho_dst_mask howto)) OR (v AND ho_dst_mask howto)
                    in if riscv_is_insn_reloc howto then riscv_put_insn (ho_bitsize howto) word offset c
                       else bfd_put (ho_bitsize howto) word offset c);
             Some (bfd_reloc_ok, c')
           })"

section \<open>Storing a field\<close>

lemma le_word_bound: "take_bit (8 * length bs) (le_word bs) = le_word bs"
proof (induction bs)
  case Nil
  then show ?case by simp
next
  case (Cons b bs)
  have lt: "bit (le_word bs) i \<Longrightarrow> i < 8 * length bs" for i
    by (metis Cons.IH bit_take_bit_iff)
  have b8: "bit b i \<Longrightarrow> i < 8" for i using bit_imp_le_length [of b i] by simp
  show ?case by (intro bit_word_eqI) (auto simp: bit_simps cbits dest: lt b8)
qed

lemma get_le_bound: "get_le sz i c = Some w \<Longrightarrow> take_bit (8 * sz) w = w"
  using le_word_bound [of "take sz (drop i c)"] by (auto simp: get_le_def split: if_splits)

definition patch :: "64 word \<Rightarrow> 64 word \<Rightarrow> 64 word \<Rightarrow> 64 word" where
  "patch m w v = (w AND NOT m) OR (v AND m)"

lemma patch_bound: "take_bit n m = m \<Longrightarrow> take_bit n w = w \<Longrightarrow> take_bit n (patch m w v) = patch m w v"
  by (simp add: patch_def take_bit_or take_bit_and take_bit_not_take_bit bit_eq_iff bit_simps) blast

text \<open>What a store changes: the bits of the mask in the bytes of the field, nothing else.\<close>

definition stored :: "nat \<Rightarrow> nat \<Rightarrow> 64 word \<Rightarrow> bfd_byte list \<Rightarrow> bfd_byte list \<Rightarrow> bool" where
  "stored sz i w' c c' \<longleftrightarrow>
     get_le sz i c' = Some w' \<and> length c' = length c \<and> take i c' = take i c \<and> drop (i + sz) c' = drop (i + sz) c"

lemma put_patch:
  assumes "get_le sz i c = Some w" "take_bit (8 * sz) m = m"
  shows "\<exists>c'. put_le sz (patch m w v) i c = Some c' \<and> stored sz i (patch m w v) c c'"
proof -
  have "i + sz \<le> length c" using assms(1) by (auto simp: get_le_def split: if_splits)
  then obtain c' where c': "put_le sz (patch m w v) i c = Some c'" using put_le_some by blast
  show ?thesis
    using c' get_put_same [OF c'] put_le_length [OF c'] put_le_frame [OF c']
      patch_bound [OF assms(2) get_le_bound [OF assms(1)]]
    by (auto simp: stored_def)
qed

lemma perform_store:
  assumes "reloc_switch a h (r_type rel) (unat (r_offset rel)) v c = Some (Store x c)"
    and "v = (if ho_pc_relative h then value - (sec_addr + r_offset rel) else value) + r_addend rel"
    and "r_type rel \<noteq> R_RISCV_SUB_ULEB128" "riscv_is_insn_reloc h" "ho_bitsize h = 8 * sz" "sz \<in> {2, 4, 8}"
    and "take_bit (8 * sz) (ho_dst_mask h) = ho_dst_mask h" "get_le sz (unat (r_offset rel)) c = Some w"
  shows "\<exists>c'. perform_relocation a h rel value sec_addr c = Some (bfd_reloc_ok, c') \<and>
           stored sz (unat (r_offset rel)) (patch (ho_dst_mask h) w x) c c'"
proof -
  obtain c' where c': "put_le sz (patch (ho_dst_mask h) w x) (unat (r_offset rel)) c = Some c'"
      "stored sz (unat (r_offset rel)) (patch (ho_dst_mask h) w x) c c'"
    using put_patch [OF assms(8,7)] by blast
  have "perform_relocation a h rel value sec_addr c = Some (bfd_reloc_ok, c')"
    using assms c'(1)
    by (auto simp: perform_relocation_def Let_def riscv_get_insn_def riscv_put_insn_def patch_def)
  with c'(2) show ?thesis by blast
qed

section \<open>Branches and jumps\<close>

text \<open>
  The contract of a checked PC-relative relocation: its row describes exactly the immediate field of a
  signed format, and the \<open>switch\<close> refuses exactly the values the field cannot hold.
\<close>

locale pcrel_reloc = signed_imm enc ext k n
  for enc :: "insn_t \<Rightarrow> insn_t" and ext :: "insn_t \<Rightarrow> insn_t" and k :: nat and n :: nat +
  fixes r :: nat and h :: reloc_howto and sz :: nat
  assumes row: "riscv_elf_rtype_to_howto r = Some h"
    and pcrel: "ho_pc_relative h" "r \<noteq> R_RISCV_SUB_ULEB128"
    and insn: "riscv_is_insn_reloc h" "ho_bitsize h = 8 * sz" "sz \<in> {2, 4, 8}"
    and field: "ho_dst_mask h = enc (- 1)"
    and switch: "reloc_switch a h r i v c =
      Some (if ext (enc v) = v then Store (enc v) c else Return bfd_reloc_overflow c)"
begin

lemma ext_patched: "ext (enc v) = v \<Longrightarrow> ext (patch (enc (- 1)) w (enc v)) = v"
  using ext_patch [of w v] enc_local [of v] by (simp add: patch_def)

lemma patched_rest: "patch (enc (- 1)) w (enc v) AND NOT (enc (- 1)) = w AND NOT (enc (- 1))"
  using patch_keeps_rest [of w v] enc_local [of v] by (simp add: patch_def)

lemma overflows:
  assumes "r_type rel = r" "ext (enc d) \<noteq> d" "d = value + r_addend rel - (sec_addr + r_offset rel)"
  shows "perform_relocation a h rel value sec_addr c = Some (bfd_reloc_overflow, c)"
proof -
  have "value - (sec_addr + r_offset rel) + r_addend rel = d" using assms(3) by simp
  then show ?thesis using assms(1,2) pcrel by (simp add: perform_relocation_def switch)
qed

lemma emplaced:
  assumes "r_type rel = r" "get_le sz (unat (r_offset rel)) c = Some w"
    and "d = value + r_addend rel - (sec_addr + r_offset rel)" "ext (enc d) = d"
  shows "\<exists>c' w'. perform_relocation a h rel value sec_addr c = Some (bfd_reloc_ok, c') \<and>
    stored sz (unat (r_offset rel)) w' c c' \<and> ext w' = d \<and> w' AND NOT (enc (- 1)) = w AND NOT (enc (- 1))"
proof -
  have "row_ok r h" by (rule rtype_row_ok [OF row])
  then have m: "take_bit (8 * sz) (ho_dst_mask h) = ho_dst_mask h"
    using insn by (cases "ho_name h") (auto simp: row_ok_def riscv_is_insn_reloc_def)
  have d: "d = (if ho_pc_relative h then value - (sec_addr + r_offset rel) else value) + r_addend rel"
    using assms(3) pcrel by simp
  have sw: "reloc_switch a h (r_type rel) (unat (r_offset rel)) d c = Some (Store (enc d) c)"
    using assms(1,4) by (simp add: switch)
  have "r_type rel \<noteq> R_RISCV_SUB_ULEB128" using assms(1) pcrel by simp
  from perform_store [OF sw d this insn m assms(2)]
  show ?thesis using ext_patched [OF assms(4)] patched_rest field by metis
qed

end

lemma field_masks:
  "ENCODE_BTYPE_IMM 0xffffffff = ENCODE_BTYPE_IMM (- 1)" "ENCODE_JTYPE_IMM 0xffffffff = ENCODE_JTYPE_IMM (- 1)"
  "ENCODE_CBTYPE_IMM 0xffffffff = ENCODE_CBTYPE_IMM (- 1)" "ENCODE_CJTYPE_IMM 0xffffffff = ENCODE_CJTYPE_IMM (- 1)"
  "ENCODE_ITYPE_IMM 0xffffffff = ENCODE_ITYPE_IMM (- 1)" "ENCODE_STYPE_IMM 0xffffffff = ENCODE_STYPE_IMM (- 1)"
  "ENCODE_UTYPE_IMM 0xffffffff = ENCODE_UTYPE_IMM (- 1)"
  by code_simp+

text \<open>The rows of the four relocations, and of those of the absolute and PC-relative halves.\<close>

lemmas table_defs = howto_table_def howto_table_1_def howto_table_2_def howto_table_3_def howto_table_4_def
  howto_table_5_def

lemma pcrel_rows:
  "howto_table ! R_RISCV_BRANCH = HOWTO R_RISCV_BRANCH 0 4 32 True 0 complain_overflow_signed
     generic_reloc ''R_RISCV_BRANCH'' False 0 (ENCODE_BTYPE_IMM 0xffffffff) True"
  "howto_table ! R_RISCV_JAL = HOWTO R_RISCV_JAL 0 4 32 True 0 complain_overflow_dont
     generic_reloc ''R_RISCV_JAL'' False 0 (ENCODE_JTYPE_IMM 0xffffffff) True"
  "howto_table ! R_RISCV_RVC_BRANCH = HOWTO R_RISCV_RVC_BRANCH 0 2 16 True 0
     complain_overflow_signed generic_reloc ''R_RISCV_RVC_BRANCH'' False 0 (ENCODE_CBTYPE_IMM 0xffffffff) True"
  "howto_table ! R_RISCV_RVC_JUMP = HOWTO R_RISCV_RVC_JUMP 0 2 16 True 0
     complain_overflow_dont generic_reloc ''R_RISCV_RVC_JUMP'' False 0 (ENCODE_CJTYPE_IMM 0xffffffff) True"
  by (simp_all add: table_defs)

lemma rtype_table: "r < 62 \<Longrightarrow> riscv_elf_rtype_to_howto r = Some (howto_table ! r)"
  by (simp add: riscv_elf_rtype_to_howto_def howto_table_length)

lemma insn_masks:
  "ENCODE_BTYPE_IMM (- 1) = 0xfe000f80" "ENCODE_JTYPE_IMM (- 1) = 0xfffff000"
  "ENCODE_CBTYPE_IMM (- 1) = 0x1c7c" "ENCODE_CJTYPE_IMM (- 1) = 0x1ffc"
  "ENCODE_ITYPE_IMM (- 1) = 0xfff00000" "ENCODE_STYPE_IMM (- 1) = 0xfe000f80" "ENCODE_UTYPE_IMM (- 1) = 0xfffff000"
  by code_simp+

interpretation branch_reloc: pcrel_reloc ENCODE_BTYPE_IMM EXTRACT_BTYPE_IMM 1 12 R_RISCV_BRANCH "howto_table ! R_RISCV_BRANCH" 4
  by unfold_locales
    (simp_all add: rtype_table pcrel_rows HOWTO_def field_masks riscv_is_insn_reloc_def insn_masks shl_def mask_eq_exp_minus_1
      reloc_switch_def VALID_BTYPE_IMM_def)

interpretation jal_reloc: pcrel_reloc ENCODE_JTYPE_IMM EXTRACT_JTYPE_IMM 1 20 R_RISCV_JAL "howto_table ! R_RISCV_JAL" 4
  by unfold_locales
    (simp_all add: rtype_table pcrel_rows HOWTO_def field_masks riscv_is_insn_reloc_def insn_masks shl_def mask_eq_exp_minus_1
      reloc_switch_def VALID_JTYPE_IMM_def)

interpretation rvc_branch_reloc: pcrel_reloc ENCODE_CBTYPE_IMM EXTRACT_CBTYPE_IMM 1 8 R_RISCV_RVC_BRANCH
    "howto_table ! R_RISCV_RVC_BRANCH" 2
  by unfold_locales
    (simp_all add: rtype_table pcrel_rows HOWTO_def field_masks riscv_is_insn_reloc_def insn_masks shl_def mask_eq_exp_minus_1
      reloc_switch_def VALID_CBTYPE_IMM_def)

interpretation rvc_jump_reloc: pcrel_reloc ENCODE_CJTYPE_IMM EXTRACT_CJTYPE_IMM 1 11 R_RISCV_RVC_JUMP
    "howto_table ! R_RISCV_RVC_JUMP" 2
  by unfold_locales
    (simp_all add: rtype_table pcrel_rows HOWTO_def field_masks riscv_is_insn_reloc_def insn_masks shl_def mask_eq_exp_minus_1
      reloc_switch_def VALID_CJTYPE_IMM_def)

text \<open>The four formats: relocation, encoding and decoding, width in bytes, and bits of the range.\<close>

definition pcrel_formats :: "(nat \<times> (insn_t \<Rightarrow> insn_t) \<times> (insn_t \<Rightarrow> insn_t) \<times> nat \<times> nat) set" where
  "pcrel_formats =
     {(R_RISCV_BRANCH, ENCODE_BTYPE_IMM, EXTRACT_BTYPE_IMM, 4, 12),
      (R_RISCV_JAL, ENCODE_JTYPE_IMM, EXTRACT_JTYPE_IMM, 4, 20),
      (R_RISCV_RVC_BRANCH, ENCODE_CBTYPE_IMM, EXTRACT_CBTYPE_IMM, 2, 8),
      (R_RISCV_RVC_JUMP, ENCODE_CJTYPE_IMM, EXTRACT_CJTYPE_IMM, 2, 11)}"

lemma pcrel_formats_locale:
  assumes "(r, enc, ext, sz, n) \<in> pcrel_formats" "riscv_elf_rtype_to_howto r = Some h"
  shows "pcrel_reloc enc ext 1 n r h sz"
  using assms branch_reloc.pcrel_reloc_axioms jal_reloc.pcrel_reloc_axioms
    rvc_branch_reloc.pcrel_reloc_axioms rvc_jump_reloc.pcrel_reloc_axioms
  unfolding pcrel_formats_def by (auto simp: rtype_table)

text \<open>
  C17. A branch or jump relocation does what the instruction needs: if the distance from the instruction
  to the target is even and in the range of the format, the relocation succeeds, the instruction decodes
  to exactly that distance afterwards, its other bits are kept, and so are all other bytes; otherwise it
  reports an overflow and changes nothing.
\<close>

theorem pcrel_relocation_reaches:
  assumes "(r, enc, ext, sz, n) \<in> pcrel_formats" "riscv_elf_rtype_to_howto r = Some h" "r_type rel = r"
    and "get_le sz (unat (r_offset rel)) c = Some w" "d = value + r_addend rel - (sec_addr + r_offset rel)"
  shows "if even (sint d) \<and> - (2 ^ n) \<le> sint d \<and> sint d < 2 ^ n
    then \<exists>c' w'. perform_relocation a h rel value sec_addr c = Some (bfd_reloc_ok, c') \<and>
           stored sz (unat (r_offset rel)) w' c c' \<and> ext w' = d \<and>
           w' AND NOT (enc (- 1)) = w AND NOT (enc (- 1))
    else perform_relocation a h rel value sec_addr c = Some (bfd_reloc_overflow, c)"
proof -
  have loc: "pcrel_reloc enc ext 1 n r h sz" by (rule pcrel_formats_locale [OF assms(1,2)])
  then have "signed_imm enc ext 1 n" by (rule pcrel_reloc.axioms)
  then have "ext (enc d) = d \<longleftrightarrow> even (sint d) \<and> - (2 ^ n) \<le> sint d \<and> sint d < 2 ^ n"
    by (simp add: signed_imm.valid_iff)
  then show ?thesis
    using pcrel_reloc.emplaced [OF loc assms(3,4,5)] pcrel_reloc.overflows [OF loc assms(3) _ assms(5)] by presburger
qed

lemma pcrel_relocation_reaches_witness:
  "\<exists>c' w'. perform_relocation 64 (howto_table ! R_RISCV_JAL) \<lparr>r_offset = 0, r_type = R_RISCV_JAL, r_addend = 0\<rparr>
      0x1100 0x1000 [0x6f, 0, 0, 0] = Some (bfd_reloc_ok, c') \<and>
    stored 4 0 w' [0x6f, 0, 0, 0] c' \<and> EXTRACT_JTYPE_IMM w' = 0x100"
proof -
  let ?rel = "\<lparr>r_offset = 0, r_type = R_RISCV_JAL, r_addend = 0\<rparr>"
  have f: "(R_RISCV_JAL, ENCODE_JTYPE_IMM, EXTRACT_JTYPE_IMM, 4, 20) \<in> pcrel_formats" by (simp add: pcrel_formats_def)
  have h: "riscv_elf_rtype_to_howto R_RISCV_JAL = Some (howto_table ! R_RISCV_JAL)" by (simp add: rtype_table)
  have g: "get_le 4 (unat (r_offset ?rel)) [0x6f, 0, 0, 0] = Some 0x6f" by (simp add: get_le_def shl_def)
  have d: "(0x100 :: 64 word) = 0x1100 + r_addend ?rel - (0x1000 + r_offset ?rel)" by simp
  show ?thesis using pcrel_relocation_reaches [OF f h _ g d, of 64] by auto
qed

section \<open>Calls\<close>

definition call_mask :: "64 word" where
  "call_mask = ENCODE_UTYPE_IMM (- 1) OR shl (ENCODE_ITYPE_IMM (- 1)) 32"

lemma call_mask_eq: "call_mask = 0xfff00000fffff000"
  unfolding call_mask_def insn_masks by (simp add: shl_def)

lemma call_rows:
  "howto_table ! R_RISCV_CALL = HOWTO R_RISCV_CALL 0 8 64 True 0 complain_overflow_dont generic_reloc ''R_RISCV_CALL''
     False 0 call_mask True"
  "howto_table ! R_RISCV_CALL_PLT = HOWTO R_RISCV_CALL_PLT 0 8 64 True 0 complain_overflow_dont generic_reloc
     ''R_RISCV_CALL_PLT'' False 0 call_mask True"
  by (simp_all add: table_defs call_mask_def field_masks)

text \<open>The two instructions of a patched call.\<close>

lemma patched_call:
  fixes w u v :: "64 word"
  defines "w' \<equiv> patch call_mask w (ENCODE_UTYPE_IMM u OR shl (ENCODE_ITYPE_IMM v) 32)"
  shows "EXTRACT_UTYPE_IMM (take_bit 32 w') = EXTRACT_UTYPE_IMM (ENCODE_UTYPE_IMM u)"
    and "EXTRACT_ITYPE_IMM (shr w' 32) = EXTRACT_ITYPE_IMM (ENCODE_ITYPE_IMM v)"
    and "insn_rd (take_bit 32 w') = insn_rd (take_bit 32 w)"
    and "insn_rs1 (shr w' 32) = insn_rs1 (shr w 32)" "insn_rd (shr w' 32) = insn_rd (shr w 32)"
proof -
  have u: "ENCODE_UTYPE_IMM u AND ENCODE_UTYPE_IMM (- 1) = ENCODE_UTYPE_IMM u" by (rule utype.enc_local)
  have "take_bit 32 w' AND ENCODE_UTYPE_IMM (- 1) = ENCODE_UTYPE_IMM u"
    unfolding w'_def patch_def call_mask_eq by (subst u [symmetric], unfold insn_masks, rule w64_eqI) (simp add: cbits bit_simps)
  then show "EXTRACT_UTYPE_IMM (take_bit 32 w') = EXTRACT_UTYPE_IMM (ENCODE_UTYPE_IMM u)"
    by (metis utype.ext_local)
  have "shr w' 32 AND ENCODE_ITYPE_IMM (- 1) = ENCODE_ITYPE_IMM v AND ENCODE_ITYPE_IMM (- 1)"
    unfolding w'_def patch_def call_mask_eq
    by (subst u [symmetric], unfold insn_masks, rule w64_eqI) (simp add: cbits bit_simps)
  then show "EXTRACT_ITYPE_IMM (shr w' 32) = EXTRACT_ITYPE_IMM (ENCODE_ITYPE_IMM v)"
    by (metis itype.ext_local)
  have "shr (take_bit 32 w') 7 AND 0x1f = shr (take_bit 32 w) 7 AND 0x1f"
    and "shr (shr w' 32) 15 AND 0x1f = shr (shr w 32) 15 AND 0x1f"
    and "shr (shr w' 32) 7 AND 0x1f = shr (shr w 32) 7 AND 0x1f"
    unfolding w'_def patch_def call_mask_eq by (rule w64_eqI, simp add: cbits bit_simps)+
  then show "insn_rd (take_bit 32 w') = insn_rd (take_bit 32 w)" "insn_rs1 (shr w' 32) = insn_rs1 (shr w 32)"
      "insn_rd (shr w' 32) = insn_rd (shr w 32)"
    by (simp_all add: insn_rd_def insn_rs1_def)
qed

lemma high_part_fits:
  "VALID_UTYPE_IMM (RISCV_CONST_HIGH_PART d) \<longleftrightarrow> - (2 ^ 31) \<le> sint (d + 2048) \<and> sint (d + 2048) < 2 ^ 31"
proof -
  have h: "RISCV_CONST_HIGH_PART d = clear_low 12 (d + 2048)" by (rule high_part_clear_low)
  have "VALID_UTYPE_IMM (RISCV_CONST_HIGH_PART d) \<longleftrightarrow>
      clear_low 12 (signed_take_bit 31 (clear_low 12 (d + 2048))) = clear_low 12 (d + 2048)"
    unfolding valid_defs utype.ext_enc h ..
  also have "\<dots> \<longleftrightarrow> signed_take_bit 31 (d + 2048) = d + 2048"
  proof
    assume *: "clear_low 12 (signed_take_bit 31 (clear_low 12 (d + 2048))) = clear_low 12 (d + 2048)"
    have "bit (signed_take_bit 31 (d + 2048)) i = bit (d + 2048) i" if "i < 64" for i
      using arg_cong [OF *, of "\<lambda>x. bit x i"] that by (cases "i < 31") (auto simp: bit_simps cbits)
    then show "signed_take_bit 31 (d + 2048) = d + 2048" by (intro bit_word_eqI) simp
  next
    assume *: "signed_take_bit 31 (d + 2048) = d + 2048"
    define b where "b = bit (d + 2048) 31"
    have "bit (d + 2048) i = b" if "31 \<le> i" "i < 64" for i
      using arg_cong [OF *, of "\<lambda>x. bit x i"] that by (simp add: bit_simps min_def b_def split: if_splits)
    then show "clear_low 12 (signed_take_bit 31 (clear_low 12 (d + 2048))) = clear_low 12 (d + 2048)"
      by (intro bit_word_eqI) (auto simp: bit_simps cbits min_def)
  qed
  finally show ?thesis by (simp add: sext_eq_iff)
qed

lemma low_part_sext: "EXTRACT_ITYPE_IMM (ENCODE_ITYPE_IMM d) = RISCV_CONST_LOW_PART d"
proof -
  have "EXTRACT_ITYPE_IMM (ENCODE_ITYPE_IMM d) = signed_take_bit 11 d" by (simp add: itype.ext_enc)
  also have "\<dots> = signed_take_bit 11 (RISCV_CONST_LOW_PART d)"
  proof -
    define k where "k = clear_low 12 (d + 2048)"
    have "clear_low 12 k = k" by (rule bit_word_eqI) (simp add: k_def cbits)
    then have "4096 dvd uint k" by (simp add: clear_low_eq_iff)
    then have "(uint d - uint k) mod 4096 = uint d mod 4096" by (simp add: mod_eq_dvd_iff)
    then have "(uint d - uint k) mod 2 ^ 64 mod 4096 = uint d mod 4096" by (subst mod_mod_cancel) simp_all
    then have "take_bit 12 (d - k) = take_bit 12 d"
      by (intro word_uint_eqI) (unfold uint_take_bit uint_word_ariths, simp add: take_bit_eq_mod)
    then have "take_bit 12 (RISCV_CONST_LOW_PART d) = take_bit 12 d"
      by (simp add: RISCV_CONST_LOW_PART_def high_part_clear_low k_def)
    then show ?thesis by (simp add: signed_take_bit_eq_iff_take_bit_eq)
  qed
  also have "\<dots> = RISCV_CONST_LOW_PART d" using low_part_range [of d] by (simp add: sext_eq_iff)
  finally show ?thesis .
qed

lemma execute_auipc:
  "op_match op = MATCH_AUIPC \<Longrightarrow> execute_i host iw op cpu =
     Inr (store_rd (insn_rd iw) (sim_pc cpu + EXTRACT_UTYPE_IMM iw) cpu, sim_pc cpu + 4)"
  by (simp add: execute_i_def alu_i_def alu_halts_def)

lemma execute_jalr:
  "op_match op = MATCH_JALR \<Longrightarrow> execute_i host iw op cpu =
     Inr (store_rd (insn_rd iw) (sim_pc cpu + 4) cpu, reg cpu (insn_rs1 iw) + EXTRACT_ITYPE_IMM iw)"
  by (simp add: execute_i_def alu_i_def branch_i_def load_i_def store_i_def csr_i_def counter_i_def)


definition call_bytes :: "bfd_byte list" where
  "call_bytes = [0x97, 0, 0, 0, 0xe7, 0x80, 0, 0]"


end
