(* ===== verification/RV_Uleb.thy ===== *)
theory RV_Uleb
  imports RV_Link
begin

text \<open>
  The LEB128 relocation of the linker: what \<open>_bfd_read_unsigned_leb128\<close> and
  \<open>_bfd_write_unsigned_leb128\<close> compute, and that the relocation stores the value in the bytes that were
  there, without a change of their number, for values of 32 bits.
\<close>

section \<open>Reading\<close>

definition has_more :: "bfd_byte \<Rightarrow> bool" where "has_more b \<longleftrightarrow> b AND 0x80 \<noteq> 0"

lemma more_bit: "has_more b \<longleftrightarrow> bit b 7"
  using and_exp_eq_0_iff_not_bit [of b 7] by (simp add: has_more_def)

text \<open>The number that a sequence of digits stands for, least digit first.\<close>

fun uleb_value :: "bfd_byte list \<Rightarrow> 64 word" where
  "uleb_value [] = 0"
| "uleb_value (b # bs) = (ucast b AND 0x7f) OR shl (uleb_value bs) 7"

lemma shl_overflow: "64 \<le> n \<Longrightarrow> shl x n = 0"
  by (rule bit_word_eqI) (simp add: bit_shl)

lemma read_loop_step:
  "read_uleb128_loop (b # bs) shift result k =
     (if has_more b then read_uleb128_loop bs (if shift < 64 then shift + 7 else shift)
        (result OR shl (ucast b AND 0x7f) shift) (k + 1)
      else Some (result OR shl (ucast b AND 0x7f) shift, k + 1))"
  by (simp add: has_more_def Let_def shl_overflow)

lemma shl_uleb: "shl (uleb_value (b # bs)) s = shl (ucast b AND 0x7f) s OR shl (uleb_value bs) (if s < 64 then s + 7 else s)"
  by (rule bit_word_eqI) (auto simp: bit_simps bit_shl add.commute)

lemma read_loop:
  assumes "list_all has_more xs" "\<not> has_more y"
  shows "read_uleb128_loop (xs @ y # rest) shift result k =
    Some (result OR shl (uleb_value (xs @ [y])) shift, k + length xs + 1)"
  using assms(1)
proof (induction xs arbitrary: shift result k)
  case Nil
  then show ?case using assms(2) unfolding append_Nil read_loop_step shl_uleb by (simp add: shl_def)
next
  case (Cons x xs)
  then show ?case
    unfolding append_Cons read_loop_step shl_uleb by (simp add: or.assoc)
qed

lemma read_loop_shape:
  assumes "read_uleb128_loop bs shift result k = Some (v, m)"
  shows "\<exists>xs y rest. bs = xs @ y # rest \<and> list_all has_more xs \<and> \<not> has_more y \<and> m = k + length xs + 1"
  using assms
proof (induction bs arbitrary: shift result k)
  case Nil
  then show ?case by simp
next
  case (Cons b bs)
  show ?case
  proof (cases "has_more b")
    case True
    from Cons.prems True obtain shift' result' where "read_uleb128_loop bs shift' result' (k + 1) = Some (v, m)"
      unfolding read_loop_step by auto
    from Cons.IH [OF this] obtain xs y rest where
      *: "bs = xs @ y # rest" "list_all has_more xs" "\<not> has_more y" "m = k + 1 + length xs + 1" by blast
    then show ?thesis by (intro exI [of _ "b # xs"] exI [of _ y] exI [of _ rest]) (simp add: True)
  next
    case False
    then show ?thesis using Cons.prems unfolding read_loop_step
      by (intro exI [of _ "[]"] exI [of _ b] exI [of _ bs]) simp
  qed
qed

lemma read_uleb128_value:
  assumes "drop p c = xs @ y # rest" "list_all has_more xs" "\<not> has_more y"
  shows "bfd_read_unsigned_leb128 p c = Some (uleb_value (xs @ [y]), length xs + 1)"
  using read_loop [OF assms(2,3), of rest 0 0 0] assms(1) by (simp add: bfd_read_unsigned_leb128_def shl_def)

section \<open>Writing\<close>

function uleb_bytes :: "64 word \<Rightarrow> bfd_byte list" where
  "uleb_bytes val =
     (if shr val 7 \<noteq> 0 then (ucast (val AND 0x7f) OR 0x80) # uleb_bytes (shr val 7) else [ucast (val AND 0x7f)])"
  by pat_completeness auto
termination by (relation "measure unat") (auto intro: drop_bit_7_less simp: shr_def)

declare uleb_bytes.simps [simp del]

lemma uleb_bytes_ne [simp]: "uleb_bytes v \<noteq> []"
  by (subst uleb_bytes.simps) simp

lemma digit_more: "\<not> has_more (ucast (val AND 0x7f :: 64 word))" "has_more (x OR 0x80)"
  by (simp_all add: more_bit bit_simps)

lemma digit_value: "ucast (ucast (val AND 0x7f) OR (0x80 :: 8 word)) AND 0x7f = (val AND 0x7f :: 64 word)"
    "ucast (ucast (val AND 0x7f) :: 8 word) AND 0x7f = (val AND 0x7f :: 64 word)"
  by (rule w64_eqI, simp add: bit_simps cbits)+

lemma uleb_value_bytes: "uleb_value (uleb_bytes val) = val"
proof (induction val rule: uleb_bytes.induct)
  case (1 val)
  have join: "(val AND 0x7f) OR shl (shr val 7) 7 = val" by (rule w64_eqI) (simp add: cbits)
  show ?case
  proof (cases "shr val 7 = 0")
    case True
    have "uleb_value [ucast (val AND 0x7f)] = val"
      unfolding uleb_value.simps digit_value using join True by (simp add: shl_def)
    then show ?thesis by (subst uleb_bytes.simps) (simp only: True simp_thms if_False)
  next
    case False
    have "uleb_value ((ucast (val AND 0x7f) OR 0x80) # uleb_bytes (shr val 7)) = val"
      unfolding uleb_value.simps digit_value 1 [OF False] by (rule join)
    then show ?thesis by (subst uleb_bytes.simps) (simp only: False simp_thms if_True)
  qed
qed

lemma uleb_bytes_more: "list_all has_more (butlast (uleb_bytes val)) \<and> \<not> has_more (last (uleb_bytes val))"
proof (induction val rule: uleb_bytes.induct)
  case (1 val)
  then show ?case by (subst (1 2) uleb_bytes.simps) (simp add: digit_more)
qed

lemma write_uleb:
  assumes "p + length (uleb_bytes val) \<le> endp + 1" "endp < length data"
  shows "bfd_write_unsigned_leb128 p endp val data =
    (Some (p + length (uleb_bytes val)), take p data @ uleb_bytes val @ drop (p + length (uleb_bytes val)) data)"
  using assms
proof (induction val arbitrary: p data rule: uleb_bytes.induct)
  case (1 val)
  have p: "\<not> endp < p" "p < length data" using 1(2,3) by (simp_all add: uleb_bytes.simps [of val] split: if_splits)
  show ?case
  proof (cases "shr val 7 = 0")
    case True
    then have b: "uleb_bytes val = [ucast (val AND 0x7f)]" by (simp add: uleb_bytes.simps [of val])
    have "bfd_write_unsigned_leb128 p endp val data = (Some (p + 1), data[p := ucast (val AND 0x7f)])"
      by (subst bfd_write_unsigned_leb128.simps) (simp only: True p simp_thms if_False Let_def)
    then show ?thesis unfolding b using p by (simp add: upd_conv_take_nth_drop)
  next
    case False
    define x :: bfd_byte where "x = ucast (val AND 0x7f) OR 0x80"
    have b: "uleb_bytes val = x # uleb_bytes (shr val 7)" using False by (simp add: uleb_bytes.simps [of val] x_def)
    have "bfd_write_unsigned_leb128 p endp val data =
        bfd_write_unsigned_leb128 (p + 1) endp (shr val 7) (data[p := x])"
      by (subst bfd_write_unsigned_leb128.simps) (simp only: False p simp_thms if_False if_True Let_def x_def)
    also have "\<dots> = (Some (p + 1 + length (uleb_bytes (shr val 7))), take (p + 1) (data[p := x]) @ uleb_bytes (shr val 7) @
        drop (p + 1 + length (uleb_bytes (shr val 7))) (data[p := x]))"
      using 1(2,3) unfolding b by (intro "1.IH" [OF False]) simp_all
    finally show ?thesis unfolding b using p by (simp add: take_Suc_conv_app_nth)
  qed
qed

lemma write_uleb_null:
  assumes "endp + 1 < p + length (uleb_bytes val)"
  shows "\<exists>d. bfd_write_unsigned_leb128 p endp val data = (None, d)"
  using assms
proof (induction val arbitrary: p data rule: uleb_bytes.induct)
  case (1 val)
  show ?case
  proof (cases "p > endp")
    case True
    then show ?thesis by (simp add: bfd_write_unsigned_leb128.simps [of p])
  next
    case False
    then have ne: "shr val 7 \<noteq> 0" using 1(2) by (auto simp: uleb_bytes.simps [of val] split: if_splits)
    then have "endp + 1 < p + 1 + length (uleb_bytes (shr val 7))" using 1(2) by (simp add: uleb_bytes.simps [of val])
    from "1.IH" [OF ne this] show ?thesis
      using False ne by (subst bfd_write_unsigned_leb128.simps) (simp add: Let_def)
  qed
qed

lemma unat_shr_7: "unat (shr val 7) = unat val div 128"
  unfolding shr_def unat_drop_bit_eq by (simp add: drop_bit_eq_div)

lemma uleb_bytes_length_le: "length (uleb_bytes val) \<le> Suc n \<longleftrightarrow> unat val < 128 ^ Suc n"
proof (induction n arbitrary: val)
  case 0
  have "shr val 7 = 0 \<longleftrightarrow> unat val < 128" by (simp add: unat_shr_7 div_eq_0_iff flip: unat_eq_zero)
  then show ?case by (simp add: uleb_bytes.simps [of val] Suc_le_eq)
next
  case (Suc n)
  have "unat (shr val 7) < 128 ^ Suc n \<longleftrightarrow> unat val < 128 ^ Suc (Suc n)"
    by (simp add: unat_shr_7 div_less_iff_less_mult mult.commute)
  moreover have "shr val 7 = 0 \<Longrightarrow> unat val < 128 ^ Suc (Suc n)"
    using calculation by simp
  ultimately show ?case using Suc.IH [of "shr val 7"] by (simp add: uleb_bytes.simps [of val])
qed

lemma uleb128_length_bytes: "take_bit 32 val = val \<Longrightarrow> uleb128_length (ucast val) = length (uleb_bytes val)"
proof (induction val rule: uleb_bytes.induct)
  case (1 val)
  have u: "drop_bit 7 (ucast val :: 32 word) = ucast (shr val 7)"
  proof (rule bit_word_eqI)
    fix n
    assume "n < LENGTH(32)"
    moreover have "bit val (7 + n) \<longleftrightarrow> bit (take_bit 32 val) (7 + n)" unfolding 1(2) ..
    ultimately show "bit (drop_bit 7 (ucast val :: 32 word)) n \<longleftrightarrow> bit (ucast (shr val 7) :: 32 word) n"
      by (auto simp: bit_simps cbits add.commute)
  qed
  have "take_bit 32 (shr (take_bit 32 val) 7) = shr (take_bit 32 val) 7"
    by (rule bit_word_eqI) (auto simp: bit_simps cbits)
  then have t: "take_bit 32 (shr val 7) = shr val 7" unfolding 1(2) .
  have z: "ucast (shr val 7) = (0 :: 32 word) \<longleftrightarrow> shr val 7 = 0"
  proof
    assume "ucast (shr val 7) = (0 :: 32 word)"
    then have "take_bit 32 (shr val 7) = 0" by (auto simp: bit_eq_iff bit_simps)
    then show "shr val 7 = 0" using t by simp
  qed simp
  show ?case
    using 1(1) t by (subst uleb128_length.simps, subst uleb_bytes.simps) (simp add: u z)
qed

section \<open>The relocation\<close>

lemma uleb_value_append: "uleb_value (xs @ ys) = uleb_value xs OR shl (uleb_value ys) (7 * length xs)"
proof (induction xs)
  case Nil
  then show ?case by (simp add: shl_def)
next
  case (Cons x xs)
  have "shl (uleb_value xs OR shl (uleb_value ys) (7 * length xs)) 7 =
      shl (uleb_value xs) 7 OR shl (uleb_value ys) (7 * length (x # xs))"
    by (rule bit_word_eqI) (auto simp: cbits bit_simps)
  then show ?case by (simp add: Cons.IH or.assoc)
qed

text \<open>The digit 0 with or without the continuation bit is worth nothing; a continuation bit is not counted.\<close>

lemma uleb_value_pad: "uleb_value (xs @ replicate n 0x80 @ [0]) = uleb_value xs"
proof -
  have z: "uleb_value (replicate n 0x80 @ [0]) = 0" by (induction n) (simp_all add: shl_def)
  show ?thesis unfolding uleb_value_append [of xs] z by (simp add: shl_def)
qed

lemma uleb_value_more: "uleb_value (xs @ [y OR 0x80]) = uleb_value (xs @ [y])"
proof -
  have "(ucast (y OR 0x80) :: 64 word) AND 0x7f = ucast y AND 0x7f"
    by (rule w64_eqI) (simp add: bit_simps cbits)
  then show ?thesis unfolding uleb_value_append uleb_value.simps by simp
qed

text \<open>The bytes the relocation leaves: the digits, filled up to \<open>len\<close> of them.\<close>

definition padded :: "nat \<Rightarrow> bfd_byte list \<Rightarrow> bfd_byte list" where
  "padded len bs =
     (if length bs < len
      then butlast bs @ [last bs OR 0x80] @ replicate (len - length bs - 1) 0x80 @ [0] else bs)"

lemma padded_props:
  assumes "bs \<noteq> []" "length bs \<le> len" "list_all has_more (butlast bs)" "\<not> has_more (last bs)"
  shows "length (padded len bs) = len" "uleb_value (padded len bs) = uleb_value bs"
    "list_all has_more (butlast (padded len bs))" "\<not> has_more (last (padded len bs))"
proof -
  have a: "uleb_value (butlast bs @ [last bs OR 0x80]) = uleb_value bs"
    using assms(1) by (simp add: uleb_value_more)
  show "length (padded len bs) = len" using assms(1,2) by (cases bs) (auto simp: padded_def)
  show "uleb_value (padded len bs) = uleb_value bs"
    using uleb_value_pad [of "butlast bs @ [last bs OR 0x80]" "len - length bs - 1"] a by (simp add: padded_def)
  show "list_all has_more (butlast (padded len bs))" "\<not> has_more (last (padded len bs))"
    using assms digit_more(2) [of "last bs"] by (auto simp: padded_def butlast_append has_more_def list_all_iff)
qed

lemma update_at: "length a = k \<Longrightarrow> (a @ l # t)[k := (a @ l # t) ! k OR z] = a @ (l OR z) # t"
  by (auto simp: list_update_append nth_append)

lemma sub_uleb128_stores:
  assumes "bfd_read_unsigned_leb128 p c = Some (old, len)" "take_bit 32 v = v" "length (uleb_bytes v) \<le> len"
  shows "sub_uleb128_reloc p v c = Some (bfd_reloc_ok, take p c @ padded len (uleb_bytes v) @ drop (p + len) c)"
proof -
  let ?b = "uleb_bytes v"
  obtain xs y rest where sh: "drop p c = xs @ y # rest" "len = length xs + 1"
    using read_loop_shape [of "drop p c" 0 0 0 old len] assms(1) by (auto simp: bfd_read_unsigned_leb128_def)
  have "length (drop p c) = len + length rest" using sh by simp
  then have room: "p + len \<le> length c" "1 \<le> len" using sh(2) by (cases "p \<le> length c"; simp)+
  define c0 where "c0 = take p c @ replicate (len - 1) 0x80 @ [0] @ drop (p + len) c"
  have c0: "length c0 = length c" "take p c0 = take p c" "drop (p + len) c0 = drop (p + len) c"
    using room by (simp_all add: c0_def)
  have n: "1 \<le> length ?b" by (cases ?b) auto
  have w: "bfd_write_unsigned_leb128 p (p + len - 1) v c0 = (Some (p + length ?b), take p c @ ?b @ drop (p + length ?b) c0)"
    using write_uleb [of p v "p + len - 1" c0] assms(3) room c0 by simp
  have tail: "drop (p + length ?b) c0 = (if length ?b < len then replicate (len - length ?b - 1) 0x80 @ [0] else []) @ drop (p + len) c"
    using room n assms(3) by (auto simp: c0_def)
  define d where "d = take p c @ ?b @ drop (p + length ?b) c0"
  have res: "(if p + length ?b - 1 < p + len - 1 then d[p + length ?b - 1 := d ! (p + length ?b - 1) OR 0x80] else d) =
      take p c @ padded len ?b @ drop (p + len) c"
  proof (cases "length ?b < len")
    case True
    have split: "d = (take p c @ butlast ?b) @ last ?b # replicate (len - length ?b - 1) 0x80 @ [0] @ drop (p + len) c"
    proof -
      obtain xs l where "?b = xs @ [l]" using uleb_bytes_ne [of v] by (cases ?b rule: rev_cases) auto
      then show ?thesis unfolding d_def tail using True by simp
    qed
    have "length (take p c @ butlast ?b) = p + length ?b - 1" using n room by simp
    then have "d[p + length ?b - 1 := d ! (p + length ?b - 1) OR 0x80] =
        (take p c @ butlast ?b) @ (last ?b OR 0x80) # replicate (len - length ?b - 1) 0x80 @ [0] @ drop (p + len) c"
      unfolding split by (rule update_at)
    moreover have "p + length ?b - 1 < p + len - 1" using True n by simp
    ultimately show ?thesis using True by (simp add: padded_def)
  next
    case False
    then have "length ?b = len" using assms(3) by simp
    then show ?thesis using tail by (simp add: padded_def d_def)
  qed
  show ?thesis
    using assms(1,3) uleb128_length_bytes [OF assms(2)]
    unfolding sub_uleb128_reloc_def Let_def
    by (simp only: bind.simps prod.case c0_def [symmetric] w [folded d_def] option.case not_less [symmetric] if_not_P res simp_thms if_False)
qed

lemma sub_uleb128_refused:
  assumes "bfd_read_unsigned_leb128 p c = Some (old, len)" "take_bit 32 v = v" "len < length (uleb_bytes v)"
  shows "\<exists>c'. sub_uleb128_reloc p v c = Some (bfd_reloc_dangerous, c')"
  using assms(1,3) uleb128_length_bytes [OF assms(2)] by (simp add: sub_uleb128_reloc_def Let_def)

text \<open>
  C30. The relocation of a difference in a ULEB128 field of \<open>len\<close> bytes, for a value of 32 bits: if the
  value has at most \<open>7 * len\<close> bits, reading the field afterwards gives the value, the field still has
  \<open>len\<close> bytes, and the bytes around it are kept; otherwise the relocation is refused.
\<close>

theorem uleb128_relocation_roundtrip:
  assumes "bfd_read_unsigned_leb128 p c = Some (old, len)" "unat v < 2 ^ 32"
  shows "if unat v < 2 ^ (7 * len)
    then \<exists>c'. sub_uleb128_reloc p v c = Some (bfd_reloc_ok, c') \<and> bfd_read_unsigned_leb128 p c' = Some (v, len) \<and>
           length c' = length c \<and> take p c' = take p c \<and> drop (p + len) c' = drop (p + len) c
    else \<exists>c'. sub_uleb128_reloc p v c = Some (bfd_reloc_dangerous, c')"
proof -
  obtain xs y rest where sh: "drop p c = xs @ y # rest" "len = length xs + 1"
    using read_loop_shape [of "drop p c" 0 0 0 old len] assms(1) by (auto simp: bfd_read_unsigned_leb128_def)
  have "length (drop p c) = len + length rest" using sh by simp
  then have room: "p + len \<le> length c" using sh(2) by (cases "p \<le> length c") simp_all
  have "int (unat v) < int (2 ^ 32)" using assms(2) by (simp only: of_nat_less_iff)
  then have t: "take_bit 32 v = v" unfolding zext_eq_iff by simp
  have fits: "length (uleb_bytes v) \<le> len \<longleftrightarrow> unat v < 2 ^ (7 * len)"
    using uleb_bytes_length_le [of v "length xs"] sh(2) power_mult [of "2 :: nat" 7 len] by simp
  show ?thesis
  proof (cases "length (uleb_bytes v) \<le> len")
    case True
    define e where "e = padded len (uleb_bytes v)"
    note pp = padded_props [OF uleb_bytes_ne True, folded e_def] uleb_bytes_more [of v]
    have e: "length e = len" "list_all has_more (butlast e)" "\<not> has_more (last e)" "uleb_value e = v"
      using pp uleb_value_bytes [of v] by simp_all
    then have ne: "e \<noteq> []" using sh(2) by auto
    have "drop p (take p c @ e @ drop (p + len) c) = butlast e @ last e # drop (p + len) c"
      using ne room by simp
    from read_uleb128_value [OF this e(2,3)] have "bfd_read_unsigned_leb128 p (take p c @ e @ drop (p + len) c) = Some (v, len)"
      using ne e sh(2) by simp
    moreover have "sub_uleb128_reloc p v c = Some (bfd_reloc_ok, take p c @ e @ drop (p + len) c)"
      using sub_uleb128_stores [OF assms(1) t True] by (simp add: e_def)
    ultimately show ?thesis using True fits room e(1) by simp
  next
    case False
    then show ?thesis using fits sub_uleb128_refused [OF assms(1) t] by auto
  qed
qed

lemma uleb128_relocation_roundtrip_witness:
  "\<exists>c'. sub_uleb128_reloc 1 5 [7, 0xff, 0x01, 9] = Some (bfd_reloc_ok, c') \<and>
     bfd_read_unsigned_leb128 1 c' = Some (5, 2) \<and> drop 3 c' = [9]"
proof -
  have r: "bfd_read_unsigned_leb128 1 [7, 0xff, 0x01, 9] = Some (0xff, 2)"
    by (simp add: bfd_read_unsigned_leb128_def shl_def)
  show ?thesis using uleb128_relocation_roundtrip [OF r, of 5] by (auto simp: numeral_3_eq_3)
qed

text \<open>
  The length test reads only the low 32 bits of the value: for a value that needs more bytes than
  the field has, but whose low 32 bits do not, the writer returns the null pointer, and the code goes on
  to use it.
\<close>

theorem uleb128_long_value_undefined:
  assumes "bfd_read_unsigned_leb128 p c = Some (old, len)" "2 ^ (7 * len) \<le> unat v"
    and "uleb128_length (ucast v) \<le> len"
  shows "sub_uleb128_reloc p v c = None"
proof -
  obtain xs where len: "len = length (xs :: bfd_byte list) + 1"
    using read_loop_shape [of "drop p c" 0 0 0 old len] assms(1) by (auto simp: bfd_read_unsigned_leb128_def)
  have "len < length (uleb_bytes v)"
    using uleb_bytes_length_le [of v "length xs"] len assms(2) power_mult [of "2 :: nat" 7 len] by simp
  then obtain d where "bfd_write_unsigned_leb128 p (p + len - 1) v
      (take p c @ replicate (len - 1) 0x80 @ [0] @ drop (p + len) c) = (None, d)"
    using write_uleb_null [of "p + len - 1" p v] len by fastforce
  then show ?thesis using assms(1,3) by (simp add: sub_uleb128_reloc_def Let_def)
qed

lemma uleb128_long_value_undefined_witness: "sub_uleb128_reloc 0 0x100000000 [0x80, 0x01] = None"
proof -
  have r: "bfd_read_unsigned_leb128 0 [0x80, 0x01] = Some (0x80, 2)"
    by (simp add: bfd_read_unsigned_leb128_def shl_def)
  have l: "uleb128_length (ucast (0x100000000 :: 64 word)) \<le> 2" by (simp add: uleb128_length.simps)
  show ?thesis by (rule uleb128_long_value_undefined [OF r _ l]) simp
qed

end
