(* ===== verification/RV_Fix.thy ===== *)
theory RV_Fix
  imports RV_Link
begin

text \<open>
  Applying a fixup in the assembler (\<open>md_apply_fix\<close> of \<open>gas/config/tc-riscv.c\<close>) and the table of the
  high-part relocations seen so far (\<open>riscv_record_pcrel_fixup\<close>).

  The state is the fixup, the fixup inserted behind it, the fragment whose bytes are patched, the
  fragment in its \<open>fr_opcode\<close> (used for call frame information only), the table, the symbol marked as
  thread local, and the messages.  A fatal error, and an access outside a fragment or through a null
  pointer, end the function.
\<close>

section \<open>State\<close>

datatype fix_message = TLS_against_constant | Too_many_pcrel_hi | Bad_subtract

datatype fix_stop = Fatal_bad_CFA "8 word" | Fatal_bad_relocation bfd_reloc_code_real | Crash

record pcrel_hi_fixup =
  ph_symbol :: symbolS
  ph_target :: bfd_vma

record fix_state =
  fs_fix :: fixS
  fs_addnumber :: bfd_vma
  fs_next :: "fixS option"
  fs_frag :: fragS
  fs_opcode_frag :: fragS
  fs_in_opcode_frag :: bool
  fs_pcrel_hi :: "bfd_vma \<Rightarrow> pcrel_hi_fixup option"
  fs_thread_local :: "symbolS option"
  fs_messages :: "fix_message list"

type_synonym fix_result = "fix_stop + fix_state"

definition or_crash :: "'a option \<Rightarrow> ('a \<Rightarrow> fix_result) \<Rightarrow> fix_result" where
  "or_crash x k = (case x of None \<Rightarrow> Inl Crash | Some a \<Rightarrow> k a)"

definition fix_bind :: "fix_result \<Rightarrow> (fix_state \<Rightarrow> fix_result) \<Rightarrow> fix_result" where
  "fix_bind r k = (case r of Inl e \<Rightarrow> Inl e | Inr s \<Rightarrow> k s)"

definition add_message :: "fix_message \<Rightarrow> fix_state \<Rightarrow> fix_state" where
  "add_message m s = s\<lparr>fs_messages := fs_messages s @ [m]\<rparr>"

definition set_fix :: "(fixS \<Rightarrow> fixS) \<Rightarrow> fix_state \<Rightarrow> fix_state" where
  "set_fix f s = s\<lparr>fs_fix := f (fs_fix s)\<rparr>"

definition set_next :: "(fixS \<Rightarrow> fixS) \<Rightarrow> fix_state \<Rightarrow> fix_state" where
  "set_next f s = s\<lparr>fs_next := map_option f (fs_next s)\<rparr>"

definition md_pcrel_from :: "fix_state \<Rightarrow> bfd_vma" where
  "md_pcrel_from s = of_nat (fx_where (fs_fix s)) + fr_address (fs_frag s)"

text \<open>\<open>buf\<close> is the address of the fixup in its fragment; \<open>n\<close> bytes there are or-ed with \<open>bits\<close>.\<close>

definition or_buf :: "nat \<Rightarrow> 64 word \<Rightarrow> fix_state \<Rightarrow> fix_result" where
  "or_buf n bits s =
     or_crash (do {
         old \<leftarrow> get_le n (fx_where (fs_fix s)) (fr_literal (fs_frag s));
         put_le n (old OR bits) (fx_where (fs_fix s)) (fr_literal (fs_frag s))
       })
       (\<lambda>lit. Inr (s\<lparr>fs_frag := (fs_frag s)\<lparr>fr_literal := lit\<rparr>\<rparr>))"

definition md_number_to_chars :: "bfd_vma \<Rightarrow> nat \<Rightarrow> fix_state \<Rightarrow> fix_result" where
  "md_number_to_chars val n s =
     or_crash (if n = 0 then None else put_le n val (fx_where (fs_fix s)) (fr_literal (fs_frag s)))
       (\<lambda>lit. Inr (s\<lparr>fs_frag := (fs_frag s)\<lparr>fr_literal := lit\<rparr>\<rparr>))"

section \<open>The table of the high parts\<close>

text \<open>The entries are compared by their address, and a new one replaces the old one.\<close>

definition riscv_record_pcrel_fixup :: "bfd_vma \<Rightarrow> symbolS \<Rightarrow> bfd_vma \<Rightarrow> fix_state \<Rightarrow> fix_state" where
  "riscv_record_pcrel_fixup address symbol target s =
     s\<lparr>fs_pcrel_hi := (fs_pcrel_hi s)(address \<mapsto> \<lparr>ph_symbol = symbol, ph_target = target\<rparr>)\<rparr>"

section \<open>The cases\<close>

definition apply_branch :: "nat \<Rightarrow> (insn_t \<Rightarrow> insn_t) \<Rightarrow> bfd_vma \<Rightarrow> fix_state \<Rightarrow> fix_result" where
  "apply_branch n enc val s =
     (case fx_addsy (fs_fix s) of
        None \<Rightarrow> Inr s
      | Some symbol \<Rightarrow>
          (let target = sym_value symbol + val; delta = target - md_pcrel_from s
           in or_buf n (enc delta) s))"

definition apply_tls :: "fix_state \<Rightarrow> fix_state" where
  "apply_tls s =
     (case fx_addsy (fs_fix s) of
        Some symbol \<Rightarrow> s\<lparr>fs_thread_local := Some symbol\<rparr>
      | None \<Rightarrow> add_message TLS_against_constant s)"

text \<open>The case \<open>BFD_RELOC_RISCV_CFA\<close> of a difference: the byte in front selects the operation.\<close>

abbreviation (input) DW_CFA_advance_loc1 :: "8 word" where "DW_CFA_advance_loc1 \<equiv> 2"
abbreviation (input) DW_CFA_advance_loc2 :: "8 word" where "DW_CFA_advance_loc2 \<equiv> 3"
abbreviation (input) DW_CFA_advance_loc4 :: "8 word" where "DW_CFA_advance_loc4 \<equiv> 4"

definition apply_cfa :: "fix_state \<Rightarrow> fix_result" where
  "apply_cfa s =
     (let at = fx_where (fs_fix s)
      in if length (fr_literal (fs_opcode_frag s)) \<le> at then Inl Crash
         else
           (let subtype = fr_literal (fs_opcode_frag s) ! at;
                back = unat (subtype AND 7)
            in if subtype \<in> {DW_CFA_advance_loc1, DW_CFA_advance_loc2, DW_CFA_advance_loc4}
               then if fr_fix (fs_frag s) < back then Inl Crash
                    else
                      (let loc = fr_fix (fs_frag s) - back
                       in if subtype = DW_CFA_advance_loc1
                          then Inr (set_next (\<lambda>x. x\<lparr>fx_where := loc + 1, fx_r_type := BFD_RELOC_RISCV_SUB8\<rparr>)
                                (set_fix (\<lambda>x. x\<lparr>fx_where := loc + 1, fx_r_type := BFD_RELOC_RISCV_SET8\<rparr>) s))
                          else if subtype = DW_CFA_advance_loc2
                          then Inr (set_next (\<lambda>x. x\<lparr>fx_size := 2, fx_where := loc + 1, fx_r_type := BFD_RELOC_RISCV_SUB16\<rparr>)
                                (set_fix (\<lambda>x. x\<lparr>fx_size := 2, fx_where := loc + 1, fx_r_type := BFD_RELOC_RISCV_SET16\<rparr>) s))
                          else Inr (set_next (\<lambda>x. x\<lparr>fx_size := 4, fx_where := loc, fx_r_type := BFD_RELOC_RISCV_SUB32\<rparr>)
                                (set_fix (\<lambda>x. x\<lparr>fx_size := 4, fx_where := loc, fx_r_type := BFD_RELOC_RISCV_SET32\<rparr>) s)))
               else if subtype < 0x80 \<and> subtype AND 0x40 \<noteq> 0
               then Inr (set_next (\<lambda>x. x\<lparr>fx_r_type := BFD_RELOC_RISCV_SUB6\<rparr>)
                     (set_fix (\<lambda>x. x\<lparr>fx_r_type := BFD_RELOC_RISCV_SET6\<rparr>) (s\<lparr>fs_in_opcode_frag := True\<rparr>)))
               else Inl (Fatal_bad_CFA subtype)))"

text \<open>A difference of two symbols becomes a pair of fixups.\<close>

definition apply_difference :: "fix_state \<Rightarrow> fix_result" where
  "apply_difference s =
     (if fx_addsy (fs_fix s) \<noteq> None \<and> fx_subsy (fs_fix s) \<noteq> None
      then
        (let next = (fs_fix s)\<lparr>fx_addsy := fx_subsy (fs_fix s), fx_subsy := None, fx_offset := 0\<rparr>;
             s = set_fix (\<lambda>x. x\<lparr>fx_subsy := None\<rparr>) (s\<lparr>fs_next := Some next\<rparr>);
             pair = (\<lambda>add sub. Inr (set_next (\<lambda>x. x\<lparr>fx_r_type := sub\<rparr>) (set_fix (\<lambda>x. x\<lparr>fx_r_type := add\<rparr>) s)))
         in case fx_r_type (fs_fix s) of
              BFD_RELOC_64 \<Rightarrow> pair BFD_RELOC_RISCV_ADD64 BFD_RELOC_RISCV_SUB64
            | BFD_RELOC_32 \<Rightarrow> pair BFD_RELOC_RISCV_ADD32 BFD_RELOC_RISCV_SUB32
            | BFD_RELOC_16 \<Rightarrow> pair BFD_RELOC_RISCV_ADD16 BFD_RELOC_RISCV_SUB16
            | BFD_RELOC_8 \<Rightarrow> pair BFD_RELOC_RISCV_ADD8 BFD_RELOC_RISCV_SUB8
            | BFD_RELOC_RISCV_CFA \<Rightarrow> apply_cfa s
            | _ \<Rightarrow> Inl Crash)
      else Inr s)"

definition apply_rva :: "bfd_vma \<Rightarrow> fix_state \<Rightarrow> fix_result" where
  "apply_rva val s =
     (if fx_addsy (fs_fix s) = None
      then if fx_size (fs_fix s) \<le> 8
           then fix_bind (md_number_to_chars val (fx_size (fs_fix s)) s) (\<lambda>s. Inr (set_fix (\<lambda>x. x\<lparr>fx_done := True\<rparr>) s))
           else Inl Crash
      else Inr s)"

definition eh_frame_start :: "fix_state \<Rightarrow> bool" where
  "eh_frame_start s \<longleftrightarrow>
     (case (fx_addsy (fs_fix s), fx_subsy (fs_fix s)) of
        (Some _, Some sub) \<Rightarrow>
          sec_name (sym_segment sub) = ''.eh_frame'' \<and>
          sym_value sub = fr_address (fs_frag s) + of_nat (fx_where (fs_fix s))
      | _ \<Rightarrow> False)"

definition apply_pcrel_hi :: "bool \<Rightarrow> bfd_vma \<Rightarrow> asection \<Rightarrow> fix_state \<Rightarrow> fix_result" where
  "apply_pcrel_hi relax val seg s =
     (case fx_addsy (fs_fix s) of
        None \<Rightarrow> Inr s
      | Some symbol \<Rightarrow>
          if sym_local symbol \<and> sym_segment symbol = seg
          then
            (let target = sym_value symbol + val; value = target - md_pcrel_from s;
                 s = riscv_record_pcrel_fixup (md_pcrel_from s) symbol target s
             in fix_bind (or_buf 4 (ENCODE_UTYPE_IMM (RISCV_CONST_HIGH_PART value)) s)
                  (\<lambda>s. Inr (if relax then s else set_fix (\<lambda>x. x\<lparr>fx_done := True\<rparr>) s)))
          else Inr s)"

definition apply_pcrel_lo :: "bool \<Rightarrow> bfd_vma \<Rightarrow> asection \<Rightarrow> fix_state \<Rightarrow> fix_result" where
  "apply_pcrel_lo relax val seg s =
     (case fx_addsy (fs_fix s) of
        None \<Rightarrow> Inl Crash
      | Some symbol \<Rightarrow>
          (let location_pcrel_hi = sym_value symbol + val
           in case fs_pcrel_hi s location_pcrel_hi of
                None \<Rightarrow> Inr s
              | Some entry \<Rightarrow>
                  if sym_local (ph_symbol entry) \<and> sym_segment (ph_symbol entry) = seg
                  then
                    (let value = ph_target entry - location_pcrel_hi
                     in fix_bind (or_buf 4 (ENCODE_ITYPE_IMM value) s)
                          (\<lambda>s. Inr (if relax then s else set_fix (\<lambda>x. x\<lparr>fx_done := True\<rparr>) s)))
                  else Inr s))"

section \<open>The function\<close>

text \<open>The end of the function: a left-over subtraction, and the marker for the linker.\<close>

definition finish_fix :: "bool \<Rightarrow> fix_state \<Rightarrow> fix_result" where
  "finish_fix relaxable s =
     (let s = (if fx_subsy (fs_fix s) \<noteq> None then add_message Bad_subtract s else s)
      in Inr (if relaxable \<and> fx_tcbit (fs_fix s) \<and> fx_addsy (fs_fix s) \<noteq> None
              then s\<lparr>fs_next := Some ((fs_fix s)\<lparr>fx_addsy := None, fx_subsy := None,
                       fx_r_type := BFD_RELOC_RISCV_RELAX, fx_size := 0\<rparr>)\<rparr>
              else s))"

abbreviation (input) plain_data :: "bfd_reloc_code_real list" where
  "plain_data \<equiv> [BFD_RELOC_64, BFD_RELOC_16, BFD_RELOC_8, BFD_RELOC_RISCV_CFA]"

definition apply_const :: "bfd_vma \<Rightarrow> fix_state \<Rightarrow> fix_result" where
  "apply_const val s =
     or_crash (riscv_apply_const_reloc (fx_r_type (fs_fix s)) val)
       (\<lambda>bits. fix_bind (or_buf 4 bits s)
          (\<lambda>s. Inr (if fx_addsy (fs_fix s) = None then set_fix (\<lambda>x. x\<lparr>fx_done := True\<rparr>) s else s)))"

text \<open>\<open>M_LA\<close> and \<open>M_LGA\<close> are the numbers of the two macros.\<close>

definition md_apply_fix :: "int \<Rightarrow> int \<Rightarrow> bool \<Rightarrow> bfd_vma \<Rightarrow> asection \<Rightarrow> fix_state \<Rightarrow> fix_result" where
  "md_apply_fix M_LA M_LGA relax val seg s =
     (let s = s\<lparr>fs_addnumber := val\<rparr>; type = fx_r_type (fs_fix s)
      in if type \<in> {BFD_RELOC_RISCV_HI20, BFD_RELOC_RISCV_LO12_I, BFD_RELOC_RISCV_LO12_S}
         then fix_bind (apply_const val s) (finish_fix True)
         else if type = BFD_RELOC_RISCV_GOT_HI20
         then finish_fix (fx_source_macro (fs_fix s) = M_LA \<or> fx_source_macro (fs_fix s) = M_LGA) s
         else if type \<in> {BFD_RELOC_RISCV_ADD8, BFD_RELOC_RISCV_ADD16, BFD_RELOC_RISCV_ADD32, BFD_RELOC_RISCV_ADD64,
                         BFD_RELOC_RISCV_SUB6, BFD_RELOC_RISCV_SUB8, BFD_RELOC_RISCV_SUB16, BFD_RELOC_RISCV_SUB32,
                         BFD_RELOC_RISCV_SUB64, BFD_RELOC_RISCV_RELAX, BFD_RELOC_RISCV_SET_ULEB128,
                         BFD_RELOC_RISCV_SUB_ULEB128}
         then finish_fix False s
         else if type \<in> {BFD_RELOC_RISCV_TPREL_HI20, BFD_RELOC_RISCV_TPREL_LO12_I, BFD_RELOC_RISCV_TPREL_LO12_S,
                         BFD_RELOC_RISCV_TPREL_ADD}
         then finish_fix True (apply_tls s)
         else if type \<in> {BFD_RELOC_RISCV_TLS_GOT_HI20, BFD_RELOC_RISCV_TLS_GD_HI20, BFD_RELOC_RISCV_TLS_DTPREL32,
                         BFD_RELOC_RISCV_TLS_DTPREL64}
         then finish_fix False (apply_tls s)
         else if type = BFD_RELOC_32 \<and> eh_frame_start s
         then finish_fix False (set_fix (\<lambda>x. x\<lparr>fx_r_type := BFD_RELOC_RISCV_32_PCREL, fx_subsy := None\<rparr>) s)
         else if type = BFD_RELOC_32 \<or> type \<in> set plain_data
         then fix_bind (apply_difference s) (\<lambda>s. fix_bind (apply_rva val s) (finish_fix False))
         else if type = BFD_RELOC_RVA then fix_bind (apply_rva val s) (finish_fix False)
         else if type = BFD_RELOC_RISCV_JMP then fix_bind (apply_branch 4 ENCODE_JTYPE_IMM val s) (finish_fix False)
         else if type = BFD_RELOC_12_PCREL then fix_bind (apply_branch 4 ENCODE_BTYPE_IMM val s) (finish_fix False)
         else if type = BFD_RELOC_RISCV_RVC_BRANCH
         then fix_bind (apply_branch 2 ENCODE_CBTYPE_IMM val s) (finish_fix False)
         else if type = BFD_RELOC_RISCV_RVC_JUMP
         then fix_bind (apply_branch 2 ENCODE_CJTYPE_IMM val s) (finish_fix False)
         else if type = BFD_RELOC_RISCV_CALL \<or> type = BFD_RELOC_RISCV_CALL_PLT then finish_fix True s
         else if type = BFD_RELOC_RISCV_PCREL_HI20
         then fix_bind (apply_pcrel_hi relax val seg s) (finish_fix True)
         else if type = BFD_RELOC_RISCV_PCREL_LO12_S \<or> type = BFD_RELOC_RISCV_PCREL_LO12_I
         then fix_bind (apply_pcrel_lo relax val seg s) (finish_fix True)
         else if type = BFD_RELOC_RISCV_ALIGN then finish_fix False s
         else if riscv_reloc_type_lookup type \<noteq> None then Inl (Fatal_bad_relocation type)
         else finish_fix False s)"

section \<open>Branches\<close>

lemma encode_zero:
  "ENCODE_BTYPE_IMM 0 = 0" "ENCODE_JTYPE_IMM 0 = 0" "ENCODE_CBTYPE_IMM 0 = 0" "ENCODE_CJTYPE_IMM 0 = 0"
  "ENCODE_ITYPE_IMM 0 = 0" "ENCODE_STYPE_IMM 0 = 0"
  by code_simp+

text \<open>The fixups of branches: code, width, encoding and decoding.\<close>

definition branch_fixups ::
    "(bfd_reloc_code_real \<times> nat \<times> (insn_t \<Rightarrow> insn_t) \<times> (insn_t \<Rightarrow> insn_t)) set" where
  "branch_fixups =
     {(BFD_RELOC_RISCV_JMP, 4, ENCODE_JTYPE_IMM, EXTRACT_JTYPE_IMM),
      (BFD_RELOC_12_PCREL, 4, ENCODE_BTYPE_IMM, EXTRACT_BTYPE_IMM),
      (BFD_RELOC_RISCV_RVC_BRANCH, 2, ENCODE_CBTYPE_IMM, EXTRACT_CBTYPE_IMM),
      (BFD_RELOC_RISCV_RVC_JUMP, 2, ENCODE_CJTYPE_IMM, EXTRACT_CJTYPE_IMM)}"

lemma branch_fixups_format:
  "(t, n, enc, ext) \<in> branch_fixups \<Longrightarrow> imm_format enc ext \<and> enc 0 = 0 \<and> take_bit (8 * n) (enc (- 1)) = enc (- 1)"
  unfolding branch_fixups_def
  using btype.imm_format_axioms jtype.imm_format_axioms cbtype.imm_format_axioms cjtype.imm_format_axioms
  by (auto simp: encode_zero insn_masks)

lemma or_empty_field:
  assumes "imm_format enc ext" "enc 0 = 0" "ext w = 0"
  shows "w OR enc v = patch (enc (- 1)) w (enc v)" "ext (w OR enc v) = ext (enc v)"
proof -
  have m: "w AND enc (- 1) = 0" using imm_format.enc_ext [OF assms(1), of w] assms(2,3) by simp
  have e: "enc v AND enc (- 1) = enc v" by (rule imm_format.enc_local [OF assms(1)])
  have "w AND NOT (enc (- 1)) = w"
  proof (rule bit_word_eqI)
    fix i
    assume "i < LENGTH(64)"
    then show "bit (w AND NOT (enc (- 1))) i = bit w i"
      using arg_cong [OF m, of "\<lambda>x. bit x i"] by (auto simp: bit_simps)
  qed
  then show p: "w OR enc v = patch (enc (- 1)) w (enc v)" by (simp add: patch_def e)
  show "ext (w OR enc v) = ext (enc v)"
    using imm_format.ext_patch [OF assms(1), of w v] unfolding p by (simp add: patch_def e)
qed

text \<open>The state behind a fixup that patched the bytes.\<close>

lemma or_buf_stored:
  assumes "get_le n (fx_where (fs_fix s)) (fr_literal (fs_frag s)) = Some w"
    and "take_bit (8 * n) m = m" "w OR bits = patch m w bits"
  shows "\<exists>lit. or_buf n bits s = Inr (s\<lparr>fs_frag := (fs_frag s)\<lparr>fr_literal := lit\<rparr>\<rparr>) \<and>
           stored n (fx_where (fs_fix s)) (w OR bits) (fr_literal (fs_frag s)) lit"
  using put_patch [OF assms(1,2), of bits] assms(1,3) by (auto simp: or_buf_def or_crash_def)

lemma apply_branch_stored:
  assumes "(t, n, enc, ext) \<in> branch_fixups" "fx_r_type (fs_fix s) = t" "fx_subsy (fs_fix s) = None"
    and "fx_addsy (fs_fix s) = Some symbol" "get_le n (fx_where (fs_fix s)) (fr_literal (fs_frag s)) = Some w"
    and "ext w = 0" "delta = sym_value symbol + val - md_pcrel_from s"
  shows "\<exists>s'. md_apply_fix la lga relax val seg s = Inr s' \<and> fs_messages s' = fs_messages s \<and>
    fr_fix (fs_frag s') = fr_fix (fs_frag s) \<and>
    stored n (fx_where (fs_fix s)) (w OR enc delta) (fr_literal (fs_frag s)) (fr_literal (fs_frag s')) \<and>
    ext (w OR enc delta) = ext (enc delta)"
proof -
  have f: "imm_format enc ext" "enc 0 = 0" "take_bit (8 * n) (enc (- 1)) = enc (- 1)"
    using branch_fixups_format [OF assms(1)] by blast+
  let ?s = "s\<lparr>fs_addnumber := val\<rparr>"
  obtain lit where lit: "or_buf n (enc delta) ?s = Inr (?s\<lparr>fs_frag := (fs_frag s)\<lparr>fr_literal := lit\<rparr>\<rparr>)"
      "stored n (fx_where (fs_fix s)) (w OR enc delta) (fr_literal (fs_frag s)) lit"
    using or_buf_stored [of n ?s w, OF _ f(3) or_empty_field(1) [OF f(1,2) assms(6)], of delta] assms(5) by auto
  have "md_pcrel_from ?s = md_pcrel_from s" by (simp add: md_pcrel_from_def)
  then have b: "apply_branch n enc val ?s = Inr (?s\<lparr>fs_frag := (fs_frag s)\<lparr>fr_literal := lit\<rparr>\<rparr>)"
    using assms(4,7) lit(1) by (simp add: apply_branch_def)
  have "md_apply_fix la lga relax val seg s = fix_bind (apply_branch n enc val ?s) (finish_fix False)"
    using assms(1,2) unfolding branch_fixups_def by (auto simp: md_apply_fix_def)
  then have "md_apply_fix la lga relax val seg s = Inr (?s\<lparr>fs_frag := (fs_frag s)\<lparr>fr_literal := lit\<rparr>\<rparr>)"
    using b assms(3) by (simp add: fix_bind_def finish_fix_def)
  then show ?thesis using lit(2) or_empty_field(2) [OF f(1,2) assms(6)] by simp
qed

section \<open>The halves of a PC-relative address\<close>

lemma or_buf_bits:
  assumes "get_le n (fx_where (fs_fix s)) (fr_literal (fs_frag s)) = Some w" "take_bit (8 * n) bits = bits"
  shows "\<exists>lit. or_buf n bits s = Inr (s\<lparr>fs_frag := (fs_frag s)\<lparr>fr_literal := lit\<rparr>\<rparr>) \<and>
           stored n (fx_where (fs_fix s)) (w OR bits) (fr_literal (fs_frag s)) lit"
proof (rule or_buf_stored [OF assms(1), of bits])
  show "w OR bits = patch bits w bits" by (rule bit_word_eqI) (auto simp: patch_def bit_simps)
qed (rule assms(2))

lemma encode_bound:
  "take_bit 32 (ENCODE_UTYPE_IMM v) = ENCODE_UTYPE_IMM v" "take_bit 32 (ENCODE_ITYPE_IMM v) = ENCODE_ITYPE_IMM v"
proof -
  have b: "take_bit 32 x = x" if "x AND m = x" "take_bit 32 m = m" for x m :: "64 word"
  proof -
    have "bit x i \<Longrightarrow> i < 32" for i using that by (metis bit_and_iff bit_take_bit_iff)
    then show ?thesis by (intro bit_word_eqI) (auto simp: bit_take_bit_iff)
  qed
  show "take_bit 32 (ENCODE_UTYPE_IMM v) = ENCODE_UTYPE_IMM v"
    by (rule b [OF utype.enc_local]) (simp add: insn_masks)
  show "take_bit 32 (ENCODE_ITYPE_IMM v) = ENCODE_ITYPE_IMM v"
    by (rule b [OF itype.enc_local]) (simp add: insn_masks)
qed

lemma apply_hi:
  assumes "fx_r_type (fs_fix s) = BFD_RELOC_RISCV_PCREL_HI20" "fx_addsy (fs_fix s) = Some symbol" "fx_subsy (fs_fix s) = None"
    and "sym_local symbol" "sym_segment symbol = seg"
    and "get_le 4 (fx_where (fs_fix s)) (fr_literal (fs_frag s)) = Some w"
    and "target = sym_value symbol + val"
  shows "\<exists>s'. md_apply_fix la lga relax val seg s = Inr s' \<and> (\<not> relax \<longrightarrow> fx_done (fs_fix s')) \<and>
    fs_pcrel_hi s' = (fs_pcrel_hi s)(md_pcrel_from s \<mapsto> \<lparr>ph_symbol = symbol, ph_target = target\<rparr>) \<and>
    stored 4 (fx_where (fs_fix s)) (w OR ENCODE_UTYPE_IMM (RISCV_CONST_HIGH_PART (target - md_pcrel_from s)))
      (fr_literal (fs_frag s)) (fr_literal (fs_frag s'))"
proof -
  let ?s = "riscv_record_pcrel_fixup (md_pcrel_from s) symbol target (s\<lparr>fs_addnumber := val\<rparr>)"
  let ?b = "ENCODE_UTYPE_IMM (RISCV_CONST_HIGH_PART (target - md_pcrel_from s))"
  have same: "fs_fix ?s = fs_fix s" "fs_frag ?s = fs_frag s" "md_pcrel_from (s\<lparr>fs_addnumber := val\<rparr>) = md_pcrel_from s"
      "fs_pcrel_hi ?s = (fs_pcrel_hi s)(md_pcrel_from s \<mapsto> \<lparr>ph_symbol = symbol, ph_target = target\<rparr>)"
    by (simp_all add: riscv_record_pcrel_fixup_def md_pcrel_from_def)
  obtain lit where lit: "or_buf 4 ?b ?s = Inr (?s\<lparr>fs_frag := (fs_frag s)\<lparr>fr_literal := lit\<rparr>\<rparr>)"
      "stored 4 (fx_where (fs_fix s)) (w OR ?b) (fr_literal (fs_frag s)) lit"
    using or_buf_bits [of 4 ?s w ?b] assms(6) encode_bound(1) same by auto
  have hi: "apply_pcrel_hi relax val seg (s\<lparr>fs_addnumber := val\<rparr>) =
      Inr (if relax then ?s\<lparr>fs_frag := (fs_frag s)\<lparr>fr_literal := lit\<rparr>\<rparr>
           else set_fix (\<lambda>x. x\<lparr>fx_done := True\<rparr>) (?s\<lparr>fs_frag := (fs_frag s)\<lparr>fr_literal := lit\<rparr>\<rparr>))"
    using assms(2,4,5,7) lit(1) same(3) by (simp add: apply_pcrel_hi_def fix_bind_def Let_def)
  have "md_apply_fix la lga relax val seg s = fix_bind (apply_pcrel_hi relax val seg (s\<lparr>fs_addnumber := val\<rparr>)) (finish_fix True)"
    using assms(1) by (simp add: md_apply_fix_def)
  then show ?thesis
    using hi lit(2) same by (auto simp: fix_bind_def finish_fix_def set_fix_def add_message_def Let_def)
qed

lemma apply_lo:
  assumes "fx_r_type (fs_fix s) \<in> {BFD_RELOC_RISCV_PCREL_LO12_I, BFD_RELOC_RISCV_PCREL_LO12_S}"
    and "fx_addsy (fs_fix s) = Some label"
    and "fs_pcrel_hi s (sym_value label + val) = Some \<lparr>ph_symbol = symbol, ph_target = target\<rparr>"
    and "sym_local symbol" "sym_segment symbol = seg"
    and "get_le 4 (fx_where (fs_fix s)) (fr_literal (fs_frag s)) = Some w"
  shows "\<exists>s'. md_apply_fix la lga relax val seg s = Inr s' \<and> (\<not> relax \<longrightarrow> fx_done (fs_fix s')) \<and>
    stored 4 (fx_where (fs_fix s)) (w OR ENCODE_ITYPE_IMM (target - (sym_value label + val)))
      (fr_literal (fs_frag s)) (fr_literal (fs_frag s'))"
proof -
  let ?s = "s\<lparr>fs_addnumber := val\<rparr>" and ?b = "ENCODE_ITYPE_IMM (target - (sym_value label + val))"
  obtain lit where lit: "or_buf 4 ?b ?s = Inr (?s\<lparr>fs_frag := (fs_frag s)\<lparr>fr_literal := lit\<rparr>\<rparr>)"
      "stored 4 (fx_where (fs_fix s)) (w OR ?b) (fr_literal (fs_frag s)) lit"
    using or_buf_bits [of 4 ?s w ?b] assms(6) encode_bound(2) by auto
  have lo: "apply_pcrel_lo relax val seg ?s =
      Inr (if relax then ?s\<lparr>fs_frag := (fs_frag s)\<lparr>fr_literal := lit\<rparr>\<rparr>
           else set_fix (\<lambda>x. x\<lparr>fx_done := True\<rparr>) (?s\<lparr>fs_frag := (fs_frag s)\<lparr>fr_literal := lit\<rparr>\<rparr>))"
    using assms(2-5) lit(1) by (simp add: apply_pcrel_lo_def fix_bind_def Let_def)
  have "md_apply_fix la lga relax val seg s = fix_bind (apply_pcrel_lo relax val seg ?s) (finish_fix True)"
    using assms(1) by (auto simp: md_apply_fix_def)
  then show ?thesis
    using lo lit(2) by (auto simp: fix_bind_def finish_fix_def set_fix_def add_message_def Let_def)
qed

lemma or_utype_itype:
  "EXTRACT_UTYPE_IMM w = 0 \<Longrightarrow> EXTRACT_UTYPE_IMM (w OR ENCODE_UTYPE_IMM v) = EXTRACT_UTYPE_IMM (ENCODE_UTYPE_IMM v)"
  "EXTRACT_ITYPE_IMM w = 0 \<Longrightarrow> EXTRACT_ITYPE_IMM (w OR ENCODE_ITYPE_IMM v) = EXTRACT_ITYPE_IMM (ENCODE_ITYPE_IMM v)"
proof -
  have "ENCODE_UTYPE_IMM 0 = 0" by code_simp
  then show "EXTRACT_UTYPE_IMM w = 0 \<Longrightarrow> EXTRACT_UTYPE_IMM (w OR ENCODE_UTYPE_IMM v) = EXTRACT_UTYPE_IMM (ENCODE_UTYPE_IMM v)"
    using or_empty_field(2) [OF utype.imm_format_axioms] by blast
  show "EXTRACT_ITYPE_IMM w = 0 \<Longrightarrow> EXTRACT_ITYPE_IMM (w OR ENCODE_ITYPE_IMM v) = EXTRACT_ITYPE_IMM (ENCODE_ITYPE_IMM v)"
    using or_empty_field(2) [OF itype.imm_format_axioms encode_zero(5)] by blast
qed


definition test_fix :: "bfd_reloc_code_real \<Rightarrow> nat \<Rightarrow> symbolS \<Rightarrow> fix_state" where
  "test_fix type at symbol =
     \<lparr>fs_fix = \<lparr>fx_where = at, fx_size = 4, fx_r_type = type, fx_addsy = Some symbol, fx_subsy = None,
        fx_offset = 0, fx_done = False, fx_tcbit = False, fx_source_macro = - 1\<rparr>,
      fs_addnumber = 0, fs_next = None,
      fs_frag = \<lparr>fr_address = 0, fr_fix = 12, fr_var = 0, fr_subtype = 0, fr_symbol = None, fr_offset = 0,
        fr_literal = [0x17, 0x05, 0, 0, 0x13, 0x05, 0x05, 0, 0x23, 0x20, 0xb5, 0]\<rparr>,
      fs_opcode_frag = \<lparr>fr_address = 0, fr_fix = 0, fr_var = 0, fr_subtype = 0, fr_symbol = None, fr_offset = 0,
        fr_literal = []\<rparr>,
      fs_in_opcode_frag = False, fs_pcrel_hi = Map.empty, fs_thread_local = None, fs_messages = []\<rparr>"


text \<open>
  C37. The low half of a store is put into the wrong field: for \<open>%pcrel_lo\<close> in an S-type instruction the
  code uses the I-type encoding, whose low bits are the field of the source register.  The register
  number is or-ed with the low five bits of the distance, which are missing in the offset, and without
  linker relaxation the fixup is done, so that nothing corrects it.
\<close>

theorem pcrel_lo12_s_misencoded:
  assumes "fx_r_type (fs_fix s) = BFD_RELOC_RISCV_PCREL_LO12_S" "fx_addsy (fs_fix s) = Some label"
    and "fs_pcrel_hi s (sym_value label + val) = Some \<lparr>ph_symbol = symbol, ph_target = target\<rparr>"
    and "sym_local symbol" "sym_segment symbol = seg"
    and "get_le 4 (fx_where (fs_fix s)) (fr_literal (fs_frag s)) = Some w" "EXTRACT_STYPE_IMM w = 0"
    and "d = target - (sym_value label + val)"
  shows "\<exists>s' w'. md_apply_fix la lga False val seg s = Inr s' \<and> fx_done (fs_fix s') \<and>
    get_le 4 (fx_where (fs_fix s)) (fr_literal (fs_frag s')) = Some w' \<and>
    insn_rs2 w' = unat (of_nat (insn_rs2 w) OR (d AND 0x1f)) \<and>
    EXTRACT_STYPE_IMM w' = RISCV_CONST_LOW_PART d AND NOT 0x1f"
proof -
  let ?w = "w OR ENCODE_ITYPE_IMM d"
  obtain s' where s': "md_apply_fix la lga False val seg s = Inr s'" "fx_done (fs_fix s')"
      "get_le 4 (fx_where (fs_fix s)) (fr_literal (fs_frag s')) = Some ?w"
    using apply_lo [OF _ assms(2-6), of la lga False] assms(1,8) by (auto simp: stored_def)
  have e: "ENCODE_ITYPE_IMM d = shl (d AND 0xfff) 20" by (rule w64_eqI) (simp add: cbits ENCODE_ITYPE_IMM_def)
  have m: "w AND 0xfe000f80 = 0" using stype.enc_ext [of w] assms(7) by (simp add: encode_zero insn_masks)
  have "shr ?w 20 AND 0x1f = (shr w 20 AND 0x1f) OR (d AND 0x1f)" unfolding e by (rule w64_eqI) (simp add: cbits)
  then have "insn_rs2 ?w = unat (of_nat (insn_rs2 w) OR (d AND 0x1f))" by (simp add: insn_rs2_def)
  moreover have "EXTRACT_STYPE_IMM ?w = RISCV_CONST_LOW_PART d AND NOT 0x1f"
  proof -
    have "?w AND ENCODE_STYPE_IMM (- 1) = (w AND 0xfe000f80) OR (shl (d AND 0xfe0) 20)"
      unfolding e insn_masks by (rule w64_eqI) (simp add: cbits)
    also have "\<dots> = ENCODE_STYPE_IMM (d AND 0xfe0)"
      unfolding m by (rule w64_eqI) (simp add: cbits ENCODE_STYPE_IMM_def)
    finally have "EXTRACT_STYPE_IMM ?w = EXTRACT_STYPE_IMM (ENCODE_STYPE_IMM (d AND 0xfe0))"
      using stype.ext_local [of ?w] stype.ext_local [of "ENCODE_STYPE_IMM (d AND 0xfe0)"] stype.enc_local by metis
    also have "\<dots> = signed_take_bit 11 (d AND 0xfe0)" by (simp add: stype.ext_enc)
    also have "\<dots> = signed_take_bit 11 d AND NOT 0x1f" by (rule w64_eqI) (simp add: cbits bit_simps)
    also have "signed_take_bit 11 d = RISCV_CONST_LOW_PART d" using low_part_sext [of d] by (simp add: itype.ext_enc)
    finally show ?thesis .
  qed
  ultimately show ?thesis using s' by blast
qed

lemma pcrel_lo12_s_misencoded_witness:
  "\<exists>s' w'. md_apply_fix 0 1 False 0 (sym_segment test_symbol)
      ((test_fix BFD_RELOC_RISCV_PCREL_LO12_S 8 (test_symbol\<lparr>sym_value := 0\<rparr>))
        \<lparr>fs_pcrel_hi := [0 \<mapsto> \<lparr>ph_symbol = test_symbol, ph_target = 5004\<rparr>]\<rparr>) = Inr s' \<and>
    get_le 4 8 (fr_literal (fs_frag s')) = Some w' \<and> insn_rs2 0x00b52023 = 11 \<and> insn_rs2 w' = 15"
proof -
  let ?l = "test_symbol\<lparr>sym_value := 0\<rparr>"
  let ?s = "(test_fix BFD_RELOC_RISCV_PCREL_LO12_S 8 ?l)
        \<lparr>fs_pcrel_hi := [0 \<mapsto> \<lparr>ph_symbol = test_symbol, ph_target = 5004\<rparr>]\<rparr>"
  have s: "fx_r_type (fs_fix ?s) = BFD_RELOC_RISCV_PCREL_LO12_S" "fx_addsy (fs_fix ?s) = Some ?l"
      "fs_pcrel_hi ?s (sym_value ?l + 0) = Some \<lparr>ph_symbol = test_symbol, ph_target = 5004\<rparr>" "sym_local test_symbol"
    by (simp_all add: test_fix_def test_symbol_def)
  have w: "get_le 4 (fx_where (fs_fix ?s)) (fr_literal (fs_frag ?s)) = Some 0x00b52023" "EXTRACT_STYPE_IMM 0x00b52023 = 0"
    by (simp_all add: test_fix_def get_le_def shl_def) code_simp
  have r: "insn_rs2 0x00b52023 = 11" by (simp add: insn_rs2_def shr_def)
  have at: "fx_where (fs_fix ?s) = 8" by (simp add: test_fix_def)
  show ?thesis
    using pcrel_lo12_s_misencoded [OF s refl w, of 5004 0 1] r unfolding at by auto
qed

end
