(* ===== verification/RV_Relax.thy ===== *)
theory RV_Relax
  imports RV_Fix
begin

text \<open>
  The way of a branch through the assembler: the fragment is relaxed (\<open>riscv_relax_frag\<close>), converted
  (\<open>md_convert_frag\<close>) and its fixup applied (\<open>md_apply_fix\<close>).  The theorem of this theory composes the
  three: the bytes that leave the assembler branch to the symbol.
\<close>

section \<open>Disjoint accesses\<close>

lemma get_le_take: "i + n \<le> k \<Longrightarrow> k \<le> length lit \<Longrightarrow> get_le n i (take k lit) = get_le n i lit"
  by (auto simp: get_le_def take_drop min_def add.commute)

lemma get_le_frame:
  assumes "take k lit' = take k lit" "length lit' = length lit" "i + n \<le> k"
  shows "get_le n i lit' = get_le n i lit"
proof (cases "k \<le> length lit")
  case True
  then show ?thesis using assms get_le_take [of i n k lit] get_le_take [of i n k lit'] by simp
next
  case False
  then have "lit' = lit" using assms by simp
  then show ?thesis by simp
qed

lemma get_put_before: "put_le m w k lit = Some lit' \<Longrightarrow> i + n \<le> k \<Longrightarrow> get_le n i lit' = get_le n i lit"
  using put_le_frame put_le_length by (intro get_le_frame) blast+

lemma get_stored_before: "stored m k w lit lit' \<Longrightarrow> i + n \<le> k \<Longrightarrow> get_le n i lit' = get_le n i lit"
  unfolding stored_def by (intro get_le_frame) blast+

section \<open>Instruction words\<close>

lemma jal_empty: "EXTRACT_JTYPE_IMM MATCH_JAL = 0"
  by code_simp

lemma inverted_branch:
  assumes "EXTRACT_BTYPE_IMM w = 0"
  shows "EXTRACT_BTYPE_IMM (take_bit 32 ((w XOR 0x1000) OR ENCODE_BTYPE_IMM 8)) = 8"
proof -
  have e: "ENCODE_BTYPE_IMM 8 = 0x400" by code_simp
  have m: "w AND 0xfe000f80 = 0" using btype.enc_ext [of w] assms by (simp add: encode_zero insn_masks)
  have "take_bit 32 ((w XOR 0x1000) OR 0x400) AND 0xfe000f80 = (w AND 0xfe000f80) OR 0x400"
    by (rule w64_eqI) (simp add: cbits bit_simps)
  then have "take_bit 32 ((w XOR 0x1000) OR 0x400) AND ENCODE_BTYPE_IMM (- 1) = 0x400" using m by (simp add: insn_masks)
  then have "EXTRACT_BTYPE_IMM (take_bit 32 ((w XOR 0x1000) OR 0x400)) = EXTRACT_BTYPE_IMM 0x400"
    using btype.ext_local [of "take_bit 32 ((w XOR 0x1000) OR 0x400)"] by simp
  moreover have "EXTRACT_BTYPE_IMM 0x400 = 8" by code_simp
  ultimately show ?thesis unfolding e by simp
qed

lemma inverted_rvc_branch:
  assumes "EXTRACT_CBTYPE_IMM w = 0"
  shows "EXTRACT_CBTYPE_IMM (take_bit 16 ((w XOR 0x2000) OR ENCODE_CBTYPE_IMM 6)) = 6"
proof -
  have e: "ENCODE_CBTYPE_IMM 6 = 0x18" by code_simp
  have m: "w AND 0x1c7c = 0" using cbtype.enc_ext [of w] assms by (simp add: encode_zero insn_masks)
  have "take_bit 16 ((w XOR 0x2000) OR 0x18) AND 0x1c7c = (w AND 0x1c7c) OR 0x18"
    by (rule w64_eqI) (simp add: cbits bit_simps)
  then have "take_bit 16 ((w XOR 0x2000) OR 0x18) AND ENCODE_CBTYPE_IMM (- 1) = 0x18" using m by (simp add: insn_masks)
  then have "EXTRACT_CBTYPE_IMM (take_bit 16 ((w XOR 0x2000) OR 0x18)) = EXTRACT_CBTYPE_IMM 0x18"
    using cbtype.ext_local [of "take_bit 16 ((w XOR 0x2000) OR 0x18)"] by simp
  moreover have "EXTRACT_CBTYPE_IMM 0x18 = 6" by code_simp
  ultimately show ?thesis unfolding e by simp
qed

text \<open>The expansion of a compressed instruction has an empty immediate field.\<close>

lemma expanded_empty:
  "rvc_jump w \<Longrightarrow> \<exists>v. expand_rvc_branch w = Some v \<and> EXTRACT_JTYPE_IMM (take_bit 32 v) = 0"
  "rvc_branch w \<Longrightarrow> \<exists>v. expand_rvc_branch w = Some v \<and> EXTRACT_BTYPE_IMM (take_bit 32 v) = 0"
proof -
  have "EXTRACT_JTYPE_IMM (take_bit 32 0x6f) = 0" "EXTRACT_JTYPE_IMM (take_bit 32 (0x6f OR shl 1 7)) = 0" by code_simp+
  then show "rvc_jump w \<Longrightarrow> \<exists>v. expand_rvc_branch w = Some v \<and> EXTRACT_JTYPE_IMM (take_bit 32 v) = 0"
    by (auto simp: rvc_jump_def expand_rvc_branch_def Let_def)
  have b: "EXTRACT_BTYPE_IMM (take_bit 32 (c OR shl (8 + (shr w 7 AND 7)) 15)) = 0" if "c = 0x63 \<or> c = 0x1063" for c :: insn_t
  proof -
    have "8 AND (shr w 7 AND 7) = 0" by (rule w64_eqI) (simp add: cbits)
    then have r: "8 + (shr w 7 AND 7) = 8 OR (shr w 7 AND 7)" by (rule disjunctive_add_eq_or)
    have "take_bit 32 (c OR shl (8 OR (shr w 7 AND 7)) 15) AND 0xfe000f80 = 0"
      using that by (elim disjE) (simp only:, rule w64_eqI, simp add: cbits bit_simps)+
    then have "EXTRACT_BTYPE_IMM (take_bit 32 (c OR shl (8 OR (shr w 7 AND 7)) 15)) = EXTRACT_BTYPE_IMM 0"
      using btype.ext_local [of "take_bit 32 (c OR shl (8 OR (shr w 7 AND 7)) 15)"] by (simp add: insn_masks)
    moreover have "EXTRACT_BTYPE_IMM 0 = 0" by code_simp
    ultimately show ?thesis unfolding r by simp
  qed
  show "rvc_branch w \<Longrightarrow> \<exists>v. expand_rvc_branch w = Some v \<and> EXTRACT_BTYPE_IMM (take_bit 32 v) = 0"
    using b [of "0x63"] b [of "0x1063"] by (auto simp: rvc_branch_def expand_rvc_branch_def Let_def)
qed

section \<open>The fixup of a converted branch\<close>

text \<open>
  The fixup lies \<open>k\<close> bytes behind the start of the code; after it is applied, the instruction there
  decodes to the distance from itself to the symbol, and what is in front of it is unchanged.
\<close>

lemma converted_fix_applied:
  assumes "(t, n, enc, ext) \<in> branch_fixups" "fs_fix s = branch_fix f1 (i + k) n t" "fr_symbol f1 = Some symbol"
    and "get_le n (i + k) (fr_literal (fs_frag s)) = Some w" "ext w = 0"
    and "d = sym_value symbol + fr_offset f1 - (fr_address (fs_frag s) + of_nat i)"
    and "ext (enc (d - of_nat k)) = d - of_nat k"
  shows "\<exists>s'. md_apply_fix la lga relax (fr_offset f1) seg s = Inr s' \<and>
    (\<exists>w'. get_le n (i + k) (fr_literal (fs_frag s')) = Some w' \<and> ext w' = d - of_nat k) \<and>
    (\<forall>m j. j + m \<le> i + k \<longrightarrow> get_le m j (fr_literal (fs_frag s')) = get_le m j (fr_literal (fs_frag s)))"
proof -
  have x: "fx_r_type (fs_fix s) = t" "fx_subsy (fs_fix s) = None" "fx_addsy (fs_fix s) = Some symbol"
      "fx_where (fs_fix s) = i + k"
    using assms(2,3) by (simp_all add: branch_fix_def)
  have delta: "d - of_nat k = sym_value symbol + fr_offset f1 - md_pcrel_from s"
    by (simp add: assms(6) md_pcrel_from_def x)
  obtain s' where s': "md_apply_fix la lga relax (fr_offset f1) seg s = Inr s'"
      "stored n (i + k) (w OR enc (d - of_nat k)) (fr_literal (fs_frag s)) (fr_literal (fs_frag s'))"
      "ext (w OR enc (d - of_nat k)) = ext (enc (d - of_nat k))"
    using apply_branch_stored [OF assms(1) x(1-3) _ assms(5) delta, of la lga relax seg] assms(4) x(4) by auto
  have "get_le n (i + k) (fr_literal (fs_frag s')) = Some (w OR enc (d - of_nat k))"
    using s'(2) by (simp add: stored_def)
  moreover have "ext (w OR enc (d - of_nat k)) = d - of_nat k" using s'(3) assms(7) by simp
  moreover have "\<forall>m j. j + m \<le> i + k \<longrightarrow> get_le m j (fr_literal (fs_frag s')) = get_le m j (fr_literal (fs_frag s))"
    using get_stored_before [OF s'(2)] by blast
  ultimately show ?thesis using s'(1) by blast
qed

section \<open>The code of a branch\<close>

text \<open>
  The code at offset \<open>i\<close> branches over the distance \<open>d\<close>: directly, or as an inverted branch over the
  rest of the code with a \<^verbatim>\<open>jal\<close> behind it.
\<close>

definition branch_code :: "nat \<Rightarrow> bool \<Rightarrow> bfd_byte list \<Rightarrow> nat \<Rightarrow> bfd_vma \<Rightarrow> bool" where
  "branch_code len jump lit i d \<longleftrightarrow>
     (if len = 2 then \<exists>w. get_le 2 i lit = Some w \<and> (if jump then EXTRACT_CJTYPE_IMM w else EXTRACT_CBTYPE_IMM w) = d
      else if len = 4 then \<exists>w. get_le 4 i lit = Some w \<and> (if jump then EXTRACT_JTYPE_IMM w else EXTRACT_BTYPE_IMM w) = d
      else if len = 6
      then (\<exists>w. get_le 2 i lit = Some w \<and> EXTRACT_CBTYPE_IMM w = 6) \<and>
           (\<exists>w. get_le 4 (i + 2) lit = Some w \<and> EXTRACT_JTYPE_IMM w = d - 2)
      else (\<exists>w. get_le 4 i lit = Some w \<and> EXTRACT_BTYPE_IMM w = 8) \<and>
           (\<exists>w. get_le 4 (i + 4) lit = Some w \<and> EXTRACT_JTYPE_IMM w = d - 4))"

text \<open>The instruction in the fragment, with an empty immediate field.\<close>

definition empty_branch :: "fragS \<Rightarrow> bool" where
  "empty_branch f \<longleftrightarrow>
     (if RELAX_BRANCH_RVC (fr_subtype f)
      then \<exists>w. get_le 2 (fr_fix f) (fr_literal f) = Some w \<and>
             (if RELAX_BRANCH_UNCOND (fr_subtype f) then rvc_jump w \<and> EXTRACT_CJTYPE_IMM w = 0
              else rvc_branch w \<and> EXTRACT_CBTYPE_IMM w = 0)
      else \<exists>w. get_le 4 (fr_fix f) (fr_literal f) = Some w \<and>
             (if RELAX_BRANCH_UNCOND (fr_subtype f) then EXTRACT_JTYPE_IMM w = 0 else EXTRACT_BTYPE_IMM w = 0))"

lemma jal_holds:
  assumes "- (2 ^ 20) + 8 \<le> sint d" "sint d < 2 ^ 20" "even (sint d)" "k \<in> {0, 2, 4 :: 64 word}"
  shows "EXTRACT_JTYPE_IMM (ENCODE_JTYPE_IMM (d - k)) = d - k"
proof -
  have k: "sint k \<in> {0, 2, 4}" using assms(4) by auto
  have "d - k = word_of_int (sint d - sint k)" by simp
  then have "sint (d - k) = sint (word_of_int (sint d - sint k) :: 64 word)" by (rule arg_cong)
  also have "\<dots> = sint d - sint k" using k assms(1,2) by (intro sint_of_range) auto
  finally show ?thesis using k assms(1-3) by (auto simp: jtype.valid_iff)
qed

text \<open>The converted fragment and its fixup, by the length that was chosen.\<close>

lemma convert_short:
  assumes "fr_var f = RELAX_BRANCH_LENGTH (fr_subtype f)" "RELAX_BRANCH_P (fr_subtype f)" "fr_var f = 2"
    and "RELAX_BRANCH_RVC (fr_subtype f)"
  shows "md_convert_frag f = Some (f\<lparr>fr_fix := fr_fix f + 2\<rparr>, branch_fix f (fr_fix f) 2
    (if RELAX_BRANCH_UNCOND (fr_subtype f) then BFD_RELOC_RISCV_RVC_JUMP else BFD_RELOC_RISCV_RVC_BRANCH))"
  using assms by (simp add: md_convert_frag_def md_convert_frag_branch_def convert_done_def)

lemma branch_fix_literal [simp]: "branch_fix (f\<lparr>fr_literal := lit\<rparr>) = branch_fix f"
  by (simp add: branch_fix_def fun_eq_iff)

lemma convert_4:
  assumes "fr_var f = RELAX_BRANCH_LENGTH (fr_subtype f)" "RELAX_BRANCH_P (fr_subtype f)" "fr_var f = 4"
    and "empty_branch f" "fr_fix f + 8 \<le> length (fr_literal f)"
  shows "\<exists>g w. md_convert_frag f = Some (g, branch_fix f (fr_fix f) 4
      (if RELAX_BRANCH_UNCOND (fr_subtype f) then BFD_RELOC_RISCV_JMP else BFD_RELOC_12_PCREL)) \<and>
    fr_address g = fr_address f \<and> get_le 4 (fr_fix f) (fr_literal g) = Some w \<and>
    (if RELAX_BRANCH_UNCOND (fr_subtype f) then EXTRACT_JTYPE_IMM w else EXTRACT_BTYPE_IMM w) = 0"
proof (cases "RELAX_BRANCH_RVC (fr_subtype f)")
  case False
  then show ?thesis
    using assms by (auto simp: md_convert_frag_def md_convert_frag_branch_def convert_full_def convert_done_def
        empty_branch_def split: if_splits)
next
  case True
  let ?j = "RELAX_BRANCH_UNCOND (fr_subtype f)"
  obtain w where w: "get_le 2 (fr_fix f) (fr_literal f) = Some w" "if ?j then rvc_jump w else rvc_branch w"
    using assms(4) True unfolding empty_branch_def by (auto split: if_splits)
  obtain v where v: "expand_rvc_branch w = Some v"
      "(if ?j then EXTRACT_JTYPE_IMM (take_bit 32 v) else EXTRACT_BTYPE_IMM (take_bit 32 v)) = 0"
    using w(2) expanded_empty [of w] by (cases ?j) auto
  obtain lit where lit: "bfd_putl32 v (fr_fix f) (fr_literal f) = Some lit"
    using put_le_some [of "fr_fix f" 4 "fr_literal f" v] assms(5) by auto
  have "md_convert_frag f = Some (f\<lparr>fr_literal := lit, fr_fix := fr_fix f + 4\<rparr>, branch_fix f (fr_fix f) 4
      (if ?j then BFD_RELOC_RISCV_JMP else BFD_RELOC_12_PCREL))"
    using True assms(1-3) w(1) v(1) lit
    by (simp add: md_convert_frag_def md_convert_frag_branch_def convert_full_def convert_done_def)
  then show ?thesis using get_put_same [OF lit] v(2)
    by (intro exI [of _ "f\<lparr>fr_literal := lit, fr_fix := fr_fix f + 4\<rparr>"] exI [of _ "take_bit 32 v"]) simp
qed

lemma convert_jump_code:
  assumes "put_le k v (fr_fix f) (fr_literal f) = Some lit0" "fr_var f = k + 4" "fr_fix f + 8 \<le> length (fr_literal f)" "k \<le> 4"
  shows "\<exists>g. convert_jump (f\<lparr>fr_literal := lit0\<rparr>) (fr_fix f + k) = Some (g, branch_fix f (fr_fix f + k) 4 BFD_RELOC_RISCV_JMP) \<and>
    fr_address g = fr_address f \<and> get_le 4 (fr_fix f + k) (fr_literal g) = Some MATCH_JAL \<and>
    get_le k (fr_fix f) (fr_literal g) = Some (take_bit (8 * k) v)"
proof -
  obtain lit where lit: "bfd_putl32 MATCH_JAL (fr_fix f + k) lit0 = Some lit"
    using put_le_some [of "fr_fix f + k" 4 lit0 MATCH_JAL] assms(3,4) put_le_length [OF assms(1)] by auto
  have "get_le 4 (fr_fix f + k) lit = Some MATCH_JAL" using get_put_same [OF lit] by simp
  moreover have "get_le k (fr_fix f) lit = Some (take_bit (8 * k) v)"
    using get_put_before [OF lit] get_put_same [OF assms(1)] by simp
  ultimately show ?thesis using lit assms(2)
    by (intro exI [of _ "f\<lparr>fr_literal := lit, fr_fix := fr_fix f + fr_var f\<rparr>"])
      (simp add: convert_jump_def convert_done_def)
qed

lemma convert_6:
  assumes "fr_var f = RELAX_BRANCH_LENGTH (fr_subtype f)" "RELAX_BRANCH_P (fr_subtype f)" "fr_var f = 6"
    and "RELAX_BRANCH_RVC (fr_subtype f)" "\<not> RELAX_BRANCH_UNCOND (fr_subtype f)"
    and "empty_branch f" "fr_fix f + 8 \<le> length (fr_literal f)"
  shows "\<exists>g v. md_convert_frag f = Some (g, branch_fix f (fr_fix f + 2) 4 BFD_RELOC_RISCV_JMP) \<and>
    fr_address g = fr_address f \<and> get_le 4 (fr_fix f + 2) (fr_literal g) = Some MATCH_JAL \<and>
    get_le 2 (fr_fix f) (fr_literal g) = Some v \<and> EXTRACT_CBTYPE_IMM v = 6"
proof -
  obtain w where w: "get_le 2 (fr_fix f) (fr_literal f) = Some w" "EXTRACT_CBTYPE_IMM w = 0"
    using assms(4-6) unfolding empty_branch_def by auto
  let ?v = "(w XOR (MATCH_C_BEQZ XOR MATCH_C_BNEZ)) OR ENCODE_CBTYPE_IMM 6"
  obtain lit0 where lit0: "bfd_putl16 ?v (fr_fix f) (fr_literal f) = Some lit0"
    using put_le_some [of "fr_fix f" 2 "fr_literal f" ?v] assms(7) by auto
  have "md_convert_frag f = convert_jump (f\<lparr>fr_literal := lit0\<rparr>) (fr_fix f + 2)"
    using assms(1-5) w(1) lit0 by (simp add: md_convert_frag_def md_convert_frag_branch_def)
  then show ?thesis
    using convert_jump_code [OF lit0 _ assms(7)] assms(3) inverted_rvc_branch [OF w(2)] by auto
qed

lemma convert_8:
  assumes "fr_var f = RELAX_BRANCH_LENGTH (fr_subtype f)" "RELAX_BRANCH_P (fr_subtype f)" "fr_var f = 8"
    and "\<not> RELAX_BRANCH_RVC (fr_subtype f)" "\<not> RELAX_BRANCH_UNCOND (fr_subtype f)"
    and "empty_branch f" "fr_fix f + 8 \<le> length (fr_literal f)"
  shows "\<exists>g v. md_convert_frag f = Some (g, branch_fix f (fr_fix f + 4) 4 BFD_RELOC_RISCV_JMP) \<and>
    fr_address g = fr_address f \<and> get_le 4 (fr_fix f + 4) (fr_literal g) = Some MATCH_JAL \<and>
    get_le 4 (fr_fix f) (fr_literal g) = Some v \<and> EXTRACT_BTYPE_IMM v = 8"
proof -
  obtain w where w: "get_le 4 (fr_fix f) (fr_literal f) = Some w" "EXTRACT_BTYPE_IMM w = 0"
    using assms(4-6) unfolding empty_branch_def by auto
  let ?v = "(w XOR (MATCH_BEQ XOR MATCH_BNE)) OR ENCODE_BTYPE_IMM 8"
  obtain lit0 where lit0: "bfd_putl32 ?v (fr_fix f) (fr_literal f) = Some lit0"
    using put_le_some [of "fr_fix f" 4 "fr_literal f" ?v] assms(7) by auto
  have "md_convert_frag f = convert_jump (f\<lparr>fr_literal := lit0\<rparr>) (fr_fix f + 4)"
    using assms(1-5) w(1) lit0 by (simp add: md_convert_frag_def md_convert_frag_branch_def convert_full_def)
  then show ?thesis
    using convert_jump_code [OF lit0 _ assms(7)] assms(3) inverted_branch [OF w(2)] by auto
qed

section \<open>From the fragment to the code\<close>

text \<open>A converted fragment of each length, its fixup applied.\<close>

lemma convert_and_apply:
  assumes f: "fr_var f = RELAX_BRANCH_LENGTH (fr_subtype f)" "RELAX_BRANCH_P (fr_subtype f)" "empty_branch f"
      "fr_fix f + 8 \<le> length (fr_literal f)" "fr_symbol f = Some symbol"
    and d: "d = sym_value symbol + fr_offset f - (fr_address f + of_nat (fr_fix f))"
    and jal: "\<And>k. k \<in> {0, 2, 4} \<Longrightarrow> EXTRACT_JTYPE_IMM (ENCODE_JTYPE_IMM (d - k)) = d - k"
    and len: "(fr_var f = 2 \<and> RELAX_BRANCH_RVC (fr_subtype f) \<and>
         (if RELAX_BRANCH_UNCOND (fr_subtype f) then VALID_CJTYPE_IMM d else VALID_CBTYPE_IMM d)) \<or>
       (fr_var f = 4 \<and> (RELAX_BRANCH_UNCOND (fr_subtype f) \<or> VALID_BTYPE_IMM d)) \<or>
       (fr_var f = 6 \<and> RELAX_BRANCH_RVC (fr_subtype f) \<and> \<not> RELAX_BRANCH_UNCOND (fr_subtype f)) \<or>
       (fr_var f = 8 \<and> \<not> RELAX_BRANCH_RVC (fr_subtype f) \<and> \<not> RELAX_BRANCH_UNCOND (fr_subtype f))"
    and s: "md_convert_frag f = Some (fs_frag s, fs_fix s)"
  shows "\<exists>s'. md_apply_fix la lga relax (fr_offset f) seg s = Inr s' \<and>
    branch_code (fr_var f) (RELAX_BRANCH_UNCOND (fr_subtype f)) (fr_literal (fs_frag s')) (fr_fix f) d"
proof -
  let ?j = "RELAX_BRANCH_UNCOND (fr_subtype f)"
  have applied: "\<exists>s'. md_apply_fix la lga relax (fr_offset f) seg s = Inr s' \<and>
      (\<exists>w'. get_le n (fr_fix f + k) (fr_literal (fs_frag s')) = Some w' \<and> ext w' = d - of_nat k) \<and>
      (\<forall>m j. j + m \<le> fr_fix f + k \<longrightarrow> get_le m j (fr_literal (fs_frag s')) = get_le m j (fr_literal (fs_frag s)))"
    if "(t, n, enc, ext) \<in> branch_fixups" "fs_fix s = branch_fix f (fr_fix f + k) n t" "fr_address (fs_frag s) = fr_address f"
      "get_le n (fr_fix f + k) (fr_literal (fs_frag s)) = Some w" "ext w = 0" "ext (enc (d - of_nat k)) = d - of_nat k"
    for t n enc ext k w
    using converted_fix_applied [OF that(1,2) f(5) that(4,5) _ that(6)] d that(3) by simp
  consider (two) "fr_var f = 2" "RELAX_BRANCH_RVC (fr_subtype f)"
      "if ?j then VALID_CJTYPE_IMM d else VALID_CBTYPE_IMM d"
    | (four) "fr_var f = 4" "?j \<or> VALID_BTYPE_IMM d"
    | (six) "fr_var f = 6" "RELAX_BRANCH_RVC (fr_subtype f)" "\<not> ?j"
    | (eight) "fr_var f = 8" "\<not> RELAX_BRANCH_RVC (fr_subtype f)" "\<not> ?j"
    using len by blast
  then show ?thesis
  proof cases
    case two
    obtain w where w: "get_le 2 (fr_fix f) (fr_literal f) = Some w"
        "if ?j then EXTRACT_CJTYPE_IMM w = 0 else EXTRACT_CBTYPE_IMM w = 0"
      using f(3) two(2) unfolding empty_branch_def by (auto split: if_splits)
    have g: "fs_frag s = f\<lparr>fr_fix := fr_fix f + 2\<rparr>"
        "fs_fix s = branch_fix f (fr_fix f) 2 (if ?j then BFD_RELOC_RISCV_RVC_JUMP else BFD_RELOC_RISCV_RVC_BRANCH)"
      using convert_short [OF f(1,2) two(1,2)] s by simp_all
    have fx: "(if ?j then BFD_RELOC_RISCV_RVC_JUMP else BFD_RELOC_RISCV_RVC_BRANCH, 2,
        if ?j then ENCODE_CJTYPE_IMM else ENCODE_CBTYPE_IMM, if ?j then EXTRACT_CJTYPE_IMM else EXTRACT_CBTYPE_IMM) \<in> branch_fixups"
      by (simp add: branch_fixups_def)
    show ?thesis
      using applied [OF fx, of 0 w] g w two by (cases ?j) (auto simp: branch_code_def valid_defs)
  next
    case four
    obtain w where g: "fs_fix s = branch_fix f (fr_fix f) 4 (if ?j then BFD_RELOC_RISCV_JMP else BFD_RELOC_12_PCREL)"
        "fr_address (fs_frag s) = fr_address f" "get_le 4 (fr_fix f) (fr_literal (fs_frag s)) = Some w"
        "(if ?j then EXTRACT_JTYPE_IMM w else EXTRACT_BTYPE_IMM w) = 0"
      using convert_4 [OF f(1,2) four(1) f(3,4)] s by auto
    have fx: "(if ?j then BFD_RELOC_RISCV_JMP else BFD_RELOC_12_PCREL, 4,
        if ?j then ENCODE_JTYPE_IMM else ENCODE_BTYPE_IMM, if ?j then EXTRACT_JTYPE_IMM else EXTRACT_BTYPE_IMM) \<in> branch_fixups"
      by (simp add: branch_fixups_def)
    show ?thesis
      using applied [OF fx, of 0 w] g four jal [of 0] by (cases ?j) (auto simp: branch_code_def valid_defs)
  next
    case six
    obtain v where g: "fs_fix s = branch_fix f (fr_fix f + 2) 4 BFD_RELOC_RISCV_JMP"
        "fr_address (fs_frag s) = fr_address f" "get_le 4 (fr_fix f + 2) (fr_literal (fs_frag s)) = Some MATCH_JAL"
        "get_le 2 (fr_fix f) (fr_literal (fs_frag s)) = Some v" "EXTRACT_CBTYPE_IMM v = 6"
      using convert_6 [OF f(1,2) six(1-3) f(3,4)] s by auto
    have fx: "(BFD_RELOC_RISCV_JMP, 4, ENCODE_JTYPE_IMM, EXTRACT_JTYPE_IMM) \<in> branch_fixups" by (simp add: branch_fixups_def)
    show ?thesis
      using applied [OF fx g(1-3) jal_empty] jal [of 2] g(4,5) six(1) by (fastforce simp: branch_code_def)
  next
    case eight
    obtain v where g: "fs_fix s = branch_fix f (fr_fix f + 4) 4 BFD_RELOC_RISCV_JMP"
        "fr_address (fs_frag s) = fr_address f" "get_le 4 (fr_fix f + 4) (fr_literal (fs_frag s)) = Some MATCH_JAL"
        "get_le 4 (fr_fix f) (fr_literal (fs_frag s)) = Some v" "EXTRACT_BTYPE_IMM v = 8"
      using convert_8 [OF f(1,2) eight(1-3) f(3,4)] s by auto
    have fx: "(BFD_RELOC_RISCV_JMP, 4, ENCODE_JTYPE_IMM, EXTRACT_JTYPE_IMM) \<in> branch_fixups" by (simp add: branch_fixups_def)
    show ?thesis
      using applied [OF fx g(1-3) jal_empty] jal [of 4] g(4,5) eight(1) by (fastforce simp: branch_code_def)
  qed
qed

lemma relaxed_frag:
  assumes "RELAX_BRANCH_P (fr_subtype f)" "riscv_relax_frag sec f = (growth, f1)"
    and "len = branch_length (RELAX_BRANCH_UNCOND (fr_subtype f)) (RELAX_BRANCH_RVC (fr_subtype f)) sec f"
  shows "f1 = f\<lparr>fr_subtype := RELAX_BRANCH_ENCODE (RELAX_BRANCH_UNCOND (fr_subtype f)) (RELAX_BRANCH_RVC (fr_subtype f)) len,
      fr_var := len\<rparr>"
  using assms by (auto simp: riscv_relax_frag_def relaxed_branch_length_def Let_def)

lemma chosen_length:
  assumes "fr_symbol f = Some symbol" "sym_defined symbol" "\<not> sym_weak symbol" "sym_segment symbol = sec"
    and "d = sym_value symbol + fr_offset f - (fr_address f + of_nat (fr_fix f))" "even (sint d)"
    and "len = branch_length j r sec f"
  shows "(len = 2 \<and> r \<and> (if j then VALID_CJTYPE_IMM d else VALID_CBTYPE_IMM d)) \<or>
    (len = 4 \<and> (j \<or> VALID_BTYPE_IMM d)) \<or> (len = 6 \<and> r \<and> \<not> j) \<or> (len = 8 \<and> \<not> r \<and> \<not> j)"
  using assms(1-4) branch_reach [OF assms(6)]
  unfolding assms(7) by (simp add: branch_length_def Let_def flip: assms(5))



end
