(* ===== verification/RV_Regs.thy ===== *)
theory RV_Regs
  imports RV_Opcode RV_Isa RV_Distinct
begin

text \<open>
  Register and operand names, on both sides: the hash tables the assembler fills in \<open>md_begin\<close> and
  searches in \<open>reg_lookup\<close> and \<open>arg_lookup\<close> (\<^verbatim>\<open>gas/config/tc-riscv.c\<close>, with the character classes of
  \<^verbatim>\<open>gas/read.c\<close>), and the names the disassembler prints (\<open>arg_print\<close> and the \<open>E\<close> operand of
  \<open>print_insn_args\<close> in \<^verbatim>\<open>opcodes/riscv-dis.c\<close>).  The declarations of the control and status
  registers are those of \<^verbatim>\<open>include/opcode/riscv-opc.h\<close>, which both programs include.
\<close>

section \<open>Names in the source line\<close>

text \<open>\<open>LEX_AT\<close>, \<open>LEX_BR\<close>, \<open>LEX_PCT\<close>, \<open>LEX_QM\<close>, \<open>LEX_HASH\<close> and \<open>LEX_TILDE\<close> have their default value 0.\<close>

definition lex_type :: "nat list" where
  "lex_type =
     [0, 0, 0, 0, 0, 0, 0, 0, 0, 0, 0, 0, 0, 0, 0, 0,
      0, 0, 0, 0, 0, 0, 0, 0, 0, 0, 0, 0, 0, 0, 0, 0,
      0, 0, 0, 0, 3, 0, 0, 0, 0, 0, 0, 0, 0, 0, 3, 0,
      1, 1, 1, 1, 1, 1, 1, 1, 1, 1, 0, 0, 0, 0, 0, 0,
      0, 3, 3, 3, 3, 3, 3, 3, 3, 3, 3, 3, 3, 3, 3, 3,
      3, 3, 3, 3, 3, 3, 3, 3, 3, 3, 3, 0, 0, 0, 0, 3,
      0, 3, 3, 3, 3, 3, 3, 3, 3, 3, 3, 3, 3, 3, 3, 3,
      3, 3, 3, 3, 3, 3, 3, 3, 3, 3, 3, 0, 0, 0, 0, 0,
      3, 3, 3, 3, 3, 3, 3, 3, 3, 3, 3, 3, 3, 3, 3, 3,
      3, 3, 3, 3, 3, 3, 3, 3, 3, 3, 3, 3, 3, 3, 3, 3,
      3, 3, 3, 3, 3, 3, 3, 3, 3, 3, 3, 3, 3, 3, 3, 3,
      3, 3, 3, 3, 3, 3, 3, 3, 3, 3, 3, 3, 3, 3, 3, 3,
      3, 3, 3, 3, 3, 3, 3, 3, 3, 3, 3, 3, 3, 3, 3, 3,
      3, 3, 3, 3, 3, 3, 3, 3, 3, 3, 3, 3, 3, 3, 3, 3,
      3, 3, 3, 3, 3, 3, 3, 3, 3, 3, 3, 3, 3, 3, 3, 3,
      3, 3, 3, 3, 3, 3, 3, 3, 3, 3, 3, 3, 3, 3, 3, 3]"

text \<open>The bits \<open>LEX_NAME = 1\<close> and \<open>LEX_BEGIN_NAME = 2\<close>.\<close>

definition is_part_of_name :: "char \<Rightarrow> bool" where
  "is_part_of_name c \<longleftrightarrow> odd (lex_type ! of_char c)"

definition is_name_beginner :: "char \<Rightarrow> bool" where
  "is_name_beginner c \<longleftrightarrow> odd (lex_type ! of_char c div 2)"

section \<open>The hash of register names\<close>

datatype reg_class = RCLASS_GPR | RCLASS_FPR | RCLASS_VECR | RCLASS_VECM | RCLASS_MAX | RCLASS_CSR

fun reg_class_value :: "reg_class \<Rightarrow> nat" where
  "reg_class_value RCLASS_GPR = 0"
| "reg_class_value RCLASS_FPR = 1"
| "reg_class_value RCLASS_VECR = 2"
| "reg_class_value RCLASS_VECM = 3"
| "reg_class_value RCLASS_MAX = 4"
| "reg_class_value RCLASS_CSR = 5"

definition ENCODE_REG_HASH :: "reg_class \<Rightarrow> nat \<Rightarrow> nat" where
  "ENCODE_REG_HASH cls n = n * reg_class_value RCLASS_MAX + reg_class_value cls + 1"

definition DECODE_REG_CLASS :: "nat \<Rightarrow> nat" where
  "DECODE_REG_CLASS hash = (hash - 1) mod reg_class_value RCLASS_MAX"

definition DECODE_REG_NUM :: "nat \<Rightarrow> nat" where
  "DECODE_REG_NUM hash = (hash - 1) div reg_class_value RCLASS_MAX"

text \<open>\<open>Inl\<close> is \<open>as_fatal\<close>, with the name that is entered twice.\<close>

definition hash_reg_name ::
    "reg_class \<Rightarrow> string \<Rightarrow> nat \<Rightarrow> (string \<rightharpoonup> nat) \<Rightarrow> string + (string \<rightharpoonup> nat)" where
  "hash_reg_name cls name n h =
     (case h name of
        None \<Rightarrow> Inr (h(name \<mapsto> ENCODE_REG_HASH cls n))
      | Some _ \<Rightarrow> Inl name)"

fun hash_reg_names ::
    "reg_class \<Rightarrow> nat \<Rightarrow> string list \<Rightarrow> (string \<rightharpoonup> nat) \<Rightarrow> string + (string \<rightharpoonup> nat)" where
  "hash_reg_names cls i [] h = Inr h"
| "hash_reg_names cls i (name # names) h =
     (case hash_reg_name cls name i h of
        Inl e \<Rightarrow> Inl e
      | Inr h' \<Rightarrow> hash_reg_names cls (Suc i) names h')"

text \<open>The calls of \<open>md_begin\<close>, in their order; the counts are the lengths of the arrays.\<close>

fun hash_reg_arrays ::
    "(reg_class \<times> string list) list \<Rightarrow> (string \<rightharpoonup> nat) \<Rightarrow> string + (string \<rightharpoonup> nat)" where
  "hash_reg_arrays [] h = Inr h"
| "hash_reg_arrays ((cls, names) # r) h =
     (case hash_reg_names cls 0 names h of Inl e \<Rightarrow> Inl e | Inr h' \<Rightarrow> hash_reg_arrays r h')"

definition init_reg_names_hash :: "string + (string \<rightharpoonup> nat)" where
  "init_reg_names_hash =
     (case hash_reg_arrays
             [(RCLASS_GPR, riscv_gpr_names_numeric), (RCLASS_GPR, riscv_gpr_names_abi),
              (RCLASS_FPR, riscv_fpr_names_numeric), (RCLASS_FPR, riscv_fpr_names_abi),
              (RCLASS_VECR, riscv_vecr_names_numeric), (RCLASS_VECM, riscv_vecm_names_numeric)]
             Map.empty of
        Inl e \<Rightarrow> Inl e
      | Inr h \<Rightarrow> hash_reg_name RCLASS_GPR ''fp'' 8 h)"

section \<open>Control and status registers\<close>

datatype riscv_csr_class =
    CSR_CLASS_NONE | CSR_CLASS_I | CSR_CLASS_I_32 | CSR_CLASS_F | CSR_CLASS_ZKR | CSR_CLASS_V
  | CSR_CLASS_DEBUG | CSR_CLASS_H | CSR_CLASS_H_32 | CSR_CLASS_SMAIA | CSR_CLASS_SMAIA_32
  | CSR_CLASS_SMCNTRPMF | CSR_CLASS_SMCNTRPMF_32 | CSR_CLASS_SMSTATEEN | CSR_CLASS_SMSTATEEN_32
  | CSR_CLASS_SSAIA | CSR_CLASS_SSAIA_AND_H | CSR_CLASS_SSAIA_32 | CSR_CLASS_SSAIA_AND_H_32
  | CSR_CLASS_SSSTATEEN | CSR_CLASS_SSSTATEEN_AND_H | CSR_CLASS_SSSTATEEN_AND_H_32
  | CSR_CLASS_SSCOFPMF | CSR_CLASS_SSCOFPMF_32 | CSR_CLASS_SSTC | CSR_CLASS_SSTC_AND_H
  | CSR_CLASS_SSTC_32 | CSR_CLASS_SSTC_AND_H_32 | CSR_CLASS_XTHEADVECTOR

text \<open>The chain of \<open>next\<close> pointers is a list of these.\<close>

record riscv_csr_extra =
  csr_class :: riscv_csr_class
  csr_number :: "32 word"
  define_version :: riscv_spec_class
  abort_version :: riscv_spec_class

text \<open>
  The lines \<open>DECLARE_CSR\<close> and \<open>DECLARE_CSR_ALIAS\<close> of the header, in their order; both programs treat
  the two alike.  The macros \<open>CSR_*\<close> are replaced by their values.
\<close>

abbreviation (input) csr ::
    "string \<Rightarrow> 32 word \<Rightarrow> riscv_csr_class \<Rightarrow> riscv_spec_class \<Rightarrow> riscv_spec_class
     \<Rightarrow> string \<times> riscv_csr_extra" where
  "csr name num cls def_version abt_version \<equiv>
     (name, \<lparr>csr_class = cls, csr_number = num, define_version = def_version,
             abort_version = abt_version\<rparr>)"

definition csr_decls_1 :: "(string \<times> riscv_csr_extra) list" where
  "csr_decls_1 =
     [csr ''cycle'' 0xc00 CSR_CLASS_I PRIV_SPEC_CLASS_1P9P1 PRIV_SPEC_CLASS_DRAFT,
      csr ''time'' 0xc01 CSR_CLASS_I PRIV_SPEC_CLASS_1P9P1 PRIV_SPEC_CLASS_DRAFT,
      csr ''instret'' 0xc02 CSR_CLASS_I PRIV_SPEC_CLASS_1P9P1 PRIV_SPEC_CLASS_DRAFT,
      csr ''hpmcounter3'' 0xc03 CSR_CLASS_I PRIV_SPEC_CLASS_1P9P1 PRIV_SPEC_CLASS_DRAFT,
      csr ''hpmcounter4'' 0xc04 CSR_CLASS_I PRIV_SPEC_CLASS_1P9P1 PRIV_SPEC_CLASS_DRAFT,
      csr ''hpmcounter5'' 0xc05 CSR_CLASS_I PRIV_SPEC_CLASS_1P9P1 PRIV_SPEC_CLASS_DRAFT,
      csr ''hpmcounter6'' 0xc06 CSR_CLASS_I PRIV_SPEC_CLASS_1P9P1 PRIV_SPEC_CLASS_DRAFT,
      csr ''hpmcounter7'' 0xc07 CSR_CLASS_I PRIV_SPEC_CLASS_1P9P1 PRIV_SPEC_CLASS_DRAFT,
      csr ''hpmcounter8'' 0xc08 CSR_CLASS_I PRIV_SPEC_CLASS_1P9P1 PRIV_SPEC_CLASS_DRAFT,
      csr ''hpmcounter9'' 0xc09 CSR_CLASS_I PRIV_SPEC_CLASS_1P9P1 PRIV_SPEC_CLASS_DRAFT,
      csr ''hpmcounter10'' 0xc0a CSR_CLASS_I PRIV_SPEC_CLASS_1P9P1 PRIV_SPEC_CLASS_DRAFT,
      csr ''hpmcounter11'' 0xc0b CSR_CLASS_I PRIV_SPEC_CLASS_1P9P1 PRIV_SPEC_CLASS_DRAFT,
      csr ''hpmcounter12'' 0xc0c CSR_CLASS_I PRIV_SPEC_CLASS_1P9P1 PRIV_SPEC_CLASS_DRAFT,
      csr ''hpmcounter13'' 0xc0d CSR_CLASS_I PRIV_SPEC_CLASS_1P9P1 PRIV_SPEC_CLASS_DRAFT,
      csr ''hpmcounter14'' 0xc0e CSR_CLASS_I PRIV_SPEC_CLASS_1P9P1 PRIV_SPEC_CLASS_DRAFT,
      csr ''hpmcounter15'' 0xc0f CSR_CLASS_I PRIV_SPEC_CLASS_1P9P1 PRIV_SPEC_CLASS_DRAFT,
      csr ''hpmcounter16'' 0xc10 CSR_CLASS_I PRIV_SPEC_CLASS_1P9P1 PRIV_SPEC_CLASS_DRAFT,
      csr ''hpmcounter17'' 0xc11 CSR_CLASS_I PRIV_SPEC_CLASS_1P9P1 PRIV_SPEC_CLASS_DRAFT,
      csr ''hpmcounter18'' 0xc12 CSR_CLASS_I PRIV_SPEC_CLASS_1P9P1 PRIV_SPEC_CLASS_DRAFT,
      csr ''hpmcounter19'' 0xc13 CSR_CLASS_I PRIV_SPEC_CLASS_1P9P1 PRIV_SPEC_CLASS_DRAFT,
      csr ''hpmcounter20'' 0xc14 CSR_CLASS_I PRIV_SPEC_CLASS_1P9P1 PRIV_SPEC_CLASS_DRAFT,
      csr ''hpmcounter21'' 0xc15 CSR_CLASS_I PRIV_SPEC_CLASS_1P9P1 PRIV_SPEC_CLASS_DRAFT,
      csr ''hpmcounter22'' 0xc16 CSR_CLASS_I PRIV_SPEC_CLASS_1P9P1 PRIV_SPEC_CLASS_DRAFT,
      csr ''hpmcounter23'' 0xc17 CSR_CLASS_I PRIV_SPEC_CLASS_1P9P1 PRIV_SPEC_CLASS_DRAFT,
      csr ''hpmcounter24'' 0xc18 CSR_CLASS_I PRIV_SPEC_CLASS_1P9P1 PRIV_SPEC_CLASS_DRAFT,
      csr ''hpmcounter25'' 0xc19 CSR_CLASS_I PRIV_SPEC_CLASS_1P9P1 PRIV_SPEC_CLASS_DRAFT,
      csr ''hpmcounter26'' 0xc1a CSR_CLASS_I PRIV_SPEC_CLASS_1P9P1 PRIV_SPEC_CLASS_DRAFT,
      csr ''hpmcounter27'' 0xc1b CSR_CLASS_I PRIV_SPEC_CLASS_1P9P1 PRIV_SPEC_CLASS_DRAFT,
      csr ''hpmcounter28'' 0xc1c CSR_CLASS_I PRIV_SPEC_CLASS_1P9P1 PRIV_SPEC_CLASS_DRAFT,
      csr ''hpmcounter29'' 0xc1d CSR_CLASS_I PRIV_SPEC_CLASS_1P9P1 PRIV_SPEC_CLASS_DRAFT,
      csr ''hpmcounter30'' 0xc1e CSR_CLASS_I PRIV_SPEC_CLASS_1P9P1 PRIV_SPEC_CLASS_DRAFT,
      csr ''hpmcounter31'' 0xc1f CSR_CLASS_I PRIV_SPEC_CLASS_1P9P1 PRIV_SPEC_CLASS_DRAFT,
      csr ''cycleh'' 0xc80 CSR_CLASS_I_32 PRIV_SPEC_CLASS_1P9P1 PRIV_SPEC_CLASS_DRAFT,
      csr ''timeh'' 0xc81 CSR_CLASS_I_32 PRIV_SPEC_CLASS_1P9P1 PRIV_SPEC_CLASS_DRAFT,
      csr ''instreth'' 0xc82 CSR_CLASS_I_32 PRIV_SPEC_CLASS_1P9P1 PRIV_SPEC_CLASS_DRAFT,
      csr ''hpmcounter3h'' 0xc83 CSR_CLASS_I_32 PRIV_SPEC_CLASS_1P9P1 PRIV_SPEC_CLASS_DRAFT,
      csr ''hpmcounter4h'' 0xc84 CSR_CLASS_I_32 PRIV_SPEC_CLASS_1P9P1 PRIV_SPEC_CLASS_DRAFT,
      csr ''hpmcounter5h'' 0xc85 CSR_CLASS_I_32 PRIV_SPEC_CLASS_1P9P1 PRIV_SPEC_CLASS_DRAFT,
      csr ''hpmcounter6h'' 0xc86 CSR_CLASS_I_32 PRIV_SPEC_CLASS_1P9P1 PRIV_SPEC_CLASS_DRAFT,
      csr ''hpmcounter7h'' 0xc87 CSR_CLASS_I_32 PRIV_SPEC_CLASS_1P9P1 PRIV_SPEC_CLASS_DRAFT,
      csr ''hpmcounter8h'' 0xc88 CSR_CLASS_I_32 PRIV_SPEC_CLASS_1P9P1 PRIV_SPEC_CLASS_DRAFT,
      csr ''hpmcounter9h'' 0xc89 CSR_CLASS_I_32 PRIV_SPEC_CLASS_1P9P1 PRIV_SPEC_CLASS_DRAFT,
      csr ''hpmcounter10h'' 0xc8a CSR_CLASS_I_32 PRIV_SPEC_CLASS_1P9P1 PRIV_SPEC_CLASS_DRAFT,
      csr ''hpmcounter11h'' 0xc8b CSR_CLASS_I_32 PRIV_SPEC_CLASS_1P9P1 PRIV_SPEC_CLASS_DRAFT,
      csr ''hpmcounter12h'' 0xc8c CSR_CLASS_I_32 PRIV_SPEC_CLASS_1P9P1 PRIV_SPEC_CLASS_DRAFT,
      csr ''hpmcounter13h'' 0xc8d CSR_CLASS_I_32 PRIV_SPEC_CLASS_1P9P1 PRIV_SPEC_CLASS_DRAFT,
      csr ''hpmcounter14h'' 0xc8e CSR_CLASS_I_32 PRIV_SPEC_CLASS_1P9P1 PRIV_SPEC_CLASS_DRAFT,
      csr ''hpmcounter15h'' 0xc8f CSR_CLASS_I_32 PRIV_SPEC_CLASS_1P9P1 PRIV_SPEC_CLASS_DRAFT,
      csr ''hpmcounter16h'' 0xc90 CSR_CLASS_I_32 PRIV_SPEC_CLASS_1P9P1 PRIV_SPEC_CLASS_DRAFT,
      csr ''hpmcounter17h'' 0xc91 CSR_CLASS_I_32 PRIV_SPEC_CLASS_1P9P1 PRIV_SPEC_CLASS_DRAFT,
      csr ''hpmcounter18h'' 0xc92 CSR_CLASS_I_32 PRIV_SPEC_CLASS_1P9P1 PRIV_SPEC_CLASS_DRAFT,
      csr ''hpmcounter19h'' 0xc93 CSR_CLASS_I_32 PRIV_SPEC_CLASS_1P9P1 PRIV_SPEC_CLASS_DRAFT,
      csr ''hpmcounter20h'' 0xc94 CSR_CLASS_I_32 PRIV_SPEC_CLASS_1P9P1 PRIV_SPEC_CLASS_DRAFT,
      csr ''hpmcounter21h'' 0xc95 CSR_CLASS_I_32 PRIV_SPEC_CLASS_1P9P1 PRIV_SPEC_CLASS_DRAFT,
      csr ''hpmcounter22h'' 0xc96 CSR_CLASS_I_32 PRIV_SPEC_CLASS_1P9P1 PRIV_SPEC_CLASS_DRAFT,
      csr ''hpmcounter23h'' 0xc97 CSR_CLASS_I_32 PRIV_SPEC_CLASS_1P9P1 PRIV_SPEC_CLASS_DRAFT,
      csr ''hpmcounter24h'' 0xc98 CSR_CLASS_I_32 PRIV_SPEC_CLASS_1P9P1 PRIV_SPEC_CLASS_DRAFT,
      csr ''hpmcounter25h'' 0xc99 CSR_CLASS_I_32 PRIV_SPEC_CLASS_1P9P1 PRIV_SPEC_CLASS_DRAFT,
      csr ''hpmcounter26h'' 0xc9a CSR_CLASS_I_32 PRIV_SPEC_CLASS_1P9P1 PRIV_SPEC_CLASS_DRAFT,
      csr ''hpmcounter27h'' 0xc9b CSR_CLASS_I_32 PRIV_SPEC_CLASS_1P9P1 PRIV_SPEC_CLASS_DRAFT,
      csr ''hpmcounter28h'' 0xc9c CSR_CLASS_I_32 PRIV_SPEC_CLASS_1P9P1 PRIV_SPEC_CLASS_DRAFT,
      csr ''hpmcounter29h'' 0xc9d CSR_CLASS_I_32 PRIV_SPEC_CLASS_1P9P1 PRIV_SPEC_CLASS_DRAFT,
      csr ''hpmcounter30h'' 0xc9e CSR_CLASS_I_32 PRIV_SPEC_CLASS_1P9P1 PRIV_SPEC_CLASS_DRAFT,
      csr ''hpmcounter31h'' 0xc9f CSR_CLASS_I_32 PRIV_SPEC_CLASS_1P9P1 PRIV_SPEC_CLASS_DRAFT,
      csr ''sstatus'' 0x100 CSR_CLASS_I PRIV_SPEC_CLASS_1P9P1 PRIV_SPEC_CLASS_DRAFT,
      csr ''sie'' 0x104 CSR_CLASS_I PRIV_SPEC_CLASS_1P9P1 PRIV_SPEC_CLASS_DRAFT,
      csr ''stvec'' 0x105 CSR_CLASS_I PRIV_SPEC_CLASS_1P9P1 PRIV_SPEC_CLASS_DRAFT,
      csr ''scounteren'' 0x106 CSR_CLASS_I PRIV_SPEC_CLASS_1P10 PRIV_SPEC_CLASS_DRAFT,
      csr ''senvcfg'' 0x10a CSR_CLASS_I PRIV_SPEC_CLASS_1P12 PRIV_SPEC_CLASS_DRAFT,
      csr ''sscratch'' 0x140 CSR_CLASS_I PRIV_SPEC_CLASS_1P9P1 PRIV_SPEC_CLASS_DRAFT,
      csr ''sepc'' 0x141 CSR_CLASS_I PRIV_SPEC_CLASS_1P9P1 PRIV_SPEC_CLASS_DRAFT,
      csr ''scause'' 0x142 CSR_CLASS_I PRIV_SPEC_CLASS_1P9P1 PRIV_SPEC_CLASS_DRAFT,
      csr ''stval'' 0x143 CSR_CLASS_I PRIV_SPEC_CLASS_1P10 PRIV_SPEC_CLASS_DRAFT,
      csr ''sip'' 0x144 CSR_CLASS_I PRIV_SPEC_CLASS_1P9P1 PRIV_SPEC_CLASS_DRAFT,
      csr ''satp'' 0x180 CSR_CLASS_I PRIV_SPEC_CLASS_1P10 PRIV_SPEC_CLASS_DRAFT,
      csr ''mvendorid'' 0xf11 CSR_CLASS_I PRIV_SPEC_CLASS_1P9P1 PRIV_SPEC_CLASS_DRAFT,
      csr ''marchid'' 0xf12 CSR_CLASS_I PRIV_SPEC_CLASS_1P9P1 PRIV_SPEC_CLASS_DRAFT,
      csr ''mimpid'' 0xf13 CSR_CLASS_I PRIV_SPEC_CLASS_1P9P1 PRIV_SPEC_CLASS_DRAFT,
      csr ''mhartid'' 0xf14 CSR_CLASS_I PRIV_SPEC_CLASS_1P9P1 PRIV_SPEC_CLASS_DRAFT,
      csr ''mconfigptr'' 0xf15 CSR_CLASS_I PRIV_SPEC_CLASS_1P12 PRIV_SPEC_CLASS_DRAFT,
      csr ''mstatus'' 0x300 CSR_CLASS_I PRIV_SPEC_CLASS_1P9P1 PRIV_SPEC_CLASS_DRAFT,
      csr ''misa'' 0x301 CSR_CLASS_I PRIV_SPEC_CLASS_1P9P1 PRIV_SPEC_CLASS_DRAFT,
      csr ''medeleg'' 0x302 CSR_CLASS_I PRIV_SPEC_CLASS_1P9P1 PRIV_SPEC_CLASS_DRAFT,
      csr ''mideleg'' 0x303 CSR_CLASS_I PRIV_SPEC_CLASS_1P9P1 PRIV_SPEC_CLASS_DRAFT,
      csr ''mie'' 0x304 CSR_CLASS_I PRIV_SPEC_CLASS_1P9P1 PRIV_SPEC_CLASS_DRAFT,
      csr ''mtvec'' 0x305 CSR_CLASS_I PRIV_SPEC_CLASS_1P9P1 PRIV_SPEC_CLASS_DRAFT,
      csr ''mcounteren'' 0x306 CSR_CLASS_I PRIV_SPEC_CLASS_1P10 PRIV_SPEC_CLASS_DRAFT,
      csr ''mstatush'' 0x310 CSR_CLASS_I_32 PRIV_SPEC_CLASS_1P12 PRIV_SPEC_CLASS_DRAFT,
      csr ''mscratch'' 0x340 CSR_CLASS_I PRIV_SPEC_CLASS_1P9P1 PRIV_SPEC_CLASS_DRAFT,
      csr ''mepc'' 0x341 CSR_CLASS_I PRIV_SPEC_CLASS_1P9P1 PRIV_SPEC_CLASS_DRAFT,
      csr ''mcause'' 0x342 CSR_CLASS_I PRIV_SPEC_CLASS_1P9P1 PRIV_SPEC_CLASS_DRAFT,
      csr ''mtval'' 0x343 CSR_CLASS_I PRIV_SPEC_CLASS_1P10 PRIV_SPEC_CLASS_DRAFT,
      csr ''mip'' 0x344 CSR_CLASS_I PRIV_SPEC_CLASS_1P9P1 PRIV_SPEC_CLASS_DRAFT,
      csr ''mtinst'' 0x34a CSR_CLASS_I PRIV_SPEC_CLASS_1P12 PRIV_SPEC_CLASS_DRAFT,
      csr ''mtval2'' 0x34b CSR_CLASS_I PRIV_SPEC_CLASS_1P12 PRIV_SPEC_CLASS_DRAFT,
      csr ''menvcfg'' 0x30a CSR_CLASS_I PRIV_SPEC_CLASS_1P12 PRIV_SPEC_CLASS_DRAFT,
      csr ''menvcfgh'' 0x31a CSR_CLASS_I_32 PRIV_SPEC_CLASS_1P12 PRIV_SPEC_CLASS_DRAFT,
      csr ''mseccfg'' 0x747 CSR_CLASS_I PRIV_SPEC_CLASS_1P12 PRIV_SPEC_CLASS_DRAFT,
      csr ''mseccfgh'' 0x757 CSR_CLASS_I_32 PRIV_SPEC_CLASS_1P12 PRIV_SPEC_CLASS_DRAFT,
      csr ''pmpcfg0'' 0x3a0 CSR_CLASS_I PRIV_SPEC_CLASS_1P10 PRIV_SPEC_CLASS_DRAFT,
      csr ''pmpcfg1'' 0x3a1 CSR_CLASS_I_32 PRIV_SPEC_CLASS_1P10 PRIV_SPEC_CLASS_DRAFT,
      csr ''pmpcfg2'' 0x3a2 CSR_CLASS_I PRIV_SPEC_CLASS_1P10 PRIV_SPEC_CLASS_DRAFT,
      csr ''pmpcfg3'' 0x3a3 CSR_CLASS_I_32 PRIV_SPEC_CLASS_1P10 PRIV_SPEC_CLASS_DRAFT,
      csr ''pmpcfg4'' 0x3a4 CSR_CLASS_I PRIV_SPEC_CLASS_1P12 PRIV_SPEC_CLASS_DRAFT,
      csr ''pmpcfg5'' 0x3a5 CSR_CLASS_I_32 PRIV_SPEC_CLASS_1P12 PRIV_SPEC_CLASS_DRAFT,
      csr ''pmpcfg6'' 0x3a6 CSR_CLASS_I PRIV_SPEC_CLASS_1P12 PRIV_SPEC_CLASS_DRAFT,
      csr ''pmpcfg7'' 0x3a7 CSR_CLASS_I_32 PRIV_SPEC_CLASS_1P12 PRIV_SPEC_CLASS_DRAFT,
      csr ''pmpcfg8'' 0x3a8 CSR_CLASS_I PRIV_SPEC_CLASS_1P12 PRIV_SPEC_CLASS_DRAFT,
      csr ''pmpcfg9'' 0x3a9 CSR_CLASS_I_32 PRIV_SPEC_CLASS_1P12 PRIV_SPEC_CLASS_DRAFT,
      csr ''pmpcfg10'' 0x3aa CSR_CLASS_I PRIV_SPEC_CLASS_1P12 PRIV_SPEC_CLASS_DRAFT,
      csr ''pmpcfg11'' 0x3ab CSR_CLASS_I_32 PRIV_SPEC_CLASS_1P12 PRIV_SPEC_CLASS_DRAFT,
      csr ''pmpcfg12'' 0x3ac CSR_CLASS_I PRIV_SPEC_CLASS_1P12 PRIV_SPEC_CLASS_DRAFT,
      csr ''pmpcfg13'' 0x3ad CSR_CLASS_I_32 PRIV_SPEC_CLASS_1P12 PRIV_SPEC_CLASS_DRAFT]"

definition csr_decls_2 :: "(string \<times> riscv_csr_extra) list" where
  "csr_decls_2 =
     [csr ''pmpcfg14'' 0x3ae CSR_CLASS_I PRIV_SPEC_CLASS_1P12 PRIV_SPEC_CLASS_DRAFT,
      csr ''pmpcfg15'' 0x3af CSR_CLASS_I_32 PRIV_SPEC_CLASS_1P12 PRIV_SPEC_CLASS_DRAFT,
      csr ''pmpaddr0'' 0x3b0 CSR_CLASS_I PRIV_SPEC_CLASS_1P10 PRIV_SPEC_CLASS_DRAFT,
      csr ''pmpaddr1'' 0x3b1 CSR_CLASS_I PRIV_SPEC_CLASS_1P10 PRIV_SPEC_CLASS_DRAFT,
      csr ''pmpaddr2'' 0x3b2 CSR_CLASS_I PRIV_SPEC_CLASS_1P10 PRIV_SPEC_CLASS_DRAFT,
      csr ''pmpaddr3'' 0x3b3 CSR_CLASS_I PRIV_SPEC_CLASS_1P10 PRIV_SPEC_CLASS_DRAFT,
      csr ''pmpaddr4'' 0x3b4 CSR_CLASS_I PRIV_SPEC_CLASS_1P10 PRIV_SPEC_CLASS_DRAFT,
      csr ''pmpaddr5'' 0x3b5 CSR_CLASS_I PRIV_SPEC_CLASS_1P10 PRIV_SPEC_CLASS_DRAFT,
      csr ''pmpaddr6'' 0x3b6 CSR_CLASS_I PRIV_SPEC_CLASS_1P10 PRIV_SPEC_CLASS_DRAFT,
      csr ''pmpaddr7'' 0x3b7 CSR_CLASS_I PRIV_SPEC_CLASS_1P10 PRIV_SPEC_CLASS_DRAFT,
      csr ''pmpaddr8'' 0x3b8 CSR_CLASS_I PRIV_SPEC_CLASS_1P10 PRIV_SPEC_CLASS_DRAFT,
      csr ''pmpaddr9'' 0x3b9 CSR_CLASS_I PRIV_SPEC_CLASS_1P10 PRIV_SPEC_CLASS_DRAFT,
      csr ''pmpaddr10'' 0x3ba CSR_CLASS_I PRIV_SPEC_CLASS_1P10 PRIV_SPEC_CLASS_DRAFT,
      csr ''pmpaddr11'' 0x3bb CSR_CLASS_I PRIV_SPEC_CLASS_1P10 PRIV_SPEC_CLASS_DRAFT,
      csr ''pmpaddr12'' 0x3bc CSR_CLASS_I PRIV_SPEC_CLASS_1P10 PRIV_SPEC_CLASS_DRAFT,
      csr ''pmpaddr13'' 0x3bd CSR_CLASS_I PRIV_SPEC_CLASS_1P10 PRIV_SPEC_CLASS_DRAFT,
      csr ''pmpaddr14'' 0x3be CSR_CLASS_I PRIV_SPEC_CLASS_1P10 PRIV_SPEC_CLASS_DRAFT,
      csr ''pmpaddr15'' 0x3bf CSR_CLASS_I PRIV_SPEC_CLASS_1P10 PRIV_SPEC_CLASS_DRAFT,
      csr ''pmpaddr16'' 0x3c0 CSR_CLASS_I PRIV_SPEC_CLASS_1P12 PRIV_SPEC_CLASS_DRAFT,
      csr ''pmpaddr17'' 0x3c1 CSR_CLASS_I PRIV_SPEC_CLASS_1P12 PRIV_SPEC_CLASS_DRAFT,
      csr ''pmpaddr18'' 0x3c2 CSR_CLASS_I PRIV_SPEC_CLASS_1P12 PRIV_SPEC_CLASS_DRAFT,
      csr ''pmpaddr19'' 0x3c3 CSR_CLASS_I PRIV_SPEC_CLASS_1P12 PRIV_SPEC_CLASS_DRAFT,
      csr ''pmpaddr20'' 0x3c4 CSR_CLASS_I PRIV_SPEC_CLASS_1P12 PRIV_SPEC_CLASS_DRAFT,
      csr ''pmpaddr21'' 0x3c5 CSR_CLASS_I PRIV_SPEC_CLASS_1P12 PRIV_SPEC_CLASS_DRAFT,
      csr ''pmpaddr22'' 0x3c6 CSR_CLASS_I PRIV_SPEC_CLASS_1P12 PRIV_SPEC_CLASS_DRAFT,
      csr ''pmpaddr23'' 0x3c7 CSR_CLASS_I PRIV_SPEC_CLASS_1P12 PRIV_SPEC_CLASS_DRAFT,
      csr ''pmpaddr24'' 0x3c8 CSR_CLASS_I PRIV_SPEC_CLASS_1P12 PRIV_SPEC_CLASS_DRAFT,
      csr ''pmpaddr25'' 0x3c9 CSR_CLASS_I PRIV_SPEC_CLASS_1P12 PRIV_SPEC_CLASS_DRAFT,
      csr ''pmpaddr26'' 0x3ca CSR_CLASS_I PRIV_SPEC_CLASS_1P12 PRIV_SPEC_CLASS_DRAFT,
      csr ''pmpaddr27'' 0x3cb CSR_CLASS_I PRIV_SPEC_CLASS_1P12 PRIV_SPEC_CLASS_DRAFT,
      csr ''pmpaddr28'' 0x3cc CSR_CLASS_I PRIV_SPEC_CLASS_1P12 PRIV_SPEC_CLASS_DRAFT,
      csr ''pmpaddr29'' 0x3cd CSR_CLASS_I PRIV_SPEC_CLASS_1P12 PRIV_SPEC_CLASS_DRAFT,
      csr ''pmpaddr30'' 0x3ce CSR_CLASS_I PRIV_SPEC_CLASS_1P12 PRIV_SPEC_CLASS_DRAFT,
      csr ''pmpaddr31'' 0x3cf CSR_CLASS_I PRIV_SPEC_CLASS_1P12 PRIV_SPEC_CLASS_DRAFT,
      csr ''pmpaddr32'' 0x3d0 CSR_CLASS_I PRIV_SPEC_CLASS_1P12 PRIV_SPEC_CLASS_DRAFT,
      csr ''pmpaddr33'' 0x3d1 CSR_CLASS_I PRIV_SPEC_CLASS_1P12 PRIV_SPEC_CLASS_DRAFT,
      csr ''pmpaddr34'' 0x3d2 CSR_CLASS_I PRIV_SPEC_CLASS_1P12 PRIV_SPEC_CLASS_DRAFT,
      csr ''pmpaddr35'' 0x3d3 CSR_CLASS_I PRIV_SPEC_CLASS_1P12 PRIV_SPEC_CLASS_DRAFT,
      csr ''pmpaddr36'' 0x3d4 CSR_CLASS_I PRIV_SPEC_CLASS_1P12 PRIV_SPEC_CLASS_DRAFT,
      csr ''pmpaddr37'' 0x3d5 CSR_CLASS_I PRIV_SPEC_CLASS_1P12 PRIV_SPEC_CLASS_DRAFT,
      csr ''pmpaddr38'' 0x3d6 CSR_CLASS_I PRIV_SPEC_CLASS_1P12 PRIV_SPEC_CLASS_DRAFT,
      csr ''pmpaddr39'' 0x3d7 CSR_CLASS_I PRIV_SPEC_CLASS_1P12 PRIV_SPEC_CLASS_DRAFT,
      csr ''pmpaddr40'' 0x3d8 CSR_CLASS_I PRIV_SPEC_CLASS_1P12 PRIV_SPEC_CLASS_DRAFT,
      csr ''pmpaddr41'' 0x3d9 CSR_CLASS_I PRIV_SPEC_CLASS_1P12 PRIV_SPEC_CLASS_DRAFT,
      csr ''pmpaddr42'' 0x3da CSR_CLASS_I PRIV_SPEC_CLASS_1P12 PRIV_SPEC_CLASS_DRAFT,
      csr ''pmpaddr43'' 0x3db CSR_CLASS_I PRIV_SPEC_CLASS_1P12 PRIV_SPEC_CLASS_DRAFT,
      csr ''pmpaddr44'' 0x3dc CSR_CLASS_I PRIV_SPEC_CLASS_1P12 PRIV_SPEC_CLASS_DRAFT,
      csr ''pmpaddr45'' 0x3dd CSR_CLASS_I PRIV_SPEC_CLASS_1P12 PRIV_SPEC_CLASS_DRAFT,
      csr ''pmpaddr46'' 0x3de CSR_CLASS_I PRIV_SPEC_CLASS_1P12 PRIV_SPEC_CLASS_DRAFT,
      csr ''pmpaddr47'' 0x3df CSR_CLASS_I PRIV_SPEC_CLASS_1P12 PRIV_SPEC_CLASS_DRAFT,
      csr ''pmpaddr48'' 0x3e0 CSR_CLASS_I PRIV_SPEC_CLASS_1P12 PRIV_SPEC_CLASS_DRAFT,
      csr ''pmpaddr49'' 0x3e1 CSR_CLASS_I PRIV_SPEC_CLASS_1P12 PRIV_SPEC_CLASS_DRAFT,
      csr ''pmpaddr50'' 0x3e2 CSR_CLASS_I PRIV_SPEC_CLASS_1P12 PRIV_SPEC_CLASS_DRAFT,
      csr ''pmpaddr51'' 0x3e3 CSR_CLASS_I PRIV_SPEC_CLASS_1P12 PRIV_SPEC_CLASS_DRAFT,
      csr ''pmpaddr52'' 0x3e4 CSR_CLASS_I PRIV_SPEC_CLASS_1P12 PRIV_SPEC_CLASS_DRAFT,
      csr ''pmpaddr53'' 0x3e5 CSR_CLASS_I PRIV_SPEC_CLASS_1P12 PRIV_SPEC_CLASS_DRAFT,
      csr ''pmpaddr54'' 0x3e6 CSR_CLASS_I PRIV_SPEC_CLASS_1P12 PRIV_SPEC_CLASS_DRAFT,
      csr ''pmpaddr55'' 0x3e7 CSR_CLASS_I PRIV_SPEC_CLASS_1P12 PRIV_SPEC_CLASS_DRAFT,
      csr ''pmpaddr56'' 0x3e8 CSR_CLASS_I PRIV_SPEC_CLASS_1P12 PRIV_SPEC_CLASS_DRAFT,
      csr ''pmpaddr57'' 0x3e9 CSR_CLASS_I PRIV_SPEC_CLASS_1P12 PRIV_SPEC_CLASS_DRAFT,
      csr ''pmpaddr58'' 0x3ea CSR_CLASS_I PRIV_SPEC_CLASS_1P12 PRIV_SPEC_CLASS_DRAFT,
      csr ''pmpaddr59'' 0x3eb CSR_CLASS_I PRIV_SPEC_CLASS_1P12 PRIV_SPEC_CLASS_DRAFT,
      csr ''pmpaddr60'' 0x3ec CSR_CLASS_I PRIV_SPEC_CLASS_1P12 PRIV_SPEC_CLASS_DRAFT,
      csr ''pmpaddr61'' 0x3ed CSR_CLASS_I PRIV_SPEC_CLASS_1P12 PRIV_SPEC_CLASS_DRAFT,
      csr ''pmpaddr62'' 0x3ee CSR_CLASS_I PRIV_SPEC_CLASS_1P12 PRIV_SPEC_CLASS_DRAFT,
      csr ''pmpaddr63'' 0x3ef CSR_CLASS_I PRIV_SPEC_CLASS_1P12 PRIV_SPEC_CLASS_DRAFT,
      csr ''mcycle'' 0xb00 CSR_CLASS_I PRIV_SPEC_CLASS_1P9P1 PRIV_SPEC_CLASS_DRAFT,
      csr ''minstret'' 0xb02 CSR_CLASS_I PRIV_SPEC_CLASS_1P9P1 PRIV_SPEC_CLASS_DRAFT,
      csr ''mhpmcounter3'' 0xb03 CSR_CLASS_I PRIV_SPEC_CLASS_1P9P1 PRIV_SPEC_CLASS_DRAFT,
      csr ''mhpmcounter4'' 0xb04 CSR_CLASS_I PRIV_SPEC_CLASS_1P9P1 PRIV_SPEC_CLASS_DRAFT,
      csr ''mhpmcounter5'' 0xb05 CSR_CLASS_I PRIV_SPEC_CLASS_1P9P1 PRIV_SPEC_CLASS_DRAFT,
      csr ''mhpmcounter6'' 0xb06 CSR_CLASS_I PRIV_SPEC_CLASS_1P9P1 PRIV_SPEC_CLASS_DRAFT,
      csr ''mhpmcounter7'' 0xb07 CSR_CLASS_I PRIV_SPEC_CLASS_1P9P1 PRIV_SPEC_CLASS_DRAFT,
      csr ''mhpmcounter8'' 0xb08 CSR_CLASS_I PRIV_SPEC_CLASS_1P9P1 PRIV_SPEC_CLASS_DRAFT,
      csr ''mhpmcounter9'' 0xb09 CSR_CLASS_I PRIV_SPEC_CLASS_1P9P1 PRIV_SPEC_CLASS_DRAFT,
      csr ''mhpmcounter10'' 0xb0a CSR_CLASS_I PRIV_SPEC_CLASS_1P9P1 PRIV_SPEC_CLASS_DRAFT,
      csr ''mhpmcounter11'' 0xb0b CSR_CLASS_I PRIV_SPEC_CLASS_1P9P1 PRIV_SPEC_CLASS_DRAFT,
      csr ''mhpmcounter12'' 0xb0c CSR_CLASS_I PRIV_SPEC_CLASS_1P9P1 PRIV_SPEC_CLASS_DRAFT,
      csr ''mhpmcounter13'' 0xb0d CSR_CLASS_I PRIV_SPEC_CLASS_1P9P1 PRIV_SPEC_CLASS_DRAFT,
      csr ''mhpmcounter14'' 0xb0e CSR_CLASS_I PRIV_SPEC_CLASS_1P9P1 PRIV_SPEC_CLASS_DRAFT,
      csr ''mhpmcounter15'' 0xb0f CSR_CLASS_I PRIV_SPEC_CLASS_1P9P1 PRIV_SPEC_CLASS_DRAFT,
      csr ''mhpmcounter16'' 0xb10 CSR_CLASS_I PRIV_SPEC_CLASS_1P9P1 PRIV_SPEC_CLASS_DRAFT,
      csr ''mhpmcounter17'' 0xb11 CSR_CLASS_I PRIV_SPEC_CLASS_1P9P1 PRIV_SPEC_CLASS_DRAFT,
      csr ''mhpmcounter18'' 0xb12 CSR_CLASS_I PRIV_SPEC_CLASS_1P9P1 PRIV_SPEC_CLASS_DRAFT,
      csr ''mhpmcounter19'' 0xb13 CSR_CLASS_I PRIV_SPEC_CLASS_1P9P1 PRIV_SPEC_CLASS_DRAFT,
      csr ''mhpmcounter20'' 0xb14 CSR_CLASS_I PRIV_SPEC_CLASS_1P9P1 PRIV_SPEC_CLASS_DRAFT,
      csr ''mhpmcounter21'' 0xb15 CSR_CLASS_I PRIV_SPEC_CLASS_1P9P1 PRIV_SPEC_CLASS_DRAFT,
      csr ''mhpmcounter22'' 0xb16 CSR_CLASS_I PRIV_SPEC_CLASS_1P9P1 PRIV_SPEC_CLASS_DRAFT,
      csr ''mhpmcounter23'' 0xb17 CSR_CLASS_I PRIV_SPEC_CLASS_1P9P1 PRIV_SPEC_CLASS_DRAFT,
      csr ''mhpmcounter24'' 0xb18 CSR_CLASS_I PRIV_SPEC_CLASS_1P9P1 PRIV_SPEC_CLASS_DRAFT,
      csr ''mhpmcounter25'' 0xb19 CSR_CLASS_I PRIV_SPEC_CLASS_1P9P1 PRIV_SPEC_CLASS_DRAFT,
      csr ''mhpmcounter26'' 0xb1a CSR_CLASS_I PRIV_SPEC_CLASS_1P9P1 PRIV_SPEC_CLASS_DRAFT,
      csr ''mhpmcounter27'' 0xb1b CSR_CLASS_I PRIV_SPEC_CLASS_1P9P1 PRIV_SPEC_CLASS_DRAFT,
      csr ''mhpmcounter28'' 0xb1c CSR_CLASS_I PRIV_SPEC_CLASS_1P9P1 PRIV_SPEC_CLASS_DRAFT,
      csr ''mhpmcounter29'' 0xb1d CSR_CLASS_I PRIV_SPEC_CLASS_1P9P1 PRIV_SPEC_CLASS_DRAFT,
      csr ''mhpmcounter30'' 0xb1e CSR_CLASS_I PRIV_SPEC_CLASS_1P9P1 PRIV_SPEC_CLASS_DRAFT,
      csr ''mhpmcounter31'' 0xb1f CSR_CLASS_I PRIV_SPEC_CLASS_1P9P1 PRIV_SPEC_CLASS_DRAFT,
      csr ''mcycleh'' 0xb80 CSR_CLASS_I_32 PRIV_SPEC_CLASS_1P9P1 PRIV_SPEC_CLASS_DRAFT,
      csr ''minstreth'' 0xb82 CSR_CLASS_I_32 PRIV_SPEC_CLASS_1P9P1 PRIV_SPEC_CLASS_DRAFT,
      csr ''mhpmcounter3h'' 0xb83 CSR_CLASS_I_32 PRIV_SPEC_CLASS_1P9P1 PRIV_SPEC_CLASS_DRAFT,
      csr ''mhpmcounter4h'' 0xb84 CSR_CLASS_I_32 PRIV_SPEC_CLASS_1P9P1 PRIV_SPEC_CLASS_DRAFT,
      csr ''mhpmcounter5h'' 0xb85 CSR_CLASS_I_32 PRIV_SPEC_CLASS_1P9P1 PRIV_SPEC_CLASS_DRAFT,
      csr ''mhpmcounter6h'' 0xb86 CSR_CLASS_I_32 PRIV_SPEC_CLASS_1P9P1 PRIV_SPEC_CLASS_DRAFT,
      csr ''mhpmcounter7h'' 0xb87 CSR_CLASS_I_32 PRIV_SPEC_CLASS_1P9P1 PRIV_SPEC_CLASS_DRAFT,
      csr ''mhpmcounter8h'' 0xb88 CSR_CLASS_I_32 PRIV_SPEC_CLASS_1P9P1 PRIV_SPEC_CLASS_DRAFT,
      csr ''mhpmcounter9h'' 0xb89 CSR_CLASS_I_32 PRIV_SPEC_CLASS_1P9P1 PRIV_SPEC_CLASS_DRAFT,
      csr ''mhpmcounter10h'' 0xb8a CSR_CLASS_I_32 PRIV_SPEC_CLASS_1P9P1 PRIV_SPEC_CLASS_DRAFT,
      csr ''mhpmcounter11h'' 0xb8b CSR_CLASS_I_32 PRIV_SPEC_CLASS_1P9P1 PRIV_SPEC_CLASS_DRAFT,
      csr ''mhpmcounter12h'' 0xb8c CSR_CLASS_I_32 PRIV_SPEC_CLASS_1P9P1 PRIV_SPEC_CLASS_DRAFT,
      csr ''mhpmcounter13h'' 0xb8d CSR_CLASS_I_32 PRIV_SPEC_CLASS_1P9P1 PRIV_SPEC_CLASS_DRAFT,
      csr ''mhpmcounter14h'' 0xb8e CSR_CLASS_I_32 PRIV_SPEC_CLASS_1P9P1 PRIV_SPEC_CLASS_DRAFT,
      csr ''mhpmcounter15h'' 0xb8f CSR_CLASS_I_32 PRIV_SPEC_CLASS_1P9P1 PRIV_SPEC_CLASS_DRAFT,
      csr ''mhpmcounter16h'' 0xb90 CSR_CLASS_I_32 PRIV_SPEC_CLASS_1P9P1 PRIV_SPEC_CLASS_DRAFT]"

definition csr_decls_3 :: "(string \<times> riscv_csr_extra) list" where
  "csr_decls_3 =
     [csr ''mhpmcounter17h'' 0xb91 CSR_CLASS_I_32 PRIV_SPEC_CLASS_1P9P1 PRIV_SPEC_CLASS_DRAFT,
      csr ''mhpmcounter18h'' 0xb92 CSR_CLASS_I_32 PRIV_SPEC_CLASS_1P9P1 PRIV_SPEC_CLASS_DRAFT,
      csr ''mhpmcounter19h'' 0xb93 CSR_CLASS_I_32 PRIV_SPEC_CLASS_1P9P1 PRIV_SPEC_CLASS_DRAFT,
      csr ''mhpmcounter20h'' 0xb94 CSR_CLASS_I_32 PRIV_SPEC_CLASS_1P9P1 PRIV_SPEC_CLASS_DRAFT,
      csr ''mhpmcounter21h'' 0xb95 CSR_CLASS_I_32 PRIV_SPEC_CLASS_1P9P1 PRIV_SPEC_CLASS_DRAFT,
      csr ''mhpmcounter22h'' 0xb96 CSR_CLASS_I_32 PRIV_SPEC_CLASS_1P9P1 PRIV_SPEC_CLASS_DRAFT,
      csr ''mhpmcounter23h'' 0xb97 CSR_CLASS_I_32 PRIV_SPEC_CLASS_1P9P1 PRIV_SPEC_CLASS_DRAFT,
      csr ''mhpmcounter24h'' 0xb98 CSR_CLASS_I_32 PRIV_SPEC_CLASS_1P9P1 PRIV_SPEC_CLASS_DRAFT,
      csr ''mhpmcounter25h'' 0xb99 CSR_CLASS_I_32 PRIV_SPEC_CLASS_1P9P1 PRIV_SPEC_CLASS_DRAFT,
      csr ''mhpmcounter26h'' 0xb9a CSR_CLASS_I_32 PRIV_SPEC_CLASS_1P9P1 PRIV_SPEC_CLASS_DRAFT,
      csr ''mhpmcounter27h'' 0xb9b CSR_CLASS_I_32 PRIV_SPEC_CLASS_1P9P1 PRIV_SPEC_CLASS_DRAFT,
      csr ''mhpmcounter28h'' 0xb9c CSR_CLASS_I_32 PRIV_SPEC_CLASS_1P9P1 PRIV_SPEC_CLASS_DRAFT,
      csr ''mhpmcounter29h'' 0xb9d CSR_CLASS_I_32 PRIV_SPEC_CLASS_1P9P1 PRIV_SPEC_CLASS_DRAFT,
      csr ''mhpmcounter30h'' 0xb9e CSR_CLASS_I_32 PRIV_SPEC_CLASS_1P9P1 PRIV_SPEC_CLASS_DRAFT,
      csr ''mhpmcounter31h'' 0xb9f CSR_CLASS_I_32 PRIV_SPEC_CLASS_1P9P1 PRIV_SPEC_CLASS_DRAFT,
      csr ''mcountinhibit'' 0x320 CSR_CLASS_I PRIV_SPEC_CLASS_1P11 PRIV_SPEC_CLASS_DRAFT,
      csr ''mhpmevent3'' 0x323 CSR_CLASS_I PRIV_SPEC_CLASS_1P9P1 PRIV_SPEC_CLASS_DRAFT,
      csr ''mhpmevent4'' 0x324 CSR_CLASS_I PRIV_SPEC_CLASS_1P9P1 PRIV_SPEC_CLASS_DRAFT,
      csr ''mhpmevent5'' 0x325 CSR_CLASS_I PRIV_SPEC_CLASS_1P9P1 PRIV_SPEC_CLASS_DRAFT,
      csr ''mhpmevent6'' 0x326 CSR_CLASS_I PRIV_SPEC_CLASS_1P9P1 PRIV_SPEC_CLASS_DRAFT,
      csr ''mhpmevent7'' 0x327 CSR_CLASS_I PRIV_SPEC_CLASS_1P9P1 PRIV_SPEC_CLASS_DRAFT,
      csr ''mhpmevent8'' 0x328 CSR_CLASS_I PRIV_SPEC_CLASS_1P9P1 PRIV_SPEC_CLASS_DRAFT,
      csr ''mhpmevent9'' 0x329 CSR_CLASS_I PRIV_SPEC_CLASS_1P9P1 PRIV_SPEC_CLASS_DRAFT,
      csr ''mhpmevent10'' 0x32a CSR_CLASS_I PRIV_SPEC_CLASS_1P9P1 PRIV_SPEC_CLASS_DRAFT,
      csr ''mhpmevent11'' 0x32b CSR_CLASS_I PRIV_SPEC_CLASS_1P9P1 PRIV_SPEC_CLASS_DRAFT,
      csr ''mhpmevent12'' 0x32c CSR_CLASS_I PRIV_SPEC_CLASS_1P9P1 PRIV_SPEC_CLASS_DRAFT,
      csr ''mhpmevent13'' 0x32d CSR_CLASS_I PRIV_SPEC_CLASS_1P9P1 PRIV_SPEC_CLASS_DRAFT,
      csr ''mhpmevent14'' 0x32e CSR_CLASS_I PRIV_SPEC_CLASS_1P9P1 PRIV_SPEC_CLASS_DRAFT,
      csr ''mhpmevent15'' 0x32f CSR_CLASS_I PRIV_SPEC_CLASS_1P9P1 PRIV_SPEC_CLASS_DRAFT,
      csr ''mhpmevent16'' 0x330 CSR_CLASS_I PRIV_SPEC_CLASS_1P9P1 PRIV_SPEC_CLASS_DRAFT,
      csr ''mhpmevent17'' 0x331 CSR_CLASS_I PRIV_SPEC_CLASS_1P9P1 PRIV_SPEC_CLASS_DRAFT,
      csr ''mhpmevent18'' 0x332 CSR_CLASS_I PRIV_SPEC_CLASS_1P9P1 PRIV_SPEC_CLASS_DRAFT,
      csr ''mhpmevent19'' 0x333 CSR_CLASS_I PRIV_SPEC_CLASS_1P9P1 PRIV_SPEC_CLASS_DRAFT,
      csr ''mhpmevent20'' 0x334 CSR_CLASS_I PRIV_SPEC_CLASS_1P9P1 PRIV_SPEC_CLASS_DRAFT,
      csr ''mhpmevent21'' 0x335 CSR_CLASS_I PRIV_SPEC_CLASS_1P9P1 PRIV_SPEC_CLASS_DRAFT,
      csr ''mhpmevent22'' 0x336 CSR_CLASS_I PRIV_SPEC_CLASS_1P9P1 PRIV_SPEC_CLASS_DRAFT,
      csr ''mhpmevent23'' 0x337 CSR_CLASS_I PRIV_SPEC_CLASS_1P9P1 PRIV_SPEC_CLASS_DRAFT,
      csr ''mhpmevent24'' 0x338 CSR_CLASS_I PRIV_SPEC_CLASS_1P9P1 PRIV_SPEC_CLASS_DRAFT,
      csr ''mhpmevent25'' 0x339 CSR_CLASS_I PRIV_SPEC_CLASS_1P9P1 PRIV_SPEC_CLASS_DRAFT,
      csr ''mhpmevent26'' 0x33a CSR_CLASS_I PRIV_SPEC_CLASS_1P9P1 PRIV_SPEC_CLASS_DRAFT,
      csr ''mhpmevent27'' 0x33b CSR_CLASS_I PRIV_SPEC_CLASS_1P9P1 PRIV_SPEC_CLASS_DRAFT,
      csr ''mhpmevent28'' 0x33c CSR_CLASS_I PRIV_SPEC_CLASS_1P9P1 PRIV_SPEC_CLASS_DRAFT,
      csr ''mhpmevent29'' 0x33d CSR_CLASS_I PRIV_SPEC_CLASS_1P9P1 PRIV_SPEC_CLASS_DRAFT,
      csr ''mhpmevent30'' 0x33e CSR_CLASS_I PRIV_SPEC_CLASS_1P9P1 PRIV_SPEC_CLASS_DRAFT,
      csr ''mhpmevent31'' 0x33f CSR_CLASS_I PRIV_SPEC_CLASS_1P9P1 PRIV_SPEC_CLASS_DRAFT,
      csr ''hstatus'' 0x600 CSR_CLASS_H PRIV_SPEC_CLASS_NONE PRIV_SPEC_CLASS_NONE,
      csr ''hedeleg'' 0x602 CSR_CLASS_H PRIV_SPEC_CLASS_NONE PRIV_SPEC_CLASS_NONE,
      csr ''hideleg'' 0x603 CSR_CLASS_H PRIV_SPEC_CLASS_NONE PRIV_SPEC_CLASS_NONE,
      csr ''hie'' 0x604 CSR_CLASS_H PRIV_SPEC_CLASS_NONE PRIV_SPEC_CLASS_NONE,
      csr ''hcounteren'' 0x606 CSR_CLASS_H PRIV_SPEC_CLASS_NONE PRIV_SPEC_CLASS_NONE,
      csr ''hgeie'' 0x607 CSR_CLASS_H PRIV_SPEC_CLASS_NONE PRIV_SPEC_CLASS_NONE,
      csr ''htval'' 0x643 CSR_CLASS_H PRIV_SPEC_CLASS_NONE PRIV_SPEC_CLASS_NONE,
      csr ''hip'' 0x644 CSR_CLASS_H PRIV_SPEC_CLASS_NONE PRIV_SPEC_CLASS_NONE,
      csr ''hvip'' 0x645 CSR_CLASS_H PRIV_SPEC_CLASS_NONE PRIV_SPEC_CLASS_NONE,
      csr ''htinst'' 0x64a CSR_CLASS_H PRIV_SPEC_CLASS_NONE PRIV_SPEC_CLASS_NONE,
      csr ''hgeip'' 0xe12 CSR_CLASS_H PRIV_SPEC_CLASS_NONE PRIV_SPEC_CLASS_NONE,
      csr ''henvcfg'' 0x60a CSR_CLASS_H PRIV_SPEC_CLASS_NONE PRIV_SPEC_CLASS_NONE,
      csr ''henvcfgh'' 0x61a CSR_CLASS_H_32 PRIV_SPEC_CLASS_NONE PRIV_SPEC_CLASS_NONE,
      csr ''hgatp'' 0x680 CSR_CLASS_H PRIV_SPEC_CLASS_NONE PRIV_SPEC_CLASS_NONE,
      csr ''htimedelta'' 0x605 CSR_CLASS_H PRIV_SPEC_CLASS_NONE PRIV_SPEC_CLASS_NONE,
      csr ''htimedeltah'' 0x615 CSR_CLASS_H_32 PRIV_SPEC_CLASS_NONE PRIV_SPEC_CLASS_NONE,
      csr ''vsstatus'' 0x200 CSR_CLASS_H PRIV_SPEC_CLASS_NONE PRIV_SPEC_CLASS_NONE,
      csr ''vsie'' 0x204 CSR_CLASS_H PRIV_SPEC_CLASS_NONE PRIV_SPEC_CLASS_NONE,
      csr ''vstvec'' 0x205 CSR_CLASS_H PRIV_SPEC_CLASS_NONE PRIV_SPEC_CLASS_NONE,
      csr ''vsscratch'' 0x240 CSR_CLASS_H PRIV_SPEC_CLASS_NONE PRIV_SPEC_CLASS_NONE,
      csr ''vsepc'' 0x241 CSR_CLASS_H PRIV_SPEC_CLASS_NONE PRIV_SPEC_CLASS_NONE,
      csr ''vscause'' 0x242 CSR_CLASS_H PRIV_SPEC_CLASS_NONE PRIV_SPEC_CLASS_NONE,
      csr ''vstval'' 0x243 CSR_CLASS_H PRIV_SPEC_CLASS_NONE PRIV_SPEC_CLASS_NONE,
      csr ''vsip'' 0x244 CSR_CLASS_H PRIV_SPEC_CLASS_NONE PRIV_SPEC_CLASS_NONE,
      csr ''vsatp'' 0x280 CSR_CLASS_H PRIV_SPEC_CLASS_NONE PRIV_SPEC_CLASS_NONE,
      csr ''miselect'' 0x350 CSR_CLASS_SMAIA PRIV_SPEC_CLASS_NONE PRIV_SPEC_CLASS_NONE,
      csr ''mireg'' 0x351 CSR_CLASS_SMAIA PRIV_SPEC_CLASS_NONE PRIV_SPEC_CLASS_NONE,
      csr ''mtopei'' 0x35c CSR_CLASS_SMAIA PRIV_SPEC_CLASS_NONE PRIV_SPEC_CLASS_NONE,
      csr ''mtopi'' 0xfb0 CSR_CLASS_SMAIA PRIV_SPEC_CLASS_NONE PRIV_SPEC_CLASS_NONE,
      csr ''mvien'' 0x308 CSR_CLASS_SMAIA PRIV_SPEC_CLASS_NONE PRIV_SPEC_CLASS_NONE,
      csr ''mvip'' 0x309 CSR_CLASS_SMAIA PRIV_SPEC_CLASS_NONE PRIV_SPEC_CLASS_NONE,
      csr ''midelegh'' 0x313 CSR_CLASS_SMAIA_32 PRIV_SPEC_CLASS_NONE PRIV_SPEC_CLASS_NONE,
      csr ''mieh'' 0x314 CSR_CLASS_SMAIA_32 PRIV_SPEC_CLASS_NONE PRIV_SPEC_CLASS_NONE,
      csr ''mvienh'' 0x318 CSR_CLASS_SMAIA_32 PRIV_SPEC_CLASS_NONE PRIV_SPEC_CLASS_NONE,
      csr ''mviph'' 0x319 CSR_CLASS_SMAIA_32 PRIV_SPEC_CLASS_NONE PRIV_SPEC_CLASS_NONE,
      csr ''miph'' 0x354 CSR_CLASS_SMAIA_32 PRIV_SPEC_CLASS_NONE PRIV_SPEC_CLASS_NONE,
      csr ''mcyclecfg'' 0x321 CSR_CLASS_SMCNTRPMF PRIV_SPEC_CLASS_1P10 PRIV_SPEC_CLASS_DRAFT,
      csr ''minstretcfg'' 0x322 CSR_CLASS_SMCNTRPMF PRIV_SPEC_CLASS_1P10 PRIV_SPEC_CLASS_DRAFT,
      csr ''mcyclecfgh'' 0x721 CSR_CLASS_SMCNTRPMF_32 PRIV_SPEC_CLASS_1P10 PRIV_SPEC_CLASS_DRAFT,
      csr ''minstretcfgh'' 0x722 CSR_CLASS_SMCNTRPMF_32 PRIV_SPEC_CLASS_1P10 PRIV_SPEC_CLASS_DRAFT,
      csr ''mstateen0'' 0x30c CSR_CLASS_SMSTATEEN PRIV_SPEC_CLASS_NONE PRIV_SPEC_CLASS_NONE,
      csr ''mstateen1'' 0x30d CSR_CLASS_SMSTATEEN PRIV_SPEC_CLASS_NONE PRIV_SPEC_CLASS_NONE,
      csr ''mstateen2'' 0x30e CSR_CLASS_SMSTATEEN PRIV_SPEC_CLASS_NONE PRIV_SPEC_CLASS_NONE,
      csr ''mstateen3'' 0x30f CSR_CLASS_SMSTATEEN PRIV_SPEC_CLASS_NONE PRIV_SPEC_CLASS_NONE,
      csr ''sstateen0'' 0x10c CSR_CLASS_SSSTATEEN PRIV_SPEC_CLASS_NONE PRIV_SPEC_CLASS_NONE,
      csr ''sstateen1'' 0x10d CSR_CLASS_SSSTATEEN PRIV_SPEC_CLASS_NONE PRIV_SPEC_CLASS_NONE,
      csr ''sstateen2'' 0x10e CSR_CLASS_SSSTATEEN PRIV_SPEC_CLASS_NONE PRIV_SPEC_CLASS_NONE,
      csr ''sstateen3'' 0x10f CSR_CLASS_SSSTATEEN PRIV_SPEC_CLASS_NONE PRIV_SPEC_CLASS_NONE,
      csr ''hstateen0'' 0x60c CSR_CLASS_SSSTATEEN_AND_H PRIV_SPEC_CLASS_NONE PRIV_SPEC_CLASS_NONE,
      csr ''hstateen1'' 0x60d CSR_CLASS_SSSTATEEN_AND_H PRIV_SPEC_CLASS_NONE PRIV_SPEC_CLASS_NONE,
      csr ''hstateen2'' 0x60e CSR_CLASS_SSSTATEEN_AND_H PRIV_SPEC_CLASS_NONE PRIV_SPEC_CLASS_NONE,
      csr ''hstateen3'' 0x60f CSR_CLASS_SSSTATEEN_AND_H PRIV_SPEC_CLASS_NONE PRIV_SPEC_CLASS_NONE,
      csr ''mstateen0h'' 0x31c CSR_CLASS_SMSTATEEN_32 PRIV_SPEC_CLASS_NONE PRIV_SPEC_CLASS_NONE,
      csr ''mstateen1h'' 0x31d CSR_CLASS_SMSTATEEN_32 PRIV_SPEC_CLASS_NONE PRIV_SPEC_CLASS_NONE,
      csr ''mstateen2h'' 0x31e CSR_CLASS_SMSTATEEN_32 PRIV_SPEC_CLASS_NONE PRIV_SPEC_CLASS_NONE,
      csr ''mstateen3h'' 0x31f CSR_CLASS_SMSTATEEN_32 PRIV_SPEC_CLASS_NONE PRIV_SPEC_CLASS_NONE,
      csr ''hstateen0h'' 0x61c CSR_CLASS_SSSTATEEN_AND_H_32 PRIV_SPEC_CLASS_NONE PRIV_SPEC_CLASS_NONE,
      csr ''hstateen1h'' 0x61d CSR_CLASS_SSSTATEEN_AND_H_32 PRIV_SPEC_CLASS_NONE PRIV_SPEC_CLASS_NONE,
      csr ''hstateen2h'' 0x61e CSR_CLASS_SSSTATEEN_AND_H_32 PRIV_SPEC_CLASS_NONE PRIV_SPEC_CLASS_NONE,
      csr ''hstateen3h'' 0x61f CSR_CLASS_SSSTATEEN_AND_H_32 PRIV_SPEC_CLASS_NONE PRIV_SPEC_CLASS_NONE,
      csr ''siselect'' 0x150 CSR_CLASS_SSAIA PRIV_SPEC_CLASS_NONE PRIV_SPEC_CLASS_NONE,
      csr ''sireg'' 0x151 CSR_CLASS_SSAIA PRIV_SPEC_CLASS_NONE PRIV_SPEC_CLASS_NONE,
      csr ''stopei'' 0x15c CSR_CLASS_SSAIA PRIV_SPEC_CLASS_NONE PRIV_SPEC_CLASS_NONE,
      csr ''stopi'' 0xdb0 CSR_CLASS_SSAIA PRIV_SPEC_CLASS_NONE PRIV_SPEC_CLASS_NONE,
      csr ''sieh'' 0x114 CSR_CLASS_SSAIA_32 PRIV_SPEC_CLASS_NONE PRIV_SPEC_CLASS_NONE,
      csr ''siph'' 0x154 CSR_CLASS_SSAIA_32 PRIV_SPEC_CLASS_NONE PRIV_SPEC_CLASS_NONE,
      csr ''hvien'' 0x608 CSR_CLASS_SSAIA_AND_H PRIV_SPEC_CLASS_NONE PRIV_SPEC_CLASS_NONE,
      csr ''hvictl'' 0x609 CSR_CLASS_SSAIA_AND_H PRIV_SPEC_CLASS_NONE PRIV_SPEC_CLASS_NONE]"

definition csr_decls_4 :: "(string \<times> riscv_csr_extra) list" where
  "csr_decls_4 =
     [csr ''hviprio1'' 0x646 CSR_CLASS_SSAIA_AND_H PRIV_SPEC_CLASS_NONE PRIV_SPEC_CLASS_NONE,
      csr ''hviprio2'' 0x647 CSR_CLASS_SSAIA_AND_H PRIV_SPEC_CLASS_NONE PRIV_SPEC_CLASS_NONE,
      csr ''vsiselect'' 0x250 CSR_CLASS_SSAIA_AND_H PRIV_SPEC_CLASS_NONE PRIV_SPEC_CLASS_NONE,
      csr ''vsireg'' 0x251 CSR_CLASS_SSAIA_AND_H PRIV_SPEC_CLASS_NONE PRIV_SPEC_CLASS_NONE,
      csr ''vstopei'' 0x25c CSR_CLASS_SSAIA_AND_H PRIV_SPEC_CLASS_NONE PRIV_SPEC_CLASS_NONE,
      csr ''vstopi'' 0xeb0 CSR_CLASS_SSAIA_AND_H PRIV_SPEC_CLASS_NONE PRIV_SPEC_CLASS_NONE,
      csr ''hidelegh'' 0x613 CSR_CLASS_SSAIA_AND_H_32 PRIV_SPEC_CLASS_NONE PRIV_SPEC_CLASS_NONE,
      csr ''hvienh'' 0x618 CSR_CLASS_SSAIA_AND_H_32 PRIV_SPEC_CLASS_NONE PRIV_SPEC_CLASS_NONE,
      csr ''hviph'' 0x655 CSR_CLASS_SSAIA_AND_H_32 PRIV_SPEC_CLASS_NONE PRIV_SPEC_CLASS_NONE,
      csr ''hviprio1h'' 0x656 CSR_CLASS_SSAIA_AND_H_32 PRIV_SPEC_CLASS_NONE PRIV_SPEC_CLASS_NONE,
      csr ''hviprio2h'' 0x657 CSR_CLASS_SSAIA_AND_H_32 PRIV_SPEC_CLASS_NONE PRIV_SPEC_CLASS_NONE,
      csr ''vsieh'' 0x214 CSR_CLASS_SSAIA_AND_H_32 PRIV_SPEC_CLASS_NONE PRIV_SPEC_CLASS_NONE,
      csr ''vsiph'' 0x254 CSR_CLASS_SSAIA_AND_H_32 PRIV_SPEC_CLASS_NONE PRIV_SPEC_CLASS_NONE,
      csr ''scountovf'' 0xda0 CSR_CLASS_SSCOFPMF PRIV_SPEC_CLASS_NONE PRIV_SPEC_CLASS_NONE,
      csr ''mhpmevent3h'' 0x723 CSR_CLASS_SSCOFPMF_32 PRIV_SPEC_CLASS_NONE PRIV_SPEC_CLASS_NONE,
      csr ''mhpmevent4h'' 0x724 CSR_CLASS_SSCOFPMF_32 PRIV_SPEC_CLASS_NONE PRIV_SPEC_CLASS_NONE,
      csr ''mhpmevent5h'' 0x725 CSR_CLASS_SSCOFPMF_32 PRIV_SPEC_CLASS_NONE PRIV_SPEC_CLASS_NONE,
      csr ''mhpmevent6h'' 0x726 CSR_CLASS_SSCOFPMF_32 PRIV_SPEC_CLASS_NONE PRIV_SPEC_CLASS_NONE,
      csr ''mhpmevent7h'' 0x727 CSR_CLASS_SSCOFPMF_32 PRIV_SPEC_CLASS_NONE PRIV_SPEC_CLASS_NONE,
      csr ''mhpmevent8h'' 0x728 CSR_CLASS_SSCOFPMF_32 PRIV_SPEC_CLASS_NONE PRIV_SPEC_CLASS_NONE,
      csr ''mhpmevent9h'' 0x729 CSR_CLASS_SSCOFPMF_32 PRIV_SPEC_CLASS_NONE PRIV_SPEC_CLASS_NONE,
      csr ''mhpmevent10h'' 0x72a CSR_CLASS_SSCOFPMF_32 PRIV_SPEC_CLASS_NONE PRIV_SPEC_CLASS_NONE,
      csr ''mhpmevent11h'' 0x72b CSR_CLASS_SSCOFPMF_32 PRIV_SPEC_CLASS_NONE PRIV_SPEC_CLASS_NONE,
      csr ''mhpmevent12h'' 0x72c CSR_CLASS_SSCOFPMF_32 PRIV_SPEC_CLASS_NONE PRIV_SPEC_CLASS_NONE,
      csr ''mhpmevent13h'' 0x72d CSR_CLASS_SSCOFPMF_32 PRIV_SPEC_CLASS_NONE PRIV_SPEC_CLASS_NONE,
      csr ''mhpmevent14h'' 0x72e CSR_CLASS_SSCOFPMF_32 PRIV_SPEC_CLASS_NONE PRIV_SPEC_CLASS_NONE,
      csr ''mhpmevent15h'' 0x72f CSR_CLASS_SSCOFPMF_32 PRIV_SPEC_CLASS_NONE PRIV_SPEC_CLASS_NONE,
      csr ''mhpmevent16h'' 0x730 CSR_CLASS_SSCOFPMF_32 PRIV_SPEC_CLASS_NONE PRIV_SPEC_CLASS_NONE,
      csr ''mhpmevent17h'' 0x731 CSR_CLASS_SSCOFPMF_32 PRIV_SPEC_CLASS_NONE PRIV_SPEC_CLASS_NONE,
      csr ''mhpmevent18h'' 0x732 CSR_CLASS_SSCOFPMF_32 PRIV_SPEC_CLASS_NONE PRIV_SPEC_CLASS_NONE,
      csr ''mhpmevent19h'' 0x733 CSR_CLASS_SSCOFPMF_32 PRIV_SPEC_CLASS_NONE PRIV_SPEC_CLASS_NONE,
      csr ''mhpmevent20h'' 0x734 CSR_CLASS_SSCOFPMF_32 PRIV_SPEC_CLASS_NONE PRIV_SPEC_CLASS_NONE,
      csr ''mhpmevent21h'' 0x735 CSR_CLASS_SSCOFPMF_32 PRIV_SPEC_CLASS_NONE PRIV_SPEC_CLASS_NONE,
      csr ''mhpmevent22h'' 0x736 CSR_CLASS_SSCOFPMF_32 PRIV_SPEC_CLASS_NONE PRIV_SPEC_CLASS_NONE,
      csr ''mhpmevent23h'' 0x737 CSR_CLASS_SSCOFPMF_32 PRIV_SPEC_CLASS_NONE PRIV_SPEC_CLASS_NONE,
      csr ''mhpmevent24h'' 0x738 CSR_CLASS_SSCOFPMF_32 PRIV_SPEC_CLASS_NONE PRIV_SPEC_CLASS_NONE,
      csr ''mhpmevent25h'' 0x739 CSR_CLASS_SSCOFPMF_32 PRIV_SPEC_CLASS_NONE PRIV_SPEC_CLASS_NONE,
      csr ''mhpmevent26h'' 0x73a CSR_CLASS_SSCOFPMF_32 PRIV_SPEC_CLASS_NONE PRIV_SPEC_CLASS_NONE,
      csr ''mhpmevent27h'' 0x73b CSR_CLASS_SSCOFPMF_32 PRIV_SPEC_CLASS_NONE PRIV_SPEC_CLASS_NONE,
      csr ''mhpmevent28h'' 0x73c CSR_CLASS_SSCOFPMF_32 PRIV_SPEC_CLASS_NONE PRIV_SPEC_CLASS_NONE,
      csr ''mhpmevent29h'' 0x73d CSR_CLASS_SSCOFPMF_32 PRIV_SPEC_CLASS_NONE PRIV_SPEC_CLASS_NONE,
      csr ''mhpmevent30h'' 0x73e CSR_CLASS_SSCOFPMF_32 PRIV_SPEC_CLASS_NONE PRIV_SPEC_CLASS_NONE,
      csr ''mhpmevent31h'' 0x73f CSR_CLASS_SSCOFPMF_32 PRIV_SPEC_CLASS_NONE PRIV_SPEC_CLASS_NONE,
      csr ''stimecmp'' 0x14d CSR_CLASS_SSTC PRIV_SPEC_CLASS_NONE PRIV_SPEC_CLASS_NONE,
      csr ''stimecmph'' 0x15d CSR_CLASS_SSTC_32 PRIV_SPEC_CLASS_NONE PRIV_SPEC_CLASS_NONE,
      csr ''vstimecmp'' 0x24d CSR_CLASS_SSTC_AND_H PRIV_SPEC_CLASS_NONE PRIV_SPEC_CLASS_NONE,
      csr ''vstimecmph'' 0x25d CSR_CLASS_SSTC_AND_H_32 PRIV_SPEC_CLASS_NONE PRIV_SPEC_CLASS_NONE,
      csr ''mbase'' 0x380 CSR_CLASS_I PRIV_SPEC_CLASS_1P9P1 PRIV_SPEC_CLASS_1P10,
      csr ''mbound'' 0x381 CSR_CLASS_I PRIV_SPEC_CLASS_1P9P1 PRIV_SPEC_CLASS_1P10,
      csr ''mibase'' 0x382 CSR_CLASS_I PRIV_SPEC_CLASS_1P9P1 PRIV_SPEC_CLASS_1P10,
      csr ''mibound'' 0x383 CSR_CLASS_I PRIV_SPEC_CLASS_1P9P1 PRIV_SPEC_CLASS_1P10,
      csr ''mdbase'' 0x384 CSR_CLASS_I PRIV_SPEC_CLASS_1P9P1 PRIV_SPEC_CLASS_1P10,
      csr ''mdbound'' 0x385 CSR_CLASS_I PRIV_SPEC_CLASS_1P9P1 PRIV_SPEC_CLASS_1P10,
      csr ''ustatus'' 0x0 CSR_CLASS_I PRIV_SPEC_CLASS_1P9P1 PRIV_SPEC_CLASS_1P12,
      csr ''uie'' 0x4 CSR_CLASS_I PRIV_SPEC_CLASS_1P9P1 PRIV_SPEC_CLASS_1P12,
      csr ''utvec'' 0x5 CSR_CLASS_I PRIV_SPEC_CLASS_1P9P1 PRIV_SPEC_CLASS_1P12,
      csr ''uscratch'' 0x40 CSR_CLASS_I PRIV_SPEC_CLASS_1P9P1 PRIV_SPEC_CLASS_1P12,
      csr ''uepc'' 0x41 CSR_CLASS_I PRIV_SPEC_CLASS_1P9P1 PRIV_SPEC_CLASS_1P12,
      csr ''ucause'' 0x42 CSR_CLASS_I PRIV_SPEC_CLASS_1P9P1 PRIV_SPEC_CLASS_1P12,
      csr ''utval'' 0x43 CSR_CLASS_I PRIV_SPEC_CLASS_1P10 PRIV_SPEC_CLASS_1P12,
      csr ''uip'' 0x44 CSR_CLASS_I PRIV_SPEC_CLASS_1P9P1 PRIV_SPEC_CLASS_1P12,
      csr ''sedeleg'' 0x102 CSR_CLASS_I PRIV_SPEC_CLASS_1P9P1 PRIV_SPEC_CLASS_1P12,
      csr ''sideleg'' 0x103 CSR_CLASS_I PRIV_SPEC_CLASS_1P9P1 PRIV_SPEC_CLASS_1P12,
      csr ''fflags'' 0x1 CSR_CLASS_F PRIV_SPEC_CLASS_NONE PRIV_SPEC_CLASS_NONE,
      csr ''frm'' 0x2 CSR_CLASS_F PRIV_SPEC_CLASS_NONE PRIV_SPEC_CLASS_NONE,
      csr ''fcsr'' 0x3 CSR_CLASS_F PRIV_SPEC_CLASS_NONE PRIV_SPEC_CLASS_NONE,
      csr ''dcsr'' 0x7b0 CSR_CLASS_DEBUG PRIV_SPEC_CLASS_NONE PRIV_SPEC_CLASS_NONE,
      csr ''dpc'' 0x7b1 CSR_CLASS_DEBUG PRIV_SPEC_CLASS_NONE PRIV_SPEC_CLASS_NONE,
      csr ''dscratch0'' 0x7b2 CSR_CLASS_DEBUG PRIV_SPEC_CLASS_NONE PRIV_SPEC_CLASS_NONE,
      csr ''dscratch1'' 0x7b3 CSR_CLASS_DEBUG PRIV_SPEC_CLASS_NONE PRIV_SPEC_CLASS_NONE,
      csr ''tselect'' 0x7a0 CSR_CLASS_DEBUG PRIV_SPEC_CLASS_NONE PRIV_SPEC_CLASS_NONE,
      csr ''tdata1'' 0x7a1 CSR_CLASS_DEBUG PRIV_SPEC_CLASS_NONE PRIV_SPEC_CLASS_NONE,
      csr ''tdata2'' 0x7a2 CSR_CLASS_DEBUG PRIV_SPEC_CLASS_NONE PRIV_SPEC_CLASS_NONE,
      csr ''tdata3'' 0x7a3 CSR_CLASS_DEBUG PRIV_SPEC_CLASS_NONE PRIV_SPEC_CLASS_NONE,
      csr ''tinfo'' 0x7a4 CSR_CLASS_DEBUG PRIV_SPEC_CLASS_NONE PRIV_SPEC_CLASS_NONE,
      csr ''tcontrol'' 0x7a5 CSR_CLASS_DEBUG PRIV_SPEC_CLASS_NONE PRIV_SPEC_CLASS_NONE,
      csr ''hcontext'' 0x6a8 CSR_CLASS_DEBUG PRIV_SPEC_CLASS_NONE PRIV_SPEC_CLASS_NONE,
      csr ''scontext'' 0x5a8 CSR_CLASS_DEBUG PRIV_SPEC_CLASS_NONE PRIV_SPEC_CLASS_NONE,
      csr ''mcontext'' 0x7a8 CSR_CLASS_DEBUG PRIV_SPEC_CLASS_NONE PRIV_SPEC_CLASS_NONE,
      csr ''mscontext'' 0x7aa CSR_CLASS_DEBUG PRIV_SPEC_CLASS_NONE PRIV_SPEC_CLASS_NONE,
      csr ''seed'' 0x15 CSR_CLASS_ZKR PRIV_SPEC_CLASS_NONE PRIV_SPEC_CLASS_NONE,
      csr ''vstart'' 0x8 CSR_CLASS_V PRIV_SPEC_CLASS_NONE PRIV_SPEC_CLASS_NONE,
      csr ''vxsat'' 0x9 CSR_CLASS_V PRIV_SPEC_CLASS_NONE PRIV_SPEC_CLASS_NONE,
      csr ''vxrm'' 0xa CSR_CLASS_V PRIV_SPEC_CLASS_NONE PRIV_SPEC_CLASS_NONE,
      csr ''vcsr'' 0xf CSR_CLASS_V PRIV_SPEC_CLASS_NONE PRIV_SPEC_CLASS_NONE,
      csr ''vl'' 0xc20 CSR_CLASS_V PRIV_SPEC_CLASS_NONE PRIV_SPEC_CLASS_NONE,
      csr ''vtype'' 0xc21 CSR_CLASS_V PRIV_SPEC_CLASS_NONE PRIV_SPEC_CLASS_NONE,
      csr ''vlenb'' 0xc22 CSR_CLASS_V PRIV_SPEC_CLASS_NONE PRIV_SPEC_CLASS_NONE,
      csr ''ubadaddr'' 0x43 CSR_CLASS_I PRIV_SPEC_CLASS_1P9P1 PRIV_SPEC_CLASS_1P10,
      csr ''sbadaddr'' 0x143 CSR_CLASS_I PRIV_SPEC_CLASS_1P9P1 PRIV_SPEC_CLASS_1P10,
      csr ''sptbr'' 0x180 CSR_CLASS_I PRIV_SPEC_CLASS_1P9P1 PRIV_SPEC_CLASS_1P10,
      csr ''mbadaddr'' 0x343 CSR_CLASS_I PRIV_SPEC_CLASS_1P9P1 PRIV_SPEC_CLASS_1P10,
      csr ''mucounteren'' 0x320 CSR_CLASS_I PRIV_SPEC_CLASS_1P9P1 PRIV_SPEC_CLASS_1P10,
      csr ''mscounteren'' 0x321 CSR_CLASS_I PRIV_SPEC_CLASS_1P9P1 PRIV_SPEC_CLASS_1P10,
      csr ''mhcounteren'' 0x322 CSR_CLASS_I PRIV_SPEC_CLASS_1P9P1 PRIV_SPEC_CLASS_1P10,
      csr ''dscratch'' 0x7b2 CSR_CLASS_DEBUG PRIV_SPEC_CLASS_NONE PRIV_SPEC_CLASS_NONE,
      csr ''mcontrol'' 0x7a1 CSR_CLASS_DEBUG PRIV_SPEC_CLASS_NONE PRIV_SPEC_CLASS_NONE,
      csr ''mcontrol6'' 0x7a1 CSR_CLASS_DEBUG PRIV_SPEC_CLASS_NONE PRIV_SPEC_CLASS_NONE,
      csr ''icount'' 0x7a1 CSR_CLASS_DEBUG PRIV_SPEC_CLASS_NONE PRIV_SPEC_CLASS_NONE,
      csr ''itrigger'' 0x7a1 CSR_CLASS_DEBUG PRIV_SPEC_CLASS_NONE PRIV_SPEC_CLASS_NONE,
      csr ''etrigger'' 0x7a1 CSR_CLASS_DEBUG PRIV_SPEC_CLASS_NONE PRIV_SPEC_CLASS_NONE,
      csr ''tmexttrigger'' 0x7a1 CSR_CLASS_DEBUG PRIV_SPEC_CLASS_NONE PRIV_SPEC_CLASS_NONE,
      csr ''textra32'' 0x7a3 CSR_CLASS_DEBUG PRIV_SPEC_CLASS_NONE PRIV_SPEC_CLASS_NONE,
      csr ''textra64'' 0x7a3 CSR_CLASS_DEBUG PRIV_SPEC_CLASS_NONE PRIV_SPEC_CLASS_NONE,
      csr ''th.vstart'' 0x8 CSR_CLASS_XTHEADVECTOR PRIV_SPEC_CLASS_NONE PRIV_SPEC_CLASS_NONE,
      csr ''th.vxsat'' 0x9 CSR_CLASS_XTHEADVECTOR PRIV_SPEC_CLASS_NONE PRIV_SPEC_CLASS_NONE,
      csr ''th.vxrm'' 0xa CSR_CLASS_XTHEADVECTOR PRIV_SPEC_CLASS_NONE PRIV_SPEC_CLASS_NONE,
      csr ''th.vl'' 0xc20 CSR_CLASS_XTHEADVECTOR PRIV_SPEC_CLASS_NONE PRIV_SPEC_CLASS_NONE,
      csr ''th.vtype'' 0xc21 CSR_CLASS_XTHEADVECTOR PRIV_SPEC_CLASS_NONE PRIV_SPEC_CLASS_NONE,
      csr ''th.vlenb'' 0xc22 CSR_CLASS_XTHEADVECTOR PRIV_SPEC_CLASS_NONE PRIV_SPEC_CLASS_NONE]"

definition csr_decls :: "(string \<times> riscv_csr_extra) list" where
  "csr_decls = csr_decls_1 @ csr_decls_2 @ csr_decls_3 @ csr_decls_4"

section \<open>The hash of control and status registers\<close>

text \<open>The walk over the chain: an entry that is already there is not added again.\<close>

fun csr_chain_add :: "riscv_csr_extra \<Rightarrow> riscv_csr_extra list \<Rightarrow> riscv_csr_extra list" where
  "csr_chain_add e [] = [e]"
| "csr_chain_add e (x # xs) = (if x = e then x # xs else x # csr_chain_add e xs)"

definition riscv_init_csr_hash ::
    "string \<times> riscv_csr_extra \<Rightarrow> (string \<rightharpoonup> riscv_csr_extra list)
     \<Rightarrow> (string \<rightharpoonup> riscv_csr_extra list)" where
  "riscv_init_csr_hash d h =
     (case h (fst d) of
        None \<Rightarrow> h(fst d \<mapsto> [snd d])
      | Some es \<Rightarrow> h(fst d \<mapsto> csr_chain_add (snd d) es))"

definition csr_extra_hash :: "string \<rightharpoonup> riscv_csr_extra list" where
  "csr_extra_hash = fold riscv_init_csr_hash csr_decls Map.empty"

section \<open>Looking a register up\<close>

text \<open>The state of the assembler the lookups read; \<open>as_supports\<close> is
  \<open>riscv_subset_supports (&riscv_rps_as, \<sqdot>)\<close>.\<close>

record as_state =
  as_reg_names_hash :: "string \<rightharpoonup> nat"
  as_csr_extra_hash :: "string \<rightharpoonup> riscv_csr_extra list"
  as_xlen :: nat
  as_csr_check :: bool
  as_priv_spec :: riscv_spec_class
  as_supports :: "string \<Rightarrow> bool"

datatype csr_message =
    Bad_csr_class
  | Needs_rv32i
  | Needs_h
  | Needs_ext string
  | Invalid_for_priv string

text \<open>
  The \<open>switch\<close> of \<open>riscv_csr_address\<close>: \<open>need_check_version\<close>, \<open>is_rv32_only\<close>, \<open>is_h_required\<close> and
  \<open>extension\<close>.  \<open>None\<close> is the default branch, which reports an internal error.
\<close>

fun csr_requirements :: "riscv_csr_class \<Rightarrow> (bool \<times> bool \<times> bool \<times> string option) option" where
  "csr_requirements CSR_CLASS_NONE = None"
| "csr_requirements CSR_CLASS_I_32 = Some (True, True, False, Some ''i'')"
| "csr_requirements CSR_CLASS_I = Some (True, False, False, Some ''i'')"
| "csr_requirements CSR_CLASS_H_32 = Some (False, True, False, Some ''h'')"
| "csr_requirements CSR_CLASS_H = Some (False, False, False, Some ''h'')"
| "csr_requirements CSR_CLASS_F = Some (False, False, False, Some ''f'')"
| "csr_requirements CSR_CLASS_ZKR = Some (False, False, False, Some ''zkr'')"
| "csr_requirements CSR_CLASS_V = Some (False, False, False, Some ''zve32x'')"
| "csr_requirements CSR_CLASS_SMAIA_32 = Some (False, True, False, Some ''smaia'')"
| "csr_requirements CSR_CLASS_SMAIA = Some (False, False, False, Some ''smaia'')"
| "csr_requirements CSR_CLASS_SMCNTRPMF_32 = Some (True, True, False, Some ''smcntrpmf'')"
| "csr_requirements CSR_CLASS_SMCNTRPMF = Some (True, False, False, Some ''smcntrpmf'')"
| "csr_requirements CSR_CLASS_SMSTATEEN_32 = Some (False, True, False, Some ''smstateen'')"
| "csr_requirements CSR_CLASS_SMSTATEEN = Some (False, False, False, Some ''smstateen'')"
| "csr_requirements CSR_CLASS_SSAIA = Some (False, False, False, Some ''ssaia'')"
| "csr_requirements CSR_CLASS_SSAIA_AND_H = Some (False, False, True, Some ''ssaia'')"
| "csr_requirements CSR_CLASS_SSAIA_32 = Some (False, True, False, Some ''ssaia'')"
| "csr_requirements CSR_CLASS_SSAIA_AND_H_32 = Some (False, True, True, Some ''ssaia'')"
| "csr_requirements CSR_CLASS_SSSTATEEN_AND_H_32 = Some (False, True, True, Some ''ssstateen'')"
| "csr_requirements CSR_CLASS_SSSTATEEN_AND_H = Some (False, False, True, Some ''ssstateen'')"
| "csr_requirements CSR_CLASS_SSSTATEEN = Some (False, False, False, Some ''ssstateen'')"
| "csr_requirements CSR_CLASS_SSCOFPMF_32 = Some (False, True, False, Some ''sscofpmf'')"
| "csr_requirements CSR_CLASS_SSCOFPMF = Some (False, False, False, Some ''sscofpmf'')"
| "csr_requirements CSR_CLASS_SSTC = Some (False, False, False, Some ''sstc'')"
| "csr_requirements CSR_CLASS_SSTC_AND_H = Some (False, False, True, Some ''sstc'')"
| "csr_requirements CSR_CLASS_SSTC_32 = Some (False, True, False, Some ''sstc'')"
| "csr_requirements CSR_CLASS_SSTC_AND_H_32 = Some (False, True, True, Some ''sstc'')"
| "csr_requirements CSR_CLASS_DEBUG = Some (False, False, False, None)"
| "csr_requirements CSR_CLASS_XTHEADVECTOR = Some (False, False, False, Some ''xtheadvector'')"

definition csr_isa_messages :: "as_state \<Rightarrow> bool \<Rightarrow> bool \<Rightarrow> string option \<Rightarrow> csr_message list" where
  "csr_isa_messages st is_rv32_only is_h_required extension =
     (if as_csr_check st
      then (if is_rv32_only \<and> as_xlen st \<noteq> 32 then [Needs_rv32i] else []) @
           (if is_h_required \<and> \<not> as_supports st ''h'' then [Needs_h] else []) @
           (case extension of
              None \<Rightarrow> []
            | Some e \<Rightarrow> if \<not> as_supports st e then [Needs_ext e] else [])
      else [])"

text \<open>\<open>riscv_priv_specs\<close> and \<open>RISCV_GET_PRIV_SPEC_NAME\<close>; \<open>None\<close> is an index outside of the array.\<close>

definition riscv_priv_specs :: "(string \<times> riscv_spec_class) list" where
  "riscv_priv_specs =
     [(''1.9.1'', PRIV_SPEC_CLASS_1P9P1), (''1.10'', PRIV_SPEC_CLASS_1P10),
      (''1.11'', PRIV_SPEC_CLASS_1P11), (''1.12'', PRIV_SPEC_CLASS_1P12)]"

definition priv_spec_name :: "riscv_spec_class \<Rightarrow> string option" where
  "priv_spec_name c =
     (let i = int (spec_class_value c) - int (spec_class_value PRIV_SPEC_CLASS_NONE) - 1
      in if 0 \<le> i \<and> nat i < length riscv_priv_specs
         then Some (fst (riscv_priv_specs ! nat i)) else None)"

definition version_holds :: "riscv_spec_class \<Rightarrow> riscv_csr_extra \<Rightarrow> bool" where
  "version_holds spec e \<longleftrightarrow>
     spec_class_value (define_version e) \<le> spec_class_value spec \<and>
     spec_class_value spec < spec_class_value (abort_version e)"

fun csr_in_version :: "bool \<Rightarrow> riscv_spec_class \<Rightarrow> riscv_csr_extra list \<Rightarrow> riscv_csr_extra option" where
  "csr_in_version need_check_version spec [] = None"
| "csr_in_version need_check_version spec (e # es) =
     (if \<not> need_check_version \<or> version_holds spec e then Some e
      else csr_in_version need_check_version spec es)"

text \<open>\<open>entry\<close> is the first element of the chain and \<open>es\<close> the rest; \<open>None\<close> is the read outside of
  \<open>riscv_priv_specs\<close>.\<close>

definition riscv_csr_address ::
    "as_state \<Rightarrow> riscv_csr_extra \<Rightarrow> riscv_csr_extra list \<Rightarrow> (csr_message list \<times> 32 word) option" where
  "riscv_csr_address st entry es =
     (let (bad, need_check_version, is_rv32_only, is_h_required, extension) =
            (case csr_requirements (csr_class entry) of
               None \<Rightarrow> ([Bad_csr_class], False, False, False, None)
             | Some (v, x, h, e) \<Rightarrow> ([], v, x, h, e));
          w = bad @ csr_isa_messages st is_rv32_only is_h_required extension
      in case csr_in_version need_check_version (as_priv_spec st) (entry # es) of
           Some e \<Rightarrow> Some (w, csr_number e)
         | None \<Rightarrow>
             if as_csr_check st
             then (case priv_spec_name (as_priv_spec st) of
                     None \<Rightarrow> None
                   | Some p \<Rightarrow> Some (w @ [Invalid_for_priv p], csr_number entry))
             else Some (w, csr_number entry))"

text \<open>The empty chain is never stored; \<open>-1\<close> is the unsigned number with all bits set.\<close>

definition reg_csr_lookup_internal :: "as_state \<Rightarrow> string \<Rightarrow> (csr_message list \<times> 32 word) option" where
  "reg_csr_lookup_internal st s =
     (case as_csr_extra_hash st s of
        Some (r # rs) \<Rightarrow> riscv_csr_address st r rs
      | _ \<Rightarrow> Some ([], - 1))"

definition reg_lookup_internal ::
    "as_state \<Rightarrow> string \<Rightarrow> reg_class \<Rightarrow> (csr_message list \<times> 32 word) option" where
  "reg_lookup_internal st s cls =
     (if cls = RCLASS_CSR then reg_csr_lookup_internal st s
      else case as_reg_names_hash st s of
             None \<Rightarrow> Some ([], - 1)
           | Some r \<Rightarrow>
               if DECODE_REG_CLASS r \<noteq> reg_class_value cls then Some ([], - 1)
               else if as_supports st ''e'' \<and> cls = RCLASS_GPR \<and> 15 < DECODE_REG_NUM r
               then Some ([], - 1)
               else Some ([], of_nat (DECODE_REG_NUM r)))"

text \<open>Length of the name at the start of the line.\<close>

definition name_end :: "string \<Rightarrow> nat" where
  "name_end s =
     (let i = (if s \<noteq> [] \<and> is_name_beginner (hd s) then 1 else 0)
      in i + length (takeWhile is_part_of_name (drop i s)))"

text \<open>
  The messages, the register number (which \<open>*regnop\<close> receives, \<open>-1\<close> on failure), the rest of the
  line and the returned truth value.
\<close>

definition reg_lookup ::
    "as_state \<Rightarrow> string \<Rightarrow> reg_class \<Rightarrow> (csr_message list \<times> 32 word \<times> string \<times> bool) option" where
  "reg_lookup st s cls =
     (case reg_lookup_internal st (take (name_end s) s) cls of
        None \<Rightarrow> None
      | Some (w, reg) \<Rightarrow>
          if 0 \<le> sint reg then Some (w, reg, drop (name_end s) s, True)
          else Some (w, reg, s, False))"

section \<open>Looking an operand name up\<close>

fun arg_lookup_from :: "nat \<Rightarrow> string option list \<Rightarrow> string \<Rightarrow> nat option" where
  "arg_lookup_from i [] t = None"
| "arg_lookup_from i (a # as) t = (if a = Some t then Some i else arg_lookup_from (Suc i) as t)"

text \<open>\<open>strncmp (a, s, len) == 0 && a[len] == 0\<close> says that \<open>a\<close> is the part of the line before the comma.\<close>

definition arg_lookup :: "string \<Rightarrow> string option list \<Rightarrow> (nat \<times> string) option" where
  "arg_lookup s array =
     (let t = takeWhile (\<lambda>c. c \<noteq> CHR '','') s
      in if t = [] then None
         else map_option (\<lambda>i. (i, drop (length t) s)) (arg_lookup_from 0 array t))"

section \<open>What the disassembler prints\<close>

definition arg_print :: "nat \<Rightarrow> string option list \<Rightarrow> string" where
  "arg_print val array =
     (if length array \<le> val then ''unknown''
      else case array ! val of None \<Rightarrow> ''unknown'' | Some s \<Rightarrow> s)"

text \<open>
  The array \<open>riscv_csr_hash\<close> of the \<open>E\<close> operand.  \<open>PRIV_SPEC_CLASS_NONE\<close> stands for no choice and is
  replaced by the newest version.
\<close>

definition dis_priv_spec :: "riscv_spec_class \<Rightarrow> riscv_spec_class" where
  "dis_priv_spec spec = (if spec = PRIV_SPEC_CLASS_NONE then PRIV_SPEC_CLASS_1P12 else spec)"

definition csr_declared :: "riscv_spec_class \<Rightarrow> riscv_csr_extra \<Rightarrow> bool" where
  "csr_declared spec e \<longleftrightarrow>
     define_version e = PRIV_SPEC_CLASS_NONE \<and> abort_version e = PRIV_SPEC_CLASS_NONE \<or>
     version_holds spec e"

fun fill_csr_hash ::
    "riscv_spec_class \<Rightarrow> (string \<times> riscv_csr_extra) list \<Rightarrow> string option list \<Rightarrow> string option list" where
  "fill_csr_hash spec [] h = h"
| "fill_csr_hash spec (d # ds) h =
     fill_csr_hash spec ds
       (if h ! unat (csr_number (snd d)) = None \<and> csr_declared spec (snd d)
        then h[unat (csr_number (snd d)) := Some (fst d)] else h)"

definition riscv_csr_hash :: "riscv_spec_class \<Rightarrow> string option list" where
  "riscv_csr_hash spec = fill_csr_hash (dis_priv_spec spec) csr_decls (replicate 4096 None)"

text \<open>\<open>CSR_VSTART\<close>, \<open>CSR_VXSAT\<close>, \<open>CSR_VXRM\<close>, \<open>CSR_VL\<close>, \<open>CSR_VTYPE\<close>, \<open>CSR_VLENB\<close>.\<close>

definition th_vector_csrs :: "nat list" where
  "th_vector_csrs = [0x8, 0x9, 0xa, 0xc20, 0xc21, 0xc22]"

text \<open>The name printed for a register, \<open>None\<close> when its number is printed.\<close>

definition csr_print_name :: "bool \<Rightarrow> riscv_spec_class \<Rightarrow> nat \<Rightarrow> string option" where
  "csr_print_name xtheadvector spec num =
     (case riscv_csr_hash spec ! num of
        None \<Rightarrow> None
      | Some n \<Rightarrow> Some (if xtheadvector \<and> num \<in> set th_vector_csrs then ''th.'' @ n else n))"

end
