(* ===== verification/RV_Regs_Laws.thy ===== *)
theory RV_Regs_Laws
  imports RV_Regs RV_Disasm
begin

text \<open>
  The names agree: what the disassembler prints for a register, a control and status register, a
  rounding mode or a fence set is read back by the assembler as the same number.

  The locale \<open>name_table\<close> is the contract of an operand table: the names are different, and none is
  empty, contains a comma or is the word printed for a missing entry.  Its interpretations are the
  tables the two programs share.
\<close>

section \<open>Operand tables\<close>

lemma arg_lookup_from_None: "arg_lookup_from i as t = None \<longleftrightarrow> Some t \<notin> set as"
  by (induction as arbitrary: i) auto

lemma arg_lookup_from_nth:
  "k < length as \<Longrightarrow> as ! k = Some t \<Longrightarrow> \<forall>j<k. as ! j \<noteq> Some t \<Longrightarrow> arg_lookup_from i as t = Some (i + k)"
proof (induction as arbitrary: i k)
  case (Cons a as)
  show ?case
  proof (cases k)
    case 0
    then show ?thesis using Cons.prems by simp
  next
    case (Suc j)
    have "a \<noteq> Some t" using Cons.prems(3) Suc by force
    moreover have "arg_lookup_from (Suc i) as t = Some (Suc i + j)"
      using Cons.prems Suc by (intro Cons.IH) auto
    ultimately show ?thesis using Suc by simp
  qed
qed simp

definition ends_arg :: "string \<Rightarrow> bool" where
  "ends_arg rest \<longleftrightarrow> rest = [] \<or> hd rest = CHR '',''"

lemma takeWhile_ends_arg:
  assumes "CHR '','' \<notin> set t" "ends_arg rest"
  shows "takeWhile (\<lambda>c. c \<noteq> CHR '','') (t @ rest) = t"
  using assms by (cases rest) (auto simp: ends_arg_def takeWhile_append intro!: takeWhile_eq_all_conv [THEN iffD2])

locale name_table =
  fixes tab :: "string option list"
  assumes entries_distinct: "distinct (filter (\<lambda>a. a \<noteq> None) tab)"
    and entries_readable: "Some n \<in> set tab \<Longrightarrow> n \<noteq> [] \<and> CHR '','' \<notin> set n \<and> n \<noteq> ''unknown''"
begin

lemma first_position:
  assumes "i < length tab" "tab ! i = Some n"
  shows "\<forall>j<i. tab ! j \<noteq> Some n"
proof (intro allI impI notI)
  fix j assume j: "j < i" "tab ! j = Some n"
  have "tab = take i tab @ Some n # drop (Suc i) tab"
    using id_take_nth_drop [OF assms(1)] assms(2) by simp
  from arg_cong [OF this, of "filter (\<lambda>a. a \<noteq> None)"]
  have "Some n \<notin> set (filter (\<lambda>a. a \<noteq> None) (take i tab))" using entries_distinct by auto
  then show False using assms(1) j by (auto simp: in_set_conv_nth)
qed

lemma print_lookup:
  assumes "i < length tab" "tab ! i = Some n" "ends_arg rest"
  shows "arg_lookup (arg_print i tab @ rest) tab = Some (i, rest)"
proof -
  have n: "n \<noteq> []" "CHR '','' \<notin> set n" using assms entries_readable [of n] nth_mem by metis+
  have "arg_lookup_from 0 tab n = Some i"
    using arg_lookup_from_nth [OF assms(1,2) first_position [OF assms(1,2)], of 0] by simp
  then show ?thesis
    using assms n by (simp add: arg_lookup_def arg_print_def takeWhile_ends_arg)
qed

lemma print_unknown:
  assumes "\<forall>n. i < length tab \<longrightarrow> tab ! i \<noteq> Some n" "ends_arg rest"
  shows "arg_lookup (arg_print i tab @ rest) tab = None"
proof -
  have p: "arg_print i tab = ''unknown''"
    using assms(1) by (auto simp: arg_print_def split: option.splits)
  have "arg_lookup_from 0 tab ''unknown'' = None"
    using entries_readable by (auto simp: arg_lookup_from_None)
  then show ?thesis
    using assms(2) takeWhile_ends_arg [of "''unknown''" rest] by (simp add: arg_lookup_def p Let_def)
qed

lemma print_lookup_cases:
  assumes "ends_arg rest"
  shows "arg_lookup (arg_print i tab @ rest) tab =
           (if i < length tab \<and> tab ! i \<noteq> None then Some (i, rest) else None)"
proof (cases "i < length tab \<and> tab ! i \<noteq> None")
  case True
  then obtain n where "tab ! i = Some n" by auto
  with True show ?thesis using print_lookup assms by simp
next
  case False
  then show ?thesis using print_unknown [of i rest] assms by (cases "i < length tab") auto
qed

end

interpretation rm: name_table riscv_rm
  by unfold_locales (auto simp: riscv_rm_def)

interpretation pred_succ: name_table riscv_pred_succ
  by unfold_locales (auto simp: riscv_pred_succ_def)

interpretation vsew: name_table riscv_vsew
  by unfold_locales (auto simp: riscv_vsew_def)

interpretation vlmul: name_table riscv_vlmul
  by unfold_locales (auto simp: riscv_vlmul_def)

interpretation vta: name_table riscv_vta
  by unfold_locales (auto simp: riscv_vta_def)

interpretation vma: name_table riscv_vma
  by unfold_locales (auto simp: riscv_vma_def)

interpretation th_vlen: name_table riscv_th_vlen
  by unfold_locales (auto simp: riscv_th_vlen_def)

interpretation th_vediv: name_table riscv_th_vediv
  by unfold_locales (auto simp: riscv_th_vediv_def)

section \<open>Names at the start of a line\<close>

definition ends_name :: "string \<Rightarrow> bool" where
  "ends_name rest \<longleftrightarrow> rest = [] \<or> \<not> is_part_of_name (hd rest)"

definition is_name :: "string \<Rightarrow> bool" where
  "is_name n \<longleftrightarrow> n \<noteq> [] \<and> is_name_beginner (hd n) \<and> list_all is_part_of_name (tl n)"

lemma name_end_is_name:
  assumes "is_name n" "ends_name rest"
  shows "name_end (n @ rest) = length n"
proof -
  obtain c cs where n: "n = c # cs" "is_name_beginner c" "list_all is_part_of_name cs"
    using assms(1) by (cases n) (auto simp: is_name_def)
  have "takeWhile is_part_of_name (cs @ rest) = cs"
    using n(3) assms(2)
    by (cases rest) (auto simp: ends_name_def takeWhile_append list_all_iff takeWhile_eq_all_conv)
  then show ?thesis using n by (simp add: name_end_def)
qed

text \<open>The characters the names are made of.\<close>

definition name_letters :: string where
  "name_letters = ''abcdefghijklmnopqrstuvwxyz''"
definition name_chars :: string where
  "name_chars = name_letters @ ''0123456789._''"

lemma name_chars_lex:
  "list_all is_name_beginner name_letters" "list_all is_part_of_name name_chars"
  by code_simp+

definition plain_name :: "string \<Rightarrow> bool" where
  "plain_name n \<longleftrightarrow> n \<noteq> [] \<and> hd n \<in> set name_letters \<and> list_all (\<lambda>c. c \<in> set name_chars) n"

lemma plain_name_is_name: "plain_name n \<Longrightarrow> is_name n"
  using name_chars_lex by (cases n) (auto simp: plain_name_def is_name_def list_all_iff)

lemma reg_lookup_name:
  assumes "is_name n" "ends_name rest" "reg_lookup_internal st n cls = Some (w, reg)" "0 \<le> sint reg"
  shows "reg_lookup st (n @ rest) cls = Some (w, reg, rest, True)"
  using assms name_end_is_name [OF assms(1,2)] by (simp add: reg_lookup_def)

section \<open>A merge sort that shows names distinct\<close>

text \<open>The certificate of \<open>distinct_by_certificate\<close>, computed.\<close>

fun str_merge :: "string list \<Rightarrow> string list \<Rightarrow> string list" where
  "str_merge [] ys = ys"
| "str_merge xs [] = xs"
| "str_merge (x # xs) (y # ys) =
     (if str_less x y then x # str_merge xs (y # ys) else y # str_merge (x # xs) ys)"

fun merge_pairs :: "string list list \<Rightarrow> string list list" where
  "merge_pairs (xs # ys # r) = str_merge xs ys # merge_pairs r"
| "merge_pairs r = r"

lemma length_merge_pairs: "length (merge_pairs r) \<le> length r"
  by (induction r rule: merge_pairs.induct) auto

function merge_lists :: "string list list \<Rightarrow> string list" where
  "merge_lists [] = []"
| "merge_lists [xs] = xs"
| "merge_lists (xs # ys # r) = merge_lists (str_merge xs ys # merge_pairs r)"
  by pat_completeness auto
termination
  by (relation "measure length") (auto simp: le_imp_less_Suc length_merge_pairs)

lemma str_merge_set:
  "set (str_merge xs ys) = set xs \<union> set ys"
  "length (str_merge xs ys) = length xs + length ys"
  by (induction xs ys rule: str_merge.induct) auto

lemma merge_pairs_set:
  "set (concat (merge_pairs r)) = set (concat r)"
  "length (concat (merge_pairs r)) = length (concat r)"
  by (induction r rule: merge_pairs.induct) (auto simp: str_merge_set)

lemma merge_lists_set:
  "set (merge_lists r) = set (concat r) \<and> length (merge_lists r) = length (concat r)"
proof (induction r rule: merge_lists.induct)
  case (3 xs ys r)
  then show ?case using merge_pairs_set [of r] by (simp add: str_merge_set Un_assoc)
qed auto

lemma distinct_by_merge:
  assumes "increasing (merge_lists (map (\<lambda>s. [s]) xs))"
  shows "distinct xs"
  using assms merge_lists_set [of "map (\<lambda>s. [s]) xs"]
  by (intro distinct_by_certificate [of "merge_lists (map (\<lambda>s. [s]) xs)"])
    (auto simp: length_concat comp_def sum_list_triv)

section \<open>Register names\<close>

definition reg_arrays :: "(reg_class \<times> string list) list" where
  "reg_arrays =
     [(RCLASS_GPR, riscv_gpr_names_numeric), (RCLASS_GPR, riscv_gpr_names_abi),
      (RCLASS_FPR, riscv_fpr_names_numeric), (RCLASS_FPR, riscv_fpr_names_abi),
      (RCLASS_VECR, riscv_vecr_names_numeric), (RCLASS_VECM, riscv_vecm_names_numeric)]"

lemma reg_arrays_distinct: "distinct (''fp'' # concat (map snd reg_arrays))"
  by (rule distinct_by_merge) code_simp

lemma reg_arrays_plain: "list_all plain_name (concat (map snd reg_arrays))"
  by code_simp

lemma reg_arrays_classes:
  "list_all (\<lambda>(cls, names). length names \<le> 32 \<and> cls \<notin> {RCLASS_MAX, RCLASS_CSR}) reg_arrays"
  by (simp add: reg_arrays_def riscv_gpr_names_numeric_def riscv_gpr_names_abi_def
      riscv_fpr_names_numeric_def riscv_fpr_names_abi_def riscv_vecr_names_numeric_def
      riscv_vecm_names_numeric_def)

lemma decode_encode:
  assumes "cls \<notin> {RCLASS_MAX, RCLASS_CSR}"
  shows "DECODE_REG_CLASS (ENCODE_REG_HASH cls n) = reg_class_value cls \<and>
         DECODE_REG_NUM (ENCODE_REG_HASH cls n) = n"
proof -
  have "reg_class_value cls < 4" using assms by (cases cls) simp_all
  then show ?thesis by (simp add: DECODE_REG_CLASS_def DECODE_REG_NUM_def ENCODE_REG_HASH_def)
qed

lemma hash_reg_names_ok:
  assumes "distinct names" "set names \<inter> dom h = {}"
  shows "\<exists>h'. hash_reg_names cls i names h = Inr h' \<and>
           (\<forall>k<length names. h' (names ! k) = Some (ENCODE_REG_HASH cls (i + k))) \<and>
           (\<forall>n. n \<notin> set names \<longrightarrow> h' n = h n)"
  using assms
proof (induction names arbitrary: i h)
  case (Cons a names)
  let ?h = "h(a \<mapsto> ENCODE_REG_HASH cls i)"
  have "hash_reg_name cls a i h = Inr ?h"
    using Cons.prems(2) by (auto simp: hash_reg_name_def split: option.splits)
  moreover obtain h' where h': "hash_reg_names cls (Suc i) names ?h = Inr h'"
    "\<forall>k<length names. h' (names ! k) = Some (ENCODE_REG_HASH cls (Suc i + k))"
    "\<forall>n. n \<notin> set names \<longrightarrow> h' n = ?h n"
    using Cons.IH [of ?h "Suc i"] Cons.prems by (force simp del: fun_upd_apply)
  moreover have "h' ((a # names) ! k) = Some (ENCODE_REG_HASH cls (i + k))"
    if "k < length (a # names)" for k
    using that h'(2,3) Cons.prems(1) by (cases k) auto
  ultimately show ?case by simp
qed simp

lemma hash_reg_arrays_ok:
  assumes "distinct (concat (map snd arrs))" "set (concat (map snd arrs)) \<inter> dom h = {}"
  shows "\<exists>h'. hash_reg_arrays arrs h = Inr h' \<and>
           (\<forall>(cls, names)\<in>set arrs. \<forall>k<length names. h' (names ! k) = Some (ENCODE_REG_HASH cls k)) \<and>
           (\<forall>n. n \<notin> set (concat (map snd arrs)) \<longrightarrow> h' n = h n)"
  using assms
proof (induction arrs arbitrary: h)
  case (Cons a arrs)
  obtain cls names where a: "a = (cls, names)" by (cases a)
  obtain h1 where h1: "hash_reg_names cls 0 names h = Inr h1"
    "\<forall>k<length names. h1 (names ! k) = Some (ENCODE_REG_HASH cls k)"
    "\<forall>n. n \<notin> set names \<longrightarrow> h1 n = h n"
    using hash_reg_names_ok [of names h cls 0] Cons.prems by (auto simp: a)
  have "set (concat (map snd arrs)) \<inter> dom h1 = {}"
    using Cons.prems h1(3) by (fastforce simp: a dom_def)
  then obtain h2 where h2: "hash_reg_arrays arrs h1 = Inr h2"
    "\<forall>(cls, names)\<in>set arrs. \<forall>k<length names. h2 (names ! k) = Some (ENCODE_REG_HASH cls k)"
    "\<forall>n. n \<notin> set (concat (map snd arrs)) \<longrightarrow> h2 n = h1 n"
    using Cons.IH [of h1] Cons.prems(1) by (auto simp: a)
  have "h2 (names ! k) = Some (ENCODE_REG_HASH cls k)" if "k < length names" for k
  proof -
    have "names ! k \<notin> set (concat (map snd arrs))"
      using Cons.prems(1) nth_mem [OF that] by (auto simp: a)
    then show ?thesis using h1(2) h2(3) that by simp
  qed
  then show ?case using h1 h2 by (auto simp: a)
qed simp

lemma init_reg_names_ok:
  obtains h where "init_reg_names_hash = Inr h"
    "\<And>cls names k. (cls, names) \<in> set reg_arrays \<Longrightarrow> k < length names \<Longrightarrow>
       h (names ! k) = Some (ENCODE_REG_HASH cls k)"
    "h ''fp'' = Some (ENCODE_REG_HASH RCLASS_GPR 8)"
proof -
  note d = reg_arrays_distinct
  obtain h where h: "hash_reg_arrays reg_arrays Map.empty = Inr h"
    "\<forall>(cls, names)\<in>set reg_arrays. \<forall>k<length names. h (names ! k) = Some (ENCODE_REG_HASH cls k)"
    "\<forall>n. n \<notin> set (concat (map snd reg_arrays)) \<longrightarrow> h n = None"
    using hash_reg_arrays_ok [of reg_arrays Map.empty] d by auto
  have fp: "h ''fp'' = None" using h(3) d by simp
  show ?thesis
  proof (rule that)
    show "init_reg_names_hash = Inr (h(''fp'' \<mapsto> ENCODE_REG_HASH RCLASS_GPR 8))"
      using h(1) fp by (simp add: init_reg_names_hash_def hash_reg_name_def reg_arrays_def)
  next
    fix cls names k
    assume k: "(cls, names) \<in> set reg_arrays" "k < length names"
    then have "h (names ! k) = Some (ENCODE_REG_HASH cls k)" using h(2) by blast
    then show "(h(''fp'' \<mapsto> ENCODE_REG_HASH RCLASS_GPR 8)) (names ! k) = Some (ENCODE_REG_HASH cls k)"
      using fp by (cases "names ! k = ''fp''") auto
  qed simp
qed

lemma sint_small: "n < 4096 \<Longrightarrow> 0 \<le> sint (of_nat n :: 32 word)"
  by (simp add: sint_uint bit_iff_odd uint_nat unat_of_nat)

text \<open>
  C14. Register names survive the round trip from disassembler to assembler: filling the name hash never
  hits a duplicate, and afterwards the \<open>i\<close>-th name of each of the six arrays the disassembler
  prints from, followed by anything that cannot continue a name, is looked up as register \<open>i\<close> of its
  class and consumed exactly.  The one exception is intended: with extension \<open>e\<close> the general
  registers above 15 are refused and nothing is consumed.
\<close>

theorem reg_name_roundtrip:
  "\<exists>h. init_reg_names_hash = Inr h \<and>
     (\<forall>st rest. as_reg_names_hash st = h \<longrightarrow> ends_name rest \<longrightarrow>
       (\<forall>(cls, names)\<in>{(RCLASS_GPR, riscv_gpr_names_numeric), (RCLASS_GPR, riscv_gpr_names_abi),
                         (RCLASS_FPR, riscv_fpr_names_numeric), (RCLASS_FPR, riscv_fpr_names_abi),
                         (RCLASS_VECR, riscv_vecr_names_numeric),
                         (RCLASS_VECM, riscv_vecm_names_numeric)}.
         \<forall>i<length names.
           reg_lookup st (names ! i @ rest) cls =
             (if cls = RCLASS_GPR \<and> as_supports st ''e'' \<and> 15 < i
              then Some ([], - 1, names ! i @ rest, False)
              else Some ([], of_nat i, rest, True))))"
proof -
  obtain h where h: "init_reg_names_hash = Inr h"
    "\<And>cls names k. (cls, names) \<in> set reg_arrays \<Longrightarrow> k < length names \<Longrightarrow>
       h (names ! k) = Some (ENCODE_REG_HASH cls k)"
    using init_reg_names_ok by metis
  have "reg_lookup st (names ! i @ rest) cls =
          (if cls = RCLASS_GPR \<and> as_supports st ''e'' \<and> 15 < i
           then Some ([], - 1, names ! i @ rest, False) else Some ([], of_nat i, rest, True))"
    if st: "as_reg_names_hash st = h" "ends_name rest"
      and i: "(cls, names) \<in> set reg_arrays" "i < length names" for st rest cls names i
  proof -
    have n: "is_name (names ! i)" "length names \<le> 32" "cls \<notin> {RCLASS_MAX, RCLASS_CSR}"
      using i reg_arrays_plain reg_arrays_classes nth_mem [OF i(2)]
      by (auto simp: list_all_iff intro: plain_name_is_name)
    have "0 \<le> sint (of_nat i :: 32 word)" using i(2) n(2) by (intro sint_small) simp
    then show ?thesis
      using st n h(2) [OF i] decode_encode [OF n(3)] name_end_is_name [OF n(1) st(2)]
      by (auto simp: reg_lookup_def reg_lookup_internal_def)
  qed
  then show ?thesis using h(1) by (auto simp: reg_arrays_def)
qed

lemma reg_name_roundtrip_witness:
  "\<exists>h. init_reg_names_hash = Inr h \<and>
     reg_lookup \<lparr>as_reg_names_hash = h, as_csr_extra_hash = Map.empty, as_xlen = 64,
       as_csr_check = False, as_priv_spec = PRIV_SPEC_CLASS_1P12, as_supports = (\<lambda>_. False)\<rparr>
       ''a0,8(sp)'' RCLASS_GPR = Some ([], 10, '',8(sp)'', True)"
proof -
  have rest: "ends_name '',8(sp)''" by (simp add: ends_name_def is_part_of_name_def lex_type_def)
  have a0: "riscv_gpr_names_abi ! 10 = ''a0''" "10 < length riscv_gpr_names_abi"
    by (simp_all add: riscv_gpr_names_abi_def)
  obtain h where h: "init_reg_names_hash = Inr h"
    "\<forall>st rest. as_reg_names_hash st = h \<longrightarrow> ends_name rest \<longrightarrow>
       (\<forall>i<length riscv_gpr_names_abi. reg_lookup st (riscv_gpr_names_abi ! i @ rest) RCLASS_GPR =
         (if as_supports st ''e'' \<and> 15 < i then Some ([], - 1, riscv_gpr_names_abi ! i @ rest, False)
          else Some ([], of_nat i, rest, True)))"
    using reg_name_roundtrip by auto
  show ?thesis
    using h(1) h(2) [rule_format, OF _ rest a0(2), of "\<lparr>as_reg_names_hash = h,
      as_csr_extra_hash = Map.empty, as_xlen = 64, as_csr_check = False,
      as_priv_spec = PRIV_SPEC_CLASS_1P12, as_supports = (\<lambda>_. False)\<rparr>"] a0(1)
    by (intro exI [of _ h]) simp
qed

section \<open>Control and status registers\<close>

lemma csr_decls_distinct: "distinct (map fst csr_decls)"
  by (rule distinct_by_merge) code_simp

lemma csr_decls_plain: "list_all plain_name (map fst csr_decls)"
  by code_simp

text \<open>
  What the header guarantees about each declaration: the number has twelve bits, the class is known
  to \<open>riscv_csr_address\<close>, and a class whose version is checked has versions.
\<close>

definition csr_fine :: "riscv_csr_extra \<Rightarrow> bool" where
  "csr_fine e \<longleftrightarrow> csr_number e < 4096 \<and>
     (case csr_requirements (csr_class e) of
        None \<Rightarrow> False
      | Some (v, _) \<Rightarrow> v \<longrightarrow> define_version e \<noteq> PRIV_SPEC_CLASS_NONE)"

lemma csr_decls_fine: "list_all (\<lambda>d. csr_fine (snd d)) csr_decls"
  by code_simp

lemma csr_decls_number: "d \<in> set csr_decls \<Longrightarrow> unat (csr_number (snd d)) < 4096"
  using csr_decls_fine by (auto simp: list_all_iff csr_fine_def word_less_nat_alt)

lemma fill_csr_hash_nth:
  assumes "length h = 4096" "k < 4096" "\<forall>d\<in>set ds. unat (csr_number (snd d)) < 4096"
  shows "fill_csr_hash spec ds h ! k =
           (case h ! k of
              Some n \<Rightarrow> Some n
            | None \<Rightarrow> map_option fst (find (\<lambda>d. unat (csr_number (snd d)) = k \<and> csr_declared spec (snd d)) ds))"
  using assms
proof (induction ds arbitrary: h)
  case Nil
  then show ?case by (simp split: option.splits)
next
  case (Cons d ds)
  then show ?case by (auto simp: nth_list_update split: option.splits)
qed

lemma riscv_csr_hash_nth:
  assumes "k < 4096"
  shows "riscv_csr_hash spec ! k =
           map_option fst
             (find (\<lambda>d. unat (csr_number (snd d)) = k \<and> csr_declared (dis_priv_spec spec) (snd d)) csr_decls)"
  using fill_csr_hash_nth [of "replicate 4096 None" k csr_decls "dis_priv_spec spec"] assms
    csr_decls_number by (simp add: riscv_csr_hash_def)

lemma fold_init_csr_hash_other:
  "n \<notin> fst ` set ds \<Longrightarrow> fold riscv_init_csr_hash ds h n = h n"
proof (induction ds arbitrary: h)
  case (Cons a ds)
  then have "riscv_init_csr_hash a h n = h n"
    by (auto simp: riscv_init_csr_hash_def split: option.splits)
  then show ?case using Cons by simp
qed simp

lemma fold_init_csr_hash:
  "distinct (map fst ds) \<Longrightarrow> d \<in> set ds \<Longrightarrow> h (fst d) = None \<Longrightarrow>
     fold riscv_init_csr_hash ds h (fst d) = Some [snd d]"
proof (induction ds arbitrary: h)
  case (Cons a ds)
  show ?case
  proof (cases "d = a")
    case True
    have "riscv_init_csr_hash a h (fst a) = Some [snd a]"
      using Cons.prems(3) True by (simp add: riscv_init_csr_hash_def)
    then show ?thesis using Cons.prems(1) True fold_init_csr_hash_other by simp
  next
    case False
    then have "fst d \<noteq> fst a" using Cons.prems(1,2) by (metis distinct.simps(2) image_eqI list.simps(9) set_ConsD set_map)
    then have "riscv_init_csr_hash a h (fst d) = None"
      using Cons.prems(3) by (auto simp: riscv_init_csr_hash_def split: option.splits)
    then show ?thesis using Cons False by simp
  qed
qed simp

lemma csr_extra_hash_decl: "d \<in> set csr_decls \<Longrightarrow> csr_extra_hash (fst d) = Some [snd d]"
  using fold_init_csr_hash [OF csr_decls_distinct] by (simp add: csr_extra_hash_def)

lemma version_checked_declared:
  assumes "csr_fine e" "csr_declared spec e" "csr_requirements (csr_class e) = Some (v, r)"
  shows "csr_in_version v spec [e] = Some e"
  using assms by (auto simp: csr_fine_def csr_declared_def)

text \<open>A declared register is found by its name, with at most complaints about the extensions.\<close>

lemma reg_csr_lookup_declared:
  assumes "d \<in> set csr_decls" "csr_declared (as_priv_spec st) (snd d)"
    "as_csr_extra_hash st = csr_extra_hash"
  shows "\<exists>w. reg_csr_lookup_internal st (fst d) = Some (w, csr_number (snd d)) \<and>
           set w \<subseteq> {Needs_rv32i, Needs_h} \<union> range Needs_ext \<and> (\<not> as_csr_check st \<longrightarrow> w = [])"
proof -
  have f: "csr_fine (snd d)" using assms(1) csr_decls_fine by (simp add: list_all_iff)
  then obtain v x h e where r: "csr_requirements (csr_class (snd d)) = Some (v, x, h, e)"
    by (auto simp: csr_fine_def split: option.splits)
  then show ?thesis
    using assms(3) csr_extra_hash_decl [OF assms(1)] version_checked_declared [OF f assms(2) r]
    by (auto simp: reg_csr_lookup_internal_def riscv_csr_address_def csr_isa_messages_def
        split: option.splits)
qed

lemma find_filter: "(\<And>x. P x \<Longrightarrow> Q x) \<Longrightarrow> find P (filter Q xs) = find P xs"
  by (induction xs) auto

definition th_vector_number :: "32 word \<Rightarrow> bool" where
  "th_vector_number num \<longleftrightarrow>
     num = 0x8 \<or> num = 0x9 \<or> num = 0xa \<or> num = 0xc20 \<or> num = 0xc21 \<or> num = 0xc22"

lemma th_vector_number_unat: "th_vector_number num \<longleftrightarrow> unat num \<in> set th_vector_csrs"
  by (simp add: th_vector_number_def th_vector_csrs_def word_unat_eq_iff)

lemma th_vector_decls_parts:
  "filter (\<lambda>d. th_vector_number (csr_number (snd d))) csr_decls_1 = []"
  "filter (\<lambda>d. th_vector_number (csr_number (snd d))) csr_decls_2 = []"
  "filter (\<lambda>d. th_vector_number (csr_number (snd d))) csr_decls_3 = []"
  by (simp_all add: csr_decls_1_def csr_decls_2_def csr_decls_3_def th_vector_number_def)

lemma th_vector_decls:
  "filter (\<lambda>d. th_vector_number (csr_number (snd d))) csr_decls =
     [csr ''vstart'' 0x8 CSR_CLASS_V PRIV_SPEC_CLASS_NONE PRIV_SPEC_CLASS_NONE,
      csr ''vxsat'' 0x9 CSR_CLASS_V PRIV_SPEC_CLASS_NONE PRIV_SPEC_CLASS_NONE,
      csr ''vxrm'' 0xa CSR_CLASS_V PRIV_SPEC_CLASS_NONE PRIV_SPEC_CLASS_NONE,
      csr ''vl'' 0xc20 CSR_CLASS_V PRIV_SPEC_CLASS_NONE PRIV_SPEC_CLASS_NONE,
      csr ''vtype'' 0xc21 CSR_CLASS_V PRIV_SPEC_CLASS_NONE PRIV_SPEC_CLASS_NONE,
      csr ''vlenb'' 0xc22 CSR_CLASS_V PRIV_SPEC_CLASS_NONE PRIV_SPEC_CLASS_NONE,
      csr ''th.vstart'' 0x8 CSR_CLASS_XTHEADVECTOR PRIV_SPEC_CLASS_NONE PRIV_SPEC_CLASS_NONE,
      csr ''th.vxsat'' 0x9 CSR_CLASS_XTHEADVECTOR PRIV_SPEC_CLASS_NONE PRIV_SPEC_CLASS_NONE,
      csr ''th.vxrm'' 0xa CSR_CLASS_XTHEADVECTOR PRIV_SPEC_CLASS_NONE PRIV_SPEC_CLASS_NONE,
      csr ''th.vl'' 0xc20 CSR_CLASS_XTHEADVECTOR PRIV_SPEC_CLASS_NONE PRIV_SPEC_CLASS_NONE,
      csr ''th.vtype'' 0xc21 CSR_CLASS_XTHEADVECTOR PRIV_SPEC_CLASS_NONE PRIV_SPEC_CLASS_NONE,
      csr ''th.vlenb'' 0xc22 CSR_CLASS_XTHEADVECTOR PRIV_SPEC_CLASS_NONE PRIV_SPEC_CLASS_NONE]"
proof -
  have "filter (\<lambda>d. th_vector_number (csr_number (snd d))) csr_decls =
          filter (\<lambda>d. th_vector_number (csr_number (snd d))) csr_decls_4"
    by (simp add: csr_decls_def th_vector_decls_parts)
  then show ?thesis by (simp add: csr_decls_4_def th_vector_number_def)
qed

text \<open>What is printed for a number is a name declared for it in the chosen version.\<close>

lemma csr_print_name_declared:
  assumes "csr_print_name xtv spec num = Some n" "num < 4096"
  obtains d where "d \<in> set csr_decls" "fst d = n" "unat (csr_number (snd d)) = num"
    "csr_declared (dis_priv_spec spec) (snd d)"
proof -
  let ?P = "\<lambda>d. unat (csr_number (snd d)) = num \<and> csr_declared (dis_priv_spec spec) (snd d)"
  obtain d where d: "find ?P csr_decls = Some d"
    and n: "n = (if xtv \<and> num \<in> set th_vector_csrs then ''th.'' @ fst d else fst d)"
    using assms by (auto simp: csr_print_name_def riscv_csr_hash_nth split: option.splits)
  have m: "d \<in> set csr_decls" "?P d" using find_SomeD [OF d] by auto
  show ?thesis
  proof (cases "xtv \<and> num \<in> set th_vector_csrs")
    case False
    then show ?thesis using m n that by simp
  next
    case True
    let ?th = "filter (\<lambda>d. th_vector_number (csr_number (snd d))) csr_decls"
    have "find ?P ?th = find ?P csr_decls"
      using True by (intro find_filter) (auto simp: th_vector_number_unat)
    with d have "find ?P ?th = Some d" by simp
    then have "\<exists>d'\<in>set ?th. fst d' = ''th.'' @ fst d \<and> ?P d'"
      using True unfolding th_vector_decls
      by (auto simp: th_vector_csrs_def csr_declared_def split: if_splits)
    then show ?thesis using n True that by auto
  qed
qed

text \<open>
  C13. The names of control and status registers survive the round trip: whatever name the disassembler
  prints for the number \<open>num\<close> under a privileged specification, also with the \<open>th.\<close> prefix of
  XTheadVector, the assembler running under the same specification reads back as \<open>num\<close>,
  consuming exactly the name.  It may complain about a missing extension, and only when the checks
  are enabled, but never about the specification or the class.
\<close>

theorem csr_name_roundtrip:
  assumes "csr_print_name xtheadvector spec num = Some n" "num < 4096" "ends_name rest"
    "as_csr_extra_hash st = csr_extra_hash" "as_priv_spec st = dis_priv_spec spec"
  shows "\<exists>w. reg_lookup st (n @ rest) RCLASS_CSR = Some (w, of_nat num, rest, True) \<and>
           set w \<subseteq> {Needs_rv32i, Needs_h} \<union> range Needs_ext \<and> (\<not> as_csr_check st \<longrightarrow> w = [])"
proof -
  obtain d where d: "d \<in> set csr_decls" "fst d = n" "unat (csr_number (snd d)) = num"
    "csr_declared (dis_priv_spec spec) (snd d)"
    using csr_print_name_declared [OF assms(1,2)] by metis
  then have num: "csr_number (snd d) = of_nat num" by auto
  have "is_name n"
    using d(1,2) csr_decls_plain by (auto simp: list_all_iff intro: plain_name_is_name)
  note name = reg_lookup_name [OF this assms(3)]
  obtain w where "reg_csr_lookup_internal st n = Some (w, of_nat num)"
    "set w \<subseteq> {Needs_rv32i, Needs_h} \<union> range Needs_ext \<and> (\<not> as_csr_check st \<longrightarrow> w = [])"
    using reg_csr_lookup_declared [OF d(1), of st] d(2,4) assms(4,5) num by auto
  then show ?thesis
    using name [of st RCLASS_CSR w] sint_small [OF assms(2)] by (auto simp: reg_lookup_internal_def)
qed

lemma csr_name_roundtrip_witness:
  "\<exists>w. reg_lookup \<lparr>as_reg_names_hash = Map.empty, as_csr_extra_hash = csr_extra_hash, as_xlen = 64,
       as_csr_check = False, as_priv_spec = PRIV_SPEC_CLASS_1P12, as_supports = (\<lambda>_. False)\<rparr>
       ''cycle,a0'' RCLASS_CSR = Some (w, 0xc00, '',a0'', True) \<and> w = []"
proof -
  have rest: "ends_name '',a0''" by (simp add: ends_name_def is_part_of_name_def lex_type_def)
  have tab: "csr_decls = csr ''cycle'' 0xc00 CSR_CLASS_I PRIV_SPEC_CLASS_1P9P1 PRIV_SPEC_CLASS_DRAFT #
          tl csr_decls"
    by (simp only: csr_decls_def csr_decls_1_def append_Cons list.sel)
  have "find (\<lambda>d. unat (csr_number (snd d)) = 0xc00 \<and> csr_declared PRIV_SPEC_CLASS_1P12 (snd d)) csr_decls =
      Some (csr ''cycle'' 0xc00 CSR_CLASS_I PRIV_SPEC_CLASS_1P9P1 PRIV_SPEC_CLASS_DRAFT)"
    by (subst tab) (simp add: csr_declared_def version_holds_def)
  then have "csr_print_name False PRIV_SPEC_CLASS_NONE 0xc00 = Some ''cycle''"
    by (simp add: csr_print_name_def riscv_csr_hash_nth dis_priv_spec_def)
  from csr_name_roundtrip [OF this _ rest, of "\<lparr>as_reg_names_hash = Map.empty,
      as_csr_extra_hash = csr_extra_hash, as_xlen = 64, as_csr_check = False,
      as_priv_spec = PRIV_SPEC_CLASS_1P12, as_supports = (\<lambda>_. False)\<rparr>"]
  show ?thesis by (simp add: dis_priv_spec_def)
qed

section \<open>Rounding modes and fence sets\<close>

text \<open>
  Rounding modes and fence sets survive the round trip: for every value of the field, what the
  disassembler prints is looked up by the assembler as the same value and consumed up to the next
  comma, unless the value is reserved.  Then the word \<open>unknown\<close> is printed, which the assembler
  refuses.
\<close>

theorem operand_name_roundtrip:
  assumes "tab \<in> {riscv_rm, riscv_pred_succ}" "rest = [] \<or> hd rest = CHR '',''"
  shows "arg_lookup (arg_print i tab @ rest) tab =
           (if i < length tab \<and> tab ! i \<noteq> None then Some (i, rest) else None)"
proof -
  have "ends_arg rest" using assms(2) by (simp add: ends_arg_def)
  then show ?thesis
    using assms(1) rm.print_lookup_cases pred_succ.print_lookup_cases by blast
qed

lemma operand_name_roundtrip_witness: "arg_lookup ''iorw,rw'' riscv_pred_succ = Some (15, '',rw'')"
  using operand_name_roundtrip [of riscv_pred_succ "'',rw''" 15]
  by (simp add: arg_print_def riscv_pred_succ_def)

end
