(* ===== verification/RV_Vtype.thy ===== *)
theory RV_Vtype
  imports RV_Regs_Laws RV_Imm
begin

text \<open>
  The operand of \<open>vsetvli\<close> and \<open>vsetivli\<close> (and of their XTheadVector variants) in both directions:
  \<open>print_insn_args\<close> of \<^verbatim>\<open>opcodes/riscv-dis.c\<close> spells the fields of the immediate out,
  \<open>my_getVsetvliExpression\<close> and \<open>my_getThVsetvliExpression\<close> of \<^verbatim>\<open>gas/config/tc-riscv.c\<close> read them.
  Both are instances of the operand tables of \<^theory_text>\<open>RV_Regs_Laws\<close>.
\<close>

section \<open>Printing\<close>

text \<open>An array with its bounds check and its test for a null pointer.\<close>

definition tab_entry :: "string option list \<Rightarrow> nat \<Rightarrow> string option" where
  "tab_entry tab i = (if i < length tab then tab ! i else None)"

text \<open>The text, or \<open>None\<close> when the immediate is printed as a number.\<close>

definition vtype_text :: "insn_t \<Rightarrow> string option" where
  "vtype_text imm =
     (let imm_vlmul = unat (EXTRACT_BITS imm OP_MASK_VLMUL OP_SH_VLMUL);
          imm_vsew = unat (EXTRACT_BITS imm OP_MASK_VSEW OP_SH_VSEW);
          imm_vta = unat (EXTRACT_BITS imm OP_MASK_VTA OP_SH_VTA);
          imm_vma = unat (EXTRACT_BITS imm OP_MASK_VMA OP_SH_VMA);
          imm_vtype_res = shr imm 8
      in if imm_vtype_res \<noteq> 0 then None
         else case (tab_entry riscv_vsew imm_vsew, tab_entry riscv_vlmul imm_vlmul,
                    tab_entry riscv_vta imm_vta, tab_entry riscv_vma imm_vma) of
                (Some e, Some m, Some a, Some k) \<Rightarrow> Some (e @ '','' @ m @ '','' @ a @ '','' @ k)
              | _ \<Rightarrow> None)"

text \<open>
  The XTheadVector operand has the bounds checks but no tests for null pointers: \<open>Null_string\<close> stands
  for a null pointer given to the conversion \<open>%s\<close>.
\<close>

datatype th_vtype_out = Th_number | Th_text string | Null_string

definition th_vtype_text :: "insn_t \<Rightarrow> th_vtype_out" where
  "th_vtype_text imm =
     (let imm_vediv = unat (EXTRACT_BITS imm OP_MASK_XTHEADVEDIV OP_SH_XTHEADVEDIV);
          imm_vlmul = unat (EXTRACT_BITS imm OP_MASK_XTHEADVLMUL OP_SH_XTHEADVLMUL);
          imm_vsew = unat (EXTRACT_BITS imm OP_MASK_XTHEADVSEW OP_SH_XTHEADVSEW);
          imm_vtype_res = EXTRACT_BITS imm OP_MASK_XTHEADVTYPE_RES OP_SH_XTHEADVTYPE_RES
      in if imm_vsew < length riscv_vsew \<and> imm_vlmul < length riscv_th_vlen \<and>
            imm_vediv < length riscv_th_vediv \<and> imm_vtype_res = 0
         then case (riscv_vsew ! imm_vsew, riscv_th_vlen ! imm_vlmul, riscv_th_vediv ! imm_vediv) of
                (Some e, Some m, Some d) \<Rightarrow> Th_text (e @ '','' @ m @ '','' @ d)
              | _ \<Rightarrow> Null_string
         else Th_number)"

section \<open>Reading\<close>

text \<open>One \<open>if (arg_lookup (...))\<close>: the value, whether it was found and the rest of the line.\<close>

definition vset_arg :: "string option list \<Rightarrow> string \<Rightarrow> nat \<times> bool \<times> string" where
  "vset_arg tab str =
     (case arg_lookup str tab of
        None \<Rightarrow> (0, False, str)
      | Some (v, s) \<Rightarrow> (v, True, if s \<noteq> [] \<and> hd s = CHR '','' then tl s else s))"

text \<open>The constant and \<open>expr_parse_end\<close>; \<open>None\<close> hands the line over to \<open>my_getExpression\<close>.\<close>

definition my_getVsetvliExpression :: "string \<Rightarrow> (insn_t \<times> string) option" where
  "my_getVsetvliExpression str =
     (let (vsew_value, vsew_found, str) = vset_arg riscv_vsew str;
          (vlmul_value, vlmul_found, str) = vset_arg riscv_vlmul str;
          (vta_value, vta_found, str) = vset_arg riscv_vta str;
          (vma_value, vma_found, str) = vset_arg riscv_vma str
      in if vsew_found \<or> vlmul_found \<or> vta_found \<or> vma_found
         then Some (shl (of_nat vlmul_value) OP_SH_VLMUL OR shl (of_nat vsew_value) OP_SH_VSEW OR
                    shl (of_nat vta_value) OP_SH_VTA OR shl (of_nat vma_value) OP_SH_VMA, str)
         else None)"

definition my_getThVsetvliExpression :: "string \<Rightarrow> (insn_t \<times> string) option" where
  "my_getThVsetvliExpression str =
     (let (vsew_value, vsew_found, str) = vset_arg riscv_vsew str;
          (vlen_value, vlen_found, str) = vset_arg riscv_th_vlen str;
          (vediv_value, vediv_found, str) = vset_arg riscv_th_vediv str
      in if vlen_found \<or> vediv_found \<or> vsew_found
         then Some (shl (of_nat vediv_value) 5 OR shl (of_nat vsew_value) 2 OR of_nat vlen_value, str)
         else None)"

section \<open>Round trip\<close>

context name_table
begin

lemma vset_arg_entry:
  assumes "tab_entry tab i = Some n"
  shows "vset_arg tab n = (i, True, [])"
    and "vset_arg tab (n @ CHR '','' # s) = (i, True, s)"
  using assms print_lookup [of i n "[]"] print_lookup [of i n "CHR '','' # s"]
  by (auto simp: vset_arg_def tab_entry_def arg_print_def ends_arg_def split: if_splits)

end

lemma shr_zero_take_bit: "shr x n = 0 \<Longrightarrow> take_bit n x = x"
  using bits_ident [of n x] by (simp add: shr_def)

lemma vtype_fields:
  assumes "shr imm 8 = 0"
  shows "shl (EXTRACT_BITS imm 7 0) 0 OR shl (EXTRACT_BITS imm 7 3) 3 OR
         shl (EXTRACT_BITS imm 1 6) 6 OR shl (EXTRACT_BITS imm 1 7) 7 = imm"
proof -
  have "shl (EXTRACT_BITS imm 7 0) 0 OR shl (EXTRACT_BITS imm 7 3) 3 OR
        shl (EXTRACT_BITS imm 1 6) 6 OR shl (EXTRACT_BITS imm 1 7) 7 = take_bit 8 imm"
    by (rule w64_eqI) (simp add: EXTRACT_BITS_def cbits)
  with shr_zero_take_bit [OF assms] show ?thesis by simp
qed

lemma th_vtype_fields:
  assumes "EXTRACT_BITS imm 0xf 7 = 0" "imm < 0x800"
  shows "shl (EXTRACT_BITS imm 3 5) 5 OR shl (EXTRACT_BITS imm 7 2) 2 OR EXTRACT_BITS imm 3 0 = imm"
proof -
  have imm: "take_bit 11 imm = imm"
  proof (rule unsigned_word_eqI)
    show "uint (take_bit 11 imm) = uint imm"
      unfolding uint_take_bit using assms(2) by (simp add: take_bit_int_eq_self_iff word_less_def)
  qed
  have "EXTRACT_BITS imm 0xf 7 = shr (take_bit 11 imm) 7"
    by (rule w64_eqI) (simp add: EXTRACT_BITS_def cbits)
  then have "take_bit 7 imm = imm" using imm assms(1) by (intro shr_zero_take_bit) simp
  moreover have "shl (EXTRACT_BITS imm 3 5) 5 OR shl (EXTRACT_BITS imm 7 2) 2 OR EXTRACT_BITS imm 3 0
      = take_bit 7 imm"
    by (rule w64_eqI) (simp add: EXTRACT_BITS_def cbits)
  ultimately show ?thesis by simp
qed

lemma field_bound: "unat (EXTRACT_BITS x m k) \<le> unat m"
  using word_and_le1 [of "shr x k" m] by (simp add: EXTRACT_BITS_def word_le_nat_alt)

lemma less_8_cases: "n < 8 \<Longrightarrow> n \<in> {0, 1, 2, 3, 4, 5, 6, 7 :: nat}"
  by auto

lemma less_4_cases: "n < 4 \<Longrightarrow> n \<in> {0, 1, 2, 3 :: nat}"
  by auto

lemma getVsetvli_text:
  assumes "tab_entry riscv_vsew i = Some e" "tab_entry riscv_vlmul j = Some m"
    "tab_entry riscv_vta k = Some a" "tab_entry riscv_vma l = Some b"
  shows "my_getVsetvliExpression (e @ '','' @ m @ '','' @ a @ '','' @ b) =
           Some (shl (of_nat j) 0 OR shl (of_nat i) 3 OR shl (of_nat k) 6 OR shl (of_nat l) 7, [])"
  using vsew.vset_arg_entry(2) [OF assms(1)] vlmul.vset_arg_entry(2) [OF assms(2)]
    vta.vset_arg_entry(2) [OF assms(3)] vma.vset_arg_entry(1) [OF assms(4)]
  by (simp add: my_getVsetvliExpression_def)

lemma getThVsetvli_text:
  assumes "tab_entry riscv_vsew i = Some e" "tab_entry riscv_th_vlen j = Some m"
    "tab_entry riscv_th_vediv k = Some d"
  shows "my_getThVsetvliExpression (e @ '','' @ m @ '','' @ d) =
           Some (shl (of_nat k) 5 OR shl (of_nat i) 2 OR of_nat j, [])"
  using vsew.vset_arg_entry(2) [OF assms(1)] th_vlen.vset_arg_entry(2) [OF assms(2)]
    th_vediv.vset_arg_entry(1) [OF assms(3)]
  by (simp add: my_getThVsetvliExpression_def)

lemma vtype_text_parse:
  assumes "vtype_text imm = Some t"
  shows "my_getVsetvliExpression t = Some (imm, [])"
proof -
  obtain e m a b where f:
    "tab_entry riscv_vsew (unat (EXTRACT_BITS imm 7 3)) = Some e"
    "tab_entry riscv_vlmul (unat (EXTRACT_BITS imm 7 0)) = Some m"
    "tab_entry riscv_vta (unat (EXTRACT_BITS imm 1 6)) = Some a"
    "tab_entry riscv_vma (unat (EXTRACT_BITS imm 1 7)) = Some b"
    "shr imm 8 = 0" "t = e @ '','' @ m @ '','' @ a @ '','' @ b"
    using assms unfolding vtype_text_def Let_def by (auto split: if_splits option.splits)
  show ?thesis
    using getVsetvli_text [OF f(1-4)] vtype_fields [OF f(5)] by (simp add: f(6))
qed

lemma th_vtype_text_parse:
  assumes "th_vtype_text imm = Th_text t" "imm < 0x800"
  shows "my_getThVsetvliExpression t = Some (imm, [])"
proof -
  obtain e m d where f:
    "tab_entry riscv_vsew (unat (EXTRACT_BITS imm 7 2)) = Some e"
    "tab_entry riscv_th_vlen (unat (EXTRACT_BITS imm 3 0)) = Some m"
    "tab_entry riscv_th_vediv (unat (EXTRACT_BITS imm 3 5)) = Some d"
    "EXTRACT_BITS imm 0xf 7 = 0" "t = e @ '','' @ m @ '','' @ d"
    using assms unfolding th_vtype_text_def Let_def
    by (auto simp: tab_entry_def split: if_splits option.splits)
  show ?thesis
    using getThVsetvli_text [OF f(1-3)] th_vtype_fields [OF f(4) assms(2)]
    by (simp add: f(5))
qed

text \<open>
  C23. The operand of \<open>vsetvli\<close> survives the round trip: when the disassembler spells an immediate out
  as element width, group multiplier, tail and mask policy, the assembler reads exactly that
  immediate back and consumes the whole text.  The same holds for the XTheadVector operand whenever
  a text is printed.
\<close>

theorem vtype_roundtrip:
  "(vtype_text imm = Some t \<longrightarrow> my_getVsetvliExpression t = Some (imm, [])) \<and>
   (th_vtype_text imm = Th_text t \<longrightarrow> imm < 0x800 \<longrightarrow> my_getThVsetvliExpression t = Some (imm, []))"
  by (simp add: vtype_text_parse th_vtype_text_parse)

lemma vtype_roundtrip_witness:
  "my_getVsetvliExpression ''e32,m2,ta,ma'' = Some (0xd1, []) \<and>
   my_getThVsetvliExpression ''e16,m4,d1'' = Some (6, [])"
proof -
  have "vtype_text 0xd1 = Some ''e32,m2,ta,ma''" by code_simp
  moreover have "th_vtype_text 6 = Th_text ''e16,m4,d1''" by code_simp
  ultimately show ?thesis
    using vtype_roundtrip [of "0xd1" "''e32,m2,ta,ma''"] vtype_roundtrip [of 6 "''e16,m4,d1''"]
    by simp
qed

text \<open>
  The XTheadVector operand passes a null pointer to the conversion \<open>%s\<close> exactly for the reserved
  element widths: an eleven-bit immediate with zero in its upper four bits and with bit 4 set, that
  is, whose three-bit width field is 4 or more.  The standard operand tests the same table
  entry and prints such an immediate as a number.
\<close>

theorem th_vtype_null:
  "th_vtype_text imm = Null_string \<longleftrightarrow> bit imm 4 \<and> EXTRACT_BITS imm 0xf 7 = 0"
proof -
  have w: "unat (EXTRACT_BITS imm 7 2) < 8" "unat (EXTRACT_BITS imm 3 0) < 4"
    "unat (EXTRACT_BITS imm 3 5) < 4"
    using field_bound [of imm 7 2] field_bound [of imm 3 0] field_bound [of imm 3 5] by simp_all
  have "bit (unat (EXTRACT_BITS imm 7 2)) 2 \<longleftrightarrow> bit imm 4"
    by (simp add: bit_unsigned_iff EXTRACT_BITS_def cbits)
  then have sew: "riscv_vsew ! unat (EXTRACT_BITS imm 7 2) = None \<longleftrightarrow> bit imm 4"
    using less_8_cases [OF w(1)] by (auto simp: riscv_vsew_def bit_0)
  have "riscv_th_vlen ! unat (EXTRACT_BITS imm 3 0) \<noteq> None"
    "riscv_th_vediv ! unat (EXTRACT_BITS imm 3 5) \<noteq> None"
    using less_4_cases [OF w(2)] less_4_cases [OF w(3)] by (auto simp: riscv_th_vlen_def riscv_th_vediv_def)
  then show ?thesis
    using w sew by (auto simp: th_vtype_text_def Let_def riscv_vsew_def riscv_th_vlen_def riscv_th_vediv_def
        split: option.splits)
qed

end
