(* ===== verification/RV_Print.thy ===== *)
theory RV_Print
  imports RV_Vtype RV_Disasm RV_Arch
begin

text \<open>
  Printing an instruction, from \<^verbatim>\<open>opcodes/riscv-dis.c\<close>: \<open>maybe_print_address\<close>, \<open>print_insn_args\<close> and
  \<open>riscv_disassemble_insn\<close>.  The state is the part of \<open>disassemble_info\<close> and of the static variables
  the code changes; the calls of the print functions are recorded in their order.

  An operand letter of the table is one branch of the nested \<open>switch\<close>.  Its effect is a function on
  the state, kept apart from the question which branch is taken: the groups \<open>C\<close>, \<open>V\<close> and \<open>Xs\<close> have
  no default branch, so an unknown letter is skipped and a missing letter lets the loop run past the
  end of the string.
\<close>

section \<open>State and output\<close>

datatype dis_style =
    dis_style_text | dis_style_mnemonic | dis_style_sub_mnemonic | dis_style_assembler_directive
  | dis_style_register | dis_style_immediate | dis_style_address | dis_style_address_offset
  | dis_style_symbol | dis_style_comment_start

text \<open>
  One call of \<open>fprintf_styled_func\<close> with the text it formats, of \<open>print_address_func\<close>, or a conversion
  \<open>%a\<close> of the number \<open>m * 2 ^ e\<close>, or a conversion \<open>%s\<close> of a null pointer.
\<close>

datatype dis_item =
    Styled dis_style string
  | Styled_float dis_style int int
  | Styled_null dis_style
  | Address bfd_vma

record riscv_private_data =
  pd_gp :: bfd_vma
  pd_print_addr :: bfd_vma
  pd_hi_addr :: "bfd_vma list"
  pd_to_print_addr :: bool
  pd_has_gp :: bool

record dis_info =
  private_data :: riscv_private_data
  info_stream :: "dis_item list"
  info_bytes_per_chunk :: nat
  info_insn_type :: dis_insn_type
  info_data_size :: nat
  info_target :: bfd_vma
  info_target2 :: bfd_vma
  dis_xlen :: nat
  dis_gpr_names :: "string list"
  dis_fpr_names :: "string list"
  dis_no_aliases :: bool
  default_priv_spec :: riscv_spec_class

text \<open>
  What the code only reads: \<open>info->mach\<close>, the class in the ELF header of the section's file (\<open>None\<close>
  when there is no section), and the two questions asked of \<open>riscv_rps_dis\<close>.
\<close>

datatype bfd_mach = bfd_mach_riscv64 | bfd_mach_riscv32 | bfd_mach_other

record dis_env =
  env_mach :: bfd_mach
  env_elf64 :: "bool option"
  env_subset_supports :: "string \<Rightarrow> bool"
  env_multi_subset_supports :: "riscv_insn_class \<Rightarrow> bool"

definition emit :: "dis_item list \<Rightarrow> dis_info \<Rightarrow> dis_info" where
  "emit is info = info\<lparr>info_stream := info_stream info @ is\<rparr>"

definition print_text :: "dis_style \<Rightarrow> string \<Rightarrow> dis_info \<Rightarrow> dis_info" where
  "print_text style s = emit [Styled style s]"

text \<open>\<open>(*info->print_address_func) (info->target, info)\<close> after the assignment of the target.\<close>

definition print_target :: "bfd_vma \<Rightarrow> dis_info \<Rightarrow> dis_info" where
  "print_target a info = emit [Address a] (info\<lparr>info_target := a\<rparr>)"

section \<open>Conversions\<close>

fun hex_digit :: "nat \<Rightarrow> char" where
  "hex_digit d = (if d < 10 then char_of (48 + d) else char_of (87 + d))"

fun hex :: "nat \<Rightarrow> string" where
  "hex n = (if n < 16 then [hex_digit n] else hex (n div 16) @ [hex_digit (n mod 16)])"

declare hex.simps [simp del]

text \<open>\<open>(int) x\<close>, its \<open>%d\<close>, \<open>(unsigned) x\<close> and \<open>0x%x\<close>.\<close>

definition c_int :: "64 word \<Rightarrow> 64 word" where
  "c_int x = signed_take_bit 31 x"

definition fmt_d :: "64 word \<Rightarrow> string" where
  "fmt_d x = dec_int (sint (c_int x))"

definition fmt_0x :: "64 word \<Rightarrow> string" where
  "fmt_0x x = ''0x'' @ hex (unat (take_bit 32 x))"

definition gpr :: "nat \<Rightarrow> dis_info \<Rightarrow> dis_info" where
  "gpr r info = print_text dis_style_register (dis_gpr_names info ! r) info"

definition fpr :: "nat \<Rightarrow> dis_info \<Rightarrow> dis_info" where
  "fpr r info = print_text dis_style_register (dis_fpr_names info ! r) info"

definition vecr :: "nat \<Rightarrow> dis_info \<Rightarrow> dis_info" where
  "vecr r = print_text dis_style_register (riscv_vecr_names_numeric ! r)"

abbreviation (input) FIELD :: "insn_t \<Rightarrow> insn_t \<Rightarrow> nat \<Rightarrow> nat" where
  "FIELD l msk sh \<equiv> unat (EXTRACT_BITS l msk sh)"

section \<open>Addresses\<close>

abbreviation (input) X_SP :: nat where "X_SP \<equiv> 2"
abbreviation (input) X_GP :: nat where "X_GP \<equiv> 3"
abbreviation (input) X_TP :: nat where "X_TP \<equiv> 4"

definition maybe_print_address ::
    "nat \<Rightarrow> nat \<Rightarrow> 64 word \<Rightarrow> bool \<Rightarrow> riscv_private_data \<Rightarrow> riscv_private_data" where
  "maybe_print_address xlen base_reg imm wide pd =
     (let offset = c_int imm;
          finish = (\<lambda>pd a.
            (let a = (if wide then c_int a else a);
                 a = (if xlen = 32 then take_bit 32 a else a)
             in pd\<lparr>pd_print_addr := a, pd_to_print_addr := True\<rparr>))
      in if pd_hi_addr pd ! base_reg \<noteq> - 1
         then finish (pd\<lparr>pd_hi_addr := (pd_hi_addr pd)[base_reg := - 1]\<rparr>)
                ((if base_reg \<noteq> 0 then pd_hi_addr pd ! base_reg else 0) + offset)
         else if base_reg = X_GP \<and> pd_has_gp pd then finish pd (pd_gp pd + offset)
         else if base_reg = X_TP \<or> base_reg = 0 then finish pd offset
         else pd)"

definition maybe_address :: "nat \<Rightarrow> 64 word \<Rightarrow> bool \<Rightarrow> dis_info \<Rightarrow> dis_info" where
  "maybe_address base_reg imm wide info =
     info\<lparr>private_data := maybe_print_address (dis_xlen info) base_reg imm wide (private_data info)\<rparr>"

definition set_hi_addr :: "nat \<Rightarrow> bfd_vma \<Rightarrow> dis_info \<Rightarrow> dis_info" where
  "set_hi_addr r a info =
     info\<lparr>private_data := (private_data info)\<lparr>pd_hi_addr := (pd_hi_addr (private_data info))[r := a]\<rparr>\<rparr>"

section \<open>Operands\<close>

abbreviation (input) MATCH_JALR :: insn_t where "MATCH_JALR \<equiv> 0x67"
abbreviation (input) MASK_JALR :: insn_t where "MASK_JALR \<equiv> 0x707f"
abbreviation (input) MATCH_LUI :: insn_t where "MATCH_LUI \<equiv> 0x37"
abbreviation (input) MASK_LUI :: insn_t where "MASK_LUI \<equiv> 0x7f"
abbreviation (input) MATCH_AUIPC :: insn_t where "MATCH_AUIPC \<equiv> 0x17"
abbreviation (input) MASK_AUIPC :: insn_t where "MASK_AUIPC \<equiv> 0x7f"
abbreviation (input) MATCH_ADDI :: insn_t where "MATCH_ADDI \<equiv> 0x13"
abbreviation (input) MASK_ADDI :: insn_t where "MASK_ADDI \<equiv> 0x707f"
abbreviation (input) MATCH_ADDIW :: insn_t where "MATCH_ADDIW \<equiv> 0x1b"
abbreviation (input) MASK_ADDIW :: insn_t where "MASK_ADDIW \<equiv> 0x707f"
abbreviation (input) MATCH_C_ADDI :: insn_t where "MATCH_C_ADDI \<equiv> 0x1"
abbreviation (input) MASK_C_ADDI :: insn_t where "MASK_C_ADDI \<equiv> 0xe003"
abbreviation (input) MATCH_C_ADDIW :: insn_t where "MATCH_C_ADDIW \<equiv> 0x2001"
abbreviation (input) MASK_C_ADDIW :: insn_t where "MASK_C_ADDIW \<equiv> 0xe003"
abbreviation (input) MATCH_C_LUI :: insn_t where "MATCH_C_LUI \<equiv> 0x6001"
abbreviation (input) MASK_C_LUI :: insn_t where "MASK_C_LUI \<equiv> 0xe003"

text \<open>
  What the \<open>switch\<close> does with the letters at the front: print and go on behind them, skip them
  silently, jump to \<open>undefined_modifier\<close>, or read a letter behind the end of the string.
\<close>

datatype operand_step =
    Prints "dis_info \<Rightarrow> dis_info" string
  | Skips string
  | Undefined_modifier
  | Past_end

definition print_operand_C :: "dis_env \<Rightarrow> bfd_vma \<Rightarrow> insn_t \<Rightarrow> string \<Rightarrow> operand_step" where
  "print_operand_C env pc l s =
     (let rd = FIELD l OP_MASK_RD OP_SH_RD
      in case s of [] \<Rightarrow> Past_end | c # r \<Rightarrow>
        if c = CHR ''s'' \<or> c = CHR ''w'' then Prints (gpr (FIELD l OP_MASK_CRS1S OP_SH_CRS1S + 8)) r
        else if c = CHR ''t'' \<or> c = CHR ''x'' then Prints (gpr (FIELD l OP_MASK_CRS2S OP_SH_CRS2S + 8)) r
        else if c = CHR ''U'' then Prints (gpr rd) r
        else if c = CHR ''c'' then Prints (gpr X_SP) r
        else if c = CHR ''V'' then Prints (gpr (FIELD l OP_MASK_CRS2 OP_SH_CRS2)) r
        else if c = CHR ''o'' \<or> c = CHR ''j'' then
          Prints (\<lambda>info.
            let info = (if l AND MASK_C_ADDI = MATCH_C_ADDI \<and> rd \<noteq> 0
                        then maybe_address rd (EXTRACT_CITYPE_IMM l) False info else info);
                info = (if env_mach env = bfd_mach_riscv64 \<and> l AND MASK_C_ADDIW = MATCH_C_ADDIW \<and> rd \<noteq> 0
                        then maybe_address rd (EXTRACT_CITYPE_IMM l) True info else info)
            in print_text dis_style_immediate (fmt_d (EXTRACT_CITYPE_IMM l)) info) r
        else if c = CHR ''k'' then Prints (print_text dis_style_address_offset (fmt_d (EXTRACT_CLTYPE_LW_IMM l))) r
        else if c = CHR ''l'' then Prints (print_text dis_style_address_offset (fmt_d (EXTRACT_CLTYPE_LD_IMM l))) r
        else if c = CHR ''m'' then Prints (print_text dis_style_address_offset (fmt_d (EXTRACT_CITYPE_LWSP_IMM l))) r
        else if c = CHR ''n'' then Prints (print_text dis_style_address_offset (fmt_d (EXTRACT_CITYPE_LDSP_IMM l))) r
        else if c = CHR ''K'' then Prints (print_text dis_style_immediate (fmt_d (EXTRACT_CIWTYPE_ADDI4SPN_IMM l))) r
        else if c = CHR ''L'' then Prints (print_text dis_style_immediate (fmt_d (EXTRACT_CITYPE_ADDI16SP_IMM l))) r
        else if c = CHR ''M'' then Prints (print_text dis_style_address_offset (fmt_d (EXTRACT_CSSTYPE_SWSP_IMM l))) r
        else if c = CHR ''N'' then Prints (print_text dis_style_address_offset (fmt_d (EXTRACT_CSSTYPE_SDSP_IMM l))) r
        else if c = CHR ''p'' then Prints (print_target (EXTRACT_CBTYPE_IMM l + pc)) r
        else if c = CHR ''a'' then Prints (print_target (EXTRACT_CJTYPE_IMM l + pc)) r
        else if c = CHR ''u'' then Prints (print_text dis_style_immediate (fmt_0x (EXTRACT_CITYPE_IMM l AND 0xfffff))) r
        else if c = CHR ''>'' then Prints (print_text dis_style_immediate (fmt_0x (EXTRACT_CITYPE_IMM l AND 0x3f))) r
        else if c = CHR ''<'' then Prints (print_text dis_style_immediate (fmt_0x (EXTRACT_CITYPE_IMM l AND 0x1f))) r
        else if c = CHR ''T'' then Prints (fpr (FIELD l OP_MASK_CRS2 OP_SH_CRS2)) r
        else if c = CHR ''D'' then Prints (fpr (FIELD l OP_MASK_CRS2S OP_SH_CRS2S + 8)) r
        else Skips r)"

text \<open>The vector type operands \<open>b\<close> and \<open>c\<close>.\<close>

definition print_vtype :: "insn_t \<Rightarrow> dis_info \<Rightarrow> dis_info" where
  "print_vtype imm =
     (case vtype_text imm of
        Some t \<Rightarrow> print_text dis_style_text t
      | None \<Rightarrow> print_text dis_style_immediate (fmt_d imm))"

definition print_operand_V :: "insn_t \<Rightarrow> string \<Rightarrow> operand_step" where
  "print_operand_V l s =
     (case s of [] \<Rightarrow> Past_end | c # r \<Rightarrow>
        if c = CHR ''d'' \<or> c = CHR ''f'' then Prints (vecr (FIELD l OP_MASK_VD OP_SH_VD)) r
        else if c = CHR ''e'' then
          Prints (if EXTRACT_BITS l OP_MASK_VWD OP_SH_VWD = 0 then gpr 0
                  else vecr (FIELD l OP_MASK_VD OP_SH_VD)) r
        else if c = CHR ''s'' then Prints (vecr (FIELD l OP_MASK_VS1 OP_SH_VS1)) r
        else if c = CHR ''t'' \<or> c = CHR ''u'' \<or> c = CHR ''v''
          then Prints (vecr (FIELD l OP_MASK_VS2 OP_SH_VS2)) r
        else if c = CHR ''0'' then Prints (vecr 0) r
        else if c = CHR ''b'' then Prints (print_vtype (EXTRACT_RVV_VB_IMM l)) r
        else if c = CHR ''c'' then Prints (print_vtype (EXTRACT_RVV_VC_IMM l)) r
        else if c = CHR ''i'' then Prints (print_text dis_style_immediate (fmt_d (EXTRACT_RVV_VI_IMM l))) r
        else if c = CHR ''j'' then Prints (print_text dis_style_immediate (fmt_d (EXTRACT_RVV_VI_UIMM l))) r
        else if c = CHR ''k'' then Prints (print_text dis_style_immediate (fmt_d (EXTRACT_RVV_OFFSET l))) r
        else if c = CHR ''l'' then Prints (print_text dis_style_immediate (fmt_d (EXTRACT_RVV_VI_UIMM6 l))) r
        else if c = CHR ''m'' then
          Prints (if EXTRACT_BITS l OP_MASK_VMASK OP_SH_VMASK = 0
                  then emit [Styled dis_style_text '','',
                             Styled dis_style_register (riscv_vecm_names_numeric ! 0)]
                  else id) r
        else Skips r)"

text \<open>The constants of \<open>riscv_fli_numval\<close> as \<open>m * 2 ^ e\<close>.\<close>

definition riscv_fli_numval :: "(int \<times> int) list" where
  "riscv_fli_numval =
     [(- 1, 0), (0, 0), (1, - 16), (1, - 15), (1, - 8), (1, - 7), (1, - 4), (1, - 3),
      (1, - 2), (5, - 4), (6, - 4), (7, - 4), (1, - 1), (5, - 3), (6, - 3), (7, - 3),
      (1, 0), (5, - 2), (6, - 2), (7, - 2), (1, 1), (5, - 1), (6, - 1), (1, 2),
      (1, 3), (1, 4), (1, 7), (1, 8), (1, 15), (1, 16), (0, 0), (0, 0)]"

definition print_fli :: "nat \<Rightarrow> dis_info \<Rightarrow> dis_info" where
  "print_fli i =
     (case riscv_fli_symval ! i of
        Some t \<Rightarrow> print_text dis_style_text t
      | None \<Rightarrow> emit [Styled_float dis_style_immediate
                        (fst (riscv_fli_numval ! i)) (snd (riscv_fli_numval ! i))])"

definition print_operand_W :: "insn_t \<Rightarrow> string \<Rightarrow> operand_step" where
  "print_operand_W l s =
     (case s of
        c # d # r \<Rightarrow>
          if c = CHR ''i'' \<and> d = CHR ''f''
            then Prints (print_text dis_style_address_offset (fmt_d (EXTRACT_STYPE_IMM l))) r
          else if c = CHR ''f'' \<and> d = CHR ''v'' then Prints (print_fli (FIELD l OP_MASK_RS1 OP_SH_RS1)) r
          else if c = CHR ''c'' \<and> d = CHR ''b''
            then Prints (print_text dis_style_immediate (fmt_d (EXTRACT_ZCB_BYTE_UIMM l))) r
          else if c = CHR ''c'' \<and> d = CHR ''h''
            then Prints (print_text dis_style_immediate (fmt_d (EXTRACT_ZCB_HALFWORD_UIMM l))) r
          else Undefined_modifier
      | _ \<Rightarrow> Undefined_modifier)"

definition print_th_vtype :: "insn_t \<Rightarrow> dis_info \<Rightarrow> dis_info" where
  "print_th_vtype imm =
     (case th_vtype_text imm of
        Th_text t \<Rightarrow> print_text dis_style_text t
      | Null_string \<Rightarrow> emit [Styled_null dis_style_text]
      | Th_number \<Rightarrow> print_text dis_style_immediate (fmt_d imm))"

text \<open>\<open>XtuN@S\<close> and \<open>XtsN@S\<close>: \<open>N\<close> bits from bit \<open>S\<close> on.\<close>

definition print_operand_Xt_imm :: "bool \<Rightarrow> insn_t \<Rightarrow> string \<Rightarrow> operand_step" where
  "print_operand_Xt_imm is_signed l s =
     (case strtol10 s of (n, u) \<Rightarrow>
        (case u of
           c # r \<Rightarrow>
             if c = CHR ''@''
             then (case strtol10 r of (p, v) \<Rightarrow>
                     Prints (print_text dis_style_immediate
                       (if is_signed then dec_int (sint (RV_X_SIGNED l (nat p) (nat n)))
                        else dec (unat (RV_X l (nat p) (nat n))))) v)
             else Undefined_modifier
         | [] \<Rightarrow> Undefined_modifier))"

definition print_operand_Xt :: "insn_t \<Rightarrow> string \<Rightarrow> operand_step" where
  "print_operand_Xt l s =
     (case s of [] \<Rightarrow> Undefined_modifier | c # r \<Rightarrow>
        if c = CHR ''V''
          then (case r of [] \<Rightarrow> Undefined_modifier | d # r' \<Rightarrow>
                  if d = CHR ''c'' then Prints (print_th_vtype (EXTRACT_RVV_VC_IMM l)) r'
                  else Undefined_modifier)
        else if c = CHR ''l''
          then Prints (emit (map (\<lambda>d. Styled dis_style_immediate [d]) (takeWhile (\<lambda>d. d \<noteq> CHR '','') r)))
                 (dropWhile (\<lambda>d. d \<noteq> CHR '','') r)
        else if c = CHR ''s'' then print_operand_Xt_imm True l r
        else if c = CHR ''u'' then print_operand_Xt_imm False l r
        else Undefined_modifier)"

definition print_operand_Xc :: "insn_t \<Rightarrow> string \<Rightarrow> operand_step" where
  "print_operand_Xc l s =
     (case s of [] \<Rightarrow> Undefined_modifier | c # r \<Rightarrow>
        if c = CHR ''2'' then Prints (print_text dis_style_immediate (fmt_d (EXTRACT_CV_IS2_UIMM5 l))) r
        else if c = CHR ''3'' then Prints (print_text dis_style_immediate (fmt_d (EXTRACT_CV_IS3_UIMM5 l))) r
        else Undefined_modifier)"

definition print_operand_Xs :: "insn_t \<Rightarrow> string \<Rightarrow> operand_step" where
  "print_operand_Xs l s =
     (case s of [] \<Rightarrow> Past_end | c # r \<Rightarrow>
        if c = CHR ''d'' then Prints (print_text dis_style_register (fmt_0x (EXTRACT_BITS l OP_MASK_RD OP_SH_RD))) r
        else if c = CHR ''t'' then Prints (print_text dis_style_register (fmt_0x (EXTRACT_BITS l OP_MASK_RS2 OP_SH_RS2))) r
        else if c = CHR ''O''
          then (case r of [] \<Rightarrow> Past_end | d # r' \<Rightarrow>
                  if d = CHR ''2''
                    then Prints (print_text dis_style_register (fmt_0x (EXTRACT_BITS l OP_MASK_XSO2 OP_SH_XSO2))) r'
                  else if d = CHR ''1''
                    then Prints (print_text dis_style_register (fmt_0x (EXTRACT_BITS l OP_MASK_XSO1 OP_SH_XSO1))) r'
                  else Skips r')
        else Skips r)"

definition print_operand_X :: "insn_t \<Rightarrow> string \<Rightarrow> operand_step" where
  "print_operand_X l s =
     (case s of [] \<Rightarrow> Undefined_modifier | c # r \<Rightarrow>
        if c = CHR ''t'' then print_operand_Xt l r
        else if c = CHR ''c'' then print_operand_Xc l r
        else if c = CHR ''s'' then print_operand_Xs l r
        else Undefined_modifier)"

text \<open>The operand \<open>j\<close>, into which \<open>o\<close> falls through.\<close>

definition print_itype :: "dis_env \<Rightarrow> insn_t \<Rightarrow> dis_info \<Rightarrow> dis_info" where
  "print_itype env l info =
     (let rs1 = FIELD l OP_MASK_RS1 OP_SH_RS1;
          info = (if l AND MASK_ADDI = MATCH_ADDI \<and> rs1 \<noteq> 0 \<or> l AND MASK_JALR = MATCH_JALR
                  then maybe_address rs1 (EXTRACT_ITYPE_IMM l) False info else info);
          info = (if env_mach env = bfd_mach_riscv64 \<and> l AND MASK_ADDIW = MATCH_ADDIW \<and> rs1 \<noteq> 0
                  then maybe_address rs1 (EXTRACT_ITYPE_IMM l) True info else info)
      in print_text dis_style_immediate (fmt_d (EXTRACT_ITYPE_IMM l)) info)"

text \<open>The operand \<open>d\<close>, which remembers the upper parts of addresses.\<close>

definition print_rd :: "bfd_vma \<Rightarrow> insn_t \<Rightarrow> dis_info \<Rightarrow> dis_info" where
  "print_rd pc l info =
     (let rd = FIELD l OP_MASK_RD OP_SH_RD;
          info = (if l AND MASK_AUIPC = MATCH_AUIPC then set_hi_addr rd (pc + EXTRACT_UTYPE_IMM l) info
                  else if l AND MASK_LUI = MATCH_LUI then set_hi_addr rd (EXTRACT_UTYPE_IMM l) info
                  else if l AND MASK_C_LUI = MATCH_C_LUI then set_hi_addr rd (EXTRACT_CITYPE_LUI_IMM l) info
                  else info)
      in gpr rd info)"

text \<open>The operand \<open>E\<close>; the first use without a chosen specification chooses the newest.\<close>

definition print_csr :: "dis_env \<Rightarrow> nat \<Rightarrow> dis_info \<Rightarrow> dis_info" where
  "print_csr env num info =
     (case csr_print_name (env_subset_supports env ''xtheadvector'') (default_priv_spec info) num of
        Some n \<Rightarrow> print_text dis_style_register n
      | None \<Rightarrow> print_text dis_style_immediate (''0x'' @ hex num))
     (info\<lparr>default_priv_spec := dis_priv_spec (default_priv_spec info)\<rparr>)"

definition print_operand :: "dis_env \<Rightarrow> bfd_vma \<Rightarrow> insn_t \<Rightarrow> char \<Rightarrow> string \<Rightarrow> operand_step" where
  "print_operand env pc l c s =
     (let rs1 = FIELD l OP_MASK_RS1 OP_SH_RS1; rd = FIELD l OP_MASK_RD OP_SH_RD
      in if c = CHR ''C'' then print_operand_C env pc l s
         else if c = CHR ''V'' then print_operand_V l s
         else if c = CHR '','' \<or> c = CHR ''('' \<or> c = CHR '')'' \<or> c = CHR ''['' \<or> c = CHR '']''
           then Prints (print_text dis_style_text [c]) s
         else if c = CHR ''0'' then Prints (if s = [] then print_text dis_style_immediate ''0'' else id) s
         else if c = CHR ''s''
           then Prints (\<lambda>info. gpr rs1 (if l AND MASK_JALR = MATCH_JALR
                  then maybe_address rs1 (EXTRACT_ITYPE_IMM l) False info else info)) s
         else if c = CHR ''t'' then Prints (gpr (FIELD l OP_MASK_RS2 OP_SH_RS2)) s
         else if c = CHR ''u''
           then Prints (print_text dis_style_immediate (fmt_0x (shr (take_bit 32 (EXTRACT_UTYPE_IMM l)) 12))) s
         else if c = CHR ''m''
           then Prints (print_text dis_style_text (arg_print (FIELD l OP_MASK_RM OP_SH_RM) riscv_rm)) s
         else if c = CHR ''P''
           then Prints (print_text dis_style_text (arg_print (FIELD l OP_MASK_PRED OP_SH_PRED) riscv_pred_succ)) s
         else if c = CHR ''Q''
           then Prints (print_text dis_style_text (arg_print (FIELD l OP_MASK_SUCC OP_SH_SUCC) riscv_pred_succ)) s
         else if c = CHR ''o''
           then Prints (\<lambda>info. print_itype env l (maybe_address rs1 (EXTRACT_ITYPE_IMM l) False info)) s
         else if c = CHR ''j'' then Prints (print_itype env l) s
         else if c = CHR ''q''
           then Prints (\<lambda>info. print_text dis_style_address_offset (fmt_d (EXTRACT_STYPE_IMM l))
                          (maybe_address rs1 (EXTRACT_STYPE_IMM l) False info)) s
         else if c = CHR ''a'' then Prints (print_target (EXTRACT_JTYPE_IMM l + pc)) s
         else if c = CHR ''p'' then Prints (print_target (EXTRACT_BTYPE_IMM l + pc)) s
         else if c = CHR ''d'' then Prints (print_rd pc l) s
         else if c = CHR ''y'' then Prints (print_text dis_style_immediate (fmt_0x (EXTRACT_BITS l OP_MASK_BS OP_SH_BS))) s
         else if c = CHR ''z'' then Prints (gpr 0) s
         else if c = CHR ''>'' then Prints (print_text dis_style_immediate (fmt_0x (EXTRACT_BITS l OP_MASK_SHAMT OP_SH_SHAMT))) s
         else if c = CHR ''<'' then Prints (print_text dis_style_immediate (fmt_0x (EXTRACT_BITS l OP_MASK_SHAMTW OP_SH_SHAMTW))) s
         else if c = CHR ''S'' \<or> c = CHR ''U'' then Prints (fpr rs1) s
         else if c = CHR ''T'' then Prints (fpr (FIELD l OP_MASK_RS2 OP_SH_RS2)) s
         else if c = CHR ''D'' then Prints (fpr rd) s
         else if c = CHR ''R'' then Prints (fpr (FIELD l OP_MASK_RS3 OP_SH_RS3)) s
         else if c = CHR ''E'' then Prints (print_csr env (FIELD l OP_MASK_CSR OP_SH_CSR)) s
         else if c = CHR ''Y'' then Prints (print_text dis_style_immediate (fmt_0x (EXTRACT_BITS l OP_MASK_RNUM OP_SH_RNUM))) s
         else if c = CHR ''Z'' then Prints (print_text dis_style_immediate (dec rs1)) s
         else if c = CHR ''W'' then print_operand_W l s
         else if c = CHR ''X'' then print_operand_X l s
         else Undefined_modifier)"

section \<open>The loop over the operand string\<close>

lemma strtol10_length: "length (snd (strtol10 s)) \<le> length s"
proof -
  have a: "length (dropWhile ISDIGIT u) \<le> length u" for u by (rule length_dropWhile_le)
  have b: "length (dropWhile ISSPACE s) \<le> length s" by (rule length_dropWhile_le)
  show ?thesis
    using a [of "tl (dropWhile ISSPACE s)"] a [of "dropWhile ISSPACE s"] b
    by (auto simp: strtol10_def Let_def)
qed

definition step_rest :: "operand_step \<Rightarrow> string option" where
  "step_rest st = (case st of Prints f r \<Rightarrow> Some r | Skips r \<Rightarrow> Some r | _ \<Rightarrow> None)"

lemma print_operand_Xt_length: "step_rest (print_operand_Xt l s) = Some r \<Longrightarrow> length r \<le> length s"
  using strtol10_length [of "tl s"] strtol10_length [of "tl (snd (strtol10 (tl s)))"]
    length_dropWhile_le [of "\<lambda>d. d \<noteq> CHR '',''" "tl s"]
  by (auto simp: print_operand_Xt_def print_operand_Xt_imm_def step_rest_def
      split: list.splits if_splits prod.splits)

lemma print_operand_X_length: "step_rest (print_operand_X l s) = Some r \<Longrightarrow> length r \<le> length s"
  using print_operand_Xt_length [of l "tl s" r]
  by (auto simp: print_operand_X_def print_operand_Xc_def print_operand_Xs_def step_rest_def
      split: list.splits if_splits)

lemma print_operand_C_length: "step_rest (print_operand_C env pc l s) = Some r \<Longrightarrow> length r \<le> length s"
  by (auto simp: print_operand_C_def step_rest_def Let_def split: list.splits if_splits)

lemma print_operand_V_length: "step_rest (print_operand_V l s) = Some r \<Longrightarrow> length r \<le> length s"
  by (auto simp: print_operand_V_def step_rest_def split: list.splits if_splits)

lemma print_operand_W_length: "step_rest (print_operand_W l s) = Some r \<Longrightarrow> length r \<le> length s"
  by (auto simp: print_operand_W_def step_rest_def split: list.splits if_splits)

lemma print_operand_length: "step_rest (print_operand env pc l c s) = Some r \<Longrightarrow> length r \<le> length s"
  unfolding print_operand_def Let_def
  by (auto simp: step_rest_def [of "Prints _ _"] step_rest_def [of Undefined_modifier]
      dest: print_operand_C_length print_operand_V_length print_operand_W_length print_operand_X_length
      split: if_splits)

text \<open>
  The loop: \<open>Inr\<close> is a normal end, \<open>Internal_error\<close> the return behind the message about an undefined
  modifier, \<open>Ran_past_end\<close> the read behind the string.
\<close>

datatype print_error = Internal_error dis_info | Ran_past_end

function print_args :: "dis_env \<Rightarrow> bfd_vma \<Rightarrow> insn_t \<Rightarrow> string \<Rightarrow> dis_info \<Rightarrow> print_error + dis_info" where
  "print_args env pc l [] info = Inr info"
| "print_args env pc l (c # s) info =
     (case print_operand env pc l c s of
        Prints f r \<Rightarrow> print_args env pc l r (f info)
      | Skips r \<Rightarrow> print_args env pc l r info
      | Undefined_modifier \<Rightarrow>
          Inl (Internal_error (print_text dis_style_text
            (''# internal error, undefined modifier ('' @ [c] @ '')'') info))
      | Past_end \<Rightarrow> Inl Ran_past_end)"
  by pat_completeness auto
termination
proof (relation "measure (\<lambda>(_, _, _, s, _). length s)")
  fix env pc l c s info f r
  assume "print_operand env pc l c s = Prints f r"
  then show "((env, pc, l, r, f info), env, pc, l, c # s, info) \<in> measure (\<lambda>(_, _, _, s, _). length s)"
    using print_operand_length [of env pc l c s r] by (simp add: step_rest_def le_imp_less_Suc)
next
  fix env pc l c s info r
  assume "print_operand env pc l c s = Skips r"
  then show "((env, pc, l, r, info), env, pc, l, c # s, info) \<in> measure (\<lambda>(_, _, _, s, _). length s)"
    using print_operand_length [of env pc l c s r] by (simp add: step_rest_def le_imp_less_Suc)
qed simp

definition print_insn_args :: "dis_env \<Rightarrow> string \<Rightarrow> insn_t \<Rightarrow> bfd_vma \<Rightarrow> dis_info \<Rightarrow> print_error + dis_info" where
  "print_insn_args env oparg l pc info =
     print_args env pc l oparg (if oparg \<noteq> [] then print_text dis_style_text [char_of (9 :: nat)] info else info)"

section \<open>One instruction\<close>

text \<open>\<open>bfd_get_bits (p, bits, false)\<close>: little endian, in a 64-bit accumulator.\<close>

definition bfd_get_bits :: "bfd_byte list \<Rightarrow> nat \<Rightarrow> insn_t" where
  "bfd_get_bits p bits = fold (\<lambda>b data. shl data 8 OR ucast b) (rev (take (bits div 8) p)) 0"

text \<open>\<open>%04x\<close>.\<close>

definition hex4 :: "nat \<Rightarrow> string" where
  "hex4 n = replicate (4 - length (hex n)) (CHR ''0'') @ hex n"

text \<open>The parcels of the \<open>.insn\<close> directive, the last one first; \<open>k\<close> counts the parcels left.\<close>

fun insn_parcels :: "bfd_byte list \<Rightarrow> nat \<Rightarrow> bool \<Rightarrow> dis_item list" where
  "insn_parcels packet 0 any = []"
| "insn_parcels packet (Suc k) any =
     (let word = bfd_get_bits (drop (2 * k) packet) 16
      in if word = 0 \<and> \<not> any then insn_parcels packet k any
         else Styled dis_style_immediate (hex4 (unat (take_bit 32 word))) # insn_parcels packet k True)"

definition insn_directive :: "nat \<Rightarrow> bfd_byte list \<Rightarrow> dis_item list" where
  "insn_directive insnlen packet =
     [Styled dis_style_assembler_directive ''.insn'', Styled dis_style_text [char_of (9 :: nat)],
      Styled dis_style_immediate (dec insnlen), Styled dis_style_text '', '',
      Styled dis_style_immediate ''0x''] @ insn_parcels packet (insnlen div 2) False"

text \<open>The fields of \<open>disassemble_info\<close> that are reset for each instruction.\<close>

definition reset_info :: "nat \<Rightarrow> dis_info \<Rightarrow> dis_info" where
  "reset_info insnlen info =
     info\<lparr>info_bytes_per_chunk := (if insnlen mod 4 = 0 then 4 else 2), info_data_size := 0,
          info_insn_type := dis_nonbranch, info_target := 0, info_target2 := 0\<rparr>"

definition set_xlen :: "dis_env \<Rightarrow> dis_info \<Rightarrow> dis_info" where
  "set_xlen env info =
     (case env_mach env of
        bfd_mach_riscv64 \<Rightarrow> info\<lparr>dis_xlen := 64\<rparr>
      | bfd_mach_riscv32 \<Rightarrow> info\<lparr>dis_xlen := 32\<rparr>
      | bfd_mach_other \<Rightarrow>
          (case env_elf64 env of
             None \<Rightarrow> info
           | Some b \<Rightarrow> info\<lparr>dis_xlen := (if b then 64 else 32)\<rparr>))"

definition set_fpr_names :: "dis_env \<Rightarrow> dis_info \<Rightarrow> dis_info" where
  "set_fpr_names env info =
     info\<lparr>dis_fpr_names :=
       (if env_subset_supports env ''zfinx'' then dis_gpr_names info
        else if dis_gpr_names info = riscv_gpr_names_abi then riscv_fpr_names_abi
        else riscv_fpr_names_numeric)\<rparr>"

text \<open>Behind the operands: the address comment and the description of the instruction.\<close>

definition finish_insn :: "riscv_opcode \<Rightarrow> dis_info \<Rightarrow> dis_info" where
  "finish_insn op info =
     (let pd = private_data info;
          info = (if pd_to_print_addr pd
                  then (print_target (pd_print_addr pd) (print_text dis_style_comment_start '' # '' info))
                         \<lparr>private_data := pd\<lparr>pd_to_print_addr := False\<rparr>\<rparr>
                  else info)
      in info\<lparr>info_insn_type := dis_type_of (op_pinfo op), info_data_size := dis_data_size (op_pinfo op)\<rparr>)"

datatype dis_failure = Search_crash dis_crash | Args_past_end

text \<open>
  The length and the new state.  The scan of the table is \<open>riscv_search_insn\<close>; an undefined modifier
  ends the operands and nothing else.  \<open>xlen\<close> and the register names are only set when the bucket
  has an entry, but without one nothing reads them.
\<close>

definition riscv_disassemble_insn ::
    "dis_env \<Rightarrow> bfd_vma \<Rightarrow> insn_t \<Rightarrow> bfd_byte list \<Rightarrow> dis_info \<Rightarrow> dis_failure + (nat \<times> dis_info)" where
  "riscv_disassemble_insn env memaddr word packet info =
     (let insnlen = riscv_insn_length word;
          info = reset_info insnlen info;
          info = (if riscv_hash riscv_opcodes ! unat (OP_HASH_IDX word) \<noteq> None
                  then set_fpr_names env (set_xlen env info) else info)
      in case riscv_search_insn (dis_no_aliases info) (dis_xlen info) (env_multi_subset_supports env) word of
           Inl e \<Rightarrow> Inl (Search_crash e)
         | Inr (Some op) \<Rightarrow>
             (case print_insn_args env (op_args op) word memaddr
                     (print_text dis_style_mnemonic (op_name op) info) of
                Inr info' \<Rightarrow> Inr (insnlen, finish_insn op info')
              | Inl (Internal_error info') \<Rightarrow> Inr (insnlen, finish_insn op info')
              | Inl Ran_past_end \<Rightarrow> Inl Args_past_end)
         | Inr None \<Rightarrow>
             Inr (insnlen, emit (insn_directive insnlen packet) (info\<lparr>info_insn_type := dis_noninsn\<rparr>)))"

end
