(* ===== verification/RV_Map.thy ===== *)
theory RV_Map
  imports RV_Print RV_Supports
begin

text \<open>
  The entry point of the disassembler, from \<^verbatim>\<open>opcodes/riscv-dis.c\<close>: the search for the mapping symbol
  that says whether an address holds code or data, with the static variables it keeps between calls,
  the dump of data, the options, and \<open>print_insn_riscv\<close>, which chooses.  Symbols and sections are
  records of the fields the code reads; memory is read through a function of the record.
\<close>

section \<open>Symbols, sections and the search's own state\<close>

datatype riscv_seg_mstate = MAP_NONE | MAP_DATA | MAP_INSN

record asymbol =
  sym_name :: string
  sym_value :: bfd_vma
  sym_section :: nat

record asection =
  sec_id :: nat
  sec_vma :: bfd_vma
  sec_size :: bfd_vma
  sec_code :: bool

text \<open>The fields of \<open>disassemble_info\<close> the search reads; \<open>mi_elf\<close> is the flavour of the first symbol.\<close>

record map_info =
  mi_section :: "asection option"
  mi_symtab :: "asymbol list"
  mi_elf :: bool
  mi_symtab_pos :: int
  mi_stop_offset :: bfd_vma

record map_state =
  last_map_symbol :: int
  last_stop_offset :: bfd_vma
  last_map_symbol_boundary :: bfd_vma
  last_map_state :: riscv_seg_mstate
  last_map_section :: "nat option"
  riscv_rps_dis :: riscv_parse_subset_t

section \<open>Mapping symbols\<close>

definition riscv_elf_is_mapping_symbols :: "string \<Rightarrow> bool" where
  "riscv_elf_is_mapping_symbols name \<longleftrightarrow>
     name = ''$d'' \<or> name = ''$x'' \<or> startswith name ''$xrv''"

definition other_section :: "map_info \<Rightarrow> asymbol \<Rightarrow> bool" where
  "other_section info s \<longleftrightarrow>
     (case mi_section info of None \<Rightarrow> False | Some sec \<Rightarrow> sec_id sec \<noteq> sym_section s)"

definition riscv_is_valid_mapping_symbol :: "map_info \<Rightarrow> asymbol \<Rightarrow> bool" where
  "riscv_is_valid_mapping_symbol info s \<longleftrightarrow>
     \<not> other_section info s \<and> riscv_elf_is_mapping_symbols (sym_name s)"

text \<open>The ISA string of a symbol \<open>$xrv...\<close>, without a numbering suffix.\<close>

definition map_isa_string :: "string \<Rightarrow> string" where
  "map_isa_string name = drop 2 (takeWhile (\<lambda>c. c \<noteq> CHR ''.'') name)"

text \<open>\<open>None\<close> is undefined behaviour of the parser.\<close>

definition riscv_update_map_state ::
    "map_info \<Rightarrow> asymbol \<Rightarrow> riscv_seg_mstate \<times> riscv_parse_subset_t
     \<Rightarrow> (riscv_seg_mstate \<times> riscv_parse_subset_t) option" where
  "riscv_update_map_state info s =
     (\<lambda>(state, rps).
        if other_section info s then Some (state, rps)
        else if sym_name s = ''$x'' then Some (MAP_INSN, rps)
        else if sym_name s = ''$d'' then Some (MAP_DATA, rps)
        else if startswith (sym_name s) ''$xrv''
        then map_option (\<lambda>(rps', _). (MAP_INSN, rps'))
               (riscv_parse_subset
                  (rps\<lparr>rps_subset_list := riscv_release_subset_list (rps_subset_list rps)\<rparr>)
                  (Some (map_isa_string (sym_name s))))
        else Some (state, rps))"

text \<open>The scan forwards from position \<open>n\<close>: the last mapping symbol not above the address.\<close>

fun scan_forwards :: "map_info \<Rightarrow> bfd_vma \<Rightarrow> nat \<Rightarrow> asymbol list \<Rightarrow> nat option \<Rightarrow> nat option" where
  "scan_forwards info memaddr n [] symbol = symbol"
| "scan_forwards info memaddr n (s # ss) symbol =
     (if memaddr < sym_value s then symbol
      else scan_forwards info memaddr (Suc n) ss
             (if riscv_is_valid_mapping_symbol info s then Some n else symbol))"

text \<open>The scan backwards over the positions below \<open>n\<close>, not past the start of the section.\<close>

fun scan_backwards :: "map_info \<Rightarrow> nat \<Rightarrow> nat option" where
  "scan_backwards info 0 = None"
| "scan_backwards info (Suc n) =
     (let s = mi_symtab info ! n;
          start = (case mi_section info of None \<Rightarrow> 0 | Some sec \<Rightarrow> sec_vma sec)
      in if sym_value s < start then None
         else if riscv_is_valid_mapping_symbol info s then Some n
         else scan_backwards info n)"

text \<open>The next symbol of the same section whose name begins like a mapping symbol.\<close>

definition ends_range :: "nat \<Rightarrow> asymbol \<Rightarrow> bool" where
  "ends_range sec s \<longleftrightarrow> sym_section s = sec \<and> c_char (sym_name s) 0 = CHR ''$'' \<and>
     (c_char (sym_name s) 1 = CHR ''x'' \<or> c_char (sym_name s) 1 = CHR ''d'')"

text \<open>The boundary; \<open>None\<close> is the access through a null section.\<close>

definition map_boundary :: "map_info \<Rightarrow> nat \<Rightarrow> bfd_vma option" where
  "map_boundary info symbol =
     (case find (ends_range (sym_section (mi_symtab info ! symbol))) (drop (Suc symbol) (mi_symtab info)) of
        Some s \<Rightarrow> Some (sym_value s)
      | None \<Rightarrow> map_option (\<lambda>sec. sec_vma sec + sec_size sec) (mi_section info))"

definition default_mstate :: "map_info \<Rightarrow> riscv_seg_mstate" where
  "default_mstate info =
     (case mi_section info of
        None \<Rightarrow> MAP_INSN
      | Some sec \<Rightarrow> if sec_code sec then MAP_INSN else MAP_DATA)"

text \<open>The symbol found by the two scans, from the positions \<open>n\<close> and \<open>m\<close> on.\<close>

definition map_symbol :: "map_info \<Rightarrow> bfd_vma \<Rightarrow> int \<Rightarrow> int \<Rightarrow> nat option" where
  "map_symbol info memaddr n m =
     (case scan_forwards info memaddr (nat n) (drop (nat n) (mi_symtab info)) None of
        Some k \<Rightarrow> Some k
      | None \<Rightarrow> scan_backwards info (nat (m + 1)))"

text \<open>\<open>None\<close> is an access outside of the symbol table or through a null section.\<close>

definition riscv_search_mapping_symbol ::
    "map_info \<Rightarrow> bfd_vma \<Rightarrow> map_state \<Rightarrow> (riscv_seg_mstate \<times> map_state) option" where
  "riscv_search_mapping_symbol info memaddr st =
     (if last_map_section st = map_option sec_id (mi_section info) \<and>
         memaddr < last_map_symbol_boundary st
      then Some (last_map_state st, st)
      else
        let st = st\<lparr>last_map_section := map_option sec_id (mi_section info)\<rparr>;
            mstate = default_mstate info
        in if mi_symtab info = [] \<or> \<not> mi_elf info then Some (mstate, st)
           else
             let old = (if memaddr = 0 then - 1 else last_map_symbol st);
                 from_last_map_symbol = (0 \<le> old \<and> mi_stop_offset info = last_stop_offset st);
                 n = mi_symtab_pos info + 1;
                 n = (if from_last_map_symbol \<and> old \<le> n then old else n);
                 m = mi_symtab_pos info;
                 m = (if from_last_map_symbol \<and> old \<le> m then old else m)
             in if n < 0 \<or> int (length (mi_symtab info)) \<le> m then None
                else case map_symbol info memaddr n m of
                       None \<Rightarrow>
                         Some (mstate, st\<lparr>last_map_symbol := - 1, last_stop_offset := mi_stop_offset info\<rparr>)
                     | Some symbol \<Rightarrow> do {
                         (mstate, rps) \<leftarrow> riscv_update_map_state info (mi_symtab info ! symbol)
                                            (mstate, riscv_rps_dis st);
                         boundary \<leftarrow> map_boundary info symbol;
                         Some (mstate, st\<lparr>last_map_symbol_boundary := boundary, riscv_rps_dis := rps,
                           last_map_symbol := int symbol, last_stop_offset := mi_stop_offset info\<rparr>)
                       })"

section \<open>Data\<close>

text \<open>The distance to the next mapping symbol above the address.\<close>

definition next_mapping_symbol :: "map_info \<Rightarrow> bfd_vma \<Rightarrow> int \<Rightarrow> asymbol option" where
  "next_mapping_symbol info memaddr k =
     find (\<lambda>s. memaddr < sym_value s \<and> riscv_is_valid_mapping_symbol info s)
       (drop (nat (k + 1)) (mi_symtab info))"

text \<open>\<open>riscv_update_map_state\<close> is called for its effect on the list of extensions only.\<close>

definition riscv_data_length ::
    "map_info \<Rightarrow> bfd_vma \<Rightarrow> map_state \<Rightarrow> (bfd_vma \<times> map_state) option" where
  "riscv_data_length info memaddr st = do {
     (len, st) \<leftarrow>
       (case (if mi_symtab info \<noteq> [] \<and> mi_elf info \<and> 0 \<le> last_map_symbol st
              then next_mapping_symbol info memaddr (last_map_symbol st) else None) of
          Some s \<Rightarrow> do {
            (_, rps) \<leftarrow> riscv_update_map_state info s (MAP_NONE, riscv_rps_dis st);
            Some (min 4 (sym_value s - memaddr), st\<lparr>riscv_rps_dis := rps\<rparr>)
          }
        | None \<Rightarrow>
            (case mi_section info of
               None \<Rightarrow> None
             | Some sec \<Rightarrow> Some (min 4 (sec_vma sec + sec_size sec - memaddr), st)));
     Some (if len = 3 then 2 else len, st)
   }"

text \<open>\<open>None\<close> is the call of \<open>abort\<close>.\<close>

definition hex_width :: "nat \<Rightarrow> nat \<Rightarrow> string" where
  "hex_width w n = replicate (w - length (hex n)) (CHR ''0'') @ hex n"

definition riscv_disassemble_data :: "insn_t \<Rightarrow> dis_info \<Rightarrow> (nat \<times> dis_info) option" where
  "riscv_disassemble_data data info =
     map_option (\<lambda>(directive, digits, value).
         (info_bytes_per_chunk info,
          emit [Styled dis_style_assembler_directive directive, Styled dis_style_text [char_of (9 :: nat)],
                Styled dis_style_immediate (''0x'' @ hex_width digits value)] info))
       (if info_bytes_per_chunk info = 1 then Some (''.byte'', 2, unat (take_bit 32 data))
        else if info_bytes_per_chunk info = 2 then Some (''.short'', 4, unat (take_bit 32 data))
        else if info_bytes_per_chunk info = 4 then Some (''.word'', 8, unat data)
        else if info_bytes_per_chunk info = 8 then Some (''.dword'', 16, unat data)
        else None)"

section \<open>Options\<close>

datatype option_error =
    Unrecognized_option string
  | Unrecognized_option_with_equals string
  | Unknown_priv_spec string
  | Mismatched_priv_spec string "string option"

definition set_default_riscv_dis_options :: "dis_info \<Rightarrow> dis_info" where
  "set_default_riscv_dis_options info =
     info\<lparr>dis_gpr_names := riscv_gpr_names_abi, dis_fpr_names := riscv_fpr_names_abi,
          dis_no_aliases := False\<rparr>"

definition parse_riscv_dis_option_without_args :: "string \<Rightarrow> dis_info \<Rightarrow> dis_info option" where
  "parse_riscv_dis_option_without_args opt info =
     (if opt = ''no-aliases'' then Some (info\<lparr>dis_no_aliases := True\<rparr>)
      else if opt = ''numeric''
      then Some (info\<lparr>dis_gpr_names := riscv_gpr_names_numeric, dis_fpr_names := riscv_fpr_names_numeric\<rparr>)
      else None)"

text \<open>\<open>RISCV_GET_PRIV_SPEC_CLASS\<close>, which leaves the variable alone for an unknown name.\<close>

definition RISCV_GET_PRIV_SPEC_CLASS :: "string \<Rightarrow> riscv_spec_class \<Rightarrow> riscv_spec_class" where
  "RISCV_GET_PRIV_SPEC_CLASS name c =
     (case map_of riscv_priv_specs name of Some c' \<Rightarrow> c' | None \<Rightarrow> c)"

definition parse_riscv_dis_option :: "string \<Rightarrow> dis_info \<Rightarrow> option_error list \<times> dis_info" where
  "parse_riscv_dis_option opt info =
     (case parse_riscv_dis_option_without_args opt info of
        Some info' \<Rightarrow> ([], info')
      | None \<Rightarrow>
          let name = takeWhile (\<lambda>c. c \<noteq> CHR ''='') opt;
              equal = dropWhile (\<lambda>c. c \<noteq> CHR ''='') opt
          in if equal = [] then ([Unrecognized_option opt], info)
             else if name = [] \<or> tl equal = [] then ([Unrecognized_option_with_equals opt], info)
             else if name = ''priv-spec'' then
               let value = tl equal; spec = RISCV_GET_PRIV_SPEC_CLASS value PRIV_SPEC_CLASS_NONE
               in if spec = PRIV_SPEC_CLASS_NONE then ([Unknown_priv_spec value], info)
                  else if default_priv_spec info = PRIV_SPEC_CLASS_NONE
                  then ([], info\<lparr>default_priv_spec := spec\<rparr>)
                  else if default_priv_spec info \<noteq> spec
                  then ([Mismatched_priv_spec value (priv_spec_name (default_priv_spec info))], info)
                  else ([], info)
             else ([Unrecognized_option name], info))"

text \<open>The loop over the commas.\<close>

function parse_options_from :: "string \<Rightarrow> dis_info \<Rightarrow> option_error list \<times> dis_info" where
  "parse_options_from opts info =
     (let opt = takeWhile (\<lambda>c. c \<noteq> CHR '','') opts;
          rest = dropWhile (\<lambda>c. c \<noteq> CHR '','') opts;
          (es, info') = parse_riscv_dis_option opt info
      in if rest = [] then (es, info')
         else (let (es', info'') = parse_options_from (tl rest) info' in (es @ es', info'')))"
  by pat_completeness auto
termination
proof (relation "measure (\<lambda>(opts, _). length opts)")
  fix opts :: string and info :: dis_info and opt rest x es info'
  assume "rest = dropWhile (\<lambda>c. c \<noteq> CHR '','') opts" "rest \<noteq> []"
  then show "((tl rest, info'), opts, info) \<in> measure (\<lambda>(opts, _). length opts)"
    using length_dropWhile_le [of "\<lambda>c. c \<noteq> CHR '',''" opts] length_greater_0_conv [of rest]
    by (auto simp del: length_greater_0_conv)
qed simp

declare parse_options_from.simps [simp del]

definition parse_riscv_dis_options :: "string \<Rightarrow> dis_info \<Rightarrow> option_error list \<times> dis_info" where
  "parse_riscv_dis_options opts info = parse_options_from opts (set_default_riscv_dis_options info)"

section \<open>Starting the disassembler\<close>

text \<open>The last global pointer symbol of the table counts.\<close>

definition riscv_init_disasm_info :: "asymbol list \<Rightarrow> riscv_private_data" where
  "riscv_init_disasm_info symtab =
     fold (\<lambda>s pd. if sym_name s = ''__global_pointer$''
                  then pd\<lparr>pd_gp := sym_value s, pd_has_gp := True\<rparr> else pd) symtab
       \<lparr>pd_gp = 0, pd_print_addr = 0, pd_hi_addr = replicate 32 (- 1), pd_to_print_addr = False,
        pd_has_gp = False\<rparr>"

text \<open>The privileged specification of the three attribute numbers; an unknown one changes nothing.\<close>

definition riscv_get_priv_spec_class_from_numbers ::
    "nat \<Rightarrow> nat \<Rightarrow> nat \<Rightarrow> riscv_spec_class \<Rightarrow> riscv_spec_class" where
  "riscv_get_priv_spec_class_from_numbers major minor revision c =
     (let buf = (if revision \<noteq> 0 then dec major @ ''.'' @ dec minor @ ''.'' @ dec revision
                 else dec major @ ''.'' @ dec minor)
      in RISCV_GET_PRIV_SPEC_CLASS buf c)"

text \<open>
  The attributes \<open>Tag_RISCV_priv_spec\<close>, \<open>Tag_RISCV_priv_spec_minor\<close>, \<open>Tag_RISCV_priv_spec_revision\<close>
  and \<open>Tag_RISCV_arch\<close>, whose string may be missing; the whole is \<open>None\<close> when the file is no ELF file or
  has no section for them.
\<close>

record riscv_attributes =
  attr_priv_spec :: nat
  attr_priv_spec_minor :: nat
  attr_priv_spec_revision :: nat
  attr_arch :: "string option"

definition riscv_get_disassembler ::
    "riscv_attributes option \<Rightarrow> riscv_spec_class \<Rightarrow> riscv_parse_subset_t
     \<Rightarrow> (riscv_spec_class \<times> riscv_parse_subset_t) option" where
  "riscv_get_disassembler attrs priv rps =
     (let (priv', default_arch) =
            (case attrs of
               None \<Rightarrow> (priv, Some ''rv64gc'')
             | Some a \<Rightarrow>
                 (riscv_get_priv_spec_class_from_numbers (attr_priv_spec a) (attr_priv_spec_minor a)
                    (attr_priv_spec_revision a) priv, attr_arch a))
      in map_option (\<lambda>(rps', _). (priv', rps'))
           (riscv_parse_subset
              (rps\<lparr>rps_subset_list := riscv_release_subset_list (rps_subset_list rps)\<rparr>) default_arch))"

definition RISCV_FAKE_LABEL_NAME :: string where
  "RISCV_FAKE_LABEL_NAME = ''.L0 ''"

definition riscv_symbol_is_valid :: "asymbol option \<Rightarrow> bool" where
  "riscv_symbol_is_valid s =
     (case s of
        None \<Rightarrow> False
      | Some s \<Rightarrow> sym_name s \<noteq> RISCV_FAKE_LABEL_NAME \<and> \<not> riscv_elf_is_mapping_symbols (sym_name s))"

section \<open>The entry point\<close>

text \<open>
  \<open>read_memory_func\<close>, the machine and the flag \<open>DISASSEMBLE_DATA\<close>.  The features are those of the list
  of extensions, which mapping symbols may have replaced.
\<close>

record dis_host =
  host_read :: "bfd_vma \<Rightarrow> nat \<Rightarrow> bfd_byte list option"
  host_mach :: bfd_mach
  host_elf64 :: "bool option"
  host_disassemble_data :: bool

definition env_of :: "dis_host \<Rightarrow> riscv_parse_subset_t \<Rightarrow> dis_env" where
  "env_of host rps =
     \<lparr>env_mach = host_mach host, env_elf64 = host_elf64 host, env_subset_supports = has_feature rps,
      env_multi_subset_supports = (\<lambda>c. snd (riscv_multi_subset_supports rps c))\<rparr>"

text \<open>
  What lives from call to call: the options not yet parsed, whether \<open>private_data\<close> is still null,
  the description of the instruction, the state of the search, and the messages.  An empty list of
  register names is the null pointer \<open>riscv_gpr_names\<close> starts with.
\<close>

datatype dis_report = Option_report option_error | Memory_report bfd_vma

record dis_state =
  ds_options :: "string option"
  ds_private_null :: bool
  ds_info :: dis_info
  ds_map :: map_state
  ds_reports :: "dis_report list"

definition dis_prepare :: "map_info \<Rightarrow> dis_state \<Rightarrow> dis_state" where
  "dis_prepare mi ds =
     (let ds = (case ds_options ds of
                  Some opts \<Rightarrow>
                    (let (es, info) = parse_riscv_dis_options opts (ds_info ds)
                     in ds\<lparr>ds_options := None, ds_info := info,
                           ds_reports := ds_reports ds @ map Option_report es\<rparr>)
                | None \<Rightarrow>
                    if dis_gpr_names (ds_info ds) = []
                    then ds\<lparr>ds_info := set_default_riscv_dis_options (ds_info ds)\<rparr> else ds)
      in if ds_private_null ds
         then ds\<lparr>ds_private_null := False,
                 ds_info := (ds_info ds)\<lparr>private_data := riscv_init_disasm_info (mi_symtab mi)\<rparr>\<rparr>
         else ds)"

text \<open>\<open>xlen\<close> is one variable, which the parser of ISA strings reaches through \<open>riscv_rps_dis\<close>.\<close>

definition share_xlen :: "dis_state \<Rightarrow> dis_state" where
  "share_xlen ds =
     ds\<lparr>ds_map := (ds_map ds)\<lparr>riscv_rps_dis := (riscv_rps_dis (ds_map ds))\<lparr>rps_xlen := dis_xlen (ds_info ds)\<rparr>\<rparr>\<rparr>"

definition set_map_state :: "map_state \<Rightarrow> dis_state \<Rightarrow> dis_state" where
  "set_map_state st ds =
     ds\<lparr>ds_map := st, ds_info := (ds_info ds)\<lparr>dis_xlen := rps_xlen (riscv_rps_dis st)\<rparr>\<rparr>"

definition memory_error_func :: "bfd_vma \<Rightarrow> dis_state \<Rightarrow> int \<times> dis_state" where
  "memory_error_func memaddr ds = (- 1, ds\<lparr>ds_reports := ds_reports ds @ [Memory_report memaddr]\<rparr>)"

text \<open>The rest of the function for data and for code; \<open>None\<close> is a crash.\<close>

definition dump_data :: "dis_host \<Rightarrow> map_info \<Rightarrow> bfd_vma \<Rightarrow> dis_state \<Rightarrow> (int \<times> dis_state) option" where
  "dump_data host mi memaddr ds = do {
     (dump_size, st) \<leftarrow> riscv_data_length mi memaddr (ds_map ds);
     let ds = set_map_state st ds;
     let ds = ds\<lparr>ds_info := (ds_info ds)\<lparr>info_bytes_per_chunk := unat dump_size\<rparr>\<rparr>;
     case host_read host memaddr (unat dump_size) of
       None \<Rightarrow> Some (memory_error_func memaddr ds)
     | Some packet \<Rightarrow> do {
         (len, info) \<leftarrow> riscv_disassemble_data (bfd_get_bits packet (unat dump_size * 8)) (ds_info ds);
         Some (int len, ds\<lparr>ds_info := info\<rparr>)
       }
   }"

definition dump_insn :: "dis_host \<Rightarrow> bfd_vma \<Rightarrow> dis_state \<Rightarrow> (int \<times> dis_state) option" where
  "dump_insn host memaddr ds =
     (case host_read host memaddr 2 of
        None \<Rightarrow> Some (memory_error_func memaddr ds)
      | Some first \<Rightarrow>
          (let dump_size = riscv_insn_length (bfd_get_bits first 16)
           in case host_read host memaddr dump_size of
                None \<Rightarrow> Some (memory_error_func memaddr ds)
              | Some packet \<Rightarrow>
                  (case riscv_disassemble_insn (env_of host (riscv_rps_dis (ds_map ds))) memaddr
                          (bfd_get_bits packet (dump_size * 8)) packet (ds_info ds) of
                     Inl _ \<Rightarrow> None
                   | Inr (len, info) \<Rightarrow> Some (int len, share_xlen (ds\<lparr>ds_info := info\<rparr>)))))"

definition print_insn_riscv ::
    "dis_host \<Rightarrow> map_info \<Rightarrow> bfd_vma \<Rightarrow> dis_state \<Rightarrow> (int \<times> dis_state) option" where
  "print_insn_riscv host mi memaddr ds = do {
     let ds = share_xlen (dis_prepare mi ds);
     (mstate, st) \<leftarrow> riscv_search_mapping_symbol mi memaddr (ds_map ds);
     let ds = set_map_state (st\<lparr>last_map_state := mstate\<rparr>) ds;
     if mstate = MAP_DATA \<and> \<not> host_disassemble_data host
     then dump_data host mi memaddr ds
     else dump_insn host memaddr ds
   }"

end
