(* ===== verification/RV_Map_Laws.thy ===== *)
theory RV_Map_Laws
  imports RV_Map
begin

text \<open>
  The cached search for mapping symbols against its specification: on a dump that goes forwards through
  a section it returns the state of the last mapping symbol at or below the address.
\<close>

section \<open>The specification of the search\<close>

definition mapping_symbol_of :: "asection \<Rightarrow> asymbol \<Rightarrow> bool" where
  "mapping_symbol_of sec s \<longleftrightarrow> sym_section s = sec_id sec \<and> riscv_elf_is_mapping_symbols (sym_name s)"

definition symbol_mstate :: "asymbol \<Rightarrow> riscv_seg_mstate" where
  "symbol_mstate s = (if sym_name s = ''$d'' then MAP_DATA else MAP_INSN)"

text \<open>The state of the last mapping symbol of the section at or below the address.\<close>

definition map_state_at :: "asection \<Rightarrow> asymbol list \<Rightarrow> bfd_vma \<Rightarrow> riscv_seg_mstate" where
  "map_state_at sec tab a =
     (let ss = filter (\<lambda>s. mapping_symbol_of sec s \<and> sym_value s \<le> a) tab
      in if ss = [] then (if sec_code sec then MAP_INSN else MAP_DATA) else symbol_mstate (last ss))"

text \<open>The parser is defined on the ISA strings of the mapping symbols.\<close>

definition isa_string_defined :: "string \<Rightarrow> bool" where
  "isa_string_defined name \<longleftrightarrow>
     (\<forall>rps. riscv_parse_subset (rps\<lparr>rps_subset_list := riscv_release_subset_list (rps_subset_list rps)\<rparr>)
              (Some (map_isa_string name)) \<noteq> None)"

text \<open>A sorted symbol table, with no symbol of the section below its start.\<close>

definition tab_ok :: "asection \<Rightarrow> asymbol list \<Rightarrow> bool" where
  "tab_ok sec tab \<longleftrightarrow>
     sorted (map sym_value tab) \<and>
     (\<forall>s\<in>set tab. sym_section s = sec_id sec \<longrightarrow> sec_vma sec \<le> sym_value s) \<and>
     (\<forall>s\<in>set tab. startswith (sym_name s) ''$xrv'' \<longrightarrow> isa_string_defined (sym_name s))"

text \<open>A query: \<open>symtab_pos\<close> is negative or the position of a symbol at or below the address.\<close>

definition query_ok :: "asection \<Rightarrow> asymbol list \<Rightarrow> bfd_vma \<Rightarrow> map_info \<Rightarrow> bool" where
  "query_ok sec tab a mi \<longleftrightarrow>
     mi_section mi = Some sec \<and> mi_symtab mi = tab \<and> mi_elf mi \<and>
     - 1 \<le> mi_symtab_pos mi \<and> mi_symtab_pos mi < int (length tab) \<and>
     (0 \<le> mi_symtab_pos mi \<longrightarrow> sym_value (tab ! nat (mi_symtab_pos mi)) \<le> a)"

text \<open>
  The states on a dump of a section with growing addresses.  Before, another section was dumped,
  which ended at or below the address, or the section has a mapping symbol at or below it.
\<close>

inductive map_reach :: "asection \<Rightarrow> asymbol list \<Rightarrow> bfd_vma \<Rightarrow> map_state \<Rightarrow> bool" for sec tab where
  reach_start: "last_map_section st \<noteq> Some (sec_id sec) \<Longrightarrow>
     last_map_symbol_boundary st \<le> a \<or> (\<exists>s\<in>set tab. mapping_symbol_of sec s \<and> sym_value s \<le> a) \<Longrightarrow>
     map_reach sec tab a st"
| reach_search: "map_reach sec tab a st \<Longrightarrow> a \<le> b \<Longrightarrow> query_ok sec tab b mi \<Longrightarrow>
     riscv_search_mapping_symbol mi b st = Some (mstate, st') \<Longrightarrow>
     map_reach sec tab b (st'\<lparr>last_map_state := mstate\<rparr>)"
| reach_rps: "map_reach sec tab a st \<Longrightarrow> map_reach sec tab a (st\<lparr>riscv_rps_dis := rps\<rparr>)"

section \<open>The scans\<close>

lemma scan_forwards_None:
  assumes "scan_forwards mi a n ss k = None" "sorted (map sym_value ss)"
  shows "k = None \<and> (\<forall>s\<in>set ss. riscv_is_valid_mapping_symbol mi s \<longrightarrow> a < sym_value s)"
  using assms by (induction mi a n ss k rule: scan_forwards.induct) (auto split: if_splits)

definition last_valid :: "map_info \<Rightarrow> bfd_vma \<Rightarrow> asymbol list \<Rightarrow> nat \<Rightarrow> bool" where
  "last_valid mi a ss k \<longleftrightarrow>
     k < length ss \<and> riscv_is_valid_mapping_symbol mi (ss ! k) \<and> sym_value (ss ! k) \<le> a \<and>
     (\<forall>s\<in>set (drop (Suc k) ss). riscv_is_valid_mapping_symbol mi s \<longrightarrow> a < sym_value s)"

lemma last_valid_Cons: "last_valid mi a (s # ss) (Suc k) \<longleftrightarrow> last_valid mi a ss k"
  by (simp add: last_valid_def)

lemma scan_forwards_Some:
  assumes "scan_forwards mi a n ss k0 = Some k" "sorted (map sym_value ss)"
  shows "(k0 = Some k \<and> (\<forall>s\<in>set ss. riscv_is_valid_mapping_symbol mi s \<longrightarrow> a < sym_value s)) \<or>
         (n \<le> k \<and> last_valid mi a ss (k - n))"
  using assms
proof (induction mi a n ss k0 rule: scan_forwards.induct)
  case (2 mi a n s ss k0)
  show ?case
  proof (cases "a < sym_value s")
    case True
    with 2 show ?thesis by auto
  next
    case False
    with 2 have "((if riscv_is_valid_mapping_symbol mi s then Some n else k0) = Some k \<and>
        (\<forall>s\<in>set ss. riscv_is_valid_mapping_symbol mi s \<longrightarrow> a < sym_value s)) \<or>
        (Suc n \<le> k \<and> last_valid mi a ss (k - Suc n))" by simp
    then show ?thesis
    proof
      assume *: "Suc n \<le> k \<and> last_valid mi a ss (k - Suc n)"
      then have "k - n = Suc (k - Suc n)" using Suc_diff_Suc [of n k] by simp
      with * show ?thesis by (simp add: last_valid_Cons)
    next
      assume "(if riscv_is_valid_mapping_symbol mi s then Some n else k0) = Some k \<and>
        (\<forall>s\<in>set ss. riscv_is_valid_mapping_symbol mi s \<longrightarrow> a < sym_value s)"
      with False show ?thesis by (auto simp: last_valid_def split: if_splits)
    qed
  qed
qed simp

lemma scan_backwards_None:
  assumes "scan_backwards mi n = None" "n \<le> length tab" "tab_ok sec tab" "mi_section mi = Some sec"
    "mi_symtab mi = tab"
  shows "\<forall>j<n. \<not> riscv_is_valid_mapping_symbol mi (tab ! j)"
  using assms
proof (induction n)
  case (Suc n)
  show ?case
  proof (cases "sym_value (tab ! n) < sec_vma sec")
    case True
    have "sym_value (tab ! j) < sec_vma sec" if "j \<le> n" for j
      using True that Suc.prems(2,3) sorted_nth_mono [of "map sym_value tab" j n]
      by (auto simp: tab_ok_def)
    then show ?thesis
      using Suc.prems(2,3,4) by (auto simp: tab_ok_def riscv_is_valid_mapping_symbol_def other_section_def less_Suc_eq_le)
        (metis Suc_le_lessD le_less_trans less_imp_le_nat linorder_not_less nth_mem)
  next
    case False
    with Suc show ?thesis by (auto simp: Let_def less_Suc_eq split: if_splits)
  qed
qed simp

lemma scan_backwards_Some:
  assumes "scan_backwards mi n = Some k"
  shows "k < n \<and> riscv_is_valid_mapping_symbol mi (mi_symtab mi ! k) \<and>
         (\<forall>j. k < j \<and> j < n \<longrightarrow> \<not> riscv_is_valid_mapping_symbol mi (mi_symtab mi ! j))"
  using assms by (induction n) (auto simp: Let_def less_Suc_eq split: if_splits)

lemma valid_mapping_symbol_iff:
  "mi_section mi = Some sec \<Longrightarrow> riscv_is_valid_mapping_symbol mi s \<longleftrightarrow> mapping_symbol_of sec s"
  by (auto simp: riscv_is_valid_mapping_symbol_def other_section_def mapping_symbol_of_def)

lemma in_set_drop_iff: "x \<in> set (drop n xs) \<longleftrightarrow> (\<exists>j\<ge>n. j < length xs \<and> xs ! j = x)"
proof
  assume "x \<in> set (drop n xs)"
  then obtain i where "i < length (drop n xs)" "drop n xs ! i = x" by (auto simp only: in_set_conv_nth)
  then show "\<exists>j\<ge>n. j < length xs \<and> xs ! j = x" by (intro exI [of _ "n + i"]) auto
next
  assume "\<exists>j\<ge>n. j < length xs \<and> xs ! j = x"
  then obtain j where "n \<le> j" "j < length xs" "xs ! j = x" by blast
  then have "drop n xs ! (j - n) = x" "j - n < length (drop n xs)" by auto
  then show "x \<in> set (drop n xs)" by (metis nth_mem)
qed

lemma sorted_map_drop: "sorted (map f xs) \<Longrightarrow> sorted (map f (drop n xs))"
  using sorted_wrt_drop [of "(\<le>)" "map f xs" n] by (simp add: drop_map)

lemma scans_cover:
  assumes "\<forall>s\<in>set (drop n tab). V s \<longrightarrow> a < sym_value s" "n \<le> m"
    and "\<And>j. k \<le> j \<Longrightarrow> j < m \<Longrightarrow> \<not> V (tab ! j)"
  shows "\<forall>s\<in>set (drop k tab). V s \<longrightarrow> a < sym_value s"
proof (intro ballI impI)
  fix s assume "s \<in> set (drop k tab)" "V s"
  then obtain j where "k \<le> j" "j < length tab" "tab ! j = s" by (auto simp: in_set_drop_iff)
  moreover from this \<open>V s\<close> have "n \<le> j" using assms(2) assms(3) [of j] by (cases "j < m") auto
  ultimately have "s \<in> set (drop n tab)" by (auto simp: in_set_drop_iff)
  with assms(1) \<open>V s\<close> show "a < sym_value s" by blast
qed

lemma below_symtab_pos:
  assumes "tab_ok sec tab" "query_ok sec tab a mi" "int j \<le> mi_symtab_pos mi"
  shows "sym_value (tab ! j) \<le> a"
proof -
  have "sym_value (tab ! j) \<le> sym_value (tab ! nat (mi_symtab_pos mi))"
    using assms sorted_nth_mono [of "map sym_value tab" j "nat (mi_symtab_pos mi)"]
    by (auto simp: query_ok_def tab_ok_def)
  then show ?thesis using assms(2,3) by (auto simp: query_ok_def)
qed

text \<open>The two scans together find the last mapping symbol at or below the address.\<close>

lemma map_symbol_spec:
  assumes ok: "tab_ok sec tab" and q: "query_ok sec tab a mi"
    and n: "0 \<le> n" "n \<le> m + 1" and m: "- 1 \<le> m" "m \<le> mi_symtab_pos mi"
  shows "case map_symbol mi a n m of
           Some k \<Rightarrow> last_valid mi a tab k
         | None \<Rightarrow> \<forall>s\<in>set tab. riscv_is_valid_mapping_symbol mi s \<longrightarrow> a < sym_value s"
proof -
  define f where "f = scan_forwards mi a (nat n) (drop (nat n) tab) None"
  have tab: "mi_symtab mi = tab" and sec: "mi_section mi = Some sec" and len: "nat (m + 1) \<le> length tab"
    using q m by (auto simp: query_ok_def)
  have sorted: "sorted (map sym_value tab)" using ok by (simp add: tab_ok_def)
  have sd: "sorted (map sym_value (drop (nat n) tab))" by (rule sorted_map_drop [OF sorted])
  show ?thesis
  proof (cases f)
    case (Some k)
    then have "nat n \<le> k" "last_valid mi a (drop (nat n) tab) (k - nat n)"
      using scan_forwards_Some [OF _ sd] unfolding f_def by blast+
    then have "last_valid mi a tab k" by (auto simp: last_valid_def)
    with Some show ?thesis by (simp add: map_symbol_def f_def tab)
  next
    case None
    have fwd: "\<forall>s\<in>set (drop (nat n) tab). riscv_is_valid_mapping_symbol mi s \<longrightarrow> a < sym_value s"
      using scan_forwards_None [OF _ sd] None unfolding f_def by blast
    have eq: "map_symbol mi a n m = scan_backwards mi (nat (m + 1))"
      using None by (simp add: map_symbol_def f_def tab)
    have nm: "nat n \<le> nat (m + 1)" using n by simp
    show ?thesis
    proof (cases "scan_backwards mi (nat (m + 1))")
      case None
      have "\<forall>s\<in>set (drop 0 tab). riscv_is_valid_mapping_symbol mi s \<longrightarrow> a < sym_value s"
        using scan_backwards_None [OF None len ok sec tab] by (intro scans_cover [OF fwd nm]) blast
      with eq None show ?thesis by simp
    next
      case (Some k)
      note k = scan_backwards_Some [OF this, unfolded tab]
      have "\<forall>s\<in>set (drop (Suc k) tab). riscv_is_valid_mapping_symbol mi s \<longrightarrow> a < sym_value s"
        using k by (intro scans_cover [OF fwd nm]) auto
      moreover have "sym_value (tab ! k) \<le> a" using k m(2) by (intro below_symtab_pos [OF ok q]) linarith
      ultimately have "last_valid mi a tab k" using k len by (simp add: last_valid_def)
      with eq Some show ?thesis by simp
    qed
  qed
qed

lemma map_state_last:
  assumes "last_valid mi a tab k" "mi_section mi = Some sec"
  shows "map_state_at sec tab a = symbol_mstate (tab ! k)"
proof -
  let ?P = "\<lambda>s. mapping_symbol_of sec s \<and> sym_value s \<le> a"
  have "filter ?P (drop (Suc k) tab) = []"
    using assms by (auto simp: last_valid_def valid_mapping_symbol_iff filter_empty_conv)
  moreover have "tab = take k tab @ tab ! k # drop (Suc k) tab"
    using assms(1) by (simp add: last_valid_def id_take_nth_drop)
  ultimately have "filter ?P tab = filter ?P (take k tab) @ [tab ! k]"
    using assms by (metis (no_types, lifting) filter.simps(2) filter_append last_valid_def valid_mapping_symbol_iff)
  then show ?thesis by (simp add: map_state_at_def)
qed

lemma map_state_none:
  assumes "\<forall>s\<in>set tab. mapping_symbol_of sec s \<longrightarrow> a < sym_value s"
  shows "map_state_at sec tab a = (if sec_code sec then MAP_INSN else MAP_DATA)"
proof -
  have "filter (\<lambda>s. mapping_symbol_of sec s \<and> sym_value s \<le> a) tab = []"
    using assms by (auto simp: filter_empty_conv)
  then show ?thesis by (simp add: map_state_at_def)
qed

text \<open>Up to the boundary there is no further mapping symbol.\<close>

lemma map_boundary_spec:
  assumes "tab_ok sec tab" "query_ok sec tab a mi" "last_valid mi a tab k"
  obtains e where "map_boundary mi k = Some e"
    and "\<And>b. a \<le> b \<Longrightarrow> b < e \<Longrightarrow> last_valid mi b tab k"
proof -
  have sec: "mi_section mi = Some sec" and tab: "mi_symtab mi = tab" using assms(2) by (auto simp: query_ok_def)
  let ?r = "drop (Suc k) tab" and ?E = "ends_range (sym_section (tab ! k))"
  have ends: "?E s" if "riscv_is_valid_mapping_symbol mi s" for s
    using that assms(3) unfolding last_valid_def valid_mapping_symbol_iff [OF sec] ends_range_def mapping_symbol_of_def
      riscv_elf_is_mapping_symbols_def by (auto simp: c_char_def startswith_iff)
  have below: "e \<le> sym_value s"
    if t: "find ?E ?r = Some t" "e = sym_value t" and s: "s \<in> set ?r" "?E s" for e s t
  proof -
    obtain i where i: "i < length ?r" "?r ! i = t" "\<And>j. j < i \<Longrightarrow> \<not> ?E (?r ! j)"
      using t(1) unfolding find_Some_iff by blast
    obtain j where j: "j < length ?r" "?r ! j = s" using s(1) by (auto simp: in_set_conv_nth)
    have "i \<le> j" using i(3) [of j] j s(2) by (metis not_le)
    moreover have "sorted (map sym_value ?r)"
      using assms(1) sorted_map_drop by (auto simp: tab_ok_def)
    ultimately show ?thesis using sorted_nth_mono [of "map sym_value ?r" i j] i j t(2) by simp
  qed
  show thesis
  proof (cases "find ?E ?r")
    case None
    then have "\<forall>s\<in>set ?r. \<not> riscv_is_valid_mapping_symbol mi s" using ends by (auto simp: find_None_iff)
    with assms(3) have "last_valid mi b tab k" if "a \<le> b" for b
      using that by (auto simp: last_valid_def)
    with None show thesis by (intro that [of "sec_vma sec + sec_size sec"]) (auto simp: map_boundary_def tab sec)
  next
    case (Some t)
    have "last_valid mi b tab k" if "a \<le> b" "b < sym_value t" for b
      using that assms(3) ends below [OF Some refl] unfolding last_valid_def by force
    with Some show thesis by (intro that [of "sym_value t"]) (auto simp: map_boundary_def tab)
  qed
qed

section \<open>The search\<close>

lemma update_map_state_defined:
  assumes "tab_ok sec tab" "mi_section mi = Some sec" "s \<in> set tab" "riscv_is_valid_mapping_symbol mi s"
  obtains rps' where "riscv_update_map_state mi s (m, rps) = Some (symbol_mstate s, rps')"
proof (cases "startswith (sym_name s) ''$xrv''")
  case True
  then have "isa_string_defined (sym_name s)" "sym_name s \<noteq> ''$x''" "sym_name s \<noteq> ''$d''"
    using assms(1,3) by (auto simp: tab_ok_def)
  then show thesis
    using that assms(4) True
    by (fastforce simp: riscv_update_map_state_def riscv_is_valid_mapping_symbol_def isa_string_defined_def
        symbol_mstate_def)
next
  case False
  then show thesis
    using that assms(4)
    by (auto simp: riscv_update_map_state_def riscv_is_valid_mapping_symbol_def
        riscv_elf_is_mapping_symbols_def symbol_mstate_def)
qed

abbreviation cached :: "map_info \<Rightarrow> bfd_vma \<Rightarrow> map_state \<Rightarrow> bool" where
  "cached mi a st \<equiv>
     last_map_section st = map_option sec_id (mi_section mi) \<and> a < last_map_symbol_boundary st"

lemma search_hit: "cached mi a st \<Longrightarrow> riscv_search_mapping_symbol mi a st = Some (last_map_state st, st)"
  by (simp add: riscv_search_mapping_symbol_def)

text \<open>A search that does not use the cached state is right whatever the search kept from before.\<close>

lemma search_miss:
  assumes ok: "tab_ok sec tab" and q: "query_ok sec tab a mi" and miss: "\<not> cached mi a st"
  obtains st' where "riscv_search_mapping_symbol mi a st = Some (map_state_at sec tab a, st')"
    and "last_map_section st' = Some (sec_id sec)"
    and "(\<forall>b. a \<le> b \<and> b < last_map_symbol_boundary st' \<longrightarrow> map_state_at sec tab b = map_state_at sec tab a) \<or>
         last_map_symbol_boundary st' = last_map_symbol_boundary st \<and>
         (\<forall>s\<in>set tab. mapping_symbol_of sec s \<longrightarrow> a < sym_value s)"
proof (cases "tab = []")
  case True
  with q miss that [of "st\<lparr>last_map_section := Some (sec_id sec)\<rparr>"] show thesis
    by (auto simp: riscv_search_mapping_symbol_def query_ok_def default_mstate_def map_state_at_def)
next
  case False
  have sec: "mi_section mi = Some sec" and tab: "mi_symtab mi = tab" and elf: "mi_elf mi"
    using q by (auto simp: query_ok_def)
  define st1 where "st1 = st\<lparr>last_map_section := map_option sec_id (mi_section mi)\<rparr>"
  define old where "old = (if a = 0 then - 1 else last_map_symbol st1)"
  define from_last where "from_last \<longleftrightarrow> 0 \<le> old \<and> mi_stop_offset mi = last_stop_offset st1"
  define n where "n = (if from_last \<and> old \<le> mi_symtab_pos mi + 1 then old else mi_symtab_pos mi + 1)"
  define m where "m = (if from_last \<and> old \<le> mi_symtab_pos mi then old else mi_symtab_pos mi)"
  have nm: "0 \<le> n" "n \<le> m + 1" "- 1 \<le> m" "m \<le> mi_symtab_pos mi"
    using q by (auto simp: n_def m_def from_last_def query_ok_def)
  have range: "\<not> (n < 0 \<or> int (length tab) \<le> m)" using nm q by (auto simp: query_ok_def)
  have eq: "riscv_search_mapping_symbol mi a st =
      (case map_symbol mi a n m of
         None \<Rightarrow> Some (default_mstate mi,
           st1\<lparr>last_map_symbol := - 1, last_stop_offset := mi_stop_offset mi\<rparr>)
       | Some symbol \<Rightarrow> do {
           (mstate, rps) \<leftarrow> riscv_update_map_state mi (tab ! symbol) (default_mstate mi, riscv_rps_dis st1);
           boundary \<leftarrow> map_boundary mi symbol;
           Some (mstate, st1\<lparr>last_map_symbol_boundary := boundary, riscv_rps_dis := rps,
             last_map_symbol := int symbol, last_stop_offset := mi_stop_offset mi\<rparr>)
         })"
    unfolding riscv_search_mapping_symbol_def Let_def if_not_P [OF miss] st1_def [symmetric] tab
      old_def [symmetric] from_last_def [symmetric] n_def [symmetric] m_def [symmetric]
    using False range elf by simp
  have ls: "last_map_section st1 = Some (sec_id sec)" by (simp add: st1_def sec)
  note sym = map_symbol_spec [OF ok q nm]
  show thesis
  proof (cases "map_symbol mi a n m")
    case None
    with sym have no: "\<forall>s\<in>set tab. mapping_symbol_of sec s \<longrightarrow> a < sym_value s"
      by (simp add: valid_mapping_symbol_iff [OF sec])
    with None show thesis
      by (intro that [of "st1\<lparr>last_map_symbol := - 1, last_stop_offset := mi_stop_offset mi\<rparr>"])
        (simp_all add: eq map_state_none default_mstate_def sec st1_def)
  next
    case (Some k)
    with sym have k: "last_valid mi a tab k" by simp
    obtain e where e: "map_boundary mi k = Some e" "\<And>b. a \<le> b \<Longrightarrow> b < e \<Longrightarrow> last_valid mi b tab k"
      using map_boundary_spec [OF ok q k] by blast
    obtain rps where rps: "riscv_update_map_state mi (tab ! k) (default_mstate mi, riscv_rps_dis st1) =
        Some (symbol_mstate (tab ! k), rps)"
      using update_map_state_defined [OF ok sec] k by (metis last_valid_def nth_mem)
    have same: "map_state_at sec tab b = map_state_at sec tab a" if "a \<le> b" "b < e" for b
      using map_state_last [OF e(2) [OF that] sec] map_state_last [OF k sec] by simp
    show thesis
      by (rule that [of "st1\<lparr>last_map_symbol_boundary := e, riscv_rps_dis := rps,
             last_map_symbol := int k, last_stop_offset := mi_stop_offset mi\<rparr>"])
        (use same in \<open>auto simp: eq Some rps e(1) map_state_last [OF k sec] ls\<close>)
  qed
qed

text \<open>What the cached state means, from one address of the dump on.\<close>

definition cache_ok :: "asection \<Rightarrow> asymbol list \<Rightarrow> bfd_vma \<Rightarrow> map_state \<Rightarrow> bool" where
  "cache_ok sec tab a st \<longleftrightarrow>
     (if last_map_section st = Some (sec_id sec)
      then \<forall>b. a \<le> b \<and> b < last_map_symbol_boundary st \<longrightarrow> map_state_at sec tab b = last_map_state st
      else last_map_symbol_boundary st \<le> a \<or> (\<exists>s\<in>set tab. mapping_symbol_of sec s \<and> sym_value s \<le> a))"

lemma search_step:
  assumes ok: "tab_ok sec tab" and q: "query_ok sec tab b mi" and c: "cache_ok sec tab a st" and ab: "a \<le> b"
  obtains st' where "riscv_search_mapping_symbol mi b st = Some (map_state_at sec tab b, st')"
    and "cache_ok sec tab b (st'\<lparr>last_map_state := map_state_at sec tab b\<rparr>)"
proof (cases "cached mi b st")
  case True
  have sec: "mi_section mi = Some sec" using q by (simp add: query_ok_def)
  with True c ab have s: "map_state_at sec tab b = last_map_state st" by (simp add: cache_ok_def)
  have "cache_ok sec tab b st" using True c ab sec by (auto simp: cache_ok_def)
  moreover have "riscv_search_mapping_symbol mi b st = Some (map_state_at sec tab b, st)"
    using search_hit [OF True] by (simp add: s)
  ultimately show thesis using s that [of st] by simp
next
  case False
  have sec: "mi_section mi = Some sec" using q by (simp add: query_ok_def)
  from search_miss [OF ok q False] obtain st' where st':
    "riscv_search_mapping_symbol mi b st = Some (map_state_at sec tab b, st')"
    "last_map_section st' = Some (sec_id sec)"
    "(\<forall>c. b \<le> c \<and> c < last_map_symbol_boundary st' \<longrightarrow> map_state_at sec tab c = map_state_at sec tab b) \<or>
     last_map_symbol_boundary st' = last_map_symbol_boundary st \<and>
     (\<forall>s\<in>set tab. mapping_symbol_of sec s \<longrightarrow> b < sym_value s)"
    by blast
  have "last_map_symbol_boundary st \<le> b"
    if "\<forall>s\<in>set tab. mapping_symbol_of sec s \<longrightarrow> b < sym_value s"
    using that False c ab sec by (force simp: cache_ok_def split: if_splits)
  with st' have "cache_ok sec tab b (st'\<lparr>last_map_state := map_state_at sec tab b\<rparr>)"
    by (auto simp: cache_ok_def)
  with st'(1) show thesis by (rule that)
qed

lemma map_reach_cache_ok:
  assumes "map_reach sec tab a st" "tab_ok sec tab"
  shows "cache_ok sec tab a st"
  using assms
proof (induction rule: map_reach.induct)
  case (reach_start st a)
  then show ?case by (simp add: cache_ok_def)
next
  case (reach_search a st b mi mstate st')
  then obtain st1 where "riscv_search_mapping_symbol mi b st = Some (map_state_at sec tab b, st1)"
    "cache_ok sec tab b (st1\<lparr>last_map_state := map_state_at sec tab b\<rparr>)"
    using search_step [OF _ reach_search.hyps(3)] by blast
  with reach_search.hyps(4) show ?case by simp
next
  case (reach_rps a st rps)
  then show ?case by (simp add: cache_ok_def)
qed


text \<open>A section of code with data behind it, for examples, and the first state of the search.\<close>

definition sec0 :: asection where
  "sec0 = \<lparr>sec_id = 1, sec_vma = 0x100, sec_size = 0x20, sec_code = True\<rparr>"

definition tab0 :: "asymbol list" where
  "tab0 = [\<lparr>sym_name = ''$x'', sym_value = 0x100, sym_section = 1\<rparr>,
           \<lparr>sym_name = ''main'', sym_value = 0x100, sym_section = 1\<rparr>,
           \<lparr>sym_name = ''$d'', sym_value = 0x110, sym_section = 1\<rparr>,
           \<lparr>sym_name = ''$xrv64ic.1'', sym_value = 0x118, sym_section = 1\<rparr>]"

definition query0 :: "int \<Rightarrow> map_info" where
  "query0 pos = \<lparr>mi_section = Some sec0, mi_symtab = tab0, mi_elf = True, mi_symtab_pos = pos,
                 mi_stop_offset = 0x20\<rparr>"

definition map_start :: map_state where
  "map_start = \<lparr>last_map_symbol = - 1, last_stop_offset = 0, last_map_symbol_boundary = 0,
     last_map_state = MAP_NONE, last_map_section = None, riscv_rps_dis = rps_start 0\<rparr>"

lemmas map_example_defs = sec0_def tab0_def query0_def map_start_def

lemma rv64ic_steps:
  "start_of_version ''ic'' = Some (Inr 1)" "riscv_parsing_subset_version ''c'' = Some (''c'', - 1, - 1)"
  "start_of_version ''c'' = Some (Inr 1)" "riscv_parsing_subset_version [] = Some ([], - 1, - 1)"
  "riscv_get_prefix_class ''ic'' = RV_ISA_CLASS_SINGLE" "riscv_get_prefix_class ''c'' = RV_ISA_CLASS_SINGLE"
  by code_simp+

lemma rv64ic_defined: "isa_string_defined ''$xrv64ic.1''"
proof -
  have "riscv_parse_subset rps (Some ''rv64ic'') \<noteq> None" if "rps_ok rps" for rps
  proof -
    have wf: "wf_ext ''i''" "wf_ext ''c''" by (simp_all add: wf_ext_eval)
    have "rps_ok (rps\<lparr>rps_xlen := 64\<rparr>)" using that by (simp add: rps_ok_def)
    from riscv_parse_add_subset_spec [OF this wf(1), of "- 1" "- 1" False]
    obtain r where r: "riscv_parse_add_subset (rps\<lparr>rps_xlen := 64\<rparr>) ''i'' (- 1) (- 1) False = Some r" "rps_ok r"
      by blast
    from riscv_parse_add_subset_spec [OF r(2) wf(2), of "- 1" "- 1" False]
    obtain r' where r': "riscv_parse_add_subset r ''c'' (- 1) (- 1) False = Some r'" "rps_ok r'" by blast
    have "parse_extensions_loop (rps\<lparr>rps_xlen := 64\<rparr>) ''ic'' = Some (r', True)"
      by (simp add: rv64ic_steps r r')
    then have "riscv_parse_extensions (rps\<lparr>rps_xlen := 64\<rparr>) ''ic'' = Some (r', True)"
      by (simp add: riscv_parse_extensions_def c_char_def)
    then show ?thesis
      using close_and_check [OF r'(2)] by (auto simp: riscv_parse_subset_def ISUPPER_def)
  qed
  then show ?thesis by (simp add: isa_string_defined_def map_isa_string_def rps_ok_def riscv_release_subset_list_ok)
qed

lemma tab0_ok: "tab_ok sec0 tab0"
  using rv64ic_defined by (simp add: tab_ok_def map_example_defs)

lemma query0_ok:
  "query_ok sec0 tab0 0x114 (query0 2)" "query_ok sec0 tab0 0x110 (query0 2)" "query_ok sec0 tab0 0x100 (query0 1)"
  by (simp_all add: query_ok_def query0_def) (simp_all add: tab0_def)

lemma map_start_reach: "map_reach sec0 tab0 0x100 map_start"
  by (rule reach_start) (simp_all add: map_start_def)


section \<open>Going backwards\<close>

lemma query0_sel:
  "mi_section (query0 pos) = Some sec0" "mi_symtab (query0 pos) = tab0" "mi_elf (query0 pos)"
  "mi_symtab_pos (query0 pos) = pos" "mi_stop_offset (query0 pos) = 0x20"
  by (simp_all add: query0_def)

lemma query0_symbol: "map_symbol (query0 2) 0x110 3 2 = Some 2"
  by code_simp

lemma query0_boundary: "map_boundary (query0 2) 2 = Some 0x118"
  by code_simp

lemma query0_update: "riscv_update_map_state (query0 2) (tab0 ! 2) (m, rps) = Some (MAP_DATA, rps)"
  by (simp add: riscv_update_map_state_def other_section_def query0_sel) (simp add: tab0_def sec0_def)

lemma query0_search:
  "\<exists>st. riscv_search_mapping_symbol (query0 2) 0x110 map_start = Some (MAP_DATA, st) \<and>
     last_map_section st = Some 1 \<and> last_map_symbol_boundary st = 0x118"
proof -
  have "tab0 \<noteq> []" "length tab0 = 4" "sec_id sec0 = 1" by (simp_all add: tab0_def sec0_def)
  then show ?thesis
    by (simp add: riscv_search_mapping_symbol_def query0_sel map_start_def query0_symbol query0_boundary
        query0_update)
qed


section \<open>The length of data\<close>

lemma data_size_cases:
  assumes "x \<noteq> (0 :: 64 word)"
  shows "(if min 4 x = 3 then 2 else min 4 x) \<in> {1, 2, 4}"
proof (cases "x < 4")
  case True
  then have "unat x < 4" by (simp add: word_less_nat_alt)
  then consider "unat x = 0" | "unat x = 1" | "unat x = 2" | "unat x = 3" by linarith
  moreover have "x = of_nat (unat x)" by simp
  ultimately have "x \<in> {0, 1, 2, 3}" by cases auto
  with assms show ?thesis by auto
qed (simp add: min_def not_less)

lemma data_length_range:
  assumes "tab_ok sec tab" "query_ok sec tab b mi" "b < sec_vma sec + sec_size sec"
  obtains d st' where "riscv_data_length mi b st = Some (d, st')" "d \<in> {1, 2, 4}"
proof -
  have sec: "mi_section mi = Some sec" and tab: "mi_symtab mi = tab" using assms(2) by (auto simp: query_ok_def)
  define nx where "nx = (if mi_symtab mi \<noteq> [] \<and> mi_elf mi \<and> 0 \<le> last_map_symbol st
              then next_mapping_symbol mi b (last_map_symbol st) else None)"
  show thesis
  proof (cases nx)
    case None
    have "sec_vma sec + sec_size sec - b \<noteq> 0" using assms(3) by auto
    from data_size_cases [OF this] None show thesis
      using that by (fastforce simp: riscv_data_length_def nx_def [symmetric] sec)
  next
    case (Some s)
    then have s: "b < sym_value s" "riscv_is_valid_mapping_symbol mi s" "s \<in> set tab"
      by (auto simp: nx_def next_mapping_symbol_def find_Some_iff tab split: if_splits dest: in_set_dropD)
    obtain rps where "riscv_update_map_state mi s (MAP_NONE, riscv_rps_dis st) = Some (symbol_mstate s, rps)"
      using update_map_state_defined [OF assms(1) sec s(3,2)] by blast
    moreover have "sym_value s - b \<noteq> 0" using s(1) by auto
    ultimately show thesis using Some that data_size_cases [of "sym_value s - b"]
      by (fastforce simp: riscv_data_length_def nx_def [symmetric])
  qed
qed

lemma disassemble_data_defined:
  assumes "d \<in> {1, 2, 4 :: bfd_vma}"
  shows "\<exists>info'. riscv_disassemble_data data (info\<lparr>info_bytes_per_chunk := unat d\<rparr>) = Some (unat d, info')"
  using assms by (auto simp: riscv_disassemble_data_def)

end
