(* ===== verification/RV_Print_Laws.thy ===== *)
theory RV_Print_Laws
  imports RV_Print
begin

text \<open>
  What printing promises: every entry the search can return is printed completely, the address
  comments are the addresses the instruction pairs form, and the fallback directive spells the bytes
  of the instruction out.
\<close>

text \<open>A state before the first instruction, for examples: 64 bits, default names, no \<open>gp\<close> symbol.\<close>

definition env0 :: dis_env where
  "env0 = \<lparr>env_mach = bfd_mach_riscv64, env_elf64 = None, env_subset_supports = (\<lambda>_. False),
     env_multi_subset_supports = (\<lambda>c. c = INSN_CLASS_I)\<rparr>"

definition info0 :: dis_info where
  "info0 =
     \<lparr>private_data = \<lparr>pd_gp = 0, pd_print_addr = 0, pd_hi_addr = replicate 32 (- 1),
        pd_to_print_addr = False, pd_has_gp = False\<rparr>,
      info_stream = [], info_bytes_per_chunk = 4, info_insn_type = dis_nonbranch, info_data_size = 0,
      info_target = 0, info_target2 = 0, dis_xlen = 64, dis_gpr_names = riscv_gpr_names_abi,
      dis_fpr_names = riscv_fpr_names_abi, dis_no_aliases = False,
      default_priv_spec = PRIV_SPEC_CLASS_NONE\<rparr>"

section \<open>Operand strings that are printed completely\<close>

definition step_prints :: "operand_step \<Rightarrow> string option" where
  "step_prints st = (case st of Prints f r \<Rightarrow> Some r | _ \<Rightarrow> None)"

definition letter_prints :: "string \<Rightarrow> string \<Rightarrow> string option" where
  "letter_prints ls s = (case s of [] \<Rightarrow> None | c # r \<Rightarrow> if c \<in> set ls then Some r else None)"

definition Xt_prints :: "string \<Rightarrow> string option" where
  "Xt_prints s =
     (case s of [] \<Rightarrow> None | c # r \<Rightarrow>
        if c = CHR ''V'' then letter_prints ''c'' r
        else if c = CHR ''l'' then Some (dropWhile (\<lambda>d. d \<noteq> CHR '','') r)
        else if c = CHR ''s'' \<or> c = CHR ''u''
          then (case snd (strtol10 r) of
                  [] \<Rightarrow> None
                | d # r' \<Rightarrow> if d = CHR ''@'' then Some (snd (strtol10 r')) else None)
        else None)"

definition operand_prints :: "char \<Rightarrow> string \<Rightarrow> string option" where
  "operand_prints c s =
     (if c = CHR ''C'' then letter_prints ''swtxUcVojklmnKLMNpau><TD'' s
      else if c = CHR ''V'' then letter_prints ''dfestuv0bcijklm'' s
      else if c \<in> set '',()[]0stumPQojqapdyz><SUTDREYZ'' then Some s
      else if c = CHR ''W'' then
        (case s of
           d # r \<Rightarrow> if d = CHR ''i'' then letter_prints ''f'' r
                    else if d = CHR ''f'' then letter_prints ''v'' r
                    else if d = CHR ''c'' then letter_prints ''bh'' r else None
         | [] \<Rightarrow> None)
      else if c = CHR ''X'' then
        (case s of
           d # r \<Rightarrow> if d = CHR ''t'' then Xt_prints r
                    else if d = CHR ''c'' then letter_prints ''23'' r
                    else if d = CHR ''s''
                      then (if r \<noteq> [] \<and> hd r = CHR ''O'' then letter_prints ''12'' (tl r)
                            else letter_prints ''dt'' r)
                    else None
         | [] \<Rightarrow> None)
      else None)"

lemma step_prints_C:
  "step_prints (print_operand_C env pc l s) = letter_prints ''swtxUcVojklmnKLMNpau><TD'' s"
  by (auto simp: print_operand_C_def step_prints_def letter_prints_def Let_def split: list.splits)

lemma step_prints_V: "step_prints (print_operand_V l s) = letter_prints ''dfestuv0bcijklm'' s"
  by (auto simp: print_operand_V_def step_prints_def letter_prints_def split: list.splits)

lemma step_prints_Xt: "step_prints (print_operand_Xt l s) = Xt_prints s"
  by (auto simp: print_operand_Xt_def print_operand_Xt_imm_def Xt_prints_def step_prints_def
      letter_prints_def split: list.splits prod.splits)

lemma step_prints_operand:
  "step_prints (print_operand env pc l c s) = operand_prints c s"
proof -
  have w: "step_prints (print_operand_W l s) =
      (case s of
         d # r \<Rightarrow> if d = CHR ''i'' then letter_prints ''f'' r
                  else if d = CHR ''f'' then letter_prints ''v'' r
                  else if d = CHR ''c'' then letter_prints ''bh'' r else None
       | [] \<Rightarrow> None)"
    by (auto simp: print_operand_W_def step_prints_def letter_prints_def split: list.splits)
  have x: "step_prints (print_operand_X l s) =
      (case s of
         d # r \<Rightarrow> if d = CHR ''t'' then Xt_prints r
                  else if d = CHR ''c'' then letter_prints ''23'' r
                  else if d = CHR ''s''
                    then (if r \<noteq> [] \<and> hd r = CHR ''O'' then letter_prints ''12'' (tl r)
                          else letter_prints ''dt'' r)
                  else None
       | [] \<Rightarrow> None)"
    unfolding print_operand_X_def
    by (auto simp: step_prints_Xt print_operand_Xc_def print_operand_Xs_def letter_prints_def
        step_prints_def [of "Prints _ _"] step_prints_def [of "Skips _"] step_prints_def [of Past_end]
        step_prints_def [of Undefined_modifier] split: list.splits)
  show ?thesis
    unfolding print_operand_def operand_prints_def Let_def
    by (simp add: w x step_prints_C step_prints_V step_prints_def [of "Prints _ _"]
        step_prints_def [of Undefined_modifier])
qed

lemma operand_prints_length: "operand_prints c s = Some r \<Longrightarrow> length r \<le> length s"
proof -
  assume "operand_prints c s = Some r"
  then have "step_rest (print_operand undefined 0 0 c s) = Some r"
    using step_prints_operand [of undefined 0 0 c s]
    by (auto simp: step_prints_def step_rest_def split: operand_step.splits)
  then show ?thesis by (rule print_operand_length)
qed

function args_printable :: "string \<Rightarrow> bool" where
  "args_printable [] = True"
| "args_printable (c # s) =
     (case operand_prints c s of None \<Rightarrow> False | Some r \<Rightarrow> args_printable r)"
  by pat_completeness auto
termination
  by (relation "measure length") (auto dest!: operand_prints_length)

lemma print_args_complete:
  "args_printable s \<Longrightarrow> \<exists>info'. print_args env pc l s info = Inr info'"
proof (induction s arbitrary: info rule: args_printable.induct)
  case (2 c s)
  then obtain r where r: "operand_prints c s = Some r" "args_printable r"
    by (auto split: option.splits)
  then obtain f where "print_operand env pc l c s = Prints f r"
    using step_prints_operand [of env pc l c s]
    by (auto simp: step_prints_def split: operand_step.splits)
  then show ?case using 2(1) [OF r] by simp
qed simp

section \<open>The operand strings of the table\<close>

lemma args_printable_eval:
  "args_printable ''''"
  "args_printable ''0(s)''"
  "args_printable ''CD,Ck(Cs)''"
  "args_printable ''CD,Cl(Cs)''"
  "args_printable ''CT,CM(Cc)''"
  "args_printable ''CT,CN(Cc)''"
  "args_printable ''CV,CM(Cc)''"
  "args_printable ''CV,CN(Cc)''"
  "args_printable ''Ca''"
  "args_printable ''Cc,CL''"
  "args_printable ''Cc,Cc,CL''"
  "args_printable ''Cj''"
  "args_printable ''Cs''"
  "args_printable ''Cs,C>''"
  "args_printable ''Cs,Co''"
  "args_printable ''Cs,Cp''"
  "args_printable ''Cs,Ct''"
  "args_printable ''Cs,Ct,Cw''"
  "args_printable ''Cs,Cw''"
  "args_printable ''Cs,Cw,C>''"
  "args_printable ''Cs,Cw,Co''"
  "args_printable ''Cs,Cw,Ct''"
  "args_printable ''Ct,Cc,CK''"
  "args_printable ''Ct,Ck(Cs)''"
  "args_printable ''Ct,Cl(Cs)''"
  "args_printable ''Ct,Wcb(Cs)''"
  "args_printable ''Ct,Wch(Cs)''"
  "args_printable ''D,Cm(Cc)''"
  "args_printable ''D,Cn(Cc)''"
  "args_printable ''D,S''"
  "args_printable ''D,S,T''"
  "args_printable ''D,S,T,R''"
  "args_printable ''D,S,T,R,m''"
  "args_printable ''D,S,T,m''"
  "args_printable ''D,S,m''"
  "args_printable ''D,U''"
  "args_printable ''D,Vt''"
  "args_printable ''D,Wfv''"
  "args_printable ''D,o(s)''"
  "args_printable ''D,s''"
  "args_printable ''D,s,m''"
  "args_printable ''D,s,t''"
  "args_printable ''D,s,t,Xtu2@25''"
  "args_printable ''E,Z''"
  "args_printable ''E,s''"
  "args_printable ''P,Q''"
  "args_printable ''T,q(s)''"
  "args_printable ''Vd,0(s)''"
  "args_printable ''Vd,0(s),VtVm''"
  "args_printable ''Vd,0(s),tVm''"
  "args_printable ''Vd,0(s)Vm''"
  "args_printable ''Vd,S''"
  "args_printable ''Vd,S,VtVm''"
  "args_printable ''Vd,Vi''"
  "args_printable ''Vd,Vs''"
  "args_printable ''Vd,Vs,VtVm''"
  "args_printable ''Vd,Vt''"
  "args_printable ''Vd,Vt,S,V0''"
  "args_printable ''Vd,Vt,SVm''"
  "args_printable ''Vd,Vt,Vi''"
  "args_printable ''Vd,Vt,Vi,V0''"
  "args_printable ''Vd,Vt,ViVm''"
  "args_printable ''Vd,Vt,Vj''"
  "args_printable ''Vd,Vt,VjVm''"
  "args_printable ''Vd,Vt,VkVm''"
  "args_printable ''Vd,Vt,VlVm''"
  "args_printable ''Vd,Vt,Vs''"
  "args_printable ''Vd,Vt,Vs,V0''"
  "args_printable ''Vd,Vt,VsVm''"
  "args_printable ''Vd,Vt,s''"
  "args_printable ''Vd,Vt,s,V0''"
  "args_printable ''Vd,Vt,sVm''"
  "args_printable ''Vd,VtVm''"
  "args_printable ''Vd,Vu''"
  "args_printable ''Vd,Vu,0Vm''"
  "args_printable ''Vd,VuVm''"
  "args_printable ''Vd,s''"
  "args_printable ''Vd,s,VtVm''"
  "args_printable ''VdVm''"
  "args_printable ''Ve,Vt,(s),VfVm''"
  "args_printable ''Vv''"
  "args_printable ''Wif(s)''"
  "args_printable ''XsO1,Vd,Vt,S''"
  "args_printable ''XsO1,Xsd,Vt,S''"
  "args_printable ''XsO2,Vd,Vt,Vi''"
  "args_printable ''XsO2,Vd,Vt,Vs''"
  "args_printable ''XsO2,Vd,Vt,s''"
  "args_printable ''XsO2,Xsd,Vt,Vi''"
  "args_printable ''XsO2,Xsd,Vt,Vs''"
  "args_printable ''XsO2,Xsd,Vt,s''"
  "args_printable ''XsO2,Xst,Vd,Vi''"
  "args_printable ''XsO2,Xst,Vd,s''"
  "args_printable ''XsO2,Xst,Xsd,Vi''"
  "args_printable ''XsO2,Xst,Xsd,s''"
  "args_printable ''Z''"
  "args_printable ''a''"
  "args_printable ''d''"
  "args_printable ''d,(s),Xts5@20,Xtu2@25''"
  "args_printable ''d,0(s)''"
  "args_printable ''d,C>''"
  "args_printable ''d,CU''"
  "args_printable ''d,CU,C>''"
  "args_printable ''d,CU,CV''"
  "args_printable ''d,CU,Cj''"
  "args_printable ''d,CU,Co''"
  "args_printable ''d,CU,z''"
  "args_printable ''d,CV''"
  "args_printable ''d,CV,CU''"
  "args_printable ''d,CV,z''"
  "args_printable ''d,Cm(Cc)''"
  "args_printable ''d,Cn(Cc)''"
  "args_printable ''d,Co''"
  "args_printable ''d,Cu''"
  "args_printable ''d,E''"
  "args_printable ''d,E,Z''"
  "args_printable ''d,E,s''"
  "args_printable ''d,S''"
  "args_printable ''d,S,T''"
  "args_printable ''d,S,m''"
  "args_printable ''d,T,S''"
  "args_printable ''d,Vt''"
  "args_printable ''d,Vt,s''"
  "args_printable ''d,VtVm''"
  "args_printable ''d,Z''"
  "args_printable ''d,Z,Vb''"
  "args_printable ''d,a''"
  "args_printable ''d,j''"
  "args_printable ''d,o(s)''"
  "args_printable ''d,s''"
  "args_printable ''d,s,<''"
  "args_printable ''d,s,>''"
  "args_printable ''d,s,Vc''"
  "args_printable ''d,s,Xc2''"
  "args_printable ''d,s,XtVc''"
  "args_printable ''d,s,Xtu5@20''"
  "args_printable ''d,s,Xtu6@20''"
  "args_printable ''d,s,Xtu6@26,Xtu6@20''"
  "args_printable ''d,s,Y''"
  "args_printable ''d,s,j''"
  "args_printable ''d,s,t''"
  "args_printable ''d,s,t,Xc3''"
  "args_printable ''d,s,t,Xtu2@25''"
  "args_printable ''d,s,t,y''"
  "args_printable ''d,t''"
  "args_printable ''d,t,(s),Xtu2@25,Xtl3''"
  "args_printable ''d,t,(s),Xtu2@25,Xtl4''"
  "args_printable ''d,t,0(s)''"
  "args_printable ''d,t,s''"
  "args_printable ''d,u''"
  "args_printable ''o(s)''"
  "args_printable ''s''"
  "args_printable ''s,j''"
  "args_printable ''s,p''"
  "args_printable ''s,t''"
  "args_printable ''s,t,p''"
  "args_printable ''t,0(s)''"
  "args_printable ''t,p''"
  "args_printable ''t,q(s)''"
  "args_printable ''t,s,p''"
  by code_simp+

lemma args_not_printable_eval:
  "\<not> args_printable ''Cs,Cw,Wcf''"
  "\<not> args_printable ''Cs,Cz,Cp''"
  "\<not> args_printable ''d,Cv''"
  "\<not> args_printable ''d,Cz,CV''"
  "\<not> args_printable ''d,Cz,Co''"
  "\<not> args_printable ''d,s,t,1''"
  by code_simp+

section \<open>The rows of the table\<close>

definition printable_row :: "riscv_opcode \<Rightarrow> bool" where
  "printable_row op \<longleftrightarrow> op_pinfo op = INSN_MACRO \<or> args_printable (op_args op)"

lemma printable_row_opc: "printable_row (opc n x c a m k f p) \<longleftrightarrow> p = INSN_MACRO \<or> args_printable a"
  by (simp add: printable_row_def)

lemma printable_parts:
  "list_all printable_row riscv_opcodes_2"
  "list_all printable_row riscv_opcodes_3"
  "list_all printable_row riscv_opcodes_4"
  "list_all printable_row riscv_opcodes_5"
  "list_all printable_row riscv_opcodes_6"
  "list_all printable_row riscv_opcodes_7"
  "list_all printable_row riscv_opcodes_8"
  "list_all printable_row riscv_opcodes_9"
  "list_all printable_row riscv_opcodes_10"
  "list_all printable_row riscv_opcodes_11"
  "list_all printable_row riscv_opcodes_12"
  "list_all printable_row riscv_opcodes_13"
  "list_all printable_row riscv_opcodes_14"
  "list_all printable_row riscv_opcodes_15"
  "list_all printable_row riscv_opcodes_16"
  "list_all printable_row riscv_opcodes_17"
  "list_all printable_row riscv_opcodes_18"
  "list_all printable_row riscv_opcodes_19"
  by (simp_all only: riscv_opcodes_2_def riscv_opcodes_3_def riscv_opcodes_4_def
      riscv_opcodes_5_def riscv_opcodes_6_def riscv_opcodes_7_def riscv_opcodes_8_def
      riscv_opcodes_9_def riscv_opcodes_10_def riscv_opcodes_11_def riscv_opcodes_12_def
      riscv_opcodes_13_def riscv_opcodes_14_def riscv_opcodes_15_def riscv_opcodes_16_def
      riscv_opcodes_17_def riscv_opcodes_18_def riscv_opcodes_19_def
      list.pred_inject printable_row_opc args_printable_eval refl simp_thms)

text \<open>
  Seven rows have operands the printer does not know.  Each of them is covered by an earlier row
  that accepts every word it accepts, under the same conditions.
\<close>

definition covers :: "riscv_opcode \<Rightarrow> riscv_opcode \<Rightarrow> bool" where
  "covers e op \<longleftrightarrow>
     op_match e = op_match op \<and> op_mask e = op_mask op \<and> op_match_func e = op_match_func op \<and>
     op_insn_class e = op_insn_class op \<and> op_xlen_requirement e = op_xlen_requirement op \<and>
     op_pinfo e = op_pinfo op"

lemma covers_selects:
  assumes "covers e op" "selects na xl spt op word"
  shows "selects na xl spt e word"
proof -
  have m: "match_opcode e = match_opcode op"
    using assms(1) by (simp add: covers_def match_opcode_def fun_eq_iff)
  have p: "op_pinfo e = op_pinfo op" using assms(1) by (simp add: covers_def)
  have "call_match_func f e word = call_match_func f op word" for f
    by (cases f) (simp_all add: m p match_func_defs)
  then show ?thesis using assms by (simp add: selects_def covers_def)
qed

fun any_covers :: "riscv_opcode list \<Rightarrow> riscv_opcode \<Rightarrow> bool" where
  "any_covers [] op = False"
| "any_covers (e # es) op = (covers e op \<or> any_covers es op)"

lemma any_covers_iff: "any_covers es op \<longleftrightarrow> (\<exists>e\<in>set es. covers e op)"
  by (induction es) auto

fun covered_from :: "riscv_opcode list \<Rightarrow> riscv_opcode list \<Rightarrow> bool" where
  "covered_from seen [] = True"
| "covered_from seen (op # ops) =
     (if printable_row op then covered_from (op # seen) ops
      else any_covers seen op \<and> covered_from (op # seen) ops)"

lemma covered_from_find:
  assumes "covered_from seen ops" "\<forall>e\<in>set seen. \<not> selects na xl spt e word"
    "find (\<lambda>op. selects na xl spt op word) ops = Some op"
  shows "printable_row op"
  using assms
proof (induction ops arbitrary: seen)
  case (Cons a ops)
  show ?case
  proof (cases "selects na xl spt a word")
    case True
    then have a: "op = a" using Cons.prems(3) by simp
    show ?thesis
    proof (rule ccontr)
      assume "\<not> printable_row op"
      then obtain e where "e \<in> set seen" "covers e a"
        using Cons.prems(1) a by (auto simp: any_covers_iff)
      then show False using covers_selects True Cons.prems(2) by blast
    qed
  next
    case False
    then show ?thesis
      using Cons.IH [of "a # seen"] Cons.prems by (auto split: if_splits)
  qed
qed simp

lemma covers_opc:
  "covers (opc n x c a m k f p) (opc n' x' c' a' m' k' f' p') \<longleftrightarrow>
     m = m' \<and> k = k' \<and> f = f' \<and> c = c' \<and> x = x' \<and> p = p'"
  by (simp add: covers_def)

lemma not_macro: "(0 :: 64 word) \<noteq> INSN_MACRO" "(1 :: 64 word) \<noteq> INSN_MACRO" "(5 :: 64 word) \<noteq> INSN_MACRO"
  by simp_all

lemma covered_first: "covered_from [] riscv_opcodes_1"
  by (simp only: riscv_opcodes_1_def covered_from.simps printable_row_opc args_printable_eval
      args_not_printable_eval not_macro refl simp_thms if_True if_False covers_opc any_covers.simps
      cong: if_weak_cong)

lemma find_printable:
  assumes "find (\<lambda>op. selects na xl spt op word) riscv_opcodes = Some op"
  shows "printable_row op"
proof (cases "find (\<lambda>op. selects na xl spt op word) riscv_opcodes_1")
  case (Some e)
  then have "op = e" using assms by (simp add: riscv_opcodes_def find_append)
  then show ?thesis using covered_from_find [OF covered_first _ Some] by simp
next
  case None
  then have "op \<notin> set riscv_opcodes_1"
    using find_SomeD [OF assms] by (auto simp: find_None_iff)
  then show ?thesis
    using find_SomeD [OF assms] printable_parts by (auto simp: riscv_opcodes_def list_all_iff)
qed



section \<open>Addresses built by two instructions\<close>

named_theorems pd_simps "what the print functions leave of the private data"

lemma private_data_emit [pd_simps]:
  "private_data (emit is info) = private_data info" "dis_xlen (emit is info) = dis_xlen info"
  by (simp_all add: emit_def)

lemma private_data_print [pd_simps]:
  "private_data (print_text st t info) = private_data info" "dis_xlen (print_text st t info) = dis_xlen info"
  "private_data (gpr r info) = private_data info" "dis_xlen (gpr r info) = dis_xlen info"
  by (simp_all add: print_text_def gpr_def pd_simps)

lemma private_data_address [pd_simps]:
  "private_data (maybe_address r imm wide info) =
     maybe_print_address (dis_xlen info) r imm wide (private_data info)"
  "dis_xlen (maybe_address r imm wide info) = dis_xlen info"
  "private_data (set_hi_addr r a info) =
     (private_data info)\<lparr>pd_hi_addr := (pd_hi_addr (private_data info))[r := a]\<rparr>"
  "dis_xlen (set_hi_addr r a info) = dis_xlen info"
  by (simp_all add: maybe_address_def set_hi_addr_def)

lemmas operand_letters =
  print_insn_args_def print_operand_def Let_def

text \<open>The address as the disassembler cuts it.\<close>

definition shown_address :: "nat \<Rightarrow> bfd_vma \<Rightarrow> bfd_vma" where
  "shown_address xlen a = (if xlen = 32 then take_bit 32 a else a)"

text \<open>The upper part is remembered \<dots>\<close>

lemma print_upper:
  assumes "l AND MASK_AUIPC = MATCH_AUIPC \<or> l AND MASK_LUI = MATCH_LUI"
    "print_insn_args env ''d,u'' l pc info = Inr info'"
  shows "private_data info' = (private_data info)\<lparr>pd_hi_addr :=
           (pd_hi_addr (private_data info))[FIELD l OP_MASK_RD OP_SH_RD :=
             (if l AND MASK_AUIPC = MATCH_AUIPC then pc + EXTRACT_UTYPE_IMM l else EXTRACT_UTYPE_IMM l)]\<rparr>"
    and "dis_xlen info' = dis_xlen info"
  using assms by (auto simp: operand_letters print_rd_def pd_simps)

text \<open>\<dots> and the lower part completes it.\<close>

lemma maybe_print_address_hi:
  assumes "r < length (pd_hi_addr pd)" "pd_hi_addr pd ! r = hi" "hi \<noteq> - 1" "r \<noteq> 0"
  shows "maybe_print_address xlen r imm False pd =
           pd\<lparr>pd_hi_addr := (pd_hi_addr pd)[r := - 1], pd_print_addr := shown_address xlen (hi + c_int imm),
              pd_to_print_addr := True\<rparr>"
  using assms by (simp add: maybe_print_address_def shown_address_def Let_def)

lemma maybe_print_address_again:
  assumes "r < length (pd_hi_addr pd)" "pd_hi_addr pd ! r = - 1" "r \<notin> {0, X_GP, X_TP}"
  shows "maybe_print_address xlen r imm wide pd = pd"
  using assms by (simp add: maybe_print_address_def Let_def)

text \<open>A store, a load, or a jump: the operand strings \<open>t,q(s)\<close> and \<open>d,o(s)\<close>; \<^verbatim>\<open>addi\<close>: \<open>d,s,j\<close>.\<close>

inductive lower_part_use :: "string \<Rightarrow> insn_t \<Rightarrow> 64 word \<Rightarrow> bool" where
  store: "lower_part_use ''t,q(s)'' l (EXTRACT_STYPE_IMM l)" if "l AND 0x7f = 0x23"
| load: "lower_part_use ''d,o(s)'' l (EXTRACT_ITYPE_IMM l)" if "l AND 0x7f = 0x03"
| jump: "lower_part_use ''d,o(s)'' l (EXTRACT_ITYPE_IMM l)" if "l AND MASK_JALR = MATCH_JALR"
| addi: "lower_part_use ''d,s,j'' l (EXTRACT_ITYPE_IMM l)" if "l AND MASK_ADDI = MATCH_ADDI"

inductive_cases lower_part_useE: "lower_part_use args l imm"

lemma low7: "l AND 0x707f = m \<Longrightarrow> l AND 0x7f = m AND (0x7f :: insn_t)"
  by (auto simp: and.assoc)

lemma low2: "l AND 0xe003 = m \<Longrightarrow> l AND 3 = m AND (3 :: insn_t)" "l AND 0x7f = m \<Longrightarrow> l AND 3 = m AND (3 :: insn_t)"
  by (auto simp: and.assoc)

lemma lower_part_c_int:
  assumes "lower_part_use args l imm"
  shows "c_int imm = imm"
proof -
  have i: "c_int (EXTRACT_ITYPE_IMM l) = EXTRACT_ITYPE_IMM l"
    by (rule w64_eqI) (simp add: c_int_def EXTRACT_ITYPE_IMM_def cbits)
  have s: "c_int (EXTRACT_STYPE_IMM l) = EXTRACT_STYPE_IMM l"
    by (rule w64_eqI) (simp add: c_int_def EXTRACT_STYPE_IMM_def cbits)
  from assms show ?thesis by cases (simp_all add: i s)
qed

lemma lower_part_opcode:
  assumes "lower_part_use args l imm"
  shows "l AND 0x7f \<noteq> 0x17" "l AND 0x7f \<noteq> 0x37" "l AND 0xe003 \<noteq> 0x6001" "l AND 0x707f \<noteq> 0x1b"
proof -
  have o: "l AND 0x7f \<in> {0x23, 0x03, 0x67, 0x13}"
    using assms by cases (auto dest: low7)
  then show "l AND 0x7f \<noteq> 0x17" "l AND 0x7f \<noteq> 0x37" by auto
  show "l AND 0x707f \<noteq> 0x1b" using o by (auto dest: low7)
  show "l AND 0xe003 \<noteq> 0x6001" using o by (auto dest!: low2)
qed

lemma print_lower:
  assumes use: "lower_part_use args l imm"
    and run: "print_insn_args env args l pc info = Inr info'"
    and r: "r = FIELD l OP_MASK_RS1 OP_SH_RS1" "r \<notin> {0, X_GP, X_TP}"
    and hi: "r < length (pd_hi_addr (private_data info))" "pd_hi_addr (private_data info) ! r = hi" "hi \<noteq> - 1"
  shows "private_data info' = (private_data info)
           \<lparr>pd_hi_addr := (pd_hi_addr (private_data info))[r := - 1],
            pd_print_addr := shown_address (dis_xlen info) (hi + c_int imm), pd_to_print_addr := True\<rparr>"
proof -
  note o = lower_part_opcode [OF use]
  have r0: "r \<noteq> 0" using r(2) by simp
  define mpa where "mpa = maybe_print_address (dis_xlen info) r imm False"
  have once: "mpa (private_data info) = (private_data info)
      \<lparr>pd_hi_addr := (pd_hi_addr (private_data info))[r := - 1],
       pd_print_addr := shown_address (dis_xlen info) (hi + c_int imm), pd_to_print_addr := True\<rparr>"
    unfolding mpa_def using maybe_print_address_hi [OF hi r0] by simp
  have twice: "mpa (mpa (private_data info)) = mpa (private_data info)"
    unfolding once unfolding mpa_def using hi(1) r(2) by (intro maybe_print_address_again) simp_all
  note letters = operand_letters print_rd_def print_itype_def pd_simps r(1) [symmetric] mpa_def
  from use have "private_data info' = mpa (private_data info) \<or>
      private_data info' = mpa (mpa (mpa (private_data info)))"
  proof cases
    case store
    then have "l AND 0x707f \<noteq> 0x67" by (auto dest: low7)
    then show ?thesis using run o by (auto simp: store letters)
  next
    case load
    then have "l AND 0x707f \<noteq> 0x67" "l AND 0x707f \<noteq> 0x13" by (auto dest: low7)
    then show ?thesis using run o by (auto simp: load letters)
  next
    case jump
    then have "l AND 0x707f \<noteq> 0x13" by auto
    then show ?thesis using run o by (auto simp: jump letters)
  next
    case addi
    then have "l AND 0x707f \<noteq> 0x67" by auto
    then show ?thesis using run o r0 by (auto simp: addi letters)
  qed
  then show ?thesis using once twice by auto
qed



text \<open>
  The exception is a fault: a jump asks for its address comment three times, and with the base
  register \<open>gp\<close> (when the symbol table defines it) or \<open>tp\<close> the second question, asked after the
  upper part has been forgotten, overwrites the address.  What is announced is the offset from
  \<open>__global_pointer$\<close>, or the bare offset, and not the address \<open>hi + imm\<close> that \<^verbatim>\<open>auipc\<close> and \<^verbatim>\<open>jalr\<close> jump to.
\<close>

theorem jalr_gp_tp_address_comment:
  assumes "l AND MASK_JALR = MATCH_JALR" "FIELD l OP_MASK_RS1 OP_SH_RS1 = r"
    "r = X_GP \<and> pd_has_gp (private_data info) \<or> r = X_TP"
    "length (pd_hi_addr (private_data info)) = 32" "pd_hi_addr (private_data info) ! r \<noteq> - 1"
    "print_insn_args env ''d,o(s)'' l pc info = Inr info'"
  shows "pd_to_print_addr (private_data info') \<and>
         pd_print_addr (private_data info') =
           shown_address (dis_xlen info)
             ((if r = X_GP then pd_gp (private_data info) else 0) + EXTRACT_ITYPE_IMM l)"
proof -
  let ?imm = "EXTRACT_ITYPE_IMM l"
  define mpa where "mpa = maybe_print_address (dis_xlen info) r ?imm False"
  have use: "lower_part_use ''d,o(s)'' l ?imm" using assms(1) by (rule lower_part_use.jump)
  have "l AND 0x707f \<noteq> 0x13" using assms(1) by auto
  then have run: "private_data info' = mpa (mpa (mpa (private_data info)))"
    using assms(1,6) lower_part_opcode [OF use]
    by (auto simp: operand_letters print_rd_def print_itype_def pd_simps assms(2) mpa_def)
  have r: "r < 32" "r \<noteq> 0" using assms(3) by auto
  have i: "c_int ?imm = ?imm" using use by (rule lower_part_c_int)
  have base: "mpa pd = pd\<lparr>pd_print_addr :=
        shown_address (dis_xlen info) ((if r = X_GP then pd_gp pd else 0) + ?imm), pd_to_print_addr := True\<rparr>"
    if "pd_hi_addr pd ! r = - 1" "pd_has_gp pd = pd_has_gp (private_data info)" for pd
    using that assms(3) i by (auto simp: mpa_def maybe_print_address_def shown_address_def Let_def)
  define pd1 where "pd1 = mpa (private_data info)"
  have pd1: "pd_hi_addr pd1 ! r = - 1" "pd_has_gp pd1 = pd_has_gp (private_data info)"
    "pd_gp pd1 = pd_gp (private_data info)"
    using assms(4,5) r by (auto simp: pd1_def mpa_def maybe_print_address_hi)
  then show ?thesis using run base [OF pd1(1,2)] base [of "mpa pd1"] by (simp add: pd1_def [symmetric])
qed

lemma jalr_gp_tp_address_comment_witness:
  "\<exists>info'. print_insn_args env0 ''d,o(s)'' 0x8200e7 0
      (info0\<lparr>private_data := (private_data info0)\<lparr>pd_hi_addr := (replicate 32 (- 1))[4 := 0x11000]\<rparr>\<rparr>) = Inr info' \<and>
    pd_print_addr (private_data info') = 8"
proof -
  let ?i = "info0\<lparr>private_data := (private_data info0)\<lparr>pd_hi_addr := (replicate 32 (- 1))[4 := 0x11000]\<rparr>\<rparr>"
  obtain info' where run: "print_insn_args env0 ''d,o(s)'' 0x8200e7 0 ?i = Inr info'"
    by (simp add: operand_letters)
  have f: "FIELD 0x8200e7 OP_MASK_RS1 OP_SH_RS1 = 4" "EXTRACT_ITYPE_IMM 0x8200e7 = 8"
    by code_simp+
  have "pd_print_addr (private_data info') = shown_address (dis_xlen ?i) (0 + 8)"
    using jalr_gp_tp_address_comment [OF _ f(1) _ _ _ run] f(2) by simp
  then show ?thesis using run by (auto simp: shown_address_def info0_def)
qed

section \<open>The fallback directive\<close>

fun hex_value :: "string \<Rightarrow> nat" where
  "hex_value [] = 0"
| "hex_value (c # cs) =
     (if of_char c < (58 :: nat) then of_char c - 48 else of_char c - 87) * 16 ^ length cs + hex_value cs"

lemma hex_value_append: "hex_value (s @ t) = hex_value s * 16 ^ length t + hex_value t"
  by (induction s) (auto simp: power_add algebra_simps)

lemma hex_value_digit: "d < 16 \<Longrightarrow> hex_value [hex_digit d] = d"
  by (auto simp: of_char_of)

lemma hex_value_hex: "hex_value (hex n) = n"
proof (induction n rule: hex.induct)
  case (1 n)
  show ?case
  proof (cases "n < 16")
    case True
    then show ?thesis using hex_value_digit [OF True] by (simp add: hex.simps [of n] del: hex_digit.simps)
  next
    case False
    then show ?thesis
      using 1 hex_value_digit [of "n mod 16"]
      by (simp add: hex.simps [of n] hex_value_append del: hex_digit.simps hex_value.simps(2))
  qed
qed

lemma length_hex: "n < 16 ^ Suc k \<Longrightarrow> length (hex n) \<le> Suc k"
proof (induction k arbitrary: n)
  case 0
  then show ?case by (simp add: hex.simps)
next
  case (Suc k)
  then have "n div 16 < 16 ^ Suc k" by (simp add: less_mult_imp_div_less mult.commute)
  then show ?case using Suc.IH by (simp add: hex.simps [of n])
qed

lemma hex_value_zeros: "hex_value (replicate k (CHR ''0'') @ s) = hex_value s"
  by (induction k) auto

lemma hex4_value: "hex_value (hex4 n) = n"
  by (simp add: hex4_def hex_value_zeros hex_value_hex)

lemma length_hex4: "n < 65536 \<Longrightarrow> length (hex4 n) = 4"
  using length_hex [of n 3] by (simp add: hex4_def)

text \<open>The value of bytes in little-endian order.\<close>

fun le_value :: "bfd_byte list \<Rightarrow> nat" where
  "le_value [] = 0"
| "le_value (b # bs) = unat b + 256 * le_value bs"

lemma le_value_append: "le_value (xs @ ys) = le_value xs + 256 ^ length xs * le_value ys"
  by (induction xs) (auto simp: algebra_simps)

lemma parcel_value:
  assumes "2 \<le> length p"
  shows "unat (bfd_get_bits p 16) = le_value (take 2 p)" "le_value (take 2 p) < 65536"
    "unat (take_bit 32 (bfd_get_bits p 16)) = unat (bfd_get_bits p 16)"
proof -
  obtain a b r where p: "p = a # b # r" using assms by (cases p; cases "tl p") auto
  have a8: "bit a n \<Longrightarrow> n < 8" for n using bit_imp_le_length [of a n] by simp
  have "bfd_get_bits p 16 = shl (ucast b) 8 OR ucast a"
    by (simp add: p bfd_get_bits_def numeral_2_eq_2)
  also have "\<dots> = shl (ucast b) 8 + ucast a"
  proof (rule disjunctive_add_eq_or [symmetric], rule bit_word_eqI)
    fix n show "bit (shl (ucast b) 8 AND (ucast a :: insn_t)) n \<longleftrightarrow> bit 0 n"
      using a8 [of n] by (cases "bit a n") (simp_all add: cbits bit_simps)
  qed
  also have "\<dots> = of_nat (unat a + 256 * unat b)"
    by (simp add: shl_def push_bit_eq_mult)
  finally have w: "bfd_get_bits p 16 = of_nat (unat a + 256 * unat b)" .
  have "unat a < 2 ^ LENGTH(8)" "unat b < 2 ^ LENGTH(8)" by (rule unsigned_less)+
  then have n: "unat a + 256 * unat b < 65536" by simp
  have u: "unat (bfd_get_bits p 16) = unat a + 256 * unat b"
    unfolding w unat_of_nat using n by simp
  then show "unat (bfd_get_bits p 16) = le_value (take 2 p)" by (simp add: p numeral_2_eq_2)
  show "le_value (take 2 p) < 65536" using n by (simp add: p numeral_2_eq_2)
  show "unat (take_bit 32 (bfd_get_bits p 16)) = unat (bfd_get_bits p 16)"
    using u n by (simp add: unsigned_take_bit_eq take_bit_nat_eq_self)
qed

text \<open>The text behind \<open>0x\<close>.\<close>

definition item_text :: "dis_item \<Rightarrow> string" where
  "item_text i = (case i of Styled st t \<Rightarrow> t | _ \<Rightarrow> [])"

definition parcel_digits :: "bfd_byte list \<Rightarrow> nat \<Rightarrow> bool \<Rightarrow> string" where
  "parcel_digits packet k any = concat (map item_text (insn_parcels packet k any))"

lemma parcel_digits_Suc:
  assumes "2 * Suc k \<le> length packet"
  shows "parcel_digits packet (Suc k) any =
           (if le_value (take 2 (drop (2 * k) packet)) = 0 \<and> \<not> any then parcel_digits packet k any
            else hex4 (le_value (take 2 (drop (2 * k) packet))) @ parcel_digits packet k True)"
proof -
  note v = parcel_value [of "drop (2 * k) packet"]
  have l: "2 \<le> length (drop (2 * k) packet)" using assms by simp
  have "bfd_get_bits (drop (2 * k) packet) 16 = 0 \<longleftrightarrow> le_value (take 2 (drop (2 * k) packet)) = 0"
    using v(1) [OF l] by (metis unat_eq_zero)
  then show ?thesis
    using v(1,3) [OF l] by (simp add: parcel_digits_def item_text_def Let_def)
qed

lemma le_value_parcel:
  "2 * Suc k \<le> length packet \<Longrightarrow>
     le_value (take (2 * Suc k) packet) =
       le_value (take (2 * k) packet) + 65536 ^ k * le_value (take 2 (drop (2 * k) packet))"
  using le_value_append [of "take (2 * k) packet" "take 2 (drop (2 * k) packet)"]
    take_add [of "2 * k" 2 packet] by (simp add: min_def power_mult)

lemma parcel_digits_all:
  "2 * k \<le> length packet \<Longrightarrow>
     length (parcel_digits packet k True) = 4 * k \<and>
     hex_value (parcel_digits packet k True) = le_value (take (2 * k) packet)"
proof (induction k)
  case 0
  then show ?case by (simp add: parcel_digits_def)
next
  case (Suc k)
  have n: "le_value (take 2 (drop (2 * k) packet)) < 65536"
    using Suc.prems by (intro parcel_value(2)) simp
  have "(16 :: nat) ^ (4 * k) = 65536 ^ k" by (simp add: power_mult)
  then show ?case
    using Suc parcel_digits_Suc [OF Suc.prems, of True] le_value_parcel [OF Suc.prems] length_hex4 [OF n]
    by (simp add: hex_value_append hex4_value)
qed

lemma parcel_digits_value:
  "2 * k \<le> length packet \<Longrightarrow>
     hex_value (parcel_digits packet k False) = le_value (take (2 * k) packet) \<and>
     (parcel_digits packet k False = [] \<longleftrightarrow> le_value (take (2 * k) packet) = 0)"
proof (induction k)
  case 0
  then show ?case by (simp add: parcel_digits_def)
next
  case (Suc k)
  let ?w = "le_value (take 2 (drop (2 * k) packet))"
  note d = parcel_digits_Suc [OF Suc.prems, of False] le_value_parcel [OF Suc.prems]
  show ?case
  proof (cases "?w = 0")
    case True
    then show ?thesis using Suc d by simp
  next
    case False
    have n: "?w < 65536" using Suc.prems by (intro parcel_value(2)) simp
    have "hex4 ?w \<noteq> []" using length_hex4 [OF n] by auto
    moreover have "(16 :: nat) ^ (4 * k) = 65536 ^ k" by (simp add: power_mult)
    ultimately show ?thesis
      using False d parcel_digits_all [of k packet] Suc.prems by (simp add: hex_value_append hex4_value)
  qed
qed

text \<open>
  For a word that is in no table entry the disassembler prints \<open>.insn\<close>, the length, and after \<open>0x\<close>
  the parcels of the instruction: read as a hexadecimal number they are exactly the bytes of the
  instruction in little-endian order, whatever its length.  But leading zero parcels are
  suppressed without keeping a last one: when all bytes are zero no digit at all follows \<open>0x\<close>, and
  only then.
\<close>

theorem insn_directive_value:
  assumes "even insnlen" "insnlen \<le> length packet"
    "digits = concat (map item_text (drop 5 (insn_directive insnlen packet)))"
  shows "hex_value digits = le_value (take insnlen packet) \<and>
         (digits = [] \<longleftrightarrow> le_value (take insnlen packet) = 0)"
proof -
  have "digits = parcel_digits packet (insnlen div 2) False"
    using assms(3) by (simp add: insn_directive_def parcel_digits_def)
  then show ?thesis using parcel_digits_value [of "insnlen div 2" packet] assms(1,2) by simp
qed

lemma insn_directive_value_witness:
  "hex_value ''12345678'' = 0x12345678"
  using insn_directive_value [of 4 "[0x78, 0x56, 0x34, 0x12]" "''12345678''"]
  by (simp add: insn_directive_def numeral_2_eq_2 bfd_get_bits_def item_text_def)

section \<open>The zero parcel\<close>

text \<open>The entries the word 0 can match belong to the compressed base set.\<close>

definition zero_row :: "riscv_opcode \<Rightarrow> bool" where
  "zero_row op \<longleftrightarrow> op_pinfo op = INSN_MACRO \<or> op_insn_class op = INSN_CLASS_C \<or>
     op_match op AND op_mask op \<noteq> 0"

lemma zero_row_opc:
  "zero_row (opc n x c a m k f p) \<longleftrightarrow> p = INSN_MACRO \<or> c = INSN_CLASS_C \<or> m AND k \<noteq> 0"
  by (simp add: zero_row_def)

lemma zero_parts:
  "list_all zero_row riscv_opcodes_1"
  "list_all zero_row riscv_opcodes_2"
  "list_all zero_row riscv_opcodes_3"
  "list_all zero_row riscv_opcodes_4"
  "list_all zero_row riscv_opcodes_5"
  "list_all zero_row riscv_opcodes_6"
  "list_all zero_row riscv_opcodes_7"
  "list_all zero_row riscv_opcodes_8"
  "list_all zero_row riscv_opcodes_9"
  "list_all zero_row riscv_opcodes_10"
  "list_all zero_row riscv_opcodes_11"
  "list_all zero_row riscv_opcodes_12"
  "list_all zero_row riscv_opcodes_13"
  "list_all zero_row riscv_opcodes_14"
  "list_all zero_row riscv_opcodes_15"
  "list_all zero_row riscv_opcodes_16"
  "list_all zero_row riscv_opcodes_17"
  "list_all zero_row riscv_opcodes_18"
  "list_all zero_row riscv_opcodes_19"
  by (simp_all only: riscv_opcodes_1_def riscv_opcodes_2_def riscv_opcodes_3_def
      riscv_opcodes_4_def riscv_opcodes_5_def riscv_opcodes_6_def riscv_opcodes_7_def
      riscv_opcodes_8_def riscv_opcodes_9_def riscv_opcodes_10_def riscv_opcodes_11_def
      riscv_opcodes_12_def riscv_opcodes_13_def riscv_opcodes_14_def riscv_opcodes_15_def
      riscv_opcodes_16_def riscv_opcodes_17_def riscv_opcodes_18_def riscv_opcodes_19_def
      list.pred_inject zero_row_opc word_num_eval refl) simp_all

lemma riscv_opcodes_zero: "list_all zero_row riscv_opcodes"
  by (simp add: riscv_opcodes_def zero_parts)

lemma search_zero:
  assumes "\<not> supports INSN_CLASS_C"
  shows "riscv_search_insn no_aliases xlen supports 0 = Inr None"
proof -
  have "\<not> selects no_aliases xlen supports op 0" if op: "op \<in> set riscv_opcodes" for op
  proof
    assume sel: "selects no_aliases xlen supports op 0"
    have "entry_fine op" using op riscv_opcodes_fine by (simp add: list_all_iff)
    then have "match_opcode op 0" using sel by (rule selects_match)
    then have "op_match op AND op_mask op = 0" by (simp add: match_opcode_def)
    moreover have "zero_row op" using op riscv_opcodes_zero by (simp add: list_all_iff)
    ultimately show False using sel assms by (auto simp: zero_row_def selects_def)
  qed
  then show ?thesis by (auto simp: riscv_search_insn_find find_None_iff)
qed

text \<open>
  The missing digits are reachable: without the compressed instructions the parcel of two zero
  bytes is in no table entry, and \<open>riscv_disassemble_insn\<close> prints \<open>.insn\<close>, a tab, \<open>2, 0x\<close> and nothing more,
  which is not a number.
\<close>

theorem zero_parcel_without_digits:
  assumes "\<not> env_multi_subset_supports env INSN_CLASS_C"
  shows "\<exists>info'. riscv_disassemble_insn env memaddr 0 [0, 0] info = Inr (2, info') \<and>
           info_stream info' = info_stream info @
             [Styled dis_style_assembler_directive ''.insn'', Styled dis_style_text [char_of (9 :: nat)],
              Styled dis_style_immediate ''2'', Styled dis_style_text '', '',
              Styled dis_style_immediate ''0x'']"
proof -
  have "riscv_insn_length 0 = 2" by (simp add: riscv_insn_length_def)
  moreover have "insn_directive 2 [0, 0] =
      [Styled dis_style_assembler_directive ''.insn'', Styled dis_style_text [char_of (9 :: nat)],
       Styled dis_style_immediate ''2'', Styled dis_style_text '', '', Styled dis_style_immediate ''0x'']"
    by code_simp
  ultimately show ?thesis
    using search_zero [of "env_multi_subset_supports env"] assms
    by (simp add: riscv_disassemble_insn_def Let_def emit_def reset_info_def set_fpr_names_def set_xlen_def
        split: bfd_mach.splits option.splits)
qed

lemma zero_parcel_without_digits_witness:
  "\<exists>info'. riscv_disassemble_insn env0 0 0 [0, 0] info0 = Inr (2, info') \<and>
     info_stream info' =
       [Styled dis_style_assembler_directive ''.insn'', Styled dis_style_text [char_of (9 :: nat)],
        Styled dis_style_immediate ''2'', Styled dis_style_text '', '', Styled dis_style_immediate ''0x'']"
  using zero_parcel_without_digits [of env0 0 info0] by (simp add: env0_def info0_def)

end
