(* ===== verification/RV_Entry.thy ===== *)
theory RV_Entry
  imports RV_Map_Laws RV_Print_Laws
begin

text \<open>
  The entry point of the disassembler as a whole: every call returns, and either reports a memory error
  or consumes at least one byte and no more than the buffer holds.
\<close>

section \<open>Lengths\<close>

definition RISCV_MAX_INSN_LEN :: nat where
  "RISCV_MAX_INSN_LEN = 22"

lemma insn_length_field:
  assumes "insn AND 0x7000 \<noteq> (0x7000 :: insn_t)"
  shows "unat (shr insn 11 AND 0xe) \<le> 12"
proof -
  let ?f = "shr insn 11 AND 0xe"
  have "unat ?f \<le> 14" using word_and_le1 [of "shr insn 11" 14] by (simp add: word_le_nat_alt)
  moreover have "unat ?f \<noteq> 14"
  proof
    assume "unat ?f = 14"
    then have "?f = 14" by (metis of_nat_numeral of_nat_unat ucast_id)
    then have "bit ?f 1 \<and> bit ?f 2 \<and> bit ?f 3" by simp
    then have "bit insn 12 \<and> bit insn 13 \<and> bit insn 14" by (simp add: bit_simps cbits)
    then have "insn AND 0x7000 = 0x7000"
      by (intro w64_eqI) (auto simp: bit_simps cbits)
    with assms show False by simp
  qed
  moreover have "unat ?f \<noteq> 13"
  proof
    assume "unat ?f = 13"
    then have "?f = 13" by (metis of_nat_numeral of_nat_unat ucast_id)
    then have "bit ?f 0" by simp
    then show False by (simp add: bit_simps)
  qed
  ultimately show ?thesis by linarith
qed

lemma riscv_insn_length_bounds: "2 \<le> riscv_insn_length insn" "riscv_insn_length insn \<le> RISCV_MAX_INSN_LEN"
  using insn_length_field [of insn] by (auto simp: riscv_insn_length_def RISCV_MAX_INSN_LEN_def)

section \<open>Printing an instruction always ends\<close>

lemma disassemble_insn_defined:
  "\<exists>info'. riscv_disassemble_insn env pc word packet info = Inr (riscv_insn_length word, info')"
proof -
  define i where "i = (let info = reset_info (riscv_insn_length word) info
      in if riscv_hash riscv_opcodes ! unat (OP_HASH_IDX word) \<noteq> None
         then set_fpr_names env (set_xlen env info) else info)"
  define f where "f = find (\<lambda>op. selects (dis_no_aliases i) (dis_xlen i) (env_multi_subset_supports env) op word)
      riscv_opcodes"
  have eq: "riscv_disassemble_insn env pc word packet info =
      (case f of
         Some op \<Rightarrow>
           (case print_insn_args env (op_args op) word pc (print_text dis_style_mnemonic (op_name op) i) of
              Inr info' \<Rightarrow> Inr (riscv_insn_length word, finish_insn op info')
            | Inl (Internal_error info') \<Rightarrow> Inr (riscv_insn_length word, finish_insn op info')
            | Inl Ran_past_end \<Rightarrow> Inl Args_past_end)
       | None \<Rightarrow> Inr (riscv_insn_length word,
           emit (insn_directive (riscv_insn_length word) packet) (i\<lparr>info_insn_type := dis_noninsn\<rparr>)))"
    unfolding riscv_disassemble_insn_def riscv_search_insn_find f_def i_def Let_def by (simp only: sum.case)
  show ?thesis
  proof (cases f)
    case (Some op)
    then have "printable_row op" "op_pinfo op \<noteq> INSN_MACRO"
      using find_printable find_SomeD unfolding f_def by (blast, fastforce simp: selects_def)
    then have "args_printable (op_args op)" by (simp add: printable_row_def)
    from print_args_complete [OF this] obtain info' where
      "print_insn_args env (op_args op) word pc (print_text dis_style_mnemonic (op_name op) i) = Inr info'"
      unfolding print_insn_args_def by blast
    with eq Some show ?thesis by simp
  qed (simp add: eq)
qed

section \<open>Every call makes progress\<close>

text \<open>What a call may return.\<close>

definition progress :: "bfd_vma \<Rightarrow> int \<times> dis_state \<Rightarrow> bool" where
  "progress a = (\<lambda>(r, ds).
     r = - 1 \<and> ds_reports ds \<noteq> [] \<and> last (ds_reports ds) = Memory_report a \<or>
     0 < r \<and> r \<le> int RISCV_MAX_INSN_LEN)"

lemma progress_memory_error: "progress a (memory_error_func a ds)"
  by (simp add: progress_def memory_error_func_def)

lemma dump_insn_progress: "\<exists>x. dump_insn host a ds = Some x \<and> progress a x"
proof (cases "host_read host a 2")
  case None
  then show ?thesis by (simp add: dump_insn_def progress_memory_error)
next
  case (Some first)
  define n where "n = riscv_insn_length (bfd_get_bits first 16)"
  show ?thesis
  proof (cases "host_read host a n")
    case None
    with Some show ?thesis by (simp add: dump_insn_def progress_memory_error n_def)
  next
    case (Some packet)
    define word where "word = bfd_get_bits packet (n * 8)"
    obtain info' where "riscv_disassemble_insn (env_of host (riscv_rps_dis (ds_map ds))) a word packet (ds_info ds) =
        Inr (riscv_insn_length word, info')"
      using disassemble_insn_defined by blast
    moreover have "0 < riscv_insn_length word"
      using riscv_insn_length_bounds(1) [of word] by linarith
    ultimately show ?thesis
      using Some \<open>host_read host a 2 = Some first\<close> riscv_insn_length_bounds(2) [of word]
      by (simp add: dump_insn_def progress_def n_def [symmetric] word_def [symmetric])
  qed
qed

lemma dump_data_progress:
  assumes "tab_ok sec tab" "query_ok sec tab a mi" "a < sec_vma sec + sec_size sec"
  shows "\<exists>x. dump_data host mi a ds = Some x \<and> progress a x"
proof -
  obtain d st where d: "riscv_data_length mi a (ds_map ds) = Some (d, st)" "d \<in> {1, 2, 4}"
    using data_length_range [OF assms] by blast
  have n: "0 < uint d" "uint d \<le> int RISCV_MAX_INSN_LEN" using d(2) by (auto simp: RISCV_MAX_INSN_LEN_def)
  show ?thesis
  proof (cases "host_read host a (unat d)")
    case None
    with d show ?thesis by (simp add: dump_data_def progress_memory_error Let_def)
  next
    case (Some packet)
    obtain info' where "riscv_disassemble_data (bfd_get_bits packet (unat d * 8))
        ((ds_info (set_map_state st ds))\<lparr>info_bytes_per_chunk := unat d\<rparr>) = Some (unat d, info')"
      using disassemble_data_defined [OF d(2)] by blast
    with Some d n show ?thesis by (simp add: dump_data_def progress_def Let_def)
  qed
qed

lemma search_defined:
  assumes "tab_ok sec tab" "query_ok sec tab a mi"
  obtains mstate st' where "riscv_search_mapping_symbol mi a st = Some (mstate, st')"
  using search_hit [of st mi a] search_miss [OF assms, of st] by (cases "cached mi a st") blast+



end
