(* ===== verification/RV_Merge.thy ===== *)
theory RV_Merge
  imports RV_Roundtrip
begin

text \<open>
  Merging the ISA strings of two object files, from \<^verbatim>\<open>bfd/elfnn-riscv.c\<close>: \<open>riscv_merge_arch_attr_info\<close>
  with \<open>riscv_merge_std_ext\<close> and \<open>riscv_merge_multi_letter_ext\<close>.  The three lists of extensions are static
  variables and live in a state; \<open>ARCH_SIZE\<close> is an argument.  A pointer to a node is the list of the
  nodes from there on, and a change of a node is written back to its list.  \<open>None\<close> stands for an
  access through a null pointer or outside of an array.
\<close>

section \<open>State\<close>

datatype ld_error =
    Isa_error rps_error
  | Corrupted_isa string string
  | Mismatched_base string string
  | Mismatched_isa string string
  | Unsupported_xlen nat

record arch_state =
  in_subsets :: riscv_subset_list
  out_subsets :: riscv_subset_list
  merged_subsets :: riscv_subset_list
  arch_errors :: "ld_error list"

definition arch_error :: "ld_error \<Rightarrow> arch_state \<Rightarrow> arch_state" where
  "arch_error e st = st\<lparr>arch_errors := arch_errors st @ [e]\<rparr>"

section \<open>Standard extensions\<close>

definition riscv_std_ext_p :: "string \<Rightarrow> bool" where
  "riscv_std_ext_p name \<longleftrightarrow>
     length name = 1 \<and> c_char name 0 \<noteq> CHR ''x'' \<and> c_char name 0 \<noteq> CHR ''s''"

text \<open>The output node after the update; the pointers are never null where it is called.\<close>

definition riscv_update_subset_version :: "riscv_subset \<Rightarrow> riscv_subset \<Rightarrow> riscv_subset" where
  "riscv_update_subset_version i o' =
     (if ss_major_version i > ss_major_version o' \<or>
         (ss_major_version i = ss_major_version o' \<and> ss_minor_version i > ss_minor_version o') \<or>
         ss_major_version o' = RISCV_UNKNOWN_VERSION
      then o'\<lparr>ss_major_version := ss_major_version i, ss_minor_version := ss_minor_version i\<rparr>
      else o')"

definition riscv_i_or_e_p :: "string \<Rightarrow> riscv_subset \<Rightarrow> arch_state \<Rightarrow> bool \<times> arch_state" where
  "riscv_i_or_e_p arch s st =
     (if strcasecmp (ss_name s) ''e'' \<noteq> 0 \<and> strcasecmp (ss_name s) ''i'' \<noteq> 0
      then (False, arch_error (Corrupted_isa arch (ss_name s)) st)
      else (True, st))"

definition add_merged :: "riscv_subset \<Rightarrow> arch_state \<Rightarrow> arch_state option" where
  "add_merged s st =
     map_option (\<lambda>sl. st\<lparr>merged_subsets := sl\<rparr>)
       (riscv_add_subset (merged_subsets st) (ss_name s) (ss_major_version s) (ss_minor_version s))"

definition write_out :: "nat \<Rightarrow> riscv_subset \<Rightarrow> arch_state \<Rightarrow> arch_state" where
  "write_out k s st =
     st\<lparr>out_subsets := (out_subsets st)\<lparr>sl_head := (sl_head (out_subsets st))[k := s]\<rparr>\<rparr>"

definition standard_exts :: string where
  "standard_exts = ''mafdqlcbjtpvnh''"

definition merge_std_one :: "char \<Rightarrow> arch_state \<Rightarrow> arch_state option" where
  "merge_std_one p st = do {
     (find_in, ext_in) \<leftarrow> riscv_lookup_subset (in_subsets st) [p];
     (find_out, ext_out) \<leftarrow> riscv_lookup_subset (out_subsets st) [p];
     let i = sl_head (in_subsets st) ! the ext_in;
     let o' = sl_head (out_subsets st) ! the ext_out;
     if \<not> find_in \<and> \<not> find_out then Some st
     else if find_in \<and> find_out
     then (let o'' = riscv_update_subset_version i o'
           in add_merged o'' (write_out (the ext_out) o'' st))
     else add_merged (if find_out then o' else i) st
   }"

fun merge_std_loop :: "string \<Rightarrow> arch_state \<Rightarrow> arch_state option" where
  "merge_std_loop [] st = Some st"
| "merge_std_loop (p # ps) st = do {
     st' \<leftarrow> merge_std_one p st;
     merge_std_loop ps st'
   }"

text \<open>The result: whether the merge worked, and where the other extensions begin in the two lists.\<close>

definition riscv_merge_std_ext ::
    "string \<Rightarrow> string \<Rightarrow> arch_state
     \<Rightarrow> ((riscv_subset list \<times> riscv_subset list) option \<times> arch_state) option" where
  "riscv_merge_std_ext in_arch out_arch st =
     (case (sl_head (in_subsets st), sl_head (out_subsets st)) of
        (i # ins, outs0) \<Rightarrow>
          (let (ok, st) = riscv_i_or_e_p in_arch i st
           in if \<not> ok then Some (None, st)
              else case outs0 of
                [] \<Rightarrow> None
              | o' # _ \<Rightarrow>
                  (let (ok, st) = riscv_i_or_e_p out_arch o' st
                   in if \<not> ok then Some (None, st)
                      else if strcasecmp (ss_name i) (ss_name o') \<noteq> 0
                      then Some (None, arch_error (Mismatched_base (ss_name i) (ss_name o')) st)
                      else do {
                        let o'' = riscv_update_subset_version i o';
                        st \<leftarrow> add_merged o'' (write_out 0 o'' st);
                        st \<leftarrow> merge_std_loop standard_exts st;
                        Some (Some (dropWhile (\<lambda>s. riscv_std_ext_p (ss_name s)) ins,
                                    dropWhile (\<lambda>s. riscv_std_ext_p (ss_name s))
                                      (tl (sl_head (out_subsets st)))), st)
                      }))
      | ([], _) \<Rightarrow> None)"

section \<open>The other extensions\<close>

fun add_all :: "riscv_subset list \<Rightarrow> arch_state \<Rightarrow> arch_state option" where
  "add_all [] st = Some st"
| "add_all (s # ss) st = do {
     st' \<leftarrow> add_merged s st;
     add_all ss st'
   }"

fun riscv_merge_multi_letter_ext ::
    "riscv_subset list \<Rightarrow> riscv_subset list \<Rightarrow> arch_state \<Rightarrow> arch_state option" where
  "riscv_merge_multi_letter_ext (i # ins) (o' # outs) st = do {
     cmp \<leftarrow> riscv_compare_subsets (ss_name i) (ss_name o');
     if cmp < 0 then do {
       st' \<leftarrow> add_merged i st;
       riscv_merge_multi_letter_ext ins (o' # outs) st'
     }
     else if cmp > 0 then do {
       st' \<leftarrow> add_merged o' st;
       riscv_merge_multi_letter_ext (i # ins) outs st'
     }
     else do {
       let o'' = riscv_update_subset_version i o';
       st' \<leftarrow> add_merged o''
                (write_out (length (sl_head (out_subsets st)) - length (o' # outs)) o'' st);
       riscv_merge_multi_letter_ext ins outs st'
     }
   }"
| "riscv_merge_multi_letter_ext [] outs st = add_all outs st"
| "riscv_merge_multi_letter_ext ins [] st = add_all ins st"

section \<open>Two ISA strings\<close>

text \<open>The local \<open>riscv_parse_subset_t\<close>; its \<open>xlen\<close> has no value before the parser sets it.\<close>

definition ld_rps :: "riscv_subset_list \<Rightarrow> riscv_parse_subset_t" where
  "ld_rps sl = \<lparr>rps_subset_list = sl, rps_errors = [], rps_xlen = 0, rps_isa_spec = None,
                rps_check_unknown_prefixed_ext = False\<rparr>"

definition parse_errors :: "riscv_parse_subset_t \<Rightarrow> arch_state \<Rightarrow> arch_state" where
  "parse_errors rps st = st\<lparr>arch_errors := arch_errors st @ map Isa_error (rps_errors rps)\<rparr>"

definition release_all :: "arch_state \<Rightarrow> arch_state" where
  "release_all st =
     st\<lparr>in_subsets := riscv_release_subset_list (in_subsets st),
        out_subsets := riscv_release_subset_list (out_subsets st),
        merged_subsets := riscv_release_subset_list (merged_subsets st)\<rparr>"

text \<open>The part behind the two parsers, with the widths they found.\<close>

definition merge_parsed ::
    "nat \<Rightarrow> string \<Rightarrow> string \<Rightarrow> nat \<Rightarrow> nat \<Rightarrow> arch_state \<Rightarrow> (string option \<times> arch_state) option" where
  "merge_parsed arch_size in_arch out_arch xlen_in xlen_out st =
     (if xlen_out \<noteq> xlen_in then Some (None, arch_error (Mismatched_isa in_arch out_arch) st)
      else do {
        (std, st) \<leftarrow> riscv_merge_std_ext in_arch out_arch st;
        case std of
          None \<Rightarrow> Some (None, st)
        | Some (ins, outs) \<Rightarrow> do {
            st \<leftarrow> riscv_merge_multi_letter_ext ins outs st;
            if xlen_in \<noteq> arch_size then Some (None, arch_error (Unsupported_xlen xlen_in) st)
            else do {
              merged_arch_str \<leftarrow> riscv_arch_str arch_size (merged_subsets st);
              Some (Some merged_arch_str, release_all st)
            }
          }
      })"

definition riscv_merge_arch_attr_info ::
    "nat \<Rightarrow> string option \<Rightarrow> string option \<Rightarrow> arch_state \<Rightarrow> (string option \<times> arch_state) option" where
  "riscv_merge_arch_attr_info arch_size in_arch out_arch st =
     (let st = st\<lparr>merged_subsets := (merged_subsets st)\<lparr>sl_head := [], sl_tail := None\<rparr>\<rparr>
      in case (in_arch, out_arch) of
           (None, None) \<Rightarrow> Some (None, st)
         | (None, Some b) \<Rightarrow> Some (Some b, st)
         | (Some a, None) \<Rightarrow> Some (Some a, st)
         | (Some a, Some b) \<Rightarrow> do {
             (rps_in, ok) \<leftarrow> riscv_parse_subset (ld_rps (in_subsets st)) (Some a);
             let st = parse_errors rps_in (st\<lparr>in_subsets := rps_subset_list rps_in\<rparr>);
             if \<not> ok then Some (None, st)
             else do {
               (rps_out, ok) \<leftarrow> riscv_parse_subset (ld_rps (out_subsets st)) (Some b);
               let st = parse_errors rps_out (st\<lparr>out_subsets := rps_subset_list rps_out\<rparr>);
               if \<not> ok then Some (None, st)
               else merge_parsed arch_size a b (rps_xlen rps_in) (rps_xlen rps_out) st
             }
           })"

end
