(* ===== verification/RV_Merge_Laws.thy ===== *)
theory RV_Merge_Laws
  imports RV_Merge
begin

text \<open>
  Merging two lists of extensions is a union of finite maps in which the newer version wins, except for the
  single letters \<open>riscv_merge_std_ext\<close> does not know.
\<close>

section \<open>The union of two maps of versions\<close>

definition newest :: "int \<times> int \<Rightarrow> int \<times> int \<Rightarrow> int \<times> int" where
  "newest v w = (if fst v > fst w \<or> fst v = fst w \<and> snd v > snd w \<or> fst w = - 1 then v else w)"

definition combine :: "(int \<times> int) option \<Rightarrow> (int \<times> int) option \<Rightarrow> (int \<times> int) option" where
  "combine v w =
     (case (v, w) of
        (None, _) \<Rightarrow> w
      | (_, None) \<Rightarrow> v
      | (Some a, Some b) \<Rightarrow> Some (newest a b))"

lemma combine_simps [simp]:
  "combine None w = w" "combine v None = v" "combine (Some a) (Some b) = Some (newest a b)"
  by (simp_all add: combine_def split: option.splits)

text \<open>With known versions the order of the files does not matter, and a file merged twice changes nothing.\<close>

lemma newest_commute: "0 \<le> fst v \<Longrightarrow> 0 \<le> fst w \<Longrightarrow> newest v w = newest w v"
  by (cases v; cases w) (auto simp: newest_def)

lemma newest_assoc:
  "0 \<le> fst u \<Longrightarrow> 0 \<le> fst v \<Longrightarrow> 0 \<le> fst w \<Longrightarrow> newest (newest u v) w = newest u (newest v w)"
  by (cases u; cases v; cases w) (auto simp: newest_def)

lemma newest_same: "newest v v = v"
  by (simp add: newest_def)

abbreviation node_version :: "riscv_subset \<Rightarrow> int \<times> int" where
  "node_version s \<equiv> (ss_major_version s, ss_minor_version s)"

lemma update_subset_version:
  "ss_name (riscv_update_subset_version i o') = ss_name o'"
  "node_version (riscv_update_subset_version i o') = newest (node_version i) (node_version o')"
  by (auto simp: riscv_update_subset_version_def newest_def)

section \<open>Changing and adding a node\<close>

lemma sorted_by_name:
  "sorted_wrt (\<lambda>a b. ext_key (ss_name a) < ext_key (ss_name b)) ss \<longleftrightarrow>
   sorted_wrt (\<lambda>m n. ext_key m < ext_key n) (map ss_name ss)"
  by (simp add: sorted_wrt_map)

lemma slist_ok_update:
  assumes "slist_ok sl" "k < length (sl_head sl)" "ss_name s = ss_name (sl_head sl ! k)"
  shows "slist_ok (sl\<lparr>sl_head := (sl_head sl)[k := s]\<rparr>)"
    and "versions (sl\<lparr>sl_head := (sl_head sl)[k := s]\<rparr>) = (versions sl)(ss_name s \<mapsto> node_version s)"
proof -
  let ?h = "sl_head sl"
  have names: "map ss_name (?h[k := s]) = map ss_name ?h"
    using assms(2,3) by (simp add: map_update) (metis length_map list_update_id nth_map)
  have wf: "list_all (\<lambda>s. wf_ext (ss_name s)) ss \<longleftrightarrow> list_all wf_ext (map ss_name ss)" for ss
    by (simp add: list_all_iff)
  show "slist_ok (sl\<lparr>sl_head := ?h[k := s]\<rparr>)"
    using assms(1) by (simp add: slist_ok_def sorted_by_name wf names del: map_map)
  have d: "distinct (map ss_name (?h[k := s]))" "distinct (map ss_name ?h)"
    using slist_ok_distinct [OF assms(1)] names by simp_all
  have "versions_of (?h[k := s]) n = ((versions_of ?h)(ss_name s \<mapsto> node_version s)) n" for n
  proof (cases "n \<in> ss_name ` set ?h")
    case True
    then obtain j where j: "j < length ?h" "n = ss_name (?h ! j)" by (auto simp: in_set_conv_nth)
    show ?thesis
    proof (cases "j = k")
      case True
      then show ?thesis using versions_of_nth [OF d(1), of k] j assms(2,3) by simp
    next
      case False
      then have "?h[k := s] ! j = ?h ! j" by simp
      moreover have "n \<noteq> ss_name s"
        using False j d(2) assms(2,3) by (simp add: distinct_conv_nth)
      ultimately show ?thesis
        using versions_of_nth [OF d(1), of j] versions_of_nth [OF d(2), of j] j by simp
    qed
  next
    case False
    moreover have "n \<notin> ss_name ` set (?h[k := s])" using False names by (metis list.set_map)
    ultimately have "versions_of ?h n = None" "versions_of (?h[k := s]) n = None"
      using dom_versions_of by (metis domIff)+
    moreover have "n \<noteq> ss_name s" using False assms(2,3) by auto
    ultimately show ?thesis by simp
  qed
  then show "versions (sl\<lparr>sl_head := ?h[k := s]\<rparr>) = (versions sl)(ss_name s \<mapsto> node_version s)"
    by (simp add: versions_def fun_eq_iff)
qed

lemma add_merged_spec:
  assumes "slist_ok (merged_subsets st)" "wf_ext (ss_name s)"
  obtains sl where "add_merged s st = Some (st\<lparr>merged_subsets := sl\<rparr>)" "slist_ok sl"
    and "versions sl = [ss_name s \<mapsto> node_version s] ++ versions (merged_subsets st)"
proof -
  obtain sl where sl: "riscv_add_subset (merged_subsets st) (ss_name s) (ss_major_version s) (ss_minor_version s) = Some sl"
      "slist_ok sl"
      "versions sl = (if ss_name s \<in> dom (versions (merged_subsets st)) then versions (merged_subsets st)
                      else (versions (merged_subsets st))(ss_name s \<mapsto> node_version s))"
    using sl.add_content [OF assms] by blast
  have "versions sl = [ss_name s \<mapsto> node_version s] ++ versions (merged_subsets st)"
    unfolding sl(3) by (auto simp: map_add_def fun_eq_iff domIff split: option.splits)
  with sl(1,2) show thesis by (intro that [of sl]) (simp_all add: add_merged_def)
qed

section \<open>Single letters\<close>

abbreviation lists_ok :: "arch_state \<Rightarrow> bool" where
  "lists_ok st \<equiv> slist_ok (in_subsets st) \<and> slist_ok (out_subsets st) \<and> slist_ok (merged_subsets st)"

text \<open>What a step leaves of the state: the input list, the names of the output list, the messages.\<close>

definition same_names :: "arch_state \<Rightarrow> arch_state \<Rightarrow> bool" where
  "same_names st st' \<longleftrightarrow>
     in_subsets st' = in_subsets st \<and> arch_errors st' = arch_errors st \<and>
     map ss_name (sl_head (out_subsets st')) = map ss_name (sl_head (out_subsets st))"

lemma lookup_node_of:
  assumes "slist_ok sl" "wf_ext n"
  obtains "versions sl n = None" "\<exists>cur. riscv_lookup_subset sl n = Some (False, cur)"
  | k where "riscv_lookup_subset sl n = Some (True, Some k)" "k < length (sl_head sl)"
      "ss_name (sl_head sl ! k) = n" "versions sl n = Some (node_version (sl_head sl ! k))"
proof (cases "found_at n (sl_head sl)")
  case True
  then have k: "riscv_lookup_subset sl n = Some (True, Some (place n (sl_head sl)))"
      "place n (sl_head sl) < length (sl_head sl)" "ss_name (sl_head sl ! place n (sl_head sl)) = n"
    using riscv_lookup_subset_place [OF assms] by (auto simp: found_at_def)
  then show thesis
    using versions_of_nth [OF slist_ok_distinct [OF assms(1)] k(2)] by (intro that(2)) (auto simp: versions_def)
next
  case False
  then have "n \<notin> dom (versions sl)"
    using assms(1) found_at_iff by (simp add: slist_ok_def versions_def dom_versions_of)
  then have "versions sl n = None" by (simp only: domIff not_not)
  with False show thesis using riscv_lookup_subset_place [OF assms] that(1) by simp
qed

definition only_at :: "string \<Rightarrow> (int \<times> int) option \<Rightarrow> string \<rightharpoonup> int \<times> int" where
  "only_at n v = (case v of None \<Rightarrow> Map.empty | Some w \<Rightarrow> [n \<mapsto> w])"

lemma only_at_apply: "only_at n v m = (if m = n then v else None)"
  by (simp add: only_at_def split: option.splits)

lemma merge_std_one_spec:
  assumes ok: "lists_ok st" and p: "wf_ext [p]"
  obtains st' where "merge_std_one p st = Some st'" "lists_ok st'" "same_names st st'"
    and "\<And>n. n \<noteq> [p] \<Longrightarrow> versions (out_subsets st') n = versions (out_subsets st) n"
    and "versions (merged_subsets st') =
           only_at [p] (combine (versions (in_subsets st) [p]) (versions (out_subsets st) [p])) ++
           versions (merged_subsets st)"
proof -
  let ?in = "in_subsets st" and ?out = "out_subsets st"
  from ok p lookup_node_of [of ?in "[p]"] consider
      (no_in) cur where "versions ?in [p] = None" "riscv_lookup_subset ?in [p] = Some (False, cur)"
    | (yes_in) k where "riscv_lookup_subset ?in [p] = Some (True, Some k)"
      "ss_name (sl_head ?in ! k) = [p]" "versions ?in [p] = Some (node_version (sl_head ?in ! k))"
    by metis
  note cin = this
  from ok p lookup_node_of [of ?out "[p]"] consider
      (no_out) cur where "versions ?out [p] = None" "riscv_lookup_subset ?out [p] = Some (False, cur)"
    | (yes_out) j where "riscv_lookup_subset ?out [p] = Some (True, Some j)" "j < length (sl_head ?out)"
      "ss_name (sl_head ?out ! j) = [p]" "versions ?out [p] = Some (node_version (sl_head ?out ! j))"
    by metis
  note cout = this
  show thesis
  proof (cases rule: cin)
    case no_in
    note i = this
    show thesis
    proof (cases rule: cout)
      case no_out
      from i no_out ok show thesis
        by (intro that [of st]) (auto simp: merge_std_one_def same_names_def only_at_def)
    next
      case (yes_out j)
      from add_merged_spec [of st "sl_head ?out ! j"] ok p yes_out(3) obtain sl where
        "add_merged (sl_head ?out ! j) st = Some (st\<lparr>merged_subsets := sl\<rparr>)" "slist_ok sl"
        "versions sl = [[p] \<mapsto> node_version (sl_head ?out ! j)] ++ versions (merged_subsets st)" by metis
      with i yes_out ok show thesis
        by (intro that [of "st\<lparr>merged_subsets := sl\<rparr>"]) (auto simp: merge_std_one_def same_names_def only_at_def)
    qed
  next
    case (yes_in k)
    note i = this
    show thesis
    proof (cases rule: cout)
      case no_out
      from add_merged_spec [of st "sl_head ?in ! k"] ok p i(2) obtain sl where
        "add_merged (sl_head ?in ! k) st = Some (st\<lparr>merged_subsets := sl\<rparr>)" "slist_ok sl"
        "versions sl = [[p] \<mapsto> node_version (sl_head ?in ! k)] ++ versions (merged_subsets st)" by metis
      with i no_out ok show thesis
        by (intro that [of "st\<lparr>merged_subsets := sl\<rparr>"]) (auto simp: merge_std_one_def same_names_def only_at_def)
    next
      case (yes_out j)
      define o'' where "o'' = riscv_update_subset_version (sl_head ?in ! k) (sl_head ?out ! j)"
      have o'': "ss_name o'' = [p]"
          "node_version o'' = newest (node_version (sl_head ?in ! k)) (node_version (sl_head ?out ! j))"
        using update_subset_version yes_out(3) unfolding o''_def by auto
      define st1 where "st1 = write_out j o'' st"
      note up = slist_ok_update [of ?out j o'', OF _ yes_out(2)]
      have m1: "merged_subsets st1 = merged_subsets st" by (simp add: st1_def write_out_def)
      have st1: "lists_ok st1" "versions (out_subsets st1) = (versions ?out)([p] \<mapsto> node_version o'')"
        using up ok o''(1) yes_out(3) by (auto simp: st1_def write_out_def)
      have names: "same_names st st1"
        using yes_out(2,3) o''(1) by (auto simp: same_names_def st1_def write_out_def map_update)
          (metis length_map list_update_id nth_map)
      from add_merged_spec [of st1 o''] st1(1) p o''(1) obtain sl where
        "add_merged o'' st1 = Some (st1\<lparr>merged_subsets := sl\<rparr>)" "slist_ok sl"
        "versions sl = [[p] \<mapsto> node_version o''] ++ versions (merged_subsets st1)" by metis
      with i yes_out st1 names show thesis
        by (intro that [of "st1\<lparr>merged_subsets := sl\<rparr>"])
          (auto simp: merge_std_one_def same_names_def only_at_def o''_def [symmetric] st1_def [symmetric] o''(2)
            m1 Let_def)
    qed
  qed
qed

lemma same_names_trans: "same_names a b \<Longrightarrow> same_names b c \<Longrightarrow> same_names a c"
  by (simp add: same_names_def)

text \<open>The letters of a string, as a part of the union.\<close>

definition letters_union :: "string \<Rightarrow> arch_state \<Rightarrow> string \<rightharpoonup> int \<times> int" where
  "letters_union ps st n =
     (if \<exists>p\<in>set ps. n = [p] then combine (versions (in_subsets st) n) (versions (out_subsets st) n) else None)"

lemma merge_std_loop_spec:
  assumes "lists_ok st" "\<forall>p\<in>set ps. wf_ext [p]" "distinct ps"
  obtains st' where "merge_std_loop ps st = Some st'" "lists_ok st'" "same_names st st'"
    and "\<And>n. (\<forall>p\<in>set ps. n \<noteq> [p]) \<Longrightarrow> versions (out_subsets st') n = versions (out_subsets st) n"
    and "versions (merged_subsets st') = letters_union ps st ++ versions (merged_subsets st)"
  using assms
proof (induction ps arbitrary: st thesis)
  case Nil
  have "letters_union [] st = Map.empty" by (simp add: letters_union_def fun_eq_iff)
  with Nil show ?case by (intro Nil.prems(1) [of st]) (auto simp: same_names_def)
next
  case (Cons p ps)
  obtain st1 where st1: "merge_std_one p st = Some st1" "lists_ok st1" "same_names st st1"
      "\<And>n. n \<noteq> [p] \<Longrightarrow> versions (out_subsets st1) n = versions (out_subsets st) n"
      "versions (merged_subsets st1) =
         only_at [p] (combine (versions (in_subsets st) [p]) (versions (out_subsets st) [p])) ++
         versions (merged_subsets st)"
    using merge_std_one_spec [of st p] Cons.prems(2,3) by auto
  obtain st2 where st2: "merge_std_loop ps st1 = Some st2" "lists_ok st2" "same_names st1 st2"
      "\<And>n. (\<forall>p\<in>set ps. n \<noteq> [p]) \<Longrightarrow> versions (out_subsets st2) n = versions (out_subsets st1) n"
      "versions (merged_subsets st2) = letters_union ps st1 ++ versions (merged_subsets st1)"
    using Cons.IH [OF _ st1(2)] Cons.prems(3,4) by auto
  have i: "in_subsets st1 = in_subsets st" using st1(3) by (simp add: same_names_def)
  have "versions (out_subsets st1) [q] = versions (out_subsets st) [q]" if "q \<in> set ps" for q
    using st1(4) [of "[q]"] that Cons.prems(4) by auto
  then have ps1: "letters_union ps st1 = letters_union ps st"
    by (auto simp: letters_union_def fun_eq_iff i)
  have "letters_union ps st ++ only_at [p] (combine (versions (in_subsets st) [p]) (versions (out_subsets st) [p])) =
      letters_union (p # ps) st"
    using Cons.prems(4)
    by (auto simp: fun_eq_iff map_add_def only_at_apply letters_union_def split: option.splits)
  then have "versions (merged_subsets st2) = letters_union (p # ps) st ++ versions (merged_subsets st)"
    by (simp add: st2(5) st1(5) ps1 map_add_assoc)
  with st1 st2 same_names_trans [OF st1(3) st2(3)] show ?case
    by (intro Cons.prems(1) [of st2]) auto
qed

section \<open>The other extensions\<close>

abbreviation nodes_ok :: "riscv_subset list \<Rightarrow> bool" where
  "nodes_ok ss \<equiv> list_all (\<lambda>s. wf_ext (ss_name s)) ss \<and>
     sorted_wrt (\<lambda>a b. ext_key (ss_name a) < ext_key (ss_name b)) ss"

definition union_of :: "(string \<rightharpoonup> int \<times> int) \<Rightarrow> (string \<rightharpoonup> int \<times> int) \<Rightarrow> string \<rightharpoonup> int \<times> int" where
  "union_of f g n = combine (f n) (g n)"

text \<open>What the second part changes: the merged list, and versions of the output list.\<close>

definition merge_adds :: "arch_state \<Rightarrow> (string \<rightharpoonup> int \<times> int) \<Rightarrow> arch_state option \<Rightarrow> bool" where
  "merge_adds st f r \<longleftrightarrow>
     (\<exists>st'. r = Some st' \<and> slist_ok (merged_subsets st') \<and> arch_errors st' = arch_errors st \<and>
            versions (merged_subsets st') = f ++ versions (merged_subsets st))"

lemma add_then:
  assumes "slist_ok (merged_subsets st)" "wf_ext (ss_name s)"
    and "\<And>st1. add_merged s st = Some st1 \<Longrightarrow> slist_ok (merged_subsets st1) \<Longrightarrow> merge_adds st1 f (g st1)"
    and "arch_errors st0 = arch_errors st" "merged_subsets st0 = merged_subsets st"
  shows "merge_adds st0 (f ++ [ss_name s \<mapsto> node_version s]) (do { st' \<leftarrow> add_merged s st; g st' })"
proof -
  obtain sl where sl: "add_merged s st = Some (st\<lparr>merged_subsets := sl\<rparr>)" "slist_ok sl"
      "versions sl = [ss_name s \<mapsto> node_version s] ++ versions (merged_subsets st)"
    using add_merged_spec [OF assms(1,2)] by blast
  with assms(3) [OF sl(1)] assms(4,5) show ?thesis
    by (auto simp: merge_adds_def map_add_assoc)
qed

lemma versions_of_Cons_add:
  "ss_name s \<notin> ss_name ` set ss \<Longrightarrow> versions_of (s # ss) = versions_of ss ++ [ss_name s \<mapsto> node_version s]"
  by (auto simp: fun_eq_iff map_add_def)

lemma nodes_ok_Cons:
  assumes "nodes_ok (s # ss)"
  shows "nodes_ok ss" "wf_ext (ss_name s)" "ss_name s \<notin> ss_name ` set ss"
  using assms by auto

lemma add_all_spec:
  assumes "slist_ok (merged_subsets st)" "nodes_ok ss"
  shows "merge_adds st (versions_of ss) (add_all ss st)"
  using assms
proof (induction ss arbitrary: st)
  case Nil
  then show ?case by (simp add: merge_adds_def)
next
  case (Cons s ss)
  note n = nodes_ok_Cons [OF Cons.prems(2)]
  show ?case
    using add_then [OF Cons.prems(1) n(2) Cons.IH [OF _ n(1)], of st]
    unfolding versions_of_Cons_add [OF n(3)] add_all.simps by blast
qed

lemma above_all_fresh:
  assumes "nodes_ok (o' # outs)" "ext_key n < ext_key (ss_name o')"
  shows "versions_of (o' # outs) n = None"
proof -
  have "n \<noteq> ss_name s" if "s \<in> set (o' # outs)" for s
    using assms that by (auto dest: less_trans)
  then have "n \<notin> dom (versions_of (o' # outs))" unfolding dom_versions_of by blast
  then show ?thesis by (simp only: domIff not_not)
qed

lemma union_of_Cons:
  "versions_of outs (ss_name i) = None \<Longrightarrow>
     union_of (versions_of ins) (versions_of outs) ++ [ss_name i \<mapsto> node_version i] =
     union_of (versions_of (i # ins)) (versions_of outs)"
  "versions_of ins (ss_name o') = None \<Longrightarrow>
     union_of (versions_of ins) (versions_of outs) ++ [ss_name o' \<mapsto> node_version o'] =
     union_of (versions_of ins) (versions_of (o' # outs))"
  "ss_name i = ss_name o' \<Longrightarrow>
     union_of (versions_of ins) (versions_of outs) ++
       [ss_name o' \<mapsto> newest (node_version i) (node_version o')] =
     union_of (versions_of (i # ins)) (versions_of (o' # outs))"
  by (auto simp: fun_eq_iff union_of_def map_add_def)

lemma merge_multi_spec:
  assumes "slist_ok (merged_subsets st)" "nodes_ok ins" "nodes_ok outs"
  shows "merge_adds st (union_of (versions_of ins) (versions_of outs)) (riscv_merge_multi_letter_ext ins outs st)"
  using assms
proof (induction ins outs st rule: riscv_merge_multi_letter_ext.induct)
  case (1 i ins o' outs st)
  note ni = nodes_ok_Cons [OF "1.prems"(2)] and no = nodes_ok_Cons [OF "1.prems"(3)]
  obtain cmp where cmp: "riscv_compare_subsets (ss_name i) (ss_name o') = Some cmp"
      "cmp < 0 \<longleftrightarrow> ext_key (ss_name i) < ext_key (ss_name o')"
      "cmp > 0 \<longleftrightarrow> ext_key (ss_name o') < ext_key (ss_name i)" "cmp = 0 \<longleftrightarrow> ss_name i = ss_name o'"
    using riscv_compare_subsets_order [OF ni(2) no(2)] by (auto simp: compares_as_def)
  consider (lt) "cmp < 0" | (gt) "cmp > 0" | (eq) "cmp = 0" by linarith
  then show ?case
  proof cases
    case lt
    then have f: "versions_of (o' # outs) (ss_name i) = None"
      using above_all_fresh [OF "1.prems"(3)] cmp(2) by blast
    note u = union_of_Cons(1) [OF f]
    have m: "merge_adds st1 (union_of (versions_of ins) (versions_of (o' # outs)))
        (riscv_merge_multi_letter_ext ins (o' # outs) st1)"
      if "add_merged i st = Some st1" "slist_ok (merged_subsets st1)" for st1
      using "1.IH"(1) [OF cmp(1) lt] that ni(1) "1.prems"(3) by blast
    have "riscv_merge_multi_letter_ext (i # ins) (o' # outs) st =
        (do { st' \<leftarrow> add_merged i st; riscv_merge_multi_letter_ext ins (o' # outs) st' })"
      using cmp(1) lt by simp
    with add_then [OF "1.prems"(1) ni(2) m refl refl] show ?thesis unfolding u by metis
  next
    case gt
    then have f: "versions_of (i # ins) (ss_name o') = None"
      using above_all_fresh [OF "1.prems"(2)] cmp(3) by blast
    note u = union_of_Cons(2) [OF f]
    have m: "merge_adds st1 (union_of (versions_of (i # ins)) (versions_of outs))
        (riscv_merge_multi_letter_ext (i # ins) outs st1)"
      if "add_merged o' st = Some st1" "slist_ok (merged_subsets st1)" for st1
      using "1.IH"(2) [OF cmp(1) _ gt] that no(1) "1.prems"(2) less_asym [OF gt] by blast
    have "riscv_merge_multi_letter_ext (i # ins) (o' # outs) st =
        (do { st' \<leftarrow> add_merged o' st; riscv_merge_multi_letter_ext (i # ins) outs st' })"
      using cmp(1) gt by simp
    with add_then [OF "1.prems"(1) no(2) m refl refl] show ?thesis unfolding u by metis
  next
    case eq
    define o'' where "o'' = riscv_update_subset_version i o'"
    define st1 where "st1 = write_out (length (sl_head (out_subsets st)) - length (o' # outs)) o'' st"
    have o'': "ss_name o'' = ss_name o'" "node_version o'' = newest (node_version i) (node_version o')"
      using update_subset_version unfolding o''_def by auto
    have m: "merged_subsets st1 = merged_subsets st" "arch_errors st1 = arch_errors st"
      by (simp_all add: st1_def write_out_def)
    have u: "union_of (versions_of ins) (versions_of outs) ++ [ss_name o'' \<mapsto> node_version o''] =
        union_of (versions_of (i # ins)) (versions_of (o' # outs))"
      unfolding o'' by (rule union_of_Cons(3)) (use eq cmp(4) in simp)
    have r: "merge_adds st2 (union_of (versions_of ins) (versions_of outs))
        (riscv_merge_multi_letter_ext ins outs st2)"
      if "add_merged o'' st1 = Some st2" "slist_ok (merged_subsets st2)" for st2
      using "1.IH"(3) [OF cmp(1) _ _ refl] that ni(1) no(1) eq by (simp add: o''_def st1_def)
    have "riscv_merge_multi_letter_ext (i # ins) (o' # outs) st =
        (do { st' \<leftarrow> add_merged o'' st1; riscv_merge_multi_letter_ext ins outs st' })"
      using cmp(1) eq by (simp add: o''_def st1_def Let_def)
    moreover have p: "slist_ok (merged_subsets st1)" "wf_ext (ss_name o'')"
      using "1.prems"(1) no(2) m o''(1) by simp_all
    ultimately show ?thesis
      using add_then [OF p r m(2) [symmetric] m(1) [symmetric]] unfolding u by metis
  qed
next
  case (2 outs st)
  have "union_of (versions_of []) (versions_of outs) = versions_of outs" by (simp add: fun_eq_iff union_of_def)
  with add_all_spec [of st outs] 2 show ?case by simp
next
  case (3 i ins st)
  have u: "union_of (versions_of (i # ins)) (versions_of []) = versions_of (i # ins)"
    by (simp add: fun_eq_iff union_of_def)
  show ?case unfolding riscv_merge_multi_letter_ext.simps u by (rule add_all_spec [OF 3(1,2)])
qed

section \<open>Where the other extensions begin\<close>

lemma std_ext_key: "wf_ext n \<Longrightarrow> riscv_std_ext_p n \<longleftrightarrow> hd (ext_key n) = 0"
  by (auto simp: wf_ext_def riscv_std_ext_p_def ext_key_def riscv_get_prefix_class_def parse_config_def
      c_char_def length_Suc_conv std_letter_def riscv_ext_canonical_order_def
      split: riscv_prefix_ext_class.splits if_splits)

lemma ext_key_Cons: obtains k ks where "ext_key n = k # ks" "0 \<le> k"
  by (cases "riscv_get_prefix_class n") (auto simp: ext_key_def)

lemma drop_std:
  assumes "nodes_ok ss"
  shows "nodes_ok (dropWhile (\<lambda>s. riscv_std_ext_p (ss_name s)) ss)"
    and "versions_of (dropWhile (\<lambda>s. riscv_std_ext_p (ss_name s)) ss) n =
           (if riscv_std_ext_p n then None else versions_of ss n)"
proof -
  let ?P = "\<lambda>s. riscv_std_ext_p (ss_name s)"
  have eq: "dropWhile ?P ss = filter (\<lambda>s. \<not> ?P s) ss"
    using assms
  proof (induction ss)
    case (Cons s ss)
    show ?case
    proof (cases "?P s")
      case False
      have "\<not> ?P t" if "t \<in> set ss" for t
      proof -
        have "ext_key (ss_name s) < ext_key (ss_name t)" "wf_ext (ss_name s)" "wf_ext (ss_name t)"
          using Cons.prems that by (auto simp: list_all_iff)
        moreover have "hd (ext_key (ss_name s)) \<noteq> 0" using False std_ext_key calculation(2) by blast
        ultimately show ?thesis
          using std_ext_key [of "ss_name t"] ext_key_Cons [of "ss_name s"] ext_key_Cons [of "ss_name t"]
          by (metis Cons_less_Cons less_le_not_le linorder_not_less list.sel(1) order_less_le)
      qed
      then have "filter (\<lambda>s. \<not> ?P s) ss = ss" by (simp add: filter_id_conv)
      with False show ?thesis by simp
    next
      case True
      with Cons show ?thesis by simp
    qed
  qed simp
  show "nodes_ok (dropWhile ?P ss)"
    using assms unfolding eq by (auto simp: list_all_iff intro: sorted_wrt_filter)
  have "versions_of (filter (\<lambda>s. \<not> ?P s) ss) n = (if riscv_std_ext_p n then None else versions_of ss n)"
    by (induction ss) auto
  then show "versions_of (dropWhile ?P ss) n = (if riscv_std_ext_p n then None else versions_of ss n)"
    unfolding eq .
qed

section \<open>The merged list\<close>

text \<open>The single letters that are lost: those of neither the base nor \<open>standard_exts\<close>.\<close>

definition lost_letter :: "string \<Rightarrow> string \<Rightarrow> bool" where
  "lost_letter base n \<longleftrightarrow> riscv_std_ext_p n \<and> n \<noteq> base \<and> (\<forall>p\<in>set standard_exts. n \<noteq> [p])"

definition merged_versions ::
    "string \<Rightarrow> (string \<rightharpoonup> int \<times> int) \<Rightarrow> (string \<rightharpoonup> int \<times> int) \<Rightarrow> string \<rightharpoonup> int \<times> int" where
  "merged_versions base f g n = (if lost_letter base n then None else combine (f n) (g n))"

text \<open>Both lists begin with the same base.\<close>

definition same_base :: "string \<Rightarrow> riscv_subset_list \<Rightarrow> riscv_subset_list \<Rightarrow> bool" where
  "same_base base a b \<longleftrightarrow> base \<in> {''i'', ''e''} \<and> sl_head a \<noteq> [] \<and> sl_head b \<noteq> [] \<and>
     ss_name (hd (sl_head a)) = base \<and> ss_name (hd (sl_head b)) = base"

lemma same_baseE:
  assumes "same_base base a b"
  obtains i ins o' outs where "sl_head a = i # ins" "sl_head b = o' # outs"
    "ss_name i = base" "ss_name o' = base"
proof -
  have "sl_head a = hd (sl_head a) # tl (sl_head a)" "sl_head b = hd (sl_head b) # tl (sl_head b)"
    using assms by (simp_all add: same_base_def)
  then show thesis using assms that unfolding same_base_def by blast
qed

lemma standard_exts_wf: "\<forall>p\<in>set standard_exts. wf_ext [p]" "distinct standard_exts"
  by (simp_all add: standard_exts_def wf_ext_eval)

lemma standard_exts_std: "p \<in> set standard_exts \<Longrightarrow> riscv_std_ext_p [p]"
  by (auto simp: standard_exts_def riscv_std_ext_p_def c_char_def)

lemma base_facts:
  assumes "base \<in> {''i'', ''e''}"
  shows "wf_ext base" "riscv_std_ext_p base" "\<forall>p\<in>set standard_exts. base \<noteq> [p]"
    "strcasecmp base ''e'' = 0 \<or> strcasecmp base ''i'' = 0" "strcasecmp base base = 0"
  using assms by (auto simp: wf_ext_eval riscv_std_ext_p_def c_char_def standard_exts_def TOLOWER_def)

lemma nodes_ok_slist: "slist_ok sl \<Longrightarrow> nodes_ok (sl_head sl)"
  by (simp add: slist_ok_def)

lemma versions_tail:
  assumes "slist_ok sl" "sl_head sl = s # ss"
  shows "versions_of ss n = (if n = ss_name s then None else versions sl n)"
proof -
  have "ss_name s \<notin> ss_name ` set ss" using slist_ok_distinct [OF assms(1)] assms(2) by simp
  then have "versions_of ss (ss_name s) = None" using dom_versions_of by (metis domIff)
  then show ?thesis using assms(2) by (auto simp: versions_def)
qed

text \<open>The base: the node of the output gets the newer version and opens the merged list.\<close>

lemma merge_base_spec:
  assumes ok: "lists_ok st" and empty: "versions (merged_subsets st) = Map.empty"
    and heads: "sl_head (in_subsets st) = i # ins" "sl_head (out_subsets st) = o' # outs"
    and names: "ss_name i = base" "ss_name o' = base" and b: "base \<in> {''i'', ''e''}"
  obtains st2 where
      "add_merged (riscv_update_subset_version i o') (write_out 0 (riscv_update_subset_version i o') st) = Some st2"
    and "lists_ok st2" "in_subsets st2 = in_subsets st" "arch_errors st2 = arch_errors st"
    and "map ss_name (sl_head (out_subsets st2)) = base # map ss_name outs"
    and "\<And>n. n \<noteq> base \<Longrightarrow> versions (out_subsets st2) n = versions (out_subsets st) n"
    and "versions (merged_subsets st2) =
           [base \<mapsto> the (combine (versions (in_subsets st) base) (versions (out_subsets st) base))]"
proof -
  define o'' where "o'' = riscv_update_subset_version i o'"
  have o'': "ss_name o'' = base" "node_version o'' = newest (node_version i) (node_version o')"
    using update_subset_version names unfolding o''_def by auto
  have vb: "combine (versions (in_subsets st) base) (versions (out_subsets st) base) = Some (node_version o'')"
    using heads names by (simp add: versions_def o''(2) [symmetric])
  define st1 where "st1 = write_out 0 o'' st"
  have st1: "lists_ok st1" "in_subsets st1 = in_subsets st" "arch_errors st1 = arch_errors st"
      "versions (merged_subsets st1) = Map.empty"
      "versions (out_subsets st1) = (versions (out_subsets st))(base \<mapsto> node_version o'')"
    using slist_ok_update [of "out_subsets st" 0 o''] ok heads names o''(1) empty
    by (auto simp: st1_def write_out_def)
  obtain sl where sl: "add_merged o'' st1 = Some (st1\<lparr>merged_subsets := sl\<rparr>)" "slist_ok sl"
      "versions sl = [base \<mapsto> node_version o'']"
    using add_merged_spec [of st1 o''] st1(1,4) o''(1) base_facts(1) [OF b] by auto
  show thesis
    by (rule that [of "st1\<lparr>merged_subsets := sl\<rparr>"])
      (use sl st1 vb heads o''(1) in \<open>simp_all add: o''_def [symmetric] st1_def [symmetric]\<close>,
       simp add: st1_def write_out_def heads o''(1))
qed

lemma merge_std_ext_spec:
  assumes ok: "lists_ok st" and base: "same_base base (in_subsets st) (out_subsets st)"
    and empty: "versions (merged_subsets st) = Map.empty"
  obtains ins outs st' where "riscv_merge_std_ext a b st = Some (Some (ins, outs), st')"
    and "slist_ok (merged_subsets st')" "arch_errors st' = arch_errors st" "nodes_ok ins" "nodes_ok outs"
    and "\<And>n. versions_of ins n = (if riscv_std_ext_p n then None else versions (in_subsets st) n)"
    and "\<And>n. versions_of outs n = (if riscv_std_ext_p n then None else versions (out_subsets st) n)"
    and "versions (merged_subsets st') = letters_union standard_exts st ++
           [base \<mapsto> the (combine (versions (in_subsets st) base) (versions (out_subsets st) base))]"
proof -
  let ?P = "\<lambda>s. riscv_std_ext_p (ss_name s)"
  obtain i ins o' outs where heads: "sl_head (in_subsets st) = i # ins" "sl_head (out_subsets st) = o' # outs"
      and names: "ss_name i = base" "ss_name o' = base"
    by (rule same_baseE [OF base])
  have b: "base \<in> {''i'', ''e''}" using base by (simp add: same_base_def)
  note bf = base_facts [OF b]
  obtain st2 where st2:
      "add_merged (riscv_update_subset_version i o') (write_out 0 (riscv_update_subset_version i o') st) = Some st2"
      "lists_ok st2" "in_subsets st2 = in_subsets st" "arch_errors st2 = arch_errors st"
      "map ss_name (sl_head (out_subsets st2)) = base # map ss_name outs"
      "\<And>n. n \<noteq> base \<Longrightarrow> versions (out_subsets st2) n = versions (out_subsets st) n"
      "versions (merged_subsets st2) =
         [base \<mapsto> the (combine (versions (in_subsets st) base) (versions (out_subsets st) base))]"
    using merge_base_spec [OF ok empty heads names b] by blast
  obtain st3 where st3: "merge_std_loop standard_exts st2 = Some st3" "lists_ok st3" "same_names st2 st3"
      "\<And>n. (\<forall>p\<in>set standard_exts. n \<noteq> [p]) \<Longrightarrow> versions (out_subsets st3) n = versions (out_subsets st2) n"
      "versions (merged_subsets st3) = letters_union standard_exts st2 ++ versions (merged_subsets st2)"
    using merge_std_loop_spec [OF st2(2) standard_exts_wf] by blast
  have hd3: "map ss_name (sl_head (out_subsets st3)) = base # map ss_name outs"
    using st3(3) st2(5) by (simp add: same_names_def)
  then obtain o3 outs3 where o3: "sl_head (out_subsets st3) = o3 # outs3" "ss_name o3 = base"
    by (cases "sl_head (out_subsets st3)") auto
  have ok_ins: "nodes_ok ins" and ok_outs: "nodes_ok outs3"
    using nodes_ok_slist [of "in_subsets st"] nodes_ok_slist [of "out_subsets st3"] ok st3(2) heads o3 by auto
  have v_out: "versions (out_subsets st3) n = versions (out_subsets st) n" if "\<not> riscv_std_ext_p n" for n
  proof -
    have "\<forall>p\<in>set standard_exts. n \<noteq> [p]" "n \<noteq> base" using that standard_exts_std bf(2) by blast+
    with st3(4) [of n] show ?thesis using st2(6) by simp
  qed
  have eval: "riscv_merge_std_ext a b st = Some (Some (dropWhile ?P ins, dropWhile ?P outs3), st3)"
    using bf(4,5) heads names st3(1) st2(1) by (auto simp: riscv_merge_std_ext_def riscv_i_or_e_p_def o3)
  have letters: "letters_union standard_exts st2 = letters_union standard_exts st"
    using bf(3) st2(6) by (auto simp: letters_union_def fun_eq_iff st2(3))
  show thesis
  proof (rule that [OF eval])
    show "slist_ok (merged_subsets st3)" using st3(2) by simp
    show "arch_errors st3 = arch_errors st" using st3(3) by (simp add: same_names_def st2(4))
    show "nodes_ok (dropWhile ?P ins)" "nodes_ok (dropWhile ?P outs3)"
      using drop_std(1) ok_ins ok_outs by blast+
    show "versions_of (dropWhile ?P ins) n = (if riscv_std_ext_p n then None else versions (in_subsets st) n)" for n
      using drop_std(2) [OF ok_ins, of n] versions_tail [OF _ heads(1), of n] ok names(1) bf(2) by auto
    show "versions_of (dropWhile ?P outs3) n = (if riscv_std_ext_p n then None else versions (out_subsets st) n)" for n
      using drop_std(2) [OF ok_outs, of n] versions_tail [OF _ o3(1), of n] st3(2) o3(2) bf(2) v_out by auto
    show "versions (merged_subsets st3) = letters_union standard_exts st ++
        [base \<mapsto> the (combine (versions (in_subsets st) base) (versions (out_subsets st) base))]"
      by (simp add: st3(5) letters st2(7))
  qed
qed

lemma merge_lists_spec:
  assumes ok: "lists_ok st" and base: "same_base base (in_subsets st) (out_subsets st)"
    and empty: "versions (merged_subsets st) = Map.empty"
  obtains ins outs st' st'' where "riscv_merge_std_ext a b st = Some (Some (ins, outs), st')"
    and "riscv_merge_multi_letter_ext ins outs st' = Some st''" "slist_ok (merged_subsets st'')"
    and "arch_errors st'' = arch_errors st"
    and "versions (merged_subsets st'') =
           merged_versions base (versions (in_subsets st)) (versions (out_subsets st))"
proof -
  let ?i = "versions (in_subsets st)" and ?o = "versions (out_subsets st)"
  obtain ins outs st' where s: "riscv_merge_std_ext a b st = Some (Some (ins, outs), st')"
      "slist_ok (merged_subsets st')" "arch_errors st' = arch_errors st" "nodes_ok ins" "nodes_ok outs"
      "\<And>n. versions_of ins n = (if riscv_std_ext_p n then None else ?i n)"
      "\<And>n. versions_of outs n = (if riscv_std_ext_p n then None else ?o n)"
      "versions (merged_subsets st') = letters_union standard_exts st ++ [base \<mapsto> the (combine (?i base) (?o base))]"
    using merge_std_ext_spec [OF ok base empty] by blast
  obtain st'' where m: "riscv_merge_multi_letter_ext ins outs st' = Some st''"
      "slist_ok (merged_subsets st'')" "arch_errors st'' = arch_errors st'"
      "versions (merged_subsets st'') = union_of (versions_of ins) (versions_of outs) ++ versions (merged_subsets st')"
    using merge_multi_spec [OF s(2,4,5)] by (auto simp: merge_adds_def)
  obtain i' ins' o' outs' where "sl_head (in_subsets st) = i' # ins'" "sl_head (out_subsets st) = o' # outs'"
      "ss_name i' = base" "ss_name o' = base"
    by (rule same_baseE [OF base])
  then obtain v where sb: "combine (?i base) (?o base) = Some v"
    by (simp add: versions_def)
  have "base \<in> {''i'', ''e''}" using base by (simp add: same_base_def)
  note bf = base_facts [OF this]
  have "versions (merged_subsets st'') n = merged_versions base ?i ?o n" for n
  proof -
    consider "n = base" | p where "p \<in> set standard_exts" "n = [p]" "n \<noteq> base"
      | "riscv_std_ext_p n" "n \<noteq> base" "\<forall>p\<in>set standard_exts. n \<noteq> [p]"
      | "\<not> riscv_std_ext_p n" by blast
    then show ?thesis
    proof cases
      case 1
      then show ?thesis by (simp add: m(4) s(8) merged_versions_def lost_letter_def sb map_add_def)
    next
      case 2
      then have "letters_union standard_exts st n = combine (?i n) (?o n)" "\<not> lost_letter base n"
        by (auto simp: letters_union_def lost_letter_def)
      moreover have "union_of (versions_of ins) (versions_of outs) n = None"
        using standard_exts_std [OF 2(1)] 2(2) by (simp add: union_of_def s(6,7))
      ultimately show ?thesis using 2(3)
        by (auto simp: m(4) s(8) merged_versions_def map_add_def split: option.splits)
    next
      case 3
      then have "letters_union standard_exts st n = None" "lost_letter base n"
        by (auto simp: letters_union_def lost_letter_def)
      then show ?thesis using 3
        by (simp add: m(4) s(8) merged_versions_def map_add_def union_of_def s(6,7))
    next
      case 4
      then have "letters_union standard_exts st n = None" "\<not> lost_letter base n" "n \<noteq> base"
        using standard_exts_std bf(2) by (auto simp: letters_union_def lost_letter_def)
      then show ?thesis using 4
        by (simp add: m(4) s(8) merged_versions_def map_add_def union_of_def s(6,7))
    qed
  qed
  then have "versions (merged_subsets st'') = merged_versions base ?i ?o" by (simp add: fun_eq_iff)
  with s(1,3) m(1-3) show thesis by (intro that [of ins outs st' st'']) simp_all
qed

text \<open>The versions of the merged list are versions of the two lists, so its string fits the buffer.\<close>

lemma ranges_versions:
  assumes "slist_ok sl"
  shows "ranges_ok (sl_head sl) \<longleftrightarrow>
    (\<forall>n v. versions sl n = Some v \<longrightarrow> version_range (fst v) \<and> version_range (snd v))"
proof
  assume r: "ranges_ok (sl_head sl)"
  show "\<forall>n v. versions sl n = Some v \<longrightarrow> version_range (fst v) \<and> version_range (snd v)"
  proof (intro allI impI)
    fix n v assume "versions sl n = Some v"
    then have "(n, v) \<in> set (map (\<lambda>s. (ss_name s, node_version s)) (sl_head sl))"
      unfolding versions_def versions_of_def by (rule map_of_SomeD)
    with r show "version_range (fst v) \<and> version_range (snd v)" by (auto simp: ranges_ok_def list_all_iff)
  qed
next
  assume r: "\<forall>n v. versions sl n = Some v \<longrightarrow> version_range (fst v) \<and> version_range (snd v)"
  have "version_range (ss_major_version s) \<and> version_range (ss_minor_version s)" if "s \<in> set (sl_head sl)" for s
    using that r versions_of_nth [OF slist_ok_distinct [OF assms]] by (fastforce simp: in_set_conv_nth versions_def)
  then show "ranges_ok (sl_head sl)" by (simp add: ranges_ok_def list_all_iff)
qed

lemma ranges_merged:
  assumes "slist_ok a" "slist_ok b" "slist_ok c" "ranges_ok (sl_head a)" "ranges_ok (sl_head b)"
    and "versions c = merged_versions base (versions a) (versions b)"
  shows "ranges_ok (sl_head c)"
  using assms(4,5) unfolding ranges_versions [OF assms(1)] ranges_versions [OF assms(2)] ranges_versions [OF assms(3)]
  by (auto simp: assms(6) merged_versions_def combine_def newest_def split: if_splits option.splits)


section \<open>Examples\<close>

declare riscv_parse_add_implicit_subsets.simps [code]

definition arch_start :: arch_state where
  "arch_start = \<lparr>in_subsets = empty_slist, out_subsets = empty_slist, merged_subsets = empty_slist,
                 arch_errors = []\<rparr>"

definition rps_of :: "rps_error list \<Rightarrow> nat \<Rightarrow> (string \<times> int \<times> int) list \<Rightarrow> riscv_parse_subset_t" where
  "rps_of es xlen vs =
     \<lparr>rps_subset_list = \<lparr>sl_head = map (\<lambda>(n, a, b). \<lparr>ss_name = n, ss_major_version = a, ss_minor_version = b\<rparr>) vs,
        sl_tail = (if vs = [] then None else Some (length vs - 1)), sl_arch_str = None\<rparr>,
      rps_errors = es, rps_xlen = xlen, rps_isa_spec = None, rps_check_unknown_prefixed_ext = False\<rparr>"

lemma parse_rv32i2p1:
  "riscv_parse_subset (ld_rps empty_slist) (Some ''rv32i2p1'') = Some (rps_of [] 32 [(''i'', 2, 1)], True)"
  by code_simp

lemma parse_rv32i2p2:
  "riscv_parse_subset (ld_rps empty_slist) (Some ''rv32i2p2'') = Some (rps_of [] 32 [(''i'', 2, 2)], True)"
  by code_simp

lemma parse_rv32i:
  "riscv_parse_subset (ld_rps empty_slist) (Some ''rv32i'') = Some (rps_of [Err_no_default_version ''i''] 32 [], True)"
  by code_simp

lemma rps_of_i_ok: "rps_ok (rps_of [] 32 [(''i'', a, b)])"
  by (simp add: rps_of_def rps_ok_def slist_ok_def wf_ext_eval)


text \<open>
  C40. An ISA string without versions makes the merge follow a null pointer.  The linker parses with
  no ISA specification, so \<open>i\<close> has no default version: the parser reports it and goes on, and
  returns success with an empty list, whose head \<open>riscv_i_or_e_p\<close> reads.
\<close>

theorem merge_arch_unversioned_crash:
  assumes "in_subsets st = empty_slist"
    and "riscv_parse_subset (ld_rps (out_subsets st)) (Some b) = Some (rout, True)" "rps_xlen rout = 32"
  shows "riscv_merge_arch_attr_info xlen (Some ''rv32i'') (Some b) st = None"
proof -
  have "rps_xlen (rps_of es 32 []) = 32" "sl_head (rps_subset_list (rps_of es 32 [])) = []" for es
    by (simp_all add: rps_of_def)
  with assms parse_rv32i show ?thesis
    by (simp add: riscv_merge_arch_attr_info_def parse_errors_def merge_parsed_def riscv_merge_std_ext_def Let_def)
qed

lemma merge_arch_unversioned_crash_witness:
  "riscv_merge_arch_attr_info 32 (Some ''rv32i'') (Some ''rv32i2p1'') arch_start = None"
proof -
  have "in_subsets arch_start = empty_slist" "out_subsets arch_start = empty_slist"
    "rps_xlen (rps_of [] 32 [(''i'', 2, 1)]) = 32"
    by (simp_all add: arch_start_def rps_of_def)
  with parse_rv32i2p1 show ?thesis by (intro merge_arch_unversioned_crash) simp_all
qed

end
