(* ===== verification/RV_Attrs.thy ===== *)
theory RV_Attrs
  imports RV_Merge RV_Map
begin

text \<open>
  Merging the attributes and the header flags of an input file into the output file:
  \<open>riscv_merge_attributes\<close> and \<open>_bfd_riscv_elf_merge_private_bfd_data\<close> of \<^verbatim>\<open>bfd/elfnn-riscv.c\<close>, with the
  functions of \<^verbatim>\<open>bfd/elf-attrs.c\<close> they call.  A file is a record of what these functions read of a
  \<open>bfd\<close>.  \<open>None\<close> stands for an access through a null pointer, a call of a null function pointer or
  \<open>abort\<close>; memory is assumed not to run out.
\<close>

section \<open>Files and attributes\<close>

record obj_attribute =
  at_type :: nat
  at_i :: "32 word"
  at_s :: "string option"

record elf_section =
  sec_load :: bool
  sec_is_code :: bool
  sec_contents :: bool

text \<open>Attributes by vendor (0 for the processor, 1 for GNU) and tag; the tags from 77 on in a list.\<close>

record elf_bfd =
  b_is_riscv :: bool
  b_target :: string
  b_linker_created :: bool
  b_dynamic :: bool
  b_attr_section :: bool
  b_sections :: "elf_section list"
  b_known :: "nat \<Rightarrow> nat \<Rightarrow> obj_attribute"
  b_other :: "nat \<Rightarrow> (nat \<times> obj_attribute) list"
  b_e_flags :: "32 word"
  b_flags_init :: bool

datatype ld_message =
    Vendor_contents "string option"
  | Incompatible_tag nat
  | Priv_spec_mismatch
  | Priv_spec_1_9_1
  | Stack_align_mismatch "32 word" "32 word"
  | Target_mismatch string string
  | Float_abi_mismatch string string
  | Rve_mismatch

record ld_state =
  ld_arch :: arch_state
  ld_out :: elf_bfd
  ld_messages :: "ld_message list"
  ld_bad_value :: bool

definition ld_message :: "ld_message \<Rightarrow> ld_state \<Rightarrow> ld_state" where
  "ld_message m st = st\<lparr>ld_messages := ld_messages st @ [m]\<rparr>"

definition set_known :: "nat \<Rightarrow> nat \<Rightarrow> obj_attribute \<Rightarrow> elf_bfd \<Rightarrow> elf_bfd" where
  "set_known vendor tag a b = b\<lparr>b_known := (b_known b)(vendor := (b_known b vendor)(tag := a))\<rparr>"

definition set_out :: "nat \<Rightarrow> obj_attribute \<Rightarrow> ld_state \<Rightarrow> ld_state" where
  "set_out tag a st = st\<lparr>ld_out := set_known 0 tag a (ld_out st)\<rparr>"

abbreviation in_attr :: "elf_bfd \<Rightarrow> nat \<Rightarrow> obj_attribute" where
  "in_attr ibfd \<equiv> b_known ibfd 0"

abbreviation out_attr :: "ld_state \<Rightarrow> nat \<Rightarrow> obj_attribute" where
  "out_attr st \<equiv> b_known (ld_out st) 0"

section \<open>Attributes that are not known\<close>

text \<open>\<open>strcmp\<close> of two pointers for equality; \<open>None\<close> when one is null.\<close>

definition c_streq :: "string option \<Rightarrow> string option \<Rightarrow> bool option" where
  "c_streq s t = (case (s, t) of (Some a, Some b) \<Rightarrow> Some (a = b) | _ \<Rightarrow> None)"

definition same_value :: "obj_attribute \<Rightarrow> obj_attribute \<Rightarrow> bool" where
  "same_value a b \<longleftrightarrow> at_i a = at_i b \<and> at_s a = at_s b"

text \<open>
  The hook \<open>obj_attrs_handle_unknown\<close> of the back end, by whether it is called for the output file and
  the tag.  No RISC-V file defines it, so \<^verbatim>\<open>elfxx-target.h\<close> makes it a null pointer.
\<close>

definition elf_backend_obj_attrs_handle_unknown :: "(bool \<Rightarrow> nat \<Rightarrow> bool) option" where
  "elf_backend_obj_attrs_handle_unknown = None"

definition bfd_elf_merge_unknown_attribute_low ::
    "(bool \<Rightarrow> nat \<Rightarrow> bool) option \<Rightarrow> elf_bfd \<Rightarrow> nat \<Rightarrow> ld_state \<Rightarrow> (bool \<times> ld_state) option" where
  "bfd_elf_merge_unknown_attribute_low handle ibfd tag st =
     (let i = in_attr ibfd tag; o' = out_attr st tag;
          err_bfd = (if at_i o' \<noteq> 0 \<or> at_s o' \<noteq> None then Some True
                     else if at_i i \<noteq> 0 \<or> at_s i \<noteq> None then Some False else None)
      in do {
        result \<leftarrow> (case err_bfd of
                    None \<Rightarrow> Some True
                  | Some out \<Rightarrow> map_option (\<lambda>h. h out tag) handle);
        Some (result,
              if same_value i o' then st else set_out tag (o'\<lparr>at_i := 0, at_s := None\<rparr>) st)
      })"

text \<open>The two lists; the result, and the list of the output file.\<close>

function merge_unknown_lists ::
    "(bool \<Rightarrow> nat \<Rightarrow> bool) option \<Rightarrow> (nat \<times> obj_attribute) list \<Rightarrow> (nat \<times> obj_attribute) list \<Rightarrow> bool
     \<Rightarrow> (bool \<times> (nat \<times> obj_attribute) list) option" where
  "merge_unknown_lists handle ins outs result =
     (case (ins, outs) of
        ([], []) \<Rightarrow> Some (result, [])
      | ([], (t, _) # outs') \<Rightarrow> do {
          r \<leftarrow> (if result then map_option (\<lambda>h. h True t) handle else Some False);
          merge_unknown_lists handle ins outs' r
        }
      | ((t, _) # ins', []) \<Rightarrow> do {
          r \<leftarrow> (if result then map_option (\<lambda>h. h False t) handle else Some False);
          merge_unknown_lists handle ins' outs r
        }
      | ((t, a) # ins', (u, b) # outs') \<Rightarrow>
          if t > u then do {
            r \<leftarrow> (if result then map_option (\<lambda>h. h True u) handle else Some False);
            merge_unknown_lists handle ins outs' r
          }
          else if t < u then do {
            r \<leftarrow> (if result then map_option (\<lambda>h. h False t) handle else Some False);
            merge_unknown_lists handle ins' outs r
          }
          else do {
            r \<leftarrow> (if result then map_option (\<lambda>h. h True u) handle else Some False);
            if same_value a b
            then map_option (\<lambda>(r, os). (r, (u, b) # os)) (merge_unknown_lists handle ins' outs' r)
            else merge_unknown_lists handle ins outs' r
          })"
  by pat_completeness auto
termination
  by (relation "measure (\<lambda>(_, ins, outs, _). length ins + length outs)") auto

declare merge_unknown_lists.simps [simp del]

definition bfd_elf_merge_unknown_attribute_list ::
    "(bool \<Rightarrow> nat \<Rightarrow> bool) option \<Rightarrow> elf_bfd \<Rightarrow> ld_state \<Rightarrow> (bool \<times> ld_state) option" where
  "bfd_elf_merge_unknown_attribute_list handle ibfd st =
     map_option (\<lambda>(r, outs). (r, st\<lparr>ld_out := (ld_out st)\<lparr>b_other := (b_other (ld_out st))(0 := outs)\<rparr>\<rparr>))
       (merge_unknown_lists handle (b_other ibfd 0) (b_other (ld_out st) 0) True)"

section \<open>Common attributes\<close>

definition Tag_compatibility :: nat where
  "Tag_compatibility = 32"

definition merge_compatibility :: "elf_bfd \<Rightarrow> nat \<Rightarrow> ld_state \<Rightarrow> (bool \<times> ld_state) option" where
  "merge_compatibility ibfd vendor st =
     (let i = b_known ibfd vendor Tag_compatibility; o' = b_known (ld_out st) vendor Tag_compatibility
      in do {
        gnu \<leftarrow> (if at_i i > 0 then c_streq (at_s i) (Some ''gnu'') else Some True);
        if \<not> gnu then Some (False, ld_message (Vendor_contents (at_s i)) st)
        else do {
          same \<leftarrow> (if at_i i \<noteq> at_i o' then Some False
                   else if at_i i \<noteq> 0 then c_streq (at_s i) (at_s o') else Some True);
          if \<not> same then Some (False, ld_message (Incompatible_tag vendor) st) else Some (True, st)
        }
      })"

definition bfd_elf_merge_object_attributes :: "elf_bfd \<Rightarrow> ld_state \<Rightarrow> (bool \<times> ld_state) option" where
  "bfd_elf_merge_object_attributes ibfd st = do {
     (ok, st) \<leftarrow> merge_compatibility ibfd 0 st;
     if \<not> ok then Some (False, st) else merge_compatibility ibfd 1 st
   }"

section \<open>Copying the attributes of the first file\<close>

definition LEAST_KNOWN_OBJ_ATTRIBUTE :: nat where
  "LEAST_KNOWN_OBJ_ATTRIBUTE = 2"

definition NUM_KNOWN_OBJ_ATTRIBUTES :: nat where
  "NUM_KNOWN_OBJ_ATTRIBUTES = 77"

definition riscv_elf_obj_attrs_arg_type :: "nat \<Rightarrow> nat" where
  "riscv_elf_obj_attrs_arg_type tag = (if odd tag then 2 else 1)"

definition gnu_obj_attrs_arg_type :: "nat \<Rightarrow> nat" where
  "gnu_obj_attrs_arg_type tag = (if tag = Tag_compatibility then 3 else if odd tag then 2 else 1)"

definition bfd_elf_obj_attrs_arg_type :: "nat \<Rightarrow> nat \<Rightarrow> nat" where
  "bfd_elf_obj_attrs_arg_type vendor tag =
     (if vendor = 0 then riscv_elf_obj_attrs_arg_type tag else gnu_obj_attrs_arg_type tag)"

definition copy_known :: "elf_bfd \<Rightarrow> nat \<Rightarrow> nat \<Rightarrow> elf_bfd \<Rightarrow> elf_bfd" where
  "copy_known ibfd vendor tag obfd =
     (let i = b_known ibfd vendor tag; o' = b_known obfd vendor tag
      in set_known vendor tag
           \<lparr>at_type = at_type i, at_i = at_i i,
            at_s = (if at_s i \<noteq> None \<and> at_s i \<noteq> Some [] then at_s i else at_s o')\<rparr> obfd)"

text \<open>The new node stands behind the tags that are not greater.\<close>

definition elf_add_other :: "nat \<Rightarrow> nat \<Rightarrow> obj_attribute \<Rightarrow> elf_bfd \<Rightarrow> elf_bfd" where
  "elf_add_other vendor tag a b =
     (let l = b_other b vendor
      in b\<lparr>b_other := (b_other b)(vendor := takeWhile (\<lambda>(t, _). t \<le> tag) l @ (tag, a) #
                                             dropWhile (\<lambda>(t, _). t \<le> tag) l)\<rparr>)"

text \<open>
  The attributes of the list by their type; a null string is dereferenced by \<open>elf_attr_strdup\<close>.  The
  list holds the tags from \<open>NUM_KNOWN_OBJ_ATTRIBUTES\<close> on.
\<close>

definition copy_other :: "nat \<Rightarrow> nat \<times> obj_attribute \<Rightarrow> elf_bfd \<Rightarrow> elf_bfd option" where
  "copy_other vendor = (\<lambda>(tag, a) b.
     (let type = at_type a mod 4; new = bfd_elf_obj_attrs_arg_type vendor tag
      in if type = 1 then Some (elf_add_other vendor tag \<lparr>at_type = new, at_i = at_i a, at_s = None\<rparr> b)
         else if type = 0 \<or> at_s a = None then None
         else Some (elf_add_other vendor tag
                \<lparr>at_type = new, at_i = (if type = 2 then 0 else at_i a), at_s = at_s a\<rparr> b)))"

fun copy_others :: "nat \<Rightarrow> (nat \<times> obj_attribute) list \<Rightarrow> elf_bfd \<Rightarrow> elf_bfd option" where
  "copy_others vendor [] b = Some b"
| "copy_others vendor (x # xs) b = do {
     b' \<leftarrow> copy_other vendor x b;
     copy_others vendor xs b'
   }"

definition bfd_elf_copy_obj_attributes :: "elf_bfd \<Rightarrow> elf_bfd \<Rightarrow> elf_bfd option" where
  "bfd_elf_copy_obj_attributes ibfd obfd = do {
     let tags = [LEAST_KNOWN_OBJ_ATTRIBUTE..<NUM_KNOWN_OBJ_ATTRIBUTES];
     b \<leftarrow> copy_others 0 (b_other ibfd 0) (fold (copy_known ibfd 0) tags obfd);
     copy_others 1 (b_other ibfd 1) (fold (copy_known ibfd 1) tags b)
   }"

section \<open>The attributes of RISC-V\<close>

definition Tag_RISCV_stack_align :: nat where "Tag_RISCV_stack_align = 4"
definition Tag_RISCV_arch :: nat where "Tag_RISCV_arch = 5"
definition Tag_RISCV_unaligned_access :: nat where "Tag_RISCV_unaligned_access = 6"
definition Tag_RISCV_priv_spec :: nat where "Tag_RISCV_priv_spec = 8"
definition Tag_RISCV_priv_spec_minor :: nat where "Tag_RISCV_priv_spec_minor = 10"
definition Tag_RISCV_priv_spec_revision :: nat where "Tag_RISCV_priv_spec_revision = 12"

definition merge_arch_tag :: "nat \<Rightarrow> elf_bfd \<Rightarrow> ld_state \<Rightarrow> (bool \<times> ld_state) option" where
  "merge_arch_tag arch_size ibfd st =
     (let i = in_attr ibfd Tag_RISCV_arch; o' = out_attr st Tag_RISCV_arch
      in if at_s o' = None then Some (True, set_out Tag_RISCV_arch (o'\<lparr>at_s := at_s i\<rparr>) st)
         else if at_s i = None then Some (True, st)
         else do {
           (merged, arch) \<leftarrow> riscv_merge_arch_attr_info arch_size (at_s i) (at_s o') (ld_arch st);
           let st = st\<lparr>ld_arch := arch\<rparr>;
           case merged of
             None \<Rightarrow> Some (False, set_out Tag_RISCV_arch (o'\<lparr>at_s := Some []\<rparr>) st)
           | Some str \<Rightarrow> Some (True, set_out Tag_RISCV_arch (o'\<lparr>at_s := Some str\<rparr>) st)
         })"

definition priv_spec_of :: "(nat \<Rightarrow> obj_attribute) \<Rightarrow> riscv_spec_class" where
  "priv_spec_of attr =
     riscv_get_priv_spec_class_from_numbers (unat (at_i (attr Tag_RISCV_priv_spec)))
       (unat (at_i (attr Tag_RISCV_priv_spec_minor))) (unat (at_i (attr Tag_RISCV_priv_spec_revision)))
       PRIV_SPEC_CLASS_NONE"

definition copy_priv_spec :: "elf_bfd \<Rightarrow> ld_state \<Rightarrow> ld_state" where
  "copy_priv_spec ibfd st =
     fold (\<lambda>t st. set_out t ((out_attr st t)\<lparr>at_i := at_i (in_attr ibfd t)\<rparr>) st)
       [Tag_RISCV_priv_spec, Tag_RISCV_priv_spec_minor, Tag_RISCV_priv_spec_revision] st"

definition merge_priv_spec :: "elf_bfd \<Rightarrow> ld_state \<Rightarrow> ld_state" where
  "merge_priv_spec ibfd st =
     (let i = priv_spec_of (in_attr ibfd); o' = priv_spec_of (out_attr st)
      in if o' = PRIV_SPEC_CLASS_NONE then copy_priv_spec ibfd st
         else if i \<noteq> PRIV_SPEC_CLASS_NONE \<and> i \<noteq> o'
         then (let st = ld_message Priv_spec_mismatch st;
                   st = (if i = PRIV_SPEC_CLASS_1P9P1 \<or> o' = PRIV_SPEC_CLASS_1P9P1
                         then ld_message Priv_spec_1_9_1 st else st)
               in if spec_class_value o' < spec_class_value i then copy_priv_spec ibfd st else st)
         else st)"

definition merge_stack_align :: "elf_bfd \<Rightarrow> ld_state \<Rightarrow> bool \<times> ld_state" where
  "merge_stack_align ibfd st =
     (let t = Tag_RISCV_stack_align; i = in_attr ibfd t; o' = out_attr st t
      in if at_i o' = 0 then (True, set_out t (o'\<lparr>at_i := at_i i\<rparr>) st)
         else if at_i i \<noteq> 0 \<and> at_i o' \<noteq> at_i i
         then (False, ld_message (Stack_align_mismatch (at_i i) (at_i o')) st)
         else (True, st))"

text \<open>
  One round of the loop.  The second and third tag of the privileged specification find
  \<open>priv_attrs_merged\<close> set, since the tags grow.
\<close>

definition merge_tag :: "nat \<Rightarrow> elf_bfd \<Rightarrow> nat \<Rightarrow> ld_state \<Rightarrow> (bool \<times> ld_state) option" where
  "merge_tag arch_size ibfd tag st = do {
     (ok, st) \<leftarrow>
       (if tag = Tag_RISCV_arch then merge_arch_tag arch_size ibfd st
        else if tag = Tag_RISCV_priv_spec then Some (True, merge_priv_spec ibfd st)
        else if tag = Tag_RISCV_priv_spec_minor \<or> tag = Tag_RISCV_priv_spec_revision then Some (True, st)
        else if tag = Tag_RISCV_unaligned_access
        then Some (True, set_out tag ((out_attr st tag)
               \<lparr>at_i := at_i (out_attr st tag) OR at_i (in_attr ibfd tag)\<rparr>) st)
        else if tag = Tag_RISCV_stack_align then Some (merge_stack_align ibfd st)
        else bfd_elf_merge_unknown_attribute_low elf_backend_obj_attrs_handle_unknown ibfd tag st);
     Some (ok,
           if at_type (in_attr ibfd tag) \<noteq> 0 \<and> at_type (out_attr st tag) = 0
           then set_out tag ((out_attr st tag)\<lparr>at_type := at_type (in_attr ibfd tag)\<rparr>) st else st)
   }"

fun merge_tags :: "nat \<Rightarrow> elf_bfd \<Rightarrow> nat list \<Rightarrow> bool \<Rightarrow> ld_state \<Rightarrow> (bool \<times> ld_state) option" where
  "merge_tags arch_size ibfd [] result st = Some (result, st)"
| "merge_tags arch_size ibfd (t # ts) result st = do {
     (ok, st') \<leftarrow> merge_tag arch_size ibfd t st;
     merge_tags arch_size ibfd ts (result \<and> ok) st'
   }"

definition riscv_merge_attributes :: "nat \<Rightarrow> elf_bfd \<Rightarrow> ld_state \<Rightarrow> (bool \<times> ld_state) option" where
  "riscv_merge_attributes arch_size ibfd st =
     (if b_linker_created ibfd then Some (True, st)
      else if \<not> b_attr_section ibfd then Some (True, st)
      else if at_i (out_attr st 0) = 0
      then do {
        out \<leftarrow> bfd_elf_copy_obj_attributes ibfd (ld_out st);
        Some (True, st\<lparr>ld_out := set_known 0 0 ((b_known out 0 0)\<lparr>at_i := 1\<rparr>) out\<rparr>)
      }
      else do {
        (result, st) \<leftarrow> merge_tags arch_size ibfd [LEAST_KNOWN_OBJ_ATTRIBUTE..<NUM_KNOWN_OBJ_ATTRIBUTES] True st;
        (ok, st) \<leftarrow> bfd_elf_merge_object_attributes ibfd st;
        if \<not> ok then Some (False, st)
        else do {
          (ok, st) \<leftarrow> bfd_elf_merge_unknown_attribute_list elf_backend_obj_attrs_handle_unknown ibfd st;
          Some (result \<and> ok, st)
        }
      })"

section \<open>The flags of the header\<close>

definition EF_RISCV_RVC :: "32 word" where "EF_RISCV_RVC = 0x1"
definition EF_RISCV_FLOAT_ABI :: "32 word" where "EF_RISCV_FLOAT_ABI = 0x6"
definition EF_RISCV_RVE :: "32 word" where "EF_RISCV_RVE = 0x8"
definition EF_RISCV_TSO :: "32 word" where "EF_RISCV_TSO = 0x10"

text \<open>\<open>None\<close> is the call of \<open>abort\<close>.\<close>

definition riscv_float_abi_string :: "32 word \<Rightarrow> string option" where
  "riscv_float_abi_string flags =
     (let f = flags AND EF_RISCV_FLOAT_ABI
      in if f = 0 then Some ''soft-float'' else if f = 2 then Some ''single-float''
         else if f = 4 then Some ''double-float'' else if f = 6 then Some ''quad-float'' else None)"

definition code_section :: "elf_section \<Rightarrow> bool" where
  "code_section s \<longleftrightarrow> sec_load s \<and> sec_is_code s \<and> sec_contents s"

definition merge_flags :: "elf_bfd \<Rightarrow> ld_state \<Rightarrow> (bool \<times> ld_state) option" where
  "merge_flags ibfd st =
     (let new_flags = b_e_flags ibfd; old_flags = b_e_flags (ld_out st)
      in if \<not> b_flags_init (ld_out st)
         then Some (True, st\<lparr>ld_out := (ld_out st)\<lparr>b_flags_init := True, b_e_flags := new_flags\<rparr>\<rparr>)
         else if (old_flags XOR new_flags) AND EF_RISCV_FLOAT_ABI \<noteq> 0
         then do {
           new \<leftarrow> riscv_float_abi_string new_flags;
           old \<leftarrow> riscv_float_abi_string old_flags;
           Some (False, (ld_message (Float_abi_mismatch new old) st)\<lparr>ld_bad_value := True\<rparr>)
         }
         else if (old_flags XOR new_flags) AND EF_RISCV_RVE \<noteq> 0
         then Some (False, (ld_message Rve_mismatch st)\<lparr>ld_bad_value := True\<rparr>)
         else Some (True, st\<lparr>ld_out := (ld_out st)
                \<lparr>b_e_flags := old_flags OR (new_flags AND EF_RISCV_RVC) OR (new_flags AND EF_RISCV_TSO)\<rparr>\<rparr>))"

definition bfd_riscv_elf_merge_private_bfd_data ::
    "nat \<Rightarrow> elf_bfd \<Rightarrow> ld_state \<Rightarrow> (bool \<times> ld_state) option" where
  "bfd_riscv_elf_merge_private_bfd_data arch_size ibfd st =
     (if \<not> b_is_riscv ibfd \<or> \<not> b_is_riscv (ld_out st) then Some (True, st)
      else if b_target ibfd \<noteq> b_target (ld_out st)
      then Some (False, ld_message (Target_mismatch (b_target ibfd) (b_target (ld_out st))) st)
      else do {
        (ok, st) \<leftarrow> bfd_elf_merge_object_attributes ibfd st;
        if \<not> ok then Some (False, st)
        else do {
          (ok, st) \<leftarrow> riscv_merge_attributes arch_size ibfd st;
          if \<not> ok then Some (False, st)
          else if \<not> b_dynamic ibfd \<and> \<not> list_ex code_section (b_sections ibfd) then Some (True, st)
          else merge_flags ibfd st
        }
      })"

end
