(* ===== verification/RV_Attrs_Laws.thy ===== *)
theory RV_Attrs_Laws
  imports RV_Attrs
begin

text \<open>
  What merging files promises: the flags of the output file say of all files that carry code what they
  have in common and whether one of them is compressed, whatever their order; an attribute the back
  end does not know makes the linker call a null pointer.
\<close>

section \<open>Unknown attributes\<close>

lemma merge_tags_None:
  assumes "t \<in> set ts" "\<And>st. merge_tag n ibfd t st = None"
  shows "merge_tags n ibfd ts result st = None"
  using assms(1)
proof (induction ts arbitrary: result st)
  case (Cons u us)
  then show ?case using assms(2) by (cases "merge_tag n ibfd u st") (auto split: prod.splits)
qed simp

text \<open>The tags \<open>riscv_merge_attributes\<close> handles.\<close>

definition riscv_tags :: "nat list" where
  "riscv_tags = [Tag_RISCV_stack_align, Tag_RISCV_arch, Tag_RISCV_unaligned_access, Tag_RISCV_priv_spec,
     Tag_RISCV_priv_spec_minor, Tag_RISCV_priv_spec_revision]"

text \<open>
  C39. An object file with a processor attribute outside of the six tags the function handles, such as
  \<open>Tag_RISCV_atomic_abi\<close> (14), makes the linker call a null pointer once the output file has
  attributes: whatever the other attributes, the merge does not return.  The hook for unknown attributes
  is not defined for RISC-V.
\<close>

theorem merge_unknown_attribute_crash:
  assumes "\<not> b_linker_created ibfd" "b_attr_section ibfd" "at_i (out_attr st 0) \<noteq> 0"
    and "2 \<le> tag" "tag < 77" "tag \<notin> set riscv_tags"
    and "at_i (in_attr ibfd tag) \<noteq> 0 \<or> at_s (in_attr ibfd tag) \<noteq> None"
  shows "riscv_merge_attributes arch_size ibfd st = None"
proof -
  have "merge_tag arch_size ibfd tag s = None" for s
    using assms(6,7)
    by (auto simp: merge_tag_def riscv_tags_def bfd_elf_merge_unknown_attribute_low_def
        elf_backend_obj_attrs_handle_unknown_def Let_def)
  moreover have "tag \<in> set [LEAST_KNOWN_OBJ_ATTRIBUTE..<NUM_KNOWN_OBJ_ATTRIBUTES]"
    using assms(4,5) unfolding LEAST_KNOWN_OBJ_ATTRIBUTE_def NUM_KNOWN_OBJ_ATTRIBUTES_def set_upt
    by (simp only: atLeastLessThan_iff)
  ultimately show ?thesis
    using assms(1-3) merge_tags_None [of tag] by (simp add: riscv_merge_attributes_def)
qed

text \<open>A file without attributes, and one with the attribute 14, for examples.\<close>

definition no_attribute :: obj_attribute where
  "no_attribute = \<lparr>at_type = 0, at_i = 0, at_s = None\<rparr>"

definition file0 :: elf_bfd where
  "file0 = \<lparr>b_is_riscv = True, b_target = ''elf64-littleriscv'', b_linker_created = False, b_dynamic = False,
     b_attr_section = True, b_sections = [\<lparr>sec_load = True, sec_is_code = True, sec_contents = True\<rparr>],
     b_known = (\<lambda>_ _. no_attribute), b_other = (\<lambda>_. []), b_e_flags = 5, b_flags_init = False\<rparr>"

definition link0 :: ld_state where
  "link0 = \<lparr>ld_arch = \<lparr>in_subsets = empty_slist, out_subsets = empty_slist, merged_subsets = empty_slist,
       arch_errors = []\<rparr>, ld_out = file0, ld_messages = [], ld_bad_value = False\<rparr>"

lemma merge_unknown_attribute_crash_witness:
  "riscv_merge_attributes 64 (set_known 0 14 (no_attribute\<lparr>at_i := 1\<rparr>) file0)
     (set_out 0 (no_attribute\<lparr>at_i := 1\<rparr>) link0) = None"
  by (rule merge_unknown_attribute_crash [of _ _ 14])
    (simp_all add: set_out_def set_known_def file0_def link0_def riscv_tags_def Tag_RISCV_stack_align_def
      Tag_RISCV_arch_def Tag_RISCV_unaligned_access_def Tag_RISCV_priv_spec_def Tag_RISCV_priv_spec_minor_def
      Tag_RISCV_priv_spec_revision_def)

section \<open>What merging attributes leaves of the header\<close>

definition same_header :: "elf_bfd \<Rightarrow> elf_bfd \<Rightarrow> bool" where
  "same_header a b \<longleftrightarrow> b_e_flags a = b_e_flags b \<and> b_flags_init a = b_flags_init b \<and>
     b_is_riscv a = b_is_riscv b \<and> b_target a = b_target b"

lemma same_header_refl [simp]: "same_header a a"
  by (simp add: same_header_def)

lemma same_header_trans: "same_header a b \<Longrightarrow> same_header b c \<Longrightarrow> same_header a c"
  by (simp add: same_header_def)

lemma same_header_set [simp]:
  "same_header a (set_known v t x b) = same_header a b"
  "same_header a (ld_out (set_out t x st)) = same_header a (ld_out st)"
  "same_header a (ld_out (ld_message m st)) = same_header a (ld_out st)"
  "same_header a (ld_out (st\<lparr>ld_arch := arch\<rparr>)) = same_header a (ld_out st)"
  "same_header a (b\<lparr>b_other := l\<rparr>) = same_header a b"
  by (simp_all add: same_header_def set_known_def set_out_def ld_message_def)

lemma same_header_copy:
  assumes "bfd_elf_copy_obj_attributes ibfd b = Some b'"
  shows "same_header b b'"
proof -
  have f: "same_header a b \<Longrightarrow> same_header a (fold (copy_known ibfd v) ts b)" for a b v ts
    by (induction ts arbitrary: b) (simp_all add: copy_known_def Let_def)
  have "copy_other v x b = Some b' \<Longrightarrow> same_header a b \<Longrightarrow> same_header a b'" for a b b' v x
    by (auto simp: copy_other_def elf_add_other_def Let_def split: if_splits prod.splits)
  then have o': "copy_others v xs b = Some b' \<Longrightarrow> same_header a b \<Longrightarrow> same_header a b'" for a b b' v xs
    by (induction xs arbitrary: b) (auto split: bind_splits)
  define ts where "ts = [LEAST_KNOWN_OBJ_ATTRIBUTE..<NUM_KNOWN_OBJ_ATTRIBUTES]"
  obtain c where c: "copy_others 0 (b_other ibfd 0) (fold (copy_known ibfd 0) ts b) = Some c"
      "copy_others 1 (b_other ibfd 1) (fold (copy_known ibfd 1) ts c) = Some b'"
    using assms by (auto simp: bfd_elf_copy_obj_attributes_def Let_def ts_def [symmetric] split: bind_splits)
  have "same_header b c" by (rule o' [OF c(1) f]) simp
  then show ?thesis by (intro o' [OF c(2)] f)
qed

lemma same_header_compat:
  "bfd_elf_merge_object_attributes ibfd st = Some (ok, st') \<Longrightarrow> same_header (ld_out st) (ld_out st')"
  by (auto simp: bfd_elf_merge_object_attributes_def merge_compatibility_def Let_def
      split: bind_splits if_splits)

lemma same_header_tag:
  assumes "merge_tag n ibfd t st = Some (ok, st')"
  shows "same_header (ld_out st) (ld_out st')"
proof -
  have arch: "merge_arch_tag n ibfd st = Some (ok, s) \<Longrightarrow> same_header (ld_out st) (ld_out s)" for ok s
    by (auto simp: merge_arch_tag_def Let_def split: bind_splits if_splits option.splits)
  have priv: "same_header (ld_out st) (ld_out (merge_priv_spec ibfd st))"
    by (simp add: merge_priv_spec_def copy_priv_spec_def Let_def)
  have stack: "same_header (ld_out st) (ld_out (snd (merge_stack_align ibfd st)))"
    by (simp add: merge_stack_align_def Let_def)
  have low: "bfd_elf_merge_unknown_attribute_low h ibfd t st = Some (ok, s) \<Longrightarrow> same_header (ld_out st) (ld_out s)"
    for ok s h
    by (auto simp: bfd_elf_merge_unknown_attribute_low_def Let_def split: bind_splits if_splits)
  from assms arch priv stack low show ?thesis
    by (auto simp: merge_tag_def split: bind_splits if_splits dest: sndI)
qed

lemma same_header_tags:
  "merge_tags n ibfd ts r st = Some (ok, st') \<Longrightarrow> same_header (ld_out st) (ld_out st')"
  by (induction ts arbitrary: r st)
    (auto split: bind_splits dest: same_header_tag intro: same_header_trans)

lemma same_header_attributes:
  assumes "riscv_merge_attributes n ibfd st = Some (ok, st')"
  shows "same_header (ld_out st) (ld_out st')"
proof (cases "b_linker_created ibfd \<or> \<not> b_attr_section ibfd")
  case True
  with assms have "st' = st" unfolding riscv_merge_attributes_def by (auto split: if_splits)
  then show ?thesis by simp
next
  case False
  define ts where "ts = [LEAST_KNOWN_OBJ_ATTRIBUTE..<NUM_KNOWN_OBJ_ATTRIBUTES]"
  show ?thesis
  proof (cases "at_i (out_attr st 0) = 0")
    case True
    with False assms same_header_copy show ?thesis
      by (auto simp: riscv_merge_attributes_def split: bind_splits)
  next
    case init: False
    with False assms have eq: "do {
        (result, st) \<leftarrow> merge_tags n ibfd ts True st;
        (ok, st) \<leftarrow> bfd_elf_merge_object_attributes ibfd st;
        if \<not> ok then Some (False, st)
        else do {
          (ok, st) \<leftarrow> bfd_elf_merge_unknown_attribute_list elf_backend_obj_attrs_handle_unknown ibfd st;
          Some (result \<and> ok, st)
        } } = Some (ok, st')"
      by (simp add: riscv_merge_attributes_def ts_def)
    then obtain r s1 where s1: "merge_tags n ibfd ts True st = Some (r, s1)"
      by (cases "merge_tags n ibfd ts True st") auto
    with eq obtain c s2 where s2: "bfd_elf_merge_object_attributes ibfd s1 = Some (c, s2)"
      by (cases "bfd_elf_merge_object_attributes ibfd s1") auto
    have h: "same_header (ld_out st) (ld_out s2)"
      using same_header_tags [OF s1] same_header_compat [OF s2] by (rule same_header_trans)
    show ?thesis
    proof (cases c)
      case True
      with eq s1 s2 obtain k where
        "bfd_elf_merge_unknown_attribute_list elf_backend_obj_attrs_handle_unknown ibfd s2 = Some (k, st')"
        by (cases "bfd_elf_merge_unknown_attribute_list elf_backend_obj_attrs_handle_unknown ibfd s2") auto
      with h show ?thesis by (auto simp: bfd_elf_merge_unknown_attribute_list_def)
    next
      case False
      with eq s1 s2 h show ?thesis by simp
    qed
  qed
qed

section \<open>The flags of the output file\<close>

text \<open>The files whose flags count: they are dynamic or have a section of code.\<close>

definition flags_count :: "elf_bfd \<Rightarrow> bool" where
  "flags_count f \<longleftrightarrow> b_is_riscv f \<and> (b_dynamic f \<or> list_ex code_section (b_sections f))"

text \<open>The states of a link that succeeds so far, with the files merged.\<close>

inductive link_reach :: "nat \<Rightarrow> elf_bfd list \<Rightarrow> ld_state \<Rightarrow> bool" for n where
  link_start: "\<not> b_flags_init (ld_out st) \<Longrightarrow> b_is_riscv (ld_out st) \<Longrightarrow> link_reach n [] st"
| link_merge: "link_reach n fs st \<Longrightarrow>
     bfd_riscv_elf_merge_private_bfd_data n f st = Some (True, st') \<Longrightarrow> link_reach n (f # fs) st'"

text \<open>The bits that must agree, and those that are collected.\<close>

definition abi_mask :: "32 word" where "abi_mask = EF_RISCV_FLOAT_ABI OR EF_RISCV_RVE"
definition any_mask :: "32 word" where "any_mask = EF_RISCV_RVC OR EF_RISCV_TSO"

lemmas flag_defs = abi_mask_def any_mask_def EF_RISCV_FLOAT_ABI_def EF_RISCV_RVE_def EF_RISCV_RVC_def
  EF_RISCV_TSO_def

lemma mask_agree: "(a XOR b) AND m = 0 \<longleftrightarrow> a AND m = b AND (m :: 32 word)"
  by (auto simp: bit_eq_iff bit_simps)

lemma flags_agree:
  "(a XOR b) AND EF_RISCV_FLOAT_ABI = 0 \<and> (a XOR b) AND EF_RISCV_RVE = 0 \<longleftrightarrow> a AND abi_mask = b AND abi_mask"
  unfolding mask_agree abi_mask_def by (auto simp: bit_eq_iff bit_simps)

lemma float_abi_string_defined: "riscv_float_abi_string f \<noteq> None"
proof -
  define x where "x = f AND 6"
  have "x \<le> 6" by (simp add: x_def word_and_le1)
  then have "unat x \<le> 6" by (simp add: word_le_nat_alt)
  then consider "unat x = 0" | "unat x = 1" | "unat x = 2" | "unat x = 3" | "unat x = 4" | "unat x = 5" | "unat x = 6"
    by linarith
  moreover have "x = of_nat (unat x)" by simp
  moreover have "\<not> bit x 0" by (simp add: x_def bit_simps)
  ultimately have "x \<in> {0, 2, 4, 6}" by cases auto
  then show ?thesis by (auto simp: riscv_float_abi_string_def EF_RISCV_FLOAT_ABI_def x_def)
qed

lemma merge_flags_spec:
  "\<exists>r st'. merge_flags f st = Some (r, st') \<and>
     (r \<longleftrightarrow> b_flags_init (ld_out st) \<longrightarrow> b_e_flags (ld_out st) AND abi_mask = b_e_flags f AND abi_mask) \<and>
     (r \<longrightarrow> b_flags_init (ld_out st') \<and> b_is_riscv (ld_out st') = b_is_riscv (ld_out st) \<and>
        b_e_flags (ld_out st') AND abi_mask = b_e_flags f AND abi_mask \<and>
        b_e_flags (ld_out st') AND any_mask =
          (if b_flags_init (ld_out st) then b_e_flags (ld_out st) AND any_mask else 0) OR (b_e_flags f AND any_mask))"
proof -
  let ?o = "b_e_flags (ld_out st)" and ?n = "b_e_flags f"
  let ?m = "?o OR (?n AND EF_RISCV_RVC) OR (?n AND EF_RISCV_TSO)"
  have abi: "?m AND abi_mask = ?o AND abi_mask"
    by (simp add: flag_defs bit.conj_disj_distrib2 and.assoc)
  have any: "?m AND any_mask = (?o AND any_mask) OR (?n AND any_mask)"
    by (auto simp: any_mask_def bit_eq_iff bit_simps)
  obtain a b where "riscv_float_abi_string ?n = Some a" "riscv_float_abi_string ?o = Some b"
    using float_abi_string_defined by blast
  then show ?thesis
    using flags_agree [of ?o ?n] abi any by (auto simp: merge_flags_def Let_def)
qed

lemma private_data_step:
  assumes "bfd_riscv_elf_merge_private_bfd_data n f st = Some (True, st')" "b_is_riscv (ld_out st)"
  obtains "\<not> flags_count f" "same_header (ld_out st) (ld_out st')"
  | st2 where "flags_count f" "same_header (ld_out st) (ld_out st2)" "merge_flags f st2 = Some (True, st')"
proof (cases "b_is_riscv f")
  case False
  with assms that(1) show thesis by (simp add: bfd_riscv_elf_merge_private_bfd_data_def flags_count_def)
next
  case True
  with assms have "b_target f = b_target (ld_out st)"
    by (auto simp: bfd_riscv_elf_merge_private_bfd_data_def split: if_splits)
  with True assms have eq: "do {
      (ok, st) \<leftarrow> bfd_elf_merge_object_attributes f st;
      if \<not> ok then Some (False, st)
      else do {
        (ok, st) \<leftarrow> riscv_merge_attributes n f st;
        if \<not> ok then Some (False, st)
        else if \<not> b_dynamic f \<and> \<not> list_ex code_section (b_sections f) then Some (True, st)
        else merge_flags f st
      } } = Some (True, st')"
    by (simp add: bfd_riscv_elf_merge_private_bfd_data_def)
  then obtain s1 where s1: "bfd_elf_merge_object_attributes f st = Some (True, s1)"
    by (cases "bfd_elf_merge_object_attributes f st") (auto split: if_splits)
  with eq obtain s2 where s2: "riscv_merge_attributes n f s1 = Some (True, s2)"
    by (cases "riscv_merge_attributes n f s1") (auto split: if_splits)
  have h: "same_header (ld_out st) (ld_out s2)"
    using same_header_compat [OF s1] same_header_attributes [OF s2] by (rule same_header_trans)
  show thesis
  proof (cases "flags_count f")
    case True
    with eq s1 s2 h that(2) show thesis by (auto simp: flags_count_def split: if_splits)
  next
    case False
    with eq s1 s2 h that(1) \<open>b_is_riscv f\<close> show thesis by (auto simp: flags_count_def split: if_splits)
  qed
qed

definition collected :: "elf_bfd list \<Rightarrow> 32 word" where
  "collected fs = foldr (\<lambda>f a. if flags_count f then a OR (b_e_flags f AND any_mask) else a) fs 0"

lemma mask_within: "m AND M = m \<Longrightarrow> (x AND M) AND m = x AND (m :: 32 word)"
proof -
  assume "m AND M = m"
  moreover have "(x AND M) AND m = x AND (m AND M)" by (simp add: ac_simps)
  ultimately show ?thesis by simp
qed

lemma collected_bits:
  assumes "m AND any_mask = m"
  shows "collected fs AND m \<noteq> 0 \<longleftrightarrow> (\<exists>f\<in>set fs. flags_count f \<and> b_e_flags f AND m \<noteq> 0)"
proof -
  have "(a OR (b AND any_mask)) AND m = 0 \<longleftrightarrow> a AND m = 0 \<and> b AND m = 0" for a b
  proof -
    have "(a OR (b AND any_mask)) AND m = (a AND m) OR (b AND m)"
      by (simp add: bit.conj_disj_distrib2 mask_within [OF assms])
    then show ?thesis by (simp add: or_eq_0_iff)
  qed
  then show ?thesis by (induction fs) (auto simp: collected_def)
qed

lemma link_reach_invariant:
  assumes "link_reach n fs st"
  shows "b_is_riscv (ld_out st) \<and> (b_flags_init (ld_out st) \<longleftrightarrow> (\<exists>f\<in>set fs. flags_count f)) \<and>
    (\<forall>f\<in>set fs. flags_count f \<longrightarrow> b_e_flags (ld_out st) AND abi_mask = b_e_flags f AND abi_mask) \<and>
    (b_flags_init (ld_out st) \<longrightarrow> b_e_flags (ld_out st) AND any_mask = collected fs)"
  using assms
proof (induction rule: link_reach.induct)
  case (link_start st)
  then show ?case by simp
next
  case (link_merge fs st f st')
  have c0: "\<not> (\<exists>f\<in>set fs. flags_count f) \<Longrightarrow> collected fs = 0" for fs
    by (induction fs) (auto simp: collected_def)
  have riscv: "b_is_riscv (ld_out st)" using link_merge.IH by simp
  show ?case
  proof (rule private_data_step [OF link_merge.hyps(2) riscv])
    assume "\<not> flags_count f" "same_header (ld_out st) (ld_out st')"
    moreover from this have "collected (f # fs) = collected fs" by (simp add: collected_def)
    ultimately show ?thesis using link_merge.IH by (simp add: same_header_def)
  next
    fix st2
    assume s2: "flags_count f" "same_header (ld_out st) (ld_out st2)" "merge_flags f st2 = Some (True, st')"
    have c: "collected (f # fs) = collected fs OR (b_e_flags f AND any_mask)"
      using s2(1) by (simp add: collected_def)
    from merge_flags_spec [of f st2] s2(3) have
      "b_flags_init (ld_out st2) \<longrightarrow> b_e_flags (ld_out st2) AND abi_mask = b_e_flags f AND abi_mask"
      "b_flags_init (ld_out st')" "b_is_riscv (ld_out st') = b_is_riscv (ld_out st2)"
      "b_e_flags (ld_out st') AND abi_mask = b_e_flags f AND abi_mask"
      "b_e_flags (ld_out st') AND any_mask =
         (if b_flags_init (ld_out st2) then b_e_flags (ld_out st2) AND any_mask else 0) OR (b_e_flags f AND any_mask)"
      by auto
    with s2(1,2) link_merge.IH c0 [of fs] c show ?thesis by (auto simp: same_header_def)
  qed
qed

text \<open>
  C21. The header flags of the output file are right after any sequence of files that were merged with
  success, in any order: every file with code has the floating point ABI and the base (RVE or not) of
  the output, and the output is marked as compressed, and as needing the TSO memory model, exactly
  when one of these files is.
\<close>

theorem merged_flags_correct:
  assumes "link_reach n fs st" "f \<in> set fs" "flags_count f"
  shows "b_e_flags (ld_out st) AND EF_RISCV_FLOAT_ABI = b_e_flags f AND EF_RISCV_FLOAT_ABI \<and>
    b_e_flags (ld_out st) AND EF_RISCV_RVE = b_e_flags f AND EF_RISCV_RVE \<and>
    (b_e_flags (ld_out st) AND EF_RISCV_RVC \<noteq> 0 \<longleftrightarrow> (\<exists>g\<in>set fs. flags_count g \<and> b_e_flags g AND EF_RISCV_RVC \<noteq> 0)) \<and>
    (b_e_flags (ld_out st) AND EF_RISCV_TSO \<noteq> 0 \<longleftrightarrow> (\<exists>g\<in>set fs. flags_count g \<and> b_e_flags g AND EF_RISCV_TSO \<noteq> 0))"
proof -
  let ?o = "b_e_flags (ld_out st)"
  note inv = link_reach_invariant [OF assms(1)]
  then have abi: "?o AND abi_mask = b_e_flags f AND abi_mask" and any: "?o AND any_mask = collected fs"
    using assms(2,3) by auto
  have "?o AND m = b_e_flags f AND m" if "m AND abi_mask = m" for m
    using mask_within [OF that, of ?o] mask_within [OF that, of "b_e_flags f"] abi by simp
  moreover have "?o AND m = collected fs AND m" if "m AND any_mask = m" for m
    using mask_within [OF that, of ?o] any by simp
  moreover have "EF_RISCV_FLOAT_ABI AND abi_mask = EF_RISCV_FLOAT_ABI" "EF_RISCV_RVE AND abi_mask = EF_RISCV_RVE"
    "EF_RISCV_RVC AND any_mask = EF_RISCV_RVC" "EF_RISCV_TSO AND any_mask = EF_RISCV_TSO"
    by (simp_all add: flag_defs)
  ultimately show ?thesis using collected_bits by simp
qed

text \<open>A file without an attribute section.\<close>

definition plain0 :: elf_bfd where
  "plain0 = file0\<lparr>b_attr_section := False\<rparr>"

lemma merged_flags_correct_witness:
  "\<exists>st. link_reach 64 [plain0] st \<and> b_e_flags (ld_out st) AND EF_RISCV_FLOAT_ABI = 4 \<and>
     b_e_flags (ld_out st) AND EF_RISCV_RVC \<noteq> 0"
proof -
  let ?st = "link0\<lparr>ld_out := file0\<lparr>b_flags_init := True\<rparr>\<rparr>"
  have start: "link_reach 64 [] link0" by (rule link_start) (simp_all add: link0_def file0_def)
  have "bfd_riscv_elf_merge_private_bfd_data 64 plain0 link0 = Some (True, ?st)"
    by (simp add: bfd_riscv_elf_merge_private_bfd_data_def bfd_elf_merge_object_attributes_def
        merge_compatibility_def riscv_merge_attributes_def plain0_def file0_def link0_def no_attribute_def
        code_section_def merge_flags_def)
  from link_merge [OF start this] have reach: "link_reach 64 [plain0] ?st" .
  have "flags_count plain0" by (simp add: flags_count_def plain0_def file0_def code_section_def)
  from merged_flags_correct [OF reach _ this] this show ?thesis
    using reach by (intro exI [of _ ?st]) (auto simp: plain0_def file0_def EF_RISCV_FLOAT_ABI_def EF_RISCV_RVC_def)
qed

end
