(* ===== verification/Spec2Isabelle.thy ===== *)
theory Spec2Isabelle
  imports RV_Imm RV_Disasm RV_Roundtrip RV_Supports RV_Uleb RV_Relax RV_Entry RV_Merge_Laws
    RV_Attrs_Laws
begin

text \<open>
  A verification library for the RISC-V parts of GNU binutils, as this repository builds them for an
  assembler that runs in a web page.  The sources are under \<^verbatim>\<open>src/binutils/\<close>.

  \<^bold>\<open>The program.\<close>  The assembler (\<^verbatim>\<open>gas/config/tc-riscv.c\<close>), the disassembler (\<^verbatim>\<open>opcodes/riscv-dis.c\<close>), the
  linker back end (\<^verbatim>\<open>bfd/elfxx-riscv.c\<close>, \<^verbatim>\<open>bfd/elfnn-riscv.c\<close>) and the simulator (\<^verbatim>\<open>sim/riscv/sim-main.c\<close>) share
  the table of instructions (\<^verbatim>\<open>opcodes/riscv-opc.c\<close>) and the bit fields of the instruction words
  (\<^verbatim>\<open>include/opcode/riscv.h\<close>).  The ISA string (\<^verbatim>\<open>-march\<close>) is parsed into a sorted list of extensions, which
  decides the instructions the assembler accepts and the disassembler shows.  The assembler keeps code
  in fragments with fixups; branches are relaxed, constants expanded, and what cannot be resolved is
  left to the relocations the linker performs.

  \<^bold>\<open>The theories.\<close>

  \<^item> \<open>RV_Prelude\<close>: machine types, C shifts as \<open>shl\<close>/\<open>shr\<close>, the collection \<open>cbits\<close> with which equations of
    shift-and-mask expressions are decided bit by bit.
  \<^item> \<open>RV_Fields\<close>, \<open>RV_Imm\<close>: the \<^verbatim>\<open>EXTRACT_*\<close>, \<^verbatim>\<open>ENCODE_*\<close> and \<^verbatim>\<open>VALID_*\<close> macros of \<^verbatim>\<open>riscv.h\<close>.  The locales
    \<open>imm_format\<close>, \<open>signed_imm\<close> and \<open>unsigned_imm\<close> state the contract of an immediate format; every format is
    an interpretation.  The ranges the macros accept, the split of a value into high and low part.
  \<^item> \<open>RV_Opcode\<close>, \<open>RV_Optab_1\<close> to \<open>RV_Optab_5\<close>, \<open>RV_Optab\<close>: every row of \<^verbatim>\<open>riscv_opcodes\<close> and
    \<^verbatim>\<open>riscv_insn_types\<close> and the match functions, the \<^verbatim>\<open>MATCH_*\<close> and \<^verbatim>\<open>MASK_*\<close> macros as numbers.
  \<^item> \<open>RV_Validate\<close>, \<open>RV_Args\<close>, \<open>RV_Index\<close>, \<open>RV_Distinct\<close>: \<^verbatim>\<open>validate_riscv_insn\<close> and \<^verbatim>\<open>init_opcode_hash\<close>; the index
    over the whole table is built without a fatal error.
  \<^item> \<open>RV_Disasm\<close>: the hash table and the search of \<^verbatim>\<open>riscv_disassemble_insn\<close>, equal to a scan of the table.
  \<^item> \<open>RV_Regs\<close>, \<open>RV_Regs_Laws\<close>, \<open>RV_Vtype\<close>: register, CSR and operand names on the side of the assembler
    (\<^verbatim>\<open>reg_lookup\<close>, \<^verbatim>\<open>arg_lookup\<close>, \<^verbatim>\<open>my_getVsetvliExpression\<close>) and of the disassembler, with every
    \<^verbatim>\<open>DECLARE_CSR\<close> line of \<^verbatim>\<open>include/opcode/riscv-opc.h\<close>; what one prints the other reads.  The locale
    \<open>name_table\<close> is the contract of an operand table, interpreted for the eight tables.
  \<^item> \<open>RV_Print\<close>, \<open>RV_Print_Laws\<close>: \<^verbatim>\<open>print_insn_args\<close> with every operand letter and the rest of
    \<^verbatim>\<open>riscv_disassemble_insn\<close>; entries found are printed completely, address comments and the fallback
    directive say the truth, with the exceptions stated.
  \<^item> \<open>RV_Map\<close>, \<open>RV_Map_Laws\<close>, \<open>RV_Entry\<close>: the entry point \<^verbatim>\<open>print_insn_riscv\<close> with the options, the dump of
    data and the search for mapping symbols, whose static variables are a record.  The reachable
    states of the search are an inductive predicate; on a dump that goes forwards the search
    refines a definition without state, and every call of the entry point makes progress.
  \<^item> \<open>RV_Subset\<close>, \<open>RV_Slist\<close>: the canonical order and the sorted linked list of extensions, a refinement of
    a finite map.
  \<^item> \<open>RV_Isa_Tables\<close>, \<open>RV_Isa\<close>, \<open>RV_Implicit\<close>, \<open>RV_Parse\<close>, \<open>RV_Supports\<close>: the tables of extensions, the parser and
    updater with every error branch, the closure under implied extensions, the class tests.
  \<^item> \<open>RV_Arch\<close>, \<open>RV_Roundtrip\<close>: the printer of ISA strings, its buffer, and the round trip with the parser.
  \<^item> \<open>RV_Sim\<close>, \<open>RV_Sim_Laws\<close>: the simulator in its 64-bit build: \<^verbatim>\<open>step_once\<close> and the I, M and A instructions.
    Memory, system calls and the width of the machine are fields of a record \<open>sim_host\<close>, since they belong
    to the common simulator code.
  \<^item> \<open>RV_Const\<close>: \<^verbatim>\<open>load_const\<close>, the expansion of \<^verbatim>\<open>li\<close>; executing the emitted words loads the constant.
  \<^item> \<open>RV_Branch\<close>: branch fragments, \<^verbatim>\<open>relaxed_branch_length\<close>, \<^verbatim>\<open>riscv_relax_frag\<close>, \<^verbatim>\<open>md_convert_frag\<close>.
  \<^item> \<open>RV_Reloc\<close>: the relocation table, its look-up and its special functions.
  \<^item> \<open>RV_Link\<close>, \<open>RV_Uleb\<close>: \<^verbatim>\<open>perform_relocation\<close>; the locale \<open>pcrel_reloc\<close> states the contract of a checked
    PC-relative relocation and is interpreted for the four of them.
  \<^item> \<open>RV_Merge\<close>, \<open>RV_Merge_Laws\<close>: merging the ISA strings of two object files, a union of maps of versions.
  \<^item> \<open>RV_Attrs\<close>, \<open>RV_Attrs_Laws\<close>: \<^verbatim>\<open>riscv_merge_attributes\<close> with the functions of \<^verbatim>\<open>bfd/elf-attrs.c\<close> it calls, and
    \<^verbatim>\<open>_bfd_riscv_elf_merge_private_bfd_data\<close>; the flags of the output over every sequence of merges.
  \<^item> \<open>RV_Fix\<close>, \<open>RV_Relax\<close>: \<^verbatim>\<open>md_apply_fix\<close>, and the way of a branch through relaxation, conversion and
    fixup.

  \<^bold>\<open>Conventions.\<close>  C structures are records, enumerations are datatypes, pointers into an array are
  indices.  Unsigned 64-bit values are words, and their arithmetic wraps; signed values that may
  overflow are integers with the overflow written out.  A failed assertion, an \<^verbatim>\<open>abort\<close>, an access
  outside an array or through a null pointer and a signed overflow are the value \<open>None\<close> or an error of a
  sum type; messages are values collected in the state.

  \<^bold>\<open>Bounds and fuel.\<close>  Loops are total functions, with a measure where the recursion is not structural.  The
  loop that adds the implied extensions is the one loop without an evident measure: it is a
  \<^verbatim>\<open>partial_function\<close> into \<open>option\<close>, and \<open>RV_Implicit\<close> proves that it always returns.

  \<^bold>\<open>The properties\<close> are numbered; each stands in the theory of its component, and the one on the
  composition of the disassembler with the extension list stands below.  Where the code has a defect,
  the property states exactly the inputs that are affected.

  \<^bold>\<open>Not modelled.\<close>  Operand parsing (\<^verbatim>\<open>riscv_ip\<close>), directives and the remaining macros of the assembler; the
  help texts of the disassembler; the relaxation passes, the GOT and
  PLT of the linker; floating point, which the simulator does not
  execute.  Target-independent code (object files, linker scripts, expressions, symbol tables) enters
  only through the values the modelled functions read.  Big-endian data and the code for other
  processors are left out.
\<close>

section \<open>The extension list decides what is disassembled\<close>

text \<open>
  C11. The disassembler shows only instructions of the extensions it was given: with the feature test
  of \<open>riscv_multi_subset_supports\<close> over a list in order, an entry found has a class the abstract set of
  extensions supports and fits the register width.
\<close>

theorem dis_search_supported:
  assumes "rps_ok rps"
    and "riscv_search_insn no_aliases xlen (\<lambda>c. snd (riscv_multi_subset_supports rps c)) word = Inr (Some op)"
  shows "class_supported (\<lambda>f. f \<in> dom (versions (rps_subset_list rps))) (op_insn_class op) \<and>
         op_insn_class op \<noteq> INSN_CLASS_NONE \<and> op_xlen_requirement op \<in> {0, xlen}"
proof -
  have "selects no_aliases xlen (\<lambda>c. snd (riscv_multi_subset_supports rps c)) op word"
    using assms(2) find_SomeD unfolding riscv_search_insn_find sum.inject by fast
  then have "snd (riscv_multi_subset_supports rps (op_insn_class op))" "op_xlen_requirement op \<in> {0, xlen}"
    by (simp_all only: selects_def)
  then show ?thesis
    by (cases "op_insn_class op = INSN_CLASS_NONE")
      (simp_all add: riscv_multi_subset_supports_def class_supported_dom [OF assms(1)])
qed

lemma dis_search_supported_witness:
  "\<exists>rps op. riscv_search_insn False 32 (\<lambda>c. snd (riscv_multi_subset_supports rps c)) 0x6013 = Inr (Some op) \<and>
     op_name op = ''prefetch.i'' \<and>
     class_supported (\<lambda>f. f \<in> dom (versions (rps_subset_list rps))) (op_insn_class op)"
proof -
  obtain rps where rps: "rps_ok rps" "rps_versions rps = [''zicbop'' \<mapsto> (1, 0)]"
    using sl.add_content [of empty_slist "''zicbop''" 1 0]
    by (auto simp: rps_ok_def wf_ext_eval intro: that [of "\<lparr>rps_subset_list = _, rps_errors = [], rps_xlen = 32,
      rps_isa_spec = None, rps_check_unknown_prefixed_ext = True\<rparr>"])
  define op where "op = opc ''prefetch.i'' 0 INSN_CLASS_ZICBOP ''Wif(s)'' 0x6013 0x1f07fff MF_match_opcode 0"
  have tab: "riscv_opcodes = op # tl riscv_opcodes"
    by (simp only: riscv_opcodes_def riscv_opcodes_1_def append_Cons list.sel op_def)
  have "snd (riscv_multi_subset_supports rps INSN_CLASS_ZICBOP)"
    by (simp add: riscv_multi_subset_supports_def class_supported_dom [OF rps(1)])
      (simp add: class_supported_def rps(2))
  then have "selects False 32 (\<lambda>c. snd (riscv_multi_subset_supports rps c)) op 0x6013"
    by (simp add: selects_def op_def match_opcode_def)
  then have found: "riscv_search_insn False 32 (\<lambda>c. snd (riscv_multi_subset_supports rps c)) 0x6013 = Inr (Some op)"
    unfolding riscv_search_insn_find by (subst tab) simp
  show ?thesis
    using found dis_search_supported [OF rps(1) found] by (intro exI [of _ rps] exI [of _ op]) (simp add: op_def)
qed

end
